(* ===== verification/Prelude.thy ===== *)
theory Prelude
  imports Complex_Main "HOL-Library.Multiset" "HOL-Library.Sublist" "HOL-Library.Code_Target_Nat"
begin

text \<open>
  Shared vocabulary of the development: generic list lemmas, the two notions of loop the
  program uses again and again (a scan that keeps the first element of every key, and a
  state machine that is fed a list of events), the stable sort of Go's
  \<open>sort.SliceStable\<close>, and 64-bit integers with their wrap-around written out.

  The interfaces are locales: \<open>first_wins\<close> is the contract of a de-duplicating loop,
  \<open>event_machine\<close> that of an event handler with an invariant, \<open>weak_less\<close> that of a
  comparison function given to a sort. The components interpret them on their own
  definitions.
\<close>

named_theorems frame_simps \<open>what an operation leaves unchanged\<close>
named_theorems inv_intros \<open>preservation of a component invariant\<close>

section \<open>Machine integers\<close>

text \<open>Go's \<open>int64\<close>: values are integers, \<open>i64\<close> is the wrap-around after an operation.\<close>

definition i64 :: "int \<Rightarrow> int" where
  "i64 x = (x + 2 ^ 63) mod 2 ^ 64 - 2 ^ 63"

definition in_i64 :: "int \<Rightarrow> bool" where
  "in_i64 x \<longleftrightarrow> - (2 ^ 63) \<le> x \<and> x < 2 ^ 63"

lemma in_i64_i64: "in_i64 (i64 x)"
proof -
  have "0 \<le> (x + 2 ^ 63) mod 2 ^ 64" and "(x + 2 ^ 63) mod 2 ^ 64 < (2::int) ^ 64"
    by simp_all
  then show ?thesis by (simp add: in_i64_def i64_def)
qed

lemma i64_id: "in_i64 x \<Longrightarrow> i64 x = x"
  by (simp add: in_i64_def i64_def)

lemma i64_range: "- (2 ^ 63) \<le> i64 x" "i64 x < 2 ^ 63"
  using in_i64_i64 [of x] by (simp_all add: in_i64_def)

section \<open>Lists\<close>

lemma list_all_update: "list_all P xs \<Longrightarrow> P y \<Longrightarrow> list_all P (xs[i := y])"
  by (auto simp: list_all_iff dest: set_update_subset_insert [THEN subsetD])

lemma sum_list_nonneg_int: "(\<And>x. x \<in> set xs \<Longrightarrow> (0::int) \<le> f x) \<Longrightarrow> 0 \<le> sum_list (map f xs)"
  by (induction xs) auto

lemma sum_list_map_update:
  fixes f :: "'a \<Rightarrow> int"
  shows "i < length xs \<Longrightarrow> sum_list (map f (xs[i := y])) = sum_list (map f xs) - f (xs ! i) + f y"
  by (induction xs arbitrary: i) (auto split: nat.splits)

section \<open>Keep the first of every key\<close>

text \<open>
  Several loops of the program walk a list with a set of keys already seen and keep an
  element only when its key is new; elements without a key (\<open>None\<close>) are always kept.
  The contract says how such a loop treats the head of its input.
\<close>

fun keep_first :: "('a \<Rightarrow> 'k option) \<Rightarrow> 'k set \<Rightarrow> 'a list \<Rightarrow> 'a list" where
  "keep_first key seen [] = []"
| "keep_first key seen (x # xs) =
     (case key x of
        None \<Rightarrow> x # keep_first key seen xs
      | Some k \<Rightarrow> if k \<in> seen then keep_first key seen xs
                  else x # keep_first key (insert k seen) xs)"

locale first_wins =
  fixes key :: "'a \<Rightarrow> 'k option"
    and scan :: "'k list \<Rightarrow> 'a list \<Rightarrow> 'a list"
  assumes scan_Nil: "scan seen [] = []"
    and scan_unkeyed: "key x = None \<Longrightarrow> scan seen (x # xs) = x # scan seen xs"
    and scan_known: "key x = Some k \<Longrightarrow> k \<in> set seen \<Longrightarrow> scan seen (x # xs) = scan seen xs"
    and scan_new: "key x = Some k \<Longrightarrow> k \<notin> set seen \<Longrightarrow> scan seen (x # xs) = x # scan (k # seen) xs"
begin

lemma scan_eq: "scan seen xs = keep_first key (set seen) xs"
  by (induction xs arbitrary: seen) (auto simp: scan_Nil scan_unkeyed scan_known scan_new split: option.splits)

lemma scan_subseq: "subseq (scan seen xs) xs"
proof (induction xs arbitrary: seen)
  case Nil
  then show ?case by (simp add: scan_Nil)
next
  case (Cons x xs)
  show ?case
  proof (cases "key x")
    case None
    then show ?thesis by (simp add: scan_unkeyed Cons.IH)
  next
    case (Some k)
    then show ?thesis
      by (cases "k \<in> set seen") (auto simp: scan_known scan_new Cons.IH)
  qed
qed

lemma scan_subset: "set (scan seen xs) \<subseteq> set xs"
  using scan_subseq [of seen xs] by (auto dest: list_emb_set)

lemma scan_fresh: "x \<in> set (scan seen xs) \<Longrightarrow> key x = Some k \<Longrightarrow> k \<notin> set seen"
proof (induction xs arbitrary: seen)
  case Nil
  then show ?case by (simp add: scan_Nil)
next
  case (Cons y ys)
  show ?case
  proof (cases "key y")
    case None
    with Cons show ?thesis by (auto simp: scan_unkeyed)
  next
    case (Some l)
    show ?thesis
    proof (cases "l \<in> set seen")
      case True
      with Some Cons show ?thesis by (auto simp: scan_known)
    next
      case False
      with Some Cons.prems have "x = y \<or> x \<in> set (scan (l # seen) ys)"
        by (simp add: scan_new)
      then show ?thesis
        using False Some Cons.prems(2) Cons.IH [of "l # seen"] by auto
    qed
  qed
qed

lemma scan_distinct: "distinct (map key (filter (\<lambda>x. key x \<noteq> None) (scan seen xs)))"
proof (induction xs arbitrary: seen)
  case Nil
  then show ?case by (simp add: scan_Nil)
next
  case (Cons y ys)
  show ?case
  proof (cases "key y")
    case None
    with Cons show ?thesis by (simp add: scan_unkeyed)
  next
    case (Some l)
    show ?thesis
    proof (cases "l \<in> set seen")
      case True
      with Some Cons show ?thesis by (simp add: scan_known)
    next
      case False
      have "Some l \<notin> key ` set (scan (l # seen) ys)"
      proof
        assume "Some l \<in> key ` set (scan (l # seen) ys)"
        then obtain x where "x \<in> set (scan (l # seen) ys)" and "key x = Some l"
          by auto
        then show False using scan_fresh [of x "l # seen" ys l] by simp
      qed
      with Some False Cons show ?thesis by (auto simp: scan_new)
    qed
  qed
qed

lemma scan_covers: "x \<in> set xs \<Longrightarrow> key x = Some k \<Longrightarrow> k \<in> set seen \<or> Some k \<in> key ` set (scan seen xs)"
proof (induction xs arbitrary: seen)
  case Nil
  then show ?case by simp
next
  case (Cons y ys)
  show ?case
  proof (cases "key y")
    case None
    with Cons show ?thesis by (auto simp: scan_unkeyed)
  next
    case (Some l)
    show ?thesis
    proof (cases "l \<in> set seen")
      case True
      with Some Cons show ?thesis by (auto simp: scan_known)
    next
      case False
      with Some Cons.prems show ?thesis
        using Cons.IH [of "l # seen"] by (fastforce simp: scan_new)
    qed
  qed
qed

lemma scan_unkeyed_kept: "filter (\<lambda>x. key x = None) (scan seen xs) = filter (\<lambda>x. key x = None) xs"
proof (induction xs arbitrary: seen)
  case Nil
  then show ?case by (simp add: scan_Nil)
next
  case (Cons y ys)
  show ?case
  proof (cases "key y")
    case None
    with Cons show ?thesis by (simp add: scan_unkeyed)
  next
    case (Some l)
    with Cons show ?thesis by (cases "l \<in> set seen") (simp_all add: scan_known scan_new)
  qed
qed

end

section \<open>Event machines\<close>

text \<open>
  A component that is driven by events: \<open>step\<close> takes the state and an event to the next
  state and the outputs it hands to its caller. The contract is an invariant the steps
  keep, under a guard that says which events the environment may send.
\<close>

fun run_events :: "('s \<Rightarrow> 'e \<Rightarrow> 's \<times> 'o list) \<Rightarrow> 's \<Rightarrow> 'e list \<Rightarrow> 's \<times> 'o list" where
  "run_events step s [] = (s, [])"
| "run_events step s (e # es) =
     (case step s e of (s', out) \<Rightarrow> case run_events step s' es of (s'', out') \<Rightarrow> (s'', out @ out'))"

locale event_machine =
  fixes step :: "'s \<Rightarrow> 'e \<Rightarrow> 's \<times> 'o list"
    and inv :: "'s \<Rightarrow> bool"
  assumes step_inv: "inv s \<Longrightarrow> inv (fst (step s e))"
begin

lemma run_inv: "inv s \<Longrightarrow> inv (fst (run_events step s es))"
proof (induction es arbitrary: s)
  case Nil
  then show ?case by simp
next
  case (Cons e es)
  have "inv (fst (step s e))" using Cons.prems by (rule step_inv)
  then have "inv (fst (run_events step (fst (step s e)) es))" by (rule Cons.IH)
  then show ?case by (simp add: case_prod_beta)
qed

lemma run_append:
  "run_events step s (es @ fs) =
     (case run_events step s es of (s', out) \<Rightarrow>
       case run_events step s' fs of (s'', out') \<Rightarrow> (s'', out @ out'))"
  by (induction es arbitrary: s) (auto split: prod.splits)

end

text \<open>
  A machine whose outputs claim slots: a slot is claimed at most once, because a claimed slot
  stays claimed and an output is only produced for a slot that was free.
\<close>

locale once_machine = event_machine step inv
  for step :: "'s \<Rightarrow> 'e \<Rightarrow> 's \<times> 'o list" and inv :: "'s \<Rightarrow> bool" +
  fixes slot :: "'o \<Rightarrow> 'k"
    and claimed :: "'s \<Rightarrow> 'k \<Rightarrow> bool"
  assumes claimed_mono: "inv s \<Longrightarrow> claimed s k \<Longrightarrow> claimed (fst (step s e)) k"
    and output_free: "inv s \<Longrightarrow> out \<in> set (snd (step s e)) \<Longrightarrow> \<not> claimed s (slot out)"
    and output_claims: "inv s \<Longrightarrow> out \<in> set (snd (step s e)) \<Longrightarrow> claimed (fst (step s e)) (slot out)"
    and output_distinct: "inv s \<Longrightarrow> distinct (map slot (snd (step s e)))"
begin

lemma run_output_free: "inv s \<Longrightarrow> out \<in> set (snd (run_events step s es)) \<Longrightarrow> \<not> claimed s (slot out)"
proof (induction es arbitrary: s)
  case Nil
  then show ?case by simp
next
  case (Cons e es)
  show ?case
  proof (cases "out \<in> set (snd (step s e))")
    case True
    with Cons.prems(1) show ?thesis by (rule output_free)
  next
    case False
    with Cons.prems(2) have "out \<in> set (snd (run_events step (fst (step s e)) es))"
      by (simp add: case_prod_beta)
    then have "\<not> claimed (fst (step s e)) (slot out)"
      using Cons.IH step_inv [OF Cons.prems(1)] by blast
    then show ?thesis using claimed_mono [OF Cons.prems(1)] by blast
  qed
qed

lemma run_output_once: "inv s \<Longrightarrow> distinct (map slot (snd (run_events step s es)))"
proof (induction es arbitrary: s)
  case Nil
  then show ?case by simp
next
  case (Cons e es)
  let ?s = "fst (step s e)"
  have "slot out \<noteq> slot out'"
    if "out \<in> set (snd (step s e))" "out' \<in> set (snd (run_events step ?s es))" for out out'
    using output_claims [OF Cons.prems that(1)] run_output_free [OF step_inv [OF Cons.prems] that(2)] by metis
  then have "slot ` set (snd (step s e)) \<inter> slot ` set (snd (run_events step ?s es)) = {}" by fast
  then show ?case
    using output_distinct [OF Cons.prems] Cons.IH [OF step_inv [OF Cons.prems]]
    by (simp add: case_prod_beta)
qed

end

section \<open>Stable sorting\<close>

text \<open>
  \<open>sort.SliceStable(xs, less)\<close>: insertion from the right, moving an element only past
  elements that are strictly less. On a strict weak order the result of any stable sort is
  this one (\<open>weak_less\<close> below gives its laws).
\<close>

fun insert_stable :: "('a \<Rightarrow> 'a \<Rightarrow> bool) \<Rightarrow> 'a \<Rightarrow> 'a list \<Rightarrow> 'a list" where
  "insert_stable lt x [] = [x]"
| "insert_stable lt x (y # ys) =
     (if lt y x then y # insert_stable lt x ys else x # y # ys)"

definition sort_stable :: "('a \<Rightarrow> 'a \<Rightarrow> bool) \<Rightarrow> 'a list \<Rightarrow> 'a list" where
  "sort_stable lt xs = foldr (insert_stable lt) xs []"

lemma sort_stable_simps [simp]:
  "sort_stable lt [] = []"
  "sort_stable lt (x # xs) = insert_stable lt x (sort_stable lt xs)"
  by (simp_all add: sort_stable_def)

lemma mset_insert_stable [simp]: "mset (insert_stable lt x xs) = add_mset x (mset xs)"
  by (induction xs) auto

lemma mset_sort_stable [simp]: "mset (sort_stable lt xs) = mset xs"
  by (induction xs) auto

lemma set_insert_stable [simp]: "set (insert_stable lt x xs) = insert x (set xs)"
  by (metis mset_insert_stable set_mset_add_mset_insert set_mset_mset)

lemma set_sort_stable [simp]: "set (sort_stable lt xs) = set xs"
  by (metis mset_sort_stable set_mset_mset)

lemma length_sort_stable [simp]: "length (sort_stable lt xs) = length xs"
  by (metis mset_sort_stable size_mset)

lemma insert_stable_front: "(\<And>y. y \<in> set ys \<Longrightarrow> \<not> lt y x) \<Longrightarrow> insert_stable lt x ys = x # ys"
  by (cases ys) auto

lemma sort_stable_id: "sorted_wrt (\<lambda>x y. \<not> lt y x) xs \<Longrightarrow> sort_stable lt xs = xs"
  by (induction xs) (auto intro: insert_stable_front)

text \<open>A strict weak order: what a comparison function has to be for a sort to be defined.\<close>

locale weak_less =
  fixes lt :: "'a \<Rightarrow> 'a \<Rightarrow> bool"
  assumes irrefl: "\<not> lt x x"
    and trans: "lt x y \<Longrightarrow> lt y z \<Longrightarrow> lt x z"
    and incomparable_trans: "\<not> lt x y \<Longrightarrow> \<not> lt y z \<Longrightarrow> \<not> lt x z"
begin

lemma asym: "lt x y \<Longrightarrow> \<not> lt y x"
  using irrefl trans by blast

lemma sorted_insert_stable:
  "sorted_wrt (\<lambda>x y. \<not> lt y x) ys \<Longrightarrow> sorted_wrt (\<lambda>x y. \<not> lt y x) (insert_stable lt x ys)"
proof (induction ys)
  case Nil
  then show ?case by simp
next
  case (Cons y ys)
  show ?case
  proof (cases "lt y x")
    case True
    with Cons show ?thesis by (auto dest: asym)
  next
    case False
    with Cons show ?thesis by (auto dest: incomparable_trans)
  qed
qed

lemma sorted_sort_stable: "sorted_wrt (\<lambda>x y. \<not> lt y x) (sort_stable lt xs)"
  by (induction xs) (auto intro: sorted_insert_stable)

lemma filter_insert_stable:
  "(\<And>y. y \<in> set ys \<Longrightarrow> P y \<Longrightarrow> P x \<Longrightarrow> \<not> lt y x) \<Longrightarrow>
   filter P (insert_stable lt x ys) = filter P (x # ys)"
  by (induction ys) auto

text \<open>Stability: elements the order does not distinguish keep their relative order.\<close>

lemma stable_sort_stable:
  assumes "\<And>x y. P x \<Longrightarrow> P y \<Longrightarrow> \<not> lt x y"
  shows "filter P (sort_stable lt xs) = filter P xs"
  using assms by (induction xs) (simp_all add: filter_insert_stable)

end

end
