(* ===== verification/Go_Text.thy ===== *)
theory Go_Text
  imports Prelude
begin

text \<open>
  Go's strings and the parts of \<open>strings\<close>, \<open>strconv\<close> and \<open>encoding/json\<close> that the
  program uses. A string is a list of bytes (\<open>char list\<close>), so \<open>length\<close> is Go's
  \<open>len\<close>. Splitting, searching, trimming of ASCII space, joining and number printing
  are exact. Letter case and letter classification are those of 7-bit ASCII: a byte of 128
  or more has no case and is not a letter, a digit or a space.
\<close>

section \<open>Bytes\<close>

abbreviation byte :: "char \<Rightarrow> nat" where
  "byte \<equiv> of_char"

definition is_digit :: "char \<Rightarrow> bool" where
  "is_digit c \<longleftrightarrow> 48 \<le> byte c \<and> byte c \<le> 57"

definition is_lower :: "char \<Rightarrow> bool" where
  "is_lower c \<longleftrightarrow> 97 \<le> byte c \<and> byte c \<le> 122"

definition is_upper :: "char \<Rightarrow> bool" where
  "is_upper c \<longleftrightarrow> 65 \<le> byte c \<and> byte c \<le> 90"

definition is_letter :: "char \<Rightarrow> bool" where
  "is_letter c \<longleftrightarrow> is_lower c \<or> is_upper c"

definition is_space :: "char \<Rightarrow> bool" where
  "is_space c \<longleftrightarrow> byte c = 32 \<or> (9 \<le> byte c \<and> byte c \<le> 13)"

text \<open>\<open>unicode.IsControl\<close> on ASCII.\<close>

definition is_control :: "char \<Rightarrow> bool" where
  "is_control c \<longleftrightarrow> byte c < 32 \<or> byte c = 127"

definition lower :: "char \<Rightarrow> char" where
  "lower c = (if is_upper c then char_of (byte c + 32) else c)"

definition upper :: "char \<Rightarrow> char" where
  "upper c = (if is_lower c then char_of (byte c - 32) else c)"

lemma byte_lower: "byte (lower c) = (if is_upper c then byte c + 32 else byte c)"
  by (auto simp: lower_def is_upper_def)

lemma lower_lower [simp]: "lower (lower c) = lower c"
  by (simp add: lower_def is_upper_def)

lemma not_upper_lower [simp]: "\<not> is_upper (lower c)"
  by (simp add: is_upper_def byte_lower)

lemma is_space_lower [simp]: "is_space (lower c) = is_space c"
  by (auto simp: is_space_def byte_lower is_upper_def)

section \<open>Whole strings\<close>

definition to_lower :: "string \<Rightarrow> string" where
  "to_lower s = map lower s"

definition to_upper :: "string \<Rightarrow> string" where
  "to_upper s = map upper s"

lemma to_lower_idem [simp]: "to_lower (to_lower s) = to_lower s"
  by (simp add: to_lower_def)

lemma length_to_lower [simp]: "length (to_lower s) = length s"
  by (simp add: to_lower_def)

text \<open>\<open>strings.EqualFold\<close>.\<close>

definition equal_fold :: "string \<Rightarrow> string \<Rightarrow> bool" where
  "equal_fold s t \<longleftrightarrow> to_lower s = to_lower t"

lemma equal_fold_refl [simp]: "equal_fold s s"
  by (simp add: equal_fold_def)

definition trim_left :: "string \<Rightarrow> string" where
  "trim_left s = dropWhile is_space s"

definition trim_right :: "string \<Rightarrow> string" where
  "trim_right s = rev (dropWhile is_space (rev s))"

text \<open>\<open>strings.TrimSpace\<close>.\<close>

definition trim_space :: "string \<Rightarrow> string" where
  "trim_space s = trim_right (trim_left s)"

lemma trim_right_prefix: "trim_right m \<noteq> [] \<Longrightarrow> m \<noteq> [] \<and> hd m = hd (trim_right m)"
proof -
  assume ne: "trim_right m \<noteq> []"
  have m: "m = trim_right m @ rev (takeWhile is_space (rev m))"
    unfolding trim_right_def by (metis rev_append rev_rev_ident takeWhile_dropWhile_id)
  then show ?thesis using ne by (metis append_is_Nil_conv hd_append)
qed

lemma trim_space_idem [simp]: "trim_space (trim_space s) = trim_space s"
proof -
  let ?m = "trim_left s"
  have "trim_left (trim_right ?m) = trim_right ?m"
  proof (cases "trim_right ?m = []")
    case False
    then have "?m \<noteq> []" "hd (trim_right ?m) = hd ?m"
      using trim_right_prefix by auto
    then have "\<not> is_space (hd (trim_right ?m))"
      unfolding trim_left_def by (metis hd_dropWhile)
    then show ?thesis
      by (simp add: trim_left_def dropWhile_eq_self_iff)
  qed (simp add: trim_left_def)
  then show ?thesis
    by (simp add: trim_space_def trim_right_def)
qed

definition has_prefix :: "string \<Rightarrow> string \<Rightarrow> bool" where
  "has_prefix s p \<longleftrightarrow> take (length p) s = p"

definition has_suffix :: "string \<Rightarrow> string \<Rightarrow> bool" where
  "has_suffix s p \<longleftrightarrow> length p \<le> length s \<and> drop (length s - length p) s = p"

definition trim_prefix :: "string \<Rightarrow> string \<Rightarrow> string" where
  "trim_prefix s p = (if has_prefix s p then drop (length p) s else s)"

definition trim_suffix :: "string \<Rightarrow> string \<Rightarrow> string" where
  "trim_suffix s p = (if has_suffix s p then take (length s - length p) s else s)"

text \<open>\<open>strings.Contains\<close>.\<close>

fun contains :: "string \<Rightarrow> string \<Rightarrow> bool" where
  "contains [] p = (p = [])"
| "contains (c # s) p = (has_prefix (c # s) p \<or> contains s p)"

text \<open>\<open>strings.Count(s, sep)\<close> for a separator of one byte, and \<open>strings.Split\<close>.\<close>

definition count_byte :: "string \<Rightarrow> char \<Rightarrow> nat" where
  "count_byte s c = count_list s c"

fun split_byte :: "char \<Rightarrow> string \<Rightarrow> string list" where
  "split_byte c [] = [[]]"
| "split_byte c (x # xs) =
     (if x = c then [] # split_byte c xs
      else (case split_byte c xs of [] \<Rightarrow> [[x]] | p # ps \<Rightarrow> (x # p) # ps))"

lemma split_byte_nonempty [simp]: "split_byte c s \<noteq> []"
  by (induction s) (auto split: list.splits)

lemma length_split_byte: "length (split_byte c s) = count_byte s c + 1"
  by (induction s) (auto simp: count_byte_def split: list.splits)

text \<open>\<open>strings.Cut\<close> at the first separator.\<close>

fun cut_byte :: "char \<Rightarrow> string \<Rightarrow> string \<times> string \<times> bool" where
  "cut_byte c [] = ([], [], False)"
| "cut_byte c (x # xs) =
     (if x = c then ([], xs, True)
      else case cut_byte c xs of (a, b, found) \<Rightarrow> (x # a, b, found))"

text \<open>\<open>strings.Fields\<close>: the maximal runs of non-space bytes.\<close>

fun text_fields_from :: "string \<Rightarrow> string \<Rightarrow> string list" where
  "text_fields_from acc [] = (if acc = [] then [] else [rev acc])"
| "text_fields_from acc (x # xs) =
     (if is_space x then (if acc = [] then text_fields_from [] xs else rev acc # text_fields_from [] xs)
      else text_fields_from (x # acc) xs)"

definition text_fields :: "string \<Rightarrow> string list" where
  "text_fields s = text_fields_from [] s"

definition is_word :: "string \<Rightarrow> bool" where
  "is_word f \<longleftrightarrow> f \<noteq> [] \<and> (\<forall>c\<in>set f. \<not> is_space c)"

lemma text_fields_from_word:
  "(\<forall>c\<in>set acc. \<not> is_space c) \<Longrightarrow> list_all is_word (text_fields_from acc s)"
proof (induction s arbitrary: acc)
  case Nil
  then show ?case by (simp add: is_word_def)
next
  case (Cons x xs)
  show ?case
  proof (cases "is_space x")
    case True
    with Cons.prems Cons.IH [of "[]"] show ?thesis by (simp add: is_word_def)
  next
    case False
    with Cons.prems Cons.IH [of "x # acc"] show ?thesis by simp
  qed
qed

lemma text_fields_words: "list_all is_word (text_fields s)"
  using text_fields_from_word [of "[]" s] by (simp add: text_fields_def)

text \<open>\<open>strings.Join\<close>.\<close>

fun join :: "string \<Rightarrow> string list \<Rightarrow> string" where
  "join sep [] = []"
| "join sep [x] = x"
| "join sep (x # y # ys) = x @ sep @ join sep (y # ys)"

lemma join_split_byte: "join [c] (split_byte c s) = s"
proof (induction s)
  case Nil
  then show ?case by simp
next
  case (Cons x xs)
  obtain p ps where "split_byte c xs = p # ps" by (cases "split_byte c xs") auto
  with Cons show ?case by (cases ps) auto
qed

text \<open>The order on strings (\<open>a < b\<close>): bytewise lexicographic.\<close>

fun string_less :: "string \<Rightarrow> string \<Rightarrow> bool" where
  "string_less [] [] = False"
| "string_less [] (y # ys) = True"
| "string_less (x # xs) [] = False"
| "string_less (x # xs) (y # ys) = (byte x < byte y \<or> (x = y \<and> string_less xs ys))"

lemma string_less_irrefl [simp]: "\<not> string_less s s"
  by (induction s) auto

lemma string_less_trans: "string_less s t \<Longrightarrow> string_less t u \<Longrightarrow> string_less s u"
proof (induction s u arbitrary: t rule: string_less.induct)
  case 1
  then show ?case by (cases t) auto
next
  case 3
  then show ?case by (cases t) auto
next
  case (4 x xs y ys)
  then show ?case by (cases t) auto
qed auto

lemma string_less_total: "s \<noteq> t \<Longrightarrow> string_less s t \<or> string_less t s"
proof (induction s t rule: string_less.induct)
  case (4 x xs y ys)
  then show ?case
    by (metis linorder_neqE_nat of_char_eq_iff string_less.simps(4))
qed auto

section \<open>Numbers in decimal\<close>

fun nat_digits :: "nat \<Rightarrow> string" where
  "nat_digits n =
     (if n < 10 then [char_of (48 + n)] else nat_digits (n div 10) @ [char_of (48 + n mod 10)])"

declare nat_digits.simps [simp del]

text \<open>\<open>strconv.FormatInt(n, 10)\<close>.\<close>

definition itoa :: "int \<Rightarrow> string" where
  "itoa n = (if n < 0 then ''-'' @ nat_digits (nat (- n)) else nat_digits (nat n))"

definition digit_value :: "char \<Rightarrow> nat" where
  "digit_value c = byte c - 48"

definition digits_value :: "string \<Rightarrow> nat" where
  "digits_value s = foldl (\<lambda>n c. 10 * n + digit_value c) 0 s"

text \<open>\<open>strconv.ParseInt(s, 10, 64)\<close>: an optional sign, decimal digits, and a range check.\<close>

definition parse_int64 :: "string \<Rightarrow> int option" where
  "parse_int64 s =
     (let (neg, ds) = (case s of [] \<Rightarrow> (False, [])
                       | c # cs \<Rightarrow> if c = CHR ''-'' then (True, cs)
                                   else if c = CHR ''+'' then (False, cs) else (False, c # cs));
          n = int (digits_value ds); v = (if neg then - n else n)
      in if ds = [] \<or> \<not> list_all is_digit ds then None
         else if in_i64 v then Some v else None)"

lemma nat_digits_digits: "list_all is_digit (nat_digits n)"
proof (induction n rule: nat_digits.induct)
  case (1 n)
  have "is_digit (char_of (48 + m))" if "m < 10" for m :: nat
    using that by (simp add: is_digit_def)
  with 1 show ?case by (subst nat_digits.simps) simp
qed

lemma nat_digits_nonempty [simp]: "nat_digits n \<noteq> []"
  by (subst nat_digits.simps) simp

lemma digits_value_snoc: "digits_value (s @ [c]) = 10 * digits_value s + digit_value c"
  by (simp add: digits_value_def)

lemma digits_value_nat_digits: "digits_value (nat_digits n) = n"
proof (induction n rule: nat_digits.induct)
  case (1 n)
  have d: "digit_value (char_of (48 + m)) = m" if "m < 10" for m :: nat
    using that by (simp add: digit_value_def)
  show ?case
  proof (cases "n < 10")
    case True
    then show ?thesis
      by (subst nat_digits.simps) (simp add: digits_value_def d)
  next
    case False
    with 1 show ?thesis
      by (subst nat_digits.simps) (simp add: digits_value_snoc d)
  qed
qed

lemma parse_int64_itoa: "in_i64 n \<Longrightarrow> parse_int64 (itoa n) = Some n"
proof -
  assume r: "in_i64 n"
  have hd_digit: "\<exists>c cs. nat_digits m = c # cs \<and> is_digit c" for m
    using nat_digits_digits [of m] nat_digits_nonempty [of m]
    by (cases "nat_digits m") auto
  show ?thesis
  proof (cases "n < 0")
    case True
    with r show ?thesis
      by (simp add: itoa_def parse_int64_def nat_digits_digits digits_value_nat_digits)
  next
    case False
    obtain c cs where c: "nat_digits (nat n) = c # cs" "is_digit c"
      using hd_digit by blast
    then have "c \<noteq> CHR ''-''" "c \<noteq> CHR ''+''"
      by (auto simp: is_digit_def)
    with c r False show ?thesis
      using nat_digits_digits [of "nat n"] digits_value_nat_digits [of "nat n"]
      by (simp add: itoa_def parse_int64_def)
  qed
qed

section \<open>Size of a JSON string\<close>

text \<open>
  The number of bytes \<open>json.Marshal\<close> writes for one byte of a string: two for the short
  escapes, six for the other control bytes and for \<open><\<close>, \<open>>\<close> and \<open>&\<close>, one otherwise.
\<close>

definition json_byte_len :: "char \<Rightarrow> nat" where
  "json_byte_len c =
     (if byte c \<in> {34, 92, 8, 9, 10, 12, 13} then 2
      else if byte c < 32 \<or> byte c \<in> {38, 60, 62} then 6 else 1)"

definition json_string_len :: "string \<Rightarrow> nat" where
  "json_string_len s = 2 + sum_list (map json_byte_len s)"

end
