(* ===== verification/Go_URL.thy ===== *)
theory Go_URL
  imports Go_Text
begin

text \<open>
  Go's \<open>net/url\<close>, \<open>unicode/utf8\<close> and \<open>encoding/base64\<close>, as far as the program calls
  them: \<open>url.Parse\<close> with its error cases, \<open>url.QueryUnescape\<close> and \<open>url.PathUnescape\<close>,
  \<open>utf8.Valid\<close>, and the standard base64 alphabet in both directions. A failing call is
  \<open>None\<close>.
\<close>

section \<open>Percent encoding\<close>

definition hex_value :: "char \<Rightarrow> nat option" where
  "hex_value c =
     (let n = byte c in
      if 48 \<le> n \<and> n \<le> 57 then Some (n - 48)
      else if 97 \<le> n \<and> n \<le> 102 then Some (n - 87)
      else if 65 \<le> n \<and> n \<le> 70 then Some (n - 55) else None)"

datatype escape_mode = EncodePath | EncodePathSegment | EncodeHost | EncodeZone
  | EncodeUserPassword | EncodeQueryComponent | EncodeFragment

text \<open>\<open>shouldEscape\<close> for the two host modes, the only ones \<open>unescape\<close> consults.\<close>

definition host_byte_ok :: "char \<Rightarrow> bool" where
  "host_byte_ok c \<longleftrightarrow>
     is_letter c \<or> is_digit c \<or> c \<in> set ''-_.~'' \<or> c \<in> set ''!$&()*+,;=:[]<>'' \<or> byte c \<in> {34, 39}"

fun unescape :: "escape_mode \<Rightarrow> string \<Rightarrow> string option" where
  "unescape m [] = Some []"
| "unescape m (c # s) =
     (if c = CHR ''%'' then
        (case s of
           h1 # h2 # rest \<Rightarrow>
             (case (hex_value h1, hex_value h2) of
                (Some a, Some b) \<Rightarrow>
                  if m = EncodeHost \<and> a < 8 \<and> \<not> (h1 = CHR ''2'' \<and> h2 = CHR ''5'') then None
                  else if m = EncodeZone \<and> \<not> (h1 = CHR ''2'' \<and> h2 = CHR ''5'')
                          \<and> 16 * a + b \<noteq> 32 \<and> \<not> host_byte_ok (char_of (16 * a + b)) then None
                  else map_option ((#) (char_of (16 * a + b))) (unescape m rest)
              | _ \<Rightarrow> None)
         | _ \<Rightarrow> None)
      else if c = CHR ''+'' \<and> m = EncodeQueryComponent then map_option ((#) CHR '' '') (unescape m s)
      else if (m = EncodeHost \<or> m = EncodeZone) \<and> byte c < 128 \<and> \<not> host_byte_ok c then None
      else map_option ((#) c) (unescape m s))"

definition query_unescape :: "string \<Rightarrow> string option" where
  "query_unescape = unescape EncodeQueryComponent"

definition path_unescape :: "string \<Rightarrow> string option" where
  "path_unescape = unescape EncodePathSegment"

section \<open>\<open>url.Parse\<close>\<close>

record go_url =
  u_scheme :: string
  u_opaque :: string
  u_userinfo :: "string option"
  u_host :: string
  u_path :: string
  u_raw_path :: string
  u_raw_query :: string
  u_fragment :: string
  u_raw_fragment :: string
  u_omit_host :: bool
  u_force_query :: bool

definition empty_url :: go_url where
  "empty_url = \<lparr>u_scheme = [], u_opaque = [], u_userinfo = None, u_host = [], u_path = [],
     u_raw_path = [], u_raw_query = [], u_fragment = [], u_raw_fragment = [],
     u_omit_host = False, u_force_query = False\<rparr>"

text \<open>\<open>getScheme\<close>: \<open>None\<close> is the error "missing protocol scheme".\<close>

fun scheme_from :: "nat \<Rightarrow> string \<Rightarrow> string \<Rightarrow> string \<Rightarrow> (string \<times> string) option" where
  "scheme_from i raw acc [] = Some ([], raw)"
| "scheme_from i raw acc (c # cs) =
     (if is_letter c then scheme_from (i + 1) raw (c # acc) cs
      else if is_digit c \<or> c \<in> set ''+-.'' then
        (if i = 0 then Some ([], raw) else scheme_from (i + 1) raw (c # acc) cs)
      else if c = CHR '':'' then (if i = 0 then None else Some (rev acc, cs))
      else Some ([], raw))"

definition get_scheme :: "string \<Rightarrow> (string \<times> string) option" where
  "get_scheme raw = scheme_from 0 raw [] raw"

definition valid_optional_port :: "string \<Rightarrow> bool" where
  "valid_optional_port p \<longleftrightarrow> (case p of [] \<Rightarrow> True | c # ds \<Rightarrow> c = CHR '':'' \<and> list_all is_digit ds)"

text \<open>Split at the last occurrence of a byte: what precedes it and what follows.\<close>

definition cut_last :: "char \<Rightarrow> string \<Rightarrow> (string \<times> string) option" where
  "cut_last c s =
     (case cut_byte c (rev s) of (after, before, found) \<Rightarrow>
        if found then Some (rev before, rev after) else None)"

text \<open>Position of the zone marker \<open>%25\<close>, as the text before it and the text from it on.\<close>

fun cut_zone :: "string \<Rightarrow> (string \<times> string) option" where
  "cut_zone [] = None"
| "cut_zone (c # s) =
     (if has_prefix (c # s) ''%25'' then Some ([], c # s)
      else map_option (\<lambda>(a, b). (c # a, b)) (cut_zone s))"

definition parse_host :: "string \<Rightarrow> string option" where
  "parse_host host =
     (if has_prefix host ''['' then
        (case cut_last CHR '']'' host of
           None \<Rightarrow> None
         | Some (inside, port) \<Rightarrow>
             if \<not> valid_optional_port port then None
             else (case cut_zone inside of
                     Some (h, z) \<Rightarrow>
                       (case (unescape EncodeHost h, unescape EncodeZone z, unescape EncodeHost (CHR '']'' # port)) of
                          (Some h1, Some h2, Some h3) \<Rightarrow> Some (h1 @ h2 @ h3)
                        | _ \<Rightarrow> None)
                   | None \<Rightarrow> unescape EncodeHost host))
      else
        (case cut_last CHR '':'' host of
           Some (_, port) \<Rightarrow>
             if valid_optional_port (CHR '':'' # port) then unescape EncodeHost host else None
         | None \<Rightarrow> unescape EncodeHost host))"

definition valid_userinfo :: "string \<Rightarrow> bool" where
  "valid_userinfo s \<longleftrightarrow>
     list_all (\<lambda>c. is_letter c \<or> is_digit c \<or> c \<in> set ''-._:~!$&()*+,;=%@'' \<or> byte c = 39) s"

definition parse_authority :: "string \<Rightarrow> (string option \<times> string) option" where
  "parse_authority authority =
     (case cut_last CHR ''@'' authority of
        None \<Rightarrow> map_option (\<lambda>h. (None, h)) (parse_host authority)
      | Some (userinfo, host) \<Rightarrow>
          (case parse_host host of
             None \<Rightarrow> None
           | Some h \<Rightarrow>
               if \<not> valid_userinfo userinfo then None
               else (case cut_byte CHR '':'' userinfo of (name, password, _) \<Rightarrow>
                       if unescape EncodeUserPassword name = None
                          \<or> unescape EncodeUserPassword password = None then None
                       else Some (Some userinfo, h))))"

text \<open>The part of \<open>parse\<close> after the scheme has been split off.\<close>

definition parse_rest :: "string \<Rightarrow> string \<Rightarrow> string \<Rightarrow> go_url option" where
  "parse_rest scheme query rest =
     (if \<not> has_prefix rest ''/'' \<and> scheme \<noteq> [] then
        Some (empty_url\<lparr>u_scheme := scheme, u_raw_query := query, u_opaque := rest\<rparr>)
      else if \<not> has_prefix rest ''/'' \<and> CHR '':'' \<in> set (fst (cut_byte CHR ''/'' rest)) then None
      else
        (let hierarchical = (scheme \<noteq> [] \<or> \<not> has_prefix rest ''///'') \<and> has_prefix rest ''//'';
             authority = takeWhile (\<lambda>c. c \<noteq> CHR ''/'') (drop 2 rest);
             path = (if hierarchical then dropWhile (\<lambda>c. c \<noteq> CHR ''/'') (drop 2 rest) else rest);
             auth = (if hierarchical then parse_authority authority else Some (None, []))
         in case (auth, unescape EncodePath path) of
              (Some (user, host), Some p) \<Rightarrow>
                Some (empty_url\<lparr>u_scheme := scheme, u_raw_query := query, u_userinfo := user,
                        u_host := host, u_path := p, u_raw_path := path,
                        u_omit_host := (\<not> hierarchical \<and> scheme \<noteq> [])\<rparr>)
            | _ \<Rightarrow> None))"

text \<open>
  \<open>url.Parse\<close>. The fields \<open>u_raw_path\<close> and \<open>u_raw_fragment\<close> always hold the text as written,
  where Go leaves \<open>RawPath\<close> and \<open>RawFragment\<close> empty for the default encoding.
\<close>

definition url_parse :: "string \<Rightarrow> go_url option" where
  "url_parse raw =
     (case cut_byte CHR ''#'' raw of (u, frag, _) \<Rightarrow>
        if list_ex is_control u then None
        else if u = ''*'' then
          map_option (\<lambda>f. empty_url\<lparr>u_path := ''*'', u_fragment := f, u_raw_fragment := frag\<rparr>)
            (unescape EncodeFragment frag)
        else
          (case get_scheme u of
             None \<Rightarrow> None
           | Some (scheme, rest) \<Rightarrow>
               let (rest', query, marked) = cut_byte CHR ''?'' rest
               in (case (parse_rest (to_lower scheme) query rest', unescape EncodeFragment frag) of
                     (Some parsed, Some f) \<Rightarrow>
                       Some (parsed\<lparr>u_fragment := f, u_raw_fragment := frag,
                               u_force_query := (marked \<and> query = [])\<rparr>)
                   | _ \<Rightarrow> None)))"

text \<open>\<open>URL.Hostname\<close>: the host without brackets and port.\<close>

definition url_hostname :: "go_url \<Rightarrow> string" where
  "url_hostname u =
     (let h = u_host u;
          bare = (case cut_last CHR '':'' h of
                    Some (before, port) \<Rightarrow> if list_all is_digit port then before else h
                  | None \<Rightarrow> h)
      in if has_prefix bare ''['' \<and> has_suffix bare '']'' then butlast (tl bare) else bare)"

definition url_port :: "go_url \<Rightarrow> string" where
  "url_port u =
     (case cut_last CHR '':'' (u_host u) of
        Some (before, port) \<Rightarrow> if list_all is_digit port then port else []
      | None \<Rightarrow> [])"

section \<open>UTF-8\<close>

definition continuation :: "nat \<Rightarrow> bool" where
  "continuation b \<longleftrightarrow> 128 \<le> b \<and> b \<le> 191"

text \<open>\<open>utf8.Valid\<close>: no overlong forms, no surrogates, nothing above U+10FFFF.\<close>

fun utf8_valid_nats :: "nat list \<Rightarrow> bool" where
  "utf8_valid_nats [] = True"
| "utf8_valid_nats (a # s) =
     (if a < 128 then utf8_valid_nats s
      else if 194 \<le> a \<and> a \<le> 223 then
        (case s of b # r \<Rightarrow> continuation b \<and> utf8_valid_nats r | _ \<Rightarrow> False)
      else if 224 \<le> a \<and> a \<le> 239 then
        (case s of b # c # r \<Rightarrow>
           continuation b \<and> continuation c \<and> (a = 224 \<longrightarrow> 160 \<le> b) \<and> (a = 237 \<longrightarrow> b \<le> 159) \<and> utf8_valid_nats r
         | _ \<Rightarrow> False)
      else if 240 \<le> a \<and> a \<le> 244 then
        (case s of b # c # d # r \<Rightarrow>
           continuation b \<and> continuation c \<and> continuation d \<and> (a = 240 \<longrightarrow> 144 \<le> b) \<and> (a = 244 \<longrightarrow> b \<le> 143)
             \<and> utf8_valid_nats r
         | _ \<Rightarrow> False)
      else False)"

definition utf8_valid :: "string \<Rightarrow> bool" where
  "utf8_valid s = utf8_valid_nats (map byte s)"

section \<open>Base64\<close>

definition base64_value :: "char \<Rightarrow> nat option" where
  "base64_value c =
     (let n = byte c in
      if 65 \<le> n \<and> n \<le> 90 then Some (n - 65)
      else if 97 \<le> n \<and> n \<le> 122 then Some (n - 71)
      else if 48 \<le> n \<and> n \<le> 57 then Some (n + 4)
      else if c = CHR ''+'' then Some 62
      else if c = CHR ''/'' then Some 63 else None)"

definition base64_char :: "nat \<Rightarrow> char" where
  "base64_char v =
     (if v < 26 then char_of (v + 65) else if v < 52 then char_of (v + 71)
      else if v < 62 then char_of (v - 4) else if v = 62 then CHR ''+'' else CHR ''/'')"

fun base64_encode :: "string \<Rightarrow> string" where
  "base64_encode [] = []"
| "base64_encode [a] =
     (let n = byte a in [base64_char (n div 4), base64_char (n mod 4 * 16), CHR ''='', CHR ''=''])"
| "base64_encode [a, b] =
     (let n = byte a; m = byte b in
      [base64_char (n div 4), base64_char (n mod 4 * 16 + m div 16), base64_char (m mod 16 * 4), CHR ''=''])"
| "base64_encode (a # b # c # s) =
     (let n = byte a; m = byte b; k = byte c in
      base64_char (n div 4) # base64_char (n mod 4 * 16 + m div 16)
        # base64_char (m mod 16 * 4 + k div 64) # base64_char (k mod 64) # base64_encode s)"

text \<open>Decoding of complete groups; the last group may be padded.\<close>

fun base64_groups :: "string \<Rightarrow> string option" where
  "base64_groups [] = Some []"
| "base64_groups (a # b # c # d # s) =
     (case (base64_value a, base64_value b) of
        (Some x, Some y) \<Rightarrow>
          if c = CHR ''='' then
            (if d = CHR ''='' \<and> s = [] then Some [char_of (x * 4 + y div 16)] else None)
          else (case base64_value c of
                  None \<Rightarrow> None
                | Some z \<Rightarrow>
                    if d = CHR ''='' then
                      (if s = [] then Some [char_of (x * 4 + y div 16), char_of (y mod 16 * 16 + z div 4)] else None)
                    else (case base64_value d of
                            None \<Rightarrow> None
                          | Some w \<Rightarrow>
                              map_option (\<lambda>r. char_of (x * 4 + y div 16) # char_of (y mod 16 * 16 + z div 4)
                                               # char_of (z mod 4 * 64 + w) # r) (base64_groups s)))
      | _ \<Rightarrow> None)"
| "base64_groups _ = None"

text \<open>\<open>base64.StdEncoding.DecodeString\<close> skips line breaks.\<close>

definition base64_decode :: "string \<Rightarrow> string option" where
  "base64_decode s = base64_groups (filter (\<lambda>c. byte c \<noteq> 10 \<and> byte c \<noteq> 13) s)"

lemma base64_value_char [simp]: "v < 64 \<Longrightarrow> base64_value (base64_char v) = Some v"
  by (auto simp: base64_value_def base64_char_def Let_def)

lemma base64_char_ne: "v < 64 \<Longrightarrow> base64_char v \<noteq> CHR ''=''"
proof
  assume "v < 64" and "base64_char v = CHR ''=''"
  then have "base64_value CHR ''='' = Some v" using base64_value_char by metis
  then show False by (simp add: base64_value_def)
qed

end
