(* ===== verification/Recorder_Data.thy ===== *)
theory Recorder_Data
  imports Go_URL "HOL-Library.AList"
begin

text \<open>
  The data of the CDP recorder (\<open>internal/cdphar/recorder.go\<close>): the events of the
  \<open>cdproto\<close> package with the fields the recorder reads, the captured entries, the request
  chains and the recorder itself; and the functions that estimate how many bytes a piece of
  captured data retains.

  The program shares \<open>*capturedEntry\<close> pointers between \<open>recorder.entries\<close>, the chains and
  the fetch tasks. Every entry is appended to \<open>recorder.entries\<close> when it is allocated, so
  that list is the store of the model and a pointer is an index into it. A
  \<open>*requestChain\<close> is only reached through \<open>recorder.chains\<close>, so a chain pointer is its
  request ID. A Go map is an association list whose order stands for the iteration order.

  A \<open>time.Time\<close> is the number of nanoseconds since the zero time, so the zero time is
  \<open>0\<close>. The \<open>float64\<close> values are only stored and compared here and are rationals.
  Header values have the dynamic type \<open>any\<close>; the items that are printed with
  \<open>fmt.Sprint\<close> are given by their text.
\<close>

section \<open>Events\<close>

type_synonym gotime = int
type_synonym request_id = string

datatype header_value = HText string | HTexts "string list" | HItems "string list" | HOther string

type_synonym headers = "(string \<times> header_value) list"

record cdp_request =
  rq_url :: string
  rq_method :: string
  rq_headers :: headers
  rq_has_post :: bool
  rq_post_entries :: "string option list"

record cdp_timing =
  tm_request_time :: rat
  tm_dns_start :: rat
  tm_dns_end :: rat
  tm_connect_start :: rat
  tm_connect_end :: rat
  tm_ssl_start :: rat
  tm_ssl_end :: rat
  tm_send_start :: rat
  tm_send_end :: rat
  tm_receive_headers_end :: rat

record cdp_response =
  rs_url :: string
  rs_status :: int
  rs_status_text :: string
  rs_headers :: headers
  rs_mime :: string
  rs_request_headers :: headers
  rs_connection_id :: rat
  rs_remote_ip :: string
  rs_from_disk_cache :: bool
  rs_from_prefetch_cache :: bool
  rs_encoded_data_length :: rat
  rs_timing :: "cdp_timing option"
  rs_protocol :: string

record cdp_cookie =
  ck_name :: string
  ck_value :: string
  ck_domain :: string
  ck_path :: string
  ck_expires :: rat
  ck_http_only :: bool
  ck_secure :: bool
  ck_session :: bool
  ck_same_site :: string

record associated_cookie =
  ac_cookie :: "cdp_cookie option"
  ac_blocked :: "string list"

record request_extra =
  xq_request_id :: request_id
  xq_cookies :: "associated_cookie option list"
  xq_headers :: headers

record response_extra =
  xs_request_id :: request_id
  xs_headers :: headers
  xs_status :: int
  xs_headers_text :: string

record will_be_sent =
  ws_request_id :: request_id
  ws_request :: "cdp_request option"
  ws_timestamp :: "gotime option"
  ws_wall_time :: "gotime option"
  ws_initiator :: "string option"
  ws_redirect_has_extra :: bool
  ws_redirect_response :: "cdp_response option"
  ws_type :: string

record response_received =
  rr_request_id :: request_id
  rr_timestamp :: "gotime option"
  rr_type :: string
  rr_response :: "cdp_response option"
  rr_has_extra :: bool

datatype cdp_event =
    DataReceived request_id "gotime option" int int
  | RequestWillBeSent will_be_sent
  | RequestWillBeSentExtraInfo request_extra
  | ResponseReceived response_received
  | ResponseReceivedExtraInfo response_extra
  | RequestServedFromCache request_id
  | LoadingFinished request_id "gotime option" rat
  | LoadingFailed request_id "gotime option" string string
  | DomContentEventFired "gotime option"
  | LoadEventFired "gotime option"
  | OtherEvent

section \<open>The recorder\<close>

record name_value =
  nv_name :: string
  nv_value :: string
  nv_comment :: string

record captured_entry =
  e_sequence :: nat
  e_request_id :: request_id
  e_request :: "cdp_request option"
  e_request_extra :: "request_extra option"
  e_response :: "cdp_response option"
  e_response_extra :: "response_extra option"
  e_extra_known :: bool
  e_extra_expected :: bool
  e_resource_type :: string
  e_initiator :: "string option"
  e_query_string :: "name_value list"
  e_started_wall :: gotime
  e_started_mono :: gotime
  e_last_event_mono :: gotime
  e_response_mono :: gotime
  e_finished_mono :: gotime
  e_encoded_data_length :: rat
  e_loading_finished :: bool
  e_decoded_body_length :: int
  e_encoded_body_length :: int
  e_post_data :: string
  e_post_data_incomplete :: bool
  e_body_text :: string
  e_body_encoding :: string
  e_body_size :: int
  e_body_present :: bool
  e_body_fetch_scheduled :: bool
  e_served_from_cache :: bool
  e_failure :: string
  e_terminal_failure :: bool
  e_extra_incomplete :: bool
  e_body_error :: string

record request_chain =
  ch_entries :: "nat list"
  ch_pending_request :: "request_extra list"
  ch_pending_response :: "response_extra list"

datatype capture_error =
    HeaderLimit | CookieHeaderLimit | CookieCountLimit | BytesLimit int | EntriesLimit nat
  | QueryLimit | InvalidURL | ExternalError string

record recorder =
  rc_target_url :: string
  rc_capture_start :: gotime
  rc_page_start :: gotime
  rc_page_start_mono :: gotime
  rc_cutoff :: gotime
  rc_frozen :: bool
  rc_dom_content :: "gotime option"
  rc_load :: "gotime option"
  rc_sequence :: nat
  rc_chains :: "(request_id \<times> request_chain) list"
  rc_entries :: "captured_entry list"
  rc_max_entries :: nat
  rc_max_bytes :: int
  rc_retained :: int
  rc_limit_err :: "capture_error option"
  rc_frozen_requests :: "(request_id \<times> request_extra list) list"
  rc_frozen_responses :: "(request_id \<times> response_extra list) list"
  rc_orphans :: int
  rc_post_cutoff :: "request_id set"

type_synonym fetch_task = "request_id \<times> nat"

definition default_max_entries :: nat where
  "default_max_entries = 10000"

definition default_max_retained_bytes :: int where
  "default_max_retained_bytes = 128 * 2 ^ 20"

definition max_frozen_orphan_extras :: int where
  "max_frozen_orphan_extras = 32"

definition max_header_items :: nat where
  "max_header_items = 4096"

definition max_query_items :: nat where
  "max_query_items = 4096"

definition derived_item_overhead :: int where
  "derived_item_overhead = 64"

definition derived_cookie_overhead :: int where
  "derived_cookie_overhead = 128"

section \<open>Retained bytes\<close>

text \<open>
  \<open>headerValueStrings\<close>, \<open>headerItemCount\<close>, \<open>derivedCookieCount\<close> and the byte estimates.
  Lengths of data held in memory are far below \<open>2 ^ 63\<close>, so their sums are integers.
\<close>

definition newline :: char where
  "newline = char_of (10::nat)"

fun header_value_strings :: "header_value \<Rightarrow> string list" where
  "header_value_strings (HText s) = split_byte newline s"
| "header_value_strings (HTexts ss) = ss"
| "header_value_strings (HItems ss) = ss"
| "header_value_strings (HOther s) = [s]"

fun header_value_count :: "header_value \<Rightarrow> nat" where
  "header_value_count (HText s) = count_byte s newline + 1"
| "header_value_count (HTexts ss) = length ss"
| "header_value_count (HItems ss) = length ss"
| "header_value_count (HOther s) = 1"

text \<open>The loop of \<open>headerItemCount\<close> returns early once the limit is exceeded.\<close>

fun header_item_count_from :: "nat \<Rightarrow> headers \<Rightarrow> nat" where
  "header_item_count_from n [] = n"
| "header_item_count_from n ((name, val) # hs) =
     (let n' = n + header_value_count val
      in if n' > max_header_items then n' else header_item_count_from n' hs)"

definition header_item_count :: "headers \<Rightarrow> nat" where
  "header_item_count hs = header_item_count_from 0 hs"

definition json_string_retained_bytes :: "string \<Rightarrow> int" where
  "json_string_retained_bytes s = int (length s + json_string_len s)"

definition cookie_count_of_texts :: "string list \<Rightarrow> nat" where
  "cookie_count_of_texts texts =
     sum_list (map (\<lambda>t. if trim_space t \<noteq> [] then count_byte t CHR '';'' + 1 else 0) texts)"

fun derived_cookie_count :: "headers \<Rightarrow> nat" where
  "derived_cookie_count [] = 0"
| "derived_cookie_count ((name, value) # hs) =
     (if equal_fold name ''Cookie'' then cookie_count_of_texts (header_value_strings value)
      else if equal_fold name ''Set-Cookie'' then header_value_count value
      else 0) + derived_cookie_count hs"

definition header_value_retained :: "string \<Rightarrow> string \<Rightarrow> int" where
  "header_value_retained name value =
     json_string_retained_bytes name + json_string_retained_bytes value
       + (if equal_fold name ''Cookie'' \<or> equal_fold name ''Set-Cookie''
          then json_string_retained_bytes value else 0)"

definition header_retained_bytes :: "headers \<Rightarrow> int" where
  "header_retained_bytes hs =
     int (header_item_count hs) * derived_item_overhead
       + sum_list (map (\<lambda>(name, raw). sum_list (map (header_value_retained name) (header_value_strings raw))) hs)
       + int (derived_cookie_count hs) * derived_cookie_overhead"

definition name_value_retained_bytes :: "name_value list \<Rightarrow> int" where
  "name_value_retained_bytes vs =
     int (length vs) * derived_item_overhead
       + sum_list (map (\<lambda>v. json_string_retained_bytes (nv_name v) + json_string_retained_bytes (nv_value v)) vs)"

fun associated_cookie_bytes :: "associated_cookie option list \<Rightarrow> int" where
  "associated_cookie_bytes [] = 0"
| "associated_cookie_bytes (a # as) =
     (case a of
        None \<Rightarrow> 0
      | Some ac \<Rightarrow>
          (case ac_cookie ac of
             None \<Rightarrow> 0
           | Some c \<Rightarrow> json_string_retained_bytes (ck_name c) + json_string_retained_bytes (ck_value c)
               + json_string_retained_bytes (ck_domain c) + json_string_retained_bytes (ck_path c)
               + derived_cookie_overhead)) + associated_cookie_bytes as"

definition response_retained_bytes :: "cdp_response \<Rightarrow> int" where
  "response_retained_bytes r =
     1024 + json_string_retained_bytes (rs_url r) + json_string_retained_bytes (rs_status_text r)
       + json_string_retained_bytes (rs_mime r) + json_string_retained_bytes (rs_protocol r)
       + json_string_retained_bytes (rs_remote_ip r) + header_retained_bytes (rs_headers r)
       + header_retained_bytes (rs_request_headers r)"

definition request_extra_retained_bytes :: "request_extra \<Rightarrow> int" where
  "request_extra_retained_bytes x =
     512 + associated_cookie_bytes (xq_cookies x) + header_retained_bytes (xq_headers x)"

definition response_extra_retained_bytes :: "response_extra \<Rightarrow> int" where
  "response_extra_retained_bytes x =
     int (512 + length (xs_headers_text x)) + header_retained_bytes (xs_headers x)"

section \<open>Query strings and bodies\<close>

datatype 'a query_result = QueryOk 'a | QueryTooMany | QueryBadURL

definition decode_query_pair :: "string \<Rightarrow> name_value" where
  "decode_query_pair pair =
     (case cut_byte CHR ''='' pair of (name, val, found) \<Rightarrow>
        \<lparr>nv_name = (case query_unescape name of Some n \<Rightarrow> n | None \<Rightarrow> name),
         nv_value = (if found then (case query_unescape val of Some v \<Rightarrow> v | None \<Rightarrow> val) else val),
         nv_comment = []\<rparr>)"

definition parse_query_string :: "string \<Rightarrow> name_value list query_result" where
  "parse_query_string raw =
     (case url_parse raw of
        None \<Rightarrow> QueryBadURL
      | Some u \<Rightarrow>
          if u_raw_query u = [] then QueryOk []
          else if count_byte (u_raw_query u) CHR ''&'' + 1 > max_query_items then QueryTooMany
          else QueryOk (map decode_query_pair (split_byte CHR ''&'' (u_raw_query u))))"

definition is_http_url :: "string \<Rightarrow> bool" where
  "is_http_url s =
     (case url_parse s of None \<Rightarrow> False | Some u \<Rightarrow> u_scheme u = ''http'' \<or> u_scheme u = ''https'')"

text \<open>The loop of \<open>postDataFromEntries\<close>: the bytes decoded so far and the completeness flag.\<close>

fun post_data_loop :: "string \<Rightarrow> bool \<Rightarrow> string option list \<Rightarrow> string \<times> bool" where
  "post_data_loop data whole [] = (data, whole)"
| "post_data_loop data whole (None # es) = post_data_loop data False es"
| "post_data_loop data whole (Some b # es) =
     (if b = [] then post_data_loop data False es
      else case base64_decode b of
             None \<Rightarrow> post_data_loop data False es
           | Some d \<Rightarrow> post_data_loop (data @ d) whole es)"

definition post_data_from_entries :: "string option list \<Rightarrow> string \<times> bool" where
  "post_data_from_entries es =
     (if es = [] then ([], True)
      else case post_data_loop [] True es of (data, whole) \<Rightarrow>
             if utf8_valid data then (data, \<not> whole) else ([], True))"

definition response_has_no_body :: "string \<Rightarrow> int \<Rightarrow> bool" where
  "response_has_no_body meth status \<longleftrightarrow>
     equal_fold meth ''HEAD'' \<or> 100 \<le> status \<and> status < 200 \<or> status = 204 \<or> status = 205 \<or> status = 304"

definition first_network_header :: "headers \<Rightarrow> string \<Rightarrow> string" where
  "first_network_header hs name =
     (case filter (\<lambda>(n, v). equal_fold n name \<and> header_value_strings v \<noteq> []) hs of
        [] \<Rightarrow> []
      | (n, v) # _ \<Rightarrow> hd (header_value_strings v))"

definition response_body_needs_base64 :: "string \<Rightarrow> string \<Rightarrow> bool" where
  "response_body_needs_base64 mime body =
     (if \<not> utf8_valid body then True
      else (let media = to_lower (trim_space (hd (split_byte CHR '';'' mime)))
            in if has_prefix media ''text/'' then False
               else if list_ex (contains media)
                         [''json'', ''xml'', ''javascript'', ''ecmascript'', ''x-www-form-urlencoded'', ''svg'']
               then False
               else media \<noteq> []))"

section \<open>Signs of the estimates\<close>

lemma json_string_retained_nonneg [simp]: "0 \<le> json_string_retained_bytes s"
  by (simp add: json_string_retained_bytes_def)

lemma header_value_retained_nonneg [simp]: "0 \<le> header_value_retained n v"
  by (simp add: header_value_retained_def)

lemma header_retained_nonneg [simp]: "0 \<le> header_retained_bytes hs"
  unfolding header_retained_bytes_def derived_item_overhead_def derived_cookie_overhead_def
  by (intro add_nonneg_nonneg sum_list_nonneg) (auto intro!: sum_list_nonneg)

lemma header_value_count_strings: "header_value_count v = length (header_value_strings v)"
  by (cases v) (simp_all add: length_split_byte)

lemma header_item_count_from_le: "n \<le> header_item_count_from n hs"
proof (induction n hs rule: header_item_count_from.induct)
  case (2 n name val hs)
  then show ?case
    by (cases "n + header_value_count val > max_header_items") (simp_all add: Let_def)
qed simp

text \<open>
  Below the limit, the early return does not matter: the count is the number of header
  lines the HAR will hold.
\<close>

lemma header_item_count_from_exact:
  "header_item_count_from n hs \<le> max_header_items \<Longrightarrow>
   header_item_count_from n hs = n + length (concat (map (\<lambda>(k, v). header_value_strings v) hs))"
proof (induction n hs rule: header_item_count_from.induct)
  case (2 n name val hs)
  let ?c = "n + header_value_count val"
  show ?case
  proof (cases "?c > max_header_items")
    case True
    with "2.prems" show ?thesis by (simp add: Let_def)
  next
    case False
    with 2 show ?thesis by (simp add: Let_def header_value_count_strings)
  qed
qed simp

end
