(* ===== verification/Recorder.thy ===== *)
theory Recorder
  imports Recorder_Data
begin

text \<open>
  The recorder of \<open>internal/cdphar/recorder.go\<close>: one definition per method, in the order of
  the file. A method that mutates the recorder takes it as its last argument and returns
  the new one; \<open>handle_event\<close> is the whole event handler, with every guard and early
  return, and yields the body-fetch tasks the method returns. The mutex makes every method
  atomic.
\<close>

section \<open>Limits\<close>

definition set_limit_error :: "capture_error \<Rightarrow> recorder \<Rightarrow> recorder" where
  "set_limit_error err rc = (if rc_limit_err rc = None then rc\<lparr>rc_limit_err := Some err\<rparr> else rc)"

fun validate_headers :: "headers list \<Rightarrow> recorder \<Rightarrow> recorder \<times> bool" where
  "validate_headers [] rc = (rc, True)"
| "validate_headers (hs # rest) rc =
     (if header_item_count hs > max_header_items then (set_limit_error HeaderLimit rc, False)
      else validate_headers rest rc)"

fun validate_request_cookie_headers :: "headers \<Rightarrow> recorder \<Rightarrow> recorder \<times> bool" where
  "validate_request_cookie_headers [] rc = (rc, True)"
| "validate_request_cookie_headers ((name, val) # hs) rc =
     (if \<not> equal_fold name ''Cookie'' then validate_request_cookie_headers hs rc
      else if cookie_count_of_texts (header_value_strings val) > max_header_items
      then (set_limit_error CookieHeaderLimit rc, False)
      else validate_request_cookie_headers hs rc)"

definition validate_cookie_count :: "nat \<Rightarrow> recorder \<Rightarrow> recorder \<times> bool" where
  "validate_cookie_count n rc =
     (if n > max_header_items then (set_limit_error CookieCountLimit rc, False) else (rc, True))"

definition reserve :: "int \<Rightarrow> recorder \<Rightarrow> recorder \<times> bool" where
  "reserve requested rc =
     (let size = (if requested < 0 then 0 else requested)
      in if rc_limit_err rc \<noteq> None then (rc, False)
         else if size > rc_max_bytes rc - rc_retained rc
         then (rc\<lparr>rc_limit_err := Some (BytesLimit (rc_max_bytes rc))\<rparr>, False)
         else (rc\<lparr>rc_retained := rc_retained rc + size\<rparr>, True))"

text \<open>\<open>a() && b()\<close> on methods that may set the limit error: the second runs only after the first.\<close>

definition both :: "(recorder \<Rightarrow> recorder \<times> bool) \<Rightarrow> (recorder \<Rightarrow> recorder \<times> bool) \<Rightarrow> recorder \<Rightarrow> recorder \<times> bool" where
  "both p q rc = (case p rc of (rc', ok) \<Rightarrow> if ok then q rc' else (rc', False))"

definition new_recorder :: "string \<Rightarrow> gotime \<Rightarrow> recorder" where
  "new_recorder target start =
     fst (reserve (1024 + json_string_retained_bytes target)
       \<lparr>rc_target_url = target, rc_capture_start = start, rc_page_start = start, rc_page_start_mono = 0,
        rc_cutoff = 0, rc_frozen = False, rc_dom_content = None, rc_load = None, rc_sequence = 0,
        rc_chains = [], rc_entries = [], rc_max_entries = default_max_entries,
        rc_max_bytes = default_max_retained_bytes, rc_retained = 0, rc_limit_err = None,
        rc_frozen_requests = [], rc_frozen_responses = [], rc_orphans = 0, rc_post_cutoff = {}\<rparr>)"

section \<open>Chains and entries\<close>

definition empty_chain :: request_chain where
  "empty_chain = \<lparr>ch_entries = [], ch_pending_request = [], ch_pending_response = []\<rparr>"

text \<open>The chain of a request ID; a missing chain reads as the empty one.\<close>

definition chain_of :: "recorder \<Rightarrow> request_id \<Rightarrow> request_chain" where
  "chain_of rc rid = (case map_of (rc_chains rc) rid of None \<Rightarrow> empty_chain | Some c \<Rightarrow> c)"

definition set_chain :: "request_id \<Rightarrow> request_chain \<Rightarrow> recorder \<Rightarrow> recorder" where
  "set_chain rid c rc = rc\<lparr>rc_chains := AList.update rid c (rc_chains rc)\<rparr>"

text \<open>\<open>chain = \&requestChain{}; recorder.chains[id] = chain\<close> when there is none.\<close>

definition ensure_chain :: "request_id \<Rightarrow> recorder \<Rightarrow> recorder" where
  "ensure_chain rid rc = (if map_of (rc_chains rc) rid = None then set_chain rid empty_chain rc else rc)"

definition set_entry :: "nat \<Rightarrow> captured_entry \<Rightarrow> recorder \<Rightarrow> recorder" where
  "set_entry i e rc = rc\<lparr>rc_entries := (rc_entries rc)[i := e]\<rparr>"

definition has_captured_request :: "recorder \<Rightarrow> request_id \<Rightarrow> bool" where
  "has_captured_request rc rid \<longleftrightarrow> ch_entries (chain_of rc rid) \<noteq> []"

definition current_entry :: "recorder \<Rightarrow> request_id \<Rightarrow> nat option" where
  "current_entry rc rid =
     (case ch_entries (chain_of rc rid) of [] \<Rightarrow> None | i # is \<Rightarrow> Some (last (i # is)))"

definition monotonic_time :: "gotime option \<Rightarrow> gotime" where
  "monotonic_time t = (case t of None \<Rightarrow> 0 | Some v \<Rightarrow> v)"

definition wall_time :: "gotime option \<Rightarrow> gotime \<Rightarrow> gotime" where
  "wall_time t fallback = (case t of None \<Rightarrow> fallback | Some v \<Rightarrow> v)"

definition observe :: "gotime \<Rightarrow> captured_entry \<Rightarrow> captured_entry" where
  "observe t e =
     (if t \<noteq> 0 \<and> (e_last_event_mono e = 0 \<or> t > e_last_event_mono e)
      then e\<lparr>e_last_event_mono := t\<rparr> else e)"

definition has_no_response_body :: "captured_entry \<Rightarrow> bool" where
  "has_no_response_body e =
     (let base = (case e_response e of None \<Rightarrow> 0 | Some r \<Rightarrow> rs_status r);
          status = (case e_response_extra e of
                      Some x \<Rightarrow> if xs_status x \<noteq> 0 then xs_status x else base
                    | None \<Rightarrow> base)
      in case e_request e of None \<Rightarrow> False | Some q \<Rightarrow> response_has_no_body (rq_method q) status)"

section \<open>Matching supplemental events\<close>

text \<open>The two loops of \<open>reconcileExtraInfo\<close> over the entries of a chain, oldest first.\<close>

fun reconcile_requests :: "nat list \<Rightarrow> captured_entry list \<Rightarrow> request_extra list \<Rightarrow> captured_entry list \<times> request_extra list" where
  "reconcile_requests [] es pending = (es, pending)"
| "reconcile_requests (i # is) es pending =
     (let e = es ! i in
      if \<not> e_extra_known e then (es, pending)
      else if \<not> e_extra_expected e then reconcile_requests is es pending
      else if e_request_extra e = None then
        (case pending of
           [] \<Rightarrow> (es, pending)
         | x # xs \<Rightarrow> reconcile_requests is (es[i := e\<lparr>e_request_extra := Some x\<rparr>]) xs)
      else reconcile_requests is es pending)"

fun reconcile_responses :: "nat list \<Rightarrow> captured_entry list \<Rightarrow> response_extra list \<Rightarrow> captured_entry list \<times> response_extra list" where
  "reconcile_responses [] es pending = (es, pending)"
| "reconcile_responses (i # is) es pending =
     (let e = es ! i in
      if \<not> e_extra_known e then (es, pending)
      else if \<not> e_extra_expected e then reconcile_responses is es pending
      else if e_response_extra e = None then
        (case pending of
           [] \<Rightarrow> (es, pending)
         | x # xs \<Rightarrow> reconcile_responses is (es[i := e\<lparr>e_response_extra := Some x\<rparr>]) xs)
      else reconcile_responses is es pending)"

definition reconcile_extra_info :: "request_id \<Rightarrow> recorder \<Rightarrow> recorder" where
  "reconcile_extra_info rid rc =
     (case map_of (rc_chains rc) rid of
        None \<Rightarrow> rc
      | Some c \<Rightarrow>
          (case reconcile_requests (ch_entries c) (rc_entries rc) (ch_pending_request c) of
             (es, preq) \<Rightarrow>
               (case reconcile_responses (ch_entries c) es (ch_pending_response c) of
                  (es', pres) \<Rightarrow>
                    set_chain rid (c\<lparr>ch_pending_request := preq, ch_pending_response := pres\<rparr>)
                      (rc\<lparr>rc_entries := es'\<rparr>))))"

definition set_extra_info_expectation :: "request_id \<Rightarrow> nat \<Rightarrow> bool \<Rightarrow> recorder \<Rightarrow> recorder" where
  "set_extra_info_expectation rid i expected rc =
     reconcile_extra_info rid
       (set_entry i ((rc_entries rc ! i)\<lparr>e_extra_known := True, e_extra_expected := expected\<rparr>) rc)"

text \<open>
  The common end of \<open>requestExtraInfo\<close> and \<open>responseExtraInfo\<close>: a failed request that never
  said whether it has supplemental events now expects them.
\<close>

definition settle_extra_info :: "request_id \<Rightarrow> recorder \<Rightarrow> recorder" where
  "settle_extra_info rid rc =
     (case current_entry rc rid of
        Some i \<Rightarrow>
          if e_terminal_failure (rc_entries rc ! i) \<and> \<not> e_extra_known (rc_entries rc ! i)
          then set_extra_info_expectation rid i True rc
          else reconcile_extra_info rid rc
      | None \<Rightarrow> reconcile_extra_info rid rc)"

definition request_extra_info :: "request_extra \<Rightarrow> recorder \<Rightarrow> recorder" where
  "request_extra_info x rc =
     (let rid = xq_request_id x;
          (rc1, ok) = both (validate_headers [xq_headers x])
                        (both (validate_request_cookie_headers (xq_headers x))
                          (both (validate_cookie_count (length (xq_cookies x)))
                            (reserve (request_extra_retained_bytes x)))) (ensure_chain rid rc)
      in if \<not> ok then rc1
         else let c = chain_of rc1 rid
              in settle_extra_info rid (set_chain rid (c\<lparr>ch_pending_request := ch_pending_request c @ [x]\<rparr>) rc1))"

definition response_extra_info :: "response_extra \<Rightarrow> recorder \<Rightarrow> recorder" where
  "response_extra_info x rc =
     (let rid = xs_request_id x;
          (rc1, ok) = both (validate_headers [xs_headers x])
                        (reserve (response_extra_retained_bytes x)) (ensure_chain rid rc)
      in if \<not> ok then rc1
         else let c = chain_of rc1 rid
              in settle_extra_info rid (set_chain rid (c\<lparr>ch_pending_response := ch_pending_response c @ [x]\<rparr>) rc1))"

section \<open>Responses and body tasks\<close>

text \<open>\<open>responseForHAR\<close> copies the fields a HAR entry is built from.\<close>

definition response_for_har :: "cdp_response \<Rightarrow> cdp_response" where
  "response_for_har r =
     \<lparr>rs_url = rs_url r, rs_status = rs_status r, rs_status_text = rs_status_text r,
      rs_headers = rs_headers r, rs_mime = rs_mime r, rs_request_headers = rs_request_headers r,
      rs_connection_id = rs_connection_id r, rs_remote_ip = rs_remote_ip r,
      rs_from_disk_cache = rs_from_disk_cache r, rs_from_prefetch_cache = rs_from_prefetch_cache r,
      rs_encoded_data_length = rs_encoded_data_length r, rs_timing = rs_timing r,
      rs_protocol = rs_protocol r\<rparr>"

definition validate_response :: "cdp_response \<Rightarrow> recorder \<Rightarrow> recorder \<times> bool" where
  "validate_response r =
     both (validate_headers [rs_headers r, rs_request_headers r])
       (both (validate_request_cookie_headers (rs_request_headers r))
         (reserve (response_retained_bytes r)))"

definition response_received :: "response_received \<Rightarrow> recorder \<Rightarrow> recorder" where
  "response_received ev rc =
     (case rr_response ev of
        None \<Rightarrow> rc
      | Some r \<Rightarrow>
          (case current_entry rc (rr_request_id ev) of
             None \<Rightarrow> rc
           | Some i \<Rightarrow>
               (case validate_response r rc of
                  (rc1, ok) \<Rightarrow>
                    if \<not> ok then rc1
                    else
                      (let e = rc_entries rc1 ! i;
                           t = monotonic_time (rr_timestamp ev);
                           e' = observe t (e\<lparr>e_response := Some (response_for_har r), e_response_mono := t\<rparr>);
                           e'' = (if e_resource_type e' = [] then e'\<lparr>e_resource_type := rr_type ev\<rparr> else e')
                       in set_extra_info_expectation (rr_request_id ev) i (rr_has_extra ev)
                            (set_entry i e'' rc1)))))"

fun body_fetch_loop :: "request_id \<Rightarrow> nat list \<Rightarrow> captured_entry list \<Rightarrow> captured_entry list \<times> fetch_task list" where
  "body_fetch_loop rid [] es = (es, [])"
| "body_fetch_loop rid (i # is) es =
     (let e = es ! i in
      if e_body_fetch_scheduled e \<or> \<not> e_loading_finished e \<or> e_response e = None then body_fetch_loop rid is es
      else if e_extra_expected e \<and> e_response_extra e = None then body_fetch_loop rid is es
      else
        (case body_fetch_loop rid is (es[i := e\<lparr>e_body_fetch_scheduled := True\<rparr>]) of
           (es', tasks) \<Rightarrow> (es', if has_no_response_body e then tasks else (rid, i) # tasks)))"

definition ready_body_fetch_tasks :: "request_id \<Rightarrow> bool \<Rightarrow> recorder \<Rightarrow> recorder \<times> fetch_task list" where
  "ready_body_fetch_tasks rid include_bodies rc =
     (if \<not> include_bodies then (rc, [])
      else case body_fetch_loop rid (ch_entries (chain_of rc rid)) (rc_entries rc) of
             (es, tasks) \<Rightarrow> (rc\<lparr>rc_entries := es\<rparr>, tasks))"

section \<open>Events after the cutoff\<close>

definition queue_frozen_request_extra :: "request_extra \<Rightarrow> recorder \<Rightarrow> recorder" where
  "queue_frozen_request_extra x rc =
     (if rc_orphans rc \<ge> max_frozen_orphan_extras then rc
      else case both (validate_headers [xq_headers x])
                  (both (validate_request_cookie_headers (xq_headers x))
                    (both (validate_cookie_count (length (xq_cookies x)))
                      (reserve (request_extra_retained_bytes x)))) rc of
             (rc1, ok) \<Rightarrow>
               if \<not> ok then rc1
               else rc1\<lparr>rc_orphans := rc_orphans rc1 + 1,
                        rc_frozen_requests :=
                          AList.update (xq_request_id x)
                            ((case map_of (rc_frozen_requests rc1) (xq_request_id x) of None \<Rightarrow> [] | Some l \<Rightarrow> l) @ [x])
                            (rc_frozen_requests rc1)\<rparr>)"

definition queue_frozen_response_extra :: "response_extra \<Rightarrow> recorder \<Rightarrow> recorder" where
  "queue_frozen_response_extra x rc =
     (if rc_orphans rc \<ge> max_frozen_orphan_extras then rc
      else case both (validate_headers [xs_headers x]) (reserve (response_extra_retained_bytes x)) rc of
             (rc1, ok) \<Rightarrow>
               if \<not> ok then rc1
               else rc1\<lparr>rc_orphans := rc_orphans rc1 + 1,
                        rc_frozen_responses :=
                          AList.update (xs_request_id x)
                            ((case map_of (rc_frozen_responses rc1) (xs_request_id x) of None \<Rightarrow> [] | Some l \<Rightarrow> l) @ [x])
                            (rc_frozen_responses rc1)\<rparr>)"

fun event_timestamp :: "cdp_event \<Rightarrow> gotime option" where
  "event_timestamp (DataReceived rid ts n m) = ts"
| "event_timestamp (RequestWillBeSent ev) = ws_timestamp ev"
| "event_timestamp (ResponseReceived ev) = rr_timestamp ev"
| "event_timestamp (LoadingFinished rid ts n) = ts"
| "event_timestamp (LoadingFailed rid ts text reason) = ts"
| "event_timestamp (DomContentEventFired ts) = ts"
| "event_timestamp (LoadEventFired ts) = ts"
| "event_timestamp _ = None"

section \<open>New requests and redirects\<close>

text \<open>
  The start of \<open>requestWillBeSent\<close> for a chain without entries: supplemental events that
  arrived after the cutoff, before their request, become pending in the chain.
\<close>

definition adopt_frozen_extras :: "request_id \<Rightarrow> recorder \<Rightarrow> recorder" where
  "adopt_frozen_extras rid rc =
     (let c = chain_of rc rid;
          freq = (case map_of (rc_frozen_requests rc) rid of None \<Rightarrow> [] | Some l \<Rightarrow> l);
          fres = (case map_of (rc_frozen_responses rc) rid of None \<Rightarrow> [] | Some l \<Rightarrow> l);
          left = rc_orphans rc - int (length freq + length fres)
      in (set_chain rid (c\<lparr>ch_pending_request := ch_pending_request c @ freq,
                           ch_pending_response := ch_pending_response c @ fres\<rparr>) rc)
           \<lparr>rc_orphans := (if left < 0 then 0 else left),
            rc_frozen_requests := AList.delete rid (rc_frozen_requests rc),
            rc_frozen_responses := AList.delete rid (rc_frozen_responses rc)\<rparr>)"

definition redirect_body_error :: string where
  "redirect_body_error = ''CDP cannot reliably retrieve redirect response bodies after request ID reuse''"

text \<open>
  A redirect closes the last entry of the chain with the redirect response. The flag is
  \<open>False\<close> when the event is dropped because a limit was reached.
\<close>

definition close_redirected :: "request_id \<Rightarrow> cdp_response \<Rightarrow> bool \<Rightarrow> gotime \<Rightarrow> bool \<Rightarrow> recorder \<Rightarrow> recorder \<times> bool" where
  "close_redirected rid r has_extra started include_bodies rc =
     (case current_entry rc rid of
        None \<Rightarrow> (rc, True)
      | Some i \<Rightarrow>
          (case (if e_response (rc_entries rc ! i) = None then validate_response r rc else (rc, True)) of
             (rc1, ok) \<Rightarrow>
               if \<not> ok then (rc1, False)
               else
                 (let e = rc_entries rc1 ! i;
                      e1 = (if e_response e = None then e\<lparr>e_response := Some (response_for_har r)\<rparr> else e);
                      e2 = (if e_finished_mono e1 = 0 then e1\<lparr>e_finished_mono := started\<rparr> else e1);
                      e3 = e2\<lparr>e_encoded_data_length := rs_encoded_data_length r, e_loading_finished := True\<rparr>;
                      e4 = (if include_bodies then e3\<lparr>e_body_fetch_scheduled := True\<rparr> else e3);
                      e5 = (if include_bodies \<and> \<not> has_no_response_body e4
                            then e4\<lparr>e_body_error := redirect_body_error\<rparr> else e4)
                  in (set_extra_info_expectation rid i has_extra (set_entry i e5 rc1), True))))"

definition new_entry :: "nat \<Rightarrow> will_be_sent \<Rightarrow> cdp_request \<Rightarrow> name_value list \<Rightarrow> gotime \<Rightarrow> gotime \<Rightarrow> string \<Rightarrow> bool \<Rightarrow> captured_entry" where
  "new_entry number ev q query wall started post incomplete =
     \<lparr>e_sequence = number, e_request_id = ws_request_id ev,
      e_request = Some \<lparr>rq_url = rq_url q, rq_method = rq_method q, rq_headers = rq_headers q,
                        rq_has_post = rq_has_post q, rq_post_entries = []\<rparr>,
      e_request_extra = None, e_response = None, e_response_extra = None,
      e_extra_known = False, e_extra_expected = False, e_resource_type = ws_type ev,
      e_initiator = ws_initiator ev, e_query_string = query, e_started_wall = wall,
      e_started_mono = started, e_last_event_mono = started, e_response_mono = 0, e_finished_mono = 0,
      e_encoded_data_length = 0, e_loading_finished = False, e_decoded_body_length = 0,
      e_encoded_body_length = 0, e_post_data = post, e_post_data_incomplete = incomplete,
      e_body_text = [], e_body_encoding = [], e_body_size = 0, e_body_present = False,
      e_body_fetch_scheduled = False, e_served_from_cache = False, e_failure = [],
      e_terminal_failure = False, e_extra_incomplete = False, e_body_error = []\<rparr>"

definition request_bytes :: "will_be_sent \<Rightarrow> cdp_request \<Rightarrow> name_value list \<Rightarrow> string \<Rightarrow> int" where
  "request_bytes ev q query post =
     int (1024 + 2 * (case ws_initiator ev of None \<Rightarrow> 0 | Some enc \<Rightarrow> length enc))
       + json_string_retained_bytes (rq_url q) + json_string_retained_bytes (rq_method q)
       + json_string_retained_bytes post + header_retained_bytes (rq_headers q)
       + name_value_retained_bytes query"

text \<open>The rest of \<open>requestWillBeSent\<close>: validate, reserve, and append the entry.\<close>

definition append_request :: "will_be_sent \<Rightarrow> cdp_request \<Rightarrow> recorder \<Rightarrow> recorder" where
  "append_request ev q rc =
     (case both (validate_headers [rq_headers q]) (validate_request_cookie_headers (rq_headers q)) rc of
        (rc1, ok) \<Rightarrow>
          if \<not> ok then rc1
          else
            (case parse_query_string (rq_url q) of
               QueryTooMany \<Rightarrow> set_limit_error QueryLimit rc1
             | QueryBadURL \<Rightarrow> set_limit_error InvalidURL rc1
             | QueryOk query \<Rightarrow>
                 (let (post, incomplete) =
                        (if rq_has_post q then post_data_from_entries (rq_post_entries q) else ([], False));
                      (rc2, ok2) =
                        (if length (rc_entries rc1) \<ge> rc_max_entries rc1 then (rc1, False)
                         else reserve (request_bytes ev q query post) rc1)
                  in if \<not> ok2 then set_limit_error (EntriesLimit (rc_max_entries rc2)) rc2
                     else
                       (let rid = ws_request_id ev;
                            started = monotonic_time (ws_timestamp ev);
                            wall = wall_time (ws_wall_time ev) (rc_capture_start rc2);
                            e = new_entry (rc_sequence rc2 + 1) ev q query wall started post incomplete;
                            c = chain_of rc2 rid;
                            rc3 = set_chain rid (c\<lparr>ch_entries := ch_entries c @ [length (rc_entries rc2)]\<rparr>)
                                    (rc2\<lparr>rc_sequence := rc_sequence rc2 + 1,
                                         rc_entries := rc_entries rc2 @ [e]\<rparr>)
                        in if rc_page_start_mono rc3 = 0 \<and> ws_type ev = ''Document''
                           then rc3\<lparr>rc_page_start_mono := started, rc_page_start := e_started_wall e\<rparr>
                           else rc3))))"

definition request_will_be_sent :: "will_be_sent \<Rightarrow> bool \<Rightarrow> recorder \<Rightarrow> recorder" where
  "request_will_be_sent ev include_bodies rc =
     (case ws_request ev of
        None \<Rightarrow> rc
      | Some q \<Rightarrow>
          if \<not> is_http_url (rq_url q) then rc
          else
            (let rid = ws_request_id ev;
                 rc1 = ensure_chain rid (rc\<lparr>rc_post_cutoff := rc_post_cutoff rc - {rid}\<rparr>);
                 first = (ch_entries (chain_of rc1 rid) = [])
             in if \<not> first \<and> ws_redirect_response ev = None then rc1
                else
                  (let rc2 = (if first then adopt_frozen_extras rid rc1 else rc1);
                       (rc3, ok) =
                         (case ws_redirect_response ev of
                            None \<Rightarrow> (rc2, True)
                          | Some r \<Rightarrow> close_redirected rid r (ws_redirect_has_extra ev)
                                        (monotonic_time (ws_timestamp ev)) include_bodies rc2)
                   in if \<not> ok then rc3 else append_request ev q rc3)))"

section \<open>The event handler\<close>

text \<open>Apply a change to the current entry of a request ID, if there is one.\<close>

definition update_current :: "request_id \<Rightarrow> (captured_entry \<Rightarrow> captured_entry) \<Rightarrow> recorder \<Rightarrow> recorder" where
  "update_current rid f rc =
     (case current_entry rc rid of None \<Rightarrow> rc | Some i \<Rightarrow> set_entry i (f (rc_entries rc ! i)) rc)"

definition data_received :: "gotime option \<Rightarrow> int \<Rightarrow> int \<Rightarrow> captured_entry \<Rightarrow> captured_entry" where
  "data_received ts n m e =
     (let e1 = observe (monotonic_time ts) e;
          e2 = (if n > 0 then e1\<lparr>e_decoded_body_length := i64 (e_decoded_body_length e1 + n)\<rparr> else e1)
      in if m > 0 then e2\<lparr>e_encoded_body_length := i64 (e_encoded_body_length e2 + m)\<rparr> else e2)"

definition loading_finished :: "gotime option \<Rightarrow> rat \<Rightarrow> captured_entry \<Rightarrow> captured_entry" where
  "loading_finished ts n e =
     (observe (monotonic_time ts) (e\<lparr>e_finished_mono := monotonic_time ts\<rparr>))
       \<lparr>e_encoded_data_length := n, e_loading_finished := True\<rparr>"

text \<open>
  The end of the \<open>EventLoadingFailed\<close> case: note the failure, and expect the supplemental
  events that already arrived.
\<close>

definition record_failure :: "request_id \<Rightarrow> nat \<Rightarrow> string \<Rightarrow> recorder \<Rightarrow> recorder" where
  "record_failure rid i failure rc =
     (let rc1 = set_entry i ((rc_entries rc ! i)\<lparr>e_failure := failure\<rparr>) rc;
          c = chain_of rc1 rid
      in if \<not> e_extra_known (rc_entries rc1 ! i) \<and> (ch_pending_request c \<noteq> [] \<or> ch_pending_response c \<noteq> [])
         then set_extra_info_expectation rid i True rc1 else rc1)"

definition mark_failed :: "gotime option \<Rightarrow> captured_entry \<Rightarrow> captured_entry" where
  "mark_failed ts e =
     (observe (monotonic_time ts) (e\<lparr>e_finished_mono := monotonic_time ts\<rparr>))\<lparr>e_terminal_failure := True\<rparr>"

definition loading_failed :: "request_id \<Rightarrow> gotime option \<Rightarrow> string \<Rightarrow> string \<Rightarrow> recorder \<Rightarrow> recorder" where
  "loading_failed rid ts text reason rc =
     (case current_entry rc rid of
        None \<Rightarrow> rc
      | Some i \<Rightarrow>
          (let failure = (if trim_space text = [] then reason else trim_space text)
           in case reserve (json_string_retained_bytes failure + derived_item_overhead)
                     (set_entry i (mark_failed ts (rc_entries rc ! i)) rc) of
                (rc1, ok) \<Rightarrow> if \<not> ok then rc1 else record_failure rid i failure rc1))"

text \<open>The type switch at the end of \<open>handleEvent\<close>, for events that are not filtered out.\<close>

fun apply_event :: "bool \<Rightarrow> recorder \<Rightarrow> cdp_event \<Rightarrow> recorder \<times> fetch_task list" where
  "apply_event inc rc (DataReceived rid ts n m) = (update_current rid (data_received ts n m) rc, [])"
| "apply_event inc rc (RequestWillBeSent ev) = (request_will_be_sent ev inc rc, [])"
| "apply_event inc rc (RequestWillBeSentExtraInfo x) = (request_extra_info x rc, [])"
| "apply_event inc rc (ResponseReceived ev) =
     ready_body_fetch_tasks (rr_request_id ev) inc (response_received ev rc)"
| "apply_event inc rc (ResponseReceivedExtraInfo x) =
     ready_body_fetch_tasks (xs_request_id x) inc (response_extra_info x rc)"
| "apply_event inc rc (RequestServedFromCache rid) =
     (update_current rid (\<lambda>e. e\<lparr>e_served_from_cache := True\<rparr>) rc, [])"
| "apply_event inc rc (LoadingFinished rid ts n) =
     ready_body_fetch_tasks rid inc (update_current rid (loading_finished ts n) rc)"
| "apply_event inc rc (LoadingFailed rid ts text reason) = (loading_failed rid ts text reason rc, [])"
| "apply_event inc rc (DomContentEventFired ts) = (rc\<lparr>rc_dom_content := Some (monotonic_time ts)\<rparr>, [])"
| "apply_event inc rc (LoadEventFired ts) = (rc\<lparr>rc_load := Some (monotonic_time ts)\<rparr>, [])"
| "apply_event inc rc OtherEvent = (rc, [])"

text \<open>A timestamped event is dropped after the cutoff; the ID of a dropped request is kept.\<close>

definition after_cutoff :: "recorder \<Rightarrow> cdp_event \<Rightarrow> bool" where
  "after_cutoff rc ev =
     (case event_timestamp ev of None \<Rightarrow> True | Some t \<Rightarrow> rc_cutoff rc = 0 \<or> t > rc_cutoff rc)"

fun frozen_event :: "bool \<Rightarrow> recorder \<Rightarrow> cdp_event \<Rightarrow> recorder \<times> fetch_task list" where
  "frozen_event inc rc (RequestWillBeSentExtraInfo x) =
     (if has_captured_request rc (xq_request_id x) then (request_extra_info x rc, [])
      else (queue_frozen_request_extra x rc, []))"
| "frozen_event inc rc (ResponseReceivedExtraInfo x) =
     (if has_captured_request rc (xs_request_id x)
      then ready_body_fetch_tasks (xs_request_id x) inc (response_extra_info x rc)
      else (queue_frozen_response_extra x rc, []))"
| "frozen_event inc rc (RequestServedFromCache rid) = (rc, [])"
| "frozen_event inc rc ev =
     (if after_cutoff rc ev
      then (case ev of
              RequestWillBeSent ws \<Rightarrow> (rc\<lparr>rc_post_cutoff := insert (ws_request_id ws) (rc_post_cutoff rc)\<rparr>, [])
            | _ \<Rightarrow> (rc, []))
      else apply_event inc rc ev)"

definition handle_event :: "bool \<Rightarrow> recorder \<Rightarrow> cdp_event \<Rightarrow> recorder \<times> fetch_task list" where
  "handle_event inc rc ev =
     (if rc_limit_err rc \<noteq> None then (rc, [])
      else if rc_frozen rc then frozen_event inc rc ev
      else apply_event inc rc ev)"

definition handle_buffered_event :: "bool \<Rightarrow> recorder \<Rightarrow> cdp_event \<Rightarrow> recorder \<times> fetch_task list" where
  "handle_buffered_event inc rc ev =
     (case ev of
        RequestServedFromCache rid \<Rightarrow>
          if rc_limit_err rc \<noteq> None \<or> rid \<in> rc_post_cutoff rc then (rc, [])
          else (update_current rid (\<lambda>e. e\<lparr>e_served_from_cache := True\<rparr>) rc, [])
      | _ \<Rightarrow> handle_event inc rc ev)"

end
