(* ===== verification/Models.thy ===== *)
theory Models
  imports Go_Text
begin

text \<open>
  The normalized data of \<open>internal/zillow/models.go\<close> and the errors of
  \<open>internal/zillow/errors.go\<close>. A pointer is an option; a float64 is the rational it denotes
  (the program compares floats and adds none here); \<open>json.RawMessage\<close> is its bytes. Slices
  that are absent and slices that are empty encode the same way here and are both \<open>[]\<close>.
\<close>

section \<open>Listings and properties\<close>

record address =
  ad_full :: string
  ad_street :: string
  ad_city :: string
  ad_state :: string
  ad_postal_code :: string

record coordinates =
  co_latitude :: "rat option"
  co_longitude :: "rat option"

record listing =
  li_id :: string
  li_url :: string
  li_address :: address
  li_price :: "int option"
  li_price_text :: string
  li_required_fees :: "int option"
  li_total_cost :: "int option"
  li_price_includes_fees :: "bool option"
  li_bedrooms :: "rat option"
  li_bathrooms :: "rat option"
  li_living_area :: "int option"
  li_home_type :: string
  li_status :: string
  li_is_building :: bool
  li_shared_housing :: bool
  li_student_housing :: bool
  li_income_restricted :: bool
  li_image_url :: string
  li_coordinates :: coordinates
  li_days_on_zillow :: "int option"
  li_listed_date :: string
  li_updated_date :: string
  li_availability :: string
  li_year_built :: "int option"
  li_description :: string
  li_laundry :: string
  li_laundry_features :: "string list"
  li_parking :: string
  li_parking_features :: "string list"
  li_pet_policy :: string
  li_allowed_pets :: "string list"
  li_flex_spaces :: "string list"
  li_detail_status :: string
  li_detail_error :: string
  li_match_status :: string
  li_match_reasons :: "string list"
  li_verification_notes :: "string list"
  li_history_status :: string
  li_history_changes :: "string list"

definition empty_address :: address where
  "empty_address = \<lparr>ad_full = [], ad_street = [], ad_city = [], ad_state = [], ad_postal_code = []\<rparr>"

text \<open>\<open>Listing{}\<close>, the zero value.\<close>

definition empty_listing :: listing where
  "empty_listing = \<lparr>li_id = [], li_url = [], li_address = empty_address, li_price = None, li_price_text = [],
     li_required_fees = None, li_total_cost = None, li_price_includes_fees = None, li_bedrooms = None,
     li_bathrooms = None, li_living_area = None, li_home_type = [], li_status = [], li_is_building = False,
     li_shared_housing = False, li_student_housing = False, li_income_restricted = False, li_image_url = [],
     li_coordinates = \<lparr>co_latitude = None, co_longitude = None\<rparr>, li_days_on_zillow = None,
     li_listed_date = [], li_updated_date = [], li_availability = [], li_year_built = None,
     li_description = [], li_laundry = [], li_laundry_features = [], li_parking = [],
     li_parking_features = [], li_pet_policy = [], li_allowed_pets = [], li_flex_spaces = [],
     li_detail_status = [], li_detail_error = [], li_match_status = [], li_match_reasons = [],
     li_verification_notes = [], li_history_status = [], li_history_changes = []\<rparr>"

record search_metadata =
  sm_request_id :: int
  sm_current_page :: int
  sm_returned :: int
  sm_results_per_page :: int
  sm_total_pages :: int
  sm_total_results :: int
  sm_results_hash :: string
  sm_relaxed_results :: bool

record search_result =
  sr_listings :: "listing list"
  sr_metadata :: search_metadata
  sr_raw :: string

record zillow_property =
  pr_id :: string
  pr_url :: string
  pr_address :: address
  pr_price :: "int option"
  pr_required_fees :: "int option"
  pr_total_cost :: "int option"
  pr_price_includes_fees :: "bool option"
  pr_bedrooms :: "rat option"
  pr_bathrooms :: "rat option"
  pr_living_area :: "int option"
  pr_lot_size :: "rat option"
  pr_year_built :: "int option"
  pr_home_type :: string
  pr_status :: string
  pr_shared_housing :: bool
  pr_student_housing :: bool
  pr_income_restricted :: bool
  pr_description :: string
  pr_image_url :: string
  pr_coordinates :: coordinates
  pr_days_on_zillow :: "int option"
  pr_listed_date :: string
  pr_updated_date :: string
  pr_availability :: string
  pr_laundry :: string
  pr_laundry_features :: "string list"
  pr_parking :: string
  pr_parking_features :: "string list"
  pr_pet_policy :: string
  pr_allowed_pets :: "string list"
  pr_flex_spaces :: "string list"
  pr_verification_notes :: "string list"
  pr_raw :: string

section \<open>Errors\<close>

datatype sentinel = ErrHostNotAllowed | ErrChallenge | ErrRateLimited | ErrSchemaDrift | ErrResponseTooLarge

fun sentinel_text :: "sentinel \<Rightarrow> string" where
  "sentinel_text ErrHostNotAllowed = ''zillow host is not allowed''"
| "sentinel_text ErrChallenge = ''zillow browser challenge detected''"
| "sentinel_text ErrRateLimited = ''zillow rate limited the request''"
| "sentinel_text ErrSchemaDrift = ''zillow response schema drift''"
| "sentinel_text ErrResponseTooLarge = ''zillow response exceeded the size limit''"

record challenge_error =
  ce_url :: string
  ce_status :: int
  ce_reason :: string

record rate_limit_error =
  rl_url :: string
  rl_retry_after :: int
  rl_retry_after_raw :: string

record schema_drift_error =
  sd_operation :: string
  sd_path :: string
  sd_detail :: string

record too_large_error =
  tl_url :: string
  tl_limit :: int

record http_status_error =
  hs_url :: string
  hs_status_code :: int
  hs_status :: string
  hs_body :: string

text \<open>
  An error value. The program puts no nil pointer into an error, so the constructors hold the
  records themselves; the \<open>Error\<close> methods below take an option, since they guard against nil.
  \<open>ParseURL\<close> is the error of \<open>url.Parse\<close> for the given text (its message here leaves out the
  reason), \<open>Plain\<close> is a value of \<open>errors.New\<close> or of another package, and \<open>Wrap\<close> is
  \<open>fmt.Errorf("...: %w", err)\<close> with the text before the colon.
\<close>

datatype go_error =
    Sentinel sentinel
  | HostNotAllowed string
  | Challenge challenge_error
  | RateLimit rate_limit_error
  | SchemaDrift schema_drift_error
  | TooLarge too_large_error
  | HttpStatus http_status_error
  | ParseURL string
  | Plain string
  | Wrap string go_error

text \<open>
  \<open>%q\<close> of a string: the escapes of \<open>strconv.Quote\<close> for ASCII; other bytes are copied, as
  printable runes are.
\<close>

definition hex_digit :: "nat \<Rightarrow> char" where
  "hex_digit n = ''0123456789abcdef'' ! (n mod 16)"

definition quote_char :: "char \<Rightarrow> string" where
  "quote_char c =
     (let n = byte c in
      if c = CHR 0x22 then [CHR 0x5C, CHR 0x22]
      else if c = CHR 0x5C then [CHR 0x5C, CHR 0x5C]
      else if n = 7 then [CHR 0x5C, CHR ''a''] else if n = 8 then [CHR 0x5C, CHR ''b'']
      else if n = 9 then [CHR 0x5C, CHR ''t''] else if n = 10 then [CHR 0x5C, CHR ''n'']
      else if n = 11 then [CHR 0x5C, CHR ''v''] else if n = 12 then [CHR 0x5C, CHR ''f'']
      else if n = 13 then [CHR 0x5C, CHR ''r'']
      else if n < 32 \<or> n = 127 then [CHR 0x5C, CHR ''x'', hex_digit (n div 16), hex_digit n]
      else [c])"

definition quote :: "string \<Rightarrow> string" where
  "quote s = [CHR 0x22] @ concat (map quote_char s) @ [CHR 0x22]"

definition challenge_text :: "challenge_error option \<Rightarrow> string" where
  "challenge_text e = (case e of None \<Rightarrow> sentinel_text ErrChallenge
     | Some c \<Rightarrow> join '': '' ([sentinel_text ErrChallenge]
         @ (if ce_status c \<noteq> 0 then [''status '' @ itoa (ce_status c)] else [])
         @ (if ce_reason c \<noteq> [] then [ce_reason c] else [])
         @ (if ce_url c \<noteq> [] then [ce_url c] else [])))"

definition rate_limit_text :: "rate_limit_error option \<Rightarrow> string" where
  "rate_limit_text e = (case e of None \<Rightarrow> sentinel_text ErrRateLimited
     | Some r \<Rightarrow> sentinel_text ErrRateLimited
         @ (if rl_retry_after_raw r \<noteq> [] then '': retry after '' @ rl_retry_after_raw r else [])
         @ (if rl_url r \<noteq> [] then '': '' @ rl_url r else []))"

definition schema_drift_text :: "schema_drift_error option \<Rightarrow> string" where
  "schema_drift_text e = (case e of None \<Rightarrow> sentinel_text ErrSchemaDrift
     | Some d \<Rightarrow> sentinel_text ErrSchemaDrift
         @ (if sd_operation d \<noteq> [] then '' in '' @ sd_operation d else [])
         @ (if sd_path d \<noteq> [] then '' at '' @ sd_path d else [])
         @ (if sd_detail d \<noteq> [] then '': '' @ sd_detail d else []))"

definition too_large_text :: "too_large_error option \<Rightarrow> string" where
  "too_large_text e = (case e of None \<Rightarrow> sentinel_text ErrResponseTooLarge
     | Some t \<Rightarrow> sentinel_text ErrResponseTooLarge
         @ (if tl_limit t > 0 then '': limit '' @ itoa (tl_limit t) @ '' bytes'' else [])
         @ (if tl_url t \<noteq> [] then '': '' @ tl_url t else []))"

definition http_status_text :: "http_status_error option \<Rightarrow> string" where
  "http_status_text e = (case e of None \<Rightarrow> ''zillow request failed''
     | Some h \<Rightarrow>
         (let status = (if hs_status h = [] \<and> hs_status_code h \<noteq> 0
                        then ''status '' @ itoa (hs_status_code h) else hs_status h)
          in ''zillow request failed''
             @ (if status \<noteq> [] then '': '' @ status else [])
             @ (if hs_url h \<noteq> [] then '': '' @ hs_url h else [])))"

definition host_not_allowed_text :: "string option \<Rightarrow> string" where
  "host_not_allowed_text e =
     (case e of None \<Rightarrow> sentinel_text ErrHostNotAllowed
      | Some host \<Rightarrow> if host = [] then sentinel_text ErrHostNotAllowed
                     else sentinel_text ErrHostNotAllowed @ '': '' @ quote host)"

text \<open>\<open>err.Error()\<close>.\<close>

fun error_text :: "go_error \<Rightarrow> string" where
  "error_text (Sentinel s) = sentinel_text s"
| "error_text (HostNotAllowed e) = host_not_allowed_text (Some e)"
| "error_text (Challenge e) = challenge_text (Some e)"
| "error_text (RateLimit e) = rate_limit_text (Some e)"
| "error_text (SchemaDrift e) = schema_drift_text (Some e)"
| "error_text (TooLarge e) = too_large_text (Some e)"
| "error_text (HttpStatus e) = http_status_text (Some e)"
| "error_text (ParseURL raw) = ''parse '' @ quote raw"
| "error_text (Plain s) = s"
| "error_text (Wrap s e) = s @ '': '' @ error_text e"

text \<open>\<open>errors.Is(err, sentinel)\<close> through the \<open>Unwrap\<close> methods.\<close>

fun error_is :: "go_error \<Rightarrow> sentinel \<Rightarrow> bool" where
  "error_is (Sentinel s) t = (s = t)"
| "error_is (HostNotAllowed e) t = (t = ErrHostNotAllowed)"
| "error_is (Challenge e) t = (t = ErrChallenge)"
| "error_is (RateLimit e) t = (t = ErrRateLimited)"
| "error_is (SchemaDrift e) t = (t = ErrSchemaDrift)"
| "error_is (TooLarge e) t = (t = ErrResponseTooLarge)"
| "error_is (HttpStatus e) t = False"
| "error_is (ParseURL raw) t = False"
| "error_is (Plain s) t = False"
| "error_is (Wrap s e) t = error_is e t"

text \<open>\<open>errors.As(err, \&rateLimit)\<close>: the first rate-limit error of the chain.\<close>

fun as_rate_limit :: "go_error \<Rightarrow> rate_limit_error option" where
  "as_rate_limit (RateLimit e) = Some e"
| "as_rate_limit (Wrap s e) = as_rate_limit e"
| "as_rate_limit _ = None"

section \<open>Facts about errors\<close>

lemma as_rate_limit_is: "as_rate_limit e \<noteq> None \<Longrightarrow> error_is e ErrRateLimited"
  by (induction e) simp_all

lemma error_is_unique: "error_is e s \<Longrightarrow> error_is e t \<Longrightarrow> s = t"
  by (induction e) auto

lemma sentinel_text_inj: "sentinel_text s = sentinel_text t \<Longrightarrow> s = t"
  by (cases s; cases t) simp_all

text \<open>The text of a classified error starts with the text of its class, so logs can be searched for it.\<close>

lemma error_text_prefix:
  assumes "error_is e s" and "\<And>m e'. e \<noteq> Wrap m e'"
  shows "prefix (sentinel_text s) (error_text e)"
  using assms
  by (cases e) (auto simp: challenge_text_def rate_limit_text_def schema_drift_text_def too_large_text_def
      host_not_allowed_text_def split: option.splits)

end
