(* ===== verification/Json.thy ===== *)
theory Json
  imports Models Prelude "HOL-Library.AList"
begin

text \<open>
  Decoded JSON values (Go's \<open>any\<close>) and the accessors of \<open>internal/zillow/search.go\<close> that read
  them. An object is an association list; its order is the iteration order of the Go map, which
  is not specified, so nothing may depend on it. Decoding happens with \<open>UseNumber\<close>: a decoded
  number is the text of its literal. \<open>JInt\<close> and \<open>JFloat\<close> are the machine numbers the program
  itself stores in a value. A float64 is the exact decimal it was read from: rounding to 53 bits
  is not modelled.
\<close>

section \<open>Values\<close>

datatype gofloat = Finite rat | NaN | PlusInf | MinusInf

datatype json =
    JNull | JBool bool | JNumber string | JInt int | JFloat gofloat | JString string
  | JArray "json list" | JStrings "string list" | JObject "(string \<times> json) list"

type_synonym json_object = "(string \<times> json) list"

text \<open>\<open>object[key]\<close>, where a missing key reads as nil.\<close>

definition get :: "json_object \<Rightarrow> string \<Rightarrow> json" where
  "get obj key = (case map_of obj key of None \<Rightarrow> JNull | Some v \<Rightarrow> v)"

fun lookup_in :: "json \<Rightarrow> string list \<Rightarrow> json option" where
  "lookup_in current [] = Some current"
| "lookup_in current (key # path) =
     (case current of
        JObject obj \<Rightarrow> (case map_of obj key of None \<Rightarrow> None | Some v \<Rightarrow> lookup_in v path)
      | _ \<Rightarrow> None)"

definition lookup_path :: "json_object \<Rightarrow> string list \<Rightarrow> json option" where
  "lookup_path obj path = lookup_in (JObject obj) path"

fun first_path_value :: "json_object \<Rightarrow> string list list \<Rightarrow> json option" where
  "first_path_value obj [] = None"
| "first_path_value obj (path # paths) =
     (case lookup_path obj path of Some v \<Rightarrow> Some v | None \<Rightarrow> first_path_value obj paths)"

section \<open>Numbers\<close>

text \<open>
  The value of a decimal literal: sign, digits, fraction and exponent, as \<open>big.Rat.SetString\<close>
  and \<open>strconv.ParseFloat\<close> read a JSON number. \<open>None\<close> when the text is no such literal.
\<close>

definition split_sign :: "string \<Rightarrow> bool \<times> string" where
  "split_sign s = (case s of [] \<Rightarrow> (False, [])
     | c # cs \<Rightarrow> if c = CHR ''-'' then (True, cs) else if c = CHR ''+'' then (False, cs) else (False, s))"

definition span_digits :: "string \<Rightarrow> string \<times> string" where
  "span_digits s = (takeWhile is_digit s, dropWhile is_digit s)"

definition parse_exponent :: "string \<Rightarrow> int option" where
  "parse_exponent s =
     (case s of [] \<Rightarrow> Some 0
      | c # cs \<Rightarrow>
          if c = CHR ''e'' \<or> c = CHR ''E'' then
            (case split_sign cs of (neg, ds) \<Rightarrow>
               if ds = [] \<or> \<not> list_all is_digit ds then None
               else Some (if neg then - int (digits_value ds) else int (digits_value ds)))
          else None)"

text \<open>Mantissa digits, their number after the point, and the exponent.\<close>

definition parse_decimal :: "string \<Rightarrow> (bool \<times> nat \<times> nat \<times> int) option" where
  "parse_decimal s =
     (let (neg, t) = split_sign s;
          (whole, rest) = span_digits t;
          (frac, rest') = (case rest of [] \<Rightarrow> ([], [])
                           | c # cs \<Rightarrow> if c = CHR ''.'' then span_digits cs else ([], rest))
      in if whole @ frac = [] then None
         else case parse_exponent rest' of
                None \<Rightarrow> None
              | Some e \<Rightarrow> Some (neg, digits_value (whole @ frac), length frac, e))"

definition scale10 :: "int \<Rightarrow> rat \<Rightarrow> rat" where
  "scale10 e x = (if e \<ge> 0 then x * of_int (10 ^ nat e) else x / of_int (10 ^ nat (- e)))"

definition decimal_value :: "bool \<times> nat \<times> nat \<times> int \<Rightarrow> rat" where
  "decimal_value d = (case d of (neg, digits, places, e) \<Rightarrow>
     (if neg then - 1 else 1) * scale10 (e - int places) (of_int (int digits)))"

text \<open>\<open>big.Rat.SetString\<close>: refuses exponents beyond a million unless the mantissa is zero.\<close>

definition parse_rat :: "string \<Rightarrow> rat option" where
  "parse_rat s =
     (case parse_decimal s of
        None \<Rightarrow> None
      | Some (neg, digits, places, e) \<Rightarrow>
          if digits = 0 then Some 0
          else if abs (e - int places) > 10 ^ 6 then None
          else Some (decimal_value (neg, digits, places, e)))"

text \<open>
  \<open>strconv.ParseFloat(s, 64)\<close> on a decimal literal; out of range is an error. The limit is compared
  only when the number has more than 308 digits before the point.
\<close>

definition parse_float :: "string \<Rightarrow> rat option" where
  "parse_float s =
     (case parse_decimal s of
        None \<Rightarrow> None
      | Some d \<Rightarrow>
          (case d of (neg, digits, places, e) \<Rightarrow>
             if digits = 0 \<or> e - int places + int (length (nat_digits digits)) < - 400 then Some 0
             else if e - int places + int (length (nat_digits digits)) > 400 then None
             else if e - int places + int (length (nat_digits digits)) > 308
             then (if abs (decimal_value d) \<ge> 2 ^ 1024 - 2 ^ 970 then None else Some (decimal_value d))
             else Some (decimal_value d)))"

text \<open>\<open>strconv.FormatFloat(x, 'f', -1, 64)\<close> of an exact decimal, to at most twenty places.\<close>

fun frac_digits :: "nat \<Rightarrow> rat \<Rightarrow> string" where
  "frac_digits 0 x = []"
| "frac_digits (Suc n) x =
     (if x = 0 then [] else char_of (48 + nat \<lfloor>10 * x\<rfloor>) # frac_digits n (10 * x - of_int \<lfloor>10 * x\<rfloor>))"

definition format_rat :: "rat \<Rightarrow> string" where
  "format_rat x =
     (let a = abs x; i = \<lfloor>a\<rfloor>; f = a - of_int i
      in (if x < 0 then ''-'' else []) @ nat_digits (nat i)
         @ (if f = 0 then [] else ''.'' @ frac_digits 20 f))"

fun format_gofloat :: "gofloat \<Rightarrow> string" where
  "format_gofloat (Finite x) = format_rat x"
| "format_gofloat NaN = ''NaN''"
| "format_gofloat PlusInf = ''+Inf''"
| "format_gofloat MinusInf = ''-Inf''"

section \<open>Readers of loosely typed values\<close>

fun string_from_any :: "json \<Rightarrow> string option" where
  "string_from_any (JString s) = Some (trim_space s)"
| "string_from_any (JNumber n) = Some n"
| "string_from_any (JFloat x) = Some (format_gofloat x)"
| "string_from_any (JInt n) = Some (itoa n)"
| "string_from_any _ = None"

definition string_value :: "json \<Rightarrow> string" where
  "string_value v = (case string_from_any v of None \<Rightarrow> [] | Some s \<Rightarrow> s)"

fun first_string :: "json_object \<Rightarrow> string list \<Rightarrow> string" where
  "first_string raw [] = []"
| "first_string raw (key # keys) =
     (case string_from_any (get raw key) of
        Some v \<Rightarrow> if v \<noteq> [] then v else first_string raw keys
      | None \<Rightarrow> first_string raw keys)"

fun float_from_any :: "json \<Rightarrow> rat option" where
  "float_from_any (JNumber n) = parse_float n"
| "float_from_any (JFloat (Finite x)) = Some x"
| "float_from_any (JInt n) = Some (of_int n)"
| "float_from_any (JString s) = parse_float (trim_space s)"
| "float_from_any _ = None"

text \<open>An integer of any numeric form: a literal such as \<open>1.5e3\<close> counts when it denotes an int64.\<close>

fun int64_from_any :: "json \<Rightarrow> int option" where
  "int64_from_any (JNumber n) =
     (case parse_int64 n of
        Some v \<Rightarrow> Some v
      | None \<Rightarrow>
          (case parse_rat n of
             None \<Rightarrow> None
           | Some r \<Rightarrow> if of_int \<lfloor>r\<rfloor> = r \<and> in_i64 \<lfloor>r\<rfloor> then Some \<lfloor>r\<rfloor> else None))"
| "int64_from_any (JInt n) = Some n"
| "int64_from_any (JFloat (Finite x)) = (if of_int \<lfloor>x\<rfloor> = x \<and> in_i64 \<lfloor>x\<rfloor> then Some \<lfloor>x\<rfloor> else None)"
| "int64_from_any (JString s) = parse_int64 (trim_space s)"
| "int64_from_any _ = None"

text \<open>An \<open>int\<close> is an int64 on the supported platforms, so the narrowing never fails.\<close>

definition int_from_any :: "json \<Rightarrow> int option" where
  "int_from_any = int64_from_any"

definition parse_bool :: "string \<Rightarrow> bool option" where
  "parse_bool s =
     (if s \<in> set [''1'', ''t'', ''T'', ''TRUE'', ''true'', ''True''] then Some True
      else if s \<in> set [''0'', ''f'', ''F'', ''FALSE'', ''false'', ''False''] then Some False
      else None)"

fun bool_from_any :: "json \<Rightarrow> bool option" where
  "bool_from_any (JBool b) = Some b"
| "bool_from_any (JString s) = parse_bool (trim_space s)"
| "bool_from_any _ = None"

text \<open>The first key with a readable value.\<close>

fun first_reading :: "(json \<Rightarrow> 'a option) \<Rightarrow> json_object \<Rightarrow> string list \<Rightarrow> 'a option" where
  "first_reading read raw [] = None"
| "first_reading read raw (key # keys) =
     (case read (get raw key) of Some v \<Rightarrow> Some v | None \<Rightarrow> first_reading read raw keys)"

definition float_pointer :: "json_object \<Rightarrow> string list \<Rightarrow> rat option" where
  "float_pointer = first_reading float_from_any"

definition int64_pointer :: "json_object \<Rightarrow> string list \<Rightarrow> int option" where
  "int64_pointer = first_reading int64_from_any"

section \<open>Facts about the readers\<close>

lemma get_update: "get (AList.update k v obj) k' = (if k' = k then v else get obj k')"
  by (simp add: get_def update_conv')

lemma in_i64_range: "parse_int64 s = Some n \<Longrightarrow> in_i64 n"
  by (auto simp: parse_int64_def Let_def split: if_splits prod.splits)

text \<open>An integer that was read fits an int64, when the program stored only int64 values itself.\<close>

lemma int64_from_any_range:
  assumes "int64_from_any v = Some n" and "\<And>m. v = JInt m \<Longrightarrow> in_i64 m"
  shows "in_i64 n"
proof (cases v)
  case (JNumber t)
  with assms(1) show ?thesis
    by (auto split: option.splits if_splits dest: in_i64_range)
next
  case (JFloat x)
  with assms(1) show ?thesis by (cases x) (auto split: if_splits)
qed (use assms in \<open>auto dest: in_i64_range\<close>)

end
