(* ===== verification/Money.thy ===== *)
theory Money
  imports Json Prelude
begin

text \<open>
  Money values (\<open>internal/zillow/search.go\<close>, \<open>internal/zillow/rental_page.go\<close>): \<open>parseMoney\<close>
  and the scanning of its one numeric token, and the money fields of a listing. A position in a
  text is a number of bytes; of the currency symbols the dollar sign is the ASCII one.
\<close>

section \<open>The numeric token\<close>

definition is_ascii_alphanumeric :: "char \<Rightarrow> bool" where
  "is_ascii_alphanumeric c \<longleftrightarrow> is_digit c \<or> is_lower c \<or> is_upper c"

definition all_ascii_digits :: "string \<Rightarrow> bool" where
  "all_ascii_digits s \<longleftrightarrow> s \<noteq> [] \<and> list_all is_digit s"

definition digit_run :: "string \<Rightarrow> nat" where
  "digit_run s = length (takeWhile is_digit s)"

text \<open>The bytes of the groups \<open>,ddd\<close> at the front, whose digit runs have exactly three digits.\<close>

fun comma_groups :: "string \<Rightarrow> nat" where
  "comma_groups (c # d1 # d2 # d3 # rest) =
     (if c = CHR '','' \<and> digit_run (d1 # d2 # d3 # rest) = 3 then 4 + comma_groups rest else 0)"
| "comma_groups _ = 0"

text \<open>The length of the token that starts at a digit.\<close>

definition scan_numeric_token :: "string \<Rightarrow> nat" where
  "scan_numeric_token s =
     (let n1 = digit_run s;
          n2 = (if n1 \<le> 3 then n1 + comma_groups (drop n1 s) else n1)
      in case drop n2 s of
           c # d # rest \<Rightarrow>
             if c = CHR ''.'' \<and> is_digit d then n2 + 2 + digit_run rest else n2
         | _ \<Rightarrow> n2)"

text \<open>Start and end of the only token, if there is exactly one.\<close>

definition one_numeric_token :: "string \<Rightarrow> (nat \<times> nat) option" where
  "one_numeric_token v =
     (let start = length (takeWhile (\<lambda>c. \<not> is_digit c) v);
          finish = start + scan_numeric_token (drop start v)
      in if start = length v then None
         else if list_ex is_digit (drop finish v) then None
         else Some (start, finish))"

definition normalize_numeric_token :: "string \<Rightarrow> string option" where
  "normalize_numeric_token v =
     (let parts = split_byte CHR ''.'' v; integer = hd parts; groups = split_byte CHR '','' integer;
          whole = filter (\<lambda>c. c \<noteq> CHR '','') integer
      in if length parts > 2 \<or> integer = [] then None
         else if length parts = 2 \<and> \<not> all_ascii_digits (parts ! 1) then None
         else if CHR '','' \<in> set integer then
           (if length (hd groups) > 3 \<or> \<not> all_ascii_digits (hd groups)
               \<or> list_ex (\<lambda>g. length g \<noteq> 3 \<or> \<not> all_ascii_digits g) (tl groups) then None
            else Some (whole @ (if length parts = 2 then ''.'' @ parts ! 1 else [])))
         else if \<not> all_ascii_digits integer then None
         else Some (whole @ (if length parts = 2 then ''.'' @ parts ! 1 else [])))"

text \<open>
  \<open>hasNegativeMoneySign\<close> on the reversed prefix: a minus sign (ASCII, or U+2212 in UTF-8) before
  nothing but spaces and dollar signs.
\<close>

fun negative_sign_rev :: "string \<Rightarrow> bool" where
  "negative_sign_rev [] = False"
| "negative_sign_rev (c # cs) =
     (if is_space c then negative_sign_rev cs
      else if c = CHR ''-'' \<or> map byte (take 3 (c # cs)) = [146, 136, 226] then True
      else if c = CHR ''$'' then negative_sign_rev cs
      else False)"

definition has_negative_money_sign :: "string \<Rightarrow> bool" where
  "has_negative_money_sign before = negative_sign_rev (rev before)"

section \<open>float64\<close>

text \<open>
  A float64 that is not negative is a rational \<open>m * 2 ^ e\<close> with \<open>m\<close> of at most 53 bits and
  \<open>e\<close> at least \<open>-1074\<close>; \<open>to_float64\<close> rounds to the nearest one, ties to even. \<open>parseMoney\<close>
  rounds twice, when it reads the digits and when it scales them.
\<close>

fun bit_length :: "nat \<Rightarrow> nat" where
  "bit_length n = (if n = 0 then 0 else Suc (bit_length (n div 2)))"

declare bit_length.simps [simp del]

definition pow2 :: "int \<Rightarrow> rat" where
  "pow2 e = (if e \<ge> 0 then of_int (2 ^ nat e) else 1 / of_int (2 ^ nat (- e)))"

definition float_exponent :: "rat \<Rightarrow> int" where
  "float_exponent x =
     (case quotient_of x of (p, q) \<Rightarrow>
        let e = int (bit_length (nat p)) - int (bit_length (nat q)) - 53
        in max (- 1074) (if x / pow2 e < 9007199254740992 then e else e + 1))"

definition round_half_even :: "rat \<Rightarrow> int" where
  "round_half_even x =
     (let f = \<lfloor>x\<rfloor>; d = x - of_int f
      in if d < 1 / 2 then f else if d > 1 / 2 then f + 1 else if even f then f else f + 1)"

definition to_float64 :: "rat \<Rightarrow> rat" where
  "to_float64 x =
     (if x = 0 then 0 else of_int (round_half_even (x / pow2 (float_exponent x))) * pow2 (float_exponent x))"

section \<open>Money\<close>

definition money_multiplier :: "string \<Rightarrow> nat \<Rightarrow> rat" where
  "money_multiplier v finish =
     (if finish < length v \<and> (finish + 1 = length v \<or> \<not> is_ascii_alphanumeric (v ! (finish + 1))) then
        (let c = v ! finish in
         if c = CHR ''k'' \<or> c = CHR ''K'' then 1000
         else if c = CHR ''m'' \<or> c = CHR ''M'' then 1000000
         else if c = CHR ''b'' \<or> c = CHR ''B'' then 1000000000
         else 1)
      else 1)"

text \<open>\<open>math.Round\<close> of a value that is not negative.\<close>

definition round_half_up :: "rat \<Rightarrow> int" where
  "round_half_up x = \<lfloor>x + 1 / 2\<rfloor>"

definition parse_money :: "string \<Rightarrow> int option" where
  "parse_money v0 =
     (let v = trim_space v0 in
      if v = [] then None
      else case one_numeric_token v of
             None \<Rightarrow> None
           | Some (start, finish) \<Rightarrow>
               if has_negative_money_sign (take start v) then None
               else (case normalize_numeric_token (take (finish - start) (drop start v)) of
                       None \<Rightarrow> None
                     | Some number \<Rightarrow>
                         (case parse_float number of
                            None \<Rightarrow> None
                          | Some decimal \<Rightarrow>
                              (let parsed = to_float64 decimal; scaled = to_float64 (parsed * money_multiplier v finish) in
                               if parsed < 0 \<or> scaled \<ge> 9223372036854775808 then None
                               else Some (i64 (round_half_up scaled))))))"

definition is_integral_value :: "json \<Rightarrow> bool" where
  "is_integral_value v =
     (case int64_from_any v of
        None \<Rightarrow> False
      | Some _ \<Rightarrow> (case float_from_any v of Some x \<Rightarrow> of_int \<lfloor>x\<rfloor> = x | None \<Rightarrow> True))"

definition is_money_value :: "json \<Rightarrow> bool" where
  "is_money_value v = (case v of JString text \<Rightarrow> parse_money text \<noteq> None | _ \<Rightarrow> is_integral_value v)"

text \<open>One key of \<open>moneyPointer\<close>: a non-negative integer, or a text that reads as money.\<close>

definition money_reading :: "json \<Rightarrow> int option" where
  "money_reading v =
     (case int64_from_any v of
        Some n \<Rightarrow> if n \<ge> 0 then Some n else (case v of JString text \<Rightarrow> parse_money text | _ \<Rightarrow> None)
      | None \<Rightarrow> (case v of JString text \<Rightarrow> parse_money text | _ \<Rightarrow> None))"

definition money_pointer :: "json_object \<Rightarrow> string list \<Rightarrow> int option" where
  "money_pointer = first_reading money_reading"

definition bool_pointer :: "json_object \<Rightarrow> string \<Rightarrow> bool option" where
  "bool_pointer raw key = bool_from_any (get raw key)"

text \<open>The price with the required fees; no value when it is unknown or does not fit an int64.\<close>

definition total_monthly_cost :: "int option \<Rightarrow> int option \<Rightarrow> bool option \<Rightarrow> int option" where
  "total_monthly_cost price fees includes_fees =
     (case price of
        None \<Rightarrow> None
      | Some p \<Rightarrow>
          if includes_fees = Some True then Some p
          else (case fees of
                  None \<Rightarrow> None
                | Some f \<Rightarrow> if p < 0 \<or> f < 0 \<or> f > i64 ((2 ^ 63 - 1) - p) then None else Some (i64 (p + f))))"

section \<open>Facts\<close>

lemma pow2_pos: "0 < pow2 e"
  by (simp add: pow2_def)

lemma pow2_add: "pow2 (a + b) = pow2 a * pow2 b"
proof -
  have "pow2 e = 2 powi e" for e by (simp add: pow2_def power_int_def field_simps)
  then show ?thesis by (simp add: power_int_add)
qed

lemma pow2_mono: "a \<le> b \<Longrightarrow> pow2 a \<le> pow2 b"
proof -
  assume "a \<le> b"
  then have "pow2 b = pow2 a * 2 ^ nat (b - a)" using pow2_add [of a "b - a"] by (simp add: pow2_def)
  moreover have "(1::rat) \<le> 2 ^ nat (b - a)" by simp
  ultimately show ?thesis using pow2_pos [of a] by (simp add: mult_left_mono)
qed

lemma bit_length_upper: "n < 2 ^ bit_length n"
proof (induction n rule: bit_length.induct)
  case (1 n)
  then show ?case by (cases "n = 0"; subst bit_length.simps) (auto simp: less_mult_imp_div_less)
qed

lemma bit_length_lower: "0 < n \<Longrightarrow> 2 ^ (bit_length n - 1) \<le> n"
proof (induction n rule: bit_length.induct)
  case (1 n)
  show ?case
  proof (cases "n div 2 = 0")
    case True
    then show ?thesis using "1.prems" by (subst bit_length.simps) (simp add: bit_length.simps)
  next
    case False
    then have "2 ^ (bit_length (n div 2) - 1) \<le> n div 2" using 1 by simp
    moreover have "bit_length (n div 2) \<noteq> 0" using False by (subst bit_length.simps) simp
    ultimately have "2 ^ bit_length (n div 2) \<le> 2 * (n div 2)" by (cases "bit_length (n div 2)") auto
    then show ?thesis using "1.prems" by (subst bit_length.simps) simp
  qed
qed

text \<open>The mantissa has at most 53 bits.\<close>

lemma float_mantissa:
  assumes "0 < x"
  shows "x / pow2 (float_exponent x) < 2 ^ 53"
proof -
  obtain p q where pq: "quotient_of x = (p, q)" by fastforce
  have q: "0 < q" using quotient_of_denom_pos [OF pq] .
  have x: "x = of_int p / of_int q" using quotient_of_div [OF pq] .
  then have p: "0 < p" using assms q by (simp add: zero_less_divide_iff)
  define bp bq where "bp = bit_length (nat p)" and "bq = bit_length (nat q)"
  define e where "e = int bp - int bq - 53"
  have "int (nat p) < 2 ^ bp" using bit_length_upper [of "nat p"] unfolding bp_def by (metis of_nat_less_iff of_nat_numeral of_nat_power)
  then have "(of_int p :: rat) < of_int (2 ^ bp)" using p by (simp only: of_int_less_iff)
  then have pr: "(of_int p :: rat) < pow2 (int bp)" by (simp add: pow2_def)
  have bq: "0 < bq" using q unfolding bq_def by (subst bit_length.simps) simp
  have "2 ^ (bq - 1) \<le> int (nat q)" using bit_length_lower [of "nat q"] q unfolding bq_def
    by (metis of_nat_le_iff of_nat_numeral of_nat_power zero_less_nat_eq)
  then have "of_int (2 ^ (bq - 1)) \<le> (of_int q :: rat)" using q by (simp only: of_int_le_iff)
  then have qr: "pow2 (int bq - 1) \<le> of_int q" using bq by (simp add: pow2_def nat_diff_distrib)
  have "x < pow2 (int bp) / pow2 (int bq - 1)"
    unfolding x using pr qr pow2_pos [of "int bq - 1"] p q by (intro frac_less) auto
  also have "\<dots> = pow2 (e + 1) * 2 ^ 53"
  proof -
    have "pow2 (int bp) = pow2 (e + 1) * pow2 53 * pow2 (int bq - 1)"
      by (simp add: e_def flip: pow2_add)
    then show ?thesis using pow2_pos [of "int bq - 1"] by (simp add: pow2_def [of 53])
  qed
  finally have next_ok: "x / pow2 (e + 1) < 2 ^ 53" using pow2_pos [of "e + 1"] by (simp add: field_simps)
  define e' where "e' = (if x / pow2 e < 9007199254740992 then e else e + 1)"
  have "x / pow2 e' < 2 ^ 53" using next_ok by (simp add: e'_def)
  moreover have "x / pow2 (max (- 1074) e') \<le> x / pow2 e'"
    using assms pow2_mono [of e' "max (- 1074) e'"] pow2_pos [of e'] by (intro divide_left_mono) (auto simp: pow2_pos)
  moreover have "float_exponent x = max (- 1074) e'"
    using pq by (simp add: float_exponent_def Let_def e'_def e_def bp_def bq_def)
  ultimately show ?thesis by simp
qed

lemma round_half_even_bounds: "0 \<le> x \<Longrightarrow> x < 2 ^ 53 \<Longrightarrow> 0 \<le> round_half_even x \<and> round_half_even x \<le> 2 ^ 53"
proof -
  assume "0 \<le> x" "x < 2 ^ 53"
  then have "0 \<le> \<lfloor>x\<rfloor>" "\<lfloor>x\<rfloor> < 2 ^ 53" by (auto simp: floor_less_iff)
  then show ?thesis by (auto simp: round_half_even_def Let_def)
qed

lemma round_half_even_int [simp]: "round_half_even (of_int n) = n"
  by (simp add: round_half_even_def)

lemma to_float64_nonneg: "0 \<le> x \<Longrightarrow> 0 \<le> to_float64 x"
  using float_mantissa [of x] round_half_even_bounds [of "x / pow2 (float_exponent x)"] pow2_pos [of "float_exponent x"]
  by (auto simp: to_float64_def intro!: mult_nonneg_nonneg)

text \<open>Rounding a float64 below \<open>2 ^ 63\<close> to an integer stays below \<open>2 ^ 63\<close>.\<close>

lemma float64_round_range:
  assumes "0 \<le> x" and "to_float64 x < 2 ^ 63"
  shows "in_i64 (round_half_up (to_float64 x))" "0 \<le> round_half_up (to_float64 x)"
proof -
  show nn: "0 \<le> round_half_up (to_float64 x)"
    using to_float64_nonneg [OF assms(1)] by (simp add: round_half_up_def)
  have "round_half_up (to_float64 x) < 2 ^ 63"
  proof (cases "x = 0")
    case True
    then show ?thesis by (simp add: to_float64_def round_half_up_def)
  next
    case False
    let ?e = "float_exponent x" let ?m = "round_half_even (x / pow2 ?e)"
    have v: "to_float64 x = of_int ?m * pow2 ?e" using False by (simp add: to_float64_def)
    have m: "0 \<le> ?m" "?m \<le> 2 ^ 53"
      using round_half_even_bounds [of "x / pow2 ?e"] float_mantissa [of x] assms(1) False pow2_pos [of ?e] by auto
    show ?thesis
    proof (cases "?e \<ge> 0")
      case True
      then obtain k where k: "to_float64 x = of_int k" using v by (simp add: pow2_def) (metis of_int_mult of_int_numeral of_int_power)
      then have "(of_int k :: rat) < of_int (2 ^ 63)" using assms(2) by simp
      then have "k < 2 ^ 63" by (simp only: of_int_less_iff)
      moreover have "round_half_up (of_int k) = k" by (simp add: round_half_up_def floor_eq_iff)
      ultimately show ?thesis using k by simp
    next
      case neg: False
      have "pow2 ?e \<le> 1" using pow2_mono [of ?e 0] neg by (simp add: pow2_def)
      then have "to_float64 x \<le> of_int ?m" using v m(1) by (simp add: mult_left_le)
      also have "\<dots> \<le> of_int (2 ^ 53)" using m(2) by (simp only: of_int_le_iff)
      finally show ?thesis by (simp add: round_half_up_def floor_less_iff)
    qed
  qed
  then show "in_i64 (round_half_up (to_float64 x))" using nn by (simp add: in_i64_def)
qed

text \<open>Integers below \<open>2 ^ 53\<close> are floats.\<close>

lemma to_float64_int:
  assumes "0 \<le> n" and "n < 2 ^ 53"
  shows "to_float64 (of_int n) = of_int n"
proof (cases "n = 0")
  case False
  let ?x = "of_int n :: rat" let ?e = "float_exponent ?x"
  have q: "quotient_of ?x = (n, 1)" by simp
  have "2 ^ (bit_length (nat n) - 1) \<le> nat n" using bit_length_lower [of "nat n"] assms False by simp
  also have "nat n < 2 ^ 53" using assms by (simp add: nat_less_iff)
  finally have "bit_length (nat n) - 1 < 53" by (simp only: power_strict_increasing_iff)
  moreover have "bit_length 1 = 1" by (simp add: bit_length.simps)
  ultimately have e: "?e \<le> 0" unfolding float_exponent_def q by (auto simp: Let_def)
  then have "?x / pow2 ?e = of_int (n * 2 ^ nat (- ?e))" by (simp add: pow2_def)
  then have "to_float64 ?x = of_int (n * 2 ^ nat (- ?e)) * pow2 ?e"
    using False by (simp add: to_float64_def del: of_int_mult)
  also have "\<dots> = ?x" using e by (simp add: pow2_def)
  finally show ?thesis .
qed (simp add: to_float64_def)

lemma total_monthly_cost_cases:
  "total_monthly_cost price fees includes = Some t \<longleftrightarrow>
     (\<exists>p. price = Some p \<and>
       (includes = Some True \<and> t = p
        \<or> includes \<noteq> Some True \<and> (\<exists>f. fees = Some f \<and> 0 \<le> p \<and> 0 \<le> f \<and> f \<le> i64 ((2 ^ 63 - 1) - p) \<and> t = i64 (p + f))))"
  by (auto simp: total_monthly_cost_def split: option.splits)

end
