(* ===== verification/Go_Time.thy ===== *)
theory Go_Time
  imports Go_Text Prelude
begin

text \<open>
  The parts of Go's \<open>time\<close> that the program uses on dates: the calendar, \<open>Format\<close> with the
  layouts \<open>2006-01-02\<close> and \<open>time.RFC3339Nano\<close>, and \<open>time.Parse\<close> for the layouts that appear in
  \<open>internal/zillow/rental_facts.go\<close>. An instant is the number of nanoseconds since the zero
  \<open>time.Time\<close> (1 January of year 1, UTC); a parsed time also has the offset of its zone in
  seconds, which decides its calendar day.
\<close>

section \<open>The calendar\<close>

definition days_from_civil :: "int \<Rightarrow> int \<Rightarrow> int \<Rightarrow> int" where
  "days_from_civil year month day =
     (let y = (if month \<le> 2 then year - 1 else year);
          era = y div 400; yoe = y mod 400;
          mp = (if month > 2 then month - 3 else month + 9);
          doy = (153 * mp + 2) div 5 + day - 1;
          doe = yoe * 365 + yoe div 4 - yoe div 100 + doy
      in era * 146097 + doe - 306)"

text \<open>Day 0 is 1 January of year 1.\<close>

definition civil_from_days :: "int \<Rightarrow> int \<times> int \<times> int" where
  "civil_from_days days =
     (let z = days + 306;
          era = z div 146097; doe = z mod 146097;
          yoe = (doe - doe div 1460 + doe div 36524 - doe div 146096) div 365;
          doy = doe - (365 * yoe + yoe div 4 - yoe div 100);
          mp = (5 * doy + 2) div 153;
          day = doy - (153 * mp + 2) div 5 + 1;
          month = (if mp < 10 then mp + 3 else mp - 9);
          year = yoe + era * 400 + (if month \<le> 2 then 1 else 0)
      in (year, month, day))"

definition is_leap :: "int \<Rightarrow> bool" where
  "is_leap year \<longleftrightarrow> year mod 4 = 0 \<and> (year mod 100 \<noteq> 0 \<or> year mod 400 = 0)"

definition days_in :: "int \<Rightarrow> int \<Rightarrow> int" where
  "days_in month year =
     (if month = 2 then (if is_leap year then 29 else 28)
      else if month \<in> set [4, 6, 9, 11] then 30 else 31)"

text \<open>A number with at least so many digits.\<close>

definition pad_digits :: "nat \<Rightarrow> int \<Rightarrow> string" where
  "pad_digits width n =
     (let ds = nat_digits (nat \<bar>n\<bar>)
      in (if n < 0 then ''-'' else []) @ replicate (width - length ds) (CHR ''0'') @ ds)"

definition format_date :: "int \<Rightarrow> string" where
  "format_date days =
     (case civil_from_days days of (year, month, day) \<Rightarrow>
        pad_digits 4 year @ ''-'' @ pad_digits 2 month @ ''-'' @ pad_digits 2 day)"

section \<open>Times\<close>

record date_time =
  dt_instant :: int
  dt_offset :: int

definition second_ns :: int where "second_ns = 10 ^ 9"

definition day_ns :: int where "day_ns = 86400 * second_ns"

definition local_day :: "date_time \<Rightarrow> int" where
  "local_day t = (dt_instant t + dt_offset t * second_ns) div day_ns"

definition format_day :: "date_time \<Rightarrow> string" where
  "format_day t = format_date (local_day t)"

text \<open>\<open>time.Unix(seconds, 0).UTC()\<close>: the epoch is day 719162.\<close>

definition unix_time :: "int \<Rightarrow> date_time" where
  "unix_time seconds = \<lparr>dt_instant = (719162 * 86400 + seconds) * second_ns, dt_offset = 0\<rparr>"

text \<open>\<open>time.RFC3339Nano\<close> of an instant in UTC: the fraction of the second without trailing zeros.\<close>

definition format_fraction :: "int \<Rightarrow> string" where
  "format_fraction ns =
     (if ns = 0 then [] else ''.'' @ rev (dropWhile (\<lambda>c. c = CHR ''0'') (rev (pad_digits 9 ns))))"

definition format_clock :: "int \<Rightarrow> string" where
  "format_clock ns =
     (let s = ns div second_ns in
      pad_digits 2 (s div 3600) @ '':'' @ pad_digits 2 (s div 60 mod 60) @ '':'' @ pad_digits 2 (s mod 60)
      @ format_fraction (ns mod second_ns))"

definition format_rfc3339_nano :: "int \<Rightarrow> string" where
  "format_rfc3339_nano t = format_date (t div day_ns) @ ''T'' @ format_clock (t mod day_ns) @ ''Z''"

section \<open>Parsing\<close>

definition two_digits :: "string \<Rightarrow> (int \<times> string) option" where
  "two_digits s =
     (case s of a # b # rest \<Rightarrow>
        if is_digit a \<and> is_digit b then Some (int (digits_value [a, b]), rest) else None
      | _ \<Rightarrow> None)"

text \<open>One or two digits, as many as there are.\<close>

definition short_number :: "string \<Rightarrow> (int \<times> string) option" where
  "short_number s =
     (case two_digits s of
        Some r \<Rightarrow> Some r
      | None \<Rightarrow> (case s of a # rest \<Rightarrow> if is_digit a then Some (int (digits_value [a]), rest) else None
                 | [] \<Rightarrow> None))"

definition four_digits :: "string \<Rightarrow> (int \<times> string) option" where
  "four_digits s =
     (if length s \<ge> 4 \<and> list_all is_digit (take 4 s) then Some (int (digits_value (take 4 s)), drop 4 s) else None)"

definition literal_char :: "char \<Rightarrow> string \<Rightarrow> string option" where
  "literal_char c s = (case s of a # rest \<Rightarrow> if a = c then Some rest else None | [] \<Rightarrow> None)"

text \<open>A space of a layout matches any number of spaces, and the end of the text.\<close>

definition literal_space :: "string \<Rightarrow> string option" where
  "literal_space s =
     (case s of [] \<Rightarrow> Some []
      | a # rest \<Rightarrow> if a = CHR '' '' then Some (dropWhile (\<lambda>c. c = CHR '' '') s) else None)"

definition valid_date :: "int \<Rightarrow> int \<Rightarrow> int \<Rightarrow> bool" where
  "valid_date year month day \<longleftrightarrow> 1 \<le> month \<and> month \<le> 12 \<and> 1 \<le> day \<and> day \<le> days_in month year"

text \<open>\<open>2006-01-02\<close> at the front of a text: the day number and the rest.\<close>

definition date_prefix :: "string \<Rightarrow> (int \<times> string) option" where
  "date_prefix s =
     Option.bind (four_digits s) (\<lambda>(year, r1).
     Option.bind (literal_char CHR ''-'' r1) (\<lambda>r2.
     Option.bind (two_digits r2) (\<lambda>(month, r3).
     Option.bind (literal_char CHR ''-'' r3) (\<lambda>r4.
     Option.bind (two_digits r4) (\<lambda>(day, r5).
       if valid_date year month day then Some (days_from_civil year month day, r5) else None)))))"

text \<open>\<open>15:04:05\<close> with an optional fraction of a second: nanoseconds of the day and the rest.\<close>

definition clock_prefix :: "string \<Rightarrow> (int \<times> string) option" where
  "clock_prefix s =
     Option.bind (short_number s) (\<lambda>(hour, r1).
     Option.bind (literal_char CHR '':'' r1) (\<lambda>r2.
     Option.bind (two_digits r2) (\<lambda>(minute, r3).
     Option.bind (literal_char CHR '':'' r3) (\<lambda>r4.
     Option.bind (two_digits r4) (\<lambda>(sec, r5).
       if hour \<ge> 24 \<or> minute \<ge> 60 \<or> sec \<ge> 60 then None
       else
         (let whole_ns = (hour * 3600 + minute * 60 + sec) * second_ns in
          case r5 of
            a # b # rest \<Rightarrow>
              if (a = CHR ''.'' \<or> a = CHR '','') \<and> is_digit b then
                (let ds = takeWhile is_digit (b # rest)
                 in Some (whole_ns + int (digits_value (take 9 (ds @ replicate 9 (CHR ''0'')))),
                          dropWhile is_digit (b # rest)))
              else Some (whole_ns, r5)
          | _ \<Rightarrow> Some (whole_ns, r5)))))))"

text \<open>\<open>Z07:00\<close>: the offset in seconds.\<close>

definition zone_suffix :: "string \<Rightarrow> (int \<times> string) option" where
  "zone_suffix s =
     (case s of
        [] \<Rightarrow> None
      | c # r0 \<Rightarrow>
          if c = CHR ''Z'' then Some (0, r0)
          else if c = CHR ''+'' \<or> c = CHR ''-'' then
            Option.bind (two_digits r0) (\<lambda>(hour, r1).
            Option.bind (literal_char CHR '':'' r1) (\<lambda>r2.
            Option.bind (two_digits r2) (\<lambda>(minute, r3).
              if hour > 24 \<or> minute \<ge> 60 then None
              else Some ((if c = CHR ''-'' then - 1 else 1) * (hour * 3600 + minute * 60), r3))))
          else None)"

definition at_end :: "('a \<times> string) option \<Rightarrow> 'a option" where
  "at_end r = (case r of Some (x, []) \<Rightarrow> Some x | _ \<Rightarrow> None)"

text \<open>\<open>time.RFC3339\<close>, and \<open>time.RFC3339Nano\<close>, which accepts the same texts.\<close>

definition parse_rfc3339 :: "string \<Rightarrow> date_time option" where
  "parse_rfc3339 s =
     Option.bind (date_prefix s) (\<lambda>(days, r1).
     Option.bind (literal_char CHR ''T'' r1) (\<lambda>r2.
     Option.bind (clock_prefix r2) (\<lambda>(ns, r3).
     Option.bind (at_end (zone_suffix r3)) (\<lambda>offset.
       Some \<lparr>dt_instant = days * day_ns + ns - offset * second_ns, dt_offset = offset\<rparr>))))"

definition utc_day :: "int \<Rightarrow> date_time" where
  "utc_day days = \<lparr>dt_instant = days * day_ns, dt_offset = 0\<rparr>"

definition parse_iso_date :: "string \<Rightarrow> date_time option" where
  "parse_iso_date s = map_option utc_day (at_end (date_prefix s))"

definition parse_iso_clock :: "string \<Rightarrow> date_time option" where
  "parse_iso_clock s =
     Option.bind (date_prefix s) (\<lambda>(days, r1).
     Option.bind (literal_space r1) (\<lambda>r2.
     Option.bind (at_end (clock_prefix r2)) (\<lambda>ns.
       Some \<lparr>dt_instant = days * day_ns + ns, dt_offset = 0\<rparr>)))"

definition long_months :: "string list" where
  "long_months = [''January'', ''February'', ''March'', ''April'', ''May'', ''June'', ''July'', ''August'',
     ''September'', ''October'', ''November'', ''December'']"

text \<open>The first name of a list the text starts with, in any case: its number and the rest.\<close>

fun lookup_name :: "int \<Rightarrow> string list \<Rightarrow> string \<Rightarrow> (int \<times> string) option" where
  "lookup_name i [] s = None"
| "lookup_name i (name # names) s =
     (if length s \<ge> length name \<and> equal_fold (take (length name) s) name
      then Some (i, drop (length name) s) else lookup_name (i + 1) names s)"

text \<open>\<open>Jan 2, 2006\<close> and \<open>January 2, 2006\<close>, by their list of month names.\<close>

definition parse_month_date :: "string list \<Rightarrow> string \<Rightarrow> date_time option" where
  "parse_month_date names s =
     Option.bind (lookup_name 1 names s) (\<lambda>(month, r1).
     Option.bind (literal_space r1) (\<lambda>r2.
     Option.bind (short_number r2) (\<lambda>(day, r3).
     Option.bind (literal_char CHR '','' r3) (\<lambda>r4.
     Option.bind (literal_space r4) (\<lambda>r5.
     Option.bind (at_end (four_digits r5)) (\<lambda>year.
       if valid_date year month day then Some (utc_day (days_from_civil year month day)) else None))))))"

definition parse_short_month_date :: "string \<Rightarrow> date_time option" where
  "parse_short_month_date = parse_month_date (map (take 3) long_months)"

definition parse_long_month_date :: "string \<Rightarrow> date_time option" where
  "parse_long_month_date = parse_month_date long_months"

text \<open>The first layout that accepts the text.\<close>

fun first_parse :: "(string \<Rightarrow> date_time option) list \<Rightarrow> string \<Rightarrow> date_time option" where
  "first_parse [] s = None"
| "first_parse (p # ps) s = (case p s of Some t \<Rightarrow> Some t | None \<Rightarrow> first_parse ps s)"

end
