(* ===== verification/Rental_Facts.thy ===== *)
theory Rental_Facts
  imports Json Go_Time Prelude
begin

text \<open>
  Rental facts (\<open>internal/zillow/rental_facts.go\<close>) and the housing-type detection of
  \<open>internal/zillow/housing_type.go\<close>: the normal form of a text, the classification of laundry,
  parking, pets and extra rooms from feature lists and descriptions, and the dates of a listing.

  The regular expressions of the source are alternatives of literal phrases between word
  boundaries; they are modelled as phrase lists and one search (\<open>word_search\<close>), with optional
  words and alternatives multiplied out.
\<close>

section \<open>Texts\<close>

text \<open>\<open>spacePattern.ReplaceAllString(s, " ")\<close>: each run of space becomes one blank.\<close>

fun collapse_space :: "bool \<Rightarrow> string \<Rightarrow> string" where
  "collapse_space inside [] = []"
| "collapse_space inside (c # cs) =
     (if is_space c then (if inside then collapse_space True cs else CHR '' '' # collapse_space True cs)
      else c # collapse_space False cs)"

definition canonical_text :: "string \<Rightarrow> string" where
  "canonical_text v =
     trim_space (collapse_space False (map (\<lambda>c. if is_letter c \<or> is_digit c then c else CHR '' '') (to_lower v)))"

definition contains_term :: "string \<Rightarrow> string list \<Rightarrow> bool" where
  "contains_term v terms \<longleftrightarrow> list_ex (contains v) terms"

definition contains_term_fold :: "string \<Rightarrow> string list \<Rightarrow> bool" where
  "contains_term_fold v terms \<longleftrightarrow> contains_term (to_lower v) terms"

definition contains_word :: "string \<Rightarrow> string \<Rightarrow> bool" where
  "contains_word v word \<longleftrightarrow> word \<in> set (text_fields v)"

text \<open>
  \<open>uniqueStrings\<close>: trim, skip the empty ones, keep the first of every spelling; \<open>seen\<close> holds the
  lower-cased strings kept so far.
\<close>

fun unique_from :: "string list \<Rightarrow> string list \<Rightarrow> string list" where
  "unique_from seen [] = []"
| "unique_from seen (s # ss) =
     (let key = to_lower s in if key \<in> set seen then unique_from seen ss else s # unique_from (key # seen) ss)"

definition unique_strings :: "string list \<Rightarrow> string list" where
  "unique_strings vs = unique_from [] (filter (\<lambda>s. s \<noteq> []) (map trim_space vs))"

definition string_values :: "json \<Rightarrow> string list" where
  "string_values v =
     (case v of
        JString s \<Rightarrow> if trim_space s \<noteq> [] then [trim_space s] else []
      | JStrings xs \<Rightarrow> unique_strings xs
      | JArray items \<Rightarrow>
          unique_strings (List.map_filter (\<lambda>item. case item of
            JString s \<Rightarrow> if trim_space s \<noteq> [] then Some s else None | _ \<Rightarrow> None) items)
      | _ \<Rightarrow> [])"

text \<open>The closure \<open>walk\<close> of \<open>recursiveStrings\<close>.\<close>

definition text_key :: "string \<Rightarrow> bool" where
  "text_key key \<longleftrightarrow> contains_term_fold key [''room'', ''feature'', ''description'', ''type'', ''name'']"

fun walk_strings :: "json \<Rightarrow> string list" where
  "walk_strings (JString s) = (if trim_space s \<noteq> [] then [trim_space s] else [])"
| "walk_strings (JStrings xs) = concat (map (\<lambda>s. if trim_space s \<noteq> [] then [trim_space s] else []) xs)"
| "walk_strings (JArray items) = concat (map walk_strings items)"
| "walk_strings (JObject obj) = concat (map (\<lambda>(key, item). if text_key key then walk_strings item else []) obj)"
| "walk_strings _ = []"

definition recursive_strings :: "json \<Rightarrow> string list" where
  "recursive_strings v = unique_strings (walk_strings v)"

definition boolean_value :: "json \<Rightarrow> bool" where
  "boolean_value v = (case v of JBool b \<Rightarrow> b | _ \<Rightarrow> False)"

fun first_non_nil :: "json list \<Rightarrow> json" where
  "first_non_nil [] = JNull"
| "first_non_nil (v # vs) = (if v \<noteq> JNull then v else first_non_nil vs)"

section \<open>Word searches\<close>

definition is_word_char :: "char \<Rightarrow> bool" where
  "is_word_char c \<longleftrightarrow> is_letter c \<or> is_digit c \<or> c = CHR ''_''"

text \<open>
  Search for a match that starts and ends at a word boundary. The matcher yields what follows the
  match; every pattern of the program starts and ends with a word character.
\<close>

fun word_search :: "(string \<Rightarrow> string option) \<Rightarrow> bool \<Rightarrow> string \<Rightarrow> bool" where
  "word_search m after_word [] = False"
| "word_search m after_word (c # cs) =
     ((\<not> after_word \<and> is_word_char c
       \<and> (case m (c # cs) of Some rest \<Rightarrow> rest = [] \<or> \<not> is_word_char (hd rest) | None \<Rightarrow> False))
      \<or> word_search m (is_word_char c) cs)"

definition match_phrase :: "string \<Rightarrow> string \<Rightarrow> string option" where
  "match_phrase p s = (if has_prefix s p then Some (drop (length p) s) else None)"

definition matches_any :: "string list \<Rightarrow> string \<Rightarrow> bool" where
  "matches_any phrases text \<longleftrightarrow> list_ex (\<lambda>p. word_search (match_phrase p) False text) phrases"

section \<open>Classification\<close>

text \<open>\<open>strings.ReplaceAll(s, old, "")\<close>, skipping the rest of a match.\<close>

fun remove_from :: "string \<Rightarrow> nat \<Rightarrow> string \<Rightarrow> string" where
  "remove_from old n [] = []"
| "remove_from old (Suc n) (c # cs) = remove_from old n cs"
| "remove_from old 0 (c # cs) =
     (if has_prefix (c # cs) old then remove_from old (length old - 1) cs else c # remove_from old 0 cs)"

definition is_laundry_appliance :: "string \<Rightarrow> bool" where
  "is_laundry_appliance v =
     (let text = canonical_text v in
      if text = [] then False
      else
        (let text1 = (if contains text ''dishwasher'' then remove_from ''dishwasher'' 0 text else text)
         in contains_word text1 ''washer'' \<or> contains_word text1 ''dryer''
            \<or> contains_term text1 [''laundry'', ''wd hookup'', ''w d hookup'']))"

definition facts_text :: "string list \<Rightarrow> string" where
  "facts_text parts = canonical_text (join '' | '' parts)"

definition classify_laundry :: "string list \<Rightarrow> string \<Rightarrow> string" where
  "classify_laundry features description =
     (let structured = facts_text features; combined = facts_text (features @ [description]) in
      if contains_term structured [''hookup'', ''hook up'', ''connections'']
         \<or> contains_term combined [''washer dryer hookups'', ''washer and dryer hookups'', ''w d hookups'']
      then ''hookups''
      else if contains_term combined [''shared laundry'', ''community laundry'', ''common laundry'', ''coin laundry'',
                ''coin operated'', ''on site laundry''] then ''shared''
      else if contains_term combined [''no laundry'', ''no washer'', ''laundry not available''] then ''none''
      else if contains_term combined [''in unit laundry'', ''in unit washer'', ''in unit dryer'', ''washer dryer in unit'',
                ''washer and dryer in unit'', ''in home laundry'', ''in home washer'', ''in home dryer'',
                ''private laundry'', ''private washer'', ''inside laundry'', ''washer dryer included'',
                ''washer and dryer included'']
              \<or> contains_term structured [''in unit''] then ''in-unit''
      else if contains_term structured [''washer'', ''dryer''] \<and> contains structured ''washer'' \<and> contains structured ''dryer''
      then ''in-unit''
      else ''unknown'')"

definition classify_parking :: "string list \<Rightarrow> string \<Rightarrow> string" where
  "classify_parking features description =
     (let structured = facts_text features; combined = facts_text (features @ [description]);
          shared_garage = contains_term combined [''shared garage'', ''community garage'', ''common garage'',
            ''assigned stall'', ''assigned space in garage''] in
      if contains_term combined [''no parking'', ''parking not available''] then ''none''
      else if \<not> shared_garage \<and> contains_term combined [''attached garage'', ''detached garage'', ''private garage'',
                ''exclusive use garage'', ''exclusive garage'', ''standalone garage'', ''individual garage'', ''enclosed garage'']
      then ''private-garage''
      else if contains structured ''garage''
              \<or> contains_term combined [''garage parking'', ''parking garage'', ''shared garage'', ''community garage'', ''common garage'']
      then ''garage''
      else if contains_term structured [''parking'', ''carport'', ''covered'', ''assigned'', ''off street'', ''driveway'', ''open'']
      then ''available''
      else ''unknown'')"

definition classify_pet_policy :: "string list \<Rightarrow> string" where
  "classify_pet_policy allowed_pets =
     (let text = facts_text allowed_pets in
      if text = [] then ''unknown''
      else if contains_term text [''no pets'', ''pets not allowed'', ''no animals''] then ''not-allowed''
      else if contains_term text [''restrictions'', ''restricted'', ''breed'', ''weight limit'', ''deposit'', ''fee''] then ''restricted''
      else if contains_term text [''pets allowed'', ''cats'', ''dogs'', ''small pets'', ''large pets'', ''all pets''] then
        (let generic_permission = contains_term text [''pets allowed'', ''all pets''];
             species_specific = contains_term text [''cats'', ''dogs'', ''small pets'', ''large pets'']
         in if contains_term text [''cats only'', ''dogs only'', ''small dogs''] \<or> (species_specific \<and> \<not> generic_permission)
            then ''restricted'' else ''allowed'')
      else ''unknown'')"

definition two_words :: "string list \<Rightarrow> string list \<Rightarrow> string list" where
  "two_words firsts seconds = concat (map (\<lambda>a. map (\<lambda>b. a @ '' '' @ b) seconds) firsts)"

definition flex_description_phrases :: "string \<Rightarrow> string list" where
  "flex_description_phrases name =
     (if name = ''den'' then [''den'']
      else if name = ''office'' then
        two_words [''home'', ''private'', ''dedicated'', ''separate''] [''office'']
        @ two_words [''office''] [''space'', ''room'', ''area'']
        @ [''office den'', ''den office'']
        @ two_words (two_words [''use'', ''used''] [''as'', ''as a'', ''as an'']) [''office'']
      else if name = ''bonus'' then two_words [''bonus''] [''room'', ''space'', ''area'']
      else if name = ''loft'' then
        two_words [''loft'', ''upstairs loft'', ''open loft''] [''room'', ''space'', ''area''] @ [''upstairs loft'', ''open loft'']
      else if name = ''flex'' then two_words [''flex''] [''room'', ''space'', ''area'']
      else [])"

definition structured_flex_match :: "string \<Rightarrow> string \<Rightarrow> bool" where
  "structured_flex_match name text =
     (if text = [] then False
      else if name = ''bonus'' then contains_term text [''bonus room'', ''bonus space'', ''bonus area'']
      else if name = ''flex'' then contains_term text [''flex room'', ''flex space'', ''flex area'']
      else if name = ''office'' then contains_word text ''office''
      else if name = ''loft'' then contains_word text ''loft''
      else contains_word text name)"

definition flex_names :: "string list" where
  "flex_names = [''den'', ''office'', ''bonus'', ''loft'', ''flex'']"

definition classify_flex_spaces :: "string \<Rightarrow> json_object \<Rightarrow> string \<Rightarrow> string list" where
  "classify_flex_spaces description0 reso parking =
     (let structured = facts_text (concat (map (\<lambda>key. recursive_strings (get reso key))
                         [''rooms'', ''interiorFeatures'', ''otherInteriorFeatures'']));
          description = canonical_text description0
      in filter (\<lambda>name. structured_flex_match name structured
                       \<or> matches_any (flex_description_phrases name) description) flex_names
         @ (if parking = ''private-garage'' then [''private-garage''] else []))"

section \<open>Dates\<close>

record history_event =
  he_date :: date_time
  he_event :: string
  he_rental :: bool

definition lifecycle_reset :: "string \<Rightarrow> bool" where
  "lifecycle_reset ev \<longleftrightarrow> contains_term ev [''listing removed'', ''removed listing'', ''off market'', ''sold'', ''pending sale'']"

definition parse_history_date :: "json \<Rightarrow> date_time option" where
  "parse_history_date v =
     (case string_from_any v of
        None \<Rightarrow> None
      | Some text \<Rightarrow>
          if text = [] then None
          else first_parse [parse_rfc3339, parse_iso_date, parse_short_month_date, parse_long_month_date] text)"

text \<open>The history events that say something about renting.\<close>

fun history_events :: "json list \<Rightarrow> history_event list" where
  "history_events [] = []"
| "history_events (item # items) =
     (case item of
        JObject entry \<Rightarrow>
          (case parse_history_date (get entry ''date'') of
             None \<Rightarrow> history_events items
           | Some date \<Rightarrow>
               (let ev = canonical_text (first_string entry [''event'']);
                    rental = (case bool_from_any (get entry ''postingIsRental'') of Some b \<Rightarrow> b | None \<Rightarrow> False)
                in if \<not> rental \<and> \<not> contains ev ''rent'' \<and> \<not> lifecycle_reset ev then history_events items
                   else \<lparr>he_date = date, he_event = ev, he_rental = rental\<rparr> # history_events items))
      | _ \<Rightarrow> history_events items)"

text \<open>
  The loop over the sorted events, with the listing and the update date; \<open>None\<close> is the zero time.
  A parsed date of 1 January of year 1 would be the zero time as well.
\<close>

definition zero_time :: date_time where "zero_time = \<lparr>dt_instant = 0, dt_offset = 0\<rparr>"

definition is_zero_time :: "date_time \<Rightarrow> bool" where "is_zero_time t \<longleftrightarrow> dt_instant t = 0"

definition history_step :: "history_event \<Rightarrow> date_time \<times> date_time \<Rightarrow> date_time \<times> date_time" where
  "history_step e acc =
     (case acc of (listed, updated) \<Rightarrow>
        if lifecycle_reset (he_event e) then (zero_time, zero_time)
        else if contains_term (he_event e) [''listed for rent'', ''listed for rental'', ''rental listing'']
        then (he_date e, he_date e)
        else if \<not> is_zero_time listed \<and> dt_instant (he_date e) > dt_instant updated then (listed, he_date e)
        else (listed, updated))"

text \<open>\<open>Time.Sub\<close> saturates at the range of int64.\<close>

definition saturated :: "int \<Rightarrow> int" where
  "saturated d = max (- (2 ^ 63)) (min (2 ^ 63 - 1) d)"

definition rental_history_recency :: "json_object \<Rightarrow> date_time \<Rightarrow> string \<times> string \<times> int option" where
  "rental_history_recency raw today =
     (case get raw ''priceHistory'' of
        JArray items \<Rightarrow>
          (let events = sort_stable (\<lambda>a b. dt_instant (he_date a) < dt_instant (he_date b)) (history_events items);
               (listed, updated0) = fold history_step events (zero_time, zero_time)
           in if events = [] \<or> is_zero_time listed then ([], [], None)
              else
                (let updated = (if is_zero_time updated0 then listed else updated0);
                     sub = saturated ((local_day today - local_day listed) * day_ns);
                     difference = (if sub < 0 then - (- sub div day_ns) else sub div day_ns)
                 in (format_day listed, format_day updated, if difference < 0 then None else Some difference)))
      | _ \<Rightarrow> ([], [], None))"

definition unix_date :: "int \<Rightarrow> string" where
  "unix_date v =
     (if v \<le> 0 then []
      else format_day (unix_time (if v > 100000000000 then v div 1000 else v)))"

definition normalized_availability :: "json \<Rightarrow> string" where
  "normalized_availability v =
     (case v of
        JNull \<Rightarrow> []
      | JString s \<Rightarrow>
          (let text = trim_space s in
           if text = [] then []
           else case parse_int64 text of
                  Some n \<Rightarrow> unix_date n
                | None \<Rightarrow>
                    (case first_parse [parse_rfc3339, parse_iso_date, parse_iso_clock, parse_short_month_date,
                                       parse_long_month_date] text of
                       Some t \<Rightarrow> format_day t
                     | None \<Rightarrow> text))
      | _ \<Rightarrow> (case int64_from_any v of Some n \<Rightarrow> unix_date n | None \<Rightarrow> []))"

section \<open>Housing types\<close>

definition shared_housing_phrases :: "string list" where
  "shared_housing_phrases =
     [''room for rent'', ''private room'', ''shared room'', ''shared housing'', ''shared apartment'', ''rent by the room'',
      ''individual lease'', ''individual leasing'', ''per person'', ''per bed'', ''bed space'', ''bedspace'',
      ''co-living'', ''co living'', ''coliving'', ''communal living'']"

definition student_housing_phrases :: "string list" where
  "student_housing_phrases =
     [''student housing'', ''student apartment'', ''campus housing'', ''university housing'', ''dorm'', ''dormitory'', ''residence hall'']"

definition income_restricted_phrases :: "string list" where
  "income_restricted_phrases =
     [''income restricted'', ''income-restricted'', ''income limit'', ''income limits'', ''maximum income'', ''affordable housing'',
      ''below market rate'', ''bmr housing'', ''area median income'', ''ami limit'', ''ami limits'']"

text \<open>\<open>[0-9]+rm[0-9]+\<close> and \<open>bedroom [a-z0-9]+\<close>, with the longest run at each \<open>+\<close>.\<close>

definition match_room_number :: "string \<Rightarrow> string option" where
  "match_room_number s =
     (let t = dropWhile is_digit s; u = drop 2 t in
      if takeWhile is_digit s \<noteq> [] \<and> has_prefix t ''rm'' \<and> takeWhile is_digit u \<noteq> []
      then Some (dropWhile is_digit u) else None)"

definition match_unit_room :: "string \<Rightarrow> string option" where
  "match_unit_room s = (if has_prefix s ''unit '' then match_room_number (drop 5 s) else match_room_number s)"

definition match_bedroom :: "string \<Rightarrow> string option" where
  "match_bedroom s =
     (let t = drop 8 s; p = (\<lambda>c. is_lower c \<or> is_digit c) in
      if has_prefix s ''bedroom '' \<and> takeWhile p t \<noteq> [] then Some (dropWhile p t) else None)"

definition room_unit_match :: "string \<Rightarrow> bool" where
  "room_unit_match text \<longleftrightarrow> word_search match_unit_room False text \<or> word_search match_bedroom False text"

definition flag :: "json_object \<Rightarrow> string \<Rightarrow> bool" where
  "flag obj key \<longleftrightarrow> bool_from_any (get obj key) = Some True"

text \<open>The two flags (shared, student) that one type field sets.\<close>

definition type_field_flags :: "string \<Rightarrow> bool \<times> bool" where
  "type_field_flags v =
     (if v = [] \<or> v = ''none'' \<or> v = ''not student housing'' then (False, False)
      else (contains v ''individual lease'' \<or> contains v ''per bed'',
            contains v ''student'' \<or> contains v ''individual lease'' \<or> contains v ''per bed''))"

definition unit_flags :: "json \<Rightarrow> bool \<times> bool" where
  "unit_flags item =
     (case item of
        JObject unit \<Rightarrow>
          (let unit_type = canonical_text (first_string unit [''studentHousingType'']);
               student = (unit_type \<noteq> [] \<and> unit_type \<noteq> ''none'')
           in (flag unit ''roomForRent''
               \<or> (student \<and> (contains unit_type ''individual'' \<or> contains unit_type ''bed'')), student))
      | _ \<Rightarrow> (False, False))"

definition detect_shared_and_student_housing :: "json_object \<Rightarrow> string \<Rightarrow> string \<Rightarrow> bool \<times> bool" where
  "detect_shared_and_student_housing raw description address =
     (let types = map (\<lambda>key. type_field_flags (canonical_text (first_string raw [key])))
                    [''studentHousingType'', ''communityType'', ''communitySubType'', ''buildingType''];
          units = (case get raw ''units'' of JArray items \<Rightarrow> map unit_flags items | _ \<Rightarrow> []);
          text = canonical_text (join '' | '' [description, address])
      in (flag raw ''roomForRent'' \<or> flag raw ''isRoomForRent''
          \<or> (case get raw ''listing_sub_type'' of JObject sub \<Rightarrow> flag sub ''is_roomForRent'' | _ \<Rightarrow> False)
          \<or> list_ex fst types \<or> list_ex fst units
          \<or> matches_any shared_housing_phrases text \<or> room_unit_match (canonical_text address),
          flag raw ''isStudentHousing'' \<or> list_ex snd types \<or> list_ex snd units
          \<or> matches_any student_housing_phrases text))"

definition has_income_restriction_object :: "json \<Rightarrow> bool" where
  "has_income_restriction_object v =
     (case v of
        JObject obj \<Rightarrow>
          if obj = [] then False
          else (case get obj ''incomeLimits'' of JArray limits \<Rightarrow> limits \<noteq> [] | _ \<Rightarrow> True)
      | JArray items \<Rightarrow> items \<noteq> []
      | _ \<Rightarrow> False)"

definition income_flags :: "json_object \<Rightarrow> bool" where
  "income_flags obj \<longleftrightarrow> list_ex (flag obj) [''isIncomeRestricted'', ''isLowIncome'', ''showIncomeRestrictedCTA'']"

definition attribute_restrictions :: "json_object \<Rightarrow> bool" where
  "attribute_restrictions obj =
     (case get obj ''buildingAttributes'' of
        JObject attributes \<Rightarrow> has_income_restriction_object (get attributes ''incomeRestrictions'') | _ \<Rightarrow> False)"

definition detect_income_restricted_housing :: "json_object \<Rightarrow> string \<Rightarrow> bool" where
  "detect_income_restricted_housing raw description \<longleftrightarrow>
     income_flags raw \<or> has_income_restriction_object (get raw ''incomeRestrictions'') \<or> attribute_restrictions raw
     \<or> (case get raw ''building'' of
          JObject building \<Rightarrow> income_flags building \<or> attribute_restrictions building | _ \<Rightarrow> False)
     \<or> matches_any income_restricted_phrases (canonical_text description)"

end
