(* ===== verification/Retry.thy ===== *)
theory Retry
  imports Models Prelude
begin

text \<open>
  The two retry loops of the program: \<open>fetchWithRetry\<close> of \<open>internal/cli/search_retry.go\<close> around a
  whole location, and \<open>retryDiscoveryRequest\<close> of \<open>internal/zillow/search_discovery.go\<close> around
  each request of a discovery.

  The environment of a loop is what the n-th request returns and what the n-th wait returns (an
  error when the context is cancelled); any execution is covered, since the outcomes may be
  chosen after the fact. A loop yields its result and the log of what it did. Durations are
  int64 nanoseconds.
\<close>

section \<open>Backoff\<close>

definition minute :: int where "minute = 60 * 10 ^ 9"

text \<open>The loop of \<open>exponentialBackoff\<close>, which \<open>discoveryRetryBackoff\<close> repeats.\<close>

fun backoff_loop :: "nat \<Rightarrow> int \<Rightarrow> int" where
  "backoff_loop 0 delay = (if delay > 5 * minute then 5 * minute else delay)"
| "backoff_loop (Suc n) delay =
     (if delay \<ge> 5 * minute div 2 then 5 * minute else backoff_loop n (i64 (delay * 2)))"

definition exponential_backoff :: "int \<Rightarrow> int \<Rightarrow> int" where
  "exponential_backoff base attempt = (if base \<le> 0 then 0 else backoff_loop (nat attempt) base)"

definition discovery_retry_backoff :: "int \<Rightarrow> int \<Rightarrow> int" where
  "discovery_retry_backoff base attempt = (if base \<le> 0 then 0 else backoff_loop (nat attempt) base)"

lemma backoff_loop_exact: "0 \<le> delay \<Longrightarrow> backoff_loop n delay = min (5 * minute) (delay * 2 ^ n)"
proof (induction n arbitrary: delay)
  case 0
  then show ?case by (simp add: min_def)
next
  case (Suc n)
  show ?case
  proof (cases "delay \<ge> 5 * minute div 2")
    case True
    have "(1::int) \<le> 2 ^ n" by simp
    then have "delay * 2 \<le> delay * 2 * 2 ^ n"
      using Suc.prems mult_left_mono [of 1 "2 ^ n" "delay * 2"] by simp
    moreover have "5 * minute \<le> delay * 2" using True by (simp add: minute_def)
    ultimately show ?thesis using True by (simp add: mult.assoc)
  next
    case False
    then have "i64 (delay * 2) = delay * 2"
      using Suc.prems by (intro i64_id) (simp add: minute_def in_i64_def)
    with False Suc show ?thesis by (simp add: mult.assoc)
  qed
qed

section \<open>Policies and loops\<close>

definition retryable_zillow_error :: "go_error \<Rightarrow> bool" where
  "retryable_zillow_error err \<longleftrightarrow> error_is err ErrChallenge \<or> error_is err ErrRateLimited"

definition discovery_request_retryable :: "go_error \<Rightarrow> bool" where
  "discovery_request_retryable err \<longleftrightarrow> error_is err ErrChallenge \<or> error_is err ErrRateLimited"

record retry_policy =
  rp_retries :: int
  rp_backoff :: int
  rp_on_retry :: bool

definition whole_location_retry_policy :: "bool \<Rightarrow> retry_policy \<Rightarrow> retry_policy" where
  "whole_location_retry_policy discovery policy = (if discovery then policy\<lparr>rp_retries := 0\<rparr> else policy)"

definition validate_policy :: "retry_policy \<Rightarrow> string option" where
  "validate_policy policy =
     (if rp_retries policy < 0 then Some ''location-retries must not be negative''
      else if rp_backoff policy < 0 then Some ''retry-backoff must not be negative''
      else None)"

text \<open>\<open>sleepContext\<close>: only a positive delay can be interrupted.\<close>

definition sleep_context :: "(nat \<Rightarrow> go_error option) \<Rightarrow> nat \<Rightarrow> int \<Rightarrow> go_error option" where
  "sleep_context cancelled n delay = (if delay \<le> 0 then None else cancelled n)"

datatype retry_event = Fetched nat | Notified int int int go_error | Slept int

text \<open>The wait before the next attempt: the backoff, or the server's \<open>Retry-After\<close> when that is longer.\<close>

definition with_retry_after :: "int \<Rightarrow> go_error \<Rightarrow> int" where
  "with_retry_after delay err =
     (case as_rate_limit err of
        Some r \<Rightarrow> if rl_retry_after r > delay then rl_retry_after r else delay
      | None \<Rightarrow> delay)"

function fetch_from ::
  "retry_policy \<Rightarrow> (nat \<Rightarrow> go_error + 'a) \<Rightarrow> (nat \<Rightarrow> int \<Rightarrow> go_error option) \<Rightarrow> nat \<Rightarrow> (go_error + 'a) \<times> retry_event list" where
  "fetch_from policy fetch sleep attempt =
     (case fetch attempt of
        Inr result \<Rightarrow> (Inr result, [Fetched attempt])
      | Inl err \<Rightarrow>
          if int attempt \<ge> rp_retries policy \<or> \<not> retryable_zillow_error err
          then (Inl err, [Fetched attempt])
          else
            (let delay = with_retry_after (exponential_backoff (rp_backoff policy) (int attempt)) err;
                 rest = [Fetched attempt]
                   @ (if rp_on_retry policy
                      then [Notified (int attempt + 2) (i64 (rp_retries policy + 1)) delay err] else [])
                   @ [Slept delay]
             in case sleep attempt delay of
                  Some cancelled \<Rightarrow> (Inl cancelled, rest)
                | None \<Rightarrow> (case fetch_from policy fetch sleep (Suc attempt) of
                             (res, tr) \<Rightarrow> (res, rest @ tr))))"
  by auto
termination
  by (relation "measure (\<lambda>(policy, fetch, sleep, attempt). nat (rp_retries policy - int attempt))") auto

declare fetch_from.simps [simp del]

definition fetch_with_retry ::
  "retry_policy \<Rightarrow> (nat \<Rightarrow> go_error + 'a) \<Rightarrow> (nat \<Rightarrow> int \<Rightarrow> go_error option) \<Rightarrow> (go_error + 'a) \<times> retry_event list" where
  "fetch_with_retry policy fetch sleep = fetch_from policy fetch sleep 0"

function discovery_from ::
  "int \<Rightarrow> int \<Rightarrow> (nat \<Rightarrow> go_error + 'a) \<Rightarrow> (nat \<Rightarrow> int \<Rightarrow> go_error option) \<Rightarrow> nat \<Rightarrow> (go_error + 'a) \<times> retry_event list" where
  "discovery_from retries backoff request sleep attempt =
     (case request attempt of
        Inr result \<Rightarrow> (Inr result, [Fetched attempt])
      | Inl err \<Rightarrow>
          if int attempt \<ge> retries \<or> \<not> discovery_request_retryable err
          then (Inl err, [Fetched attempt])
          else
            (let delay = with_retry_after (discovery_retry_backoff backoff (int attempt)) err;
                 rest = [Fetched attempt, Notified (int attempt + 2) (i64 (retries + 1)) delay err]
                   @ (if delay > 0 then [Slept delay] else [])
             in case (if delay > 0 then sleep attempt delay else None) of
                  Some cancelled \<Rightarrow> (Inl cancelled, rest)
                | None \<Rightarrow> (case discovery_from retries backoff request sleep (Suc attempt) of
                             (res, tr) \<Rightarrow> (res, rest @ tr))))"
  by auto
termination
  by (relation "measure (\<lambda>(retries, backoff, request, sleep, attempt). nat (retries - int attempt))") auto

declare discovery_from.simps [simp del]

definition retry_discovery_request ::
  "int \<Rightarrow> int \<Rightarrow> (nat \<Rightarrow> go_error + 'a) \<Rightarrow> (nat \<Rightarrow> int \<Rightarrow> go_error option) \<Rightarrow> (go_error + 'a) \<times> retry_event list" where
  "retry_discovery_request retries backoff request sleep = discovery_from retries backoff request sleep 0"

section \<open>The contract of a retry loop\<close>

text \<open>The requests and the waits of a log.\<close>

definition fetches :: "retry_event list \<Rightarrow> nat list" where
  "fetches tr = List.map_filter (\<lambda>ev. case ev of Fetched n \<Rightarrow> Some n | _ \<Rightarrow> None) tr"

definition waits :: "retry_event list \<Rightarrow> int list" where
  "waits tr = List.map_filter (\<lambda>ev. case ev of Slept d \<Rightarrow> Some d | _ \<Rightarrow> None) tr"

lemma log_simps [simp]:
  "fetches [] = []" "fetches (Fetched n # tr) = n # fetches tr" "fetches (Notified a m d e # tr) = fetches tr"
  "fetches (Slept d # tr) = fetches tr" "fetches (tr @ tr') = fetches tr @ fetches tr'"
  "waits [] = []" "waits (Fetched n # tr) = waits tr" "waits (Notified a m d e # tr) = waits tr"
  "waits (Slept d # tr) = d # waits tr" "waits (tr @ tr') = waits tr @ waits tr'"
  by (simp_all add: fetches_def waits_def map_filter_simps) (simp_all add: map_filter_def)

text \<open>
  What both loops promise of one attempt: they stop on success, on the last attempt and on an
  error that is not worth a retry; otherwise they wait at least the backoff and the server's
  \<open>Retry-After\<close>, and go on unless the wait was cancelled.
\<close>

locale retry_loop =
  fixes attempt :: "(nat \<Rightarrow> go_error + 'a) \<Rightarrow> (nat \<Rightarrow> int \<Rightarrow> go_error option) \<Rightarrow> nat \<Rightarrow> (go_error + 'a) \<times> retry_event list"
    and retries :: int
    and delay_of :: "nat \<Rightarrow> go_error \<Rightarrow> int"
    and retry_worthy :: "go_error \<Rightarrow> bool"
  assumes on_success: "request n = Inr r \<Longrightarrow> attempt request sleep n = (Inr r, [Fetched n])"
    and on_stop: "request n = Inl e \<Longrightarrow> retries \<le> int n \<or> \<not> retry_worthy e \<Longrightarrow>
      attempt request sleep n = (Inl e, [Fetched n])"
    and on_retry: "request n = Inl e \<Longrightarrow> int n < retries \<Longrightarrow> retry_worthy e \<Longrightarrow>
      \<exists>rest. fetches rest = [] \<and> (delay_of n e > 0 \<longrightarrow> waits rest = [delay_of n e])
        \<and> set (waits rest) \<subseteq> {delay_of n e} \<and>
        (attempt request sleep n = (case attempt request sleep (Suc n) of (res, tr) \<Rightarrow> (res, Fetched n # rest @ tr))
         \<or> (\<exists>c. sleep n (delay_of n e) = Some c \<and> attempt request sleep n = (Inl c, Fetched n # rest)))"
begin

lemma retry_induct [case_names go]:
  assumes "\<And>n. (\<And>e. request n = Inl e \<Longrightarrow> int n < retries \<Longrightarrow> retry_worthy e \<Longrightarrow> P (Suc n)) \<Longrightarrow> P n"
  shows "P n"
proof (induction "nat (retries - int n)" arbitrary: n rule: less_induct)
  case less
  show ?case
  proof (rule assms)
    assume "int n < retries"
    then show "P (Suc n)" by (intro less) linarith
  qed
qed

text \<open>Requests are made one after the other, and never more than the budget allows.\<close>

lemma fetches_bounded:
  "\<exists>k. fetches (snd (attempt request sleep n)) = [n..<Suc (n + k)] \<and> int (n + k) \<le> max (int n) retries"
proof (induction n rule: retry_induct [where request = request])
  case (go n)
  show ?case
  proof (cases "request n")
    case (Inr r)
    then show ?thesis by (intro exI [of _ 0]) (simp add: on_success)
  next
    case (Inl e)
    show ?thesis
    proof (cases "int n < retries \<and> retry_worthy e")
      case False
      with Inl show ?thesis by (intro exI [of _ 0]) (simp add: on_stop not_less)
    next
      case True
      then obtain rest where rest: "fetches rest = []"
        and or: "attempt request sleep n = (case attempt request sleep (Suc n) of (res, tr) \<Rightarrow> (res, Fetched n # rest @ tr))
         \<or> (\<exists>c. sleep n (delay_of n e) = Some c \<and> attempt request sleep n = (Inl c, Fetched n # rest))"
        using on_retry [of request n e sleep] Inl by meson
      obtain k where k: "fetches (snd (attempt request sleep (Suc n))) = [Suc n..<Suc (Suc n + k)]"
        "int (Suc n + k) \<le> max (int (Suc n)) retries"
        using go.IH [OF Inl] True by blast
      from or show ?thesis
      proof
        assume "attempt request sleep n = (case attempt request sleep (Suc n) of (res, tr) \<Rightarrow> (res, Fetched n # rest @ tr))"
        then have "fetches (snd (attempt request sleep n)) = n # [Suc n..<Suc (Suc n + k)]"
          using k(1) rest by (simp add: case_prod_beta)
        also have "\<dots> = [n..<Suc (n + Suc k)]" by (simp add: upt_rec)
        finally show ?thesis using k(2) True by (intro exI [of _ "Suc k"]) simp
      next
        assume "\<exists>c. sleep n (delay_of n e) = Some c \<and> attempt request sleep n = (Inl c, Fetched n # rest)"
        then show ?thesis using rest by (intro exI [of _ 0]) auto
      qed
    qed
  qed
qed

text \<open>A result comes from the last request made, and every request before it failed in a retryable way.\<close>

lemma success_is_first:
  "fst (attempt request sleep n) = Inr r \<Longrightarrow>
   \<exists>k \<ge> n. request k = Inr r \<and> fetches (snd (attempt request sleep n)) = [n..<Suc k]
     \<and> (\<forall>i \<in> {n..<k}. \<exists>e. request i = Inl e \<and> retry_worthy e)"
proof (induction n rule: retry_induct [where request = request])
  case (go n)
  show ?case
  proof (cases "request n")
    case (Inr r')
    with go.prems show ?thesis by (intro exI [of _ n]) (simp add: on_success)
  next
    case (Inl e)
    have worth: "int n < retries \<and> retry_worthy e"
      using go.prems Inl on_stop [of request n e sleep] by (cases "int n < retries"; cases "retry_worthy e") auto
    then obtain rest where rest: "fetches rest = []"
      and or: "attempt request sleep n = (case attempt request sleep (Suc n) of (res, tr) \<Rightarrow> (res, Fetched n # rest @ tr))
       \<or> (\<exists>c. sleep n (delay_of n e) = Some c \<and> attempt request sleep n = (Inl c, Fetched n # rest))"
      using on_retry [of request n e sleep] Inl by meson
    with go.prems have eq: "attempt request sleep n =
        (case attempt request sleep (Suc n) of (res, tr) \<Rightarrow> (res, Fetched n # rest @ tr))" by auto
    with go.prems have "fst (attempt request sleep (Suc n)) = Inr r" by (simp add: case_prod_beta)
    then obtain k where k: "k \<ge> Suc n" "request k = Inr r"
      "fetches (snd (attempt request sleep (Suc n))) = [Suc n..<Suc k]"
      "\<forall>i \<in> {Suc n..<k}. \<exists>e. request i = Inl e \<and> retry_worthy e"
      using go.IH [OF Inl] worth by blast
    have "fetches (snd (attempt request sleep n)) = [n..<Suc k]"
      using eq k(1,3) rest by (simp add: case_prod_beta upt_conv_Cons)
    moreover have "\<forall>i \<in> {n..<k}. \<exists>e. request i = Inl e \<and> retry_worthy e"
      using k(4) Inl worth by (metis atLeastLessThan_iff le_neq_implies_less Suc_le_eq)
    ultimately show ?thesis using k(1,2) by (intro exI [of _ k]) simp
  qed
qed

text \<open>Every wait is the delay the failed attempt before it asks for.\<close>

lemma waits_are_delays:
  "d \<in> set (waits (snd (attempt request sleep n))) \<Longrightarrow>
   \<exists>k e. n \<le> k \<and> request k = Inl e \<and> retry_worthy e \<and> int k < retries \<and> d = delay_of k e"
proof (induction n rule: retry_induct [where request = request])
  case (go n)
  show ?case
  proof (cases "request n")
    case (Inr r')
    with go.prems show ?thesis by (simp add: on_success)
  next
    case (Inl e)
    have worth: "int n < retries \<and> retry_worthy e"
      using go.prems Inl on_stop [of request n e sleep] by (cases "int n < retries"; cases "retry_worthy e") auto
    then obtain rest where rest: "set (waits rest) \<subseteq> {delay_of n e}"
      and or: "attempt request sleep n = (case attempt request sleep (Suc n) of (res, tr) \<Rightarrow> (res, Fetched n # rest @ tr))
       \<or> (\<exists>c. sleep n (delay_of n e) = Some c \<and> attempt request sleep n = (Inl c, Fetched n # rest))"
      using on_retry [of request n e sleep] Inl by meson
    have "d \<in> set (waits rest) \<or> d \<in> set (waits (snd (attempt request sleep (Suc n))))"
      using go.prems or by (auto simp: case_prod_beta)
    then show ?thesis
    proof
      assume "d \<in> set (waits rest)"
      then have "d = delay_of n e" using rest by blast
      with Inl worth show ?thesis by blast
    next
      assume "d \<in> set (waits (snd (attempt request sleep (Suc n))))"
      then show ?thesis using go.IH [OF Inl] worth by (meson Suc_leD)
    qed
  qed
qed

text \<open>A request that succeeds within the budget is reached when no wait is cancelled.\<close>

lemma reaches_success:
  assumes "request k = Inr r" and "int k \<le> retries" and "\<And>i d. sleep i d = None"
  shows "n \<le> k \<Longrightarrow> (\<forall>i \<in> {n..<k}. \<exists>e. request i = Inl e \<and> retry_worthy e) \<Longrightarrow>
    fst (attempt request sleep n) = Inr r"
proof (induction n rule: retry_induct [where request = request])
  case (go n)
  show ?case
  proof (cases "n = k")
    case True
    with assms(1) show ?thesis by (simp add: on_success)
  next
    case False
    then have n: "n < k" using go.prems(1) by simp
    then obtain e where e: "request n = Inl e" "retry_worthy e"
      using go.prems(2) by (meson atLeastLessThan_iff order_refl)
    have lt: "int n < retries" using n assms(2) by simp
    have "fst (attempt request sleep n) = fst (attempt request sleep (Suc n))"
      using on_retry [of request n e sleep] e lt assms(3) by (auto simp: case_prod_beta)
    moreover have "fst (attempt request sleep (Suc n)) = Inr r"
      using go.IH [OF e(1) lt e(2)] n go.prems(2) by simp
    ultimately show ?thesis by simp
  qed
qed

end

section \<open>Both loops keep the contract\<close>

interpretation location: retry_loop "fetch_from policy" "rp_retries policy"
  "\<lambda>n. with_retry_after (exponential_backoff (rp_backoff policy) (int n))" retryable_zillow_error for policy
proof
  fix request :: "nat \<Rightarrow> go_error + 'a" and sleep n and r :: 'a and e
  let ?d = "with_retry_after (exponential_backoff (rp_backoff policy) (int n)) e"
  show "request n = Inr r \<Longrightarrow> fetch_from policy request sleep n = (Inr r, [Fetched n])"
    by (simp add: fetch_from.simps)
  show "request n = Inl e \<Longrightarrow> rp_retries policy \<le> int n \<or> \<not> retryable_zillow_error e \<Longrightarrow>
      fetch_from policy request sleep n = (Inl e, [Fetched n])"
    by (simp add: fetch_from.simps)
  let ?rest = "(if rp_on_retry policy then [Notified (int n + 2) (i64 (rp_retries policy + 1)) ?d e] else []) @ [Slept ?d]"
  assume "request n = Inl e" "int n < rp_retries policy" "retryable_zillow_error e"
  then show "\<exists>rest. fetches rest = [] \<and> (?d > 0 \<longrightarrow> waits rest = [?d]) \<and> set (waits rest) \<subseteq> {?d} \<and>
      (fetch_from policy request sleep n = (case fetch_from policy request sleep (Suc n) of (res, tr) \<Rightarrow> (res, Fetched n # rest @ tr))
       \<or> (\<exists>c. sleep n ?d = Some c \<and> fetch_from policy request sleep n = (Inl c, Fetched n # rest)))"
    by (intro exI [of _ ?rest]) (subst (1 3) fetch_from.simps, cases "sleep n ?d", simp_all add: Let_def)
qed

interpretation discovery: retry_loop "discovery_from retries backoff" retries
  "\<lambda>n. with_retry_after (discovery_retry_backoff backoff (int n))" discovery_request_retryable for retries backoff
proof
  fix request :: "nat \<Rightarrow> go_error + 'a" and sleep n and r :: 'a and e
  let ?d = "with_retry_after (discovery_retry_backoff backoff (int n)) e"
  show "request n = Inr r \<Longrightarrow> discovery_from retries backoff request sleep n = (Inr r, [Fetched n])"
    by (simp add: discovery_from.simps)
  show "request n = Inl e \<Longrightarrow> retries \<le> int n \<or> \<not> discovery_request_retryable e \<Longrightarrow>
      discovery_from retries backoff request sleep n = (Inl e, [Fetched n])"
    by (simp add: discovery_from.simps)
  let ?rest = "[Notified (int n + 2) (i64 (retries + 1)) ?d e] @ (if ?d > 0 then [Slept ?d] else [])"
  assume "request n = Inl e" "int n < retries" "discovery_request_retryable e"
  then show "\<exists>rest. fetches rest = [] \<and> (?d > 0 \<longrightarrow> waits rest = [?d]) \<and> set (waits rest) \<subseteq> {?d} \<and>
      (discovery_from retries backoff request sleep n = (case discovery_from retries backoff request sleep (Suc n) of (res, tr) \<Rightarrow> (res, Fetched n # rest @ tr))
       \<or> (\<exists>c. sleep n ?d = Some c \<and> discovery_from retries backoff request sleep n = (Inl c, Fetched n # rest)))"
    by (intro exI [of _ ?rest]) (subst (1 3) discovery_from.simps, cases "sleep n ?d", simp_all add: Let_def)
qed

section \<open>Properties\<close>

text \<open>
  The backoff doubles from the base and is capped at five minutes, exactly: the loop with its
  early exit computes the minimum of five minutes and base times two to the attempt, for both
  copies of the function and for every int64 base, so no duration ever overflows.
\<close>
theorem backoff_exact:
  "exponential_backoff base n = (if base \<le> 0 then 0 else min (5 * minute) (base * 2 ^ nat n))
   \<and> discovery_retry_backoff base n = exponential_backoff base n"
  by (simp add: exponential_backoff_def discovery_retry_backoff_def backoff_loop_exact)

text \<open>
  A location is requested at most retries + 1 times, one request after the other; with a
  discovery the whole location is requested once.
\<close>
theorem location_fetches_bounded:
  "\<exists>k. fetches (snd (fetch_with_retry policy fetch sleep)) = [0..<Suc k]
     \<and> int k \<le> max 0 (rp_retries policy)
     \<and> fetches (snd (fetch_with_retry (whole_location_retry_policy True policy) fetch sleep)) = [0]"
proof -
  have "fetches (snd (fetch_with_retry (whole_location_retry_policy True policy) fetch sleep)) = [0]"
    using location.fetches_bounded [of "whole_location_retry_policy True policy" fetch sleep 0]
    by (auto simp: fetch_with_retry_def whole_location_retry_policy_def)
  moreover obtain k where "fetches (snd (fetch_with_retry policy fetch sleep)) = [0..<Suc k]"
    "int k \<le> max 0 (rp_retries policy)"
    using location.fetches_bounded [of policy fetch sleep 0] by (auto simp: fetch_with_retry_def)
  ultimately show ?thesis by blast
qed

text \<open>
  The result of a successful fetch is that of the first request that succeeds: every earlier
  one failed with a challenge or a rate limit.
\<close>
theorem location_result_is_first_success:
  assumes "fst (fetch_with_retry policy fetch sleep) = Inr result"
  shows "\<exists>k. fetch k = Inr result \<and> fetches (snd (fetch_with_retry policy fetch sleep)) = [0..<Suc k]
    \<and> (\<forall>i < k. \<exists>err. fetch i = Inl err \<and> (error_is err ErrChallenge \<or> error_is err ErrRateLimited))"
  using location.success_is_first [of policy fetch sleep 0 result] assms
  by (auto simp: fetch_with_retry_def retryable_zillow_error_def)

definition sample_limit :: go_error where
  "sample_limit = Wrap ''search'' (RateLimit \<lparr>rl_url = [], rl_retry_after = 7 * minute, rl_retry_after_raw = ''420''\<rparr>)"

definition sample_fetch :: "nat \<Rightarrow> go_error + nat" where
  "sample_fetch n = (if n < 2 then Inl sample_limit else Inr n)"

definition sample_policy :: retry_policy where
  "sample_policy = \<lparr>rp_retries = 3, rp_backoff = minute, rp_on_retry = True\<rparr>"

theorem location_result_is_first_success_witness:
  "\<exists>k. sample_fetch k = Inr 2 \<and> fetches (snd (fetch_with_retry sample_policy sample_fetch (\<lambda>n d. None))) = [0..<Suc k]
    \<and> (\<forall>i < k. \<exists>err. sample_fetch i = Inl err \<and> (error_is err ErrChallenge \<or> error_is err ErrRateLimited))"
  by (rule location_result_is_first_success) code_simp

text \<open>
  C34: No wait is too short: a wait between two attempts is at least the backoff of the attempt and
  at least the \<open>Retry-After\<close> the server sent with the error, and is one of the two.
\<close>
theorem location_waits_respect_server:
  assumes "d \<in> set (waits (snd (fetch_with_retry policy fetch sleep)))"
  shows "\<exists>k err. fetch k = Inl err \<and> exponential_backoff (rp_backoff policy) (int k) \<le> d
    \<and> (case as_rate_limit err of
         None \<Rightarrow> d = exponential_backoff (rp_backoff policy) (int k)
       | Some r \<Rightarrow> rl_retry_after r \<le> d \<and> d \<in> {rl_retry_after r, exponential_backoff (rp_backoff policy) (int k)})"
proof -
  obtain k err where k: "fetch k = Inl err"
    "d = with_retry_after (exponential_backoff (rp_backoff policy) (int k)) err"
    using location.waits_are_delays [of d policy fetch sleep 0] assms by (auto simp: fetch_with_retry_def)
  then show ?thesis
    by (intro exI [of _ k] exI [of _ err]) (auto simp: with_retry_after_def split: option.split)
qed

theorem location_waits_respect_server_witness:
  "\<exists>k err. sample_fetch k = Inl err \<and> exponential_backoff (rp_backoff sample_policy) (int k) \<le> 7 * minute
    \<and> (case as_rate_limit err of
         None \<Rightarrow> 7 * minute = exponential_backoff (rp_backoff sample_policy) (int k)
       | Some r \<Rightarrow> rl_retry_after r \<le> 7 * minute
           \<and> 7 * minute \<in> {rl_retry_after r, exponential_backoff (rp_backoff sample_policy) (int k)})"
  by (rule location_waits_respect_server [where sleep = "\<lambda>n d. None"]) code_simp

text \<open>
  A discovery request that would succeed within its retries does succeed, when it fails before
  only with challenges and rate limits and no wait is cancelled.
\<close>
theorem discovery_request_succeeds:
  assumes "request k = Inr result" and "int k \<le> retries"
    and "\<And>i. i < k \<Longrightarrow> \<exists>err. request i = Inl err \<and> discovery_request_retryable err"
  shows "fst (retry_discovery_request retries backoff request (\<lambda>n d. None)) = Inr result"
  unfolding retry_discovery_request_def
  by (rule discovery.reaches_success [of request k result]) (use assms in auto)

theorem discovery_request_succeeds_witness:
  "fst (retry_discovery_request 2 minute sample_fetch (\<lambda>n d. None)) = Inr 2"
  by (rule discovery_request_succeeds [of _ 2])
    (simp_all add: sample_fetch_def sample_limit_def discovery_request_retryable_def)

end
