(* ===== verification/Zillow_URL.thy ===== *)
theory Zillow_URL
  imports Go_URL Models
begin

text \<open>
  Which URLs the client may talk to: \<open>parseAllowedZillowURL\<close>, \<open>allowedZillowHost\<close> and
  \<open>resolveSearchEndpoint\<close> of \<open>internal/zillow/profile.go\<close>, with the part of \<open>net/url\<close> that
  resolves a reference against a base.
\<close>

section \<open>Resolving references\<close>

definition path_byte_ok :: "char \<Rightarrow> bool" where
  "path_byte_ok c \<longleftrightarrow> is_letter c \<or> is_digit c \<or> c \<in> set ''-_.~$&+,/:;=@''"

definition percent :: "char \<Rightarrow> string" where
  "percent c = [CHR ''%'', ''0123456789ABCDEF'' ! (byte c div 16), ''0123456789ABCDEF'' ! (byte c mod 16)]"

definition escape_with :: "(char \<Rightarrow> bool) \<Rightarrow> string \<Rightarrow> string" where
  "escape_with ok s = concat (map (\<lambda>c. if ok c then [c] else percent c) s)"

definition valid_encoded_path :: "string \<Rightarrow> bool" where
  "valid_encoded_path s \<longleftrightarrow>
     list_all (\<lambda>c. path_byte_ok c \<or> c \<in> set ''!()*[]%'' \<or> byte c = 39) s"

text \<open>\<open>URL.EscapedPath\<close>: the path as written when that is a valid encoding, the default encoding otherwise.\<close>

definition escaped_path :: "go_url \<Rightarrow> string" where
  "escaped_path u =
     (if u_raw_path u \<noteq> [] \<and> valid_encoded_path (u_raw_path u)
         \<and> unescape EncodePath (u_raw_path u) = Some (u_path u) then u_raw_path u
      else if u_path u = ''*'' then ''*'' else escape_with path_byte_ok (u_path u))"

text \<open>The loop of \<open>resolvePath\<close> over the segments; \<open>out\<close> is the path built so far, with its leading slash.\<close>

fun resolve_segments :: "bool \<Rightarrow> string \<Rightarrow> string list \<Rightarrow> string" where
  "resolve_segments fresh out [] = out"
| "resolve_segments fresh out (elem # rest) =
     (if elem = ''.'' then
        (if rest = [] then out @ ''/'' else resolve_segments False out rest)
      else if elem = ''..'' then
        (case cut_last CHR ''/'' (tl out) of
           None \<Rightarrow> if rest = [] then ''//'' else resolve_segments True ''/'' rest
         | Some (before, _) \<Rightarrow>
             if rest = [] then ''/'' @ before @ ''/'' else resolve_segments fresh (''/'' @ before) rest)
      else resolve_segments False (out @ (if fresh then [] else ''/'') @ elem) rest)"

definition resolve_path :: "string \<Rightarrow> string \<Rightarrow> string" where
  "resolve_path base ref =
     (let full = (if ref = [] then base
                  else if has_prefix ref ''/'' then ref
                  else (case cut_last CHR ''/'' base of None \<Rightarrow> [] | Some (before, _) \<Rightarrow> before @ ''/'') @ ref)
      in if full = [] then []
         else let r = resolve_segments True ''/'' (split_byte CHR ''/'' full)
              in if has_prefix r ''//'' then tl r else r)"

text \<open>\<open>setPath\<close>; the path is left alone when its encoding is not valid.\<close>

definition set_path :: "string \<Rightarrow> go_url \<Rightarrow> go_url" where
  "set_path p u = (case unescape EncodePath p of None \<Rightarrow> u | Some path \<Rightarrow> u\<lparr>u_path := path, u_raw_path := p\<rparr>)"

text \<open>\<open>base.ResolveReference(ref)\<close> for a base with a host and without opaque part.\<close>

definition resolve_reference :: "go_url \<Rightarrow> go_url \<Rightarrow> go_url" where
  "resolve_reference base ref =
     (let u = (if u_scheme ref = [] then ref\<lparr>u_scheme := u_scheme base\<rparr> else ref)
      in if u_scheme ref \<noteq> [] \<or> u_host ref \<noteq> [] \<or> u_userinfo ref \<noteq> None
         then set_path (resolve_path (escaped_path ref) []) u
         else if u_opaque ref \<noteq> [] then u\<lparr>u_userinfo := None, u_host := [], u_path := []\<rparr>
         else
           (let v = (if u_path ref = [] \<and> u_raw_query ref = []
                         \<and> \<not> u_force_query ref
                     then (let w = u\<lparr>u_raw_query := u_raw_query base\<rparr>
                           in if u_fragment ref = []
                              then w\<lparr>u_fragment := u_fragment base, u_raw_fragment := u_raw_fragment base\<rparr> else w)
                     else u)
            in set_path (resolve_path (escaped_path base) (escaped_path ref))
                 (v\<lparr>u_host := u_host base, u_userinfo := u_userinfo base\<rparr>)))"

section \<open>\<open>URL.String\<close>\<close>

definition user_byte_ok :: "char \<Rightarrow> bool" where
  "user_byte_ok c \<longleftrightarrow> is_letter c \<or> is_digit c \<or> c \<in> set ''-_.~$&+,;=''"

definition fragment_byte_ok :: "char \<Rightarrow> bool" where
  "fragment_byte_ok c \<longleftrightarrow> is_letter c \<or> is_digit c \<or> c \<in> set ''-_.~$&+,/:;=?@!()*''"

text \<open>The user information is kept as written; Go keeps it decoded and encodes it again here.\<close>

definition userinfo_string :: "string \<Rightarrow> string" where
  "userinfo_string s =
     (case cut_byte CHR '':'' s of (name, password, found) \<Rightarrow>
        (let enc = (\<lambda>t. case unescape EncodeUserPassword t of None \<Rightarrow> [] | Some d \<Rightarrow> escape_with user_byte_ok d)
         in enc name @ (if found then '':'' @ enc password else [])))"

definition escaped_fragment :: "go_url \<Rightarrow> string" where
  "escaped_fragment u =
     (if u_raw_fragment u \<noteq> []
         \<and> list_all (\<lambda>c. fragment_byte_ok c \<or> c \<in> set ''[]%'' \<or> byte c = 39) (u_raw_fragment u)
         \<and> unescape EncodeFragment (u_raw_fragment u) = Some (u_fragment u) then u_raw_fragment u
      else escape_with fragment_byte_ok (u_fragment u))"

definition authority_string :: "go_url \<Rightarrow> string" where
  "authority_string u =
     (if u_scheme u \<noteq> [] \<or> u_host u \<noteq> [] \<or> u_userinfo u \<noteq> None then
        (if u_omit_host u \<and> u_host u = [] \<and> u_userinfo u = None then []
         else (if u_host u \<noteq> [] \<or> u_path u \<noteq> [] \<or> u_userinfo u \<noteq> None then ''//'' else [])
              @ (case u_userinfo u of None \<Rightarrow> [] | Some ui \<Rightarrow> userinfo_string ui @ ''@'')
              @ escape_with host_byte_ok (u_host u))
      else [])"

definition url_string :: "go_url \<Rightarrow> string" where
  "url_string u =
     (let start = (if u_scheme u \<noteq> [] then u_scheme u @ '':'' else []);
          path = escaped_path u;
          body = (if u_opaque u \<noteq> [] then start @ u_opaque u
                  else
                    (let front = start @ authority_string u;
                         front' = (if path \<noteq> [] \<and> \<not> has_prefix path ''/'' \<and> u_host u \<noteq> [] then front @ ''/'' else front);
                         dot = (if front' = [] \<and> CHR '':'' \<in> set (fst (cut_byte CHR ''/'' path)) then ''./'' else [])
                     in front' @ dot @ path))
      in body @ (if u_force_query u \<or> u_raw_query u \<noteq> [] then ''?'' @ u_raw_query u else [])
              @ (if u_fragment u \<noteq> [] then ''#'' @ escaped_fragment u else []))"

section \<open>The allowlist\<close>

definition allowed_zillow_host :: "string \<Rightarrow> bool" where
  "allowed_zillow_host host \<longleftrightarrow> to_lower host \<in> set [''zillow.com'', ''www.zillow.com'']"

definition parse_allowed_zillow_url :: "string \<Rightarrow> go_error + go_url" where
  "parse_allowed_zillow_url raw =
     (case url_parse (trim_space raw) of
        None \<Rightarrow> Inl (ParseURL (trim_space raw))
      | Some parsed \<Rightarrow>
          if u_scheme parsed \<noteq> ''https'' then Inl (Plain ''URL scheme must be https'')
          else if u_userinfo parsed \<noteq> None then Inl (Plain ''URL must not contain user information'')
          else if url_port parsed \<noteq> [] then Inl (Plain ''URL must not contain an explicit port'')
          else if \<not> allowed_zillow_host (url_hostname parsed) then Inl (HostNotAllowed (url_hostname parsed))
          else Inr parsed)"

definition zillow_base :: go_url where
  "zillow_base = empty_url\<lparr>u_scheme := ''https'', u_host := ''www.zillow.com''\<rparr>"

definition resolve_search_endpoint :: "string \<Rightarrow> go_error + go_url" where
  "resolve_search_endpoint raw0 =
     (let raw = trim_space raw0 in
      if raw = [] then Inl (Plain ''must not be empty'')
      else case url_parse raw of
             None \<Rightarrow> Inl (ParseURL raw)
           | Some parsed \<Rightarrow>
               if u_scheme parsed \<noteq> [] then parse_allowed_zillow_url raw
               else if u_host parsed \<noteq> [] \<or> u_scheme parsed \<noteq> [] \<or> \<not> has_prefix (u_path parsed) ''/''
               then Inl (Plain ''must be an absolute Zillow URL or absolute path'')
               else Inr (resolve_reference zillow_base parsed))"

section \<open>What passes the allowlist\<close>

text \<open>A URL the client may use: HTTPS, no credentials, no port, and a Zillow host.\<close>

definition safe_url :: "go_url \<Rightarrow> bool" where
  "safe_url u \<longleftrightarrow> u_scheme u = ''https'' \<and> u_userinfo u = None \<and> url_port u = []
     \<and> allowed_zillow_host (url_hostname u)"

lemma parse_allowed_safe: "parse_allowed_zillow_url raw = Inr u \<Longrightarrow> safe_url u"
  by (auto simp: parse_allowed_zillow_url_def safe_url_def split: option.splits if_splits)

lemma set_path_fields [simp]:
  "u_scheme (set_path p u) = u_scheme u" "u_host (set_path p u) = u_host u"
  "u_userinfo (set_path p u) = u_userinfo u" "u_opaque (set_path p u) = u_opaque u"
  by (auto simp: set_path_def split: option.splits)

lemma url_port_cong: "u_host u = u_host v \<Longrightarrow> url_port u = url_port v \<and> url_hostname u = url_hostname v"
  by (simp add: url_port_def url_hostname_def)

lemma zillow_base_safe: "url_port zillow_base = [] \<and> allowed_zillow_host (url_hostname zillow_base)"
  by code_simp

text \<open>A reference with a path cannot carry user information of its own, so it lands on the base's host.\<close>

lemma parse_path_no_user:
  assumes "url_parse raw = Some u" and "u_scheme u = []" and "u_host u = []" and "has_prefix (u_path u) ''/''"
  shows "u_opaque u = []"
  using assms
  by (auto simp: url_parse_def parse_rest_def empty_url_def Let_def has_prefix_def
      split: prod.splits option.splits if_splits)

lemma resolve_search_endpoint_safe:
  assumes "resolve_search_endpoint raw = Inr u"
  shows "safe_url u \<or> (\<exists>ref. url_parse (trim_space raw) = Some ref \<and> u_userinfo ref \<noteq> None \<and> u_host ref = [])"
proof (cases "url_parse (trim_space raw)")
  case None
  with assms show ?thesis by (simp add: resolve_search_endpoint_def Let_def split: if_splits)
next
  case (Some p)
  show ?thesis
  proof (cases "u_scheme p = []")
    case False
    with assms Some have "parse_allowed_zillow_url (trim_space raw) = Inr u"
      by (simp add: resolve_search_endpoint_def Let_def split: if_splits)
    then show ?thesis using parse_allowed_safe by blast
  next
    case True
    with assms Some have p: "u_host p = []" "has_prefix (u_path p) ''/''"
      and u: "u = resolve_reference zillow_base p"
      by (auto simp: resolve_search_endpoint_def Let_def split: if_splits)
    show ?thesis
    proof (cases "u_userinfo p = None")
      case False
      with Some p show ?thesis by blast
    next
      case user: True
      have op: "u_opaque p = []" using parse_path_no_user [OF Some True p] .
      have "u_scheme u = ''https''" "u_host u = u_host zillow_base" "u_userinfo u = None"
        unfolding u resolve_reference_def Let_def using True p user op
        by (simp_all add: zillow_base_def empty_url_def)
      then show ?thesis
        using zillow_base_safe url_port_cong [of u zillow_base] by (simp add: safe_url_def)
    qed
  qed
qed

end
