(* ===== verification/Search_Profile.thy ===== *)
theory Search_Profile
  imports Json Zillow_URL
begin

text \<open>
  Captured searches (\<open>internal/zillow/profile.go\<close>): the profile that a search replays, its
  validation, and the mutation of its query state by search filters. A missing map is \<open>None\<close>.
  Values are immutable here, so \<open>Clone\<close> and \<open>cloneMap\<close> are the identity; that \<open>WithFilters\<close>
  leaves its receiver alone holds by construction.
\<close>

section \<open>Profiles and filters\<close>

definition search_profile_version :: int where "search_profile_version = 1"

definition search_endpoint_path :: string where "search_endpoint_path = ''/async-create-search-page-state''"

record search_profile =
  sp_version :: int
  sp_endpoint :: string
  sp_method :: string
  sp_referer :: string
  sp_query_state :: "json_object option"
  sp_wants :: "json_object option"

record search_filters =
  sf_page :: int
  sf_min_price :: int
  sf_max_price :: int
  sf_min_beds :: gofloat
  sf_max_beds :: gofloat
  sf_min_baths :: gofloat
  sf_sort :: string
  sf_keywords :: string
  sf_home_types :: "string list"
  sf_in_unit_laundry :: bool
  sf_entire_place_only :: bool

definition home_type_apartment :: string where "home_type_apartment = ''apartment''"
definition home_type_condo :: string where "home_type_condo = ''condo''"
definition home_type_townhouse :: string where "home_type_townhouse = ''townhouse''"
definition home_type_single_family :: string where "home_type_single_family = ''single-family''"

definition no_filters :: search_filters where
  "no_filters = \<lparr>sf_page = 0, sf_min_price = 0, sf_max_price = 0, sf_min_beds = Finite 0,
     sf_max_beds = Finite 0, sf_min_baths = Finite 0, sf_sort = [], sf_keywords = [], sf_home_types = [],
     sf_in_unit_laundry = False, sf_entire_place_only = False\<rparr>"

text \<open>\<open>x > y\<close> on float64.\<close>

fun float_gt :: "gofloat \<Rightarrow> gofloat \<Rightarrow> bool" where
  "float_gt NaN y = False"
| "float_gt x NaN = False"
| "float_gt (Finite x) (Finite y) = (x > y)"
| "float_gt PlusInf y = (y \<noteq> PlusInf)"
| "float_gt x MinusInf = (x \<noteq> MinusInf)"
| "float_gt x y = False"

definition finite_float :: "gofloat \<Rightarrow> bool" where
  "finite_float x = (case x of Finite _ \<Rightarrow> True | _ \<Rightarrow> False)"

section \<open>Validating filters\<close>

fun check_home_types :: "string list \<Rightarrow> string list \<Rightarrow> string option" where
  "check_home_types seen [] = None"
| "check_home_types seen (h # hs) =
     (if h \<noteq> trim_space h then Some ''home type must not have surrounding whitespace''
      else if h \<notin> set [home_type_apartment, home_type_condo, home_type_townhouse, home_type_single_family]
      then Some (''unknown home type '' @ quote h)
      else if h \<in> set seen then Some (''duplicate home type '' @ quote h)
      else check_home_types (h # seen) hs)"

definition has_control :: "string \<Rightarrow> bool" where
  "has_control s \<longleftrightarrow> list_ex (\<lambda>c. byte c < 32 \<or> byte c = 127) s"

definition validate_search_filters :: "search_filters \<Rightarrow> string option" where
  "validate_search_filters f =
     (let zero = Finite 0 in
      if sf_page f < 0 then Some ''page must not be negative''
      else if sf_min_price f < 0 \<or> sf_max_price f < 0 then Some ''price filters must not be negative''
      else if sf_min_price f > 0 \<and> sf_max_price f > 0 \<and> sf_min_price f > sf_max_price f
      then Some ''minimum price must not exceed maximum price''
      else if \<not> finite_float (sf_min_beds f) \<or> \<not> finite_float (sf_max_beds f) \<or> \<not> finite_float (sf_min_baths f)
      then Some ''bed and bath filters must be finite''
      else if float_gt zero (sf_min_beds f) \<or> float_gt zero (sf_max_beds f) \<or> float_gt zero (sf_min_baths f)
      then Some ''bed and bath filters must not be negative''
      else if float_gt (sf_min_beds f) zero \<and> float_gt (sf_max_beds f) zero \<and> float_gt (sf_min_beds f) (sf_max_beds f)
      then Some ''minimum beds must not exceed maximum beds''
      else case check_home_types [] (sf_home_types f) of
             Some msg \<Rightarrow> Some msg
           | None \<Rightarrow>
               if sf_sort f \<noteq> trim_space (sf_sort f) then Some ''sort must not have surrounding whitespace''
               else if sf_keywords f \<noteq> trim_space (sf_keywords f)
               then Some ''keywords must not have surrounding whitespace''
               else if length (sf_keywords f) > 256 then Some ''keywords must not exceed 256 bytes''
               else if has_control (sf_sort f) then Some ''sort must not contain control characters''
               else if has_control (sf_keywords f) then Some ''keywords must not contain control characters''
               else None)"

section \<open>Applying filters\<close>

text \<open>The object under a key; a missing or null one is created empty.\<close>

definition ensure_object :: "json_object \<Rightarrow> string \<Rightarrow> string + json_object" where
  "ensure_object parent key =
     (case get parent key of
        JNull \<Rightarrow> Inr []
      | JObject obj \<Rightarrow> Inr obj
      | _ \<Rightarrow> Inl (key @ '' must be an object''))"

text \<open>Change the object under a key in place.\<close>

definition in_object :: "string \<Rightarrow> (json_object \<Rightarrow> json_object) \<Rightarrow> json_object \<Rightarrow> string + json_object" where
  "in_object key f parent =
     (case ensure_object parent key of
        Inl msg \<Rightarrow> Inl msg
      | Inr obj \<Rightarrow> Inr (AList.update key (JObject (f obj)) parent))"

definition set_filter_bool :: "string \<Rightarrow> bool \<Rightarrow> json_object \<Rightarrow> json_object" where
  "set_filter_bool name b obj = AList.update name (JObject [(''value'', JBool b)]) obj"

definition put_when :: "bool \<Rightarrow> string \<Rightarrow> json \<Rightarrow> json_object \<Rightarrow> json_object" where
  "put_when c key v obj = (if c then AList.update key v obj else obj)"

text \<open>Statements that may fail, one after the other.\<close>

fun run_steps :: "(json_object \<Rightarrow> string + json_object) list \<Rightarrow> json_object \<Rightarrow> string + json_object" where
  "run_steps [] obj = Inr obj"
| "run_steps (step # steps) obj =
     (case step obj of Inl msg \<Rightarrow> Inl msg | Inr obj' \<Rightarrow> run_steps steps obj')"

definition step_when :: "bool \<Rightarrow> (json_object \<Rightarrow> string + json_object) \<Rightarrow> json_object \<Rightarrow> string + json_object" where
  "step_when c step obj = (if c then step obj else Inr obj)"

definition home_type_flags :: "string list \<Rightarrow> json_object \<Rightarrow> json_object" where
  "home_type_flags types obj =
     (let selected = (\<lambda>t. t \<in> set types) in
      set_filter_bool ''isLotLand'' False
        (set_filter_bool ''isManufactured'' False
          (set_filter_bool ''isMultiFamily'' False
            (set_filter_bool ''isApartmentOrCondo'' (selected home_type_apartment \<or> selected home_type_condo)
              (set_filter_bool ''isSingleFamily'' (selected home_type_single_family)
                (set_filter_bool ''isTownhouse'' (selected home_type_townhouse)
                  (set_filter_bool ''isCondo'' (selected home_type_condo)
                    (set_filter_bool ''isApartment'' (selected home_type_apartment) obj))))))))"

definition positive :: "gofloat \<Rightarrow> bool" where
  "positive x = float_gt x (Finite 0)"

definition filter_steps :: "search_filters \<Rightarrow> (json_object \<Rightarrow> string + json_object) list" where
  "filter_steps f =
     [step_when (sf_min_price f > 0 \<or> sf_max_price f > 0)
        (in_object ''price'' (put_when (sf_max_price f > 0) ''max'' (JInt (sf_max_price f))
          \<circ> put_when (sf_min_price f > 0) ''min'' (JInt (sf_min_price f)))),
      step_when (positive (sf_min_beds f) \<or> positive (sf_max_beds f))
        (in_object ''beds'' (put_when (positive (sf_max_beds f)) ''max'' (JFloat (sf_max_beds f))
          \<circ> put_when (positive (sf_min_beds f)) ''min'' (JFloat (sf_min_beds f)))),
      step_when (positive (sf_min_baths f)) (in_object ''baths'' (AList.update ''min'' (JFloat (sf_min_baths f)))),
      step_when (sf_sort f \<noteq> []) (in_object ''sortSelection'' (AList.update ''value'' (JString (sf_sort f)))),
      step_when (sf_keywords f \<noteq> []) (in_object ''keywords'' (AList.update ''value'' (JString (sf_keywords f)))),
      step_when (sf_home_types f \<noteq> []) (\<lambda>obj. Inr (home_type_flags (sf_home_types f) obj)),
      step_when (sf_in_unit_laundry f) (\<lambda>obj. Inr (set_filter_bool ''onlyRentalInUnitLaundry'' True obj)),
      step_when (sf_entire_place_only f)
        (\<lambda>obj. Inr (set_filter_bool ''isRoomForRent'' False (set_filter_bool ''isEntirePlaceForRent'' True obj)))]"

definition wants_filter_state :: "search_filters \<Rightarrow> bool" where
  "wants_filter_state f \<longleftrightarrow>
     sf_min_price f > 0 \<or> sf_max_price f > 0 \<or> positive (sf_min_beds f) \<or> positive (sf_max_beds f)
     \<or> positive (sf_min_baths f) \<or> sf_sort f \<noteq> [] \<or> sf_keywords f \<noteq> [] \<or> sf_home_types f \<noteq> []
     \<or> sf_in_unit_laundry f \<or> sf_entire_place_only f"

text \<open>A captured bound: absent, or an int64 that is not negative.\<close>

definition read_bound :: "json_object \<Rightarrow> string \<Rightarrow> string + int option" where
  "read_bound price name =
     (case get price name of
        JNull \<Rightarrow> Inr None
      | raw \<Rightarrow>
          (case int64_from_any raw of
             Some b \<Rightarrow> if b < 0 then Inl (''filterState.price.'' @ name @ '' must be a non-negative integer'') else Inr (Some b)
           | None \<Rightarrow> Inl (''filterState.price.'' @ name @ '' must be a non-negative integer'')))"

definition validate_final_price_bounds :: "json_object \<Rightarrow> string option" where
  "validate_final_price_bounds state =
     (case lookup_path state [''filterState'', ''price''] of
        None \<Rightarrow> None
      | Some JNull \<Rightarrow> None
      | Some (JObject price) \<Rightarrow>
          (case read_bound price ''min'' of
             Inl msg \<Rightarrow> Some msg
           | Inr minimum \<Rightarrow>
               (case read_bound price ''max'' of
                  Inl msg \<Rightarrow> Some msg
                | Inr maximum \<Rightarrow>
                    (case (minimum, maximum) of
                       (Some lo, Some hi) \<Rightarrow>
                         if lo > hi then Some ''minimum price must not exceed maximum price after merging captured bounds''
                         else None
                     | _ \<Rightarrow> None)))
      | Some _ \<Rightarrow> Some ''filterState.price must be an object'')"

definition apply_state :: "search_filters \<Rightarrow> json_object \<Rightarrow> string + json_object" where
  "apply_state f state =
     (case step_when (sf_page f > 0) (in_object ''pagination'' (AList.update ''currentPage'' (JInt (sf_page f)))) state of
        Inl msg \<Rightarrow> Inl msg
      | Inr state1 \<Rightarrow>
          if wants_filter_state f then
            (case ensure_object state1 ''filterState'' of
               Inl msg \<Rightarrow> Inl msg
             | Inr fs \<Rightarrow>
                 (case run_steps (filter_steps f) fs of
                    Inl msg \<Rightarrow> Inl (''filterState.'' @ msg)
                  | Inr fs' \<Rightarrow> Inr (AList.update ''filterState'' (JObject fs') state1)))
          else Inr state1)"

definition apply_filters :: "search_filters \<Rightarrow> search_profile \<Rightarrow> go_error + search_profile" where
  "apply_filters f p =
     (case validate_search_filters f of
        Some msg \<Rightarrow> Inl (Wrap ''apply search filters'' (Plain msg))
      | None \<Rightarrow>
          (case sp_query_state p of
             None \<Rightarrow> Inl (Plain ''apply search filters: searchQueryState is nil'')
           | Some state \<Rightarrow>
               (case apply_state f state of
                  Inl msg \<Rightarrow> Inl (Wrap ''apply search filters'' (Plain msg))
                | Inr state' \<Rightarrow>
                    (case validate_final_price_bounds state' of
                       Some msg \<Rightarrow> Inl (Wrap ''apply search filters'' (Plain msg))
                     | None \<Rightarrow> Inr (p\<lparr>sp_query_state := Some state'\<rparr>)))))"

section \<open>Validating profiles\<close>

fun string_items :: "nat \<Rightarrow> json list \<Rightarrow> string + string list" where
  "string_items i [] = Inr []"
| "string_items i (JString s # items) =
     (case string_items (i + 1) items of Inl msg \<Rightarrow> Inl msg | Inr names \<Rightarrow> Inr (s # names))"
| "string_items i (item # items) = Inl (''item '' @ itoa (int i) @ '' must be a string'')"

fun check_names :: "nat \<Rightarrow> string list \<Rightarrow> string option" where
  "check_names i [] = None"
| "check_names i (name # names) =
     (if trim_space name = [] then Some (''item '' @ itoa (int i) @ '' must not be empty'') else check_names (i + 1) names)"

definition validate_wants_group :: "json \<Rightarrow> string + string list" where
  "validate_wants_group v =
     (case (case v of JArray items \<Rightarrow> string_items 0 items
                    | JStrings items \<Rightarrow> Inr items
                    | _ \<Rightarrow> Inl ''must be an array of strings'') of
        Inl msg \<Rightarrow> Inl msg
      | Inr names \<Rightarrow>
          if names = [] then Inl ''must not be empty''
          else case check_names 0 names of Some msg \<Rightarrow> Inl msg | None \<Rightarrow> Inr names)"

text \<open>The loop over the groups; the flag is \<open>cat1HasListResults\<close>.\<close>

fun check_wants :: "bool \<Rightarrow> json_object \<Rightarrow> string + bool" where
  "check_wants found [] = Inr found"
| "check_wants found ((grp, v) # rest) =
     (if trim_space grp = [] then Inl ''search profile wants group name must not be empty''
      else case validate_wants_group v of
             Inl msg \<Rightarrow> Inl (''search profile wants.'' @ grp @ '': '' @ msg)
           | Inr names \<Rightarrow> check_wants (found \<or> (grp = ''cat1'' \<and> ''listResults'' \<in> set names)) rest)"

definition validate_profile :: "search_profile \<Rightarrow> go_error option" where
  "validate_profile p =
     (if sp_version p \<noteq> search_profile_version
      then Some (Plain (''search profile version must be '' @ itoa search_profile_version))
      else if \<not> equal_fold (trim_space (sp_method p)) ''PUT'' then Some (Plain ''search profile method must be PUT'')
      else case resolve_search_endpoint (sp_endpoint p) of
             Inl err \<Rightarrow> Some (Wrap ''search profile endpoint'' err)
           | Inr endpoint \<Rightarrow>
               if u_path endpoint \<noteq> search_endpoint_path
                  \<or> (u_raw_path endpoint \<noteq> [] \<and> u_raw_path endpoint \<noteq> escape_with path_byte_ok (u_path endpoint))
                  \<or> u_raw_query endpoint \<noteq> [] \<or> u_fragment endpoint \<noteq> []
               then Some (Plain (''search profile endpoint path must be exactly '' @ quote search_endpoint_path))
               else
                 (case parse_allowed_zillow_url (sp_referer p) of
                    Inl err \<Rightarrow> Some (Wrap ''search profile referer'' err)
                  | Inr referer \<Rightarrow>
                      if u_fragment referer \<noteq> [] then Some (Plain ''search profile referer must not contain a fragment'')
                      else if sp_query_state p = None then Some (Plain ''search profile searchQueryState must be an object'')
                      else if sp_wants p = None \<or> sp_wants p = Some []
                      then Some (Plain ''search profile wants must be a non-empty object'')
                      else case check_wants False (the (sp_wants p)) of
                             Inl msg \<Rightarrow> Some (Plain msg)
                           | Inr found \<Rightarrow>
                               if found then None
                               else Some (Plain ''search profile wants.cat1 must contain listResults'')))"

definition with_filters :: "search_profile \<Rightarrow> search_filters \<Rightarrow> go_error + search_profile" where
  "with_filters p f = (case validate_profile p of Some err \<Rightarrow> Inl err | None \<Rightarrow> apply_filters f p)"

definition apply_search_filters :: "search_profile \<Rightarrow> search_filters \<Rightarrow> go_error + search_profile" where
  "apply_search_filters p f = with_filters p f"

section \<open>Facts about the mutation\<close>

lemma in_object_frame: "in_object key f parent = Inr parent' \<Longrightarrow> k \<noteq> key \<Longrightarrow> get parent' k = get parent k"
  by (auto simp: in_object_def get_update split: sum.splits)

lemma in_object_get: "in_object key f parent = Inr parent' \<Longrightarrow>
    \<exists>obj. ensure_object parent key = Inr obj \<and> get parent' key = JObject (f obj)"
  by (auto simp: in_object_def get_update split: sum.splits)

lemma set_filter_bool_get: "get (set_filter_bool name b obj) k = (if k = name then JObject [(''value'', JBool b)] else get obj k)"
  by (simp add: set_filter_bool_def get_update)

text \<open>The keys of the filter state a list of steps may touch.\<close>

definition filter_keys :: "string set" where
  "filter_keys = {''price'', ''beds'', ''baths'', ''sortSelection'', ''keywords'', ''isApartment'', ''isCondo'',
     ''isTownhouse'', ''isSingleFamily'', ''isApartmentOrCondo'', ''isMultiFamily'', ''isManufactured'', ''isLotLand'',
     ''onlyRentalInUnitLaundry'', ''isEntirePlaceForRent'', ''isRoomForRent''}"

definition frames :: "string \<Rightarrow> (json_object \<Rightarrow> string + json_object) \<Rightarrow> bool" where
  "frames k step \<longleftrightarrow> (\<forall>obj obj'. step obj = Inr obj' \<longrightarrow> get obj' k = get obj k)"

lemma run_steps_frame: "list_all (frames k) steps \<Longrightarrow> run_steps steps obj = Inr obj' \<Longrightarrow> get obj' k = get obj k"
  by (induction steps arbitrary: obj) (auto simp: frames_def split: sum.splits)

lemma frames_intros:
  "frames k step \<Longrightarrow> frames k (step_when c step)"
  "k \<noteq> key \<Longrightarrow> frames k (in_object key f)"
  "(\<And>obj. get (g obj) k = get obj k) \<Longrightarrow> frames k (\<lambda>obj. Inr (g obj))"
  by (auto simp: frames_def step_when_def in_object_frame)

lemma filter_steps_frame: "k \<notin> filter_keys \<Longrightarrow> list_all (frames k) (filter_steps f)"
  unfolding filter_steps_def list.pred_inject
  by (intro conjI frames_intros TrueI)
    (auto simp: filter_keys_def home_type_flags_def Let_def set_filter_bool_get)

text \<open>The price step comes first, and no later step touches the price.\<close>

lemma filter_steps_price:
  assumes "run_steps (filter_steps f) fs = Inr fs'" and "sf_min_price f > 0 \<or> sf_max_price f > 0"
  shows "\<exists>price. get fs' ''price'' = JObject price
    \<and> (sf_min_price f > 0 \<longrightarrow> get price ''min'' = JInt (sf_min_price f))
    \<and> (sf_max_price f > 0 \<longrightarrow> get price ''max'' = JInt (sf_max_price f))"
proof -
  have tl: "list_all (frames ''price'') (tl (filter_steps f))"
    unfolding filter_steps_def list.pred_inject list.sel
    by (intro conjI frames_intros TrueI) (auto simp: home_type_flags_def Let_def set_filter_bool_get)
  let ?put = "put_when (sf_max_price f > 0) ''max'' (JInt (sf_max_price f)) \<circ> put_when (sf_min_price f > 0) ''min'' (JInt (sf_min_price f))"
  have split: "filter_steps f = step_when (sf_min_price f > 0 \<or> sf_max_price f > 0) (in_object ''price'' ?put) # tl (filter_steps f)"
    by (simp add: filter_steps_def)
  have "run_steps (filter_steps f) fs =
      (case in_object ''price'' ?put fs of Inl msg \<Rightarrow> Inl msg | Inr fs1 \<Rightarrow> run_steps (tl (filter_steps f)) fs1)"
    by (subst split) (simp add: step_when_def assms(2))
  then obtain fs1 where 1: "in_object ''price'' ?put fs = Inr fs1" "run_steps (tl (filter_steps f)) fs1 = Inr fs'"
    using assms(1) by (cases "in_object ''price'' ?put fs") simp_all
  obtain obj where "get fs1 ''price'' = JObject (?put obj)"
    using in_object_get [OF 1(1)] by blast
  then show ?thesis
    using run_steps_frame [OF tl 1(2)] by (auto simp: put_when_def get_update)
qed

lemma apply_state_frame:
  assumes "apply_state f state = Inr state'"
  shows "k \<noteq> ''pagination'' \<Longrightarrow> k \<noteq> ''filterState'' \<Longrightarrow> get state' k = get state k"
  using assms
  by (auto simp: apply_state_def step_when_def get_update in_object_frame split: sum.splits if_splits)

lemma apply_filters_state:
  assumes "apply_filters f p = Inr p'"
  obtains state state' where "sp_query_state p = Some state" and "apply_state f state = Inr state'"
    and "validate_final_price_bounds state' = None" and "p' = p\<lparr>sp_query_state := Some state'\<rparr>"
    and "validate_search_filters f = None"
  using assms by (auto simp: apply_filters_def split: option.splits sum.splits)

section \<open>Properties\<close>

definition sample_profile :: search_profile where
  "sample_profile = \<lparr>sp_version = 1, sp_endpoint = ''/async-create-search-page-state'', sp_method = ''put'',
     sp_referer = ''https://www.zillow.com/ca/'',
     sp_query_state = Some [(''mapBounds'', JObject []), (''filterState'', JObject [(''price'', JObject [(''max'', JNumber ''9e5'')]),
        (''isForRent'', JBool True)])],
     sp_wants = Some [(''cat1'', JArray [JString ''listResults''])]\<rparr>"

definition sample_filters :: search_filters where
  "sample_filters = no_filters\<lparr>sf_page := 2, sf_min_price := 1000, sf_home_types := [home_type_condo]\<rparr>"

definition sample_filtered :: search_profile where
  "sample_filtered = (case apply_filters sample_filters sample_profile of Inr p \<Rightarrow> p | Inl _ \<Rightarrow> sample_profile)"

lemma sample_filtered_eq: "apply_filters sample_filters sample_profile = Inr sample_filtered"
proof -
  have "(case apply_filters sample_filters sample_profile of Inr p \<Rightarrow> True | Inl _ \<Rightarrow> False)" by code_simp
  then show ?thesis by (auto simp: sample_filtered_def split: sum.splits)
qed

text \<open>
  C15: Filters mutate only what they are about: of a captured query state every key but
  \<open>pagination\<close> and \<open>filterState\<close> is kept, and so are the version, endpoint, method, referer and
  wants of the profile.
\<close>
theorem apply_filters_frame:
  assumes "apply_filters f p = Inr p'"
  shows "sp_version p' = sp_version p \<and> sp_endpoint p' = sp_endpoint p \<and> sp_method p' = sp_method p
    \<and> sp_referer p' = sp_referer p \<and> sp_wants p' = sp_wants p
    \<and> (\<forall>k. k \<noteq> ''pagination'' \<and> k \<noteq> ''filterState'' \<longrightarrow>
          get (the (sp_query_state p')) k = get (the (sp_query_state p)) k)"
  by (rule apply_filters_state [OF assms]) (simp add: apply_state_frame)

theorem apply_filters_frame_witness:
  "get (the (sp_query_state sample_filtered)) ''mapBounds'' = get (the (sp_query_state sample_profile)) ''mapBounds''"
  using apply_filters_frame [OF sample_filtered_eq] by simp

text \<open>
  Inside the filter state, too, only the filters' own keys change: whatever else the browser
  had set is sent as captured.
\<close>
theorem filter_state_frame:
  assumes "apply_filters f p = Inr p'" and "ensure_object (the (sp_query_state p)) ''filterState'' = Inr fs"
    and "ensure_object (the (sp_query_state p')) ''filterState'' = Inr fs'" and "k \<notin> filter_keys"
  shows "get fs' k = get fs k"
proof -
  obtain state state' where st: "sp_query_state p = Some state" "apply_state f state = Inr state'"
    "p' = p\<lparr>sp_query_state := Some state'\<rparr>"
    using apply_filters_state [OF assms(1)] by metis
  obtain state1 where 1: "step_when (sf_page f > 0) (in_object ''pagination'' (AList.update ''currentPage'' (JInt (sf_page f)))) state = Inr state1"
    using st(2) by (auto simp: apply_state_def split: sum.splits)
  have "get state1 ''filterState'' = get state ''filterState''"
    using 1 by (auto simp: step_when_def in_object_frame split: if_splits)
  then have fs: "ensure_object state1 ''filterState'' = Inr fs"
    using assms(2) st(1) by (simp add: ensure_object_def)
  show ?thesis
  proof (cases "wants_filter_state f")
    case False
    then have "state' = state1" using st(2) 1 by (simp add: apply_state_def)
    then show ?thesis using fs assms(3) st(3) by simp
  next
    case True
    obtain fs2 where 2: "run_steps (filter_steps f) fs = Inr fs2" "state' = AList.update ''filterState'' (JObject fs2) state1"
      using st(2) 1 True fs by (auto simp: apply_state_def split: sum.splits)
    then have "fs' = fs2" using assms(3) st(3) by (simp add: ensure_object_def get_update)
    then show ?thesis
      using run_steps_frame [OF filter_steps_frame [OF assms(4)] 2(1)] by simp
  qed
qed

theorem filter_state_frame_witness:
  "get (case ensure_object (the (sp_query_state sample_filtered)) ''filterState'' of Inr fs \<Rightarrow> fs | Inl _ \<Rightarrow> []) ''isForRent'' = JBool True"
proof -
  let ?fs = "[(''price'', JObject [(''max'', JNumber ''9e5'')]), (''isForRent'', JBool True)]"
  have a: "ensure_object (the (sp_query_state sample_profile)) ''filterState'' = Inr ?fs" by code_simp
  have "(case ensure_object (the (sp_query_state sample_filtered)) ''filterState'' of Inr fs \<Rightarrow> True | Inl _ \<Rightarrow> False)"
    by code_simp
  then obtain fs' where b: "ensure_object (the (sp_query_state sample_filtered)) ''filterState'' = Inr fs'"
    by (auto split: sum.splits)
  have "get fs' ''isForRent'' = get ?fs ''isForRent''"
    by (rule filter_state_frame [OF sample_filtered_eq a b]) (simp add: filter_keys_def)
  then show ?thesis using b by (simp add: get_def)
qed

lemma apply_state_price:
  assumes "apply_state f state = Inr state'" and "sf_min_price f > 0 \<or> sf_max_price f > 0"
    and "lookup_path state' [''filterState'', ''price''] = Some (JObject price)"
  shows "(sf_min_price f > 0 \<longrightarrow> get price ''min'' = JInt (sf_min_price f))
    \<and> (sf_max_price f > 0 \<longrightarrow> get price ''max'' = JInt (sf_max_price f))"
proof -
  have "wants_filter_state f" using assms(2) by (auto simp: wants_filter_state_def)
  then obtain state1 fs fs' where fs: "run_steps (filter_steps f) fs = Inr fs'"
    and st: "state' = AList.update ''filterState'' (JObject fs') state1"
    using assms(1) by (auto simp: apply_state_def split: sum.splits)
  have "map_of fs' ''price'' = Some (JObject price)"
    using assms(3) by (auto simp: st lookup_path_def update_conv' split: option.splits)
  then have "get fs' ''price'' = JObject price" by (simp add: get_def)
  then show ?thesis using filter_steps_price [OF fs assms(2)] by auto
qed

text \<open>
  The price range that is finally sent, captured bounds merged with the filters, is never
  empty: both bounds are readable, the lower one not negative and at most the upper one; and a
  requested bound is the one sent.
\<close>
theorem final_price_range_valid:
  assumes "apply_filters f p = Inr p'"
    and "lookup_path (the (sp_query_state p')) [''filterState'', ''price''] = Some (JObject price)"
  shows "\<exists>lo hi. read_bound price ''min'' = Inr lo \<and> read_bound price ''max'' = Inr hi
    \<and> (case (lo, hi) of (Some a, Some b) \<Rightarrow> 0 \<le> a \<and> a \<le> b | _ \<Rightarrow> True)
    \<and> (sf_min_price f > 0 \<longrightarrow> lo = Some (sf_min_price f)) \<and> (sf_max_price f > 0 \<longrightarrow> hi = Some (sf_max_price f))"
proof -
  obtain state state' where st: "apply_state f state = Inr state'" "validate_final_price_bounds state' = None"
    "p' = p\<lparr>sp_query_state := Some state'\<rparr>"
    using apply_filters_state [OF assms(1)] by metis
  then have look: "lookup_path state' [''filterState'', ''price''] = Some (JObject price)" using assms(2) by simp
  then obtain lo hi where b: "read_bound price ''min'' = Inr lo" "read_bound price ''max'' = Inr hi"
    "case (lo, hi) of (Some a, Some b) \<Rightarrow> a \<le> b | _ \<Rightarrow> True"
    using st(2) by (auto simp: validate_final_price_bounds_def split: sum.splits option.splits if_splits)
  have "0 \<le> a" if "lo = Some a" for a
    using b(1) that by (auto simp: read_bound_def split: json.splits option.splits if_splits)
  moreover have "sf_min_price f > 0 \<longrightarrow> lo = Some (sf_min_price f)" "sf_max_price f > 0 \<longrightarrow> hi = Some (sf_max_price f)"
    using apply_state_price [OF st(1) _ look] b(1,2) by (auto simp: read_bound_def)
  ultimately show ?thesis using b by (intro exI [of _ lo] exI [of _ hi]) (auto split: option.splits)
qed

theorem final_price_range_valid_witness:
  "\<exists>lo hi. read_bound [(''max'', JNumber ''9e5''), (''min'', JInt 1000)] ''min'' = Inr lo
    \<and> read_bound [(''max'', JNumber ''9e5''), (''min'', JInt 1000)] ''max'' = Inr hi
    \<and> (case (lo, hi) of (Some a, Some b) \<Rightarrow> 0 \<le> a \<and> a \<le> b | _ \<Rightarrow> True)
    \<and> (sf_min_price sample_filters > 0 \<longrightarrow> lo = Some (sf_min_price sample_filters))
    \<and> (sf_max_price sample_filters > 0 \<longrightarrow> hi = Some (sf_max_price sample_filters))"
  by (rule final_price_range_valid [OF sample_filtered_eq]) code_simp

text \<open>
  A profile that validates can only search Zillow: its endpoint resolves to an HTTPS URL with
  exactly the search path, no query and no fragment, on an allowed host without port or
  credentials - or, for the odd reference with credentials but no host, to a URL without any host,
  which the client refuses to send.
\<close>
theorem valid_profile_endpoint:
  assumes "validate_profile p = None"
  shows "\<exists>u. resolve_search_endpoint (sp_endpoint p) = Inr u \<and> u_path u = search_endpoint_path
    \<and> u_raw_query u = [] \<and> u_fragment u = []
    \<and> (safe_url u \<or> (\<exists>ref. url_parse (trim_space (sp_endpoint p)) = Some ref \<and> u_userinfo ref \<noteq> None \<and> u_host ref = []))"
proof -
  obtain u where u: "resolve_search_endpoint (sp_endpoint p) = Inr u" "u_path u = search_endpoint_path"
    "u_raw_query u = []" "u_fragment u = []"
    using assms by (auto simp: validate_profile_def split: if_splits sum.splits)
  with resolve_search_endpoint_safe [OF u(1)] show ?thesis by blast
qed

theorem valid_profile_endpoint_witness:
  "\<exists>u. resolve_search_endpoint (sp_endpoint sample_profile) = Inr u \<and> u_path u = search_endpoint_path
    \<and> u_raw_query u = [] \<and> u_fragment u = []
    \<and> (safe_url u \<or> (\<exists>ref. url_parse (trim_space (sp_endpoint sample_profile)) = Some ref \<and> u_userinfo ref \<noteq> None \<and> u_host ref = []))"
  by (rule valid_profile_endpoint) code_simp

end
