(* ===== verification/Discovery.thy ===== *)
theory Discovery
  imports Retry Search_Profile
begin

text \<open>
  Location discovery (\<open>internal/zillow/search_discovery.go\<close>): the options and their validation,
  and \<open>DiscoverLocation\<close>, which bootstraps a profile and pages through the search routes,
  keeping every listing once.

  The network is the environment of the run: what the n-th attempt of the bootstrap and of the
  k-th page request returns, and what the waits return. A Go map used as a set of keys is the
  list of its keys, newest first.
\<close>

section \<open>Data\<close>

definition max_discovery_pages :: int where "max_discovery_pages = 20"

record search_route =
  rt_name :: string
  rt_filters :: search_filters
  rt_max_pages :: int

record discovery_options =
  do_routes :: "search_route list"
  do_max_pages :: int
  do_page_delay :: int
  do_request_retries :: int
  do_retry_backoff :: int

datatype progress_stage = ProgressBootstrap | ProgressPage | ProgressRetry

record discovery_progress =
  dp_stage :: progress_stage
  dp_route :: string
  dp_route_index :: int
  dp_route_count :: int
  dp_page :: int
  dp_page_limit :: int
  dp_attempt :: int
  dp_max_attempts :: int
  dp_delay :: int
  dp_err :: "go_error option"

record discovery_issue =
  is_route :: string
  is_page :: int
  is_error :: string

record search_coverage =
  cv_route :: string
  cv_pages_fetched :: int
  cv_total_pages :: int
  cv_total_results :: int
  cv_unique_listings :: int
  cv_complete :: bool

record discovery_result =
  dr_listings :: "listing list"
  dr_coverage :: "search_coverage list"
  dr_issues :: "discovery_issue list"

definition listing_discovery_key :: "listing \<Rightarrow> string" where
  "listing_discovery_key l =
     (if trim_space (li_id l) \<noteq> [] then ''id:'' @ trim_space (li_id l)
      else if trim_space (li_url l) \<noteq> [] then ''url:'' @ trim_space (li_url l)
      else if trim_space (ad_full (li_address l)) \<noteq> [] then ''address:'' @ to_lower (trim_space (ad_full (li_address l)))
      else [])"

section \<open>Validation\<close>

text \<open>The loop over the routes: names are trimmed in place, and the first fault ends it.\<close>

fun check_routes :: "int \<Rightarrow> nat \<Rightarrow> string list \<Rightarrow> search_route list \<Rightarrow> string + search_route list" where
  "check_routes max_pages i seen [] = Inr []"
| "check_routes max_pages i seen (r # rs) =
     (let r' = r\<lparr>rt_name := trim_space (rt_name r)\<rparr>; name = rt_name r' in
      if name = [] then Inl (''route '' @ itoa (int i + 1) @ '' name must not be empty'')
      else if name \<in> set seen then Inl (''duplicate route name '' @ quote name)
      else if rt_max_pages r' < 0 \<or> rt_max_pages r' > max_pages
      then Inl (''route '' @ quote name @ '' max pages must be between 1 and the discovery maximum '' @ itoa max_pages)
      else case validate_search_filters (rt_filters r') of
             Some msg \<Rightarrow> Inl (''route '' @ quote name @ '': '' @ msg)
           | None \<Rightarrow>
               (case check_routes max_pages (i + 1) (name # seen) rs of
                  Inl msg \<Rightarrow> Inl msg | Inr rs' \<Rightarrow> Inr (r' # rs')))"

definition validate_discovery_options :: "discovery_options \<Rightarrow> string + int \<times> search_route list" where
  "validate_discovery_options opts =
     (let max_pages = (if do_max_pages opts = 0 then 1 else do_max_pages opts);
          routes = (if do_routes opts = []
                    then [\<lparr>rt_name = ''default'', rt_filters = no_filters, rt_max_pages = 0\<rparr>] else do_routes opts)
      in if max_pages < 1 \<or> max_pages > max_discovery_pages
         then Inl (''max pages must be between 1 and '' @ itoa max_discovery_pages)
         else if do_page_delay opts < 0 then Inl ''page delay must not be negative''
         else if do_request_retries opts < 0 then Inl ''request retries must not be negative''
         else if do_retry_backoff opts < 0 then Inl ''retry backoff must not be negative''
         else if length routes > 16 then Inl ''supports at most 16 search routes''
         else case check_routes max_pages 0 [] routes of
                Inl msg \<Rightarrow> Inl msg
              | Inr rs \<Rightarrow> Inr (max_pages, rs))"

section \<open>One page of results\<close>

record merge_state =
  ms_route_seen :: "string list"
  ms_unique :: int
  ms_new :: nat
  ms_seen :: "string list"
  ms_listings :: "listing list"

definition item_key :: "string \<Rightarrow> int \<Rightarrow> nat \<Rightarrow> listing \<Rightarrow> string" where
  "item_key route page i l =
     (let key = listing_discovery_key l
      in if key = [] then route @ '':'' @ itoa page @ '':'' @ itoa (int i) else key)"

definition merge_item :: "string \<Rightarrow> listing \<Rightarrow> merge_state \<Rightarrow> merge_state" where
  "merge_item key l ms =
     (let ms1 = (if key \<in> set (ms_route_seen ms) then ms
                 else ms\<lparr>ms_route_seen := key # ms_route_seen ms, ms_unique := ms_unique ms + 1,
                         ms_new := ms_new ms + 1\<rparr>)
      in if key \<in> set (ms_seen ms1) then ms1
         else ms1\<lparr>ms_seen := key # ms_seen ms1, ms_listings := ms_listings ms1 @ [l]\<rparr>)"

fun merge_items :: "string \<Rightarrow> int \<Rightarrow> nat \<Rightarrow> listing list \<Rightarrow> merge_state \<Rightarrow> merge_state" where
  "merge_items route page i [] ms = ms"
| "merge_items route page i (l # ls) ms =
     merge_items route page (i + 1) ls (merge_item (item_key route page i l) l ms)"

section \<open>The run\<close>

record discovery_env =
  ev_bootstrap :: "nat \<Rightarrow> go_error + search_profile"
  ev_bootstrap_wait :: "nat \<Rightarrow> int \<Rightarrow> go_error option"
  ev_search :: "search_profile \<Rightarrow> search_filters \<Rightarrow> nat \<Rightarrow> nat \<Rightarrow> go_error + search_result"
  ev_page_wait :: "nat \<Rightarrow> go_error option"
  ev_retry_wait :: "nat \<Rightarrow> nat \<Rightarrow> int \<Rightarrow> go_error option"

record discovery_state =
  ds_seen :: "string list"
  ds_requests :: nat
  ds_listings :: "listing list"
  ds_coverage :: "search_coverage list"
  ds_issues :: "discovery_issue list"
  ds_progress :: "discovery_progress list"

definition bootstrap_progress :: "discovery_options \<Rightarrow> discovery_progress" where
  "bootstrap_progress opts =
     \<lparr>dp_stage = ProgressBootstrap, dp_route = [], dp_route_index = 0, dp_route_count = 0, dp_page = 0,
      dp_page_limit = 0, dp_attempt = 1, dp_max_attempts = i64 (do_request_retries opts + 1), dp_delay = 0, dp_err = None\<rparr>"

text \<open>The callback of a retry, reported with the context of the request.\<close>

definition retry_progress :: "discovery_progress \<Rightarrow> retry_event list \<Rightarrow> discovery_progress list" where
  "retry_progress context tr =
     List.map_filter (\<lambda>e. case e of
         Notified attempt whole delay err \<Rightarrow>
           Some (context\<lparr>dp_stage := ProgressRetry, dp_attempt := attempt, dp_max_attempts := whole,
                         dp_delay := delay, dp_err := Some err\<rparr>)
       | _ \<Rightarrow> None) tr"

definition report :: "discovery_progress list \<Rightarrow> discovery_state \<Rightarrow> discovery_state" where
  "report ps st = st\<lparr>ds_progress := ds_progress st @ ps\<rparr>"

datatype page_outcome = PageFailed bool | PageDone search_coverage "string list" | PageNext search_coverage "string list"

text \<open>
  One iteration of the page loop after the wait: the request, and the merge of its listings.
  \<open>PageFailed stop\<close> and \<open>PageDone\<close> leave the loop, \<open>PageNext\<close> goes on to the next page.
\<close>

definition fetch_page ::
  "discovery_env \<Rightarrow> search_profile \<Rightarrow> discovery_options \<Rightarrow> discovery_progress \<Rightarrow> search_route \<Rightarrow> int
   \<Rightarrow> search_coverage \<Rightarrow> string list \<Rightarrow> discovery_state \<Rightarrow> page_outcome \<times> discovery_state" where
  "fetch_page env profile opts context route page coverage route_seen st =
     (let k = ds_requests st;
          (res, tr) = retry_discovery_request (do_request_retries opts) (do_retry_backoff opts)
                        (ev_search env profile ((rt_filters route)\<lparr>sf_page := page\<rparr>) k) (ev_retry_wait env k);
          st1 = report (retry_progress context tr) (st\<lparr>ds_requests := k + 1\<rparr>)
      in case res of
           Inl err \<Rightarrow>
             (PageFailed (discovery_request_retryable err),
              st1\<lparr>ds_issues := ds_issues st1 @ [\<lparr>is_route = rt_name route, is_page = page, is_error = error_text err\<rparr>]\<rparr>)
         | Inr result \<Rightarrow>
             (let pages = sm_total_pages (sr_metadata result);
                  ms = merge_items (rt_name route) page 0 (sr_listings result)
                         \<lparr>ms_route_seen = route_seen, ms_unique = cv_unique_listings coverage, ms_new = 0,
                          ms_seen = ds_seen st1, ms_listings = ds_listings st1\<rparr>;
                  cov = coverage\<lparr>cv_pages_fetched := cv_pages_fetched coverage + 1, cv_total_pages := pages,
                                 cv_total_results := sm_total_results (sr_metadata result),
                                 cv_unique_listings := ms_unique ms\<rparr>;
                  st2 = st1\<lparr>ds_seen := ms_seen ms, ds_listings := ms_listings ms\<rparr>
              in if (pages > 0 \<and> page \<ge> pages) \<or> sr_listings result = [] \<or> (ms_new ms = 0 \<and> pages \<le> 0)
                 then (PageDone (cov\<lparr>cv_complete := True\<rparr>) (ms_route_seen ms), st2)
                 else (PageNext cov (ms_route_seen ms), st2)))"

definition page_context :: "discovery_options \<Rightarrow> search_route \<Rightarrow> int \<Rightarrow> int \<Rightarrow> int \<Rightarrow> int \<Rightarrow> int \<Rightarrow> discovery_progress" where
  "page_context opts route index nroutes page limit delay =
     \<lparr>dp_stage = ProgressPage, dp_route = rt_name route, dp_route_index = index, dp_route_count = nroutes,
      dp_page = page, dp_page_limit = limit, dp_attempt = 1,
      dp_max_attempts = i64 (do_request_retries opts + 1), dp_delay = delay, dp_err = None\<rparr>"

text \<open>
  The page loop of a route, with the number of pages left as its fuel; \<open>index\<close> and \<open>nroutes\<close> are
  the route's one-based position and the number of routes. A cancelled wait is \<open>Inl\<close>.
\<close>

fun page_loop ::
  "nat \<Rightarrow> discovery_env \<Rightarrow> search_profile \<Rightarrow> discovery_options \<Rightarrow> search_route \<Rightarrow> int \<Rightarrow> int \<Rightarrow> int \<Rightarrow> int
   \<Rightarrow> search_coverage \<Rightarrow> string list \<Rightarrow> discovery_state \<Rightarrow> (go_error + search_coverage \<times> bool) \<times> discovery_state" where
  "page_loop 0 env profile opts route index nroutes limit page coverage route_seen st = (Inr (coverage, False), st)"
| "page_loop (Suc left) env profile opts route index nroutes limit page coverage route_seen st =
     (let delay = (if ds_requests st > 0 \<and> do_page_delay opts > 0 then do_page_delay opts else 0);
          context = page_context opts route index nroutes page limit delay;
          st1 = report [context] st
      in case (if delay > 0 then ev_page_wait env (ds_requests st) else None) of
           Some err \<Rightarrow> (Inl (Wrap ''discover Zillow location'' err), st1)
         | None \<Rightarrow>
             (case fetch_page env profile opts context route page coverage route_seen st1 of
                (PageFailed stop, st2) \<Rightarrow> (Inr (coverage, stop), st2)
              | (PageDone cov rs, st2) \<Rightarrow> (Inr (cov, False), st2)
              | (PageNext cov rs, st2) \<Rightarrow>
                  page_loop left env profile opts route index nroutes limit (page + 1) cov rs st2))"

definition route_limit :: "int \<Rightarrow> search_route \<Rightarrow> int" where
  "route_limit max_pages route = (if rt_max_pages route > 0 then rt_max_pages route else max_pages)"

definition new_coverage :: "search_route \<Rightarrow> search_coverage" where
  "new_coverage route =
     \<lparr>cv_route = rt_name route, cv_pages_fetched = 0, cv_total_pages = 0, cv_total_results = 0,
      cv_unique_listings = 0, cv_complete = False\<rparr>"

fun route_loop ::
  "discovery_env \<Rightarrow> search_profile \<Rightarrow> discovery_options \<Rightarrow> int \<Rightarrow> int \<Rightarrow> int \<Rightarrow> search_route list
   \<Rightarrow> discovery_state \<Rightarrow> go_error option \<times> discovery_state" where
  "route_loop env profile opts max_pages index nroutes [] st = (None, st)"
| "route_loop env profile opts max_pages index nroutes (route # routes) st =
     (let limit = route_limit max_pages route in
      case page_loop (nat limit) env profile opts route index nroutes limit 1 (new_coverage route) [] st of
        (Inl err, st1) \<Rightarrow> (Some err, st1)
      | (Inr (coverage, stop), st1) \<Rightarrow>
          (let st2 = st1\<lparr>ds_coverage := ds_coverage st1 @ [coverage]\<rparr>
           in if stop then (None, st2)
              else route_loop env profile opts max_pages (index + 1) nroutes routes st2))"

definition empty_discovery :: discovery_state where
  "empty_discovery = \<lparr>ds_seen = [], ds_requests = 0, ds_listings = [], ds_coverage = [], ds_issues = [], ds_progress = []\<rparr>"

definition discover_location ::
  "discovery_env \<Rightarrow> discovery_options \<Rightarrow> (go_error + discovery_result) \<times> discovery_state" where
  "discover_location env opts =
     (case validate_discovery_options opts of
        Inl msg \<Rightarrow> (Inl (Wrap ''discover Zillow location'' (Plain msg)), empty_discovery)
      | Inr (max_pages, routes) \<Rightarrow>
          (let st0 = report [bootstrap_progress opts] empty_discovery;
               (boot, tr) = retry_discovery_request (do_request_retries opts) (do_retry_backoff opts)
                              (ev_bootstrap env) (ev_bootstrap_wait env);
               st1 = report (retry_progress (bootstrap_progress opts) tr) st0
           in case boot of
                Inl err \<Rightarrow> (Inl (Wrap ''discover Zillow location'' err), st1)
              | Inr profile \<Rightarrow>
                  (case route_loop env profile opts max_pages 1 (int (length routes)) routes st1 of
                     (Some err, st2) \<Rightarrow> (Inl err, st2)
                   | (None, st2) \<Rightarrow>
                       (Inr \<lparr>dr_listings = ds_listings st2, dr_coverage = ds_coverage st2, dr_issues = ds_issues st2\<rparr>, st2))))"

end
