(* ===== verification/Client.thy ===== *)
theory Client
  imports Zillow_URL Prelude "HOL-Library.AList"
begin

text \<open>
  The HTTP client (\<open>internal/zillow/client.go\<close>): its options, the URL guard before every request
  and redirect, \<open>execute\<close> with its classification of responses, and the helpers that read one.
  What the network answers to a request is an argument of \<open>execute\<close>, which also yields the
  requests it sent. \<open>mime.ParseMediaType\<close> and the fallback of \<open>normalizedContentType\<close> agree on
  the text before the first semicolon, which is all the code keeps. Cookies stay in the jar of
  \<open>net/http\<close> and are not modelled; the options only check their names.
\<close>

section \<open>Options\<close>

datatype response_kind = ResponseJSON | ResponseHTML

type_synonym http_header = "(string \<times> string list) list"

definition default_timeout :: int where "default_timeout = 20 * 10 ^ 9"

definition default_max_response_bytes :: int where "default_max_response_bytes = 8 * 2 ^ 20"

record client_options =
  op_has_client :: bool
  op_timeout :: int
  op_max_response_bytes :: int
  op_has_request_id :: bool
  op_user_agent :: string
  op_browser_headers :: http_header
  op_cookie_names :: "string list"

definition contains_any :: "string \<Rightarrow> string \<Rightarrow> bool" where
  "contains_any s chars \<longleftrightarrow> list_ex (\<lambda>c. c \<in> set chars) s"

definition crlf :: string where "crlf = [char_of (13::nat), char_of (10::nat)]"

definition with_http_client :: "bool \<Rightarrow> client_options \<Rightarrow> string + client_options" where
  "with_http_client is_nil o1 =
     (if is_nil then Inl ''zillow HTTP client is nil'' else Inr (o1\<lparr>op_has_client := True\<rparr>))"

definition with_timeout :: "int \<Rightarrow> client_options \<Rightarrow> string + client_options" where
  "with_timeout timeout o1 =
     (if timeout \<le> 0 then Inl ''zillow timeout must be positive'' else Inr (o1\<lparr>op_timeout := timeout\<rparr>))"

definition with_max_response_bytes :: "int \<Rightarrow> client_options \<Rightarrow> string + client_options" where
  "with_max_response_bytes limit o1 =
     (if limit \<le> 0 then Inl ''zillow maximum response size must be positive''
      else Inr (o1\<lparr>op_max_response_bytes := limit\<rparr>))"

definition with_request_id_generator :: "bool \<Rightarrow> client_options \<Rightarrow> string + client_options" where
  "with_request_id_generator is_nil o1 =
     (if is_nil then Inl ''zillow request ID generator is nil'' else Inr (o1\<lparr>op_has_request_id := True\<rparr>))"

text \<open>A nil cookie is \<open>None\<close>.\<close>

definition with_initial_cookies :: "string option list \<Rightarrow> client_options \<Rightarrow> string + client_options" where
  "with_initial_cookies cookies o1 =
     (if list_ex (\<lambda>c. case c of None \<Rightarrow> True | Some name \<Rightarrow> trim_space name = []) cookies
      then Inl ''zillow initial cookie is invalid''
      else Inr (o1\<lparr>op_cookie_names := map the cookies\<rparr>))"

definition with_user_agent :: "string \<Rightarrow> client_options \<Rightarrow> string + client_options" where
  "with_user_agent user_agent o1 =
     (let ua = trim_space user_agent in
      if ua = [] then Inl ''zillow User-Agent must not be empty''
      else if length ua > 1024 \<or> contains_any ua crlf then Inl ''zillow User-Agent is invalid''
      else Inr (o1\<lparr>op_user_agent := ua\<rparr>))"

definition allowed_browser_headers :: "string list" where
  "allowed_browser_headers =
     [''accept'', ''accept-language'', ''cache-control'', ''dnt'', ''pragma'', ''priority'', ''sec-ch-ua'',
      ''sec-ch-ua-arch'', ''sec-ch-ua-bitness'', ''sec-ch-ua-full-version'', ''sec-ch-ua-full-version-list'',
      ''sec-ch-ua-mobile'', ''sec-ch-ua-model'', ''sec-ch-ua-platform'', ''sec-ch-ua-platform-version'',
      ''sec-fetch-dest'', ''sec-fetch-mode'', ''sec-fetch-site'', ''sec-fetch-user'', ''sec-gpc'',
      ''upgrade-insecure-requests'']"

text \<open>\<open>http.CanonicalHeaderKey\<close> of a valid name: capitals at the start and after a hyphen.\<close>

fun canonical_from :: "bool \<Rightarrow> string \<Rightarrow> string" where
  "canonical_from up [] = []"
| "canonical_from up (c # cs) = (if up then upper c else lower c) # canonical_from (c = CHR ''-'') cs"

definition canonical_key :: "string \<Rightarrow> string" where
  "canonical_key = canonical_from True"

definition header_append :: "string \<Rightarrow> string \<Rightarrow> http_header \<Rightarrow> http_header" where
  "header_append name val h =
     AList.update name ((case map_of h name of None \<Rightarrow> [] | Some vs \<Rightarrow> vs) @ [val]) h"

fun add_values :: "string \<Rightarrow> string \<Rightarrow> string list \<Rightarrow> int \<times> http_header \<Rightarrow> string + int \<times> http_header" where
  "add_values name canonical [] acc = Inr acc"
| "add_values name canonical (v # vs) (bytes, h) =
     (if v = [] \<or> length v > 4096 \<or> contains_any v crlf
      then Inl (''zillow browser header '' @ quote name @ '' has an invalid value'')
      else
        (let bytes' = bytes + int (length canonical + length v)
         in if bytes' > 16 * 1024 then Inl ''zillow browser headers are too large''
            else add_values name canonical vs (bytes', header_append canonical v h)))"

fun add_headers :: "http_header \<Rightarrow> int \<times> http_header \<Rightarrow> string + int \<times> http_header" where
  "add_headers [] acc = Inr acc"
| "add_headers ((name, vs) # rest) acc =
     (let normalized = to_lower (trim_space name) in
      if normalized \<notin> set allowed_browser_headers
      then Inl (''zillow browser header '' @ quote name @ '' is not allowed'')
      else if vs = [] \<or> length vs > 8
      then Inl (''zillow browser header '' @ quote name @ '' has an invalid value count'')
      else case add_values name (canonical_key normalized) vs acc of
             Inl msg \<Rightarrow> Inl msg
           | Inr acc' \<Rightarrow> add_headers rest acc')"

definition with_browser_headers :: "http_header \<Rightarrow> client_options \<Rightarrow> string + client_options" where
  "with_browser_headers headers o1 =
     (if headers = [] then Inr (o1\<lparr>op_browser_headers := []\<rparr>)
      else if length headers > 32 then Inl ''zillow browser headers contain too many fields''
      else case add_headers headers (0, []) of
             Inl msg \<Rightarrow> Inl msg
           | Inr (bytes, h) \<Rightarrow> Inr (o1\<lparr>op_browser_headers := h\<rparr>))"

record client =
  cl_user_agent :: string
  cl_browser_headers :: http_header
  cl_max_response_bytes :: int
  cl_timeout :: int

definition new_client_with_options :: "string \<Rightarrow> client_options \<Rightarrow> string + client" where
  "new_client_with_options version0 o1 =
     (let version = trim_space version0;
          timeout = (if op_timeout o1 = 0 then default_timeout else op_timeout o1);
          limit = (if op_max_response_bytes o1 = 0 then default_max_response_bytes else op_max_response_bytes o1)
      in if version = [] then Inl ''new zillow client: version must not be empty''
         else if list_ex (\<lambda>c. is_space c \<or> is_control c) version
         then Inl ''new zillow client: version must not contain whitespace or control characters''
         else if timeout < 0 then Inl ''new zillow client: timeout must be positive''
         else if limit < 0 then Inl ''new zillow client: maximum response size must be positive''
         else Inr \<lparr>cl_user_agent = (if op_user_agent o1 = [] then ''gozillo/'' @ version else op_user_agent o1),
                   cl_browser_headers = op_browser_headers o1, cl_max_response_bytes = limit, cl_timeout = timeout\<rparr>)"

definition empty_options :: client_options where
  "empty_options = \<lparr>op_has_client = False, op_timeout = 0, op_max_response_bytes = 0, op_has_request_id = False,
     op_user_agent = [], op_browser_headers = [], op_cookie_names = []\<rparr>"

text \<open>The option functions in order; \<open>None\<close> is a nil option.\<close>

fun apply_options :: "(client_options \<Rightarrow> string + client_options) option list \<Rightarrow> client_options \<Rightarrow> string + client_options" where
  "apply_options [] o1 = Inr o1"
| "apply_options (None # fs) o1 = Inl ''new zillow client: option is nil''"
| "apply_options (Some f # fs) o1 =
     (case f o1 of Inl msg \<Rightarrow> Inl (''new zillow client: '' @ msg) | Inr o2 \<Rightarrow> apply_options fs o2)"

definition new_client :: "string \<Rightarrow> (client_options \<Rightarrow> string + client_options) option list \<Rightarrow> string + client" where
  "new_client version fs =
     (case apply_options fs empty_options of Inl msg \<Rightarrow> Inl msg | Inr o1 \<Rightarrow> new_client_with_options version o1)"

section \<open>The URL guard\<close>

definition validate_request_url :: "go_url \<Rightarrow> go_error option" where
  "validate_request_url target =
     (case parse_allowed_zillow_url (url_string target) of Inl err \<Rightarrow> Some err | Inr _ \<Rightarrow> None)"

text \<open>The redirect policy: \<open>via\<close> is the number of requests made so far, \<open>next\<close> the template's own policy.\<close>

definition safe_redirect_policy :: "(go_url \<Rightarrow> nat \<Rightarrow> go_error option) option \<Rightarrow> go_url \<Rightarrow> nat \<Rightarrow> go_error option" where
  "safe_redirect_policy next_policy target via =
     (case validate_request_url target of
        Some err \<Rightarrow> Some err
      | None \<Rightarrow>
          if via \<ge> 10 then Some (Plain ''stopped after 10 redirects'')
          else case next_policy of Some f \<Rightarrow> f target via | None \<Rightarrow> None)"

section \<open>Reading responses\<close>

text \<open>A body is the bytes that arrive and the error that ends them, if it is not the end of file.\<close>

record http_body =
  hb_data :: string
  hb_error :: "go_error option"

record http_response =
  hp_status_code :: int
  hp_status :: string
  hp_headers :: http_header
  hp_body :: http_body

definition header_get :: "http_header \<Rightarrow> string \<Rightarrow> string" where
  "header_get h name = (case map_of h name of Some (v # vs) \<Rightarrow> v | _ \<Rightarrow> [])"

definition read_bounded :: "http_body \<Rightarrow> int \<Rightarrow> go_error + string" where
  "read_bounded body limit =
     (let n = nat (i64 (limit + 1)); data = take n (hb_data body) in
      case (if length (hb_data body) < n then hb_error body else None) of
        Some err \<Rightarrow> Inl err
      | None \<Rightarrow> if int (length data) > limit then Inl (Sentinel ErrResponseTooLarge) else Inr data)"

definition normalized_content_type :: "string \<Rightarrow> string" where
  "normalized_content_type v =
     (if v = [] then [] else to_lower (trim_space (fst (cut_byte CHR '';'' v))))"

definition looks_like_json :: "string \<Rightarrow> bool" where
  "looks_like_json body =
     (case trim_space body of [] \<Rightarrow> False | c # cs \<Rightarrow> c = CHR ''{'' \<or> c = CHR ''['')"

definition is_json_response :: "string \<Rightarrow> string \<Rightarrow> bool" where
  "is_json_response content_type body =
     (let media = normalized_content_type content_type
      in media = ''application/json'' \<or> has_suffix media ''+json'' \<or> looks_like_json body)"

definition utf8_bom :: string where
  "utf8_bom = [char_of (239::nat), char_of (187::nat), char_of (191::nat)]"

definition is_html_response :: "string \<Rightarrow> string \<Rightarrow> bool" where
  "is_html_response content_type body =
     (let media = normalized_content_type content_type;
          start = to_lower (trim_space (trim_prefix body utf8_bom))
      in media = ''text/html'' \<or> media = ''application/xhtml+xml''
         \<or> has_prefix start ''<!doctype html'' \<or> has_prefix start ''<html''
         \<or> has_prefix start ''<head'' \<or> has_prefix start ''<body'')"

definition challenge_markers :: "(string \<times> string) list" where
  "challenge_markers =
     [(''px-captcha'', ''PerimeterX CAPTCHA page''), (''press & hold'', ''press-and-hold challenge page''),
      (''verify you are human'', ''human verification page''),
      (''access to this page has been denied'', ''access-denied challenge page''),
      (''cf-chl-'', ''browser challenge page''), (''challenge-platform'', ''browser challenge page''),
      (''robot check'', ''robot-check challenge page''), (''captcha'', ''CAPTCHA page'')]"

fun first_marker :: "(string \<times> string) list \<Rightarrow> string \<Rightarrow> string option" where
  "first_marker [] text = None"
| "first_marker ((val, reason) # ms) text = (if contains text val then Some reason else first_marker ms text)"

text \<open>The reason why a response is a challenge, empty when it is none.\<close>

definition detect_challenge :: "response_kind \<Rightarrow> int \<Rightarrow> string \<Rightarrow> string \<Rightarrow> string" where
  "detect_challenge kind status content_type body =
     (let text = to_lower body;
          html = is_html_response content_type body;
          next_data = contains text ''__next_data__''
      in if kind = ResponseHTML \<and> status \<ge> 200 \<and> status < 300 \<and> html \<and> next_data then []
         else
           (let json_shaped = looks_like_json (trim_prefix body utf8_bom);
                shaped = (status \<ge> 400 \<or> (kind = ResponseJSON \<and> (html \<or> \<not> json_shaped))
                          \<or> (kind = ResponseHTML \<and> html \<and> \<not> next_data))
            in case (if shaped then first_marker challenge_markers text else None) of
                 Some reason \<Rightarrow> reason
               | None \<Rightarrow>
                   if kind = ResponseJSON \<and> html then ''HTML returned by JSON endpoint''
                   else if kind = ResponseHTML \<and> status = 403 \<and> html then ''forbidden HTML response''
                   else []))"

text \<open>
  \<open>Retry-After\<close>: seconds, or a date, whose parsed value (\<open>http.ParseTime\<close>) is an argument. The
  product of the seconds with \<open>time.Second\<close> is an int64 product.
\<close>

definition parse_retry_after :: "(string \<Rightarrow> int option) \<Rightarrow> string \<Rightarrow> int \<Rightarrow> int" where
  "parse_retry_after parse_time raw now =
     (if raw = [] then 0
      else case parse_int64 raw of
             Some seconds \<Rightarrow>
               if seconds \<ge> 0 then i64 (seconds * 10 ^ 9)
               else (case parse_time raw of Some t \<Rightarrow> if t - now > 0 then t - now else 0 | None \<Rightarrow> 0)
           | None \<Rightarrow> (case parse_time raw of Some t \<Rightarrow> if t - now > 0 then t - now else 0 | None \<Rightarrow> 0))"

definition response_snippet :: "string \<Rightarrow> string" where
  "response_snippet body =
     (let v = join '' '' (text_fields body) in if length v > 256 then take 256 v @ ''...'' else v)"

section \<open>\<open>execute\<close>\<close>

record request_spec =
  qs_operation :: string
  qs_method :: string
  qs_url :: go_url
  qs_referer :: string
  qs_body :: "string option"
  qs_kind :: response_kind

record http_request =
  qh_method :: string
  qh_target :: string
  qh_header :: http_header
  qh_body :: string

definition accept_for :: "response_kind \<Rightarrow> string" where
  "accept_for kind = (case kind of ResponseHTML \<Rightarrow> ''text/html,application/xhtml+xml'' | ResponseJSON \<Rightarrow> ''application/json'')"

definition header_set :: "string \<Rightarrow> string \<Rightarrow> http_header \<Rightarrow> http_header" where
  "header_set name v h = AList.update name [v] h"

definition build_request :: "client \<Rightarrow> request_spec \<Rightarrow> http_request" where
  "build_request c spec =
     (let h0 = (if qs_kind spec = ResponseHTML then cl_browser_headers c else []);
          h1 = (if header_get h0 ''Accept'' = [] then header_set ''Accept'' (accept_for (qs_kind spec)) h0 else h0);
          h2 = header_set ''User-Agent'' (cl_user_agent c) h1;
          h3 = (case qs_body spec of None \<Rightarrow> h2
                | Some b \<Rightarrow> header_set ''Origin'' (u_scheme (qs_url spec) @ ''://'' @ u_host (qs_url spec))
                              (header_set ''Content-Type'' ''application/json'' h2));
          h4 = (if qs_referer spec \<noteq> [] then header_set ''Referer'' (qs_referer spec) h3 else h3)
      in \<lparr>qh_method = qs_method spec, qh_target = url_string (qs_url spec), qh_header = h4,
          qh_body = (case qs_body spec of None \<Rightarrow> [] | Some b \<Rightarrow> b)\<rparr>)"

text \<open>What \<open>execute\<close> makes of a response.\<close>

definition classify_response ::
  "(string \<Rightarrow> int option) \<Rightarrow> int \<Rightarrow> client \<Rightarrow> request_spec \<Rightarrow> http_response \<Rightarrow> go_error + string \<times> http_header" where
  "classify_response parse_time now c spec resp =
     (let url = url_string (qs_url spec) in
      case read_bounded (hp_body resp) (cl_max_response_bytes c) of
        Inl err \<Rightarrow>
          if error_is err ErrResponseTooLarge
          then Inl (TooLarge \<lparr>tl_url = url, tl_limit = cl_max_response_bytes c\<rparr>)
          else Inl (Wrap (''read Zillow '' @ qs_operation spec @ '' response'') err)
      | Inr data \<Rightarrow>
          (let blocked = trim_space (header_get (hp_headers resp) ''X-Px-Blocked'');
               content_type = header_get (hp_headers resp) ''Content-Type'';
               status = hp_status_code resp;
               reason = detect_challenge (qs_kind spec) status content_type data
           in if blocked \<noteq> [] \<and> \<not> equal_fold blocked ''false'' \<and> blocked \<noteq> ''0''
              then Inl (Challenge \<lparr>ce_url = url, ce_status = status, ce_reason = ''x-px-blocked response header''\<rparr>)
              else if status = 429 then
                (let raw = trim_space (header_get (hp_headers resp) ''Retry-After'')
                 in Inl (RateLimit \<lparr>rl_url = url, rl_retry_after = parse_retry_after parse_time raw now,
                                    rl_retry_after_raw = raw\<rparr>))
              else if reason \<noteq> []
              then Inl (Challenge \<lparr>ce_url = url, ce_status = status, ce_reason = reason\<rparr>)
              else if status < 200 \<or> status \<ge> 300
              then Inl (HttpStatus \<lparr>hs_url = url, hs_status_code = status, hs_status = hp_status resp,
                                    hs_body = response_snippet data\<rparr>)
              else if qs_kind spec = ResponseJSON \<and> \<not> is_json_response content_type data
              then Inl (SchemaDrift \<lparr>sd_operation = qs_operation spec, sd_path = ''response'',
                          sd_detail = ''expected JSON content, received '' @ quote (normalized_content_type content_type)\<rparr>)
              else Inr (data, hp_headers resp)))"

text \<open>
  \<open>send\<close> is the underlying client's \<open>Do\<close>; the second component lists the requests sent. A URL
  that passed the guard parses, so \<open>http.NewRequestWithContext\<close> does not fail here.
\<close>

definition execute ::
  "(http_request \<Rightarrow> go_error + http_response) \<Rightarrow> (string \<Rightarrow> int option) \<Rightarrow> int \<Rightarrow> client option \<Rightarrow> bool \<Rightarrow> request_spec
   \<Rightarrow> (go_error + string \<times> http_header) \<times> http_request list" where
  "execute send parse_time now client0 nil_context spec =
     (case client0 of
        None \<Rightarrow> (Inl (Plain ''zillow client is nil''), [])
      | Some c \<Rightarrow>
          if nil_context then (Inl (Plain ''zillow request context is nil''), [])
          else case validate_request_url (qs_url spec) of
                 Some err \<Rightarrow> (Inl err, [])
               | None \<Rightarrow>
                   (let req = build_request c spec in
                    case send req of
                      Inl err \<Rightarrow> (Inl (Wrap (''perform Zillow '' @ qs_operation spec @ '' request'') err), [req])
                    | Inr resp \<Rightarrow> (classify_response parse_time now c spec resp, [req])))"

section \<open>Facts\<close>

lemma execute_cases:
  assumes "execute send parse_time now c0 nil_context spec = (out, sent)"
  obtains (none) "sent = []" "\<And>r. out \<noteq> Inr r"
  | (one) c where "c0 = Some c" "sent = [build_request c spec]" "validate_request_url (qs_url spec) = None"
      "out = (case send (build_request c spec) of
        Inl err \<Rightarrow> Inl (Wrap (''perform Zillow '' @ qs_operation spec @ '' request'') err)
      | Inr resp \<Rightarrow> classify_response parse_time now c spec resp)"
  using assms by (auto simp: execute_def Let_def split: option.splits if_splits sum.splits)

lemma validated_target_safe:
  "validate_request_url u = None \<Longrightarrow> \<exists>v. url_parse (trim_space (url_string u)) = Some v \<and> safe_url v"
  by (auto simp: validate_request_url_def parse_allowed_zillow_url_def safe_url_def
      split: option.splits if_splits)

lemma classify_ok:
  assumes "classify_response parse_time now c spec resp = Inr (data, h)"
  shows "200 \<le> hp_status_code resp \<and> hp_status_code resp < 300 \<and> read_bounded (hp_body resp) (cl_max_response_bytes c) = Inr data
    \<and> detect_challenge (qs_kind spec) (hp_status_code resp) (header_get (hp_headers resp) ''Content-Type'') data = []
    \<and> (qs_kind spec = ResponseJSON \<longrightarrow> is_json_response (header_get (hp_headers resp) ''Content-Type'') data)"
  using assms by (auto simp: classify_response_def Let_def split: sum.splits if_splits)

lemma read_bounded_length: "read_bounded body limit = Inr data \<Longrightarrow> int (length data) \<le> limit"
  by (auto simp: read_bounded_def Let_def split: option.splits if_splits)

text \<open>What a browser header list accepted so far is worth.\<close>

definition header_size :: "http_header \<Rightarrow> int" where
  "header_size h = sum_list (map (\<lambda>(name, vs). sum_list (map (\<lambda>v. int (length name + length v)) vs)) h)"

definition headers_ok :: "http_header \<Rightarrow> bool" where
  "headers_ok h \<longleftrightarrow> distinct (map fst h)
     \<and> (\<forall>(name, vs) \<in> set h. name \<in> canonical_key ` set allowed_browser_headers
          \<and> (\<forall>v \<in> set vs. v \<noteq> [] \<and> length v \<le> 4096 \<and> \<not> contains_any v crlf))"

lemma header_size_append:
  "distinct (map fst h) \<Longrightarrow> header_size (header_append name v h) = header_size h + int (length name + length v)"
proof (induction h)
  case Nil
  then show ?case by (simp add: header_size_def header_append_def)
next
  case (Cons kv h)
  obtain k vs where kv: "kv = (k, vs)" by fastforce
  show ?case
  proof (cases "k = name")
    case True
    then show ?thesis by (simp add: kv header_size_def header_append_def)
  next
    case False
    then have "header_append name v (kv # h) = kv # header_append name v h"
      by (simp add: kv header_append_def)
    then show ?thesis using Cons by (simp add: header_size_def kv)
  qed
qed

lemma headers_ok_append:
  assumes "headers_ok h" and "name \<in> canonical_key ` set allowed_browser_headers"
    and "v \<noteq> []" and "length v \<le> 4096" and "\<not> contains_any v crlf"
  shows "headers_ok (header_append name v h)"
proof -
  have d: "distinct (map fst h)" using assms(1) by (simp add: headers_ok_def)
  have eq: "map_of (header_append name v h) = (map_of h)(name \<mapsto> (case map_of h name of None \<Rightarrow> [] | Some vs \<Rightarrow> vs) @ [v])"
    by (simp add: header_append_def update_conv')
  have d': "distinct (map fst (header_append name v h))"
    using d by (simp add: header_append_def distinct_update)
  have "n \<in> canonical_key ` set allowed_browser_headers
      \<and> (\<forall>v \<in> set vs. v \<noteq> [] \<and> length v \<le> 4096 \<and> \<not> contains_any v crlf)"
    if "(n, vs) \<in> set (header_append name v h)" for n vs
  proof -
    have m: "map_of (header_append name v h) n = Some vs" using d' that by simp
    have old: "n \<in> canonical_key ` set allowed_browser_headers
      \<and> (\<forall>v \<in> set ws. v \<noteq> [] \<and> length v \<le> 4096 \<and> \<not> contains_any v crlf)" if "map_of h n = Some ws" for ws
      using assms(1) map_of_SomeD [OF that] by (auto simp: headers_ok_def)
    show ?thesis
    proof (cases "n = name")
      case False
      then show ?thesis using m eq old by simp
    next
      case True
      then have "vs = (case map_of h name of None \<Rightarrow> [] | Some vs \<Rightarrow> vs) @ [v]" using m eq by simp
      then show ?thesis using True old assms(2-) by (auto split: option.splits)
    qed
  qed
  with d' show ?thesis by (auto simp: headers_ok_def)
qed

lemma add_values_ok:
  "add_values name canonical vs (bytes, h) = Inr (bytes', h') \<Longrightarrow> headers_ok h \<Longrightarrow> header_size h = bytes \<Longrightarrow>
   bytes \<le> 16 * 1024 \<Longrightarrow> canonical \<in> canonical_key ` set allowed_browser_headers \<Longrightarrow>
   headers_ok h' \<and> header_size h' = bytes' \<and> bytes' \<le> 16 * 1024"
proof (induction vs arbitrary: bytes h)
  case Nil
  then show ?case by simp
next
  case (Cons v vs)
  let ?b = "bytes + int (length canonical + length v)" and ?h = "header_append canonical v h"
  from Cons.prems(1) have v: "v \<noteq> []" "length v \<le> 4096" "\<not> contains_any v crlf" "?b \<le> 16 * 1024"
    and rest: "add_values name canonical vs (?b, ?h) = Inr (bytes', h')"
    by (simp_all add: Let_def split: if_splits)
  have "headers_ok ?h" using headers_ok_append [OF Cons.prems(2,5) v(1,2,3)] .
  moreover have "header_size ?h = ?b"
    using header_size_append [of h canonical v] Cons.prems(2,3) by (simp add: headers_ok_def)
  ultimately show ?case using Cons.IH [OF rest] v(4) Cons.prems(5) by blast
qed

lemma add_headers_ok:
  "add_headers headers (bytes, h) = Inr (bytes', h') \<Longrightarrow> headers_ok h \<Longrightarrow> header_size h = bytes \<Longrightarrow>
   bytes \<le> 16 * 1024 \<Longrightarrow> headers_ok h' \<and> header_size h' = bytes' \<and> bytes' \<le> 16 * 1024"
proof (induction headers arbitrary: bytes h)
  case Nil
  then show ?case by simp
next
  case (Cons nv headers)
  obtain name vs where nv: "nv = (name, vs)" by fastforce
  from Cons.prems(1) obtain b1 h1 where
    v: "add_values name (canonical_key (to_lower (trim_space name))) vs (bytes, h) = Inr (b1, h1)"
    and rest: "add_headers headers (b1, h1) = Inr (bytes', h')"
    and name: "to_lower (trim_space name) \<in> set allowed_browser_headers"
    by (auto simp: nv Let_def split: if_splits sum.splits)
  have "headers_ok h1 \<and> header_size h1 = b1 \<and> b1 \<le> 16 * 1024"
    using add_values_ok [OF v Cons.prems(2-4)] name by blast
  then show ?case using Cons.IH [OF rest] by blast
qed

end
