(* ===== verification/Search_Response.thy ===== *)
theory Search_Response
  imports Money Rental_Facts Discovery Client
begin

text \<open>
  Search results (\<open>internal/zillow/search.go\<close>, with \<open>communityPropertyURL\<close> of \<open>rental_page.go\<close>
  and \<open>normalizeZPID\<close> of \<open>property.go\<close>): where the listing arrays are found in a response, the
  checks of a raw listing, its normalization, the removal of duplicates and the metadata.

  The JSON decoder is \<open>encoding/json\<close> and appears as the argument \<open>decode\<close>: what the first value of
  a text is, and whether anything follows it (another value, or text that is none, with its error). The order of a JSON object is not specified, so
  \<open>findKeyRecursive\<close> sorts the keys. All listings of a response are dated against one \<open>today\<close>.
\<close>

section \<open>Finding the arrays\<close>

definition dotted :: "string \<Rightarrow> string \<Rightarrow> string" where
  "dotted before key = (if before \<noteq> [] then before @ ''.'' @ key else key)"

fun first_found :: "('a \<times> 'b option) list \<Rightarrow> 'b option" where
  "first_found [] = None"
| "first_found ((k, r) # rs) = (case r of Some v \<Rightarrow> Some v | None \<Rightarrow> first_found rs)"

lemma size_zip_item [termination_simp]: "(i, x) \<in> set (zip is xs) \<Longrightarrow> size x < Suc (size_list size xs)"
  by (drule set_zip_rightD) (simp add: less_Suc_eq_le size_list_estimation')

fun find_key_with_path :: "string \<Rightarrow> string \<Rightarrow> json \<Rightarrow> (json \<times> string) option" where
  "find_key_with_path wanted before (JObject obj) =
     (case map_of obj wanted of
        Some v \<Rightarrow> Some (v, dotted before wanted)
      | None \<Rightarrow>
          first_found (sort_stable (\<lambda>a b. string_less (fst a) (fst b))
            (map (\<lambda>(key, item). (key, find_key_with_path wanted (dotted before key) item)) obj)))"
| "find_key_with_path wanted before (JArray items) =
     first_found (map (\<lambda>(i, item). (i, find_key_with_path wanted (before @ ''['' @ itoa (int i) @ '']'') item))
                    (zip [0..<length items] items))"
| "find_key_with_path wanted before _ = None"

definition find_key_recursive :: "json \<Rightarrow> string \<Rightarrow> json option" where
  "find_key_recursive v wanted = map_option fst (find_key_with_path wanted [] v)"

definition result_paths :: "string \<Rightarrow> string list list" where
  "result_paths name =
     [[''cat1'', ''searchResults'', name], [''searchPageState'', ''cat1'', ''searchResults'', name],
      [''data'', ''cat1'', ''searchResults'', name]]"

fun first_path :: "json_object \<Rightarrow> string list list \<Rightarrow> (json \<times> string list) option" where
  "first_path obj [] = None"
| "first_path obj (path # paths) =
     (case lookup_path obj path of Some v \<Rightarrow> Some (v, path) | None \<Rightarrow> first_path obj paths)"

text \<open>What was found under a name: nothing, something that is no array, or an array, with its path.\<close>

datatype found_array = NotFound | NotArray string | FoundArray "json list" string

definition find_optional_result_array :: "json_object \<Rightarrow> string \<Rightarrow> found_array" where
  "find_optional_result_array obj name =
     (case first_path obj (result_paths name) of
        None \<Rightarrow> NotFound
      | Some (v, path) \<Rightarrow>
          (case v of
             JNull \<Rightarrow> FoundArray [] (join ''.'' path)
           | JArray items \<Rightarrow> FoundArray items (join ''.'' path)
           | _ \<Rightarrow> NotArray (join ''.'' path)))"

definition find_list_results :: "json_object \<Rightarrow> found_array" where
  "find_list_results obj =
     (case first_path obj (result_paths ''listResults'') of
        Some (v, path) \<Rightarrow>
          (case v of JArray items \<Rightarrow> FoundArray items (join ''.'' path) | _ \<Rightarrow> NotArray (join ''.'' path))
      | None \<Rightarrow>
          (case find_key_with_path ''listResults'' [] (JObject obj) of
             None \<Rightarrow> NotFound
           | Some (v, path) \<Rightarrow> (case v of JArray items \<Rightarrow> FoundArray items path | _ \<Rightarrow> NotArray path)))"

section \<open>Checking a raw listing\<close>

fun validate_optional_fields :: "json_object \<Rightarrow> string list \<Rightarrow> string \<Rightarrow> (json \<Rightarrow> bool) \<Rightarrow> string option" where
  "validate_optional_fields raw [] expected valid = None"
| "validate_optional_fields raw (key # keys) expected valid =
     (if get raw key \<noteq> JNull \<and> \<not> valid (get raw key) then Some (key @ '' must be '' @ expected)
      else validate_optional_fields raw keys expected valid)"

definition is_text :: "json \<Rightarrow> bool" where
  "is_text v = (case v of JString _ \<Rightarrow> True | _ \<Rightarrow> False)"

definition is_text_or_number :: "json \<Rightarrow> bool" where
  "is_text_or_number v \<longleftrightarrow> string_from_any v \<noteq> None"

definition is_numeric :: "json \<Rightarrow> bool" where
  "is_numeric v \<longleftrightarrow> float_from_any v \<noteq> None"

text \<open>The first error of a sequence of checks.\<close>

fun first_error :: "string option list \<Rightarrow> string option" where
  "first_error [] = None"
| "first_error (e # es) = (case e of Some msg \<Rightarrow> Some msg | None \<Rightarrow> first_error es)"

definition validate_address_field :: "json_object \<Rightarrow> string option" where
  "validate_address_field raw =
     (case get raw ''address'' of
        JNull \<Rightarrow> None
      | JString _ \<Rightarrow> None
      | JObject v \<Rightarrow>
          map_option (\<lambda>msg. ''address.'' @ msg) (first_error
            [validate_optional_fields v [''streetAddress'', ''addressStreet'', ''city'', ''addressCity'', ''state'',
               ''addressState'', ''full'', ''formattedAddress''] ''a string'' is_text,
             validate_optional_fields v [''zipcode'', ''postalCode'', ''addressZipcode''] ''a string or number'' is_text_or_number])
      | _ \<Rightarrow> Some ''address must be a string or object'')"

definition validate_lat_long_field :: "json_object \<Rightarrow> string option" where
  "validate_lat_long_field raw =
     (case get raw ''latLong'' of
        JNull \<Rightarrow> None
      | JObject v \<Rightarrow>
          map_option (\<lambda>msg. ''latLong.'' @ msg)
            (validate_optional_fields v [''latitude'', ''lat'', ''longitude'', ''lng'', ''lon''] ''numeric'' is_numeric)
      | _ \<Rightarrow> Some ''latLong must be an object'')"

definition validate_listing_fields :: "json_object \<Rightarrow> string option" where
  "validate_listing_fields raw = first_error
     [validate_optional_fields raw [''zpid'', ''id'', ''addressZipcode'', ''zipcode'', ''postalCode'']
        ''a string or number'' is_text_or_number,
      validate_optional_fields raw
        [''detailUrl'', ''hdpUrl'', ''url'', ''homeType'', ''propertyType'', ''statusType'', ''homeStatus'', ''statusText'',
         ''imgSrc'', ''imageUrl'', ''addressStreet'', ''streetAddress'', ''addressCity'', ''city'', ''addressState'', ''state'',
         ''availabilityDate''] ''a string'' is_text,
      validate_optional_fields raw
        [''beds'', ''bedrooms'', ''baths'', ''bathrooms'', ''latitude'', ''lat'', ''longitude'', ''lng'', ''lon'']
        ''numeric'' is_numeric,
      validate_optional_fields raw [''area'', ''livingArea'', ''daysOnZillow''] ''an integer'' is_integral_value,
      validate_optional_fields raw [''unformattedPrice''] ''a money value'' is_money_value,
      validate_optional_fields raw [''price''] ''a string or number'' (\<lambda>v. is_text v \<or> is_numeric v),
      validate_address_field raw,
      validate_lat_long_field raw]"

section \<open>Normalizing a listing\<close>

definition non_empty :: "string list \<Rightarrow> string list" where
  "non_empty vs = filter (\<lambda>v. v \<noteq> []) (map trim_space vs)"

definition join_address :: "address \<Rightarrow> string" where
  "join_address a =
     (let locality = trim_space (join '' '' (non_empty [ad_city a, ad_state a, ad_postal_code a]))
      in join '', '' (non_empty [ad_street a, locality]))"

definition or_else :: "string \<Rightarrow> string \<Rightarrow> string" where
  "or_else a b = (if a = [] then b else a)"

definition normalize_address :: "json_object \<Rightarrow> address" where
  "normalize_address raw =
     (let a0 = \<lparr>ad_full = [], ad_street = first_string raw [''addressStreet'', ''streetAddress''],
                ad_city = first_string raw [''addressCity'', ''city''],
                ad_state = first_string raw [''addressState'', ''state''],
                ad_postal_code = first_string raw [''addressZipcode'', ''zipcode'', ''postalCode'']\<rparr>;
          a1 = (case get raw ''address'' of
                  JString s \<Rightarrow> a0\<lparr>ad_full := trim_space s\<rparr>
                | JObject v \<Rightarrow>
                    \<lparr>ad_full = first_string v [''full'', ''formattedAddress''],
                     ad_street = or_else (ad_street a0) (first_string v [''streetAddress'', ''addressStreet'']),
                     ad_city = or_else (ad_city a0) (first_string v [''city'', ''addressCity'']),
                     ad_state = or_else (ad_state a0) (first_string v [''state'', ''addressState'']),
                     ad_postal_code = or_else (ad_postal_code a0)
                       (first_string v [''zipcode'', ''postalCode'', ''addressZipcode''])\<rparr>
                | _ \<Rightarrow> a0)
      in if ad_full a1 = [] then a1\<lparr>ad_full := join_address a1\<rparr> else a1)"

definition pointer_or :: "'a option \<Rightarrow> 'a option \<Rightarrow> 'a option" where
  "pointer_or a b = (case a of None \<Rightarrow> b | Some _ \<Rightarrow> a)"

definition normalize_coordinates :: "json_object \<Rightarrow> coordinates" where
  "normalize_coordinates raw =
     (let lat = float_pointer raw [''latitude'', ''lat'']; lon = float_pointer raw [''longitude'', ''lng'', ''lon''] in
      case get raw ''latLong'' of
        JObject nested \<Rightarrow>
          \<lparr>co_latitude = pointer_or lat (float_pointer nested [''latitude'', ''lat'']),
           co_longitude = pointer_or lon (float_pointer nested [''longitude'', ''lng'', ''lon''])\<rparr>
      | _ \<Rightarrow> \<lparr>co_latitude = lat, co_longitude = lon\<rparr>)"

definition normalize_zillow_url :: "string \<Rightarrow> string" where
  "normalize_zillow_url raw0 =
     (let raw = trim_space raw0 in
      if raw = [] then []
      else case url_parse raw of
             None \<Rightarrow> raw
           | Some parsed \<Rightarrow>
               if u_scheme parsed \<noteq> [] then url_string parsed
               else url_string (resolve_reference zillow_base parsed))"

definition normalize_zpid :: "json \<Rightarrow> string option" where
  "normalize_zpid v =
     (case string_from_any v of
        None \<Rightarrow> None
      | Some text0 \<Rightarrow>
          (let text = trim_space text0; digits = dropWhile (\<lambda>c. c = CHR ''0'') text in
           if text = [] \<or> \<not> list_all is_digit text \<or> digits = [] then None else Some digits))"

definition community_property_url :: "string \<Rightarrow> string \<Rightarrow> string" where
  "community_property_url zid fallback =
     (if normalize_zpid (JString zid) \<noteq> None then ''https://www.zillow.com/homedetails/'' @ zid @ ''_zpid/''
      else case url_parse fallback of
             Some parsed \<Rightarrow> if u_scheme parsed = ''https'' \<and> u_host parsed \<noteq> [] then url_string parsed else []
           | None \<Rightarrow> [])"

text \<open>The largest readable bedroom count of the units.\<close>

fun max_beds :: "rat option \<Rightarrow> json list \<Rightarrow> rat option" where
  "max_beds best [] = best"
| "max_beds best (u # us) =
     (case u of
        JObject unit \<Rightarrow>
          (case float_from_any (get unit ''beds'') of
             None \<Rightarrow> max_beds best us
           | Some beds \<Rightarrow>
               (case best of
                  None \<Rightarrow> max_beds (Some beds) us
                | Some b \<Rightarrow> max_beds (Some (if beds > b then beds else b)) us))
      | _ \<Rightarrow> max_beds best us)"

definition maximum_unit_bedrooms :: "json \<Rightarrow> rat option" where
  "maximum_unit_bedrooms v = (case v of JArray units \<Rightarrow> max_beds None units | _ \<Rightarrow> None)"

definition listing_days :: "json_object \<Rightarrow> int option \<Rightarrow> int option" where
  "listing_days raw derived =
     pointer_or (pointer_or (int64_pointer raw [''daysOnZillow'']) derived)
       (case lookup_path raw [''hdpData'', ''homeInfo''] of
          Some (JObject home) \<Rightarrow> int64_pointer home [''daysOnZillow''] | _ \<Rightarrow> None)"

definition build_listing :: "date_time \<Rightarrow> json_object \<Rightarrow> listing" where
  "build_listing today raw =
     (let building = (bool_from_any (get raw ''isBuilding'') = Some True);
          home_type = first_string raw [''homeType'', ''propertyType''];
          addr = normalize_address raw;
          description = first_string raw [''description''];
          housing = detect_shared_and_student_housing raw description (ad_full addr);
          price = money_pointer raw [''unformattedPrice'', ''baseRent'', ''minBaseRent'', ''minPrice'', ''price''];
          fees = money_pointer raw [''totalRequiredMonthlyMinFee''];
          includes = bool_pointer raw ''listPriceIncludesRequiredMonthlyFees'';
          beds = float_pointer raw [''beds'', ''bedrooms''];
          recency = rental_history_recency raw today
      in empty_listing\<lparr>
           li_id := first_string raw [''zpid'', ''id''],
           li_url := normalize_zillow_url (first_string raw [''detailUrl'', ''hdpUrl'', ''url'']),
           li_home_type := (if building \<and> home_type = [] then ''APARTMENT'' else home_type),
           li_status := first_string raw [''statusType'', ''homeStatus'', ''statusText''],
           li_image_url := first_string raw [''imgSrc'', ''imageUrl''],
           li_price_text := string_value (get raw ''price''),
           li_is_building := building, li_address := addr, li_description := description,
           li_shared_housing := fst housing, li_student_housing := snd housing,
           li_income_restricted := detect_income_restricted_housing raw description,
           li_bedrooms := (if building then pointer_or (maximum_unit_bedrooms (get raw ''units'')) beds else beds),
           li_bathrooms := float_pointer raw [''baths'', ''bathrooms''],
           li_living_area := int64_pointer raw [''area'', ''livingArea''],
           li_price := price, li_required_fees := fees, li_price_includes_fees := includes,
           li_total_cost := total_monthly_cost price fees includes,
           li_coordinates := normalize_coordinates raw,
           li_listed_date := fst recency, li_updated_date := fst (snd recency),
           li_days_on_zillow := listing_days raw (snd (snd recency)),
           li_availability := normalized_availability (get raw ''availabilityDate'')\<rparr>)"

definition normalize_listing :: "date_time \<Rightarrow> json_object \<Rightarrow> string + listing" where
  "normalize_listing today raw =
     (case validate_listing_fields raw of
        Some msg \<Rightarrow> Inl msg
      | None \<Rightarrow>
          (let l = build_listing today raw in
           if li_id l = [] \<and> li_url l = [] \<and> ad_full (li_address l) = []
           then Inl ''listing has no recognized core identity'' else Inr l))"

lemma normalize_listing_built:
  "normalize_listing today raw = Inr l \<Longrightarrow> validate_listing_fields raw = None \<and> l = build_listing today raw
     \<and> (li_id l \<noteq> [] \<or> li_url l \<noteq> [] \<or> ad_full (li_address l) \<noteq> [])"
  by (auto simp: normalize_listing_def Let_def split: option.splits if_splits)

section \<open>Decoding a response\<close>

datatype json_text = BadJson string | TrailingJson "string option" | OneJson json

definition drift :: "string \<Rightarrow> string \<Rightarrow> string \<Rightarrow> go_error" where
  "drift operation path detail = SchemaDrift \<lparr>sd_operation = operation, sd_path = path, sd_detail = detail\<rparr>"

text \<open>The listings of one array, up to the first faulty item.\<close>

definition item_path :: "string \<Rightarrow> nat \<Rightarrow> string" where
  "item_path path i = path @ ''['' @ itoa (int i) @ '']''"

fun normalize_items :: "date_time \<Rightarrow> string \<Rightarrow> nat \<Rightarrow> json list \<Rightarrow> go_error + listing list" where
  "normalize_items today path i [] = Inr []"
| "normalize_items today path i (item # items) =
     (case item of
        JObject raw \<Rightarrow>
          (case normalize_listing today raw of
             Inl msg \<Rightarrow> Inl (drift ''search'' (item_path path i) msg)
           | Inr l0 \<Rightarrow>
               (let l = (if has_suffix path ''.mapResults'' \<and> li_url l0 = []
                         then l0\<lparr>li_url := community_property_url (li_id l0) []\<rparr> else l0)
                in case normalize_items today path (i + 1) items of
                     Inl err \<Rightarrow> Inl err | Inr ls \<Rightarrow> Inr (l # ls)))
      | _ \<Rightarrow> Inl (drift ''search'' (item_path path i) ''listing must be an object''))"

text \<open>The loop that keeps the first listing of every discovery key, and all without a key.\<close>

fun dedupe_listings :: "string list \<Rightarrow> listing list \<Rightarrow> listing list" where
  "dedupe_listings seen [] = []"
| "dedupe_listings seen (l # ls) =
     (let key = listing_discovery_key l in
      if key \<noteq> [] then
        (if key \<in> set seen then dedupe_listings seen ls else l # dedupe_listings (key # seen) ls)
      else l # dedupe_listings seen ls)"

definition int_or_zero :: "json \<Rightarrow> int" where
  "int_or_zero v = (case int_from_any v of Some n \<Rightarrow> n | None \<Rightarrow> 0)"

definition search_page :: "json_object \<Rightarrow> int" where
  "search_page state =
     (case lookup_path state [''pagination'', ''currentPage''] of None \<Rightarrow> 0 | Some v \<Rightarrow> int_or_zero v)"

definition metadata_paths :: "string list list \<Rightarrow> string list list" where
  "metadata_paths tails = map (\<lambda>p. ''cat1'' # p) tails @ map (\<lambda>p. ''searchPageState'' # ''cat1'' # p) tails"

definition search_metadata_of :: "json_object \<Rightarrow> int \<Rightarrow> json_object \<Rightarrow> nat \<Rightarrow> search_metadata" where
  "search_metadata_of obj request_id state returned =
     (let number = (\<lambda>tails. case first_path_value obj (metadata_paths tails) of Some v \<Rightarrow> int_or_zero v | None \<Rightarrow> 0) in
      \<lparr>sm_request_id = request_id, sm_current_page = search_page state, sm_returned = int returned,
       sm_results_per_page = number [[''searchList'', ''resultsPerPage'']],
       sm_total_pages = number [[''searchList'', ''totalPages'']],
       sm_total_results =
         (case first_path_value obj (metadata_paths [[''searchList'', ''totalResultCount''], [''searchResults'', ''totalResultCount'']]) of
            Some v \<Rightarrow> int_or_zero v
          | None \<Rightarrow> (case find_key_recursive (JObject obj) ''totalResultCount'' of Some v \<Rightarrow> int_or_zero v | None \<Rightarrow> 0)),
       sm_results_hash =
         (case first_path_value obj (metadata_paths [[''searchResults'', ''resultsHash'']]) of Some v \<Rightarrow> string_value v | None \<Rightarrow> []),
       sm_relaxed_results =
         (case first_path_value obj (metadata_paths [[''searchResults'', ''relaxedResults'']]) of
            Some v \<Rightarrow> bool_from_any v = Some True | None \<Rightarrow> False)\<rparr>)"

definition response_listings :: "date_time \<Rightarrow> json_object \<Rightarrow> go_error + listing list" where
  "response_listings today obj =
     (case find_list_results obj of
        NotFound \<Rightarrow> Inl (drift ''search'' ''listResults'' ''required listing array is missing'')
      | NotArray path \<Rightarrow> Inl (drift ''search'' path ''listing results must be an array'')
      | FoundArray items path \<Rightarrow>
          (case find_optional_result_array obj ''mapResults'' of
             NotArray map_path \<Rightarrow> Inl (drift ''search'' map_path ''map results must be an array'')
           | NotFound \<Rightarrow> normalize_items today path 0 items
           | FoundArray map_items map_path \<Rightarrow>
               (case normalize_items today path 0 items of
                  Inl err \<Rightarrow> Inl err
                | Inr ls \<Rightarrow>
                    (case normalize_items today map_path 0 map_items of Inl err \<Rightarrow> Inl err | Inr ms \<Rightarrow> Inr (ls @ ms)))))"

definition decode_search_response ::
  "(string \<Rightarrow> json_text) \<Rightarrow> date_time \<Rightarrow> string \<Rightarrow> int \<Rightarrow> json_object \<Rightarrow> go_error + search_result" where
  "decode_search_response decode today data request_id state =
     (case decode data of
        BadJson msg \<Rightarrow> Inl (drift ''search'' ''response'' (''invalid JSON: '' @ msg))
      | TrailingJson _ \<Rightarrow> Inl (drift ''search'' ''response'' ''multiple JSON values'')
      | OneJson (JObject obj) \<Rightarrow>
          (case response_listings today obj of
             Inl err \<Rightarrow> Inl err
           | Inr ls \<Rightarrow>
               (let kept = dedupe_listings [] ls in
                Inr \<lparr>sr_listings = kept, sr_metadata = search_metadata_of obj request_id state (length kept), sr_raw = []\<rparr>))
      | OneJson _ \<Rightarrow> Inl (drift ''search'' ''response'' ''top-level value must be an object''))"

end
