(* ===== verification/Har_Model.thy ===== *)
theory Har_Model
  imports Search_Response Recorder_Data
begin

text \<open>
  HAR documents (\<open>internal/har/har.go\<close> and \<open>json.go\<close>): the types, their validation, loading, saving
  and cloning.

  The name-value record is the recorder's. A nil slice is the empty list: the two differ only in
  their JSON text, and \<open>normalizeForSave\<close> makes every slice non-nil before it is written, which is
  how the encoder of the environment writes lists. The environment of the package is its JSON
  library: the decoder of values and of archives, and the two encoders.
\<close>

section \<open>Types\<close>

definition version12 :: string where "version12 = ''1.2''"

record har_creator =
  hc_name :: string
  hc_version :: string
  hc_comment :: string

record page_timings =
  pt_on_content_load :: "rat option"
  pt_on_load :: "rat option"
  pt_comment :: string

record har_page =
  hp_started :: string
  hp_id :: string
  hp_title :: string
  hp_timings :: page_timings
  hp_comment :: string

record har_timings =
  ht_blocked :: "rat option"
  ht_dns :: "rat option"
  ht_connect :: "rat option"
  ht_send :: rat
  ht_wait :: rat
  ht_receive :: rat
  ht_ssl :: "rat option"
  ht_comment :: string

record har_cookie =
  hk_name :: string
  hk_value :: string
  hk_path :: string
  hk_domain :: string
  hk_expires :: string
  hk_http_only :: bool
  hk_secure :: bool
  hk_same_site :: string
  hk_comment :: string

record post_param =
  pm_name :: string
  pm_value :: string
  pm_file_name :: string
  pm_content_type :: string
  pm_comment :: string

record post_data =
  pd_mime :: string
  pd_params :: "post_param list"
  pd_text :: string
  pd_comment :: string

record har_content =
  hn_size :: int
  hn_compression :: "int option"
  hn_mime :: string
  hn_text :: string
  hn_encoding :: string
  hn_comment :: string

record har_request =
  hq_method :: string
  hq_url :: string
  hq_http_version :: string
  hq_headers :: "name_value list"
  hq_query :: "name_value list"
  hq_cookies :: "har_cookie list"
  hq_headers_size :: int
  hq_body_size :: int
  hq_post :: "post_data option"
  hq_comment :: string

record har_response =
  hr_status :: int
  hr_status_text :: string
  hr_http_version :: string
  hr_headers :: "name_value list"
  hr_cookies :: "har_cookie list"
  hr_content :: har_content
  hr_redirect_url :: string
  hr_headers_size :: int
  hr_body_size :: int
  hr_comment :: string

record har_entry =
  he_page_ref :: string
  he_started :: string
  he_time :: rat
  he_request :: har_request
  he_response :: har_response
  he_cache :: string
  he_timings :: "har_timings option"
  he_server_ip :: string
  he_connection :: string
  he_comment :: string
  he_resource_type :: string
  he_initiator :: string

record har_log =
  hl_version :: string
  hl_creator :: har_creator
  hl_browser :: "har_creator option"
  hl_pages :: "har_page list"
  hl_entries :: "har_entry list"
  hl_comment :: string

record archive =
  ar_log :: har_log

section \<open>Validation\<close>

definition validate_archive :: "archive option \<Rightarrow> string option" where
  "validate_archive a0 =
     (case a0 of
        None \<Rightarrow> Some ''HAR archive is nil''
      | Some a \<Rightarrow>
          if hl_version (ar_log a) = [] then Some ''HAR log.version is required''
          else if hl_version (ar_log a) \<noteq> version12
          then Some (''unsupported HAR version '' @ quote (hl_version (ar_log a)) @ ''; want '' @ quote version12)
          else None)"

section \<open>JSON\<close>

datatype archive_text = BadArchive string | TrailingArchive "string option" | OneArchive archive

record har_env =
  hv_decode :: "string \<Rightarrow> json_text"
  hv_encode :: "json \<Rightarrow> string option"
  hv_decode_archive :: "string \<Rightarrow> archive_text"
  hv_encode_archive :: "archive \<Rightarrow> string + string"
  hv_copy_archive :: "archive \<Rightarrow> string + archive"

definition decode_json :: "har_env \<Rightarrow> string \<Rightarrow> string + json" where
  "decode_json env text =
     (case hv_decode env text of
        BadJson msg \<Rightarrow> Inl msg
      | TrailingJson None \<Rightarrow> Inl ''multiple JSON values''
      | TrailingJson (Some msg) \<Rightarrow> Inl msg
      | OneJson v \<Rightarrow> Inr v)"

definition is_json_media_type :: "string \<Rightarrow> bool" where
  "is_json_media_type v =
     (let media = to_lower (trim_space (hd (split_byte CHR '';'' v)))
      in media = ''application/json'' \<or> media = ''text/json'' \<or> has_suffix media ''+json'')"

definition looks_like_json_object_or_array :: "string \<Rightarrow> bool" where
  "looks_like_json_object_or_array s =
     (let t = trim_space s in t \<noteq> [] \<and> (hd t = CHR ''{'' \<or> hd t = CHR ''[''))"

section \<open>Loading, saving, cloning\<close>

definition load_archive :: "har_env \<Rightarrow> string option \<Rightarrow> string + archive" where
  "load_archive env reader =
     (case reader of
        None \<Rightarrow> Inl ''load HAR: reader is nil''
      | Some data \<Rightarrow>
          (case hv_decode_archive env data of
             BadArchive msg \<Rightarrow> Inl (''load HAR: decode: '' @ msg)
           | TrailingArchive None \<Rightarrow> Inl ''load HAR: multiple JSON values''
           | TrailingArchive (Some msg) \<Rightarrow> Inl (''load HAR: trailing data: '' @ msg)
           | OneArchive a \<Rightarrow>
               (case validate_archive (Some a) of Some msg \<Rightarrow> Inl (''load HAR: '' @ msg) | None \<Rightarrow> Inr a)))"

definition empty_timings :: har_timings where
  "empty_timings = \<lparr>ht_blocked = None, ht_dns = None, ht_connect = None, ht_send = 0, ht_wait = 0, ht_receive = 0,
     ht_ssl = None, ht_comment = []\<rparr>"

definition normalize_entry :: "har_entry \<Rightarrow> har_entry" where
  "normalize_entry e =
     e\<lparr>he_cache := (if he_cache e = [] \<or> he_cache e = ''null'' then ''{}'' else he_cache e),
       he_timings := (case he_timings e of None \<Rightarrow> Some empty_timings | Some t \<Rightarrow> Some t)\<rparr>"

definition map_entries :: "(har_entry \<Rightarrow> har_entry) \<Rightarrow> archive \<Rightarrow> archive" where
  "map_entries f a = a\<lparr>ar_log := (ar_log a)\<lparr>hl_entries := map f (hl_entries (ar_log a))\<rparr>\<rparr>"

definition normalize_for_save :: "har_env \<Rightarrow> archive \<Rightarrow> string + archive" where
  "normalize_for_save env a =
     (case hv_copy_archive env a of Inl msg \<Rightarrow> Inl msg | Inr copied \<Rightarrow> Inr (map_entries normalize_entry copied))"

definition save_archive :: "har_env \<Rightarrow> archive option \<Rightarrow> string + string" where
  "save_archive env a0 =
     (case validate_archive a0 of
        Some msg \<Rightarrow> Inl (''save HAR: '' @ msg)
      | None \<Rightarrow>
          (case normalize_for_save env (the a0) of
             Inl msg \<Rightarrow> Inl (''save HAR: normalize: '' @ msg)
           | Inr normalized \<Rightarrow>
               (case hv_encode_archive env normalized of
                  Inl msg \<Rightarrow> Inl (''save HAR: encode: '' @ msg)
                | Inr text \<Rightarrow> Inr text)))"

definition clone_archive :: "har_env \<Rightarrow> archive option \<Rightarrow> string + archive" where
  "clone_archive env a0 =
     (case save_archive env a0 of
        Inl msg \<Rightarrow> Inl msg
      | Inr text \<Rightarrow>
          (case load_archive env (Some text) of Inl msg \<Rightarrow> Inl (''clone HAR: '' @ msg) | Inr a \<Rightarrow> Inr a))"

text \<open>
  The documented behaviour of the library on archives: what is encoded decodes to itself, alone in
  its text, and marshalling keeps an archive.
\<close>

definition faithful_json :: "har_env \<Rightarrow> bool" where
  "faithful_json env \<longleftrightarrow> (\<forall>a text. hv_encode_archive env a = Inr text \<longrightarrow> hv_decode_archive env text = OneArchive a)
     \<and> (\<forall>a b. hv_copy_archive env a = Inr b \<longrightarrow> b = a)"

lemma valid_version: "validate_archive (Some a) = None \<longleftrightarrow> hl_version (ar_log a) = version12"
  by (auto simp: validate_archive_def version12_def)

lemma map_entries_log [simp]:
  "hl_version (ar_log (map_entries f a)) = hl_version (ar_log a)"
  "hl_entries (ar_log (map_entries f a)) = map f (hl_entries (ar_log a))"
  by (simp_all add: map_entries_def)

lemma clone_valid: "clone_archive env a0 = Inr b \<Longrightarrow> hl_version (ar_log b) = version12"
  by (auto simp: clone_archive_def load_archive_def valid_version split: sum.splits archive_text.splits option.splits)

text \<open>
  A saved archive loads again as its normal form, which differs from it in nothing but defaults: an
  absent cache object and absent timings.
\<close>
theorem save_load:
  assumes "faithful_json env" and "save_archive env (Some a) = Inr text"
  shows "load_archive env (Some text) = Inr (map_entries normalize_entry a)"
proof -
  have v: "hl_version (ar_log a) = version12"
    using assms(2) by (auto simp: save_archive_def valid_version split: option.splits)
  obtain b where b: "hv_copy_archive env a = Inr b" "hv_encode_archive env (map_entries normalize_entry b) = Inr text"
    using assms(2) by (auto simp: save_archive_def normalize_for_save_def split: option.splits sum.splits)
  then have "b = a" "hv_decode_archive env text = OneArchive (map_entries normalize_entry b)"
    using assms(1) by (auto simp: faithful_json_def)
  then show ?thesis using v valid_version [of "map_entries normalize_entry a"] by (simp add: load_archive_def)
qed

definition small_archive :: archive where
  "small_archive = \<lparr>ar_log = \<lparr>hl_version = ''1.2'', hl_creator = \<lparr>hc_name = ''gozillo'', hc_version = ''1'', hc_comment = []\<rparr>,
     hl_browser = None, hl_pages = [], hl_entries = [], hl_comment = []\<rparr>\<rparr>"

definition one_archive_env :: har_env where
  "one_archive_env = \<lparr>hv_decode = (\<lambda>_. BadJson ''none''), hv_encode = (\<lambda>_. None),
     hv_decode_archive = (\<lambda>t. if t = ''{}'' then OneArchive small_archive else BadArchive ''unexpected''),
     hv_encode_archive = (\<lambda>a. if a = small_archive then Inr ''{}'' else Inl ''unsupported''), hv_copy_archive = Inr\<rparr>"

theorem save_load_witness: "load_archive one_archive_env (Some ''{}'') = Inr (map_entries normalize_entry small_archive)"
proof (rule save_load)
  show "faithful_json one_archive_env" by (simp add: faithful_json_def one_archive_env_def)
  show "save_archive one_archive_env (Some small_archive) = Inr ''{}''" by code_simp
qed

end
