(* ===== verification/Recorder_Archive.thy ===== *)
theory Recorder_Archive
  imports Recorder Har_Model
begin

text \<open>
  The end of a capture (\<open>internal/cdphar/recorder.go\<close>): freezing the recorder, the drain of
  supplemental events, storing response bodies, and the export of the entries as a HAR archive.

  The export uses \<open>net/http\<close> and a global of the \<open>cdp\<close> package, which are the environment
  \<open>archive_env\<close>: \<open>http.StatusText\<close>, the cookies of a \<open>Cookie\<close> header and of the
  \<open>Set-Cookie\<close> headers, the conversion of a \<open>float64\<close> to \<open>int64\<close>, and
  \<open>cdp.MonotonicTimeEpoch\<close>. A \<open>float64\<close> operation is the exact one, rounded to the nearest
  double. A \<open>nil\<close> pointer that the code would dereference is the result \<open>None\<close>.
\<close>

section \<open>float64 and durations\<close>

definition go_float :: "rat \<Rightarrow> rat" where
  "go_float x = (if x < 0 then - to_float64 (- x) else to_float64 x)"

text \<open>\<open>Time.Sub\<close> is a 64-bit duration and saturates.\<close>

definition time_sub :: "gotime \<Rightarrow> gotime \<Rightarrow> int" where
  "time_sub finish start = saturated (finish - start)"

definition duration_pointer :: "rat \<Rightarrow> rat \<Rightarrow> rat option" where
  "duration_pointer start finish = (if start < 0 \<or> finish < start then None else Some (go_float (finish - start)))"

definition duration_milliseconds :: "gotime \<Rightarrow> gotime \<Rightarrow> rat" where
  "duration_milliseconds start finish =
     (if start = 0 \<or> finish = 0 \<or> finish < start then 0
      else go_float (go_float (of_int (time_sub finish start)) / 1000000))"

definition non_negative :: "rat \<Rightarrow> rat" where
  "non_negative x = (if x < 0 then 0 else x)"

section \<open>The environment\<close>

datatype same_site = SameSiteDefault | SameSiteLax | SameSiteStrict | SameSiteNone

record set_cookie =
  sc_name :: string
  sc_value :: string
  sc_path :: string
  sc_domain :: string
  sc_expires :: gotime
  sc_http_only :: bool
  sc_secure :: bool
  sc_same_site :: same_site

record archive_env =
  av_status_text :: "int \<Rightarrow> string"
  av_cookies :: "string \<Rightarrow> (string \<times> string) list"
  av_set_cookies :: "string list \<Rightarrow> set_cookie list"
  av_int64 :: "rat \<Rightarrow> int"
  av_epoch :: "gotime option"

definition monotonic_seconds :: "archive_env \<Rightarrow> gotime \<Rightarrow> rat" where
  "monotonic_seconds env t =
     (case av_epoch env of
        Some epoch \<Rightarrow> if t = 0 then 0 else go_float (go_float (of_int (time_sub t epoch)) / 1000000000)
      | None \<Rightarrow> 0)"

section \<open>Errors and the cutoff\<close>

definition set_capture_error :: "string option \<Rightarrow> recorder \<Rightarrow> recorder" where
  "set_capture_error err rc = (case err of None \<Rightarrow> rc | Some msg \<Rightarrow> set_limit_error (ExternalError msg) rc)"

definition captured_error :: "recorder \<Rightarrow> capture_error option" where
  "captured_error rc = rc_limit_err rc"

definition finalize_queued_extra_info :: "recorder \<Rightarrow> recorder" where
  "finalize_queued_extra_info rc = fold reconcile_extra_info (map fst (rc_chains rc)) rc"

definition freeze_at_monotonic :: "gotime \<Rightarrow> recorder \<Rightarrow> recorder" where
  "freeze_at_monotonic cutoff rc = finalize_queued_extra_info (rc\<lparr>rc_frozen := True, rc_cutoff := cutoff\<rparr>)"

text \<open>Supplemental events that never met their request, and entries that still miss theirs.\<close>

definition orphan_chain :: "request_chain \<Rightarrow> nat" where
  "orphan_chain c = (if ch_entries c = [] then length (ch_pending_request c) + length (ch_pending_response c) else 0)"

definition lacks_extra_info :: "captured_entry \<Rightarrow> bool" where
  "lacks_extra_info e \<longleftrightarrow>
     \<not> e_extra_known e \<or> e_extra_expected e \<and> (e_request_extra e = None \<or> e_response_extra e = None)"

definition extra_info_drain_needed :: "recorder \<Rightarrow> recorder \<times> bool" where
  "extra_info_drain_needed rc0 =
     (let rc = finalize_queued_extra_info rc0 in
      (rc, rc_frozen_requests rc \<noteq> [] \<or> rc_frozen_responses rc \<noteq> []
           \<or> list_ex (\<lambda>(rid, c). orphan_chain c > 0) (rc_chains rc)
           \<or> list_ex lacks_extra_info (rc_entries rc)))"

definition missing_extras :: "captured_entry \<Rightarrow> nat" where
  "missing_extras e =
     (if e_extra_expected e
      then (if e_request_extra e = None then 1 else 0) + (if e_response_extra e = None then 1 else 0) else 0)"

definition pending_extra_info_count :: "recorder \<Rightarrow> recorder \<times> nat" where
  "pending_extra_info_count rc0 =
     (let rc = finalize_queued_extra_info rc0 in (rc, sum_list (map missing_extras (rc_entries rc))))"

definition mark_missing_extra_info :: "recorder \<Rightarrow> recorder" where
  "mark_missing_extra_info rc0 =
     (let rc = finalize_queued_extra_info rc0
      in rc\<lparr>rc_entries := map (\<lambda>e. e\<lparr>e_extra_incomplete := lacks_extra_info e\<rparr>) (rc_entries rc)\<rparr>)"

definition orphan_extra_count :: "recorder \<Rightarrow> nat" where
  "orphan_extra_count rc =
     sum_list (map (length \<circ> snd) (rc_frozen_requests rc)) + sum_list (map (length \<circ> snd) (rc_frozen_responses rc))
     + sum_list (map (orphan_chain \<circ> snd) (rc_chains rc))"

section \<open>Headers\<close>

definition first_header :: "name_value list \<Rightarrow> string \<Rightarrow> string" where
  "first_header hs name = (case find (\<lambda>h. equal_fold (nv_name h) name) hs of None \<Rightarrow> [] | Some h \<Rightarrow> nv_value h)"

definition header_values :: "name_value list \<Rightarrow> string \<Rightarrow> string list" where
  "header_values hs name = map nv_value (filter (\<lambda>h. equal_fold (nv_name h) name) hs)"

definition name_less :: "string \<Rightarrow> string \<Rightarrow> bool" where
  "name_less a b = (if to_lower a = to_lower b then string_less a b else string_less (to_lower a) (to_lower b))"

definition name_values :: "headers \<Rightarrow> name_value list" where
  "name_values hs =
     concat (map (\<lambda>name. map (\<lambda>v. \<lparr>nv_name = name, nv_value = v, nv_comment = []\<rparr>)
                          (case map_of hs name of None \<Rightarrow> [] | Some raw \<Rightarrow> header_value_strings raw))
              (sort_stable name_less (map fst hs)))"

definition header_bytes :: "headers \<Rightarrow> nat" where
  "header_bytes hs =
     sum_list (map (\<lambda>(name, raw). length name +
       (case raw of HText s \<Rightarrow> length s | HTexts ss \<Rightarrow> sum_list (map length ss)
                  | HItems ss \<Rightarrow> sum_list (map length ss) | HOther s \<Rightarrow> length s)) hs)"

definition request_headers :: "captured_entry \<Rightarrow> name_value list" where
  "request_headers e =
     (case e_request_extra e of
        Some x \<Rightarrow> name_values (xq_headers x)
      | None \<Rightarrow>
          (case e_response e of
             Some r \<Rightarrow>
               if rs_request_headers r \<noteq> [] then name_values (rs_request_headers r)
               else (case e_request e of None \<Rightarrow> [] | Some q \<Rightarrow> name_values (rq_headers q))
           | None \<Rightarrow> (case e_request e of None \<Rightarrow> [] | Some q \<Rightarrow> name_values (rq_headers q))))"

definition response_headers :: "captured_entry \<Rightarrow> name_value list" where
  "response_headers e =
     (case e_response_extra e of
        Some x \<Rightarrow> name_values (xs_headers x)
      | None \<Rightarrow> (case e_response e of None \<Rightarrow> [] | Some r \<Rightarrow> name_values (rs_headers r)))"

definition response_content_length :: "name_value list \<Rightarrow> int option" where
  "response_content_length hs =
     (let v = trim_space (first_header hs ''Content-Length'') in
      if v = [] then None
      else case parse_int64 v of None \<Rightarrow> None | Some n \<Rightarrow> if n < 0 then None else Some n)"

definition http_version :: "string \<Rightarrow> string" where
  "http_version protocol =
     (let p = to_lower (trim_space protocol) in
      if p \<in> set [''h2'', ''http/2'', ''http/2.0''] then ''HTTP/2''
      else if p \<in> set [''h3'', ''http/3'', ''http/3.0'', ''quic''] then ''HTTP/3''
      else if p = ''http/1.0'' then ''HTTP/1.0''
      else if p = ''http/1.1'' then ''HTTP/1.1''
      else if p = [] then [] else protocol)"

definition response_mime_type :: "captured_entry \<Rightarrow> string" where
  "response_mime_type e =
     (let supplemental = (case e_response_extra e of None \<Rightarrow> [] | Some x \<Rightarrow> first_network_header (xs_headers x) ''Content-Type'')
      in if supplemental \<noteq> [] then supplemental
         else case e_response e of
                None \<Rightarrow> []
              | Some r \<Rightarrow>
                  let own = first_network_header (rs_headers r) ''Content-Type''
                  in if own \<noteq> [] then own else rs_mime r)"

definition is_from_cache :: "captured_entry \<Rightarrow> bool" where
  "is_from_cache e \<longleftrightarrow>
     e_served_from_cache e
     \<or> (case e_response e of None \<Rightarrow> False | Some r \<Rightarrow> rs_from_disk_cache r \<or> rs_from_prefetch_cache r)"

section \<open>Response bodies\<close>

definition body_limit_error :: string where
  "body_limit_error = ''response body omitted because the capture retention limit was reached''"

text \<open>The text and the encoding a body is stored with.\<close>

definition encode_body :: "string \<Rightarrow> string \<Rightarrow> string \<times> string" where
  "encode_body mime body =
     (if response_body_needs_base64 mime body then (base64_encode body, ''base64'') else (body, []))"

definition set_response_body :: "nat option \<Rightarrow> string \<Rightarrow> string option \<Rightarrow> recorder \<Rightarrow> recorder" where
  "set_response_body i0 body err rc =
     (case i0 of
        None \<Rightarrow> rc
      | Some i \<Rightarrow>
          (case err of
             Some msg \<Rightarrow> set_entry i ((rc_entries rc ! i)\<lparr>e_body_error := msg\<rparr>) rc
           | None \<Rightarrow>
               (case encode_body (response_mime_type (rc_entries rc ! i)) body of
                  (stored, encoding) \<Rightarrow>
                    (case reserve (json_string_retained_bytes stored + derived_item_overhead) rc of
                       (rc1, ok) \<Rightarrow>
                         let e = rc_entries rc1 ! i in
                         if \<not> ok then set_entry i (e\<lparr>e_body_error := body_limit_error\<rparr>) rc1
                         else set_entry i (e\<lparr>e_body_text := stored, e_body_encoding := encoding,
                                             e_body_size := int (length body), e_body_present := True\<rparr>) rc1))))"

section \<open>Cookies\<close>

definition same_site_string :: "same_site \<Rightarrow> string" where
  "same_site_string s =
     (case s of SameSiteLax \<Rightarrow> ''Lax'' | SameSiteStrict \<Rightarrow> ''Strict'' | SameSiteNone \<Rightarrow> ''None'' | SameSiteDefault \<Rightarrow> [])"

definition cookie_from_cdp :: "archive_env \<Rightarrow> cdp_cookie \<Rightarrow> har_cookie" where
  "cookie_from_cdp env c =
     \<lparr>hk_name = ck_name c, hk_value = ck_value c, hk_path = ck_path c, hk_domain = ck_domain c,
      hk_expires =
        (if \<not> ck_session c \<and> ck_expires c > 0
         then format_rfc3339_nano (719162 * day_ns + av_int64 env (go_float (ck_expires c * 1000000000))) else []),
      hk_http_only = ck_http_only c, hk_secure = ck_secure c, hk_same_site = ck_same_site c, hk_comment = []\<rparr>"

text \<open>The cookies CDP associates with a request, unless one of them is missing; blocked ones are left out.\<close>

fun associated_cookies :: "archive_env \<Rightarrow> associated_cookie option list \<Rightarrow> har_cookie list option" where
  "associated_cookies env [] = Some []"
| "associated_cookies env (a # as) =
     (case a of
        None \<Rightarrow> None
      | Some ac \<Rightarrow>
          (case ac_cookie ac of
             None \<Rightarrow> None
           | Some c \<Rightarrow>
               map_option (\<lambda>cs. if ac_blocked ac = [] then cookie_from_cdp env c # cs else cs)
                 (associated_cookies env as)))"

definition header_cookie :: "string \<times> string \<Rightarrow> har_cookie" where
  "header_cookie nv =
     \<lparr>hk_name = fst nv, hk_value = snd nv, hk_path = [], hk_domain = [], hk_expires = [], hk_http_only = False,
      hk_secure = False, hk_same_site = [], hk_comment = []\<rparr>"

definition request_cookies :: "archive_env \<Rightarrow> captured_entry \<Rightarrow> name_value list \<Rightarrow> har_cookie list" where
  "request_cookies env e hs =
     (let from_headers = map header_cookie (concat (map (av_cookies env) (header_values hs ''Cookie'')))
      in case e_request_extra e of
           Some x \<Rightarrow>
             if xq_cookies x = [] then from_headers
             else (case associated_cookies env (xq_cookies x) of Some cs \<Rightarrow> cs | None \<Rightarrow> from_headers)
         | None \<Rightarrow> from_headers)"

definition har_set_cookie :: "set_cookie \<Rightarrow> har_cookie" where
  "har_set_cookie c =
     \<lparr>hk_name = sc_name c, hk_value = sc_value c, hk_path = sc_path c, hk_domain = sc_domain c,
      hk_expires = (if sc_expires c \<noteq> 0 then format_rfc3339_nano (sc_expires c) else []),
      hk_http_only = sc_http_only c, hk_secure = sc_secure c, hk_same_site = same_site_string (sc_same_site c),
      hk_comment = []\<rparr>"

definition cookies_from_response_headers :: "archive_env \<Rightarrow> name_value list \<Rightarrow> har_cookie list" where
  "cookies_from_response_headers env hs = map har_set_cookie (av_set_cookies env (header_values hs ''Set-Cookie''))"

section \<open>Entries\<close>

definition incomplete_body_note :: string where
  "incomplete_body_note =
     ''CDP did not provide a complete UTF-8 request body; multipart file bytes and binary payloads are not captured.''"

definition har_post_data :: "captured_entry \<Rightarrow> name_value list \<Rightarrow> post_data option" where
  "har_post_data e hs =
     (case e_request e of
        None \<Rightarrow> None
      | Some q \<Rightarrow>
          if \<not> rq_has_post q \<and> e_post_data e = [] then None
          else Some \<lparr>pd_mime = first_header hs ''Content-Type'', pd_params = [], pd_text = e_post_data e,
                     pd_comment = (if e_post_data_incomplete e then incomplete_body_note else [])\<rparr>)"

text \<open>The status, its text, the size of the headers.\<close>

definition response_status :: "archive_env \<Rightarrow> captured_entry \<Rightarrow> int \<times> string" where
  "response_status env e =
     (let (status, status_text) = (case e_response e of None \<Rightarrow> (0, []) | Some r \<Rightarrow> (rs_status r, rs_status_text r)) in
      case e_response_extra e of
        None \<Rightarrow> (status, status_text)
      | Some x \<Rightarrow>
          if xs_status x = 0 then (status, status_text)
          else (xs_status x, if xs_status x \<noteq> status then av_status_text env (xs_status x) else status_text))"

definition headers_size :: "captured_entry \<Rightarrow> int" where
  "headers_size e =
     (case e_response_extra e of
        None \<Rightarrow> - 1
      | Some x \<Rightarrow> if xs_headers_text x \<noteq> [] then int (length (xs_headers_text x)) else - 1)"

text \<open>The sizes of the body on the wire and of the content before the special cases.\<close>

definition wire_size :: "archive_env \<Rightarrow> captured_entry \<Rightarrow> name_value list \<Rightarrow> int" where
  "wire_size env e hs =
     (let hsize = headers_size e; encoded = av_int64 env (e_encoded_data_length e);
          size = (if e_encoded_body_length e > 0 then e_encoded_body_length e
                  else if e_encoded_data_length e > 0 \<and> hsize \<ge> 0 \<and> encoded \<ge> hsize then i64 (encoded - hsize)
                  else - 1)
      in if size < 0 \<and> e_loading_finished e
         then (case response_content_length hs of Some n \<Rightarrow> n | None \<Rightarrow> size) else size)"

definition decoded_size :: "captured_entry \<Rightarrow> name_value list \<Rightarrow> int \<Rightarrow> int" where
  "decoded_size e hs wire =
     (if e_decoded_body_length e > 0 then e_decoded_body_length e
      else case (response_content_length hs, e_loading_finished e) of
             (Some n, True) \<Rightarrow> n
           | _ \<Rightarrow> if wire \<ge> 0 then wire else 0)"

definition har_content_of :: "captured_entry \<Rightarrow> bool \<Rightarrow> int \<Rightarrow> string \<Rightarrow> har_content" where
  "har_content_of e no_body n mime =
     (let present = (\<not> no_body \<and> e_body_present e) in
      \<lparr>hn_size = (if present then e_body_size e else n), hn_compression = None, hn_mime = mime,
       hn_text = (if present then e_body_text e else []), hn_encoding = (if present then e_body_encoding e else []),
       hn_comment = (if \<not> no_body \<and> e_body_error e \<noteq> []
                     then ''CDP could not retrieve response body: '' @ e_body_error e else [])\<rparr>)"

definition har_response_of :: "archive_env \<Rightarrow> captured_entry \<Rightarrow> string \<Rightarrow> name_value list \<Rightarrow> har_cookie list \<Rightarrow> har_response" where
  "har_response_of env e meth hs cookies =
     (let (status, status_text) = response_status env e;
          declared = first_header hs ''Content-Type'';
          mime = (case e_response e of None \<Rightarrow> declared
                  | Some r \<Rightarrow> if declared = [] \<and> rs_mime r \<noteq> [] then rs_mime r else declared);
          no_body = response_has_no_body meth status;
          wire = wire_size env e hs;
          decoded = decoded_size e hs wire
      in \<lparr>hr_status = status, hr_status_text = status_text,
          hr_http_version = http_version (case e_response e of None \<Rightarrow> [] | Some r \<Rightarrow> rs_protocol r),
          hr_headers = hs, hr_cookies = cookies,
          hr_content = har_content_of e no_body (if no_body then 0 else decoded) mime,
          hr_redirect_url = first_header hs ''Location'', hr_headers_size = headers_size e,
          hr_body_size = (if no_body \<or> is_from_cache e then 0 else wire), hr_comment = []\<rparr>)"

section \<open>Timings\<close>

definition receive_time :: "archive_env \<Rightarrow> captured_entry \<Rightarrow> cdp_timing \<Rightarrow> gotime \<Rightarrow> rat" where
  "receive_time env e tm finish =
     (let finish_seconds = monotonic_seconds env finish;
          headers_seconds = go_float (tm_request_time tm + go_float (tm_receive_headers_end tm / 1000))
      in if tm_request_time tm > 0 \<and> finish_seconds \<ge> headers_seconds
         then go_float (go_float (finish_seconds - headers_seconds) * 1000)
         else if e_response_mono e \<noteq> 0 then duration_milliseconds (e_response_mono e) finish else 0)"

definition add_phase :: "rat option \<Rightarrow> rat \<Rightarrow> rat" where
  "add_phase phase assigned = (case phase of None \<Rightarrow> assigned | Some d \<Rightarrow> go_float (assigned + d))"

definition har_timings_of :: "archive_env \<Rightarrow> captured_entry \<Rightarrow> gotime \<Rightarrow> har_timings" where
  "har_timings_of env e finish =
     (case (case e_response e of None \<Rightarrow> None | Some r \<Rightarrow> rs_timing r) of
        Some tm \<Rightarrow>
          (let dns = duration_pointer (tm_dns_start tm) (tm_dns_end tm);
               connect = duration_pointer (tm_connect_start tm) (tm_connect_end tm);
               send = non_negative (go_float (tm_send_end tm - tm_send_start tm));
               wait = non_negative (go_float (tm_receive_headers_end tm - tm_send_end tm));
               receive = receive_time env e tm finish;
               assigned = add_phase connect (add_phase dns (go_float (go_float (send + wait) + receive)))
           in \<lparr>ht_blocked = Some (non_negative (go_float (duration_milliseconds (e_started_mono e) finish - assigned))),
               ht_dns = dns, ht_connect = connect, ht_send = send, ht_wait = wait, ht_receive = receive,
               ht_ssl = duration_pointer (tm_ssl_start tm) (tm_ssl_end tm), ht_comment = []\<rparr>)
      | None \<Rightarrow>
          if e_response_mono e \<noteq> 0
          then empty_timings\<lparr>ht_wait := duration_milliseconds (e_started_mono e) (e_response_mono e),
                             ht_receive := duration_milliseconds (e_response_mono e) finish\<rparr>
          else empty_timings\<lparr>ht_wait := duration_milliseconds (e_started_mono e) finish\<rparr>)"

text \<open>When an entry ended: the first time that is known, never before its start.\<close>

definition finish_time :: "gotime \<Rightarrow> captured_entry \<Rightarrow> gotime" where
  "finish_time cutoff e =
     (let t1 = (if e_finished_mono e = 0 \<and> cutoff \<noteq> 0 \<and> \<not> cutoff < e_started_mono e then cutoff else e_finished_mono e);
          t2 = (if t1 = 0 then e_last_event_mono e else t1);
          t3 = (if t2 = 0 then e_response_mono e else t2);
          t4 = (if t3 = 0 then e_started_mono e else t3)
      in if t4 < e_started_mono e then e_started_mono e else t4)"

section \<open>The archive\<close>

definition entry_comments :: "captured_entry \<Rightarrow> string list" where
  "entry_comments e =
     (if is_from_cache e then [''Served from browser cache.''] else [])
     @ (if e_failure e \<noteq> [] then [''CDP loading failure: '' @ e_failure e]
        else if \<not> e_loading_finished e
        then [''Request was still in flight at the capture cutoff; timing and sizes are incomplete.''] else [])
     @ (if e_extra_incomplete e
        then [''CDP supplemental request/response metadata did not arrive before the capture cutoff.''] else [])"

definition page_id :: string where "page_id = ''page_1''"

definition har_request_of :: "archive_env \<Rightarrow> captured_entry \<Rightarrow> cdp_request \<Rightarrow> string \<Rightarrow> har_request" where
  "har_request_of env e q version =
     (let hs = request_headers e; post = har_post_data e hs in
      \<lparr>hq_method = rq_method q, hq_url = rq_url q, hq_http_version = version, hq_headers = hs,
       hq_query = e_query_string e, hq_cookies = request_cookies env e hs, hq_headers_size = - 1,
       hq_body_size = (case post of None \<Rightarrow> 0
                       | Some pd \<Rightarrow> if e_post_data_incomplete e then - 1 else int (length (pd_text pd))),
       hq_post = post, hq_comment = []\<rparr>)"

definition har_entry_of :: "archive_env \<Rightarrow> gotime \<Rightarrow> captured_entry \<Rightarrow> cdp_request \<Rightarrow> har_entry" where
  "har_entry_of env cutoff e q =
     (let finish = finish_time cutoff e; hs = response_headers e;
          response = har_response_of env e (rq_method q) hs (cookies_from_response_headers env hs)
      in \<lparr>he_page_ref = page_id, he_started = format_rfc3339_nano (e_started_wall e),
          he_time = duration_milliseconds (e_started_mono e) finish,
          he_request = har_request_of env e q (hr_http_version response),
          he_response = response, he_cache = ''{}'', he_timings = Some (har_timings_of env e finish),
          he_server_ip = (case e_response e of None \<Rightarrow> [] | Some r \<Rightarrow> rs_remote_ip r),
          he_connection = (case e_response e of None \<Rightarrow> []
                           | Some r \<Rightarrow> if rs_connection_id r \<noteq> 0 then format_rat (rs_connection_id r) else []),
          he_comment = join '' '' (entry_comments e), he_resource_type = e_resource_type e,
          he_initiator = (case e_initiator e of None \<Rightarrow> [] | Some enc \<Rightarrow> enc)\<rparr>)"

text \<open>\<open>toHAR\<close> dereferences the request of the entry.\<close>

definition to_har :: "archive_env \<Rightarrow> gotime \<Rightarrow> captured_entry \<Rightarrow> har_entry option" where
  "to_har env cutoff e = map_option (har_entry_of env cutoff e) (e_request e)"

definition har_page_timings :: "recorder \<Rightarrow> page_timings" where
  "har_page_timings rc =
     (let since = (\<lambda>t. if rc_page_start_mono rc = 0 then None
                      else map_option (duration_milliseconds (rc_page_start_mono rc)) t)
      in \<lparr>pt_on_content_load = since (rc_dom_content rc), pt_on_load = since (rc_load rc), pt_comment = []\<rparr>)"

definition log_comment :: "nat \<Rightarrow> string" where
  "log_comment orphans =
     ''CDP capture covers the primary page target; child-target worker and out-of-process iframe traffic may be omitted.''
     @ (if orphans > 0
        then '' '' @ itoa (int orphans) @ '' supplemental CDP event(s) had no matching base request before the drain ended.''
        else [])"

definition har_log_of :: "recorder \<Rightarrow> string \<Rightarrow> har_creator \<Rightarrow> har_creator option \<Rightarrow> har_entry list \<Rightarrow> har_log" where
  "har_log_of rc title creator browser es =
     \<lparr>hl_version = version12, hl_creator = creator, hl_browser = browser,
      hl_pages = [\<lparr>hp_started = format_rfc3339_nano (rc_page_start rc), hp_id = page_id,
                   hp_title = or_else (trim_space title) (rc_target_url rc),
                   hp_timings = har_page_timings rc, hp_comment = []\<rparr>],
      hl_entries = es, hl_comment = log_comment (orphan_extra_count rc)\<rparr>"

definition recorder_archive ::
  "archive_env \<Rightarrow> string \<Rightarrow> har_creator \<Rightarrow> har_creator option \<Rightarrow> recorder \<Rightarrow> (string + archive) option \<times> recorder" where
  "recorder_archive env title creator browser rc0 =
     (let rc = finalize_queued_extra_info rc0;
          captured = sort_stable (\<lambda>a b. e_sequence a < e_sequence b) (rc_entries rc)
      in (case those (map (to_har env (rc_cutoff rc)) captured) of
            None \<Rightarrow> None
          | Some es \<Rightarrow>
              (let a = \<lparr>ar_log = har_log_of rc title creator browser es\<rparr> in
               case validate_archive (Some a) of
                 Some msg \<Rightarrow> Some (Inl (''capture HAR: '' @ msg))
               | None \<Rightarrow> Some (Inr a)), rc))"

end
