(* ===== verification/Recorder_Inv.thy ===== *)
theory Recorder_Inv
  imports Recorder
begin

text \<open>
  The invariant of the recorder and the order of its steps.

  \<open>index_of rc rid\<close> is the list of entries the chain of \<open>rid\<close> points to. The abstract
  view of the chains is that they are no data of their own: each is the list of all entries
  with its request ID, in the order they were captured (\<open>well_chained\<close>). \<open>steady\<close> relates a
  state to one reached without a new entry; every helper of the handler is steady, and the
  invariant of the handler follows from that and from \<open>append_request\<close>.
\<close>

section \<open>Views of the state\<close>

text \<open>What an entry is born with, and never changes.\<close>

definition birth where
  "birth e = (e_sequence e, e_request e, e_query_string e, e_started_wall e, e_started_mono e, e_initiator e,
     e_post_data e, e_post_data_incomplete e)"

definition keys_of where
  "keys_of rc = map (\<lambda>e. (e_request_id e, birth e)) (rc_entries rc)"

definition index_of :: "recorder \<Rightarrow> request_id \<Rightarrow> nat list" where
  "index_of rc rid = ch_entries (chain_of rc rid)"

definition skeleton where
  "skeleton rc = (keys_of rc, index_of rc, rc_sequence rc, rc_max_entries rc, rc_max_bytes rc)"

definition orphan_state where
  "orphan_state rc = (rc_orphans rc, rc_frozen_requests rc, rc_frozen_responses rc)"

definition cut_state where
  "cut_state rc = (rc_frozen rc, rc_cutoff rc)"

definition budget_ok :: "recorder \<Rightarrow> bool" where
  "budget_ok rc \<longleftrightarrow> 0 \<le> rc_retained rc \<and> rc_retained rc \<le> rc_max_bytes rc"

definition scheduled :: "recorder \<Rightarrow> nat \<Rightarrow> bool" where
  "scheduled rc i \<longleftrightarrow> i < length (rc_entries rc) \<and> e_body_fetch_scheduled (rc_entries rc ! i)"

definition well_chained :: "recorder \<Rightarrow> bool" where
  "well_chained rc \<longleftrightarrow>
     (\<forall>rid. index_of rc rid = filter (\<lambda>i. fst (keys_of rc ! i) = rid) [0..<length (keys_of rc)])"

definition numbered :: "recorder \<Rightarrow> bool" where
  "numbered rc \<longleftrightarrow> map (fst \<circ> snd) (keys_of rc) = map Suc [0..<length (keys_of rc)] \<and> rc_sequence rc = length (keys_of rc)"

definition orphans_counted :: "recorder \<Rightarrow> bool" where
  "orphans_counted rc \<longleftrightarrow>
     distinct (map fst (rc_frozen_requests rc)) \<and> distinct (map fst (rc_frozen_responses rc)) \<and>
     rc_orphans rc = int (sum_list (map (length \<circ> snd) (rc_frozen_requests rc))
                          + sum_list (map (length \<circ> snd) (rc_frozen_responses rc))) \<and>
     rc_orphans rc \<le> max_frozen_orphan_extras"

definition recorder_inv :: "recorder \<Rightarrow> bool" where
  "recorder_inv rc \<longleftrightarrow>
     budget_ok rc \<and> length (rc_entries rc) \<le> rc_max_entries rc \<and> well_chained rc \<and> numbered rc
       \<and> orphans_counted rc"

lemma birth_update [simp]:
  "fst (birth e) = e_sequence e"
  "\<And>x. birth (e\<lparr>e_request_extra := x\<rparr>) = birth e"
  "\<And>x. birth (e\<lparr>e_response := x\<rparr>) = birth e"
  "\<And>x. birth (e\<lparr>e_response_extra := x\<rparr>) = birth e"
  "\<And>x. birth (e\<lparr>e_extra_known := x\<rparr>) = birth e"
  "\<And>x. birth (e\<lparr>e_extra_expected := x\<rparr>) = birth e"
  "\<And>x. birth (e\<lparr>e_resource_type := x\<rparr>) = birth e"
  "\<And>x. birth (e\<lparr>e_last_event_mono := x\<rparr>) = birth e"
  "\<And>x. birth (e\<lparr>e_response_mono := x\<rparr>) = birth e"
  "\<And>x. birth (e\<lparr>e_finished_mono := x\<rparr>) = birth e"
  "\<And>x. birth (e\<lparr>e_encoded_data_length := x\<rparr>) = birth e"
  "\<And>x. birth (e\<lparr>e_loading_finished := x\<rparr>) = birth e"
  "\<And>x. birth (e\<lparr>e_decoded_body_length := x\<rparr>) = birth e"
  "\<And>x. birth (e\<lparr>e_encoded_body_length := x\<rparr>) = birth e"
  "\<And>x. birth (e\<lparr>e_body_text := x\<rparr>) = birth e"
  "\<And>x. birth (e\<lparr>e_body_encoding := x\<rparr>) = birth e"
  "\<And>x. birth (e\<lparr>e_body_size := x\<rparr>) = birth e"
  "\<And>x. birth (e\<lparr>e_body_present := x\<rparr>) = birth e"
  "\<And>x. birth (e\<lparr>e_body_fetch_scheduled := x\<rparr>) = birth e"
  "\<And>x. birth (e\<lparr>e_served_from_cache := x\<rparr>) = birth e"
  "\<And>x. birth (e\<lparr>e_failure := x\<rparr>) = birth e"
  "\<And>x. birth (e\<lparr>e_terminal_failure := x\<rparr>) = birth e"
  "\<And>x. birth (e\<lparr>e_extra_incomplete := x\<rparr>) = birth e"
  "\<And>x. birth (e\<lparr>e_body_error := x\<rparr>) = birth e"
  by (simp_all add: birth_def)

lemma length_keys_of [simp]: "length (keys_of rc) = length (rc_entries rc)"
  by (simp add: keys_of_def)

lemma fst_keys_of [simp]: "i < length (rc_entries rc) \<Longrightarrow> fst (keys_of rc ! i) = e_request_id (rc_entries rc ! i)"
  by (simp add: keys_of_def)

section \<open>Steady steps\<close>

definition steady :: "recorder \<Rightarrow> recorder \<Rightarrow> bool" where
  "steady rc rc' \<longleftrightarrow>
     skeleton rc' = skeleton rc \<and> cut_state rc' = cut_state rc \<and> (budget_ok rc \<longrightarrow> budget_ok rc')
       \<and> rc_retained rc \<le> rc_retained rc'
       \<and> (rc_limit_err rc \<noteq> None \<longrightarrow> rc_limit_err rc' \<noteq> None)
       \<and> (\<forall>i. scheduled rc i \<longrightarrow> scheduled rc' i)"

definition settled :: "recorder \<Rightarrow> recorder \<Rightarrow> bool" where
  "settled rc rc' \<longleftrightarrow> steady rc rc' \<and> orphan_state rc' = orphan_state rc"

lemma steady_refl [simp]: "steady rc rc"
  by (simp add: steady_def)

lemma steady_trans: "steady a b \<Longrightarrow> steady b c \<Longrightarrow> steady a c"
  by (auto simp: steady_def)

lemma settled_refl [simp]: "settled rc rc"
  by (simp add: settled_def)

lemma settled_trans: "settled a b \<Longrightarrow> settled b c \<Longrightarrow> settled a c"
  by (auto simp: settled_def intro: steady_trans)

lemma settled_steady: "settled a b \<Longrightarrow> steady a b"
  by (simp add: settled_def)

lemma steady_length: "steady rc rc' \<Longrightarrow> length (rc_entries rc') = length (rc_entries rc)"
  by (simp add: steady_def skeleton_def) (metis length_keys_of)

lemma steady_index: "steady rc rc' \<Longrightarrow> index_of rc' = index_of rc"
  by (simp add: steady_def skeleton_def)

lemma steady_keys: "steady rc rc' \<Longrightarrow> keys_of rc' = keys_of rc"
  by (simp add: steady_def skeleton_def)

lemma settled_inv: "settled rc rc' \<Longrightarrow> recorder_inv rc \<Longrightarrow> recorder_inv rc'"
proof -
  assume st: "settled rc rc'" and inv: "recorder_inv rc"
  then have eqs: "keys_of rc' = keys_of rc" "index_of rc' = index_of rc" "rc_sequence rc' = rc_sequence rc"
      "rc_max_entries rc' = rc_max_entries rc" "length (rc_entries rc') = length (rc_entries rc)"
      "rc_orphans rc' = rc_orphans rc" "rc_frozen_requests rc' = rc_frozen_requests rc"
      "rc_frozen_responses rc' = rc_frozen_responses rc"
    and "budget_ok rc \<longrightarrow> budget_ok rc'"
    using steady_length [OF settled_steady [OF st]]
    by (simp_all add: settled_def steady_def skeleton_def orphan_state_def)
  with inv show ?thesis
    unfolding recorder_inv_def well_chained_def numbered_def orphans_counted_def length_keys_of eqs by blast
qed

lemma current_entry_last: "current_entry rc rid = (if index_of rc rid = [] then None else Some (last (index_of rc rid)))"
  by (simp add: current_entry_def index_of_def split: list.splits)

lemma steady_current: "steady rc rc' \<Longrightarrow> current_entry rc' rid = current_entry rc rid"
  by (simp add: current_entry_last steady_index)

section \<open>Primitive updates\<close>

lemma chain_of_set_chain [simp]:
  "chain_of (set_chain rid c rc) rid' = (if rid' = rid then c else chain_of rc rid')"
  by (simp add: chain_of_def set_chain_def update_conv')

lemma index_of_set_chain [simp]:
  "index_of (set_chain rid c rc) = (index_of rc)(rid := ch_entries c)"
  by (auto simp: index_of_def)

lemma set_chain_fields [frame_simps]:
  "rc_entries (set_chain rid c rc) = rc_entries rc"
  "rc_sequence (set_chain rid c rc) = rc_sequence rc"
  "rc_max_entries (set_chain rid c rc) = rc_max_entries rc"
  "rc_max_bytes (set_chain rid c rc) = rc_max_bytes rc"
  "rc_retained (set_chain rid c rc) = rc_retained rc"
  "rc_limit_err (set_chain rid c rc) = rc_limit_err rc"
  "rc_frozen (set_chain rid c rc) = rc_frozen rc"
  "rc_cutoff (set_chain rid c rc) = rc_cutoff rc"
  "rc_orphans (set_chain rid c rc) = rc_orphans rc"
  "rc_frozen_requests (set_chain rid c rc) = rc_frozen_requests rc"
  "rc_frozen_responses (set_chain rid c rc) = rc_frozen_responses rc"
  by (simp_all add: set_chain_def)

lemma settled_set_chain [inv_intros]:
  "ch_entries c = index_of rc rid \<Longrightarrow> settled rc (set_chain rid c rc)"
  by (simp add: settled_def steady_def skeleton_def keys_of_def cut_state_def budget_ok_def
      scheduled_def orphan_state_def frame_simps fun_upd_idem)

lemma settled_ensure_chain [inv_intros]: "settled rc (ensure_chain rid rc)"
  by (auto simp: ensure_chain_def empty_chain_def index_of_def chain_of_def intro!: settled_set_chain)

lemma chain_of_ensure_chain [simp]: "chain_of (ensure_chain rid rc) = chain_of rc"
  by (rule ext) (auto simp: ensure_chain_def chain_of_def set_chain_def update_conv')

lemma index_of_entries [simp]: "index_of (rc\<lparr>rc_entries := es\<rparr>) = index_of rc"
  by (rule ext) (simp add: index_of_def chain_of_def)

text \<open>An update of the store that keeps request IDs and sequence numbers and unschedules nothing.\<close>

definition same_keys :: "captured_entry list \<Rightarrow> captured_entry list \<Rightarrow> bool" where
  "same_keys es es' \<longleftrightarrow>
     list_all2 (\<lambda>e e'. e_request_id e' = e_request_id e \<and> birth e' = birth e
                  \<and> (e_body_fetch_scheduled e \<longrightarrow> e_body_fetch_scheduled e')) es es'"

lemma same_keys_refl [simp]: "same_keys es es"
  by (simp add: same_keys_def list_all2_same)

lemma same_keys_trans: "same_keys a b \<Longrightarrow> same_keys b c \<Longrightarrow> same_keys a c"
  unfolding same_keys_def by (erule (1) list_all2_trans [rotated]) simp

lemma same_keys_update:
  "e_request_id e = e_request_id (es ! i) \<Longrightarrow> birth e = birth (es ! i) \<Longrightarrow>
   (e_body_fetch_scheduled (es ! i) \<Longrightarrow> e_body_fetch_scheduled e) \<Longrightarrow> same_keys es (es[i := e])"
  by (cases "i < length es")
    (simp_all add: same_keys_def list_all2_conv_all_nth nth_list_update list_update_beyond)

lemma same_keys_keys: "same_keys es es' \<Longrightarrow>
  map (\<lambda>e. (e_request_id e, birth e)) es' = map (\<lambda>e. (e_request_id e, birth e)) es"
  by (auto simp: same_keys_def list_all2_conv_all_nth intro: nth_equalityI)

lemma settled_entries: "same_keys (rc_entries rc) es \<Longrightarrow> settled rc (rc\<lparr>rc_entries := es\<rparr>)"
proof -
  assume s: "same_keys (rc_entries rc) es"
  then have "scheduled rc i \<Longrightarrow> scheduled (rc\<lparr>rc_entries := es\<rparr>) i" for i
    by (auto simp: scheduled_def same_keys_def list_all2_conv_all_nth)
  with same_keys_keys [OF s] show ?thesis
    by (simp add: settled_def steady_def skeleton_def keys_of_def cut_state_def budget_ok_def orphan_state_def)
qed

lemma settled_set_entry [inv_intros]:
  "e_request_id e = e_request_id (rc_entries rc ! i) \<Longrightarrow> birth e = birth (rc_entries rc ! i) \<Longrightarrow>
   (e_body_fetch_scheduled (rc_entries rc ! i) \<Longrightarrow> e_body_fetch_scheduled e) \<Longrightarrow> settled rc (set_entry i e rc)"
  unfolding set_entry_def by (intro settled_entries same_keys_update)

section \<open>Limits\<close>

lemma settled_set_limit_error [inv_intros]: "settled rc (set_limit_error err rc)"
  by (simp add: set_limit_error_def settled_def steady_def skeleton_def keys_of_def cut_state_def
      budget_ok_def scheduled_def orphan_state_def index_of_def [abs_def] chain_of_def [abs_def])

lemma settled_validate_headers [inv_intros]: "settled rc (fst (validate_headers hss rc))"
  by (induction hss rc rule: validate_headers.induct) (auto intro: inv_intros)

lemma settled_validate_request_cookie_headers [inv_intros]:
  "settled rc (fst (validate_request_cookie_headers hs rc))"
  by (induction hs rc rule: validate_request_cookie_headers.induct) (auto intro: inv_intros)

lemma settled_validate_cookie_count [inv_intros]: "settled rc (fst (validate_cookie_count n rc))"
  by (auto simp: validate_cookie_count_def intro: inv_intros)

lemma settled_reserve [inv_intros]: "settled rc (fst (reserve n rc))"
  by (auto simp: reserve_def Let_def settled_def steady_def skeleton_def keys_of_def cut_state_def
      budget_ok_def scheduled_def orphan_state_def index_of_def [abs_def] chain_of_def [abs_def])

lemma settled_both:
  assumes "\<And>rc. settled rc (fst (p rc))" and "\<And>rc. settled rc (fst (q rc))"
  shows "settled rc (fst (both p q rc))"
proof -
  obtain rc' ok where p: "p rc = (rc', ok)" by fastforce
  then have 1: "settled rc rc'" using assms(1) [of rc] by simp
  from p show ?thesis
    using settled_trans [OF 1 assms(2) [of rc']] 1 by (simp add: both_def)
qed

declare settled_both [inv_intros]

lemma settled_validate_response [inv_intros]: "settled rc (fst (validate_response r rc))"
  unfolding validate_response_def by (intro inv_intros)

text \<open>The checks do not touch the store.\<close>

definition store_of where
  "store_of rc = (rc_entries rc, rc_chains rc)"

lemma both_frame:
  "(\<And>rc. f (fst (p rc)) = f rc) \<Longrightarrow> (\<And>rc. f (fst (q rc)) = f rc) \<Longrightarrow> f (fst (both p q rc)) = f rc"
  by (simp add: both_def split: prod.splits) (metis fst_conv)

lemma set_limit_error_store [frame_simps]: "store_of (set_limit_error err rc) = store_of rc"
  by (simp add: set_limit_error_def store_of_def)

lemma validate_headers_store [frame_simps]: "store_of (fst (validate_headers hss rc)) = store_of rc"
  by (induction hss rc rule: validate_headers.induct) (auto simp: frame_simps)

lemma validate_request_cookie_headers_store [frame_simps]:
  "store_of (fst (validate_request_cookie_headers hs rc)) = store_of rc"
  by (induction hs rc rule: validate_request_cookie_headers.induct) (auto simp: frame_simps)

lemma validate_cookie_count_store [frame_simps]:
  "store_of (fst (validate_cookie_count n rc)) = store_of rc"
  by (simp add: validate_cookie_count_def frame_simps)

lemma reserve_store [frame_simps]: "store_of (fst (reserve n rc)) = store_of rc"
  by (simp add: reserve_def Let_def store_of_def)

lemma validate_response_store [frame_simps]: "store_of (fst (validate_response r rc)) = store_of rc"
  unfolding validate_response_def by (intro both_frame) (simp_all add: frame_simps)

text \<open>A check that refuses an event has set the limit error.\<close>

lemma refused_both:
  "\<not> snd (both p q rc) \<Longrightarrow> (\<And>rc. \<not> snd (p rc) \<Longrightarrow> rc_limit_err (fst (p rc)) \<noteq> None) \<Longrightarrow>
   (\<And>rc. \<not> snd (q rc) \<Longrightarrow> rc_limit_err (fst (q rc)) \<noteq> None) \<Longrightarrow> rc_limit_err (fst (both p q rc)) \<noteq> None"
  by (auto simp: both_def split: prod.splits if_splits) (metis fst_conv option.simps(3) snd_conv)+

lemma refused_validate_headers: "\<not> snd (validate_headers hss rc) \<Longrightarrow> rc_limit_err (fst (validate_headers hss rc)) \<noteq> None"
  by (induction hss rc rule: validate_headers.induct) (auto simp: set_limit_error_def)

lemma refused_validate_request_cookie_headers:
  "\<not> snd (validate_request_cookie_headers hs rc) \<Longrightarrow> rc_limit_err (fst (validate_request_cookie_headers hs rc)) \<noteq> None"
  by (induction hs rc rule: validate_request_cookie_headers.induct) (auto simp: set_limit_error_def split: if_splits)

lemma refused_reserve: "\<not> snd (reserve n rc) \<Longrightarrow> rc_limit_err (fst (reserve n rc)) \<noteq> None"
  by (auto simp: reserve_def Let_def split: if_splits)

lemma refused_validate_response: "\<not> snd (validate_response r rc) \<Longrightarrow> rc_limit_err (fst (validate_response r rc)) \<noteq> None"
  unfolding validate_response_def
  by (erule refused_both [OF _ refused_validate_headers refused_both
        [OF _ refused_validate_request_cookie_headers refused_reserve]]) simp_all

lemma store_ofD: "store_of rc' = store_of rc \<Longrightarrow> rc_entries rc' = rc_entries rc \<and> rc_chains rc' = rc_chains rc"
  by (simp add: store_of_def)

section \<open>Matching and expectations\<close>

lemma reconcile_requests_keys: "same_keys es (fst (reconcile_requests is es p))"
proof (induction "is" es p rule: reconcile_requests.induct)
  case (2 i "is" es pending)
  show ?case
  proof (cases "e_extra_known (es ! i) \<and> e_extra_expected (es ! i)")
    case False
    with 2 show ?thesis by (auto simp: Let_def)
  next
    case True
    show ?thesis
    proof (cases pending)
      case Nil
      with True 2 show ?thesis by (auto simp: Let_def)
    next
      case (Cons x xs)
      let ?es = "es[i := (es ! i)\<lparr>e_request_extra := Some x\<rparr>]"
      have "same_keys es ?es" by (rule same_keys_update) simp_all
      with True 2 Cons show ?thesis by (auto simp: Let_def intro: same_keys_trans)
    qed
  qed
qed simp

lemma reconcile_responses_keys: "same_keys es (fst (reconcile_responses is es p))"
proof (induction "is" es p rule: reconcile_responses.induct)
  case (2 i "is" es pending)
  show ?case
  proof (cases "e_extra_known (es ! i) \<and> e_extra_expected (es ! i)")
    case False
    with 2 show ?thesis by (auto simp: Let_def)
  next
    case True
    show ?thesis
    proof (cases pending)
      case Nil
      with True 2 show ?thesis by (auto simp: Let_def)
    next
      case (Cons x xs)
      let ?es = "es[i := (es ! i)\<lparr>e_response_extra := Some x\<rparr>]"
      have "same_keys es ?es" by (rule same_keys_update) simp_all
      with True 2 Cons show ?thesis by (auto simp: Let_def intro: same_keys_trans)
    qed
  qed
qed simp

lemma settled_reconcile [inv_intros]: "settled rc (reconcile_extra_info rid rc)"
proof (cases "map_of (rc_chains rc) rid")
  case None
  then show ?thesis by (simp add: reconcile_extra_info_def)
next
  case (Some c)
  obtain es preq where 1: "reconcile_requests (ch_entries c) (rc_entries rc) (ch_pending_request c) = (es, preq)"
    by fastforce
  obtain es' pres where 2: "reconcile_responses (ch_entries c) es (ch_pending_response c) = (es', pres)"
    by fastforce
  have "same_keys (rc_entries rc) es'"
    using reconcile_requests_keys [of "rc_entries rc" "ch_entries c" "ch_pending_request c"]
      reconcile_responses_keys [of es "ch_entries c" "ch_pending_response c"]
    by (auto simp: 1 2 intro: same_keys_trans)
  then have "settled rc (rc\<lparr>rc_entries := es'\<rparr>)" by (rule settled_entries)
  moreover have "ch_entries c = index_of rc rid"
    using Some by (simp add: index_of_def chain_of_def)
  then have "settled (rc\<lparr>rc_entries := es'\<rparr>)
      (set_chain rid (c\<lparr>ch_pending_request := preq, ch_pending_response := pres\<rparr>) (rc\<lparr>rc_entries := es'\<rparr>))"
    by (intro settled_set_chain) simp
  ultimately show ?thesis
    using Some 1 2 settled_trans by (simp add: reconcile_extra_info_def)
qed

lemma settled_expectation [inv_intros]: "settled rc (set_extra_info_expectation rid i b rc)"
  unfolding set_extra_info_expectation_def
  by (rule settled_trans [OF settled_set_entry settled_reconcile]) simp_all

lemma settled_settle [inv_intros]: "settled rc (settle_extra_info rid rc)"
  by (auto simp: settle_extra_info_def intro: inv_intros split: option.splits)

text \<open>Run a check, then a change that only happens when the check passed.\<close>

lemma settled_guarded:
  assumes "settled rc (fst (p rc))" and "\<And>rc1. settled rc1 (f rc1)"
  shows "settled rc (case p rc of (rc1, ok) \<Rightarrow> if \<not> ok then rc1 else f rc1)"
  using assms by (auto split: prod.splits intro: settled_trans)

lemma settled_request_extra_info [inv_intros]: "settled rc (request_extra_info x rc)"
proof -
  let ?rid = "xq_request_id x"
  let ?push = "\<lambda>rc1. settle_extra_info ?rid (set_chain ?rid
      ((chain_of rc1 ?rid)\<lparr>ch_pending_request := ch_pending_request (chain_of rc1 ?rid) @ [x]\<rparr>) rc1)"
  have "settled rc1 (?push rc1)" for rc1
    by (rule settled_trans [OF settled_set_chain settled_settle]) (simp add: index_of_def)
  then show ?thesis
    unfolding request_extra_info_def Let_def
    by (intro settled_trans [OF settled_ensure_chain [of _ ?rid] settled_guarded] inv_intros)
qed

lemma settled_response_extra_info [inv_intros]: "settled rc (response_extra_info x rc)"
proof -
  let ?rid = "xs_request_id x"
  let ?push = "\<lambda>rc1. settle_extra_info ?rid (set_chain ?rid
      ((chain_of rc1 ?rid)\<lparr>ch_pending_response := ch_pending_response (chain_of rc1 ?rid) @ [x]\<rparr>) rc1)"
  have "settled rc1 (?push rc1)" for rc1
    by (rule settled_trans [OF settled_set_chain settled_settle]) (simp add: index_of_def)
  then show ?thesis
    unfolding response_extra_info_def Let_def
    by (intro settled_trans [OF settled_ensure_chain [of _ ?rid] settled_guarded] inv_intros)
qed

lemma observe_fields [frame_simps]:
  "e_request_id (observe t e) = e_request_id e" "birth (observe t e) = birth e"
  "e_body_fetch_scheduled (observe t e) = e_body_fetch_scheduled e"
  "e_request (observe t e) = e_request e" "e_response (observe t e) = e_response e"
  "e_response_extra (observe t e) = e_response_extra e" "e_request_extra (observe t e) = e_request_extra e"
  "e_extra_known (observe t e) = e_extra_known e" "e_extra_expected (observe t e) = e_extra_expected e"
  by (simp_all add: observe_def)

lemma settled_response_received [inv_intros]: "settled rc (response_received ev rc)"
proof (cases "rr_response ev")
  case None
  then show ?thesis by (simp add: response_received_def)
next
  case (Some r)
  show ?thesis
  proof (cases "current_entry rc (rr_request_id ev)")
    case None
    with Some show ?thesis by (simp add: response_received_def)
  next
    case (Some i)
    show ?thesis
      unfolding response_received_def \<open>rr_response ev = Some r\<close> Some option.case Let_def
      by (rule settled_guarded, rule settled_validate_response,
          rule settled_trans [OF settled_set_entry settled_expectation]) (simp_all add: frame_simps)
  qed
qed

lemma settled_close_redirected [inv_intros]: "settled rc (fst (close_redirected rid r hx t inc rc))"
proof (cases "current_entry rc rid")
  case None
  then show ?thesis by (simp add: close_redirected_def)
next
  case (Some i)
  obtain rc1 ok where 1: "(if e_response (rc_entries rc ! i) = None then validate_response r rc else (rc, True)) = (rc1, ok)"
    by fastforce
  have "settled rc rc1"
    using 1 settled_validate_response [of rc r] by (auto split: if_splits)
  moreover have "settled rc1 (set_extra_info_expectation rid i hx (set_entry i e rc1))"
    if "e_request_id e = e_request_id (rc_entries rc1 ! i)" "birth e = birth (rc_entries rc1 ! i)"
      "e_body_fetch_scheduled (rc_entries rc1 ! i) \<Longrightarrow> e_body_fetch_scheduled e" for e
    by (rule settled_trans [OF settled_set_entry settled_expectation]) (use that in simp_all)
  ultimately show ?thesis
    unfolding close_redirected_def Some option.case 1 prod.case Let_def
    by (auto intro!: settled_trans [of rc rc1])
qed

lemma settled_update_current [inv_intros]:
  "(\<And>e. e_request_id (f e) = e_request_id e \<and> birth (f e) = birth e
        \<and> (e_body_fetch_scheduled e \<longrightarrow> e_body_fetch_scheduled (f e))) \<Longrightarrow> settled rc (update_current rid f rc)"
  by (auto simp: update_current_def split: option.splits intro: settled_set_entry)

lemma data_received_fields [frame_simps]:
  "e_request_id (data_received ts n m e) = e_request_id e"
  "birth (data_received ts n m e) = birth e"
  "e_body_fetch_scheduled (data_received ts n m e) = e_body_fetch_scheduled e"
  by (simp_all add: data_received_def Let_def frame_simps)

lemma loading_finished_fields [frame_simps]:
  "e_request_id (loading_finished ts n e) = e_request_id e"
  "birth (loading_finished ts n e) = birth e"
  "e_body_fetch_scheduled (loading_finished ts n e) = e_body_fetch_scheduled e"
  by (simp_all add: loading_finished_def frame_simps)

lemma settled_record_failure [inv_intros]: "settled rc (record_failure rid i failure rc)"
  by (auto simp: record_failure_def Let_def
      intro: settled_trans [OF settled_set_entry settled_expectation] settled_set_entry)

lemma mark_failed_fields [frame_simps]:
  "e_request_id (mark_failed ts e) = e_request_id e" "birth (mark_failed ts e) = birth e"
  "e_body_fetch_scheduled (mark_failed ts e) = e_body_fetch_scheduled e"
  by (simp_all add: mark_failed_def frame_simps)

lemma settled_loading_failed [inv_intros]: "settled rc (loading_failed rid ts text reason rc)"
proof (cases "current_entry rc rid")
  case None
  then show ?thesis by (simp add: loading_failed_def)
next
  case (Some i)
  show ?thesis
    unfolding loading_failed_def Some option.case Let_def
    by (rule settled_trans [OF settled_set_entry settled_guarded])
      (simp_all add: frame_simps settled_reserve settled_record_failure)
qed

section \<open>Queues of orphaned supplemental events\<close>

definition queued :: "(request_id \<times> 'x list) list \<Rightarrow> nat" where
  "queued al = sum_list (map (length \<circ> snd) al)"

definition queue_at :: "(request_id \<times> 'x list) list \<Rightarrow> request_id \<Rightarrow> 'x list" where
  "queue_at al rid = (case map_of al rid of None \<Rightarrow> [] | Some l \<Rightarrow> l)"

lemma queued_simps [simp]: "queued [] = 0" "queued ((k, l) # al) = length l + queued al"
  by (simp_all add: queued_def)

lemma delete_absent: "k \<notin> fst ` set al \<Longrightarrow> AList.delete k al = al"
  by (induction al) auto

lemma queued_delete: "distinct (map fst al) \<Longrightarrow> queued (AList.delete k al) + length (queue_at al k) = queued al"
proof (induction al)
  case (Cons kv al)
  obtain k' l where kv: "kv = (k', l)" by fastforce
  show ?case
  proof (cases "k' = k")
    case True
    with Cons.prems kv have "AList.delete k al = al" by (intro delete_absent) auto
    with True kv show ?thesis by (simp add: queue_at_def)
  next
    case False
    with Cons kv show ?thesis by (simp add: queue_at_def)
  qed
qed (simp add: queue_at_def)

lemma queued_push: "distinct (map fst al) \<Longrightarrow> queued (AList.update k (queue_at al k @ [x]) al) = Suc (queued al)"
proof (induction al)
  case (Cons kv al)
  obtain k' l where kv: "kv = (k', l)" by fastforce
  show ?case
  proof (cases "k' = k")
    case True
    with kv show ?thesis by (simp add: queue_at_def)
  next
    case False
    then have "queue_at (kv # al) k = queue_at al k" using kv by (simp add: queue_at_def)
    with False Cons kv show ?thesis by simp
  qed
qed (simp add: queue_at_def)

lemma orphans_counted_alt: "orphans_counted rc \<longleftrightarrow>
     distinct (map fst (rc_frozen_requests rc)) \<and> distinct (map fst (rc_frozen_responses rc)) \<and>
     rc_orphans rc = int (queued (rc_frozen_requests rc) + queued (rc_frozen_responses rc)) \<and>
     rc_orphans rc \<le> max_frozen_orphan_extras"
  by (simp add: orphans_counted_def queued_def)

lemma inv_transfer:
  "recorder_inv rc \<Longrightarrow> steady rc rc' \<Longrightarrow> orphans_counted rc' \<Longrightarrow> recorder_inv rc'"
proof -
  assume inv: "recorder_inv rc" and st: "steady rc rc'" and oc: "orphans_counted rc'"
  then have eqs: "keys_of rc' = keys_of rc" "index_of rc' = index_of rc" "rc_sequence rc' = rc_sequence rc"
      "rc_max_entries rc' = rc_max_entries rc" "length (rc_entries rc') = length (rc_entries rc)"
    and "budget_ok rc \<longrightarrow> budget_ok rc'"
    using steady_length [OF st] by (simp_all add: steady_def skeleton_def)
  with inv oc show ?thesis
    unfolding recorder_inv_def well_chained_def numbered_def length_keys_of eqs by blast
qed

text \<open>A change of fields the invariant does not read.\<close>

lemma steady_orphans:
  "steady rc (rc\<lparr>rc_orphans := n, rc_frozen_requests := a, rc_frozen_responses := b\<rparr>)"
  by (simp add: steady_def skeleton_def keys_of_def cut_state_def budget_ok_def scheduled_def
      index_of_def [abs_def] chain_of_def [abs_def])

lemma adopt_inv:
  assumes inv: "recorder_inv rc"
  shows "recorder_inv (adopt_frozen_extras rid rc)" and "steady rc (adopt_frozen_extras rid rc)"
proof -
  let ?rc = "adopt_frozen_extras rid rc"
  have set: "settled rc (set_chain rid ((chain_of rc rid)
      \<lparr>ch_pending_request := p, ch_pending_response := q\<rparr>) rc)" for p q
    by (rule settled_set_chain) (simp add: index_of_def)
  show st: "steady rc ?rc"
    unfolding adopt_frozen_extras_def Let_def
    by (rule steady_trans [OF settled_steady [OF set] steady_orphans])
  have dist: "distinct (map fst (rc_frozen_requests rc))" "distinct (map fst (rc_frozen_responses rc))"
    and n: "rc_orphans rc = int (queued (rc_frozen_requests rc) + queued (rc_frozen_responses rc))"
      "rc_orphans rc \<le> max_frozen_orphan_extras"
    using inv by (simp_all add: recorder_inv_def orphans_counted_alt)
  have "rc_orphans rc - int (length (queue_at (rc_frozen_requests rc) rid) + length (queue_at (rc_frozen_responses rc) rid))
      = int (queued (AList.delete rid (rc_frozen_requests rc)) + queued (AList.delete rid (rc_frozen_responses rc)))"
    using queued_delete [OF dist(1), of rid] queued_delete [OF dist(2), of rid] n(1) by linarith
  then have "orphans_counted ?rc"
    unfolding orphans_counted_alt adopt_frozen_extras_def Let_def queue_at_def [symmetric]
    using dist n by (auto simp: distinct_delete)
  with inv st show "recorder_inv ?rc" by (rule inv_transfer)
qed

lemma settled_orphans: "settled rc rc' \<Longrightarrow>
  rc_orphans rc' = rc_orphans rc \<and> rc_frozen_requests rc' = rc_frozen_requests rc
   \<and> rc_frozen_responses rc' = rc_frozen_responses rc"
  by (simp add: settled_def orphan_state_def)

lemma steady_push_request:
  "steady rc (rc\<lparr>rc_orphans := n, rc_frozen_requests := a\<rparr>)"
  "steady rc (rc\<lparr>rc_orphans := n, rc_frozen_responses := b\<rparr>)"
  using steady_orphans [where rc = rc and n = n and a = a and b = "rc_frozen_responses rc"]
    steady_orphans [where rc = rc and n = n and a = "rc_frozen_requests rc" and b = b]
  by simp_all

lemma queue_request_inv:
  assumes inv: "recorder_inv rc"
  shows "recorder_inv (queue_frozen_request_extra x rc)" and "steady rc (queue_frozen_request_extra x rc)"
proof -
  let ?checks = "both (validate_headers [xq_headers x]) (both (validate_request_cookie_headers (xq_headers x))
      (both (validate_cookie_count (length (xq_cookies x))) (reserve (request_extra_retained_bytes x))))"
  obtain rc1 ok where 1: "?checks rc = (rc1, ok)" by fastforce
  have "settled rc (fst (?checks rc))" by (intro inv_intros)
  then have st: "settled rc rc1" by (simp add: 1)
  then have inv1: "recorder_inv rc1" using inv by (rule settled_inv)
  show "steady rc (queue_frozen_request_extra x rc)"
    unfolding queue_frozen_request_extra_def 1 prod.case
    using settled_steady [OF st] by (auto intro: steady_trans steady_push_request)
  let ?rc2 = "rc1\<lparr>rc_orphans := rc_orphans rc1 + 1, rc_frozen_requests :=
      AList.update (xq_request_id x) (queue_at (rc_frozen_requests rc1) (xq_request_id x) @ [x]) (rc_frozen_requests rc1)\<rparr>"
  have "recorder_inv ?rc2" if "\<not> rc_orphans rc \<ge> max_frozen_orphan_extras"
  proof (rule inv_transfer [OF inv1 steady_push_request(1)])
    show "orphans_counted ?rc2"
      using that inv1 settled_orphans [OF st] queued_push [of "rc_frozen_requests rc1"]
      by (simp add: recorder_inv_def orphans_counted_alt distinct_update)
  qed
  with inv inv1 show "recorder_inv (queue_frozen_request_extra x rc)"
    unfolding queue_frozen_request_extra_def 1 prod.case queue_at_def [symmetric] by simp
qed

lemma queue_response_inv:
  assumes inv: "recorder_inv rc"
  shows "recorder_inv (queue_frozen_response_extra x rc)" and "steady rc (queue_frozen_response_extra x rc)"
proof -
  let ?checks = "both (validate_headers [xs_headers x]) (reserve (response_extra_retained_bytes x))"
  obtain rc1 ok where 1: "?checks rc = (rc1, ok)" by fastforce
  have "settled rc (fst (?checks rc))" by (intro inv_intros)
  then have st: "settled rc rc1" by (simp add: 1)
  then have inv1: "recorder_inv rc1" using inv by (rule settled_inv)
  show "steady rc (queue_frozen_response_extra x rc)"
    unfolding queue_frozen_response_extra_def 1 prod.case
    using settled_steady [OF st] by (auto intro: steady_trans steady_push_request)
  let ?rc2 = "rc1\<lparr>rc_orphans := rc_orphans rc1 + 1, rc_frozen_responses :=
      AList.update (xs_request_id x) (queue_at (rc_frozen_responses rc1) (xs_request_id x) @ [x]) (rc_frozen_responses rc1)\<rparr>"
  have "recorder_inv ?rc2" if "\<not> rc_orphans rc \<ge> max_frozen_orphan_extras"
  proof (rule inv_transfer [OF inv1 steady_push_request(2)])
    show "orphans_counted ?rc2"
      using that inv1 settled_orphans [OF st] queued_push [of "rc_frozen_responses rc1"]
      by (simp add: recorder_inv_def orphans_counted_alt distinct_update)
  qed
  with inv inv1 show "recorder_inv (queue_frozen_response_extra x rc)"
    unfolding queue_frozen_response_extra_def 1 prod.case queue_at_def [symmetric] by simp
qed

section \<open>The handler\<close>

text \<open>What every event guarantees: entries are only appended, and nothing is given back.\<close>

definition advances :: "recorder \<Rightarrow> recorder \<Rightarrow> bool" where
  "advances rc rc' \<longleftrightarrow>
     prefix (keys_of rc) (keys_of rc') \<and> cut_state rc' = cut_state rc \<and> rc_retained rc \<le> rc_retained rc'
       \<and> rc_max_entries rc' = rc_max_entries rc \<and> rc_max_bytes rc' = rc_max_bytes rc
       \<and> (rc_limit_err rc \<noteq> None \<longrightarrow> rc_limit_err rc' \<noteq> None)
       \<and> (\<forall>i. scheduled rc i \<longrightarrow> scheduled rc' i)"

lemma advances_refl [simp]: "advances rc rc"
  by (simp add: advances_def)

lemma advances_trans: "advances a b \<Longrightarrow> advances b c \<Longrightarrow> advances a c"
  by (auto simp: advances_def intro: prefix_order.trans)

lemma steady_advances: "steady a b \<Longrightarrow> advances a b"
  by (simp add: advances_def steady_def skeleton_def)

lemma settled_advances: "settled a b \<Longrightarrow> advances a b"
  by (rule steady_advances) (rule settled_steady)

lemma advances_length: "advances a b \<Longrightarrow> length (rc_entries a) \<le> length (rc_entries b)"
  unfolding advances_def by (drule conjunct1, drule prefix_length_le) simp

text \<open>The one step that adds an entry.\<close>

definition push_entry :: "request_id \<Rightarrow> captured_entry \<Rightarrow> recorder \<Rightarrow> recorder" where
  "push_entry rid e rc =
     set_chain rid ((chain_of rc rid)\<lparr>ch_entries := index_of rc rid @ [length (rc_entries rc)]\<rparr>)
       (rc\<lparr>rc_sequence := rc_sequence rc + 1, rc_entries := rc_entries rc @ [e]\<rparr>)"

lemma keys_push_entry: "keys_of (push_entry rid e rc) = keys_of rc @ [(e_request_id e, birth e)]"
  by (simp add: push_entry_def keys_of_def frame_simps)

lemma index_push_entry:
  "index_of (push_entry rid e rc) = (index_of rc)(rid := index_of rc rid @ [length (rc_entries rc)])"
  by (rule ext) (simp add: push_entry_def index_of_def chain_of_def set_chain_def update_conv')

lemma push_entry_fields:
  "rc_orphans (push_entry rid e rc) = rc_orphans rc"
  "rc_frozen_requests (push_entry rid e rc) = rc_frozen_requests rc"
  "rc_frozen_responses (push_entry rid e rc) = rc_frozen_responses rc"
  "rc_max_entries (push_entry rid e rc) = rc_max_entries rc"
  "rc_max_bytes (push_entry rid e rc) = rc_max_bytes rc"
  "rc_retained (push_entry rid e rc) = rc_retained rc"
  "rc_sequence (push_entry rid e rc) = rc_sequence rc + 1"
  "rc_limit_err (push_entry rid e rc) = rc_limit_err rc"
  "rc_frozen (push_entry rid e rc) = rc_frozen rc" "rc_cutoff (push_entry rid e rc) = rc_cutoff rc"
  "rc_entries (push_entry rid e rc) = rc_entries rc @ [e]"
  by (simp_all add: push_entry_def frame_simps)

lemma push_entry_inv:
  assumes inv: "recorder_inv rc" and rid: "e_request_id e = rid" and seq: "e_sequence e = rc_sequence rc + 1"
    and room: "length (rc_entries rc) < rc_max_entries rc"
  shows "recorder_inv (push_entry rid e rc)"
proof -
  let ?n = "length (rc_entries rc)"
  have nth: "fst ((keys_of rc @ [(rid, s)]) ! i) = (if i < ?n then fst (keys_of rc ! i) else rid)" if "i < Suc ?n" for i s
    using that by (auto simp: nth_append less_Suc_eq)
  have "filter (\<lambda>i. fst ((keys_of rc @ [(rid, s)]) ! i) = r) [0..<Suc ?n]
      = filter (\<lambda>i. fst (keys_of rc ! i) = r) [0..<?n] @ (if r = rid then [?n] else [])" for r s
    using nth [of ?n s] by (auto intro!: filter_cong simp: nth nth_append)
  then have "well_chained (push_entry rid e rc)"
    using inv by (auto simp: well_chained_def recorder_inv_def keys_push_entry index_push_entry rid push_entry_fields)
  moreover have "numbered (push_entry rid e rc)"
    using inv by (simp add: numbered_def recorder_inv_def keys_push_entry push_entry_fields seq)
  ultimately show ?thesis
    using inv room by (simp add: recorder_inv_def budget_ok_def orphans_counted_def push_entry_fields)
qed

lemma push_entry_advances: "advances rc (push_entry rid e rc)"
  by (auto simp: advances_def keys_push_entry push_entry_fields cut_state_def scheduled_def nth_append)

lemma settled_page_start:
  "settled rc (rc\<lparr>rc_page_start_mono := a, rc_page_start := b\<rparr>)"
  by (simp add: settled_def steady_def skeleton_def keys_of_def cut_state_def budget_ok_def scheduled_def
      orphan_state_def index_of_def [abs_def] chain_of_def [abs_def])

text \<open>\<open>append_request\<close> either records an error or pushes one entry.\<close>

lemma append_request_cases:
  obtains (dropped) "settled rc (append_request ev q rc)" and "store_of (append_request ev q rc) = store_of rc"
      and "rc_limit_err (append_request ev q rc) \<noteq> None"
  | (pushed) rc2 e where "settled rc rc2" and "store_of rc2 = store_of rc"
      and "length (rc_entries rc2) < rc_max_entries rc2"
      and "e_request_id e = ws_request_id ev" and "e_sequence e = rc_sequence rc2 + 1"
      and "\<not> e_body_fetch_scheduled e" and "\<not> e_extra_known e"
      and "e_request_extra e = None" and "e_response_extra e = None"
      and "\<exists>p. e_request e = Some p \<and> rq_method p = rq_method q \<and> rq_url p = rq_url q"
      and "settled (push_entry (ws_request_id ev) e rc2) (append_request ev q rc)"
      and "rc_entries (append_request ev q rc) = rc_entries rc2 @ [e]"
      and "rc_chains (append_request ev q rc) = rc_chains (push_entry (ws_request_id ev) e rc2)"
proof -
  let ?checks = "both (validate_headers [rq_headers q]) (validate_request_cookie_headers (rq_headers q))"
  obtain rc1 ok where 1: "?checks rc = (rc1, ok)" by fastforce
  have "settled rc (fst (?checks rc))" by (intro inv_intros)
  then have st1: "settled rc rc1" by (simp add: 1)
  have "store_of (fst (?checks rc)) = store_of rc" by (intro both_frame) (simp_all add: frame_simps)
  then have es1: "store_of rc1 = store_of rc" by (simp add: 1)
  have refused: "rc_limit_err rc1 \<noteq> None" if "\<not> ok"
  proof -
    have "\<not> snd (?checks rc)" using that by (simp only: 1 snd_conv simp_thms)
    then have "rc_limit_err (fst (?checks rc)) \<noteq> None"
      by (rule refused_both [OF _ refused_validate_headers refused_validate_request_cookie_headers])
    then show ?thesis by (simp only: 1 fst_conv simp_thms)
  qed
  have limit: "settled rc (set_limit_error err rc1)" "store_of (set_limit_error err rc1) = store_of rc"
      "rc_limit_err (set_limit_error err rc1) \<noteq> None" for err
    using settled_trans [OF st1 settled_set_limit_error] es1
    by (simp_all add: frame_simps) (simp add: set_limit_error_def)
  show thesis
  proof (cases "ok \<and> (\<exists>query. parse_query_string (rq_url q) = QueryOk query)")
    case False
    then have "\<not> ok \<and> append_request ev q rc = rc1 \<or> (\<exists>err. append_request ev q rc = set_limit_error err rc1)"
      unfolding append_request_def 1 prod.case by (cases "parse_query_string (rq_url q)") auto
    then show thesis using dropped st1 es1 limit refused by metis
  next
    case True
    then obtain query where ok: ok and query: "parse_query_string (rq_url q) = QueryOk query" by blast
    obtain post incomplete where post:
      "(if rq_has_post q then post_data_from_entries (rq_post_entries q) else ([], False)) = (post, incomplete)"
      by fastforce
    obtain rc2 ok2 where 2: "(if length (rc_entries rc1) \<ge> rc_max_entries rc1 then (rc1, False)
        else reserve (request_bytes ev q query post) rc1) = (rc2, ok2)" by fastforce
    have st2: "settled rc rc2" and es2: "store_of rc2 = store_of rc"
      using 2 settled_reserve [of rc1 "request_bytes ev q query post"] st1 es1
        reserve_store [of "request_bytes ev q query post" rc1]
      by (auto split: if_splits intro: settled_trans)
    show thesis
    proof (cases ok2)
      case False
      then have "append_request ev q rc = set_limit_error (EntriesLimit (rc_max_entries rc2)) rc2"
        unfolding append_request_def 1 prod.case query query_result.case post 2 Let_def using ok by simp
      then show thesis
        using dropped settled_trans [OF st2 settled_set_limit_error] es2
        by (simp add: frame_simps) (simp add: set_limit_error_def)
    next
      case True
      define e where "e = new_entry (rc_sequence rc2 + 1) ev q query
          (wall_time (ws_wall_time ev) (rc_capture_start rc2)) (monotonic_time (ws_timestamp ev)) post incomplete"
      have app: "append_request ev q rc = (let rc3 = push_entry (ws_request_id ev) e rc2 in
          if rc_page_start_mono rc3 = 0 \<and> ws_type ev = ''Document''
          then rc3\<lparr>rc_page_start_mono := monotonic_time (ws_timestamp ev), rc_page_start := e_started_wall e\<rparr> else rc3)"
        unfolding append_request_def 1 prod.case query query_result.case post 2 Let_def push_entry_def
          index_of_def e_def using ok True by simp
      have "length (rc_entries rc1) < rc_max_entries rc1" using 2 True by (auto split: if_splits)
      moreover have "rc_max_entries rc2 = rc_max_entries rc1"
        using 2 by (auto split: if_splits simp: reserve_def Let_def)
      ultimately have room: "length (rc_entries rc2) < rc_max_entries rc2"
        using store_ofD [OF es1] store_ofD [OF es2] by simp
      show thesis
      proof (rule pushed [OF st2 es2 room])
        show "settled (push_entry (ws_request_id ev) e rc2) (append_request ev q rc)"
          by (simp add: app Let_def settled_page_start)
      qed (simp_all add: app Let_def push_entry_fields e_def new_entry_def)
    qed
  qed
qed

lemma append_request_inv:
  assumes "recorder_inv rc"
  shows "recorder_inv (append_request ev q rc)" and "advances rc (append_request ev q rc)"
proof -
  have "recorder_inv (append_request ev q rc) \<and> advances rc (append_request ev q rc)"
  proof (rule append_request_cases [of rc ev q])
    assume "settled rc (append_request ev q rc)"
    with assms show ?thesis using settled_inv settled_advances by blast
  next
    fix rc2 e
    assume *: "settled rc rc2" "length (rc_entries rc2) < rc_max_entries rc2"
      "e_request_id e = ws_request_id ev" "e_sequence e = rc_sequence rc2 + 1"
      "settled (push_entry (ws_request_id ev) e rc2) (append_request ev q rc)"
    have "recorder_inv (push_entry (ws_request_id ev) e rc2)"
      by (rule push_entry_inv [OF settled_inv [OF *(1) assms] *(3,4,2)])
    then show ?thesis
      using settled_inv [OF *(5)] advances_trans [OF settled_advances [OF *(1)]
          advances_trans [OF push_entry_advances settled_advances [OF *(5)]]] by blast
  qed
  then show "recorder_inv (append_request ev q rc)" "advances rc (append_request ev q rc)" by simp_all
qed

lemma settled_post_cutoff: "settled rc (rc\<lparr>rc_post_cutoff := a\<rparr>)"
  by (simp add: settled_def steady_def skeleton_def keys_of_def cut_state_def budget_ok_def scheduled_def
      orphan_state_def index_of_def [abs_def] chain_of_def [abs_def])

lemma request_will_be_sent_inv:
  assumes inv: "recorder_inv rc"
  shows "recorder_inv (request_will_be_sent ev inc rc) \<and> advances rc (request_will_be_sent ev inc rc)"
proof (cases "ws_request ev")
  case None
  with inv show ?thesis by (simp add: request_will_be_sent_def)
next
  case (Some q)
  define rid where "rid = ws_request_id ev"
  define rc1 where "rc1 = ensure_chain rid (rc\<lparr>rc_post_cutoff := rc_post_cutoff rc - {rid}\<rparr>)"
  define rc2 where "rc2 = (if ch_entries (chain_of rc1 rid) = [] then adopt_frozen_extras rid rc1 else rc1)"
  have "settled rc rc1"
    unfolding rc1_def by (rule settled_trans [OF settled_post_cutoff settled_ensure_chain])
  then have 1: "recorder_inv rc1" "advances rc rc1"
    using inv settled_inv settled_advances by blast+
  have 2: "recorder_inv rc2" "advances rc rc2"
    unfolding rc2_def using 1 adopt_inv [OF 1(1)] advances_trans [OF 1(2) steady_advances] by auto
  obtain rc3 ok where 3: "(case ws_redirect_response ev of None \<Rightarrow> (rc2, True)
      | Some r \<Rightarrow> close_redirected rid r (ws_redirect_has_extra ev) (monotonic_time (ws_timestamp ev)) inc rc2) = (rc3, ok)"
    by fastforce
  have "settled rc2 rc3"
    using 3 settled_close_redirected [of rc2 rid] by (auto split: option.splits) (metis fst_conv)
  then have i3: "recorder_inv rc3" "advances rc rc3"
    using 2 settled_inv settled_advances advances_trans by blast+
  have eq: "request_will_be_sent ev inc rc =
      (if \<not> is_http_url (rq_url q) then rc
       else if ch_entries (chain_of rc1 rid) \<noteq> [] \<and> ws_redirect_response ev = None then rc1
       else if \<not> ok then rc3 else append_request ev q rc3)"
    unfolding request_will_be_sent_def Some option.case Let_def rid_def [symmetric] rc1_def [symmetric]
      rc2_def [symmetric] 3 prod.case by simp
  show ?thesis
    unfolding eq using inv 1 i3 append_request_inv [OF i3(1)] advances_trans by auto
qed

section \<open>Body tasks\<close>

text \<open>What has to hold of an entry before its body is fetched.\<close>

definition body_ready :: "captured_entry \<Rightarrow> bool" where
  "body_ready e \<longleftrightarrow> e_loading_finished e \<and> e_response e \<noteq> None
     \<and> (e_extra_expected e \<longrightarrow> e_response_extra e \<noteq> None) \<and> \<not> has_no_response_body e"

definition tasks_fresh :: "recorder \<Rightarrow> recorder \<Rightarrow> fetch_task list \<Rightarrow> bool" where
  "tasks_fresh rc rc' out \<longleftrightarrow>
     distinct (map snd out) \<and>
     (\<forall>(rid, i) \<in> set out. \<not> scheduled rc i \<and> scheduled rc' i \<and> body_ready (rc_entries rc' ! i)
        \<and> e_request_id (rc_entries rc' ! i) = rid)"

lemma tasks_fresh_Nil [simp]: "tasks_fresh rc rc' []"
  by (simp add: tasks_fresh_def)

lemma body_fetch_loop_spec:
  "distinct is \<Longrightarrow> \<forall>i \<in> set is. i < length es \<Longrightarrow> body_fetch_loop rid is es = (es', tasks) \<Longrightarrow>
   same_keys es es' \<and> (\<forall>i. i \<notin> set is \<longrightarrow> es' ! i = es ! i) \<and> distinct (map snd tasks)
     \<and> (\<forall>(r, i) \<in> set tasks. r = rid \<and> i \<in> set is \<and> \<not> e_body_fetch_scheduled (es ! i)
          \<and> e_body_fetch_scheduled (es' ! i) \<and> body_ready (es' ! i))"
proof (induction "is" arbitrary: es es' tasks)
  case Nil
  then show ?case by simp
next
  case (Cons i "is")
  let ?e = "es ! i"
  have i: "i \<notin> set is" "i < length es" using Cons.prems by auto
  show ?case
  proof (cases "e_body_fetch_scheduled ?e \<or> \<not> e_loading_finished ?e \<or> e_response ?e = None
      \<or> (e_extra_expected ?e \<and> e_response_extra ?e = None)")
    case True
    then have "body_fetch_loop rid is es = (es', tasks)"
      using Cons.prems(3) by (auto simp: Let_def split: if_splits)
    then show ?thesis using Cons.IH [of es es' tasks] Cons.prems by auto
  next
    case False
    let ?es = "es[i := ?e\<lparr>e_body_fetch_scheduled := True\<rparr>]"
    obtain tasks' where rec: "body_fetch_loop rid is ?es = (es', tasks')"
      and tasks: "tasks = (if has_no_response_body ?e then tasks' else (rid, i) # tasks')"
      using Cons.prems(3) False by (auto simp: Let_def split: prod.splits)
    have ih: "same_keys ?es es'" "\<forall>j. j \<notin> set is \<longrightarrow> es' ! j = ?es ! j" "distinct (map snd tasks')"
      "\<forall>(r, j) \<in> set tasks'. r = rid \<and> j \<in> set is \<and> \<not> e_body_fetch_scheduled (?es ! j)
          \<and> e_body_fetch_scheduled (es' ! j) \<and> body_ready (es' ! j)"
      using Cons.IH [OF _ _ rec] Cons.prems by auto
    have same: "same_keys es es'"
      by (rule same_keys_trans [OF same_keys_update ih(1)]) simp_all
    have here: "es' ! i = ?e\<lparr>e_body_fetch_scheduled := True\<rparr>"
      using ih(2) i by simp
    have ready: "body_ready (es' ! i)" if "\<not> has_no_response_body ?e"
      using that False by (simp add: here body_ready_def has_no_response_body_def)
    have other: "?es ! j = es ! j" if "j \<in> set is" for j
      using that i by (auto simp: nth_list_update)
    have "\<forall>j. j \<notin> set (i # is) \<longrightarrow> es' ! j = es ! j"
      using ih(2) by auto
    moreover have "i \<notin> snd ` set tasks'" using ih(4) i by auto
    ultimately show ?thesis
      using ih(3,4) same ready here False other unfolding tasks by auto
  qed
qed

lemma well_chained_index:
  assumes "well_chained rc"
  shows "distinct (index_of rc rid)" and "i \<in> set (index_of rc rid) \<Longrightarrow> i < length (rc_entries rc)"
    and "i \<in> set (index_of rc rid) \<Longrightarrow> e_request_id (rc_entries rc ! i) = rid"
  using assms by (auto simp: well_chained_def)

lemma ready_tasks_ok:
  assumes inv: "recorder_inv rc" and eq: "ready_body_fetch_tasks rid inc rc = (rc', out)"
  shows "settled rc rc' \<and> tasks_fresh rc rc' out"
proof (cases inc)
  case False
  with eq show ?thesis by (simp add: ready_body_fetch_tasks_def)
next
  case True
  obtain es where loop: "body_fetch_loop rid (index_of rc rid) (rc_entries rc) = (es, out)"
    and rc': "rc' = rc\<lparr>rc_entries := es\<rparr>"
    using eq True by (auto simp: ready_body_fetch_tasks_def index_of_def split: prod.splits)
  have wc: "well_chained rc" using inv by (simp add: recorder_inv_def)
  have spec: "same_keys (rc_entries rc) es" "distinct (map snd out)"
      "\<forall>(r, i) \<in> set out. r = rid \<and> i \<in> set (index_of rc rid) \<and> \<not> e_body_fetch_scheduled (rc_entries rc ! i)
          \<and> e_body_fetch_scheduled (es ! i) \<and> body_ready (es ! i)"
  proof -
    have "\<forall>i \<in> set (index_of rc rid). i < length (rc_entries rc)"
      using well_chained_index(2) [OF wc] by simp
    note b = body_fetch_loop_spec [OF well_chained_index(1) [OF wc] this loop]
    from b show "same_keys (rc_entries rc) es" by (elim conjE)
    from b show "distinct (map snd out)" by (elim conjE)
    from b show "\<forall>(r, i) \<in> set out. r = rid \<and> i \<in> set (index_of rc rid)
          \<and> \<not> e_body_fetch_scheduled (rc_entries rc ! i) \<and> e_body_fetch_scheduled (es ! i) \<and> body_ready (es ! i)"
      by (elim conjE)
  qed
  have st: "settled rc rc'" unfolding rc' by (rule settled_entries [OF spec(1)])
  have len: "length es = length (rc_entries rc)"
    using spec(1) by (simp add: same_keys_def list_all2_lengthD)
  have ids: "i < length es \<and> e_request_id (es ! i) = rid" if "i \<in> set (index_of rc rid)" for i
  proof -
    have "i < length (rc_entries rc)" "e_request_id (rc_entries rc ! i) = rid"
      using well_chained_index(2,3) [OF wc that] by simp_all
    with spec(1) len show ?thesis by (simp add: same_keys_def list_all2_conv_all_nth)
  qed
  have "\<forall>(r, i) \<in> set out. \<not> scheduled rc i \<and> scheduled rc' i \<and> body_ready (rc_entries rc' ! i)
        \<and> e_request_id (rc_entries rc' ! i) = r"
    using spec(3) ids unfolding rc' scheduled_def by (auto split: prod.splits)
  then have "tasks_fresh rc rc' out"
    unfolding tasks_fresh_def using spec(2) by blast
  with st show ?thesis by simp
qed

section \<open>Every event keeps the invariant\<close>

definition step_ok :: "recorder \<Rightarrow> recorder \<times> fetch_task list \<Rightarrow> bool" where
  "step_ok rc res \<longleftrightarrow> recorder_inv (fst res) \<and> advances rc (fst res) \<and> tasks_fresh rc (fst res) (snd res)"

lemma step_ok_settled: "recorder_inv rc \<Longrightarrow> settled rc rc' \<Longrightarrow> step_ok rc (rc', [])"
  by (simp add: step_ok_def settled_inv settled_advances)

lemma step_ok_ready:
  assumes "recorder_inv rc" and "settled rc rc1"
  shows "step_ok rc (ready_body_fetch_tasks rid inc rc1)"
proof -
  obtain rc' out where eq: "ready_body_fetch_tasks rid inc rc1 = (rc', out)" by fastforce
  have inv1: "recorder_inv rc1" using assms by (rule settled_inv [rotated])
  have r: "settled rc1 rc'" "tasks_fresh rc1 rc' out"
    using ready_tasks_ok [OF inv1 eq] by simp_all
  have "scheduled rc i \<Longrightarrow> scheduled rc1 i" for i
    using assms(2) by (simp add: settled_def steady_def)
  then have "tasks_fresh rc rc' out"
    using r(2) by (auto simp: tasks_fresh_def)
  then show ?thesis
    using settled_inv [OF r(1) inv1] settled_advances [OF settled_trans [OF assms(2) r(1)]]
    by (simp add: step_ok_def eq)
qed

lemma settled_marks:
  "settled rc (rc\<lparr>rc_dom_content := a\<rparr>)" "settled rc (rc\<lparr>rc_load := a\<rparr>)"
  by (simp_all add: settled_def steady_def skeleton_def keys_of_def cut_state_def budget_ok_def scheduled_def
      orphan_state_def index_of_def [abs_def] chain_of_def [abs_def])

lemma apply_event_ok: "recorder_inv rc \<Longrightarrow> step_ok rc (apply_event inc rc ev)"
proof (cases ev)
  case (RequestWillBeSent ws)
  assume "recorder_inv rc"
  then show ?thesis
    using request_will_be_sent_inv [of rc ws inc] by (simp add: RequestWillBeSent step_ok_def)
qed (auto intro!: step_ok_settled step_ok_ready settled_request_extra_info settled_response_received
    settled_response_extra_info settled_update_current settled_loading_failed settled_marks simp: frame_simps)

lemma frozen_event_ok: "recorder_inv rc \<Longrightarrow> step_ok rc (frozen_event inc rc ev)"
proof (cases ev)
  case (RequestWillBeSentExtraInfo x)
  assume "recorder_inv rc"
  then show ?thesis
    using queue_request_inv [of rc x] steady_advances
    by (auto simp: RequestWillBeSentExtraInfo step_ok_def intro!: step_ok_settled [unfolded step_ok_def, simplified]
        settled_request_extra_info settled_inv settled_advances)
next
  case (ResponseReceivedExtraInfo x)
  assume inv: "recorder_inv rc"
  then show ?thesis
    using queue_response_inv [of rc x] steady_advances step_ok_ready [OF inv settled_response_extra_info]
    by (auto simp: ResponseReceivedExtraInfo step_ok_def)
qed (use apply_event_ok [of rc inc ev] in \<open>auto intro!: step_ok_settled settled_post_cutoff\<close>)

lemma handle_event_ok: "recorder_inv rc \<Longrightarrow> step_ok rc (handle_event inc rc ev)"
  by (auto simp: handle_event_def apply_event_ok frozen_event_ok intro: step_ok_settled)

lemma handle_buffered_event_ok: "recorder_inv rc \<Longrightarrow> step_ok rc (handle_buffered_event inc rc ev)"
  by (auto simp: handle_buffered_event_def handle_event_ok intro!: step_ok_settled settled_update_current
      split: cdp_event.splits)

end
