(* ===== verification/Recorder_Order.thy ===== *)
theory Recorder_Order
  imports Recorder_Inv
begin

text \<open>
  Supplemental events and the hops they belong to. Chromium sends the headers of a request
  twice, once with the request and once in a supplemental event without a hop number; the
  recorder matches the supplemental events of a request ID to its redirect hops in order of
  arrival. The trail of a request ID is the sequence of events matched to its hops followed
  by the ones still pending; the lemmas show that no step loses, repeats or reorders a part
  of it.

  The two kinds of supplemental event, of requests and of responses, are matched by the same
  rules; they share the interface \<open>extra_side\<close>, whose laws say how a side is read from an
  entry and from a chain and what \<open>reconcileExtraInfo\<close> does to it.
\<close>

section \<open>Matching a queue to hops\<close>

text \<open>A hop as the matching sees it: is its expectation known, is an event expected, and the event.\<close>

type_synonym 'x hop = "bool \<times> bool \<times> 'x option"

fun match_hops :: "'x hop list \<Rightarrow> 'x list \<Rightarrow> 'x hop list \<times> 'x list" where
  "match_hops [] q = ([], q)"
| "match_hops ((known, expected, ev) # hs) q =
     (if \<not> known then ((known, expected, ev) # hs, q)
      else if \<not> expected \<or> ev \<noteq> None then
        (case match_hops hs q of (hs', q') \<Rightarrow> ((known, expected, ev) # hs', q'))
      else
        (case q of
           [] \<Rightarrow> ((known, expected, ev) # hs, q)
         | x # xs \<Rightarrow> (case match_hops hs xs of (hs', q') \<Rightarrow> ((known, expected, Some x) # hs', q'))))"

definition matched :: "'x hop list \<Rightarrow> 'x list" where
  "matched hs = List.map_filter (snd \<circ> snd) hs"

fun blocked :: "'x hop \<Rightarrow> bool" where
  "blocked (known, expected, ev) = (ev = None \<and> (\<not> known \<or> expected))"

text \<open>No hop after one that still waits has an event.\<close>

definition gapless :: "'x hop list \<Rightarrow> bool" where
  "gapless hs = sorted_wrt (\<lambda>a b. blocked a \<longrightarrow> snd (snd b) = None) hs"

lemma matched_simps [simp]:
  "matched [] = []" "matched (h # hs) = (case snd (snd h) of None \<Rightarrow> [] | Some x \<Rightarrow> [x]) @ matched hs"
  by (simp_all add: matched_def map_filter_simps split: option.splits)

lemma matched_append [simp]: "matched (a @ b) = matched a @ matched b"
  by (simp add: matched_def map_filter_def)

lemma matched_None: "\<forall>h \<in> set hs. snd (snd h) = None \<Longrightarrow> matched hs = []"
  by (induction hs) auto

lemma gapless_simps [simp]:
  "gapless []" "gapless (h # hs) \<longleftrightarrow> (blocked h \<longrightarrow> (\<forall>k \<in> set hs. snd (snd k) = None)) \<and> gapless hs"
  by (auto simp: gapless_def)

lemma gapless_append_None: "gapless hs \<Longrightarrow> snd (snd h) = None \<Longrightarrow> gapless (hs @ [h])"
  by (induction hs) auto

lemma gapless_butlast: "gapless (hs @ [h]) \<Longrightarrow> snd (snd k) = snd (snd h) \<Longrightarrow> gapless (hs @ [k])"
  by (induction hs) auto

lemma match_hops_trail:
  "gapless hs \<Longrightarrow> match_hops hs q = (hs', q') \<Longrightarrow> gapless hs' \<and> matched hs' @ q' = matched hs @ q"
proof (induction hs q arbitrary: hs' q' rule: match_hops.induct)
  case (1 q)
  then show ?case by simp
next
  case (2 known expected ev hs q)
  show ?case
  proof (cases "\<not> known")
    case True
    with 2 show ?thesis by auto
  next
    case False
    show ?thesis
    proof (cases "\<not> expected \<or> ev \<noteq> None")
      case True
      obtain r q1 where r: "match_hops hs q = (r, q1)" by fastforce
      then have "gapless r \<and> matched r @ q1 = matched hs @ q"
        using 2 True False by simp
      moreover have "hs' = (known, expected, ev) # r" "q' = q1"
        using 2 True False r by auto
      ultimately show ?thesis using True False by auto
    next
      case waiting: False
      show ?thesis
      proof (cases q)
        case Nil
        with 2 waiting False show ?thesis by auto
      next
        case (Cons x xs)
        obtain r q1 where r: "match_hops hs xs = (r, q1)" by fastforce
        then have ih: "gapless r \<and> matched r @ q1 = matched hs @ xs"
          using 2 waiting False Cons by simp
        have "matched hs = []"
          using 2 waiting False by (intro matched_None) auto
        moreover have "hs' = (known, expected, Some x) # r" "q' = q1"
          using 2 waiting False r Cons by auto
        ultimately show ?thesis using ih waiting Cons by auto
      qed
    qed
  qed
qed

section \<open>Trails of the recorder\<close>

definition hop_of :: "(captured_entry \<Rightarrow> 'x option) \<Rightarrow> captured_entry \<Rightarrow> 'x hop" where
  "hop_of side e = (e_extra_known e, e_extra_expected e, side e)"

definition hops :: "(captured_entry \<Rightarrow> 'x option) \<Rightarrow> recorder \<Rightarrow> request_id \<Rightarrow> 'x hop list" where
  "hops side rc rid = map (\<lambda>i. hop_of side (rc_entries rc ! i)) (index_of rc rid)"

definition trail :: "(captured_entry \<Rightarrow> 'x option) \<Rightarrow> (request_chain \<Rightarrow> 'x list) \<Rightarrow> recorder \<Rightarrow> request_id \<Rightarrow> 'x list" where
  "trail side pending rc rid = matched (hops side rc rid) @ pending (chain_of rc rid)"

definition in_order :: "(captured_entry \<Rightarrow> 'x option) \<Rightarrow> recorder \<Rightarrow> bool" where
  "in_order side rc \<longleftrightarrow> (\<forall>rid. gapless (hops side rc rid))"

text \<open>The entries and chains of two states look the same to the matching.\<close>

definition same_flags :: "captured_entry \<Rightarrow> captured_entry \<Rightarrow> bool" where
  "same_flags e e' \<longleftrightarrow> e_extra_known e' = e_extra_known e \<and> e_extra_expected e' = e_extra_expected e
     \<and> e_request_extra e' = e_request_extra e \<and> e_response_extra e' = e_response_extra e"

definition same_matching :: "recorder \<Rightarrow> recorder \<Rightarrow> bool" where
  "same_matching rc rc' \<longleftrightarrow>
     chain_of rc' = chain_of rc \<and> list_all2 same_flags (rc_entries rc) (rc_entries rc')"

lemma same_flags_refl [simp]: "same_flags e e"
  by (simp add: same_flags_def)

lemma same_matching_refl [simp]: "same_matching rc rc"
  by (simp add: same_matching_def list_all2_same)

lemma same_flags_trans: "same_flags a b \<Longrightarrow> same_flags b c \<Longrightarrow> same_flags a c"
  by (simp add: same_flags_def)

lemma flags_trans: "list_all2 same_flags xs ys \<Longrightarrow> list_all2 same_flags ys zs \<Longrightarrow> list_all2 same_flags xs zs"
  using list_all2_trans [of same_flags same_flags same_flags xs ys zs] same_flags_trans by blast

lemma same_matching_trans: "same_matching a b \<Longrightarrow> same_matching b c \<Longrightarrow> same_matching a c"
  using flags_trans by (auto simp: same_matching_def)

lemma same_matching_store: "store_of rc' = store_of rc \<Longrightarrow> same_matching rc rc'"
  by (simp add: same_matching_def store_of_def chain_of_def [abs_def] list_all2_same)

lemma same_matching_set_entry: "same_flags (rc_entries rc ! i) e \<Longrightarrow> same_matching rc (set_entry i e rc)"
  by (cases "i < length (rc_entries rc)")
    (auto simp: same_matching_def set_entry_def chain_of_def [abs_def] list_all2_conv_all_nth
      nth_list_update list_update_beyond)

lemma same_matching_both:
  "(\<And>rc. store_of (fst (p rc)) = store_of rc) \<Longrightarrow> (\<And>rc. store_of (fst (q rc)) = store_of rc) \<Longrightarrow>
   same_matching rc (fst (both p q rc))"
  by (intro same_matching_store both_frame)

lemma index_of_chain: "index_of rc rid = ch_entries (chain_of rc rid)"
  by (simp add: index_of_def)

locale extra_side =
  fixes side :: "captured_entry \<Rightarrow> 'x option"
    and pending :: "request_chain \<Rightarrow> 'x list"
  assumes side_flags: "same_flags e e' \<Longrightarrow> side e' = side e"
    and side_expect: "side (e\<lparr>e_extra_known := a, e_extra_expected := b\<rparr>) = side e"
    and pending_entries: "pending (c\<lparr>ch_entries := is\<rparr>) = pending c"
    and pending_append: "prefix (pending c) (pending (c\<lparr>ch_pending_request := ch_pending_request c @ xs,
      ch_pending_response := ch_pending_response c @ ys\<rparr>))"
    and side_new: "e_request_extra e = None \<Longrightarrow> e_response_extra e = None \<Longrightarrow> side e = None"
    and reconcile_hops: "well_chained rc \<Longrightarrow> map_of (rc_chains rc) rid \<noteq> None \<Longrightarrow>
      (hops side (reconcile_extra_info rid rc) r, pending (chain_of (reconcile_extra_info rid rc) r)) =
      (if r = rid then match_hops (hops side rc rid) (pending (chain_of rc rid))
       else (hops side rc r, pending (chain_of rc r)))"
begin

lemma hops_same: "same_matching rc rc' \<Longrightarrow> well_chained rc \<Longrightarrow> hops side rc' rid = hops side rc rid"
proof -
  assume s: "same_matching rc rc'" and wc: "well_chained rc"
  have idx: "index_of rc' rid = index_of rc rid"
    using s by (simp add: same_matching_def index_of_chain)
  have "hop_of side (rc_entries rc' ! i) = hop_of side (rc_entries rc ! i)" if "i \<in> set (index_of rc rid)" for i
  proof -
    have "same_flags (rc_entries rc ! i) (rc_entries rc' ! i)"
      using s well_chained_index(2) [OF wc that] by (simp add: same_matching_def list_all2_conv_all_nth)
    then show ?thesis
      using side_flags [of "rc_entries rc ! i" "rc_entries rc' ! i"] by (simp add: hop_of_def same_flags_def)
  qed
  then show ?thesis
    unfolding hops_def idx by (intro map_cong refl)
qed

text \<open>A step that keeps the order and only extends trails.\<close>

definition extends :: "recorder \<Rightarrow> recorder \<Rightarrow> bool" where
  "extends rc rc' \<longleftrightarrow>
     (recorder_inv rc \<and> in_order side rc \<longrightarrow>
        recorder_inv rc' \<and> in_order side rc' \<and> (\<forall>rid. prefix (trail side pending rc rid) (trail side pending rc' rid)))"

lemma extends_refl [simp]: "extends rc rc"
  by (simp add: extends_def)

lemma extends_trans: "extends a b \<Longrightarrow> extends b c \<Longrightarrow> extends a c"
  by (auto simp: extends_def intro: prefix_order.trans)

lemma extends_hops:
  assumes "recorder_inv rc \<Longrightarrow> recorder_inv rc'"
    and "\<And>rid. recorder_inv rc \<Longrightarrow> hops side rc' rid = hops side rc rid"
    and "\<And>rid. recorder_inv rc \<Longrightarrow> prefix (pending (chain_of rc rid)) (pending (chain_of rc' rid))"
  shows "extends rc rc'"
  using assms by (auto simp: extends_def in_order_def trail_def)

lemma extends_same: "(recorder_inv rc \<Longrightarrow> recorder_inv rc') \<Longrightarrow> same_matching rc rc' \<Longrightarrow> extends rc rc'"
  by (rule extends_hops) (auto simp: hops_same recorder_inv_def same_matching_def)

lemma extends_settled: "settled rc rc' \<Longrightarrow> same_matching rc rc' \<Longrightarrow> extends rc rc'"
  by (rule extends_same) (auto intro: settled_inv)

lemma extends_reconcile: "extends rc (reconcile_extra_info rid rc)"
proof (cases "map_of (rc_chains rc) rid")
  case None
  then show ?thesis by (simp add: reconcile_extra_info_def)
next
  case (Some c)
  let ?rc = "reconcile_extra_info rid rc"
  show ?thesis
    unfolding extends_def
  proof (intro impI conjI allI)
    assume "recorder_inv rc \<and> in_order side rc"
    then have inv: "recorder_inv rc" and ord: "in_order side rc" and wc: "well_chained rc"
      by (simp_all add: recorder_inv_def)
    show "recorder_inv ?rc" using settled_reconcile inv by (rule settled_inv)
    have "gapless (hops side ?rc r) \<and> trail side pending ?rc r = trail side pending rc r" for r
    proof (cases "r = rid")
      case True
      have "match_hops (hops side rc rid) (pending (chain_of rc rid)) = (hops side ?rc rid, pending (chain_of ?rc rid))"
        using reconcile_hops [OF wc, of rid rid] Some by simp
      from match_hops_trail [OF _ this] ord show ?thesis
        using True by (simp add: trail_def in_order_def)
    next
      case False
      with ord show ?thesis
        using reconcile_hops [OF wc, of rid r] Some by (simp add: trail_def in_order_def)
    qed
    then show "in_order side ?rc" and "prefix (trail side pending rc r) (trail side pending ?rc r)" for r
      by (simp_all add: in_order_def)
  qed
qed

text \<open>Only the expectation of the last hop is ever set, so no later hop can be overtaken.\<close>

lemma hops_expectation:
  assumes wc: "well_chained rc" and cur: "current_entry rc rid = Some i"
  shows "hops side (set_entry i ((rc_entries rc ! i)\<lparr>e_extra_known := a, e_extra_expected := b\<rparr>) rc) r =
    (if r = rid then butlast (hops side rc rid) @ [(a, b, side (rc_entries rc ! i))] else hops side rc r)"
proof -
  let ?e = "(rc_entries rc ! i)\<lparr>e_extra_known := a, e_extra_expected := b\<rparr>"
  let ?rc = "set_entry i ?e rc"
  have idx: "index_of ?rc r = index_of rc r" for r
    by (simp add: set_entry_def)
  obtain js where js: "index_of rc rid = js @ [i]"
    using cur by (auto simp: current_entry_last split: if_splits) (metis append_butlast_last_id)
  have i: "i < length (rc_entries rc)" "e_request_id (rc_entries rc ! i) = rid"
    using well_chained_index(2,3) [OF wc, of i rid] js by simp_all
  have "i \<notin> set js" using well_chained_index(1) [OF wc, of rid] js by simp
  then have same: "i \<noteq> j" if "j \<in> set js" for j using that by blast
  have other: "i \<noteq> j" if "j \<in> set (index_of rc r)" "r \<noteq> rid" for j
    using well_chained_index(3) [OF wc that(1)] i that(2) by metis
  show ?thesis
  proof (cases "r = rid")
    case True
    have "map (\<lambda>j. hop_of side (rc_entries ?rc ! j)) js = map (\<lambda>j. hop_of side (rc_entries rc ! j)) js"
      using same by (auto simp: set_entry_def)
    moreover have "hop_of side (rc_entries ?rc ! i) = (a, b, side (rc_entries rc ! i))"
      using i by (simp add: set_entry_def hop_of_def side_expect)
    ultimately show ?thesis
      using True by (simp add: hops_def idx js)
  next
    case False
    then show ?thesis
      using other by (simp add: hops_def idx set_entry_def)
  qed
qed

lemma extends_expectation:
  assumes cur: "current_entry rc rid = Some i"
  shows "extends rc (set_extra_info_expectation rid i b rc)"
proof -
  let ?e = "(rc_entries rc ! i)\<lparr>e_extra_known := True, e_extra_expected := b\<rparr>"
  let ?rc = "set_entry i ?e rc"
  have "extends rc ?rc"
    unfolding extends_def
  proof (intro impI)
    assume "recorder_inv rc \<and> in_order side rc"
    then have inv: "recorder_inv rc" and ord: "in_order side rc" and wc: "well_chained rc"
      by (simp_all add: recorder_inv_def)
    have "settled rc ?rc" by (rule settled_set_entry) simp_all
    then have 1: "recorder_inv ?rc" using inv by (rule settled_inv)
    have ch: "chain_of ?rc = chain_of rc"
      by (simp add: set_entry_def chain_of_def [abs_def])
    obtain js where js: "index_of rc rid = js @ [i]"
      using cur by (auto simp: current_entry_last split: if_splits) (metis append_butlast_last_id)
    have hop: "hops side rc rid = butlast (hops side rc rid) @ [hop_of side (rc_entries rc ! i)]"
      by (simp add: hops_def js)
    have g: "gapless (hops side rc r)" for r using ord by (simp add: in_order_def)
    have "gapless (butlast (hops side rc rid) @ [(True, b, side (rc_entries rc ! i))])"
      by (rule gapless_butlast [of _ "hop_of side (rc_entries rc ! i)"])
        (use g [of rid] hop in \<open>simp_all add: hop_of_def\<close>)
    then have 2: "in_order side ?rc"
      using hops_expectation [OF wc cur] g by (auto simp: in_order_def)
    have "matched (hops side rc rid) = matched (butlast (hops side rc rid) @ [(True, b, side (rc_entries rc ! i))])"
      by (subst hop) (simp add: hop_of_def)
    then have "trail side pending ?rc r = trail side pending rc r" for r
      using hops_expectation [OF wc cur, where a = True and b = b and r = r] by (auto simp: trail_def ch)
    with 1 2 show "recorder_inv ?rc \<and> in_order side ?rc
        \<and> (\<forall>rid. prefix (trail side pending rc rid) (trail side pending ?rc rid))" by simp
  qed
  then show ?thesis
    unfolding set_extra_info_expectation_def by (rule extends_trans) (rule extends_reconcile)
qed

lemma extends_settle: "extends rc (settle_extra_info rid rc)"
  by (auto simp: settle_extra_info_def extends_reconcile extends_expectation split: option.splits)

lemma extends_guarded:
  "extends rc (fst (p rc)) \<Longrightarrow> (\<And>rc1. extends rc1 (f rc1)) \<Longrightarrow>
   extends rc (case p rc of (rc1, ok) \<Rightarrow> if \<not> ok then rc1 else f rc1)"
  by (auto split: prod.splits intro: extends_trans)

lemma extends_set_chain:
  assumes "ch_entries c = index_of rc rid" and "prefix (pending (chain_of rc rid)) (pending c)"
  shows "extends rc (set_chain rid c rc)"
proof (rule extends_hops)
  show "recorder_inv rc \<Longrightarrow> recorder_inv (set_chain rid c rc)"
    using settled_inv [OF settled_set_chain] assms(1) by blast
  show "hops side (set_chain rid c rc) r = hops side rc r" for r
    using assms(1) by (simp add: hops_def frame_simps)
  show "prefix (pending (chain_of rc r)) (pending (chain_of (set_chain rid c rc) r))" for r
    using assms(2) by simp
qed

lemma extends_checks:
  assumes "\<And>rc. settled rc (fst (p rc))" and "\<And>rc. store_of (fst (p rc)) = store_of rc"
  shows "extends rc (fst (p rc))"
  by (rule extends_settled [OF assms(1) same_matching_store [OF assms(2)]])

lemma extends_set_entry:
  "same_flags (rc_entries rc ! i) e \<Longrightarrow> settled rc (set_entry i e rc) \<Longrightarrow> extends rc (set_entry i e rc)"
  by (rule extends_settled) (simp_all add: same_matching_set_entry)

lemma extends_ensure_chain: "extends rc (ensure_chain rid rc)"
proof -
  have "rc_entries (ensure_chain rid rc) = rc_entries rc"
    by (simp add: ensure_chain_def frame_simps)
  then have "same_matching rc (ensure_chain rid rc)"
    by (simp add: same_matching_def fun_eq_iff list_all2_same)
  then show ?thesis by (rule extends_settled [OF settled_ensure_chain])
qed

lemma extends_push_request:
  "extends rc (set_chain rid ((chain_of rc rid)\<lparr>ch_pending_request := ch_pending_request (chain_of rc rid) @ xs\<rparr>) rc)"
  using pending_append [where c = "chain_of rc rid" and xs = xs and ys = "[]"]
  by (intro extends_set_chain) (simp_all add: index_of_def)

lemma extends_push_response:
  "extends rc (set_chain rid ((chain_of rc rid)\<lparr>ch_pending_response := ch_pending_response (chain_of rc rid) @ ys\<rparr>) rc)"
  using pending_append [where c = "chain_of rc rid" and xs = "[]" and ys = ys]
  by (intro extends_set_chain) (simp_all add: index_of_def)

lemma extends_request_extra_info: "extends rc (request_extra_info x rc)"
proof -
  let ?rid = "xq_request_id x"
  let ?p = "both (validate_headers [xq_headers x]) (both (validate_request_cookie_headers (xq_headers x))
      (both (validate_cookie_count (length (xq_cookies x))) (reserve (request_extra_retained_bytes x))))"
  let ?push = "\<lambda>rc1. settle_extra_info ?rid (set_chain ?rid
      ((chain_of rc1 ?rid)\<lparr>ch_pending_request := ch_pending_request (chain_of rc1 ?rid) @ [x]\<rparr>) rc1)"
  have "extends rc1 (fst (?p rc1))" for rc1
    by (rule extends_checks) (intro inv_intros, intro both_frame, simp_all add: frame_simps)
  moreover have "extends rc1 (?push rc1)" for rc1
    by (rule extends_trans [OF extends_push_request extends_settle])
  ultimately show ?thesis
    unfolding request_extra_info_def Let_def
    by (intro extends_trans [OF extends_ensure_chain [of _ ?rid] extends_guarded])
qed

lemma extends_response_extra_info: "extends rc (response_extra_info x rc)"
proof -
  let ?rid = "xs_request_id x"
  let ?p = "both (validate_headers [xs_headers x]) (reserve (response_extra_retained_bytes x))"
  let ?push = "\<lambda>rc1. settle_extra_info ?rid (set_chain ?rid
      ((chain_of rc1 ?rid)\<lparr>ch_pending_response := ch_pending_response (chain_of rc1 ?rid) @ [x]\<rparr>) rc1)"
  have "extends rc1 (fst (?p rc1))" for rc1
    by (rule extends_checks) (intro inv_intros, intro both_frame, simp_all add: frame_simps)
  moreover have "extends rc1 (?push rc1)" for rc1
    by (rule extends_trans [OF extends_push_response extends_settle])
  ultimately show ?thesis
    unfolding response_extra_info_def Let_def
    by (intro extends_trans [OF extends_ensure_chain [of _ ?rid] extends_guarded])
qed

lemma extends_validate_response: "extends rc (fst (validate_response r rc))"
  by (rule extends_checks [OF settled_validate_response validate_response_store])

lemma extends_entry_expectation:
  assumes "same_flags (rc_entries rc ! i) e" and "settled rc (set_entry i e rc)" and "current_entry rc rid = Some i"
  shows "extends rc (set_extra_info_expectation rid i b (set_entry i e rc))"
proof -
  have "current_entry (set_entry i e rc) rid = Some i"
    using steady_current [OF settled_steady [OF assms(2)]] assms(3) by simp
  then show ?thesis
    using extends_trans [OF extends_set_entry [OF assms(1,2)] extends_expectation] by simp
qed

text \<open>The checks leave the current entry where it is.\<close>

lemma current_checked: "settled rc rc1 \<Longrightarrow> current_entry rc rid = Some i \<Longrightarrow> current_entry rc1 rid = Some i"
  using steady_current [OF settled_steady] by metis

lemma extends_response_received: "extends rc (response_received ev rc)"
proof (cases "rr_response ev")
  case None
  then show ?thesis by (simp add: response_received_def)
next
  case (Some r)
  show ?thesis
  proof (cases "current_entry rc (rr_request_id ev)")
    case None
    with Some show ?thesis by (simp add: response_received_def)
  next
    case cur: (Some i)
    obtain rc1 ok where 1: "validate_response r rc = (rc1, ok)" by fastforce
    have st: "settled rc rc1" and ext: "extends rc rc1"
      using settled_validate_response [of rc r] extends_validate_response [of rc r] 1 by simp_all
    note entry = extends_entry_expectation [OF _ settled_set_entry current_checked [OF st cur]]
    show ?thesis
      unfolding response_received_def Some cur option.case 1 prod.case Let_def
      using ext by (auto intro!: extends_trans [OF ext entry] simp: same_flags_def frame_simps)
  qed
qed

lemma extends_close_redirected: "extends rc (fst (close_redirected rid r hx t inc rc))"
proof (cases "current_entry rc rid")
  case None
  then show ?thesis by (simp add: close_redirected_def)
next
  case (Some i)
  obtain rc1 ok where 1: "(if e_response (rc_entries rc ! i) = None then validate_response r rc else (rc, True)) = (rc1, ok)"
    by fastforce
  have st: "settled rc rc1" and ext: "extends rc rc1"
    using 1 settled_validate_response [of rc r] extends_validate_response [of rc r] by (auto split: if_splits)
  note entry = extends_entry_expectation [OF _ settled_set_entry current_checked [OF st Some]]
  show ?thesis
    unfolding close_redirected_def Some option.case 1 prod.case Let_def
    using ext by (auto intro!: extends_trans [OF ext entry] simp: same_flags_def)
qed

lemma extends_update_current:
  assumes "\<And>e. same_flags e (f e)"
    and "\<And>e. e_request_id (f e) = e_request_id e \<and> birth (f e) = birth e
        \<and> (e_body_fetch_scheduled e \<longrightarrow> e_body_fetch_scheduled (f e))"
  shows "extends rc (update_current rid f rc)"
  using assms by (auto simp: update_current_def split: option.splits intro!: extends_set_entry settled_set_entry)

lemma extends_record_failure: "current_entry rc rid = Some i \<Longrightarrow> extends rc (record_failure rid i failure rc)"
  by (auto simp: record_failure_def Let_def same_flags_def
      intro!: extends_entry_expectation extends_set_entry settled_set_entry)

lemma extends_loading_failed: "extends rc (loading_failed rid ts text reason rc)"
proof (cases "current_entry rc rid")
  case None
  then show ?thesis by (simp add: loading_failed_def)
next
  case (Some i)
  define failure where "failure = (if trim_space text = [] then reason else trim_space text)"
  let ?rc = "set_entry i (mark_failed ts (rc_entries rc ! i)) rc"
  have st: "settled rc ?rc" by (rule settled_set_entry) (simp_all add: frame_simps)
  have "same_flags e (mark_failed ts e)" for e
    by (simp add: same_flags_def mark_failed_def frame_simps)
  then have ext: "extends rc ?rc" by (rule extends_set_entry [OF _ st])
  obtain rc1 ok where 1: "reserve (json_string_retained_bytes failure + derived_item_overhead) ?rc = (rc1, ok)"
    by fastforce
  have st1: "settled ?rc rc1"
    using settled_reserve [of ?rc] 1 by (metis fst_conv)
  have "store_of rc1 = store_of ?rc" using reserve_store [of _ ?rc] 1 by (metis fst_conv)
  then have ext1: "extends rc rc1"
    using extends_trans [OF ext extends_settled [OF st1 same_matching_store]] by simp
  have "current_entry rc1 rid = Some i"
    using current_checked [OF settled_trans [OF st st1] Some] .
  then have "extends rc (record_failure rid i failure rc1)"
    by (rule extends_trans [OF ext1 extends_record_failure])
  with ext1 show ?thesis
    unfolding loading_failed_def Some option.case Let_def failure_def [symmetric] 1 prod.case by simp
qed

lemma extends_ready_tasks: "extends rc (fst (ready_body_fetch_tasks rid inc rc))"
proof (cases "recorder_inv rc")
  case True
  obtain rc' out where eq: "ready_body_fetch_tasks rid inc rc = (rc', out)" by fastforce
  have st: "settled rc rc'" using ready_tasks_ok [OF True eq] by simp
  obtain es tasks where loop: "body_fetch_loop rid (index_of rc rid) (rc_entries rc) = (es, tasks)"
    by fastforce
  have flags: "list_all2 same_flags es0 (fst (body_fetch_loop rid js es0))" for js es0
  proof (induction js arbitrary: es0)
    case Nil
    then show ?case by (simp add: list_all2_same)
  next
    case (Cons j js)
    let ?es = "es0[j := (es0 ! j)\<lparr>e_body_fetch_scheduled := True\<rparr>]"
    have "list_all2 same_flags es0 ?es"
      by (cases "j < length es0")
        (auto simp: list_all2_conv_all_nth nth_list_update same_flags_def list_update_beyond)
    then have "list_all2 same_flags es0 (fst (body_fetch_loop rid js ?es))"
      by (rule flags_trans [OF _ Cons.IH [of ?es]])
    then show ?case using Cons.IH [of es0] by (auto simp: Let_def split: prod.splits)
  qed
  have "same_matching rc rc'"
    using eq flags [of "rc_entries rc" "index_of rc rid"] loop
    by (auto simp: ready_body_fetch_tasks_def same_matching_def index_of_def chain_of_def [abs_def]
        list_all2_same split: if_splits prod.splits)
  with st show ?thesis using eq by (simp add: extends_settled)
qed (simp add: extends_def)

lemma extends_adopt: "extends rc (adopt_frozen_extras rid rc)"
proof (rule extends_hops)
  show "recorder_inv rc \<Longrightarrow> recorder_inv (adopt_frozen_extras rid rc)" by (rule adopt_inv)
  have idx: "index_of (adopt_frozen_extras rid rc) = index_of rc" if "recorder_inv rc"
    using steady_index [OF adopt_inv(2) [OF that]] .
  show "hops side (adopt_frozen_extras rid rc) r = hops side rc r" if "recorder_inv rc" for r
    unfolding hops_def idx [OF that] by (simp add: adopt_frozen_extras_def Let_def frame_simps)
  show "prefix (pending (chain_of rc r)) (pending (chain_of (adopt_frozen_extras rid rc) r))" for r
    using pending_append by (simp add: adopt_frozen_extras_def Let_def chain_of_def [abs_def] set_chain_def
        update_conv' split: option.splits)
qed

lemma extends_orphans:
  assumes "recorder_inv rc \<Longrightarrow> recorder_inv rc'" and "store_of rc' = store_of rc"
  shows "extends rc rc'"
  by (rule extends_same [OF assms(1) same_matching_store [OF assms(2)]])

lemma checks_store:
  "(\<And>rc. store_of (fst (p rc)) = store_of rc) \<Longrightarrow> p rc = (rc1, ok) \<Longrightarrow> store_of rc1 = store_of rc"
  by (metis fst_conv)

lemma extends_queue_request: "extends rc (queue_frozen_request_extra x rc)"
proof (rule extends_orphans)
  show "recorder_inv rc \<Longrightarrow> recorder_inv (queue_frozen_request_extra x rc)" by (rule queue_request_inv)
  let ?p = "both (validate_headers [xq_headers x]) (both (validate_request_cookie_headers (xq_headers x))
      (both (validate_cookie_count (length (xq_cookies x))) (reserve (request_extra_retained_bytes x))))"
  obtain rc1 ok where 1: "?p rc = (rc1, ok)" by fastforce
  have "store_of (fst (?p rc)) = store_of rc" by (intro both_frame) (simp_all add: frame_simps)
  then show "store_of (queue_frozen_request_extra x rc) = store_of rc"
    unfolding queue_frozen_request_extra_def 1 prod.case by (simp add: store_of_def)
qed

lemma extends_queue_response: "extends rc (queue_frozen_response_extra x rc)"
proof (rule extends_orphans)
  show "recorder_inv rc \<Longrightarrow> recorder_inv (queue_frozen_response_extra x rc)" by (rule queue_response_inv)
  let ?p = "both (validate_headers [xs_headers x]) (reserve (response_extra_retained_bytes x))"
  obtain rc1 ok where 1: "?p rc = (rc1, ok)" by fastforce
  have "store_of (fst (?p rc)) = store_of rc" by (intro both_frame) (simp_all add: frame_simps)
  then show "store_of (queue_frozen_response_extra x rc) = store_of rc"
    unfolding queue_frozen_response_extra_def 1 prod.case by (simp add: store_of_def)
qed

lemma extends_append_request: "extends rc (append_request ev q rc)"
proof (rule append_request_cases [of rc ev q])
  assume "settled rc (append_request ev q rc)" and "store_of (append_request ev q rc) = store_of rc"
  then show ?thesis by (intro extends_settled same_matching_store)
next
  fix rc2 e
  let ?rid = "ws_request_id ev" and ?rc' = "append_request ev q rc"
  assume *: "settled rc rc2" "store_of rc2 = store_of rc"
    and e: "\<not> e_extra_known e" "e_request_extra e = None" "e_response_extra e = None"
    and es: "rc_entries ?rc' = rc_entries rc2 @ [e]"
    and chains: "rc_chains ?rc' = rc_chains (push_entry ?rid e rc2)"
  have ext: "extends rc rc2" by (rule extends_settled [OF *(1) same_matching_store [OF *(2)]])
  have ch: "chain_of ?rc' = chain_of (push_entry ?rid e rc2)"
    by (simp add: chain_of_def [abs_def] chains)
  then have idx: "index_of ?rc' = (index_of rc2)(?rid := index_of rc2 ?rid @ [length (rc_entries rc2)])"
    by (simp add: index_of_def [abs_def] index_push_entry [unfolded index_of_def [abs_def]])
  have side: "side e = None" using side_new e by blast
  have step: "in_order side ?rc' \<and> trail side pending ?rc' r = trail side pending rc2 r"
    if a: "recorder_inv rc2" "in_order side rc2" for r
  proof -
    from a have wc: "well_chained rc2" by (simp add: recorder_inv_def)
    have old: "map (\<lambda>i. hop_of side (rc_entries ?rc' ! i)) (index_of rc2 r) = hops side rc2 r" for r
      unfolding hops_def es using well_chained_index(2) [OF wc, of _ r] by (simp add: nth_append)
    have hops': "hops side ?rc' r =
        (if r = ?rid then hops side rc2 r @ [(False, e_extra_expected e, None)] else hops side rc2 r)" for r
      using old [of r] e side by (simp add: hops_def idx es hop_of_def)
    have pend: "pending (chain_of ?rc' r) = pending (chain_of rc2 r)" for r
    proof -
      have "chain_of (push_entry ?rid e rc2) r = (if r = ?rid
          then (chain_of rc2 ?rid)\<lparr>ch_entries := ch_entries (chain_of rc2 ?rid) @ [length (rc_entries rc2)]\<rparr>
          else chain_of rc2 r)"
        by (simp add: push_entry_def index_of_def chain_of_def [abs_def] set_chain_def update_conv')
      then show ?thesis by (simp add: ch pending_entries)
    qed
    have "gapless (hops side ?rc' r)" for r
      using a(2) by (simp add: hops' in_order_def gapless_append_None)
    then show ?thesis
      by (simp add: in_order_def trail_def hops' pend)
  qed
  show ?thesis
    unfolding extends_def
  proof (intro impI)
    assume a: "recorder_inv rc \<and> in_order side rc"
    then have 2: "recorder_inv rc2" "in_order side rc2"
      "\<forall>rid. prefix (trail side pending rc rid) (trail side pending rc2 rid)"
      using ext by (simp_all add: extends_def)
    then show "recorder_inv ?rc' \<and> in_order side ?rc'
        \<and> (\<forall>rid. prefix (trail side pending rc rid) (trail side pending ?rc' rid))"
      using append_request_inv(1) a step by simp
  qed
qed

lemma extends_request_will_be_sent: "extends rc (request_will_be_sent ev inc rc)"
proof (cases "ws_request ev")
  case None
  then show ?thesis by (simp add: request_will_be_sent_def)
next
  case (Some q)
  define rid where "rid = ws_request_id ev"
  define rc1 where "rc1 = ensure_chain rid (rc\<lparr>rc_post_cutoff := rc_post_cutoff rc - {rid}\<rparr>)"
  define rc2 where "rc2 = (if ch_entries (chain_of rc1 rid) = [] then adopt_frozen_extras rid rc1 else rc1)"
  have "extends rc (rc\<lparr>rc_post_cutoff := rc_post_cutoff rc - {rid}\<rparr>)"
    by (rule extends_settled [OF settled_post_cutoff same_matching_store]) (simp add: store_of_def)
  then have 1: "extends rc rc1"
    unfolding rc1_def by (rule extends_trans) (rule extends_ensure_chain)
  then have 2: "extends rc rc2"
    unfolding rc2_def using extends_trans [OF 1 extends_adopt] by simp
  obtain rc3 ok where 3: "(case ws_redirect_response ev of None \<Rightarrow> (rc2, True)
      | Some r \<Rightarrow> close_redirected rid r (ws_redirect_has_extra ev) (monotonic_time (ws_timestamp ev)) inc rc2) = (rc3, ok)"
    by fastforce
  have "extends rc2 rc3"
    using 3 extends_close_redirected [of rc2 rid] by (auto split: option.splits) (metis fst_conv)
  then have e3: "extends rc rc3" by (rule extends_trans [OF 2])
  have eq: "request_will_be_sent ev inc rc =
      (if \<not> is_http_url (rq_url q) then rc
       else if ch_entries (chain_of rc1 rid) \<noteq> [] \<and> ws_redirect_response ev = None then rc1
       else if \<not> ok then rc3 else append_request ev q rc3)"
    unfolding request_will_be_sent_def Some option.case Let_def rid_def [symmetric] rc1_def [symmetric]
      rc2_def [symmetric] 3 prod.case by simp
  show ?thesis
    unfolding eq using 1 e3 extends_trans [OF e3 extends_append_request] by simp
qed

lemma extends_marks:
  "extends rc (update_current rid (data_received ts n m) rc)"
  "extends rc (update_current rid (loading_finished ts b) rc)"
  "extends rc (update_current rid (\<lambda>e. e\<lparr>e_served_from_cache := True\<rparr>) rc)"
  "extends rc (rc\<lparr>rc_dom_content := d\<rparr>)" "extends rc (rc\<lparr>rc_load := d\<rparr>)"
  "extends rc (rc\<lparr>rc_post_cutoff := p\<rparr>)"
proof -
  show "extends rc (update_current rid (data_received ts n m) rc)"
    "extends rc (update_current rid (loading_finished ts b) rc)"
    "extends rc (update_current rid (\<lambda>e. e\<lparr>e_served_from_cache := True\<rparr>) rc)"
    by (rule extends_update_current;
        simp add: same_flags_def data_received_def loading_finished_def Let_def frame_simps)+
  show "extends rc (rc\<lparr>rc_dom_content := d\<rparr>)" "extends rc (rc\<lparr>rc_load := d\<rparr>)"
    by (rule extends_settled [OF settled_marks(1)], rule same_matching_store, simp add: store_of_def)
      (rule extends_settled [OF settled_marks(2)], rule same_matching_store, simp add: store_of_def)
  show "extends rc (rc\<lparr>rc_post_cutoff := p\<rparr>)"
    by (rule extends_settled [OF settled_post_cutoff same_matching_store]) (simp add: store_of_def)
qed

lemma extends_ready: "extends rc rc1 \<Longrightarrow> extends rc (fst (ready_body_fetch_tasks rid inc rc1))"
  by (rule extends_trans [OF _ extends_ready_tasks])

lemmas extends_handlers = extends_marks extends_ready extends_request_will_be_sent extends_request_extra_info
  extends_response_extra_info extends_response_received extends_loading_failed extends_queue_request
  extends_queue_response

lemma extends_apply_event: "extends rc (fst (apply_event inc rc ev))"
  by (cases ev) (simp_all add: extends_handlers)

lemma extends_frozen_event: "extends rc (fst (frozen_event inc rc ev))"
  using extends_apply_event by (cases ev) (simp_all add: extends_handlers)

lemma extends_handle_event: "extends rc (fst (handle_event inc rc ev))"
  by (simp add: handle_event_def extends_apply_event extends_frozen_event)

lemma extends_handle_buffered_event: "extends rc (fst (handle_buffered_event inc rc ev))"
  using extends_handle_event by (cases ev) (simp_all add: handle_buffered_event_def extends_handlers)

lemma extends_run:
  assumes "\<And>rc ev. extends rc (fst (step rc ev))"
  shows "extends rc (fst (run_events step rc evs))"
proof (induction evs arbitrary: rc)
  case Nil
  then show ?case by simp
next
  case (Cons ev evs)
  show ?case
    using extends_trans [OF assms [of rc ev] Cons.IH [of "fst (step rc ev)"]] by (simp add: case_prod_beta)
qed

end

section \<open>The two sides of the recorder\<close>

text \<open>
  Both reconciliation loops are instances of one loop, which reads the event of an entry with
  \<open>side\<close> and writes it with \<open>put\<close>; on the hops it is \<open>match_hops\<close>.
\<close>

fun reconcile_by :: "(captured_entry \<Rightarrow> 'x option) \<Rightarrow> ('x \<Rightarrow> captured_entry \<Rightarrow> captured_entry) \<Rightarrow>
    nat list \<Rightarrow> captured_entry list \<Rightarrow> 'x list \<Rightarrow> captured_entry list \<times> 'x list" where
  "reconcile_by side put [] es q = (es, q)"
| "reconcile_by side put (i # is) es q =
     (if \<not> e_extra_known (es ! i) then (es, q)
      else if \<not> e_extra_expected (es ! i) \<or> side (es ! i) \<noteq> None then reconcile_by side put is es q
      else (case q of [] \<Rightarrow> (es, q) | x # xs \<Rightarrow> reconcile_by side put is (es[i := put x (es ! i)]) xs))"

lemma reconcile_requests_by:
  "reconcile_requests is es q = reconcile_by e_request_extra (\<lambda>x e. e\<lparr>e_request_extra := Some x\<rparr>) is es q"
  by (induction "is" es q rule: reconcile_requests.induct) (simp add: Let_def split: list.split)+

lemma reconcile_responses_by:
  "reconcile_responses is es q = reconcile_by e_response_extra (\<lambda>x e. e\<lparr>e_response_extra := Some x\<rparr>) is es q"
  by (induction "is" es q rule: reconcile_responses.induct) (simp add: Let_def split: list.split)+

text \<open>The loop writes only what \<open>put\<close> writes, and only entries of its chain.\<close>

lemma reconcile_by_keeps:
  assumes "\<And>x e. f (put x e) = f e"
  shows "map f (fst (reconcile_by side put js es q)) = map f es"
proof (induction js arbitrary: es q)
  case Nil
  then show ?case by simp
next
  case (Cons i js)
  have "map f (es[i := put x (es ! i)]) = map f es" for x
    by (cases "i < length es") (simp_all add: map_update assms list_update_beyond list_update_same_conv)
  then show ?case by (simp add: Cons.IH split: list.split)
qed

lemma reconcile_by_outside: "k \<notin> set is \<Longrightarrow> fst (reconcile_by side put is es q) ! k = es ! k"
  by (induction "is" arbitrary: es q) (auto split: list.split)

lemma reconcile_by_hops:
  assumes put: "\<And>x e. hop_of side (put x e) = (e_extra_known e, e_extra_expected e, Some x)"
  shows "distinct is \<Longrightarrow> \<forall>i \<in> set is. i < length es \<Longrightarrow> reconcile_by side put is es q = (es', q') \<Longrightarrow>
    match_hops (map (\<lambda>i. hop_of side (es ! i)) is) q = (map (\<lambda>i. hop_of side (es' ! i)) is, q')"
proof (induction "is" arbitrary: es q)
  case Nil
  then show ?case by simp
next
  case (Cons i js)
  let ?e = "es ! i"
  consider "\<not> e_extra_known ?e" | "e_extra_known ?e" "\<not> e_extra_expected ?e \<or> side ?e \<noteq> None"
    | "e_extra_known ?e" "e_extra_expected ?e" "side ?e = None" "q = []"
    | x xs where "e_extra_known ?e" "e_extra_expected ?e" "side ?e = None" "q = x # xs"
    by (cases q) auto
  then show ?case
  proof cases
    case 1
    with Cons.prems show ?thesis by (simp add: hop_of_def)
  next
    case 2
    with Cons.prems have r: "reconcile_by side put js es q = (es', q')" by simp
    then have "es' ! i = ?e" using reconcile_by_outside [of i js side put es q] Cons.prems(1) by simp
    moreover have "match_hops (map (\<lambda>i. hop_of side (es ! i)) js) q = (map (\<lambda>i. hop_of side (es' ! i)) js, q')"
      using Cons.IH r Cons.prems(1,2) by simp
    ultimately show ?thesis using 2 by (simp add: hop_of_def)
  next
    case 3
    with Cons.prems show ?thesis by (simp add: hop_of_def)
  next
    case 4
    let ?es = "es[i := put x ?e]"
    have i: "i < length es" "i \<notin> set js" using Cons.prems(1,2) by simp_all
    from 4 Cons.prems have r: "reconcile_by side put js ?es xs = (es', q')" by simp
    then have "es' ! i = put x ?e" using reconcile_by_outside [of i js side put ?es xs] i by simp
    moreover have "match_hops (map (\<lambda>i. hop_of side (?es ! i)) js) xs = (map (\<lambda>i. hop_of side (es' ! i)) js, q')"
      using Cons.IH [OF _ _ r] Cons.prems(1,2) by simp
    moreover have "map (\<lambda>j. hop_of side (?es ! j)) js = map (\<lambda>j. hop_of side (es ! j)) js"
    proof (rule map_cong [OF refl])
      fix j assume "j \<in> set js"
      with i(2) have "i \<noteq> j" by blast
      then show "hop_of side (?es ! j) = hop_of side (es ! j)" by simp
    qed
    ultimately show ?thesis using 4 by (simp add: hop_of_def [of side ?e] put)
  qed
qed

text \<open>\<open>reconcileExtraInfo\<close> on the hops and queues of both sides of every request ID.\<close>

lemma reconcile_by_both:
  assumes wc: "well_chained rc" and c: "map_of (rc_chains rc) rid = Some c"
    and 1: "reconcile_requests (ch_entries c) (rc_entries rc) (ch_pending_request c) = (es, preq)"
    and 2: "reconcile_responses (ch_entries c) es (ch_pending_response c) = (es', pres)"
  shows "hops e_request_extra (reconcile_extra_info rid rc) r =
      (if r = rid then fst (match_hops (hops e_request_extra rc rid) (ch_pending_request c)) else hops e_request_extra rc r)"
    and "hops e_response_extra (reconcile_extra_info rid rc) r =
      (if r = rid then fst (match_hops (hops e_response_extra rc rid) (ch_pending_response c)) else hops e_response_extra rc r)"
    and "preq = snd (match_hops (hops e_request_extra rc rid) (ch_pending_request c))"
    and "pres = snd (match_hops (hops e_response_extra rc rid) (ch_pending_response c))"
    and "chain_of (reconcile_extra_info rid rc) r =
      (if r = rid then c\<lparr>ch_pending_request := preq, ch_pending_response := pres\<rparr> else chain_of rc r)"
proof -
  let ?rc = "reconcile_extra_info rid rc"
  have rc': "?rc = set_chain rid (c\<lparr>ch_pending_request := preq, ch_pending_response := pres\<rparr>) (rc\<lparr>rc_entries := es'\<rparr>)"
    by (simp add: reconcile_extra_info_def c 1 2)
  show ch: "chain_of ?rc r = (if r = rid then c\<lparr>ch_pending_request := preq, ch_pending_response := pres\<rparr> else chain_of rc r)" for r
    unfolding rc' by (simp add: set_chain_def chain_of_def update_conv')
  have idc: "index_of rc rid = ch_entries c" by (simp add: index_of_def chain_of_def c)
  have idx: "index_of ?rc r = index_of rc r" for r
    using idc by (simp add: index_of_chain ch)
  have ent: "rc_entries ?rc = es'" unfolding rc' by (simp add: set_chain_def)
  have d: "distinct (ch_entries c)" "\<forall>i \<in> set (ch_entries c). i < length (rc_entries rc)"
    using well_chained_index(1) [OF wc, of rid] well_chained_index(2) [OF wc, of _ rid] idc by auto
  note r1 = 1 [unfolded reconcile_requests_by] and r2 = 2 [unfolded reconcile_responses_by]
  let ?f = "\<lambda>e. (e_extra_known e, e_extra_expected e)"
  have m1: "map (hop_of e_response_extra) es = map (hop_of e_response_extra) (rc_entries rc)"
    using reconcile_by_keeps [where f = "hop_of e_response_extra" and js = "ch_entries c" and es = "rc_entries rc"
        and q = "ch_pending_request c" and put = "\<lambda>x e. e\<lparr>e_request_extra := Some x\<rparr>" and side = e_request_extra]
    by (simp add: r1 hop_of_def)
  have m2: "map (hop_of e_request_extra) es' = map (hop_of e_request_extra) es"
    using reconcile_by_keeps [where f = "hop_of e_request_extra" and js = "ch_entries c" and es = es
        and q = "ch_pending_response c" and put = "\<lambda>x e. e\<lparr>e_response_extra := Some x\<rparr>" and side = e_response_extra]
    by (simp add: r2 hop_of_def)
  have len: "length es = length (rc_entries rc)" "length es' = length es"
    using arg_cong [OF m1, of length] arg_cong [OF m2, of length] by simp_all
  have h1: "hop_of e_response_extra (es ! i) = hop_of e_response_extra (rc_entries rc ! i)"
    "hop_of e_request_extra (es' ! i) = hop_of e_request_extra (es ! i)" if "i < length (rc_entries rc)" for i
    using arg_cong [OF m1, of "\<lambda>l. l ! i"] arg_cong [OF m2, of "\<lambda>l. l ! i"] that len by simp_all
  have q1: "match_hops (hops e_request_extra rc rid) (ch_pending_request c) =
      (map (\<lambda>i. hop_of e_request_extra (es ! i)) (ch_entries c), preq)"
    using reconcile_by_hops [OF _ d r1] by (simp add: hop_of_def hops_def idc)
  have q2: "match_hops (map (\<lambda>i. hop_of e_response_extra (es ! i)) (ch_entries c)) (ch_pending_response c) =
      (map (\<lambda>i. hop_of e_response_extra (es' ! i)) (ch_entries c), pres)"
    using reconcile_by_hops [OF _ d(1) _ r2] d(2) len by (simp add: hop_of_def)
  have s1: "map (\<lambda>i. hop_of e_response_extra (es ! i)) (ch_entries c) = hops e_response_extra rc rid"
    unfolding hops_def idc using d(2) h1 by (intro map_cong refl) simp
  have s2: "map (\<lambda>i. hop_of e_request_extra (es' ! i)) (ch_entries c) =
      map (\<lambda>i. hop_of e_request_extra (es ! i)) (ch_entries c)"
    using d(2) h1 by (intro map_cong refl) simp
  have out: "es' ! i = rc_entries rc ! i" if "i \<in> set (index_of rc r)" "r \<noteq> rid" for i r
  proof -
    have "i \<notin> set (ch_entries c)"
      using well_chained_index(3) [OF wc] that idc by metis
    then show ?thesis
      using reconcile_by_outside [of i "ch_entries c" e_request_extra _ "rc_entries rc" "ch_pending_request c"]
        reconcile_by_outside [of i "ch_entries c" e_response_extra _ es "ch_pending_response c"] r1 r2
      by (metis fst_conv)
  qed
  show "hops e_request_extra ?rc r =
      (if r = rid then fst (match_hops (hops e_request_extra rc rid) (ch_pending_request c)) else hops e_request_extra rc r)"
    using q1 s2 out by (auto simp: hops_def idx ent idc)
  show "hops e_response_extra ?rc r =
      (if r = rid then fst (match_hops (hops e_response_extra rc rid) (ch_pending_response c)) else hops e_response_extra rc r)"
    using q2 s1 out by (auto simp: hops_def idx ent idc)
  show "preq = snd (match_hops (hops e_request_extra rc rid) (ch_pending_request c))" using q1 by simp
  show "pres = snd (match_hops (hops e_response_extra rc rid) (ch_pending_response c))" using q2 s1 by simp
qed

lemma reconcile_sides:
  assumes "well_chained rc" and "map_of (rc_chains rc) rid \<noteq> None"
  shows "(hops e_request_extra (reconcile_extra_info rid rc) r, ch_pending_request (chain_of (reconcile_extra_info rid rc) r)) =
      (if r = rid then match_hops (hops e_request_extra rc rid) (ch_pending_request (chain_of rc rid))
       else (hops e_request_extra rc r, ch_pending_request (chain_of rc r)))"
    and "(hops e_response_extra (reconcile_extra_info rid rc) r, ch_pending_response (chain_of (reconcile_extra_info rid rc) r)) =
      (if r = rid then match_hops (hops e_response_extra rc rid) (ch_pending_response (chain_of rc rid))
       else (hops e_response_extra rc r, ch_pending_response (chain_of rc r)))"
proof -
  obtain c where c: "map_of (rc_chains rc) rid = Some c" using assms(2) by blast
  obtain es preq where 1: "reconcile_requests (ch_entries c) (rc_entries rc) (ch_pending_request c) = (es, preq)"
    by fastforce
  obtain es' pres where 2: "reconcile_responses (ch_entries c) es (ch_pending_response c) = (es', pres)"
    by fastforce
  note b = reconcile_by_both [OF assms(1) c 1 2]
  have ch: "chain_of rc rid = c" by (simp add: chain_of_def c)
  show "(hops e_request_extra (reconcile_extra_info rid rc) r, ch_pending_request (chain_of (reconcile_extra_info rid rc) r)) =
      (if r = rid then match_hops (hops e_request_extra rc rid) (ch_pending_request (chain_of rc rid))
       else (hops e_request_extra rc r, ch_pending_request (chain_of rc r)))"
    unfolding b(1,5) ch using b(3) by simp
  show "(hops e_response_extra (reconcile_extra_info rid rc) r, ch_pending_response (chain_of (reconcile_extra_info rid rc) r)) =
      (if r = rid then match_hops (hops e_response_extra rc rid) (ch_pending_response (chain_of rc rid))
       else (hops e_response_extra rc r, ch_pending_response (chain_of rc r)))"
    unfolding b(2,5) ch using b(4) by simp
qed

interpretation request_side: extra_side e_request_extra ch_pending_request
  by unfold_locales (simp_all add: same_flags_def reconcile_sides(1) del: prod.inject)

interpretation response_side: extra_side e_response_extra ch_pending_response
  by unfold_locales (simp_all add: same_flags_def reconcile_sides(2) del: prod.inject)

end
