(* ===== verification/Recorder_Props.thy ===== *)
theory Recorder_Props
  imports Recorder_Order
begin

text \<open>
  The event handler of the recorder as an event machine: interpretations of the interfaces of
  \<open>Prelude\<close> on \<open>handle_event\<close>, and the properties of whole event sequences that follow.
\<close>

section \<open>The handler as a machine\<close>

interpretation events: once_machine "handle_event inc" recorder_inv snd scheduled for inc
proof
  fix rc :: recorder and ev :: cdp_event and i :: nat and out :: fetch_task
  assume inv: "recorder_inv rc"
  note ok = handle_event_ok [OF inv, of inc ev, unfolded step_ok_def advances_def tasks_fresh_def]
  show "recorder_inv (fst (handle_event inc rc ev))" using ok by blast
  show "scheduled rc i \<Longrightarrow> scheduled (fst (handle_event inc rc ev)) i" using ok by blast
  show "distinct (map snd (snd (handle_event inc rc ev)))" using ok by blast
  assume "out \<in> set (snd (handle_event inc rc ev))"
  then show "\<not> scheduled rc (snd out)" and "scheduled (fst (handle_event inc rc ev)) (snd out)"
    using ok by (auto simp: case_prod_beta)
qed

interpretation buffered: event_machine "handle_buffered_event inc" recorder_inv for inc
  by unfold_locales (use handle_buffered_event_ok in \<open>auto simp: step_ok_def\<close>)

lemma new_recorder_inv: "recorder_inv (new_recorder target start)"
  by (simp add: new_recorder_def reserve_def Let_def recorder_inv_def budget_ok_def well_chained_def numbered_def
      orphans_counted_def index_of_def chain_of_def empty_chain_def keys_of_def default_max_retained_bytes_def
      max_frozen_orphan_extras_def)

lemma new_recorder_in_order: "in_order side (new_recorder target start)"
  by (simp add: new_recorder_def reserve_def Let_def in_order_def hops_def index_of_def chain_of_def empty_chain_def)

lemma handle_event_stopped: "rc_limit_err rc \<noteq> None \<Longrightarrow> handle_event inc rc ev = (rc, [])"
  by (simp add: handle_event_def)

lemma run_advances: "recorder_inv rc \<Longrightarrow> advances rc (fst (run_events (handle_event inc) rc evs))"
proof (induction evs arbitrary: rc)
  case Nil
  then show ?case by simp
next
  case (Cons ev evs)
  have "step_ok rc (handle_event inc rc ev)" using Cons.prems by (rule handle_event_ok)
  then have "recorder_inv (fst (handle_event inc rc ev))" and "advances rc (fst (handle_event inc rc ev))"
    by (simp_all add: step_ok_def)
  with Cons.IH have "advances rc (fst (run_events (handle_event inc) (fst (handle_event inc rc ev)) evs))"
    using advances_trans by blast
  then show ?case by (simp add: case_prod_beta)
qed

lemma run_budget:
  "rc_max_entries (fst (run_events (handle_event inc) (new_recorder target start) evs)) = default_max_entries"
  "rc_max_bytes (fst (run_events (handle_event inc) (new_recorder target start) evs)) = default_max_retained_bytes"
  using run_advances [OF new_recorder_inv, where inc = inc and evs = evs]
  by (simp_all add: advances_def new_recorder_def reserve_def Let_def)

section \<open>A sample capture\<close>

text \<open>One request, its supplemental event and its response; the instances below run on it.\<close>

definition sample_request :: cdp_event where
  "sample_request = RequestWillBeSent
     \<lparr>ws_request_id = ''7'', ws_request = Some \<lparr>rq_url = ''https://a.b/c?x=1'', rq_method = ''GET'', rq_headers = [],
        rq_has_post = False, rq_post_entries = []\<rparr>,
      ws_timestamp = Some 5, ws_wall_time = Some 6, ws_initiator = None, ws_redirect_has_extra = False,
      ws_redirect_response = None, ws_type = ''Document''\<rparr>"

definition sample_extra :: request_extra where
  "sample_extra = \<lparr>xq_request_id = ''7'', xq_cookies = [], xq_headers = [(''Accept'', HText ''x'')]\<rparr>"

definition sample_response_extra :: response_extra where
  "sample_response_extra = \<lparr>xs_request_id = ''7'', xs_headers = [], xs_status = 200, xs_headers_text = []\<rparr>"

definition sample_response :: cdp_event where
  "sample_response = ResponseReceived
     \<lparr>rr_request_id = ''7'', rr_timestamp = Some 7, rr_type = ''Document'',
      rr_response = Some \<lparr>rs_url = ''https://a.b/c?x=1'', rs_status = 200, rs_status_text = ''OK'', rs_headers = [],
        rs_mime = ''text/html'', rs_request_headers = [], rs_connection_id = 0, rs_remote_ip = [],
        rs_from_disk_cache = False, rs_from_prefetch_cache = False, rs_encoded_data_length = 0,
        rs_timing = None, rs_protocol = ''h2''\<rparr>,
      rr_has_extra = True\<rparr>"

definition sample_events :: "cdp_event list" where
  "sample_events = [sample_request, RequestWillBeSentExtraInfo sample_extra, sample_response,
     ResponseReceivedExtraInfo sample_response_extra]"

definition sample_capture :: recorder where
  "sample_capture = fst (run_events (handle_event True) (new_recorder ''https://a.b/'' 1) sample_events)"

lemma sample_inv: "recorder_inv sample_capture"
  unfolding sample_capture_def by (rule events.run_inv [OF new_recorder_inv])

lemma sample_in_order:
  "in_order e_request_extra sample_capture" "in_order e_response_extra sample_capture"
proof -
  have "request_side.extends (new_recorder ''https://a.b/'' 1) sample_capture"
    unfolding sample_capture_def by (rule request_side.extends_run) (rule request_side.extends_handle_event)
  moreover have "response_side.extends (new_recorder ''https://a.b/'' 1) sample_capture"
    unfolding sample_capture_def by (rule response_side.extends_run) (rule response_side.extends_handle_event)
  ultimately show "in_order e_request_extra sample_capture" "in_order e_response_extra sample_capture"
    by (simp_all add: request_side.extends_def response_side.extends_def new_recorder_inv new_recorder_in_order)
qed

lemmas sample_defs = sample_capture_def sample_events_def sample_request_def sample_extra_def
  sample_response_extra_def sample_response_def

section \<open>Event sequences\<close>


text \<open>
  The chains of redirect hops are no data of their own: after any events, the chain of a
  request ID lists exactly the entries with that ID, in capture order, and the sequence
  numbers of the entries are 1, 2, 3 and so on.
\<close>
theorem chains_index_entries:
  "let rc = fst (run_events (handle_event inc) (new_recorder target start) evs)
   in ch_entries (chain_of rc rid) = filter (\<lambda>i. e_request_id (rc_entries rc ! i) = rid) [0..<length (rc_entries rc)]
      \<and> map e_sequence (rc_entries rc) = map Suc [0..<length (rc_entries rc)]"
proof -
  define rc where "rc = fst (run_events (handle_event inc) (new_recorder target start) evs)"
  have "recorder_inv rc" unfolding rc_def by (rule events.run_inv [OF new_recorder_inv])
  then have "well_chained rc" and "map (fst \<circ> snd) (keys_of rc) = map Suc [0..<length (keys_of rc)]"
    by (simp_all add: recorder_inv_def numbered_def)
  moreover have "filter (\<lambda>i. fst (keys_of rc ! i) = rid) [0..<length (rc_entries rc)] =
      filter (\<lambda>i. e_request_id (rc_entries rc ! i) = rid) [0..<length (rc_entries rc)]"
    by (rule filter_cong) simp_all
  ultimately show ?thesis
    unfolding rc_def [symmetric] Let_def by (simp add: well_chained_def index_of_def keys_of_def comp_def)
qed

text \<open>
  C18: However long the capture runs, no response body is fetched twice: the entries named by
  the body-fetch tasks that a sequence of events hands out are pairwise distinct.
\<close>
theorem body_fetched_once:
  "distinct (map snd (snd (run_events (handle_event inc) (new_recorder target start) evs)))"
  by (rule events.run_output_once [OF new_recorder_inv])

text \<open>
  A body-fetch task is handed out only for an entry of its request ID that has finished
  loading, has its response and the supplemental response it expects, may have a body at all,
  and was not scheduled before; afterwards it is marked as scheduled.
\<close>
theorem body_task_is_ready:
  assumes "recorder_inv rc" and "handle_event inc rc ev = (rc', out)" and "(rid, i) \<in> set out"
  shows "\<not> scheduled rc i \<and> scheduled rc' i \<and> body_ready (rc_entries rc' ! i)
    \<and> e_request_id (rc_entries rc' ! i) = rid"
  using handle_event_ok [OF assms(1), of inc ev] assms(2,3) by (auto simp: step_ok_def tasks_fresh_def)

theorem body_task_is_ready_witness:
  "let rc' = fst (handle_event True sample_capture (LoadingFinished ''7'' (Some 9) 100))
   in \<not> scheduled sample_capture 0 \<and> scheduled rc' 0 \<and> body_ready (rc_entries rc' ! 0)
     \<and> e_request_id (rc_entries rc' ! 0) = ''7''"
proof -
  have "snd (handle_event True sample_capture (LoadingFinished ''7'' (Some 9) 100)) = [(''7'', 0)]"
    unfolding sample_defs by code_simp
  then have eq: "handle_event True sample_capture (LoadingFinished ''7'' (Some 9) 100) =
      (fst (handle_event True sample_capture (LoadingFinished ''7'' (Some 9) 100)), [(''7'', 0)])"
    by (metis prod.collapse)
  show ?thesis
    unfolding Let_def by (rule body_task_is_ready [OF sample_inv eq]) simp
qed

text \<open>
  The first limit error ends the recording: from then on no event changes the recorder or
  hands out a task, in any sequence of events.
\<close>
theorem limit_error_is_final:
  assumes "rc_limit_err rc \<noteq> None"
  shows "run_events (handle_event inc) rc evs = (rc, [])"
  by (induction evs) (simp_all add: handle_event_stopped assms)

theorem limit_error_is_final_witness:
  "run_events (handle_event True) (sample_capture\<lparr>rc_limit_err := Some HeaderLimit\<rparr>) sample_events =
     (sample_capture\<lparr>rc_limit_err := Some HeaderLimit\<rparr>, [])"
  by (rule limit_error_is_final) simp

text \<open>
  After the cutoff the capture is closed: a frozen recorder drops every event with a
  later timestamp. Entries, chains, budget and errors stay as they are; of a new request only
  its ID is remembered.
\<close>
theorem events_after_cutoff_dropped:
  assumes "rc_frozen rc" and "event_timestamp ev = Some t" and "rc_cutoff rc = 0 \<or> t > rc_cutoff rc"
  shows "handle_event inc rc ev =
    ((case ev of RequestWillBeSent ws \<Rightarrow>
        if rc_limit_err rc = None then rc\<lparr>rc_post_cutoff := insert (ws_request_id ws) (rc_post_cutoff rc)\<rparr> else rc
      | _ \<Rightarrow> rc), [])"
  using assms by (cases ev) (auto simp: handle_event_def after_cutoff_def)

theorem events_after_cutoff_dropped_witness:
  "handle_event True (sample_capture\<lparr>rc_frozen := True, rc_cutoff := 8\<rparr>) (LoadingFinished ''7'' (Some 9) 100) =
     (sample_capture\<lparr>rc_frozen := True, rc_cutoff := 8\<rparr>, [])"
  using events_after_cutoff_dropped [of "sample_capture\<lparr>rc_frozen := True, rc_cutoff := 8\<rparr>"
      "LoadingFinished ''7'' (Some 9) 100" 9 True] by simp

text \<open>
  C11: Supplemental request events reach their redirect hops in order of arrival: whatever
  happens next, the events already matched to the hops of a request ID, hop by hop, followed by
  the ones still pending, stay at the front of that sequence; none is lost, repeated or
  overtaken.
\<close>
theorem request_extras_in_order:
  assumes "recorder_inv rc" and "in_order e_request_extra rc"
  shows "prefix (trail e_request_extra ch_pending_request rc rid)
      (trail e_request_extra ch_pending_request (fst (run_events (handle_event inc) rc evs)) rid)"
proof -
  have "request_side.extends rc (fst (run_events (handle_event inc) rc evs))"
    by (rule request_side.extends_run) (rule request_side.extends_handle_event)
  with assms show ?thesis by (simp add: request_side.extends_def)
qed

theorem request_extras_in_order_witness:
  "prefix (trail e_request_extra ch_pending_request sample_capture ''7'')
     (trail e_request_extra ch_pending_request (fst (run_events (handle_event True) sample_capture
       [RequestWillBeSentExtraInfo sample_extra])) ''7'')"
  by (rule request_extras_in_order [OF sample_inv sample_in_order(1)])

text \<open>
  The same holds of the supplemental response events.
\<close>
theorem response_extras_in_order:
  assumes "recorder_inv rc" and "in_order e_response_extra rc"
  shows "prefix (trail e_response_extra ch_pending_response rc rid)
      (trail e_response_extra ch_pending_response (fst (run_events (handle_event inc) rc evs)) rid)"
proof -
  have "response_side.extends rc (fst (run_events (handle_event inc) rc evs))"
    by (rule response_side.extends_run) (rule response_side.extends_handle_event)
  with assms show ?thesis by (simp add: response_side.extends_def)
qed

theorem response_extras_in_order_witness:
  "prefix (trail e_response_extra ch_pending_response sample_capture ''7'')
     (trail e_response_extra ch_pending_response (fst (run_events (handle_event True) sample_capture
       [ResponseReceivedExtraInfo sample_response_extra])) ''7'')"
  by (rule response_extras_in_order [OF sample_inv sample_in_order(2)])

text \<open>
  C38: \<open>reserve\<close> is exact: it takes the requested bytes (none for a negative request) and
  reports success just when no limit was reached before and the budget has room; otherwise the
  budget is untouched and an error stands.
\<close>
theorem reserve_exact:
  "reserve n rc =
     (if rc_limit_err rc = None \<and> rc_retained rc + max 0 n \<le> rc_max_bytes rc
      then (rc\<lparr>rc_retained := rc_retained rc + max 0 n\<rparr>, True)
      else (rc\<lparr>rc_limit_err := (case rc_limit_err rc of None \<Rightarrow> Some (BytesLimit (rc_max_bytes rc)) | Some e \<Rightarrow> Some e)\<rparr>, False))"
  by (cases "rc_limit_err rc") (auto simp: reserve_def Let_def max_def)

text \<open>
  Captured entries are never removed, reordered or renamed, and memory is never given back:
  events only append to the list of request IDs, sequence numbers and requests.
\<close>
theorem entries_only_appended:
  assumes "recorder_inv rc"
  shows "prefix (map (\<lambda>e. (e_request_id e, e_sequence e, e_request e)) (rc_entries rc))
      (map (\<lambda>e. (e_request_id e, e_sequence e, e_request e)) (rc_entries (fst (run_events (handle_event inc) rc evs))))
    \<and> rc_retained rc \<le> rc_retained (fst (run_events (handle_event inc) rc evs))"
proof -
  let ?rc = "fst (run_events (handle_event inc) rc evs)"
  have a: "advances rc ?rc" by (rule run_advances [OF assms])
  then have "prefix (map (\<lambda>(rid, b). (rid, fst b, fst (snd b))) (keys_of rc)) (map (\<lambda>(rid, b). (rid, fst b, fst (snd b))) (keys_of ?rc))"
    unfolding advances_def by (blast intro: map_mono_prefix)
  with a show ?thesis by (simp add: advances_def keys_of_def comp_def birth_def)
qed

theorem entries_only_appended_witness:
  "prefix (map (\<lambda>e. (e_request_id e, e_sequence e, e_request e)) (rc_entries sample_capture))
      (map (\<lambda>e. (e_request_id e, e_sequence e, e_request e)) (rc_entries (fst (run_events (handle_event True) sample_capture sample_events))))
    \<and> rc_retained sample_capture \<le> rc_retained (fst (run_events (handle_event True) sample_capture sample_events))"
  by (rule entries_only_appended [OF sample_inv])

text \<open>
  Replaying buffered events keeps the invariant too, and a cache notice for a request that
  started after the cutoff is ignored.
\<close>
theorem buffered_replay_safe:
  "recorder_inv rc \<Longrightarrow> recorder_inv (fst (run_events (handle_buffered_event inc) rc evs))
    \<and> (rid \<in> rc_post_cutoff rc \<longrightarrow> handle_buffered_event inc rc (RequestServedFromCache rid) = (rc, []))"
  using buffered.run_inv by (simp add: handle_buffered_event_def)

theorem buffered_replay_safe_witness:
  "handle_buffered_event True (sample_capture\<lparr>rc_post_cutoff := {''7''}\<rparr>) (RequestServedFromCache ''7'') =
     (sample_capture\<lparr>rc_post_cutoff := {''7''}\<rparr>, [])"
proof -
  have "recorder_inv (sample_capture\<lparr>rc_post_cutoff := {''7''}\<rparr>)"
    by (rule settled_inv [OF settled_post_cutoff sample_inv])
  from buffered_replay_safe [OF this, where inc = True and rid = "''7''"] show ?thesis by simp
qed

end
