(* ===== verification/Recorder_Log.thy ===== *)
theory Recorder_Log
  imports Recorder_Props
begin

text \<open>
  The abstract view of a capture: a log of requests. \<open>hop_log\<close> is the log a recorder holds,
  \<open>log_step\<close> what an event adds to it: a request that is HTTP and is a redirect hop or the first
  of its ID. The event handler refines the log, as long as no limit stops the capture.
\<close>

section \<open>The log\<close>

type_synonym hop_entry = "request_id \<times> string \<times> string"

definition logged :: "captured_entry \<Rightarrow> hop_entry" where
  "logged e = (e_request_id e, (case e_request e of None \<Rightarrow> ([], []) | Some q \<Rightarrow> (rq_method q, rq_url q)))"

definition hop_log :: "recorder \<Rightarrow> hop_entry list" where
  "hop_log rc = map logged (rc_entries rc)"

definition all_requested :: "recorder \<Rightarrow> bool" where
  "all_requested rc \<longleftrightarrow> list_all (\<lambda>e. e_request e \<noteq> None) (rc_entries rc)"

fun log_step :: "hop_entry list \<Rightarrow> cdp_event \<Rightarrow> hop_entry list" where
  "log_step requests (RequestWillBeSent ws) =
     (case ws_request ws of
        None \<Rightarrow> requests
      | Some q \<Rightarrow>
          if is_http_url (rq_url q) \<and> (ws_redirect_response ws \<noteq> None \<or> ws_request_id ws \<notin> set (map fst requests))
          then requests @ [(ws_request_id ws, rq_method q, rq_url q)] else requests)"
| "log_step requests _ = requests"

section \<open>Steps that add nothing\<close>

definition same_log :: "recorder \<Rightarrow> recorder \<Rightarrow> bool" where
  "same_log rc rc' \<longleftrightarrow> hop_log rc' = hop_log rc \<and> (all_requested rc \<longrightarrow> all_requested rc')"

lemma same_log_keys: "keys_of rc' = keys_of rc \<Longrightarrow> same_log rc rc'"
proof -
  assume keys: "keys_of rc' = keys_of rc"
  have log: "hop_log rc = map (\<lambda>(rid, b). (rid, (case fst (snd b) of None \<Rightarrow> ([], []) | Some q \<Rightarrow> (rq_method q, rq_url q)))) (keys_of rc)" for rc
    by (simp add: hop_log_def keys_of_def logged_def birth_def)
  have req: "all_requested rc \<longleftrightarrow> list_all (\<lambda>(rid, b). fst (snd b) \<noteq> None) (keys_of rc)" for rc
    by (simp add: all_requested_def keys_of_def birth_def list_all_iff)
  show ?thesis by (simp add: same_log_def log req keys)
qed

lemma same_log_refl [simp]: "same_log rc rc"
  by (simp add: same_log_def)

lemma same_log_trans: "same_log a b \<Longrightarrow> same_log b c \<Longrightarrow> same_log a c"
  by (simp add: same_log_def)

lemma same_log_steady: "steady rc rc' \<Longrightarrow> same_log rc rc'"
  by (rule same_log_keys) (rule steady_keys)

lemma same_log_settled: "settled rc rc' \<Longrightarrow> same_log rc rc'"
  by (rule same_log_steady) (rule settled_steady)

lemma chain_logged:
  assumes "well_chained rc"
  shows "index_of rc rid = [] \<longleftrightarrow> rid \<notin> set (map fst (hop_log rc))"
proof -
  have "index_of rc rid = filter (\<lambda>i. e_request_id (rc_entries rc ! i) = rid) [0..<length (rc_entries rc)]"
    using assms unfolding well_chained_def by (metis (no_types, lifting) filter_cong fst_keys_of length_keys_of atLeastLessThan_iff set_upt)
  then have "index_of rc rid = [] \<longleftrightarrow> (\<forall>i < length (rc_entries rc). e_request_id (rc_entries rc ! i) \<noteq> rid)"
    by (auto simp: filter_empty_conv)
  also have "\<dots> \<longleftrightarrow> rid \<notin> e_request_id ` set (rc_entries rc)"
    by (auto simp: set_conv_nth)
  finally show ?thesis by (simp add: hop_log_def logged_def comp_def)
qed

section \<open>The step that adds a request\<close>

definition adds :: "recorder \<Rightarrow> recorder \<Rightarrow> hop_entry list \<Rightarrow> bool" where
  "adds rc rc' new \<longleftrightarrow>
     (all_requested rc \<longrightarrow> all_requested rc') \<and> (rc_limit_err rc' = None \<longrightarrow> hop_log rc' = hop_log rc @ new)"

lemma adds_same: "same_log rc rc1 \<Longrightarrow> adds rc1 rc' new \<Longrightarrow> adds rc rc' new"
  by (simp add: same_log_def adds_def)

lemma adds_nothing: "same_log rc rc' \<Longrightarrow> adds rc rc' []"
  by (simp add: same_log_def adds_def)

lemma adds_stopped: "same_log rc rc' \<Longrightarrow> rc_limit_err rc' \<noteq> None \<Longrightarrow> adds rc rc' new"
  by (auto simp: same_log_def adds_def)

lemma adds_append_request: "adds rc (append_request ev q rc) [(ws_request_id ev, rq_method q, rq_url q)]"
proof (rule append_request_cases [of rc ev q])
  assume "settled rc (append_request ev q rc)" and "rc_limit_err (append_request ev q rc) \<noteq> None"
  then show ?thesis by (simp add: adds_stopped same_log_settled)
next
  fix rc2 e
  assume st: "settled rc rc2" and rid: "e_request_id e = ws_request_id ev"
    and req: "\<exists>p. e_request e = Some p \<and> rq_method p = rq_method q \<and> rq_url p = rq_url q"
    and es: "rc_entries (append_request ev q rc) = rc_entries rc2 @ [e]"
  have "hop_log (append_request ev q rc) = hop_log rc2 @ [(ws_request_id ev, rq_method q, rq_url q)]"
    using req rid by (auto simp: hop_log_def logged_def es)
  moreover have "all_requested rc2 \<Longrightarrow> all_requested (append_request ev q rc)"
    using req by (auto simp: all_requested_def es)
  ultimately show ?thesis
    using same_log_settled [OF st] by (simp add: adds_def same_log_def)
qed

lemma refused_close_redirected:
  "\<not> snd (close_redirected rid r hx t inc rc) \<Longrightarrow> rc_limit_err (fst (close_redirected rid r hx t inc rc)) \<noteq> None"
proof (cases "current_entry rc rid")
  case None
  then show "\<not> snd (close_redirected rid r hx t inc rc) \<Longrightarrow> ?thesis" by (simp add: close_redirected_def)
next
  case (Some i)
  obtain rc1 ok where 1: "(if e_response (rc_entries rc ! i) = None then validate_response r rc else (rc, True)) = (rc1, ok)"
    by fastforce
  have "rc_limit_err rc1 \<noteq> None" if "\<not> ok"
    using 1 that refused_validate_response [of r rc] by (auto split: if_splits)
  then show "\<not> snd (close_redirected rid r hx t inc rc) \<Longrightarrow> ?thesis"
    unfolding close_redirected_def Some option.case 1 prod.case by (cases ok) (simp_all add: Let_def)
qed

lemma adds_request_will_be_sent:
  assumes inv: "recorder_inv rc"
  shows "\<exists>new. log_step (hop_log rc) (RequestWillBeSent ev) = hop_log rc @ new
    \<and> adds rc (request_will_be_sent ev inc rc) new"
proof (cases "ws_request ev")
  case None
  then show ?thesis by (simp add: request_will_be_sent_def adds_def)
next
  case (Some q)
  define rid where "rid = ws_request_id ev"
  define rc1 where "rc1 = ensure_chain rid (rc\<lparr>rc_post_cutoff := rc_post_cutoff rc - {rid}\<rparr>)"
  define rc2 where "rc2 = (if ch_entries (chain_of rc1 rid) = [] then adopt_frozen_extras rid rc1 else rc1)"
  have st1: "settled rc rc1"
    unfolding rc1_def by (rule settled_trans [OF settled_post_cutoff settled_ensure_chain])
  have inv1: "recorder_inv rc1" by (rule settled_inv [OF st1 inv])
  have st2: "steady rc1 rc2" unfolding rc2_def using adopt_inv [OF inv1] by simp
  obtain rc3 ok where 3: "(case ws_redirect_response ev of None \<Rightarrow> (rc2, True)
      | Some r \<Rightarrow> close_redirected rid r (ws_redirect_has_extra ev) (monotonic_time (ws_timestamp ev)) inc rc2) = (rc3, ok)"
    by fastforce
  have st3: "settled rc2 rc3"
    using 3 settled_close_redirected [of rc2 rid] by (auto split: option.splits) (metis fst_conv)
  have refused: "rc_limit_err rc3 \<noteq> None" if "\<not> ok"
    using 3 that refused_close_redirected [of rid _ "ws_redirect_has_extra ev" "monotonic_time (ws_timestamp ev)" inc rc2]
    by (auto split: option.splits) (metis fst_conv option.simps(3) snd_conv)
  have same1: "same_log rc rc1" by (rule same_log_settled [OF st1])
  have same3: "same_log rc rc3"
    by (rule same_log_trans [OF same1 same_log_trans [OF same_log_steady [OF st2] same_log_settled [OF st3]]])
  have known: "ch_entries (chain_of rc1 rid) = [] \<longleftrightarrow> rid \<notin> set (map fst (hop_log rc))"
    using chain_logged [of rc1 rid] inv1 same1 by (simp add: recorder_inv_def index_of_def same_log_def)
  have eq: "request_will_be_sent ev inc rc =
      (if \<not> is_http_url (rq_url q) then rc
       else if ch_entries (chain_of rc1 rid) \<noteq> [] \<and> ws_redirect_response ev = None then rc1
       else if \<not> ok then rc3 else append_request ev q rc3)"
    unfolding request_will_be_sent_def Some option.case Let_def rid_def [symmetric] rc1_def [symmetric]
      rc2_def [symmetric] 3 prod.case by simp
  consider (other) "\<not> is_http_url (rq_url q)"
    | (repeated) "is_http_url (rq_url q)" "rid \<in> set (map fst (hop_log rc))" "ws_redirect_response ev = None"
    | (hop) "is_http_url (rq_url q)" "ws_redirect_response ev \<noteq> None \<or> rid \<notin> set (map fst (hop_log rc))"
    by blast
  then show ?thesis
  proof cases
    case other
    then show ?thesis by (simp add: eq Some adds_def)
  next
    case repeated
    then show ?thesis
      using known adds_nothing [OF same1] by (auto simp: eq Some rid_def)
  next
    case hop
    have "adds rc (if \<not> ok then rc3 else append_request ev q rc3) [(rid, rq_method q, rq_url q)]"
      unfolding rid_def using adds_stopped [OF same3 refused] adds_same [OF same3 adds_append_request] by simp
    with hop known show ?thesis
      by (intro exI [of _ "[(rid, rq_method q, rq_url q)]"]) (auto simp: eq Some rid_def)
  qed
qed

section \<open>The handler\<close>

lemma settled_ready:
  assumes "recorder_inv rc" and "settled rc rc1"
  shows "settled rc (fst (ready_body_fetch_tasks rid inc rc1))"
proof -
  obtain rc' out where eq: "ready_body_fetch_tasks rid inc rc1 = (rc', out)" by fastforce
  have "settled rc1 rc'" using ready_tasks_ok [OF settled_inv [OF assms(2,1)] eq] by simp
  then show ?thesis using settled_trans [OF assms(2)] by (simp add: eq)
qed

text \<open>An event extends the log of the recorder by what it adds to the abstract one.\<close>

lemma adds_apply_event:
  assumes "recorder_inv rc"
  shows "\<exists>new. log_step (hop_log rc) ev = hop_log rc @ new \<and> adds rc (fst (apply_event inc rc ev)) new"
proof (cases ev)
  case (RequestWillBeSent ws)
  then show ?thesis using adds_request_will_be_sent [OF assms] by simp
qed (use assms in \<open>auto intro!: adds_nothing same_log_settled settled_ready settled_request_extra_info
    settled_response_received settled_response_extra_info settled_update_current settled_loading_failed settled_marks
    simp: frame_simps\<close>)

lemma adds_handle_event:
  assumes "recorder_inv rc" and "\<not> rc_frozen rc"
  shows "\<exists>new. log_step (hop_log rc) ev = hop_log rc @ new \<and> adds rc (fst (handle_event inc rc ev)) new"
proof (cases "rc_limit_err rc = None")
  case True
  then show ?thesis using adds_apply_event [OF assms(1)] assms(2) by (simp add: handle_event_def)
next
  case False
  obtain new where "log_step (hop_log rc) ev = hop_log rc @ new"
    using adds_apply_event [OF assms(1), of ev inc] by blast
  with False show ?thesis
    by (intro exI [of _ new]) (auto simp: handle_event_def adds_def)
qed

lemma run_log:
  assumes "recorder_inv rc" and "\<not> rc_frozen rc" and "all_requested rc"
    and "rc_limit_err (fst (run_events (handle_event inc) rc evs)) = None"
  shows "hop_log (fst (run_events (handle_event inc) rc evs)) = foldl log_step (hop_log rc) evs
    \<and> all_requested (fst (run_events (handle_event inc) rc evs))"
  using assms
proof (induction evs arbitrary: rc)
  case Nil
  then show ?case by simp
next
  case (Cons ev evs)
  let ?rc = "fst (handle_event inc rc ev)"
  have ok: "recorder_inv ?rc" "advances rc ?rc"
    using handle_event_ok [OF Cons.prems(1), of inc ev] by (simp_all add: step_ok_def)
  have rest: "fst (run_events (handle_event inc) rc (ev # evs)) = fst (run_events (handle_event inc) ?rc evs)"
    by (simp add: case_prod_beta)
  have run: "advances ?rc (fst (run_events (handle_event inc) ?rc evs))" by (rule run_advances [OF ok(1)])
  have free: "rc_limit_err ?rc = None"
    using run Cons.prems(4) unfolding rest advances_def by blast
  have melted: "\<not> rc_frozen ?rc" using ok(2) Cons.prems(2) by (simp add: advances_def cut_state_def)
  obtain new where "log_step (hop_log rc) ev = hop_log rc @ new" "adds rc ?rc new"
    using adds_handle_event [OF Cons.prems(1,2)] by blast
  then have "hop_log ?rc = log_step (hop_log rc) ev" "all_requested ?rc"
    using free Cons.prems(3) by (simp_all add: adds_def)
  with Cons.IH [OF ok(1) melted] Cons.prems(4) show ?case unfolding rest by simp
qed

end
