(* ===== verification/Recorder_Archive_Props.thy ===== *)
theory Recorder_Archive_Props
  imports Recorder_Archive Recorder_Log
begin

text \<open>
  Properties of the exported archive: it lists the abstract log of the capture, its sizes and times
  have the right signs, stored bodies can be read back, and a capture whose drain is over has
  nothing missing.
\<close>

section \<open>Finalizing\<close>

lemma settled_finalize: "settled rc (finalize_queued_extra_info rc)"
proof -
  have "settled rc (fold reconcile_extra_info rids rc)" for rids
    by (induction rids arbitrary: rc) (auto intro: settled_trans settled_reconcile)
  then show ?thesis by (simp add: finalize_queued_extra_info_def)
qed

lemma same_log_finalize: "same_log rc (finalize_queued_extra_info rc)"
  by (rule same_log_settled) (rule settled_finalize)

lemma same_log_freeze: "same_log rc (freeze_at_monotonic cutoff rc)"
proof -
  have "same_log rc (rc\<lparr>rc_frozen := True, rc_cutoff := cutoff\<rparr>)"
    by (rule same_log_keys) (simp add: keys_of_def)
  then show ?thesis unfolding freeze_at_monotonic_def by (rule same_log_trans) (rule same_log_finalize)
qed

lemma mark_missing_keys: "keys_of (mark_missing_extra_info rc) = keys_of (finalize_queued_extra_info rc)"
  by (simp add: mark_missing_extra_info_def Let_def keys_of_def comp_def)

text \<open>The part of the invariant the export needs, which the end of a capture keeps.\<close>

definition exportable :: "recorder \<Rightarrow> bool" where
  "exportable rc \<longleftrightarrow> map (fst \<circ> snd) (keys_of rc) = map Suc [0..<length (keys_of rc)] \<and> all_requested rc"

lemma exportable_keys: "keys_of rc' = keys_of rc \<Longrightarrow> exportable rc \<Longrightarrow> exportable rc'"
  using same_log_keys [of rc' rc] by (simp add: exportable_def same_log_def)

lemma exportable_order:
  assumes "exportable rc"
  shows "sort_stable (\<lambda>a b. e_sequence a < e_sequence b) (rc_entries rc) = rc_entries rc"
proof -
  have "map e_sequence (rc_entries rc) = map Suc [0..<length (rc_entries rc)]"
    using assms by (simp add: exportable_def keys_of_def comp_def)
  then have "sorted_wrt (<) (map e_sequence (rc_entries rc))" by (simp add: sorted_wrt_map)
  then show ?thesis
    by (intro sort_stable_id) (auto simp: sorted_wrt_map sorted_wrt_iff_nth_less not_less intro: less_imp_le)
qed

lemma those_to_har:
  "list_all (\<lambda>e. e_request e \<noteq> None) es \<Longrightarrow>
   those (map (to_har env cutoff) es) = Some (map (\<lambda>e. har_entry_of env cutoff e (the (e_request e))) es)"
  by (induction es) (auto simp: to_har_def)

lemma archive_of_exportable:
  assumes "exportable rc"
  shows "fst (recorder_archive env title creator browser rc) =
    (let rc1 = finalize_queued_extra_info rc in
     Some (Inr \<lparr>ar_log = har_log_of rc1 title creator browser
       (map (\<lambda>e. har_entry_of env (rc_cutoff rc1) e (the (e_request e))) (rc_entries rc1))\<rparr>))"
proof -
  let ?rc = "finalize_queued_extra_info rc"
  have "keys_of ?rc = keys_of rc" using settled_finalize settled_steady steady_keys by blast
  then have ex: "exportable ?rc" using assms by (rule exportable_keys)
  then have "list_all (\<lambda>e. e_request e \<noteq> None) (rc_entries ?rc)" by (simp add: exportable_def all_requested_def)
  then show ?thesis
    using exportable_order [OF ex]
    by (simp add: recorder_archive_def Let_def those_to_har validate_archive_def har_log_of_def version12_def)
qed

section \<open>The archive is the log\<close>

lemma new_recorder_exportable: "exportable (new_recorder target start)" "hop_log (new_recorder target start) = []"
    "\<not> rc_frozen (new_recorder target start)" "all_requested (new_recorder target start)"
  by (simp_all add: new_recorder_def reserve_def Let_def exportable_def keys_of_def all_requested_def hop_log_def)

text \<open>
  C13: The archive of a capture lists the requests of the abstract log, in their order: the HTTP
  requests that are redirect hops or the first of their ID. Exporting never fails, and freezing the
  recorder and marking what is missing lose nothing.
\<close>
theorem archive_refines_log:
  assumes "rc_limit_err (fst (run_events (handle_event inc) (new_recorder target start) evs)) = None"
  shows "case fst (recorder_archive env title creator browser (mark_missing_extra_info (freeze_at_monotonic cutoff
             (fst (run_events (handle_event inc) (new_recorder target start) evs))))) of
           Some (Inr a) \<Rightarrow> map (\<lambda>e. (hq_method (he_request e), hq_url (he_request e))) (hl_entries (ar_log a))
             = map snd (foldl log_step [] evs)
         | _ \<Rightarrow> False"
proof -
  let ?rc = "fst (run_events (handle_event inc) (new_recorder target start) evs)"
  let ?frozen = "mark_missing_extra_info (freeze_at_monotonic cutoff ?rc)"
  let ?fin = "finalize_queued_extra_info ?frozen"
  have run: "hop_log ?rc = foldl log_step [] evs" "all_requested ?rc"
    using run_log [OF new_recorder_inv new_recorder_exportable(3,4) assms] new_recorder_exportable(2) by simp_all
  have inv: "recorder_inv ?rc" by (rule events.run_inv [OF new_recorder_inv])
  have ex: "exportable ?rc" using inv run(2) by (simp add: exportable_def recorder_inv_def numbered_def)
  have keys: "keys_of (finalize_queued_extra_info rc) = keys_of rc" for rc
    using settled_finalize settled_steady steady_keys by blast
  have "keys_of ?frozen = keys_of ?rc"
    by (simp add: mark_missing_keys keys freeze_at_monotonic_def) (simp add: keys_of_def)
  then have exe: "exportable ?frozen" and log: "same_log ?rc ?fin"
    using ex exportable_keys same_log_keys keys by metis+
  have "hop_log ?fin = foldl log_step [] evs" and req: "all_requested ?fin"
    using log run by (simp_all add: same_log_def)
  moreover have "map (\<lambda>e. (hq_method (he_request e), hq_url (he_request e)))
      (map (\<lambda>e. har_entry_of env c e (the (e_request e))) (rc_entries ?fin)) = map snd (hop_log ?fin)" for c
    using req by (auto simp: all_requested_def list_all_iff hop_log_def logged_def har_entry_of_def har_request_of_def Let_def)
  ultimately show ?thesis
    by (simp add: archive_of_exportable [OF exe] Let_def har_log_of_def)
qed

definition sample_archive_env :: archive_env where
  "sample_archive_env = \<lparr>av_status_text = (\<lambda>status. ''OK''), av_cookies = (\<lambda>header. []), av_set_cookies = (\<lambda>headers. []),
     av_int64 = (\<lambda>x. i64 \<lfloor>x\<rfloor>), av_epoch = None\<rparr>"

definition sample_creator :: har_creator where
  "sample_creator = \<lparr>hc_name = ''gozillo'', hc_version = ''1'', hc_comment = []\<rparr>"

theorem archive_refines_log_witness:
  "case fst (recorder_archive sample_archive_env ''home'' sample_creator None
       (mark_missing_extra_info (freeze_at_monotonic 9
         (fst (run_events (handle_event True) (new_recorder ''https://a.b/'' 1) sample_events))))) of
     Some (Inr a) \<Rightarrow> map (\<lambda>e. (hq_method (he_request e), hq_url (he_request e))) (hl_entries (ar_log a))
       = [(''GET'', ''https://a.b/c?x=1'')]
   | _ \<Rightarrow> False"
proof -
  have "rc_limit_err (fst (run_events (handle_event True) (new_recorder ''https://a.b/'' 1) sample_events)) = None"
    by code_simp
  note a = archive_refines_log [OF this, of sample_archive_env "''home''" sample_creator None 9]
  have "map snd (foldl log_step [] sample_events) = [(''GET'', ''https://a.b/c?x=1'')]" by code_simp
  with a show ?thesis by (simp only:)
qed

section \<open>Bodies\<close>

lemma glue:
  fixes b d :: nat
  assumes "b < d"
  shows "(a * d + b) div d = a" "(a * d + b) mod d = b"
  using assms by simp_all

lemma sextets:
  fixes n m k :: nat
  assumes "n < 256" and "m < 256" and "k < 256"
  shows "n div 4 < 64" "n mod 4 * 16 + m div 16 < 64" "m mod 16 * 4 + k div 64 < 64" "k mod 64 < 64"
    "n mod 4 * 16 < 64" "m mod 16 * 4 < 64"
    "n div 4 * 4 + (n mod 4 * 16 + m div 16) div 16 = n"
    "(n mod 4 * 16 + m div 16) mod 16 * 16 + (m mod 16 * 4 + k div 64) div 4 = m"
    "(n mod 4 * 16 + m div 16) mod 16 * 16 + m mod 16 = m"
    "(m mod 16 * 4 + k div 64) mod 4 * 64 + k mod 64 = k"
proof -
  have b: "m div 16 < 16" "k div 64 < 4" "n mod 4 < 4" "m mod 16 < 16" using assms by auto
  show "n div 4 < 64" "n mod 4 * 16 + m div 16 < 64" "m mod 16 * 4 + k div 64 < 64" "k mod 64 < 64"
    "n mod 4 * 16 < 64" "m mod 16 * 4 < 64"
    using b assms by linarith+
  show "n div 4 * 4 + (n mod 4 * 16 + m div 16) div 16 = n"
    "(n mod 4 * 16 + m div 16) mod 16 * 16 + (m mod 16 * 4 + k div 64) div 4 = m"
    "(n mod 4 * 16 + m div 16) mod 16 * 16 + m mod 16 = m"
    "(m mod 16 * 4 + k div 64) mod 4 * 64 + k mod 64 = k"
    by (simp_all only: glue [OF b(1)] glue [OF b(2)] div_mult_mod_eq)
qed

lemma base64_group:
  assumes "x < 64" "y < 64" "z < 64" "w < 64"
  shows "base64_groups (base64_char x # base64_char y # base64_char z # base64_char w # s) =
    map_option (\<lambda>r. char_of (x * 4 + y div 16) # char_of (y mod 16 * 16 + z div 4) # char_of (z mod 4 * 64 + w) # r)
      (base64_groups s)"
  using assms by (simp add: base64_char_ne)

lemma base64_groups_encode: "base64_groups (base64_encode s) = Some s"
proof (induction s rule: base64_encode.induct)
  case 1
  then show ?case by simp
next
  case (2 a)
  show ?case
    using sextets [OF nat_of_char_less_256 [of a] nat_of_char_less_256 [of a] nat_of_char_less_256 [of a]]
    by (simp add: Let_def base64_char_ne)
next
  case (3 a b)
  show ?case
    using sextets [OF nat_of_char_less_256 [of a] nat_of_char_less_256 [of b] nat_of_char_less_256 [of b]]
    by (simp add: Let_def base64_char_ne)
next
  case (4 a b c s)
  note sx = sextets [OF nat_of_char_less_256 [of a] nat_of_char_less_256 [of b] nat_of_char_less_256 [of c]]
  show ?case
    by (simp only: base64_encode.simps Let_def base64_group [OF sx(1,2,3,4)] sx(7,8,10) 4 [OF refl refl refl]
        option.map char_of_char)
qed

lemma base64_no_break: "list_all (\<lambda>c. byte c \<noteq> 10 \<and> byte c \<noteq> 13) (base64_encode s)"
proof -
  have char: "byte (base64_char v) \<noteq> 10 \<and> byte (base64_char v) \<noteq> 13" if "v < 64" for v
    using that by (auto simp: base64_char_def)
  show ?thesis
  proof (induction s rule: base64_encode.induct)
    case (2 a)
    show ?case
      using sextets [OF nat_of_char_less_256 [of a] nat_of_char_less_256 [of a] nat_of_char_less_256 [of a]]
      by (simp add: Let_def char)
  next
    case (3 a b)
    show ?case
      using sextets [OF nat_of_char_less_256 [of a] nat_of_char_less_256 [of b] nat_of_char_less_256 [of b]]
      by (simp add: Let_def char)
  next
    case (4 a b c s)
    note sx = sextets [OF nat_of_char_less_256 [of a] nat_of_char_less_256 [of b] nat_of_char_less_256 [of c]]
    show ?case
      by (simp only: base64_encode.simps Let_def list.pred_inject char [OF sx(1)] char [OF sx(2)] char [OF sx(3)]
          char [OF sx(4)] 4 [OF refl refl refl] simp_thms)
  qed simp
qed

lemma base64_decode_encode: "base64_decode (base64_encode s) = Some s"
proof -
  have "filter (\<lambda>c. byte c \<noteq> 10 \<and> byte c \<noteq> 13) (base64_encode s) = base64_encode s"
    using base64_no_break [of s] by (simp add: filter_id_conv list_all_iff)
  then show ?thesis by (simp add: base64_decode_def base64_groups_encode)
qed

text \<open>
  A response body that was stored within the limits can be read back from the exported content:
  the text itself, or the bytes its base64 text stands for, and its size is theirs.
\<close>
theorem body_recoverable:
  assumes "i < length (rc_entries rc)" and "rc_limit_err (set_response_body (Some i) body None rc) = None"
  shows "let content = har_content_of (rc_entries (set_response_body (Some i) body None rc) ! i) False n mime in
    (if hn_encoding content = ''base64'' then base64_decode (hn_text content) else Some (hn_text content)) = Some body
    \<and> hn_size content = int (length body)"
proof -
  obtain stored encoding where enc: "encode_body (response_mime_type (rc_entries rc ! i)) body = (stored, encoding)" by fastforce
  obtain rc1 ok where res: "reserve (json_string_retained_bytes stored + derived_item_overhead) rc = (rc1, ok)" by fastforce
  have "rc_limit_err rc1 \<noteq> None" if "\<not> ok"
    using refused_reserve [of "json_string_retained_bytes stored + derived_item_overhead" rc] that by (simp add: res)
  then have ok: "ok" using assms(2) by (auto simp: set_response_body_def enc res Let_def set_entry_def split: if_splits)
  have "store_of rc1 = store_of rc"
    using reserve_store [of "json_string_retained_bytes stored + derived_item_overhead" rc] by (simp add: res)
  then have "rc_entries rc1 = rc_entries rc" using store_ofD by blast
  then have e: "rc_entries (set_response_body (Some i) body None rc) ! i =
      (rc_entries rc ! i)\<lparr>e_body_text := stored, e_body_encoding := encoding, e_body_size := int (length body), e_body_present := True\<rparr>"
    using assms(1) ok by (simp add: set_response_body_def enc res Let_def set_entry_def)
  have "(if encoding = ''base64'' then base64_decode stored else Some stored) = Some body"
    using enc by (auto simp: encode_body_def base64_decode_encode split: if_splits)
  then show ?thesis by (simp add: e har_content_of_def Let_def split: if_splits)
qed

theorem body_recoverable_witness:
  "let content = har_content_of (rc_entries (set_response_body (Some 0) [CHR 0xFF, CHR ''a''] None sample_capture) ! 0) False 0 [] in
    (if hn_encoding content = ''base64'' then base64_decode (hn_text content) else Some (hn_text content)) = Some [CHR 0xFF, CHR ''a'']
    \<and> hn_size content = int (length [CHR 0xFF, CHR ''a''])"
proof -
  have "0 < length (rc_entries sample_capture)"
    and "rc_limit_err (set_response_body (Some 0) [CHR 0xFF, CHR ''a''] None sample_capture) = None" by code_simp+
  then show ?thesis by (rule body_recoverable)
qed

section \<open>The drain\<close>

text \<open>
  When no drain is needed, nothing is missing: no supplemental event is waited for, none is left
  without its request, and no entry is marked as incomplete.
\<close>
theorem drained_is_whole:
  assumes "\<not> snd (extra_info_drain_needed rc)"
  shows "snd (pending_extra_info_count rc) = 0 \<and> orphan_extra_count (finalize_queued_extra_info rc) = 0
    \<and> list_all (\<lambda>e. \<not> e_extra_incomplete e) (rc_entries (mark_missing_extra_info rc))"
proof -
  let ?rc = "finalize_queued_extra_info rc"
  have none: "rc_frozen_requests ?rc = []" "rc_frozen_responses ?rc = []"
      "\<forall>(rid, c) \<in> set (rc_chains ?rc). orphan_chain c = 0" "\<forall>e \<in> set (rc_entries ?rc). \<not> lacks_extra_info e"
    using assms by (auto simp: extra_info_drain_needed_def Let_def list_ex_iff)
  have "missing_extras e = 0" if "e \<in> set (rc_entries ?rc)" for e
    using none(4) that by (auto simp: missing_extras_def lacks_extra_info_def)
  then have "snd (pending_extra_info_count rc) = 0" by (simp add: pending_extra_info_count_def Let_def)
  moreover have "orphan_extra_count ?rc = 0" using none(1,2,3) by (auto simp: orphan_extra_count_def)
  moreover have "list_all (\<lambda>e. \<not> e_extra_incomplete e) (rc_entries (mark_missing_extra_info rc))"
    using none(4) by (auto simp: mark_missing_extra_info_def Let_def list_all_iff)
  ultimately show ?thesis by simp
qed

theorem drained_is_whole_witness:
  "snd (pending_extra_info_count sample_capture) = 0 \<and> orphan_extra_count (finalize_queued_extra_info sample_capture) = 0
    \<and> list_all (\<lambda>e. \<not> e_extra_incomplete e) (rc_entries (mark_missing_extra_info sample_capture))"
proof -
  have "\<not> snd (extra_info_drain_needed sample_capture)" by code_simp
  then show ?thesis by (rule drained_is_whole)
qed

section \<open>Sizes and times\<close>

lemma go_float_nonneg [simp]: "0 \<le> x \<Longrightarrow> 0 \<le> go_float x"
  by (simp add: go_float_def to_float64_nonneg)

lemma non_negative_nonneg [simp]: "0 \<le> non_negative x"
  by (simp add: non_negative_def)

lemma duration_milliseconds_nonneg [simp]: "0 \<le> duration_milliseconds start finish"
proof -
  have "0 \<le> time_sub finish start" if "\<not> finish < start"
    using that by (simp add: time_sub_def saturated_def)
  then show ?thesis
    by (auto simp: duration_milliseconds_def intro!: go_float_nonneg divide_nonneg_nonneg)
qed

lemma duration_pointer_nonneg: "duration_pointer a b = Some d \<Longrightarrow> 0 \<le> d"
  by (auto simp: duration_pointer_def split: if_splits)

definition timings_ok :: "har_timings \<Rightarrow> bool" where
  "timings_ok t \<longleftrightarrow>
     list_all (\<lambda>x. 0 \<le> x) [ht_send t, ht_wait t, ht_receive t]
     \<and> list_all (\<lambda>p. pred_option (\<lambda>x. 0 \<le> x) p) [ht_blocked t, ht_dns t, ht_connect t, ht_ssl t]"

lemma har_timings_ok: "timings_ok (har_timings_of env e finish)"
proof -
  have "0 \<le> receive_time env e tm finish" for tm by (simp add: receive_time_def Let_def)
  then show ?thesis
    by (auto simp: har_timings_of_def timings_ok_def empty_timings_def Let_def option.pred_set
        dest: duration_pointer_nonneg split: option.splits)
qed

lemma content_length_nonneg: "response_content_length hs = Some n \<Longrightarrow> 0 \<le> n"
  by (auto simp: response_content_length_def Let_def split: if_splits option.splits)

lemma wire_size_bound:
  assumes "\<And>x. in_i64 (av_int64 env x)"
  shows "- 1 \<le> wire_size env e hs"
proof -
  have "- 1 \<le> i64 (av_int64 env x - headers_size e)" if "0 \<le> headers_size e" "headers_size e \<le> av_int64 env x" for x
  proof -
    have "in_i64 (av_int64 env x - headers_size e)" using assms [of x] that by (simp add: in_i64_def)
    then show ?thesis using that by (simp add: i64_id)
  qed
  then show ?thesis
    using content_length_nonneg [of hs] by (fastforce simp: wire_size_def Let_def split: option.splits)
qed

lemma decoded_size_nonneg: "0 \<le> decoded_size e hs wire"
  using content_length_nonneg [of hs] by (auto simp: decoded_size_def split: option.splits bool.splits)

text \<open>
  C30: Every exported entry has times that are not negative, a content size that is not negative, and
  body sizes that are \<open>-1\<close>, for unknown, or not negative.
\<close>
theorem exported_sizes_and_times:
  assumes "to_har env cutoff e = Some h" and "0 \<le> e_body_size e" and "\<And>x. in_i64 (av_int64 env x)"
  shows "0 \<le> he_time h \<and> pred_option timings_ok (he_timings h) \<and> 0 \<le> hn_size (hr_content (he_response h))
    \<and> - 1 \<le> hr_body_size (he_response h) \<and> - 1 \<le> hq_body_size (he_request h)"
proof -
  obtain q where h: "h = har_entry_of env cutoff e q" using assms(1) by (auto simp: to_har_def)
  have "0 \<le> hn_size (har_content_of e no_body n mime)" if "0 \<le> n" for no_body n mime
    using that assms(2) by (simp add: har_content_of_def Let_def)
  then have "0 \<le> hn_size (hr_content (har_response_of env e m hs cs))" for m hs cs
    using decoded_size_nonneg by (simp add: har_response_of_def Let_def case_prod_beta)
  moreover have "- 1 \<le> hr_body_size (har_response_of env e m hs cs)" for m hs cs
    using wire_size_bound [OF assms(3)] by (simp add: har_response_of_def Let_def case_prod_beta)
  moreover have "- 1 \<le> hq_body_size (har_request_of env e q v)" for v
    by (simp add: har_request_of_def Let_def split: option.splits)
  ultimately show ?thesis
    by (simp add: h har_entry_of_def Let_def har_timings_ok)
qed

theorem exported_sizes_and_times_witness:
  "case to_har sample_archive_env 9 (rc_entries sample_capture ! 0) of
     None \<Rightarrow> False
   | Some h \<Rightarrow> 0 \<le> he_time h \<and> pred_option timings_ok (he_timings h) \<and> 0 \<le> hn_size (hr_content (he_response h))
       \<and> - 1 \<le> hr_body_size (he_response h) \<and> - 1 \<le> hq_body_size (he_request h)"
proof -
  have "e_request (rc_entries sample_capture ! 0) \<noteq> None" and size: "0 \<le> e_body_size (rc_entries sample_capture ! 0)"
    by code_simp+
  then obtain h where h: "to_har sample_archive_env 9 (rc_entries sample_capture ! 0) = Some h"
    by (auto simp: to_har_def)
  have "in_i64 (av_int64 sample_archive_env x)" for x by (simp add: sample_archive_env_def in_i64_i64)
  from exported_sizes_and_times [OF h size this] show ?thesis by (simp add: h)
qed

section \<open>Cookies\<close>

text \<open>
  C0: When CDP says which cookies belong to a request, the export has exactly those that were not
  blocked, whatever the \<open>Cookie\<close> header says.
\<close>
theorem blocked_cookies_left_out:
  assumes "e_request_extra e = Some x" and "xq_cookies x = map (\<lambda>(c, blocked). Some \<lparr>ac_cookie = Some c, ac_blocked = blocked\<rparr>) cs"
    and "cs \<noteq> []"
  shows "request_cookies env e hs = map (cookie_from_cdp env \<circ> fst) (filter (\<lambda>(c, blocked). blocked = []) cs)"
proof -
  have "associated_cookies env (map (\<lambda>(c, blocked). Some \<lparr>ac_cookie = Some c, ac_blocked = blocked\<rparr>) cs) =
      Some (map (cookie_from_cdp env \<circ> fst) (filter (\<lambda>(c, blocked). blocked = []) cs))"
    by (induction cs) auto
  with assms show ?thesis by (simp add: request_cookies_def)
qed

definition sample_cookie :: "string \<Rightarrow> cdp_cookie" where
  "sample_cookie name = \<lparr>ck_name = name, ck_value = ''v'', ck_domain = ''a.b'', ck_path = ''/'', ck_expires = 0,
     ck_http_only = True, ck_secure = True, ck_session = True, ck_same_site = []\<rparr>"

definition cookie_extra :: request_extra where
  "cookie_extra = \<lparr>xq_request_id = ''7'', xq_cookies = map (\<lambda>(c, blocked). Some \<lparr>ac_cookie = Some c, ac_blocked = blocked\<rparr>)
     [(sample_cookie ''a'', []), (sample_cookie ''b'', [''SameSiteLax''])], xq_headers = []\<rparr>"

definition cookie_entry :: captured_entry where
  "cookie_entry = (rc_entries sample_capture ! 0)\<lparr>e_request_extra := Some cookie_extra\<rparr>"

theorem blocked_cookies_left_out_witness:
  "request_cookies sample_archive_env cookie_entry [] = [cookie_from_cdp sample_archive_env (sample_cookie ''a'')]"
proof -
  have "e_request_extra cookie_entry = Some cookie_extra" by (simp add: cookie_entry_def)
  moreover have "xq_cookies cookie_extra = map (\<lambda>(c, blocked). Some \<lparr>ac_cookie = Some c, ac_blocked = blocked\<rparr>)
      [(sample_cookie ''a'', []), (sample_cookie ''b'', [''SameSiteLax''])]" by (simp only: cookie_extra_def request_extra.simps)
  moreover have "[(sample_cookie ''a'', []), (sample_cookie ''b'', [''SameSiteLax''])] \<noteq> []" by simp
  ultimately have "request_cookies sample_archive_env cookie_entry [] =
      map (cookie_from_cdp sample_archive_env \<circ> fst) (filter (\<lambda>(c, blocked). blocked = [])
        [(sample_cookie ''a'', []), (sample_cookie ''b'', [''SameSiteLax''])])" by (rule blocked_cookies_left_out)
  then show ?thesis by simp
qed

section \<open>Headers\<close>

interpretation header_order: weak_less name_less
proof
  fix x y z :: string
  have asym: "string_less a b \<Longrightarrow> \<not> string_less b a" for a b
    using string_less_trans [of a b a] by auto
  show "\<not> name_less x x" by (simp add: name_less_def)
  show "name_less x y \<Longrightarrow> name_less y z \<Longrightarrow> name_less x z"
    unfolding name_less_def
    by (cases "to_lower x = to_lower y"; cases "to_lower y = to_lower z"; cases "to_lower x = to_lower z")
      (auto dest: asym intro: string_less_trans [of "to_lower x" "to_lower y"] string_less_trans [of x y])
  have inc: "\<not> string_less a b \<Longrightarrow> \<not> string_less b c \<Longrightarrow> \<not> string_less a c" for a b c
    using string_less_total [of a b] string_less_total [of b c] string_less_trans [of c b a] string_less_trans [of c a c]
    by auto
  show "\<not> name_less x y \<Longrightarrow> \<not> name_less y z \<Longrightarrow> \<not> name_less x z"
    unfolding name_less_def
    by (cases "to_lower x = to_lower y"; cases "to_lower y = to_lower z"; cases "to_lower x = to_lower z")
      (auto dest: inc [of x y z] inc [of "to_lower x" "to_lower y" "to_lower z"] string_less_total [of "to_lower x" "to_lower y"] string_less_total [of "to_lower y" "to_lower z"])
qed

lemma name_values_pairs:
  "map (\<lambda>h. (nv_name h, nv_value h)) (name_values hs) =
     concat (map (\<lambda>name. map (Pair name) (case map_of hs name of None \<Rightarrow> [] | Some raw \<Rightarrow> header_value_strings raw))
       (sort_stable name_less (map fst hs)))"
  by (simp add: name_values_def map_concat comp_def)

lemma mset_concat_map: "mset (concat (map f xs)) = sum_mset (image_mset (mset \<circ> f) (mset xs))"
  by (induction xs) auto

lemma sorted_concat_names:
  assumes "sorted_wrt R names" and "\<And>x. R x x"
  shows "sorted_wrt R (map fst (concat (map (\<lambda>name. map (Pair name) (f name)) names)))"
proof -
  have "sorted_wrt R (map fst (map (Pair name) xs))" for name and xs :: "'b list"
    by (induction xs) (auto simp: assms(2))
  with assms(1) show ?thesis by (induction names) (auto simp: sorted_wrt_append simp del: map_map)
qed

text \<open>
  The exported headers are the header lines of the event, no more and no fewer, in the order of
  their names; within the limits they are as many as were counted.
\<close>
theorem exported_headers:
  assumes "distinct (map fst hs)"
  shows "mset (map (\<lambda>h. (nv_name h, nv_value h)) (name_values hs)) =
      mset (concat (map (\<lambda>(name, raw). map (Pair name) (header_value_strings raw)) hs))
    \<and> sorted_wrt (\<lambda>a b. \<not> name_less (nv_name b) (nv_name a)) (name_values hs)
    \<and> (header_item_count hs \<le> max_header_items \<longrightarrow> length (name_values hs) = header_item_count hs)"
proof -
  let ?lines = "\<lambda>name. map (Pair name) (case map_of hs name of None \<Rightarrow> [] | Some raw \<Rightarrow> header_value_strings raw)"
  have own: "?lines name = map (Pair name) (header_value_strings raw)" if "(name, raw) \<in> set hs" for name raw
    using that assms by simp
  have "mset (map (\<lambda>h. (nv_name h, nv_value h)) (name_values hs)) = mset (concat (map ?lines (map fst hs)))"
    by (simp add: name_values_pairs mset_concat_map multiset.map_comp comp_assoc)
  also have "map ?lines (map fst hs) = map (\<lambda>(name, raw). map (Pair name) (header_value_strings raw)) hs"
    using own by auto
  finally have lines: "mset (map (\<lambda>h. (nv_name h, nv_value h)) (name_values hs)) =
      mset (concat (map (\<lambda>(name, raw). map (Pair name) (header_value_strings raw)) hs))" .
  have "sorted_wrt (\<lambda>a b. \<not> name_less b a) (map fst (map (\<lambda>h. (nv_name h, nv_value h)) (name_values hs)))"
    unfolding name_values_pairs by (rule sorted_concat_names [OF header_order.sorted_sort_stable]) (simp add: name_less_def)
  then have sorted: "sorted_wrt (\<lambda>a b. \<not> name_less (nv_name b) (nv_name a)) (name_values hs)"
    by (simp add: sorted_wrt_map comp_def)
  have "length (name_values hs) = length (concat (map (\<lambda>(name, raw). map (Pair name) (header_value_strings raw)) hs))"
    using arg_cong [OF lines, of size] by (simp only: size_mset length_map)
  also have "\<dots> = length (concat (map (\<lambda>(name, raw). header_value_strings raw) hs))"
    by (simp add: length_concat comp_def case_prod_beta)
  finally have len: "length (name_values hs) = length (concat (map (\<lambda>(k, v). header_value_strings v) hs))" .
  have "length (name_values hs) = header_item_count hs" if "header_item_count hs \<le> max_header_items"
  proof -
    have "header_item_count_from 0 hs \<le> max_header_items" using that unfolding header_item_count_def .
    from header_item_count_from_exact [OF this] show ?thesis
      unfolding len header_item_count_def by (simp only: add_0)
  qed
  with lines sorted show ?thesis by (intro conjI impI)
qed

theorem exported_headers_witness:
  "mset (map (\<lambda>h. (nv_name h, nv_value h)) (name_values [(''b'', HText ''1''), (''A'', HTexts [''2'', ''3''])])) =
      mset [(''b'', ''1''), (''A'', ''2''), (''A'', ''3'')]
    \<and> sorted_wrt (\<lambda>a b. \<not> name_less (nv_name b) (nv_name a)) (name_values [(''b'', HText ''1''), (''A'', HTexts [''2'', ''3''])])
    \<and> length (name_values [(''b'', HText ''1''), (''A'', HTexts [''2'', ''3''])]) = 3"
proof -
  have n: "header_item_count [(''b'', HText ''1''), (''A'', HTexts [''2'', ''3''])] = 3" by code_simp
  have lines: "concat (map (\<lambda>(name, raw). map (Pair name) (header_value_strings raw)) [(''b'', HText ''1''), (''A'', HTexts [''2'', ''3''])])
      = [(''b'', ''1''), (''A'', ''2''), (''A'', ''3'')]" by code_simp
  have "distinct (map fst [(''b'', HText ''1''), (''A'', HTexts [''2'', ''3''])])" by simp
  from exported_headers [OF this] show ?thesis
    unfolding n lines by (simp only: max_header_items_def)
qed

end
