(* ===== verification/Listing_Sort.thy ===== *)
theory Listing_Sort
  imports Models Prelude
begin

text \<open>
  The sort modes of a search (\<open>internal/cli/sort.go\<close>). A comparison of optional fields puts a
  missing value after every present one, in both directions; each comparison is an instance of
  the interface \<open>weak_less\<close>, which is what \<open>sort.SliceStable\<close> needs of it.
\<close>

section \<open>Modes and comparisons\<close>

definition sort_recommended :: string where "sort_recommended = ''recommended''"
definition sort_price_asc :: string where "sort_price_asc = ''price-asc''"
definition sort_price_desc :: string where "sort_price_desc = ''price-desc''"
definition sort_newest :: string where "sort_newest = ''newest''"
definition sort_beds_desc :: string where "sort_beds_desc = ''beds-desc''"
definition sort_sqft_desc :: string where "sort_sqft_desc = ''sqft-desc''"

lemmas sort_modes = sort_recommended_def sort_price_asc_def sort_price_desc_def sort_newest_def
  sort_beds_desc_def sort_sqft_desc_def

definition normalize_sort_by :: "string \<Rightarrow> string + string" where
  "normalize_sort_by val =
     (let v = to_lower (trim_space val) in
      if v = [] then Inr sort_recommended
      else if v \<in> set [sort_recommended, sort_price_asc, sort_price_desc, sort_newest, sort_beds_desc, sort_sqft_desc]
      then Inr v
      else Inl (''unknown sort-by '' @ quote v
        @ '' (want recommended, price-asc, price-desc, newest, beds-desc, or sqft-desc)''))"

fun less_optional_int64 :: "int option \<Rightarrow> int option \<Rightarrow> bool \<Rightarrow> bool" where
  "less_optional_int64 None right descending = False"
| "less_optional_int64 (Some l) None descending = True"
| "less_optional_int64 (Some l) (Some r) descending =
     (if l = r then False else if descending then l > r else l < r)"

fun less_optional_float64 :: "rat option \<Rightarrow> rat option \<Rightarrow> bool \<Rightarrow> bool" where
  "less_optional_float64 None right descending = False"
| "less_optional_float64 (Some l) None descending = True"
| "less_optional_float64 (Some l) (Some r) descending =
     (if l = r then False else if descending then l > r else l < r)"

text \<open>The comparison of \<open>sortListings\<close>, the switch over the mode.\<close>

definition listing_less :: "string \<Rightarrow> listing \<Rightarrow> listing \<Rightarrow> bool" where
  "listing_less mode a b =
     (if mode = sort_price_asc then less_optional_int64 (li_price a) (li_price b) False
      else if mode = sort_price_desc then less_optional_int64 (li_price a) (li_price b) True
      else if mode = sort_newest then less_optional_int64 (li_days_on_zillow a) (li_days_on_zillow b) False
      else if mode = sort_beds_desc then less_optional_float64 (li_bedrooms a) (li_bedrooms b) True
      else if mode = sort_sqft_desc then less_optional_int64 (li_living_area a) (li_living_area b) True
      else False)"

definition sort_listings :: "listing list \<Rightarrow> string \<Rightarrow> listing list" where
  "sort_listings ls mode =
     (if mode = sort_recommended \<or> length ls < 2 then ls else sort_stable (listing_less mode) ls)"

section \<open>The comparisons are strict weak orders\<close>

interpretation int64_order: weak_less "\<lambda>a b. less_optional_int64 a b descending" for descending
proof
  fix x y z :: "int option"
  show "\<not> less_optional_int64 x x descending" by (cases x) simp_all
  show "less_optional_int64 x y descending \<Longrightarrow> less_optional_int64 y z descending \<Longrightarrow> less_optional_int64 x z descending"
    by (cases x; cases y; cases z) (auto split: if_splits)
  show "\<not> less_optional_int64 x y descending \<Longrightarrow> \<not> less_optional_int64 y z descending \<Longrightarrow> \<not> less_optional_int64 x z descending"
    by (cases x; cases y; cases z) (auto split: if_splits)
qed

interpretation float64_order: weak_less "\<lambda>a b. less_optional_float64 a b descending" for descending
proof
  fix x y z :: "rat option"
  show "\<not> less_optional_float64 x x descending" by (cases x) simp_all
  show "less_optional_float64 x y descending \<Longrightarrow> less_optional_float64 y z descending \<Longrightarrow> less_optional_float64 x z descending"
    by (cases x; cases y; cases z) (auto split: if_splits)
  show "\<not> less_optional_float64 x y descending \<Longrightarrow> \<not> less_optional_float64 y z descending \<Longrightarrow> \<not> less_optional_float64 x z descending"
    by (cases x; cases y; cases z) (auto split: if_splits)
qed

text \<open>The field a mode sorts by; \<open>None\<close> for the modes that keep the order.\<close>

definition listing_key :: "string \<Rightarrow> listing \<Rightarrow> rat option" where
  "listing_key mode l =
     (if mode = sort_price_asc then map_option of_int (li_price l)
      else if mode = sort_price_desc then map_option (\<lambda>n. - of_int n) (li_price l)
      else if mode = sort_newest then map_option of_int (li_days_on_zillow l)
      else if mode = sort_beds_desc then map_option uminus (li_bedrooms l)
      else if mode = sort_sqft_desc then map_option (\<lambda>n. - of_int n) (li_living_area l)
      else None)"

definition key_less :: "rat option \<Rightarrow> rat option \<Rightarrow> bool" where
  "key_less a b = (case a of None \<Rightarrow> False | Some x \<Rightarrow> (case b of None \<Rightarrow> True | Some y \<Rightarrow> x < y))"

lemma key_less_None: "\<not> key_less None b"
  by (simp add: key_less_def)

lemma less_optional_key:
  "less_optional_int64 a b False = key_less (map_option of_int a) (map_option of_int b)"
  "less_optional_int64 a b True = key_less (map_option (\<lambda>n. - of_int n) a) (map_option (\<lambda>n. - of_int n) b)"
  by (cases a; cases b; simp add: key_less_def)+

lemma less_optional_float_key: "less_optional_float64 c d True = key_less (map_option uminus c) (map_option uminus d)"
  by (cases c; cases d) (simp_all add: key_less_def)

lemma listing_less_key: "listing_less mode a b = key_less (listing_key mode a) (listing_key mode b)"
  unfolding listing_less_def listing_key_def less_optional_key less_optional_float_key
  by (simp add: key_less_None)

interpretation key_order: weak_less key_less
  by unfold_locales (auto simp: key_less_def split: option.splits)

interpretation listing_order: weak_less "listing_less mode" for mode
  unfolding listing_less_key
  by unfold_locales (fact key_order.irrefl, erule (1) key_order.trans, erule (1) key_order.incomparable_trans)

lemma sort_listings_alt: "mode \<noteq> sort_recommended \<Longrightarrow> sort_listings ls mode = sort_stable (listing_less mode) ls"
proof (cases "length ls < 2")
  case True
  then have "ls = [] \<or> (\<exists>x. ls = [x])" by (cases ls; cases "tl ls") auto
  then show ?thesis by (auto simp: sort_listings_def)
qed (simp add: sort_listings_def)

lemma recommended_keyless: "listing_key sort_recommended l = None"
  by (simp add: listing_key_def sort_modes)

lemma normalize_sort_modes:
  "normalize_sort_by sort_recommended = Inr sort_recommended"
  "normalize_sort_by sort_price_asc = Inr sort_price_asc"
  "normalize_sort_by sort_price_desc = Inr sort_price_desc"
  "normalize_sort_by sort_newest = Inr sort_newest"
  "normalize_sort_by sort_beds_desc = Inr sort_beds_desc"
  "normalize_sort_by sort_sqft_desc = Inr sort_sqft_desc"
  by code_simp+

section \<open>Properties\<close>

text \<open>
  Sorting rearranges: the result holds the same listings, in an order in which no later
  listing has to come before an earlier one under the requested mode; in particular every
  listing without the sorted field comes after all listings that have it, ascending or
  descending.
\<close>
theorem sort_listings_sorted:
  "mset (sort_listings ls mode) = mset ls
   \<and> sorted_wrt (\<lambda>a b. case listing_key mode b of None \<Rightarrow> True
        | Some y \<Rightarrow> (case listing_key mode a of None \<Rightarrow> False | Some x \<Rightarrow> x \<le> y)) (sort_listings ls mode)"
proof (cases "mode = sort_recommended")
  case True
  then show ?thesis
    by (simp add: sort_listings_def recommended_keyless sorted_wrt_iff_nth_less)
next
  case False
  have eq: "(\<lambda>a b. case listing_key mode b of None \<Rightarrow> True
      | Some y \<Rightarrow> (case listing_key mode a of None \<Rightarrow> False | Some x \<Rightarrow> x \<le> y)) = (\<lambda>a b. \<not> listing_less mode b a)"
    by (intro ext) (auto simp: listing_less_key key_less_def split: option.splits)
  show ?thesis
    unfolding eq sort_listings_alt [OF False] using listing_order.sorted_sort_stable by simp
qed

text \<open>
  Sorting is stable: listings with equal fields, or without the field, keep the order the
  search returned them in.
\<close>
theorem sort_listings_stable:
  "filter (\<lambda>l. listing_key mode l = k) (sort_listings ls mode) = filter (\<lambda>l. listing_key mode l = k) ls"
proof (cases "mode = sort_recommended")
  case False
  show ?thesis
    unfolding sort_listings_alt [OF False]
    by (rule listing_order.stable_sort_stable) (auto simp: listing_less_key key_less_def split: option.splits)
qed (simp add: sort_listings_def)

text \<open>
  A mode that was normalized is one of the six modes, and normalizing again changes nothing;
  capitals and surrounding space do not matter.
\<close>
theorem normalize_sort_by_idem:
  "normalize_sort_by s = Inr mode \<Longrightarrow>
   mode \<in> {sort_recommended, sort_price_asc, sort_price_desc, sort_newest, sort_beds_desc, sort_sqft_desc}
   \<and> normalize_sort_by mode = Inr mode
   \<and> (trim_space s \<noteq> [] \<longrightarrow> equal_fold mode (trim_space s))"
proof -
  assume a: "normalize_sort_by s = Inr mode"
  then have "mode \<in> {sort_recommended, sort_price_asc, sort_price_desc, sort_newest, sort_beds_desc, sort_sqft_desc}"
    by (auto simp: normalize_sort_by_def Let_def split: if_splits)
  moreover from this have "normalize_sort_by mode = Inr mode"
    using normalize_sort_modes by auto
  moreover have "trim_space s \<noteq> [] \<Longrightarrow> mode = to_lower (trim_space s)"
    using a by (auto simp: normalize_sort_by_def Let_def to_lower_def split: if_splits)
  then have "trim_space s \<noteq> [] \<longrightarrow> equal_fold mode (trim_space s)"
    by (simp add: equal_fold_def)
  ultimately show ?thesis by blast
qed

theorem normalize_sort_by_idem_witness:
  "sort_price_asc \<in> {sort_recommended, sort_price_asc, sort_price_desc, sort_newest, sort_beds_desc, sort_sqft_desc}
   \<and> normalize_sort_by sort_price_asc = Inr sort_price_asc
   \<and> (trim_space '' Price-ASC'' \<noteq> [] \<longrightarrow> equal_fold sort_price_asc (trim_space '' Price-ASC''))"
  by (rule normalize_sort_by_idem) code_simp

end
