(* ===== verification/Discovery_Props.thy ===== *)
theory Discovery_Props
  imports Discovery
begin

text \<open>
  Discovery never returns a listing twice, loses none it fetched, and makes a bounded number of
  requests. The invariant pairs the keys seen with the listings kept, one to one and in order.
\<close>

section \<open>Merging\<close>

definition key_fits :: "string \<Rightarrow> listing \<Rightarrow> bool" where
  "key_fits k l \<longleftrightarrow> (listing_discovery_key l \<noteq> [] \<longrightarrow> k = listing_discovery_key l)"

definition paired :: "string list \<Rightarrow> listing list \<Rightarrow> bool" where
  "paired seen ls \<longleftrightarrow> distinct seen \<and> list_all2 key_fits (rev seen) ls"

lemma key_fits_item_key: "key_fits (item_key route page i l) l"
  by (simp add: key_fits_def item_key_def)

lemma paired_Nil [simp]: "paired [] []"
  by (simp add: paired_def)

lemma paired_push: "paired seen ls \<Longrightarrow> key_fits k l \<Longrightarrow> k \<notin> set seen \<Longrightarrow> paired (k # seen) (ls @ [l])"
  by (simp add: paired_def list_all2_appendI)

lemma merge_item_paired:
  "paired (ms_seen ms) (ms_listings ms) \<Longrightarrow> key_fits k l \<Longrightarrow>
   paired (ms_seen (merge_item k l ms)) (ms_listings (merge_item k l ms))"
  by (simp add: merge_item_def Let_def paired_push)

lemma merge_items_paired:
  "paired (ms_seen ms) (ms_listings ms) \<Longrightarrow>
   paired (ms_seen (merge_items route page i ls ms)) (ms_listings (merge_items route page i ls ms))"
  by (induction route page i ls ms rule: merge_items.induct)
    (simp_all add: merge_item_paired key_fits_item_key)

lemma merge_item_grows:
  "set (ms_seen ms) \<subseteq> set (ms_seen (merge_item k l ms))" "k \<in> set (ms_seen (merge_item k l ms))"
  "prefix (ms_listings ms) (ms_listings (merge_item k l ms))"
  by (auto simp: merge_item_def Let_def)

lemma merge_items_grows:
  "set (ms_seen ms) \<subseteq> set (ms_seen (merge_items route page i ls ms))
   \<and> prefix (ms_listings ms) (ms_listings (merge_items route page i ls ms))"
proof (induction route page i ls ms rule: merge_items.induct)
  case (1 route page i ms)
  then show ?case by simp
next
  case (2 route page i l ls ms)
  then show ?case
    using merge_item_grows(1,3) [where ms = ms and k = "item_key route page i l" and l = l]
    by (auto intro: prefix_order.trans)
qed

text \<open>The same from the state \<open>fetch_page\<close> starts with.\<close>

lemma merge_start:
  "prefix ls0 (ms_listings (merge_items route page i ls \<lparr>ms_route_seen = rs, ms_unique = u, ms_new = n, ms_seen = seen, ms_listings = ls0\<rparr>))"
  "paired seen ls0 \<Longrightarrow> paired
     (ms_seen (merge_items route page i ls \<lparr>ms_route_seen = rs, ms_unique = u, ms_new = n, ms_seen = seen, ms_listings = ls0\<rparr>))
     (ms_listings (merge_items route page i ls \<lparr>ms_route_seen = rs, ms_unique = u, ms_new = n, ms_seen = seen, ms_listings = ls0\<rparr>))"
  using merge_items_grows [of "\<lparr>ms_route_seen = rs, ms_unique = u, ms_new = n, ms_seen = seen, ms_listings = ls0\<rparr>"]
    merge_items_paired [of "\<lparr>ms_route_seen = rs, ms_unique = u, ms_new = n, ms_seen = seen, ms_listings = ls0\<rparr>"]
  by simp_all

lemma merge_items_covers:
  "j < length ls \<Longrightarrow> item_key route page (i + j) (ls ! j) \<in> set (ms_seen (merge_items route page i ls ms))"
proof (induction ls arbitrary: i j ms)
  case Nil
  then show ?case by simp
next
  case (Cons l ls)
  show ?case
  proof (cases j)
    case 0
    then show ?thesis
      using merge_items_grows [of "merge_item (item_key route page i l) l ms" route page "i + 1" ls]
        merge_item_grows(2) [where ms = ms and k = "item_key route page i l" and l = l] by auto
  next
    case (Suc n)
    with Cons show ?thesis
      using Cons.IH [of n "i + 1" "merge_item (item_key route page i l) l ms"] by simp
  qed
qed

text \<open>Every key seen belongs to a listing that was kept.\<close>

lemma paired_key: "paired seen ls \<Longrightarrow> k \<in> set seen \<Longrightarrow> \<exists>l \<in> set ls. key_fits k l"
  by (auto simp: paired_def list_all2_conv_all_nth in_set_conv_nth) (metis in_set_conv_nth length_rev set_rev nth_mem)

lemma paired_distinct:
  assumes "paired seen ls"
  shows "distinct (filter (\<lambda>k. k \<noteq> []) (map listing_discovery_key ls))"
proof -
  let ?keep = "\<lambda>(k, l). listing_discovery_key l \<noteq> []"
  have all: "list_all2 key_fits (rev seen) ls" and d: "distinct (rev seen)"
    using assms by (simp_all add: paired_def)
  have "filter (\<lambda>k. k \<noteq> []) (map listing_discovery_key ls) = map fst (filter ?keep (zip (rev seen) ls))"
    using all by (induction rule: list_all2_induct) (auto simp: key_fits_def)
  moreover have "distinct (map fst (filter ?keep (zip (rev seen) ls)))"
    using d list_all2_lengthD [OF all] by (intro distinct_map_filter) simp
  ultimately show ?thesis by simp
qed

section \<open>Steps of a run\<close>

definition run_grows :: "nat \<Rightarrow> discovery_state \<Rightarrow> discovery_state \<Rightarrow> bool" where
  "run_grows n st st' \<longleftrightarrow>
     (paired (ds_seen st) (ds_listings st) \<longrightarrow> paired (ds_seen st') (ds_listings st'))
     \<and> prefix (ds_listings st) (ds_listings st') \<and> ds_requests st' \<le> ds_requests st + n"

lemma run_grows_refl [simp]: "run_grows 0 st st"
  by (simp add: run_grows_def)

lemma run_grows_trans: "run_grows m a b \<Longrightarrow> run_grows n b c \<Longrightarrow> run_grows (m + n) a c"
  by (auto simp: run_grows_def intro: prefix_order.trans)

lemma run_grows_mono: "run_grows m a b \<Longrightarrow> m \<le> n \<Longrightarrow> run_grows n a b"
  by (auto simp: run_grows_def)

lemma report_fields [simp]:
  "ds_seen (report ps st) = ds_seen st" "ds_listings (report ps st) = ds_listings st"
  "ds_requests (report ps st) = ds_requests st" "ds_coverage (report ps st) = ds_coverage st"
  "ds_issues (report ps st) = ds_issues st"
  by (simp_all add: report_def)

lemma report_grows: "run_grows 0 st (report ps st)"
  by (simp add: run_grows_def)

lemma fetch_page_grows:
  assumes "fetch_page env profile opts context route page coverage route_seen st = (outcome, st')"
  shows "run_grows 1 st st' \<and> ds_coverage st' = ds_coverage st
    \<and> (\<forall>cov rs. outcome = PageDone cov rs \<or> outcome = PageNext cov rs \<longrightarrow>
         cv_route cov = cv_route coverage \<and> cv_pages_fetched cov = cv_pages_fetched coverage + 1)"
  using assms
  by (auto simp: fetch_page_def Let_def run_grows_def merge_start split: prod.splits sum.splits if_splits)

lemma page_loop_grows:
  "page_loop left env profile opts route index nroutes limit page coverage route_seen st = (res, st') \<Longrightarrow>
   run_grows left st st' \<and> ds_coverage st' = ds_coverage st
   \<and> (\<forall>cov stop. res = Inr (cov, stop) \<longrightarrow> cv_route cov = cv_route coverage
        \<and> cv_pages_fetched coverage \<le> cv_pages_fetched cov
        \<and> cv_pages_fetched cov \<le> cv_pages_fetched coverage + int left)"
proof (induction left arbitrary: page coverage route_seen st)
  case 0
  then show ?case by auto
next
  case (Suc left)
  define delay where "delay = (if ds_requests st > 0 \<and> do_page_delay opts > 0 then do_page_delay opts else 0)"
  define ctx where "ctx = page_context opts route index nroutes page limit delay"
  show ?case
  proof (cases "if delay > 0 then ev_page_wait env (ds_requests st) else None")
    case (Some err)
    with Suc.prems have "st' = report [ctx] st" "res = Inl (Wrap ''discover Zillow location'' err)"
      by (simp_all add: Let_def delay_def [symmetric] ctx_def [symmetric])
    then show ?thesis using run_grows_mono [OF report_grows] by simp
  next
    case None
    obtain outcome st2 where f: "fetch_page env profile opts ctx route page coverage route_seen (report [ctx] st) = (outcome, st2)"
      by fastforce
    note g = fetch_page_grows [OF f]
    have g1: "run_grows 1 st st2"
      using run_grows_trans [OF report_grows] g by fastforce
    from Suc.prems None f have eq: "(res, st') = (case outcome of
        PageFailed stop \<Rightarrow> (Inr (coverage, stop), st2)
      | PageDone cov rs \<Rightarrow> (Inr (cov, False), st2)
      | PageNext cov rs \<Rightarrow> page_loop left env profile opts route index nroutes limit (page + 1) cov rs st2)"
      by (simp add: Let_def delay_def [symmetric] ctx_def [symmetric] split: page_outcome.splits)
    show ?thesis
    proof (cases outcome)
      case (PageFailed stop)
      then have "st' = st2" "res = Inr (coverage, stop)" using eq by simp_all
      then show ?thesis using g run_grows_mono [OF g1, of "Suc left"] by auto
    next
      case (PageDone cov rs)
      then have "st' = st2" "res = Inr (cov, False)" using eq by simp_all
      then show ?thesis using g PageDone run_grows_mono [OF g1, of "Suc left"] by auto
    next
      case (PageNext cov rs)
      then have "page_loop left env profile opts route index nroutes limit (page + 1) cov rs st2 = (res, st')"
        using eq by simp
      note ih = Suc.IH [OF this]
      have run: "run_grows (Suc left) st st'" using run_grows_trans [OF g1] ih by fastforce
      have cov: "cv_route cov = cv_route coverage" "cv_pages_fetched cov = cv_pages_fetched coverage + 1"
        and same: "ds_coverage st' = ds_coverage st"
        using g PageNext ih by simp_all
      have "cv_route cov' = cv_route coverage \<and> cv_pages_fetched coverage \<le> cv_pages_fetched cov'
          \<and> cv_pages_fetched cov' \<le> cv_pages_fetched coverage + int (Suc left)"
        if "res = Inr (cov', stop)" for cov' stop
      proof -
        from ih that have "cv_route cov' = cv_route cov \<and> cv_pages_fetched cov \<le> cv_pages_fetched cov'
            \<and> cv_pages_fetched cov' \<le> cv_pages_fetched cov + int left" by blast
        with cov show ?thesis by simp
      qed
      with run same show ?thesis by blast
    qed
  qed
qed

lemma route_loop_grows:
  "route_loop env profile opts max_pages index nroutes routes st = (res, st') \<Longrightarrow>
   run_grows (sum_list (map (\<lambda>r. nat (route_limit max_pages r)) routes)) st st'
   \<and> (\<exists>cs. ds_coverage st' = ds_coverage st @ cs \<and> prefix (map cv_route cs) (map rt_name routes)
        \<and> list_all2 (\<lambda>c r. cv_pages_fetched c \<le> max 0 (route_limit max_pages r)) cs (take (length cs) routes))"
proof (induction routes arbitrary: index st)
  case Nil
  then show ?case by simp
next
  case (Cons route routes)
  let ?limit = "route_limit max_pages route"
  obtain r1 st1 where p: "page_loop (nat ?limit) env profile opts route index nroutes ?limit 1 (new_coverage route) [] st = (r1, st1)"
    by fastforce
  note g = page_loop_grows [OF p]
  show ?case
  proof (cases r1)
    case (Inl err)
    with Cons.prems p have "st' = st1" by (simp add: Let_def)
    then have "run_grows (nat ?limit + sum_list (map (\<lambda>r. nat (route_limit max_pages r)) routes)) st st'"
      using g run_grows_mono by (metis le_add1)
    then show ?thesis using g \<open>st' = st1\<close> by auto
  next
    case (Inr cs)
    obtain cov stop where cov: "cs = (cov, stop)" by fastforce
    let ?st2 = "st1\<lparr>ds_coverage := ds_coverage st1 @ [cov]\<rparr>"
    have c: "cv_route cov = rt_name route" "cv_pages_fetched cov \<le> max 0 ?limit"
      using g Inr cov by (auto simp: new_coverage_def max_def)
    have g2: "run_grows (nat ?limit) st ?st2" using g by (simp add: run_grows_def)
    show ?thesis
    proof (cases stop)
      case True
      then have "st' = ?st2" using Cons.prems p Inr cov by (simp add: Let_def)
      then have "run_grows (nat ?limit + sum_list (map (\<lambda>r. nat (route_limit max_pages r)) routes)) st st'"
        using g2 run_grows_mono by (metis le_add1)
      then show ?thesis using \<open>st' = ?st2\<close> g c by (auto intro!: exI [of _ "[cov]"])
    next
      case False
      then have "route_loop env profile opts max_pages (index + 1) nroutes routes ?st2 = (res, st')"
        using Cons.prems p Inr cov by (simp add: Let_def)
      from Cons.IH [OF this] obtain cs2 where ih:
        "run_grows (sum_list (map (\<lambda>r. nat (route_limit max_pages r)) routes)) ?st2 st'"
        "ds_coverage st' = ds_coverage ?st2 @ cs2" "prefix (map cv_route cs2) (map rt_name routes)"
        "list_all2 (\<lambda>c r. cv_pages_fetched c \<le> max 0 (route_limit max_pages r)) cs2 (take (length cs2) routes)"
        by blast
      then show ?thesis
        using run_grows_trans [OF g2 ih(1)] g c by (auto intro!: exI [of _ "cov # cs2"])
    qed
  qed
qed

section \<open>Validated options\<close>

lemma check_routes_ok:
  "check_routes max_pages i seen routes = Inr rs \<Longrightarrow>
   length rs = length routes \<and> distinct (map rt_name rs) \<and> set (map rt_name rs) \<inter> set seen = {}
   \<and> (\<forall>r \<in> set rs. rt_name r \<noteq> [] \<and> trim_space (rt_name r) = rt_name r \<and> 0 \<le> rt_max_pages r
        \<and> rt_max_pages r \<le> max_pages \<and> validate_search_filters (rt_filters r) = None)"
proof (induction max_pages i seen routes arbitrary: rs rule: check_routes.induct)
  case (1 max_pages i seen)
  then show ?case by simp
next
  case (2 max_pages i seen r routes)
  define r' where "r' = r\<lparr>rt_name := trim_space (rt_name r)\<rparr>"
  from "2.prems" obtain rs' where r: "rt_name r' \<noteq> []" "rt_name r' \<notin> set seen" "0 \<le> rt_max_pages r'"
      "rt_max_pages r' \<le> max_pages" "validate_search_filters (rt_filters r') = None"
    and rest: "check_routes max_pages (i + 1) (rt_name r' # seen) routes = Inr rs'" and rs: "rs = r' # rs'"
    by (auto simp: Let_def r'_def split: if_splits option.splits sum.splits)
  have ih: "length rs' = length routes \<and> distinct (map rt_name rs') \<and> set (map rt_name rs') \<inter> set (rt_name r' # seen) = {}
   \<and> (\<forall>r \<in> set rs'. rt_name r \<noteq> [] \<and> trim_space (rt_name r) = rt_name r \<and> 0 \<le> rt_max_pages r
        \<and> rt_max_pages r \<le> max_pages \<and> validate_search_filters (rt_filters r) = None)"
    using "2.IH" [OF r'_def refl r(1,2)] r(3-) rest by (simp add: not_less)
  then show ?case using r rs by (auto simp: r'_def)
qed

lemma validate_options_ok:
  assumes "validate_discovery_options opts = Inr (max_pages, routes)"
  shows "1 \<le> max_pages \<and> max_pages \<le> 20 \<and> routes \<noteq> [] \<and> length routes \<le> 16 \<and> distinct (map rt_name routes)
    \<and> (\<forall>r \<in> set routes. rt_name r \<noteq> [] \<and> trim_space (rt_name r) = rt_name r
        \<and> 1 \<le> route_limit max_pages r \<and> route_limit max_pages r \<le> max_pages)
    \<and> 0 \<le> do_page_delay opts \<and> 0 \<le> do_request_retries opts \<and> 0 \<le> do_retry_backoff opts"
proof -
  define rs0 where "rs0 = (if do_routes opts = []
      then [\<lparr>rt_name = ''default'', rt_filters = no_filters, rt_max_pages = 0\<rparr>] else do_routes opts)"
  have rs0: "rs0 \<noteq> []" by (simp add: rs0_def)
  from assms have m: "1 \<le> max_pages" "max_pages \<le> 20" "length rs0 \<le> 16" "0 \<le> do_page_delay opts"
      "0 \<le> do_request_retries opts" "0 \<le> do_retry_backoff opts"
    and c: "check_routes max_pages 0 [] rs0 = Inr routes"
    by (auto simp: validate_discovery_options_def Let_def rs0_def max_discovery_pages_def split: if_splits sum.splits)
  show ?thesis
    using check_routes_ok [OF c] m rs0 by (auto simp: route_limit_def)
qed

section \<open>Properties\<close>

lemma discover_cases:
  assumes "discover_location env opts = (out, st)"
  obtains (stopped) "ds_requests st = 0" "\<And>r. out \<noteq> Inr r"
  | (run) max_pages routes profile st1 err where
      "validate_discovery_options opts = Inr (max_pages, routes)"
      "ds_requests st1 = 0" "ds_seen st1 = []" "ds_listings st1 = []" "ds_coverage st1 = []"
      "route_loop env profile opts max_pages 1 (int (length routes)) routes st1 = (err, st)"
      "\<And>r. out = Inr r \<Longrightarrow> r = \<lparr>dr_listings = ds_listings st, dr_coverage = ds_coverage st, dr_issues = ds_issues st\<rparr>"
proof (cases "validate_discovery_options opts")
  case (Inl msg)
  with assms stopped show ?thesis by (auto simp: discover_location_def empty_discovery_def)
next
  case (Inr mr)
  obtain max_pages routes where mr: "mr = (max_pages, routes)" by fastforce
  obtain boot tr where boot: "retry_discovery_request (do_request_retries opts) (do_retry_backoff opts)
      (ev_bootstrap env) (ev_bootstrap_wait env) = (boot, tr)" by fastforce
  define st1 where "st1 = report (retry_progress (bootstrap_progress opts) tr) (report [bootstrap_progress opts] empty_discovery)"
  have st1: "ds_requests st1 = 0" "ds_seen st1 = []" "ds_listings st1 = []" "ds_coverage st1 = []"
    by (simp_all add: st1_def empty_discovery_def)
  show ?thesis
  proof (cases boot)
    case (Inl err)
    with assms Inr mr boot have "st = st1" "out = Inl (Wrap ''discover Zillow location'' err)"
      by (simp_all add: discover_location_def Let_def st1_def)
    with st1 stopped show ?thesis by simp
  next
    case profile: (Inr profile)
    obtain err st2 where r: "route_loop env profile opts max_pages 1 (int (length routes)) routes st1 = (err, st2)"
      by fastforce
    with assms Inr mr boot profile have out: "(out, st) = (case err of Some e \<Rightarrow> (Inl e, st2)
        | None \<Rightarrow> (Inr \<lparr>dr_listings = ds_listings st2, dr_coverage = ds_coverage st2, dr_issues = ds_issues st2\<rparr>, st2))"
      by (simp add: discover_location_def Let_def st1_def split: option.splits)
    then have "st = st2" by (simp split: option.splits)
    with out r Inr mr st1 run show ?thesis by (auto split: option.splits)
  qed
qed

text \<open>
  C16: No listing is returned twice: among the results of a discovery, over all routes and pages,
  the discovery keys (ID, else URL, else address) of the listings that have one are distinct.
\<close>
theorem discovery_keys_distinct:
  assumes "fst (discover_location env opts) = Inr result"
  shows "distinct (filter (\<lambda>k. k \<noteq> []) (map listing_discovery_key (dr_listings result)))"
proof -
  obtain out st where d: "discover_location env opts = (out, st)" by fastforce
  then show ?thesis
  proof (cases rule: discover_cases)
    case stopped
    with assms d show ?thesis by simp
  next
    case (run max_pages routes profile st1 err)
    have "paired (ds_seen st) (ds_listings st)"
      using route_loop_grows [OF run(6)] run(3,4) by (simp add: run_grows_def)
    then show ?thesis using paired_distinct run(7) assms d by simp
  qed
qed

text \<open>
  A discovery is bounded: whatever Zillow answers, it requests at most 16 routes of 20 pages,
  320 pages in all, each with its own bounded retries.
\<close>
theorem discovery_requests_bounded:
  "ds_requests (snd (discover_location env opts)) \<le> 320"
proof -
  obtain out st where d: "discover_location env opts = (out, st)" by fastforce
  then show ?thesis
  proof (cases rule: discover_cases)
    case stopped
    with d show ?thesis by simp
  next
    case (run max_pages routes profile st1 err)
    note ok = validate_options_ok [OF run(1)]
    have "ds_requests st \<le> sum_list (map (\<lambda>r. nat (route_limit max_pages r)) routes)"
      using route_loop_grows [OF run(6)] run(2) by (simp add: run_grows_def)
    also have "\<dots> \<le> sum_list (map (\<lambda>r. 20) routes)"
      using ok by (intro sum_list_mono) fastforce
    also have "\<dots> \<le> 320" using ok by (simp add: sum_list_triv)
    finally show ?thesis using d by simp
  qed
qed


text \<open>
  Nothing fetched is lost: after a page is merged, every listing of the page with a discovery
  key is among the results, or a listing stands for it that was kept under the same key.
\<close>
theorem merge_keeps_all:
  assumes "paired (ms_seen ms) (ms_listings ms)" and "l \<in> set page_listings"
    and "listing_discovery_key l \<noteq> []"
  shows "prefix (ms_listings ms) (ms_listings (merge_items route page 0 page_listings ms))
    \<and> (\<exists>kept \<in> set (ms_listings (merge_items route page 0 page_listings ms)).
         listing_discovery_key kept \<noteq> [] \<longrightarrow> listing_discovery_key kept = listing_discovery_key l)"
proof -
  obtain j where j: "j < length page_listings" "l = page_listings ! j"
    using assms(2) by (auto simp: in_set_conv_nth)
  let ?ms = "merge_items route page 0 page_listings ms"
  have "listing_discovery_key l \<in> set (ms_seen ?ms)"
    using merge_items_covers [of j page_listings route page 0 ms] j assms(3) by (simp add: item_key_def)
  then obtain kept where "kept \<in> set (ms_listings ?ms)" "key_fits (listing_discovery_key l) kept"
    using paired_key [OF merge_items_paired [OF assms(1)]] by blast
  then show ?thesis
    using merge_items_grows [of ms] by (auto simp: key_fits_def intro!: bexI [of _ kept])
qed

text \<open>
  Validated options are sane: between 1 and 20 pages, between 1 and 16 routes with trimmed,
  non-empty, pairwise distinct names and a page limit of their own within the maximum, and no
  negative delay or retry count.
\<close>
theorem discovery_options_validated:
  assumes "validate_discovery_options opts = Inr (max_pages, routes)"
  shows "1 \<le> max_pages \<and> max_pages \<le> 20 \<and> routes \<noteq> [] \<and> length routes \<le> 16 \<and> distinct (map rt_name routes)
    \<and> (\<forall>r \<in> set routes. rt_name r \<noteq> [] \<and> trim_space (rt_name r) = rt_name r
        \<and> 1 \<le> route_limit max_pages r \<and> route_limit max_pages r \<le> max_pages)
    \<and> 0 \<le> do_page_delay opts \<and> 0 \<le> do_request_retries opts \<and> 0 \<le> do_retry_backoff opts"
  by (rule validate_options_ok [OF assms])

section \<open>Instances\<close>

definition home :: "string \<Rightarrow> listing" where
  "home name = empty_listing\<lparr>li_id := name\<rparr>"

definition sample_page :: "listing list \<Rightarrow> search_result" where
  "sample_page ls = \<lparr>sr_listings = ls, sr_metadata = \<lparr>sm_request_id = 1, sm_current_page = 1, sm_returned = 2,
     sm_results_per_page = 2, sm_total_pages = 2, sm_total_results = 3, sm_results_hash = [], sm_relaxed_results = False\<rparr>,
     sr_raw = []\<rparr>"

text \<open>Two pages that overlap in one home; the first attempt of the second is challenged.\<close>

definition sample_env :: discovery_env where
  "sample_env = \<lparr>ev_bootstrap = (\<lambda>n. Inr sample_profile), ev_bootstrap_wait = (\<lambda>n d. None),
     ev_search = (\<lambda>p f k n. if k = 0 then Inr (sample_page [home ''1'', home ''2''])
        else if n = 0 then Inl (Sentinel ErrChallenge) else Inr (sample_page [home ''2'', home ''3''])),
     ev_page_wait = (\<lambda>k. None), ev_retry_wait = (\<lambda>k n d. None)\<rparr>"

definition sample_options :: discovery_options where
  "sample_options = \<lparr>do_routes = [\<lparr>rt_name = '' a '', rt_filters = no_filters, rt_max_pages = 0\<rparr>],
     do_max_pages = 3, do_page_delay = 1, do_request_retries = 1, do_retry_backoff = 1\<rparr>"

definition sample_coverage :: search_coverage where
  "sample_coverage = \<lparr>cv_route = ''a'', cv_pages_fetched = 2, cv_total_pages = 2, cv_total_results = 3,
     cv_unique_listings = 3, cv_complete = True\<rparr>"

lemma sample_discovery:
  "fst (discover_location sample_env sample_options) =
     Inr \<lparr>dr_listings = [home ''1'', home ''2'', home ''3''], dr_coverage = [sample_coverage], dr_issues = []\<rparr>"
  by code_simp

lemma sample_options_valid:
  "validate_discovery_options sample_options = Inr (3, [\<lparr>rt_name = ''a'', rt_filters = no_filters, rt_max_pages = 0\<rparr>])"
  by code_simp

theorem discovery_keys_distinct_witness:
  "distinct (filter (\<lambda>k. k \<noteq> []) (map listing_discovery_key [home ''1'', home ''2'', home ''3'']))"
  using discovery_keys_distinct [OF sample_discovery] by simp


theorem merge_keeps_all_witness:
  "\<exists>kept \<in> set (ms_listings (merge_items ''a'' 1 0 [home ''7'']
       \<lparr>ms_route_seen = [], ms_unique = 0, ms_new = 0, ms_seen = [], ms_listings = []\<rparr>)).
     listing_discovery_key kept \<noteq> [] \<longrightarrow> listing_discovery_key kept = ''id:7''"
proof -
  have "listing_discovery_key (home ''7'') = ''id:7''" by code_simp
  with merge_keeps_all [of "\<lparr>ms_route_seen = [], ms_unique = 0, ms_new = 0, ms_seen = [], ms_listings = []\<rparr>"
      "home ''7''" "[home ''7'']" "''a''" 1] show ?thesis by simp
qed

theorem discovery_options_validated_witness:
  "1 \<le> (3::int) \<and> (3::int) \<le> 20
    \<and> distinct (map rt_name [\<lparr>rt_name = ''a'', rt_filters = no_filters, rt_max_pages = 0\<rparr>])"
  using discovery_options_validated [OF sample_options_valid] by simp

end
