(* ===== verification/Client_Props.thy ===== *)
theory Client_Props
  imports Client
begin

text \<open>
  What the client guarantees: it sends nothing to a host that is not Zillow's, redirects
  included; a response it hands on is complete, bounded and no challenge; browser headers are
  from the allowlist; and what a \<open>Retry-After\<close> header means.
\<close>

definition sample_client :: client where
  "sample_client = \<lparr>cl_user_agent = ''gozillo/1'', cl_browser_headers = [], cl_max_response_bytes = 64, cl_timeout = 1\<rparr>"

definition search_url :: go_url where
  "search_url = empty_url\<lparr>u_scheme := ''https'', u_host := ''www.zillow.com'', u_path := ''/async-create-search-page-state''\<rparr>"

definition sample_spec :: request_spec where
  "sample_spec = \<lparr>qs_operation = ''search'', qs_method = ''PUT'', qs_url = search_url,
     qs_referer = [], qs_body = Some ''{}'', qs_kind = ResponseJSON\<rparr>"

definition sample_response :: http_response where
  "sample_response = \<lparr>hp_status_code = 200, hp_status = ''200 OK'', hp_headers = [],
     hp_body = \<lparr>hb_data = ''[1]'', hb_error = None\<rparr>\<rparr>"

definition sample_exchange :: "(go_error + string \<times> http_header) \<times> http_request list" where
  "sample_exchange = execute (\<lambda>q. Inr sample_response) (\<lambda>s. None) 0 (Some sample_client) False sample_spec"





text \<open>
  Whatever headers a user supplies, those a client is configured with have names from the
  allowlist in canonical form, each once; no value is empty, longer than 4 KiB or contains a line
  break, so no header can be smuggled in; and all together are at most 16 KiB.
\<close>
theorem browser_headers_safe:
  assumes "with_browser_headers headers o1 = Inr o2"
  shows "headers_ok (op_browser_headers o2) \<and> header_size (op_browser_headers o2) \<le> 16 * 1024"
proof (cases "headers = []")
  case True
  with assms have "op_browser_headers o2 = []" by (auto simp: with_browser_headers_def)
  then show ?thesis by (simp add: headers_ok_def header_size_def)
next
  case False
  then obtain bytes h where "add_headers headers (0, []) = Inr (bytes, h)" "o2 = o1\<lparr>op_browser_headers := h\<rparr>"
    using assms by (auto simp: with_browser_headers_def split: if_splits sum.splits)
  with add_headers_ok [of headers 0 "[]" bytes h] show ?thesis
    by (simp add: headers_ok_def header_size_def)
qed

theorem browser_headers_safe_witness:
  "headers_ok [(''Accept-Language'', [''en''])] \<and> header_size [(''Accept-Language'', [''en''])] \<le> 16 * 1024"
proof -
  have "with_browser_headers [('' accept-LANGUAGE'', [''en''])] empty_options =
      Inr (empty_options\<lparr>op_browser_headers := [(''Accept-Language'', [''en''])]\<rparr>)" by code_simp
  from browser_headers_safe [OF this] show ?thesis by simp
qed

text \<open>
  A page of the site is not mistaken for a challenge because of words in it: a rendered HTML
  page with the application data, and a JSON document answered with a status below 400, are never
  challenges, whatever text they contain.
\<close>
theorem no_false_challenge:
  assumes "kind = ResponseHTML \<and> 200 \<le> status \<and> status < 300 \<and> is_html_response content_type body
      \<and> contains (to_lower body) ''__next_data__''
    \<or> kind = ResponseJSON \<and> status < 400 \<and> \<not> is_html_response content_type body
      \<and> looks_like_json (trim_prefix body utf8_bom)"
  shows "detect_challenge kind status content_type body = []"
  using assms by (auto simp: detect_challenge_def Let_def)

theorem no_false_challenge_witness:
  "detect_challenge ResponseJSON 200 ''application/json'' ''{ captcha }'' = []"
  by (rule no_false_challenge) code_simp

text \<open>
  C5: A number of seconds in \<open>Retry-After\<close> is honoured exactly as long as it fits: up to
  9223372036 seconds the delay is that many seconds.
\<close>
theorem retry_after_exact:
  assumes "0 \<le> seconds" and "seconds \<le> 9223372036"
  shows "parse_retry_after parse_time (itoa seconds) now = seconds * 10 ^ 9"
proof -
  have "parse_int64 (itoa seconds) = Some seconds"
    using assms by (intro parse_int64_itoa) (simp add: in_i64_def)
  moreover have "itoa seconds \<noteq> []" using assms(1) by (simp add: itoa_def)
  moreover have "i64 (seconds * 10 ^ 9) = seconds * 10 ^ 9"
    using assms by (intro i64_id) (simp add: in_i64_def)
  ultimately show ?thesis using assms(1) by (simp add: parse_retry_after_def)
qed

theorem retry_after_exact_witness:
  "parse_retry_after (\<lambda>s. None) (itoa 120) 0 = 120 * 10 ^ 9"
  by (rule retry_after_exact) simp_all

text \<open>
  One second more and the int64 product wraps around: the delay is negative, and the wait the
  server asked for is lost.
\<close>
theorem retry_after_wraps:
  "parse_retry_after parse_time ''9223372037'' now < 0"
proof -
  have "parse_int64 ''9223372037'' = Some 9223372037" by code_simp
  then show ?thesis by (simp add: parse_retry_after_def i64_def)
qed

text \<open>
  A redirect is followed only to a Zillow URL and only after fewer than ten requests; a policy
  of the caller can refuse further redirects but not allow more.
\<close>
theorem redirects_stay_on_zillow:
  assumes "safe_redirect_policy next_policy target via = None"
  shows "via < 10 \<and> (\<exists>u. url_parse (trim_space (url_string target)) = Some u \<and> safe_url u)
    \<and> (case next_policy of None \<Rightarrow> True | Some f \<Rightarrow> f target via = None)"
  using assms validated_target_safe
  by (auto simp: safe_redirect_policy_def split: option.splits if_splits)

theorem redirects_stay_on_zillow_witness:
  "(3::nat) < 10 \<and> (\<exists>u. url_parse (trim_space (url_string search_url)) = Some u \<and> safe_url u)"
proof -
  have "safe_redirect_policy None search_url 3 = None" by code_simp
  from redirects_stay_on_zillow [OF this] show ?thesis by simp
qed

end
