(* ===== verification/History.thy ===== *)
theory History
  imports Models Prelude
begin

text \<open>
  The history of a listing across digests (\<open>internal/zillow/history.go\<close>): current listings are
  labeled against a previous result set, matched by ID, then URL, then address. The index is a
  Go map from keys to listings; it is only read by key, so its order does not matter.
\<close>

section \<open>Keys and changes\<close>

definition history_new :: string where "history_new = ''new-to-digest''"
definition history_changed :: string where "history_changed = ''previously-surfaced-changed''"
definition history_active :: string where "history_active = ''previously-surfaced-still-active''"
definition laundry_in_unit :: string where "laundry_in_unit = ''in-unit''"

text \<open>Lower case, with runs of white space made one space.\<close>

definition normalize_history_value :: "string \<Rightarrow> string" where
  "normalize_history_value v = to_lower (join '' '' (text_fields v))"

definition listing_history_keys :: "listing \<Rightarrow> string list" where
  "listing_history_keys l =
     (if trim_space (li_id l) \<noteq> [] then [''id:'' @ trim_space (li_id l)] else [])
     @ (if trim_space (li_url l) \<noteq> [] then [''url:'' @ trim_space (li_url l)] else [])
     @ (let a = to_lower (join '' '' (text_fields (ad_full (li_address l)))) in if a \<noteq> [] then [''address:'' @ a] else [])"

fun append_money_change :: "string list \<Rightarrow> string \<Rightarrow> int option \<Rightarrow> int option \<Rightarrow> string list" where
  "append_money_change changes label None None = changes"
| "append_money_change changes label None (Some c) = changes @ [label @ '' confirmed'']"
| "append_money_change changes label (Some p) None = changes @ [label @ '' became unknown'']"
| "append_money_change changes label (Some p) (Some c) =
     (if c < p then changes @ [label @ '' decreased'']
      else if c > p then changes @ [label @ '' increased''] else changes)"

definition equal_float_pointers :: "rat option \<Rightarrow> rat option \<Rightarrow> bool" where
  "equal_float_pointers l r =
     (case (l, r) of (Some a, Some b) \<Rightarrow> a = b | _ \<Rightarrow> l = None \<and> r = None)"

text \<open>The distinct normalized values, sorted: the order of the map does not show.\<close>

definition normalized_string_set :: "string list \<Rightarrow> string list" where
  "normalized_string_set vs =
     sort_stable string_less (remdups (filter (\<lambda>v. v \<noteq> []) (map normalize_history_value vs)))"

definition equal_string_sets :: "string list \<Rightarrow> string list \<Rightarrow> bool" where
  "equal_string_sets l r \<longleftrightarrow> normalized_string_set l = normalized_string_set r"

definition meaningful_listing_changes :: "listing \<Rightarrow> listing \<Rightarrow> string list" where
  "meaningful_listing_changes previous current =
     (let c1 = append_money_change [] ''price'' (li_price previous) (li_price current);
          c2 = append_money_change c1 ''total monthly cost'' (li_total_cost previous) (li_total_cost current);
          c3 = append_money_change c2 ''required monthly fees'' (li_required_fees previous) (li_required_fees current);
          c4 = (if trim_space (li_availability previous) \<noteq> trim_space (li_availability current)
                then c3 @ [''availability changed''] else c3);
          c5 = (if \<not> equal_float_pointers (li_bedrooms previous) (li_bedrooms current)
                then c4 @ [''bedroom count changed''] else c4);
          c6 = (if \<not> equal_float_pointers (li_bathrooms previous) (li_bathrooms current)
                then c5 @ [''bathroom count changed''] else c5);
          pl = normalize_history_value (li_laundry previous);
          cl = normalize_history_value (li_laundry current);
          c7 = (if pl \<noteq> cl
                then c6 @ [if cl = laundry_in_unit \<and> pl \<noteq> laundry_in_unit
                           then ''in-unit laundry confirmed'' else ''laundry details changed'']
                else c6);
          c8 = (if \<not> equal_string_sets (li_flex_spaces previous) (li_flex_spaces current)
                then c7 @ [''flex details changed''] else c7)
      in if normalize_history_value (li_status previous) \<noteq> normalize_history_value (li_status current)
         then c8 @ [''rental status changed''] else c8)"

section \<open>Annotating\<close>

text \<open>\<open>if \_, exists := index[key]; !exists \{ index[key] = listing \}\<close> for the keys of a listing.\<close>

fun index_keys :: "listing \<Rightarrow> string list \<Rightarrow> (string \<times> listing) list \<Rightarrow> (string \<times> listing) list" where
  "index_keys l [] index = index"
| "index_keys l (k # ks) index =
     index_keys l ks (if map_of index k = None then (k, l) # index else index)"

fun history_index :: "listing list \<Rightarrow> (string \<times> listing) list \<Rightarrow> (string \<times> listing) list" where
  "history_index [] index = index"
| "history_index (l # ls) index = history_index ls (index_keys l (listing_history_keys l) index)"

fun find_prior :: "(string \<times> listing) list \<Rightarrow> string list \<Rightarrow> listing option" where
  "find_prior index [] = None"
| "find_prior index (k # ks) =
     (case map_of index k of Some l \<Rightarrow> Some l | None \<Rightarrow> find_prior index ks)"

definition annotate_one :: "(string \<times> listing) list \<Rightarrow> listing \<Rightarrow> listing" where
  "annotate_one index l =
     (let l0 = l\<lparr>li_history_changes := []\<rparr> in
      case find_prior index (listing_history_keys l0) of
        None \<Rightarrow> l0\<lparr>li_history_status := history_new\<rparr>
      | Some prior \<Rightarrow>
          (let l1 = l0\<lparr>li_history_changes := meaningful_listing_changes prior l0\<rparr>
           in l1\<lparr>li_history_status := (if li_history_changes l1 = [] then history_active else history_changed)\<rparr>))"

definition annotate_listing_history :: "listing list \<Rightarrow> listing list \<Rightarrow> listing list" where
  "annotate_listing_history current previous = map (annotate_one (history_index previous [])) current"

section \<open>The index holds the first listing of every key\<close>

lemma index_keys_lookup:
  "map_of (index_keys l ks index) k =
     (case map_of index k of Some l' \<Rightarrow> Some l' | None \<Rightarrow> if k \<in> set ks then Some l else None)"
  by (induction l ks index rule: index_keys.induct) (auto split: option.splits)

lemma history_index_lookup:
  "map_of (history_index ls index) k =
     (case map_of index k of Some l \<Rightarrow> Some l | None \<Rightarrow> find (\<lambda>l. k \<in> set (listing_history_keys l)) ls)"
  by (induction ls index rule: history_index.induct) (auto simp: index_keys_lookup split: option.splits)

interpretation text_order: weak_less string_less
proof
  fix x y z :: string
  show "\<not> string_less x x" by simp
  show "string_less x y \<Longrightarrow> string_less y z \<Longrightarrow> string_less x z" by (rule string_less_trans)
  show "\<not> string_less x y \<Longrightarrow> \<not> string_less y z \<Longrightarrow> \<not> string_less x z"
    using string_less_total string_less_trans by metis
qed

text \<open>Sorting makes a set canonical.\<close>

lemma sorted_unique:
  "sorted_wrt (\<lambda>x y. \<not> string_less y x) xs \<Longrightarrow> sorted_wrt (\<lambda>x y. \<not> string_less y x) ys \<Longrightarrow>
   distinct xs \<Longrightarrow> distinct ys \<Longrightarrow> set xs = set ys \<Longrightarrow> xs = ys"
proof (induction xs arbitrary: ys)
  case Nil
  then show ?case by simp
next
  case (Cons x xs)
  then obtain y ys' where ys: "ys = y # ys'" by (cases ys) auto
  have "x = y"
  proof (rule ccontr)
    assume ne: "x \<noteq> y"
    then have "y \<in> set xs" "x \<in> set ys'" using Cons.prems(5) ys by auto
    then have "\<not> string_less y x" "\<not> string_less x y" using Cons.prems(1,2) ys by auto
    then show False using string_less_total [OF ne] by blast
  qed
  then have "set xs = set ys'" using Cons.prems(3-5) ys by auto
  then show ?case using Cons ys \<open>x = y\<close> by simp
qed

lemma equal_string_sets_iff:
  "equal_string_sets l r \<longleftrightarrow>
     set (map normalize_history_value l) - {[]} = set (map normalize_history_value r) - {[]}"
proof -
  have s: "set (normalized_string_set vs) = set (map normalize_history_value vs) - {[]}" for vs
    by (auto simp: normalized_string_set_def)
  have d: "distinct (normalized_string_set vs)" for vs
    unfolding normalized_string_set_def by (metis distinct_remdups mset_eq_imp_distinct_iff mset_sort_stable)
  show ?thesis
    unfolding equal_string_sets_def s [symmetric]
    using sorted_unique [OF _ _ d d] text_order.sorted_sort_stable
    by (metis normalized_string_set_def)
qed

lemma append_money_change_same: "append_money_change cs label p p = cs"
  by (cases p) simp_all

lemma no_changes_to_self: "meaningful_listing_changes l l = []"
  by (simp add: meaningful_listing_changes_def Let_def append_money_change_same equal_float_pointers_def
      equal_string_sets_def split: option.splits)

lemma history_keys_cong [simp]:
  "listing_history_keys (l\<lparr>li_history_changes := c\<rparr>) = listing_history_keys l"
  by (simp add: listing_history_keys_def)

lemma changes_cong [simp]:
  "meaningful_listing_changes p (l\<lparr>li_history_changes := c\<rparr>) = meaningful_listing_changes p l"
  by (simp add: meaningful_listing_changes_def)

text \<open>What the label of a listing says, with the index unfolded.\<close>

lemma find_prior_first:
  "find_prior (history_index previous []) ks =
     (case filter (\<lambda>k. \<exists>p \<in> set previous. k \<in> set (listing_history_keys p)) ks of
        [] \<Rightarrow> None
      | k # _ \<Rightarrow> find (\<lambda>p. k \<in> set (listing_history_keys p)) previous)"
proof (induction ks)
  case Nil
  then show ?case by simp
next
  case (Cons k ks)
  have "find (\<lambda>p. k \<in> set (listing_history_keys p)) previous = None \<longleftrightarrow>
      \<not> (\<exists>p \<in> set previous. k \<in> set (listing_history_keys p))"
    by (auto simp: find_None_iff)
  then show ?case
    using Cons by (auto simp: history_index_lookup split: option.splits)
qed

section \<open>Properties\<close>

text \<open>
  Annotating relabels and does nothing else: the listings come back in the same order, each
  with every field but the two history fields unchanged.
\<close>
theorem annotate_only_labels:
  "map (\<lambda>l. l\<lparr>li_history_status := [], li_history_changes := []\<rparr>) (annotate_listing_history current previous)
   = map (\<lambda>l. l\<lparr>li_history_status := [], li_history_changes := []\<rparr>) current"
  by (simp add: annotate_listing_history_def annotate_one_def Let_def comp_def split: option.split)

text \<open>
  A listing is new exactly when no previous listing has one of its keys; otherwise it is
  compared with the first previous listing that has its strongest known key (ID before URL before
  address), and its label says whether anything meaningful changed.
\<close>
theorem annotate_label:
  assumes "l \<in> set current"
  shows "\<exists>l' \<in> set (annotate_listing_history current previous).
    (li_history_status l' = history_new \<longleftrightarrow>
       (\<forall>p \<in> set previous. set (listing_history_keys p) \<inter> set (listing_history_keys l) = {}))
    \<and> (\<forall>k p. k \<in> set (listing_history_keys l) \<and> find (\<lambda>p. k \<in> set (listing_history_keys p)) previous = Some p
         \<and> hd (filter (\<lambda>k. \<exists>p \<in> set previous. k \<in> set (listing_history_keys p)) (listing_history_keys l)) = k \<longrightarrow>
         li_history_changes l' = meaningful_listing_changes p l
         \<and> (li_history_status l' = history_active \<longleftrightarrow> meaningful_listing_changes p l = [])
         \<and> (li_history_status l' = history_changed \<longleftrightarrow> meaningful_listing_changes p l \<noteq> []))"
proof -
  let ?ks = "filter (\<lambda>k. \<exists>p \<in> set previous. k \<in> set (listing_history_keys p)) (listing_history_keys l)"
  let ?l = "annotate_one (history_index previous []) l"
  have mem: "?l \<in> set (annotate_listing_history current previous)"
    using assms by (simp add: annotate_listing_history_def)
  have names: "history_new \<noteq> history_active" "history_new \<noteq> history_changed" "history_active \<noteq> history_changed"
    by (simp_all add: history_new_def history_active_def history_changed_def)
  show ?thesis
  proof (cases ?ks)
    case Nil
    then have none: "\<forall>p \<in> set previous. set (listing_history_keys p) \<inter> set (listing_history_keys l) = {}"
      by (auto simp: filter_empty_conv)
    have "find (\<lambda>p. k \<in> set (listing_history_keys p)) previous = None" if "k \<in> set (listing_history_keys l)" for k
      using none that by (auto simp: find_None_iff)
    moreover have "li_history_status ?l = history_new"
      by (simp add: annotate_one_def find_prior_first Nil)
    ultimately show ?thesis using mem none by (intro bexI [OF _ mem]) auto
  next
    case (Cons k ks)
    then have "k \<in> set ?ks" by simp
    then have k: "k \<in> set (listing_history_keys l)" "\<exists>p \<in> set previous. k \<in> set (listing_history_keys p)"
      by simp_all
    then obtain p where p: "find (\<lambda>p. k \<in> set (listing_history_keys p)) previous = Some p"
      by (metis find_None_iff not_None_eq)
    have one: "li_history_changes ?l = meaningful_listing_changes p l"
      "li_history_status ?l = (if meaningful_listing_changes p l = [] then history_active else history_changed)"
      by (simp_all add: annotate_one_def find_prior_first Cons p Let_def)
    have "li_history_status ?l \<noteq> history_new" using one(2) names by (simp split: if_splits)
    then show ?thesis using mem k one names p Cons by (intro bexI [OF _ mem]) auto
  qed
qed

definition sample_home :: listing where
  "sample_home = empty_listing\<lparr>li_id := ''1'', li_price := Some 10\<rparr>"

theorem annotate_label_witness:
  "\<exists>l' \<in> set (annotate_listing_history [sample_home] [sample_home\<lparr>li_price := Some 12\<rparr>]).
     li_history_status l' \<noteq> history_new"
proof -
  have "set (listing_history_keys (sample_home\<lparr>li_price := Some 12\<rparr>)) \<inter> set (listing_history_keys sample_home) \<noteq> {}"
    by code_simp
  then show ?thesis
    using annotate_label [of sample_home "[sample_home]" "[sample_home\<lparr>li_price := Some 12\<rparr>]"] by fastforce
qed

text \<open>
  Running the same digest twice reports no change: when a listing has a key and no other
  listing of the previous digest shares one, comparing it with itself labels it as still active.
\<close>
theorem unchanged_listing_still_active:
  assumes "l \<in> set previous" and "listing_history_keys l \<noteq> []"
    and "\<And>p. p \<in> set previous \<Longrightarrow> set (listing_history_keys p) \<inter> set (listing_history_keys l) \<noteq> {} \<Longrightarrow> p = l"
  shows "annotate_listing_history [l] previous = [l\<lparr>li_history_changes := [], li_history_status := history_active\<rparr>]"
proof -
  obtain k ks where k: "listing_history_keys l = k # ks" using assms(2) by (cases "listing_history_keys l") auto
  obtain p where p: "find (\<lambda>p. k \<in> set (listing_history_keys p)) previous = Some p"
    using assms(1) k by (metis find_None_iff list.set_intros(1) not_None_eq)
  then have "p \<in> set previous" "k \<in> set (listing_history_keys p)"
    by (auto simp: find_Some_iff)
  then have "p = l" using assms(3) k by auto
  moreover have "find_prior (history_index previous []) (listing_history_keys l) = Some p"
    using p by (simp add: k history_index_lookup)
  ultimately show ?thesis
    by (simp add: annotate_listing_history_def annotate_one_def Let_def no_changes_to_self)
qed

theorem unchanged_listing_still_active_witness:
  "annotate_listing_history [sample_home] [sample_home] =
     [sample_home\<lparr>li_history_changes := [], li_history_status := history_active\<rparr>]"
  by (rule unchanged_listing_still_active) (simp_all add: listing_history_keys_def sample_home_def, code_simp)

text \<open>
  Feature lists are compared as sets of normalized values: order, repetition, capitals and
  spacing make no difference, and blank values do not count.
\<close>
theorem feature_sets_compared:
  "equal_string_sets l r \<longleftrightarrow>
     normalize_history_value ` set l - {[]} = normalize_history_value ` set r - {[]}"
  by (simp add: equal_string_sets_iff)

end
