(* ===== verification/Location_Filter.thy ===== *)
theory Location_Filter
  imports Models Prelude "HOL-Library.AList"
begin

text \<open>
  The location boundary of a search (\<open>internal/cli/search_location_filter.go\<close>): which listings
  lie in the queried place. Sets of cities are lists of their elements. Letters and digits are
  ASCII here; the program also accepts those of other scripts.
\<close>

section \<open>Names and queries\<close>

text \<open>The loop of \<open>normalizeCityName\<close>: is a space pending, is anything written yet.\<close>

fun city_from :: "bool \<Rightarrow> bool \<Rightarrow> string \<Rightarrow> string" where
  "city_from pending written [] = []"
| "city_from pending written (c # cs) =
     (if is_letter c \<or> is_digit c
      then (if pending \<and> written then [CHR '' ''] else []) @ [lower c] @ city_from False True cs
      else city_from True written cs)"

definition normalize_city_name :: "string \<Rightarrow> string" where
  "normalize_city_name v = city_from False False (trim_space v)"

definition location_postal_code :: "string \<Rightarrow> string option" where
  "location_postal_code v0 =
     (let v = trim_space v0 in if length v = 5 \<and> list_all is_digit v then Some v else None)"

text \<open>The city and the two-letter state of a query; both are empty when it has no such form.\<close>

definition location_query_city :: "string \<Rightarrow> string \<times> string" where
  "location_query_city v =
     (let fs = text_fields (trim_space v) in
      if length fs < 2 then ([], [])
      else
        (let state = to_upper (last fs) in
         if length state \<noteq> 2 \<or> \<not> list_all is_upper state then ([], [])
         else (normalize_city_name (join '' '' (butlast fs)), state)))"

record boundary_options =
  bo_strict :: bool
  bo_allowed_cities :: "string list"
  bo_city_aliases :: "(string \<times> string list) list"

fun add_cities :: "string list \<Rightarrow> string list \<Rightarrow> string + string list" where
  "add_cities [] acc = Inr acc"
| "add_cities (p # ps) acc =
     (let part = normalize_city_name p in
      if part = [] then Inl ''allowed city must not be empty'' else add_cities ps (List.insert part acc))"

fun parse_allowed_from :: "string list \<Rightarrow> string list \<Rightarrow> string + string list" where
  "parse_allowed_from [] acc = Inr acc"
| "parse_allowed_from (v # vs) acc =
     (case add_cities (split_byte CHR '','' v) acc of Inl msg \<Rightarrow> Inl msg | Inr acc' \<Rightarrow> parse_allowed_from vs acc')"

definition parse_allowed_cities :: "string list \<Rightarrow> string + string list" where
  "parse_allowed_cities vs = parse_allowed_from vs []"

text \<open>Split at the last \<open>=\<close>.\<close>

definition cut_last_equals :: "string \<Rightarrow> (string \<times> string) option" where
  "cut_last_equals s =
     (case cut_byte CHR ''='' (rev s) of (after, before, found) \<Rightarrow> if found then Some (rev before, rev after) else None)"

definition add_alias :: "string \<Rightarrow> string \<Rightarrow> (string \<times> string list) list \<Rightarrow> (string \<times> string list) list" where
  "add_alias query city aliases =
     (let cities = (case map_of aliases query of None \<Rightarrow> [] | Some cs \<Rightarrow> cs)
      in if city \<in> set cities then aliases else AList.update query (cities @ [city]) aliases)"

fun parse_aliases_from :: "string list \<Rightarrow> (string \<times> string list) list \<Rightarrow> string + (string \<times> string list) list" where
  "parse_aliases_from [] acc = Inr acc"
| "parse_aliases_from (v # vs) acc =
     (case cut_last_equals v of
        None \<Rightarrow> Inl (''invalid city alias '' @ quote v @ '' (want QUERY=CITY)'')
      | Some (before, after) \<Rightarrow>
          if before = [] \<or> after = [] then Inl (''invalid city alias '' @ quote v @ '' (want QUERY=CITY)'')
          else
            (let query = to_lower (trim_space before); city = normalize_city_name after
             in if query = [] \<or> city = [] then Inl (''invalid city alias '' @ quote v)
                else parse_aliases_from vs (add_alias query city acc)))"

definition parse_location_city_aliases :: "string list \<Rightarrow> string + (string \<times> string list) list" where
  "parse_location_city_aliases vs = parse_aliases_from vs []"

section \<open>The filter\<close>

definition expected_cities :: "string \<Rightarrow> boundary_options \<Rightarrow> string list" where
  "expected_cities query opts =
     (let city = fst (location_query_city query)
      in (if city \<noteq> [] then [city] else [])
         @ (case map_of (bo_city_aliases opts) (to_lower (trim_space query)) of None \<Rightarrow> [] | Some cs \<Rightarrow> cs))"

text \<open>The body of the loop: does the listing pass every check.\<close>

definition within_boundary :: "string \<Rightarrow> boundary_options \<Rightarrow> bool \<Rightarrow> listing \<Rightarrow> bool" where
  "within_boundary query opts allow_unknown l =
     (let city = normalize_city_name (ad_city (li_address l));
          state = trim_space (ad_state (li_address l));
          query_state = snd (location_query_city query);
          expected = expected_cities query opts
      in if bo_allowed_cities opts \<noteq> [] \<and> \<not> (allow_unknown \<and> city = []) \<and> city \<notin> set (bo_allowed_cities opts) then False
         else if query_state \<noteq> [] \<and> \<not> (allow_unknown \<and> state = []) \<and> \<not> equal_fold state query_state then False
         else if bo_strict opts then
           (case location_postal_code query of
              Some postal \<Rightarrow>
                (let actual = trim_space (ad_postal_code (li_address l))
                 in \<not> (\<not> (allow_unknown \<and> actual = []) \<and> actual \<noteq> postal))
            | None \<Rightarrow> if expected \<noteq> [] then (allow_unknown \<and> city = []) \<or> city \<in> set expected else True)
         else True)"

definition filter_by_location_boundary :: "listing list \<Rightarrow> string \<Rightarrow> boundary_options \<Rightarrow> bool \<Rightarrow> listing list" where
  "filter_by_location_boundary ls query opts allow_unknown =
     (if \<not> bo_strict opts \<and> bo_allowed_cities opts = [] then ls
      else filter (within_boundary query opts allow_unknown) ls)"

section \<open>Normal forms\<close>

lemma lower_letter [simp]: "is_letter (lower c) = is_letter c" "is_digit (lower c) = is_digit c"
  by (auto simp: is_letter_def is_digit_def is_lower_def is_upper_def byte_lower)

lemma alnum_not_space: "is_letter c \<or> is_digit c \<Longrightarrow> \<not> is_space c"
  by (auto simp: is_letter_def is_digit_def is_lower_def is_upper_def is_space_def)

lemma city_from_idem: "city_from False written (city_from pending written s) = city_from pending written s"
proof (induction s arbitrary: pending written)
  case Nil
  then show ?case by simp
next
  case (Cons c s)
  have "\<not> is_letter CHR '' ''" "\<not> is_digit CHR '' ''" by (simp_all add: is_letter_def is_digit_def is_lower_def is_upper_def)
  with Cons show ?case by auto
qed

lemma city_from_ends:
  "city_from pending written s \<noteq> [] \<Longrightarrow>
     \<not> is_space (last (city_from pending written s)) \<and> (\<not> written \<longrightarrow> \<not> is_space (hd (city_from pending written s)))"
  by (induction s arbitrary: pending written) (auto simp: alnum_not_space split: if_splits)

lemma trim_space_ends: "\<not> is_space (hd s) \<Longrightarrow> \<not> is_space (last s) \<Longrightarrow> trim_space s = s"
proof (cases "s = []")
  case False
  assume a: "\<not> is_space (hd s)" "\<not> is_space (last s)"
  have "dropWhile is_space s = s" using a(1) False by (simp add: dropWhile_eq_self_iff)
  moreover have "dropWhile is_space (rev s) = rev s" using a(2) False by (simp add: dropWhile_eq_self_iff hd_rev)
  ultimately show ?thesis by (simp add: trim_space_def trim_left_def trim_right_def)
qed (simp add: trim_space_def trim_left_def trim_right_def)

lemma normalize_city_name_idem: "normalize_city_name (normalize_city_name v) = normalize_city_name v"
proof (cases "normalize_city_name v = []")
  case True
  then show ?thesis by (simp add: normalize_city_name_def trim_space_def trim_left_def trim_right_def)
next
  case False
  then have "trim_space (normalize_city_name v) = normalize_city_name v"
    using city_from_ends [of False False "trim_space v"] by (intro trim_space_ends) (simp_all add: normalize_city_name_def)
  then show ?thesis
    by (metis normalize_city_name_def city_from_idem)
qed

lemma city_from_lower: "city_from pending written (map lower s) = city_from pending written s"
  by (induction s arbitrary: pending written) simp_all

lemma add_cities_ok:
  "add_cities ps acc = Inr acc' \<Longrightarrow> set acc' = set acc \<union> normalize_city_name ` set ps \<and> (\<forall>p \<in> set ps. normalize_city_name p \<noteq> [])"
  by (induction ps arbitrary: acc) (auto simp: Let_def split: if_splits)

lemma parse_allowed_from_ok:
  "parse_allowed_from vs acc = Inr acc' \<Longrightarrow>
   set acc' = set acc \<union> normalize_city_name ` (\<Union>v \<in> set vs. set (split_byte CHR '','' v))
   \<and> (\<forall>v \<in> set vs. \<forall>p \<in> set (split_byte CHR '','' v). normalize_city_name p \<noteq> [])"
proof (induction vs arbitrary: acc)
  case Nil
  then show ?case by simp
next
  case (Cons v vs)
  then obtain acc1 where "add_cities (split_byte CHR '','' v) acc = Inr acc1" "parse_allowed_from vs acc1 = Inr acc'"
    by (auto split: sum.splits)
  with Cons.IH [of acc1] add_cities_ok show ?case by fastforce
qed

section \<open>Properties\<close>

text \<open>
  City names are compared in a normal form: normalizing twice is the same as once, and neither
  capitals nor the punctuation between words matter to the form.
\<close>
theorem city_name_normal_form:
  "normalize_city_name (normalize_city_name v) = normalize_city_name v
   \<and> normalize_city_name (to_lower v) = normalize_city_name v"
proof -
  have "trim_space (map lower v) = map lower (trim_space v)"
    by (simp add: trim_space_def trim_left_def trim_right_def dropWhile_map rev_map comp_def)
  then show ?thesis
    by (simp add: normalize_city_name_idem to_lower_def) (simp add: normalize_city_name_def city_from_lower)
qed

text \<open>
  The allowed cities are exactly the comma-separated names given, in normal form, and none of
  them is empty.
\<close>
theorem allowed_cities_exact:
  assumes "parse_allowed_cities vs = Inr cities"
  shows "set cities = normalize_city_name ` (\<Union>v \<in> set vs. set (split_byte CHR '','' v)) \<and> [] \<notin> set cities"
proof -
  note ok = parse_allowed_from_ok [of vs "[]" cities] assms [unfolded parse_allowed_cities_def]
  then have eq: "set cities = normalize_city_name ` (\<Union>v \<in> set vs. set (split_byte CHR '','' v))" by simp
  moreover have "[] \<notin> set cities" unfolding eq using ok by (metis (no_types, lifting) UN_E imageE)
  ultimately show ?thesis ..
qed

theorem allowed_cities_exact_witness:
  "set [''kirkland'', ''san jose''] = normalize_city_name ` (\<Union>v \<in> set [''San  Jose,KIRKLAND'']. set (split_byte CHR '','' v))"
proof -
  have "parse_allowed_cities [''San  Jose,KIRKLAND''] = Inr [''kirkland'', ''san jose'']" by code_simp
  from allowed_cities_exact [OF this] show ?thesis by blast
qed

text \<open>
  The boundary only ever drops listings, in place: the result is a subsequence of the input,
  filtering again changes nothing, and admitting listings with unknown places can only keep more.
\<close>
theorem boundary_filter_shrinks:
  "subseq (filter_by_location_boundary ls query opts allow_unknown) ls
   \<and> filter_by_location_boundary (filter_by_location_boundary ls query opts allow_unknown) query opts allow_unknown
       = filter_by_location_boundary ls query opts allow_unknown
   \<and> set (filter_by_location_boundary ls query opts False) \<subseteq> set (filter_by_location_boundary ls query opts True)"
proof -
  have "within_boundary query opts False l \<Longrightarrow> within_boundary query opts True l" for l
    by (auto simp: within_boundary_def Let_def split: option.splits if_splits)
  then show ?thesis
    by (auto simp: filter_by_location_boundary_def subseq_filter_left)
qed

text \<open>
  With a strict boundary on a ZIP code and no unknown places, every listing that is kept has
  that ZIP code; on a city query, a city that was asked for or is an alias of it, and the state of
  the query.
\<close>
theorem strict_boundary_sound:
  assumes "bo_strict opts" and "l \<in> set (filter_by_location_boundary ls query opts False)"
  shows "(\<forall>zip. location_postal_code query = Some zip \<longrightarrow> trim_space (ad_postal_code (li_address l)) = zip)
    \<and> (location_postal_code query = None \<and> expected_cities query opts \<noteq> [] \<longrightarrow>
         normalize_city_name (ad_city (li_address l)) \<in> set (expected_cities query opts))
    \<and> (snd (location_query_city query) \<noteq> [] \<longrightarrow>
         equal_fold (trim_space (ad_state (li_address l))) (snd (location_query_city query)))"
  using assms
  by (auto simp: filter_by_location_boundary_def within_boundary_def Let_def split: if_splits option.splits)

definition sample_place :: listing where
  "sample_place = empty_listing\<lparr>li_address := empty_address\<lparr>ad_city := ''San Jose'', ad_state := ''ca''\<rparr>\<rparr>"

theorem strict_boundary_sound_witness:
  "equal_fold (trim_space (ad_state (li_address sample_place))) (snd (location_query_city ''San Jose CA''))"
proof -
  let ?opts = "\<lparr>bo_strict = True, bo_allowed_cities = [], bo_city_aliases = []\<rparr>"
  have "within_boundary ''San Jose CA'' ?opts False sample_place" by code_simp
  then have "sample_place \<in> set (filter_by_location_boundary [sample_place] ''San Jose CA'' ?opts False)"
    by (simp add: filter_by_location_boundary_def)
  moreover have "snd (location_query_city ''San Jose CA'') \<noteq> []" by code_simp
  ultimately show ?thesis using strict_boundary_sound [of ?opts sample_place] by simp
qed

end
