(* ===== verification/Format.thy ===== *)
theory Format
  imports Discovery
begin

text \<open>
  Text the program prints: numbers and addresses (\<open>internal/cli/format.go\<close>), the version
  (\<open>internal/cli/version.go\<close>), the checks of a result table (\<open>internal/output/output.go\<close>), and
  the estimate of a search plan (\<open>internal/cli/search_progress.go\<close>, with the page override of
  \<open>internal/cli/search_discovery.go\<close>).
\<close>

section \<open>Numbers and addresses\<close>

definition non_empty_strings :: "string list \<Rightarrow> string list" where
  "non_empty_strings vs = filter (\<lambda>v. v \<noteq> []) (map trim_space vs)"

definition format_address :: "address \<Rightarrow> string" where
  "format_address a =
     (if trim_space (ad_full a) \<noteq> [] then ad_full a
      else
        (let locality = trim_space (join '' '' (non_empty_strings [ad_city a, ad_state a, ad_postal_code a]))
         in join '', '' (non_empty_strings [ad_street a, locality])))"

text \<open>The loop of \<open>commaInt\<close>: a comma before every third digit from the right; the index ends at 0.\<close>

fun comma_loop :: "nat \<Rightarrow> string \<Rightarrow> string" where
  "comma_loop i ds =
     (if i = 0 then ds else comma_loop (i - 3) (take i ds @ '','' @ drop i ds))"

declare comma_loop.simps [simp del]

definition comma_int :: "int \<Rightarrow> string" where
  "comma_int v =
     (let sign = (if v < 0 then ''-'' else []);
          digits = itoa (if v < 0 then i64 (- v) else v)
      in sign @ comma_loop (length digits - 3) digits)"

definition format_money :: "int option \<Rightarrow> string \<Rightarrow> string" where
  "format_money v fallback = (case v of None \<Rightarrow> fallback | Some n \<Rightarrow> ''$'' @ comma_int n)"

definition format_integer :: "int option \<Rightarrow> string" where
  "format_integer v = (case v of None \<Rightarrow> [] | Some n \<Rightarrow> comma_int n)"

definition format_plain_integer :: "int option \<Rightarrow> string" where
  "format_plain_integer v = (case v of None \<Rightarrow> [] | Some n \<Rightarrow> itoa n)"

definition format_float :: "rat option \<Rightarrow> string" where
  "format_float v = (case v of None \<Rightarrow> [] | Some x \<Rightarrow> format_rat x)"

section \<open>The version\<close>

text \<open>The loop over the linked and the module version.\<close>

fun first_version :: "string list \<Rightarrow> string option" where
  "first_version [] = None"
| "first_version (v # vs) =
     (let c = trim_space v in
      if c = [] \<or> c = ''(devel)'' then first_version vs else Some (trim_prefix c ''v''))"

definition resolve_version :: "string \<Rightarrow> string \<Rightarrow> string \<Rightarrow> bool \<Rightarrow> string" where
  "resolve_version linked module_version revision0 modified =
     (case first_version [linked, module_version] of
        Some v \<Rightarrow> v
      | None \<Rightarrow>
          (let revision = trim_space revision0 in
           if revision = [] then ''dev''
           else ''dev-'' @ (if length revision > 12 then take 12 revision else revision)
                  @ (if modified then ''-dirty'' else [])))"

section \<open>Tables\<close>

datatype output_mode = ModeTable | ModeJSON | ModeJSONL

definition parse_mode :: "string \<Rightarrow> string + output_mode" where
  "parse_mode v =
     (let m = to_lower (trim_space v) in
      if m = ''table'' then Inr ModeTable
      else if m = ''json'' then Inr ModeJSON
      else if m = ''jsonl'' then Inr ModeJSONL
      else Inl (''unknown output mode '' @ quote v @ '' (want table, json, or jsonl)''))"

definition mode_string :: "output_mode \<Rightarrow> string" where
  "mode_string m = (case m of ModeTable \<Rightarrow> ''table'' | ModeJSON \<Rightarrow> ''json'' | ModeJSONL \<Rightarrow> ''jsonl'')"

record table =
  tb_headers :: "string list"
  tb_rows :: "string list list"

text \<open>Where a table is at fault: a header cell, the width of a row, or a cell of a row.\<close>

datatype table_fault = BadHeader nat | BadWidth nat nat nat | BadCell nat nat

definition bad_cell :: "string \<Rightarrow> bool" where
  "bad_cell s \<longleftrightarrow> list_ex is_control s"

fun first_bad :: "nat \<Rightarrow> string list \<Rightarrow> nat option" where
  "first_bad i [] = None"
| "first_bad i (c # cs) = (if bad_cell c then Some (i + 1) else first_bad (i + 1) cs)"

fun check_rows :: "nat \<Rightarrow> nat option \<Rightarrow> string list list \<Rightarrow> table_fault option" where
  "check_rows i columns [] = None"
| "check_rows i columns (row # rows) =
     (let n = (case columns of None \<Rightarrow> length row | Some n \<Rightarrow> n) in
      if length row \<noteq> n then Some (BadWidth (i + 1) (length row) n)
      else case first_bad 0 row of
             Some j \<Rightarrow> Some (BadCell (i + 1) j)
           | None \<Rightarrow> check_rows (i + 1) (Some n) rows)"

definition validate_table :: "table \<Rightarrow> table_fault option" where
  "validate_table t =
     (case (if tb_headers t = [] then None else first_bad 0 (tb_headers t)) of
        Some j \<Rightarrow> Some (BadHeader j)
      | None \<Rightarrow> check_rows 0 (if tb_headers t = [] then None else Some (length (tb_headers t))) (tb_rows t))"

section \<open>The search plan\<close>

definition apply_location_page_override :: "discovery_options \<Rightarrow> string \<Rightarrow> (string \<times> int) list \<Rightarrow> discovery_options" where
  "apply_location_page_override opts location overrides =
     (case map_of overrides (to_lower (trim_space location)) of
        None \<Rightarrow> opts
      | Some pages \<Rightarrow>
          opts\<lparr>do_max_pages := pages,
               do_routes := map (\<lambda>r. if rt_max_pages r > pages then r\<lparr>rt_max_pages := pages\<rparr> else r) (do_routes opts)\<rparr>)"

record search_plan_estimate =
  es_requests :: int
  es_pacing :: int

text \<open>The requests of one location: the pages of its routes.\<close>

definition location_requests :: "discovery_options \<Rightarrow> int" where
  "location_requests opts =
     foldl (\<lambda>n r. i64 (n + (if rt_max_pages r > 0 then rt_max_pages r else do_max_pages opts))) 0 (do_routes opts)"

fun estimate_locations ::
  "bool \<Rightarrow> discovery_options \<Rightarrow> (string \<times> int) list \<Rightarrow> string list \<Rightarrow> search_plan_estimate \<Rightarrow> search_plan_estimate" where
  "estimate_locations discovery opts overrides [] est = est"
| "estimate_locations discovery opts overrides (loc # locs) est =
     (if \<not> discovery then estimate_locations discovery opts overrides locs (est\<lparr>es_requests := i64 (es_requests est + 1)\<rparr>)
      else
        (let o1 = apply_location_page_override opts loc overrides;
             n = location_requests o1;
             e1 = est\<lparr>es_requests := i64 (es_requests est + i64 (n + 1))\<rparr>;
             e2 = (if n > 1 then e1\<lparr>es_pacing := i64 (es_pacing e1 + i64 ((n - 1) * do_page_delay o1))\<rparr> else e1)
         in estimate_locations discovery opts overrides locs e2))"

definition estimate_search_plan ::
  "string list \<Rightarrow> bool \<Rightarrow> discovery_options \<Rightarrow> (string \<times> int) list \<Rightarrow> int \<Rightarrow> search_plan_estimate" where
  "estimate_search_plan locations discovery opts overrides location_delay =
     (if locations = [] then \<lparr>es_requests = 0, es_pacing = 0\<rparr>
      else
        (let est = estimate_locations discovery opts overrides locations \<lparr>es_requests = 0, es_pacing = 0\<rparr>
         in if length locations > 1
            then est\<lparr>es_pacing := i64 (es_pacing est + i64 ((int (length locations) - 1) * location_delay))\<rparr>
            else est))"

section \<open>Properties\<close>

lemma comma_loop_digits: "filter (\<lambda>c. c \<noteq> CHR '','') (comma_loop i ds) = filter (\<lambda>c. c \<noteq> CHR '','') ds"
proof (induction i ds rule: comma_loop.induct)
  case (1 i ds)
  show ?case
  proof (cases "i = 0")
    case True
    then show ?thesis by (subst comma_loop.simps) simp
  next
    case False
    have "filter (\<lambda>c. c \<noteq> CHR '','') (take i ds @ '','' @ drop i ds) = filter (\<lambda>c. c \<noteq> CHR '','') ds"
      using filter_append [of "\<lambda>c. c \<noteq> CHR '',''" "take i ds" "drop i ds"] by simp
    then show ?thesis using 1 [OF False] by (subst comma_loop.simps) (simp add: False)
  qed
qed

text \<open>
  Digit grouping only inserts commas: for every int64 but the smallest, dropping the commas of
  the printed number gives its plain decimal form.
\<close>
theorem comma_int_digits:
  assumes "in_i64 n" and "n \<noteq> - (2 ^ 63)"
  shows "filter (\<lambda>c. c \<noteq> CHR '','') (comma_int n) = itoa n"
proof -
  have digits: "filter (\<lambda>c. c \<noteq> CHR '','') (nat_digits m) = nat_digits m" for m
    using nat_digits_digits [of m] by (auto simp: filter_id_conv list_all_iff is_digit_def)
  show ?thesis
  proof (cases "n < 0")
    case True
    have "i64 (- n) = - n" using assms by (intro i64_id) (auto simp: in_i64_def)
    then show ?thesis
      using True digits by (simp add: comma_int_def Let_def comma_loop_digits itoa_def)
  next
    case False
    then show ?thesis using digits by (simp add: comma_int_def Let_def comma_loop_digits itoa_def)
  qed
qed

theorem comma_int_digits_witness:
  "filter (\<lambda>c. c \<noteq> CHR '','') (comma_int (-1234567)) = itoa (-1234567)"
  by (rule comma_int_digits) (simp_all add: in_i64_def)

text \<open>
  The smallest int64 is printed with two minus signs, because its negation wraps around to
  itself.
\<close>
theorem comma_int_min:
  "comma_int (- (2 ^ 63)) = ''--9,223,372,036,854,775,808''"
proof -
  have i: "i64 (- (- (2 ^ 63))) = - (2 ^ 63)" by (simp add: i64_def)
  have d: "itoa (- (2 ^ 63)) = ''-9223372036854775808''" by (simp add: itoa_def nat_digits.simps) code_simp
  have steps: "comma_loop 0 ds = ds" "j \<noteq> 0 \<Longrightarrow> comma_loop j ds = comma_loop (j - 3) (take j ds @ '','' @ drop j ds)" for ds j
    by (subst comma_loop.simps, simp)+
  have "comma_int (- (2 ^ 63)) = ''-'' @ comma_loop (length (itoa (- (2 ^ 63))) - 3) (itoa (- (2 ^ 63)))"
    using i by (simp add: comma_int_def Let_def)
  then show ?thesis unfolding d by (simp add: steps)
qed

text \<open>
  A version is always printed: the result is empty only if a stamped version is the bare
  letter v, and without a stamp it is dev with at most a short revision and a dirty mark.
\<close>
theorem resolve_version_shape:
  "(resolve_version linked module_version revision modified = [] \<longleftrightarrow> first_version [linked, module_version] = Some [])
   \<and> (first_version [linked, module_version] \<noteq> None
      \<or> prefix ''dev'' (resolve_version linked module_version revision modified)
        \<and> length (resolve_version linked module_version revision modified) \<le> 22)"
  by (auto simp: resolve_version_def Let_def split: option.splits)

lemma first_bad_None: "first_bad i cs = None \<longleftrightarrow> (\<forall>c \<in> set cs. \<not> bad_cell c)"
  by (induction cs arbitrary: i) auto

lemma check_rows_ok:
  "check_rows i columns rows = None \<Longrightarrow>
   \<exists>n. (\<forall>row \<in> set rows. length row = n \<and> (\<forall>c \<in> set row. \<not> bad_cell c)) \<and> (columns = None \<or> columns = Some n)"
proof (induction rows arbitrary: i columns)
  case Nil
  then show ?case by (cases columns) auto
next
  case (Cons row rows)
  let ?n = "case columns of None \<Rightarrow> length row | Some n \<Rightarrow> n"
  from Cons.prems have "length row = ?n" "first_bad 0 row = None" "check_rows (i + 1) (Some ?n) rows = None"
    by (auto simp: Let_def split: if_splits option.splits)
  then show ?case
    using Cons.IH [of "i + 1" "Some ?n"] by (intro exI [of _ ?n]) (auto simp: first_bad_None split: option.splits)
qed

text \<open>
  A table that validates is rectangular and free of control characters, so tabs and line breaks
  cannot break its layout.
\<close>
theorem table_valid_rectangular:
  assumes "validate_table t = None"
  shows "(\<exists>n. \<forall>row \<in> set (tb_rows t). length row = n \<and> (tb_headers t = [] \<or> n = length (tb_headers t)))
         \<and> (\<forall>row \<in> set (tb_headers t # tb_rows t). \<forall>c \<in> set row. \<not> bad_cell c)"
proof -
  have headers: "\<forall>c \<in> set (tb_headers t). \<not> bad_cell c"
    using assms by (cases "tb_headers t = []") (auto simp: validate_table_def first_bad_None split: option.splits)
  have rows: "check_rows 0 (if tb_headers t = [] then None else Some (length (tb_headers t))) (tb_rows t) = None"
    using assms by (auto simp: validate_table_def split: option.splits)
  show ?thesis using check_rows_ok [OF rows] headers by (cases "tb_headers t = []") auto
qed

theorem table_valid_rectangular_witness:
  "list_all (list_all (\<lambda>c. \<not> bad_cell c)) [[''a''], [''b'']]"
proof -
  have "validate_table \<lparr>tb_headers = [''a''], tb_rows = [[''b'']]\<rparr> = None" by code_simp
  from table_valid_rectangular [OF this] show ?thesis by simp
qed

end
