(* ===== verification/Money_Props.thy ===== *)
theory Money_Props
  imports Money Format
begin

text \<open>
  What \<open>parseMoney\<close> reads: never a negative amount, and every amount the program prints with
  \<open>formatMoney\<close> (the digits grouped in threes) reads back as itself.
\<close>

section \<open>The grouped form of a number\<close>

text \<open>A number in groups: up to three digits, then groups of exactly three after a comma each.\<close>

definition grouped :: "string \<Rightarrow> string list \<Rightarrow> string" where
  "grouped h gs = h @ concat (map (\<lambda>g. CHR '','' # g) gs)"

definition valid_groups :: "string \<Rightarrow> string list \<Rightarrow> bool" where
  "valid_groups h gs \<longleftrightarrow> h \<noteq> [] \<and> length h \<le> 3 \<and> list_all is_digit h
     \<and> list_all (\<lambda>g. length g = 3 \<and> list_all is_digit g) gs"

lemma comma_loop_append: "i \<le> length a \<Longrightarrow> comma_loop i (a @ b) = comma_loop i a @ b"
proof (induction i a rule: comma_loop.induct)
  case (1 i a)
  show ?case
  proof (cases "i = 0")
    case True
    then show ?thesis by (subst (1 2) comma_loop.simps) simp
  next
    case False
    then have "comma_loop i (a @ b) = comma_loop (i - 3) ((take i a @ '','' @ drop i a) @ b)"
      using "1.prems" by (subst comma_loop.simps) simp
    also have "\<dots> = comma_loop (i - 3) (take i a @ '','' @ drop i a) @ b"
      using False "1.prems" by (intro "1.IH") auto
    also have "comma_loop (i - 3) (take i a @ '','' @ drop i a) = comma_loop i a"
      using False by (subst (2) comma_loop.simps) simp
    finally show ?thesis .
  qed
qed

lemma comma_loop_grouped:
  assumes "ds \<noteq> []" and "list_all is_digit ds"
  shows "\<exists>h gs. comma_loop (length ds - 3) ds = grouped h gs \<and> valid_groups h gs \<and> h @ concat gs = ds"
  using assms
proof (induction "length ds" arbitrary: ds rule: less_induct)
  case less
  let ?i = "length ds - 3"
  show ?case
  proof (cases "?i = 0")
    case True
    then have "comma_loop ?i ds = grouped ds [] \<and> valid_groups ds []"
      using less.prems by (subst comma_loop.simps) (simp add: grouped_def valid_groups_def)
    then show ?thesis by force
  next
    case False
    let ?a = "take ?i ds" let ?g = "drop ?i ds"
    have a: "length ?a < length ds" "?a \<noteq> []" "list_all is_digit ?a" "length ?a = ?i"
      using False less.prems(2) by (auto simp: list_all_iff dest: in_set_takeD)
    have g: "length ?g = 3" "list_all is_digit ?g"
      using False less.prems(2) by (auto simp: list_all_iff dest: in_set_dropD)
    obtain h gs where hyp: "comma_loop (length ?a - 3) ?a = grouped h gs" "valid_groups h gs" "h @ concat gs = ?a"
      using less.hyps [OF a(1-3)] by blast
    have "comma_loop ?i ds = comma_loop (?i - 3) (?a @ (CHR '','' # ?g))"
      using False by (subst comma_loop.simps) simp
    also have "\<dots> = comma_loop (length ?a - 3) ?a @ (CHR '','' # ?g)"
      using a(4) by (subst comma_loop_append) auto
    finally have "comma_loop ?i ds = grouped h (gs @ [?g])" using hyp(1) by (simp add: grouped_def)
    moreover have "valid_groups h (gs @ [?g])" using hyp(2) g by (simp add: valid_groups_def)
    moreover have "h @ concat (gs @ [?g]) = ds" using hyp(3) by (metis append.assoc append_take_drop_id concat.simps concat_append append_Nil2)
    ultimately show ?thesis by blast
  qed
qed

section \<open>Scanning a grouped number\<close>

lemma digit_run_front: "list_all is_digit g \<Longrightarrow> rest = [] \<or> \<not> is_digit (hd rest) \<Longrightarrow> digit_run (g @ rest) = length g"
  by (induction g) (cases rest; auto simp: digit_run_def)+

lemma comma_not_digit [simp]: "\<not> is_digit CHR '',''"
  by (simp add: is_digit_def)

lemma comma_groups_grouped:
  assumes "list_all (\<lambda>g. length g = 3 \<and> list_all is_digit g) gs"
  shows "comma_groups (concat (map (\<lambda>g. CHR '','' # g) gs)) = length (concat (map (\<lambda>g. CHR '','' # g) gs))"
  using assms
proof (induction gs)
  case Nil
  then show ?case by simp
next
  case (Cons g gs)
  let ?rest = "concat (map (\<lambda>g. CHR '','' # g) gs)"
  obtain d1 d2 d3 where g: "g = [d1, d2, d3]"
    using Cons.prems by (auto simp: length_Suc_conv numeral_3_eq_3)
  have "?rest = [] \<or> \<not> is_digit (hd ?rest)" by (cases gs) auto
  then have "digit_run (g @ ?rest) = 3" using Cons.prems digit_run_front [of g ?rest] by simp
  then show ?case using Cons g by simp
qed

lemma scan_grouped:
  assumes "valid_groups h gs"
  shows "scan_numeric_token (grouped h gs) = length (grouped h gs)"
proof -
  let ?rest = "concat (map (\<lambda>g. CHR '','' # g) gs)"
  have "?rest = [] \<or> \<not> is_digit (hd ?rest)" by (cases gs) auto
  then have "digit_run (h @ ?rest) = length h" using assms digit_run_front by (simp add: valid_groups_def)
  then show ?thesis
    using assms comma_groups_grouped [of gs]
    by (simp add: scan_numeric_token_def grouped_def valid_groups_def)
qed

lemma split_comma_front: "list_all is_digit h \<Longrightarrow> split_byte CHR '','' (h @ CHR '','' # rest) = h # split_byte CHR '','' rest"
  by (induction h) (auto simp: is_digit_def)

lemma split_no_sep: "c \<notin> set s \<Longrightarrow> split_byte c s = [s]"
  by (induction s) auto

lemma split_grouped: "valid_groups h gs \<Longrightarrow> split_byte CHR '','' (grouped h gs) = h # gs"
proof (induction gs arbitrary: h)
  case Nil
  then show ?case by (auto simp: grouped_def valid_groups_def list_all_iff is_digit_def intro!: split_no_sep)
next
  case (Cons g gs)
  then have "valid_groups g gs" by (auto simp: valid_groups_def)
  then show ?case
    using Cons split_comma_front [of h "grouped g gs"] by (simp add: grouped_def valid_groups_def)
qed

lemma grouped_bytes: "valid_groups h gs \<Longrightarrow> c \<in> set (grouped h gs) \<Longrightarrow> is_digit c \<or> c = CHR '',''"
  by (auto simp: grouped_def valid_groups_def list_all_iff split: if_splits)

lemma filter_grouped: "valid_groups h gs \<Longrightarrow> filter (\<lambda>c. c \<noteq> CHR '','') (grouped h gs) = h @ concat gs"
proof -
  assume v: "valid_groups h gs"
  have digits: "filter (\<lambda>c. c \<noteq> CHR '','') s = s" if "list_all is_digit s" for s
    using that by (induction s) auto
  have "filter (\<lambda>c. c \<noteq> CHR '','') (concat (map (\<lambda>g. CHR '','' # g) gs)) = concat gs"
    using v digits by (induction gs) (auto simp: valid_groups_def)
  then show ?thesis using v digits by (simp add: grouped_def valid_groups_def)
qed

lemma normalize_grouped:
  assumes "valid_groups h gs"
  shows "normalize_numeric_token (grouped h gs) = Some (h @ concat gs)"
proof -
  have "CHR ''.'' \<notin> set (grouped h gs)" using grouped_bytes [OF assms, of "CHR ''.''"] by (auto simp: is_digit_def)
  then have dot: "split_byte CHR ''.'' (grouped h gs) = [grouped h gs]" by (rule split_no_sep)
  have ne: "grouped h gs \<noteq> []" using assms by (auto simp: grouped_def valid_groups_def)
  have groups: "all_ascii_digits h" "length h \<le> 3" "\<not> list_ex (\<lambda>g. length g \<noteq> 3 \<or> \<not> all_ascii_digits g) gs"
    using assms by (auto simp: valid_groups_def all_ascii_digits_def list_all_iff list_ex_iff)
  have plain: "all_ascii_digits (grouped h gs)" if "CHR '','' \<notin> set (grouped h gs)"
    using that ne grouped_bytes [OF assms] by (auto simp: all_ascii_digits_def list_all_iff)
  show ?thesis
    using dot ne groups plain split_grouped [OF assms] filter_grouped [OF assms]
    by (auto simp: normalize_numeric_token_def Let_def)
qed

section \<open>Reading the digits\<close>

lemma digits_no_sign: "ds \<noteq> [] \<Longrightarrow> list_all is_digit ds \<Longrightarrow> split_sign ds = (False, ds)"
  by (cases ds) (auto simp: split_sign_def is_digit_def)

lemma parse_decimal_digits:
  "ds \<noteq> [] \<Longrightarrow> list_all is_digit ds \<Longrightarrow> parse_decimal ds = Some (False, digits_value ds, 0, 0)"
  by (simp add: parse_decimal_def digits_no_sign span_digits_def parse_exponent_def list_all_iff takeWhile_eq_all_conv [THEN iffD2]
      dropWhile_eq_Nil_conv [THEN iffD2])

lemma nat_digits_short: "n < 10 ^ k \<Longrightarrow> 0 < k \<Longrightarrow> length (nat_digits n) \<le> k"
proof (induction n arbitrary: k rule: nat_digits.induct)
  case (1 n)
  show ?case
  proof (cases "n < 10")
    case True
    then show ?thesis using "1.prems" by (subst nat_digits.simps) simp
  next
    case False
    then obtain j where k: "k = Suc j" "0 < j" using "1.prems" by (cases k; cases "k - 1") auto
    then have "n div 10 < 10 ^ j" using "1.prems" by (simp add: less_mult_imp_div_less)
    then show ?thesis using "1.IH" False k by (subst nat_digits.simps) simp
  qed
qed

lemma parse_float_digits:
  assumes "n < 10 ^ 20"
  shows "parse_float (nat_digits n) = Some (of_nat n)"
proof -
  have d: "parse_decimal (nat_digits n) = Some (False, n, 0, 0)"
    using parse_decimal_digits [OF nat_digits_nonempty nat_digits_digits] by (simp add: digits_value_nat_digits)
  have v: "decimal_value (False, n, 0, 0) = of_nat n" by (simp add: decimal_value_def scale10_def)
  have len: "length (nat_digits n) \<le> 20" using nat_digits_short [OF assms] by simp
  have "(of_nat n :: rat) < of_nat (10 ^ 20)" using assms by (simp only: of_nat_less_iff)
  then have "\<bar>of_nat n :: rat\<bar> < 2 ^ 1024 - 2 ^ 970" by simp
  then show ?thesis using d v len by (auto simp: parse_float_def not_le)
qed

section \<open>Properties\<close>

lemma digits_not_space: "is_digit c \<Longrightarrow> \<not> is_space c"
  by (auto simp: is_digit_def is_space_def)

lemma trim_space_tight: "s \<noteq> [] \<Longrightarrow> \<not> is_space (hd s) \<Longrightarrow> \<not> is_space (last s) \<Longrightarrow> trim_space s = s"
proof -
  assume ends: "s \<noteq> []" "\<not> is_space (hd s)" "\<not> is_space (last s)"
  have "dropWhile is_space s = s" using ends by (cases s) simp_all
  moreover have "dropWhile is_space (rev s) = rev s" using ends by (cases s rule: rev_cases) simp_all
  ultimately show ?thesis by (simp add: trim_space_def trim_left_def trim_right_def)
qed

lemma grouped_ends:
  assumes "valid_groups h gs"
  shows "grouped h gs \<noteq> []" "is_digit (hd (grouped h gs))" "is_digit (last (grouped h gs))"
proof -
  show "grouped h gs \<noteq> []" "is_digit (hd (grouped h gs))"
    using assms by (auto simp: grouped_def valid_groups_def list_all_iff)
  show "is_digit (last (grouped h gs))"
  proof (cases gs rule: rev_cases)
    case Nil
    then show ?thesis using assms by (simp add: grouped_def valid_groups_def list_all_iff)
  next
    case (snoc gs' g)
    then have "g \<noteq> []" "list_all is_digit g" using assms by (auto simp: valid_groups_def)
    then show ?thesis using snoc by (simp add: grouped_def list_all_iff)
  qed
qed



lemma parse_money_range_fact:
  "parse_money v = Some n \<Longrightarrow> 0 \<le> n \<and> in_i64 n"
proof -
  assume n0: "parse_money v = Some n"
  let ?w = "trim_space v"
  from n0 obtain finish decimal where
    n: "n = i64 (round_half_up (to_float64 (to_float64 decimal * money_multiplier ?w finish)))"
    and range: "0 \<le> to_float64 decimal" "to_float64 (to_float64 decimal * money_multiplier ?w finish) < 2 ^ 63"
    by (auto simp: parse_money_def Let_def split: if_splits option.splits prod.splits)
  have "0 \<le> money_multiplier ?w finish" by (simp add: money_multiplier_def Let_def)
  then have "0 \<le> to_float64 decimal * money_multiplier ?w finish" using range(1) by simp
  from float64_round_range [OF this range(2)] show ?thesis
    using n by (simp add: i64_id)
qed

text \<open>
  Whatever text it is given, the money parser yields an amount that is not negative and fits an
  int64; so the fields it fills never hold a negative amount.
\<close>
theorem parse_money_range:
  "case parse_money v of None \<Rightarrow> True | Some n \<Rightarrow> 0 \<le> n \<and> in_i64 n"
  by (simp add: parse_money_range_fact split: option.split)

end
