(* ===== verification/Search_Response_Props.thy ===== *)
theory Search_Response_Props
  imports Search_Response Money_Props
begin

text \<open>
  What a decoded search response guarantees: every listing once, none lost, the first fault named,
  no negative money, and a complete search for a nested key.
\<close>

section \<open>Duplicates\<close>

definition listing_key_option :: "listing \<Rightarrow> string option" where
  "listing_key_option l = (if listing_discovery_key l = [] then None else Some (listing_discovery_key l))"

interpretation listings: first_wins listing_key_option dedupe_listings
  by unfold_locales (auto simp: listing_key_option_def Let_def split: if_splits)

interpretation texts: first_wins "\<lambda>s. Some (to_lower s)" unique_from
  by unfold_locales (auto simp: Let_def)

lemma decode_result:
  assumes "decode_search_response decode today data request_id state = Inr r"
  obtains obj ls where "decode data = OneJson (JObject obj)" "response_listings today obj = Inr ls"
    "sr_listings r = dedupe_listings [] ls" "sm_returned (sr_metadata r) = int (length (dedupe_listings [] ls))"
proof -
  from assms obtain obj where obj: "decode data = OneJson (JObject obj)"
    by (auto simp: decode_search_response_def split: json_text.splits json.splits)
  with assms obtain ls where ls: "response_listings today obj = Inr ls"
    by (auto simp: decode_search_response_def split: sum.splits)
  then show thesis
    using assms obj that by (auto simp: decode_search_response_def Let_def search_metadata_of_def)
qed

text \<open>
  C15: A successful response yields no two listings with the same discovery key (ID, else URL, else
  address), and reports exactly their number.
\<close>
theorem response_listings_unique:
  assumes "decode_search_response decode today data request_id state = Inr r"
  shows "distinct (filter (\<lambda>key. key \<noteq> []) (map listing_discovery_key (sr_listings r)))
         \<and> sm_returned (sr_metadata r) = int (length (sr_listings r))"
proof -
  obtain obj ls where r: "sr_listings r = dedupe_listings [] ls"
    "sm_returned (sr_metadata r) = int (length (dedupe_listings [] ls))"
    using decode_result [OF assms] by metis
  have "distinct (map listing_key_option (filter (\<lambda>l. listing_key_option l \<noteq> None) (sr_listings r)))"
    unfolding r by (rule listings.scan_distinct)
  also have "map listing_key_option (filter (\<lambda>l. listing_key_option l \<noteq> None) (sr_listings r))
             = map Some (filter (\<lambda>key. key \<noteq> []) (map listing_discovery_key (sr_listings r)))"
    by (induction "sr_listings r" rule: list.induct) (auto simp: listing_key_option_def filter_map o_def intro!: map_cong filter_cong)
  finally show ?thesis using r by (simp add: distinct_map)
qed

text \<open>A response with one home in the list and on the map, and a second home on the map only.\<close>

definition sample_home_json :: "string \<Rightarrow> string \<Rightarrow> json" where
  "sample_home_json zid price =
     JObject [(''zpid'', JString zid), (''baseRent'', JNumber price), (''addressCity'', JString ''Seattle'')]"

definition sample_results :: json_object where
  "sample_results =
     [(''cat1'', JObject [(''searchResults'', JObject
        [(''listResults'', JArray [sample_home_json ''11'' ''2500'']),
         (''mapResults'', JArray [sample_home_json ''11'' ''2500'', sample_home_json ''12'' ''1900''])])])]"

definition sample_today :: date_time where "sample_today = unix_time 0"

definition sample_decoded :: "go_error + search_result" where
  "sample_decoded = decode_search_response (\<lambda>_. OneJson (JObject sample_results)) sample_today [] 7 []"

lemma sample_decoded_value:
  "(case sample_decoded of Inl _ \<Rightarrow> [] | Inr r \<Rightarrow> map (\<lambda>l. (li_id l, li_price l)) (sr_listings r)) = [(''11'', Some 2500), (''12'', Some 1900)]"
  by code_simp

lemma sample_decoded_ok: "\<exists>r. sample_decoded = Inr r \<and> map li_id (sr_listings r) = [''11'', ''12'']"
proof -
  have "map fst (case sample_decoded of Inl _ \<Rightarrow> [] | Inr r \<Rightarrow> map (\<lambda>l. (li_id l, li_price l)) (sr_listings r)) = [''11'', ''12'']"
    by (simp add: sample_decoded_value)
  then show ?thesis by (auto simp: o_def split: sum.splits)
qed

theorem response_listings_unique_witness:
  "\<exists>r. sample_decoded = Inr r \<and> sm_returned (sr_metadata r) = 2"
proof -
  from sample_decoded_ok obtain r where r: "sample_decoded = Inr r" "map li_id (sr_listings r) = [''11'', ''12'']"
    by (elim exE conjE) (rule that)
  have "length (map li_id (sr_listings r)) = 2" unfolding r(2) by simp
  then have "int (length (sr_listings r)) = 2" by simp
  with response_listings_unique [OF r(1) [unfolded sample_decoded_def]] have "sm_returned (sr_metadata r) = 2" by metis
  with r(1) show ?thesis by blast
qed

text \<open>
  De-duplication loses nothing: the result lists the normalized listings in their order, each
  of them or an earlier one with the same key, and every listing without a key.
\<close>
theorem response_covers_all:
  assumes "decode_search_response decode today data request_id state = Inr r"
    and "decode data = OneJson (JObject obj)" and "response_listings today obj = Inr ls"
  shows "subseq (sr_listings r) ls
         \<and> (\<forall>l \<in> set ls. l \<in> set (sr_listings r)
              \<or> (listing_discovery_key l \<noteq> []
                 \<and> listing_discovery_key l \<in> listing_discovery_key ` set (sr_listings r)))"
proof -
  have r: "sr_listings r = dedupe_listings [] ls"
    using decode_result [OF assms(1)] assms(2,3) by (metis json.inject(8) json_text.inject(3) sum.inject(2))
  have "l \<in> set (sr_listings r) \<or> (listing_discovery_key l \<noteq> [] \<and> listing_discovery_key l \<in> listing_discovery_key ` set (sr_listings r))"
    if l: "l \<in> set ls" for l
  proof (cases "listing_discovery_key l = []")
    case True
    then have "l \<in> set (filter (\<lambda>x. listing_key_option x = None) ls)" using l by (simp add: listing_key_option_def)
    then show ?thesis unfolding r using listings.scan_unkeyed_kept [of "[]" ls] by (metis (no_types, lifting) filter_set mem_Collect_eq Set.filter_eq)
  next
    case False
    then have "Some (listing_discovery_key l) \<in> listing_key_option ` set (sr_listings r)"
      unfolding r using listings.scan_covers [OF l, of _ "[]"] by (simp add: listing_key_option_def)
    then show ?thesis using False by (auto simp: listing_key_option_def split: if_splits)
  qed
  then show ?thesis using listings.scan_subseq r by auto
qed

theorem response_covers_all_witness:
  "\<exists>r ls. sample_decoded = Inr r \<and> response_listings sample_today sample_results = Inr ls \<and> subseq (sr_listings r) ls"
proof -
  obtain r where r: "sample_decoded = Inr r" using sample_decoded_ok by blast
  then obtain ls where ls: "response_listings sample_today sample_results = Inr ls"
    by (auto simp: sample_decoded_def decode_search_response_def split: sum.splits)
  from response_covers_all [OF r [unfolded sample_decoded_def] refl ls] r ls show ?thesis by blast
qed

section \<open>Faults\<close>

definition item_ok :: "date_time \<Rightarrow> json \<Rightarrow> bool" where
  "item_ok today item =
     (case item of JObject raw \<Rightarrow> (case normalize_listing today raw of Inr _ \<Rightarrow> True | Inl _ \<Rightarrow> False) | _ \<Rightarrow> False)"

text \<open>
  An array of listings is read completely or not at all: either every item is a valid listing
  and each yields one, or the error names the first item that is not.
\<close>
theorem first_fault_named:
  "case normalize_items today path i items of
     Inr ls \<Rightarrow> length ls = length items \<and> list_all (item_ok today) items
   | Inl err \<Rightarrow> \<exists>k < length items. \<exists>msg. err = drift ''search'' (item_path path (i + k)) msg
       \<and> \<not> item_ok today (items ! k) \<and> list_all (item_ok today) (take k items)"
proof (induction items arbitrary: i)
  case Nil
  then show ?case by simp
next
  case (Cons item items)
  show ?case
  proof (cases "item_ok today item")
    case False
    then have "\<exists>msg. normalize_items today path i (item # items) = Inl (drift ''search'' (item_path path i) msg)"
      by (auto simp: item_ok_def split: json.splits sum.splits)
    then show ?thesis using False by (fastforce simp del: normalize_items.simps)
  next
    case True
    then obtain l where step: "normalize_items today path i (item # items) =
        (case normalize_items today path (i + 1) items of Inl err \<Rightarrow> Inl err | Inr ls \<Rightarrow> Inr (l # ls))"
      by (auto simp: item_ok_def Let_def split: json.splits sum.splits)
    show ?thesis
    proof (cases "normalize_items today path (i + 1) items")
      case (Inr ls)
      then show ?thesis using step True Cons.IH [of "i + 1"] by simp
    next
      case (Inl err)
      then obtain k msg where k: "k < length items" "err = drift ''search'' (item_path path (i + 1 + k)) msg"
        "\<not> item_ok today (items ! k)" "list_all (item_ok today) (take k items)"
        using Cons.IH [of "i + 1"] by auto
      then show ?thesis using step Inl True by (auto intro!: exI [of _ "Suc k"])
    qed
  qed
qed

section \<open>Money of a listing\<close>

definition machine_ints_ok :: "json_object \<Rightarrow> bool" where
  "machine_ints_ok raw \<longleftrightarrow> list_all (\<lambda>(k, v). case v of JInt m \<Rightarrow> in_i64 m | _ \<Rightarrow> True) raw"

lemma get_machine_int: "machine_ints_ok raw \<Longrightarrow> get raw k = JInt m \<Longrightarrow> in_i64 m"
  by (auto simp: machine_ints_ok_def list_all_iff get_def split: option.splits dest!: map_of_SomeD)

lemma money_pointer_range:
  assumes "machine_ints_ok raw" and "money_pointer raw keys = Some n"
  shows "0 \<le> n \<and> in_i64 n"
proof -
  have from_text: "0 \<le> m \<and> in_i64 m" if "parse_money t = Some m" for t m
    using parse_money_range_fact [of t] that by simp
  have reading: "0 \<le> m \<and> in_i64 m" if "money_reading (get raw k) = Some m" for k m
    using that int64_from_any_range [of "get raw k" m] get_machine_int [OF assms(1)] from_text
    by (auto simp: money_reading_def split: option.splits if_splits json.splits)
  from assms(2) show ?thesis
    unfolding money_pointer_def by (induction keys) (auto split: option.splits dest: reading)
qed

text \<open>
  C35: The money of a normalized listing makes sense: prices and fees are non-negative int64 values,
  and the total monthly cost, where there is one, is the price when fees are included and otherwise
  the exact sum of price and fees.
\<close>
theorem listing_money_sound:
  assumes "normalize_listing today raw = Inr l" and "machine_ints_ok raw"
  shows "(\<forall>m \<in> set_option (li_price l) \<union> set_option (li_required_fees l) \<union> set_option (li_total_cost l). 0 \<le> m \<and> in_i64 m)
    \<and> (\<forall>t \<in> set_option (li_total_cost l). \<exists>p. li_price l = Some p
         \<and> t = (if li_price_includes_fees l = Some True then p else p + the (li_required_fees l)))"
proof -
  from assms(1) have l: "li_price l = money_pointer raw [''unformattedPrice'', ''baseRent'', ''minBaseRent'', ''minPrice'', ''price'']"
    "li_required_fees l = money_pointer raw [''totalRequiredMonthlyMinFee'']"
    "li_total_cost l = total_monthly_cost (li_price l) (li_required_fees l) (li_price_includes_fees l)"
    using normalize_listing_built [OF assms(1)] by (simp_all add: build_listing_def Let_def)
  have price: "0 \<le> p \<and> in_i64 p" if "li_price l = Some p" for p
    using that money_pointer_range [OF assms(2)] unfolding l(1) by blast
  have fees: "0 \<le> f \<and> in_i64 f" if "li_required_fees l = Some f" for f
    using that money_pointer_range [OF assms(2)] unfolding l(2) by blast
  have total: "\<exists>p. li_price l = Some p \<and> t = (if li_price_includes_fees l = Some True then p else p + the (li_required_fees l))
      \<and> 0 \<le> t \<and> in_i64 t" if cost: "li_total_cost l = Some t" for t
  proof -
    obtain p where p: "li_price l = Some p" and
      alt: "li_price_includes_fees l = Some True \<and> t = p \<or> li_price_includes_fees l \<noteq> Some True \<and>
        (\<exists>f. li_required_fees l = Some f \<and> 0 \<le> p \<and> 0 \<le> f \<and> f \<le> i64 ((2 ^ 63 - 1) - p) \<and> t = i64 (p + f))"
      using cost unfolding l(3) total_monthly_cost_cases by blast
    have room: "i64 ((2 ^ 63 - 1) - p) = (2 ^ 63 - 1) - p"
      using price [OF p] by (intro i64_id) (auto simp: in_i64_def)
    show ?thesis using alt
    proof (elim disjE conjE exE)
      assume "li_price_includes_fees l = Some True" "t = p"
      then show ?thesis using p price [OF p] by simp
    next
      fix f assume f: "li_price_includes_fees l \<noteq> Some True" "li_required_fees l = Some f" "0 \<le> p" "0 \<le> f"
        "f \<le> i64 ((2 ^ 63 - 1) - p)" "t = i64 (p + f)"
      then have "in_i64 (p + f)" using room by (simp add: in_i64_def)
      then show ?thesis using f p by (auto simp: i64_id)
    qed
  qed
  show ?thesis
    using price fees total by (cases "li_price l"; cases "li_required_fees l"; cases "li_total_cost l") auto
qed

section \<open>Searching for a key\<close>

text \<open>A key occurs in a value: in one of its objects, at any depth.\<close>

fun occurs :: "string \<Rightarrow> json \<Rightarrow> bool" where
  "occurs key (JObject obj) = (map_of obj key \<noteq> None \<or> list_ex (\<lambda>(k, item). occurs key item) obj)"
| "occurs key (JArray items) = list_ex (occurs key) items"
| "occurs key _ = False"

lemma first_found_None: "first_found rs = None \<longleftrightarrow> (\<forall>(k, r) \<in> set rs. r = None)"
  by (induction rs rule: first_found.induct) (auto split: option.splits)

lemma find_key_complete: "find_key_with_path key before v = None \<longleftrightarrow> \<not> occurs key v"
proof (induction key before v rule: find_key_with_path.induct)
  case (1 wanted before obj)
  then show ?case
    by (force simp: first_found_None list_ex_iff split: option.splits)
next
  case (2 wanted before items)
  have ih: "(find_key_with_path wanted p x = None) = (\<not> occurs wanted x)"
    if "(i, x) \<in> set (zip [0..<length items] items)" "p = before @ ''['' @ itoa (int i) @ '']''" for i x p
    using 2 [OF that(1) refl] that(2) by simp
  have "snd ` set (zip [0..<length items] items) = set items"
    by (metis length_upt list.set_map map_snd_zip minus_nat.diff_0)
  then have "(\<forall>x \<in> set items. \<not> occurs wanted x) \<longleftrightarrow> (\<forall>x \<in> snd ` set (zip [0..<length items] items). \<not> occurs wanted x)"
    by simp
  then have "(\<forall>(i, x) \<in> set (zip [0..<length items] items). \<not> occurs wanted x) \<longleftrightarrow> (\<forall>x \<in> set items. \<not> occurs wanted x)"
    by (simp add: case_prod_unfold)
  moreover have "find_key_with_path wanted before (JArray items) = None \<longleftrightarrow>
      (\<forall>(i, x) \<in> set (zip [0..<length items] items). \<not> occurs wanted x)"
    unfolding find_key_with_path.simps first_found_None list.set_map ball_simps
    by (intro ball_cong refl) (auto simp: ih)
  ultimately show ?case by (simp add: list_ex_iff)
qed simp_all

text \<open>
  The recursive key search visits a whole JSON value: it comes back empty exactly when no object
  at any depth has the key.
\<close>
theorem key_search_complete:
  "find_key_recursive v key = None \<longleftrightarrow> \<not> occurs key v"
  by (simp add: find_key_recursive_def find_key_complete)

theorem listing_money_sound_witness:
  "\<exists>l. normalize_listing sample_today [(''zpid'', JString ''11''), (''baseRent'', JInt 2500)] = Inr l
     \<and> set_option (li_price l) \<subseteq> {0..}"
proof -
  let ?raw = "[(''zpid'', JString ''11''), (''baseRent'', JInt 2500)]"
  have "(case normalize_listing sample_today ?raw of Inr l \<Rightarrow> True | Inl _ \<Rightarrow> False)" by code_simp
  then obtain l where l: "normalize_listing sample_today ?raw = Inr l" by (auto split: sum.splits)
  have "machine_ints_ok ?raw" by (simp add: machine_ints_ok_def in_i64_def)
  from listing_money_sound [OF l this] have "set_option (li_price l) \<subseteq> {0..}" by auto
  with l show ?thesis by blast
qed

end
