(* ===== verification/Next_Data.thy ===== *)
theory Next_Data
  imports Go_Text Prelude "HOL-Library.AList"
begin

text \<open>
  The scanner that finds the Next.js data script in a page (\<open>extractNextData\<close>, \<open>findTagEnd\<close> and
  \<open>parseTagAttributes\<close> of \<open>internal/zillow/property.go\<close>). A position in the document is the rest of
  the document from there. \<open>html.UnescapeString\<close> is the argument \<open>unescape_html\<close>. Bytes are ASCII
  for \<open>bytes.ToLower\<close> and \<open>unicode.IsSpace\<close>.
\<close>

section \<open>Scanning\<close>

text \<open>The text before the first occurrence of a lower-case pattern, in any case, and the text after it.\<close>

fun cut_fold :: "string \<Rightarrow> string \<Rightarrow> (string \<times> string) option" where
  "cut_fold p [] = None"
| "cut_fold p (c # cs) =
     (if to_lower (take (length p) (c # cs)) = p then Some ([], drop (length p) (c # cs))
      else map_option (\<lambda>(a, b). (c # a, b)) (cut_fold p cs))"

text \<open>\<open>findTagEnd\<close>: the text up to the right angle bracket that is not in quotes, and the text after it.\<close>

fun tag_end :: "char option \<Rightarrow> string \<Rightarrow> (string \<times> string) option" where
  "tag_end q [] = None"
| "tag_end q (c # cs) =
     (case q of
        Some mark \<Rightarrow> map_option (\<lambda>(a, b). (c # a, b)) (tag_end (if c = mark then None else q) cs)
      | None \<Rightarrow>
          if c = CHR ''>'' then Some ([], cs)
          else map_option (\<lambda>(a, b). (c # a, b)) (tag_end (if c = CHR 0x27 \<or> c = CHR 0x22 then Some c else None) cs))"

definition is_attribute_name_byte :: "char \<Rightarrow> bool" where
  "is_attribute_name_byte c \<longleftrightarrow> is_lower c \<or> is_upper c \<or> is_digit c \<or> c \<in> set [CHR ''-'', CHR ''_'', CHR '':'']"

lemma cut_fold_split: "cut_fold p s = Some (a, b) \<Longrightarrow> \<exists>m. s = a @ m @ b \<and> to_lower m = p"
proof (induction p s arbitrary: a rule: cut_fold.induct)
  case (2 p c cs)
  show ?case
  proof (cases "to_lower (take (length p) (c # cs)) = p")
    case True
    then have "a = []" "b = drop (length p) (c # cs)" using "2.prems" by auto
    then show ?thesis using True by (metis append.left_neutral append_take_drop_id)
  next
    case False
    then obtain a' where "cut_fold p cs = Some (a', b)" "a = c # a'" using "2.prems" by auto
    then show ?thesis using "2.IH" [OF False] by fastforce
  qed
qed simp

lemma cut_fold_shorter: "cut_fold p s = Some (a, b) \<Longrightarrow> length b \<le> length s"
  by (drule cut_fold_split) auto

lemma tag_end_split: "tag_end q s = Some (a, b) \<Longrightarrow> s = a @ CHR ''>'' # b"
  by (induction q s arbitrary: a rule: tag_end.induct) (auto split: option.splits if_splits)

lemma tag_end_shorter: "tag_end q s = Some (a, b) \<Longrightarrow> length b < length s"
  by (drule tag_end_split) simp

lemma dropWhile_shorter: "length (dropWhile P xs) \<le> length xs"
  by (rule length_dropWhile_le)

lemma after_name_shorter:
  assumes "takeWhile P s \<noteq> []"
  shows "length (dropWhile P s) < length s"
  using assms by (cases s) (auto simp: le_imp_less_Suc length_dropWhile_le split: if_splits)

lemma attributes_progress:
  fixes raw :: string
  defines "s \<equiv> dropWhile (\<lambda>c. is_space c \<or> c = CHR ''/'') raw"
  assumes "takeWhile is_attribute_name_byte s \<noteq> []"
  shows "length (dropWhile is_space (dropWhile is_attribute_name_byte s)) < length raw"
proof -
  have "length (dropWhile is_space (dropWhile is_attribute_name_byte s)) \<le> length (dropWhile is_attribute_name_byte s)"
    by (rule length_dropWhile_le)
  also have "\<dots> < length s" using assms(2) by (rule after_name_shorter)
  also have "\<dots> \<le> length raw" unfolding s_def by (rule length_dropWhile_le)
  finally show ?thesis .
qed

lemma rest_shorter:
  assumes "length s < n"
  shows "length (drop 1 (dropWhile P (tl (dropWhile Q (tl s))))) < n" "length (dropWhile P (dropWhile Q (tl s))) < n"
proof -
  have "length (dropWhile Q (tl s)) \<le> length s"
    by (rule order_trans [OF length_dropWhile_le]) simp
  then have q: "length (dropWhile Q (tl s)) < n" using assms by simp
  have "length (dropWhile P (tl (dropWhile Q (tl s)))) \<le> length (dropWhile Q (tl s))"
    by (rule order_trans [OF length_dropWhile_le]) simp
  then show "length (drop 1 (dropWhile P (tl (dropWhile Q (tl s))))) < n" using q by simp
  show "length (dropWhile P (dropWhile Q (tl s))) < n"
    using q length_dropWhile_le [of P "dropWhile Q (tl s)"] by simp
qed

text \<open>The attributes of a tag; a later value of a name replaces an earlier one.\<close>

function parse_attributes_from :: "(string \<Rightarrow> string) \<Rightarrow> (string \<times> string) list \<Rightarrow> string \<Rightarrow> (string \<times> string) list" where
  "parse_attributes_from unescape_html attrs raw =
     (let s = dropWhile (\<lambda>c. is_space c \<or> c = CHR ''/'') raw;
          name = takeWhile is_attribute_name_byte s;
          s1 = dropWhile is_space (dropWhile is_attribute_name_byte s)
      in if s = [] then attrs
         else if name = [] then parse_attributes_from unescape_html attrs (tl s)
         else if s1 = [] \<or> hd s1 \<noteq> CHR ''=''
         then parse_attributes_from unescape_html (AList.update (to_lower name) [] attrs) s1
         else
           (let s2 = dropWhile is_space (tl s1) in
            if s2 \<noteq> [] \<and> (hd s2 = CHR 0x27 \<or> hd s2 = CHR 0x22)
            then parse_attributes_from unescape_html
                   (AList.update (to_lower name) (unescape_html (takeWhile (\<lambda>c. c \<noteq> hd s2) (tl s2))) attrs)
                   (drop 1 (dropWhile (\<lambda>c. c \<noteq> hd s2) (tl s2)))
            else parse_attributes_from unescape_html
                   (AList.update (to_lower name) (unescape_html (takeWhile (\<lambda>c. \<not> is_space c \<and> c \<noteq> CHR ''>'') s2)) attrs)
                   (dropWhile (\<lambda>c. \<not> is_space c \<and> c \<noteq> CHR ''>'') s2)))"
  by auto
termination
proof (relation "measure (\<lambda>(unescape_html, attrs, raw). length raw)", goal_cases)
  case (2 unescape_html attrs raw s name s1)
  then have "tl s = tl (dropWhile (\<lambda>c. is_space c \<or> c = CHR ''/'') raw)" "s \<noteq> []" by auto
  then have "length (tl s) < length s" "length s \<le> length raw" using 2 by (auto simp: length_dropWhile_le)
  then show ?case by simp
next
  case (3 unescape_html attrs raw s name s1)
  then show ?case using attributes_progress [of raw] by simp
next
  case (4 unescape_html attrs raw s name s1 s2)
  then show ?case using rest_shorter(1) [OF attributes_progress [of raw]] by simp
next
  case (5 unescape_html attrs raw s name s1 s2)
  then show ?case using rest_shorter(2) [OF attributes_progress [of raw]] by simp
qed simp

declare parse_attributes_from.simps [simp del]

definition parse_tag_attributes :: "(string \<Rightarrow> string) \<Rightarrow> string \<Rightarrow> (string \<times> string) list" where
  "parse_tag_attributes unescape_html raw = parse_attributes_from unescape_html [] raw"

section \<open>The script\<close>

text \<open>A start tag called script, in any case; end tags, declarations and empty tags are not.\<close>

definition is_script_tag :: "string \<Rightarrow> bool" where
  "is_script_tag raw \<longleftrightarrow>
     raw \<noteq> [] \<and> hd raw \<notin> set [CHR ''/'', CHR ''!'', CHR ''?'']
     \<and> takeWhile is_attribute_name_byte raw \<noteq> [] \<and> equal_fold (takeWhile is_attribute_name_byte raw) ''script''"

definition is_next_data_tag :: "(string \<Rightarrow> string) \<Rightarrow> string \<Rightarrow> bool" where
  "is_next_data_tag unescape_html raw \<longleftrightarrow>
     map_of (parse_tag_attributes unescape_html (dropWhile is_attribute_name_byte raw)) ''id'' = Some ''__NEXT_DATA__''"

lemma dropWhile_Cons_shorter: "dropWhile P doc = x # rest \<Longrightarrow> length rest < length doc"
  using length_dropWhile_le [of P doc] by simp

function extract_next_data :: "(string \<Rightarrow> string) \<Rightarrow> string \<Rightarrow> string option" where
  "extract_next_data unescape_html doc =
     (case dropWhile (\<lambda>c. c \<noteq> CHR ''<'') doc of
        [] \<Rightarrow> None
      | lt # rest \<Rightarrow>
          if has_prefix rest ''!--'' then
            (case cut_fold ''-->'' (drop 3 rest) of
               None \<Rightarrow> None | Some (skipped, after) \<Rightarrow> extract_next_data unescape_html after)
          else
            (case tag_end None rest of
               None \<Rightarrow> None
             | Some (tag, after) \<Rightarrow>
                 if \<not> is_script_tag (trim_space tag) then extract_next_data unescape_html after
                 else
                   (case cut_fold ''</script'' after of
                      None \<Rightarrow> None
                    | Some (body, closing) \<Rightarrow>
                        if is_next_data_tag unescape_html (trim_space tag) then Some (trim_space body)
                        else (case tag_end None closing of
                                None \<Rightarrow> None
                              | Some (skipped, after2) \<Rightarrow> extract_next_data unescape_html after2))))"
  by auto
termination
proof (relation "measure (\<lambda>(unescape_html, doc). length doc)", goal_cases)
  case (2 unescape_html doc lt rest p skipped after)
  then show ?case by (auto dest!: dropWhile_Cons_shorter cut_fold_shorter)
next
  case (3 unescape_html doc lt rest p tag after)
  then show ?case by (auto dest!: dropWhile_Cons_shorter tag_end_shorter)
next
  case (4 unescape_html doc lt rest p tag after q body closing r skipped after2)
  then show ?case by (auto dest!: dropWhile_Cons_shorter tag_end_shorter cut_fold_shorter)
qed simp

declare extract_next_data.simps [simp del]

end
