(* ===== verification/Next_Data_Props.thy ===== *)
theory Next_Data_Props
  imports Next_Data
begin

text \<open>
  What the page scanner guarantees: the text it returns is a contiguous part of the page without a
  closing script tag, and a well-formed data script is found whatever follows it.
\<close>

section \<open>Where the text comes from\<close>

lemma trim_space_infix: "\<exists>a b. s = a @ trim_space s @ b"
proof -
  have "s = takeWhile is_space s @ trim_left s" by (simp add: trim_left_def)
  moreover have "trim_left s = trim_right (trim_left s) @ rev (takeWhile is_space (rev (trim_left s)))"
    unfolding trim_right_def by (metis rev_append rev_rev_ident takeWhile_dropWhile_id)
  ultimately show ?thesis unfolding trim_space_def by metis
qed

lemma dropWhile_Cons_split: "dropWhile P s = x # rest \<Longrightarrow> s = takeWhile P s @ x # rest"
  by (metis takeWhile_dropWhile_id)

text \<open>The script the scanner stops at: its tag, its body, and what closes it.\<close>

definition data_script :: "(string \<Rightarrow> string) \<Rightarrow> string \<Rightarrow> string \<Rightarrow> bool" where
  "data_script unescape_html doc body \<longleftrightarrow>
     (\<exists>before tag closing rest. doc = before @ tag @ CHR ''>'' # body @ closing @ rest
        \<and> cut_fold ''</script'' (body @ closing @ rest) = Some (body, rest)
        \<and> is_script_tag (trim_space tag) \<and> is_next_data_tag unescape_html (trim_space tag))"

lemma data_script_later: "data_script unescape_html doc' body \<Longrightarrow> data_script unescape_html (a @ doc') body"
  unfolding data_script_def by (metis append.assoc)

lemma extract_data_script:
  "extract_next_data unescape_html doc = Some s \<Longrightarrow> \<exists>body. data_script unescape_html doc body \<and> s = trim_space body"
proof (induction unescape_html doc rule: extract_next_data.induct)
  case (1 unescape_html doc)
  from "1.prems" obtain lt rest where rest: "dropWhile (\<lambda>c. c \<noteq> CHR ''<'') doc = lt # rest"
    by (subst (asm) extract_next_data.simps) (auto split: list.splits)
  define front where "front = takeWhile (\<lambda>c. c \<noteq> CHR ''<'') doc @ [lt]"
  have doc: "doc = front @ rest" using dropWhile_Cons_split [OF rest] by (simp add: front_def)
  show ?case
  proof (cases "has_prefix rest ''!--''")
    case True
    with "1.prems" rest obtain skipped after where after: "cut_fold ''-->'' (drop 3 rest) = Some (skipped, after)"
      "extract_next_data unescape_html after = Some s"
      by (subst (asm) extract_next_data.simps) (auto split: option.splits)
    then obtain body where body: "data_script unescape_html after body" "s = trim_space body"
      using "1.IH"(1) [OF rest True after(1) refl] by blast
    obtain m where "drop 3 rest = skipped @ m @ after" using cut_fold_split [OF after(1)] by blast
    then have "doc = (front @ take 3 rest @ skipped @ m) @ after" using doc by (metis append.assoc append_take_drop_id)
    then show ?thesis using body data_script_later by metis
  next
    case False
    with "1.prems" rest obtain tag after where tag: "tag_end None rest = Some (tag, after)"
      by (subst (asm) extract_next_data.simps) (auto split: option.splits)
    have split: "doc = (front @ tag @ [CHR ''>'']) @ after" using doc tag_end_split [OF tag] by simp
    show ?thesis
    proof (cases "is_script_tag (trim_space tag)")
      case other: False
      then have "extract_next_data unescape_html after = Some s"
        using "1.prems" rest False tag by (subst (asm) extract_next_data.simps) simp
      then show ?thesis using "1.IH"(2) [OF rest False tag refl other] split data_script_later by metis
    next
      case script: True
      with "1.prems" rest False tag obtain body rest' where body: "cut_fold ''</script'' after = Some (body, rest')"
        by (subst (asm) extract_next_data.simps) (auto split: option.splits)
      show ?thesis
      proof (cases "is_next_data_tag unescape_html (trim_space tag)")
        case True
        then have "s = trim_space body"
          using "1.prems" rest False tag script body by (subst (asm) extract_next_data.simps) simp
        moreover obtain m where "after = body @ m @ rest'" using cut_fold_split [OF body] by blast
        then have "data_script unescape_html doc body"
          unfolding data_script_def using split script True body
          by (intro exI [of _ front] exI [of _ tag] exI [of _ m] exI [of _ rest']) simp
        ultimately show ?thesis by blast
      next
        case other: False
        with "1.prems" rest False tag script body obtain skipped after2 where
          next_at: "tag_end None rest' = Some (skipped, after2)" "extract_next_data unescape_html after2 = Some s"
          by (subst (asm) extract_next_data.simps) (auto split: option.splits)
        then obtain b where b: "data_script unescape_html after2 b" "s = trim_space b"
          using "1.IH"(3) [OF rest False tag refl _ body refl other next_at(1) refl] script by blast
        obtain m where "after = body @ m @ rest'" using cut_fold_split [OF body] by blast
        then have "doc = (front @ tag @ [CHR ''>''] @ body @ m @ skipped @ [CHR ''>'']) @ after2"
          using split tag_end_split [OF next_at(1)] by simp
        then show ?thesis using b data_script_later by metis
      qed
    qed
  qed
qed

section \<open>No closing tag inside\<close>

lemma cut_fold_before:
  "cut_fold p s = Some (a, b) \<Longrightarrow> a = x @ m @ y \<Longrightarrow> to_lower m \<noteq> p \<or> p = []"
proof (induction p s arbitrary: a x rule: cut_fold.induct)
  case (2 p c cs)
  show ?case
  proof (cases "to_lower (take (length p) (c # cs)) = p")
    case True
    then have "a = []" using "2.prems" by auto
    then show ?thesis using "2.prems"(2) by (auto simp: to_lower_def)
  next
    case False
    then obtain a' where a': "cut_fold p cs = Some (a', b)" "a = c # a'" using "2.prems" by auto
    show ?thesis
    proof (cases x)
      case (Cons d x')
      then show ?thesis using "2.IH" [OF False a'(1), of x'] "2.prems"(2) a'(2) by auto
    next
      case Nil
      have "c # cs = a @ drop (length a) (c # cs)" using cut_fold_split [OF "2.prems"(1)] by (metis append_eq_conv_conj)
      then have "take (length m) (c # cs) = m" using Nil "2.prems"(2) by (metis append.assoc append_Nil append_eq_conv_conj)
      then show ?thesis using False by (metis length_to_lower)
    qed
  qed
qed simp

text \<open>
  What is extracted from a page is a contiguous piece of it, the trimmed body of a script element
  whose id attribute is the Next.js one, and contains no closing script tag in any case.
\<close>
theorem extract_sound:
  assumes "extract_next_data unescape_html doc = Some s"
  shows "(\<exists>a b. doc = a @ s @ b) \<and> \<not> (\<exists>x m y. s = x @ m @ y \<and> to_lower m = ''</script'')
         \<and> (\<exists>body. data_script unescape_html doc body \<and> s = trim_space body)"
proof -
  obtain body where body: "data_script unescape_html doc body" "s = trim_space body"
    using extract_data_script [OF assms] by blast
  obtain l r where trim: "body = l @ s @ r" using trim_space_infix [of body] body(2) by blast
  from body(1) obtain before tag closing rest where
    doc: "doc = before @ tag @ CHR ''>'' # body @ closing @ rest"
    and cut: "cut_fold ''</script'' (body @ closing @ rest) = Some (body, rest)"
    unfolding data_script_def by blast
  have "doc = (before @ tag @ CHR ''>'' # l) @ s @ (r @ closing @ rest)" using doc trim by simp
  moreover have "to_lower m \<noteq> ''</script''" if "s = x @ m @ y" for x m y
    using cut_fold_before [OF cut, of "l @ x" m "y @ r"] trim that by simp
  ultimately show ?thesis using body by blast
qed

section \<open>A data script is found\<close>

definition data_tag :: string where
  "data_tag = ''script id='' @ [CHR 0x22] @ ''__NEXT_DATA__'' @ [CHR 0x22] @ '' type='' @ [CHR 0x22] @ ''application/json'' @ [CHR 0x22]"

lemma cut_fold_found:
  assumes "cut_fold ''</script'' body = None"
  shows "cut_fold ''</script'' (body @ ''</script'' @ rest) = Some (body, rest)"
  using assms
proof (induction body)
  case Nil
  then show ?case by (simp add: to_lower_def lower_def is_upper_def)
next
  case (Cons c cs)
  let ?p = "''</script''" let ?s = "(c # cs) @ ?p @ rest"
  have not_here: "to_lower (take 8 ?s) \<noteq> ?p"
  proof (cases "8 \<le> length (c # cs)")
    case True
    then have "take 8 ?s = take 8 (c # cs)" by simp
    then show ?thesis using Cons.prems by (auto simp: numeral_eq_Suc split: if_splits)
  next
    case False
    define j where "j = length (c # cs)"
    have j: "0 < j" "j < 8" using False by (auto simp: j_def)
    have "?s ! j = CHR ''<''" by (simp add: j_def nth_append)
    moreover have "j < length (take 8 ?s)" using j by (simp add: j_def)
    ultimately have "to_lower (take 8 ?s) ! j = lower CHR ''<''"
      unfolding to_lower_def using j by (simp only: nth_map nth_take)
    then have "to_lower (take 8 ?s) ! j = CHR ''<''" by (simp add: lower_def is_upper_def)
    moreover have "?p ! j \<noteq> CHR ''<''"
    proof -
      have "j \<in> {1, 2, 3, 4, 5, 6, 7}" using j by auto
      then show ?thesis by auto
    qed
    ultimately show ?thesis by metis
  qed
  have "cut_fold ?p cs = None" using Cons.prems by (auto split: if_splits)
  then show ?case using Cons.IH not_here by (simp add: numeral_eq_Suc)
qed

lemma data_tag_end: "tag_end None (data_tag @ CHR ''>'' # rest) = Some (data_tag, rest)"
  by (simp add: data_tag_def)

lemma data_tag_script: "trim_space data_tag = data_tag" "is_script_tag data_tag"
  by code_simp+

lemma data_tag_attributes:
  assumes "unescape_html ''__NEXT_DATA__'' = ''__NEXT_DATA__''"
  shows "is_next_data_tag unescape_html data_tag"
proof -
  have rest: "dropWhile is_attribute_name_byte data_tag = '' id='' @ [CHR 0x22] @ ''__NEXT_DATA__'' @ [CHR 0x22] @ '' type='' @ [CHR 0x22] @ ''application/json'' @ [CHR 0x22]"
    by code_simp
  show ?thesis
    unfolding is_next_data_tag_def parse_tag_attributes_def rest
    using assms
    by (simp add: parse_attributes_from.simps Let_def is_space_def is_attribute_name_byte_def is_lower_def is_upper_def is_digit_def
        to_lower_def lower_def)
qed

text \<open>
  The data script of a page is found: after any text without a tag, its body comes back trimmed,
  whatever the rest of the page is, as long as the body has no closing script tag of its own.
\<close>
theorem data_script_found:
  assumes "CHR ''<'' \<notin> set before" and "cut_fold ''</script'' body = None"
    and "unescape_html ''__NEXT_DATA__'' = ''__NEXT_DATA__''"
  shows "extract_next_data unescape_html (before @ ''<'' @ data_tag @ ''>'' @ body @ ''</script'' @ rest) = Some (trim_space body)"
proof -
  let ?after = "body @ ''</script'' @ rest"
  have start: "dropWhile (\<lambda>c. c \<noteq> CHR ''<'') (before @ CHR ''<'' # data_tag @ CHR ''>'' # ?after) = CHR ''<'' # data_tag @ CHR ''>'' # ?after"
    using assms(1) by (subst dropWhile_append2) auto
  have no_comment: "\<not> has_prefix (data_tag @ CHR ''>'' # ?after) ''!--''" by (simp add: has_prefix_def data_tag_def)
  have "extract_next_data unescape_html (before @ CHR ''<'' # data_tag @ CHR ''>'' # ?after) = Some (trim_space body)"
    by (subst extract_next_data.simps)
      (simp add: start no_comment data_tag_end data_tag_script data_tag_attributes [of unescape_html, OF assms(3)] cut_fold_found [OF assms(2)] del: append_Cons)
  then show ?thesis by simp
qed

theorem data_script_found_witness:
  "extract_next_data id (''page '' @ ''<'' @ data_tag @ ''>'' @ ''{} '' @ ''</script'' @ ''></html>'') = Some ''{}''"
proof -
  have "trim_space ''{} '' = ''{}''" by code_simp
  moreover have "cut_fold ''</script'' ''{} '' = None" by code_simp
  ultimately show ?thesis
    using data_script_found [of "''page ''" "''{} ''" id "''></html>''"] by simp
qed

theorem extract_sound_witness:
  "\<exists>a b. ''page '' @ ''<'' @ data_tag @ ''>'' @ ''{} '' @ ''</script'' @ ''></html>'' = a @ ''{}'' @ b"
proof -
  have "extract_next_data id (''page '' @ ''<'' @ data_tag @ ''>'' @ ''{} '' @ ''</script'' @ ''></html>'') = Some ''{}''"
    by code_simp
  from extract_sound [OF this] show ?thesis by (elim conjE)
qed

end
