(* ===== verification/Property_Page.thy ===== *)
theory Property_Page
  imports Search_Response Next_Data
begin

text \<open>
  Property pages (\<open>internal/zillow/property.go\<close>, with \<open>populatePropertyRentalFacts\<close> of
  \<open>rental_facts.go\<close>): the property cache of a page, the candidates in it, the choice of the one that
  is the requested property, and its normalization. What the program takes from other packages is
  the record \<open>page_env\<close>: \<open>html.UnescapeString\<close>, the JSON decoder and encoder, and the current time.
\<close>

section \<open>The environment\<close>

record page_env =
  pe_unescape :: "string \<Rightarrow> string"
  pe_decode :: "string \<Rightarrow> json_text"
  pe_encode :: "json \<Rightarrow> string + string"
  pe_today :: date_time

record net_env =
  ne_send :: "http_request \<Rightarrow> go_error + http_response"
  ne_parse_time :: "string \<Rightarrow> int option"
  ne_now :: int

definition decode_json_value :: "page_env \<Rightarrow> string \<Rightarrow> string + json" where
  "decode_json_value env data =
     (case pe_decode env data of
        BadJson msg \<Rightarrow> Inl msg
      | TrailingJson None \<Rightarrow> Inl ''multiple JSON values''
      | TrailingJson (Some msg) \<Rightarrow> Inl msg
      | OneJson v \<Rightarrow> Inr v)"

section \<open>The cache\<close>

definition property_cache :: "json \<Rightarrow> json option" where
  "property_cache root_value =
     (case (case root_value of
              JObject obj \<Rightarrow> lookup_path obj [''props'', ''pageProps'', ''componentProps'', ''gdpClientCache''] | _ \<Rightarrow> None) of
        Some v \<Rightarrow> Some v
      | None \<Rightarrow> find_key_recursive root_value ''gdpClientCache'')"

fun decode_passes :: "page_env \<Rightarrow> nat \<Rightarrow> json \<Rightarrow> string + json" where
  "decode_passes env 0 v =
     (case v of JString _ \<Rightarrow> Inl ''cache remains a JSON string after two decode passes'' | _ \<Rightarrow> Inr v)"
| "decode_passes env (Suc n) v =
     (case v of
        JString text \<Rightarrow> (case decode_json_value env text of Inl msg \<Rightarrow> Inl msg | Inr w \<Rightarrow> decode_passes env n w)
      | _ \<Rightarrow> Inr v)"

definition decode_cache :: "page_env \<Rightarrow> json \<Rightarrow> string + json" where
  "decode_cache env cache = decode_passes env 2 cache"

section \<open>Identities\<close>

definition zpid_from_path :: "string \<Rightarrow> string" where
  "zpid_from_path path =
     foldl (\<lambda>acc segment.
         if has_suffix (to_lower segment) ''_zpid'' then
           (case normalize_zpid (JString (take (length segment - 5) segment)) of Some z \<Rightarrow> z | None \<Rightarrow> acc)
         else acc) [] (split_byte CHR ''/'' path)"

definition zpid_paths :: "string list list" where
  "zpid_paths =
     [[''props'', ''pageProps'', ''componentProps'', ''zpid''], [''props'', ''pageProps'', ''componentProps'', ''property'', ''zpid''],
      [''props'', ''pageProps'', ''zpid''], [''props'', ''pageProps'', ''query'', ''zpid''], [''query'', ''zpid'']]"

fun expect_zpid :: "json_object \<Rightarrow> string list list \<Rightarrow> string \<Rightarrow> go_error + string" where
  "expect_zpid obj [] expected = Inr expected"
| "expect_zpid obj (path # paths) expected =
     (case lookup_path obj path of
        None \<Rightarrow> expect_zpid obj paths expected
      | Some v \<Rightarrow>
          if v = JNull then expect_zpid obj paths expected
          else
            (case normalize_zpid v of
               None \<Rightarrow> Inl (drift ''property'' (join ''.'' path) ''authoritative ZPID must be a positive decimal identifier'')
             | Some z \<Rightarrow>
                 if expected \<noteq> [] \<and> expected \<noteq> z
                 then Inl (drift ''property'' (join ''.'' path)
                        (''authoritative ZPID '' @ z @ '' conflicts with expected ZPID '' @ expected))
                 else expect_zpid obj paths z))"

definition expected_property_zpid :: "json \<Rightarrow> string \<Rightarrow> go_error + string" where
  "expected_property_zpid root_value requested =
     (case root_value of JObject obj \<Rightarrow> expect_zpid obj zpid_paths requested | _ \<Rightarrow> Inr requested)"

record property_identity =
  pi_key :: string
  pi_zpid :: string
  pi_url :: string

fun read_ids :: "json_object \<Rightarrow> string list \<Rightarrow> string \<Rightarrow> string + string" where
  "read_ids raw [] zpid = Inr zpid"
| "read_ids raw (key # keys) zpid =
     (if get raw key = JNull then read_ids raw keys zpid
      else
        (case normalize_zpid (get raw key) of
           None \<Rightarrow> if key = ''id'' then read_ids raw keys zpid else Inl (key @ '' must be a positive decimal identifier'')
         | Some z \<Rightarrow>
             if zpid \<noteq> [] \<and> zpid \<noteq> z then Inl (''conflicting property identifiers '' @ zpid @ '' and '' @ z)
             else read_ids raw keys z))"

fun read_urls :: "json_object \<Rightarrow> string list \<Rightarrow> string \<times> string \<Rightarrow> string + string \<times> string" where
  "read_urls raw [] acc = Inr acc"
| "read_urls raw (key # keys) (zpid, url) =
     (case get raw key of
        JNull \<Rightarrow> read_urls raw keys (zpid, url)
      | JString s \<Rightarrow>
          (let text = trim_space s; normalized = normalize_zillow_url text in
           if text = [] then read_urls raw keys (zpid, url)
           else
             (case url_parse normalized of
                None \<Rightarrow> Inl (key @ '' must be a valid property URL'')
              | Some parsed \<Rightarrow>
                  if u_path parsed = [] then Inl (key @ '' must be a valid property URL'')
                  else
                    (let z = zpid_from_path (u_path parsed); url' = or_else url normalized in
                     if z \<noteq> [] \<and> zpid \<noteq> [] \<and> zpid \<noteq> z
                     then Inl (key @ '' ZPID '' @ z @ '' conflicts with property ZPID '' @ zpid)
                     else read_urls raw keys (if z \<noteq> [] then z else zpid, url'))))
      | _ \<Rightarrow> Inl (key @ '' must be a string''))"

definition inspect_property_identity :: "json_object \<Rightarrow> string + property_identity" where
  "inspect_property_identity raw =
     (case read_ids raw [''zpid'', ''id''] [] of
        Inl msg \<Rightarrow> Inl msg
      | Inr z0 \<Rightarrow>
          (case read_urls raw [''url'', ''hdpUrl'', ''detailUrl''] (z0, []) of
             Inl msg \<Rightarrow> Inl msg
           | Inr (z, url) \<Rightarrow>
               Inr \<lparr>pi_key = (if z \<noteq> [] then ''zpid:'' @ z else if url \<noteq> [] then ''url:'' @ url else []),
                    pi_zpid = z, pi_url = url\<rparr>))"

section \<open>Normalizing a property\<close>

definition valid_integer :: "json \<Rightarrow> bool" where
  "valid_integer v \<longleftrightarrow> int64_from_any v \<noteq> None
     \<and> (case v of
          JNumber n \<Rightarrow> (case parse_float n of Some x \<Rightarrow> of_int \<lfloor>x\<rfloor> = x | None \<Rightarrow> False)
        | JFloat (Finite x) \<Rightarrow> of_int \<lfloor>x\<rfloor> = x
        | _ \<Rightarrow> True)"

definition is_number_or_money :: "json \<Rightarrow> bool" where
  "is_number_or_money v \<longleftrightarrow> int64_from_any v \<noteq> None \<or> (case v of JString text \<Rightarrow> parse_money text \<noteq> None | _ \<Rightarrow> False)"

definition validate_address_values :: "json_object \<Rightarrow> string option" where
  "validate_address_values raw = first_error
     [validate_optional_fields raw [''streetAddress'', ''addressStreet'', ''city'', ''addressCity'', ''state'',
        ''addressState'', ''full'', ''formattedAddress''] ''a string'' is_text,
      validate_optional_fields raw [''zipcode'', ''postalCode'', ''addressZipcode''] ''a string or number'' is_text_or_number]"

definition validate_property_values :: "json_object \<Rightarrow> string option" where
  "validate_property_values raw = first_error
     [validate_optional_fields raw [''price'', ''unformattedPrice''] ''a number or money string'' is_number_or_money,
      validate_optional_fields raw
        [''bedrooms'', ''beds'', ''bathrooms'', ''baths'', ''lotSize'', ''lotAreaValue'', ''latitude'', ''lat'', ''longitude'', ''lng'', ''lon'']
        ''numeric'' is_numeric,
      validate_optional_fields raw [''livingArea'', ''area'', ''yearBuilt''] ''an integer'' valid_integer,
      validate_optional_fields raw
        [''streetAddress'', ''addressStreet'', ''city'', ''addressCity'', ''state'', ''addressState'', ''homeType'', ''propertyType'',
         ''homeStatus'', ''statusType'', ''statusText'', ''description'', ''imgSrc'', ''imageUrl''] ''a string'' is_text,
      validate_optional_fields raw [''zipcode'', ''postalCode'', ''addressZipcode''] ''a string or number'' is_text_or_number,
      (case get raw ''address'' of
         JNull \<Rightarrow> None | JString _ \<Rightarrow> None
       | JObject v \<Rightarrow> map_option (\<lambda>msg. ''address.'' @ msg) (validate_address_values v)
       | _ \<Rightarrow> Some ''address must be a string or object''),
      validate_lat_long_field raw]"

text \<open>The facts at a glance by their lower-case labels; a later one replaces an earlier one.\<close>

definition text_or_empty :: "json \<Rightarrow> string" where
  "text_or_empty v = (case v of JString s \<Rightarrow> s | _ \<Rightarrow> [])"

definition glance_step :: "(string \<times> string) list \<Rightarrow> json \<Rightarrow> (string \<times> string) list" where
  "glance_step facts item =
     (case item of
        JObject obj \<Rightarrow>
          (let label = to_lower (trim_space (text_or_empty (get obj ''factLabel'')));
               v = trim_space (text_or_empty (get obj ''factValue''))
           in if label \<noteq> [] \<and> v \<noteq> [] then AList.update label v facts else facts)
      | _ \<Rightarrow> facts)"

definition at_a_glance_facts :: "json_object \<Rightarrow> (string \<times> string) list" where
  "at_a_glance_facts reso =
     (case get reso ''atAGlanceFacts'' of JArray items \<Rightarrow> foldl glance_step [] items | _ \<Rightarrow> [])"

definition fact :: "(string \<times> string) list \<Rightarrow> string \<Rightarrow> string" where
  "fact facts label = (case map_of facts label of Some v \<Rightarrow> v | None \<Rightarrow> [])"

definition when_text :: "string \<Rightarrow> string list" where
  "when_text s = (if s \<noteq> [] then [s] else [])"

definition populate_property_rental_facts :: "date_time \<Rightarrow> json_object \<Rightarrow> zillow_property \<Rightarrow> zillow_property" where
  "populate_property_rental_facts today raw p =
     (let reso = (case get raw ''resoFacts'' of JObject obj \<Rightarrow> obj | _ \<Rightarrow> []);
          facts = at_a_glance_facts reso;
          laundry = unique_strings (string_values (get reso ''laundryFeatures'') @ when_text (fact facts ''laundry'')
                      @ filter is_laundry_appliance (string_values (get reso ''appliances'')));
          parking = unique_strings (string_values (get reso ''parkingFeatures'') @ string_values (get reso ''otherParking'')
                      @ when_text (fact facts ''parking'')
                      @ (if boolean_value (get reso ''hasAttachedGarage'') then [''Attached Garage''] else [])
                      @ (if boolean_value (get reso ''hasGarage'') then [''Garage''] else [])
                      @ (if boolean_value (get reso ''hasOpenParking'') then [''Open Parking''] else []));
          pets = unique_strings (string_values (get reso ''allowedPets'') @ when_text (fact facts ''pets'')
                   @ (if boolean_value (get reso ''hasPetsAllowed'') then [''Pets allowed''] else []));
          parking_class = classify_parking parking (pr_description p);
          recency = rental_history_recency raw today
      in p\<lparr>pr_laundry_features := laundry, pr_laundry := classify_laundry laundry (pr_description p),
           pr_parking_features := parking, pr_parking := parking_class,
           pr_allowed_pets := pets, pr_pet_policy := classify_pet_policy pets,
           pr_flex_spaces := classify_flex_spaces (pr_description p) reso parking_class,
           pr_days_on_zillow := pointer_or (int64_pointer raw [''daysOnZillow'']) (snd (snd recency)),
           pr_listed_date := fst recency, pr_updated_date := fst (snd recency),
           pr_availability := normalized_availability (first_non_nil
             [get reso ''availabilityDate'', get raw ''availabilityDate'', JString (fact facts ''date available'')]),
           pr_year_built := pointer_or (pr_year_built p) (int64_pointer reso [''yearBuilt'', ''yearBuiltEffective''])\<rparr>)"

definition empty_property :: zillow_property where
  "empty_property = \<lparr>pr_id = [], pr_url = [], pr_address = empty_address, pr_price = None, pr_required_fees = None,
     pr_total_cost = None, pr_price_includes_fees = None, pr_bedrooms = None, pr_bathrooms = None, pr_living_area = None,
     pr_lot_size = None, pr_year_built = None, pr_home_type = [], pr_status = [], pr_shared_housing = False,
     pr_student_housing = False, pr_income_restricted = False, pr_description = [], pr_image_url = [],
     pr_coordinates = \<lparr>co_latitude = None, co_longitude = None\<rparr>, pr_days_on_zillow = None, pr_listed_date = [],
     pr_updated_date = [], pr_availability = [], pr_laundry = [], pr_laundry_features = [], pr_parking = [],
     pr_parking_features = [], pr_pet_policy = [], pr_allowed_pets = [], pr_flex_spaces = [],
     pr_verification_notes = [], pr_raw = []\<rparr>"

definition garage_note :: string where
  "garage_note = ''Private garage must be verified as exclusive-use, non-shared, and included in rent.''"

definition build_property :: "date_time \<Rightarrow> json_object \<Rightarrow> property_identity \<Rightarrow> zillow_property" where
  "build_property today raw identity =
     (let price = money_pointer raw [''unformattedPrice'', ''baseRent'', ''minBaseRent'', ''minPrice'', ''price''];
          fees = money_pointer raw [''totalRequiredMonthlyMinFee''];
          includes = bool_pointer raw ''listPriceIncludesRequiredMonthlyFees'';
          addr = normalize_address raw;
          description = first_string raw [''description''];
          housing = detect_shared_and_student_housing raw description (ad_full addr);
          p = empty_property\<lparr>
            pr_id := or_else (pi_zpid identity) (first_string raw [''zpid'', ''id'']),
            pr_url := or_else (normalize_zillow_url (first_string raw [''url'', ''hdpUrl'', ''detailUrl''])) (pi_url identity),
            pr_address := addr, pr_price := price,
            pr_bedrooms := float_pointer raw [''bedrooms'', ''beds''], pr_bathrooms := float_pointer raw [''bathrooms'', ''baths''],
            pr_living_area := int64_pointer raw [''livingArea'', ''area''],
            pr_lot_size := float_pointer raw [''lotSize'', ''lotAreaValue''], pr_year_built := int64_pointer raw [''yearBuilt''],
            pr_home_type := first_string raw [''homeType'', ''propertyType''],
            pr_status := first_string raw [''homeStatus'', ''statusType'', ''statusText''],
            pr_description := description,
            pr_image_url := first_string raw [''imgSrc'', ''imageUrl'', ''responsivePhotosOriginalRatio''],
            pr_coordinates := normalize_coordinates raw,
            pr_required_fees := fees, pr_price_includes_fees := includes, pr_total_cost := total_monthly_cost price fees includes\<rparr>;
          q = (populate_property_rental_facts today raw p)\<lparr>
            pr_shared_housing := fst housing, pr_student_housing := snd housing,
            pr_income_restricted := detect_income_restricted_housing raw description\<rparr>
      in if ''private-garage'' \<in> set (pr_flex_spaces q)
         then q\<lparr>pr_verification_notes := pr_verification_notes q @ [garage_note]\<rparr> else q)"

definition normalize_property :: "date_time \<Rightarrow> json_object \<Rightarrow> property_identity \<Rightarrow> string + zillow_property" where
  "normalize_property today raw identity =
     (case validate_property_values raw of
        Some msg \<Rightarrow> Inl msg
      | None \<Rightarrow>
          (let p = build_property today raw identity in
           if pr_id p = [] \<and> pr_url p = [] then Inl ''normalized property has no core identity'' else Inr p))"

definition points :: "int \<Rightarrow> bool \<Rightarrow> int" where
  "points n c = (if c then n else 0)"

definition property_score :: "zillow_property \<Rightarrow> int" where
  "property_score p =
     points 8 (pr_id p \<noteq> []) + points 4 (pr_url p \<noteq> []) + points 4 (ad_full (pr_address p) \<noteq> [])
     + points 3 (pr_price p \<noteq> None) + points 2 (pr_bedrooms p \<noteq> None) + points 2 (pr_bathrooms p \<noteq> None)
     + points 2 (pr_living_area p \<noteq> None) + points 1 (pr_home_type p \<noteq> [])
     + points 1 (co_latitude (pr_coordinates p) \<noteq> None) + points 1 (co_longitude (pr_coordinates p) \<noteq> None)
     + points 1 (pr_description p \<noteq> []) + points 1 (pr_year_built p \<noteq> None)
     + points 2 (pr_laundry p \<noteq> [] \<and> pr_laundry p \<noteq> ''unknown'') + points 1 (pr_parking p \<noteq> [] \<and> pr_parking p \<noteq> ''unknown'')
     + points 1 (pr_pet_policy p \<noteq> [] \<and> pr_pet_policy p \<noteq> ''unknown'') + points 1 (pr_flex_spaces p \<noteq> [])"

section \<open>Candidates\<close>

record property_candidate =
  pc_object :: json_object
  pc_path :: string
  pc_identity :: property_identity

definition no_identity :: property_identity where
  "no_identity = \<lparr>pi_key = [], pi_zpid = [], pi_url = []\<rparr>"

definition own_candidate :: "json_object \<Rightarrow> string \<Rightarrow> property_candidate list" where
  "own_candidate obj path =
     (case map_of obj ''property'' of
        Some (JObject p) \<Rightarrow> [\<lparr>pc_object = p, pc_path = dotted path ''property'', pc_identity = no_identity\<rparr>]
      | _ \<Rightarrow> [])"

fun collect_property_objects :: "string \<Rightarrow> json \<Rightarrow> property_candidate list" where
  "collect_property_objects path (JObject obj) =
     own_candidate obj path
     @ concat (map snd (sort_stable (\<lambda>a b. string_less (fst a) (fst b))
         (map (\<lambda>(key, item). (key, collect_property_objects (dotted path key) item)) obj)))"
| "collect_property_objects path (JArray items) =
     concat (map (\<lambda>(i, item). collect_property_objects (path @ ''['' @ itoa (int i) @ '']'') item) (zip [0..<length items] items))"
| "collect_property_objects path _ = []"

text \<open>The groups of candidates by identity key, the first identity error, and whether one has no identity.\<close>

record candidate_groups =
  cg_groups :: "(string \<times> property_candidate list) list"
  cg_error :: "go_error option"
  cg_nameless :: bool

definition add_to_group :: "string \<Rightarrow> property_candidate \<Rightarrow> (string \<times> property_candidate list) list \<Rightarrow> (string \<times> property_candidate list) list" where
  "add_to_group key c groups = AList.update key ((case map_of groups key of Some cs \<Rightarrow> cs | None \<Rightarrow> []) @ [c]) groups"

definition group_step :: "string \<Rightarrow> candidate_groups \<Rightarrow> property_candidate \<Rightarrow> candidate_groups" where
  "group_step expected g c0 =
     (case inspect_property_identity (pc_object c0) of
        Inl msg \<Rightarrow> (if cg_error g = None then g\<lparr>cg_error := Some (drift ''property'' (pc_path c0) msg)\<rparr> else g)
      | Inr identity \<Rightarrow>
          (let c = c0\<lparr>pc_identity := identity\<rparr> in
           if pi_key identity = [] then (if expected = [] then g\<lparr>cg_nameless := True\<rparr> else g)
           else if expected \<noteq> [] \<and> pi_zpid identity \<noteq> expected then g
           else g\<lparr>cg_groups := add_to_group (pi_key identity) c (cg_groups g)\<rparr>))"

definition group_candidates :: "string \<Rightarrow> property_candidate list \<Rightarrow> candidate_groups" where
  "group_candidates expected cs = foldl (group_step expected) \<lparr>cg_groups = [], cg_error = None, cg_nameless = False\<rparr> cs"

text \<open>The candidates in the order of their paths; the best valid one so far, and the first error.\<close>

fun best_of ::
  "date_time \<Rightarrow> (property_candidate \<times> zillow_property) option \<Rightarrow> go_error option \<Rightarrow> property_candidate list
   \<Rightarrow> (property_candidate \<times> zillow_property) option \<times> go_error option" where
  "best_of today best err [] = (best, err)"
| "best_of today best err (c # cs) =
     (case normalize_property today (pc_object c) (pc_identity c) of
        Inl msg \<Rightarrow> best_of today best (if err = None then Some (drift ''property'' (pc_path c) msg) else err) cs
      | Inr p \<Rightarrow>
          best_of today (case best of
              None \<Rightarrow> Some (c, p)
            | Some (b, bp) \<Rightarrow> if property_score p > property_score bp then Some (c, p) else best) err cs)"

definition best_property_candidate :: "date_time \<Rightarrow> property_candidate list \<Rightarrow> go_error + property_candidate \<times> zillow_property" where
  "best_property_candidate today cs =
     (case best_of today None None (sort_stable (\<lambda>a b. string_less (pc_path a) (pc_path b)) cs) of
        (Some best, err) \<Rightarrow> Inr best
      | (None, Some err) \<Rightarrow> Inl err
      | (None, None) \<Rightarrow> Inl (drift ''property'' ''gdpClientCache.*.property'' ''property object has no valid normalized values''))"

definition select_property_candidate ::
  "date_time \<Rightarrow> json \<Rightarrow> string \<Rightarrow> go_error + property_candidate \<times> zillow_property" where
  "select_property_candidate today root_value expected =
     (let fail = (\<lambda>detail. Inl (drift ''property'' ''gdpClientCache.*.property'' detail));
          candidates = collect_property_objects [] root_value;
          g = group_candidates expected candidates
      in if candidates = [] then fail ''property object is missing''
         else if expected \<noteq> [] then
           (case map_of (cg_groups g) (''zpid:'' @ expected) of
              None \<Rightarrow> fail (''property object for expected ZPID '' @ expected @ '' is missing'')
            | Some matching \<Rightarrow> best_property_candidate today matching)
         else (case cg_error g of
                 Some err \<Rightarrow> Inl err
               | None \<Rightarrow>
                   if cg_nameless g then fail ''property candidate without a core identity makes selection ambiguous''
                   else (case cg_groups g of
                           [] \<Rightarrow> fail ''property objects have no valid core identity''
                         | [(key, matching)] \<Rightarrow> best_property_candidate today matching
                         | groups \<Rightarrow> fail (''multiple distinct property candidates are ambiguous: ''
                             @ join '', '' (sort_stable string_less (map (\<lambda>(key, cs). trim_prefix key ''zpid:'') groups))))))"

section \<open>Pages\<close>

definition parse_property_document_for_zpid ::
  "page_env \<Rightarrow> string \<Rightarrow> bool \<Rightarrow> string \<Rightarrow> go_error + zillow_property" where
  "parse_property_document_for_zpid env document include_raw requested =
     (let cache_path = ''props.pageProps.componentProps.gdpClientCache'' in
      case extract_next_data (pe_unescape env) document of
        None \<Rightarrow> Inl (drift ''property'' ''script#__NEXT_DATA__'' ''required Next.js data script is missing'')
      | Some next_data \<Rightarrow>
          (case decode_json_value env next_data of
             Inl msg \<Rightarrow> Inl (drift ''property'' ''script#__NEXT_DATA__'' (''invalid JSON: '' @ msg))
           | Inr root_value \<Rightarrow>
               (case expected_property_zpid root_value requested of
                  Inl err \<Rightarrow> Inl err
                | Inr expected \<Rightarrow>
                    (case property_cache root_value of
                       None \<Rightarrow> Inl (drift ''property'' cache_path ''required property cache is missing'')
                     | Some cache \<Rightarrow>
                         (case decode_cache env cache of
                            Inl msg \<Rightarrow> Inl (drift ''property'' cache_path (''invalid cache JSON: '' @ msg))
                          | Inr cache_value \<Rightarrow>
                              (case select_property_candidate (pe_today env) cache_value expected of
                                 Inl err \<Rightarrow> Inl err
                               | Inr (c, p) \<Rightarrow>
                                   if include_raw then
                                     (case pe_encode env (JObject (pc_object c)) of
                                        Inl msg \<Rightarrow> Inl (drift ''property'' (pc_path c) (''cannot preserve raw property JSON: '' @ msg))
                                      | Inr raw \<Rightarrow> Inr (p\<lparr>pr_raw := raw\<rparr>))
                                   else Inr p))))))"

definition parse_property_document :: "page_env \<Rightarrow> string \<Rightarrow> bool \<Rightarrow> go_error + zillow_property" where
  "parse_property_document env document include_raw = parse_property_document_for_zpid env document include_raw []"

text \<open>Reading a saved page: \<open>max_bytes\<close> 0 is the default limit.\<close>

definition read_page :: "string \<Rightarrow> int \<Rightarrow> http_body option \<Rightarrow> go_error + string" where
  "read_page what max_bytes reader =
     (let limit = (if max_bytes = 0 then default_max_response_bytes else max_bytes) in
      case reader of
        None \<Rightarrow> Inl (Plain (what @ '': reader is nil''))
      | Some body \<Rightarrow>
          if limit < 0 then Inl (Plain (what @ '': maximum size must be positive''))
          else (case read_bounded body limit of
                  Inl err \<Rightarrow> if error_is err ErrResponseTooLarge then Inl (TooLarge \<lparr>tl_url = [], tl_limit = limit\<rparr>)
                             else Inl (Wrap what err)
                | Inr data \<Rightarrow> Inr data))"

definition challenge_free :: "string \<Rightarrow> go_error option" where
  "challenge_free data =
     (let reason = detect_challenge ResponseHTML 200 ''text/html'' data in
      if reason \<noteq> [] then Some (Challenge \<lparr>ce_url = [], ce_status = 200, ce_reason = reason\<rparr>) else None)"

definition read_property_with_options :: "page_env \<Rightarrow> http_body option \<Rightarrow> bool \<Rightarrow> int \<Rightarrow> go_error + zillow_property" where
  "read_property_with_options env reader include_raw max_bytes =
     (case read_page ''read Zillow property'' max_bytes reader of
        Inl err \<Rightarrow> Inl err
      | Inr data \<Rightarrow> (case challenge_free data of Some err \<Rightarrow> Inl err | None \<Rightarrow> parse_property_document env data include_raw))"

text \<open>Fetching a page of a Zillow URL, without its fragment: the body and the URL asked for.\<close>

definition fetch_page_html ::
  "net_env \<Rightarrow> client \<Rightarrow> bool \<Rightarrow> string \<Rightarrow> string \<Rightarrow> string \<Rightarrow> (go_error + string \<times> go_url) \<times> http_request list" where
  "fetch_page_html net c nil_context what operation raw_url =
     (case parse_allowed_zillow_url raw_url of
        Inl err \<Rightarrow> (Inl (Wrap what err), [])
      | Inr parsed \<Rightarrow>
          (let target = parsed\<lparr>u_fragment := []\<rparr> in
           case execute (ne_send net) (ne_parse_time net) (ne_now net) (Some c) nil_context
                  \<lparr>qs_operation = operation, qs_method = ''GET'', qs_url = target, qs_referer = [], qs_body = None, qs_kind = ResponseHTML\<rparr> of
             (Inl err, sent) \<Rightarrow> (Inl err, sent)
           | (Inr (data, h), sent) \<Rightarrow> (Inr (data, target), sent)))"

definition fetch_property_with_options ::
  "net_env \<Rightarrow> page_env \<Rightarrow> client option \<Rightarrow> bool \<Rightarrow> string \<Rightarrow> bool \<Rightarrow> (go_error + zillow_property) \<times> http_request list" where
  "fetch_property_with_options net env client0 nil_context raw_url include_raw =
     (case client0 of
        None \<Rightarrow> (Inl (Plain ''fetch Zillow property: client is nil''), [])
      | Some c \<Rightarrow>
          (case fetch_page_html net c nil_context ''fetch Zillow property'' ''property'' raw_url of
             (Inl err, sent) \<Rightarrow> (Inl err, sent)
           | (Inr (data, target), sent) \<Rightarrow>
               (case parse_property_document_for_zpid env data include_raw (zpid_from_path (u_path target)) of
                  Inl err \<Rightarrow> (Inl err, sent)
                | Inr p \<Rightarrow> (Inr (if pr_url p = [] then p\<lparr>pr_url := url_string target\<rparr> else p), sent))))"

end
