(* ===== verification/Property_Page_Props.thy ===== *)
theory Property_Page_Props
  imports Property_Page
begin

text \<open>
  What reading a property page guarantees: the candidates are exactly the objects held under a
  \<open>property\<close> key, the property that comes back is the requested home and no other, without a
  request it is the only home of the page, and among several copies it is the richest.
\<close>

section \<open>The candidates\<close>

text \<open>A value holds a property: an object under a \<open>property\<close> key, at any depth.\<close>

inductive holds_property :: "json \<Rightarrow> json_object \<Rightarrow> bool" where
  here: "map_of obj ''property'' = Some (JObject p) \<Longrightarrow> holds_property (JObject obj) p"
| in_member: "(k, v) \<in> set obj \<Longrightarrow> holds_property v p \<Longrightarrow> holds_property (JObject obj) p"
| in_item: "v \<in> set items \<Longrightarrow> holds_property v p \<Longrightarrow> holds_property (JArray items) p"

inductive_simps holds_object: "holds_property (JObject obj) p"
inductive_simps holds_array: "holds_property (JArray items) p"
inductive_cases holds_scalar: "holds_property JNull p" "holds_property (JBool b) p" "holds_property (JString s) p"
  "holds_property (JNumber s) p" "holds_property (JInt i) p" "holds_property (JFloat f) p"
  "holds_property (JStrings ts) p"

lemma own_candidate_object:
  "pc_object ` set (own_candidate obj path) = {p. map_of obj ''property'' = Some (JObject p)}"
  by (auto simp: own_candidate_def split: option.splits json.splits)

lemma collect_objects: "pc_object ` set (collect_property_objects path v) = {p. holds_property v p}"
proof (induction path v rule: collect_property_objects.induct)
  case (1 path obj)
  have "pc_object ` set (collect_property_objects path (JObject obj)) =
      {p. map_of obj ''property'' = Some (JObject p)}
      \<union> (\<Union>(k, v) \<in> set obj. pc_object ` set (collect_property_objects (dotted path k) v))"
    by (force simp: image_Un own_candidate_object image_UN)
  also have "\<dots> = {p. holds_property (JObject obj) p}"
    using 1 by (fastforce simp: holds_object)
  finally show ?case .
next
  case (2 path items)
  have members: "snd ` set (zip [0..<length items] items) = set items"
    by (metis length_upt list.set_map map_snd_zip minus_nat.diff_0)
  have "pc_object ` set (collect_property_objects path (JArray items)) =
      (\<Union>(i, v) \<in> set (zip [0..<length items] items). {p. holds_property v p})"
    using 2 by (fastforce simp: image_UN)
  also have "\<dots> = (\<Union>v \<in> snd ` set (zip [0..<length items] items). {p. holds_property v p})"
    by (simp add: case_prod_unfold)
  also have "\<dots> = {p. holds_property (JArray items) p}"
    unfolding members by (auto simp: holds_array)
  finally show ?case .
qed (auto elim: holds_scalar)

section \<open>The groups\<close>

definition wanted :: "string \<Rightarrow> property_identity \<Rightarrow> bool" where
  "wanted expected i \<longleftrightarrow> pi_key i \<noteq> [] \<and> (expected = [] \<or> pi_zpid i = expected)"

definition own_group :: "string \<Rightarrow> property_candidate list \<Rightarrow> string \<Rightarrow> property_candidate \<Rightarrow> bool" where
  "own_group expected cs key c \<longleftrightarrow> pc_object c \<in> pc_object ` set cs
     \<and> inspect_property_identity (pc_object c) = Inr (pc_identity c) \<and> wanted expected (pc_identity c) \<and> pi_key (pc_identity c) = key"

definition members :: "(string \<times> property_candidate list) list \<Rightarrow> string \<Rightarrow> property_candidate list" where
  "members groups key = (case map_of groups key of Some cs \<Rightarrow> cs | None \<Rightarrow> [])"

lemma members_add: "members (add_to_group key c groups) k = (if k = key then members groups k @ [c] else members groups k)"
  by (simp add: members_def add_to_group_def AList.update_conv')

text \<open>What the grouping loop keeps: groups of the candidates seen, with none of the wanted ones left out.\<close>

definition grouped :: "string \<Rightarrow> property_candidate list \<Rightarrow> candidate_groups \<Rightarrow> bool" where
  "grouped expected cs g \<longleftrightarrow>
     (\<forall>key. \<forall>c \<in> set (members (cg_groups g) key). own_group expected cs key c)
     \<and> (\<forall>c \<in> set cs. \<forall>i. inspect_property_identity (pc_object c) = Inr i \<longrightarrow> wanted expected i \<longrightarrow>
          c\<lparr>pc_identity := i\<rparr> \<in> set (members (cg_groups g) (pi_key i)))
     \<and> (expected = [] \<longrightarrow> cg_error g = None \<longrightarrow> \<not> cg_nameless g \<longrightarrow>
          (\<forall>c \<in> set cs. \<exists>i. inspect_property_identity (pc_object c) = Inr i \<and> wanted expected i))"

lemma own_group_more: "own_group expected cs key c \<Longrightarrow> own_group expected (cs @ ds) key c"
  by (auto simp: own_group_def)

lemma grouped_step:
  assumes "grouped expected cs g"
  shows "grouped expected (cs @ [c]) (group_step expected g c)"
proof (cases "inspect_property_identity (pc_object c)")
  case (Inl msg)
  then show ?thesis
    using assms by (auto simp: grouped_def group_step_def intro: own_group_more)
next
  case (Inr i)
  show ?thesis
  proof (cases "wanted expected i")
    case False
    then show ?thesis
      using assms Inr by (auto simp: grouped_def group_step_def Let_def wanted_def intro: own_group_more)
  next
    case True
    then have step: "group_step expected g c = g\<lparr>cg_groups := add_to_group (pi_key i) (c\<lparr>pc_identity := i\<rparr>) (cg_groups g)\<rparr>"
      using Inr by (auto simp: group_step_def Let_def wanted_def)
    have own: "own_group expected (cs @ [c]) (pi_key i) (c\<lparr>pc_identity := i\<rparr>)"
      using True Inr by (simp add: own_group_def)
    show ?thesis
      using assms own Inr True unfolding grouped_def step
      by (auto simp: members_add own_group_more)
  qed
qed

lemma grouped_candidates: "grouped expected cs (group_candidates expected cs)"
proof (induction cs rule: rev_induct)
  case Nil
  then show ?case by (simp add: grouped_def group_candidates_def members_def)
next
  case (snoc c cs)
  then show ?case using grouped_step [OF snoc] by (simp add: group_candidates_def)
qed

section \<open>The best of a group\<close>

lemma best_of_best:
  assumes "best_of today best err cs = (Some (c, p), err')"
  shows "(best = Some (c, p) \<or> c \<in> set cs \<and> normalize_property today (pc_object c) (pc_identity c) = Inr p)
    \<and> (\<forall>b q. best = Some (b, q) \<longrightarrow> property_score q \<le> property_score p)
    \<and> (\<forall>d \<in> set cs. \<forall>q. normalize_property today (pc_object d) (pc_identity d) = Inr q \<longrightarrow> property_score q \<le> property_score p)"
  using assms
proof (induction today best err cs rule: best_of.induct)
  case (2 today best err d cs)
  show ?case
  proof (cases "normalize_property today (pc_object d) (pc_identity d)")
    case (Inl msg)
    then show ?thesis using "2.IH"(1) [OF Inl] "2.prems" by auto
  next
    case (Inr q)
    have "best_of today (case best of None \<Rightarrow> Some (d, q)
            | Some (b, bp) \<Rightarrow> if property_score q > property_score bp then Some (d, q) else best) err cs = (Some (c, p), err')"
      using "2.prems" Inr by simp
    from "2.IH"(2) [OF Inr this] show ?thesis
      using Inr by (cases best) (auto split: if_splits)
  qed
qed simp

lemma best_candidate:
  assumes "best_property_candidate today cs = Inr (c, p)"
  shows "c \<in> set cs" "normalize_property today (pc_object c) (pc_identity c) = Inr p"
    "d \<in> set cs \<Longrightarrow> normalize_property today (pc_object d) (pc_identity d) = Inr q \<Longrightarrow> property_score q \<le> property_score p"
proof -
  obtain err where "best_of today None None (sort_stable (\<lambda>a b. string_less (pc_path a) (pc_path b)) cs) = (Some (c, p), err)"
    using assms by (auto simp: best_property_candidate_def split: prod.splits option.splits)
  note best = best_of_best [OF this]
  show "c \<in> set cs" "normalize_property today (pc_object c) (pc_identity c) = Inr p"
    "d \<in> set cs \<Longrightarrow> normalize_property today (pc_object d) (pc_identity d) = Inr q \<Longrightarrow> property_score q \<le> property_score p"
    using best by simp_all
qed

lemma one_group: "members [(key, ms)] k = (if k = key then ms else [])"
  by (simp add: members_def)

text \<open>What a successful selection has picked from, and that it is a group of the candidates.\<close>

lemma selected:
  assumes "select_property_candidate today v expected = Inr (c, p)"
  defines "g \<equiv> group_candidates expected (collect_property_objects [] v)"
  obtains key where "best_property_candidate today (members (cg_groups g) key) = Inr (c, p)"
    "expected \<noteq> [] \<Longrightarrow> key = ''zpid:'' @ expected"
    "expected = [] \<Longrightarrow> cg_error g = None \<and> \<not> cg_nameless g \<and> (\<forall>k. k \<noteq> key \<longrightarrow> members (cg_groups g) k = [])"
proof (cases "expected = []")
  case True
  note sel = assms(1) [unfolded select_property_candidate_def Let_def True, folded g_def [unfolded True]]
  obtain key ms where key: "cg_groups g = [(key, ms)]"
    using sel unfolding g_def True by (auto split: if_splits option.splits list.splits prod.splits)
  moreover have "cg_error g = None \<and> \<not> cg_nameless g \<and> best_property_candidate today ms = Inr (c, p)"
    using sel key unfolding g_def True by (auto split: if_splits option.splits)
  ultimately show thesis using True by (intro that [of key]) (simp_all add: one_group)
next
  case False
  obtain ms where "map_of (cg_groups g) (''zpid:'' @ expected) = Some ms" "best_property_candidate today ms = Inr (c, p)"
    using assms(1) False unfolding select_property_candidate_def Let_def g_def by (simp split: if_splits option.splits)
  then show thesis using False by (intro that [of "''zpid:'' @ expected"]) (simp_all add: members_def)
qed

section \<open>The right home\<close>

lemma populate_id: "pr_id (populate_property_rental_facts today raw p) = pr_id p"
  by (simp add: populate_property_rental_facts_def Let_def)

lemma build_id: "pi_zpid i \<noteq> [] \<Longrightarrow> pr_id (build_property today raw i) = pi_zpid i"
  by (simp add: build_property_def Let_def populate_id or_else_def)

lemma normalized_id:
  "normalize_property today raw i = Inr p \<Longrightarrow> pi_zpid i \<noteq> [] \<Longrightarrow> pr_id p = pi_zpid i"
  by (auto simp: normalize_property_def Let_def build_id split: option.splits if_splits)

lemma selected_home:
  assumes "select_property_candidate today v expected = Inr (c, p)" and "expected \<noteq> []"
  shows "pr_id p = expected" "holds_property v (pc_object c)"
    "inspect_property_identity (pc_object c) = Inr (pc_identity c)" "pi_zpid (pc_identity c) = expected"
proof -
  let ?cs = "collect_property_objects [] v"
  obtain key where best: "best_property_candidate today (members (cg_groups (group_candidates expected ?cs)) key) = Inr (c, p)"
    by (rule selected [OF assms(1)])
  note c = best_candidate(1) [OF best] best_candidate(2) [OF best]
  have own: "own_group expected ?cs key c"
    using grouped_candidates [of expected ?cs] c(1) unfolding grouped_def by blast
  then show zpid: "pi_zpid (pc_identity c) = expected" using assms(2) by (simp add: own_group_def wanted_def)
  then show "pr_id p = expected" using normalized_id [OF c(2)] assms(2) by simp
  show "holds_property v (pc_object c)" "inspect_property_identity (pc_object c) = Inr (pc_identity c)"
    using own collect_objects [of "[]" v] by (auto simp: own_group_def)
qed

text \<open>
  The candidates of a page are exactly the objects its cache holds under a \<open>property\<close> key, at any
  depth: the walk misses none and invents none.
\<close>
theorem candidates_exact:
  "pc_object ` set (collect_property_objects path v) = {p. holds_property v p}"
  by (rule collect_objects)

text \<open>
  With an expected ZPID the property returned is that home: its ID is the expected one, its own
  identifiers and URLs agree on it, and its object is held under a \<open>property\<close> key of the cache.
\<close>
theorem property_is_requested:
  assumes "select_property_candidate today v expected = Inr (c, p)" and "expected \<noteq> []"
  shows "pr_id p = expected \<and> holds_property v (pc_object c)
    \<and> (\<exists>i. inspect_property_identity (pc_object c) = Inr i \<and> pi_zpid i = expected)"
using selected_home [OF assms] by blast

text \<open>
  C23: Without an expected ZPID a property is returned only when the page is about one home: every
  object held under a \<open>property\<close> key has a sound identity and all of them have the same one.
\<close>
theorem property_unambiguous:
  assumes "select_property_candidate today v [] = Inr (c, p)"
  shows "\<exists>key. key \<noteq> [] \<and> (\<forall>raw. holds_property v raw \<longrightarrow> (\<exists>i. inspect_property_identity raw = Inr i \<and> pi_key i = key))"
proof -
  let ?cs = "collect_property_objects [] v" let ?g = "group_candidates [] ?cs"
  obtain key where best: "best_property_candidate today (members (cg_groups ?g) key) = Inr (c, p)"
    and clean: "cg_error ?g = None \<and> \<not> cg_nameless ?g \<and> (\<forall>k. k \<noteq> key \<longrightarrow> members (cg_groups ?g) k = [])"
    by (rule selected [OF assms]) simp
  note inv = grouped_candidates [of "[]" ?cs, unfolded grouped_def]
  have "own_group [] ?cs key c" using inv best_candidate(1) [OF best] by blast
  then have "key \<noteq> []" by (auto simp: own_group_def wanted_def)
  moreover have "\<exists>i. inspect_property_identity raw = Inr i \<and> pi_key i = key" if raw: "holds_property v raw" for raw
  proof -
    obtain d where d: "d \<in> set ?cs" "raw = pc_object d"
      using raw collect_objects [of "[]" v] by auto
    then obtain i where i: "inspect_property_identity raw = Inr i" "wanted [] i"
      using inv clean by (meson d(1))
    then have "d\<lparr>pc_identity := i\<rparr> \<in> set (members (cg_groups ?g) (pi_key i))" using inv d by blast
    then have "pi_key i = key" using clean by (metis empty_iff list.set(1))
    with i show ?thesis by blast
  qed
  ultimately show ?thesis by blast
qed

text \<open>
  Among several copies of the home in the cache the richest valid one is returned: no copy of the
  same identity that normalizes has a higher score.
\<close>
theorem property_richest:
  assumes "select_property_candidate today v expected = Inr (c, p)"
    and "holds_property v raw" and "inspect_property_identity raw = Inr i" and "pi_key i = pi_key (pc_identity c)"
    and "expected = [] \<or> pi_zpid i = expected" and "normalize_property today raw i = Inr q"
  shows "property_score q \<le> property_score p"
proof -
  let ?cs = "collect_property_objects [] v" let ?g = "group_candidates expected ?cs"
  obtain key where best: "best_property_candidate today (members (cg_groups ?g) key) = Inr (c, p)"
    by (rule selected [OF assms(1)])
  note inv = grouped_candidates [of expected ?cs, unfolded grouped_def]
  have own: "own_group expected ?cs key c" using inv best_candidate(1) [OF best] by blast
  obtain d where d: "d \<in> set ?cs" "raw = pc_object d"
    using assms(2) collect_objects [of "[]" v] by auto
  have "wanted expected i" using own assms(4,5) by (auto simp: own_group_def wanted_def)
  then have "d\<lparr>pc_identity := i\<rparr> \<in> set (members (cg_groups ?g) (pi_key i))"
    using inv d assms(3) by blast
  moreover have "pi_key i = key" using own assms(4) by (simp add: own_group_def)
  ultimately show ?thesis using best_candidate(3) [OF best, of "d\<lparr>pc_identity := i\<rparr>" q] d assms(6) by simp
qed

section \<open>From the URL to the home\<close>

lemma expect_zpid_fixed: "expect_zpid obj paths expected = Inr z \<Longrightarrow> expected \<noteq> [] \<Longrightarrow> z = expected"
  by (induction obj paths expected rule: expect_zpid.induct) (auto split: option.splits if_splits)

lemma expected_zpid_fixed: "expected_property_zpid v requested = Inr z \<Longrightarrow> requested \<noteq> [] \<Longrightarrow> z = requested"
  by (auto simp: expected_property_zpid_def expect_zpid_fixed split: json.splits)

lemma parsed_property:
  assumes "parse_property_document_for_zpid env document include_raw requested = Inr p" and "requested \<noteq> []"
  obtains v c p0 where "select_property_candidate (pe_today env) v requested = Inr (c, p0)" "pr_id p = pr_id p0" "pr_url p = pr_url p0"
  using assms
  by (auto simp: parse_property_document_for_zpid_def Let_def split: option.splits sum.splits if_splits dest!: expected_zpid_fixed)

text \<open>
  C9: Fetching the page of a URL that names a home gives that home or an error: one request is sent, to
  the URL without its fragment, and whatever the server answers, a property that comes back has the
  ZPID of the URL.
\<close>
theorem fetch_property_right_home:
  assumes "fetch_property_with_options net env (Some c) nil_context raw_url include_raw = (Inr p, sent)"
    and "parse_allowed_zillow_url raw_url = Inr u" and "zpid_from_path (u_path u) \<noteq> []"
  shows "pr_id p = zpid_from_path (u_path u) \<and> map qh_target sent = [url_string (u\<lparr>u_fragment := []\<rparr>)]"
proof -
  let ?u = "u\<lparr>u_fragment := []\<rparr>"
  obtain data where data: "fetch_page_html net c nil_context ''fetch Zillow property'' ''property'' raw_url = (Inr (data, ?u), sent)"
    using assms(1,2) by (auto simp: fetch_property_with_options_def fetch_page_html_def Let_def split: prod.splits sum.splits)
  then obtain h where ex: "execute (ne_send net) (ne_parse_time net) (ne_now net) (Some c) nil_context
      \<lparr>qs_operation = ''property'', qs_method = ''GET'', qs_url = ?u, qs_referer = [], qs_body = None, qs_kind = ResponseHTML\<rparr>
      = (Inr (data, h), sent)"
    using assms(2) by (auto simp: fetch_page_html_def Let_def split: prod.splits sum.splits)
  then have "map qh_target sent = [url_string ?u]"
    by (cases rule: execute_cases) (auto simp: build_request_def Let_def)
  moreover have "pr_id p = zpid_from_path (u_path u)"
  proof -
    obtain q where "parse_property_document_for_zpid env data include_raw (zpid_from_path (u_path u)) = Inr q" "pr_id p = pr_id q"
      using assms(1) data by (auto simp: fetch_property_with_options_def split: sum.splits)
    then show ?thesis
      by (elim parsed_property [OF _ assms(3)]) (simp add: selected_home(1) [OF _ assms(3)])
  qed
  ultimately show ?thesis by blast
qed

section \<open>Examples\<close>

text \<open>A cache with two copies of one home, the second with a description.\<close>

definition sample_home :: json_object where
  "sample_home = [(''zpid'', JString ''11''), (''description'', JString ''Sunny'')]"

definition sample_cache :: json where
  "sample_cache = JObject
     [(''a'', JObject [(''property'', JObject [(''zpid'', JString ''11'')])]),
      (''b'', JArray [JObject [(''property'', JObject sample_home)]])]"

definition sample_day :: date_time where "sample_day = unix_time 0"

definition sample_choice :: "string \<Rightarrow> go_error + property_candidate \<times> zillow_property" where
  "sample_choice expected = select_property_candidate sample_day sample_cache expected"

lemma sample_choice_value:
  "(case sample_choice ''11'' of Inl _ \<Rightarrow> None | Inr (c, p) \<Rightarrow> Some (pc_object c, pr_id p)) = Some (sample_home, ''11'')"
  "(case sample_choice [] of Inl _ \<Rightarrow> None | Inr (c, p) \<Rightarrow> Some (pc_object c, pr_id p)) = Some (sample_home, ''11'')"
  by code_simp+

lemma sample_choice_ok:
  obtains c p where "select_property_candidate sample_day sample_cache ''11'' = Inr (c, p)" "pc_object c = sample_home"
  using sample_choice_value(1) by (auto simp: sample_choice_def split: sum.splits)

theorem property_is_requested_witness: "holds_property sample_cache sample_home"
proof -
  obtain c p where c: "select_property_candidate sample_day sample_cache ''11'' = Inr (c, p)" "pc_object c = sample_home"
    by (rule sample_choice_ok)
  from property_is_requested [OF c(1)] c(2) show ?thesis by simp
qed

theorem property_unambiguous_witness:
  "\<exists>key i. inspect_property_identity sample_home = Inr i \<and> pi_key i = key \<and> key \<noteq> []"
proof -
  obtain c p where "select_property_candidate sample_day sample_cache [] = Inr (c, p)"
    using sample_choice_value(2) by (auto simp: sample_choice_def split: sum.splits)
  from property_unambiguous [OF this] obtain key where
    key: "key \<noteq> []" "\<forall>raw. holds_property sample_cache raw \<longrightarrow> (\<exists>i. inspect_property_identity raw = Inr i \<and> pi_key i = key)"
    by (elim exE conjE)
  have "sample_home \<in> pc_object ` set (collect_property_objects [] sample_cache)" by code_simp
  then have "holds_property sample_cache sample_home" by (simp add: collect_objects)
  with key show ?thesis by blast
qed

theorem property_richest_witness:
  "\<exists>p q. property_score q \<le> property_score p \<and> pr_id q = ''11'' \<and> 0 < property_score q"
proof -
  let ?raw = "[(''zpid'', JString ''11'')]" let ?i = "\<lparr>pi_key = ''zpid:11'', pi_zpid = ''11'', pi_url = []\<rparr>"
  obtain c p where c: "select_property_candidate sample_day sample_cache ''11'' = Inr (c, p)" "pc_object c = sample_home"
    by (rule sample_choice_ok)
  have i: "inspect_property_identity ?raw = Inr ?i" "inspect_property_identity sample_home = Inr ?i" by code_simp+
  have key: "pi_key ?i = pi_key (pc_identity c)" using selected_home(3) [OF c(1)] c(2) i(2) by simp
  have held: "?raw \<in> pc_object ` set (collect_property_objects [] sample_cache)" by code_simp
  then have held: "holds_property sample_cache ?raw" by (simp add: collect_objects)
  have "(case normalize_property sample_day ?raw ?i of Inl _ \<Rightarrow> False | Inr q \<Rightarrow> pr_id q = ''11'' \<and> 0 < property_score q)" by code_simp
  then obtain q where q: "normalize_property sample_day ?raw ?i = Inr q" "pr_id q = ''11''" "0 < property_score q"
    by (auto split: sum.splits)
  from property_richest [OF c(1) held i(1) key _ q(1)] q(2,3) show ?thesis by (intro exI conjI) simp_all
qed

text \<open>A server that answers with a page about home 11, and the page of that home.\<close>

definition sample_document :: string where
  "sample_document = ''<script id=__NEXT_DATA__>{}</script></html>''"

definition sample_env :: page_env where
  "sample_env = \<lparr>pe_unescape = id,
     pe_decode = (\<lambda>_. OneJson (JObject [(''gdpClientCache'', sample_cache)])),
     pe_encode = (\<lambda>_. Inr ''{}''), pe_today = sample_day\<rparr>"

definition sample_net :: net_env where
  "sample_net = \<lparr>ne_send = (\<lambda>_. Inr \<lparr>hp_status_code = 200, hp_status = ''200 OK'', hp_headers = [(''Content-Type'', [''text/html''])],
     hp_body = \<lparr>hb_data = sample_document, hb_error = None\<rparr>\<rparr>), ne_parse_time = (\<lambda>_. None), ne_now = 0\<rparr>"

definition page_client :: client where
  "page_client = \<lparr>cl_user_agent = ''gozillo/1'', cl_browser_headers = [], cl_max_response_bytes = 1000, cl_timeout = 1\<rparr>"

definition home_url :: string where "home_url = ''https://www.zillow.com/homedetails/11_zpid/''"

definition sample_fetch :: "(go_error + zillow_property) \<times> http_request list" where
  "sample_fetch = fetch_property_with_options sample_net sample_env (Some page_client) False home_url False"

theorem fetch_property_right_home_witness:
  "\<exists>p sent. sample_fetch = (Inr p, sent) \<and> pr_id p = ''11'' \<and> map qh_target sent = [home_url]"
proof -
  have "(case fst sample_fetch of Inl _ \<Rightarrow> False | Inr p \<Rightarrow> True)" by code_simp
  then obtain p where "fst sample_fetch = Inr p" by (auto split: sum.splits)
  then obtain sent where f: "sample_fetch = (Inr p, sent)" by (metis prod.collapse)
  have "(case parse_allowed_zillow_url home_url of Inl _ \<Rightarrow> False
      | Inr u \<Rightarrow> zpid_from_path (u_path u) = ''11'' \<and> url_string (u\<lparr>u_fragment := []\<rparr>) = home_url)" by code_simp
  then obtain u where u: "parse_allowed_zillow_url home_url = Inr u" "zpid_from_path (u_path u) = ''11''"
    "url_string (u\<lparr>u_fragment := []\<rparr>) = home_url"
    by (auto split: sum.splits)
  from fetch_property_right_home [OF f [unfolded sample_fetch_def] u(1)] u(2,3) f show ?thesis by (intro exI [of _ p] exI [of _ sent]) simp
qed

end
