(* ===== verification/Rental_Page.thy ===== *)
theory Rental_Page
  imports Property_Page
begin

text \<open>
  Rental pages (\<open>internal/zillow/rental_page.go\<close>): a page is either a single property or a community
  whose floor plans and units become properties of their own. A nil map reads like an empty one, so
  only the unit, which the code tests for nil, is optional.
\<close>

section \<open>Reading two sources\<close>

definition merge_community_values :: "json_object \<Rightarrow> json_object option \<Rightarrow> json_object" where
  "merge_community_values floor_plan unit =
     (case unit of
        None \<Rightarrow> floor_plan
      | Some u \<Rightarrow>
          foldl (\<lambda>result (key, v). if v \<noteq> JNull then AList.update key v result else result)
            (AList.delete ''zpid'' floor_plan) u)"

definition community_zpid :: "json_object \<Rightarrow> string" where
  "community_zpid raw = (case normalize_zpid (get raw ''zpid'') of None \<Rightarrow> [] | Some zid \<Rightarrow> zid)"

definition first_string_from_sources :: "json_object \<Rightarrow> json_object \<Rightarrow> string list \<Rightarrow> string" where
  "first_string_from_sources primary fallback keys = or_else (first_string primary keys) (first_string fallback keys)"

definition first_money_pointer :: "json_object \<Rightarrow> json_object \<Rightarrow> string list \<Rightarrow> int option" where
  "first_money_pointer primary fallback keys = pointer_or (money_pointer primary keys) (money_pointer fallback keys)"

definition first_bool_pointer :: "json_object \<Rightarrow> json_object \<Rightarrow> string \<Rightarrow> bool option" where
  "first_bool_pointer primary fallback key = pointer_or (bool_pointer primary key) (bool_pointer fallback key)"

fun normalized_availability_from_source :: "json_object \<Rightarrow> string list \<Rightarrow> string" where
  "normalized_availability_from_source raw [] = []"
| "normalized_availability_from_source raw (key # keys) =
     (if normalized_availability (get raw key) \<noteq> [] then normalized_availability (get raw key)
      else normalized_availability_from_source raw keys)"

definition first_normalized_availability :: "json_object \<Rightarrow> json_object \<Rightarrow> string list \<Rightarrow> string" where
  "first_normalized_availability primary fallback keys =
     or_else (normalized_availability_from_source primary keys) (normalized_availability_from_source fallback keys)"

definition first_float_pointer :: "json_object \<Rightarrow> json_object \<Rightarrow> string list \<Rightarrow> rat option" where
  "first_float_pointer primary fallback keys = pointer_or (float_pointer primary keys) (float_pointer fallback keys)"

definition first_int64_pointer :: "json_object \<Rightarrow> json_object \<Rightarrow> string list \<Rightarrow> int option" where
  "first_int64_pointer primary fallback keys = pointer_or (int64_pointer primary keys) (int64_pointer fallback keys)"

section \<open>One unit or floor plan\<close>

text \<open>What the building gives to all its units.\<close>

record community_base =
  cb_building :: json_object
  cb_address :: address
  cb_coordinates :: coordinates
  cb_description :: string
  cb_amenities :: "string list"
  cb_shared_laundry :: bool
  cb_source_url :: string

definition unit_address :: "address \<Rightarrow> json_object \<Rightarrow> address" where
  "unit_address a u =
     (let unit_number = first_string u [''unitNumber''];
          b = a\<lparr>ad_street := trim_space (ad_street a @ '' #'' @ unit_number)\<rparr>
      in if unit_number \<noteq> [] then b\<lparr>ad_full := join_address b\<rparr> else a)"

definition unit_features :: "json_object \<Rightarrow> string list" where
  "unit_features raw = recursive_strings (get raw ''amenityDetails'') @ recursive_strings (get raw ''unitFeatures'')"

definition unit_laundry :: "community_base \<Rightarrow> string list \<Rightarrow> string list \<Rightarrow> string \<Rightarrow> string" where
  "unit_laundry base own amenities description =
     (let l1 = classify_laundry own description;
          l2 = (if l1 = ''unknown'' then classify_laundry amenities description else l1)
      in if l2 = ''unknown'' \<and> cb_shared_laundry base then ''shared'' else l2)"

definition unit_notes :: "zillow_property \<Rightarrow> bool \<Rightarrow> string list" where
  "unit_notes p floor_plan_only =
     (if ''private-garage'' \<in> set (pr_flex_spaces p) then [garage_note] else [])
     @ (if floor_plan_only then [''Floor plan availability and exact unit details require verification.''] else [])
     @ (if pr_total_cost p = None then [''Required monthly fees and total monthly cost need verification.''] else [])"

definition build_community_property ::
  "community_base \<Rightarrow> json_object \<Rightarrow> json_object option \<Rightarrow> string \<Rightarrow> int option \<Rightarrow> string \<Rightarrow> zillow_property" where
  "build_community_property base floor_plan unit zid price availability =
     (let u = (case unit of None \<Rightarrow> [] | Some obj \<Rightarrow> obj);
          whole = merge_community_values floor_plan unit;
          addr = unit_address (cb_address base) u;
          description = trim_space (join '' | '' (non_empty
            [first_string u [''description'', ''additionalInformation''],
             first_string floor_plan [''description'', ''additionalInformation''], cb_description base]));
          own = unique_strings (unit_features u @ unit_features floor_plan);
          amenities = unique_strings (unit_features u @ unit_features floor_plan @ cb_amenities base);
          parking = classify_parking own description;
          pets = unique_strings (string_values (get u ''allowedPets'') @ string_values (get floor_plan ''allowedPets''));
          fees = first_money_pointer u floor_plan [''totalRequiredMonthlyMinFee''];
          includes = first_bool_pointer u floor_plan ''listPriceIncludesRequiredMonthlyFees'';
          building_housing = detect_shared_and_student_housing (cb_building base) (cb_description base) (ad_full (cb_address base));
          unit_housing = detect_shared_and_student_housing whole description (ad_full addr)
      in empty_property\<lparr>
           pr_id := zid, pr_url := community_property_url zid (cb_source_url base), pr_address := addr, pr_price := price,
           pr_required_fees := fees, pr_total_cost := total_monthly_cost price fees includes, pr_price_includes_fees := includes,
           pr_bedrooms := first_float_pointer u floor_plan [''beds'', ''bedrooms''],
           pr_bathrooms := first_float_pointer u floor_plan [''baths'', ''bathrooms''],
           pr_living_area := first_int64_pointer u floor_plan [''sqft'', ''livingArea'', ''area''],
           pr_home_type := ''APARTMENT'',
           pr_status := first_string_from_sources u floor_plan [''homeStatus'', ''statusType'', ''statusText''],
           pr_description := description, pr_coordinates := cb_coordinates base, pr_availability := availability,
           pr_laundry := unit_laundry base own amenities description, pr_laundry_features := amenities,
           pr_parking := parking, pr_parking_features := own,
           pr_pet_policy := classify_pet_policy pets, pr_allowed_pets := pets,
           pr_flex_spaces := classify_flex_spaces description [(''interiorFeatures'', JStrings amenities)] parking,
           pr_shared_housing := fst building_housing \<or> fst unit_housing,
           pr_student_housing := snd building_housing \<or> snd unit_housing,
           pr_income_restricted := detect_income_restricted_housing (cb_building base) (cb_description base)
             \<or> detect_income_restricted_housing whole description\<rparr>)"

definition add_raw :: "page_env \<Rightarrow> bool \<Rightarrow> json_object \<Rightarrow> zillow_property \<Rightarrow> zillow_property" where
  "add_raw env include_raw whole p =
     (if include_raw then (case pe_encode env (JObject whole) of Inr raw \<Rightarrow> p\<lparr>pr_raw := raw\<rparr> | Inl _ \<Rightarrow> p) else p)"

definition normalize_community_rental ::
  "page_env \<Rightarrow> community_base \<Rightarrow> json_object \<Rightarrow> json_object option \<Rightarrow> bool \<Rightarrow> bool \<Rightarrow> zillow_property option" where
  "normalize_community_rental env base floor_plan unit include_raw floor_plan_only =
     (let u = (case unit of None \<Rightarrow> [] | Some obj \<Rightarrow> obj);
          zid = (case unit of None \<Rightarrow> community_zpid floor_plan | Some obj \<Rightarrow> community_zpid obj);
          price = first_money_pointer u floor_plan [''baseRent'', ''minBaseRent'', ''minPrice'', ''price''];
          availability = first_normalized_availability u floor_plan [''availableFrom'', ''availabilityDate'']
      in if zid = [] \<and> price = None \<and> availability = [] then None
         else
           (let p = build_community_property base floor_plan unit zid price availability
            in Some (add_raw env include_raw (merge_community_values floor_plan unit)
                 (p\<lparr>pr_verification_notes := unit_notes p floor_plan_only\<rparr>))))"

section \<open>A community\<close>

record community_candidate =
  cc_property :: zillow_property
  cc_dedup_key :: string

definition community_property_dedup_key :: "string \<Rightarrow> string \<Rightarrow> string" where
  "community_property_dedup_key zid source_path = (if zid \<noteq> [] then ''zpid:'' @ zid else ''source:'' @ source_path)"

definition community_candidate_of :: "string \<Rightarrow> zillow_property option \<Rightarrow> community_candidate list" where
  "community_candidate_of path p0 =
     (case p0 of
        None \<Rightarrow> []
      | Some p \<Rightarrow> [\<lparr>cc_property = p, cc_dedup_key = community_property_dedup_key (pr_id p) path\<rparr>])"

definition indexed :: "'a list \<Rightarrow> (nat \<times> 'a) list" where
  "indexed xs = zip [0..<length xs] xs"

definition array_items :: "json \<Rightarrow> json list" where
  "array_items v = (case v of JArray items \<Rightarrow> items | _ \<Rightarrow> [])"

definition unit_candidates :: "page_env \<Rightarrow> community_base \<Rightarrow> bool \<Rightarrow> json_object \<Rightarrow> string \<Rightarrow> json list \<Rightarrow> community_candidate list" where
  "unit_candidates env base include_raw floor_plan path units =
     concat (map (\<lambda>(i, unit). case unit of
         JObject u \<Rightarrow> community_candidate_of (path @ ''['' @ itoa (int i) @ '']'')
                       (normalize_community_rental env base floor_plan (Some u) include_raw False)
       | _ \<Rightarrow> []) (indexed units))"

definition floor_plan_candidates :: "page_env \<Rightarrow> community_base \<Rightarrow> bool \<Rightarrow> nat \<Rightarrow> json \<Rightarrow> community_candidate list" where
  "floor_plan_candidates env base include_raw i v =
     (case v of
        JObject floor_plan \<Rightarrow>
          (let path = ''floorPlans['' @ itoa (int i) @ '']'';
               units = unit_candidates env base include_raw floor_plan (path @ ''.units'') (array_items (get floor_plan ''units''))
           in if units \<noteq> [] then units
              else community_candidate_of path (normalize_community_rental env base floor_plan None include_raw True))
      | _ \<Rightarrow> [])"

definition community_candidates :: "page_env \<Rightarrow> community_base \<Rightarrow> bool \<Rightarrow> community_candidate list" where
  "community_candidates env base include_raw =
     concat (map (\<lambda>(i, v). floor_plan_candidates env base include_raw i v) (indexed (array_items (get (cb_building base) ''floorPlans''))))
     @ unit_candidates env base include_raw [] ''ungroupedUnits'' (array_items (get (cb_building base) ''ungroupedUnits''))"

definition candidate_key :: "community_candidate \<Rightarrow> string" where
  "candidate_key c =
     (if cc_dedup_key c = [] then pr_url (cc_property c) @ ''|'' @ ad_full (pr_address (cc_property c)) else cc_dedup_key c)"

fun dedupe_candidates :: "string list \<Rightarrow> community_candidate list \<Rightarrow> community_candidate list" where
  "dedupe_candidates seen [] = []"
| "dedupe_candidates seen (c # cs) =
     (if candidate_key c \<in> set seen then dedupe_candidates seen cs else c # dedupe_candidates (candidate_key c # seen) cs)"

definition deduplicate_community_properties :: "community_candidate list \<Rightarrow> zillow_property list" where
  "deduplicate_community_properties cs = map cc_property (dedupe_candidates [] cs)"

definition community_base_of :: "json_object \<Rightarrow> string \<Rightarrow> community_base" where
  "community_base_of building source_url =
     \<lparr>cb_building = building, cb_address = normalize_address building, cb_coordinates = normalize_coordinates building,
      cb_description = first_string building [''description''],
      cb_amenities = recursive_strings (get building ''commonUnitAmenities''),
      cb_shared_laundry =
        (case get building ''buildingAttributes'' of
           JObject attributes \<Rightarrow> bool_from_any (get attributes ''hasSharedLaundry'') = Some True | _ \<Rightarrow> False),
      cb_source_url = source_url\<rparr>"

definition normalize_community_properties :: "page_env \<Rightarrow> json_object \<Rightarrow> string \<Rightarrow> bool \<Rightarrow> zillow_property list" where
  "normalize_community_properties env building source_url include_raw =
     deduplicate_community_properties (community_candidates env (community_base_of building source_url) include_raw)"

section \<open>Pages\<close>

datatype page_kind = PropertyPage | CommunityPage

record rental_page =
  rp_kind :: page_kind
  rp_properties :: "zillow_property list"

definition building_path :: "string list" where
  "building_path = [''props'', ''pageProps'', ''componentProps'', ''initialReduxState'', ''gdp'', ''building'']"

definition parse_rental_page_document :: "page_env \<Rightarrow> string \<Rightarrow> bool \<Rightarrow> string \<Rightarrow> string \<Rightarrow> go_error + rental_page" where
  "parse_rental_page_document env document include_raw requested source_url =
     (let fail = (\<lambda>path detail. Inl (drift ''rental page'' path detail)) in
      case extract_next_data (pe_unescape env) document of
        None \<Rightarrow> fail ''script#__NEXT_DATA__'' ''required Next.js data script is missing''
      | Some next_data \<Rightarrow>
          (case decode_json_value env next_data of
             Inl msg \<Rightarrow> fail ''script#__NEXT_DATA__'' (''invalid JSON: '' @ msg)
           | Inr (JObject obj) \<Rightarrow>
               (case lookup_path obj building_path of
                  Some (JObject building) \<Rightarrow>
                    (let properties = normalize_community_properties env building source_url include_raw in
                     if properties = [] then fail ''building.floorPlans'' ''no currently described rental units or floor plans''
                     else Inr \<lparr>rp_kind = CommunityPage, rp_properties = properties\<rparr>)
                | Some _ \<Rightarrow> fail (join ''.'' building_path) ''building must be an object''
                | None \<Rightarrow>
                    (case parse_property_document_for_zpid env document include_raw requested of
                       Inl err \<Rightarrow> Inl err
                     | Inr p \<Rightarrow> Inr \<lparr>rp_kind = PropertyPage, rp_properties = [p]\<rparr>))
           | Inr _ \<Rightarrow> fail ''script#__NEXT_DATA__'' ''top-level value must be an object''))"

definition read_rental_page_with_options :: "page_env \<Rightarrow> http_body option \<Rightarrow> bool \<Rightarrow> int \<Rightarrow> go_error + rental_page" where
  "read_rental_page_with_options env reader include_raw max_bytes =
     (case read_page ''read Zillow rental page'' max_bytes reader of
        Inl err \<Rightarrow> Inl err
      | Inr data \<Rightarrow>
          (case challenge_free data of
             Some err \<Rightarrow> Inl err
           | None \<Rightarrow> parse_rental_page_document env data include_raw [] []))"

definition fetch_rental_page_with_options ::
  "net_env \<Rightarrow> page_env \<Rightarrow> client option \<Rightarrow> bool \<Rightarrow> string \<Rightarrow> bool \<Rightarrow> (go_error + rental_page) \<times> http_request list" where
  "fetch_rental_page_with_options net env client0 nil_context raw_url include_raw =
     (case client0 of
        None \<Rightarrow> (Inl (Plain ''fetch Zillow rental page: client is nil''), [])
      | Some c \<Rightarrow>
          (case fetch_page_html net c nil_context ''fetch Zillow rental page'' ''rental page'' raw_url of
             (Inl err, sent) \<Rightarrow> (Inl err, sent)
           | (Inr (data, target), sent) \<Rightarrow>
               (case parse_rental_page_document env data include_raw (zpid_from_path (u_path target)) (url_string target) of
                  Inl err \<Rightarrow> (Inl err, sent)
                | Inr page \<Rightarrow>
                    (Inr (page\<lparr>rp_properties :=
                       map (\<lambda>p. if pr_url p = [] then p\<lparr>pr_url := url_string target\<rparr> else p) (rp_properties page)\<rparr>), sent))))"

end
