(* ===== verification/Rental_Page_Props.thy ===== *)
theory Rental_Page_Props
  imports Rental_Page
begin

text \<open>
  What a community page guarantees: no two properties with one ZPID, no unit or floor plan lost,
  and an unknown total cost flagged for verification.
\<close>

section \<open>Duplicates\<close>

interpretation communities: first_wins "\<lambda>c. Some (candidate_key c)" dedupe_candidates
  by unfold_locales auto

lemma candidate_of_key:
  "c \<in> set (community_candidate_of path p) \<Longrightarrow> cc_dedup_key c = community_property_dedup_key (pr_id (cc_property c)) path"
  by (auto simp: community_candidate_of_def split: option.splits)

definition keyed :: "community_candidate \<Rightarrow> bool" where
  "keyed c \<longleftrightarrow> (\<exists>path. cc_dedup_key c = community_property_dedup_key (pr_id (cc_property c)) path)"

lemma unit_candidate_cases:
  assumes "c \<in> set (unit_candidates env base include_raw floor_plan path units)"
  obtains i where "cc_dedup_key c = community_property_dedup_key (pr_id (cc_property c)) (path @ ''['' @ itoa (int i) @ '']'')"
  using assms by (auto simp: unit_candidates_def dest!: candidate_of_key split: json.splits)

lemma floor_plan_candidate_cases:
  assumes "c \<in> set (floor_plan_candidates env base include_raw i v)"
  obtains rest where "cc_dedup_key c = community_property_dedup_key (pr_id (cc_property c)) (''floorPlans['' @ itoa (int i) @ '']'' @ rest)"
proof -
  let ?path = "''floorPlans['' @ itoa (int i) @ '']''"
  obtain fp where fp: "v = JObject fp" using assms by (cases v) (auto simp: floor_plan_candidates_def)
  consider "c \<in> set (unit_candidates env base include_raw fp (?path @ ''.units'') (array_items (get fp ''units'')))"
    | "c \<in> set (community_candidate_of ?path (normalize_community_rental env base fp None include_raw True))"
    using assms fp by (auto simp: floor_plan_candidates_def Let_def split: if_splits)
  then show thesis
  proof cases
    case 1
    then obtain j where "cc_dedup_key c = community_property_dedup_key (pr_id (cc_property c)) ((?path @ ''.units'') @ ''['' @ itoa (int j) @ '']'')"
      by (rule unit_candidate_cases)
    then show thesis by (intro that [of "''.units['' @ itoa (int j) @ '']''"]) simp
  next
    case 2
    then show thesis using that [of "[]"] by (simp add: candidate_of_key)
  qed
qed

lemma candidate_cases:
  assumes "c \<in> set (community_candidates env base include_raw)"
  shows "keyed c"
proof -
  from assms consider i v where "c \<in> set (floor_plan_candidates env base include_raw i v)"
    | "c \<in> set (unit_candidates env base include_raw [] ''ungroupedUnits'' (array_items (get (cb_building base) ''ungroupedUnits'')))"
    by (auto simp: community_candidates_def)
  then show ?thesis
  proof cases
    case 1
    then show ?thesis by (rule floor_plan_candidate_cases) (auto simp: keyed_def)
  next
    case 2
    then show ?thesis by (rule unit_candidate_cases) (auto simp: keyed_def)
  qed
qed

lemma keyed_key: "keyed c \<Longrightarrow> candidate_key c = cc_dedup_key c"
  by (auto simp: keyed_def candidate_key_def community_property_dedup_key_def split: if_splits)

lemma keyed_zpid: "keyed c \<Longrightarrow> pr_id (cc_property c) \<noteq> [] \<longleftrightarrow> take 5 (cc_dedup_key c) = ''zpid:''"
  "keyed c \<Longrightarrow> pr_id (cc_property c) \<noteq> [] \<Longrightarrow> cc_dedup_key c = ''zpid:'' @ pr_id (cc_property c)"
  by (auto simp: keyed_def community_property_dedup_key_def numeral_eq_Suc split: if_splits)

text \<open>
  A community page never lists a ZPID twice: the properties that have one have pairwise distinct
  ones, whatever the floor plans and ungrouped units repeat.
\<close>
theorem community_zpids_distinct:
  "distinct (filter (\<lambda>zid. zid \<noteq> []) (map pr_id (normalize_community_properties env building source_url include_raw)))"
proof -
  define cs where "cs = dedupe_candidates [] (community_candidates env (community_base_of building source_url) include_raw)"
  have keyed: "keyed c" if "c \<in> set cs" for c
    using that communities.scan_subset candidate_cases unfolding cs_def by blast
  have "distinct (map candidate_key cs)"
    using communities.scan_distinct [of "[]"] unfolding cs_def by (simp add: distinct_map inj_on_def)
  then have "distinct (map candidate_key (filter (\<lambda>c. pr_id (cc_property c) \<noteq> []) cs))"
    by (simp add: distinct_map inj_on_def)
  also have "map candidate_key (filter (\<lambda>c. pr_id (cc_property c) \<noteq> []) cs)
      = map (\<lambda>zid. ''zpid:'' @ zid) (filter (\<lambda>zid. zid \<noteq> []) (map (\<lambda>c. pr_id (cc_property c)) cs))"
    using keyed by (induction cs) (auto simp: keyed_key keyed_zpid(2))
  finally have "distinct (filter (\<lambda>zid. zid \<noteq> []) (map (\<lambda>c. pr_id (cc_property c)) cs))" by (simp add: distinct_map)
  then show ?thesis
    by (simp add: normalize_community_properties_def deduplicate_community_properties_def cs_def o_def)
qed

section \<open>Nothing is lost\<close>

text \<open>A list of pieces whose elements carry the label of their piece.\<close>

lemma labelled_distinct:
  assumes "distinct (map fst xs)" and "\<And>i x. (i, x) \<in> set xs \<Longrightarrow> distinct (map key (filter P (f i x)))"
    and "\<And>i x c. (i, x) \<in> set xs \<Longrightarrow> c \<in> set (f i x) \<Longrightarrow> P c \<Longrightarrow> label (key c) = l i" and "inj l"
  shows "distinct (map key (filter P (concat (map (\<lambda>(i, x). f i x) xs))))"
  using assms(1-3)
proof (induction xs)
  case (Cons a xs)
  obtain i x where a: "a = (i, x)" by (cases a)
  have "key c \<noteq> key d"
    if "c \<in> set (f i x)" "P c" "(j, y) \<in> set xs" "d \<in> set (f j y)" "P d" for c d j y
  proof
    assume "key c = key d"
    moreover have "label (key c) = l i" "label (key d) = l j"
      using that Cons.prems(3) [of i x c] Cons.prems(3) [of j y d] a by auto
    ultimately have "i = j" using \<open>inj l\<close> by (simp add: inj_eq)
    then show False using that(3) Cons.prems(1) a by (force simp: image_iff)
  qed
  then have "key ` set (filter P (f i x)) \<inter> key ` set (filter P (concat (map (\<lambda>(i, x). f i x) xs))) = {}"
    by (auto simp: disjoint_iff)
  moreover have "distinct (map key (filter P (concat (map (\<lambda>(i, x). f i x) xs))))"
  proof (rule Cons.IH)
    show "distinct (map fst xs)" using Cons.prems(1) by simp
  qed (meson Cons.prems(2,3) list.set_intros(2))+
  moreover have "distinct (map key (filter P (f i x)))" using Cons.prems(2) a by simp
  ultimately show ?case using a by simp
qed simp

lemma indexed_distinct: "distinct (map fst (indexed xs))"
  by (simp add: indexed_def)

text \<open>The number between the brackets that follow a prefix.\<close>

definition bracket_label :: "nat \<Rightarrow> string \<Rightarrow> string" where
  "bracket_label n s = takeWhile is_digit (drop n s)"

lemma nat_digits_inj: "nat_digits m = nat_digits n \<Longrightarrow> m = n"
  by (metis digits_value_nat_digits)

lemma inj_itoa: "inj (\<lambda>i. itoa (int i))"
  by (rule injI) (simp add: itoa_def nat_digits_inj)

lemma digits_then: "list_all is_digit ds \<Longrightarrow> \<not> is_digit c \<Longrightarrow> takeWhile is_digit (ds @ c # rest) = ds"
  by (induction ds) auto

lemma bracket_label: "bracket_label (length a) (a @ itoa (int i) @ CHR '']'' # rest) = itoa (int i)"
  by (simp add: bracket_label_def itoa_def digits_then nat_digits_digits is_digit_def)

abbreviation nameless :: "community_candidate \<Rightarrow> bool" where
  "nameless c \<equiv> pr_id (cc_property c) = []"

lemma nameless_source:
  "cc_dedup_key c = community_property_dedup_key (pr_id (cc_property c)) path \<Longrightarrow> nameless c \<Longrightarrow> cc_dedup_key c = ''source:'' @ path"
  by (simp add: community_property_dedup_key_def)

lemma single_candidate: "distinct (map cc_dedup_key (filter P (community_candidate_of path p)))"
  by (auto simp: community_candidate_of_def split: option.splits)

lemma nameless_units: "distinct (map cc_dedup_key (filter nameless (unit_candidates env base include_raw floor_plan path units)))"
  unfolding unit_candidates_def
proof (rule labelled_distinct [where label = "bracket_label (length (''source:'' @ path @ ''[''))" and l = "\<lambda>i. itoa (int i)"])
  fix i x c
  assume "c \<in> set (case x of JObject u \<Rightarrow> community_candidate_of (path @ ''['' @ itoa (int i) @ '']'')
        (normalize_community_rental env base floor_plan (Some u) include_raw False) | _ \<Rightarrow> [])" "nameless c"
  then have "cc_dedup_key c = (''source:'' @ path @ ''['') @ itoa (int i) @ CHR '']'' # []"
    by (auto dest!: candidate_of_key simp: community_property_dedup_key_def split: json.splits)
  then show "bracket_label (length (''source:'' @ path @ ''['')) (cc_dedup_key c) = itoa (int i)"
    by (simp only: bracket_label)
qed (auto simp: indexed_distinct inj_itoa single_candidate split: json.splits)

lemma nameless_floor_plan: "distinct (map cc_dedup_key (filter nameless (floor_plan_candidates env base include_raw i v)))"
  by (auto simp: floor_plan_candidates_def Let_def nameless_units single_candidate split: json.splits)

lemma nameless_candidates: "distinct (map cc_dedup_key (filter nameless (community_candidates env base include_raw)))"
proof -
  let ?plans = "concat (map (\<lambda>(i, v). floor_plan_candidates env base include_raw i v) (indexed (array_items (get (cb_building base) ''floorPlans''))))"
  let ?units = "unit_candidates env base include_raw [] ''ungroupedUnits'' (array_items (get (cb_building base) ''ungroupedUnits''))"
  have key: "\<exists>rest. cc_dedup_key c = ''source:floorPlans['' @ itoa (int i) @ CHR '']'' # rest"
    if "c \<in> set (floor_plan_candidates env base include_raw i v)" "nameless c" for i v c
    using that(1) by (rule floor_plan_candidate_cases) (use that(2) in \<open>simp add: community_property_dedup_key_def\<close>)
  have "distinct (map cc_dedup_key (filter nameless ?plans))"
  proof (rule labelled_distinct [where label = "bracket_label (length ''source:floorPlans['')" and l = "\<lambda>i. itoa (int i)"])
    fix i x c
    assume "c \<in> set (floor_plan_candidates env base include_raw i x)" "nameless c"
    then obtain rest where "cc_dedup_key c = ''source:floorPlans['' @ itoa (int i) @ CHR '']'' # rest"
      using key by blast
    then show "bracket_label (length ''source:floorPlans['') (cc_dedup_key c) = itoa (int i)" by (simp only: bracket_label)
  qed (simp_all add: indexed_distinct inj_itoa nameless_floor_plan)
  moreover have apart: "cc_dedup_key c \<noteq> cc_dedup_key d"
    if plan: "c \<in> set ?plans" "nameless c" and unit: "d \<in> set ?units" "nameless d" for c d
  proof -
    obtain i v where "c \<in> set (floor_plan_candidates env base include_raw i v)" using plan(1) by auto
    then obtain rest where "cc_dedup_key c = ''source:floorPlans['' @ itoa (int i) @ CHR '']'' # rest"
      using key plan(2) by blast
    moreover obtain j where "cc_dedup_key d = ''source:'' @ ''ungroupedUnits'' @ ''['' @ itoa (int j) @ '']''"
      using unit by (metis nameless_source unit_candidate_cases)
    ultimately show ?thesis by simp
  qed
  moreover have "cc_dedup_key ` set (filter nameless ?plans) \<inter> cc_dedup_key ` set (filter nameless ?units) = {}"
    by (rule equals0I, elim IntE imageE) (use apart in \<open>simp only: set_filter mem_Collect_eq\<close>)
  ultimately show ?thesis
    unfolding community_candidates_def filter_append map_append distinct_append using nameless_units
    by (simp only: set_map)
qed

lemma dedupe_keeps:
  "distinct (map candidate_key (filter P cs)) \<Longrightarrow> (\<And>c d. c \<in> set cs \<Longrightarrow> P c \<Longrightarrow> d \<in> set cs \<Longrightarrow> candidate_key d = candidate_key c \<Longrightarrow> P d)
   \<Longrightarrow> c \<in> set cs \<Longrightarrow> P c \<Longrightarrow> c \<in> set (dedupe_candidates [] cs)"
proof -
  assume d: "distinct (map candidate_key (filter P cs))"
    and closed: "\<And>c d. c \<in> set cs \<Longrightarrow> P c \<Longrightarrow> d \<in> set cs \<Longrightarrow> candidate_key d = candidate_key c \<Longrightarrow> P d"
    and c: "c \<in> set cs" "P c"
  obtain e where e: "e \<in> set (dedupe_candidates [] cs)" "candidate_key e = candidate_key c"
    using communities.scan_covers [of c cs "candidate_key c" "[]"] c by auto
  then have "e \<in> set cs" using communities.scan_subset by blast
  then have "e \<in> set (filter P cs)" "c \<in> set (filter P cs)" using closed [OF c] e(2) c by auto
  then have "e = c" using d e(2) by (meson distinct_map inj_on_def)
  then show ?thesis using e(1) by simp
qed

text \<open>
  No unit or floor plan of a community is lost: every candidate of the page is listed itself, and
  only if it has a ZPID can a property with the same ZPID stand for it.
\<close>
theorem community_keeps_all:
  assumes "c \<in> set (community_candidates env (community_base_of building source_url) include_raw)"
  shows "cc_property c \<in> set (normalize_community_properties env building source_url include_raw)
    \<or> (pr_id (cc_property c) \<noteq> []
       \<and> pr_id (cc_property c) \<in> pr_id ` set (normalize_community_properties env building source_url include_raw))"
proof -
  let ?cs = "community_candidates env (community_base_of building source_url) include_raw"
  have result: "set (normalize_community_properties env building source_url include_raw) = cc_property ` set (dedupe_candidates [] ?cs)"
    by (simp add: normalize_community_properties_def deduplicate_community_properties_def)
  have key: "candidate_key d = cc_dedup_key d" "keyed d" if "d \<in> set ?cs" for d
    using candidate_cases [OF that] keyed_key by blast+
  show ?thesis
  proof (cases "nameless c")
    case True
    have "map candidate_key (filter nameless ?cs) = map cc_dedup_key (filter nameless ?cs)" using key(1) by simp
    then have "distinct (map candidate_key (filter nameless ?cs))" using nameless_candidates by metis
    moreover have "nameless e" if "d \<in> set ?cs" "nameless d" "e \<in> set ?cs" "candidate_key e = candidate_key d" for d e
      using that key keyed_zpid(1) by metis
    ultimately have "c \<in> set (dedupe_candidates [] ?cs)" using assms True by (rule dedupe_keeps)
    then show ?thesis using result by blast
  next
    case False
    obtain e where e: "e \<in> set (dedupe_candidates [] ?cs)" "candidate_key e = candidate_key c"
      using communities.scan_covers [of c ?cs "candidate_key c" "[]"] assms by auto
    then have "e \<in> set ?cs" using communities.scan_subset by blast
    then have "pr_id (cc_property e) = pr_id (cc_property c)"
      using False key [OF assms] key [of e] keyed_zpid e(2) by (metis append_same_eq same_append_eq)
    then show ?thesis using False e(1) result by (metis image_eqI)
  qed
qed

text \<open>A building with two floor plans that differ only in their rent, and neither has a ZPID.\<close>

definition sample_building :: json_object where
  "sample_building = [(''floorPlans'', JArray [JObject [(''baseRent'', JInt 2500)], JObject [(''baseRent'', JInt 2600)]])]"

definition plain_env :: page_env where
  "plain_env = \<lparr>pe_unescape = id, pe_decode = (\<lambda>_. OneJson JNull), pe_encode = (\<lambda>_. Inr []), pe_today = unix_time 0\<rparr>"

definition sample_candidate :: community_candidate where
  "sample_candidate = community_candidates plain_env (community_base_of sample_building []) False ! 1"

theorem community_keeps_all_witness:
  "pr_id (cc_property sample_candidate) = [] \<and>
   cc_property sample_candidate \<in> set (normalize_community_properties plain_env sample_building [] False)"
proof -
  have second: "(case community_candidates plain_env (community_base_of sample_building []) False of
      c # d # ds \<Rightarrow> pr_id (cc_property d) = [] | _ \<Rightarrow> False)" by code_simp
  then have n: "1 < length (community_candidates plain_env (community_base_of sample_building []) False)"
    by (auto split: list.splits)
  have "pr_id (cc_property sample_candidate) = []" using second by (auto simp: sample_candidate_def split: list.splits)
  moreover have "sample_candidate \<in> set (community_candidates plain_env (community_base_of sample_building []) False)"
    unfolding sample_candidate_def using n by (rule nth_mem)
  ultimately show ?thesis using community_keeps_all [of sample_candidate] by metis
qed

section \<open>Costs that need verification\<close>

definition cost_note :: string where
  "cost_note = ''Required monthly fees and total monthly cost need verification.''"

lemma rental_notes:
  "normalize_community_rental env base floor_plan unit include_raw only = Some p \<Longrightarrow>
   pr_total_cost p = None \<Longrightarrow> cost_note \<in> set (pr_verification_notes p)"
  by (auto simp: normalize_community_rental_def Let_def add_raw_def unit_notes_def cost_note_def split: if_splits sum.splits)

lemma candidate_notes:
  "c \<in> set (community_candidates env base include_raw) \<Longrightarrow> pr_total_cost (cc_property c) = None \<Longrightarrow>
   cost_note \<in> set (pr_verification_notes (cc_property c))"
  by (auto simp: community_candidates_def floor_plan_candidates_def unit_candidates_def community_candidate_of_def Let_def
      dest!: rental_notes [OF sym] split: json.splits option.splits if_splits)

text \<open>
  A property of a community page either states its total monthly cost or carries the note that the
  cost needs verification.
\<close>
theorem community_cost_flagged:
  assumes "p \<in> set (normalize_community_properties env building source_url include_raw)"
  shows "pr_total_cost p \<noteq> None \<or> cost_note \<in> set (pr_verification_notes p)"
proof -
  obtain c where "c \<in> set (community_candidates env (community_base_of building source_url) include_raw)" "p = cc_property c"
    using assms communities.scan_subset
    by (auto simp: normalize_community_properties_def deduplicate_community_properties_def)
  then show ?thesis using candidate_notes by blast
qed

theorem community_cost_flagged_witness: "cost_note \<in> set (pr_verification_notes (cc_property sample_candidate))"
proof -
  have "map pr_total_cost (normalize_community_properties plain_env sample_building [] False) = [None, None]
      \<and> cc_property sample_candidate = normalize_community_properties plain_env sample_building [] False ! 1" by code_simp
  moreover have "length (normalize_community_properties plain_env sample_building [] False) = 2" by code_simp
  ultimately have "pr_total_cost (cc_property sample_candidate) = None"
    "cc_property sample_candidate \<in> set (normalize_community_properties plain_env sample_building [] False)"
    by (metis length_map nth_map nth_Cons_Suc nth_Cons_0 one_less_numeral_iff semiring_norm(76) One_nat_def, simp)
  with community_cost_flagged show ?thesis by metis
qed

end
