(* ===== verification/Search_Page.thy ===== *)
theory Search_Page
  imports Property_Page
begin

text \<open>
  Where search results come from: the search request itself (\<open>SearchWithOptions\<close> of
  \<open>internal/zillow/search.go\<close>), snapshots and pages whose data script holds the search state
  (\<open>search_snapshot.go\<close>, \<open>search_page.go\<close>), and the bootstrap of a search profile from such a page
  (\<open>fetchSearchProfile\<close> of \<open>search_discovery.go\<close>).

  A snapshot is decoded level by level into raw messages, so the environment has a second decoder:
  the members of an object as their texts (\<open>OneObject None\<close> is the value \<open>null\<close>).
\<close>

section \<open>The search request\<close>

definition search_payload :: "search_profile \<Rightarrow> int \<Rightarrow> json" where
  "search_payload p request_id =
     JObject [(''searchQueryState'', JObject (case sp_query_state p of None \<Rightarrow> [] | Some s \<Rightarrow> s)),
              (''wants'', JObject (case sp_wants p of None \<Rightarrow> [] | Some w \<Rightarrow> w)),
              (''requestId'', JInt request_id), (''isDebugRequest'', JBool False)]"

definition search_spec :: "go_url \<Rightarrow> search_profile \<Rightarrow> string \<Rightarrow> request_spec" where
  "search_spec endpoint p body =
     \<lparr>qs_operation = ''search'', qs_method = ''PUT'', qs_url = endpoint, qs_referer = sp_referer p,
      qs_body = Some body, qs_kind = ResponseJSON\<rparr>"

definition search_with_options ::
  "net_env \<Rightarrow> page_env \<Rightarrow> client option \<Rightarrow> bool \<Rightarrow> int \<Rightarrow> search_profile \<Rightarrow> search_filters \<Rightarrow> bool
   \<Rightarrow> (go_error + search_result) \<times> http_request list" where
  "search_with_options net env client0 nil_context request_id profile filters include_raw =
     (case client0 of
        None \<Rightarrow> (Inl (Plain ''search Zillow: client is nil''), [])
      | Some c \<Rightarrow>
          (case with_filters profile filters of
             Inl err \<Rightarrow> (Inl (Wrap ''search Zillow'' err), [])
           | Inr filtered \<Rightarrow>
               (case resolve_search_endpoint (sp_endpoint filtered) of
                  Inl err \<Rightarrow> (Inl (Wrap ''search Zillow: resolve endpoint'' err), [])
                | Inr endpoint \<Rightarrow>
                    (case pe_encode env (search_payload filtered request_id) of
                       Inl msg \<Rightarrow> (Inl (Wrap ''search Zillow: encode request'' (Plain msg)), [])
                     | Inr body \<Rightarrow>
                         (case execute (ne_send net) (ne_parse_time net) (ne_now net) (Some c) nil_context
                                 (search_spec endpoint filtered body) of
                            (Inl err, sent) \<Rightarrow> (Inl err, sent)
                          | (Inr (data, h), sent) \<Rightarrow>
                              (case decode_search_response (pe_decode env) (pe_today env) data request_id (the (sp_query_state filtered)) of
                                 Inl err \<Rightarrow> (Inl err, sent)
                               | Inr r \<Rightarrow> (Inr (if include_raw then r\<lparr>sr_raw := data\<rparr> else r), sent)))))))"

section \<open>Snapshots\<close>

datatype raw_object = BadObject string | TrailingObject "string option" | OneObject "(string \<times> string) list option"

record snapshot_env = page_env +
  se_decode_object :: "string \<Rightarrow> raw_object"

definition snapshot_error :: "string \<Rightarrow> string \<Rightarrow> go_error" where
  "snapshot_error path detail = drift ''search snapshot'' path detail"

definition decode_snapshot_object :: "snapshot_env \<Rightarrow> string \<Rightarrow> string \<Rightarrow> go_error + (string \<times> string) list" where
  "decode_snapshot_object env data path =
     (case se_decode_object env data of
        BadObject msg \<Rightarrow> Inl (snapshot_error path (''invalid JSON object: '' @ msg))
      | TrailingObject None \<Rightarrow> Inl (snapshot_error path ''multiple JSON values'')
      | TrailingObject (Some msg) \<Rightarrow> Inl (snapshot_error path (''invalid trailing JSON: '' @ msg))
      | OneObject None \<Rightarrow> Inl (snapshot_error path ''value must be an object'')
      | OneObject (Some obj) \<Rightarrow> Inr obj)"

definition snapshot_child_object :: "snapshot_env \<Rightarrow> (string \<times> string) list \<Rightarrow> string \<Rightarrow> string \<Rightarrow> go_error + (string \<times> string) list" where
  "snapshot_child_object env parent key path =
     (case map_of parent key of
        None \<Rightarrow> Inl (snapshot_error path ''required object is missing'')
      | Some raw0 \<Rightarrow>
          (let raw = trim_space raw0 in
           if raw = [] \<or> raw = ''null'' then Inl (snapshot_error path ''value must be an object'')
           else decode_snapshot_object env raw path))"

definition read_state :: "snapshot_env \<Rightarrow> string \<Rightarrow> go_error + string \<times> json_object" where
  "read_state env raw =
     (let path = ''props.pageProps.searchPageState''; state_json = trim_space raw in
      if state_json = [] \<or> state_json = ''null'' then Inl (snapshot_error path ''search state must be an object'')
      else case decode_json_value (page_env.truncate env) state_json of
             Inl msg \<Rightarrow> Inl (snapshot_error path (''invalid JSON: '' @ msg))
           | Inr (JObject state) \<Rightarrow> Inr (state_json, state)
           | Inr _ \<Rightarrow> Inl (snapshot_error path ''search state must be an object''))"

definition extract_search_page_state :: "snapshot_env \<Rightarrow> string \<Rightarrow> go_error + string \<times> json_object" where
  "extract_search_page_state env next_data =
     (case decode_snapshot_object env next_data ''__NEXT_DATA__'' of
        Inl err \<Rightarrow> Inl err
      | Inr top_level \<Rightarrow>
          (case snapshot_child_object env top_level ''props'' ''props'' of
             Inl err \<Rightarrow> Inl err
           | Inr props \<Rightarrow>
               (case snapshot_child_object env props ''pageProps'' ''props.pageProps'' of
                  Inl err \<Rightarrow> Inl err
                | Inr page_props \<Rightarrow>
                    (case map_of page_props ''searchPageState'' of
                       None \<Rightarrow> Inl (snapshot_error ''props.pageProps.searchPageState'' ''required search state is missing'')
                     | Some raw \<Rightarrow> read_state env raw))))"

definition nested_search_query_state :: "json_object \<Rightarrow> json_object option" where
  "nested_search_query_state state =
     (case get state ''searchQueryState'' of
        JObject nested \<Rightarrow> Some nested
      | _ \<Rightarrow> (case get state ''queryState'' of JObject nested \<Rightarrow> Some nested | _ \<Rightarrow> None))"

definition search_snapshot_query_state :: "json_object \<Rightarrow> json_object" where
  "search_snapshot_query_state state =
     (case nested_search_query_state state of Some nested \<Rightarrow> nested | None \<Rightarrow> state)"

definition looks_like_snapshot_html :: "string \<Rightarrow> bool" where
  "looks_like_snapshot_html data \<longleftrightarrow> is_html_response [] data \<or> (data \<noteq> [] \<and> hd data = CHR ''<'')"

definition search_snapshot_challenge_reason :: "string \<Rightarrow> string" where
  "search_snapshot_challenge_reason document =
     (let reason = detect_challenge ResponseHTML 200 ''text/html'' document in
      if reason \<noteq> [] then reason
      else case first_marker challenge_markers (to_lower document) of Some r \<Rightarrow> r | None \<Rightarrow> [])"

text \<open>The state of a snapshot, and the error when there is none.\<close>

definition snapshot_state :: "snapshot_env \<Rightarrow> string \<Rightarrow> go_error + string \<times> json_object" where
  "snapshot_state env document =
     (let trimmed = trim_space (trim_prefix document utf8_bom) in
      if looks_like_snapshot_html trimmed
      then (case extract_next_data (pe_unescape env) document of
              None \<Rightarrow> Inl (snapshot_error ''script#__NEXT_DATA__'' ''required Next.js data script is missing'')
            | Some next_data \<Rightarrow> extract_search_page_state env next_data)
      else extract_search_page_state env trimmed)"

definition decode_snapshot :: "snapshot_env \<Rightarrow> string \<Rightarrow> bool \<Rightarrow> go_error + search_result" where
  "decode_snapshot env document include_raw =
     (case snapshot_state env document of
        Inl err \<Rightarrow> Inl err
      | Inr (state_json, state) \<Rightarrow>
          (case decode_search_response (pe_decode env) (pe_today env) state_json 0 (search_snapshot_query_state state) of
             Inl err \<Rightarrow> Inl err
           | Inr r \<Rightarrow> Inr (if include_raw then r\<lparr>sr_raw := state_json\<rparr> else r)))"

text \<open>Each of the failures of an HTML snapshot is first checked for a challenge page.\<close>

definition snapshot_of_document :: "snapshot_env \<Rightarrow> string \<Rightarrow> bool \<Rightarrow> go_error + search_result" where
  "snapshot_of_document env document include_raw =
     (let trimmed = trim_space (trim_prefix document utf8_bom);
          reason = search_snapshot_challenge_reason document
      in if trimmed = [] then Inl (snapshot_error ''input'' ''snapshot is empty'')
         else case decode_snapshot env document include_raw of
                Inr r \<Rightarrow> Inr r
              | Inl err \<Rightarrow>
                  if looks_like_snapshot_html trimmed \<and> reason \<noteq> []
                  then Inl (Challenge \<lparr>ce_url = [], ce_status = 200, ce_reason = reason\<rparr>)
                  else Inl err)"

definition read_search_snapshot_with_options ::
  "snapshot_env \<Rightarrow> http_body option \<Rightarrow> bool \<Rightarrow> int \<Rightarrow> go_error + search_result" where
  "read_search_snapshot_with_options env reader include_raw max_bytes =
     (case read_page ''read Zillow search snapshot'' max_bytes reader of
        Inl err \<Rightarrow> Inl err
      | Inr document \<Rightarrow> snapshot_of_document env document include_raw)"

section \<open>Search pages\<close>

definition fetch_search_page_with_options ::
  "net_env \<Rightarrow> snapshot_env \<Rightarrow> client option \<Rightarrow> bool \<Rightarrow> string \<Rightarrow> bool \<Rightarrow> (go_error + search_result) \<times> http_request list" where
  "fetch_search_page_with_options net env client0 nil_context raw_url include_raw =
     (case client0 of
        None \<Rightarrow> (Inl (Plain ''fetch Zillow search page: client is nil''), [])
      | Some c \<Rightarrow>
          (case fetch_page_html net c nil_context ''fetch Zillow search page'' ''search page'' raw_url of
             (Inl err, sent) \<Rightarrow> (Inl err, sent)
           | (Inr (data, target), sent) \<Rightarrow>
               (read_search_snapshot_with_options env (Some \<lparr>hb_data = data, hb_error = None\<rparr>) include_raw 0, sent)))"

section \<open>The bootstrap of a profile\<close>

definition profile_of_state :: "json_object \<Rightarrow> string \<Rightarrow> search_profile" where
  "profile_of_state query_state referer =
     \<lparr>sp_version = search_profile_version, sp_endpoint = search_endpoint_path, sp_method = ''PUT'', sp_referer = referer,
      sp_query_state = Some (AList.update ''isMapVisible'' (JBool False) (AList.update ''isListVisible'' (JBool True) query_state)),
      sp_wants = Some [(''cat1'', JArray [JString ''listResults'', JString ''mapResults''])]\<rparr>"

definition fetch_search_profile ::
  "net_env \<Rightarrow> snapshot_env \<Rightarrow> client \<Rightarrow> bool \<Rightarrow> string \<Rightarrow> (go_error + search_profile) \<times> http_request list" where
  "fetch_search_profile net env c nil_context raw_url =
     (case fetch_page_html net c nil_context ''bootstrap search profile'' ''search bootstrap'' raw_url of
        (Inl err, sent) \<Rightarrow> (Inl err, sent)
      | (Inr (data, target), sent) \<Rightarrow>
          (case extract_next_data (pe_unescape env) data of
             None \<Rightarrow> (Inl (drift ''search bootstrap'' ''script#__NEXT_DATA__'' ''required Next.js data script is missing''), sent)
           | Some next_data \<Rightarrow>
               (case extract_search_page_state env next_data of
                  Inl err \<Rightarrow> (Inl err, sent)
                | Inr (state_json, state) \<Rightarrow>
                    (case nested_search_query_state state of
                       None \<Rightarrow> (Inl (drift ''search bootstrap'' ''searchPageState.queryState'' ''required query state is missing''), sent)
                     | Some query_state \<Rightarrow>
                         (let profile = profile_of_state query_state (url_string target) in
                          case validate_profile profile of
                            Some err \<Rightarrow> (Inl (Wrap ''bootstrap search profile'' err), sent)
                          | None \<Rightarrow> (Inr profile, sent))))))"

end
