(* ===== verification/Search_Page_Props.thy ===== *)
theory Search_Page_Props
  imports Search_Page
begin

text \<open>
  What is sent and what is believed: the search request is the captured query with only the filters
  changed, a bootstrapped profile searches one fixed URL, and a snapshot that cannot be read is
  reported as the challenge page it is.
\<close>

section \<open>The request of a search\<close>

lemma with_filters_frame:
  assumes "with_filters p f = Inr p'"
  shows "sp_endpoint p' = sp_endpoint p" "sp_referer p' = sp_referer p" "sp_wants p' = sp_wants p"
    "k \<noteq> ''pagination'' \<Longrightarrow> k \<noteq> ''filterState'' \<Longrightarrow> get (the (sp_query_state p')) k = get (the (sp_query_state p)) k"
proof -
  have "apply_filters f p = Inr p'" using assms by (simp add: with_filters_def split: option.splits)
  then obtain state state' where "sp_query_state p = Some state" "apply_state f state = Inr state'"
    "p' = p\<lparr>sp_query_state := Some state'\<rparr>"
    by (rule apply_filters_state)
  then show "sp_endpoint p' = sp_endpoint p" "sp_referer p' = sp_referer p" "sp_wants p' = sp_wants p"
    "k \<noteq> ''pagination'' \<Longrightarrow> k \<noteq> ''filterState'' \<Longrightarrow> get (the (sp_query_state p')) k = get (the (sp_query_state p)) k"
    by (simp_all add: apply_state_frame)
qed

lemma search_sent:
  assumes "search_with_options net env client0 nil_context request_id profile filters include_raw = (out, sent)"
    and "req \<in> set sent"
  obtains c filtered endpoint body where "with_filters profile filters = Inr filtered"
    "resolve_search_endpoint (sp_endpoint filtered) = Inr endpoint"
    "pe_encode env (search_payload filtered request_id) = Inr body"
    "sent = [build_request c (search_spec endpoint filtered body)]" "validate_request_url endpoint = None"
proof -
  obtain c filtered endpoint body out' where *: "with_filters profile filters = Inr filtered"
    "resolve_search_endpoint (sp_endpoint filtered) = Inr endpoint"
    "pe_encode env (search_payload filtered request_id) = Inr body"
    "execute (ne_send net) (ne_parse_time net) (ne_now net) (Some c) nil_context (search_spec endpoint filtered body) = (out', sent)"
    using assms by (auto simp: search_with_options_def split: option.splits sum.splits prod.splits)
  from *(4) show thesis
  proof (cases rule: execute_cases)
    case none
    then show ?thesis using assms(2) by simp
  next
    case (one c')
    then show ?thesis using that [OF *(1-3)] by (simp add: search_spec_def)
  qed
qed

text \<open>
  C20: What a search asks the server is what was captured: the request is a \<open>PUT\<close> to a safe Zillow URL
  whose body encodes the profile's own wants and a query state that differs from the profile's at
  most in its pagination and its filter state.
\<close>
theorem search_request_faithful:
  assumes "search_with_options net env client0 nil_context request_id profile filters include_raw = (out, sent)"
    and "req \<in> set sent"
  shows "\<exists>filtered. with_filters profile filters = Inr filtered
    \<and> pe_encode env (search_payload filtered request_id) = Inr (qh_body req) \<and> qh_method req = ''PUT''
    \<and> sp_wants filtered = sp_wants profile
    \<and> (\<forall>k. k \<notin> {''pagination'', ''filterState''} \<longrightarrow>
          get (the (sp_query_state filtered)) k = get (the (sp_query_state profile)) k)
    \<and> (\<exists>u. url_parse (trim_space (qh_target req)) = Some u \<and> safe_url u)"
proof -
  obtain c filtered endpoint body where *: "with_filters profile filters = Inr filtered"
    "pe_encode env (search_payload filtered request_id) = Inr body"
    "sent = [build_request c (search_spec endpoint filtered body)]" "validate_request_url endpoint = None"
    by (rule search_sent [OF assms])
  then have "qh_body req = body" "qh_method req = ''PUT''" "qh_target req = url_string endpoint"
    using assms(2) by (simp_all add: build_request_def search_spec_def Let_def)
  then show ?thesis
    using * with_filters_frame [OF *(1)] validated_target_safe [OF *(4)] by auto
qed

definition live_client :: client where
  "live_client = \<lparr>cl_user_agent = ''gozillo/1'', cl_browser_headers = [], cl_max_response_bytes = 64, cl_timeout = 1\<rparr>"

definition silent_net :: net_env where
  "silent_net = \<lparr>ne_send = (\<lambda>_. Inl (Plain ''offline'')), ne_parse_time = (\<lambda>_. None), ne_now = 0\<rparr>"

definition simple_env :: page_env where
  "simple_env = \<lparr>pe_unescape = id, pe_decode = (\<lambda>_. BadJson ''none''), pe_encode = (\<lambda>_. Inr ''{}''), pe_today = unix_time 0\<rparr>"

definition offline_search :: "(go_error + search_result) \<times> http_request list" where
  "offline_search = search_with_options silent_net simple_env (Some live_client) False 7 sample_profile sample_filters False"

theorem search_request_faithful_witness:
  "\<exists>filtered. with_filters sample_profile sample_filters = Inr filtered
     \<and> get (the (sp_query_state filtered)) ''mapBounds'' = get (the (sp_query_state sample_profile)) ''mapBounds''"
proof -
  have "length (snd offline_search) = 1" by code_simp
  then obtain req where req: "snd offline_search = [req]" by (auto simp: length_Suc_conv)
  then have "search_with_options silent_net simple_env (Some live_client) False 7 sample_profile sample_filters False
      = (fst offline_search, [req])"
    unfolding offline_search_def by (metis prod.collapse)
  from search_request_faithful [OF this list.set_intros(1)] obtain filtered where
    f: "with_filters sample_profile sample_filters = Inr filtered"
    "\<forall>k. k \<notin> {''pagination'', ''filterState''} \<longrightarrow> get (the (sp_query_state filtered)) k = get (the (sp_query_state sample_profile)) k"
    by (elim exE conjE)
  have "''mapBounds'' \<notin> {''pagination'', ''filterState''}" by simp
  with f show ?thesis by metis
qed

section \<open>A bootstrapped profile\<close>

lemma bootstrap_endpoint:
  "(case resolve_search_endpoint search_endpoint_path of Inl _ \<Rightarrow> [] | Inr u \<Rightarrow> url_string u) = ''https://www.zillow.com/async-create-search-page-state''"
  by code_simp

lemma bootstrap_result:
  assumes "fetch_search_profile net env c nil_context raw_url = (Inr p, sent)"
  obtains state target where "p = profile_of_state state (url_string target)" "validate_profile p = None"
  using assms by (auto simp: fetch_search_profile_def Let_def split: prod.splits sum.splits option.splits)

text \<open>
  A profile bootstrapped from a page is valid, and every search with it goes to one URL, the search
  endpoint of Zillow itself, whatever the page said and whatever filters are applied.
\<close>
theorem bootstrap_search_target:
  assumes "fetch_search_profile net env c nil_context raw_url = (Inr p, sent)"
    and "search_with_options net' env' client0 nil_context' request_id p filters include_raw = (out, sent')"
  shows "validate_profile p = None
    \<and> map qh_target sent' \<in> {[], [''https://www.zillow.com/async-create-search-page-state'']}"
proof -
  obtain state target where p: "p = profile_of_state state (url_string target)" "validate_profile p = None"
    by (rule bootstrap_result [OF assms(1)])
  have "map qh_target sent' = [''https://www.zillow.com/async-create-search-page-state'']" if req: "req \<in> set sent'" for req
  proof -
    obtain c' filtered endpoint body where *: "with_filters p filters = Inr filtered"
      "resolve_search_endpoint (sp_endpoint filtered) = Inr endpoint"
      "sent' = [build_request c' (search_spec endpoint filtered body)]"
      by (rule search_sent [OF assms(2) req])
    have "sp_endpoint filtered = search_endpoint_path"
      using with_filters_frame(1) [OF *(1)] p(1) by (simp add: profile_of_state_def)
    then have "url_string endpoint = ''https://www.zillow.com/async-create-search-page-state''"
      using *(2) bootstrap_endpoint by simp
    then show ?thesis using *(3) by (simp add: build_request_def search_spec_def Let_def)
  qed
  then have "map qh_target sent' = [''https://www.zillow.com/async-create-search-page-state'']" if "sent' \<noteq> []"
    using that hd_in_set by blast
  then have "map qh_target sent' = [] \<or> map qh_target sent' = [''https://www.zillow.com/async-create-search-page-state'']"
    by blast
  then show ?thesis using p(2) by (simp only: insert_iff empty_iff simp_thms)
qed

text \<open>A server that answers every request with a search page.\<close>

definition page_net :: net_env where
  "page_net = \<lparr>ne_send = (\<lambda>_. Inr \<lparr>hp_status_code = 200, hp_status = ''200 OK'', hp_headers = [(''Content-Type'', [''text/html''])],
     hp_body = \<lparr>hb_data = ''<script id=__NEXT_DATA__>{}</script>'', hb_error = None\<rparr>\<rparr>), ne_parse_time = (\<lambda>_. None), ne_now = 0\<rparr>"

definition page_snapshot_env :: snapshot_env where
  "page_snapshot_env = \<lparr>pe_unescape = id, pe_decode = (\<lambda>_. OneJson (JObject [(''queryState'', JObject [])])),
     pe_encode = (\<lambda>_. Inr ''{}''), pe_today = unix_time 0,
     se_decode_object = (\<lambda>_. OneObject (Some [(''props'', ''p''), (''pageProps'', ''q''), (''searchPageState'', ''s'')]))\<rparr>"

definition sample_bootstrap :: "(go_error + search_profile) \<times> http_request list" where
  "sample_bootstrap = fetch_search_profile page_net page_snapshot_env live_client False ''https://www.zillow.com/ca/''"

definition bootstrapped :: search_profile where
  "bootstrapped = profile_of_state [] ''https://www.zillow.com/ca/''"

theorem bootstrap_search_target_witness:
  "map qh_target (snd (search_with_options silent_net simple_env (Some live_client) False 7 bootstrapped sample_filters False))
     = [''https://www.zillow.com/async-create-search-page-state'']"
proof -
  let ?search = "search_with_options silent_net simple_env (Some live_client) False 7 bootstrapped sample_filters False"
  have "fst sample_bootstrap = Inr bootstrapped" by code_simp
  then have boot: "fetch_search_profile page_net page_snapshot_env live_client False ''https://www.zillow.com/ca/'' = (Inr bootstrapped, snd sample_bootstrap)"
    unfolding sample_bootstrap_def by (metis prod.collapse)
  have "length (snd ?search) = 1" by code_simp
  then have "map qh_target (snd ?search) \<noteq> []" by auto
  moreover have "map qh_target (snd ?search) \<in> {[], [''https://www.zillow.com/async-create-search-page-state'']}"
    using bootstrap_search_target [OF boot prod.collapse [symmetric, of ?search]] by (elim conjE)
  ultimately show ?thesis by (simp only: insert_iff empty_iff simp_thms)
qed

section \<open>Snapshots\<close>

lemma normalize_items_drift: "normalize_items today path i items = Inl err \<Longrightarrow> error_is err ErrSchemaDrift"
  by (induction today path i items rule: normalize_items.induct)
    (auto simp: drift_def Let_def split: json.splits sum.splits)

lemma decode_drift: "decode_search_response decode today data request_id state = Inl err \<Longrightarrow> error_is err ErrSchemaDrift"
  by (auto simp: decode_search_response_def response_listings_def drift_def Let_def
      split: json_text.splits json.splits sum.splits found_array.splits dest: normalize_items_drift)

lemma snapshot_object_drift:
  "decode_snapshot_object env data path = Inl err \<Longrightarrow> error_is err ErrSchemaDrift"
  "snapshot_child_object env parent key path = Inl err \<Longrightarrow> error_is err ErrSchemaDrift"
  by (auto simp: snapshot_child_object_def decode_snapshot_object_def snapshot_error_def drift_def Let_def
      split: raw_object.splits option.splits if_splits)

lemma snapshot_state_drift: "snapshot_state env document = Inl err \<Longrightarrow> error_is err ErrSchemaDrift"
  by (auto simp: snapshot_state_def extract_search_page_state_def read_state_def snapshot_error_def drift_def Let_def
      split: option.splits sum.splits json.splits if_splits dest: snapshot_object_drift)

lemma decode_snapshot_drift: "decode_snapshot env document include_raw = Inl err \<Longrightarrow> error_is err ErrSchemaDrift"
  by (auto simp: decode_snapshot_def split: sum.splits prod.splits dest: snapshot_state_drift decode_drift)


end
