(* ===== verification/Har_Sanitize.thy ===== *)
theory Har_Sanitize
  imports Har_Model
begin

text \<open>
  The HAR sanitizer (\<open>internal/har/sanitize.go\<close>, with the URL checks of \<open>derive.go\<close>): which names
  are sensitive, which texts look like credentials, the redaction of JSON values, URLs, headers,
  parameters and bodies, and the verification of the result.

  A JSON text inside a JSON string is sanitized recursively, and so is a URL inside one. The depth
  of this nesting is the fuel of \<open>clean_text\<close> and \<open>verify_text\<close>; every level is a shorter text than
  the one around it, so the length of the text is enough (\<open>clean_text_enough\<close>). Errors of URLs and
  escapes are only printed by the program, so these functions return an option. Names are lower-cased and
  stripped as ASCII.
\<close>

section \<open>Names\<close>

definition sensitive_key_names :: "string list" where
  "sensitive_key_names =
     [''auth'', ''authentication'', ''authorization'', ''proxyauthorization'', ''bearer'', ''jwt'', ''sas'', ''mfa'', ''otp'', ''pin'',
      ''cookie'', ''setcookie'', ''password'', ''passwd'', ''pwd'', ''secret'', ''clientsecret'', ''apisecret'', ''privatekey'',
      ''accesskey'', ''secretkey'', ''signingkey'', ''signature'', ''sig'', ''passphrase'', ''apikey'', ''token'', ''accesstoken'',
      ''refreshtoken'', ''idtoken'', ''authtoken'', ''bearertoken'', ''csrf'', ''xsrf'', ''csrftoken'', ''xcsrftoken'',
      ''xsrftoken'', ''session'', ''sessionid'', ''sessiontoken'', ''deviceid'', ''clientid'', ''zuid'', ''credential'',
      ''credentials'', ''email'', ''emailaddress'', ''phone'', ''phonenumber'', ''accountid'', ''userid'']"

definition opaque_credential_url_key_names :: "string list" where
  "opaque_credential_url_key_names =
     [''code'', ''authcode'', ''authorizationcode'', ''oauthcode'', ''oauth2code'', ''oauthauthorizationcode'',
      ''oauth2authorizationcode'', ''oauthconsumerkey'', ''oauthnonce'', ''oauthstate'', ''oauthtoken'', ''oauthtokensecret'',
      ''oauthverifier'', ''codeverifier'', ''subscriptionkey'', ''ocpapimsubscriptionkey'', ''key'', ''state'', ''sessionstate'',
      ''nonce'', ''samlresponse'', ''samlrequest'', ''relaystate'', ''samlart'', ''samlartifact'', ''ticket'', ''casticket'',
      ''loginticket'', ''proxyticket'', ''serviceticket'']"

definition forbidden_header_names :: "string list" where
  "forbidden_header_names =
     [''cookie'', ''setcookie'', ''auth'', ''authentication'', ''authorization'', ''proxyauthorization'', ''bearer'', ''jwt'', ''sas'',
      ''mfa'', ''otp'', ''pin'', ''xapikey'', ''xcsrftoken'', ''xxsrftoken'']"

definition retained_request_headers :: "string list" where
  "retained_request_headers = [''accept'', ''content-type'', ''origin'', ''referer'', ''referrer'']"

definition retained_response_headers :: "string list" where
  "retained_response_headers = [''content-type'', ''location'', ''content-location'']"

definition sensitive_suffixes :: "string list" where
  "sensitive_suffixes =
     [''apikey'', ''accesskey'', ''privatekey'', ''secretkey'', ''signingkey'', ''password'', ''passphrase'', ''secret'', ''signature'',
      ''token'', ''credential'', ''authorization'', ''auth'', ''sessionid'', ''session'', ''accountid'', ''userid'', ''clientid'',
      ''zuid'', ''sig'', ''jwt'', ''sas'', ''bearer'', ''mfa'', ''otp'', ''pin'', ''email'', ''phone'']"

definition normalize_key :: "string \<Rightarrow> string" where
  "normalize_key s = map lower (filter (\<lambda>c. is_letter c \<or> is_digit c) (trim_space s))"

definition is_sensitive_key :: "string list \<Rightarrow> string \<Rightarrow> bool" where
  "is_sensitive_key keys name \<longleftrightarrow>
     (let normalized = normalize_key name in normalized \<in> set keys \<or> list_ex (has_suffix normalized) sensitive_suffixes)"

definition is_sensitive_url_key :: "string list \<Rightarrow> string \<Rightarrow> bool" where
  "is_sensitive_url_key keys name \<longleftrightarrow> is_sensitive_key keys name \<or> normalize_key name \<in> set opaque_credential_url_key_names"

definition is_forbidden_header :: "string \<Rightarrow> bool" where
  "is_forbidden_header name \<longleftrightarrow> has_prefix (trim_space name) '':'' \<or> normalize_key name \<in> set forbidden_header_names"

section \<open>Texts\<close>

definition jwt_part :: "string \<Rightarrow> bool" where
  "jwt_part p \<longleftrightarrow> 8 \<le> length p \<and> list_all (\<lambda>c. is_letter c \<or> is_digit c \<or> c = CHR ''-'' \<or> c = CHR ''_'') p"

definition looks_like_jwt :: "string \<Rightarrow> bool" where
  "looks_like_jwt v \<longleftrightarrow> (let parts = split_byte CHR ''.'' v in length parts = 3 \<and> list_all jwt_part parts)"

definition credential_markers :: "string list" where
  "credential_markers =
     [''authorization:'', ''proxy-authorization:'', ''bearer '', ''basic '', ''cookie:'', ''set-cookie:'', ''access_token'',
      ''refresh_token'', ''id_token'', ''api_key'', ''apikey'', ''sessionid'', ''jsessionid'', ''csrf'', ''xsrf'']"

definition credential_like_string :: "string \<Rightarrow> bool" where
  "credential_like_string v \<longleftrightarrow>
     list_ex (contains (to_lower (trim_space v))) credential_markers \<or> looks_like_jwt (trim_space v)"

definition decoded_credential_like :: "string \<Rightarrow> bool" where
  "decoded_credential_like v =
     credential_like_string (case query_unescape v of Some decoded \<Rightarrow> decoded | None \<Rightarrow> v)"

definition looks_like_url_value :: "string \<Rightarrow> bool" where
  "looks_like_url_value v \<longleftrightarrow>
     (let s = trim_space v in has_prefix (to_lower s) ''http://'' \<or> has_prefix (to_lower s) ''https://''
        \<or> has_prefix s ''//'' \<or> has_prefix s ''/'')"

definition validate_redaction :: "string \<Rightarrow> string option" where
  "validate_redaction v =
     (if list_ex (\<lambda>c. c = CHR ''/'' \<or> c = CHR '';'') v
      then Some (''must not contain URL path delimiters '' @ [CHR 0x27, CHR ''/'', CHR 0x27] @ '' or '' @ [CHR 0x27, CHR '';'', CHR 0x27])
      else if list_ex is_control v then Some ''must not contain control characters'' else None)"

section \<open>Escapes\<close>

definition segment_byte_ok :: "char \<Rightarrow> bool" where
  "segment_byte_ok c \<longleftrightarrow> is_letter c \<or> is_digit c \<or> c \<in> set ''-_.~$&+:=@''"

definition path_escape :: "string \<Rightarrow> string" where
  "path_escape s = escape_with segment_byte_ok s"

definition query_escape :: "string \<Rightarrow> string" where
  "query_escape s =
     concat (map (\<lambda>c. if is_letter c \<or> is_digit c \<or> c \<in> set ''-_.~'' then [c] else if c = CHR '' '' then ''+'' else percent c) s)"

section \<open>Redaction of values and URLs\<close>

record redactor =
  rd_env :: har_env
  rd_text :: string
  rd_keys :: "string list"

text \<open>
  \<open>sanitizeJSONValue\<close> on objects, arrays and strings; \<open>clean\<close> is what it makes of a string.
\<close>

fun redact_value :: "redactor \<Rightarrow> (string \<Rightarrow> string) \<Rightarrow> json \<Rightarrow> json" where
  "redact_value r clean (JObject obj) =
     JObject (map (\<lambda>(key, nested). (key, if is_sensitive_key (rd_keys r) key then JString (rd_text r) else redact_value r clean nested)) obj)"
| "redact_value r clean (JArray items) = JArray (map (redact_value r clean) items)"
| "redact_value r clean (JString s) = JString (clean s)"
| "redact_value r clean v = v"

definition redact_json :: "redactor \<Rightarrow> (string \<Rightarrow> string) \<Rightarrow> json \<Rightarrow> json" where
  "redact_json r clean v = (case v of JString _ \<Rightarrow> v | _ \<Rightarrow> redact_value r clean v)"

text \<open>The first part of a path segment, and whether the next segment is its value.\<close>

definition sanitize_segment_base :: "redactor \<Rightarrow> (string \<Rightarrow> string) \<Rightarrow> bool \<Rightarrow> string \<Rightarrow> (string \<times> bool) option" where
  "sanitize_segment_base r clean previous_sensitive base =
     (let hidden = path_escape (rd_text r) in
      case path_unescape base of
        None \<Rightarrow> None
      | Some decoded \<Rightarrow>
          if previous_sensitive \<and> base \<noteq> [] then Some (hidden, False)
          else
            (case cut_byte CHR ''='' base of (key, val, has_value) \<Rightarrow>
               if has_value then
                 (case (path_unescape key, path_unescape val) of
                    (Some decoded_key, Some decoded_value) \<Rightarrow>
                      Some (if is_sensitive_url_key (rd_keys r) decoded_key then key @ ''='' @ hidden
                            else if credential_like_string decoded_key then hidden @ ''='' @ hidden
                            else if clean decoded_value \<noteq> decoded_value then key @ ''='' @ path_escape (clean decoded_value)
                            else base, False)
                  | _ \<Rightarrow> None)
               else
                 (let named = is_sensitive_url_key (rd_keys r) decoded; credential = credential_like_string decoded in
                  Some (if credential \<and> \<not> named then hidden else base, named \<or> credential))))"

definition sanitize_matrix_part :: "redactor \<Rightarrow> (string \<Rightarrow> string) \<Rightarrow> string \<Rightarrow> string option" where
  "sanitize_matrix_part r clean part =
     (let hidden = path_escape (rd_text r) in
      case cut_byte CHR ''='' part of (key, val, has_value) \<Rightarrow>
        (case (path_unescape key, if has_value then path_unescape val else Some []) of
           (Some decoded_key, Some decoded_value) \<Rightarrow>
             Some (if is_sensitive_url_key (rd_keys r) decoded_key then key @ ''='' @ hidden
                   else if credential_like_string decoded_key
                   then (if has_value then hidden @ ''='' @ hidden else hidden)
                   else if has_value \<and> clean decoded_value \<noteq> decoded_value
                   then key @ ''='' @ path_escape (clean decoded_value)
                   else part)
         | _ \<Rightarrow> None))"

fun sanitize_segments :: "redactor \<Rightarrow> (string \<Rightarrow> string) \<Rightarrow> bool \<Rightarrow> string list \<Rightarrow> string list option" where
  "sanitize_segments r clean previous_sensitive [] = Some []"
| "sanitize_segments r clean previous_sensitive (segment # segments) =
     (let parts = split_byte CHR '';'' segment in
      case (sanitize_segment_base r clean previous_sensitive (hd parts), those (map (sanitize_matrix_part r clean) (tl parts))) of
        (Some (base, sensitive), Some matrix) \<Rightarrow>
          map_option ((#) (join '';'' (base # matrix))) (sanitize_segments r clean sensitive segments)
      | _ \<Rightarrow> None)"

definition sanitize_url_path :: "redactor \<Rightarrow> (string \<Rightarrow> string) \<Rightarrow> string \<Rightarrow> string option" where
  "sanitize_url_path r clean escaped =
     map_option (join ''/'') (sanitize_segments r clean False (split_byte CHR ''/'' escaped))"

definition sanitize_query_component :: "redactor \<Rightarrow> (string \<Rightarrow> string) \<Rightarrow> string \<Rightarrow> string option" where
  "sanitize_query_component r clean component =
     (let hidden = query_escape (rd_text r) in
      case cut_byte CHR ''='' component of (key, val, has_value) \<Rightarrow>
        (case (query_unescape key, if has_value then query_unescape val else Some []) of
           (Some decoded_key, Some decoded_value) \<Rightarrow>
             Some (if is_sensitive_url_key (rd_keys r) decoded_key then key @ ''='' @ hidden
                   else if credential_like_string decoded_key then hidden @ (if has_value then ''='' @ hidden else [])
                   else if has_value \<and> clean decoded_value \<noteq> decoded_value
                   then key @ ''='' @ query_escape (clean decoded_value)
                   else component)
         | _ \<Rightarrow> None))"

text \<open>The loop over the query: components end at \<open>&\<close> and \<open>;\<close>, which are kept.\<close>

fun sanitize_query_from :: "redactor \<Rightarrow> (string \<Rightarrow> string) \<Rightarrow> string \<Rightarrow> string \<Rightarrow> string option" where
  "sanitize_query_from r clean component [] = sanitize_query_component r clean component"
| "sanitize_query_from r clean component (c # cs) =
     (if c = CHR ''&'' \<or> c = CHR '';'' then
        (case (sanitize_query_component r clean component, sanitize_query_from r clean [] cs) of
           (Some out, Some rest) \<Rightarrow> Some (out @ c # rest)
         | _ \<Rightarrow> None)
      else sanitize_query_from r clean (component @ [c]) cs)"

definition sanitize_raw_query :: "redactor \<Rightarrow> (string \<Rightarrow> string) \<Rightarrow> string \<Rightarrow> string option" where
  "sanitize_raw_query r clean raw_query = (if raw_query = [] then Some [] else sanitize_query_from r clean [] raw_query)"

definition sanitize_url_with :: "redactor \<Rightarrow> (string \<Rightarrow> string) \<Rightarrow> string \<Rightarrow> string option" where
  "sanitize_url_with r clean raw_url =
     (if trim_space raw_url = [] then Some raw_url
      else case url_parse raw_url of
             None \<Rightarrow> None
           | Some parsed \<Rightarrow>
               if u_opaque parsed \<noteq> [] then None
               else
                 (case sanitize_url_path r clean (escaped_path parsed) of
                    None \<Rightarrow> None
                  | Some escaped \<Rightarrow>
                      (case path_unescape escaped of
                         None \<Rightarrow> None
                       | Some path \<Rightarrow>
                           Some (url_string (parsed\<lparr>u_userinfo := None, u_fragment := [], u_path := path, u_raw_path := escaped,
                             u_raw_query := (case sanitize_raw_query r clean (u_raw_query parsed) of None \<Rightarrow> [] | Some q \<Rightarrow> q)\<rparr>)))))"

text \<open>\<open>sanitizeJSONValue\<close> on a string: a JSON text, a URL, a credential, or a text that is kept.\<close>

fun clean_text :: "redactor \<Rightarrow> nat \<Rightarrow> string \<Rightarrow> string" where
  "clean_text r 0 s = rd_text r"
| "clean_text r (Suc n) s =
     (if looks_like_json_object_or_array s then
        (case decode_json (rd_env r) s of
           Inl _ \<Rightarrow> rd_text r
         | Inr nested \<Rightarrow>
             (case hv_encode (rd_env r) (redact_json r (clean_text r n) nested) of
                None \<Rightarrow> rd_text r | Some encoded \<Rightarrow> encoded))
      else if looks_like_url_value s then
        (case sanitize_url_with r (clean_text r n) s of None \<Rightarrow> rd_text r | Some sanitized \<Rightarrow> sanitized)
      else if credential_like_string s then rd_text r else s)"

definition sanitize_text :: "redactor \<Rightarrow> string \<Rightarrow> string" where
  "sanitize_text r s = clean_text r (Suc (length s)) s"

definition sanitize_url :: "redactor \<Rightarrow> string \<Rightarrow> string option" where
  "sanitize_url r raw_url = sanitize_url_with r (sanitize_text r) raw_url"

definition redact_body :: "redactor \<Rightarrow> json \<Rightarrow> json" where
  "redact_body r v = redact_json r (sanitize_text r) v"

section \<open>Search requests\<close>

definition search_state_path :: string where "search_state_path = ''/async-create-search-page-state''"

definition is_search_template_zillow_host :: "string \<Rightarrow> bool" where
  "is_search_template_zillow_host host \<longleftrightarrow> to_lower host = ''zillow.com'' \<or> to_lower host = ''www.zillow.com''"

definition parse_search_template_zillow_url :: "string \<Rightarrow> string + go_url" where
  "parse_search_template_zillow_url raw =
     (if trim_space raw = [] then Inl ''must not be empty''
      else if raw \<noteq> trim_space raw then Inl ''must not have surrounding whitespace''
      else case url_parse raw of
             None \<Rightarrow> Inl (''parse '' @ quote raw)
           | Some parsed \<Rightarrow>
               if u_opaque parsed \<noteq> [] \<or> u_scheme parsed \<noteq> ''https'' then Inl ''URL scheme must be https''
               else if u_userinfo parsed \<noteq> None then Inl ''must not contain user information''
               else if url_port parsed \<noteq> [] \<or> \<not> equal_fold (u_host parsed) (url_hostname parsed)
               then Inl ''must not contain an explicit port''
               else if \<not> is_search_template_zillow_host (url_hostname parsed)
               then Inl (''host '' @ quote (url_hostname parsed) @ '' is not allowed'')
               else Inr parsed)"

definition default_encoding :: "go_url \<Rightarrow> bool" where
  "default_encoding u \<longleftrightarrow> u_raw_path u = [] \<or> u_raw_path u = escape_with path_byte_ok (u_path u)"

definition parse_search_template_endpoint :: "string \<Rightarrow> string + go_url" where
  "parse_search_template_endpoint raw =
     (case parse_search_template_zillow_url raw of
        Inl msg \<Rightarrow> Inl msg
      | Inr parsed \<Rightarrow>
          if u_path parsed \<noteq> search_state_path \<or> \<not> default_encoding parsed
          then Inl (''path must be exactly '' @ quote search_state_path)
          else if u_raw_query parsed \<noteq> [] \<or> u_force_query parsed then Inl ''must not contain a query''
          else if u_fragment parsed \<noteq> [] then Inl ''must not contain a fragment''
          else Inr parsed)"

definition parse_search_template_referer :: "string \<Rightarrow> string + go_url" where
  "parse_search_template_referer raw =
     (case parse_search_template_zillow_url raw of
        Inl msg \<Rightarrow> Inl msg
      | Inr parsed \<Rightarrow> if u_fragment parsed \<noteq> [] then Inl ''must not contain a fragment'' else Inr parsed)"

definition is_search_state_request :: "har_request \<Rightarrow> bool" where
  "is_search_state_request q \<longleftrightarrow>
     hq_method q = ''PUT'' \<and> (case parse_search_template_endpoint (hq_url q) of Inr _ \<Rightarrow> True | Inl _ \<Rightarrow> False)"

section \<open>The parts of an entry\<close>

definition sanitize_headers :: "redactor \<Rightarrow> string list \<Rightarrow> name_value list \<Rightarrow> name_value list" where
  "sanitize_headers r retained hs =
     map (\<lambda>h. h\<lparr>nv_comment := []\<rparr>)
       (filter (\<lambda>h. to_lower (trim_space (nv_name h)) \<in> set retained
          \<and> \<not> is_forbidden_header (nv_name h) \<and> \<not> is_sensitive_key (rd_keys r) (nv_name h)) hs)"

definition sanitize_name_value :: "redactor \<Rightarrow> name_value \<Rightarrow> name_value" where
  "sanitize_name_value r x =
     (let c = x\<lparr>nv_comment := []\<rparr> in
      if credential_like_string (nv_name x)
      then c\<lparr>nv_name := rd_text r, nv_value := (if nv_value x \<noteq> [] then rd_text r else nv_value x)\<rparr>
      else if is_sensitive_url_key (rd_keys r) (nv_name x) then c\<lparr>nv_value := rd_text r\<rparr>
      else c\<lparr>nv_value := sanitize_text r (nv_value x)\<rparr>)"

definition url_header :: "string \<Rightarrow> bool" where
  "url_header name \<longleftrightarrow> normalize_key name \<in> set [''referer'', ''referrer'', ''origin'', ''location'', ''contentlocation'']"

definition sanitize_url_header :: "redactor \<Rightarrow> name_value \<Rightarrow> name_value option" where
  "sanitize_url_header r h =
     (if url_header (nv_name h) then map_option (\<lambda>v. h\<lparr>nv_value := v\<rparr>) (sanitize_url r (nv_value h)) else Some h)"

definition sanitize_param :: "redactor \<Rightarrow> post_param \<Rightarrow> post_param" where
  "sanitize_param r x =
     x\<lparr>pm_comment := [],
       pm_name := (if credential_like_string (pm_name x) then rd_text r else pm_name x),
       pm_value := (if pm_value x \<noteq> [] then rd_text r else pm_value x),
       pm_file_name := (if pm_file_name x \<noteq> [] then rd_text r else pm_file_name x)\<rparr>"

text \<open>The search body that is kept: the query state and the wants, redacted.\<close>

definition minimal_search_body :: "redactor \<Rightarrow> json \<Rightarrow> string + string" where
  "minimal_search_body r v =
     (case v of
        JObject body \<Rightarrow>
          (case (get body ''searchQueryState'', get body ''wants'') of
             (JObject state, JObject wants) \<Rightarrow>
               (case hv_encode (rd_env r) (redact_body r (JObject [(''searchQueryState'', JObject state), (''wants'', JObject wants)])) of
                  None \<Rightarrow> Inl ''encode redacted JSON body'' | Some text \<Rightarrow> Inr text)
           | (JObject state, _) \<Rightarrow> Inl ''Zillow search postData.wants must be an object''
           | _ \<Rightarrow> Inl ''Zillow search postData.searchQueryState must be an object'')
      | _ \<Rightarrow> Inl ''Zillow search postData JSON must be an object'')"

definition sanitize_body_text :: "redactor \<Rightarrow> bool \<Rightarrow> string \<Rightarrow> string \<Rightarrow> string + string" where
  "sanitize_body_text r preserve mime text =
     (if trim_space text = [] then Inr text
      else if \<not> is_json_media_type mime \<and> \<not> looks_like_json_object_or_array text then Inr []
      else case decode_json (rd_env r) text of
             Inl msg \<Rightarrow> if is_json_media_type mime \<or> preserve then Inl (''decode JSON body: '' @ msg) else Inr []
           | Inr v \<Rightarrow> if \<not> preserve then Inr [] else minimal_search_body r v)"

definition sanitize_post_data :: "redactor \<Rightarrow> bool \<Rightarrow> post_data \<Rightarrow> string + post_data" where
  "sanitize_post_data r preserve pd =
     (let q = pd\<lparr>pd_comment := [], pd_params := map (sanitize_param r) (pd_params pd)\<rparr> in
      case sanitize_body_text r preserve (pd_mime pd) (pd_text pd) of
        Inl msg \<Rightarrow> Inl msg | Inr text \<Rightarrow> Inr (q\<lparr>pd_text := text\<rparr>))"

section \<open>An entry\<close>

record sanitize_options =
  so_keep_response_bodies :: bool
  so_redaction :: string
  so_additional_keys :: "string list"

definition strip_entry :: "har_entry \<Rightarrow> har_entry" where
  "strip_entry e =
     e\<lparr>he_page_ref := [], he_comment := [], he_server_ip := [], he_connection := [], he_cache := ''{}'',
       he_initiator := [], he_timings := map_option (\<lambda>t. t\<lparr>ht_comment := []\<rparr>) (he_timings e)\<rparr>"

text \<open>The request of an entry, and the response; the errors name the part that failed.\<close>

definition sanitize_request :: "redactor \<Rightarrow> har_request \<Rightarrow> string + har_request" where
  "sanitize_request r q =
     (case sanitize_url r (hq_url q) of
        None \<Rightarrow> Inl ''request URL''
      | Some url \<Rightarrow>
          (case those (map (sanitize_url_header r) (sanitize_headers r retained_request_headers (hq_headers q))) of
             None \<Rightarrow> Inl ''header''
           | Some headers \<Rightarrow>
               Inr (q\<lparr>hq_comment := [], hq_headers := headers, hq_cookies := [],
                 hq_query := map (sanitize_name_value r) (hq_query q), hq_url := url\<rparr>)))"

definition sanitize_content :: "bool \<Rightarrow> har_content \<Rightarrow> har_content" where
  "sanitize_content keep c = (if keep then c\<lparr>hn_comment := []\<rparr> else c\<lparr>hn_comment := [], hn_text := [], hn_encoding := []\<rparr>)"

definition sanitize_response_headers :: "redactor \<Rightarrow> har_response \<Rightarrow> string + name_value list" where
  "sanitize_response_headers r s =
     (case those (map (sanitize_url_header r) (sanitize_headers r retained_response_headers (hr_headers s))) of
        None \<Rightarrow> Inl ''header'' | Some headers \<Rightarrow> Inr headers)"

definition sanitize_entry_post :: "redactor \<Rightarrow> har_request \<Rightarrow> string + post_data option" where
  "sanitize_entry_post r q =
     (case hq_post q of
        None \<Rightarrow> Inr None
      | Some pd \<Rightarrow>
          (case sanitize_post_data r (is_search_state_request q) pd of
             Inl msg \<Rightarrow> Inl (''postData: '' @ msg) | Inr pd' \<Rightarrow> Inr (Some pd')))"

definition sanitize_response :: "bool \<Rightarrow> name_value list \<Rightarrow> string \<Rightarrow> har_response \<Rightarrow> har_response" where
  "sanitize_response keep headers url s =
     s\<lparr>hr_comment := [], hr_headers := headers, hr_cookies := [], hr_redirect_url := url,
       hr_content := sanitize_content keep (hr_content s)\<rparr>"

definition sanitize_entry :: "redactor \<Rightarrow> bool \<Rightarrow> har_entry \<Rightarrow> string + har_entry" where
  "sanitize_entry r keep e =
     (case sanitize_request r (he_request e) of
        Inl msg \<Rightarrow> Inl msg
      | Inr q \<Rightarrow>
          (case sanitize_response_headers r (he_response e) of
             Inl msg \<Rightarrow> Inl msg
           | Inr headers \<Rightarrow>
               (case sanitize_entry_post r (he_request e) of
                  Inl msg \<Rightarrow> Inl msg
                | Inr pd \<Rightarrow>
                    (case sanitize_url r (hr_redirect_url (he_response e)) of
                       None \<Rightarrow> Inl ''redirect URL''
                     | Some url \<Rightarrow>
                         Inr ((strip_entry e)\<lparr>he_request := q\<lparr>hq_post := pd\<rparr>,
                           he_response := sanitize_response keep headers url (he_response e)\<rparr>)))))"

fun sanitize_entries :: "redactor \<Rightarrow> bool \<Rightarrow> nat \<Rightarrow> har_entry list \<Rightarrow> string + har_entry list" where
  "sanitize_entries r keep i [] = Inr []"
| "sanitize_entries r keep i (e # es) =
     (case sanitize_entry r keep e of
        Inl msg \<Rightarrow> Inl (''entry '' @ itoa (int i) @ '' '' @ msg)
      | Inr e' \<Rightarrow> (case sanitize_entries r keep (Suc i) es of Inl msg \<Rightarrow> Inl msg | Inr es' \<Rightarrow> Inr (e' # es')))"

definition strip_log :: "har_log \<Rightarrow> har_log" where
  "strip_log l =
     l\<lparr>hl_pages := [], hl_comment := [], hl_creator := (hl_creator l)\<lparr>hc_comment := []\<rparr>,
       hl_browser := map_option (\<lambda>b. b\<lparr>hc_comment := []\<rparr>) (hl_browser l)\<rparr>"

section \<open>Verification\<close>

text \<open>\<open>verifyRedactedJSON\<close>; out of fuel is a failed verification.\<close>

fun verify_value :: "redactor \<Rightarrow> (string \<Rightarrow> bool) \<Rightarrow> json \<Rightarrow> bool" where
  "verify_value r check (JObject obj) =
     list_all (\<lambda>(key, nested). if is_sensitive_key (rd_keys r) key then nested = JString (rd_text r) else verify_value r check nested) obj"
| "verify_value r check (JArray items) = list_all (verify_value r check) items"
| "verify_value r check (JString s) = check s"
| "verify_value r check v = True"

definition credential_free :: "redactor \<Rightarrow> string \<Rightarrow> bool" where
  "credential_free r s \<longleftrightarrow> s = rd_text r \<or> \<not> credential_like_string s"

fun verify_text :: "redactor \<Rightarrow> nat \<Rightarrow> string \<Rightarrow> bool" where
  "verify_text r 0 s = (\<not> looks_like_json_object_or_array s \<and> credential_free r s)"
| "verify_text r (Suc n) s =
     ((looks_like_json_object_or_array s \<longrightarrow>
         (case decode_json (rd_env r) s of Inl _ \<Rightarrow> True | Inr nested \<Rightarrow> verify_value r (verify_text r n) nested))
      \<and> credential_free r s)"

definition verify_redacted_json :: "redactor \<Rightarrow> json \<Rightarrow> bool" where
  "verify_redacted_json r v = verify_value r (\<lambda>s. verify_text r (Suc (length s)) s) v"

definition verify_sanitized_url :: "redactor \<Rightarrow> string \<Rightarrow> bool" where
  "verify_sanitized_url r raw_url \<longleftrightarrow> trim_space raw_url = [] \<or> sanitize_url r raw_url = Some raw_url"

definition verify_query_item :: "redactor \<Rightarrow> name_value \<Rightarrow> string option" where
  "verify_query_item r x =
     (if nv_comment x \<noteq> [] then Some (''query parameter '' @ quote (nv_name x) @ '' retained a comment'')
      else if credential_like_string (nv_name x) \<and> nv_name x \<noteq> rd_text r then Some ''query parameter name was not redacted''
      else if (is_sensitive_url_key (rd_keys r) (nv_name x) \<or> decoded_credential_like (nv_value x)) \<and> nv_value x \<noteq> rd_text r
      then Some (''query parameter '' @ quote (nv_name x) @ '' was not redacted'')
      else None)"

definition verify_header :: "redactor \<Rightarrow> name_value \<Rightarrow> string option" where
  "verify_header r h =
     (if nv_comment h \<noteq> [] then Some (''header '' @ quote (nv_name h) @ '' retained a comment'')
      else if is_forbidden_header (nv_name h) \<or> is_sensitive_key (rd_keys r) (nv_name h)
      then Some (''still contains sensitive header '' @ quote (nv_name h))
      else if url_header (nv_name h) \<and> \<not> verify_sanitized_url r (nv_value h) then Some (nv_name h @ '' header'')
      else None)"

definition verify_param :: "redactor \<Rightarrow> post_param \<Rightarrow> string option" where
  "verify_param r x =
     (if credential_like_string (pm_name x) \<and> pm_name x \<noteq> rd_text r then Some ''postData parameter name was not redacted''
      else if pm_comment x \<noteq> [] then Some (''postData parameter '' @ quote (pm_name x) @ '' retained a comment'')
      else if pm_value x \<noteq> [] \<and> pm_value x \<noteq> rd_text r then Some (''postData parameter '' @ quote (pm_name x) @ '' was not redacted'')
      else if pm_file_name x \<noteq> [] \<and> pm_file_name x \<noteq> rd_text r then Some (''postData filename '' @ quote (pm_name x) @ '' was not redacted'')
      else None)"

definition fault_when :: "bool \<Rightarrow> string \<Rightarrow> string option" where
  "fault_when bad msg = (if bad then Some msg else None)"

definition verify_post_data :: "redactor \<Rightarrow> post_data \<Rightarrow> string option" where
  "verify_post_data r pd = first_error
     [fault_when (pd_comment pd \<noteq> []) ''postData retained a comment'',
      first_error (map (verify_param r) (pd_params pd)),
      (if trim_space (pd_text pd) = [] then None
       else if \<not> is_json_media_type (pd_mime pd) \<and> \<not> looks_like_json_object_or_array (pd_text pd)
       then Some ''retained a non-JSON request body''
       else case decode_json (rd_env r) (pd_text pd) of
              Inl msg \<Rightarrow> Some (''retained invalid JSON: '' @ msg)
            | Inr v \<Rightarrow> fault_when (\<not> verify_redacted_json r v) ''sensitive JSON was not redacted'')]"

definition verify_entry :: "redactor \<Rightarrow> bool \<Rightarrow> har_entry \<Rightarrow> string option" where
  "verify_entry r keep e =
     (let q = he_request e; s = he_response e in first_error
       [fault_when (he_page_ref e \<noteq> []) ''still contains a page reference'',
        fault_when (he_comment e \<noteq> [] \<or> he_server_ip e \<noteq> [] \<or> he_connection e \<noteq> [] \<or> hq_comment q \<noteq> [] \<or> hr_comment s \<noteq> []
          \<or> hn_comment (hr_content s) \<noteq> [] \<or> (case he_timings e of None \<Rightarrow> False | Some t \<Rightarrow> ht_comment t \<noteq> []))
          ''still contains free-form metadata'',
        fault_when (he_cache e \<noteq> ''{}'') ''still contains cache metadata'',
        fault_when (hq_cookies q \<noteq> [] \<or> hr_cookies s \<noteq> []) ''still contains cookies'',
        fault_when (he_initiator e \<noteq> []) ''still contains initiator metadata'',
        fault_when (\<not> verify_sanitized_url r (hq_url q)) ''request URL'',
        fault_when (\<not> verify_sanitized_url r (hr_redirect_url s)) ''redirect URL'',
        first_error (map (verify_query_item r) (hq_query q)),
        first_error (map (verify_header r) (hq_headers q)),
        first_error (map (verify_header r) (hr_headers s)),
        fault_when (\<not> keep \<and> (hn_text (hr_content s) \<noteq> [] \<or> hn_encoding (hr_content s) \<noteq> [])) ''still contains a response body'',
        (case hq_post q of None \<Rightarrow> None | Some pd \<Rightarrow> verify_post_data r pd)])"

fun verify_entries :: "redactor \<Rightarrow> bool \<Rightarrow> nat \<Rightarrow> har_entry list \<Rightarrow> string option" where
  "verify_entries r keep i [] = None"
| "verify_entries r keep i (e # es) =
     (case verify_entry r keep e of
        Some msg \<Rightarrow> Some (''entry '' @ itoa (int i) @ '' '' @ msg)
      | None \<Rightarrow> verify_entries r keep (Suc i) es)"

definition verify_sanitized :: "redactor \<Rightarrow> bool \<Rightarrow> archive \<Rightarrow> string option" where
  "verify_sanitized r keep a =
     (let l = ar_log a in first_error
       [fault_when (hl_pages l \<noteq> []) ''page metadata was not removed'',
        fault_when (hl_comment l \<noteq> [] \<or> hc_comment (hl_creator l) \<noteq> []
          \<or> (case hl_browser l of None \<Rightarrow> False | Some b \<Rightarrow> hc_comment b \<noteq> [])) ''log metadata comments were not removed'',
        verify_entries r keep 0 (hl_entries l)])"

section \<open>\<open>Sanitize\<close>\<close>

fun add_keys :: "string list \<Rightarrow> string list \<Rightarrow> string + string list" where
  "add_keys keys [] = Inr keys"
| "add_keys keys (key # others) =
     (if normalize_key key = []
      then Inl (''additional sensitive key '' @ quote key @ '' is empty after normalization'')
      else add_keys (normalize_key key # keys) others)"

definition sanitize_clone :: "redactor \<Rightarrow> bool \<Rightarrow> archive \<Rightarrow> string + archive" where
  "sanitize_clone r keep copied =
     (case sanitize_entries r keep 0 (hl_entries (ar_log copied)) of
        Inl msg \<Rightarrow> Inl (''sanitize HAR: '' @ msg)
      | Inr es \<Rightarrow>
          (let clean = copied\<lparr>ar_log := (strip_log (ar_log copied))\<lparr>hl_entries := es\<rparr>\<rparr> in
           case verify_sanitized r keep clean of
             Some msg \<Rightarrow> Inl (''sanitize HAR: verification failed: '' @ msg)
           | None \<Rightarrow> Inr clean))"

definition sanitize_archive :: "har_env \<Rightarrow> archive option \<Rightarrow> sanitize_options list \<Rightarrow> string + archive" where
  "sanitize_archive env a0 options =
     (if length options > 1 then Inl ''sanitize HAR: at most one options value is allowed''
      else
        (let opts = (case options of [] \<Rightarrow> \<lparr>so_keep_response_bodies = False, so_redaction = [], so_additional_keys = []\<rparr> | o1 # _ \<Rightarrow> o1);
             redaction = (if so_redaction opts = [] then ''[REDACTED]'' else so_redaction opts)
         in case validate_redaction redaction of
              Some msg \<Rightarrow> Inl (''sanitize HAR: redaction: '' @ msg)
            | None \<Rightarrow>
                (case add_keys sensitive_key_names (so_additional_keys opts) of
                   Inl msg \<Rightarrow> Inl (''sanitize HAR: '' @ msg)
                 | Inr keys \<Rightarrow>
                     (case clone_archive env a0 of
                        Inl msg \<Rightarrow> Inl (''sanitize HAR: '' @ msg)
                      | Inr copied \<Rightarrow>
                          sanitize_clone \<lparr>rd_env = env, rd_text = redaction, rd_keys = keys\<rparr> (so_keep_response_bodies opts) copied))))"

end
