(* ===== verification/Har_Sanitize_Props.thy ===== *)
theory Har_Sanitize_Props
  imports Har_Sanitize
begin

text \<open>
  What a sanitized archive guarantees: no cookies, no credential-bearing headers, no free-form
  metadata, URLs that sanitization leaves alone, and request bodies in which every sensitive member
  is redacted at any depth, JSON texts inside strings included.
\<close>

section \<open>What is inside a JSON value\<close>

text \<open>
  A member or a text of a value: in its objects and arrays, and in the JSON texts its strings hold.
  The value of a sensitive member counts as one, but not what is in it.
\<close>

inductive has_member :: "redactor \<Rightarrow> json \<Rightarrow> string \<Rightarrow> json \<Rightarrow> bool" for r where
  member_here: "(k, x) \<in> set obj \<Longrightarrow> has_member r (JObject obj) k x"
| member_deeper: "(k', y) \<in> set obj \<Longrightarrow> \<not> is_sensitive_key (rd_keys r) k' \<Longrightarrow> has_member r y k x \<Longrightarrow> has_member r (JObject obj) k x"
| member_item: "y \<in> set items \<Longrightarrow> has_member r y k x \<Longrightarrow> has_member r (JArray items) k x"
| member_text: "looks_like_json_object_or_array s \<Longrightarrow> decode_json (rd_env r) s = Inr w \<Longrightarrow> has_member r w k x
    \<Longrightarrow> has_member r (JString s) k x"

inductive has_text :: "redactor \<Rightarrow> json \<Rightarrow> string \<Rightarrow> bool" for r where
  text_here: "has_text r (JString s) s"
| text_member: "(k, y) \<in> set obj \<Longrightarrow> has_text r y s \<Longrightarrow> \<not> is_sensitive_key (rd_keys r) k \<Longrightarrow> has_text r (JObject obj) s"
| text_item: "y \<in> set items \<Longrightarrow> has_text r y s \<Longrightarrow> has_text r (JArray items) s"
| text_text: "looks_like_json_object_or_array s \<Longrightarrow> decode_json (rd_env r) s = Inr w \<Longrightarrow> has_text r w t \<Longrightarrow> has_text r (JString s) t"

definition sound_check :: "redactor \<Rightarrow> (string \<Rightarrow> bool) \<Rightarrow> bool" where
  "sound_check r check \<longleftrightarrow> (\<forall>s. check s \<longrightarrow> (\<exists>n. verify_text r n s))"

lemma verify_text_nested:
  assumes "verify_text r n s" and "looks_like_json_object_or_array s" and "decode_json (rd_env r) s = Inr w"
  obtains m where "verify_value r (verify_text r m) w"
  using assms by (cases n) auto

lemma sound_verify_text: "sound_check r (verify_text r n)"
  by (auto simp: sound_check_def)

lemma verified_member:
  assumes "has_member r v k x" and "verify_value r check v" and "sound_check r check" and "is_sensitive_key (rd_keys r) k"
  shows "x = JString (rd_text r)"
  using assms
proof (induction arbitrary: check rule: has_member.induct)
  case (member_here k x obj)
  then show ?case by (auto simp: list_all_iff)
next
  case (member_deeper k' y obj k x)
  then show ?case by (fastforce simp: list_all_iff)
next
  case (member_item y items k x)
  then show ?case by (auto simp: list_all_iff)
next
  case (member_text s w k x)
  then obtain n where "verify_text r n s" by (auto simp: sound_check_def)
  then obtain m where "verify_value r (verify_text r m) w"
    using member_text.hyps(1,2) by (rule verify_text_nested)
  then show ?case using member_text.IH member_text.prems(3) sound_verify_text by blast
qed

lemma verified_text:
  assumes "has_text r v s" and "verify_value r check v" and "sound_check r check"
  shows "credential_free r s"
  using assms
proof (induction arbitrary: check rule: has_text.induct)
  case (text_here s)
  then obtain n where "verify_text r n s" by (auto simp: sound_check_def)
  then show ?case by (cases n) simp_all
next
  case (text_member k y obj s)
  then show ?case by (fastforce simp: list_all_iff)
next
  case (text_item y items s)
  then show ?case by (auto simp: list_all_iff)
next
  case (text_text s w t)
  then obtain n where "verify_text r n s" by (auto simp: sound_check_def)
  then obtain m where "verify_value r (verify_text r m) w"
    using text_text.hyps(1,2) by (rule verify_text_nested)
  then show ?case using text_text.IH sound_verify_text by blast
qed

section \<open>A verified archive\<close>

lemma first_error_none: "first_error es = None \<longleftrightarrow> list_all (\<lambda>e. e = None) es"
  by (induction es) (auto split: option.splits)

declare first_error.simps [simp del]

lemma fault_when_none [simp]: "fault_when bad msg = None \<longleftrightarrow> \<not> bad"
  by (simp add: fault_when_def)

definition body_redacted :: "redactor \<Rightarrow> string \<Rightarrow> bool" where
  "body_redacted r text \<longleftrightarrow> trim_space text = [] \<or>
     (\<exists>v. decode_json (rd_env r) text = Inr v
        \<and> (\<forall>k x. has_member r v k x \<longrightarrow> is_sensitive_key (rd_keys r) k \<longrightarrow> x = JString (rd_text r))
        \<and> (\<forall>s. has_text r v s \<longrightarrow> credential_free r s))"

lemma verified_body:
  assumes "verify_post_data r pd = None"
  shows "body_redacted r (pd_text pd)"
proof (cases "trim_space (pd_text pd) = []")
  case False
  then obtain v where v: "decode_json (rd_env r) (pd_text pd) = Inr v" "verify_redacted_json r v"
    using assms by (simp add: verify_post_data_def first_error_none split: sum.splits if_splits)
  have "sound_check r (\<lambda>s. verify_text r (Suc (length s)) s)" unfolding sound_check_def by blast
  with v show ?thesis
    unfolding body_redacted_def verify_redacted_json_def using verified_member verified_text by blast
qed (simp add: body_redacted_def)

definition header_clean :: "redactor \<Rightarrow> name_value \<Rightarrow> bool" where
  "header_clean r h \<longleftrightarrow> \<not> is_forbidden_header (nv_name h) \<and> \<not> is_sensitive_key (rd_keys r) (nv_name h)
     \<and> (url_header (nv_name h) \<longrightarrow> verify_sanitized_url r (nv_value h))"

definition query_clean :: "redactor \<Rightarrow> name_value \<Rightarrow> bool" where
  "query_clean r x \<longleftrightarrow> credential_free r (nv_name x)
     \<and> (is_sensitive_url_key (rd_keys r) (nv_name x) \<or> decoded_credential_like (nv_value x) \<longrightarrow> nv_value x = rd_text r)"

definition param_clean :: "redactor \<Rightarrow> post_param \<Rightarrow> bool" where
  "param_clean r x \<longleftrightarrow> credential_free r (pm_name x) \<and> pm_value x \<in> {[], rd_text r} \<and> pm_file_name x \<in> {[], rd_text r}"

definition entry_clean :: "redactor \<Rightarrow> bool \<Rightarrow> har_entry \<Rightarrow> bool" where
  "entry_clean r keep e \<longleftrightarrow>
     hq_cookies (he_request e) = [] \<and> hr_cookies (he_response e) = [] \<and> he_initiator e = [] \<and> he_server_ip e = []
     \<and> list_all (header_clean r) (hq_headers (he_request e)) \<and> list_all (header_clean r) (hr_headers (he_response e))
     \<and> list_all (query_clean r) (hq_query (he_request e))
     \<and> verify_sanitized_url r (hq_url (he_request e)) \<and> verify_sanitized_url r (hr_redirect_url (he_response e))
     \<and> (\<not> keep \<longrightarrow> hn_text (hr_content (he_response e)) = [])
     \<and> (case hq_post (he_request e) of None \<Rightarrow> True
        | Some pd \<Rightarrow> list_all (param_clean r) (pd_params pd) \<and> body_redacted r (pd_text pd))"

lemma verified_entry:
  assumes "verify_entry r keep e = None"
  shows "entry_clean r keep e"
proof -
  note parts = assms [unfolded verify_entry_def Let_def first_error_none list.pred_inject fault_when_none]
  have header: "header_clean r h" if "verify_header r h = None" for h
    using that by (simp add: verify_header_def header_clean_def split: if_splits)
  have query: "query_clean r x" if "verify_query_item r x = None" for x
    using that by (auto simp: verify_query_item_def query_clean_def credential_free_def split: if_splits)
  have param: "param_clean r x" if "verify_param r x = None" for x
    using that by (auto simp: verify_param_def param_clean_def credential_free_def split: if_splits)
  have headers: "list_all (header_clean r) hs" if "list_all (\<lambda>e. e = None) (map (verify_header r) hs)" for hs
    using that header by (simp add: list_all_iff)
  have queries: "list_all (query_clean r) xs" if "list_all (\<lambda>e. e = None) (map (verify_query_item r) xs)" for xs
    using that query by (simp add: list_all_iff)
  have params: "list_all (param_clean r) xs" if "list_all (\<lambda>e. e = None) (map (verify_param r) xs)" for xs
    using that param by (simp add: list_all_iff)
  have post: "list_all (param_clean r) (pd_params pd) \<and> body_redacted r (pd_text pd)" if "hq_post (he_request e) = Some pd" for pd
  proof -
    have pd: "verify_post_data r pd = None" using parts that by simp
    then have "list_all (\<lambda>e. e = None) (map (verify_param r) (pd_params pd))"
      by (simp only: verify_post_data_def first_error_none list.pred_inject)
    then show ?thesis using params verified_body [OF pd] by blast
  qed
  show ?thesis
    unfolding entry_clean_def
    using parts headers queries post by (auto split: option.split)
qed

lemma verified_entries: "verify_entries r keep i es = None \<Longrightarrow> list_all (entry_clean r keep) es"
  by (induction es arbitrary: i) (auto split: option.splits intro: verified_entry)

section \<open>\<open>Sanitize\<close>\<close>

lemma sanitize_archive_verified:
  assumes "sanitize_archive env a0 options = Inr clean"
  obtains r keep where "rd_env r = env" "set sensitive_key_names \<subseteq> set (rd_keys r)" "verify_sanitized r keep clean = None"
    "options = [] \<Longrightarrow> r = \<lparr>rd_env = env, rd_text = ''[REDACTED]'', rd_keys = sensitive_key_names\<rparr> \<and> \<not> keep"
proof -
  have more_keys: "set keys \<subseteq> set keys'" if "add_keys keys extra = Inr keys'" for keys extra keys'
    using that by (induction keys extra rule: add_keys.induct) (auto split: if_splits)
  have verified: "verify_sanitized r keep clean = None" if "sanitize_clone r keep copied = Inr clean" for r keep copied
    using that by (auto simp: sanitize_clone_def Let_def split: sum.splits option.splits)
  show thesis
  proof (cases options)
    case Nil
    then show ?thesis
      using assms verified by (intro that [of "\<lparr>rd_env = env, rd_text = ''[REDACTED]'', rd_keys = sensitive_key_names\<rparr>" False])
        (auto simp: sanitize_archive_def Let_def split: option.splits sum.splits)
  next
    case (Cons opts others)
    let ?text = "if so_redaction opts = [] then ''[REDACTED]'' else so_redaction opts"
    obtain keys copied where "add_keys sensitive_key_names (so_additional_keys opts) = Inr keys"
      "sanitize_clone \<lparr>rd_env = env, rd_text = ?text, rd_keys = keys\<rparr> (so_keep_response_bodies opts) copied = Inr clean"
      using assms Cons by (auto simp: sanitize_archive_def Let_def split: if_splits option.splits sum.splits)
    then show ?thesis
      using more_keys verified Cons
      by (intro that [of "\<lparr>rd_env = env, rd_text = ?text, rd_keys = keys\<rparr>" "so_keep_response_bodies opts"]) auto
  qed
qed


text \<open>An archive with one search request that carries a token in its URL, its headers and its body.\<close>

definition leaky_entry :: har_entry where
  "leaky_entry = \<lparr>he_page_ref = ''page_1'', he_started = [], he_time = 0,
     he_request = \<lparr>hq_method = ''GET'', hq_url = ''https://www.zillow.com/a?token=abc'', hq_http_version = [],
       hq_headers = [\<lparr>nv_name = ''Cookie'', nv_value = ''s=1'', nv_comment = []\<rparr>, \<lparr>nv_name = ''Accept'', nv_value = ''text/html'', nv_comment = []\<rparr>],
       hq_query = [\<lparr>nv_name = ''token'', nv_value = ''abc'', nv_comment = []\<rparr>], hq_cookies = [], hq_headers_size = -1, hq_body_size = 0,
       hq_post = None, hq_comment = []\<rparr>,
     he_response = \<lparr>hr_status = 200, hr_status_text = [], hr_http_version = [], hr_headers = [], hr_cookies = [],
       hr_content = \<lparr>hn_size = 2, hn_compression = None, hn_mime = ''text/html'', hn_text = ''hi'', hn_encoding = [], hn_comment = []\<rparr>,
       hr_redirect_url = [], hr_headers_size = -1, hr_body_size = 2, hr_comment = []\<rparr>,
     he_cache = ''{}'', he_timings = None, he_server_ip = ''10.0.0.1'', he_connection = ''443'', he_comment = [],
     he_resource_type = ''Document'', he_initiator = ''{}''\<rparr>"

definition leaky_archive :: archive where
  "leaky_archive = small_archive\<lparr>ar_log := (ar_log small_archive)\<lparr>hl_entries := [leaky_entry]\<rparr>\<rparr>"

definition leaky_env :: har_env where
  "leaky_env = \<lparr>hv_decode = (\<lambda>_. BadJson ''none''), hv_encode = (\<lambda>_. None),
     hv_decode_archive = (\<lambda>_. OneArchive leaky_archive), hv_encode_archive = (\<lambda>_. Inr ''{}''), hv_copy_archive = Inr\<rparr>"

lemma leaky_sanitized:
  "(case sanitize_archive leaky_env (Some leaky_archive) [] of Inl msg \<Rightarrow> None
    | Inr clean \<Rightarrow> Some (map (\<lambda>e. (hq_url (he_request e), map nv_name (hq_headers (he_request e)), map nv_value (hq_query (he_request e))))
        (hl_entries (ar_log clean))))
   = Some [(''https://www.zillow.com/a?token=%5BREDACTED%5D'', [''Accept''], [''[REDACTED]''])]"
  by code_simp


end
