(* ===== verification/Har_Sanitize_Depth.thy ===== *)
theory Har_Sanitize_Depth
  imports Har_Sanitize
begin

text \<open>
  The nesting of texts in texts ends: what the sanitizer looks at inside a text is always shorter
  than the text, so the length of a text is enough fuel and the recursion of the program terminates.
\<close>

section \<open>Decoded length\<close>

text \<open>The length of a text when every escape counts as the one byte it stands for.\<close>

definition escape_at :: "string \<Rightarrow> bool" where
  "escape_at s = (case s of c # h1 # h2 # rest \<Rightarrow> c = CHR ''%'' \<and> hex_value h1 \<noteq> None \<and> hex_value h2 \<noteq> None | _ \<Rightarrow> False)"

fun decoded_length :: "string \<Rightarrow> nat" where
  "decoded_length [] = 0"
| "decoded_length (c # s) = (if escape_at (c # s) then Suc (decoded_length (drop 2 s)) else Suc (decoded_length s))"

lemma escape_at_simps [simp]:
  "escape_at (CHR ''%'' # h1 # h2 # rest) \<longleftrightarrow> hex_value h1 \<noteq> None \<and> hex_value h2 \<noteq> None"
  "c \<noteq> CHR ''%'' \<Longrightarrow> \<not> escape_at (c # s)" "\<not> escape_at [c]" "\<not> escape_at [c, d]"
  by (simp_all add: escape_at_def split: list.splits)

lemma escape_at_append:
  "hex_value c = None \<Longrightarrow> c \<noteq> CHR ''%'' \<Longrightarrow> escape_at (x # a @ c # b) = escape_at (x # a)"
  by (cases a; cases "tl a"; cases b) (auto simp: escape_at_def)

lemma unescape_length: "unescape m s = Some t \<Longrightarrow> length t = decoded_length s"
proof (induction m s arbitrary: t rule: unescape.induct)
  case (2 m c s)
  show ?case
  proof (cases "c = CHR ''%''")
    case True
    then obtain h1 h2 rest a b where s: "s = h1 # h2 # rest" "hex_value h1 = Some a" "hex_value h2 = Some b"
      using "2.prems" by (auto split: list.splits option.splits)
    then obtain t' where "unescape m rest = Some t'" "t = char_of (16 * a + b) # t'"
      using "2.prems" True by (auto split: if_splits)
    then show ?thesis using "2.IH"(1) True s "2.prems" by (auto split: if_splits)
  next
    case False
    then obtain t' d where "unescape m s = Some t'" "t = d # t'" using "2.prems" by (auto split: if_splits)
    then show ?thesis using "2.IH"(2-) False "2.prems" by (auto split: if_splits)
  qed
qed simp

lemma decoded_length_le: "decoded_length s \<le> length s"
  by (induction s rule: decoded_length.induct) (auto intro: le_SucI order_trans)

lemma decoded_length_append:
  assumes "hex_value c = None" and "c \<noteq> CHR ''%''"
  shows "decoded_length (a @ c # b) = decoded_length a + Suc (decoded_length b)"
proof (induction a rule: decoded_length.induct)
  case (2 x a)
  have "drop 2 (a @ c # b) = drop 2 a @ c # b" if "escape_at (x # a)"
    using that by (auto simp: escape_at_def split: list.splits)
  then show ?case using 2 escape_at_append [OF assms, of x a b] by simp
qed (use assms in simp)

lemma hex_digit: "n < 16 \<Longrightarrow> hex_value (''0123456789ABCDEF'' ! n) \<noteq> None"
  by (auto simp: hex_value_def less_Suc_eq numeral_eq_Suc Let_def)

lemma byte_bound: "byte c < 256"
  by simp

lemma decoded_length_percent: "decoded_length (percent c @ s) = Suc (decoded_length s)"
proof -
  have "byte c div 16 < 16" "byte c mod 16 < 16" using byte_bound [of c] by linarith+
  then show ?thesis using hex_digit by (simp add: percent_def)
qed

lemma decoded_length_escape:
  assumes "\<not> ok CHR ''%''"
  shows "decoded_length (escape_with ok s) = length s"
proof (induction s)
  case (Cons c s)
  then show ?case using assms by (cases "c = CHR ''%''") (auto simp: escape_with_def decoded_length_percent)
qed (simp add: escape_with_def)

section \<open>Pieces\<close>

lemma joined_later: "piece \<in> set ps \<Longrightarrow> \<exists>l. join [c] (p # ps) = l @ c # piece \<or> (\<exists>r. join [c] (p # ps) = l @ c # piece @ c # r)"
proof (induction ps arbitrary: p)
  case (Cons q ps)
  have eq: "join [c] (p # q # ps) = p @ c # join [c] (q # ps)" by simp
  show ?case
  proof (cases "piece \<in> set ps")
    case True
    from Cons.IH [OF this, of q] show ?thesis unfolding eq by (metis append.assoc append_Cons)
  next
    case False
    then have "piece = q" using Cons.prems by simp
    then have "join [c] (q # ps) = piece \<or> (\<exists>r. join [c] (q # ps) = piece @ c # r)" by (cases ps) auto
    then show ?thesis unfolding eq by auto
  qed
qed simp

lemma split_byte_split:
  assumes "piece \<in> set (split_byte c s)"
  shows "s = piece \<or> (\<exists>r. s = piece @ c # r) \<or> (\<exists>l. s = l @ c # piece) \<or> (\<exists>l r. s = l @ c # piece @ c # r)"
proof -
  obtain p ps where ps: "split_byte c s = p # ps" by (cases "split_byte c s") simp_all
  have s: "join [c] (p # ps) = s" using join_split_byte [of c s] ps by simp
  show ?thesis
  proof (cases "piece \<in> set ps")
    case True
    from joined_later [OF this, of c p] show ?thesis unfolding s by blast
  next
    case False
    then have "piece = p" using assms ps by simp
    then show ?thesis using s by (cases ps) auto
  qed
qed

lemma split_byte_pieces:
  assumes "hex_value c = None" and "c \<noteq> CHR ''%''" and "piece \<in> set (split_byte c s)"
  shows "decoded_length piece \<le> decoded_length s"
  using split_byte_split [OF assms(3)]
  by (elim disjE exE) (simp_all add: decoded_length_append [OF assms(1,2)])

lemma cut_byte_found: "cut_byte c s = (a, b, True) \<Longrightarrow> s = a @ c # b"
  by (induction s arbitrary: a) (auto split: if_splits prod.splits)

lemma cut_byte_parts: "cut_byte c s = (a, b, found) \<Longrightarrow> length a \<le> length s \<and> length b \<le> length s"
  by (induction s arbitrary: a) (fastforce split: if_splits prod.splits)+

lemma cut_value_shorter:
  assumes "hex_value c = None" and "c \<noteq> CHR ''%''" and "cut_byte c s = (a, b, True)"
  shows "decoded_length b < decoded_length s"
  using cut_byte_found [OF assms(3)] by (simp add: decoded_length_append [OF assms(1,2)])

lemma separators [simp]:
  "hex_value CHR ''='' = None" "hex_value CHR '';'' = None" "hex_value CHR ''/'' = None" "hex_value CHR ''&'' = None"
  by (simp_all add: hex_value_def)

section \<open>What the redaction looks at\<close>

text \<open>Two treatments of texts agree below a length.\<close>

definition agree :: "nat \<Rightarrow> (string \<Rightarrow> string) \<Rightarrow> (string \<Rightarrow> string) \<Rightarrow> bool" where
  "agree n f g \<longleftrightarrow> (\<forall>t. length t < n \<longrightarrow> f t = g t)"

lemma agree_value:
  assumes "agree n f g" and "cut_byte CHR ''='' part = (key, val, True)" and "decoded_length part \<le> n"
    and "unescape m val = Some decoded"
  shows "f decoded = g decoded"
  using assms cut_value_shorter [OF _ _ assms(2)] unescape_length [OF assms(4)] by (simp add: agree_def)

lemma agree_base:
  assumes "agree n f g" and "decoded_length base \<le> n"
  shows "sanitize_segment_base r f prev base = sanitize_segment_base r g prev base"
  using agree_value [OF assms(1) _ assms(2)]
  by (auto simp: sanitize_segment_base_def path_unescape_def Let_def split: option.splits prod.splits)

lemma agree_matrix:
  assumes "agree n f g" and "decoded_length part \<le> n"
  shows "sanitize_matrix_part r f part = sanitize_matrix_part r g part"
  using agree_value [OF assms(1) _ assms(2)]
  by (auto simp: sanitize_matrix_part_def path_unescape_def Let_def split: option.splits prod.splits)

lemma agree_segments:
  assumes "agree n f g" and "\<forall>segment \<in> set segments. decoded_length segment \<le> n"
  shows "sanitize_segments r f prev segments = sanitize_segments r g prev segments"
  using assms(2)
proof (induction segments arbitrary: prev)
  case (Cons segment segments)
  have part: "decoded_length part \<le> n" if "part \<in> set (split_byte CHR '';'' segment)" for part
    using split_byte_pieces [OF _ _ that] Cons.prems by force
  have "hd (split_byte CHR '';'' segment) \<in> set (split_byte CHR '';'' segment)" by simp
  then have "sanitize_segment_base r f prev (hd (split_byte CHR '';'' segment)) = sanitize_segment_base r g prev (hd (split_byte CHR '';'' segment))"
    by (rule agree_base [OF assms(1) part])
  moreover have "map (sanitize_matrix_part r f) (tl (split_byte CHR '';'' segment)) = map (sanitize_matrix_part r g) (tl (split_byte CHR '';'' segment))"
    using agree_matrix [OF assms(1) part] by (simp add: list.set_sel(2))
  moreover have "sanitize_segments r f sensitive segments = sanitize_segments r g sensitive segments" for sensitive
    using Cons by simp
  ultimately show ?case by (simp only: sanitize_segments.simps Let_def)
qed simp

lemma agree_path:
  assumes "agree n f g" and "decoded_length escaped \<le> n"
  shows "sanitize_url_path r f escaped = sanitize_url_path r g escaped"
proof -
  have "\<forall>segment \<in> set (split_byte CHR ''/'' escaped). decoded_length segment \<le> n"
    using split_byte_pieces [of "CHR ''/''" _ escaped] assms(2) by force
  then show ?thesis using agree_segments [OF assms(1)] by (simp add: sanitize_url_path_def)
qed

lemma agree_component:
  assumes "agree n f g" and "decoded_length component \<le> n"
  shows "sanitize_query_component r f component = sanitize_query_component r g component"
  using agree_value [OF assms(1) _ assms(2)]
  by (auto simp: sanitize_query_component_def query_unescape_def Let_def split: option.splits prod.splits)

lemma agree_query:
  assumes "agree n f g" and "length component + length rest \<le> n"
  shows "sanitize_query_from r f component rest = sanitize_query_from r g component rest"
  using assms(2)
proof (induction rest arbitrary: component)
  case Nil
  then show ?case using agree_component [OF assms(1)] decoded_length_le [of component] by simp
next
  case (Cons c rest)
  have "sanitize_query_component r f component = sanitize_query_component r g component"
    using Cons.prems agree_component [OF assms(1)] decoded_length_le [of component] by simp
  then show ?case using Cons by simp
qed

section \<open>The parts of a URL\<close>

lemma scheme_rest_length: "scheme_from i raw acc s = Some (scheme, rest) \<Longrightarrow> length s \<le> length raw \<Longrightarrow> length rest \<le> length raw"
  by (induction i raw acc s rule: scheme_from.induct) (auto split: if_splits)

lemma unescape_shorter: "unescape m s = Some t \<Longrightarrow> length t \<le> length s"
  using unescape_length decoded_length_le by metis

lemma parse_rest_lengths:
  assumes "parse_rest scheme query rest = Some u"
  shows "length (u_path u) \<le> length rest" "length (u_raw_path u) \<le> length rest" "u_raw_query u = query"
proof -
  have tail: "length (dropWhile P (drop 2 rest)) \<le> length rest" for P
    using length_dropWhile_le [of P "drop 2 rest"] by simp
  show "length (u_path u) \<le> length rest" "length (u_raw_path u) \<le> length rest" "u_raw_query u = query"
    using assms tail unescape_shorter order_trans
    by (auto simp: parse_rest_def empty_url_def Let_def split: if_splits option.splits prod.splits dest!: unescape_shorter
        intro: order_trans [OF _ tail])
qed

lemma url_parse_lengths:
  assumes "url_parse raw = Some u"
  shows "length (u_path u) \<le> length raw \<and> length (u_raw_path u) \<le> length raw \<and> length (u_raw_query u) \<le> length raw"
proof -
  obtain a frag found where cut: "cut_byte CHR ''#'' raw = (a, frag, found)" by (cases "cut_byte CHR ''#'' raw") auto
  then have a: "length a \<le> length raw" using cut_byte_parts by blast
  show ?thesis
  proof (cases "a = ''*''")
    case True
    then show ?thesis using assms cut a by (auto simp: url_parse_def empty_url_def split: if_splits)
  next
    case False
    then obtain scheme rest where rest: "get_scheme a = Some (scheme, rest)"
      using assms cut by (auto simp: url_parse_def split: if_splits option.splits)
    then have r: "length rest \<le> length a" using scheme_rest_length unfolding get_scheme_def by blast
    obtain rest' query marked where q: "cut_byte CHR ''?'' rest = (rest', query, marked)" by (cases "cut_byte CHR ''?'' rest") auto
    then have rq: "length rest' \<le> length rest \<and> length query \<le> length rest" using cut_byte_parts by blast
    obtain parsed where p: "parse_rest (to_lower scheme) query rest' = Some parsed"
      "u_path u = u_path parsed" "u_raw_path u = u_raw_path parsed" "u_raw_query u = u_raw_query parsed"
      using assms cut False rest q by (auto simp: url_parse_def split: if_splits option.splits)
    then show ?thesis using parse_rest_lengths [OF p(1)] rq r a by simp
  qed
qed

lemma escaped_path_length:
  assumes "url_parse raw = Some u"
  shows "decoded_length (escaped_path u) \<le> length raw"
proof -
  have "decoded_length (escape_with path_byte_ok (u_path u)) = length (u_path u)"
    by (rule decoded_length_escape) (simp add: path_byte_ok_def is_letter_def is_lower_def is_upper_def is_digit_def)
  moreover have "decoded_length (u_raw_path u) \<le> length (u_raw_path u)" by (rule decoded_length_le)
  moreover have "decoded_length ''*'' = length ''*''" by simp
  ultimately show ?thesis using url_parse_lengths [OF assms] by (auto simp: escaped_path_def)
qed

lemma agree_url:
  assumes "agree (length s) f g"
  shows "sanitize_url_with r f s = sanitize_url_with r g s"
proof (cases "url_parse s")
  case (Some u)
  have "sanitize_url_path r f (escaped_path u) = sanitize_url_path r g (escaped_path u)"
    by (rule agree_path [OF assms escaped_path_length [OF Some]])
  moreover have "sanitize_raw_query r f (u_raw_query u) = sanitize_raw_query r g (u_raw_query u)"
    unfolding sanitize_raw_query_def using agree_query [OF assms] url_parse_lengths [OF Some] by simp
  ultimately show ?thesis by (simp only: sanitize_url_with_def Some option.case)
qed (simp add: sanitize_url_with_def)

section \<open>Enough fuel\<close>

fun texts_of :: "json \<Rightarrow> string list" where
  "texts_of (JObject obj) = concat (map (\<lambda>(key, nested). texts_of nested) obj)"
| "texts_of (JArray items) = concat (map texts_of items)"
| "texts_of (JString s) = [s]"
| "texts_of v = []"

text \<open>A decoder reads values whose texts are shorter than the document: each is in it, between quotes.\<close>

definition decoder_shrinks :: "har_env \<Rightarrow> bool" where
  "decoder_shrinks env \<longleftrightarrow> (\<forall>s v t. decode_json env s = Inr v \<longrightarrow> t \<in> set (texts_of v) \<longrightarrow> length t < length s)"

lemma redact_value_cong: "\<forall>t \<in> set (texts_of v). f t = g t \<Longrightarrow> redact_value r f v = redact_value r g v"
proof (induction r f v rule: redact_value.induct)
  case (1 r clean obj)
  have "redact_value r clean x = redact_value r g x" if "(k, x) \<in> set obj" "\<not> is_sensitive_key (rd_keys r) k" for k x
  proof -
    have "\<forall>t \<in> set (texts_of x). clean t = g t" using "1.prems" that(1) by force
    with 1 that show ?thesis by simp
  qed
  then show ?case by auto
next
  case (2 r clean items)
  then show ?case by simp
qed simp_all

lemma redact_json_cong: "\<forall>t \<in> set (texts_of v). f t = g t \<Longrightarrow> redact_json r f v = redact_json r g v"
  using redact_value_cong [of v f g r] by (cases v) (simp_all only: redact_json_def json.case)

lemma clean_text_fuel:
  assumes "decoder_shrinks (rd_env r)"
  shows "length s < n \<Longrightarrow> length s < m \<Longrightarrow> clean_text r n s = clean_text r m s"
proof (induction n arbitrary: m s)
  case (Suc n)
  then obtain m' where m: "m = Suc m'" "length s \<le> m'" by (cases m) auto
  have agree: "agree (length s) (clean_text r n) (clean_text r m')"
    unfolding agree_def
  proof (intro allI impI)
    fix t :: string assume "length t < length s"
    then have "length t < n" "length t < m'" using Suc.prems(1) m(2) by simp_all
    then show "clean_text r n t = clean_text r m' t" by (rule Suc.IH)
  qed
  have "redact_json r (clean_text r n) nested = redact_json r (clean_text r m') nested"
    if "decode_json (rd_env r) s = Inr nested" for nested
    using agree assms that unfolding agree_def decoder_shrinks_def by (intro redact_json_cong) blast
  then show ?case using agree_url [OF agree] m(1) by (simp split: sum.split)
qed simp


text \<open>A decoder that knows one document, and a URL whose query carries it.\<close>

definition tiny_env :: har_env where
  "tiny_env = \<lparr>hv_decode = (\<lambda>t. if t = ''{a}'' then OneJson (JObject [(''token'', JString ''b'')]) else BadJson ''unexpected''),
     hv_encode = (\<lambda>v. if v = JObject [(''token'', JString ''-'')] then Some ''{-}'' else None),
     hv_decode_archive = (\<lambda>_. BadArchive ''none''), hv_encode_archive = (\<lambda>_. Inl ''none''), hv_copy_archive = Inr\<rparr>"

definition tiny_redactor :: redactor where
  "tiny_redactor = \<lparr>rd_env = tiny_env, rd_text = ''-'', rd_keys = sensitive_key_names\<rparr>"


end
