(* ===== verification/Har_Rank.thy ===== *)
theory Har_Rank
  imports Har_Sanitize
begin

text \<open>
  Ranking the entries of a HAR and deriving a search template from one (\<open>internal/har/rank.go\<close> and
  \<open>derive.go\<close>). The score of a candidate is kept as the list of its contributions with their
  reasons; a Go map of wants is the list of its members in the order of the iteration.
\<close>

section \<open>Scores\<close>

record candidate =
  cd_entry_index :: nat
  cd_score :: int
  cd_method :: string
  cd_url :: string
  cd_host :: string
  cd_path :: string
  cd_resource_type :: string
  cd_request_type :: string
  cd_response_type :: string
  cd_reasons :: "string list"

fun header_value :: "name_value list \<Rightarrow> string \<Rightarrow> string" where
  "header_value [] name = []"
| "header_value (h # hs) name = (if equal_fold (nv_name h) name then nv_value h else header_value hs name)"

definition request_media_type :: "har_request \<Rightarrow> string" where
  "request_media_type q =
     (case hq_post q of
        Some pd \<Rightarrow> if pd_mime pd \<noteq> [] then pd_mime pd else header_value (hq_headers q) ''Content-Type''
      | None \<Rightarrow> header_value (hq_headers q) ''Content-Type'')"

definition response_media_type :: "har_response \<Rightarrow> string" where
  "response_media_type s =
     (if hn_mime (hr_content s) \<noteq> [] then hn_mime (hr_content s) else header_value (hr_headers s) ''Content-Type'')"

definition is_first_party_zillow_host :: "string \<Rightarrow> bool" where
  "is_first_party_zillow_host host0 \<longleftrightarrow>
     (let host = trim_suffix (to_lower host0) ''.'' in host = ''zillow.com'' \<or> has_suffix host ''.zillow.com'')"

definition normalized_search_path :: "string \<Rightarrow> string" where
  "normalized_search_path v = (if v \<noteq> ''/'' then trim_suffix v ''/'' else v)"

definition telemetry_markers :: "string list" where
  "telemetry_markers =
     [''analytics'', ''telemetry'', ''doubleclick'', ''google-analytics'', ''newrelic'', ''segment'', ''mixpanel'',
      ''scorecardresearch'', ''/beacon'', ''/collect'', ''/event'', ''/events'', ''/logging'', ''/metrics'', ''/pixel'', ''/track'']"

definition is_telemetry_request :: "string \<Rightarrow> string \<Rightarrow> bool" where
  "is_telemetry_request host request_path = list_ex (contains (to_lower (host @ '' '' @ request_path))) telemetry_markers"

text \<open>\<open>path.Ext\<close>: from the last dot of the last element.\<close>

definition path_ext :: "string \<Rightarrow> string" where
  "path_ext p =
     (let element = rev (takeWhile (\<lambda>c. c \<noteq> CHR ''/'') (rev p)) in
      case cut_last CHR ''.'' element of None \<Rightarrow> [] | Some (stem, ext) \<Rightarrow> CHR ''.'' # ext)"

definition static_types :: "string list" where
  "static_types = [''document'', ''font'', ''image'', ''media'', ''script'', ''stylesheet'']"

definition static_extensions :: "string list" where
  "static_extensions = [''.avif'', ''.css'', ''.gif'', ''.ico'', ''.jpeg'', ''.jpg'', ''.js'', ''.map'', ''.mp4'', ''.png'', ''.svg'',
     ''.webp'', ''.woff'', ''.woff2'']"

definition is_static_request :: "string \<Rightarrow> string \<Rightarrow> bool" where
  "is_static_request resource_type request_path \<longleftrightarrow>
     resource_type \<in> set static_types \<or> to_lower (path_ext request_path) \<in> set static_extensions"

type_synonym contribution = "int \<times> string"

definition add_when :: "bool \<Rightarrow> int \<Rightarrow> string \<Rightarrow> contribution list" where
  "add_when c points reason = (if c then [(points, reason)] else [])"

definition url_contributions :: "string \<Rightarrow> go_url \<Rightarrow> contribution list" where
  "url_contributions resource_type parsed =
     (let first_party = is_first_party_zillow_host (url_hostname parsed) in
      (if first_party then [(40, ''+40 first-party Zillow host'')] else [(- 60, ''-60 non-Zillow host'')])
      @ add_when (first_party \<and> normalized_search_path (u_path parsed) = search_state_path) 140 ''+140 search-state endpoint''
      @ add_when (is_telemetry_request (url_hostname parsed) (u_path parsed)) (- 120) ''-120 analytics/telemetry''
      @ add_when (is_static_request resource_type (u_path parsed)) (- 90) ''-90 static asset'')"

definition other_contributions :: "string \<Rightarrow> string \<Rightarrow> string \<Rightarrow> string \<Rightarrow> int \<Rightarrow> contribution list" where
  "other_contributions resource_type response_type request_type meth status =
     add_when (resource_type \<in> {''fetch'', ''xhr'', ''xmlhttprequest''}) 35 ''+35 fetch/XHR''
     @ add_when (resource_type \<in> {''beacon'', ''ping''}) (- 80) ''-80 beacon/ping''
     @ add_when (is_json_media_type response_type) 30 ''+30 JSON response''
     @ add_when (is_json_media_type request_type) 15 ''+15 JSON request''
     @ (if meth = ''PUT'' then [(12, ''+12 PUT'')] else add_when (meth = ''GET'') 4 ''+4 GET'')
     @ (if 200 \<le> status \<and> status < 300 then [(5, ''+5 successful response'')] else add_when (status \<ge> 400) (- 25) ''-25 error response'')"

definition default_redactor :: "har_env \<Rightarrow> redactor" where
  "default_redactor env = \<lparr>rd_env = env, rd_text = ''[REDACTED]'', rd_keys = sensitive_key_names\<rparr>"

text \<open>The sanitized URL and its parse, when there are such.\<close>

definition safe_parse :: "har_env \<Rightarrow> string \<Rightarrow> (string \<times> go_url) option" where
  "safe_parse env raw =
     (case sanitize_url (default_redactor env) raw of
        None \<Rightarrow> None
      | Some safe \<Rightarrow>
          if safe = [] then None else map_option (\<lambda>u. (safe, u)) (url_parse safe))"

definition contributions :: "har_env \<Rightarrow> har_entry \<Rightarrow> contribution list" where
  "contributions env e =
     (let resource_type = to_lower (he_resource_type e) in
      (case safe_parse env (hq_url (he_request e)) of
         None \<Rightarrow> [(- 30, ''-30 malformed URL'')]
       | Some (safe, parsed) \<Rightarrow> url_contributions resource_type parsed)
      @ other_contributions resource_type (response_media_type (he_response e)) (request_media_type (he_request e))
          (to_upper (hq_method (he_request e))) (hr_status (he_response e)))"

definition score_candidate :: "har_env \<Rightarrow> nat \<Rightarrow> har_entry \<Rightarrow> candidate" where
  "score_candidate env i e =
     (let parsed = safe_parse env (hq_url (he_request e)); parts = contributions env e in
      \<lparr>cd_entry_index = i, cd_score = sum_list (map fst parts), cd_method = to_upper (hq_method (he_request e)),
       cd_url = (case sanitize_url (default_redactor env) (hq_url (he_request e)) of None \<Rightarrow> [] | Some safe \<Rightarrow> safe),
       cd_host = (case parsed of None \<Rightarrow> [] | Some (safe, u) \<Rightarrow> to_lower (url_hostname u)),
       cd_path = (case parsed of None \<Rightarrow> [] | Some (safe, u) \<Rightarrow> or_else (escaped_path u) ''/''),
       cd_resource_type = to_lower (he_resource_type e), cd_request_type = request_media_type (he_request e),
       cd_response_type = response_media_type (he_response e), cd_reasons = map snd parts\<rparr>)"

definition candidate_less :: "candidate \<Rightarrow> candidate \<Rightarrow> bool" where
  "candidate_less a b =
     (if cd_score a \<noteq> cd_score b then cd_score a > cd_score b else cd_entry_index a < cd_entry_index b)"

definition score_entries :: "har_env \<Rightarrow> har_entry list \<Rightarrow> candidate list" where
  "score_entries env es = map (\<lambda>(i, e). score_candidate env i e) (zip [0..<length es] es)"

definition rank_candidates :: "har_env \<Rightarrow> archive option \<Rightarrow> string + candidate list" where
  "rank_candidates env a0 =
     (case validate_archive a0 of
        Some msg \<Rightarrow> Inl (''rank HAR candidates: '' @ msg)
      | None \<Rightarrow> Inr (sort_stable candidate_less (score_entries env (hl_entries (ar_log (the a0))))))"

section \<open>Templates\<close>

record search_template =
  st_version :: int
  st_endpoint :: string
  st_method :: string
  st_referer :: string
  st_query_state :: "json_object option"
  st_wants :: "(string \<times> string list) list"

definition search_template_version :: int where "search_template_version = 1"

fun first_blank :: "nat \<Rightarrow> string list \<Rightarrow> nat option" where
  "first_blank i [] = None"
| "first_blank i (want # wants) = (if trim_space want = [] then Some i else first_blank (Suc i) wants)"

fun check_template_wants :: "bool \<Rightarrow> (string \<times> string list) list \<Rightarrow> string + bool" where
  "check_template_wants found [] = Inr found"
| "check_template_wants found ((grp, wants) # rest) =
     (if trim_space grp = [] then Inl ''wants group name must not be empty''
      else if wants = [] then Inl (''wants.'' @ grp @ '' must not be empty'')
      else case first_blank 0 wants of
             Some i \<Rightarrow> Inl (''wants.'' @ grp @ ''['' @ itoa (int i) @ ''] must not be empty'')
           | None \<Rightarrow> check_template_wants (found \<or> (grp = ''cat1'' \<and> ''listResults'' \<in> set wants)) rest)"

definition validate_template :: "search_template \<Rightarrow> string option" where
  "validate_template t =
     (if st_version t \<noteq> search_template_version
      then Some (''version is '' @ itoa (st_version t) @ ''; want '' @ itoa search_template_version)
      else if st_method t \<noteq> ''PUT'' then Some (''method is '' @ quote (st_method t) @ ''; want PUT'')
      else case parse_search_template_endpoint (st_endpoint t) of
             Inl msg \<Rightarrow> Some (''endpoint: '' @ msg)
           | Inr _ \<Rightarrow>
               (case parse_search_template_referer (st_referer t) of
                  Inl msg \<Rightarrow> Some (''referer: '' @ msg)
                | Inr _ \<Rightarrow>
                    if st_query_state t = None then Some ''searchQueryState is required''
                    else if st_wants t = [] then Some ''wants must be a non-empty object''
                    else case check_template_wants False (st_wants t) of
                           Inl msg \<Rightarrow> Some msg
                         | Inr found \<Rightarrow> if found then None else Some ''wants.cat1 must contain listResults''))"

section \<open>Selecting and deriving\<close>

fun first_header_value :: "name_value list \<Rightarrow> string list \<Rightarrow> string" where
  "first_header_value [] names = []"
| "first_header_value (h # hs) names =
     (if list_ex (equal_fold (nv_name h)) names then nv_value h else first_header_value hs names)"

definition referer_of :: "har_entry \<Rightarrow> string" where
  "referer_of e = first_header_value (hq_headers (he_request e)) [''Referer'', ''Referrer'']"

definition validate_search_entry :: "har_entry \<Rightarrow> string option" where
  "validate_search_entry e =
     (if hq_method (he_request e) \<noteq> ''PUT'' then Some (''method '' @ quote (hq_method (he_request e)) @ '' is not PUT'')
      else case parse_search_template_endpoint (hq_url (he_request e)) of
             Inl msg \<Rightarrow> Some (''request URL: '' @ msg)
           | Inr _ \<Rightarrow>
               (case parse_search_template_referer (referer_of e) of
                  Inl msg \<Rightarrow> Some (''request referer: '' @ msg)
                | Inr _ \<Rightarrow>
                    (case hq_post (he_request e) of
                       None \<Rightarrow> Some ''request postData JSON is required''
                     | Some pd \<Rightarrow> if trim_space (pd_text pd) = [] then Some ''request postData JSON is required'' else None)))"

fun first_valid :: "har_entry list \<Rightarrow> candidate list \<Rightarrow> nat option" where
  "first_valid es [] = None"
| "first_valid es (c # cs) =
     (if validate_search_entry (es ! cd_entry_index c) = None then Some (cd_entry_index c) else first_valid es cs)"

definition select_search_entry :: "har_env \<Rightarrow> archive \<Rightarrow> int option \<Rightarrow> string + nat" where
  "select_search_entry env a selected =
     (let es = hl_entries (ar_log a); failed = (\<lambda>msg. Inl (''derive search template: '' @ msg)) in
      case selected of
        Some i \<Rightarrow>
          if i < 0 \<or> i \<ge> int (length es) then failed (''entry index '' @ itoa i @ '' is out of range'')
          else case validate_search_entry (es ! nat i) of
                 Some msg \<Rightarrow> failed (''entry '' @ itoa i @ '': '' @ msg)
               | None \<Rightarrow> Inr (nat i)
      | None \<Rightarrow>
          (case rank_candidates env (Some a) of
             Inl msg \<Rightarrow> failed msg
           | Inr candidates \<Rightarrow>
               (case first_valid es candidates of
                  Some i \<Rightarrow> Inr i
                | None \<Rightarrow> failed ''no first-party PUT /async-create-search-page-state entry found'')))"

fun decode_want_names :: "string \<Rightarrow> nat \<Rightarrow> json list \<Rightarrow> string + string list" where
  "decode_want_names key i [] = Inr []"
| "decode_want_names key i (v # vs) =
     (case v of
        JString s \<Rightarrow> (case decode_want_names key (Suc i) vs of Inl msg \<Rightarrow> Inl msg | Inr names \<Rightarrow> Inr (s # names))
      | _ \<Rightarrow> Inl (''postData.wants.'' @ key @ ''['' @ itoa (int i) @ ''] must be a string''))"

fun decode_want_groups :: "json_object \<Rightarrow> string + (string \<times> string list) list" where
  "decode_want_groups [] = Inr []"
| "decode_want_groups ((key, v) # rest) =
     (case v of
        JArray items \<Rightarrow>
          (case decode_want_names key 0 items of
             Inl msg \<Rightarrow> Inl msg
           | Inr names \<Rightarrow>
               (case decode_want_groups rest of Inl msg \<Rightarrow> Inl msg | Inr groups \<Rightarrow> Inr ((key, names) # groups)))
      | _ \<Rightarrow> Inl (''postData.wants.'' @ key @ '' must be an array''))"

definition decode_wants :: "json \<Rightarrow> string + (string \<times> string list) list" where
  "decode_wants v = (case v of JObject obj \<Rightarrow> decode_want_groups obj | _ \<Rightarrow> Inl ''postData.wants must be an object'')"

definition template_of_body :: "har_env \<Rightarrow> har_entry \<Rightarrow> json_object \<Rightarrow> string + search_template" where
  "template_of_body env e body =
     (case get body ''searchQueryState'' of
        JObject state \<Rightarrow>
          (case decode_wants (get body ''wants'') of
             Inl msg \<Rightarrow> Inl msg
           | Inr wants \<Rightarrow>
               (case sanitize_url (default_redactor env) (referer_of e) of
                  None \<Rightarrow> Inl ''sanitize referer''
                | Some referer \<Rightarrow>
                    (let endpoint = (case parse_search_template_endpoint (hq_url (he_request e)) of Inr u \<Rightarrow> url_string u | Inl _ \<Rightarrow> []);
                         t = \<lparr>st_version = search_template_version, st_endpoint = endpoint, st_method = ''PUT'', st_referer = referer,
                              st_query_state = Some state, st_wants = wants\<rparr>
                     in case validate_template t of Some msg \<Rightarrow> Inl msg | None \<Rightarrow> Inr t)))
      | _ \<Rightarrow> Inl ''postData.searchQueryState must be an object'')"

definition derive_search_template_from_entry :: "har_env \<Rightarrow> har_entry \<Rightarrow> string + search_template" where
  "derive_search_template_from_entry env e =
     (case validate_search_entry e of
        Some msg \<Rightarrow> Inl msg
      | None \<Rightarrow>
          (case decode_json env (pd_text (the (hq_post (he_request e)))) of
             Inl msg \<Rightarrow> Inl (''decode postData JSON: '' @ msg)
           | Inr (JObject body) \<Rightarrow>
               (case redact_body (default_redactor env) (JObject body) of
                  JObject redacted \<Rightarrow> template_of_body env e redacted
                | _ \<Rightarrow> Inl ''postData JSON must be an object'')
           | Inr _ \<Rightarrow> Inl ''postData JSON must be an object''))"

definition derive_search_template :: "har_env \<Rightarrow> archive option \<Rightarrow> int option list \<Rightarrow> string + search_template" where
  "derive_search_template env a0 options =
     (if length options > 1 then Inl ''derive search template: at most one options value is allowed''
      else case validate_archive a0 of
             Some msg \<Rightarrow> Inl (''derive search template: '' @ msg)
           | None \<Rightarrow>
               (case select_search_entry env (the a0) (case options of [] \<Rightarrow> None | o1 # _ \<Rightarrow> o1) of
                  Inl msg \<Rightarrow> Inl msg
                | Inr i \<Rightarrow>
                    (case derive_search_template_from_entry env (hl_entries (ar_log (the a0)) ! i) of
                       Inl msg \<Rightarrow> Inl (''derive search template: entry '' @ itoa (int i) @ '': '' @ msg)
                     | Inr t \<Rightarrow> Inr t)))"

definition derive_search_template_at :: "har_env \<Rightarrow> archive option \<Rightarrow> int \<Rightarrow> string + search_template" where
  "derive_search_template_at env a0 i = derive_search_template env a0 [Some i]"

definition save_search_template :: "(search_template \<Rightarrow> string + string) \<Rightarrow> search_template option \<Rightarrow> string + string" where
  "save_search_template write t0 =
     (case t0 of
        None \<Rightarrow> Inl ''save search template: template is nil''
      | Some t \<Rightarrow>
          (case validate_template t of
             Some msg \<Rightarrow> Inl (''save search template: '' @ msg)
           | None \<Rightarrow> (case write t of Inl msg \<Rightarrow> Inl (''save search template: '' @ msg) | Inr text \<Rightarrow> Inr text)))"

end
