(* ===== verification/Har_Rank_Props.thy ===== *)
theory Har_Rank_Props
  imports Har_Rank Search_Profile
begin

text \<open>
  What ranking and derivation guarantee: a complete, sorted list of candidates; the selection of
  the best valid search request, if there is one; a search request that always outranks foreign
  traffic; and a derived template that the search client accepts as a profile.
\<close>

section \<open>The order of the candidates\<close>

interpretation candidates: weak_less candidate_less
  by unfold_locales (auto simp: candidate_less_def split: if_splits)

lemma score_entries_length [simp]: "length (score_entries env es) = length es"
  by (simp add: score_entries_def)

lemma score_entries_nth: "i < length es \<Longrightarrow> score_entries env es ! i = score_candidate env i (es ! i)"
  by (simp add: score_entries_def)

lemma score_candidate_index [simp]: "cd_entry_index (score_candidate env i e) = i"
  by (simp add: score_candidate_def Let_def)

lemma score_entries_indices: "map cd_entry_index (score_entries env es) = [0..<length es]"
  by (rule nth_equalityI) (simp_all add: score_entries_nth)

lemma ranked_set: "c \<in> set (sort_stable candidate_less (score_entries env es)) \<longleftrightarrow>
    (\<exists>i < length es. c = score_candidate env i (es ! i))"
  by (auto simp: in_set_conv_nth score_entries_nth)

text \<open>
  A ranking lists every entry of the archive exactly once, the highest score first, and entries of
  equal score in the order of the archive.
\<close>
theorem ranking_complete_sorted:
  assumes "rank_candidates env (Some a) = Inr cs"
  shows "mset (map cd_entry_index cs) = mset [0..<length (hl_entries (ar_log a))]
    \<and> sorted_wrt (\<lambda>c d. cd_score c > cd_score d \<or> (cd_score c = cd_score d \<and> cd_entry_index c < cd_entry_index d)) cs"
proof -
  let ?es = "hl_entries (ar_log a)"
  have cs: "cs = sort_stable candidate_less (score_entries env ?es)"
    using assms by (simp add: rank_candidates_def split: option.splits)
  have m: "mset (map cd_entry_index cs) = mset [0..<length ?es]"
    unfolding cs by (metis mset_map mset_sort_stable score_entries_indices)
  then have distinct: "distinct (map cd_entry_index cs)" by (metis distinct_upt mset_eq_imp_distinct_iff)
  have sorted: "sorted_wrt (\<lambda>c d. \<not> candidate_less d c) cs"
    unfolding cs by (rule candidates.sorted_sort_stable)
  have "sorted_wrt (\<lambda>c d. cd_entry_index c \<noteq> cd_entry_index d) cs"
    using distinct by (auto simp: sorted_wrt_iff_nth_less distinct_conv_nth)
  then have "sorted_wrt (\<lambda>c d. \<not> candidate_less d c \<and> cd_entry_index c \<noteq> cd_entry_index d) cs"
    using sorted by (simp add: sorted_wrt_iff_nth_less)
  then have "sorted_wrt (\<lambda>c d. cd_score c > cd_score d \<or> (cd_score c = cd_score d \<and> cd_entry_index c < cd_entry_index d)) cs"
    by (rule sorted_wrt_mono_rel [rotated]) (auto simp: candidate_less_def split: if_splits)
  with m show ?thesis by blast
qed

section \<open>Selection\<close>

definition usable :: "har_entry list \<Rightarrow> nat \<Rightarrow> bool" where
  "usable es i \<longleftrightarrow> validate_search_entry (es ! i) = None"

lemma first_valid_none: "first_valid es cs = None \<longleftrightarrow> (\<forall>c \<in> set cs. \<not> usable es (cd_entry_index c))"
  by (induction cs) (auto simp: usable_def)

lemma first_valid_best:
  "sorted_wrt P cs \<Longrightarrow> first_valid es cs = Some i \<Longrightarrow>
   \<exists>c \<in> set cs. cd_entry_index c = i \<and> usable es i \<and> (\<forall>d \<in> set cs. usable es (cd_entry_index d) \<longrightarrow> d = c \<or> P c d)"
  by (induction cs) (auto simp: usable_def split: if_splits)

definition entry_score :: "har_env \<Rightarrow> har_entry list \<Rightarrow> nat \<Rightarrow> int" where
  "entry_score env es i = cd_score (score_candidate env i (es ! i))"

text \<open>
  C17: Without an index the template is derived from the best entry there is: the selected entry is a
  valid first-party search request, every other valid one scores lower or comes later with the same
  score; and the selection fails only if no entry is valid.
\<close>
theorem best_entry_selected:
  assumes "validate_archive (Some a) = None"
  shows "let es = hl_entries (ar_log a) in
    case select_search_entry env a None of
      Inr i \<Rightarrow> i < length es \<and> usable es i
        \<and> (\<forall>j < length es. usable es j \<longrightarrow> entry_score env es j < entry_score env es i
              \<or> (entry_score env es j = entry_score env es i \<and> i \<le> j))
    | Inl _ \<Rightarrow> \<forall>j < length es. \<not> usable es j"
proof -
  let ?es = "hl_entries (ar_log a)"
  let ?cs = "sort_stable candidate_less (score_entries env ?es)"
  have sel: "select_search_entry env a None = (case first_valid ?es ?cs of Some i \<Rightarrow> Inr i
      | None \<Rightarrow> Inl (''derive search template: '' @ ''no first-party PUT /async-create-search-page-state entry found''))"
    using assms by (simp add: select_search_entry_def rank_candidates_def Let_def split: option.split)
  have member: "score_candidate env j (?es ! j) \<in> set ?cs" if "j < length ?es" for j
    using that ranked_set by blast
  show ?thesis
  proof (cases "first_valid ?es ?cs")
    case None
    then have "\<not> usable ?es j" if "j < length ?es" for j
      using member [OF that] first_valid_none by fastforce
    then show ?thesis using sel None by (simp add: Let_def)
  next
    case (Some i)
    obtain c where c: "c \<in> set ?cs" "cd_entry_index c = i" "usable ?es i"
      "\<forall>d \<in> set ?cs. usable ?es (cd_entry_index d) \<longrightarrow> d = c \<or> \<not> candidate_less d c"
      using first_valid_best [OF candidates.sorted_sort_stable Some] by blast
    then have i: "i < length ?es" "c = score_candidate env i (?es ! i)" using ranked_set by auto
    have "entry_score env ?es j < entry_score env ?es i \<or> (entry_score env ?es j = entry_score env ?es i \<and> i \<le> j)"
      if "j < length ?es" "usable ?es j" for j
    proof -
      have "score_candidate env j (?es ! j) = c \<or> \<not> candidate_less (score_candidate env j (?es ! j)) c"
        using c(4) member [OF that(1)] that(2) by simp
      then show ?thesis
        using i(2) by (auto simp: entry_score_def candidate_less_def split: if_splits) (metis score_candidate_index order_refl)
    qed
    then show ?thesis using sel Some i(1) c(3) by (simp add: Let_def)
  qed
qed

section \<open>Search requests outrank foreign traffic\<close>

lemma add_when_sum [simp]: "sum_list (map fst (add_when c points reason)) = (if c then points else 0)"
  by (simp add: add_when_def)

lemma score_split:
  "entry_score env es i =
     (case safe_parse env (hq_url (he_request (es ! i))) of
        None \<Rightarrow> - 30
      | Some (safe, parsed) \<Rightarrow> sum_list (map fst (url_contributions (to_lower (he_resource_type (es ! i))) parsed)))
     + sum_list (map fst (other_contributions (to_lower (he_resource_type (es ! i))) (response_media_type (he_response (es ! i)))
         (request_media_type (he_request (es ! i))) (to_upper (hq_method (he_request (es ! i)))) (hr_status (he_response (es ! i)))))"
  by (simp add: entry_score_def score_candidate_def contributions_def Let_def split: option.split prod.split)

lemma other_upper: "sum_list (map fst (other_contributions t response request meth status)) \<le> 97"
  by (simp add: other_contributions_def)

lemma other_lower_put:
  "- 93 \<le> sum_list (map fst (other_contributions t response request ''PUT'' status))"
  "t \<in> set static_types \<Longrightarrow> - 13 \<le> sum_list (map fst (other_contributions t response request ''PUT'' status))"
proof -
  have added: "min 0 n \<le> sum_list (map fst (add_when c n reason))" for c n reason by (simp add: add_when_def)
  define late where "late = sum_list (map fst (if 200 \<le> status \<and> status < 300 then [(5, ''+5 successful response'')]
    else add_when (status \<ge> 400) (- 25) ''-25 error response''))"
  have late: "- 25 \<le> late" by (simp add: late_def add_when_def)
  define early where "early = sum_list (map fst (add_when (t \<in> {''beacon'', ''ping''}) (- 80) ''-80 beacon/ping''))"
  have whole: "early + 12 + late \<le> sum_list (map fst (other_contributions t response request ''PUT'' status))"
    using added [of 35 "t \<in> {''fetch'', ''xhr'', ''xmlhttprequest''}"] added [of 30 "is_json_media_type response"]
      added [of 15 "is_json_media_type request"]
    unfolding other_contributions_def map_append sum_list_append late_def [symmetric] early_def [symmetric] by simp
  show "- 93 \<le> sum_list (map fst (other_contributions t response request ''PUT'' status))"
    using whole late added [of "- 80" "t \<in> {''beacon'', ''ping''}" "''-80 beacon/ping''"] unfolding early_def by linarith
  assume "t \<in> set static_types"
  then have "early = 0" by (auto simp: early_def add_when_def static_types_def)
  then show "- 13 \<le> sum_list (map fst (other_contributions t response request ''PUT'' status))" using whole late by linarith
qed

text \<open>
  The search request of the site outranks all foreign traffic: an entry whose sanitized URL is the
  search endpoint on a first-party host without a telemetry marker, sent with \<open>PUT\<close>, scores higher
  than every entry of another host or with a malformed URL, whatever their types and statuses are.
\<close>
theorem search_entry_outranks:
  assumes "safe_parse env (hq_url (he_request (es ! i))) = Some (safe, u)"
    and "is_first_party_zillow_host (url_hostname u)" and "normalized_search_path (u_path u) = search_state_path"
    and "\<not> is_telemetry_request (url_hostname u) (u_path u)" and "to_lower (path_ext (u_path u)) \<notin> set static_extensions"
    and "to_upper (hq_method (he_request (es ! i))) = ''PUT''"
    and "case safe_parse env (hq_url (he_request (es ! j))) of None \<Rightarrow> True | Some (safe', v) \<Rightarrow> \<not> is_first_party_zillow_host (url_hostname v)"
  shows "entry_score env es j < entry_score env es i"
proof -
  let ?t = "to_lower (he_resource_type (es ! i))"
  have "entry_score env es j \<le> 67"
  proof (cases "safe_parse env (hq_url (he_request (es ! j)))")
    case None
    then show ?thesis using other_upper by (simp add: score_split)
  next
    case (Some x)
    then obtain s v where v: "safe_parse env (hq_url (he_request (es ! j))) = Some (s, v)" "\<not> is_first_party_zillow_host (url_hostname v)"
      using assms(7) by (cases x) auto
    have "sum_list (map fst (url_contributions (to_lower (he_resource_type (es ! j))) v)) \<le> - 60"
      using v(2) by (simp add: url_contributions_def Let_def)
    then show ?thesis using v(1) other_upper
        [of "to_lower (he_resource_type (es ! j))" "response_media_type (he_response (es ! j))" "request_media_type (he_request (es ! j))"
          "to_upper (hq_method (he_request (es ! j)))" "hr_status (he_response (es ! j))"]
      by (simp add: score_split)
  qed
  moreover have "77 \<le> entry_score env es i"
  proof -
    have url: "sum_list (map fst (url_contributions ?t u)) = 180 - (if ?t \<in> set static_types then 90 else 0)"
      using assms(2-5) by (auto simp: url_contributions_def is_static_request_def Let_def)
    show ?thesis
      using assms(1,6) url other_lower_put [of ?t "response_media_type (he_response (es ! i))" "request_media_type (he_request (es ! i))"
          "hr_status (he_response (es ! i))"]
      by (auto simp: score_split split: if_splits)
  qed
  ultimately show ?thesis by linarith
qed

section \<open>Templates as profiles\<close>

text \<open>The profile a saved template is read as.\<close>

definition profile_of_template :: "search_template \<Rightarrow> search_profile" where
  "profile_of_template t =
     \<lparr>sp_version = st_version t, sp_endpoint = st_endpoint t, sp_method = st_method t, sp_referer = st_referer t,
      sp_query_state = st_query_state t, sp_wants = Some (map (\<lambda>(grp, wants). (grp, JArray (map JString wants))) (st_wants t))\<rparr>"

lemma string_items_strings: "string_items i (map JString names) = Inr names"
  by (induction names arbitrary: i) simp_all

lemma check_names_blank: "first_blank i names = None \<Longrightarrow> check_names k names = None"
  by (induction names arbitrary: i k) (auto split: if_splits)

lemma check_wants_template:
  "check_template_wants found wants = Inr result \<Longrightarrow>
   check_wants found (map (\<lambda>(grp, names). (grp, JArray (map JString names))) wants) = Inr result"
  by (induction found wants rule: check_template_wants.induct)
    (auto simp: validate_wants_group_def string_items_strings check_names_blank split: if_splits option.splits)

lemma template_url_allowed:
  assumes "parse_search_template_zillow_url raw = Inr u"
  shows "parse_allowed_zillow_url raw = Inr u" "trim_space raw = raw" "u_scheme u = ''https''" "url_parse raw = Some u" "raw \<noteq> []"
  using assms
  by (auto simp: parse_search_template_zillow_url_def parse_allowed_zillow_url_def allowed_zillow_host_def
      is_search_template_zillow_host_def split: if_splits option.splits)

text \<open>
  C40: What is derived can be used: every template that validates, and so every derived one, is accepted
  as a profile by the search client, with the same endpoint, referer and wants.
\<close>
theorem template_is_profile:
  assumes "validate_template t = None"
  shows "validate_profile (profile_of_template t) = None"
proof -
  obtain u v where u: "parse_search_template_endpoint (st_endpoint t) = Inr u" and v: "parse_search_template_referer (st_referer t) = Inr v"
    and wants: "check_template_wants False (st_wants t) = Inr True" "st_wants t \<noteq> []"
    and rest: "st_version t = 1" "st_method t = ''PUT''" "st_query_state t \<noteq> None"
    using assms by (auto simp: validate_template_def search_template_version_def split: if_splits sum.splits)
  have endpoint: "parse_search_template_zillow_url (st_endpoint t) = Inr u" "u_path u = search_state_path" "default_encoding u"
    "u_raw_query u = []" "u_fragment u = []"
    using u by (auto simp: parse_search_template_endpoint_def split: sum.splits if_splits)
  have "resolve_search_endpoint (st_endpoint t) = Inr u"
    using template_url_allowed [OF endpoint(1)] by (simp add: resolve_search_endpoint_def Let_def)
  moreover have "parse_allowed_zillow_url (st_referer t) = Inr v" "u_fragment v = []"
    using v template_url_allowed by (auto simp: parse_search_template_referer_def split: sum.splits if_splits)
  moreover have "equal_fold (trim_space ''PUT'') ''PUT''" by code_simp
  ultimately show ?thesis
    using endpoint rest wants check_wants_template [OF wants(1)]
    by (auto simp: validate_profile_def profile_of_template_def search_profile_version_def search_endpoint_path_def
        search_state_path_def default_encoding_def)
qed

section \<open>Examples\<close>

text \<open>A search request of the site and a beacon of another host.\<close>

definition blank_request :: har_request where
  "blank_request = \<lparr>hq_method = ''GET'', hq_url = [], hq_http_version = [], hq_headers = [], hq_query = [], hq_cookies = [],
     hq_headers_size = -1, hq_body_size = 0, hq_post = None, hq_comment = []\<rparr>"

definition blank_entry :: har_entry where
  "blank_entry = \<lparr>he_page_ref = [], he_started = [], he_time = 0, he_request = blank_request,
     he_response = \<lparr>hr_status = 200, hr_status_text = [], hr_http_version = [], hr_headers = [], hr_cookies = [],
       hr_content = \<lparr>hn_size = 0, hn_compression = None, hn_mime = [], hn_text = [], hn_encoding = [], hn_comment = []\<rparr>,
       hr_redirect_url = [], hr_headers_size = -1, hr_body_size = 0, hr_comment = []\<rparr>,
     he_cache = ''{}'', he_timings = None, he_server_ip = [], he_connection = [], he_comment = [],
     he_resource_type = [], he_initiator = []\<rparr>"

definition beacon_entry :: har_entry where
  "beacon_entry = blank_entry\<lparr>he_request := blank_request\<lparr>hq_url := ''https://ads.example/beacon''\<rparr>, he_resource_type := ''Fetch''\<rparr>"

definition search_entry :: har_entry where
  "search_entry = blank_entry\<lparr>he_request := blank_request\<lparr>hq_method := ''PUT'',
     hq_url := ''https://www.zillow.com/async-create-search-page-state'',
     hq_headers := [\<lparr>nv_name = ''referer'', nv_value = ''https://www.zillow.com/ca/'', nv_comment = []\<rparr>],
     hq_post := Some \<lparr>pd_mime = ''application/json'', pd_params = [], pd_text = ''{}'', pd_comment = []\<rparr>\<rparr>\<rparr>"

definition two_entries :: archive where
  "two_entries = \<lparr>ar_log = \<lparr>hl_version = ''1.2'', hl_creator = \<lparr>hc_name = ''gozillo'', hc_version = ''1'', hc_comment = []\<rparr>,
     hl_browser = None, hl_pages = [], hl_entries = [beacon_entry, search_entry], hl_comment = []\<rparr>\<rparr>"

definition search_body :: json where
  "search_body = JObject [(''searchQueryState'', JObject [(''token'', JString ''t'')]), (''wants'', JObject [(''cat1'', JArray [JString ''listResults''])])]"

definition body_env :: har_env where
  "body_env = \<lparr>hv_decode = (\<lambda>_. OneJson search_body), hv_encode = (\<lambda>_. None), hv_decode_archive = (\<lambda>_. BadArchive ''none''),
     hv_encode_archive = (\<lambda>_. Inl ''none''), hv_copy_archive = Inr\<rparr>"

theorem ranking_complete_sorted_witness:
  "\<exists>cs. rank_candidates body_env (Some two_entries) = Inr cs \<and> mset (map cd_entry_index cs) = {#0, 1#}"
proof -
  obtain cs where cs: "rank_candidates body_env (Some two_entries) = Inr cs"
    by (simp add: rank_candidates_def validate_archive_def two_entries_def version12_def)
  have "[0..<length (hl_entries (ar_log two_entries))] = [0, 1]" by (simp add: two_entries_def)
  then have "mset (map cd_entry_index cs) = {#0, 1#}" using ranking_complete_sorted [OF cs] by simp
  with cs show ?thesis by blast
qed

theorem best_entry_selected_witness: "select_search_entry body_env two_entries None = Inr 1"
proof -
  let ?es = "[beacon_entry, search_entry]"
  have es: "hl_entries (ar_log two_entries) = ?es" by (simp add: two_entries_def)
  have u: "\<not> usable ?es 0" "usable ?es 1" by code_simp+
  have "validate_archive (Some two_entries) = None" by code_simp
  note best = best_entry_selected [OF this, of body_env, unfolded Let_def es]
  show ?thesis
  proof (cases "select_search_entry body_env two_entries None")
    case (Inl msg)
    then show ?thesis using best u(2) by simp
  next
    case (Inr i)
    then have "i < 2" "usable ?es i" using best by simp_all
    then have "i = 1" using u(1) by (cases i) auto
    then show ?thesis using Inr by simp
  qed
qed

theorem search_entry_outranks_witness:
  "entry_score body_env [beacon_entry, search_entry] 0 < entry_score body_env [beacon_entry, search_entry] 1"
proof -
  let ?es = "[beacon_entry, search_entry]"
  have "(case safe_parse body_env (hq_url (he_request (?es ! 1))) of None \<Rightarrow> False
      | Some (safe, u) \<Rightarrow> is_first_party_zillow_host (url_hostname u) \<and> normalized_search_path (u_path u) = search_state_path
          \<and> \<not> is_telemetry_request (url_hostname u) (u_path u) \<and> to_lower (path_ext (u_path u)) \<notin> set static_extensions)"
    by code_simp
  then obtain safe u where u: "safe_parse body_env (hq_url (he_request (?es ! 1))) = Some (safe, u)"
    "is_first_party_zillow_host (url_hostname u)" "normalized_search_path (u_path u) = search_state_path"
    "\<not> is_telemetry_request (url_hostname u) (u_path u)" "to_lower (path_ext (u_path u)) \<notin> set static_extensions"
    by (auto split: option.splits)
  show ?thesis
    by (rule search_entry_outranks [OF u]) code_simp+
qed

theorem template_is_profile_witness:
  "\<exists>t. derive_search_template_at body_env (Some two_entries) 1 = Inr t \<and> validate_profile (profile_of_template t) = None
     \<and> st_query_state t = Some [(''token'', JString ''[REDACTED]'')]"
proof -
  have "(case derive_search_template_at body_env (Some two_entries) 1 of Inl _ \<Rightarrow> False
      | Inr t \<Rightarrow> validate_template t = None \<and> st_query_state t = Some [(''token'', JString ''[REDACTED]'')])" by code_simp
  then obtain t where t: "derive_search_template_at body_env (Some two_entries) 1 = Inr t" "validate_template t = None"
    "st_query_state t = Some [(''token'', JString ''[REDACTED]'')]"
    by (auto split: sum.splits)
  from template_is_profile [OF t(2)] t show ?thesis by blast
qed

end
