(* ===== verification/Detail_Filters.thy ===== *)
theory Detail_Filters
  imports Rental_Page
begin

text \<open>
  The detail filters of a search (\<open>internal/cli/search_details.go\<close>): their options, the filter before
  and after enrichment, and how the facts of a property page are merged into a listing.

  A pointer to a date is an option; \<open>today\<close> is the time the command started. The body of a filter loop
  is a list of checks: each returns the listing, possibly marked, or \<open>None\<close> for \<open>continue\<close>.
\<close>

section \<open>Options\<close>

record detail_options =
  dt_enrich :: bool
  dt_verify_recency :: bool
  dt_workers :: int
  dt_delay :: int
  dt_min_sqft :: int
  dt_max_days :: int
  dt_available_from :: "date_time option"
  dt_available_by :: "date_time option"
  dt_unknown_availability :: string
  dt_out_of_window :: string
  dt_max_total_cost :: int
  dt_require_for_rent :: bool
  dt_exclude_shared :: bool
  dt_exclude_student :: bool
  dt_exclude_income :: bool
  dt_laundry :: string
  dt_parking :: string
  dt_pets :: string
  dt_flex :: "string list"
  dt_unknown_laundry :: string

definition requires_amenity_details :: "detail_options \<Rightarrow> bool" where
  "requires_amenity_details o1 \<longleftrightarrow>
     dt_max_total_cost o1 > 0 \<or> dt_laundry o1 \<noteq> ''any'' \<or> dt_parking o1 \<noteq> ''any'' \<or> dt_pets o1 \<noteq> ''any''
     \<or> dt_flex o1 \<noteq> [] \<or> dt_require_for_rent o1 \<or> dt_exclude_shared o1 \<or> dt_exclude_student o1 \<or> dt_exclude_income o1"

definition needs_enrichment :: "detail_options \<Rightarrow> bool" where
  "needs_enrichment o1 \<longleftrightarrow> dt_enrich o1 \<or> dt_verify_recency o1 \<or> requires_amenity_details o1"

definition has_advanced_filters :: "detail_options \<Rightarrow> bool" where
  "has_advanced_filters o1 \<longleftrightarrow>
     dt_min_sqft o1 > 0 \<or> dt_max_days o1 \<ge> 0 \<or> dt_available_from o1 \<noteq> None \<or> dt_available_by o1 \<noteq> None
     \<or> dt_max_total_cost o1 > 0 \<or> dt_require_for_rent o1 \<or> dt_exclude_shared o1 \<or> dt_exclude_student o1
     \<or> dt_exclude_income o1 \<or> dt_laundry o1 \<noteq> ''any'' \<or> dt_parking o1 \<noteq> ''any'' \<or> dt_pets o1 \<noteq> ''any'' \<or> dt_flex o1 \<noteq> []"

definition after_date :: "date_time \<Rightarrow> date_time \<Rightarrow> bool" where
  "after_date a b \<longleftrightarrow> dt_instant a > dt_instant b"

definition laundry_choices :: "string list" where
  "laundry_choices = [''any'', ''in-unit'', ''hookups'', ''shared'', ''none'', ''unknown'']"

definition parking_choices :: "string list" where
  "parking_choices = [''any'', ''available'', ''garage'', ''private-garage'', ''none'', ''unknown'']"

definition pets_choices :: "string list" where
  "pets_choices = [''any'', ''allowed'', ''dogs'', ''cats'', ''none'', ''unknown'']"

definition flex_choices :: "string list" where
  "flex_choices = [''den'', ''office'', ''bonus'', ''loft'', ''flex'', ''private-garage'']"

definition validate_detail_options :: "detail_options \<Rightarrow> string option" where
  "validate_detail_options o1 =
     (if dt_workers o1 < 1 \<or> dt_workers o1 > 8 then Some ''detail-workers must be between 1 and 8''
      else if dt_delay o1 < 0 then Some ''detail-delay must not be negative''
      else if dt_min_sqft o1 < 0 then Some ''min-sqft must not be negative''
      else if dt_max_days o1 < - 1 then Some ''max-days-on-zillow must be -1 or non-negative''
      else if (case (dt_available_from o1, dt_available_by o1) of (Some a, Some b) \<Rightarrow> after_date a b | _ \<Rightarrow> False)
      then Some ''available-from must not be after available-by''
      else if dt_max_total_cost o1 < 0 then Some ''max-total-cost must not be negative''
      else if dt_unknown_availability o1 \<notin> set [[], ''exclude'', ''watchlist'']
      then Some (''unknown-availability value '' @ quote (dt_unknown_availability o1) @ '' is invalid (want exclude or watchlist)'')
      else if dt_out_of_window o1 \<notin> set [[], ''exclude'', ''watchlist'']
      then Some (''out-of-window-availability value '' @ quote (dt_out_of_window o1) @ '' is invalid (want exclude or watchlist)'')
      else if dt_laundry o1 \<notin> set laundry_choices
      then Some (''unknown laundry value '' @ quote (dt_laundry o1) @ '' (want any, in-unit, hookups, shared, none, or unknown)'')
      else if dt_parking o1 \<notin> set parking_choices
      then Some (''unknown parking value '' @ quote (dt_parking o1) @ '' (want any, available, garage, private-garage, none, or unknown)'')
      else if dt_pets o1 \<notin> set pets_choices
      then Some (''unknown pets value '' @ quote (dt_pets o1) @ '' (want any, allowed, dogs, cats, none, or unknown)'')
      else if dt_unknown_laundry o1 \<notin> set [''exclude'', ''watchlist'']
      then Some (''unknown-laundry value '' @ quote (dt_unknown_laundry o1) @ '' is invalid (want exclude or watchlist)'')
      else if dt_unknown_laundry o1 = ''watchlist'' \<and> dt_laundry o1 = ''any''
      then Some ''unknown-laundry=watchlist requires a --laundry filter''
      else map_option (\<lambda>v. ''unknown flex value '' @ quote v @ '' (want den, office, bonus, loft, flex, or private-garage)'')
             (find (\<lambda>v. v \<notin> set flex_choices) (dt_flex o1)))"

definition normalize_detail_choice :: "string \<Rightarrow> string" where
  "normalize_detail_choice v = to_lower (trim_space v)"

definition parse_date_flag :: "string \<Rightarrow> string + date_time option" where
  "parse_date_flag v0 =
     (let v = trim_space v0 in
      if v = [] then Inr None
      else case parse_iso_date v of None \<Rightarrow> Inl ''must use YYYY-MM-DD'' | Some t \<Rightarrow> Inr (Some t))"

fun add_flex_parts :: "string list \<Rightarrow> string list \<Rightarrow> string + string list" where
  "add_flex_parts found [] = Inr found"
| "add_flex_parts found (part0 # parts) =
     (let part = normalize_detail_choice part0 in
      if part = [] then Inl ''contains an empty comma-separated value''
      else add_flex_parts (if part \<in> set found then found else found @ [part]) parts)"

definition parse_flex_values :: "string list \<Rightarrow> string + string list" where
  "parse_flex_values vs = add_flex_parts [] (concat (map (split_byte CHR '','') vs))"

section \<open>Dates and choices\<close>

definition date_only :: "date_time \<Rightarrow> date_time" where
  "date_only t = utc_day (local_day t)"

definition listing_availability_date :: "string \<Rightarrow> date_time \<Rightarrow> date_time option" where
  "listing_availability_date v0 today =
     (let v = trim_space v0 in
      if v = [] then None
      else if to_lower v \<in> set [''available now'', ''now'', ''immediately'', ''immediate''] then Some (date_only today)
      else map_option date_only (first_parse [parse_iso_date, parse_iso_clock, parse_rfc3339,
             parse_short_month_date, parse_long_month_date] v))"

definition out_of_window :: "detail_options \<Rightarrow> date_time \<Rightarrow> bool" where
  "out_of_window o1 available \<longleftrightarrow>
     (case dt_available_from o1 of None \<Rightarrow> False | Some a \<Rightarrow> after_date a available)
     \<or> (case dt_available_by o1 of None \<Rightarrow> False | Some b \<Rightarrow> after_date available b)"

definition is_for_rent_status :: "string \<Rightarrow> bool" where
  "is_for_rent_status v \<longleftrightarrow>
     (let s = to_upper (trim_space v) in s = ''FOR_RENT'' \<or> s = ''FOR RENT'' \<or> has_prefix s ''FOR_RENT_'')"

text \<open>The scan of the flex spaces stops at the first real one.\<close>

fun garage_only :: "bool \<Rightarrow> string list \<Rightarrow> bool" where
  "garage_only has_garage [] = has_garage"
| "garage_only has_garage (v # vs) =
     (let s = normalize_detail_choice v in
      if s = ''private-garage'' then garage_only True vs
      else if s \<in> set [''den'', ''office'', ''bonus'', ''loft'', ''flex''] then False
      else garage_only has_garage vs)"

definition is_two_bed_private_garage_only :: "listing \<Rightarrow> bool" where
  "is_two_bed_private_garage_only l \<longleftrightarrow> li_bedrooms l = Some 2 \<and> garage_only False (li_flex_spaces l)"

definition or_unknown :: "string \<Rightarrow> string" where
  "or_unknown v = (let s = normalize_detail_choice v in if s = [] then ''unknown'' else s)"

definition parking_matches :: "string \<Rightarrow> string \<Rightarrow> bool" where
  "parking_matches wanted v0 \<longleftrightarrow>
     wanted = ''any'' \<or>
     (let v = or_unknown v0 in
      if wanted = ''available'' then v \<in> set [''available'', ''garage'', ''private-garage'']
      else if wanted = ''garage'' then v \<in> set [''garage'', ''private-garage'']
      else v = wanted)"

definition pets_match :: "string \<Rightarrow> string \<Rightarrow> string list \<Rightarrow> bool" where
  "pets_match wanted policy0 allowed_pets \<longleftrightarrow>
     wanted = ''any'' \<or>
     (let policy = or_unknown policy0 in
      if wanted = ''allowed'' then policy \<in> set [''allowed'', ''restricted'']
      else if wanted = ''none'' then policy = ''not-allowed''
      else if wanted = ''unknown'' then policy = ''unknown''
      else if wanted = ''dogs'' \<or> wanted = ''cats'' then
        policy \<in> set [''allowed'', ''restricted'']
        \<and> (let text = to_lower (join '' '' allowed_pets) in
           contains text (trim_suffix wanted ''s'') \<or> contains text ''pets allowed'' \<or> contains text ''all pets'')
      else False)"

definition has_any_value :: "string list \<Rightarrow> string list \<Rightarrow> bool" where
  "has_any_value vs wanted \<longleftrightarrow>
     list_ex (\<lambda>v. normalize_detail_choice v \<in> set (map normalize_detail_choice vs)) wanted"

section \<open>The filters\<close>

definition mark_listing_watchlist :: "string \<Rightarrow> listing \<Rightarrow> listing" where
  "mark_listing_watchlist reason l =
     (let l1 = l\<lparr>li_match_status := ''watchlist''\<rparr> in
      if reason \<in> set (li_match_reasons l) then l1 else l1\<lparr>li_match_reasons := li_match_reasons l @ [reason]\<rparr>)"

definition excluded_housing :: "detail_options \<Rightarrow> listing \<Rightarrow> bool" where
  "excluded_housing o1 l \<longleftrightarrow>
     dt_exclude_shared o1 \<and> li_shared_housing l \<or> dt_exclude_student o1 \<and> li_student_housing l
     \<or> dt_exclude_income o1 \<and> li_income_restricted l"

definition too_old :: "detail_options \<Rightarrow> listing \<Rightarrow> bool" where
  "too_old o1 l \<longleftrightarrow> (case li_days_on_zillow l of None \<Rightarrow> False | Some d \<Rightarrow> d > dt_max_days o1)"

text \<open>The listings the search results already rule out; a building is judged by its units later.\<close>

definition prefilter_keeps :: "detail_options \<Rightarrow> date_time \<Rightarrow> listing \<Rightarrow> bool" where
  "prefilter_keeps o1 today l \<longleftrightarrow>
     li_is_building l \<or>
     \<not> (dt_min_sqft o1 > 0 \<and> (case li_living_area l of None \<Rightarrow> False | Some a \<Rightarrow> a < dt_min_sqft o1))
     \<and> \<not> (\<not> dt_verify_recency o1 \<and> dt_max_days o1 \<ge> 0 \<and> too_old o1 l)
     \<and> \<not> ((dt_available_from o1 \<noteq> None \<or> dt_available_by o1 \<noteq> None) \<and>
          (case listing_availability_date (li_availability l) today of
             None \<Rightarrow> False
           | Some available \<Rightarrow> dt_out_of_window o1 = ''exclude'' \<and> out_of_window o1 available))
     \<and> \<not> (dt_max_total_cost o1 > 0 \<and> (case li_total_cost l of None \<Rightarrow> False | Some c \<Rightarrow> c > dt_max_total_cost o1))
     \<and> \<not> (dt_require_for_rent o1 \<and> trim_space (li_status l) \<noteq> [] \<and> \<not> is_for_rent_status (li_status l))
     \<and> \<not> excluded_housing o1 l"

definition prefilter_known_listing_metadata :: "listing list \<Rightarrow> detail_options \<Rightarrow> date_time \<Rightarrow> listing list" where
  "prefilter_known_listing_metadata ls o1 today = filter (prefilter_keeps o1 today) ls"

definition prepare_listings_for_detail_enrichment ::
  "listing list \<Rightarrow> detail_options \<Rightarrow> date_time \<Rightarrow> (listing list \<Rightarrow> listing list) option \<Rightarrow> listing list" where
  "prepare_listings_for_detail_enrichment ls o1 today sort_and_limit =
     (if requires_amenity_details o1 then prefilter_known_listing_metadata ls o1 today
      else if dt_verify_recency o1 then ls
      else case sort_and_limit of None \<Rightarrow> ls | Some f \<Rightarrow> f ls)"

definition check_housing :: "detail_options \<Rightarrow> listing \<Rightarrow> listing option" where
  "check_housing o1 l = (if excluded_housing o1 l then None else Some l)"

definition check_sqft :: "detail_options \<Rightarrow> listing \<Rightarrow> listing option" where
  "check_sqft o1 l =
     (if dt_min_sqft o1 > 0 \<and> (case li_living_area l of None \<Rightarrow> True | Some a \<Rightarrow> a < dt_min_sqft o1) then None else Some l)"

definition check_availability :: "detail_options \<Rightarrow> date_time \<Rightarrow> listing \<Rightarrow> listing option" where
  "check_availability o1 today l =
     (if dt_available_from o1 = None \<and> dt_available_by o1 = None then Some l
      else case listing_availability_date (li_availability l) today of
             None \<Rightarrow>
               if dt_unknown_availability o1 = ''watchlist''
               then Some (mark_listing_watchlist ''availability needs verification'' l) else None
           | Some available \<Rightarrow>
               if \<not> out_of_window o1 available then Some l
               else if dt_out_of_window o1 = ''watchlist''
               then Some (mark_listing_watchlist ''availability is outside the target window'' l) else None)"

definition check_total_cost :: "detail_options \<Rightarrow> listing \<Rightarrow> listing option" where
  "check_total_cost o1 l =
     (if dt_max_total_cost o1 > 0 then
        (case li_total_cost l of
           None \<Rightarrow> Some (mark_listing_watchlist ''total monthly cost needs verification'' l)
         | Some c \<Rightarrow> if c > dt_max_total_cost o1 then None else Some l)
      else Some l)"

definition check_for_rent :: "detail_options \<Rightarrow> listing \<Rightarrow> listing option" where
  "check_for_rent o1 l =
     (if dt_require_for_rent o1 then
        (if trim_space (li_status l) = [] then Some (mark_listing_watchlist ''current rental status needs verification'' l)
         else if \<not> is_for_rent_status (li_status l) then None else Some l)
      else Some l)"

definition check_laundry :: "detail_options \<Rightarrow> listing \<Rightarrow> listing option" where
  "check_laundry o1 l =
     (let laundry = or_unknown (li_laundry l) in
      if dt_laundry o1 \<noteq> ''any'' \<and> laundry \<noteq> dt_laundry o1
      then (if laundry = ''unknown'' \<and> dt_unknown_laundry o1 = ''watchlist''
            then Some (l\<lparr>li_match_status := ''watchlist'', li_match_reasons := li_match_reasons l @ [''laundry details are unknown'']\<rparr>)
            else None)
      else Some l)"

definition check_amenities :: "detail_options \<Rightarrow> listing \<Rightarrow> listing option" where
  "check_amenities o1 l =
     (if \<not> parking_matches (dt_parking o1) (li_parking l) then None
      else if \<not> pets_match (dt_pets o1) (li_pet_policy l) (li_allowed_pets l) then None
      else if dt_flex o1 \<noteq> [] \<and> \<not> has_any_value (li_flex_spaces l) (dt_flex o1) then None
      else Some l)"

definition note_garage :: "listing \<Rightarrow> listing option" where
  "note_garage l =
     Some (if is_two_bed_private_garage_only l
           then mark_listing_watchlist ''private garage flex requires exclusive-use and inclusion verification'' l else l)"

fun run_checks :: "(listing \<Rightarrow> listing option) list \<Rightarrow> listing \<Rightarrow> listing option" where
  "run_checks [] l = Some l"
| "run_checks (c # cs) l = (case c l of None \<Rightarrow> None | Some l1 \<Rightarrow> run_checks cs l1)"

definition detail_checks :: "detail_options \<Rightarrow> date_time \<Rightarrow> (listing \<Rightarrow> listing option) list" where
  "detail_checks o1 today =
     [check_housing o1, check_sqft o1, check_availability o1 today, check_total_cost o1, check_for_rent o1,
      check_laundry o1, check_amenities o1, note_garage]"

definition filter_detailed_listing :: "detail_options \<Rightarrow> date_time \<Rightarrow> listing \<Rightarrow> listing option" where
  "filter_detailed_listing o1 today l =
     run_checks (detail_checks o1 today) (l\<lparr>li_match_status := ''match'', li_match_reasons := []\<rparr>)"

definition filter_detailed_before_recency :: "listing list \<Rightarrow> detail_options \<Rightarrow> date_time \<Rightarrow> listing list" where
  "filter_detailed_before_recency ls o1 today =
     (if \<not> has_advanced_filters o1 then ls else List.map_filter (filter_detailed_listing o1 today) ls)"

definition filter_listings_by_recency :: "listing list \<Rightarrow> detail_options \<Rightarrow> listing list" where
  "filter_listings_by_recency ls o1 =
     (if dt_max_days o1 < 0 then ls else filter (\<lambda>l. li_days_on_zillow l \<noteq> None \<and> \<not> too_old o1 l) ls)"

definition filter_detailed_listings :: "listing list \<Rightarrow> detail_options \<Rightarrow> date_time \<Rightarrow> listing list" where
  "filter_detailed_listings ls o1 today =
     filter_listings_by_recency (filter_detailed_before_recency ls o1 today) o1"

text \<open>The recency pass of the enricher, when there is one, comes between the two filters.\<close>

definition enrich_recency_after_detail_filters ::
  "(listing list \<Rightarrow> listing list) option \<Rightarrow> listing list \<Rightarrow> detail_options \<Rightarrow> date_time \<Rightarrow> listing list" where
  "enrich_recency_after_detail_filters enrich_recency ls o1 today =
     (let kept = filter_detailed_before_recency ls o1 today;
          dated = (case enrich_recency of
                     Some f \<Rightarrow> if dt_verify_recency o1 \<and> kept \<noteq> [] then f kept else kept
                   | None \<Rightarrow> kept)
      in filter_listings_by_recency dated o1)"

definition finalize_enriched_listings ::
  "(listing list \<Rightarrow> listing list) option \<Rightarrow> listing list \<Rightarrow> detail_options \<Rightarrow> date_time
   \<Rightarrow> (listing list \<Rightarrow> listing list) option \<Rightarrow> listing list" where
  "finalize_enriched_listings enrich_recency ls o1 today after_details =
     enrich_recency_after_detail_filters enrich_recency (case after_details of None \<Rightarrow> ls | Some f \<Rightarrow> f ls) o1 today"

section \<open>Merging the facts of a page\<close>

definition mark_details_unavailable :: "string \<Rightarrow> listing \<Rightarrow> listing" where
  "mark_details_unavailable detail l =
     l\<lparr>li_detail_status := ''unavailable'', li_detail_error := detail, li_laundry := ''unknown'',
       li_parking := ''unknown'', li_pet_policy := ''unknown''\<rparr>"

text \<open>The value of the page, when it has one.\<close>

definition newer :: "'a option \<Rightarrow> 'a option \<Rightarrow> 'a option" where
  "newer page old = (case page of None \<Rightarrow> old | Some v \<Rightarrow> Some v)"

definition newer_text :: "string \<Rightarrow> string \<Rightarrow> string" where
  "newer_text page old = (if page \<noteq> [] then page else old)"

definition merge_facts :: "zillow_property \<Rightarrow> listing \<Rightarrow> listing" where
  "merge_facts p l =
     l\<lparr>li_detail_status := ''enriched'', li_detail_error := [], li_year_built := pr_year_built p,
       li_description := pr_description p, li_laundry := pr_laundry p, li_laundry_features := pr_laundry_features p,
       li_parking := pr_parking p, li_parking_features := pr_parking_features p, li_pet_policy := pr_pet_policy p,
       li_allowed_pets := pr_allowed_pets p, li_flex_spaces := pr_flex_spaces p,
       li_required_fees := pr_required_fees p, li_total_cost := pr_total_cost p,
       li_price_includes_fees := pr_price_includes_fees p, li_verification_notes := pr_verification_notes p,
       li_shared_housing := pr_shared_housing p, li_student_housing := pr_student_housing p,
       li_income_restricted := pr_income_restricted p\<rparr>"

definition merge_property_details :: "zillow_property \<Rightarrow> listing \<Rightarrow> listing" where
  "merge_property_details p l =
     (merge_facts p l)
       \<lparr>li_price := newer (pr_price p) (li_price l), li_bedrooms := newer (pr_bedrooms p) (li_bedrooms l),
        li_bathrooms := newer (pr_bathrooms p) (li_bathrooms l),
        li_living_area := newer (pr_living_area p) (li_living_area l),
        li_days_on_zillow := newer (pr_days_on_zillow p) (li_days_on_zillow l),
        li_listed_date := newer_text (pr_listed_date p) (li_listed_date l),
        li_updated_date := newer_text (pr_updated_date p) (li_updated_date l),
        li_availability := (if trim_space (pr_availability p) \<noteq> [] then pr_availability p else li_availability l),
        li_home_type := newer_text (pr_home_type p) (li_home_type l),
        li_status := newer_text (pr_status p) (li_status l)\<rparr>"

text \<open>A unit of a community keeps neither the identity nor the recency of its building.\<close>

definition merge_community_property_details :: "zillow_property \<Rightarrow> listing \<Rightarrow> listing" where
  "merge_community_property_details p l0 =
     (let l = merge_property_details p (l0\<lparr>li_days_on_zillow := None, li_listed_date := [], li_updated_date := []\<rparr>)
      in l\<lparr>li_id := pr_id p, li_url := newer_text (pr_url p) (li_url l),
           li_address := (if ad_full (pr_address p) \<noteq> [] then pr_address p else li_address l),
           li_price := newer (pr_price p) (li_price l), li_bedrooms := newer (pr_bedrooms p) (li_bedrooms l),
           li_bathrooms := newer (pr_bathrooms p) (li_bathrooms l),
           li_living_area := newer (pr_living_area p) (li_living_area l),
           li_status := newer_text (pr_status p) (li_status l),
           li_home_type := newer_text (pr_home_type p) (li_home_type l),
           li_availability := newer_text (pr_availability p) (li_availability l),
           li_is_building := False\<rparr>)"

text \<open>The property of a page that is a listing's: by ID, by URL, or the only one.\<close>

fun matching_property :: "listing \<Rightarrow> zillow_property list \<Rightarrow> zillow_property option" where
  "matching_property l [] = None"
| "matching_property l (p # ps) =
     (if li_id l \<noteq> [] \<and> pr_id p = li_id l then Some p
      else if li_url l \<noteq> [] \<and> pr_url p = li_url l then Some p
      else matching_property l ps)"

definition rental_page_property_for_listing :: "rental_page option \<Rightarrow> listing \<Rightarrow> zillow_property option" where
  "rental_page_property_for_listing page l =
     (case page of
        None \<Rightarrow> None
      | Some pg \<Rightarrow>
          (case matching_property l (rp_properties pg) of
             Some p \<Rightarrow> Some p
           | None \<Rightarrow> (case rp_properties pg of [p] \<Rightarrow> Some p | _ \<Rightarrow> None)))"

end
