(* ===== verification/Detail_Filters_Props.thy ===== *)
theory Detail_Filters_Props
  imports Detail_Filters
begin

text \<open>
  The detail filters of a search against a three-valued reading of the options: a criterion accepts a
  listing, rejects it, or cannot tell and gives the reason. The checks mark the listing they pass on and
  read it again; the reading judges the original listing once per criterion.
\<close>

section \<open>Verdicts\<close>

datatype verdict = Accept | Reject | Unsure string

fun doubts :: "verdict list \<Rightarrow> string list" where
  "doubts [] = []"
| "doubts (Unsure r # vs) = r # doubts vs"
| "doubts (Accept # vs) = doubts vs"
| "doubts (Reject # vs) = doubts vs"

definition judged :: "string list \<Rightarrow> listing \<Rightarrow> listing" where
  "judged rs l = l\<lparr>li_match_status := (if rs = [] then ''match'' else ''watchlist''), li_match_reasons := rs\<rparr>"

definition size_verdict :: "detail_options \<Rightarrow> listing \<Rightarrow> verdict" where
  "size_verdict o1 l =
     (if dt_min_sqft o1 \<le> 0 then Accept
      else case li_living_area l of None \<Rightarrow> Reject | Some a \<Rightarrow> if a < dt_min_sqft o1 then Reject else Accept)"

definition date_verdict :: "detail_options \<Rightarrow> date_time \<Rightarrow> listing \<Rightarrow> verdict" where
  "date_verdict o1 today l =
     (if dt_available_from o1 = None \<and> dt_available_by o1 = None then Accept
      else case listing_availability_date (li_availability l) today of
             None \<Rightarrow> if dt_unknown_availability o1 = ''watchlist'' then Unsure ''availability needs verification'' else Reject
           | Some d \<Rightarrow> if \<not> out_of_window o1 d then Accept
                       else if dt_out_of_window o1 = ''watchlist''
                       then Unsure ''availability is outside the target window'' else Reject)"

definition cost_verdict :: "detail_options \<Rightarrow> listing \<Rightarrow> verdict" where
  "cost_verdict o1 l =
     (if dt_max_total_cost o1 \<le> 0 then Accept
      else case li_total_cost l of None \<Rightarrow> Unsure ''total monthly cost needs verification''
           | Some c \<Rightarrow> if c \<le> dt_max_total_cost o1 then Accept else Reject)"

definition rent_verdict :: "detail_options \<Rightarrow> listing \<Rightarrow> verdict" where
  "rent_verdict o1 l =
     (if \<not> dt_require_for_rent o1 then Accept
      else if trim_space (li_status l) = [] then Unsure ''current rental status needs verification''
      else if is_for_rent_status (li_status l) then Accept else Reject)"

definition laundry_verdict :: "detail_options \<Rightarrow> listing \<Rightarrow> verdict" where
  "laundry_verdict o1 l =
     (if dt_laundry o1 = ''any'' \<or> or_unknown (li_laundry l) = dt_laundry o1 then Accept
      else if or_unknown (li_laundry l) = ''unknown'' \<and> dt_unknown_laundry o1 = ''watchlist''
      then Unsure ''laundry details are unknown'' else Reject)"

definition amenity_verdict :: "detail_options \<Rightarrow> listing \<Rightarrow> verdict" where
  "amenity_verdict o1 l =
     (if parking_matches (dt_parking o1) (li_parking l) \<and> pets_match (dt_pets o1) (li_pet_policy l) (li_allowed_pets l)
         \<and> (dt_flex o1 = [] \<or> has_any_value (li_flex_spaces l) (dt_flex o1)) then Accept else Reject)"

definition garage_verdict :: "listing \<Rightarrow> verdict" where
  "garage_verdict l =
     (if is_two_bed_private_garage_only l
      then Unsure ''private garage flex requires exclusive-use and inclusion verification'' else Accept)"

definition verdicts :: "detail_options \<Rightarrow> date_time \<Rightarrow> listing \<Rightarrow> verdict list" where
  "verdicts o1 today l =
     [if excluded_housing o1 l then Reject else Accept, size_verdict o1 l, date_verdict o1 today l, cost_verdict o1 l,
      rent_verdict o1 l, laundry_verdict o1 l, amenity_verdict o1 l, garage_verdict l]"

definition rule_on :: "string list \<Rightarrow> listing \<Rightarrow> verdict \<Rightarrow> listing option" where
  "rule_on rs l v =
     (case v of Accept \<Rightarrow> Some (judged rs l) | Reject \<Rightarrow> None | Unsure r \<Rightarrow> Some (judged (rs @ [r]) l))"

text \<open>A check carries out a verdict on a listing that has not been given the verdict's reason yet.\<close>

definition carries_out :: "listing \<Rightarrow> (listing \<Rightarrow> listing option) \<Rightarrow> verdict \<Rightarrow> bool" where
  "carries_out l check v \<longleftrightarrow>
     (\<forall>rs. (\<forall>r. v = Unsure r \<longrightarrow> r \<notin> set rs) \<longrightarrow> check (judged rs l) = rule_on rs l v)"

lemma judged_fields [simp]:
  "li_living_area (judged rs l) = li_living_area l" "li_availability (judged rs l) = li_availability l"
  "li_total_cost (judged rs l) = li_total_cost l" "li_status (judged rs l) = li_status l"
  "li_laundry (judged rs l) = li_laundry l" "li_parking (judged rs l) = li_parking l"
  "li_pet_policy (judged rs l) = li_pet_policy l" "li_allowed_pets (judged rs l) = li_allowed_pets l"
  "li_flex_spaces (judged rs l) = li_flex_spaces l" "li_bedrooms (judged rs l) = li_bedrooms l"
  "li_days_on_zillow (judged rs l) = li_days_on_zillow l" "li_shared_housing (judged rs l) = li_shared_housing l"
  "li_student_housing (judged rs l) = li_student_housing l" "li_income_restricted (judged rs l) = li_income_restricted l"
  "li_is_building (judged rs l) = li_is_building l"
  "li_match_reasons (judged rs l) = rs"
  by (simp_all add: judged_def)

lemma mark_judged: "r \<notin> set rs \<Longrightarrow> mark_listing_watchlist r (judged rs l) = judged (rs @ [r]) l"
  by (simp add: mark_listing_watchlist_def judged_def)

lemma carries_out_all:
  assumes "list_all2 (carries_out l) checks vs" "distinct (rs @ doubts vs)"
  shows "run_checks checks (judged rs l) = (if Reject \<in> set vs then None else Some (judged (rs @ doubts vs) l))"
  using assms
proof (induction checks vs arbitrary: rs rule: list_all2_induct)
  case Nil
  then show ?case by simp
next
  case (Cons check checks v vs)
  have step: "check (judged rs l) = rule_on rs l v"
    using Cons.hyps(1) Cons.prems by (auto simp: carries_out_def)
  show ?case
  proof (cases v)
    case Accept
    then show ?thesis using step Cons.IH [of rs] Cons.prems by (simp add: rule_on_def)
  next
    case Reject
    then show ?thesis using step by (simp add: rule_on_def)
  next
    case (Unsure r)
    then show ?thesis using step Cons.IH [of "rs @ [r]"] Cons.prems by (simp add: rule_on_def)
  qed
qed

lemma check_verdicts:
  "carries_out l (check_housing o1) (if excluded_housing o1 l then Reject else Accept)"
  "carries_out l (check_sqft o1) (size_verdict o1 l)"
  "carries_out l (check_availability o1 today) (date_verdict o1 today l)"
  "carries_out l (check_total_cost o1) (cost_verdict o1 l)"
  "carries_out l (check_for_rent o1) (rent_verdict o1 l)"
  "carries_out l (check_amenities o1) (amenity_verdict o1 l)"
  "carries_out l note_garage (garage_verdict l)"
        apply (simp add: carries_out_def check_housing_def excluded_housing_def rule_on_def)
       apply (auto simp: carries_out_def check_sqft_def size_verdict_def rule_on_def split: option.splits)[1]
      apply (auto simp: carries_out_def check_availability_def date_verdict_def rule_on_def mark_judged
               split: option.splits if_splits)[1]
     apply (auto simp: carries_out_def check_total_cost_def cost_verdict_def rule_on_def mark_judged
              split: option.splits)[1]
    apply (auto simp: carries_out_def check_for_rent_def rent_verdict_def rule_on_def mark_judged)[1]
   apply (auto simp: carries_out_def check_amenities_def amenity_verdict_def rule_on_def)[1]
  apply (auto simp: carries_out_def note_garage_def garage_verdict_def rule_on_def mark_judged
           is_two_bed_private_garage_only_def)[1]
  done

lemma laundry_carries_out: "carries_out l (check_laundry o1) (laundry_verdict o1 l)"
  by (simp add: carries_out_def check_laundry_def laundry_verdict_def rule_on_def judged_def Let_def)

lemma checks_carry_out: "list_all2 (carries_out l) (detail_checks o1 today) (verdicts o1 today l)"
  by (simp add: detail_checks_def verdicts_def check_verdicts laundry_carries_out)

fun unsure_within :: "string list \<Rightarrow> verdict \<Rightarrow> bool" where
  "unsure_within rs (Unsure r) \<longleftrightarrow> r \<in> set rs"
| "unsure_within rs Accept \<longleftrightarrow> True"
| "unsure_within rs Reject \<longleftrightarrow> True"

lemma doubts_within:
  assumes "list_all2 unsure_within rss vs" shows "set (doubts vs) \<subseteq> set (concat rss)"
  using assms
proof (induction rss vs rule: list_all2_induct)
  case (Cons rs rss v vs)
  then show ?case by (cases v) auto
qed simp

lemma doubts_distinct_within:
  assumes "list_all2 unsure_within rss vs" "distinct (concat rss)" shows "distinct (doubts vs)"
  using assms
proof (induction rss vs rule: list_all2_induct)
  case (Cons rs rss v vs)
  then show ?case using doubts_within [of rss vs] by (cases v) auto
qed simp

text \<open>Each criterion has reasons of its own, so no two verdicts give the same.\<close>

lemma verdict_reasons:
  "unsure_within rs (if excluded_housing o1 l then Reject else Accept)"
  "unsure_within rs (size_verdict o1 l)"
  "unsure_within [''availability needs verification'', ''availability is outside the target window'']
     (date_verdict o1 today l)"
  "unsure_within [''total monthly cost needs verification''] (cost_verdict o1 l)"
  "unsure_within [''current rental status needs verification''] (rent_verdict o1 l)"
  "unsure_within [''laundry details are unknown''] (laundry_verdict o1 l)"
  "unsure_within rs (amenity_verdict o1 l)"
  "unsure_within [''private garage flex requires exclusive-use and inclusion verification''] (garage_verdict l)"
         apply simp
        apply (simp add: size_verdict_def split: option.split)
       apply (simp add: date_verdict_def split: option.split)
      apply (simp add: cost_verdict_def split: option.split)
     apply (simp add: rent_verdict_def)
    apply (simp add: laundry_verdict_def)
   apply (simp add: amenity_verdict_def)
  apply (simp add: garage_verdict_def)
  done

lemma doubts_distinct: "distinct (doubts (verdicts o1 today l))"
proof (rule doubts_distinct_within)
  show "list_all2 unsure_within
          [[], [], [''availability needs verification'', ''availability is outside the target window''],
           [''total monthly cost needs verification''], [''current rental status needs verification''],
           [''laundry details are unknown''], [],
           [''private garage flex requires exclusive-use and inclusion verification'']] (verdicts o1 today l)"
    unfolding verdicts_def by (intro list_all2_Cons [THEN iffD2] conjI verdict_reasons list_all2_Nil [THEN iffD2] refl)
qed simp

lemma filter_by_verdicts:
  "filter_detailed_listing o1 today l =
     (let vs = verdicts o1 today l in if Reject \<in> set vs then None else Some (judged (doubts vs) l))"
  using carries_out_all [OF checks_carry_out [of l o1 today], of "[]"] doubts_distinct [of o1 today l]
  by (simp add: filter_detailed_listing_def judged_def Let_def)

section \<open>The filters\<close>

text \<open>C24: The detail filter of one listing is a three-valued reading of its options. Each criterion is judged
  once on the listing as it came; the listing is dropped exactly when some criterion rejects it, and otherwise
  its status is "watchlist" exactly when some criterion could not tell, with the reasons in the order of the
  criteria, whatever status and reasons the listing carried before.\<close>

theorem filter_three_valued:
  "filter_detailed_listing o1 today l =
     (let vs = verdicts o1 today l in
      if Reject \<in> set vs then None
      else Some (l\<lparr>li_match_status := (if doubts vs = [] then ''match'' else ''watchlist''),
                  li_match_reasons := doubts vs\<rparr>))"
  by (simp add: filter_by_verdicts judged_def Let_def)

lemma listing_rejected:
  assumes "\<not> prefilter_keeps o1 today l"
  shows "Reject \<in> set (verdicts o1 today l) \<or> (dt_max_days o1 \<ge> 0 \<and> too_old o1 l)"
proof -
  consider "excluded_housing o1 l"
    | "dt_min_sqft o1 > 0 \<and> (case li_living_area l of None \<Rightarrow> False | Some a \<Rightarrow> a < dt_min_sqft o1)"
    | "dt_max_days o1 \<ge> 0 \<and> too_old o1 l"
    | "(dt_available_from o1 \<noteq> None \<or> dt_available_by o1 \<noteq> None) \<and>
       (case listing_availability_date (li_availability l) today of
          None \<Rightarrow> False | Some d \<Rightarrow> dt_out_of_window o1 = ''exclude'' \<and> out_of_window o1 d)"
    | "dt_max_total_cost o1 > 0 \<and> (case li_total_cost l of None \<Rightarrow> False | Some c \<Rightarrow> c > dt_max_total_cost o1)"
    | "dt_require_for_rent o1 \<and> trim_space (li_status l) \<noteq> [] \<and> \<not> is_for_rent_status (li_status l)"
    using assms unfolding prefilter_keeps_def by blast
  then show ?thesis
  proof cases
    case 2
    then have "size_verdict o1 l = Reject" by (simp add: size_verdict_def split: option.splits)
    then show ?thesis by (simp add: verdicts_def)
  next
    case 4
    then have "date_verdict o1 today l = Reject" by (auto simp: date_verdict_def split: option.splits)
    then show ?thesis by (simp add: verdicts_def)
  next
    case 5
    then have "cost_verdict o1 l = Reject" by (simp add: cost_verdict_def split: option.splits)
    then show ?thesis by (simp add: verdicts_def)
  next
    case 6
    then have "rent_verdict o1 l = Reject" by (simp add: rent_verdict_def)
    then show ?thesis by (simp add: verdicts_def)
  qed (simp_all add: verdicts_def)
qed

lemma no_filters_keep_all: "\<not> has_advanced_filters o1 \<Longrightarrow> prefilter_keeps o1 today l"
  by (auto simp: has_advanced_filters_def prefilter_keeps_def excluded_housing_def)

definition detail_kept :: "detail_options \<Rightarrow> date_time \<Rightarrow> listing \<Rightarrow> listing option" where
  "detail_kept o1 today l =
     (if has_advanced_filters o1 \<and> Reject \<in> set (verdicts o1 today l) then None
      else if dt_max_days o1 \<ge> 0 \<and> (li_days_on_zillow l = None \<or> too_old o1 l) then None
      else Some (if has_advanced_filters o1 then judged (doubts (verdicts o1 today l)) l else l))"

lemma too_old_judged [simp]: "too_old o1 (judged rs l) = too_old o1 l"
  by (simp add: too_old_def)

lemma filters_listingwise: "filter_detailed_listings ls o1 today = List.map_filter (detail_kept o1 today) ls"
proof (induction ls)
  case Nil
  then show ?case
    by (simp add: filter_detailed_listings_def filter_listings_by_recency_def filter_detailed_before_recency_def
          map_filter_simps)
next
  case (Cons l ls)
  then show ?case
    by (auto simp: filter_detailed_listings_def filter_listings_by_recency_def filter_detailed_before_recency_def
          map_filter_simps detail_kept_def filter_by_verdicts Let_def)
qed

lemma prefiltered_not_kept: "\<not> prefilter_keeps o1 today l \<Longrightarrow> detail_kept o1 today l = None"
  using listing_rejected [of o1 today l] no_filters_keep_all [of o1 today l] by (auto simp: detail_kept_def)

lemma map_filter_of_filter:
  assumes "\<And>x. \<not> P x \<Longrightarrow> f x = None" shows "List.map_filter f (filter P xs) = List.map_filter f xs"
  by (induction xs) (auto simp: map_filter_simps assms split: option.splits)

text \<open>C25: The filter that runs on the search results before any page is fetched throws away no listing the
  filter after it would have kept with the same facts: filtering the prefiltered listings and filtering all of
  them give the same list, in the same order and with the same marks, for all options.\<close>

theorem prefilter_loses_nothing:
  "filter_detailed_listings (prefilter_known_listing_metadata ls o1 today) o1 today = filter_detailed_listings ls o1 today"
  by (simp add: filters_listingwise prefilter_known_listing_metadata_def map_filter_of_filter prefiltered_not_kept)

section \<open>Options\<close>

text \<open>The validation of the detail options accepts exactly the well-formed ones: one to eight workers, no
  negative delay, size or cost, an age limit of at least -1, a window of dates that does not end before it
  begins, every choice one of the words its flag documents, unknown laundry kept for the watchlist only when a
  laundry is asked for, and every flex space a known one.\<close>

theorem valid_options_exact:
  "validate_detail_options o1 = None \<longleftrightarrow>
     dt_workers o1 \<in> {1..8} \<and> dt_delay o1 \<ge> 0 \<and> dt_min_sqft o1 \<ge> 0 \<and> dt_max_days o1 \<ge> - 1
     \<and> (case (dt_available_from o1, dt_available_by o1) of (Some a, Some b) \<Rightarrow> dt_instant a \<le> dt_instant b | _ \<Rightarrow> True)
     \<and> dt_max_total_cost o1 \<ge> 0
     \<and> dt_unknown_availability o1 \<in> {[], ''exclude'', ''watchlist''} \<and> dt_out_of_window o1 \<in> {[], ''exclude'', ''watchlist''}
     \<and> dt_laundry o1 \<in> set laundry_choices \<and> dt_parking o1 \<in> set parking_choices \<and> dt_pets o1 \<in> set pets_choices
     \<and> (dt_unknown_laundry o1 = ''exclude'' \<or> dt_unknown_laundry o1 = ''watchlist'' \<and> dt_laundry o1 \<noteq> ''any'')
     \<and> set (dt_flex o1) \<subseteq> set flex_choices"
proof -
  have flex: "find (\<lambda>v. v \<notin> set flex_choices) vs = None \<longleftrightarrow> set vs \<subseteq> set flex_choices" for vs
    by (auto simp: find_None_iff)
  have window: "\<not> (case (a, b) of (Some x, Some y) \<Rightarrow> after_date x y | _ \<Rightarrow> False) \<longleftrightarrow>
      (case (a, b) of (Some x, Some y) \<Rightarrow> dt_instant x \<le> dt_instant y | _ \<Rightarrow> True)" for a b
    by (auto simp: after_date_def split: option.split)
  have if_none: "(if c then Some e else r) = None \<longleftrightarrow> \<not> c \<and> r = None" for c and e :: string and r by simp
  have known: "u \<in> {''exclude'', ''watchlist''} \<and> \<not> (u = ''watchlist'' \<and> n) \<and> rest \<longleftrightarrow>
      (u = ''exclude'' \<or> u = ''watchlist'' \<and> \<not> n) \<and> rest" for u n rest
    by (cases "u = ''exclude''"; cases "u = ''watchlist''") simp_all
  have workers: "\<not> (w < 1 \<or> w > 8) \<longleftrightarrow> w \<in> {1..8}" for w :: int by auto
  show ?thesis
    unfolding validate_detail_options_def if_none option.map_disc_iff flex window workers not_not not_less list.set known ..
qed

text \<open>The values that first occur, in order.\<close>

definition first_occurrences :: "'a list \<Rightarrow> 'a list" where
  "first_occurrences xs = rev (remdups (rev xs))"

lemma first_occurrences_snoc:
  "first_occurrences (xs @ [x]) = (if x \<in> set xs then first_occurrences xs else first_occurrences xs @ [x])"
  by (simp add: first_occurrences_def)

lemma set_first_occurrences [simp]: "set (first_occurrences xs) = set xs"
  by (simp add: first_occurrences_def)

lemma add_flex_parts_spec:
  "add_flex_parts (first_occurrences done1) parts =
     (if [] \<in> set (map normalize_detail_choice parts) then Inl ''contains an empty comma-separated value''
      else Inr (first_occurrences (done1 @ map normalize_detail_choice parts)))"
proof (induction parts arbitrary: done1)
  case Nil
  then show ?case by simp
next
  case (Cons p ps)
  show ?case
    using Cons.IH [of "done1 @ [normalize_detail_choice p]"]
    by (auto simp: Let_def first_occurrences_snoc)
qed

text \<open>The values of the repeated flex flag are read as one list: every comma-separated part, lower-cased and
  trimmed, each kept where it first occurs; the flag is refused exactly when some part is empty.\<close>

theorem flex_values_deduplicated:
  "parse_flex_values vs =
     (let parts = map normalize_detail_choice (concat (map (split_byte CHR '','') vs)) in
      if [] \<in> set parts then Inl ''contains an empty comma-separated value'' else Inr (first_occurrences parts))"
  using add_flex_parts_spec [of "[]"] by (simp add: parse_flex_values_def first_occurrences_def Let_def)

section \<open>Merging\<close>

lemma newer_again [simp]: "newer p (newer p v) = newer p v" "newer_text s (newer_text s w) = newer_text s w"
  by (simp_all add: newer_def newer_text_def split: option.split)

lemma newer_none [simp]: "newer p None = p" "newer_text s [] = s"
  by (simp_all add: newer_def newer_text_def split: option.split)

lemma newer_availability [simp]: "newer_text s (if trim_space s \<noteq> [] then s else w) = newer_text s w"
  by (simp add: newer_text_def trim_space_def trim_left_def trim_right_def)

lemma newer_address [simp]: "(if ad_full a \<noteq> [] then a else if ad_full a \<noteq> [] then a else b) = (if ad_full a \<noteq> [] then a else b)"
  by simp

text \<open>A unit of a community takes the facts of its own page and nothing dated or identifying from its
  building: its ID, recency and dates are the page's even where the page has none, and it is no building.
  Merging the page again changes nothing.\<close>

theorem unit_takes_nothing_dated:
  "let u = merge_community_property_details p l in
     li_id u = pr_id p \<and> li_days_on_zillow u = pr_days_on_zillow p \<and> li_listed_date u = pr_listed_date p
     \<and> li_updated_date u = pr_updated_date p \<and> \<not> li_is_building u \<and> merge_community_property_details p u = u"
  by (simp add: merge_community_property_details_def merge_property_details_def merge_facts_def Let_def)

lemma matching_property_spec:
  "matching_property l ps =
     find (\<lambda>p. li_id l \<noteq> [] \<and> pr_id p = li_id l \<or> li_url l \<noteq> [] \<and> pr_url p = li_url l) ps"
  by (induction ps) auto

text \<open>The property a rental page holds for a listing is the first with the listing's ID or URL, never
  matched by an empty one; without such a property it is the page's only property, and otherwise there is none.\<close>

theorem page_property_exact:
  "rental_page_property_for_listing page l =
     (case page of None \<Rightarrow> None
      | Some pg \<Rightarrow>
          (case find (\<lambda>p. li_id l \<noteq> [] \<and> pr_id p = li_id l \<or> li_url l \<noteq> [] \<and> pr_url p = li_url l) (rp_properties pg) of
             Some p \<Rightarrow> Some p
           | None \<Rightarrow> if length (rp_properties pg) = 1 then Some (hd (rp_properties pg)) else None))"
  by (auto simp: rental_page_property_for_listing_def matching_property_spec length_Suc_conv split: option.splits list.splits)

end
