(* ===== verification/Disk_Cache.thy ===== *)
theory Disk_Cache
  imports Models Prelude "HOL-Library.Word"
begin

text \<open>
  The disk cache of the commands (\<open>internal/cli/disk_cache.go\<close>). The files are those of the cache
  directory, by name. \<open>encoding/json\<close>, SHA-256, the clock and what the operating system refuses are
  arguments. Saving is the sequence of its system calls, so that every file system on the way is visible.
\<close>

unbundle bit_operations_syntax

section \<open>Files and environment\<close>

record cache_file =
  cf_mode :: nat
  cf_data :: string

type_synonym file_system = "string \<Rightarrow> cache_file option"

record cache_entry =
  en_version :: int
  en_stored_at :: int
  en_key :: string
  en_value :: string

record 'v cache_env =
  ce_digest :: "string \<Rightarrow> string"
  ce_encode_value :: "'v \<Rightarrow> string + string"
  ce_decode_value :: "string \<Rightarrow> string + 'v"
  ce_encode_entry :: "cache_entry \<Rightarrow> string + string"
  ce_decode_entry :: "string \<Rightarrow> string + cache_entry"
  ce_windows :: bool
  ce_stat_error :: "string \<Rightarrow> string option"
  ce_read_error :: "string \<Rightarrow> string option"

record disk_cache =
  dc_dir :: string
  dc_ttl :: int

definition disk_cache_version :: int where "disk_cache_version = 1"

definition hex_text :: "string \<Rightarrow> string" where
  "hex_text bytes = concat (map (\<lambda>b. [hex_digit (byte b div 16), hex_digit (byte b)]) bytes)"

text \<open>The file name of a key in the cache directory.\<close>

definition cache_path :: "'v cache_env \<Rightarrow> string \<Rightarrow> string" where
  "cache_path env key = hex_text (ce_digest env key) @ ''.json''"

text \<open>\<open>a.Sub(b)\<close> saturates.\<close>

definition saturating_sub :: "int \<Rightarrow> int \<Rightarrow> int" where
  "saturating_sub a b = max (- (2 ^ 63)) (min (2 ^ 63 - 1) (a - b))"

definition clock_skew :: int where "clock_skew = 5 * 60 * 10 ^ 9"

definition octal_mode :: "nat \<Rightarrow> string" where
  "octal_mode m = map (\<lambda>i. hex_digit (m div 8 ^ i mod 8)) [3, 2, 1, 0]"

definition group_or_others :: "nat \<Rightarrow> bool" where
  "group_or_others mode \<longleftrightarrow> mode AND 63 \<noteq> 0"

section \<open>Loading\<close>

definition entry_usable :: "disk_cache \<Rightarrow> int \<Rightarrow> string \<Rightarrow> cache_entry \<Rightarrow> bool" where
  "entry_usable cache now key e \<longleftrightarrow>
     en_version e = disk_cache_version \<and> en_key e = key \<and> en_stored_at e \<noteq> 0
     \<and> \<not> (en_stored_at e > now + clock_skew \<or> saturating_sub now (en_stored_at e) > dc_ttl cache)"

definition load_file :: "'v cache_env \<Rightarrow> disk_cache \<Rightarrow> int \<Rightarrow> string \<Rightarrow> cache_file \<Rightarrow> string + 'v option" where
  "load_file env cache now key file =
     (if \<not> ce_windows env \<and> group_or_others (cf_mode file mod 512)
      then Inl (''cache entry permissions are too broad ('' @ octal_mode (cf_mode file mod 512) @ '')'')
      else case ce_read_error env (cache_path env key) of
             Some err \<Rightarrow> Inl (''read cache entry: '' @ err)
           | None \<Rightarrow>
               (case ce_decode_entry env (cf_data file) of
                  Inl err \<Rightarrow> Inl (''decode cache entry: '' @ err)
                | Inr e \<Rightarrow>
                    if \<not> entry_usable cache now key e then Inr None
                    else (case ce_decode_value env (en_value e) of
                            Inl err \<Rightarrow> Inl (''decode cached value: '' @ err)
                          | Inr v \<Rightarrow> Inr (Some v))))"

definition cache_load :: "'v cache_env \<Rightarrow> disk_cache option \<Rightarrow> int \<Rightarrow> string \<Rightarrow> file_system \<Rightarrow> string + 'v option" where
  "cache_load env cache0 now key files =
     (case cache0 of
        None \<Rightarrow> Inr None
      | Some cache \<Rightarrow>
          if dc_ttl cache \<le> 0 then Inr None
          else if trim_space key = [] then Inl ''cache load requires a key and destination''
          else case ce_stat_error env (cache_path env key) of
                 Some err \<Rightarrow> Inl (''stat cache entry: '' @ err)
               | None \<Rightarrow> (case files (cache_path env key) of
                            None \<Rightarrow> Inr None
                          | Some file \<Rightarrow> load_file env cache now key file))"

section \<open>Saving\<close>

datatype save_step = MakeDir | RestrictDir | CreateTemp | RestrictTemp | WriteTemp | SyncTemp | CloseTemp | RenameTemp

fun step_label :: "save_step \<Rightarrow> string" where
  "step_label MakeDir = ''create cache directory''"
| "step_label RestrictDir = ''restrict cache directory''"
| "step_label CreateTemp = ''create cache temporary file''"
| "step_label RestrictTemp = ''restrict cache file''"
| "step_label WriteTemp = ''write cache entry''"
| "step_label SyncTemp = ''sync cache entry''"
| "step_label CloseTemp = ''close cache entry''"
| "step_label RenameTemp = ''replace cache entry''"

text \<open>
  What goes wrong: the error of a step, the bytes a failing write leaves behind, and whether the
  temporary file cannot be removed at the end.
\<close>

record save_faults =
  sf_fault :: "save_step \<Rightarrow> string option"
  sf_written :: nat
  sf_remove_fails :: bool

definition private_mode :: nat where "private_mode = 384"

fun save_effect :: "string \<Rightarrow> string \<Rightarrow> string \<Rightarrow> save_step \<Rightarrow> file_system \<Rightarrow> file_system" where
  "save_effect path temp data CreateTemp files = files(temp \<mapsto> \<lparr>cf_mode = private_mode, cf_data = []\<rparr>)"
| "save_effect path temp data RestrictTemp files =
     files(temp := map_option (\<lambda>f. f\<lparr>cf_mode := private_mode\<rparr>) (files temp))"
| "save_effect path temp data WriteTemp files =
     files(temp := map_option (\<lambda>f. f\<lparr>cf_data := cf_data f @ data\<rparr>) (files temp))"
| "save_effect path temp data RenameTemp files = files(path := files temp, temp := None)"
| "save_effect path temp data MakeDir files = files"
| "save_effect path temp data RestrictDir files = files"
| "save_effect path temp data SyncTemp files = files"
| "save_effect path temp data CloseTemp files = files"

text \<open>A write that fails has written a prefix; any other failing step has done nothing.\<close>

definition failed_effect :: "save_faults \<Rightarrow> string \<Rightarrow> string \<Rightarrow> save_step \<Rightarrow> file_system \<Rightarrow> file_system" where
  "failed_effect faults temp data step files =
     (if step = WriteTemp
      then files(temp := map_option (\<lambda>f. f\<lparr>cf_data := cf_data f @ take (sf_written faults) data\<rparr>) (files temp))
      else files)"

text \<open>\<open>fmt.Errorf("...: %w", err)\<close> with the label of the step.\<close>

definition labelled :: "(save_step \<Rightarrow> string) \<Rightarrow> save_step \<Rightarrow> string \<Rightarrow> string" where
  "labelled label s err = label s @ '': '' @ err"

text \<open>The steps up to the first error, with every file system on the way; \<open>label\<close> words the error of a step.\<close>

fun save_steps :: "(save_step \<Rightarrow> string \<Rightarrow> string) \<Rightarrow> save_faults \<Rightarrow> string \<Rightarrow> string \<Rightarrow> string \<Rightarrow> save_step list \<Rightarrow> file_system
                   \<Rightarrow> string option \<times> file_system list" where
  "save_steps label faults path temp data [] files = (None, [files])"
| "save_steps label faults path temp data (s # ss) files =
     (case sf_fault faults s of
        Some err \<Rightarrow> (Some (label s err), [files, failed_effect faults temp data s files])
      | None \<Rightarrow> (case save_steps label faults path temp data ss (save_effect path temp data s files) of
                   (res, trace) \<Rightarrow> (res, files # trace)))"

definition before_temp :: "bool \<Rightarrow> save_step list" where
  "before_temp windows = MakeDir # (if windows then [] else [RestrictDir])"

definition after_temp :: "save_step list" where
  "after_temp = [RestrictTemp, WriteTemp, SyncTemp, CloseTemp, RenameTemp]"

text \<open>From the temporary file on; its removal is deferred.\<close>

definition replace_file ::
  "(save_step \<Rightarrow> string \<Rightarrow> string) \<Rightarrow> save_faults \<Rightarrow> string \<Rightarrow> string \<Rightarrow> string \<Rightarrow> file_system \<Rightarrow> string option \<times> file_system list" where
  "replace_file label faults path temp data files =
     (case save_steps label faults path temp data [CreateTemp] files of
        (Some err, trace) \<Rightarrow> (Some err, trace)
      | (None, trace) \<Rightarrow>
          (case save_steps label faults path temp data after_temp (last trace) of
             (res, trace2) \<Rightarrow>
               (res, trace @ trace2 @ (if sf_remove_fails faults then [] else [(last trace2)(temp := None)]))))"

definition save_files ::
  "save_faults \<Rightarrow> bool \<Rightarrow> string \<Rightarrow> string \<Rightarrow> string \<Rightarrow> file_system \<Rightarrow> string option \<times> file_system list" where
  "save_files faults windows path temp data files =
     (case save_steps (labelled step_label) faults path temp data (before_temp windows) files of
        (Some err, trace) \<Rightarrow> (Some err, trace)
      | (None, trace) \<Rightarrow>
          (case replace_file (labelled step_label) faults path temp data (last trace) of (res, trace2) \<Rightarrow> (res, trace @ trace2)))"

text \<open>The name of a temporary file: \<open>os.CreateTemp\<close> puts a random text for the star.\<close>

definition temp_name :: "string \<Rightarrow> string" where
  "temp_name random = ''.gozillo-cache-'' @ random"

definition cache_save ::
  "'v cache_env \<Rightarrow> disk_cache option \<Rightarrow> int \<Rightarrow> save_faults \<Rightarrow> string \<Rightarrow> string \<Rightarrow> 'v option \<Rightarrow> file_system
   \<Rightarrow> string option \<times> file_system list" where
  "cache_save env cache0 now faults random key value0 files =
     (case cache0 of
        None \<Rightarrow> (None, [files])
      | Some cache \<Rightarrow>
          if dc_ttl cache \<le> 0 then (None, [files])
          else case value0 of
            None \<Rightarrow> (Some ''cache save requires a key and value'', [files])
          | Some v \<Rightarrow>
              if trim_space key = [] then (Some ''cache save requires a key and value'', [files])
              else case ce_encode_value env v of
                Inl err \<Rightarrow> (Some (''encode cached value: '' @ err), [files])
              | Inr payload \<Rightarrow>
                  (case ce_encode_entry env \<lparr>en_version = disk_cache_version, en_stored_at = now, en_key = key, en_value = payload\<rparr> of
                     Inl err \<Rightarrow> (Some (''encode cache entry: '' @ err), [files])
                   | Inr data \<Rightarrow> save_files faults (ce_windows env) (cache_path env key) (temp_name random) data files))"

section \<open>The default cache\<close>

definition default_disk_cache ::
  "string \<Rightarrow> string \<Rightarrow> string + string \<Rightarrow> (string list \<Rightarrow> string) \<Rightarrow> string \<Rightarrow> int \<Rightarrow> string + disk_cache option" where
  "default_disk_cache cache_dir config_dir user_config_dir path_join namespace ttl =
     (if ttl \<le> 0 then Inr None
      else if trim_space namespace = [] \<or> list_ex (\<lambda>c. c = CHR ''/'' \<or> c = CHR 0x5C) namespace
      then Inl ''cache namespace is invalid''
      else if trim_space cache_dir \<noteq> []
      then Inr (Some \<lparr>dc_dir = path_join [trim_space cache_dir, namespace], dc_ttl = ttl\<rparr>)
      else if trim_space config_dir \<noteq> []
      then Inr (Some \<lparr>dc_dir = path_join [trim_space config_dir, ''cache'', namespace], dc_ttl = ttl\<rparr>)
      else case user_config_dir of
             Inl err \<Rightarrow> Inl (''resolve cache directory: '' @ err)
           | Inr base \<Rightarrow> Inr (Some \<lparr>dc_dir = path_join [path_join [base, ''gozillo''], ''cache'', namespace], dc_ttl = ttl\<rparr>))"

end
