(* ===== verification/Detail_Enricher.thy ===== *)
theory Detail_Enricher
  imports Detail_Filters Retry Disk_Cache
begin

text \<open>
  The enricher of the detail filters (\<open>internal/cli/search_details.go\<close>): its cache of fetched pages, the
  pause after a retryable response, the pacing of requests, the sequential recency pass, and the
  concurrent enrichment, whose workers are a step function on labels: every lock section, wait and
  request of a worker is one step, and any interleaving is a sequence of steps.

  Instants are nanoseconds, 0 for the zero time. The clock, the network and the sleeping are the data of
  the labels; an error that came from the disk is \<open>Remembered\<close> with its message and its cause.
\<close>

section \<open>Results\<close>

datatype detail_error =
    Direct go_error
  | Remembered string sentinel
  | RememberedPlain string
  | PausedFor string detail_error

fun detail_error_text :: "detail_error \<Rightarrow> string" where
  "detail_error_text (Direct e) = error_text e"
| "detail_error_text (Remembered msg s) = msg"
| "detail_error_text (RememberedPlain msg) = msg"
| "detail_error_text (PausedFor msg e) = msg @ '': '' @ detail_error_text e"

fun detail_error_is :: "detail_error \<Rightarrow> sentinel \<Rightarrow> bool" where
  "detail_error_is (Direct e) t = error_is e t"
| "detail_error_is (Remembered msg s) t = (s = t)"
| "detail_error_is (RememberedPlain msg) t = False"
| "detail_error_is (PausedFor msg e) t = detail_error_is e t"

definition retryable_detail_error :: "detail_error \<Rightarrow> bool" where
  "retryable_detail_error e \<longleftrightarrow> detail_error_is e ErrChallenge \<or> detail_error_is e ErrRateLimited"

record detail_result =
  dr_page :: "rental_page option"
  dr_err :: "detail_error option"
  dr_retry_after :: int

definition no_result :: detail_result where
  "no_result = \<lparr>dr_page = None, dr_err = None, dr_retry_after = 0\<rparr>"

text \<open>The record of a page on disk; \<open>pk_property\<close> is the field of an older version.\<close>

record property_record =
  pk_page :: "rental_page option"
  pk_property :: "zillow_property option"
  pk_error :: string
  pk_retry_after :: int
  pk_retry_kind :: string

datatype detail_stage = EnrichmentStage | RecencyStage
datatype detail_kind = ProgressStart | ProgressItem | ProgressPaused | ProgressDone

record detail_progress =
  pg_stage :: detail_stage
  pg_kind :: detail_kind
  pg_completed :: nat
  pg_total :: nat
  pg_cached :: nat
  pg_fetched :: nat
  pg_skipped :: nat
  pg_err :: "detail_error option"
  pg_paused_until :: int

section \<open>The enricher\<close>

record enricher_config =
  ec_client :: bool
  ec_workers :: int
  ec_delay :: int
  ec_disk :: "disk_cache option"
  ec_env :: "property_record cache_env"
  ec_format :: "int \<Rightarrow> string"

record enricher =
  er_next_start :: int
  er_cache :: "string \<Rightarrow> detail_result option"
  er_blocked :: detail_result
  er_files :: file_system

definition new_listing_detail_enricher :: "file_system \<Rightarrow> enricher" where
  "new_listing_detail_enricher files =
     \<lparr>er_next_start = 0, er_cache = Map.empty, er_blocked = no_result, er_files = files\<rparr>"

definition pause_after_retryable :: "detail_result \<Rightarrow> enricher \<Rightarrow> enricher \<times> detail_result \<times> bool" where
  "pause_after_retryable result er =
     (case dr_err result of
        None \<Rightarrow> (er, no_result, False)
      | Some e \<Rightarrow>
          if dr_retry_after result = 0 \<or> \<not> retryable_detail_error e then (er, no_result, False)
          else (let changed = (dr_err (er_blocked er) = None \<or> dr_retry_after result > dr_retry_after (er_blocked er));
                    er1 = (if changed then er\<lparr>er_blocked := result\<rparr> else er)
                in (er1, er_blocked er1, changed)))"

text \<open>A pause that is over is forgotten.\<close>

definition active_pause :: "int \<Rightarrow> enricher \<Rightarrow> enricher \<times> detail_result option" where
  "active_pause now er =
     (if dr_err (er_blocked er) = None \<or> dr_retry_after (er_blocked er) = 0 then (er, None)
      else if \<not> dr_retry_after (er_blocked er) > now then (er\<lparr>er_blocked := no_result\<rparr>, None)
      else (er, Some (er_blocked er)))"

definition reset_pause :: "enricher \<Rightarrow> enricher" where
  "reset_pause er = er\<lparr>er_blocked := no_result\<rparr>"

definition paused_detail_result :: "enricher_config \<Rightarrow> detail_result \<Rightarrow> detail_result" where
  "paused_detail_result cfg block =
     (case dr_err block of
        None \<Rightarrow> block
      | Some e \<Rightarrow>
          (let message = (if dr_retry_after block \<noteq> 0
                 then ''property detail requests paused until '' @ ec_format cfg (dr_retry_after block)
                        @ '' after a retryable Zillow response''
                 else ''property detail requests paused after a retryable Zillow response'')
           in \<lparr>dr_page = None, dr_err = Some (PausedFor message e), dr_retry_after = dr_retry_after block\<rparr>))"

definition store_result :: "string \<Rightarrow> detail_result \<Rightarrow> enricher \<Rightarrow> enricher" where
  "store_result url r er = er\<lparr>er_cache := (er_cache er)(url \<mapsto> r)\<rparr>"

text \<open>An error that may be retried by now is dropped from the cache.\<close>

definition cached_result :: "int \<Rightarrow> string \<Rightarrow> enricher \<Rightarrow> enricher \<times> detail_result option" where
  "cached_result now url er =
     (case er_cache er url of
        None \<Rightarrow> (er, None)
      | Some r \<Rightarrow>
          if dr_err r \<noteq> None \<and> dr_retry_after r \<noteq> 0 \<and> \<not> dr_retry_after r > now
          then (er\<lparr>er_cache := (er_cache er)(url := None)\<rparr>, None) else (er, Some r))"

definition ok_result :: "rental_page \<Rightarrow> detail_result" where
  "ok_result pg = \<lparr>dr_page = Some pg, dr_err = None, dr_retry_after = 0\<rparr>"

definition result_of_record :: "int \<Rightarrow> property_record \<Rightarrow> detail_result option" where
  "result_of_record now r =
     (case pk_page r of
        Some pg \<Rightarrow> Some (ok_result pg)
      | None \<Rightarrow>
          (case pk_property r of
             Some p \<Rightarrow> Some (ok_result \<lparr>rp_kind = PropertyPage, rp_properties = [p]\<rparr>)
           | None \<Rightarrow>
               if pk_error r \<noteq> [] \<and> pk_retry_after r > now
               then Some \<lparr>dr_page = None,
                      dr_err = Some (if pk_retry_kind r = ''challenge'' then Remembered (pk_error r) ErrChallenge
                                     else if pk_retry_kind r = ''rate-limit'' then Remembered (pk_error r) ErrRateLimited
                                     else RememberedPlain (pk_error r)),
                      dr_retry_after = pk_retry_after r\<rparr>
               else None))"

definition load_persistent :: "enricher_config \<Rightarrow> int \<Rightarrow> string \<Rightarrow> enricher \<Rightarrow> detail_result option" where
  "load_persistent cfg now url er =
     (case cache_load (ec_env cfg) (ec_disk cfg) now url (er_files er) of
        Inr (Some r) \<Rightarrow> result_of_record now r
      | _ \<Rightarrow> None)"

text \<open>What is worth keeping: pages, and errors that say when to ask again.\<close>

definition record_of_result :: "detail_result \<Rightarrow> property_record option" where
  "record_of_result r =
     (let plain = \<lparr>pk_page = dr_page r, pk_property = None, pk_error = [], pk_retry_after = 0, pk_retry_kind = []\<rparr> in
      case dr_err r of
        None \<Rightarrow> Some plain
      | Some e \<Rightarrow>
          (let failed = plain\<lparr>pk_error := detail_error_text e, pk_retry_after := dr_retry_after r\<rparr> in
           if detail_error_is e ErrChallenge then Some (failed\<lparr>pk_retry_kind := ''challenge''\<rparr>)
           else if detail_error_is e ErrRateLimited then Some (failed\<lparr>pk_retry_kind := ''rate-limit''\<rparr>)
           else if detail_error_is e ErrSchemaDrift then Some failed
           else None))"

record save_input =
  si_now :: int
  si_faults :: save_faults
  si_random :: string

definition save_persistent :: "enricher_config \<Rightarrow> save_input \<Rightarrow> string \<Rightarrow> detail_result \<Rightarrow> enricher \<Rightarrow> enricher" where
  "save_persistent cfg inp url r er =
     (if ec_disk cfg = None then er
      else case record_of_result r of
             None \<Rightarrow> er
           | Some rec \<Rightarrow> er\<lparr>er_files := last (snd (cache_save (ec_env cfg) (ec_disk cfg) (si_now inp) (si_faults inp)
                               (si_random inp) url (Some rec) (er_files er)))\<rparr>)"

definition cooldown :: int where "cooldown = 5 * minute"

definition new_detail_fetch_result :: "enricher_config \<Rightarrow> int \<Rightarrow> go_error + rental_page \<Rightarrow> detail_result" where
  "new_detail_fetch_result cfg now answer =
     (case answer of
        Inr pg \<Rightarrow> ok_result pg
      | Inl err \<Rightarrow>
          \<lparr>dr_page = None, dr_err = Some (Direct err), dr_retry_after =
             (if error_is err ErrRateLimited
              then now + (case as_rate_limit err of
                            Some rl \<Rightarrow> if rl_retry_after rl > 0 then rl_retry_after rl else cooldown
                          | None \<Rightarrow> cooldown)
              else if error_is err ErrChallenge then now + cooldown
              else if error_is err ErrSchemaDrift \<and> (case ec_disk cfg of Some c \<Rightarrow> dc_ttl c > 0 | None \<Rightarrow> False)
              then now + (case ec_disk cfg of Some c \<Rightarrow> dc_ttl c | None \<Rightarrow> 0)
              else 0)\<rparr>)"

text \<open>The start of the next request is reserved under the lock; the wait follows outside it.\<close>

definition reserve_turn :: "enricher_config \<Rightarrow> int \<Rightarrow> enricher \<Rightarrow> enricher \<times> int" where
  "reserve_turn cfg now er =
     (if ec_delay cfg \<le> 0 then (er, now)
      else (let start = max now (er_next_start er)
            in (er\<lparr>er_next_start := start + ec_delay cfg\<rparr>, start)))"

section \<open>The pages that are missing\<close>

text \<open>
  The loop over the listings: which URLs are neither in memory nor on disk. \<open>clock\<close> is the time at each
  listing; the URLs already seen are in \<open>seen\<close>.
\<close>

fun missing_urls ::
  "enricher_config \<Rightarrow> (nat \<Rightarrow> int) \<Rightarrow> nat \<Rightarrow> string list \<Rightarrow> string list \<Rightarrow> nat \<Rightarrow> string list \<Rightarrow> enricher
   \<Rightarrow> enricher \<times> nat \<times> string list" where
  "missing_urls cfg clock i [] seen cached missing er = (er, cached, missing)"
| "missing_urls cfg clock i (url # urls) seen cached missing er =
     (if url = [] \<or> url \<in> set seen then missing_urls cfg clock (Suc i) urls seen cached missing er
      else case cached_result (clock i) url er of
             (er1, Some r) \<Rightarrow> missing_urls cfg clock (Suc i) urls (url # seen) (Suc cached) missing er1
           | (er1, None) \<Rightarrow>
               (case load_persistent cfg (clock i) url er1 of
                  Some r \<Rightarrow> missing_urls cfg clock (Suc i) urls (url # seen) (Suc cached) missing (store_result url r er1)
                | None \<Rightarrow> missing_urls cfg clock (Suc i) urls (url # seen) cached (missing @ [url]) er1))"

section \<open>The recency pass\<close>

text \<open>What one URL of the sequential pass meets: the clock at each of its steps, the wait and the answer.\<close>

record turn =
  tn_first :: int
  tn_reserve :: int
  tn_wait :: "go_error option"
  tn_second :: int
  tn_answer :: "go_error + rental_page"
  tn_answered :: int
  tn_save :: save_input

text \<open>\<open>Some answer\<close> when the page was requested.\<close>

definition skip_paused :: "enricher_config \<Rightarrow> string \<Rightarrow> detail_result \<Rightarrow> enricher \<Rightarrow> enricher" where
  "skip_paused cfg url block er = store_result url (paused_detail_result cfg block) er"

definition finish_request :: "enricher_config \<Rightarrow> string \<Rightarrow> int \<Rightarrow> go_error + rental_page \<Rightarrow> save_input \<Rightarrow> enricher \<Rightarrow> enricher \<times> detail_result" where
  "finish_request cfg url now answer inp er =
     (let r = new_detail_fetch_result cfg now answer
      in (store_result url r (save_persistent cfg inp url r er), r))"

datatype turn_outcome = Skipped detail_result | NotStarted go_error | Requested detail_result "detail_result option"

definition recency_turn :: "enricher_config \<Rightarrow> turn \<Rightarrow> string \<Rightarrow> enricher \<Rightarrow> enricher \<times> turn_outcome" where
  "recency_turn cfg t url er =
     (case active_pause (tn_first t) er of
        (er1, Some block) \<Rightarrow> (skip_paused cfg url block er1, Skipped block)
      | (er1, None) \<Rightarrow>
          (case reserve_turn cfg (tn_reserve t) er1 of
             (er2, start) \<Rightarrow>
               (case (if start \<le> tn_reserve t then None else tn_wait t) of
                  Some err \<Rightarrow> (store_result url \<lparr>dr_page = None, dr_err = Some (Direct err), dr_retry_after = 0\<rparr> er2, NotStarted err)
                | None \<Rightarrow>
                    (case active_pause (tn_second t) er2 of
                       (er3, Some block) \<Rightarrow> (skip_paused cfg url block er3, Skipped block)
                     | (er3, None) \<Rightarrow>
                         (case finish_request cfg url (tn_answered t) (tn_answer t) (tn_save t) er3 of
                            (er4, r) \<Rightarrow>
                              (case pause_after_retryable r er4 of
                                 (er5, block, changed) \<Rightarrow> (er5, Requested r (if changed then Some block else None))))))))"

fun recency_turns :: "enricher_config \<Rightarrow> (nat \<Rightarrow> turn) \<Rightarrow> nat \<Rightarrow> string list \<Rightarrow> enricher \<Rightarrow> enricher \<times> turn_outcome list" where
  "recency_turns cfg turns i [] er = (er, [])"
| "recency_turns cfg turns i (url # urls) er =
     (case recency_turn cfg (turns i) url er of
        (er1, out) \<Rightarrow> (case recency_turns cfg turns (Suc i) urls er1 of (er2, outs) \<Rightarrow> (er2, out # outs)))"

text \<open>The progress of the pass: counters and the first pause that is reported.\<close>

fun recency_progress :: "nat \<Rightarrow> nat \<Rightarrow> nat \<Rightarrow> nat \<Rightarrow> nat \<Rightarrow> bool \<Rightarrow> turn_outcome list \<Rightarrow> detail_progress list" where
  "recency_progress tot cached i fetched skipped reported [] =
     [\<lparr>pg_stage = RecencyStage, pg_kind = ProgressDone, pg_completed = tot, pg_total = tot, pg_cached = cached,
       pg_fetched = fetched, pg_skipped = skipped, pg_err = None, pg_paused_until = 0\<rparr>]"
| "recency_progress tot cached i fetched skipped reported (out # outs) =
     (let paused = (\<lambda>completed block fetched1. \<lparr>pg_stage = RecencyStage, pg_kind = ProgressPaused, pg_completed = completed,
            pg_total = tot, pg_cached = cached, pg_fetched = fetched1, pg_skipped = skipped, pg_err = dr_err block,
            pg_paused_until = dr_retry_after block\<rparr>);
          item = (\<lambda>err. \<lparr>pg_stage = RecencyStage, pg_kind = ProgressItem, pg_completed = Suc i, pg_total = tot,
            pg_cached = cached, pg_fetched = Suc fetched, pg_skipped = skipped, pg_err = err, pg_paused_until = 0\<rparr>)
      in case out of
           Skipped block \<Rightarrow>
             (if reported then [] else [paused i block fetched])
             @ recency_progress tot cached (Suc i) fetched (Suc skipped) True outs
         | NotStarted err \<Rightarrow>
             item (Some (Direct err)) # recency_progress tot cached (Suc i) (Suc fetched) skipped reported outs
         | Requested r block \<Rightarrow>
             (case block of
                Some b \<Rightarrow> (if reported then [] else [paused (Suc i) b (Suc fetched)])
              | None \<Rightarrow> [])
             @ item (dr_err r)
             # recency_progress tot cached (Suc i) (Suc fetched) skipped (reported \<or> block \<noteq> None) outs)"

definition recency_facts :: "zillow_property \<Rightarrow> listing \<Rightarrow> listing" where
  "recency_facts p l =
     l\<lparr>li_days_on_zillow := newer (pr_days_on_zillow p) (li_days_on_zillow l),
       li_listed_date := newer_text (pr_listed_date p) (li_listed_date l),
       li_updated_date := newer_text (pr_updated_date p) (li_updated_date l)\<rparr>"

fun backfill :: "(nat \<Rightarrow> int) \<Rightarrow> nat \<Rightarrow> listing list \<Rightarrow> enricher \<Rightarrow> enricher \<times> listing list" where
  "backfill clock i [] er = (er, [])"
| "backfill clock i (l # ls) er =
     (if li_days_on_zillow l \<noteq> None
      then (case backfill clock (Suc i) ls er of (er1, ls1) \<Rightarrow> (er1, l # ls1))
      else case cached_result (clock i) (trim_space (li_url l)) er of
             (er1, found) \<Rightarrow>
               (let l1 = (case found of
                            None \<Rightarrow> l
                          | Some r \<Rightarrow>
                              if dr_err r \<noteq> None then l
                              else case rental_page_property_for_listing (dr_page r) l of
                                     None \<Rightarrow> l
                                   | Some p \<Rightarrow> recency_facts p l)
                in case backfill clock (Suc i) ls er1 of (er2, ls1) \<Rightarrow> (er2, l1 # ls1)))"

definition enrich_recency ::
  "enricher_config \<Rightarrow> (nat \<Rightarrow> int) \<Rightarrow> (nat \<Rightarrow> turn) \<Rightarrow> (nat \<Rightarrow> int) \<Rightarrow> listing list \<Rightarrow> enricher
   \<Rightarrow> enricher \<times> listing list \<times> detail_progress list" where
  "enrich_recency cfg clock turns later ls er =
     (if \<not> ec_client cfg \<or> ls = [] then (er, ls, [])
      else case missing_urls cfg clock 0
                  (map (\<lambda>l. if li_days_on_zillow l \<noteq> None then [] else trim_space (li_url l)) ls) [] 0 [] er of
             (er1, cached, missing) \<Rightarrow>
               (case recency_turns cfg turns 0 missing er1 of
                  (er2, outs) \<Rightarrow>
                    (case backfill later 0 ls er2 of
                       (er3, ls1) \<Rightarrow>
                         (er3, ls1,
                          \<lparr>pg_stage = RecencyStage, pg_kind = ProgressStart, pg_completed = 0, pg_total = length missing,
                           pg_cached = cached, pg_fetched = 0, pg_skipped = 0, pg_err = None, pg_paused_until = 0\<rparr>
                          # recency_progress (length missing) cached 0 0 0 False outs))))"

end
