(* ===== verification/Detail_Workers.thy ===== *)
theory Detail_Workers
  imports Detail_Enricher
begin

text \<open>
  The concurrent enrichment (\<open>Enrich\<close> of \<open>internal/cli/search_details.go\<close>). Workers take URLs from one
  channel; a worker's progress through a URL is its phase. A label is one step of one worker with what
  it reads from the outside; \<open>worker_step\<close> is \<open>None\<close> when the label is not enabled. Writing the disk
  entry and storing the result of an answer is one step: no worker reads the disk.
\<close>

section \<open>State\<close>

datatype worker =
    Idle
  | Holding string
  | Cleared string
  | Sleeping string bool
  | Awake string
  | Asking string
  | Answered string detail_result

record enrichment =
  em_er :: enricher
  em_jobs :: "string list"
  em_workers :: "worker list"
  em_total :: nat
  em_cached :: nat
  em_completed :: nat
  em_fetched :: nat
  em_skipped :: nat
  em_reported :: bool
  em_progress :: "detail_progress list"
  em_starts :: "int list"
  em_asked :: "string list"

datatype label =
    Take nat
  | FirstCheck nat int
  | Reserve nat int
  | Wake nat "go_error option"
  | SecondCheck nat int
  | Answer nat int "go_error + rental_page" save_input
  | Settle nat

definition progress_now :: "detail_kind \<Rightarrow> detail_error option \<Rightarrow> int \<Rightarrow> enrichment \<Rightarrow> detail_progress" where
  "progress_now kind err until st =
     \<lparr>pg_stage = EnrichmentStage, pg_kind = kind, pg_completed = em_completed st, pg_total = em_total st,
      pg_cached = em_cached st, pg_fetched = em_fetched st, pg_skipped = em_skipped st, pg_err = err, pg_paused_until = until\<rparr>"

definition record_item :: "bool \<Rightarrow> detail_result \<Rightarrow> enrichment \<Rightarrow> enrichment" where
  "record_item was_fetched r st =
     (let st1 = st\<lparr>em_completed := Suc (em_completed st),
                   em_fetched := (if was_fetched then Suc (em_fetched st) else em_fetched st),
                   em_skipped := (if was_fetched then em_skipped st else Suc (em_skipped st))\<rparr>
      in if was_fetched then st1\<lparr>em_progress := em_progress st @ [progress_now ProgressItem (dr_err r) 0 st1]\<rparr> else st1)"

definition report_pause :: "detail_result \<Rightarrow> enrichment \<Rightarrow> enrichment" where
  "report_pause block st =
     (if em_reported st then st
      else st\<lparr>em_reported := True,
              em_progress := em_progress st @ [progress_now ProgressPaused (dr_err block) (dr_retry_after block) st]\<rparr>)"

definition set_worker :: "nat \<Rightarrow> worker \<Rightarrow> enrichment \<Rightarrow> enrichment" where
  "set_worker w ph st = st\<lparr>em_workers := (em_workers st)[w := ph]\<rparr>"

definition store_item :: "string \<Rightarrow> bool \<Rightarrow> detail_result \<Rightarrow> enrichment \<Rightarrow> enrichment" where
  "store_item url was_fetched r st = record_item was_fetched r (st\<lparr>em_er := store_result url r (em_er st)\<rparr>)"

text \<open>The check for a pause: a paused worker stores the pause for its URL and goes back to the channel.\<close>

definition pause_check :: "enricher_config \<Rightarrow> nat \<Rightarrow> string \<Rightarrow> int \<Rightarrow> (enrichment \<Rightarrow> enrichment) \<Rightarrow> enrichment \<Rightarrow> enrichment" where
  "pause_check cfg w url now go st =
     (case active_pause now (em_er st) of
        (er, Some block) \<Rightarrow>
          set_worker w Idle (store_item url False (paused_detail_result cfg block) (st\<lparr>em_er := er\<rparr>))
      | (er, None) \<Rightarrow> go (st\<lparr>em_er := er\<rparr>))"

section \<open>Steps\<close>

definition phase :: "nat \<Rightarrow> enrichment \<Rightarrow> worker option" where
  "phase w st = (if w < length (em_workers st) then Some (em_workers st ! w) else None)"

fun worker_step :: "enricher_config \<Rightarrow> label \<Rightarrow> enrichment \<Rightarrow> enrichment option" where
  "worker_step cfg (Take w) st =
     (case (phase w st, em_jobs st) of
        (Some Idle, url # urls) \<Rightarrow> Some (set_worker w (Holding url) (st\<lparr>em_jobs := urls\<rparr>))
      | _ \<Rightarrow> None)"
| "worker_step cfg (FirstCheck w now) st =
     (case phase w st of
        Some (Holding url) \<Rightarrow> Some (pause_check cfg w url now (set_worker w (Cleared url)) st)
      | _ \<Rightarrow> None)"
| "worker_step cfg (Reserve w now) st =
     (case phase w st of
        Some (Cleared url) \<Rightarrow>
          (case reserve_turn cfg now (em_er st) of
             (er, start) \<Rightarrow>
               Some (set_worker w (Sleeping url (now < start)) (st\<lparr>em_er := er, em_starts := start # em_starts st\<rparr>)))
      | _ \<Rightarrow> None)"
| "worker_step cfg (Wake w cancelled) st =
     (case phase w st of
        Some (Sleeping url blocking) \<Rightarrow>
          (case (if blocking then cancelled else None) of
             Some err \<Rightarrow>
               Some (set_worker w Idle (store_item url True \<lparr>dr_page = None, dr_err = Some (Direct err), dr_retry_after = 0\<rparr> st))
           | None \<Rightarrow> Some (set_worker w (Awake url) st))
      | _ \<Rightarrow> None)"
| "worker_step cfg (SecondCheck w now) st =
     (case phase w st of
        Some (Awake url) \<Rightarrow>
          Some (pause_check cfg w url now (\<lambda>st1. set_worker w (Asking url) (st1\<lparr>em_asked := url # em_asked st1\<rparr>)) st)
      | _ \<Rightarrow> None)"
| "worker_step cfg (Answer w now answer inp) st =
     (case phase w st of
        Some (Asking url) \<Rightarrow>
          (case finish_request cfg url now answer inp (em_er st) of
             (er, r) \<Rightarrow> Some (set_worker w (Answered url r) (st\<lparr>em_er := er\<rparr>)))
      | _ \<Rightarrow> None)"
| "worker_step cfg (Settle w) st =
     (case phase w st of
        Some (Answered url r) \<Rightarrow>
          (case pause_after_retryable r (em_er st) of
             (er, block, changed) \<Rightarrow>
               (let st1 = (if changed then report_pause block (st\<lparr>em_er := er\<rparr>) else st\<lparr>em_er := er\<rparr>)
                in Some (set_worker w Idle (record_item True r st1))))
      | _ \<Rightarrow> None)"

text \<open>The interleavings.\<close>

inductive enrichment_run :: "enricher_config \<Rightarrow> enrichment \<Rightarrow> label list \<Rightarrow> enrichment \<Rightarrow> bool" for cfg where
  run_stop: "enrichment_run cfg st [] st"
| run_step: "worker_step cfg lb st = Some st1 \<Longrightarrow> enrichment_run cfg st1 lbs st2 \<Longrightarrow> enrichment_run cfg st (lb # lbs) st2"

inductive_cases run_nilE: "enrichment_run cfg st [] st2"
inductive_cases run_consE: "enrichment_run cfg st (lb # lbs) st2"

definition finished :: "enrichment \<Rightarrow> bool" where
  "finished st \<longleftrightarrow> em_jobs st = [] \<and> list_all (\<lambda>ph. ph = Idle) (em_workers st)"

section \<open>Enrichment\<close>

definition worker_count :: "enricher_config \<Rightarrow> nat \<Rightarrow> nat" where
  "worker_count cfg tot = min (nat (max 1 (ec_workers cfg))) tot"

fun skip_all :: "detail_result \<Rightarrow> string list \<Rightarrow> enrichment \<Rightarrow> enrichment" where
  "skip_all r [] st = st"
| "skip_all r (url # urls) st = skip_all r urls (store_item url False r st)"

text \<open>
  Up to the start of the workers: the missing pages, the start message, and the case that a pause is
  still active, in which every URL is skipped and no worker starts.
\<close>

definition enrich_begin :: "enricher_config \<Rightarrow> (nat \<Rightarrow> int) \<Rightarrow> int \<Rightarrow> listing list \<Rightarrow> enricher \<Rightarrow> enrichment" where
  "enrich_begin cfg clock now ls er =
     (case missing_urls cfg clock 0 (map (\<lambda>l. trim_space (li_url l)) ls) [] 0 [] er of
        (er1, cached, missing) \<Rightarrow>
          (case active_pause now er1 of
             (er2, paused) \<Rightarrow>
               (let st = \<lparr>em_er = er2, em_jobs = missing, em_workers = replicate (worker_count cfg (length missing)) Idle,
                          em_total = length missing, em_cached = cached, em_completed = 0, em_fetched = 0, em_skipped = 0,
                          em_reported = False, em_progress = [], em_starts = [], em_asked = []\<rparr>;
                    st1 = st\<lparr>em_progress := [progress_now ProgressStart None 0 st]\<rparr>
                in case paused of
                     None \<Rightarrow> st1
                   | Some block \<Rightarrow>
                       skip_all (paused_detail_result cfg block) missing
                         (report_pause block (st1\<lparr>em_jobs := [], em_workers := []\<rparr>)))))"

text \<open>What a listing becomes: itself, or one listing per property of its page.\<close>

definition expand_page :: "rental_page \<Rightarrow> listing \<Rightarrow> listing list" where
  "expand_page pg l =
     (case rp_properties pg of
        [] \<Rightarrow> [mark_details_unavailable ''rental page returned no details'' l]
      | p # ps \<Rightarrow>
          if rp_kind pg = CommunityPage then map (\<lambda>q. merge_community_property_details q l) (p # ps)
          else (let l1 = merge_property_details p l in l1 # map (\<lambda>q. merge_community_property_details q l1) ps))"

definition expand_result :: "detail_result \<Rightarrow> listing \<Rightarrow> listing list" where
  "expand_result r l =
     (case dr_err r of
        Some e \<Rightarrow> [mark_details_unavailable (detail_error_text e) l]
      | None \<Rightarrow> (case dr_page r of
                   None \<Rightarrow> [mark_details_unavailable ''rental page returned no details'' l]
                 | Some pg \<Rightarrow> expand_page pg l))"

fun expand_listings :: "(nat \<Rightarrow> int) \<Rightarrow> nat \<Rightarrow> listing list \<Rightarrow> enricher \<Rightarrow> enricher \<times> listing list list" where
  "expand_listings clock i [] er = (er, [])"
| "expand_listings clock i (l # ls) er =
     (if trim_space (li_url l) = []
      then (case expand_listings clock (Suc i) ls er of
              (er1, out) \<Rightarrow> (er1, [mark_details_unavailable ''listing has no property URL'' l] # out))
      else case cached_result (clock i) (trim_space (li_url l)) er of
             (er1, found) \<Rightarrow>
               (case expand_listings clock (Suc i) ls er1 of
                  (er2, out) \<Rightarrow>
                    (er2, (case found of
                             None \<Rightarrow> [mark_details_unavailable ''property details were not fetched'' l]
                           | Some r \<Rightarrow> expand_result r l) # out)))"

definition enrich_end :: "(nat \<Rightarrow> int) \<Rightarrow> listing list \<Rightarrow> enrichment \<Rightarrow> enricher \<times> listing list \<times> detail_progress list" where
  "enrich_end clock ls st =
     (case expand_listings clock 0 ls (em_er st) of
        (er, out) \<Rightarrow> (er, concat out, em_progress st @ [progress_now ProgressDone None 0 st]))"

text \<open>\<open>Enrich\<close>: a complete run of the workers between the two.\<close>

definition enriched ::
  "enricher_config \<Rightarrow> (nat \<Rightarrow> int) \<Rightarrow> int \<Rightarrow> label list \<Rightarrow> (nat \<Rightarrow> int) \<Rightarrow> listing list \<Rightarrow> enricher
   \<Rightarrow> enricher \<times> listing list \<times> detail_progress list \<Rightarrow> bool" where
  "enriched cfg clock now lbs later ls er out \<longleftrightarrow>
     (if \<not> ec_client cfg \<or> ls = [] then out = (er, ls, [])
      else \<exists>st. enrichment_run cfg (enrich_begin cfg clock now ls er) lbs st \<and> finished st \<and> out = enrich_end later ls st)"

end
