(* ===== verification/Disk_Cache_Props.thy ===== *)
theory Disk_Cache_Props
  imports Disk_Cache
begin

text \<open>
  What the disk cache guarantees: a save replaces the entry of its key in one step and touches no other
  file, what is loaded was saved for that very key and is fresh, and a saved value is loaded again.
\<close>

section \<open>Names\<close>

lemma hex_digit_char: "hex_digit n \<in> set ''0123456789abcdef''"
proof -
  have "n mod 16 < length ''0123456789abcdef''" by simp
  then show ?thesis unfolding hex_digit_def by (rule nth_mem)
qed

lemma hex_digit_not_dot: "hex_digit n \<noteq> CHR ''.''"
  using hex_digit_char [of n] by auto

lemma temp_is_no_entry [simp]: "cache_path env key \<noteq> temp_name r" "temp_name r \<noteq> cache_path env key"
proof -
  show ne: "cache_path env key \<noteq> temp_name r"
    by (cases "ce_digest env key") (simp_all add: cache_path_def temp_name_def hex_text_def hex_digit_not_dot)
  show "temp_name r \<noteq> cache_path env key" using ne by (rule not_sym)
qed

section \<open>The steps of a save\<close>

text \<open>A file system that differs from \<open>files\<close> only in the temporary file, and in the entry when it is replaced whole.\<close>

definition old_or_whole :: "file_system \<Rightarrow> string \<Rightarrow> string \<Rightarrow> string \<Rightarrow> file_system \<Rightarrow> bool" where
  "old_or_whole files path temp data fs \<longleftrightarrow>
     (\<forall>n. n \<noteq> temp \<longrightarrow> fs n = files n \<or> n = path \<and> fs n = Some \<lparr>cf_mode = private_mode, cf_data = data\<rparr>)"

definition all_old :: "file_system \<Rightarrow> string \<Rightarrow> file_system \<Rightarrow> bool" where
  "all_old files temp fs \<longleftrightarrow> (\<forall>n. n \<noteq> temp \<longrightarrow> fs n = files n)"

lemma all_old_whole: "all_old files temp fs \<Longrightarrow> old_or_whole files path temp data fs"
  by (simp add: all_old_def old_or_whole_def)

lemma all_old_simps [simp]:
  "all_old files temp files" "all_old files temp (fs(temp := f)) = all_old files temp fs"
  by (simp_all add: all_old_def)

lemma before_temp_steps:
  assumes "save_steps label faults path temp data (before_temp w) files = (res, trace)"
  shows "set trace = {files} \<and> trace \<noteq> []"
  using assms by (auto simp: before_temp_def failed_effect_def split: if_splits option.splits prod.splits)

lemma create_temp_step:
  assumes "save_steps label faults path temp data [CreateTemp] files = (res, trace)"
  shows "(\<forall>fs \<in> set trace. all_old files temp fs) \<and> trace \<noteq> []"
    and "res = None \<Longrightarrow> last trace = files(temp \<mapsto> \<lparr>cf_mode = private_mode, cf_data = []\<rparr>)"
    and "res \<noteq> None \<Longrightarrow> last trace = files"
  using assms by (auto simp: failed_effect_def split: option.splits)

lemma after_temp_steps:
  assumes "save_steps label faults path temp data after_temp fs = (res, trace)"
    and "fs temp = Some \<lparr>cf_mode = private_mode, cf_data = []\<rparr>" "all_old files temp fs" "path \<noteq> temp"
  shows "(\<forall>g \<in> set trace. old_or_whole files path temp data g) \<and> trace \<noteq> []"
    and "res \<noteq> None \<Longrightarrow> all_old files temp (last trace)"
    and "res = None \<Longrightarrow> last trace temp = None"
    and "res = None \<Longrightarrow> last trace path = Some \<lparr>cf_mode = private_mode, cf_data = data\<rparr>"
  using assms
  by (auto simp: after_temp_def failed_effect_def old_or_whole_def all_old_def split: option.splits prod.splits if_splits)

text \<open>What replacing a file by a temporary one guarantees, whichever step fails.\<close>

definition replaced ::
  "save_faults \<Rightarrow> string \<Rightarrow> string \<Rightarrow> string \<Rightarrow> file_system \<Rightarrow> string option \<Rightarrow> file_system list \<Rightarrow> bool" where
  "replaced faults path temp data files res trace \<longleftrightarrow>
     (\<forall>fs \<in> set trace. old_or_whole files path temp data fs) \<and> trace \<noteq> []
     \<and> (res \<noteq> None \<longrightarrow> all_old files temp (last trace)) \<and> (\<not> sf_remove_fails faults \<longrightarrow> last trace temp = None)
     \<and> (res = None \<longrightarrow> last trace path = Some \<lparr>cf_mode = private_mode, cf_data = data\<rparr>)"

lemma replace_file_spec:
  assumes "replace_file label faults path temp data files = (res, trace)" and "path \<noteq> temp" "files temp = None"
  shows "replaced faults path temp data files res trace"
proof -
  obtain r1 t1 where one: "save_steps label faults path temp data [CreateTemp] files = (r1, t1)"
    by (cases "save_steps label faults path temp data [CreateTemp] files")
  note first = create_temp_step [OF one]
  have old1: "\<forall>fs \<in> set t1. old_or_whole files path temp data fs" using first(1) by (simp add: all_old_whole)
  show ?thesis
  proof (cases r1)
    case (Some err)
    then have "res = Some err" "trace = t1" using assms(1) one by (simp_all add: replace_file_def)
    then show ?thesis using first Some old1 assms(3) by (simp add: replaced_def)
  next
    case None
    obtain r2 t2 where two: "save_steps label faults path temp data after_temp (last t1) = (r2, t2)"
      by (cases "save_steps label faults path temp data after_temp (last t1)")
    have eqs: "res = r2" "trace = t1 @ t2 @ (if sf_remove_fails faults then [] else [(last t2)(temp := None)])"
      using assms(1) one None two by (simp_all add: replace_file_def)
    have at: "last t1 temp = Some \<lparr>cf_mode = private_mode, cf_data = []\<rparr>" "all_old files temp (last t1)"
      using first(2) [OF None] by simp_all
    note second = after_temp_steps [OF two at assms(2)]
    have "old_or_whole files path temp data (last t2)" using second(1) last_in_set by blast
    then have "old_or_whole files path temp data ((last t2)(temp := None))" by (auto simp: old_or_whole_def)
    then show ?thesis using second eqs old1 assms(2) first(1) by (auto simp: replaced_def)
  qed
qed

lemma save_files_spec:
  assumes "save_files faults w path temp data files = (res, trace)" and "path \<noteq> temp" "files temp = None"
  shows "replaced faults path temp data files res trace"
proof -
  obtain r1 t1 where one: "save_steps (labelled step_label) faults path temp data (before_temp w) files = (r1, t1)"
    by (cases "save_steps (labelled step_label) faults path temp data (before_temp w) files")
  note first = before_temp_steps [OF one]
  have last1: "last t1 = files" using first last_in_set by blast
  have old1: "\<forall>fs \<in> set t1. old_or_whole files path temp data fs" using first by (simp add: all_old_whole)
  show ?thesis
  proof (cases r1)
    case (Some err)
    then have "res = Some err" "trace = t1" using assms(1) one by (simp_all add: save_files_def)
    then show ?thesis using first last1 old1 assms(3) by (simp add: replaced_def)
  next
    case None
    obtain r2 t2 where two: "replace_file (labelled step_label) faults path temp data files = (r2, t2)"
      by (cases "replace_file (labelled step_label) faults path temp data files")
    have "res = r2" "trace = t1 @ t2" using assms(1) one None two last1 by (simp_all add: save_files_def)
    then show ?thesis using replace_file_spec [OF two assms(2,3)] old1 by (auto simp: replaced_def)
  qed
qed

text \<open>A save either refuses before it touches a file, or runs its steps on the encoded entry.\<close>

lemma cache_save_cases:
  assumes "cache_save env cache0 now faults random key value0 files = (res, trace)"
  obtains (nothing) "trace = [files]" "res = None \<Longrightarrow> cache0 = None \<or> (\<exists>c. cache0 = Some c \<and> dc_ttl c \<le> 0)"
  | (steps) cache v payload data where "cache0 = Some cache" "dc_ttl cache > 0" "value0 = Some v" "trim_space key \<noteq> []"
      "ce_encode_value env v = Inr payload"
      "ce_encode_entry env \<lparr>en_version = disk_cache_version, en_stored_at = now, en_key = key, en_value = payload\<rparr> = Inr data"
      "save_files faults (ce_windows env) (cache_path env key) (temp_name random) data files = (res, trace)"
  using assms by (auto simp: cache_save_def split: option.splits if_splits sum.splits)

text \<open>Saving is atomic. Whichever system call fails, and wherever the process is stopped, the file of every
  key is what it was before, or, for the saved key only, the complete new entry readable by its owner alone;
  after an error no entry has changed, and the temporary file is gone unless it could not be removed.\<close>

theorem save_atomic:
  assumes "cache_save env cache0 now faults random key value0 files = (res, trace)" and "files (temp_name random) = None"
  shows "(\<forall>fs \<in> set trace. \<forall>n. n \<noteq> temp_name random \<longrightarrow> fs n = files n \<or>
            n = cache_path env key \<and> (\<exists>v payload data. value0 = Some v \<and> ce_encode_value env v = Inr payload
              \<and> ce_encode_entry env \<lparr>en_version = 1, en_stored_at = now, en_key = key, en_value = payload\<rparr> = Inr data
              \<and> fs n = Some \<lparr>cf_mode = private_mode, cf_data = data\<rparr>))
       \<and> (res \<noteq> None \<longrightarrow> (\<forall>n. n \<noteq> temp_name random \<longrightarrow> last trace n = files n))
       \<and> (\<not> sf_remove_fails faults \<longrightarrow> last trace (temp_name random) = None)"
  using assms(1)
proof (cases rule: cache_save_cases)
  case nothing
  then show ?thesis using assms(2) by simp
next
  case (steps cache v payload data)
  note spec = save_files_spec [OF steps(7) temp_is_no_entry(1) assms(2)]
  show ?thesis
    using spec steps unfolding replaced_def old_or_whole_def all_old_def disk_cache_version_def by blast
qed

section \<open>Loading what was saved\<close>

lemma private_mode_closed: "\<not> group_or_others (private_mode mod 512)"
  by (simp add: group_or_others_def private_mode_def)

lemma cache_load_some:
  assumes "cache_load env cache0 now key files = Inr (Some v)"
  obtains cache f e where "cache0 = Some cache" "files (cache_path env key) = Some f"
    "ce_windows env \<or> \<not> group_or_others (cf_mode f mod 512)" "ce_decode_entry env (cf_data f) = Inr e"
    "entry_usable cache now key e" "ce_decode_value env (en_value e) = Inr v"
  using assms by (auto simp: cache_load_def load_file_def split: option.splits if_splits sum.splits)

text \<open>A loaded value comes from the file of its key, readable by its owner only, whose entry has the current
  version and names that very key, was stored at most five minutes in the future, and is not older than the
  lifetime of the cache.\<close>

theorem loaded_is_fresh:
  assumes "cache_load env (Some cache) now key files = Inr (Some v)" and "dc_ttl cache < 2 ^ 63 - 1"
  shows "\<exists>file e. files (cache_path env key) = Some file \<and> (ce_windows env \<or> \<not> group_or_others (cf_mode file mod 512))
     \<and> ce_decode_entry env (cf_data file) = Inr e \<and> en_version e = 1 \<and> en_key e = key
     \<and> now - dc_ttl cache \<le> en_stored_at e \<and> en_stored_at e \<le> now + 5 * 60 * 10 ^ 9
     \<and> ce_decode_value env (en_value e) = Inr v"
  using assms(1)
proof (cases rule: cache_load_some)
  case (1 c f e)
  then have "saturating_sub now (en_stored_at e) \<le> dc_ttl cache" "en_stored_at e \<le> now + 5 * 60 * 10 ^ 9"
    by (simp_all add: entry_usable_def clock_skew_def)
  moreover from this have "now - en_stored_at e \<le> dc_ttl cache"
    using assms(2) unfolding saturating_sub_def by linarith
  ultimately show ?thesis using 1 by (auto simp: entry_usable_def disk_cache_version_def)
qed

lemma save_then_load:
  assumes "cache_save env (Some cache) now faults random key (Some v) files = (None, trace)"
    and "files (temp_name random) = None" "0 < dc_ttl cache" "trim_space key \<noteq> []"
    and "\<And>e d. ce_encode_entry env e = Inr d \<Longrightarrow> ce_decode_entry env d = Inr e"
    and "\<And>w d. ce_encode_value env w = Inr d \<Longrightarrow> ce_decode_value env d = Inr w"
    and "ce_stat_error env (cache_path env key) = None" "ce_read_error env (cache_path env key) = None"
    and "0 < now" "now \<le> later" "later - now \<le> dc_ttl cache"
  shows "cache_load env (Some cache) later key (last trace) = Inr (Some v)"
  using assms(1)
proof (cases rule: cache_save_cases)
  case nothing
  then show ?thesis using assms(3) by simp
next
  case (steps c w payload data)
  have there: "last trace (cache_path env key) = Some \<lparr>cf_mode = private_mode, cf_data = data\<rparr>"
    using save_files_spec [OF steps(7) temp_is_no_entry(1) assms(2)] by (simp add: replaced_def)
  have "saturating_sub later now \<le> dc_ttl cache" using assms(3,11) by (auto simp: saturating_sub_def)
  then have "entry_usable cache later key \<lparr>en_version = disk_cache_version, en_stored_at = now, en_key = key, en_value = payload\<rparr>"
    using assms(9,10) by (simp add: entry_usable_def clock_skew_def)
  then show ?thesis
    using there assms(3,4,7,8) assms(5) [OF steps(6)] assms(6) [OF steps(5)] steps(1,3) private_mode_closed
    by (simp add: cache_load_def load_file_def)
qed

text \<open>A value that was saved without an error is loaded again, whatever was in the cache before and whatever
  random name the temporary file had, until the lifetime of the cache is over: the entry written is read
  back by the checks of the load.\<close>

theorem saved_is_loaded:
  assumes "cache_save env (Some cache) now faults random key (Some v) files = (None, trace)"
    and "files (temp_name random) = None" "0 < dc_ttl cache" "trim_space key \<noteq> []"
    and "\<And>e d. ce_encode_entry env e = Inr d \<Longrightarrow> ce_decode_entry env d = Inr e"
    and "\<And>w d. ce_encode_value env w = Inr d \<Longrightarrow> ce_decode_value env d = Inr w"
    and "ce_stat_error env (cache_path env key) = None" "ce_read_error env (cache_path env key) = None"
    and "0 < now" "now \<le> later" "later - now \<le> dc_ttl cache"
  shows "cache_load env (Some cache) later key (last trace) = Inr (Some v)"
  using assms by (rule save_then_load)

section \<open>A cache that may forget but never confuses\<close>

text \<open>
  What a client of a cache may rely on when entries can expire, be lost or share a file: a key yields
  only what was put for that key.
\<close>

locale honest_cache =
  fixes put :: "'o \<Rightarrow> 's \<Rightarrow> 's"
    and key_of :: "'o \<Rightarrow> 'k"
    and val_of :: "'o \<Rightarrow> 'v"
    and find_in :: "'k \<Rightarrow> 's \<Rightarrow> 'v option"
  assumes put_same: "find_in (key_of op) (put op s) = Some v \<Longrightarrow> v = val_of op \<or> find_in (key_of op) s = Some v"
    and put_other: "k \<noteq> key_of op \<Longrightarrow> find_in k (put op s) = Some v \<Longrightarrow> find_in k s = Some v"
begin

lemma found_was_put:
  "find_in k (foldl (\<lambda>s op. put op s) s ops) = Some v \<Longrightarrow>
     find_in k s = Some v \<or> (\<exists>op \<in> set ops. key_of op = k \<and> val_of op = v)"
proof (induction ops arbitrary: s)
  case Nil
  then show ?case by simp
next
  case (Cons op ops)
  then have "find_in k (put op s) = Some v \<or> (\<exists>op \<in> set ops. key_of op = k \<and> val_of op = v)" by simp
  then show ?case using put_same [of op s v] put_other [of k op s v] by (cases "k = key_of op") auto
qed

end

text \<open>One save of the disk cache: key, value and what the system does meanwhile.\<close>

record 'v save_op =
  so_key :: string
  so_value :: 'v
  so_now :: int
  so_faults :: save_faults
  so_random :: string

definition disk_put :: "'v cache_env \<Rightarrow> disk_cache option \<Rightarrow> 'v save_op \<Rightarrow> file_system \<Rightarrow> file_system" where
  "disk_put env cache op files =
     (if files (temp_name (so_random op)) \<noteq> None then files
      else last (snd (cache_save env cache (so_now op) (so_faults op) (so_random op) (so_key op) (Some (so_value op)) files)))"

definition disk_find :: "'v cache_env \<Rightarrow> disk_cache option \<Rightarrow> int \<Rightarrow> string \<Rightarrow> file_system \<Rightarrow> 'v option" where
  "disk_find env cache now key files = (case cache_load env cache now key files of Inr r \<Rightarrow> r | Inl _ \<Rightarrow> None)"

definition faithful_codec :: "'v cache_env \<Rightarrow> bool" where
  "faithful_codec env \<longleftrightarrow>
     (\<forall>e d. ce_encode_entry env e = Inr d \<longrightarrow> ce_decode_entry env d = Inr e)
     \<and> (\<forall>v d. ce_encode_value env v = Inr d \<longrightarrow> ce_decode_value env d = Inr v)"

lemma disk_find_some: "disk_find env cache now key files = Some v \<longleftrightarrow> cache_load env cache now key files = Inr (Some v)"
  by (auto simp: disk_find_def split: sum.splits)

lemma cache_load_local:
  "files (cache_path env key) = fs (cache_path env key) \<Longrightarrow> cache_load env cache now key files = cache_load env cache now key fs"
  by (simp add: cache_load_def split: option.splits)

lemma disk_put_file:
  assumes "faithful_codec env"
  shows "disk_put env cache op files (cache_path env key) = files (cache_path env key)
    \<or> cache_path env key = cache_path env (so_key op) \<and> (\<exists>f e. disk_put env cache op files (cache_path env key) = Some f
        \<and> ce_decode_entry env (cf_data f) = Inr e \<and> en_key e = so_key op \<and> ce_decode_value env (en_value e) = Inr (so_value op))"
proof (cases "files (temp_name (so_random op)) = None")
  case True
  obtain res trace where save: "cache_save env cache (so_now op) (so_faults op) (so_random op) (so_key op) (Some (so_value op)) files
      = (res, trace)" by fastforce
  then have put: "disk_put env cache op files = last trace" using True by (simp add: disk_put_def)
  from save show ?thesis
  proof (cases rule: cache_save_cases)
    case nothing
    then show ?thesis using put by simp
  next
    case (steps c v payload data)
    have "old_or_whole files (cache_path env (so_key op)) (temp_name (so_random op)) data (last trace)"
      using save_files_spec [OF steps(7) temp_is_no_entry(1) True] last_in_set unfolding replaced_def by blast
    then consider "last trace (cache_path env key) = files (cache_path env key)"
      | "cache_path env key = cache_path env (so_key op)"
        "last trace (cache_path env key) = Some \<lparr>cf_mode = private_mode, cf_data = data\<rparr>"
      unfolding old_or_whole_def by (metis temp_is_no_entry(1))
    then show ?thesis
    proof cases
      case 1
      then show ?thesis using put by simp
    next
      case 2
      have "ce_decode_entry env data = Inr \<lparr>en_version = disk_cache_version, en_stored_at = so_now op,
          en_key = so_key op, en_value = payload\<rparr>" "ce_decode_value env payload = Inr (so_value op)"
        using assms steps(3,5,6) by (simp_all add: faithful_codec_def)
      then show ?thesis using 2 put by simp
    qed
  qed
next
  case False
  then show ?thesis by (simp add: disk_put_def)
qed

lemma disk_cache_honest:
  fixes env :: "'v cache_env"
  assumes "faithful_codec env"
  shows "honest_cache (disk_put env cache) so_key so_value (disk_find env cache now)"
proof
  fix op :: "'v save_op" and s v k
  have found: "cache_load env cache now k' s = Inr (Some v) \<or> k' = so_key op \<and> v = so_value op"
    if load: "cache_load env cache now k' (disk_put env cache op s) = Inr (Some v)" for k'
    using disk_put_file [OF assms, of cache op s k']
  proof (elim disjE conjE exE)
    assume "disk_put env cache op s (cache_path env k') = s (cache_path env k')"
    then show ?thesis using load cache_load_local by metis
  next
    fix f e
    assume "disk_put env cache op s (cache_path env k') = Some f" "ce_decode_entry env (cf_data f) = Inr e"
      "en_key e = so_key op" "ce_decode_value env (en_value e) = Inr (so_value op)"
    with load show ?thesis by (elim cache_load_some) (auto simp: entry_usable_def)
  qed
  show "disk_find env cache now (so_key op) (disk_put env cache op s) = Some v \<Longrightarrow>
      v = so_value op \<or> disk_find env cache now (so_key op) s = Some v"
    using found by (auto simp: disk_find_some)
  show "k \<noteq> so_key op \<Longrightarrow> disk_find env cache now k (disk_put env cache op s) = Some v \<Longrightarrow> disk_find env cache now k s = Some v"
    using found by (auto simp: disk_find_some)
qed

text \<open>C23: The disk cache never confuses keys: after any saves into an empty directory, with any failures on the way
  and even if the digests of two keys collide, a value is loaded for a key only if it was saved for that key.\<close>

theorem loaded_was_saved:
  assumes "faithful_codec env"
    and "cache_load env cache now key (foldl (\<lambda>files op. disk_put env cache op files) (\<lambda>_. None) ops) = Inr (Some v)"
  shows "\<exists>op \<in> set ops. so_key op = key \<and> so_value op = v"
proof -
  have "disk_find env cache now key (\<lambda>_. None) = None"
    by (auto simp: disk_find_def cache_load_def split: option.splits)
  then show ?thesis
    using honest_cache.found_was_put [OF disk_cache_honest [OF assms(1)], of cache now key "\<lambda>_. None" ops v] assms(2)
    by (simp add: disk_find_some)
qed

section \<open>A concrete cache\<close>

definition sample_disk_entry :: cache_entry where
  "sample_disk_entry = \<lparr>en_version = 1, en_stored_at = 10, en_key = ''https://x/1'', en_value = ''page''\<rparr>"

definition sample_cache_env :: "string cache_env" where
  "sample_cache_env =
     \<lparr>ce_digest = (\<lambda>k. take 2 k), ce_encode_value = Inr, ce_decode_value = Inr,
      ce_encode_entry = (\<lambda>e. if e = sample_disk_entry then Inr ''{entry}'' else Inl ''unsupported''),
      ce_decode_entry = (\<lambda>d. if d = ''{entry}'' then Inr sample_disk_entry else Inl ''invalid''),
      ce_windows = False, ce_stat_error = (\<lambda>_. None), ce_read_error = (\<lambda>_. None)\<rparr>"

definition sample_disk :: disk_cache where "sample_disk = \<lparr>dc_dir = ''/c'', dc_ttl = 100\<rparr>"

definition no_faults :: save_faults where
  "no_faults = \<lparr>sf_fault = (\<lambda>_. None), sf_written = 0, sf_remove_fails = False\<rparr>"

definition sample_save :: "string option \<times> file_system list" where
  "sample_save = cache_save sample_cache_env (Some sample_disk) 10 no_faults ''77'' ''https://x/1'' (Some ''page'') (\<lambda>_. None)"

lemma sample_codec: "faithful_codec sample_cache_env"
  by (simp add: faithful_codec_def sample_cache_env_def)

lemma sample_saved: "sample_save = (None, snd sample_save)"
proof -
  have "fst sample_save = None" by code_simp
  then show ?thesis by (metis prod.collapse)
qed

lemma sample_loaded:
  "cache_load sample_cache_env (Some sample_disk) 60 ''https://x/1'' (last (snd sample_save)) = Inr (Some ''page'')"
  by code_simp

text \<open>The write fails after two bytes: the temporary file is removed and nothing else was touched.\<close>

lemma save_atomic_witness:
  "(let r = cache_save sample_cache_env (Some sample_disk) 10 (no_faults\<lparr>sf_fault := (\<lambda>s. if s = WriteTemp then Some ''disk full'' else None),
            sf_written := 2\<rparr>) ''77'' ''https://x/1'' (Some ''page'') (\<lambda>_. None)
    in fst r = Some ''write cache entry: disk full'' \<and> last (snd r) (temp_name ''77'') = None)"
proof -
  let ?f = "no_faults\<lparr>sf_fault := (\<lambda>s. if s = WriteTemp then Some ''disk full'' else None), sf_written := 2\<rparr>"
  let ?r = "cache_save sample_cache_env (Some sample_disk) 10 ?f ''77'' ''https://x/1'' (Some ''page'') (\<lambda>_. None)"
  have "fst ?r = Some ''write cache entry: disk full''" by code_simp
  moreover have "?r = (fst ?r, snd ?r)" by simp
  moreover have "\<not> sf_remove_fails ?f" by (simp add: no_faults_def)
  ultimately show ?thesis using save_atomic [of sample_cache_env "Some sample_disk" 10 ?f "''77''" "''https://x/1''" "Some ''page''" "\<lambda>_. None" "fst ?r" "snd ?r"]
    by (simp add: Let_def)
qed

lemma loaded_is_fresh_witness:
  "cache_load sample_cache_env (Some sample_disk) 60 ''https://x/1'' (last (snd sample_save)) = Inr (Some ''page'')
   \<and> (\<exists>f e. last (snd sample_save) (cache_path sample_cache_env ''https://x/1'') = Some f
        \<and> ce_decode_entry sample_cache_env (cf_data f) = Inr e \<and> en_key e = ''https://x/1'' \<and> - 40 \<le> en_stored_at e)"
proof -
  have "dc_ttl sample_disk < 2 ^ 63 - 1" "60 - dc_ttl sample_disk = - 40" by (simp_all add: sample_disk_def)
  then show ?thesis using loaded_is_fresh [OF sample_loaded] sample_loaded by auto
qed

lemma saved_is_loaded_witness:
  "fst sample_save = None \<and>
   cache_load sample_cache_env (Some sample_disk) 60 ''https://x/1'' (last (snd sample_save)) = Inr (Some ''page'')"
proof -
  have "cache_load sample_cache_env (Some sample_disk) 60 ''https://x/1'' (last (snd sample_save)) = Inr (Some ''page'')"
  proof (rule saved_is_loaded [where now = 10 and faults = no_faults and random = "''77''" and files = "\<lambda>_. None"])
    show "cache_save sample_cache_env (Some sample_disk) 10 no_faults ''77'' ''https://x/1'' (Some ''page'') (\<lambda>_. None)
        = (None, snd sample_save)"
      using sample_saved unfolding sample_save_def .
    show "trim_space ''https://x/1'' \<noteq> []" by code_simp
  qed (use sample_codec in \<open>simp_all add: faithful_codec_def sample_cache_env_def sample_disk_def\<close>)
  then show ?thesis using arg_cong [OF sample_saved, of fst] by simp
qed

lemma loaded_was_saved_witness:
  "(let op = \<lparr>so_key = ''https://x/1'', so_value = ''page'', so_now = 10, so_faults = no_faults, so_random = ''77''\<rparr>
    in so_key op = ''https://x/1'' \<and> so_value op = ''page''
       \<and> cache_load sample_cache_env (Some sample_disk) 60 ''https://x/1'' (disk_put sample_cache_env (Some sample_disk) op (\<lambda>_. None))
         = Inr (Some ''page''))"
proof -
  let ?op = "\<lparr>so_key = ''https://x/1'', so_value = ''page'', so_now = 10, so_faults = no_faults, so_random = ''77''\<rparr>"
  have put: "disk_put sample_cache_env (Some sample_disk) ?op (\<lambda>_. None) = last (snd sample_save)"
    by (simp add: disk_put_def sample_save_def)
  have "\<exists>op \<in> set [?op]. so_key op = ''https://x/1'' \<and> so_value op = ''page''"
    using put sample_loaded by (intro loaded_was_saved [OF sample_codec, of "Some sample_disk" 60]) simp
  then show ?thesis using put sample_loaded by (simp add: Let_def)
qed

end
