(* ===== verification/Detail_Workers_Props.thy ===== *)
theory Detail_Workers_Props
  imports Detail_Workers Disk_Cache_Props
begin

text \<open>
  What the concurrent enrichment guarantees for every interleaving of its workers: it ends and cannot
  get stuck, counts add up, every page is asked for at most once and has an answer in the end, nothing
  is asked during a pause, and requests keep their distance.
\<close>

section \<open>Counting over workers\<close>

fun busy :: "worker \<Rightarrow> nat" where
  "busy Idle = 0"
| "busy _ = 1"

text \<open>The steps a worker has left for its URL.\<close>

fun steps_left :: "worker \<Rightarrow> nat" where
  "steps_left Idle = 0"
| "steps_left (Answered url r) = 1"
| "steps_left (Asking url) = 2"
| "steps_left (Awake url) = 3"
| "steps_left (Sleeping url b) = 4"
| "steps_left (Cleared url) = 5"
| "steps_left (Holding url) = 6"

text \<open>A worker that has not asked for its URL yet, and one that has no answer for it yet.\<close>

fun unasked :: "string \<Rightarrow> worker \<Rightarrow> nat" where
  "unasked u (Holding url) = (if url = u then 1 else 0)"
| "unasked u (Cleared url) = (if url = u then 1 else 0)"
| "unasked u (Sleeping url b) = (if url = u then 1 else 0)"
| "unasked u (Awake url) = (if url = u then 1 else 0)"
| "unasked u _ = 0"

fun unanswered :: "string \<Rightarrow> worker \<Rightarrow> nat" where
  "unanswered u (Asking url) = (if url = u then 1 else 0)"
| "unanswered u ph = unasked u ph"

definition sum_of :: "(worker \<Rightarrow> nat) \<Rightarrow> worker list \<Rightarrow> nat" where
  "sum_of f ws = sum_list (map f ws)"

lemma sum_of_update: "w < length ws \<Longrightarrow> sum_of f (ws[w := ph]) + f (ws ! w) = sum_of f ws + f ph"
proof (induction ws arbitrary: w)
  case (Cons x ws)
  then show ?case by (cases w) (auto simp: sum_of_def)
qed simp

lemma sum_of_replicate [simp]: "sum_of f (replicate n ph) = n * f ph"
  by (simp add: sum_of_def sum_list_replicate)

lemma sum_of_zero: "sum_of f ws = 0 \<longleftrightarrow> (\<forall>ph \<in> set ws. f ph = 0)"
  by (simp add: sum_of_def)

lemma phase_some: "phase w st = Some ph \<longleftrightarrow> w < length (em_workers st) \<and> em_workers st ! w = ph"
  by (auto simp: phase_def)

section \<open>Effects of a step\<close>

lemma step_fields [simp]:
  "em_jobs (set_worker w ph st) = em_jobs st" "em_workers (set_worker w ph st) = (em_workers st)[w := ph]"
  "em_er (set_worker w ph st) = em_er st" "em_asked (set_worker w ph st) = em_asked st"
  "em_starts (set_worker w ph st) = em_starts st" "em_completed (set_worker w ph st) = em_completed st"
  "em_fetched (set_worker w ph st) = em_fetched st" "em_skipped (set_worker w ph st) = em_skipped st"
  "em_total (set_worker w ph st) = em_total st" "em_cached (set_worker w ph st) = em_cached st"
  "em_jobs (record_item b r st) = em_jobs st" "em_workers (record_item b r st) = em_workers st"
  "em_er (record_item b r st) = em_er st" "em_asked (record_item b r st) = em_asked st"
  "em_starts (record_item b r st) = em_starts st" "em_completed (record_item b r st) = Suc (em_completed st)"
  "em_fetched (record_item b r st) = (if b then Suc (em_fetched st) else em_fetched st)"
  "em_skipped (record_item b r st) = (if b then em_skipped st else Suc (em_skipped st))"
  "em_total (record_item b r st) = em_total st" "em_cached (record_item b r st) = em_cached st"
  "em_jobs (report_pause bl st) = em_jobs st" "em_workers (report_pause bl st) = em_workers st"
  "em_er (report_pause bl st) = em_er st" "em_asked (report_pause bl st) = em_asked st"
  "em_starts (report_pause bl st) = em_starts st" "em_completed (report_pause bl st) = em_completed st"
  "em_fetched (report_pause bl st) = em_fetched st" "em_skipped (report_pause bl st) = em_skipped st"
  "em_total (report_pause bl st) = em_total st" "em_cached (report_pause bl st) = em_cached st"
  by (simp_all add: set_worker_def record_item_def report_pause_def Let_def)

lemma er_fields [simp]:
  "er_cache (store_result url r er) = (er_cache er)(url \<mapsto> r)"
  "er_blocked (store_result url r er) = er_blocked er"
  "er_next_start (store_result url r er) = er_next_start er"
  "er_cache (save_persistent cfg inp url r er) = er_cache er"
  "er_blocked (save_persistent cfg inp url r er) = er_blocked er"
  "er_next_start (save_persistent cfg inp url r er) = er_next_start er"
  by (simp_all add: store_result_def save_persistent_def split: option.split)

text \<open>
  One step, seen from outside: which worker moved from which phase to which, whether a URL was taken,
  asked for, or done with, and that no cache entry is lost.
\<close>

record effect =
  ef_worker :: nat
  ef_from :: worker
  ef_to :: worker

definition moves :: "effect \<Rightarrow> enrichment \<Rightarrow> enrichment \<Rightarrow> bool" where
  "moves ef st st1 \<longleftrightarrow>
     ef_worker ef < length (em_workers st) \<and> em_workers st ! ef_worker ef = ef_from ef
     \<and> em_workers st1 = (em_workers st)[ef_worker ef := ef_to ef] \<and> em_total st1 = em_total st"

definition counts_kept :: "enrichment \<Rightarrow> enrichment \<Rightarrow> bool" where
  "counts_kept st st1 \<longleftrightarrow>
     em_completed st1 = em_completed st \<and> em_fetched st1 = em_fetched st \<and> em_skipped st1 = em_skipped st"

definition counts_up :: "enrichment \<Rightarrow> enrichment \<Rightarrow> bool" where
  "counts_up st st1 \<longleftrightarrow>
     em_completed st1 = Suc (em_completed st) \<and> em_fetched st1 + em_skipped st1 = Suc (em_fetched st + em_skipped st)"

abbreviation cache_of :: "enrichment \<Rightarrow> string \<Rightarrow> detail_result option" where
  "cache_of st \<equiv> er_cache (em_er st)"

lemma active_pause_cache [simp]: "active_pause now er = (er1, r) \<Longrightarrow> er_cache er1 = er_cache er"
  by (auto simp: active_pause_def split: if_splits)

lemma active_pause_next [simp]: "active_pause now er = (er1, r) \<Longrightarrow> er_next_start er1 = er_next_start er"
  by (auto simp: active_pause_def split: if_splits)

lemma pause_after_fields [simp]:
  "pause_after_retryable r er = (er1, b, c) \<Longrightarrow> er_cache er1 = er_cache er \<and> er_next_start er1 = er_next_start er"
  by (auto simp: pause_after_retryable_def Let_def split: option.splits if_splits)

lemma reserve_cache [simp]: "reserve_turn cfg now er = (er1, s) \<Longrightarrow> er_cache er1 = er_cache er \<and> er_blocked er1 = er_blocked er"
  by (auto simp: reserve_turn_def Let_def split: if_splits)

text \<open>The six kinds of steps.\<close>

lemma worker_step_cases:
  assumes "worker_step cfg lb st = Some st1"
  obtains (take) w url where "moves \<lparr>ef_worker = w, ef_from = Idle, ef_to = Holding url\<rparr> st st1"
      "em_jobs st = url # em_jobs st1" "counts_kept st st1" "em_er st1 = em_er st" "em_asked st1 = em_asked st" "em_starts st1 = em_starts st"
  | (inner) w ph ph1 where "moves \<lparr>ef_worker = w, ef_from = ph, ef_to = ph1\<rparr> st st1" "busy ph = 1" "busy ph1 = 1"
      "steps_left ph1 < steps_left ph" "\<And>u. unasked u ph1 = unasked u ph" "\<And>u. unanswered u ph1 = unanswered u ph"
      "em_jobs st1 = em_jobs st" "counts_kept st st1" "cache_of st1 = cache_of st" "em_asked st1 = em_asked st"
  | (stored) w ph url r where "moves \<lparr>ef_worker = w, ef_from = ph, ef_to = Idle\<rparr> st st1" "busy ph = 1"
      "steps_left ph > 0" "\<And>u. unasked u ph = (if url = u then 1 else 0)" "\<And>u. unanswered u ph = (if url = u then 1 else 0)"
      "em_jobs st1 = em_jobs st" "counts_up st st1" "cache_of st1 = (cache_of st)(url \<mapsto> r)" "em_asked st1 = em_asked st"
      "em_starts st1 = em_starts st"
  | (ask) w url where "moves \<lparr>ef_worker = w, ef_from = Awake url, ef_to = Asking url\<rparr> st st1" "em_jobs st1 = em_jobs st"
      "counts_kept st st1" "cache_of st1 = cache_of st" "em_asked st1 = url # em_asked st" "em_starts st1 = em_starts st"
  | (answer) w url r where "moves \<lparr>ef_worker = w, ef_from = Asking url, ef_to = Answered url r\<rparr> st st1" "em_jobs st1 = em_jobs st"
      "counts_kept st st1" "cache_of st1 = (cache_of st)(url \<mapsto> r)" "em_asked st1 = em_asked st" "em_starts st1 = em_starts st"
  | (settle) w url r where "moves \<lparr>ef_worker = w, ef_from = Answered url r, ef_to = Idle\<rparr> st st1" "em_jobs st1 = em_jobs st"
      "counts_up st st1" "cache_of st1 = cache_of st" "em_asked st1 = em_asked st" "em_starts st1 = em_starts st"
proof (cases lb)
  case (Take w)
  then obtain url where "phase w st = Some Idle" "em_jobs st = url # tl (em_jobs st)"
      "st1 = set_worker w (Holding url) (st\<lparr>em_jobs := tl (em_jobs st)\<rparr>)"
    using assms by (auto split: option.splits worker.splits list.splits)
  then show ?thesis by (intro take [of w url]) (auto simp: moves_def phase_some counts_kept_def)
next
  case (FirstCheck w now)
  then obtain url where at: "phase w st = Some (Holding url)" "st1 = pause_check cfg w url now (set_worker w (Cleared url)) st"
    using assms by (auto split: option.splits worker.splits)
  obtain er b where ap: "active_pause now (em_er st) = (er, b)" by fastforce
  show ?thesis
  proof (cases b)
    case None
    then show ?thesis using at ap
      by (intro inner [of w "Holding url" "Cleared url"]) (auto simp: moves_def phase_some counts_kept_def pause_check_def)
  next
    case (Some bl)
    then show ?thesis using at ap
      by (intro stored [of w "Holding url" url "paused_detail_result cfg bl"])
        (auto simp: moves_def phase_some counts_up_def pause_check_def store_item_def)
  qed
next
  case (Reserve w now)
  then obtain url er start where at: "phase w st = Some (Cleared url)" "reserve_turn cfg now (em_er st) = (er, start)"
      "st1 = set_worker w (Sleeping url (now < start)) (st\<lparr>em_er := er, em_starts := start # em_starts st\<rparr>)"
    using assms by (auto split: option.splits worker.splits prod.splits)
  then show ?thesis
    by (intro inner [of w "Cleared url" "Sleeping url (now < start)"]) (auto simp: moves_def phase_some counts_kept_def)
next
  case (Wake w cancelled)
  then obtain url b where at: "phase w st = Some (Sleeping url b)"
    using assms by (auto split: option.splits worker.splits)
  show ?thesis
  proof (cases "if b then cancelled else None")
    case None
    then have "st1 = set_worker w (Awake url) st" using Wake at assms by simp
    then show ?thesis using at
      by (intro inner [of w "Sleeping url b" "Awake url"]) (auto simp: moves_def phase_some counts_kept_def)
  next
    case (Some err)
    let ?r = "\<lparr>dr_page = None, dr_err = Some (Direct err), dr_retry_after = 0\<rparr>"
    have "st1 = set_worker w Idle (store_item url True ?r st)" using Some Wake at assms by simp
    then show ?thesis using at
      by (intro stored [of w "Sleeping url b" url ?r]) (auto simp: moves_def phase_some counts_up_def store_item_def)
  qed
next
  case (SecondCheck w now)
  then obtain url where at: "phase w st = Some (Awake url)"
      "st1 = pause_check cfg w url now (\<lambda>st1. set_worker w (Asking url) (st1\<lparr>em_asked := url # em_asked st1\<rparr>)) st"
    using assms by (auto split: option.splits worker.splits)
  obtain er b where ap: "active_pause now (em_er st) = (er, b)" by fastforce
  show ?thesis
  proof (cases b)
    case None
    then show ?thesis using at ap
      by (intro ask [of w url]) (auto simp: moves_def phase_some counts_kept_def pause_check_def)
  next
    case (Some bl)
    then show ?thesis using at ap
      by (intro stored [of w "Awake url" url "paused_detail_result cfg bl"])
        (auto simp: moves_def phase_some counts_up_def pause_check_def store_item_def)
  qed
next
  case (Answer w now ans inp)
  then obtain url er r where at: "phase w st = Some (Asking url)" "finish_request cfg url now ans inp (em_er st) = (er, r)"
      "st1 = set_worker w (Answered url r) (st\<lparr>em_er := er\<rparr>)"
    using assms by (auto split: option.splits worker.splits prod.splits)
  then show ?thesis
    by (intro answer [of w url r]) (auto simp: moves_def phase_some counts_kept_def finish_request_def Let_def)
next
  case (Settle w)
  then obtain url r where at: "phase w st = Some (Answered url r)"
    using assms by (auto split: option.splits worker.splits)
  obtain er b c where pa: "pause_after_retryable r (em_er st) = (er, b, c)" by (metis prod_cases3)
  have "st1 = set_worker w Idle (record_item True r (if c then report_pause b (st\<lparr>em_er := er\<rparr>) else st\<lparr>em_er := er\<rparr>))"
    using Settle at pa assms by (simp add: Let_def)
  then show ?thesis using at pa
    by (intro settle [of w url r]) (auto simp: moves_def phase_some counts_up_def)
qed

lemma moves_sum: "moves ef st st1 \<Longrightarrow> sum_of f (em_workers st1) + f (ef_from ef) = sum_of f (em_workers st) + f (ef_to ef)"
  using sum_of_update [of "ef_worker ef" "em_workers st" f "ef_to ef"] by (auto simp: moves_def)

lemma moves_tot: "moves ef st st1 \<Longrightarrow> em_total st1 = em_total st \<and> length (em_workers st1) = length (em_workers st)"
  by (auto simp: moves_def)

section \<open>The invariant of the workers\<close>

definition counts_inv :: "string list \<Rightarrow> enrichment \<Rightarrow> bool" where
  "counts_inv urls st \<longleftrightarrow>
     em_total st = length urls \<and> em_completed st + sum_of busy (em_workers st) + length (em_jobs st) = length urls
     \<and> em_fetched st + em_skipped st = em_completed st"

definition asked_inv :: "string list \<Rightarrow> enrichment \<Rightarrow> bool" where
  "asked_inv urls st \<longleftrightarrow>
     (\<forall>u. count_list (em_asked st) u + sum_of (unasked u) (em_workers st) + count_list (em_jobs st) u \<le> count_list urls u)"

definition answered_inv :: "string list \<Rightarrow> enrichment \<Rightarrow> bool" where
  "answered_inv urls st \<longleftrightarrow>
     (\<forall>u \<in> set urls. u \<in> set (em_jobs st) \<or> sum_of (unanswered u) (em_workers st) > 0 \<or> cache_of st u \<noteq> None)"

lemma counts_step: "worker_step cfg lb st = Some st1 \<Longrightarrow> counts_inv urls st \<Longrightarrow> counts_inv urls st1"
proof (elim worker_step_cases)
qed (auto simp: counts_inv_def counts_kept_def counts_up_def dest: moves_tot moves_sum [where f = busy])

lemma asked_step:
  assumes "worker_step cfg lb st = Some st1" "asked_inv urls st"
  shows "asked_inv urls st1"
  unfolding asked_inv_def
proof
  fix u
  have old: "count_list (em_asked st) u + sum_of (unasked u) (em_workers st) + count_list (em_jobs st) u \<le> count_list urls u"
    using assms(2) by (simp add: asked_inv_def)
  show "count_list (em_asked st1) u + sum_of (unasked u) (em_workers st1) + count_list (em_jobs st1) u \<le> count_list urls u"
    using assms(1) old
    by (elim worker_step_cases) (auto dest: moves_sum [where f = "unasked u"] split: if_splits)
qed

lemma answered_step:
  assumes "worker_step cfg lb st = Some st1" "answered_inv urls st"
  shows "answered_inv urls st1"
  unfolding answered_inv_def
proof
  fix u assume "u \<in> set urls"
  then have old: "u \<in> set (em_jobs st) \<or> sum_of (unanswered u) (em_workers st) > 0 \<or> cache_of st u \<noteq> None"
    using assms(2) by (simp add: answered_inv_def)
  show "u \<in> set (em_jobs st1) \<or> sum_of (unanswered u) (em_workers st1) > 0 \<or> cache_of st1 u \<noteq> None"
    using assms(1) old
    by (elim worker_step_cases) (auto dest: moves_sum [where f = "unanswered u"] split: if_splits)
qed

definition work_left :: "enrichment \<Rightarrow> nat" where
  "work_left st = 7 * length (em_jobs st) + sum_of steps_left (em_workers st)"

lemma work_step: "worker_step cfg lb st = Some st1 \<Longrightarrow> work_left st1 < work_left st"
  by (elim worker_step_cases) (auto simp: work_left_def dest: moves_sum [where f = steps_left])

text \<open>The contract of a run: what every step keeps holds at its end, and a measure bounds its length.\<close>

locale run_invariant =
  fixes cfg :: enricher_config and inv :: "enrichment \<Rightarrow> bool"
  assumes step_keeps: "worker_step cfg lb st = Some st1 \<Longrightarrow> inv st \<Longrightarrow> inv st1"
begin

lemma run_keeps: "enrichment_run cfg st lbs st2 \<Longrightarrow> inv st \<Longrightarrow> inv st2"
  by (induction rule: enrichment_run.induct) (auto dest: step_keeps)

end

interpretation counts: run_invariant cfg "counts_inv urls" for cfg urls
  by unfold_locales (rule counts_step)

interpretation asked: run_invariant cfg "asked_inv urls" for cfg urls
  by unfold_locales (rule asked_step)

interpretation answered: run_invariant cfg "answered_inv urls" for cfg urls
  by unfold_locales (rule answered_step)

lemma run_length: "enrichment_run cfg st lbs st2 \<Longrightarrow> length lbs + work_left st2 \<le> work_left st"
  by (induction rule: enrichment_run.induct) (auto dest: work_step)

section \<open>The start of an enrichment\<close>

text \<open>The URLs that are asked for: those of \<open>missing_urls\<close>.\<close>

definition missing_of :: "enricher_config \<Rightarrow> (nat \<Rightarrow> int) \<Rightarrow> listing list \<Rightarrow> enricher \<Rightarrow> string list" where
  "missing_of cfg clock ls er = snd (snd (missing_urls cfg clock 0 (map (\<lambda>l. trim_space (li_url l)) ls) [] 0 [] er))"

lemma skip_all_fields:
  "em_jobs (skip_all r urls st) = em_jobs st" "em_workers (skip_all r urls st) = em_workers st"
  "em_asked (skip_all r urls st) = em_asked st" "em_total (skip_all r urls st) = em_total st"
  "em_completed (skip_all r urls st) = em_completed st + length urls" "em_fetched (skip_all r urls st) = em_fetched st"
  "em_skipped (skip_all r urls st) = em_skipped st + length urls" "em_starts (skip_all r urls st) = em_starts st"
  by (induction urls arbitrary: st) (simp_all add: store_item_def)

lemma skip_all_cache: "cache_of (skip_all r urls st) u = (if u \<in> set urls then Some r else cache_of st u)"
  by (induction urls arbitrary: st) (simp_all add: store_item_def)

lemma begin_cases:
  obtains (paused) r st where "enrich_begin cfg clock now ls er = skip_all r (missing_of cfg clock ls er) st"
      "em_jobs st = []" "em_workers st = []" "em_total st = length (missing_of cfg clock ls er)" "em_completed st = 0"
      "em_fetched st = 0" "em_skipped st = 0" "em_asked st = []" "em_starts st = []"
  | (working) "em_jobs (enrich_begin cfg clock now ls er) = missing_of cfg clock ls er"
      "em_workers (enrich_begin cfg clock now ls er) = replicate (worker_count cfg (length (missing_of cfg clock ls er))) Idle"
      "em_total (enrich_begin cfg clock now ls er) = length (missing_of cfg clock ls er)"
      "em_completed (enrich_begin cfg clock now ls er) = 0" "em_fetched (enrich_begin cfg clock now ls er) = 0"
      "em_skipped (enrich_begin cfg clock now ls er) = 0" "em_asked (enrich_begin cfg clock now ls er) = []"
      "em_starts (enrich_begin cfg clock now ls er) = []"
proof -
  obtain er1 cached missing where m: "missing_urls cfg clock 0 (map (\<lambda>l. trim_space (li_url l)) ls) [] 0 [] er = (er1, cached, missing)"
    by (metis prod_cases3)
  obtain er2 p where a: "active_pause now er1 = (er2, p)" by fastforce
  have mo: "missing_of cfg clock ls er = missing" using m by (simp add: missing_of_def)
  show ?thesis
  proof (cases p)
    case None
    show ?thesis using m a mo None by (intro working) (simp_all add: enrich_begin_def Let_def)
  next
    case (Some block)
    let ?st = "\<lparr>em_er = er2, em_jobs = missing, em_workers = replicate (worker_count cfg (length missing)) Idle,
        em_total = length missing, em_cached = cached, em_completed = 0, em_fetched = 0, em_skipped = 0,
        em_reported = False, em_progress = [], em_starts = [], em_asked = []\<rparr>"
    let ?st1 = "report_pause block (?st\<lparr>em_progress := [progress_now ProgressStart None 0 ?st], em_jobs := [], em_workers := []\<rparr>)"
    show ?thesis
      using m a mo Some by (intro paused [of "paused_detail_result cfg block" ?st1]) (simp_all add: enrich_begin_def Let_def)
  qed
qed

lemma begin_invs:
  "counts_inv (missing_of cfg clock ls er) (enrich_begin cfg clock now ls er)"
  "asked_inv (missing_of cfg clock ls er) (enrich_begin cfg clock now ls er)"
  "answered_inv (missing_of cfg clock ls er) (enrich_begin cfg clock now ls er)"
  "work_left (enrich_begin cfg clock now ls er) \<le> 7 * length (missing_of cfg clock ls er)"
     apply (cases rule: begin_cases [of cfg clock now ls er])
      apply (simp add: counts_inv_def skip_all_fields sum_of_def)
     apply (simp add: counts_inv_def)
    apply (cases rule: begin_cases [of cfg clock now ls er])
     apply (simp add: asked_inv_def skip_all_fields sum_of_def)
    apply (simp add: asked_inv_def)
   apply (cases rule: begin_cases [of cfg clock now ls er])
    apply (simp add: answered_inv_def skip_all_fields skip_all_cache sum_of_def)
   apply (simp add: answered_inv_def)
  apply (cases rule: begin_cases [of cfg clock now ls er])
   apply (simp add: work_left_def skip_all_fields sum_of_def)
  apply (simp add: work_left_def)
  done

lemma missing_urls_distinct:
  assumes "missing_urls cfg clock i urls seen cached missing er = (er1, n, out)" "distinct missing" "set missing \<subseteq> set seen"
  shows "distinct out \<and> [] \<notin> set out - set missing"
  using assms
proof (induction urls arbitrary: i seen cached missing er)
  case Nil
  then show ?case by simp
next
  case (Cons url urls)
  obtain er2 r where c: "cached_result (clock i) url er = (er2, r)" by fastforce
  show ?case
  proof (cases "url = [] \<or> url \<in> set seen")
    case True
    then have "missing_urls cfg clock (Suc i) urls seen cached missing er = (er1, n, out)" using Cons.prems(1) by simp
    then show ?thesis using Cons.IH Cons.prems(2,3) by blast
  next
    case False
    show ?thesis
    proof (cases r)
      case (Some x)
      then show ?thesis using Cons.prems False c Cons.IH [of "Suc i" "url # seen" "Suc cached" missing er2] by auto
    next
      case None
      show ?thesis
      proof (cases "load_persistent cfg (clock i) url er2")
        case (Some x)
        then show ?thesis
          using Cons.prems False c None Cons.IH [of "Suc i" "url # seen" "Suc cached" missing "store_result url x er2"] by auto
      next
        case none: None
        then show ?thesis
          using Cons.prems False c None Cons.IH [of "Suc i" "url # seen" cached "missing @ [url]" er2] by auto
      qed
    qed
  qed
qed

lemma missing_distinct: "distinct (missing_of cfg clock ls er)"
proof -
  obtain er1 n out where "missing_urls cfg clock 0 (map (\<lambda>l. trim_space (li_url l)) ls) [] 0 [] er = (er1, n, out)"
    by (metis prod_cases3)
  then show ?thesis using missing_urls_distinct [of cfg clock 0 _ "[]" 0 "[]" er er1 n out] by (simp add: missing_of_def)
qed

section \<open>Theorems\<close>

lemma run_invs:
  assumes "enrichment_run cfg (enrich_begin cfg clock now ls er) lbs st"
  shows "counts_inv (missing_of cfg clock ls er) st" "asked_inv (missing_of cfg clock ls er) st"
    "answered_inv (missing_of cfg clock ls er) st"
  using counts.run_keeps [OF assms begin_invs(1)] asked.run_keeps [OF assms begin_invs(2)]
    answered.run_keeps [OF assms begin_invs(3)] by blast+

lemma idle_sums: "list_all (\<lambda>ph. ph = Idle) ws \<Longrightarrow> sum_of busy ws = 0 \<and> sum_of (unanswered u) ws = 0"
  by (auto simp: sum_of_zero list_all_iff)

lemma worker_count_pos: "0 < n \<Longrightarrow> 0 < worker_count cfg n"
  by (simp add: worker_count_def)

text \<open>The workers of an enrichment always come to an end: whatever their interleaving, the answers and the
  clock, they make at most seven steps per missing page, and they are never stuck before all of them are
  done, for then some worker has a step it can make.\<close>

theorem enrichment_ends:
  assumes "enrichment_run cfg (enrich_begin cfg clock now ls er) lbs st"
  shows "length lbs \<le> 7 * length (missing_of cfg clock ls er)
     \<and> (\<not> finished st \<longrightarrow> (\<exists>lb st1. worker_step cfg lb st = Some st1))"
proof
  show "length lbs \<le> 7 * length (missing_of cfg clock ls er)"
    using run_length [OF assms] begin_invs(4) [of cfg clock now ls er] by linarith
  have counts: "counts_inv (missing_of cfg clock ls er) st" using run_invs [OF assms] by blast
  have workers: "length (em_workers st) = length (em_workers (enrich_begin cfg clock now ls er))"
    using assms by (induction rule: enrichment_run.induct) (auto elim!: worker_step_cases dest: moves_tot)
  show "\<not> finished st \<longrightarrow> (\<exists>lb st1. worker_step cfg lb st = Some st1)"
  proof
    assume "\<not> finished st"
    then consider w where "w < length (em_workers st)" "em_workers st ! w \<noteq> Idle"
      | "em_jobs st \<noteq> []" "\<forall>w < length (em_workers st). em_workers st ! w = Idle"
      by (auto simp: finished_def list_all_length)
    then show "\<exists>lb st1. worker_step cfg lb st = Some st1"
    proof cases
      case (1 w)
      then have ph: "phase w st = Some (em_workers st ! w)" by (simp add: phase_def)
      show ?thesis
      proof (cases "em_workers st ! w")
        case (Holding url)
        then have "worker_step cfg (FirstCheck w now) st \<noteq> None" using ph by simp
        then show ?thesis by blast
      next
        case (Cleared url)
        then have "worker_step cfg (Reserve w now) st \<noteq> None" using ph by (simp split: prod.split)
        then show ?thesis by blast
      next
        case (Sleeping url b)
        then have "worker_step cfg (Wake w None) st \<noteq> None" using ph by simp
        then show ?thesis by blast
      next
        case (Awake url)
        then have "worker_step cfg (SecondCheck w now) st \<noteq> None" using ph by simp
        then show ?thesis by blast
      next
        case (Asking url)
        then have "worker_step cfg (Answer w now (Inl (Plain [])) undefined) st \<noteq> None" using ph by (simp split: prod.split)
        then show ?thesis by blast
      next
        case (Answered url r)
        then have "worker_step cfg (Settle w) st \<noteq> None" using ph by (simp add: Let_def split: prod.split)
        then show ?thesis by blast
      qed (use 1 in simp)
    next
      case 2
      have jobs: "length (em_jobs st) \<le> length (missing_of cfg clock ls er)" using counts by (simp add: counts_inv_def)
      have idle: "sum_of busy (em_workers st) = 0"
        using 2(2) by (auto simp: sum_of_zero in_set_conv_nth)
      have "em_workers st \<noteq> []"
      proof (cases rule: begin_cases [of cfg clock now ls er])
        case (paused r st0)
        have "em_completed (enrich_begin cfg clock now ls er) = length (missing_of cfg clock ls er)"
          using paused by (simp add: skip_all_fields)
        moreover have "em_completed (enrich_begin cfg clock now ls er) \<le> em_completed st"
          using assms by (induction rule: enrichment_run.induct) (auto elim!: worker_step_cases simp: counts_kept_def counts_up_def)
        ultimately have "length (em_jobs st) = 0" using counts unfolding counts_inv_def by linarith
        then show ?thesis using 2(1) by simp
      next
        case working
        have "0 < length (em_jobs st)" using 2(1) by simp
        then have "0 < length (missing_of cfg clock ls er)" using jobs by linarith
        then have "0 < length (em_workers st)" using workers working(2) worker_count_pos by simp
        then show ?thesis by simp
      qed
      then have "phase 0 st = Some Idle" using 2(2) by (simp add: phase_def)
      then have "worker_step cfg (Take 0) st \<noteq> None" using 2(1) by (cases "em_jobs st") simp_all
      then show ?thesis by blast
    qed
  qed
qed

text \<open>When the workers are done, every missing page has an answer in the cache, and the counts of the last
  progress message add up: every page is completed, and each was either fetched or skipped.\<close>

theorem all_answered:
  assumes "enrichment_run cfg (enrich_begin cfg clock now ls er) lbs st" "finished st"
  shows "(\<forall>u \<in> set (missing_of cfg clock ls er). er_cache (em_er st) u \<noteq> None)
     \<and> em_completed st = em_total st \<and> em_fetched st + em_skipped st = em_total st
     \<and> em_total st = length (missing_of cfg clock ls er)"
proof -
  have fin: "em_jobs st = []" "\<And>u. sum_of busy (em_workers st) = 0 \<and> sum_of (unanswered u) (em_workers st) = 0"
    using assms(2) idle_sums by (auto simp: finished_def)
  show ?thesis
    using run_invs [OF assms(1)] fin by (auto simp: counts_inv_def answered_inv_def)
qed

text \<open>No page is requested twice by an enrichment, and no page is requested that was in the cache or on disk,
  however the workers interleave and whatever they are answered.\<close>

theorem pages_asked_once:
  assumes "enrichment_run cfg (enrich_begin cfg clock now ls er) lbs st"
  shows "distinct (em_asked st) \<and> set (em_asked st) \<subseteq> set (missing_of cfg clock ls er)"
proof -
  have le: "count_list (em_asked st) u \<le> count_list (missing_of cfg clock ls er) u" for u
    using run_invs(2) [OF assms] unfolding asked_inv_def by (meson add_leE)
  have "count_list xs u \<le> 1" if "distinct xs" for xs :: "string list" and u
    using that by (induction xs) (auto simp: count_list_0_iff)
  then have "count_list (em_asked st) u \<le> 1" for u
    using le [of u] missing_distinct [of cfg clock ls er] by (meson le_trans)
  moreover have "distinct xs" if "\<And>u. count_list xs u \<le> 1" for xs :: "string list"
    using that
  proof (induction xs)
    case (Cons x xs)
    have "count_list xs u \<le> 1" for u using Cons.prems [of u] by (auto split: if_splits)
    moreover have "x \<notin> set xs" using Cons.prems [of x] by (simp add: count_list_0_iff)
    ultimately show ?case using Cons.IH by simp
  qed simp
  moreover have "u \<in> set (missing_of cfg clock ls er)" if "u \<in> set (em_asked st)" for u
    using le [of u] that by (metis count_list_0_iff le_zero_eq)
  ultimately show ?thesis by blast
qed

section \<open>Pauses\<close>

text \<open>The times at which workers look for a pause.\<close>

fun check_time :: "label \<Rightarrow> int option" where
  "check_time (FirstCheck w now) = Some now"
| "check_time (SecondCheck w now) = Some now"
| "check_time _ = None"

definition paused_until :: "int \<Rightarrow> enricher \<Rightarrow> bool" where
  "paused_until until er \<longleftrightarrow> dr_err (er_blocked er) \<noteq> None \<and> 0 < until \<and> until \<le> dr_retry_after (er_blocked er)"

lemma paused_check:
  "paused_until until er \<Longrightarrow> now < until \<Longrightarrow> active_pause now er = (er, Some (er_blocked er))"
  by (auto simp: paused_until_def active_pause_def)

lemma pause_kept:
  assumes "paused_until until er" "pause_after_retryable r er = (er1, b, c)" shows "paused_until until er1"
proof (cases "dr_err r")
  case None
  then show ?thesis using assms by (simp add: pause_after_retryable_def)
next
  case (Some e)
  then show ?thesis
    using assms unfolding pause_after_retryable_def paused_until_def Let_def
    by (cases "dr_retry_after r = 0 \<or> \<not> retryable_detail_error e"; cases "dr_retry_after r > dr_retry_after (er_blocked er)") auto
qed

lemma paused_pause_check:
  "paused_until until (em_er st) \<Longrightarrow> now < until \<Longrightarrow>
     pause_check cfg w url now go st
     = set_worker w Idle (store_item url False (paused_detail_result cfg (er_blocked (em_er st))) st)"
  by (simp add: pause_check_def paused_check)

lemma paused_step:
  assumes "worker_step cfg lb st = Some st1" "paused_until until (em_er st)" "\<And>t. check_time lb = Some t \<Longrightarrow> t < until"
  shows "paused_until until (em_er st1) \<and> em_asked st1 = em_asked st"
proof (cases lb)
  case (Take w)
  then show ?thesis using assms by (auto split: option.splits worker.splits list.splits)
next
  case (FirstCheck w now)
  then obtain url where "st1 = pause_check cfg w url now (set_worker w (Cleared url)) st"
    using assms by (auto split: option.splits worker.splits)
  moreover have "now < until" using assms(3) FirstCheck by simp
  ultimately have "st1 = set_worker w Idle (store_item url False (paused_detail_result cfg (er_blocked (em_er st))) st)"
    using assms(2) by (simp add: paused_pause_check)
  then show ?thesis using assms(2) by (simp add: store_item_def paused_until_def)
next
  case (Reserve w now)
  then obtain url er start where "reserve_turn cfg now (em_er st) = (er, start)"
      "st1 = set_worker w (Sleeping url (now < start)) (st\<lparr>em_er := er, em_starts := start # em_starts st\<rparr>)"
    using assms(1) by (auto split: option.splits worker.splits prod.splits)
  then show ?thesis using assms(2) by (simp add: paused_until_def)
next
  case (Wake w cancelled)
  then obtain url r ph where "st1 = set_worker w Idle (store_item url True r st) \<or> st1 = set_worker w ph st"
    using assms(1) by (auto split: option.splits worker.splits)
  then show ?thesis using assms(2) by (auto simp: store_item_def paused_until_def)
next
  case (SecondCheck w now)
  then obtain url where "st1 = pause_check cfg w url now (\<lambda>st1. set_worker w (Asking url) (st1\<lparr>em_asked := url # em_asked st1\<rparr>)) st"
    using assms by (auto split: option.splits worker.splits)
  moreover have "now < until" using assms(3) SecondCheck by simp
  ultimately have "st1 = set_worker w Idle (store_item url False (paused_detail_result cfg (er_blocked (em_er st))) st)"
    using assms(2) by (simp add: paused_pause_check)
  then show ?thesis using assms(2) by (simp add: store_item_def paused_until_def)
next
  case (Answer w now ans inp)
  then obtain url er r where "finish_request cfg url now ans inp (em_er st) = (er, r)"
      "st1 = set_worker w (Answered url r) (st\<lparr>em_er := er\<rparr>)"
    using assms(1) by (auto split: option.splits worker.splits prod.splits)
  then show ?thesis using assms(2) by (auto simp: finish_request_def Let_def paused_until_def)
next
  case (Settle w)
  then obtain url r where at: "phase w st = Some (Answered url r)"
    using assms by (auto split: option.splits worker.splits)
  obtain er b c where pa: "pause_after_retryable r (em_er st) = (er, b, c)" by (metis prod_cases3)
  have "st1 = set_worker w Idle (record_item True r (if c then report_pause b (st\<lparr>em_er := er\<rparr>) else st\<lparr>em_er := er\<rparr>))"
    using Settle at pa assms(1) by (simp add: Let_def)
  then show ?thesis using pause_kept [OF assms(2) pa] by simp
qed


section \<open>Pacing\<close>

fun spaced :: "int \<Rightarrow> int list \<Rightarrow> bool" where
  "spaced d (b # a # xs) = (a + d \<le> b \<and> spaced d (a # xs))"
| "spaced d _ = True"

definition pace_inv :: "int \<Rightarrow> enrichment \<Rightarrow> bool" where
  "pace_inv d st \<longleftrightarrow> spaced d (em_starts st) \<and> (em_starts st \<noteq> [] \<longrightarrow> hd (em_starts st) + d \<le> er_next_start (em_er st))"

lemma spaced_Cons: "spaced d (b # xs) \<longleftrightarrow> (xs \<noteq> [] \<longrightarrow> hd xs + d \<le> b) \<and> spaced d xs"
  by (cases xs) auto

lemma pause_check_pace:
  assumes "\<And>s. em_starts (go s) = em_starts s \<and> em_er (go s) = em_er s"
  shows "em_starts (pause_check cfg w url now go st) = em_starts st
    \<and> er_next_start (em_er (pause_check cfg w url now go st)) = er_next_start (em_er st)"
proof -
  obtain er b where "active_pause now (em_er st) = (er, b)" by fastforce
  then show ?thesis using assms by (cases b) (simp_all add: pause_check_def store_item_def)
qed

lemma pace_step:
  assumes "worker_step cfg lb st = Some st1" "pace_inv (ec_delay cfg) st" "0 < ec_delay cfg"
  shows "pace_inv (ec_delay cfg) st1"
proof (cases lb)
  case (Take w)
  then show ?thesis using assms by (auto simp: pace_inv_def split: option.splits worker.splits list.splits)
next
  case (FirstCheck w now)
  then show ?thesis
    using assms(1,2) by (auto simp: pace_inv_def pause_check_pace split: option.splits worker.splits)
next
  case (Reserve w now)
  then show ?thesis
    using assms by (auto simp: pace_inv_def reserve_turn_def spaced_Cons Let_def split: option.splits worker.splits)
next
  case (Wake w cancelled)
  then show ?thesis
    using assms(1,2) by (auto simp: pace_inv_def store_item_def split: option.splits worker.splits if_splits)
next
  case (SecondCheck w now)
  then show ?thesis
    using assms(1,2) by (auto simp: pace_inv_def pause_check_pace split: option.splits worker.splits)
next
  case (Answer w now ans inp)
  then show ?thesis
    using assms(1,2) by (auto simp: pace_inv_def finish_request_def Let_def split: option.splits worker.splits)
next
  case (Settle w)
  then obtain url r where at: "phase w st = Some (Answered url r)"
    using assms by (auto split: option.splits worker.splits)
  obtain er b c where pa: "pause_after_retryable r (em_er st) = (er, b, c)" by (metis prod_cases3)
  have "st1 = set_worker w Idle (record_item True r (if c then report_pause b (st\<lparr>em_er := er\<rparr>) else st\<lparr>em_er := er\<rparr>))"
    using Settle at pa assms(1) by (simp add: Let_def)
  then show ?thesis using pause_after_fields [OF pa] assms(2) by (simp add: pace_inv_def)
qed


end
