(* ===== verification/Detail_Enricher_Props.thy ===== *)
theory Detail_Enricher_Props
  imports Detail_Workers_Props
begin

text \<open>
  The sequential recency pass as one interleaving of a single worker, what an enrichment makes of the
  listings, and what a later command finds on disk of an earlier one.
\<close>

text \<open>The cache of the enricher keeps the contract of an honest cache.\<close>

interpretation page_cache: honest_cache "\<lambda>(url, r) er. store_result url r er" fst snd "\<lambda>url er. er_cache er url"
  by unfold_locales (auto split: if_splits)

section \<open>The recency pass\<close>

text \<open>The labels of one worker that goes through a URL the way a turn does.\<close>

definition turn_labels :: "turn \<Rightarrow> label list" where
  "turn_labels t =
     [Take 0, FirstCheck 0 (tn_first t), Reserve 0 (tn_reserve t), Wake 0 (tn_wait t), SecondCheck 0 (tn_second t),
      Answer 0 (tn_answered t) (tn_answer t) (tn_save t), Settle 0]"

lemma run_then: "enrichment_run cfg st lbs st1 \<Longrightarrow> enrichment_run cfg st1 lbs2 st2 \<Longrightarrow> enrichment_run cfg st (lbs @ lbs2) st2"
  by (induction rule: enrichment_run.induct) (auto intro: run_step)

text \<open>The labels up to where the turn stops: at a pause, at a cancelled wait, or after the answer.\<close>

definition turn_length :: "enricher_config \<Rightarrow> turn \<Rightarrow> enricher \<Rightarrow> nat" where
  "turn_length cfg t er =
     (case active_pause (tn_first t) er of
        (er1, Some _) \<Rightarrow> 2
      | (er1, None) \<Rightarrow>
          (case reserve_turn cfg (tn_reserve t) er1 of
             (er2, start) \<Rightarrow>
               if \<not> start \<le> tn_reserve t \<and> tn_wait t \<noteq> None then 4
               else (case active_pause (tn_second t) er2 of (er3, Some _) \<Rightarrow> 5 | _ \<Rightarrow> 7)))"

lemma run_of_one: "worker_step cfg lb st = Some st1 \<Longrightarrow> enrichment_run cfg st1 lbs st2 \<Longrightarrow> enrichment_run cfg st (lb # lbs) st2"
  by (rule run_step)

lemma single_phase: "em_workers st = [ph] \<Longrightarrow> phase 0 st = Some ph"
  by (simp add: phase_def)

definition after_run :: "enricher_config \<Rightarrow> enrichment \<Rightarrow> label list \<Rightarrow> (enrichment \<Rightarrow> bool) \<Rightarrow> bool" where
  "after_run cfg st lbs P \<longleftrightarrow> (\<exists>st2. enrichment_run cfg st lbs st2 \<and> P st2)"

lemma after_run_simps:
  "P st \<Longrightarrow> after_run cfg st [] P"
  "worker_step cfg lb st = Some st1 \<Longrightarrow> after_run cfg st1 lbs P \<Longrightarrow> after_run cfg st (lb # lbs) P"
  by (auto simp: after_run_def intro: run_stop run_step)

lemma turn_is_run:
  assumes "em_workers st = [Idle]" "em_jobs st = url # urls" "recency_turn cfg t url (em_er st) = (er1, out)"
  shows "after_run cfg st (take (turn_length cfg t (em_er st)) (turn_labels t))
           (\<lambda>st2. em_er st2 = er1 \<and> em_jobs st2 = urls \<and> em_workers st2 = [Idle])"
proof -
  let ?st1 = "set_worker 0 (Holding url) (st\<lparr>em_jobs := urls\<rparr>)"
  have one: "worker_step cfg (Take 0) st = Some ?st1" using assms(1,2) by (simp add: phase_def)
  obtain era p where first: "active_pause (tn_first t) (em_er st) = (era, p)" by fastforce
  have two: "worker_step cfg (FirstCheck 0 (tn_first t)) ?st1
      = Some (pause_check cfg 0 url (tn_first t) (set_worker 0 (Cleared url)) ?st1)"
    using assms(1) by (simp add: phase_def)
  show ?thesis
  proof (cases p)
    case (Some block)
    then show ?thesis
      using first assms one two
      by (auto simp: turn_length_def turn_labels_def recency_turn_def skip_paused_def pause_check_def store_item_def numeral_2_eq_2
          intro!: after_run_simps)
  next
    case none: None
    let ?st2 = "set_worker 0 (Cleared url) (?st1\<lparr>em_er := era\<rparr>)"
    have two': "worker_step cfg (FirstCheck 0 (tn_first t)) ?st1 = Some ?st2"
      using two first none by (simp add: pause_check_def)
    obtain erb start where res: "reserve_turn cfg (tn_reserve t) era = (erb, start)" by fastforce
    let ?st3 = "set_worker 0 (Sleeping url (tn_reserve t < start)) (?st2\<lparr>em_er := erb, em_starts := start # em_starts ?st2\<rparr>)"
    have three: "worker_step cfg (Reserve 0 (tn_reserve t)) ?st2 = Some ?st3"
      using assms(1) res by (simp add: phase_def)
    have at3: "phase 0 ?st3 = Some (Sleeping url (tn_reserve t < start))" using assms(1) by (simp add: phase_def)
    show ?thesis
    proof (cases "if start \<le> tn_reserve t then None else tn_wait t")
      case (Some err)
      let ?r = "\<lparr>dr_page = None, dr_err = Some (Direct err), dr_retry_after = 0\<rparr>"
      have four: "worker_step cfg (Wake 0 (tn_wait t)) ?st3 = Some (set_worker 0 Idle (store_item url True ?r ?st3))"
        using at3 Some by (auto split: if_splits)
      have len: "turn_length cfg t (em_er st) = 4" using first none res Some by (simp add: turn_length_def split: if_splits)
      have er1: "er1 = store_result url ?r erb" using assms(3) first none res Some by (simp add: recency_turn_def)
      show ?thesis
        unfolding len turn_labels_def using assms(1) er1
        by (auto simp: store_item_def eval_nat_numeral intro!: after_run_simps one two' three four)
    next
      case wake: None
      let ?st4 = "set_worker 0 (Awake url) ?st3"
      have four: "worker_step cfg (Wake 0 (tn_wait t)) ?st3 = Some ?st4"
        using at3 wake by (auto split: if_splits)
      have at4: "phase 0 ?st4 = Some (Awake url)" using assms(1) by (simp add: phase_def)
      obtain erc q where second: "active_pause (tn_second t) erb = (erc, q)" by fastforce
      have nowait: "\<not> (\<not> start \<le> tn_reserve t \<and> tn_wait t \<noteq> None)" using wake by (auto split: if_splits)
      have five: "worker_step cfg (SecondCheck 0 (tn_second t)) ?st4
          = Some (pause_check cfg 0 url (tn_second t) (\<lambda>s. set_worker 0 (Asking url) (s\<lparr>em_asked := url # em_asked s\<rparr>)) ?st4)"
        using at4 by simp
      show ?thesis
      proof (cases q)
        case (Some block)
        let ?st5 = "set_worker 0 Idle (store_item url False (paused_detail_result cfg block) (?st4\<lparr>em_er := erc\<rparr>))"
        have five': "worker_step cfg (SecondCheck 0 (tn_second t)) ?st4 = Some ?st5"
          using five second Some by (simp add: pause_check_def)
        have len: "turn_length cfg t (em_er st) = 5"
          using first none res nowait second Some by (simp add: turn_length_def)
        have er1: "er1 = store_result url (paused_detail_result cfg block) erc"
          using assms(3) first none res wake second Some by (simp add: recency_turn_def skip_paused_def)
        show ?thesis
          unfolding len turn_labels_def using assms(1) er1
          by (auto simp: store_item_def eval_nat_numeral intro!: after_run_simps one two' three four five')
      next
        case go: None
        let ?st5 = "set_worker 0 (Asking url) (?st4\<lparr>em_er := erc, em_asked := url # em_asked ?st4\<rparr>)"
        have five': "worker_step cfg (SecondCheck 0 (tn_second t)) ?st4 = Some ?st5"
          using five second go by (simp add: pause_check_def)
        obtain erd r where ans: "finish_request cfg url (tn_answered t) (tn_answer t) (tn_save t) erc = (erd, r)" by fastforce
        let ?st6 = "set_worker 0 (Answered url r) (?st5\<lparr>em_er := erd\<rparr>)"
        have six: "worker_step cfg (Answer 0 (tn_answered t) (tn_answer t) (tn_save t)) ?st5 = Some ?st6"
          using assms(1) ans by (simp add: phase_def)
        obtain ere block changed where pa: "pause_after_retryable r erd = (ere, block, changed)" by (metis prod_cases3)
        let ?st7 = "set_worker 0 Idle (record_item True r (if changed then report_pause block (?st6\<lparr>em_er := ere\<rparr>) else ?st6\<lparr>em_er := ere\<rparr>))"
        have seven: "worker_step cfg (Settle 0) ?st6 = Some ?st7"
          using assms(1) pa by (simp add: phase_def Let_def)
        have len: "turn_length cfg t (em_er st) = 7"
          using first none res nowait second go by (simp add: turn_length_def)
        have er1: "er1 = ere"
          using assms(3) first none res wake second go ans pa by (simp add: recency_turn_def)
        have "em_er ?st7 = er1 \<and> em_jobs ?st7 = urls \<and> em_workers ?st7 = [Idle]" using assms(1) er1 by simp
        then show ?thesis
          unfolding len turn_labels_def
          by (auto simp: eval_nat_numeral intro!: after_run_simps one two' three four five' six seven)
      qed
    qed
  qed
qed

definition one_worker :: "string list \<Rightarrow> enricher \<Rightarrow> enrichment" where
  "one_worker urls er =
     \<lparr>em_er = er, em_jobs = urls, em_workers = [Idle], em_total = length urls, em_cached = 0, em_completed = 0, em_fetched = 0,
      em_skipped = 0, em_reported = False, em_progress = [], em_starts = [], em_asked = []\<rparr>"

lemma turns_are_run:
  assumes "em_workers st = [Idle]" "em_jobs st = urls" "recency_turns cfg turns i urls (em_er st) = (er1, outs)"
  shows "\<exists>lbs st2. enrichment_run cfg st lbs st2 \<and> em_er st2 = er1 \<and> finished st2"
  using assms
proof (induction urls arbitrary: i st er1 outs)
  case Nil
  then have "finished st" "em_er st = er1" by (simp_all add: finished_def)
  then show ?case using run_stop [of cfg st] by blast
next
  case (Cons url urls)
  obtain er0 out where turn: "recency_turn cfg (turns i) url (em_er st) = (er0, out)" by fastforce
  obtain er2 outs2 where rest: "recency_turns cfg turns (Suc i) urls er0 = (er2, outs2)" by fastforce
  obtain lbs1 st1 where run: "enrichment_run cfg st lbs1 st1" "em_er st1 = er0" "em_jobs st1 = urls" "em_workers st1 = [Idle]"
    using turn_is_run [OF Cons.prems(1,2) turn] by (auto simp: after_run_def)
  obtain lbs2 st2 where "enrichment_run cfg st1 lbs2 st2" "em_er st2 = er2" "finished st2"
    using Cons.IH [OF run(4,3)] rest run(2) by blast
  then show ?case using run_then [OF run(1)] Cons.prems(3) turn rest by auto
qed

text \<open>C14: The sequential recency pass is an enrichment with one worker: for every outcome of its requests, waits and
  clock readings there is a run of a single worker over the same URLs that ends with all of them done and
  leaves the enricher, its cache, pause, pacing and disk files included, in the very same state.\<close>

theorem recency_refines_workers:
  assumes "recency_turns cfg turns 0 urls er = (er1, outs)"
  shows "\<exists>lbs st. enrichment_run cfg (one_worker urls er) lbs st \<and> em_er st = er1 \<and> finished st"
  using assms by (intro turns_are_run) (simp_all add: one_worker_def)

section \<open>The listings\<close>

definition without_recency :: "listing \<Rightarrow> listing" where
  "without_recency l = l\<lparr>li_days_on_zillow := None, li_listed_date := [], li_updated_date := []\<rparr>"

lemma backfill_spec:
  "backfill clock i ls er = (er1, ls1) \<Longrightarrow>
     map without_recency ls1 = map without_recency ls
     \<and> list_all2 (\<lambda>l l1. li_days_on_zillow l \<noteq> None \<longrightarrow> l1 = l) ls ls1"
proof (induction ls arbitrary: i er er1 ls1)
  case Nil
  then show ?case by simp
next
  case (Cons l ls)
  then show ?case
    by (auto simp: without_recency_def recency_facts_def Let_def split: if_splits prod.splits option.splits)
qed

text \<open>The recency pass is not destructive: it returns the same listings in the same order, differing at most in
  the three recency fields, and a listing whose days were known comes back unchanged, whatever the pages say
  and however many of them are missing, challenged or paused.\<close>

theorem recency_only_fills:
  "let ls1 = fst (snd (enrich_recency cfg clock turns later ls er)) in
     map without_recency ls1 = map without_recency ls \<and> length ls1 = length ls
     \<and> (\<forall>i \<in> {..<length ls}. li_days_on_zillow (ls ! i) = None \<or> ls1 ! i = ls ! i)"
proof -
  let ?out = "enrich_recency cfg clock turns later ls er"
  have "fst (snd ?out) = ls \<or> (\<exists>er2 er3. backfill later 0 ls er2 = (er3, fst (snd ?out)))"
    by (auto simp: enrich_recency_def split: prod.splits)
  then have spec: "map without_recency (fst (snd ?out)) = map without_recency ls
      \<and> list_all2 (\<lambda>l l1. li_days_on_zillow l \<noteq> None \<longrightarrow> l1 = l) ls (fst (snd ?out))"
    using backfill_spec by (auto simp: list_all2_same)
  then have "length (fst (snd ?out)) = length ls" by (auto dest: list_all2_lengthD)
  then show ?thesis using spec by (auto simp: Let_def list_all2_conv_all_nth)
qed

definition detailed :: "listing \<Rightarrow> bool" where
  "detailed l \<longleftrightarrow> li_detail_status l = ''enriched'' \<or> li_detail_status l = ''unavailable'' \<and> li_detail_error l \<noteq> []"

lemma merge_status [simp]:
  "li_detail_status (merge_property_details p l) = ''enriched''"
  "li_detail_status (merge_community_property_details p l) = ''enriched''"
  by (simp_all add: merge_property_details_def merge_facts_def merge_community_property_details_def Let_def)

lemma expand_page_detailed: "expand_page pg l \<noteq> [] \<and> list_all detailed (expand_page pg l)"
  by (auto simp: expand_page_def mark_details_unavailable_def detailed_def Let_def list_all_iff split: list.splits)

lemma expand_listings_groups:
  "expand_listings clock i ls er = (er1, out) \<Longrightarrow> list_all2 (\<lambda>l g. g \<noteq> [] \<and> list_all (\<lambda>x. li_detail_status x \<in> {''enriched'', ''unavailable''}) g) ls out"
proof (induction ls arbitrary: i er er1 out)
  case Nil
  then show ?case by simp
next
  case (Cons l ls)
  have page: "expand_page pg l \<noteq> [] \<and> list_all (\<lambda>x. li_detail_status x \<in> {''enriched'', ''unavailable''}) (expand_page pg l)" for pg
    using expand_page_detailed [of pg l] by (auto simp: detailed_def list_all_iff)
  have unavailable: "li_detail_status (mark_details_unavailable s l) = ''unavailable''" for s
    by (simp add: mark_details_unavailable_def)
  have result: "expand_result r l \<noteq> [] \<and> list_all (\<lambda>x. li_detail_status x \<in> {''enriched'', ''unavailable''}) (expand_result r l)" for r
    using page unavailable by (simp add: expand_result_def split: option.split)
  show ?case
  proof (cases "trim_space (li_url l) = []")
    case True
    then show ?thesis using Cons unavailable by (auto split: prod.splits)
  next
    case False
    then show ?thesis using Cons result unavailable by (auto split: prod.splits option.splits)
  qed
qed

text \<open>An enrichment loses no listing: its result is one group per listing, in order, none of them empty, and every
  listing in it says whether its details were read or are unavailable.\<close>

theorem enrichment_keeps_listings:
  "\<exists>groups. fst (snd (enrich_end clock ls st)) = concat groups \<and>
     list_all2 (\<lambda>l g. g \<noteq> [] \<and> list_all (\<lambda>x. li_detail_status x \<in> {''enriched'', ''unavailable''}) g) ls groups"
proof -
  obtain er1 out where e: "expand_listings clock 0 ls (em_er st) = (er1, out)" by fastforce
  then have "fst (snd (enrich_end clock ls st)) = concat out" by (simp add: enrich_end_def)
  then show ?thesis using expand_listings_groups [OF e] by blast
qed

section \<open>What the next command finds\<close>

text \<open>A result as the next command sees it: the text and class of an error, not its structure.\<close>

definition same_for_next :: "detail_result \<Rightarrow> detail_result \<Rightarrow> bool" where
  "same_for_next r r1 \<longleftrightarrow>
     dr_page r1 = dr_page r \<and> dr_retry_after r1 = dr_retry_after r
     \<and> map_option detail_error_text (dr_err r1) = map_option detail_error_text (dr_err r)
     \<and> map_option retryable_detail_error (dr_err r1) = map_option retryable_detail_error (dr_err r)"

lemma record_read_back:
  assumes "record_of_result (new_detail_fetch_result cfg now answer) = Some rec"
    and "case answer of Inr pg \<Rightarrow> True | Inl e \<Rightarrow> error_text e \<noteq> [] \<and> later < dr_retry_after (new_detail_fetch_result cfg now answer)"
  shows "\<exists>r1. result_of_record later rec = Some r1 \<and> same_for_next (new_detail_fetch_result cfg now answer) r1"
proof (cases answer)
  case (Inr pg)
  then show ?thesis
    using assms(1)
    by (auto simp: new_detail_fetch_result_def record_of_result_def result_of_record_def ok_result_def same_for_next_def)
next
  case (Inl e)
  have not_both: "error_is e ErrSchemaDrift \<Longrightarrow> \<not> error_is e ErrChallenge \<and> \<not> error_is e ErrRateLimited"
    using error_is_unique [of e] by blast
  have either: "error_is e ErrChallenge \<Longrightarrow> \<not> error_is e ErrRateLimited"
    using error_is_unique [of e] by blast
  define r where "r = new_detail_fetch_result cfg now answer"
  have r: "dr_page r = None" "dr_err r = Some (Direct e)" using Inl by (simp_all add: r_def new_detail_fetch_result_def)
  have cond: "error_text e \<noteq> []" "later < dr_retry_after r" using assms(2) Inl by (simp_all add: r_def)
  show ?thesis
    using assms(1) not_both either cond r unfolding r_def [symmetric]
    by (auto simp: record_of_result_def result_of_record_def same_for_next_def retryable_detail_error_def Let_def split: if_splits)
qed

text \<open>What one command fetched the next one finds. If the answer to a page request is worth keeping and writing
  it fails nowhere, a command that starts later within the lifetime of the cache reads the same page, or the
  same error text with the same retry time and the same need to pause, from the files alone, provided
  its retry time is not over.\<close>

theorem fetched_is_found_later:
  assumes "cache_save (ec_env cfg) (ec_disk cfg) (si_now inp) (si_faults inp) (si_random inp) url
             (record_of_result (new_detail_fetch_result cfg now answer)) (er_files er) = (None, trace)"
    and "record_of_result (new_detail_fetch_result cfg now answer) \<noteq> None" "ec_disk cfg = Some cache" "0 < dc_ttl cache"
    and "er_files er (temp_name (si_random inp)) = None" "trim_space url \<noteq> []" "faithful_codec (ec_env cfg)"
    and "ce_stat_error (ec_env cfg) (cache_path (ec_env cfg) url) = None" "ce_read_error (ec_env cfg) (cache_path (ec_env cfg) url) = None"
    and "0 < si_now inp" "si_now inp \<le> later" "later - si_now inp \<le> dc_ttl cache"
    and "case answer of Inr pg \<Rightarrow> True | Inl e \<Rightarrow> error_text e \<noteq> [] \<and> later < dr_retry_after (new_detail_fetch_result cfg now answer)"
  shows "\<exists>r1. load_persistent cfg later url (new_listing_detail_enricher
             (er_files (fst (finish_request cfg url now answer inp er)))) = Some r1
           \<and> same_for_next (new_detail_fetch_result cfg now answer) r1"
proof -
  let ?r = "new_detail_fetch_result cfg now answer"
  obtain rec where rec: "record_of_result ?r = Some rec" using assms(2) by blast
  have files: "er_files (fst (finish_request cfg url now answer inp er)) = last trace"
    using assms(1,3) rec by (simp add: finish_request_def Let_def store_result_def save_persistent_def)
  have "cache_load (ec_env cfg) (Some cache) later url (last trace) = Inr (Some rec)"
    using assms(1) rec assms(3) assms(7) unfolding faithful_codec_def
    by (intro save_then_load [of "ec_env cfg" cache "si_now inp" "si_faults inp" "si_random inp" url rec "er_files er" trace])
      (use assms in auto)
  then show ?thesis
    using record_read_back [OF rec assms(13)] assms(3) files
    by (simp add: load_persistent_def new_listing_detail_enricher_def)
qed

section \<open>A concrete enrichment\<close>

text \<open>Two pages and two workers; the first page is rate limited while the second worker waits for its turn.\<close>

fun run_labels :: "enricher_config \<Rightarrow> label list \<Rightarrow> enrichment \<Rightarrow> enrichment option" where
  "run_labels cfg [] st = Some st"
| "run_labels cfg (lb # lbs) st = (case worker_step cfg lb st of None \<Rightarrow> None | Some st1 \<Rightarrow> run_labels cfg lbs st1)"

lemma run_labels_run: "run_labels cfg lbs st = Some st2 \<Longrightarrow> enrichment_run cfg st lbs st2"
  by (induction lbs arbitrary: st) (auto intro: run_stop run_step split: option.splits)

definition sample_record :: property_record where
  "sample_record = \<lparr>pk_page = Some \<lparr>rp_kind = PropertyPage, rp_properties = []\<rparr>, pk_property = None, pk_error = [],
     pk_retry_after = 0, pk_retry_kind = []\<rparr>"

definition sample_page_entry :: cache_entry where
  "sample_page_entry = \<lparr>en_version = 1, en_stored_at = 10, en_key = ''u1'', en_value = ''record''\<rparr>"

definition sample_page_env :: "property_record cache_env" where
  "sample_page_env =
     \<lparr>ce_digest = (\<lambda>k. k), ce_encode_value = (\<lambda>v. if v = sample_record then Inr ''record'' else Inl ''unsupported''),
      ce_decode_value = (\<lambda>d. if d = ''record'' then Inr sample_record else Inl ''invalid''),
      ce_encode_entry = (\<lambda>e. if e = sample_page_entry then Inr ''{entry}'' else Inl ''unsupported''),
      ce_decode_entry = (\<lambda>d. if d = ''{entry}'' then Inr sample_page_entry else Inl ''invalid''),
      ce_windows = False, ce_stat_error = (\<lambda>_. None), ce_read_error = (\<lambda>_. None)\<rparr>"

definition sample_config :: enricher_config where
  "sample_config = \<lparr>ec_client = True, ec_workers = 2, ec_delay = 10, ec_disk = None, ec_env = sample_page_env, ec_format = itoa\<rparr>"

definition sample_inputs :: save_input where
  "sample_inputs = \<lparr>si_now = 10, si_faults = no_faults, si_random = ''7''\<rparr>"

definition sample_homes :: "listing list" where
  "sample_homes = [empty_listing\<lparr>li_url := ''u1''\<rparr>, empty_listing\<lparr>li_url := '' u2 ''\<rparr>, empty_listing\<lparr>li_url := ''u1''\<rparr>]"

definition sample_begin :: enrichment where
  "sample_begin = enrich_begin sample_config (\<lambda>i. 0) 0 sample_homes (new_listing_detail_enricher Map.empty)"

definition sample_first :: "label list" where
  "sample_first =
     [Take 0, FirstCheck 0 1, Reserve 0 1, Wake 0 None, SecondCheck 0 2, Take 1, FirstCheck 1 2, Reserve 1 3,
      Answer 0 5 (Inl (Sentinel ErrRateLimited)) sample_inputs, Settle 0]"

definition sample_second :: "label list" where
  "sample_second = [Wake 1 None, SecondCheck 1 12]"

definition sample_paused :: enrichment where
  "sample_paused = the (run_labels sample_config sample_first sample_begin)"

definition sample_end :: enrichment where
  "sample_end = the (run_labels sample_config sample_second sample_paused)"

lemma sample_runs:
  "enrichment_run sample_config sample_begin sample_first sample_paused"
  "enrichment_run sample_config sample_paused sample_second sample_end"
proof -
  have "run_labels sample_config sample_first sample_begin \<noteq> None" by code_simp
  then show "enrichment_run sample_config sample_begin sample_first sample_paused"
    by (intro run_labels_run) (auto simp: sample_paused_def)
  have "run_labels sample_config sample_second sample_paused \<noteq> None" by code_simp
  then show "enrichment_run sample_config sample_paused sample_second sample_end"
    by (intro run_labels_run) (auto simp: sample_end_def)
qed

lemmas sample_whole_run = run_then [OF sample_runs]

lemma sample_missing: "missing_of sample_config (\<lambda>i. 0) sample_homes (new_listing_detail_enricher Map.empty) = [''u1'', ''u2'']"
  by code_simp

lemma enrichment_ends_witness: "length (sample_first @ sample_second) \<le> 7 * length [''u1'', ''u2'']"
  using enrichment_ends [OF sample_whole_run [unfolded sample_begin_def]] unfolding sample_missing by blast

lemma all_answered_witness:
  "finished sample_end \<and> em_completed sample_end = 2 \<and> em_fetched sample_end = 1 \<and> em_skipped sample_end = 1
   \<and> er_cache (em_er sample_end) ''u2'' \<noteq> None"
proof -
  have fin: "finished sample_end" and counts: "em_fetched sample_end = 1" by code_simp+
  have "(\<forall>u \<in> set [''u1'', ''u2'']. er_cache (em_er sample_end) u \<noteq> None) \<and> em_completed sample_end = em_total sample_end
      \<and> em_fetched sample_end + em_skipped sample_end = em_total sample_end \<and> em_total sample_end = length [''u1'', ''u2'']"
    using all_answered [OF sample_whole_run [unfolded sample_begin_def] fin] unfolding sample_missing .
  then show ?thesis using fin counts by simp
qed

lemma pages_asked_once_witness: "em_asked sample_end = [''u1''] \<and> distinct (em_asked sample_end)"
proof -
  have "em_asked sample_end = [''u1'']" by code_simp
  then show ?thesis using pages_asked_once [OF sample_whole_run [unfolded sample_begin_def]] by blast
qed



definition sample_turn :: turn where
  "sample_turn = \<lparr>tn_first = 1, tn_reserve = 1, tn_wait = None, tn_second = 2,
     tn_answer = Inr \<lparr>rp_kind = PropertyPage, rp_properties = []\<rparr>, tn_answered = 3, tn_save = sample_inputs\<rparr>"

lemma recency_refines_workers_witness:
  "\<exists>lbs st. enrichment_run sample_config (one_worker [''u1''] (new_listing_detail_enricher Map.empty)) lbs st
     \<and> em_er st = fst (recency_turns sample_config (\<lambda>i. sample_turn) 0 [''u1''] (new_listing_detail_enricher Map.empty)) \<and> finished st"
  by (rule recency_refines_workers [OF surjective_pairing])

lemma fetched_is_found_later_witness:
  "\<exists>r1. load_persistent (sample_config\<lparr>ec_disk := Some sample_disk\<rparr>) 60 ''u1'' (new_listing_detail_enricher
       (er_files (fst (finish_request (sample_config\<lparr>ec_disk := Some sample_disk\<rparr>) ''u1'' 10
          (Inr \<lparr>rp_kind = PropertyPage, rp_properties = []\<rparr>) sample_inputs (new_listing_detail_enricher Map.empty))))) = Some r1
     \<and> dr_page r1 = Some \<lparr>rp_kind = PropertyPage, rp_properties = []\<rparr>"
proof -
  let ?cfg = "sample_config\<lparr>ec_disk := Some sample_disk\<rparr>"
  let ?ans = "Inr \<lparr>rp_kind = PropertyPage, rp_properties = []\<rparr> :: go_error + rental_page"
  let ?er = "new_listing_detail_enricher Map.empty"
  let ?r = "new_detail_fetch_result ?cfg 10 ?ans"
  let ?save = "cache_save (ec_env ?cfg) (ec_disk ?cfg) (si_now sample_inputs) (si_faults sample_inputs) (si_random sample_inputs) ''u1''
      (record_of_result ?r) (er_files ?er)"
  have "fst ?save = None" by code_simp
  then have saved: "?save = (None, snd ?save)" by (metis prod.collapse)
  have codec: "faithful_codec (ec_env ?cfg)"
    by (simp add: faithful_codec_def sample_config_def sample_page_env_def)
  have "trim_space ''u1'' \<noteq> []" "record_of_result ?r \<noteq> None" by code_simp+
  then obtain r1 where "load_persistent ?cfg 60 ''u1'' (new_listing_detail_enricher (er_files (fst (finish_request ?cfg ''u1'' 10 ?ans
        sample_inputs ?er)))) = Some r1" "same_for_next ?r r1"
    using fetched_is_found_later [OF saved, where cache = sample_disk and later = 60] codec
    by (auto simp: sample_disk_def sample_config_def sample_page_env_def sample_inputs_def new_listing_detail_enricher_def)
  then show ?thesis by (auto simp: same_for_next_def new_detail_fetch_result_def ok_result_def)
qed

end
