(* ===== verification/Route_Flags.thy ===== *)
theory Route_Flags
  imports Discovery Location_Filter
begin

text \<open>
  The flags of a discovery (\<open>internal/cli/search_discovery.go\<close>): bed ranges, server sorts, home types,
  keywords and page overrides, the routes they span, and the filter that repeats the bed ranges of the
  routes on the listings. Numbers are decimal literals; \<open>strconv.ParseFloat\<close> also reads hexadecimal ones.
\<close>

section \<open>Repeated and comma-separated flags\<close>

text \<open>
  The loop that several flags share: read every part, stop at the first fault, keep a value only when its
  key is new.
\<close>

fun collect_unique :: "('a \<Rightarrow> 'k) \<Rightarrow> ('p \<Rightarrow> string + 'a) \<Rightarrow> 'k list \<Rightarrow> 'p list \<Rightarrow> string + 'a list" where
  "collect_unique key read seen [] = Inr []"
| "collect_unique key read seen (p # ps) =
     (case read p of
        Inl msg \<Rightarrow> Inl msg
      | Inr x \<Rightarrow>
          (case collect_unique key read (if key x \<in> set seen then seen else key x # seen) ps of
             Inl msg \<Rightarrow> Inl msg
           | Inr xs \<Rightarrow> Inr (if key x \<in> set seen then xs else x # xs)))"

definition comma_parts :: "string list \<Rightarrow> string list" where
  "comma_parts vs = concat (map (split_byte CHR '','') vs)"

definition max_location_discovery_pages :: int where "max_location_discovery_pages = 20"

section \<open>Bed ranges\<close>

record bed_range =
  br_label :: string
  br_min :: gofloat
  br_max :: gofloat

definition parse_non_negative_float :: "string \<Rightarrow> string + rat" where
  "parse_non_negative_float v =
     (case parse_float (trim_space v) of
        Some x \<Rightarrow> if x < 0 then Inl ''must be a non-negative finite number'' else Inr x
      | None \<Rightarrow> Inl ''must be a non-negative finite number'')"

definition bed_range_label :: "gofloat \<Rightarrow> gofloat \<Rightarrow> string" where
  "bed_range_label mn mx =
     (if positive mn \<and> positive mx \<and> mn = mx then format_gofloat mn
      else if positive mn \<and> positive mx then format_gofloat mn @ ''to'' @ format_gofloat mx
      else if positive mn then format_gofloat mn @ ''plus''
      else if positive mx then ''upto'' @ format_gofloat mx
      else ''any'')"

definition parse_bed_range :: "string \<Rightarrow> string + bed_range" where
  "parse_bed_range v =
     (if has_suffix v ''+'' then
        (case parse_non_negative_float (trim_suffix v ''+'') of
           Inl _ \<Rightarrow> Inl (''invalid open-ended range '' @ quote v)
         | Inr mn \<Rightarrow> if mn = 0 then Inl (''invalid open-ended range '' @ quote v)
                     else Inr \<lparr>br_label = format_rat mn @ ''plus'', br_min = Finite mn, br_max = Finite 0\<rparr>)
      else if contains v ''-'' then
        (case split_byte CHR ''-'' v of
           [a, b] \<Rightarrow>
             if a = [] \<or> b = [] then Inl (''invalid closed range '' @ quote v)
             else (case (parse_non_negative_float a, parse_non_negative_float b) of
                     (Inr mn, Inr mx) \<Rightarrow>
                       if mn = 0 \<or> mx = 0 \<or> mn > mx then Inl (''invalid closed range '' @ quote v)
                       else Inr \<lparr>br_label = format_rat mn @ ''to'' @ format_rat mx, br_min = Finite mn, br_max = Finite mx\<rparr>
                   | _ \<Rightarrow> Inl (''invalid closed range '' @ quote v))
         | _ \<Rightarrow> Inl (''invalid closed range '' @ quote v))
      else
        (case parse_non_negative_float v of
           Inl _ \<Rightarrow> Inl (''invalid exact range '' @ quote v)
         | Inr x \<Rightarrow> if x = 0 then Inl (''invalid exact range '' @ quote v)
                    else Inr \<lparr>br_label = format_rat x, br_min = Finite x, br_max = Finite x\<rparr>))"

definition bed_range_part :: "string \<Rightarrow> string + bed_range" where
  "bed_range_part p =
     (if trim_space p = [] then Inl ''contains an empty comma-separated value'' else parse_bed_range (trim_space p))"

definition parse_bed_ranges :: "string list \<Rightarrow> gofloat \<Rightarrow> gofloat \<Rightarrow> string + bed_range list" where
  "parse_bed_ranges vs fallback_min fallback_max =
     (if vs = [] then Inr [\<lparr>br_label = bed_range_label fallback_min fallback_max, br_min = fallback_min, br_max = fallback_max\<rparr>]
      else collect_unique br_label bed_range_part [] (comma_parts vs))"

section \<open>Server sorts, home types, keywords, page overrides\<close>

record server_sort =
  sv_value :: string
  sv_max_pages :: int

definition validate_server_sort :: "string \<Rightarrow> string option" where
  "validate_server_sort v =
     (if v \<noteq> trim_space v then Some ''must not have surrounding whitespace''
      else if v = [] then None
      else if has_control v then Some ''must not contain control characters'' else None)"

definition server_sort_fields :: "string \<Rightarrow> string list \<Rightarrow> string + server_sort" where
  "server_sort_fields v parts =
     (case validate_server_sort (hd parts) of
        Some msg \<Rightarrow> Inl msg
      | None \<Rightarrow>
          if length parts = 2 then
            (case parse_int64 (parts ! 1) of
               Some pages \<Rightarrow>
                 if pages < 1 \<or> pages > max_location_discovery_pages then Inl (''invalid page limit in '' @ quote v)
                 else Inr \<lparr>sv_value = hd parts, sv_max_pages = pages\<rparr>
             | None \<Rightarrow> Inl (''invalid page limit in '' @ quote v))
          else Inr \<lparr>sv_value = hd parts, sv_max_pages = 0\<rparr>)"

definition parse_server_sort :: "string \<Rightarrow> string + server_sort" where
  "parse_server_sort v =
     (if v \<noteq> trim_space v then Inl ''must not have surrounding whitespace''
      else let parts = split_byte CHR '':'' v in
        if length parts > 2 \<or> hd parts = [] then Inl (''invalid value '' @ quote v) else server_sort_fields v parts)"

definition server_sort_key :: "server_sort \<Rightarrow> string" where
  "server_sort_key s = sv_value s @ '':'' @ itoa (sv_max_pages s)"

definition parse_server_sorts :: "string list \<Rightarrow> string \<Rightarrow> string + server_sort list" where
  "parse_server_sorts vs fallback =
     (if vs = [] then
        (case validate_server_sort fallback of
           Some msg \<Rightarrow> Inl msg
         | None \<Rightarrow> Inr [\<lparr>sv_value = fallback, sv_max_pages = 0\<rparr>])
      else collect_unique server_sort_key parse_server_sort [] (comma_parts vs))"

definition home_types :: "string list" where
  "home_types = [home_type_apartment, home_type_condo, home_type_townhouse, home_type_single_family]"

definition home_type_part :: "string \<Rightarrow> string + string" where
  "home_type_part p =
     (let part = to_lower (trim_space p) in
      if part = [] then Inl ''contains an empty comma-separated value''
      else if part \<notin> set home_types then Inl (''unknown value '' @ quote part)
      else Inr part)"

definition parse_home_types :: "string list \<Rightarrow> string + string list" where
  "parse_home_types vs = collect_unique id home_type_part [] (comma_parts vs)"

definition keyword_part :: "string \<Rightarrow> string + string" where
  "keyword_part v0 =
     (let v = trim_space v0 in
      if v = [] then Inl ''keyword must not be empty''
      else if length v > 256 then Inl ''keyword must not exceed 256 bytes''
      else if has_control v then Inl ''keyword must not contain control characters''
      else Inr v)"

definition parse_keyword_routes :: "string list \<Rightarrow> string + string list" where
  "parse_keyword_routes vs = collect_unique to_lower keyword_part [] vs"

fun add_overrides :: "int \<Rightarrow> (string \<times> int) list \<Rightarrow> string list \<Rightarrow> string + (string \<times> int) list" where
  "add_overrides global_max found [] = Inr found"
| "add_overrides global_max found (v # vs) =
     (case cut_last_equals v of
        None \<Rightarrow> Inl (''invalid location page override '' @ quote v @ '' (want LOCATION=PAGES)'')
      | Some (before, after) \<Rightarrow>
          if before = [] \<or> after = [] then Inl (''invalid location page override '' @ quote v @ '' (want LOCATION=PAGES)'')
          else
            (let place = trim_space before in
             case parse_int64 (trim_space after) of
               None \<Rightarrow> Inl (''invalid location page override '' @ quote v)
             | Some pages \<Rightarrow>
                 if place = [] \<or> pages < 1 \<or> pages > global_max then Inl (''invalid location page override '' @ quote v)
                 else if map_of found (to_lower place) \<noteq> None
                 then Inl (''duplicate location page override '' @ quote place)
                 else add_overrides global_max (found @ [(to_lower place, pages)]) vs))"

definition parse_location_page_overrides :: "string list \<Rightarrow> int \<Rightarrow> string + (string \<times> int) list" where
  "parse_location_page_overrides vs global_max = add_overrides global_max [] vs"

section \<open>Routes\<close>

record discovery_config =
  dg_max_pages :: int
  dg_page_delay :: int
  dg_request_retries :: int
  dg_retry_backoff :: int
  dg_bed_ranges :: "string list"
  dg_server_sorts :: "string list"
  dg_home_types :: "string list"
  dg_for_rent :: bool
  dg_in_unit_laundry :: bool
  dg_supplemental_no_laundry :: bool
  dg_supplemental_pages :: int
  dg_keyword_routes :: "string list"
  dg_base_filters :: search_filters

definition route_filters :: "discovery_config \<Rightarrow> string list \<Rightarrow> gofloat \<Rightarrow> gofloat \<Rightarrow> string \<Rightarrow> string \<Rightarrow> bool \<Rightarrow> search_filters" where
  "route_filters config types mn mx sort_value keywords in_unit =
     (dg_base_filters config)\<lparr>sf_page := 0, sf_min_beds := mn, sf_max_beds := mx, sf_sort := sort_value, sf_keywords := keywords,
        sf_home_types := types, sf_in_unit_laundry := in_unit, sf_entire_place_only := dg_for_rent config\<rparr>"

definition matrix_route :: "discovery_config \<Rightarrow> string list \<Rightarrow> bed_range \<Rightarrow> server_sort \<Rightarrow> search_route" where
  "matrix_route config types beds s =
     \<lparr>rt_name = ''beds-'' @ br_label beds @ ''-sort-'' @ (if sv_value s = [] then ''default'' else sv_value s),
      rt_filters = route_filters config types (br_min beds) (br_max beds) (sv_value s)
                     (sf_keywords (dg_base_filters config)) (dg_in_unit_laundry config),
      rt_max_pages = sv_max_pages s\<rparr>"

definition laundry_route :: "discovery_config \<Rightarrow> string list \<Rightarrow> int \<Rightarrow> bed_range \<Rightarrow> search_route" where
  "laundry_route config types pages beds =
     \<lparr>rt_name = ''beds-'' @ br_label beds @ ''-supplemental-unindexed-laundry'',
      rt_filters = route_filters config types (br_min beds) (br_max beds) ''days'' [] False,
      rt_max_pages = pages\<rparr>"

definition keyword_route :: "discovery_config \<Rightarrow> string list \<Rightarrow> int \<Rightarrow> nat \<Rightarrow> string \<Rightarrow> search_route" where
  "keyword_route config types pages i keyword =
     \<lparr>rt_name = ''exact-2-keyword-'' @ itoa (int i + 1),
      rt_filters = route_filters config types (Finite 2) (Finite 2) ''days'' keyword False,
      rt_max_pages = pages\<rparr>"

definition excess_sort :: "int \<Rightarrow> bed_range list \<Rightarrow> server_sort list \<Rightarrow> server_sort option" where
  "excess_sort max_pages beds sorts = (if beds = [] then None else find (\<lambda>s. sv_max_pages s > max_pages) sorts)"

definition route_matrix ::
  "discovery_config \<Rightarrow> int \<Rightarrow> string list \<Rightarrow> bed_range list \<Rightarrow> server_sort list \<Rightarrow> string list \<Rightarrow> search_route list" where
  "route_matrix config supplemental types beds sorts keywords =
     concat (map (\<lambda>b. map (matrix_route config types b) sorts) beds)
     @ (if dg_supplemental_no_laundry config then map (laundry_route config types supplemental) beds else [])
     @ map (\<lambda>(i, k). keyword_route config types supplemental i k) (zip [0..<length keywords] keywords)"

definition build_location_discovery_options :: "discovery_config \<Rightarrow> string + discovery_options" where
  "build_location_discovery_options config =
     (let max_pages = (if dg_max_pages config = 0 then 1 else dg_max_pages config);
          supplemental = (if dg_supplemental_pages config = 0 then 1 else dg_supplemental_pages config)
      in if max_pages < 1 \<or> max_pages > max_location_discovery_pages
         then Inl (''max-pages must be between 1 and '' @ itoa max_location_discovery_pages)
         else if dg_page_delay config < 0 then Inl ''page-delay must not be negative''
         else if supplemental < 1 \<or> supplemental > max_pages
         then Inl (''supplemental-pages must be between 1 and max-pages '' @ itoa max_pages)
         else case parse_keyword_routes (dg_keyword_routes config) of
           Inl msg \<Rightarrow> Inl (''keyword-route: '' @ msg)
         | Inr keywords \<Rightarrow>
         (case parse_bed_ranges (dg_bed_ranges config) (sf_min_beds (dg_base_filters config)) (sf_max_beds (dg_base_filters config)) of
           Inl msg \<Rightarrow> Inl (''bed-range: '' @ msg)
         | Inr beds \<Rightarrow>
         (case parse_server_sorts (dg_server_sorts config) (sf_sort (dg_base_filters config)) of
           Inl msg \<Rightarrow> Inl (''server-sort: '' @ msg)
         | Inr sorts \<Rightarrow>
         (case parse_home_types (dg_home_types config) of
           Inl msg \<Rightarrow> Inl (''home-type: '' @ msg)
         | Inr types \<Rightarrow>
         (case excess_sort max_pages beds sorts of
           Some s \<Rightarrow> Inl (''server-sort '' @ quote (sv_value s) @ '' page limit '' @ itoa (sv_max_pages s)
                          @ '' exceeds max-pages '' @ itoa max_pages)
         | None \<Rightarrow>
             (let routes = route_matrix config supplemental types beds sorts keywords in
              if length routes > 16 then Inl ''route matrix exceeds 16 combinations''
              else Inr \<lparr>do_routes = routes, do_max_pages = max_pages, do_page_delay = dg_page_delay config,
                        do_request_retries = dg_request_retries config, do_retry_backoff = dg_retry_backoff config\<rparr>))))))"

section \<open>The bed ranges on the listings\<close>

text \<open>One route of the loop: does it return true.\<close>

definition non_positive :: "gofloat \<Rightarrow> bool" where
  "non_positive x \<longleftrightarrow> x \<noteq> NaN \<and> \<not> positive x"

definition route_beds_match :: "listing \<Rightarrow> search_route \<Rightarrow> bool" where
  "route_beds_match l r =
     (let mn = sf_min_beds (rt_filters r); mx = sf_max_beds (rt_filters r) in
      non_positive mn \<and> non_positive mx \<or>
      (case li_bedrooms l of
         None \<Rightarrow> False
       | Some b \<Rightarrow> \<not> (positive mn \<and> float_gt mn (Finite b)) \<and> \<not> (positive mx \<and> float_gt (Finite b) mx)))"

definition matches_discovery_bed_ranges :: "listing \<Rightarrow> search_route list \<Rightarrow> bool" where
  "matches_discovery_bed_ranges l routes = list_ex (route_beds_match l) routes"

definition filter_by_discovery_bed_ranges :: "listing list \<Rightarrow> search_route list \<Rightarrow> bool \<Rightarrow> listing list" where
  "filter_by_discovery_bed_ranges ls routes allow_unknown =
     (if routes = [] then ls
      else filter (\<lambda>l. li_is_building l \<or> (allow_unknown \<and> li_bedrooms l = None) \<or> matches_discovery_bed_ranges l routes) ls)"

end
