(* ===== verification/Route_Flags_Props.thy ===== *)
theory Route_Flags_Props
  imports Route_Flags Format
begin

text \<open>
  What the discovery flags guarantee: repeated flags read as one list without repetitions, and the options
  they build are options the discovery accepts, as long as no server sort is given twice with different page
  limits.
\<close>

section \<open>Repeated flags\<close>

fun first_fault :: "('p \<Rightarrow> string + 'a) \<Rightarrow> 'p list \<Rightarrow> string option" where
  "first_fault read [] = None"
| "first_fault read (p # ps) = (case read p of Inl msg \<Rightarrow> Some msg | Inr _ \<Rightarrow> first_fault read ps)"

definition values_read :: "('p \<Rightarrow> string + 'a) \<Rightarrow> 'p list \<Rightarrow> 'a list" where
  "values_read read ps = List.map_filter (\<lambda>p. case read p of Inl _ \<Rightarrow> None | Inr x \<Rightarrow> Some x) ps"

lemma values_read_simps [simp]:
  "values_read read [] = []"
  "values_read read (p # ps) = (case read p of Inl _ \<Rightarrow> values_read read ps | Inr x \<Rightarrow> x # values_read read ps)"
  by (simp_all add: values_read_def map_filter_simps split: sum.split)

fun uniques :: "('a \<Rightarrow> 'k) \<Rightarrow> 'k list \<Rightarrow> 'a list \<Rightarrow> 'a list" where
  "uniques key seen [] = []"
| "uniques key seen (x # xs) = (if key x \<in> set seen then uniques key seen xs else x # uniques key (key x # seen) xs)"

interpretation uq: first_wins "\<lambda>x. Some (key x)" "uniques key" for key
  by unfold_locales auto

lemma collect_unique_spec:
  "collect_unique key read seen ps =
     (case first_fault read ps of Some msg \<Rightarrow> Inl msg | None \<Rightarrow> Inr (uniques key seen (values_read read ps)))"
  by (induction ps arbitrary: seen) (auto split: sum.splits option.splits)

lemma collect_unique_ok:
  assumes "collect_unique key read seen ps = Inr xs"
  shows "distinct (map key xs) \<and> (\<forall>x \<in> set xs. \<exists>p \<in> set ps. read p = Inr x)"
proof -
  have xs: "xs = uniques key seen (values_read read ps)"
    using assms by (auto simp: collect_unique_spec split: option.splits)
  have "distinct (map (\<lambda>x. Some (key x)) xs)"
    using uq.scan_distinct [of key seen "values_read read ps"] xs by simp
  then have "distinct (map key xs)" by (simp add: distinct_map inj_on_def)
  moreover have "set xs \<subseteq> set (values_read read ps)" using uq.scan_subset [of key seen "values_read read ps"] xs by simp
  moreover have "\<forall>x \<in> set (values_read read ps). \<exists>p \<in> set ps. read p = Inr x"
    by (auto simp: values_read_def List.map_filter_def split: sum.splits)
  ultimately show ?thesis using xs by blast
qed

lemma collect_unique_nonempty: "collect_unique key read [] ps = Inr xs \<Longrightarrow> ps \<noteq> [] \<Longrightarrow> xs \<noteq> []"
  by (cases ps) (auto split: sum.splits)

lemma comma_parts_nonempty: "vs \<noteq> [] \<Longrightarrow> comma_parts vs \<noteq> []"
  by (cases vs) (auto simp: comma_parts_def)

section \<open>Bed ranges\<close>

definition good_beds :: "gofloat \<Rightarrow> gofloat \<Rightarrow> bool" where
  "good_beds mn mx \<longleftrightarrow> (\<exists>x y. mn = Finite x \<and> mx = Finite y \<and> 0 \<le> x \<and> 0 \<le> y \<and> (x = 0 \<or> y = 0 \<or> x \<le> y))"

lemma parse_non_negative: "parse_non_negative_float v = Inr x \<Longrightarrow> 0 \<le> x"
  by (auto simp: parse_non_negative_float_def split: option.splits if_splits)

definition dashless :: "string \<Rightarrow> bool" where
  "dashless s \<longleftrightarrow> CHR ''-'' \<notin> set s"

lemma digit_not_dash: "m < 10 \<Longrightarrow> char_of (48 + m :: nat) \<noteq> CHR ''-''"
proof
  assume m: "m < 10" and "char_of (48 + m :: nat) = CHR ''-''"
  then have "of_char (char_of (48 + m :: nat)) = (of_char CHR ''-'' :: nat)" by simp
  then show False using m by simp
qed

lemma nat_digits_dashless: "dashless (nat_digits n)"
  using nat_digits_digits [of n] by (auto simp: dashless_def list_all_iff is_digit_def)

lemma frac_digits_dashless: "0 \<le> x \<Longrightarrow> x < 1 \<Longrightarrow> dashless (frac_digits n x)"
proof (induction n arbitrary: x)
  case 0
  then show ?case by (simp add: dashless_def)
next
  case (Suc n)
  have "\<lfloor>10 * x\<rfloor> < 10" using Suc.prems by (simp add: floor_less_iff)
  moreover have "0 \<le> \<lfloor>10 * x\<rfloor>" using Suc.prems by simp
  ultimately have "nat \<lfloor>10 * x\<rfloor> < 10" by linarith
  then have "char_of (48 + nat \<lfloor>10 * x\<rfloor>) \<noteq> CHR ''-''" by (rule digit_not_dash)
  moreover have "0 \<le> 10 * x - of_int \<lfloor>10 * x\<rfloor>" "10 * x - of_int \<lfloor>10 * x\<rfloor> < 1" by linarith+
  ultimately show ?case using Suc.IH [of "10 * x - of_int \<lfloor>10 * x\<rfloor>"] by (auto simp: dashless_def)
qed

lemma dashless_append [simp]: "dashless (s @ t) \<longleftrightarrow> dashless s \<and> dashless t" "dashless (c # s) \<longleftrightarrow> c \<noteq> CHR ''-'' \<and> dashless s" "dashless []"
  by (auto simp: dashless_def)

lemma format_rat_dashless:
  assumes "0 \<le> x" shows "dashless (format_rat x)"
proof -
  have "0 \<le> x - of_int \<lfloor>x\<rfloor>" "x - of_int \<lfloor>x\<rfloor> < 1" by linarith+
  then show ?thesis
    using assms frac_digits_dashless [of "x - of_int \<lfloor>x\<rfloor>" 20] nat_digits_dashless
    by (simp add: format_rat_def Let_def)
qed

text \<open>A bed range that is read is a range: its minimum is positive, and its maximum is zero, for none, or at least
  the minimum.\<close>

theorem bed_range_sound:
  assumes "parse_bed_range v = Inr b"
  shows "\<exists>x y. br_min b = Finite x \<and> br_max b = Finite y \<and> 0 < x \<and> (y = 0 \<or> x \<le> y)"
proof -
  have nonzero: "parse_non_negative_float s = Inr x \<Longrightarrow> x \<noteq> 0 \<Longrightarrow> 0 < x" for s x
    using parse_non_negative [of s x] by simp
  show ?thesis
    using assms
    by (auto simp: parse_bed_range_def dest: nonzero split: if_splits sum.splits list.splits)
qed

lemma bed_range_good:
  assumes "parse_bed_range v = Inr b" shows "good_beds (br_min b) (br_max b) \<and> dashless (br_label b)"
proof -
  note nn = parse_non_negative
  show ?thesis
    using assms
    by (auto simp: parse_bed_range_def good_beds_def format_rat_dashless dest: nn split: if_splits sum.splits list.splits)
qed

lemma fallback_label_dashless: "good_beds mn mx \<Longrightarrow> dashless (bed_range_label mn mx)"
  by (auto simp: bed_range_label_def good_beds_def format_rat_dashless)

lemma parse_bed_ranges_good:
  assumes "parse_bed_ranges vs mn mx = Inr beds" "good_beds mn mx"
  shows "beds \<noteq> [] \<and> distinct (map br_label beds) \<and> (\<forall>b \<in> set beds. good_beds (br_min b) (br_max b) \<and> dashless (br_label b))"
proof (cases "vs = []")
  case True
  then show ?thesis using assms by (auto simp: parse_bed_ranges_def fallback_label_dashless)
next
  case False
  then have c: "collect_unique br_label bed_range_part [] (comma_parts vs) = Inr beds" using assms by (simp add: parse_bed_ranges_def)
  have "bed_range_part p = Inr b \<Longrightarrow> good_beds (br_min b) (br_max b) \<and> dashless (br_label b)" for p b
    using bed_range_good [of "trim_space p" b] by (auto simp: bed_range_part_def split: if_splits)
  then show ?thesis
    using collect_unique_ok [OF c] collect_unique_nonempty [OF c comma_parts_nonempty [OF False]] by blast
qed

section \<open>The routes\<close>

lemma trimmed_last: "trim_space s = s \<Longrightarrow> s \<noteq> [] \<Longrightarrow> \<not> is_space (last s)"
proof -
  assume s: "trim_space s = s" "s \<noteq> []"
  define t where "t = dropWhile is_space (rev (trim_left s))"
  have eq: "s = rev t" using s(1) by (simp add: t_def trim_space_def trim_right_def)
  then have "t \<noteq> []" using s(2) by auto
  then have "\<not> is_space (hd t)" unfolding t_def by (rule hd_dropWhile)
  then show ?thesis using eq \<open>t \<noteq> []\<close> by (simp add: last_rev)
qed

definition good_sort :: "string \<Rightarrow> bool" where
  "good_sort s \<longleftrightarrow> trim_space s = s \<and> \<not> has_control s"

lemma no_control_empty [simp]: "\<not> has_control []"
  by (simp add: has_control_def)

lemma validate_server_sort_good: "validate_server_sort s = None \<longleftrightarrow> good_sort s"
  by (auto simp: validate_server_sort_def good_sort_def trim_space_def trim_left_def trim_right_def)

lemma parse_server_sort_good:
  assumes "parse_server_sort v = Inr s"
  shows "good_sort (sv_value s) \<and> sv_value s \<noteq> [] \<and> 0 \<le> sv_max_pages s"
  using assms
  by (auto simp: parse_server_sort_def server_sort_fields_def validate_server_sort_good Let_def max_location_discovery_pages_def
      split: if_splits option.splits)

lemma parse_server_sorts_good:
  assumes "parse_server_sorts vs fallback = Inr sorts"
  shows "sorts \<noteq> [] \<and> (\<forall>s \<in> set sorts. good_sort (sv_value s) \<and> 0 \<le> sv_max_pages s)
    \<and> ((\<forall>s \<in> set sorts. sv_value s \<noteq> []) \<or> length sorts = 1)"
proof (cases "vs = []")
  case True
  then show ?thesis using assms by (auto simp: parse_server_sorts_def validate_server_sort_good split: option.splits)
next
  case False
  then have c: "collect_unique server_sort_key parse_server_sort [] (comma_parts vs) = Inr sorts"
    using assms by (simp add: parse_server_sorts_def)
  show ?thesis
    using collect_unique_ok [OF c] collect_unique_nonempty [OF c comma_parts_nonempty [OF False]] parse_server_sort_good by blast
qed

lemma home_types_trimmed: "h \<in> set home_types \<Longrightarrow> h = trim_space h"
proof -
  have "list_all (\<lambda>h. h = trim_space h) home_types" by code_simp
  then show "h \<in> set home_types \<Longrightarrow> h = trim_space h" by (simp add: list_all_iff)
qed

lemma check_home_types_ok:
  "distinct hs \<Longrightarrow> set hs \<subseteq> set home_types \<Longrightarrow> set hs \<inter> set seen = {} \<Longrightarrow> check_home_types seen hs = None"
proof (induction hs arbitrary: seen)
  case Nil
  then show ?case by simp
next
  case (Cons h hs)
  then have "h = trim_space h" using home_types_trimmed [of h] by simp
  then show ?case using Cons by (auto simp: home_types_def)
qed

lemma parse_home_types_good:
  assumes "parse_home_types vs = Inr types" shows "check_home_types [] types = None"
proof -
  have "home_type_part p = Inr x \<Longrightarrow> x \<in> set home_types" for p x
    by (auto simp: home_type_part_def Let_def split: if_splits)
  then have "distinct types" "set types \<subseteq> set home_types"
    using collect_unique_ok [OF assms [unfolded parse_home_types_def]] by auto
  then show ?thesis by (intro check_home_types_ok) simp_all
qed

definition good_keyword :: "string \<Rightarrow> bool" where
  "good_keyword k \<longleftrightarrow> k = trim_space k \<and> length k \<le> 256 \<and> \<not> has_control k"

lemma parse_keyword_routes_good:
  assumes "parse_keyword_routes vs = Inr ks" shows "\<forall>k \<in> set ks. good_keyword k"
proof -
  have "keyword_part p = Inr k \<Longrightarrow> good_keyword k" for p k
    by (auto simp: keyword_part_def good_keyword_def Let_def split: if_splits)
  then show ?thesis using collect_unique_ok [OF assms [unfolded parse_keyword_routes_def]] by blast
qed

lemma base_filters_good:
  assumes "validate_search_filters f = None"
  shows "good_beds (sf_min_beds f) (sf_max_beds f)" "good_keyword (sf_keywords f)"
proof -
  note v = assms [unfolded validate_search_filters_def Let_def]
  show "good_beds (sf_min_beds f) (sf_max_beds f)"
    using v by (cases "sf_min_beds f"; cases "sf_max_beds f") (auto simp: good_beds_def finite_float_def split: if_splits)
  show "good_keyword (sf_keywords f)"
    using v by (auto simp: good_keyword_def split: if_splits option.splits)
qed

lemma route_filters_valid:
  assumes "validate_search_filters (dg_base_filters config) = None" "good_beds mn mx" "good_sort s" "good_keyword k"
    and "check_home_types [] types = None"
  shows "validate_search_filters (route_filters config types mn mx s k in_unit) = None"
proof -
  have v: "validate_search_filters (dg_base_filters config) = None" by (rule assms(1))
  obtain x y where beds: "mn = Finite x" "mx = Finite y" "0 \<le> x" "0 \<le> y" "x = 0 \<or> y = 0 \<or> x \<le> y"
    using assms(2) by (auto simp: good_beds_def)
  have base: "0 \<le> sf_min_price (dg_base_filters config)" "0 \<le> sf_max_price (dg_base_filters config)"
    "\<not> (sf_min_price (dg_base_filters config) > 0 \<and> sf_max_price (dg_base_filters config) > 0
        \<and> sf_min_price (dg_base_filters config) > sf_max_price (dg_base_filters config))"
    "finite_float (sf_min_baths (dg_base_filters config))" "\<not> float_gt (Finite 0) (sf_min_baths (dg_base_filters config))"
    using v unfolding validate_search_filters_def Let_def by (auto split: if_splits)
  show ?thesis
    using base beds assms(3,4,5)
    unfolding validate_search_filters_def route_filters_def good_sort_def good_keyword_def Let_def
    by (auto simp: finite_float_def)
qed

subsection \<open>Names\<close>

lemma dashless_prefix: "dashless l \<Longrightarrow> dashless l1 \<Longrightarrow> l @ CHR ''-'' # r = l1 @ CHR ''-'' # r1 \<Longrightarrow> l = l1 \<and> r = r1"
proof (induction l arbitrary: l1)
  case Nil
  then show ?case by (cases l1) auto
next
  case (Cons c l)
  then show ?case by (cases l1) auto
qed

definition sort_label :: "string \<Rightarrow> string" where
  "sort_label s = (if s = [] then ''default'' else s)"

lemma sort_labels_distinct:
  assumes "distinct (map sv_value sorts)" "(\<forall>s \<in> set sorts. sv_value s \<noteq> []) \<or> length sorts = 1"
  shows "distinct (map (\<lambda>s. sort_label (sv_value s)) sorts)"
proof (cases "\<forall>s \<in> set sorts. sv_value s \<noteq> []")
  case True
  then have eq: "map (\<lambda>s. sort_label (sv_value s)) sorts = map sv_value sorts" by (auto simp: sort_label_def)
  show ?thesis unfolding eq by (rule assms(1))
next
  case False
  then show ?thesis using assms(2) by (auto simp: length_Suc_conv)
qed

lemma matrix_names_distinct:
  assumes "distinct (map br_label beds)" "\<forall>b \<in> set beds. dashless (br_label b)"
    and "distinct (map (\<lambda>s. sort_label (sv_value s)) sorts)"
  shows "distinct (map rt_name (concat (map (\<lambda>b. map (matrix_route config types b) sorts) beds)))"
proof -
  have names: "map rt_name (concat (map (\<lambda>b. map (matrix_route config types b) sorts) beds))
      = map (\<lambda>(l, s). ''beds-'' @ l @ ''-sort-'' @ s)
          (List.product (map br_label beds) (map (\<lambda>s. sort_label (sv_value s)) sorts))"
    by (induction beds) (simp_all add: matrix_route_def sort_label_def o_def)
  have "inj_on (\<lambda>(l, s). ''beds-'' @ l @ ''-sort-'' @ s) (set (List.product (map br_label beds) (map (\<lambda>s. sort_label (sv_value s)) sorts)))"
  proof (rule inj_onI)
    fix p q
    assume "p \<in> set (List.product (map br_label beds) (map (\<lambda>s. sort_label (sv_value s)) sorts))"
      "q \<in> set (List.product (map br_label beds) (map (\<lambda>s. sort_label (sv_value s)) sorts))"
      "(case p of (l, s) \<Rightarrow> ''beds-'' @ l @ ''-sort-'' @ s) = (case q of (l, s) \<Rightarrow> ''beds-'' @ l @ ''-sort-'' @ s)"
    moreover obtain l s l1 s1 where pq: "p = (l, s)" "q = (l1, s1)" by (cases p; cases q)
    ultimately have "dashless l" "dashless l1" "l @ CHR ''-'' # ''sort-'' @ s = l1 @ CHR ''-'' # ''sort-'' @ s1"
      using assms(2) by auto
    then have "l = l1 \<and> ''sort-'' @ s = ''sort-'' @ s1" by (rule dashless_prefix)
    then show "p = q" using pq by simp
  qed
  then show ?thesis unfolding names using assms(1,3) by (simp add: distinct_map distinct_product)
qed

lemma laundry_names_distinct:
  assumes "distinct (map br_label beds)"
  shows "distinct (map rt_name (map (laundry_route config types n) beds))"
proof -
  define f where "f = (\<lambda>l. ''beds-'' @ l @ ''-supplemental-unindexed-laundry'')"
  have names: "map rt_name (map (laundry_route config types n) beds) = map f (map br_label beds)"
    by (simp add: laundry_route_def f_def)
  have "inj f" by (simp add: inj_def f_def)
  then have "inj_on f (set (map br_label beds))" by (rule inj_on_subset) simp
  then show ?thesis unfolding names using assms by (simp only: distinct_map simp_thms)
qed

lemma itoa_nat_inj: "itoa (int i + 1) = itoa (int j + 1) \<Longrightarrow> i = j"
proof -
  assume "itoa (int i + 1) = itoa (int j + 1)"
  then have "nat_digits (nat (int i + 1)) = nat_digits (nat (int j + 1))" by (simp add: itoa_def)
  then have "nat (int i + 1) = nat (int j + 1)" by (metis digits_value_nat_digits)
  then show "i = j" by simp
qed

definition keyword_routes_of :: "discovery_config \<Rightarrow> string list \<Rightarrow> int \<Rightarrow> string list \<Rightarrow> search_route list" where
  "keyword_routes_of config types n ks = map (\<lambda>(i, k). keyword_route config types n i k) (zip [0..<length ks] ks)"

lemma keyword_names_distinct: "distinct (map rt_name (keyword_routes_of config types n ks))"
proof -
  define f where "f = (\<lambda>i. ''exact-2-keyword-'' @ itoa (int i + 1))"
  have names: "map rt_name (keyword_routes_of config types n ks) = map f [0..<length ks]"
    by (rule nth_equalityI) (simp_all add: keyword_routes_of_def keyword_route_def f_def)
  have "inj f" by (auto simp: inj_def f_def dest: itoa_nat_inj)
  then have "inj_on f (set [0..<length ks])" by (rule inj_on_subset) simp
  then show ?thesis unfolding names by (simp only: distinct_map distinct_upt simp_thms)
qed

lemma three_parts_distinct:
  "distinct m \<Longrightarrow> distinct l \<Longrightarrow> distinct k \<Longrightarrow> set m \<inter> set l = {} \<Longrightarrow> set m \<inter> set k = {} \<Longrightarrow> set l \<inter> set k = {}
   \<Longrightarrow> distinct (m @ (if c then l else []) @ k)"
  by auto

lemma route_names_distinct:
  assumes "distinct (map br_label beds)" "\<forall>b \<in> set beds. dashless (br_label b)"
    and "distinct (map (\<lambda>s. sort_label (sv_value s)) sorts)"
  shows "distinct (map rt_name (route_matrix config n types beds sorts ks))"
proof -
  define m where "m = map rt_name (concat (map (\<lambda>b. map (matrix_route config types b) sorts) beds))"
  define l where "l = map rt_name (map (laundry_route config types n) beds)"
  define k where "k = map rt_name (keyword_routes_of config types n ks)"
  have in_m: "\<exists>b \<in> set beds. \<exists>s. x = ''beds-'' @ br_label b @ CHR ''-'' # ''sort-'' @ s" if "x \<in> set m" for x
  proof -
    obtain b s where b: "b \<in> set beds" "x = rt_name (matrix_route config types b s)"
      using \<open>x \<in> set m\<close> by (auto simp: m_def)
    have "x = ''beds-'' @ br_label b @ CHR ''-'' # ''sort-'' @ sort_label (sv_value s)"
      unfolding b(2) by (simp add: matrix_route_def sort_label_def)
    then show ?thesis using b(1) by blast
  qed
  have in_l: "\<exists>b \<in> set beds. x = ''beds-'' @ br_label b @ CHR ''-'' # ''supplemental-unindexed-laundry''" if "x \<in> set l" for x
    using that by (auto simp: l_def laundry_route_def simp del: append.simps)
  have in_k: "\<exists>s. x = ''exact-2-keyword-'' @ s" if "x \<in> set k" for x
    using that by (auto simp: k_def keyword_routes_of_def keyword_route_def simp del: append.simps)
  have ml: "set m \<inter> set l = {}"
  proof (rule ccontr)
    assume "set m \<inter> set l \<noteq> {}"
    then obtain x where x: "x \<in> set m" "x \<in> set l" by blast
    obtain b s where b: "b \<in> set beds" "x = ''beds-'' @ br_label b @ CHR ''-'' # ''sort-'' @ s" using in_m [OF x(1)] by blast
    obtain b1 where b1: "b1 \<in> set beds" "x = ''beds-'' @ br_label b1 @ CHR ''-'' # ''supplemental-unindexed-laundry''"
      using in_l [OF x(2)] by blast
    have "br_label b @ CHR ''-'' # ''sort-'' @ s = br_label b1 @ CHR ''-'' # ''supplemental-unindexed-laundry''"
      using b(2) b1(2) by simp
    then have "''sort-'' @ s = ''supplemental-unindexed-laundry''"
      using dashless_prefix [of "br_label b" "br_label b1"] assms(2) b(1) b1(1) by blast
    then show False by simp
  qed
  have mk: "set m \<inter> set k = {}"
  proof (rule ccontr)
    assume "set m \<inter> set k \<noteq> {}"
    then obtain x where x: "x \<in> set m" "x \<in> set k" by blast
    then show False using in_m [OF x(1)] in_k [OF x(2)] by auto
  qed
  have lk: "set l \<inter> set k = {}"
  proof (rule ccontr)
    assume "set l \<inter> set k \<noteq> {}"
    then obtain x where x: "x \<in> set l" "x \<in> set k" by blast
    then show False using in_l [OF x(1)] in_k [OF x(2)] by auto
  qed
  have names: "map rt_name (route_matrix config n types beds sorts ks) = m @ (if dg_supplemental_no_laundry config then l else []) @ k"
    by (simp add: route_matrix_def keyword_routes_of_def m_def l_def k_def)
  have parts: "distinct m" "distinct l" "distinct k"
    using matrix_names_distinct [OF assms] laundry_names_distinct [OF assms(1)] keyword_names_distinct
    unfolding m_def l_def k_def by blast+
  show ?thesis unfolding names by (rule three_parts_distinct [OF parts ml mk lk])
qed

subsection \<open>Acceptance\<close>

lemma valid_routes_kept:
  assumes "distinct (map rt_name rs)" "set (map rt_name rs) \<inter> set seen = {}"
    and "\<forall>r \<in> set rs. trim_space (rt_name r) = rt_name r \<and> rt_name r \<noteq> [] \<and> 0 \<le> rt_max_pages r \<and> rt_max_pages r \<le> n
           \<and> validate_search_filters (rt_filters r) = None"
  shows "check_routes n i seen rs = Inr rs"
  using assms
proof (induction rs arbitrary: i seen)
  case Nil
  then show ?case by simp
next
  case (Cons r rs)
  have same: "r\<lparr>rt_name := trim_space (rt_name r)\<rparr> = r" using Cons.prems(3) by (cases r) auto
  have "check_routes n (i + 1) (rt_name r # seen) rs = Inr rs" using Cons.prems by (intro Cons.IH) auto
  then show ?case using Cons.prems same by (auto simp: Let_def)
qed

definition route_ok :: "int \<Rightarrow> search_route \<Rightarrow> bool" where
  "route_ok n r \<longleftrightarrow> trim_space (rt_name r) = rt_name r \<and> rt_name r \<noteq> [] \<and> 0 \<le> rt_max_pages r \<and> rt_max_pages r \<le> n
     \<and> validate_search_filters (rt_filters r) = None"

lemma name_trimmed: "\<not> is_space c \<Longrightarrow> s \<noteq> [] \<Longrightarrow> \<not> is_space (last s) \<Longrightarrow> trim_space (c # s) = c # s"
  by (rule trim_space_ends) simp_all

lemma sort_label_last: "good_sort s \<Longrightarrow> \<not> is_space (last (sort_label s))"
  using trimmed_last [of s] by (auto simp: sort_label_def good_sort_def is_space_def)

lemma itoa_last: "\<not> is_space (last (itoa (int i + 1)))"
proof -
  have "is_digit (last (nat_digits n))" for n
    using nat_digits_digits [of n] by (simp add: list_all_iff)
  then have "is_digit (last (itoa (int i + 1)))" by (simp add: itoa_def)
  then show ?thesis by (auto simp: is_digit_def is_space_def)
qed

lemma routes_ok:
  assumes "validate_search_filters (dg_base_filters config) = None" "check_home_types [] types = None"
    and "\<forall>b \<in> set beds. good_beds (br_min b) (br_max b)" "\<forall>s \<in> set sorts. good_sort (sv_value s) \<and> 0 \<le> sv_max_pages s \<and> sv_max_pages s \<le> n"
    and "\<forall>k \<in> set ks. good_keyword k" "1 \<le> m" "m \<le> n"
  shows "\<forall>r \<in> set (route_matrix config m types beds sorts ks). route_ok n r"
proof -
  have days: "good_sort ''days''" by code_simp
  have no_keyword: "good_keyword []" by code_simp
  have two: "good_beds (Finite 2) (Finite 2)" by (simp add: good_beds_def)
  have spaces: "\<not> is_space CHR ''b''" "\<not> is_space CHR ''e''" "\<not> is_space CHR ''y''" by (simp_all add: is_space_def)
  have valid: "validate_search_filters (route_filters config types mn mx s k u) = None"
    if "good_beds mn mx" "good_sort s" "good_keyword k" for mn mx s k u
    using route_filters_valid [OF assms(1) that assms(2)] .
  have matrix: "route_ok n (matrix_route config types b s)" if "b \<in> set beds" "s \<in> set sorts" for b s
  proof -
    have name: "rt_name (matrix_route config types b s) = CHR ''b'' # ''eds-'' @ br_label b @ ''-sort-'' @ sort_label (sv_value s)"
      by (simp add: matrix_route_def sort_label_def)
    have "\<not> is_space (last (''eds-'' @ br_label b @ ''-sort-'' @ sort_label (sv_value s)))"
      using sort_label_last [of "sv_value s"] assms(4) that(2) by (simp add: sort_label_def)
    then have "trim_space (rt_name (matrix_route config types b s)) = rt_name (matrix_route config types b s)"
      unfolding name by (intro name_trimmed spaces) simp_all
    then show ?thesis
      using name that assms(3,4) base_filters_good(2) [OF assms(1)] valid unfolding route_ok_def by (auto simp: matrix_route_def)
  qed
  have laundry: "route_ok n (laundry_route config types m b)" if "b \<in> set beds" for b
  proof -
    have name: "rt_name (laundry_route config types m b) = CHR ''b'' # ''eds-'' @ br_label b @ ''-supplemental-unindexed-laundry''"
      by (simp add: laundry_route_def)
    have "trim_space (rt_name (laundry_route config types m b)) = rt_name (laundry_route config types m b)"
      unfolding name by (intro name_trimmed spaces) (simp_all add: is_space_def)
    then show ?thesis
      using name that assms(3,6,7) days no_keyword valid unfolding route_ok_def by (auto simp: laundry_route_def)
  qed
  have keyword: "route_ok n (keyword_route config types m i k)" if "k \<in> set ks" for i k
  proof -
    have name: "rt_name (keyword_route config types m i k) = CHR ''e'' # ''xact-2-keyword-'' @ itoa (int i + 1)"
      by (simp add: keyword_route_def)
    have "itoa (int i + 1) \<noteq> []" by (simp add: itoa_def)
    then have "trim_space (rt_name (keyword_route config types m i k)) = rt_name (keyword_route config types m i k)"
      unfolding name using itoa_last by (intro name_trimmed spaces) simp_all
    then show ?thesis
      using name that assms(5,6,7) days two valid unfolding route_ok_def by (auto simp: keyword_route_def)
  qed
  show ?thesis
    using matrix laundry keyword by (auto simp: route_matrix_def dest: set_zip_rightD)
qed

lemma built_parts:
  assumes "build_location_discovery_options config = Inr opts"
  obtains m ks beds sorts types where
    "1 \<le> do_max_pages opts" "do_max_pages opts \<le> 20" "0 \<le> dg_page_delay config" "1 \<le> m" "m \<le> do_max_pages opts"
    "parse_keyword_routes (dg_keyword_routes config) = Inr ks"
    "parse_bed_ranges (dg_bed_ranges config) (sf_min_beds (dg_base_filters config)) (sf_max_beds (dg_base_filters config)) = Inr beds"
    "parse_server_sorts (dg_server_sorts config) (sf_sort (dg_base_filters config)) = Inr sorts"
    "parse_home_types (dg_home_types config) = Inr types" "excess_sort (do_max_pages opts) beds sorts = None"
    "do_routes opts = route_matrix config m types beds sorts ks" "length (do_routes opts) \<le> 16"
    "do_page_delay opts = dg_page_delay config" "do_request_retries opts = dg_request_retries config"
    "do_retry_backoff opts = dg_retry_backoff config"
proof -
  define n where "n = (if dg_max_pages config = 0 then 1 else dg_max_pages config)"
  define m where "m = (if dg_supplemental_pages config = 0 then 1 else dg_supplemental_pages config)"
  obtain ks beds sorts types where parts: "\<not> (n < 1 \<or> n > 20)" "\<not> dg_page_delay config < 0" "\<not> (m < 1 \<or> m > n)"
      "parse_keyword_routes (dg_keyword_routes config) = Inr ks"
      "parse_bed_ranges (dg_bed_ranges config) (sf_min_beds (dg_base_filters config)) (sf_max_beds (dg_base_filters config)) = Inr beds"
      "parse_server_sorts (dg_server_sorts config) (sf_sort (dg_base_filters config)) = Inr sorts"
      "parse_home_types (dg_home_types config) = Inr types" "excess_sort n beds sorts = None"
      "length (route_matrix config m types beds sorts ks) \<le> 16"
      "opts = \<lparr>do_routes = route_matrix config m types beds sorts ks, do_max_pages = n, do_page_delay = dg_page_delay config,
        do_request_retries = dg_request_retries config, do_retry_backoff = dg_retry_backoff config\<rparr>"
    using assms unfolding build_location_discovery_options_def Let_def max_location_discovery_pages_def
      n_def [symmetric] m_def [symmetric]
    by (simp split: if_splits sum.splits option.splits)
  show ?thesis by (rule that [of m ks beds sorts types]) (use parts in simp_all)
qed

text \<open>Options that the discovery takes as they are.\<close>

definition options_good :: "discovery_options \<Rightarrow> bool" where
  "options_good o1 \<longleftrightarrow> 1 \<le> do_max_pages o1 \<and> do_max_pages o1 \<le> 20 \<and> 0 \<le> do_page_delay o1 \<and> 0 \<le> do_request_retries o1
     \<and> 0 \<le> do_retry_backoff o1 \<and> do_routes o1 \<noteq> [] \<and> length (do_routes o1) \<le> 16
     \<and> distinct (map rt_name (do_routes o1)) \<and> (\<forall>r \<in> set (do_routes o1). route_ok (do_max_pages o1) r)"

lemma good_options_valid: "options_good o1 \<Longrightarrow> validate_discovery_options o1 = Inr (do_max_pages o1, do_routes o1)"
proof -
  assume good: "options_good o1"
  then have "check_routes (do_max_pages o1) 0 [] (do_routes o1) = Inr (do_routes o1)"
    by (intro valid_routes_kept) (auto simp: options_good_def route_ok_def)
  then show ?thesis using good
    by (simp add: options_good_def validate_discovery_options_def max_discovery_pages_def Let_def)
qed

lemma built_options_good:
  assumes "build_location_discovery_options config = Inr opts"
    and "validate_search_filters (dg_base_filters config) = None" "0 \<le> dg_request_retries config" "0 \<le> dg_retry_backoff config"
    and "parse_server_sorts (dg_server_sorts config) (sf_sort (dg_base_filters config)) = Inr sorts" "distinct (map sv_value sorts)"
  shows "options_good opts"
  using assms(1)
proof (cases rule: built_parts)
  case (1 m ks beds sorts1 types)
  have sorts: "sorts1 = sorts" using 1(8) assms(5) by simp
  note bed_facts = parse_bed_ranges_good [OF 1(7) base_filters_good(1) [OF assms(2)]]
  note sort_facts = parse_server_sorts_good [OF assms(5)]
  have limit: "\<forall>s \<in> set sorts. sv_max_pages s \<le> do_max_pages opts"
    using 1(10) bed_facts sorts by (auto simp: excess_sort_def find_None_iff not_less)
  have names: "distinct (map rt_name (do_routes opts))"
    unfolding 1(11) sorts using bed_facts sort_facts
    by (intro route_names_distinct sort_labels_distinct assms(6)) auto
  have ok: "\<forall>r \<in> set (do_routes opts). route_ok (do_max_pages opts) r"
    unfolding 1(11) sorts using bed_facts sort_facts limit 1(4,5)
    by (intro routes_ok assms(2) parse_home_types_good [OF 1(9)] parse_keyword_routes_good [OF 1(6)]) auto
  have nonempty: "do_routes opts \<noteq> []"
    unfolding 1(11) sorts using bed_facts sort_facts by (cases beds; cases sorts) (auto simp: route_matrix_def)
  show ?thesis
    using 1(1,2,3,12,13,14,15) assms(3,4) nonempty names ok by (simp add: options_good_def)
qed

text \<open>The flags and the discovery agree. When the discovery flags are accepted on valid base filters, with retries
  and backoff that passed their own check and no server sort value given twice, the options built from
  them, at most sixteen routes with distinct names, valid filters and page limits, pass the validation
  of the discovery unchanged.\<close>

theorem built_options_accepted:
  assumes "build_location_discovery_options config = Inr opts"
    and "validate_search_filters (dg_base_filters config) = None" "0 \<le> dg_request_retries config" "0 \<le> dg_retry_backoff config"
    and "parse_server_sorts (dg_server_sorts config) (sf_sort (dg_base_filters config)) = Inr sorts" "distinct (map sv_value sorts)"
  shows "validate_discovery_options opts = Inr (do_max_pages opts, do_routes opts)"
  by (rule good_options_valid) (rule built_options_good [OF assms])

definition sample_flags :: "string list \<Rightarrow> discovery_config" where
  "sample_flags sorts =
     \<lparr>dg_max_pages = 3, dg_page_delay = 0, dg_request_retries = 2, dg_retry_backoff = 0, dg_bed_ranges = [''2, 3+''],
      dg_server_sorts = sorts, dg_home_types = [''condo''], dg_for_rent = True, dg_in_unit_laundry = True,
      dg_supplemental_no_laundry = True, dg_supplemental_pages = 1, dg_keyword_routes = [''den''], dg_base_filters = no_filters\<rparr>"

definition sample_options_built :: discovery_options where
  "sample_options_built = (case build_location_discovery_options (sample_flags [''days:2,newest'']) of Inr o1 \<Rightarrow> o1 | Inl _ \<Rightarrow> undefined)"

theorem built_options_accepted_witness:
  "validate_discovery_options sample_options_built = Inr (do_max_pages sample_options_built, do_routes sample_options_built)
   \<and> length (do_routes sample_options_built) = 7"
proof -
  have len: "(case build_location_discovery_options (sample_flags [''days:2,newest'']) of Inr o1 \<Rightarrow> length (do_routes o1) = 7 | Inl _ \<Rightarrow> False)"
    by code_simp
  then have built: "build_location_discovery_options (sample_flags [''days:2,newest'']) = Inr sample_options_built"
    "length (do_routes sample_options_built) = 7"
    by (auto simp: sample_options_built_def split: sum.splits)
  have base: "validate_search_filters (dg_base_filters (sample_flags s)) = None" for s
    by (simp add: sample_flags_def) code_simp
  have sorts: "parse_server_sorts (dg_server_sorts (sample_flags [''days:2,newest''])) (sf_sort (dg_base_filters (sample_flags [''days:2,newest''])))
      = Inr [\<lparr>sv_value = ''days'', sv_max_pages = 2\<rparr>, \<lparr>sv_value = ''newest'', sv_max_pages = 0\<rparr>]"
    by code_simp
  show ?thesis
    using built_options_accepted [OF built(1) base _ _ sorts] built(2) by (simp add: sample_flags_def)
qed

text \<open>The flag parser tells server sorts apart by value and page limit, but the name of a route holds only the
  value: a sort given twice with different page limits passes the flags and is then rejected by the
  discovery as a duplicate route.\<close>

theorem sort_twice_rejected_late:
  "(case build_location_discovery_options (sample_flags [''days:1,days:2'']) of
      Inr o1 \<Rightarrow> (case validate_discovery_options o1 of Inl msg \<Rightarrow> take 20 msg = ''duplicate route name'' | Inr _ \<Rightarrow> False)
    | Inl _ \<Rightarrow> False)"
  by code_simp

section \<open>Page overrides\<close>

lemma add_overrides_ok:
  assumes "add_overrides n found vs = Inr out" "distinct (map fst found)" "\<forall>(k, p) \<in> set found. 1 \<le> p \<and> p \<le> n"
  shows "distinct (map fst out) \<and> (\<forall>(k, p) \<in> set out. 1 \<le> p \<and> p \<le> n)"
  using assms
proof (induction vs arbitrary: found)
  case Nil
  then show ?case by simp
next
  case (Cons v vs)
  then obtain before after pages where step: "add_overrides n (found @ [(to_lower (trim_space before), pages)]) vs = Inr out"
      "1 \<le> pages" "pages \<le> n" "\<forall>y. (to_lower (trim_space before), y) \<notin> set found"
    by (auto simp add: Let_def not_less split: option.splits if_splits prod.splits)
  then have "to_lower (trim_space before) \<notin> fst ` set found" by force
  then show ?case
    using Cons.IH [OF step(1)] Cons.prems(2,3) step(2,3) by simp
qed

lemma parsed_overrides_good:
  assumes "parse_location_page_overrides vs n = Inr overrides"
  shows "distinct (map fst overrides) \<and> (\<forall>(k, p) \<in> set overrides. 1 \<le> p \<and> p \<le> n)"
  using add_overrides_ok [of n "[]" vs overrides] assms by (simp add: parse_location_page_overrides_def)

text \<open>Page overrides stay within the global page limit: a parsed list names every location once, and applying it
  to options within their own limit leaves a limit of at least one page, no greater than the global one, and
  no route beyond it.\<close>

theorem overrides_within_limit:
  assumes "parse_location_page_overrides vs n = Inr overrides" "1 \<le> do_max_pages opts" "do_max_pages opts \<le> n"
    and "\<forall>r \<in> set (do_routes opts). rt_max_pages r \<le> do_max_pages opts"
  shows "let o1 = apply_location_page_override opts place overrides in
     distinct (map fst overrides) \<and> 1 \<le> do_max_pages o1 \<and> do_max_pages o1 \<le> n
     \<and> (\<forall>r \<in> set (do_routes o1). rt_max_pages r \<le> do_max_pages o1)"
proof -
  have good: "distinct (map fst overrides)" "\<forall>(k, p) \<in> set overrides. 1 \<le> p \<and> p \<le> n"
    using parsed_overrides_good [OF assms(1)] by blast+
  show ?thesis
  proof (cases "map_of overrides (to_lower (trim_space place))")
    case None
    then show ?thesis using good(1) assms(2,3,4) by (simp add: apply_location_page_override_def Let_def)
  next
    case (Some p)
    then have "1 \<le> p \<and> p \<le> n" using good(2) map_of_SomeD by fastforce
    then show ?thesis using good(1) Some by (auto simp: apply_location_page_override_def Let_def)
  qed
qed

theorem overrides_within_limit_witness:
  "(let o1 = apply_location_page_override (sample_options_built) ''Seattle'' [(''seattle'', 1)] in do_max_pages o1 = 1
      \<and> list_all (\<lambda>r. rt_max_pages r \<le> 1) (do_routes o1))"
proof -
  have parsed: "parse_location_page_overrides [''Seattle = 1''] 3 = Inr [(''seattle'', 1)]" by code_simp
  have fine: "(case build_location_discovery_options (sample_flags [''days:2,newest'']) of
      Inr o1 \<Rightarrow> do_max_pages o1 = 3 \<and> list_all (\<lambda>r. rt_max_pages r \<le> 3) (do_routes o1) | Inl _ \<Rightarrow> False)"
    by code_simp
  then have "do_max_pages sample_options_built = 3" "list_all (\<lambda>r. rt_max_pages r \<le> 3) (do_routes sample_options_built)"
    by (auto simp: sample_options_built_def split: sum.splits)
  moreover have "map_of [(''seattle'', 1 :: int)] (to_lower (trim_space ''Seattle'')) = Some 1" by code_simp
  ultimately show ?thesis
    using overrides_within_limit [OF parsed, of sample_options_built "''Seattle''"]
    by (auto simp: apply_location_page_override_def Let_def list_all_iff)
qed

theorem bed_range_sound_witness: "(case parse_bed_range ''2-4'' of Inr b \<Rightarrow> br_min b = Finite 2 \<and> br_max b = Finite 4 | Inl _ \<Rightarrow> False)
   \<and> (\<exists>x y. Finite 2 = Finite x \<and> Finite 4 = Finite y \<and> 0 < x \<and> (y = 0 \<or> x \<le> y))"
proof -
  have p: "parse_bed_range ''2-4'' = Inr \<lparr>br_label = ''2to4'', br_min = Finite 2, br_max = Finite 4\<rparr>" by code_simp
  show ?thesis using bed_range_sound [OF p] p by simp
qed

end
