(* ===== verification/Search_Table.thy ===== *)
theory Search_Table
  imports Route_Flags Format History
begin

text \<open>
  The helpers of the search command (\<open>internal/cli/search.go\<close>): locations and their URLs, the filters on what
  the search results already tell, the tables, and what is printed in each output mode. A printed value is
  what is handed to \<open>Printer.Print\<close>. Letters and numbers are ASCII here.
\<close>

section \<open>Locations\<close>

definition location_part :: "string \<Rightarrow> string + string" where
  "location_part p =
     (if trim_space p = [] then Inl ''contains an empty comma-separated value'' else Inr (trim_space p))"

definition parse_locations :: "string list \<Rightarrow> string + string list" where
  "parse_locations vs =
     (case collect_unique to_lower location_part [] (comma_parts vs) of
        Inl msg \<Rightarrow> Inl msg
      | Inr locations \<Rightarrow>
          if length locations > 64 then Inl ''supports at most 64 unique locations per command'' else Inr locations)"

text \<open>The loop of \<open>locationSlug\<close>: is a separator pending, is anything written yet.\<close>

fun slug_from :: "bool \<Rightarrow> bool \<Rightarrow> string \<Rightarrow> string" where
  "slug_from pending written [] = []"
| "slug_from pending written (c # cs) =
     (if is_letter c \<or> is_digit c
      then (if pending \<and> written then [CHR ''-''] else []) @ [c] @ slug_from False True cs
      else slug_from True written cs)"

definition trim_dashes :: "string \<Rightarrow> string" where
  "trim_dashes s = rev (dropWhile (\<lambda>c. c = CHR ''-'') (rev (dropWhile (\<lambda>c. c = CHR ''-'') s)))"

definition location_slug :: "string \<Rightarrow> string" where
  "location_slug place = trim_dashes (slug_from False False (trim_space place))"

definition location_search_url :: "string \<Rightarrow> bool \<Rightarrow> string + string" where
  "location_search_url place for_rent =
     (let slug = location_slug place in
      if slug = [] then Inl ''search location must contain a letter or number''
      else if for_rent then Inr (''https://www.zillow.com/'' @ slug @ ''/rentals/'')
      else Inr (''https://www.zillow.com/homes/'' @ slug @ ''_rb/''))"

definition location_state_qualifier :: "string \<Rightarrow> string" where
  "location_state_qualifier place =
     (let fields = text_fields (trim_space place) in
      if length fields < 2 then []
      else let state = to_upper (last fields) in
        if length state \<noteq> 2 \<or> \<not> list_all is_upper state then [] else state)"

definition filter_listings_by_state :: "listing list \<Rightarrow> string \<Rightarrow> listing list" where
  "filter_listings_by_state ls state =
     (if state = [] then ls else filter (\<lambda>l. equal_fold (trim_space (ad_state (li_address l))) state) ls)"

text \<open>The key of a cached search: \<open>render\<close> is \<open>%#v\<close> of the routes and the page limit.\<close>

definition search_result_cache_key ::
  "(search_route list \<times> int \<Rightarrow> string) \<Rightarrow> string \<Rightarrow> bool \<Rightarrow> bool \<Rightarrow> discovery_options \<Rightarrow> string" where
  "search_result_cache_key render target include_raw discovery opts =
     target @ ''|raw='' @ (if include_raw then ''true'' else ''false'')
     @ ''|discovery='' @ (if discovery then ''true'' else ''false'')
     @ ''|options='' @ render (if discovery then (do_routes opts, do_max_pages opts) else ([], 0))"

section \<open>Filters on the search results\<close>

definition validate_snapshot_filters :: "search_filters \<Rightarrow> string option" where
  "validate_snapshot_filters f =
     (if sf_min_price f < 0 \<or> sf_max_price f < 0 then Some ''price filters must not be negative''
      else if sf_min_price f > 0 \<and> sf_max_price f > 0 \<and> sf_min_price f > sf_max_price f
      then Some ''minimum price must not exceed maximum price''
      else if \<not> finite_float (sf_min_beds f) \<or> \<not> finite_float (sf_max_beds f) \<or> \<not> finite_float (sf_min_baths f)
      then Some ''bed and bath filters must be finite''
      else if float_gt (Finite 0) (sf_min_beds f) \<or> float_gt (Finite 0) (sf_max_beds f) \<or> float_gt (Finite 0) (sf_min_baths f)
      then Some ''bed and bath filters must not be negative''
      else if positive (sf_min_beds f) \<and> positive (sf_max_beds f) \<and> float_gt (sf_min_beds f) (sf_max_beds f)
      then Some ''minimum beds must not exceed maximum beds''
      else None)"

definition home_type_names :: "string \<Rightarrow> string list" where
  "home_type_names t =
     (if t = home_type_apartment then [''APARTMENT'']
      else if t = home_type_condo then [''CONDO'', ''CONDOMINIUM'', ''CONDO_COOP'', ''COOP'']
      else if t = home_type_townhouse then [''TOWNHOUSE'', ''TOWNHOME'']
      else if t = home_type_single_family then [''SINGLE_FAMILY'', ''HOUSE'']
      else [])"

definition listing_home_type_matches :: "string \<Rightarrow> string list \<Rightarrow> bool" where
  "listing_home_type_matches v allowed \<longleftrightarrow> list_ex (\<lambda>t. to_upper (trim_space v) \<in> set (home_type_names t)) allowed"

definition price_in_range :: "search_filters \<Rightarrow> listing \<Rightarrow> bool" where
  "price_in_range f l \<longleftrightarrow>
     (sf_min_price f > 0 \<longrightarrow> (case li_price l of None \<Rightarrow> li_is_building l | Some p \<Rightarrow> p \<ge> sf_min_price f))
     \<and> (sf_max_price f > 0 \<longrightarrow> (case li_price l of None \<Rightarrow> li_is_building l | Some p \<Rightarrow> p \<le> sf_max_price f))"

definition rooms_in_range :: "search_filters \<Rightarrow> listing \<Rightarrow> bool" where
  "rooms_in_range f l \<longleftrightarrow>
     (positive (sf_min_beds f) \<longrightarrow> (case li_bedrooms l of None \<Rightarrow> False | Some b \<Rightarrow> \<not> float_gt (sf_min_beds f) (Finite b)))
     \<and> (positive (sf_max_beds f) \<longrightarrow> (case li_bedrooms l of None \<Rightarrow> False | Some b \<Rightarrow> \<not> float_gt (Finite b) (sf_max_beds f)))
     \<and> (positive (sf_min_baths f) \<longrightarrow> (case li_bathrooms l of None \<Rightarrow> False | Some b \<Rightarrow> \<not> float_gt (sf_min_baths f) (Finite b)))"

definition basic_match :: "search_filters \<Rightarrow> bool \<Rightarrow> listing \<Rightarrow> bool" where
  "basic_match f allow_unknown l \<longleftrightarrow>
     price_in_range f l \<and> (li_is_building l \<or> rooms_in_range f l)
     \<and> (sf_home_types f = [] \<or> allow_unknown \<and> trim_space (li_home_type l) = []
        \<or> listing_home_type_matches (trim_space (li_home_type l)) (sf_home_types f))"

definition filter_by_basic_metadata :: "listing list \<Rightarrow> search_filters \<Rightarrow> bool \<Rightarrow> listing list" where
  "filter_by_basic_metadata ls f allow_unknown = filter (basic_match f allow_unknown) ls"

definition filter_snapshot_listings :: "listing list \<Rightarrow> search_filters \<Rightarrow> listing list" where
  "filter_snapshot_listings ls f = filter_by_basic_metadata ls f False"

definition filter_discovered_listings :: "listing list \<Rightarrow> search_filters \<Rightarrow> listing list" where
  "filter_discovered_listings ls f = filter_by_basic_metadata ls f True"

section \<open>Tables\<close>

record table_columns =
  tc_details :: bool
  tc_cost :: bool
  tc_match :: bool
  tc_history :: bool
  tc_verification :: bool

definition no_columns :: table_columns where
  "no_columns = \<lparr>tc_details = False, tc_cost = False, tc_match = False, tc_history = False, tc_verification = False\<rparr>"

definition merge_columns :: "table_columns \<Rightarrow> table_columns \<Rightarrow> table_columns" where
  "merge_columns a b =
     \<lparr>tc_details = (tc_details a \<or> tc_details b), tc_cost = (tc_cost a \<or> tc_cost b), tc_match = (tc_match a \<or> tc_match b),
      tc_history = (tc_history a \<or> tc_history b), tc_verification = (tc_verification a \<or> tc_verification b)\<rparr>"

definition columns_of_listing :: "listing \<Rightarrow> table_columns" where
  "columns_of_listing l =
     \<lparr>tc_details = (li_detail_status l \<noteq> [] \<or> li_laundry l \<noteq> [] \<or> li_parking l \<noteq> [] \<or> li_pet_policy l \<noteq> []
        \<or> li_flex_spaces l \<noteq> [] \<or> li_year_built l \<noteq> None),
      tc_cost = (li_required_fees l \<noteq> None \<or> li_total_cost l \<noteq> None \<or> li_price_includes_fees l \<noteq> None),
      tc_match = (li_match_status l \<noteq> []), tc_history = (li_history_status l \<noteq> [] \<or> li_history_changes l \<noteq> []),
      tc_verification = (li_verification_notes l \<noteq> [])\<rparr>"

definition listing_columns :: "listing list \<Rightarrow> table_columns" where
  "listing_columns ls = foldl (\<lambda>c l. merge_columns c (columns_of_listing l)) no_columns ls"

definition listing_table_headers :: "table_columns \<Rightarrow> string list" where
  "listing_table_headers c =
     [''ZPID'', ''PRICE''] @ (if tc_cost c then [''FEES'', ''TOTAL''] else [])
     @ [''BEDS'', ''BATHS'', ''SQFT'', ''DAYS'', ''AVAILABLE'']
     @ (if tc_details c then [''YEAR'', ''LAUNDRY'', ''PARKING'', ''PETS'', ''FLEX''] else [])
     @ (if tc_match c then [''MATCH''] else []) @ (if tc_history c then [''HISTORY'', ''CHANGES''] else [])
     @ (if tc_verification c then [''VERIFY''] else []) @ [''ADDRESS'', ''URL'']"

definition listing_table_row :: "table_columns \<Rightarrow> listing \<Rightarrow> string list" where
  "listing_table_row c l =
     [li_id l, format_money (li_price l) (li_price_text l)]
     @ (if tc_cost c then [format_money (li_required_fees l) [], format_money (li_total_cost l) []] else [])
     @ [format_float (li_bedrooms l), format_float (li_bathrooms l), format_integer (li_living_area l),
        format_integer (li_days_on_zillow l), li_availability l]
     @ (if tc_details c then [format_plain_integer (li_year_built l), li_laundry l, li_parking l, li_pet_policy l,
          join '','' (li_flex_spaces l)] else [])
     @ (if tc_match c then [li_match_status l] else [])
     @ (if tc_history c then [li_history_status l, join '','' (li_history_changes l)] else [])
     @ (if tc_verification c then [join '','' (li_verification_notes l)] else [])
     @ [format_address (li_address l), li_url l]"

definition search_table :: "listing list \<Rightarrow> table" where
  "search_table ls =
     \<lparr>tb_headers = listing_table_headers (listing_columns ls), tb_rows = map (listing_table_row (listing_columns ls)) ls\<rparr>"

record location_result =
  lr_location :: string
  lr_metadata :: search_metadata
  lr_listings :: "listing list"
  lr_raw :: string
  lr_error :: string

definition area_columns :: "location_result list \<Rightarrow> table_columns" where
  "area_columns areas = foldl (\<lambda>c a. merge_columns c (listing_columns (lr_listings a))) no_columns areas"

definition has_errors :: "location_result list \<Rightarrow> bool" where
  "has_errors areas \<longleftrightarrow> list_ex (\<lambda>a. lr_error a \<noteq> []) areas"

definition area_rows :: "bool \<Rightarrow> table_columns \<Rightarrow> location_result \<Rightarrow> string list list" where
  "area_rows errors c a =
     (if lr_error a \<noteq> []
      then [[lr_location a] @ (if errors then [lr_error a] else []) @ replicate (length (listing_table_headers c)) []] else [])
     @ map (\<lambda>l. [lr_location a] @ (if errors then [[]] else []) @ listing_table_row c l) (lr_listings a)"

definition multi_location_table :: "location_result list \<Rightarrow> table" where
  "multi_location_table areas =
     (let c = area_columns areas; errors = has_errors areas in
      \<lparr>tb_headers = [''AREA''] @ (if errors then [''ERROR''] else []) @ listing_table_headers c,
       tb_rows = concat (map (area_rows errors c) areas)\<rparr>)"

section \<open>Printing\<close>

datatype printed =
    PrintedListing listing
  | PrintedLocated string "listing option" string
  | PrintedTable table
  | PrintedResult search_result
  | PrintedAreas "location_result list"

definition location_lines :: "location_result \<Rightarrow> printed list" where
  "location_lines a =
     map (\<lambda>l. PrintedLocated (lr_location a) (Some l) []) (lr_listings a)
     @ (if lr_error a \<noteq> [] then [PrintedLocated (lr_location a) None (lr_error a)] else [])"

definition multi_location_output :: "output_mode \<Rightarrow> location_result list \<Rightarrow> printed list" where
  "multi_location_output mode areas =
     (case mode of
        ModeJSONL \<Rightarrow> concat (map location_lines areas)
      | ModeTable \<Rightarrow> [PrintedTable (multi_location_table areas)]
      | ModeJSON \<Rightarrow> [PrintedAreas areas])"

text \<open>What is printed, and the error that is returned afterwards.\<close>

definition single_search_output :: "output_mode \<Rightarrow> search_result \<Rightarrow> string \<Rightarrow> printed list \<times> string option" where
  "single_search_output mode r partial_error =
     ((case mode of
         ModeJSONL \<Rightarrow> map PrintedListing (sr_listings r)
       | ModeTable \<Rightarrow> [PrintedTable (search_table (sr_listings r))]
       | ModeJSON \<Rightarrow> [PrintedResult r]),
      (if partial_error \<noteq> [] then Some partial_error else None))"

text \<open>The advice appended to an error the user can act on.\<close>

definition explain_zillow_error :: "go_error \<Rightarrow> go_error \<times> string" where
  "explain_zillow_error err =
     (err,
      if error_is err ErrChallenge
      then ''; configure a standard proxy or use --snapshot instead of replaying challenge cookies''
      else if error_is err ErrRateLimited then ''; wait before making another request''
      else if error_is err ErrSchemaDrift then ''; refresh the browser capture; for searches, derive a new profile''
      else [])"

definition wants_help :: "string list \<Rightarrow> bool" where
  "wants_help args \<longleftrightarrow> ''-h'' \<in> set args \<or> ''--help'' \<in> set args"

end
