(* ===== verification/Search_Table_Props.thy ===== *)
theory Search_Table_Props
  imports Search_Table Route_Flags_Props
begin

text \<open>
  Locations and their URLs, the basic filters and the tables of the search command: a location is asked of
  Zillow only, under its own letters and digits; the filter after the enrichment subsumes the one before it;
  every table is rectangular.
\<close>

section \<open>Locations\<close>

lemma location_parts: "location_part p = Inr x \<longleftrightarrow> x = trim_space p \<and> x \<noteq> []"
  by (auto simp: location_part_def)

lemma values_read_locations:
  "first_fault location_part ps = None \<Longrightarrow> values_read location_part ps = map trim_space ps"
  by (induction ps) (auto simp: location_part_def split: if_splits)

text \<open>
  Parsed locations are non-empty, trimmed and pairwise different up to case, at most 64 of them; every
  part of every flag value is one of them up to case, and each of them is a part.
\<close>
theorem locations_exact:
  assumes "parse_locations vs = Inr locations"
  shows "distinct (map to_lower locations) \<and> length locations \<le> 64
         \<and> list_all (\<lambda>l. l \<noteq> [] \<and> trim_space l = l) locations
         \<and> set locations \<subseteq> trim_space ` set (comma_parts vs)
         \<and> to_lower ` set locations = (to_lower \<circ> trim_space) ` set (comma_parts vs)"
proof -
  have cu: "collect_unique to_lower location_part [] (comma_parts vs) = Inr locations" and bound: "length locations \<le> 64"
    using assms by (auto simp: parse_locations_def split: sum.splits if_splits)
  note ok = collect_unique_ok [OF cu]
  have read: "l \<noteq> [] \<and> trim_space l = l \<and> l \<in> trim_space ` set (comma_parts vs)" if "l \<in> set locations" for l
  proof -
    from ok that obtain p where p: "p \<in> set (comma_parts vs)" "location_part p = Inr l" by blast
    then have l: "l = trim_space p \<and> l \<noteq> []" unfolding location_parts by blast
    then have "trim_space l = l" by simp
    then show ?thesis using p(1) l by blast
  qed
  have ff: "first_fault location_part (comma_parts vs) = None" and us: "locations = uniques to_lower [] (map trim_space (comma_parts vs))"
    using cu values_read_locations by (auto simp: collect_unique_spec split: option.splits)
  have "to_lower (trim_space p) \<in> to_lower ` set locations" if "p \<in> set (comma_parts vs)" for p
    using uq.scan_covers [of "trim_space p" "map trim_space (comma_parts vs)" to_lower "to_lower (trim_space p)" "[]"] that us by auto
  then show ?thesis using ok bound read by (auto simp: list_all_iff)
qed

theorem locations_exact_witness:
  "(case parse_locations [''Cary, NC'', ''cary''] of Inr ls \<Rightarrow> distinct (map to_lower ls) \<and> length ls = 2 | Inl _ \<Rightarrow> False)"
proof -
  have p: "parse_locations [''Cary, NC'', ''cary''] = Inr [''Cary'', ''NC'']" by code_simp
  from locations_exact [OF p] show ?thesis by (simp add: p)
qed

section \<open>The slug\<close>

definition slug_byte :: "char \<Rightarrow> bool" where
  "slug_byte c \<longleftrightarrow> is_letter c \<or> is_digit c"

lemma dash_no_slug_byte [simp]: "\<not> slug_byte CHR ''-''"
  by code_simp

text \<open>No dash at either border, and no two in a row.\<close>

fun tidy_from :: "bool \<Rightarrow> string \<Rightarrow> bool" where
  "tidy_from after_letter [] = after_letter"
| "tidy_from after_letter (c # cs) =
     (if slug_byte c then tidy_from True cs else c = CHR ''-'' \<and> after_letter \<and> tidy_from False cs)"

lemma slug_tidy: "tidy_from True (slug_from pending True s)"
  by (induction s arbitrary: pending) (auto simp: slug_byte_def [symmetric])

lemma slug_tidy_start: "slug_from pending False s = [] \<or> tidy_from False (slug_from pending False s)"
  by (induction s arbitrary: pending) (auto simp: slug_byte_def [symmetric] slug_tidy)

lemma tidy_hd: "tidy_from False s \<Longrightarrow> s \<noteq> [] \<and> slug_byte (hd s)"
  by (cases s) (auto split: if_splits)

lemma tidy_last: "tidy_from a s \<Longrightarrow> s \<noteq> [] \<Longrightarrow> slug_byte (last s)"
  by (induction s arbitrary: a) (auto split: if_splits)

lemma trim_dashes_tidy:
  assumes "tidy_from False s" shows "trim_dashes s = s"
proof -
  from tidy_hd [OF assms] have ne: "s \<noteq> []" and h: "slug_byte (hd s)" by auto
  have l: "slug_byte (last s)" using tidy_last [OF assms ne] .
  have "dropWhile (\<lambda>c. c = CHR ''-'') s = s" using ne h by (cases s) auto
  moreover have "dropWhile (\<lambda>c. c = CHR ''-'') (rev s) = rev s" using ne l by (cases s rule: rev_cases) auto
  ultimately show ?thesis by (simp add: trim_dashes_def)
qed

lemma location_slug_tidy: "location_slug p = [] \<or> tidy_from False (location_slug p)"
  using slug_tidy_start [of False "trim_space p"] trim_dashes_tidy by (auto simp: location_slug_def trim_dashes_def)

lemma slug_letters: "filter slug_byte (slug_from pending written s) = filter slug_byte s"
  by (induction s arbitrary: pending written) (auto simp: slug_byte_def [symmetric])

lemma space_no_slug_byte: "is_space c \<Longrightarrow> \<not> slug_byte c"
  by (auto simp: is_space_def slug_byte_def is_letter_def is_digit_def is_upper_def is_lower_def)

lemma filter_dropWhile_none: "(\<And>c. P c \<Longrightarrow> \<not> Q c) \<Longrightarrow> filter Q (dropWhile P s) = filter Q s"
  by (induction s) auto

lemma filter_trim_space: "filter slug_byte (trim_space s) = filter slug_byte s"
  by (simp add: trim_space_def trim_right_def trim_left_def rev_filter [symmetric] filter_dropWhile_none space_no_slug_byte)

lemma location_slug_letters: "filter slug_byte (location_slug p) = filter slug_byte p"
proof -
  have drop: "filter slug_byte (dropWhile (\<lambda>c. c = CHR ''-'') s) = filter slug_byte s" for s
    by (rule filter_dropWhile_none) auto
  have "filter slug_byte (trim_dashes s) = filter slug_byte s" for s
    by (simp add: trim_dashes_def rev_filter [symmetric] drop)
  then show ?thesis by (simp add: location_slug_def slug_letters filter_trim_space)
qed

lemma tidy_bytes: "tidy_from a s \<Longrightarrow> list_all (\<lambda>c. slug_byte c \<or> c = CHR ''-'') s"
  by (induction s arbitrary: a) (auto split: if_splits)

section \<open>The URL\<close>

text \<open>A path of plain bytes is read as it is written.\<close>

definition plain_byte :: "char \<Rightarrow> bool" where
  "plain_byte c \<longleftrightarrow> slug_byte c \<or> c \<in> set ''-_/''"

lemma plain_byte_codes: "plain_byte c \<Longrightarrow> \<not> is_space c \<and> \<not> is_control c \<and> c \<noteq> CHR ''#'' \<and> c \<noteq> CHR ''?'' \<and> c \<noteq> CHR ''%'' \<and> c \<noteq> CHR '':''"
  by (auto simp: plain_byte_def slug_byte_def is_space_def is_control_def is_letter_def is_digit_def is_upper_def is_lower_def)

lemma cut_byte_absent: "c \<notin> set s \<Longrightarrow> cut_byte c s = (s, [], False)"
  by (induction s) auto

lemma unescape_plain: "list_all plain_byte s \<Longrightarrow> unescape EncodePath s = Some s"
  by (induction s) (auto dest: plain_byte_codes)

lemma host_parses: "parse_authority ''www.zillow.com'' = Some (None, ''www.zillow.com'')"
  by code_simp

definition site_page :: "string \<Rightarrow> go_url" where
  "site_page path = empty_url\<lparr>u_scheme := ''https'', u_host := ''www.zillow.com'', u_path := path, u_raw_path := path\<rparr>"

lemma site_url_parses:
  assumes "list_all plain_byte path"
  shows "url_parse (''https://www.zillow.com/'' @ path) = Some (site_page (CHR ''/'' # path))"
proof -
  have codes: "\<not> is_control c \<and> c \<noteq> CHR ''#'' \<and> c \<noteq> CHR ''?''" if "c \<in> set path" for c
    using assms plain_byte_codes that by (auto simp: list_all_iff)
  have hash: "CHR ''#'' \<notin> set (''https://www.zillow.com/'' @ path)" using codes by auto
  have ctl: "\<not> list_ex is_control (''https://www.zillow.com/'' @ path)"
    using codes by (auto simp: list_ex_iff is_control_def)
  have scheme: "get_scheme (''https://www.zillow.com/'' @ path) = Some (''https'', ''//www.zillow.com/'' @ path)"
    by (simp add: get_scheme_def is_letter_def is_upper_def is_lower_def is_digit_def)
  have query: "CHR ''?'' \<notin> set (''//www.zillow.com/'' @ path)" using codes by auto
  have un: "unescape EncodePath (CHR ''/'' # path) = Some (CHR ''/'' # path)"
    using unescape_plain [of "CHR ''/'' # path"] assms by (simp add: plain_byte_def)
  have rest: "parse_rest ''https'' [] (''//www.zillow.com/'' @ path) = Some (site_page (CHR ''/'' # path))"
    using un host_parses by (simp add: parse_rest_def has_prefix_def site_page_def empty_url_def Let_def)
  have low: "to_lower ''https'' = ''https''" by code_simp
  show ?thesis
    unfolding url_parse_def cut_byte_absent [OF hash] using ctl scheme cut_byte_absent [OF query] rest low
    by (simp add: site_page_def empty_url_def)
qed

lemma trim_space_bordered:
  assumes "s \<noteq> []" "\<not> is_space (hd s)" "\<not> is_space (last s)" shows "trim_space s = s"
proof -
  have "dropWhile is_space s = s" using assms by (cases s) auto
  moreover have "dropWhile is_space (rev s) = rev s" using assms by (cases s rule: rev_cases) auto
  ultimately show ?thesis by (simp add: trim_space_def trim_left_def trim_right_def)
qed

text \<open>The path that a location is asked under.\<close>

definition location_path :: "string \<Rightarrow> bool \<Rightarrow> string" where
  "location_path place for_rent =
     (if for_rent then location_slug place @ ''/rentals/'' else ''homes/'' @ location_slug place @ ''_rb/'')"

lemma location_url_path:
  "location_search_url place for_rent = Inr u \<longleftrightarrow>
   location_slug place \<noteq> [] \<and> u = ''https://www.zillow.com/'' @ location_path place for_rent"
  by (auto simp: location_search_url_def location_path_def Let_def)

lemma slug_plain: "list_all plain_byte (location_slug place)"
  using location_slug_tidy [of place] tidy_bytes [of False "location_slug place"]
  by (auto simp: plain_byte_def list_all_iff)

lemma location_path_plain: "list_all plain_byte (location_path place for_rent)"
  using slug_plain [of place] by (auto simp: location_path_def plain_byte_def slug_byte_def is_letter_def is_lower_def)

lemma location_url_bordered:
  "trim_space (''https://www.zillow.com/'' @ location_path place for_rent) = ''https://www.zillow.com/'' @ location_path place for_rent"
  by (rule trim_space_bordered) (simp_all add: location_path_def is_space_def)

text \<open>
  A location is asked of the right site under its own name: its URL passes the client's allowlist and
  denotes exactly the path of its slug, without query or fragment; the slug holds the letters and digits of
  the location in order, with single dashes between them. There is an error exactly when it has none.
\<close>
theorem location_url_targets_place:
  "(case location_search_url place for_rent of
      Inl msg \<Rightarrow> filter slug_byte place = []
    | Inr u \<Rightarrow> filter slug_byte place \<noteq> [] \<and> parse_allowed_zillow_url u = Inr (site_page (CHR ''/'' # location_path place for_rent)))
   \<and> filter slug_byte (location_slug place) = filter slug_byte place
   \<and> (location_slug place = [] \<or> tidy_from False (location_slug place))"
proof -
  note tidy = location_slug_tidy [of place] and letters = location_slug_letters [of place]
  have nonempty: "location_slug place = [] \<longleftrightarrow> filter slug_byte place = []"
  proof
    assume "filter slug_byte place = []"
    then have none: "filter slug_byte (location_slug place) = []" using letters by simp
    show "location_slug place = []"
    proof (rule ccontr)
      assume ne: "location_slug place \<noteq> []"
      then have "slug_byte (hd (location_slug place))" using tidy tidy_hd by blast
      then show False using none ne by (cases "location_slug place") auto
    qed
  qed (use letters in simp)
  have host: "url_port (site_page p) = [] \<and> allowed_zillow_host (url_hostname (site_page p))" for p
    using zillow_base_safe url_port_cong [of "site_page p" zillow_base] by (simp add: site_page_def zillow_base_def empty_url_def)
  have allowed: "parse_allowed_zillow_url (''https://www.zillow.com/'' @ location_path place for_rent)
                 = Inr (site_page (CHR ''/'' # location_path place for_rent))"
    using site_url_parses [OF location_path_plain] host
    by (simp add: parse_allowed_zillow_url_def location_url_bordered del: append.simps)
       (simp add: site_page_def empty_url_def)
  show ?thesis
  proof (cases "location_search_url place for_rent")
    case (Inl msg)
    then have "location_slug place = []" by (auto simp: location_search_url_def Let_def split: if_splits)
    then show ?thesis using Inl nonempty letters by simp
  next
    case (Inr u)
    then have "location_slug place \<noteq> []" "u = ''https://www.zillow.com/'' @ location_path place for_rent"
      unfolding location_url_path by blast+
    then show ?thesis using Inr nonempty letters tidy allowed by simp
  qed
qed

section \<open>Filters\<close>

definition type_settled :: "search_filters \<Rightarrow> listing \<Rightarrow> bool" where
  "type_settled f l \<longleftrightarrow> sf_home_types f = [] \<or> trim_space (li_home_type l) \<noteq> []"

lemma unknown_type_no_match: "trim_space v = [] \<Longrightarrow> \<not> listing_home_type_matches v ts"
  by (auto simp: listing_home_type_matches_def list_ex_iff home_type_names_def to_upper_def split: if_splits)

lemma strict_match: "basic_match f False l \<longleftrightarrow> basic_match f True l \<and> type_settled f l"
  using unknown_type_no_match [of "trim_space (li_home_type l)" "sf_home_types f"]
  by (auto simp: basic_match_def type_settled_def)

text \<open>
  The basic filters around the enrichment agree: the one before it keeps beyond the strict one only
  listings of unknown home type, and the strict one after it has the same result as on its own. Filtering
  twice changes nothing.
\<close>
theorem basic_filters_agree:
  "filter_snapshot_listings (filter_discovered_listings ls f) f = filter_snapshot_listings ls f
   \<and> filter_snapshot_listings ls f = filter (type_settled f) (filter_discovered_listings ls f)
   \<and> filter_discovered_listings (filter_discovered_listings ls f) f = filter_discovered_listings ls f"
  by (auto simp: filter_snapshot_listings_def filter_discovered_listings_def filter_by_basic_metadata_def strict_match
      intro: filter_cong)

section \<open>Tables\<close>

lemma row_width: "length (listing_table_row c l) = length (listing_table_headers c)"
  by (simp add: listing_table_row_def listing_table_headers_def)

lemma area_row_width:
  "(\<And>a. a \<in> set areas \<Longrightarrow> lr_error a \<noteq> [] \<Longrightarrow> errors) \<Longrightarrow> row \<in> set (concat (map (area_rows errors c) areas)) \<Longrightarrow>
   length row = 1 + (if errors then 1 else 0) + length (listing_table_headers c)"
  by (auto simp: area_rows_def row_width split: if_splits)

text \<open>Where the first cell with a control character is, row by row.\<close>

lemma check_rows_rectangular:
  "(\<And>row. row \<in> set rows \<Longrightarrow> length row = n) \<Longrightarrow>
   check_rows i (Some n) rows = None \<and> list_all (\<lambda>row. \<not> list_ex bad_cell row) rows
   \<or> (\<exists>j k. check_rows i (Some n) rows = Some (BadCell j k) \<and> \<not> list_all (\<lambda>row. \<not> list_ex bad_cell row) rows)"
proof (induction rows arbitrary: i)
  case (Cons row rows)
  have bad: "first_bad 0 row = None \<longleftrightarrow> \<not> list_ex bad_cell row" by (auto simp: first_bad_None list_ex_iff)
  show ?case
  proof (cases "first_bad 0 row")
    case None
    then show ?thesis using Cons.IH [of "i + 1"] Cons.prems bad by auto
  next
    case (Some j)
    then show ?thesis using Cons.prems [of row] bad by (auto simp: Let_def)
  qed
qed simp

lemma headers_printable: "first_bad 0 (listing_table_headers c) = None" "first_bad 0 (''AREA'' # listing_table_headers c) = None"
  "first_bad 0 (''AREA'' # ''ERROR'' # listing_table_headers c) = None"
  by (auto simp: first_bad_None listing_table_headers_def bad_cell_def is_control_def)

definition printable_rows :: "table \<Rightarrow> bool" where
  "printable_rows t \<longleftrightarrow> list_all (\<lambda>row. \<not> list_ex bad_cell row) (tb_rows t)"

text \<open>The check of the table passes, or names a cell with a control character.\<close>

definition checked :: "table \<Rightarrow> bool" where
  "checked t \<longleftrightarrow>
     (case validate_table t of
        None \<Rightarrow> printable_rows t
      | Some (BadCell j k) \<Rightarrow> \<not> printable_rows t
      | Some _ \<Rightarrow> False)"

lemma rectangular_checked:
  assumes "\<And>row. row \<in> set (tb_rows t) \<Longrightarrow> length row = length (tb_headers t)" and "first_bad 0 (tb_headers t) = None"
    and "tb_headers t \<noteq> []"
  shows "checked t"
  using check_rows_rectangular [of "tb_rows t" "length (tb_headers t)" 0] assms
  by (auto simp: checked_def validate_table_def printable_rows_def)

text \<open>
  The tables of one and of several locations are as wide as their headers in every row, so a table is
  printed unless one of its cells holds a control character; it has one row for each listing and one
  for each failed location.
\<close>
theorem search_tables_rectangular:
  "checked (search_table ls) \<and> checked (multi_location_table areas)
   \<and> length (tb_rows (search_table ls)) = length ls
   \<and> length (tb_rows (multi_location_table areas))
     = sum_list (map (\<lambda>a. length (lr_listings a)) areas) + length (filter (\<lambda>a. lr_error a \<noteq> []) areas)"
proof -
  have one: "checked (search_table ls)"
    by (rule rectangular_checked) (auto simp: search_table_def row_width headers_printable, simp add: listing_table_headers_def)
  let ?m = "multi_location_table areas"
  have heads: "tb_headers ?m = [''AREA''] @ (if has_errors areas then [''ERROR''] else []) @ listing_table_headers (area_columns areas)"
    and cells: "tb_rows ?m = concat (map (area_rows (has_errors areas) (area_columns areas)) areas)"
    by (simp_all add: multi_location_table_def Let_def)
  have reported: "lr_error a \<noteq> [] \<Longrightarrow> has_errors areas" if "a \<in> set areas" for a
    using that by (auto simp: has_errors_def list_ex_iff)
  have width: "length row = length (tb_headers ?m)" if "row \<in> set (tb_rows ?m)" for row
    using area_row_width [OF reported that [unfolded cells]] unfolding heads by simp
  have printable: "first_bad 0 (tb_headers ?m) = None"
    unfolding heads by (cases "has_errors areas") (simp_all add: headers_printable del: first_bad.simps)
  have multi: "checked ?m"
    by (rule rectangular_checked [OF width printable]) (assumption, subst heads, simp)
  have rows: "length (concat (map (area_rows e c) as)) =
        sum_list (map (\<lambda>a. length (lr_listings a)) as) + length (filter (\<lambda>a. lr_error a \<noteq> []) as)" for e c as
    by (induction as) (auto simp: area_rows_def)
  have "length (tb_rows ?m) = sum_list (map (\<lambda>a. length (lr_listings a)) areas) + length (filter (\<lambda>a. lr_error a \<noteq> []) areas)"
    unfolding cells by (rule rows)
  moreover have "length (tb_rows (search_table ls)) = length ls" by (simp add: search_table_def)
  ultimately show ?thesis using one multi by blast
qed

end
