(* ===== verification/TLS_Client.thy ===== *)
theory TLS_Client
  imports Client
begin

text \<open>
  The adapter of tls-client (\<open>internal/httpclient/tls.go\<close>): its options, the choice of the profile, the
  checks of the timeout and of the proxy URL, and the conversion of requests and responses with the order
  of the headers.

  Of tls-client the model takes the table of profiles, the client name of a profile, the backend and the
  two keys that carry a header order. A request and its URL have an address, so that the comparison of
  pointers can be written down; a body is any value, \<open>None\<close> for nil.
\<close>

section \<open>Options\<close>

record tls_options =
  tp_profile :: string
  tp_timeout :: int
  tp_proxy_url :: string

record 'p profile_library =
  pl_mapped :: "(string \<times> 'p) list"
  pl_default :: 'p
  pl_client :: "'p \<Rightarrow> string"

record 'p tls_config =
  tc_profile_name :: string
  tc_profile :: 'p
  tc_timeout :: int
  tc_timeout_ms :: int
  tc_proxy_url :: string
  tc_follow_redirects :: bool
  tc_random_order :: bool

text \<open>The order of the names: by their lower case, then as written.\<close>

definition profile_less :: "string \<Rightarrow> string \<Rightarrow> bool" where
  "profile_less a b =
     (if to_lower a = to_lower b then string_less a b else string_less (to_lower a) (to_lower b))"

definition resolve_tls_profile :: "'p profile_library \<Rightarrow> string \<Rightarrow> string + string \<times> 'p" where
  "resolve_tls_profile lib name0 =
     (let name = trim_space name0 in
      if name = [] then Inl ''TLS profile must not be empty''
      else if equal_fold name ''default'' then Inr (''default'', pl_default lib)
      else case find (equal_fold name) (sort_stable profile_less (map fst (pl_mapped lib))) of
             None \<Rightarrow> Inl (''unknown TLS profile '' @ quote name)
           | Some mapped \<Rightarrow>
               (case map_of (pl_mapped lib) mapped of
                  Some p \<Rightarrow> Inr (mapped, p)
                | None \<Rightarrow> Inl (''unknown TLS profile '' @ quote name)))"

definition random_extension_ordering :: "'p profile_library \<Rightarrow> 'p \<Rightarrow> bool" where
  "random_extension_ordering lib p \<longleftrightarrow> equal_fold (pl_client lib p) ''chrome'' \<or> equal_fold (pl_client lib p) ''brave''"

definition millisecond :: int where "millisecond = 10 ^ 6"

definition validate_tls_timeout :: "int \<Rightarrow> string + int" where
  "validate_tls_timeout timeout =
     (if timeout \<le> 0 then Inl ''TLS timeout must be positive''
      else if timeout < millisecond then Inl ''TLS timeout must be at least 1ms''
      else if timeout div millisecond > 2 ^ 63 - 1 then Inl ''TLS timeout is too large for tls-client''
      else Inr (timeout div millisecond))"

definition tls_proxy_schemes :: "string list" where
  "tls_proxy_schemes = [''http'', ''https'', ''socks4'', ''socks4a'', ''socks5'', ''socks5h'']"

text \<open>\<open>parsed.User.Username()\<close>.\<close>

definition url_username :: "string \<Rightarrow> string" where
  "url_username userinfo =
     (case unescape EncodeUserPassword (fst (cut_byte CHR '':'' userinfo)) of None \<Rightarrow> [] | Some name \<Rightarrow> name)"

definition port_in_range :: "string \<Rightarrow> bool" where
  "port_in_range port \<longleftrightarrow> (case parse_int64 port of None \<Rightarrow> False | Some n \<Rightarrow> \<not> n < 1 \<and> \<not> n > 65535)"

definition proxy_fault :: "go_url \<Rightarrow> string option" where
  "proxy_fault u =
     (if u_scheme u = [] then Some ''TLS proxy URL must include a scheme''
      else if u_scheme u \<notin> set tls_proxy_schemes then Some (''unsupported TLS proxy scheme '' @ quote (u_scheme u))
      else if u_host u = [] \<or> url_hostname u = [] then Some ''TLS proxy URL must include a host''
      else if u_path u \<noteq> [] \<and> u_path u \<noteq> ''/'' then Some ''TLS proxy URL must not include a path''
      else if u_raw_query u \<noteq> [] \<or> u_force_query u then Some ''TLS proxy URL must not include a query''
      else if u_fragment u \<noteq> [] then Some ''TLS proxy URL must not include a fragment''
      else if (case u_userinfo u of None \<Rightarrow> False | Some ui \<Rightarrow> url_username ui = []) then Some ''TLS proxy URL username must not be empty''
      else if has_prefix (u_scheme u) ''socks'' \<and> url_port u = [] then Some ''TLS SOCKS proxy URL must include a port''
      else if url_port u \<noteq> [] \<and> \<not> port_in_range (url_port u) then Some ''TLS proxy URL port must be between 1 and 65535''
      else None)"

definition validate_tls_proxy_url :: "string \<Rightarrow> string + string" where
  "validate_tls_proxy_url v0 =
     (let v = trim_space v0 in
      if v = [] then Inr []
      else case url_parse v of
             None \<Rightarrow> Inl ''parse TLS proxy URL''
           | Some parsed \<Rightarrow>
               if u_opaque parsed \<noteq> [] then Inl ''TLS proxy URL must use hierarchical URL syntax''
               else (let u = parsed\<lparr>u_scheme := to_lower (u_scheme parsed)\<rparr>
                     in case proxy_fault u of Some msg \<Rightarrow> Inl msg | None \<Rightarrow> Inr (url_string u)))"

text \<open>
  \<open>newTLSRoundTripper\<close>; a factory that is nil is \<open>None\<close>, as is the client it returns. The error is the
  text without the one of \<open>url.Parse\<close>.
\<close>

definition new_tls_round_tripper ::
  "'p profile_library \<Rightarrow> tls_options \<Rightarrow> ('p tls_config \<Rightarrow> string + 'c option) option \<Rightarrow> string + 'c" where
  "new_tls_round_tripper lib o1 factory0 =
     (case factory0 of
        None \<Rightarrow> Inl ''new TLS round tripper: backend factory is nil''
      | Some factory \<Rightarrow>
     (case resolve_tls_profile lib (tp_profile o1) of
        Inl msg \<Rightarrow> Inl (''new TLS round tripper: '' @ msg)
      | Inr (name, p) \<Rightarrow>
     (case validate_tls_timeout (tp_timeout o1) of
        Inl msg \<Rightarrow> Inl (''new TLS round tripper: '' @ msg)
      | Inr ms \<Rightarrow>
     (case validate_tls_proxy_url (tp_proxy_url o1) of
        Inl msg \<Rightarrow> Inl (''new TLS round tripper: '' @ msg)
      | Inr proxy \<Rightarrow>
     (case factory \<lparr>tc_profile_name = name, tc_profile = p, tc_timeout = tp_timeout o1, tc_timeout_ms = ms,
                    tc_proxy_url = proxy, tc_follow_redirects = False,
                    tc_random_order = random_extension_ordering lib p\<rparr> of
        Inl msg \<Rightarrow> Inl (''new TLS round tripper: create tls-client backend: '' @ msg)
      | Inr None \<Rightarrow> Inl ''new TLS round tripper: create tls-client backend: returned nil client''
      | Inr (Some c) \<Rightarrow> Inr c)))))"

text \<open>The options \<open>newTLSBackend\<close> hands to tls-client, in order.\<close>

datatype 'p backend_option =
    WithClientProfile 'p
  | WithTimeoutMilliseconds int
  | WithProxyUrl string
  | WithRandomTLSExtensionOrder
  | WithNotFollowRedirects

definition new_tls_backend :: "'p tls_config \<Rightarrow> 'p backend_option list" where
  "new_tls_backend c =
     [WithClientProfile (tc_profile c), WithTimeoutMilliseconds (tc_timeout_ms c)]
     @ (if tc_proxy_url c \<noteq> [] then [WithProxyUrl (tc_proxy_url c)] else [])
     @ (if tc_random_order c then [WithRandomTLSExtensionOrder] else [])
     @ (if tc_follow_redirects c then [] else [WithNotFollowRedirects])"

section \<open>Headers\<close>

record order_keys =
  ok_header :: string
  ok_pseudo :: string

definition is_fhttp_order_key :: "order_keys \<Rightarrow> string \<Rightarrow> bool" where
  "is_fhttp_order_key keys name \<longleftrightarrow> equal_fold name (ok_header keys) \<or> equal_fold name (ok_pseudo keys)"

definition preferred_browser_header_order :: "string list" where
  "preferred_browser_header_order =
     [''cache-control'', ''pragma'', ''sec-ch-ua'', ''sec-ch-ua-mobile'', ''sec-ch-ua-platform'',
      ''sec-ch-ua-platform-version'', ''sec-ch-ua-arch'', ''sec-ch-ua-bitness'', ''sec-ch-ua-full-version'',
      ''sec-ch-ua-full-version-list'', ''upgrade-insecure-requests'', ''user-agent'', ''dnt'', ''sec-gpc'', ''accept'',
      ''sec-fetch-site'', ''sec-fetch-mode'', ''sec-fetch-user'', ''sec-fetch-dest'', ''accept-encoding'',
      ''accept-language'', ''priority'', ''cookie'']"

text \<open>
  \<open>byLower\<close> maps a lower-case name to its spellings; only their number matters, so it is the list of the
  lower-case names. A preferred name takes its entry out of it.
\<close>

fun take_preferred :: "string list \<Rightarrow> string list \<Rightarrow> string list" where
  "take_preferred [] lowers = sort_stable string_less lowers"
| "take_preferred (p # ps) lowers = filter (\<lambda>n. n = p) lowers @ take_preferred ps (filter (\<lambda>n. n \<noteq> p) lowers)"

definition ordered_header_names :: "string list \<Rightarrow> string list" where
  "ordered_header_names names = take_preferred preferred_browser_header_order (map to_lower names)"

definition header_without_order :: "order_keys \<Rightarrow> http_header \<Rightarrow> http_header" where
  "header_without_order keys h = filter (\<lambda>(name, vs). \<not> is_fhttp_order_key keys name) h"

definition to_fhttp_header :: "order_keys \<Rightarrow> http_header \<Rightarrow> http_header" where
  "to_fhttp_header keys h =
     (let converted = header_without_order keys h
      in AList.update (ok_header keys) (ordered_header_names (map fst converted)) converted)"

text \<open>A nil header stays nil.\<close>

definition from_fhttp_header :: "order_keys \<Rightarrow> http_header option \<Rightarrow> http_header option" where
  "from_fhttp_header keys h = map_option (header_without_order keys) h"

section \<open>Requests and responses\<close>

record 'b wire_request =
  wr_address :: nat
  wr_method :: string
  wr_url :: "(nat \<times> go_url) option"
  wr_proto :: "string \<times> int \<times> int"
  wr_header :: "http_header option"
  wr_body :: "'b option"
  wr_content_length :: int
  wr_transfer_encoding :: "string list"
  wr_close :: bool
  wr_host :: string
  wr_trailer :: "http_header option"
  wr_context_error :: "string option"

record 'b wire_response =
  ws_status :: string
  ws_status_code :: int
  ws_proto :: "string \<times> int \<times> int"
  ws_header :: "http_header option"
  ws_body :: "'b option"
  ws_content_length :: int
  ws_transfer_encoding :: "string list"
  ws_close :: bool
  ws_uncompressed :: bool
  ws_trailer :: "http_header option"
  ws_request :: "'b wire_request option"

text \<open>The clone of a URL is a new object: \<open>fresh\<close> is its address.\<close>

definition clone_url :: "nat \<Rightarrow> (nat \<times> go_url) option \<Rightarrow> (nat \<times> go_url) option" where
  "clone_url fresh source = map_option (\<lambda>(a, u). (fresh, u)) source"

definition to_fhttp_request :: "order_keys \<Rightarrow> nat \<Rightarrow> nat \<Rightarrow> 'b wire_request \<Rightarrow> 'b wire_request" where
  "to_fhttp_request keys fresh fresh_url r =
     r\<lparr>wr_address := fresh, wr_url := clone_url fresh_url (wr_url r),
       wr_header := Some (to_fhttp_header keys (case wr_header r of None \<Rightarrow> [] | Some h \<Rightarrow> h))\<rparr>"

definition from_fhttp_request :: "order_keys \<Rightarrow> nat \<Rightarrow> nat \<Rightarrow> 'b wire_request option \<Rightarrow> 'b wire_request option" where
  "from_fhttp_request keys fresh fresh_url r0 =
     map_option (\<lambda>r. r\<lparr>wr_address := fresh, wr_url := clone_url fresh_url (wr_url r),
       wr_header := from_fhttp_header keys (wr_header r)\<rparr>) r0"

definition same_fhttp_request :: "'b wire_request option \<Rightarrow> 'b wire_request option \<Rightarrow> bool" where
  "same_fhttp_request left right \<longleftrightarrow>
     (case (left, right) of
        (Some l, Some r) \<Rightarrow>
          wr_address l = wr_address r
          \<or> wr_method l = wr_method r \<and> map_option fst (wr_url l) = map_option fst (wr_url r)
      | (None, None) \<Rightarrow> True
      | _ \<Rightarrow> False)"

definition to_http_response ::
  "order_keys \<Rightarrow> 'b \<Rightarrow> nat \<Rightarrow> nat \<Rightarrow> 'b wire_response \<Rightarrow> 'b wire_request \<Rightarrow> 'b wire_request \<Rightarrow> 'b wire_response" where
  "to_http_response keys no_body fresh fresh_url resp original converted =
     resp\<lparr>ws_body := Some (case ws_body resp of None \<Rightarrow> no_body | Some b \<Rightarrow> b),
          ws_header := from_fhttp_header keys (ws_header resp),
          ws_request :=
            (if ws_request resp = None \<or> same_fhttp_request (ws_request resp) (Some converted) then Some original
             else from_fhttp_request keys fresh fresh_url (ws_request resp))\<rparr>"

text \<open>
  \<open>RoundTrip\<close>: the result, and the bodies that were closed. The backend may answer an error together with a
  response. The four new objects have the addresses \<open>fresh\<close> on.
\<close>

definition round_trip ::
  "order_keys \<Rightarrow> 'b \<Rightarrow> nat \<Rightarrow> ('b wire_request \<Rightarrow> 'b wire_response option \<times> string option) option
   \<Rightarrow> 'b wire_request option \<Rightarrow> (string + 'b wire_response) \<times> 'b list" where
  "round_trip keys no_body fresh backend0 request0 =
     (case backend0 of
        None \<Rightarrow> (Inl ''tls-client round tripper is not initialized'', [])
      | Some backend \<Rightarrow>
          (case request0 of
             None \<Rightarrow> (Inl ''tls-client round tripper received a nil request'', [])
           | Some request \<Rightarrow>
               if wr_url request = None then (Inl ''tls-client round tripper received a request with a nil URL'', [])
               else (let converted = to_fhttp_request keys fresh (fresh + 1) request
                     in case backend converted of
                          (resp, Some err) \<Rightarrow>
                            (Inl (case wr_context_error request of Some cause \<Rightarrow> cause | None \<Rightarrow> err),
                             (case resp of None \<Rightarrow> [] | Some r \<Rightarrow> (case ws_body r of None \<Rightarrow> [] | Some b \<Rightarrow> [b])))
                        | (None, None) \<Rightarrow> (Inl ''tls-client backend returned a nil response without an error'', [])
                        | (Some r, None) \<Rightarrow>
                            (Inr (to_http_response keys no_body (fresh + 2) (fresh + 3) r request converted), []))))"

end
