(* ===== verification/TLS_Client_Props.thy ===== *)
theory TLS_Client_Props
  imports TLS_Client
begin

text \<open>
  The adapter of tls-client: the order of the headers is a function of the set of headers although Go
  walks its maps in random order, the conversion of headers loses nothing, the profile chosen does not
  depend on the order of the table, and redirects stay with the HTTP client.
\<close>

section \<open>Sorting by a total order\<close>

locale total_less = weak_less +
  assumes total_order: "x \<noteq> y \<Longrightarrow> lt x y \<or> lt y x"
begin

lemma order_unique:
  "sorted_wrt (\<lambda>x y. \<not> lt y x) xs \<Longrightarrow> sorted_wrt (\<lambda>x y. \<not> lt y x) ys \<Longrightarrow> mset xs = mset ys \<Longrightarrow> xs = ys"
proof (induction xs arbitrary: ys)
  case Nil
  then show ?case by simp
next
  case (Cons x xs)
  then obtain y ys' where ys: "ys = y # ys'" by (cases ys) auto
  have "x = y"
  proof (rule ccontr)
    assume ne: "x \<noteq> y"
    have "set (x # xs) = set (y # ys')" using Cons.prems(3) unfolding ys by (rule mset_eq_setD)
    then have "x \<in> set ys'" "y \<in> set xs" using ne by auto
    then show False using Cons.prems(1,2) ys total_order [OF ne] by auto
  qed
  then show ?case using Cons ys by auto
qed

lemma sort_by_members: "mset xs = mset ys \<Longrightarrow> sort_stable lt xs = sort_stable lt ys"
  by (rule order_unique) (simp_all add: sorted_sort_stable)

end

interpretation texts: total_less string_less
proof
  show "\<not> string_less s s" for s by simp
  show "string_less s t \<Longrightarrow> string_less t u \<Longrightarrow> string_less s u" for s t u by (rule string_less_trans)
  show "\<not> string_less s t \<Longrightarrow> \<not> string_less t u \<Longrightarrow> \<not> string_less s u" for s t u
    by (metis string_less_total string_less_trans)
  show "s \<noteq> t \<Longrightarrow> string_less s t \<or> string_less t s" for s t by (rule string_less_total)
qed

interpretation names: total_less profile_less
proof
  show "\<not> profile_less s s" for s by (simp add: profile_less_def)
  show "profile_less s t \<Longrightarrow> profile_less t u \<Longrightarrow> profile_less s u" for s t u
    by (auto simp: profile_less_def dest: string_less_trans split: if_splits)
  show "\<not> profile_less s t \<Longrightarrow> \<not> profile_less t u \<Longrightarrow> \<not> profile_less s u" for s t u
    by (auto simp: profile_less_def split: if_splits) (metis string_less_total string_less_trans)+
  show "s \<noteq> t \<Longrightarrow> profile_less s t \<or> profile_less t s" for s t
    using string_less_total [of s t] string_less_total [of "to_lower s" "to_lower t"] by (auto simp: profile_less_def)
qed

section \<open>The order of the headers\<close>

lemma take_preferred_mset: "mset (take_preferred ps ns) = mset ns"
  by (induction ps ns rule: take_preferred.induct) (simp_all add: multiset_partition [symmetric])

lemma filter_mset_cong: "mset xs = mset ys \<Longrightarrow> mset (filter P xs) = mset (filter P ys)"
  by (metis mset_filter)

lemma filter_equal_mset: "mset xs = mset ys \<Longrightarrow> filter (\<lambda>n. n = p) xs = filter (\<lambda>n. n = p) ys"
proof -
  assume "mset xs = mset ys"
  then have "count (mset xs) p = count (mset ys) p" by simp
  then have "count_list xs p = count_list ys p" by (simp add: count_mset)
  moreover have "filter (\<lambda>n. n = p) zs = replicate (count_list zs p) p" for zs
    by (induction zs) simp_all
  ultimately show ?thesis by simp
qed

lemma take_preferred_members: "mset xs = mset ys \<Longrightarrow> take_preferred ps xs = take_preferred ps ys"
proof (induction ps arbitrary: xs ys)
  case Nil
  then show ?case using texts.sort_by_members [of xs ys] by simp
next
  case (Cons p ps)
  show ?case
    using filter_equal_mset [OF Cons.prems, of p] Cons.IH [OF filter_mset_cong [OF Cons.prems, of "\<lambda>n. n \<noteq> p"]] by simp
qed

text \<open>The names before the others: by the list of preferred names, the rest alphabetically.\<close>

fun sent_before :: "string list \<Rightarrow> string \<Rightarrow> string \<Rightarrow> bool" where
  "sent_before [] a b = string_less a b"
| "sent_before (p # ps) a b = (if b = p then False else if a = p then True else sent_before ps a b)"

lemma take_preferred_sorted: "sorted_wrt (\<lambda>a b. \<not> sent_before ps b a) (take_preferred ps ns)"
proof (induction ps ns rule: take_preferred.induct)
  case (1 ns)
  then show ?case by (simp add: texts.sorted_sort_stable)
next
  case (2 p ps ns)
  let ?rest = "take_preferred ps (filter (\<lambda>n. n \<noteq> p) ns)"
  have members: "set ?rest = set (filter (\<lambda>n. n \<noteq> p) ns)" by (rule mset_eq_setD) (rule take_preferred_mset)
  have "sorted_wrt (\<lambda>a b. \<not> sent_before (p # ps) b a) ?rest"
    using 2 members by (auto intro!: sorted_wrt_mono_rel [of _ "\<lambda>a b. \<not> sent_before ps b a"])
  moreover have "sorted_wrt (\<lambda>a b. \<not> sent_before (p # ps) b a) (filter (\<lambda>n. n = p) ns)"
    by (induction ns) simp_all
  ultimately show ?case using members by (auto simp: sorted_wrt_append)
qed

text \<open>
  The header order sent to the site is a function of the headers alone, whatever order Go walks the map
  in: every header appears once per spelling in lower case, the preferred names first in their order,
  the others alphabetically.
\<close>
theorem header_order_deterministic:
  assumes "mset names = mset names'"
  shows "ordered_header_names names = ordered_header_names names'
         \<and> mset (ordered_header_names names) = mset (map to_lower names)
         \<and> sorted_wrt (\<lambda>a b. \<not> sent_before preferred_browser_header_order b a) (ordered_header_names names)"
  unfolding ordered_header_names_def
  using take_preferred_members [of "map to_lower names" "map to_lower names'"] take_preferred_mset take_preferred_sorted assms
  by simp

theorem header_order_deterministic_witness:
  "ordered_header_names [''X-B'', ''Accept'', ''Cookie'', ''x-a''] = ordered_header_names [''Cookie'', ''x-a'', ''X-B'', ''Accept'']
   \<and> ordered_header_names [''X-B'', ''Accept'', ''Cookie'', ''x-a''] = [''accept'', ''cookie'', ''x-a'', ''x-b'']"
  using header_order_deterministic [of "[''X-B'', ''Accept'', ''Cookie'', ''x-a'']" "[''Cookie'', ''x-a'', ''X-B'', ''Accept'']"]
  by (simp add: add_mset_commute) code_simp

section \<open>Conversions\<close>

lemma filter_update_dropped:
  "(\<And>v. \<not> P (k, v)) \<Longrightarrow> filter P (AList.update k v h) = filter P h"
  by (induction h) auto

lemma order_key_own: "is_fhttp_order_key keys (ok_header keys)"
  by (simp add: is_fhttp_order_key_def)

text \<open>
  Converting a header for tls-client and back gives the header without order keys; what tls-client
  gets in addition is the order of exactly those names.
\<close>
theorem header_conversion_roundtrip:
  "from_fhttp_header keys (Some (to_fhttp_header keys h)) = Some (header_without_order keys h)
   \<and> map_of (to_fhttp_header keys h) (ok_header keys) = Some (ordered_header_names (map fst (header_without_order keys h)))"
  by (simp add: from_fhttp_header_def to_fhttp_header_def header_without_order_def Let_def filter_update_dropped order_key_own update_conv')

section \<open>Profiles\<close>

lemma find_fold_Some: "find (equal_fold n) xs = Some m \<Longrightarrow> m \<in> set xs \<and> equal_fold n m"
  by (auto simp: find_Some_iff)

definition same_choice :: "string + string \<times> 'p \<Rightarrow> string + string \<times> 'p \<Rightarrow> bool" where
  "same_choice a b \<longleftrightarrow> (case (a, b) of (Inl _, Inl _) \<Rightarrow> True | (Inr x, Inr y) \<Rightarrow> x = y | _ \<Rightarrow> False)"

lemma map_of_members:
  assumes "distinct (map fst xs)" and "mset xs = mset ys" shows "map_of xs = map_of ys"
proof -
  have "mset (map fst xs) = mset (map fst ys)" using assms(2) by simp
  then have "distinct (map fst ys)" using assms(1) mset_eq_imp_distinct_iff by blast
  then show ?thesis using map_of_inject_set [OF assms(1)] mset_eq_setD [OF assms(2)] by blast
qed

text \<open>
  The choice of a profile depends neither on the order of the table, which Go walks at random, nor on the
  case of the name or the spaces around it.
\<close>
theorem profile_choice_deterministic:
  assumes "distinct (map fst (pl_mapped lib))" and "mset (pl_mapped lib) = mset (pl_mapped lib')"
    and "pl_default lib = pl_default lib'" and "equal_fold (trim_space name) (trim_space name')"
  shows "same_choice (resolve_tls_profile lib name) (resolve_tls_profile lib' name')"
proof -
  have tables: "map_of (pl_mapped lib) = map_of (pl_mapped lib')" using map_of_members assms(1,2) by blast
  have order: "sort_stable profile_less (map fst (pl_mapped lib)) = sort_stable profile_less (map fst (pl_mapped lib'))"
    by (rule names.sort_by_members) (use assms(2) in simp)
  have low: "to_lower (trim_space name) = to_lower (trim_space name')" using assms(4) by (simp add: equal_fold_def)
  then have same: "equal_fold (trim_space name) = equal_fold (trim_space name')" by (simp add: equal_fold_def fun_eq_iff)
  have empty: "trim_space name = [] \<longleftrightarrow> trim_space name' = []" using low by (metis length_0_conv length_to_lower)
  show ?thesis
    by (simp add: resolve_tls_profile_def Let_def tables order same empty assms(3) same_choice_def split: option.split)
qed

definition sample_profiles :: "nat profile_library" where
  "sample_profiles = \<lparr>pl_mapped = [(''chrome_131'', 1), (''firefox_133'', 2)], pl_default = 1, pl_client = (\<lambda>_. ''Chrome'')\<rparr>"

definition sample_profiles_swapped :: "nat profile_library" where
  "sample_profiles_swapped = sample_profiles\<lparr>pl_mapped := rev (pl_mapped sample_profiles)\<rparr>"

theorem profile_choice_deterministic_witness:
  "same_choice (resolve_tls_profile sample_profiles '' Firefox_133'') (resolve_tls_profile sample_profiles_swapped ''FIREFOX_133'')
   \<and> resolve_tls_profile sample_profiles '' Firefox_133'' = Inr (''firefox_133'', 2)"
proof
  show "same_choice (resolve_tls_profile sample_profiles '' Firefox_133'') (resolve_tls_profile sample_profiles_swapped ''FIREFOX_133'')"
    by (rule profile_choice_deterministic) (simp_all add: sample_profiles_def sample_profiles_swapped_def, code_simp)
qed code_simp

text \<open>
  Every name of the table is found up to case, and what is found is the entry of a name equal to it up to
  case, or the default profile.
\<close>
theorem profile_choice_exact:
  assumes "trim_space name \<noteq> []"
  shows "(case resolve_tls_profile lib name of
            Inl msg \<Rightarrow> \<not> equal_fold (trim_space name) ''default'' \<and> \<not> list_ex (equal_fold (trim_space name)) (map fst (pl_mapped lib))
          | Inr (found, p) \<Rightarrow>
              equal_fold (trim_space name) found
              \<and> (found = ''default'' \<and> p = pl_default lib \<or> map_of (pl_mapped lib) found = Some p))"
proof (cases "equal_fold (trim_space name) ''default''")
  case True
  then show ?thesis using assms by (simp add: resolve_tls_profile_def Let_def)
next
  case not_default: False
  show ?thesis
  proof (cases "find (equal_fold (trim_space name)) (sort_stable profile_less (map fst (pl_mapped lib)))")
    case None
    then have "\<not> list_ex (equal_fold (trim_space name)) (map fst (pl_mapped lib))"
      by (auto simp: find_None_iff list_ex_iff)
    then show ?thesis using assms not_default None by (simp add: resolve_tls_profile_def Let_def)
  next
    case (Some m)
    then have m: "m \<in> fst ` set (pl_mapped lib)" "equal_fold (trim_space name) m" using find_fold_Some by force+
    then obtain p where "map_of (pl_mapped lib) m = Some p" by (metis domIff dom_map_of_conv_image_fst option.exhaust)
    then show ?thesis using assms not_default Some m by (simp add: resolve_tls_profile_def Let_def)
  qed
qed

theorem profile_choice_exact_witness:
  "(case resolve_tls_profile sample_profiles ''safari'' of Inl msg \<Rightarrow> \<not> equal_fold ''safari'' ''default'' | Inr _ \<Rightarrow> False)"
proof -
  have "trim_space ''safari'' = ''safari''" by code_simp
  then show ?thesis using profile_choice_exact [of "''safari''" sample_profiles]
    by (cases "resolve_tls_profile sample_profiles ''safari''") (simp_all, code_simp)
qed

section \<open>The round tripper\<close>

lemma div_bounds: "t div 1000000 * 1000000 \<le> (t :: int) \<and> t < t div 1000000 * 1000000 + 1000000"
proof -
  have "t div 1000000 * 1000000 + t mod 1000000 = t" by (rule div_mult_mod_eq)
  moreover have "0 \<le> t mod 1000000" "t mod 1000000 < 1000000" by simp_all
  ultimately show ?thesis by linarith
qed

text \<open>
  A round tripper is only made with redirects disabled, a timeout of whole milliseconds within the one
  asked for, a profile of the table or the default one, and a proxy that was checked or none.
\<close>
theorem round_tripper_configuration:
  assumes "new_tls_round_tripper lib o1 (Some factory) = Inr c"
  shows "\<exists>cfg. factory cfg = Inr (Some c) \<and> WithNotFollowRedirects \<in> set (new_tls_backend cfg)
           \<and> 1 \<le> tc_timeout_ms cfg \<and> tc_timeout_ms cfg * millisecond \<le> tp_timeout o1
           \<and> tp_timeout o1 < (tc_timeout_ms cfg + 1) * millisecond
           \<and> tc_profile cfg \<in> insert (pl_default lib) (snd ` set (pl_mapped lib))
           \<and> validate_tls_proxy_url (tp_proxy_url o1) = Inr (tc_proxy_url cfg)"
proof -
  from assms obtain name p ms proxy cfg where
    res: "resolve_tls_profile lib (tp_profile o1) = Inr (name, p)" and ms: "validate_tls_timeout (tp_timeout o1) = Inr ms"
    and proxy: "validate_tls_proxy_url (tp_proxy_url o1) = Inr proxy"
    and cfg: "cfg = \<lparr>tc_profile_name = name, tc_profile = p, tc_timeout = tp_timeout o1, tc_timeout_ms = ms,
                tc_proxy_url = proxy, tc_follow_redirects = False, tc_random_order = random_extension_ordering lib p\<rparr>"
    and made: "factory cfg = Inr (Some c)"
    by (auto simp: new_tls_round_tripper_def split: sum.split_asm option.split_asm prod.split_asm)
  have "p \<in> insert (pl_default lib) (snd ` set (pl_mapped lib))"
    using res by (auto simp: resolve_tls_profile_def Let_def split: if_splits option.splits dest!: map_of_SomeD intro: rev_image_eqI)
  moreover have "ms = tp_timeout o1 div millisecond" "1 \<le> ms" "0 \<le> tp_timeout o1"
    using ms by (auto simp: validate_tls_timeout_def millisecond_def split: if_splits)
  then have "1 \<le> ms \<and> ms * millisecond \<le> tp_timeout o1 \<and> tp_timeout o1 < (ms + 1) * millisecond"
    using div_bounds [of "tp_timeout o1"] by (simp add: millisecond_def)
  moreover have "WithNotFollowRedirects \<in> set (new_tls_backend cfg)" by (simp add: new_tls_backend_def cfg)
  ultimately show ?thesis using made proxy by (intro exI [of _ cfg]) (simp add: cfg)
qed

theorem round_tripper_configuration_witness:
  "\<exists>cfg. Inr (Some cfg) = (Inr (Some cfg) :: string + nat tls_config option) \<and> WithNotFollowRedirects \<in> set (new_tls_backend cfg)
     \<and> tc_timeout_ms cfg = 20000"
proof -
  let ?o = "\<lparr>tp_profile = ''chrome_131'', tp_timeout = 20 * 10 ^ 9, tp_proxy_url = ''socks5://user@proxy.local:1080''\<rparr>"
  obtain c where c: "new_tls_round_tripper sample_profiles ?o (Some (\<lambda>cfg. Inr (Some cfg))) = Inr c"
    and ms: "tc_timeout_ms c = 20000"
  proof -
    have "(case new_tls_round_tripper sample_profiles ?o (Some (\<lambda>cfg. Inr (Some cfg))) of Inr c \<Rightarrow> tc_timeout_ms c = 20000 | Inl _ \<Rightarrow> False)"
      by code_simp
    then show thesis using that by (auto split: sum.splits)
  qed
  from round_tripper_configuration [OF c] ms show ?thesis by auto
qed

definition clean_header :: "order_keys \<Rightarrow> http_header option \<Rightarrow> bool" where
  "clean_header keys h0 \<longleftrightarrow> (case h0 of None \<Rightarrow> True | Some h \<Rightarrow> list_all (\<lambda>(name, vs). \<not> is_fhttp_order_key keys name) h)"

lemma from_header_clean: "clean_header keys (from_fhttp_header keys h)"
  by (auto simp: clean_header_def from_fhttp_header_def header_without_order_def list_all_iff split: option.splits)

text \<open>The body of a response, if there is one.\<close>

definition body_of :: "'b wire_response option \<Rightarrow> 'b list" where
  "body_of resp = (case resp of None \<Rightarrow> [] | Some r \<Rightarrow> (case ws_body r of None \<Rightarrow> [] | Some b \<Rightarrow> [b]))"

text \<open>
  An exchange shows the HTTP client none of the adapter. On an error the body of a response is closed; the
  response of a success has a body, left open, and the headers of the backend's without order keys; it belongs to
  the request asked for when the backend answered the request it was given.
\<close>
theorem round_trip_transparent:
  assumes "wr_url request = Some target"
    and "backend (to_fhttp_request keys fresh (fresh + 1) request) = (resp, err)"
  shows "(case round_trip keys no_body fresh (Some backend) (Some request) of
            (Inl msg, ended) \<Rightarrow> (resp = None \<or> err \<noteq> None) \<and> ended = (if err = None then [] else body_of resp)
          | (Inr r, ended) \<Rightarrow> ended = [] \<and> err = None \<and> ws_body r \<noteq> None \<and> clean_header keys (ws_header r)
              \<and> map_option ws_status_code resp = Some (ws_status_code r)
              \<and> ws_request r = (if resp = None \<or> (\<exists>r0 q. resp = Some r0 \<and> ws_request r0 = Some q
                    \<and> \<not> same_fhttp_request (Some q) (Some (to_fhttp_request keys fresh (fresh + 1) request)))
                  then from_fhttp_request keys (fresh + 2) (fresh + 3) (Option.bind resp ws_request) else Some request))"
proof (cases err)
  case (Some e)
  then show ?thesis using assms by (auto simp: round_trip_def Let_def body_of_def split: option.splits)
next
  case None
  show ?thesis
  proof (cases resp)
    case None
    then show ?thesis using assms \<open>err = None\<close> by (simp add: round_trip_def Let_def)
  next
    case (Some r0)
    then show ?thesis using assms \<open>err = None\<close>
      by (cases "ws_request r0") (simp_all add: round_trip_def Let_def to_http_response_def from_header_clean)
  qed
qed

definition sample_keys :: order_keys where
  "sample_keys = \<lparr>ok_header = ''Header-Order:'', ok_pseudo = ''PHeader-Order:''\<rparr>"

definition sample_wire_request :: "nat wire_request" where
  "sample_wire_request = \<lparr>wr_address = 1, wr_method = ''GET'', wr_url = Some (2, empty_url), wr_proto = (''HTTP/1.1'', 1, 1),
     wr_header = Some [(''Accept'', [''text/html''])], wr_body = None, wr_content_length = 0, wr_transfer_encoding = [],
     wr_close = False, wr_host = ''www.zillow.com'', wr_trailer = None, wr_context_error = None\<rparr>"

definition sample_wire_response :: "nat wire_request \<Rightarrow> nat wire_response" where
  "sample_wire_response q = \<lparr>ws_status = ''200 OK'', ws_status_code = 200, ws_proto = (''HTTP/2.0'', 2, 0),
     ws_header = Some [(''Header-Order:'', [''x'']), (''Content-Type'', [''text/html''])], ws_body = None, ws_content_length = 0,
     ws_transfer_encoding = [], ws_close = False, ws_uncompressed = True, ws_trailer = None, ws_request = Some q\<rparr>"

theorem round_trip_transparent_witness:
  "(case round_trip sample_keys 0 10 (Some (\<lambda>q. (Some (sample_wire_response q), None))) (Some sample_wire_request) of
      (Inl msg, ended) \<Rightarrow> False
    | (Inr r, ended) \<Rightarrow> ended = [] \<and> clean_header sample_keys (ws_header r) \<and> ws_request r = Some sample_wire_request)"
proof -
  let ?q = "to_fhttp_request sample_keys 10 (10 + 1) sample_wire_request"
  have url: "wr_url sample_wire_request = Some (2, empty_url)" by (simp add: sample_wire_request_def)
  have same: "same_fhttp_request (Some ?q) (Some ?q)" by (simp add: same_fhttp_request_def)
  have ok: "\<not> isl (fst (round_trip sample_keys 0 10 (Some (\<lambda>q. (Some (sample_wire_response q), None))) (Some sample_wire_request)))"
    by (simp add: round_trip_def url Let_def)
  show ?thesis
    using round_trip_transparent [where backend = "\<lambda>q. (Some (sample_wire_response q), None)" and no_body = 0
        and keys = sample_keys and fresh = 10 and err = None, OF url refl] same ok
    by (auto simp: sample_wire_response_def split: prod.splits sum.splits)
qed

end
