(* ===== verification/Session.thy ===== *)
theory Session
  imports Disk_Cache Har_Model Go_Time Go_URL
begin

text \<open>
  Browser sessions (\<open>internal/session/session.go\<close>): the cookies a HAR file shows on successful Zillow
  requests, their validation, and the owner-only files that keep them. The rules of \<open>net/http\<close> for
  cookies are written out.

  A time is an instant of \<open>Go_Time\<close>, 0 for the zero time; its location matters for the year of an
  expiry only. The files are those of the store's directory by name; JSON and the errors of system calls are
  parameters. The characters of a session name are ASCII.
\<close>

section \<open>Cookies\<close>

record session_cookie =
  sk_name :: string
  sk_value :: string
  sk_domain :: string
  sk_path :: string
  sk_expires :: date_time
  sk_secure :: bool
  sk_http_only :: bool

record session =
  se_version :: int
  se_created :: int
  se_user_agent :: string
  se_cookies :: "session_cookie list"

record session_summary =
  sy_name :: string
  sy_created :: int
  sy_cookie_count :: nat
  sy_cookie_names :: "string list"

definition session_version :: int where "session_version = 1"

definition zero_time :: date_time where "zero_time = \<lparr>dt_instant = 0, dt_offset = 0\<rparr>"

text \<open>\<open>http.Cookie.Valid\<close>, for the fields a session has.\<close>

definition token_char :: "char \<Rightarrow> bool" where
  "token_char c \<longleftrightarrow> is_letter c \<or> is_digit c \<or> c \<in> set ''!#$%&*+-.^_`|~'' \<or> byte c = 39"

definition is_token :: "string \<Rightarrow> bool" where
  "is_token s \<longleftrightarrow> s \<noteq> [] \<and> list_all token_char s"

definition cookie_value_byte :: "char \<Rightarrow> bool" where
  "cookie_value_byte c \<longleftrightarrow> 32 \<le> byte c \<and> byte c < 127 \<and> byte c \<noteq> 34 \<and> c \<noteq> CHR '';'' \<and> byte c \<noteq> 92"

definition cookie_path_byte :: "char \<Rightarrow> bool" where
  "cookie_path_byte c \<longleftrightarrow> 32 \<le> byte c \<and> byte c < 127 \<and> c \<noteq> CHR '';''"

text \<open>The loop of \<open>isCookieDomainName\<close>: the byte before, the length of the label, has a letter been seen.\<close>

fun domain_labels :: "char \<Rightarrow> nat \<Rightarrow> bool \<Rightarrow> string \<Rightarrow> bool" where
  "domain_labels prev n ok [] = (prev \<noteq> CHR ''-'' \<and> n \<le> 63 \<and> ok)"
| "domain_labels prev n ok (c # cs) =
     (if is_letter c then domain_labels c (n + 1) True cs
      else if is_digit c then domain_labels c (n + 1) ok cs
      else if c = CHR ''-'' then prev \<noteq> CHR ''.'' \<and> domain_labels c (n + 1) ok cs
      else if c = CHR ''.''
      then prev \<noteq> CHR ''.'' \<and> prev \<noteq> CHR ''-'' \<and> n \<le> 63 \<and> n \<noteq> 0 \<and> domain_labels c 0 ok cs
      else False)"

definition is_cookie_domain_name :: "string \<Rightarrow> bool" where
  "is_cookie_domain_name s \<longleftrightarrow>
     s \<noteq> [] \<and> length s \<le> 255 \<and> domain_labels CHR ''.'' 0 False (if hd s = CHR ''.'' then tl s else s)"

definition expiry_year :: "date_time \<Rightarrow> int" where
  "expiry_year t = fst (civil_from_days (local_day t))"

text \<open>An IP address as domain is left out: it is no Zillow host.\<close>

definition http_cookie_fault :: "session_cookie \<Rightarrow> string option" where
  "http_cookie_fault c =
     (if \<not> is_token (sk_name c) then Some ''http: invalid Cookie.Name''
      else if dt_instant (sk_expires c) \<noteq> 0 \<and> expiry_year (sk_expires c) < 1601 then Some ''http: invalid Cookie.Expires''
      else if \<not> list_all cookie_value_byte (sk_value c) then Some ''http: invalid byte in Cookie.Value''
      else if \<not> list_all cookie_path_byte (sk_path c) then Some ''http: invalid byte in Cookie.Path''
      else if sk_domain c \<noteq> [] \<and> \<not> is_cookie_domain_name (sk_domain c) then Some ''http: invalid Cookie.Domain''
      else None)"

definition is_zillow_cookie_host :: "string \<Rightarrow> bool" where
  "is_zillow_cookie_host host0 \<longleftrightarrow>
     (let host = trim_prefix (to_lower (trim_space host0)) ''.''
      in host = ''zillow.com'' \<or> has_suffix host ''.zillow.com'')"

definition session_cookie_fault :: "session_cookie \<Rightarrow> string option" where
  "session_cookie_fault c =
     (if \<not> is_zillow_cookie_host (sk_domain c)
      then Some (''cookie '' @ quote (sk_name c) @ '' domain is not Zillow: '' @ quote (sk_domain c))
      else case http_cookie_fault c of
             Some msg \<Rightarrow> Some (''cookie '' @ quote (sk_name c) @ '' is not safe for Go HTTP transport: '' @ msg)
           | None \<Rightarrow> None)"

definition cookie_key :: "session_cookie \<Rightarrow> string" where
  "cookie_key c = to_lower (sk_domain c) @ [CHR 0x00] @ sk_path c @ [CHR 0x00] @ sk_name c"

text \<open>\<open>http.TimeFormat\<close>, the third layout of an expiry.\<close>

definition short_days :: "string list" where
  "short_days = [''Sun'', ''Mon'', ''Tue'', ''Wed'', ''Thu'', ''Fri'', ''Sat'']"

definition parse_http_time :: "string \<Rightarrow> date_time option" where
  "parse_http_time s =
     Option.bind (lookup_name 0 short_days s) (\<lambda>(weekday, r1).
     Option.bind (literal_char CHR '','' r1) (\<lambda>r2.
     Option.bind (literal_space r2) (\<lambda>r3.
     Option.bind (two_digits r3) (\<lambda>(day, r4).
     Option.bind (literal_space r4) (\<lambda>r5.
     Option.bind (lookup_name 1 (map (take 3) long_months) r5) (\<lambda>(month, r6).
     Option.bind (literal_space r6) (\<lambda>r7.
     Option.bind (four_digits r7) (\<lambda>(year, r8).
     Option.bind (literal_space r8) (\<lambda>r9.
     Option.bind (clock_prefix r9) (\<lambda>(ns, r10).
     Option.bind (literal_space r10) (\<lambda>r11.
       if r11 = ''GMT'' \<and> valid_date year month day
       then Some \<lparr>dt_instant = days_from_civil year month day * day_ns + ns, dt_offset = 0\<rparr> else None)))))))))))"

definition cookie_from_har :: "string \<Rightarrow> har_cookie \<Rightarrow> session_cookie option" where
  "cookie_from_har host captured =
     (let domain = trim_space (hk_domain captured);
          c = \<lparr>sk_name = hk_name captured, sk_value = hk_value captured,
               sk_domain = (if domain = [] then host else domain),
               sk_path = (if hk_path captured = [] then ''/'' else hk_path captured),
               sk_expires =
                 (if hk_expires captured = [] then zero_time
                  else case first_parse [parse_rfc3339, parse_rfc3339, parse_http_time] (hk_expires captured) of
                         Some t \<Rightarrow> t | None \<Rightarrow> zero_time),
               sk_secure = hk_secure captured, sk_http_only = hk_http_only captured\<rparr>
      in if session_cookie_fault c = None then Some c else None)"

text \<open>\<open>textproto.TrimString\<close>, and \<open>http.Request.Cookies\<close> on one header value.\<close>

definition ascii_blank :: "char \<Rightarrow> bool" where
  "ascii_blank c \<longleftrightarrow> byte c = 32 \<or> byte c = 9 \<or> byte c = 10 \<or> byte c = 13"

definition trim_string :: "string \<Rightarrow> string" where
  "trim_string s = rev (dropWhile ascii_blank (rev (dropWhile ascii_blank s)))"

definition unquoted :: "string \<Rightarrow> string" where
  "unquoted v = (if length v > 1 \<and> byte (hd v) = 34 \<and> byte (last v) = 34 then butlast (tl v) else v)"

definition cookie_pair :: "string \<Rightarrow> (string \<times> string) option" where
  "cookie_pair part0 =
     (let part = trim_string part0 in
      case cut_byte CHR ''='' part of (name0, val, _) \<Rightarrow>
        (let name = trim_string name0; v = unquoted val
         in if part = [] \<or> \<not> is_token name \<or> \<not> list_all cookie_value_byte v then None else Some (name, v)))"

definition read_cookies :: "string \<Rightarrow> (string \<times> string) list" where
  "read_cookies line = List.map_filter cookie_pair (split_byte CHR '';'' (trim_string line))"

section \<open>Import\<close>

definition header_texts :: "name_value list \<Rightarrow> string \<Rightarrow> string list" where
  "header_texts hs name = map nv_value (filter (\<lambda>h. equal_fold (nv_name h) name) hs)"

definition cookie_from_header :: "string \<Rightarrow> string \<times> string \<Rightarrow> session_cookie option" where
  "cookie_from_header host nv =
     (let c = \<lparr>sk_name = fst nv, sk_value = snd nv, sk_domain = host, sk_path = ''/'', sk_expires = zero_time,
               sk_secure = False, sk_http_only = False\<rparr>
      in if session_cookie_fault c = None then Some c else None)"

definition request_host :: "har_entry \<Rightarrow> string option" where
  "request_host e =
     (case url_parse (hq_url (he_request e)) of
        None \<Rightarrow> None
      | Some u \<Rightarrow> if is_zillow_cookie_host (url_hostname u) then Some (url_hostname u) else None)"

text \<open>The host of an entry whose cookies count.\<close>

definition successful_host :: "har_entry \<Rightarrow> string option" where
  "successful_host e =
     (if hr_status (he_response e) < 200 \<or> hr_status (he_response e) \<ge> 400 then None else request_host e)"

definition entry_cookies :: "string \<Rightarrow> har_entry \<Rightarrow> session_cookie list" where
  "entry_cookies host e =
     List.map_filter (cookie_from_har host) (hq_cookies (he_request e))
     @ (if hq_cookies (he_request e) = []
        then List.map_filter (cookie_from_header host)
               (concat (map read_cookies (header_texts (hq_headers (he_request e)) ''Cookie'')))
        else [])"

type_synonym captured_cookies = "(string \<times> session_cookie \<times> nat) list"

text \<open>The map of the captured cookies, each with the number of its entry; a later one replaces an earlier one.\<close>

fun capture_entries :: "nat \<Rightarrow> har_entry list \<Rightarrow> captured_cookies \<Rightarrow> captured_cookies" where
  "capture_entries order [] found = found"
| "capture_entries order (e # es) found =
     (case successful_host e of
        None \<Rightarrow> capture_entries order es found
      | Some host \<Rightarrow>
          capture_entries (Suc order) es
            (foldl (\<lambda>m c. AList.update (cookie_key c) (c, Suc order) m) found (entry_cookies host e)))"

definition captured_less :: "session_cookie \<times> nat \<Rightarrow> session_cookie \<times> nat \<Rightarrow> bool" where
  "captured_less a b \<longleftrightarrow>
     (if snd a \<noteq> snd b then snd a < snd b else string_less (cookie_key (fst a)) (cookie_key (fst b)))"

definition expired :: "int \<Rightarrow> session_cookie \<Rightarrow> bool" where
  "expired now c \<longleftrightarrow> dt_instant (sk_expires c) \<noteq> 0 \<and> dt_instant (sk_expires c) < now"

fun check_cookies :: "nat \<Rightarrow> string list \<Rightarrow> session_cookie list \<Rightarrow> string option" where
  "check_cookies i seen [] = None"
| "check_cookies i seen (c # cs) =
     (case session_cookie_fault c of
        Some msg \<Rightarrow> Some (''session cookie '' @ itoa (int i) @ '': '' @ msg)
      | None \<Rightarrow>
          if cookie_key c \<in> set seen then Some (''session contains duplicate cookie '' @ quote (sk_name c))
          else check_cookies (Suc i) (cookie_key c # seen) cs)"

definition validate_session :: "session option \<Rightarrow> string option" where
  "validate_session s0 =
     (case s0 of
        None \<Rightarrow> Some ''session is nil''
      | Some s \<Rightarrow>
          if se_version s \<noteq> session_version then Some (''session version must be '' @ itoa session_version)
          else if se_created s = 0 then Some ''session creation time is required''
          else if length (se_user_agent s) > 1024 \<or> list_ex is_control (se_user_agent s) then Some ''session User-Agent is invalid''
          else if se_cookies s = [] then Some ''session must contain at least one cookie''
          else if length (se_cookies s) > 256 then Some ''session contains too many cookies''
          else check_cookies 0 [] (se_cookies s))"

text \<open>\<open>clock i\<close> is the time at the expiry check of the i-th captured cookie, in the final order.\<close>

definition live_cookies :: "(nat \<Rightarrow> int) \<Rightarrow> session_cookie list \<Rightarrow> session_cookie list" where
  "live_cookies clock cs = map fst (filter (\<lambda>(c, i). \<not> expired (clock i) c) (zip cs [0..<length cs]))"

definition captured_order :: "archive \<Rightarrow> session_cookie list" where
  "captured_order a = map fst (sort_stable captured_less (map snd (capture_entries 0 (hl_entries (ar_log a)) [])))"

definition import_har :: "int \<Rightarrow> (nat \<Rightarrow> int) \<Rightarrow> archive option \<Rightarrow> string + session" where
  "import_har created clock a0 =
     (case validate_archive a0 of
        Some msg \<Rightarrow> Inl (''import session HAR: '' @ msg)
      | None \<Rightarrow>
          (let ordered = captured_order (the a0);
               s = \<lparr>se_version = session_version, se_created = created, se_user_agent = [], se_cookies = live_cookies clock ordered\<rparr>
           in if ordered = []
              then Inl ''import session HAR: no cookies found on a successful Zillow request; capture a normally loaded Zillow page''
              else if se_cookies s = [] then Inl ''import session HAR: all captured Zillow cookies are expired''
              else case validate_session (Some s) of
                     Some msg \<Rightarrow> Inl (''import session HAR: '' @ msg)
                   | None \<Rightarrow> Inr s))"

section \<open>The cookies of a request\<close>

record http_cookie =
  nk_name :: string
  nk_value :: string
  nk_domain :: string
  nk_path :: string
  nk_expires :: date_time
  nk_secure :: bool
  nk_http_only :: bool

definition http_cookies :: "session option \<Rightarrow> http_cookie list" where
  "http_cookies s0 =
     (case s0 of
        None \<Rightarrow> []
      | Some s \<Rightarrow> map (\<lambda>c. \<lparr>nk_name = sk_name c, nk_value = sk_value c, nk_domain = sk_domain c, nk_path = sk_path c,
          nk_expires = sk_expires c, nk_secure = sk_secure c, nk_http_only = sk_http_only c\<rparr>) (se_cookies s))"

definition summary_of :: "string \<Rightarrow> session \<Rightarrow> session_summary" where
  "summary_of name s =
     \<lparr>sy_name = name, sy_created = se_created s, sy_cookie_count = length (se_cookies s),
      sy_cookie_names = sort_stable string_less (map sk_name (se_cookies s))\<rparr>"

section \<open>The store\<close>

record store_env =
  sn_windows :: bool
  sn_encode :: "session \<Rightarrow> string + string"
  sn_decode :: "string \<Rightarrow> string + session"
  sn_stat_error :: "string \<Rightarrow> string option"
  sn_open_error :: "string \<Rightarrow> string option"

definition unsupported_platform :: string where
  "unsupported_platform = ''owner-only session files are unsupported on Windows''"

definition name_char :: "char \<Rightarrow> bool" where
  "name_char c \<longleftrightarrow> is_letter c \<or> is_digit c \<or> c \<in> set ''-_.''"

definition validate_name :: "string \<Rightarrow> string option" where
  "validate_name name =
     (if name = [] \<or> length name > 64 \<or> name = ''.'' \<or> name = ''..'' then Some ''session name must be 1-64 safe characters''
      else case find (\<lambda>c. \<not> name_char c) name of
             Some c \<Rightarrow> Some (''session name contains unsupported character '' @ quote [c])
           | None \<Rightarrow> None)"

text \<open>The name of a session's file in the directory of the store.\<close>

definition session_file :: "string \<Rightarrow> string" where
  "session_file name = name @ ''.json''"

definition default_store :: "string \<Rightarrow> string + string \<Rightarrow> (string list \<Rightarrow> string) \<Rightarrow> string + string" where
  "default_store config_dir user_config_dir path_join =
     (if trim_space config_dir \<noteq> [] then Inr (path_join [trim_space config_dir, ''sessions''])
      else case user_config_dir of
             Inl err \<Rightarrow> Inl (''resolve user config directory: '' @ err)
           | Inr base \<Rightarrow> Inr (path_join [path_join [base, ''gozillo''], ''sessions'']))"

definition store_path :: "string option \<Rightarrow> (string list \<Rightarrow> string) \<Rightarrow> string \<Rightarrow> string + string" where
  "store_path dir0 path_join name =
     (case validate_name name of
        Some msg \<Rightarrow> Inl msg
      | None \<Rightarrow>
          (case dir0 of
             None \<Rightarrow> Inl ''session store directory is required''
           | Some dir \<Rightarrow>
               if trim_space dir = [] then Inl ''session store directory is required''
               else Inr (path_join [dir, session_file name])))"

fun session_label :: "save_step \<Rightarrow> string" where
  "session_label MakeDir = ''create session directory''"
| "session_label RestrictDir = ''restrict session directory permissions''"
| "session_label CreateTemp = ''create temporary session''"
| "session_label RestrictTemp = ''restrict session permissions''"
| "session_label WriteTemp = ''write session''"
| "session_label SyncTemp = ''sync session''"
| "session_label CloseTemp = ''close session''"
| "session_label RenameTemp = ''replace session''"

definition session_temp :: "string \<Rightarrow> string" where
  "session_temp random = ''.gozillo-session-'' @ random"

text \<open>\<open>ensureDirectory\<close>; directories are not part of the files.\<close>

definition ensure_directory :: "save_faults \<Rightarrow> string \<Rightarrow> file_system \<Rightarrow> string option \<times> file_system list" where
  "ensure_directory faults dir files =
     (if trim_space dir = [] then (Some ''session store directory is required'', [files])
      else save_steps (labelled session_label) faults [] [] [] [MakeDir, RestrictDir] files)"

definition session_save ::
  "store_env \<Rightarrow> string \<Rightarrow> save_faults \<Rightarrow> string \<Rightarrow> string \<Rightarrow> session option \<Rightarrow> file_system \<Rightarrow> string option \<times> file_system list" where
  "session_save env dir faults random name s0 files =
     (if sn_windows env then (Some unsupported_platform, [files])
      else case validate_name name of
        Some msg \<Rightarrow> (Some msg, [files])
      | None \<Rightarrow>
      (case validate_session s0 of
        Some msg \<Rightarrow> (Some msg, [files])
      | None \<Rightarrow>
      (case ensure_directory faults dir files of
        (Some msg, trace) \<Rightarrow> (Some msg, trace)
      | (None, trace) \<Rightarrow>
      (case sn_encode env (the s0) of
        Inl msg \<Rightarrow> (Some (''encode session: '' @ msg), trace)
      | Inr data \<Rightarrow>
          (case replace_file (labelled session_label) faults (session_file name) (session_temp random) data (last trace) of
             (res, trace2) \<Rightarrow> (res, trace @ trace2))))))"

definition session_load :: "store_env \<Rightarrow> string \<Rightarrow> file_system \<Rightarrow> string + session" where
  "session_load env name files =
     (if sn_windows env then Inl unsupported_platform
      else case validate_name name of
        Some msg \<Rightarrow> Inl msg
      | None \<Rightarrow>
      (case (sn_stat_error env (session_file name), files (session_file name)) of
        (Some msg, _) \<Rightarrow> Inl (''stat session '' @ quote name @ '': '' @ msg)
      | (None, None) \<Rightarrow> Inl (''stat session '' @ quote name @ '': file does not exist'')
      | (None, Some f) \<Rightarrow>
          if group_or_others (cf_mode f mod 512)
          then Inl (''session '' @ quote name @ '' permissions are too broad ('' @ octal_mode (cf_mode f mod 512) @ ''); require 0600'')
          else case sn_open_error env (session_file name) of
            Some msg \<Rightarrow> Inl (''open session '' @ quote name @ '': '' @ msg)
          | None \<Rightarrow>
          (case sn_decode env (cf_data f) of
            Inl msg \<Rightarrow> Inl (''decode session '' @ quote name @ '': '' @ msg)
          | Inr s \<Rightarrow>
          (case validate_session (Some s) of
            Some msg \<Rightarrow> Inl (''validate session '' @ quote name @ '': '' @ msg)
          | None \<Rightarrow> Inr s))))"

text \<open>The entries of the directory: their names and which are directories.\<close>

fun load_summaries :: "store_env \<Rightarrow> file_system \<Rightarrow> (string \<times> bool) list \<Rightarrow> string + session_summary list" where
  "load_summaries env files [] = Inr []"
| "load_summaries env files ((entry, is_dir) # es) =
     (if is_dir \<or> \<not> has_suffix entry ''.json'' then load_summaries env files es
      else (let name = trim_suffix entry ''.json'' in
            case session_load env name files of
              Inl msg \<Rightarrow> Inl msg
            | Inr s \<Rightarrow>
                (case load_summaries env files es of Inl msg \<Rightarrow> Inl msg | Inr ss \<Rightarrow> Inr (summary_of name s # ss))))"

definition session_list ::
  "store_env \<Rightarrow> string \<Rightarrow> save_faults \<Rightarrow> string + (string \<times> bool) list \<Rightarrow> file_system \<Rightarrow> string + session_summary list" where
  "session_list env dir faults entries files =
     (if sn_windows env then Inl unsupported_platform
      else case ensure_directory faults dir files of
        (Some msg, _) \<Rightarrow> Inl msg
      | (None, _) \<Rightarrow>
      (case entries of
        Inl msg \<Rightarrow> Inl (''list sessions: '' @ msg)
      | Inr es \<Rightarrow>
      (case load_summaries env files es of
        Inl msg \<Rightarrow> Inl msg
      | Inr ss \<Rightarrow> Inr (sort_stable (\<lambda>a b. string_less (sy_name a) (sy_name b)) ss))))"

definition session_remove :: "store_env \<Rightarrow> string option \<Rightarrow> string \<Rightarrow> file_system \<Rightarrow> string option \<times> file_system" where
  "session_remove env fault name files =
     (if sn_windows env then (Some unsupported_platform, files)
      else case validate_name name of
        Some msg \<Rightarrow> (Some msg, files)
      | None \<Rightarrow>
      (case fault of
        Some msg \<Rightarrow> (Some (''remove session '' @ quote name @ '': '' @ msg), files)
      | None \<Rightarrow>
          if files (session_file name) = None
          then (Some (''remove session '' @ quote name @ '': file does not exist''), files)
          else (None, files(session_file name := None))))"

end
