(* ===== verification/Session_Props.thy ===== *)
theory Session_Props
  imports Session Disk_Cache_Props TLS_Client_Props
begin

text \<open>
  Sessions: what an import takes from a HAR file, that a valid session can be replayed safely, that its name
  cannot leave the store, that a summary tells nothing of the cookie values, and that a saved session is
  loaded again while every other one stays as it was.
\<close>

section \<open>The captured cookies\<close>

definition latest :: "session_cookie list \<Rightarrow> string \<Rightarrow> session_cookie option" where
  "latest cs k = find (\<lambda>c. cookie_key c = k) (rev cs)"

text \<open>The acceptable cookies of the successful Zillow requests, in the order of the file.\<close>

definition sent_cookies :: "har_entry list \<Rightarrow> session_cookie list" where
  "sent_cookies es =
     concat (map (\<lambda>e. case successful_host e of None \<Rightarrow> [] | Some host \<Rightarrow> entry_cookies host e) es)"

lemma latest_append: "latest (xs @ ys) k = (case latest ys k of Some c \<Rightarrow> Some c | None \<Rightarrow> latest xs k)"
proof -
  have found: "find P (us @ vs) = (case find P us of Some c \<Rightarrow> Some c | None \<Rightarrow> find P vs)" for P and us vs :: "session_cookie list"
    by (induction us) auto
  show ?thesis unfolding latest_def rev_append by (rule found)
qed

lemma latest_simps [simp]:
  "latest [] k = None" "latest [c] k = (if cookie_key c = k then Some c else None)"
  by (simp_all add: latest_def)

lemma latest_key: "latest cs k = Some c \<Longrightarrow> cookie_key c = k \<and> c \<in> set cs"
  by (auto simp: latest_def find_Some_iff) (metis nth_mem length_rev set_rev)

definition captured_as :: "captured_cookies \<Rightarrow> (string \<Rightarrow> session_cookie option) \<Rightarrow> bool" where
  "captured_as m f \<longleftrightarrow> distinct (map fst m) \<and> (\<forall>k. map_option fst (map_of m k) = f k)"

lemma captured_cookies_of_entry:
  "captured_as m f \<Longrightarrow>
   captured_as (foldl (\<lambda>m c. AList.update (cookie_key c) (c, n) m) m cs)
     (\<lambda>k. case latest cs k of Some c \<Rightarrow> Some c | None \<Rightarrow> f k)"
proof (induction cs rule: rev_induct)
  case Nil
  then show ?case by simp
next
  case (snoc c cs)
  then show ?case by (auto simp: captured_as_def distinct_update update_conv' latest_append)
qed

lemma captured_entries:
  "captured_as m f \<Longrightarrow> captured_as (capture_entries n es m) (\<lambda>k. case latest (sent_cookies es) k of Some c \<Rightarrow> Some c | None \<Rightarrow> f k)"
proof (induction es arbitrary: n m f)
  case Nil
  then show ?case by (simp add: sent_cookies_def)
next
  case (Cons e es)
  show ?case
  proof (cases "successful_host e")
    case None
    then show ?thesis using Cons by (simp add: sent_cookies_def)
  next
    case (Some host)
    have split: "(case latest (sent_cookies (e # es)) k of Some c \<Rightarrow> Some c | None \<Rightarrow> f k)
      = (case latest (sent_cookies es) k of Some c \<Rightarrow> Some c
         | None \<Rightarrow> (case latest (entry_cookies host e) k of Some c \<Rightarrow> Some c | None \<Rightarrow> f k))" for k
      by (simp add: sent_cookies_def Some latest_append split: option.split)
    show ?thesis
      using Cons.IH [OF captured_cookies_of_entry [OF Cons.prems, of "Suc n" "entry_cookies host e"], of "Suc n"]
      by (simp add: Some split)
  qed
qed

lemma captured_entries_all: "captured_as (capture_entries 0 es []) (latest (sent_cookies es))"
proof -
  have "captured_as [] (\<lambda>k. None)" by (simp add: captured_as_def)
  from captured_entries [OF this, of 0 es]
  have "captured_as (capture_entries 0 es []) (\<lambda>k. case latest (sent_cookies es) k of Some c \<Rightarrow> Some c | None \<Rightarrow> None)" .
  moreover have "(\<lambda>k. case latest (sent_cookies es) k of Some c \<Rightarrow> Some c | None \<Rightarrow> None) = latest (sent_cookies es)"
    by (auto simp: fun_eq_iff split: option.split)
  ultimately show ?thesis by simp
qed

lemma captured_values:
  assumes "captured_as m f" and "\<And>k c. f k = Some c \<Longrightarrow> cookie_key c = k"
  shows "set (map (fst \<circ> snd) m) = {c. f (cookie_key c) = Some c} \<and> map fst m = map (cookie_key \<circ> fst \<circ> snd) m"
proof -
  have entry: "cookie_key c = k \<and> f k = Some c" if "(k, c, n) \<in> set m" for k c n
  proof -
    have "map_of m k = Some (c, n)" using that assms(1) by (simp add: captured_as_def)
    then have "f k = Some c" using assms(1) unfolding captured_as_def by (metis option.simps(9) fst_conv)
    then show ?thesis using assms(2) by blast
  qed
  have "\<exists>n. (cookie_key c, c, n) \<in> set m" if "f (cookie_key c) = Some c" for c
  proof -
    have "map_option fst (map_of m (cookie_key c)) = Some c" using assms(1) that by (simp add: captured_as_def)
    then obtain n where "map_of m (cookie_key c) = Some (c, n)" by (metis (no_types, lifting) map_option_eq_Some prod.collapse)
    then show ?thesis using map_of_SomeD by metis
  qed
  then have "set (map (fst \<circ> snd) m) = {c. f (cookie_key c) = Some c}" using entry by force
  moreover have "map fst m = map (cookie_key \<circ> fst \<circ> snd) m" using entry by (auto simp: map_eq_conv)
  ultimately show ?thesis by blast
qed

lemma captured_order_exact:
  "distinct (map cookie_key (captured_order a))
   \<and> set (captured_order a) = {c. latest (sent_cookies (hl_entries (ar_log a))) (cookie_key c) = Some c}"
proof -
  let ?m = "capture_entries 0 (hl_entries (ar_log a)) []" and ?sent = "sent_cookies (hl_entries (ar_log a))"
  have cap: "captured_as ?m (latest ?sent)" by (rule captured_entries_all)
  have vals: "set (map (fst \<circ> snd) ?m) = {c. latest ?sent (cookie_key c) = Some c}"
    "map fst ?m = map (cookie_key \<circ> fst \<circ> snd) ?m"
    using captured_values [OF cap] latest_key by blast+
  have "mset (map cookie_key (captured_order a)) = mset (map (cookie_key \<circ> fst \<circ> snd) ?m)"
    by (simp add: captured_order_def multiset.map_comp o_assoc)
  then have "distinct (map cookie_key (captured_order a)) = distinct (map fst ?m)"
    using mset_eq_imp_distinct_iff vals(2) by metis
  then have "distinct (map cookie_key (captured_order a))" using cap by (simp add: captured_as_def)
  moreover have "set (captured_order a) = set (map (fst \<circ> snd) ?m)" by (simp add: captured_order_def image_comp comp_def)
  ultimately show ?thesis using vals by simp
qed

section \<open>Import\<close>

lemma check_cookies_exact:
  "check_cookies i seen cs = None \<longleftrightarrow>
   list_all (\<lambda>c. session_cookie_fault c = None) cs \<and> distinct (map cookie_key cs) \<and> set (map cookie_key cs) \<inter> set seen = {}"
  by (induction cs arbitrary: i seen) (auto split: option.splits)

lemma guarded_some: "(if P x then Some x else None) = Some y \<Longrightarrow> P y"
  by (simp split: if_split_asm)

lemma cookie_from_har_valid: "cookie_from_har host k = Some c \<Longrightarrow> session_cookie_fault c = None"
  unfolding cookie_from_har_def Let_def by (rule guarded_some)

lemma cookie_from_header_valid: "cookie_from_header host nv = Some c \<Longrightarrow> session_cookie_fault c = None"
  unfolding cookie_from_header_def Let_def by (rule guarded_some)

lemma map_filter_member: "y \<in> set (List.map_filter f xs) \<Longrightarrow> \<exists>x. f x = Some y"
  by (auto simp: List.map_filter_def)

lemma sent_cookies_valid: "c \<in> set (sent_cookies es) \<Longrightarrow> session_cookie_fault c = None"
  by (auto simp: sent_cookies_def entry_cookies_def split: option.splits if_splits
      dest!: map_filter_member intro: cookie_from_har_valid cookie_from_header_valid)

lemma live_at_once: "live_cookies (\<lambda>_. now) cs = filter (\<lambda>c. \<not> expired now c) cs"
proof -
  have "map fst (filter (\<lambda>(c, i). \<not> expired now c) (zip cs [m..<m + length cs])) = filter (\<lambda>c. \<not> expired now c) cs" for m
  proof (induction cs arbitrary: m)
    case (Cons c cs)
    have "[m..<m + length (c # cs)] = m # [Suc m..<Suc m + length cs]"
      by (subst upt_conv_Cons) simp_all
    then show ?case using Cons.IH [of "Suc m"] by simp
  qed simp
  from this [of 0] show ?thesis by (simp add: live_cookies_def)
qed

text \<open>The cookies an import is to keep: the last one of each key, unless it has expired.\<close>

definition live_set :: "int \<Rightarrow> archive \<Rightarrow> session_cookie set" where
  "live_set now a =
     {c. latest (sent_cookies (hl_entries (ar_log a))) (cookie_key c) = Some c \<and> \<not> expired now c}"

text \<open>
  C34: An import keeps exactly the last acceptable cookie of every domain, path and name that a successful
  request to Zillow carried, without the expired ones; it fails only when there is none or more than 256
  of them, and the session is valid.
\<close>
theorem import_exact:
  assumes "validate_archive (Some a) = None" and "created \<noteq> 0"
  shows "(case import_har created (\<lambda>_. now) (Some a) of
            Inl msg \<Rightarrow> live_set now a = {} \<or> card (live_set now a) > 256
          | Inr s \<Rightarrow> set (se_cookies s) = live_set now a \<and> distinct (map cookie_key (se_cookies s))
              \<and> validate_session (Some s) = None \<and> se_created s = created)"
proof -
  define ordered where "ordered = captured_order a"
  define live where "live = filter (\<lambda>c. \<not> expired now c) ordered"
  define s where "s = \<lparr>se_version = session_version, se_created = created, se_user_agent = [], se_cookies = live\<rparr>"
  have order: "distinct (map cookie_key ordered)" "set ordered = {c. latest (sent_cookies (hl_entries (ar_log a))) (cookie_key c) = Some c}"
    using captured_order_exact [of a] by (simp_all add: ordered_def)
  have members: "set live = live_set now a" using order(2) by (auto simp: live_def live_set_def)
  have keys: "distinct (map cookie_key live)" using order(1) by (simp add: live_def distinct_map_filter)
  then have size: "card (live_set now a) = length live" using members distinct_card [of live] by (metis distinct_map)
  have valid: "list_all (\<lambda>c. session_cookie_fault c = None) live"
    using order(2) latest_key sent_cookies_valid by (fastforce simp: live_def list_all_iff)
  have checked: "check_cookies 0 [] live = None" using keys valid by (simp add: check_cookies_exact)
  show ?thesis
  proof (cases "live = [] \<or> length live > 256")
    case True
    then have "live_set now a = {} \<or> card (live_set now a) > 256" using members size by auto
    moreover have "\<exists>msg. import_har created (\<lambda>_. now) (Some a) = Inl msg"
      using True assms(1)
      by (auto simp: import_har_def Let_def live_at_once validate_session_def ordered_def [symmetric] live_def [symmetric])
    ultimately show ?thesis by auto
  next
    case False
    then have "ordered \<noteq> []" by (auto simp: live_def)
    moreover have ok: "validate_session (Some s) = None"
      using False assms(2) checked by (simp add: validate_session_def s_def)
    moreover have "se_cookies s = live" by (simp add: s_def)
    ultimately have "import_har created (\<lambda>_. now) (Some a) = Inr s"
      using False assms(1)
      by (simp add: import_har_def Let_def live_at_once ordered_def [symmetric] live_def [symmetric] s_def [symmetric])
    then show ?thesis using ok members keys by (simp add: s_def)
  qed
qed

section \<open>What a valid session is worth\<close>

text \<open>A cookie cannot break out of its header: no separator, no quote, no control character.\<close>

definition header_safe :: "char \<Rightarrow> bool" where
  "header_safe b \<longleftrightarrow> \<not> is_control b \<and> b \<noteq> CHR '';'' \<and> byte b < 127"

definition replay_safe :: "session_cookie \<Rightarrow> bool" where
  "replay_safe c \<longleftrightarrow> is_zillow_cookie_host (sk_domain c) \<and> sk_name c \<noteq> [] \<and> list_all token_char (sk_name c)
     \<and> list_all header_safe (sk_value c @ sk_path c)"

lemma no_http_fault:
  "http_cookie_fault c = None \<Longrightarrow> is_token (sk_name c) \<and> list_all cookie_value_byte (sk_value c) \<and> list_all cookie_path_byte (sk_path c)"
  by (simp add: http_cookie_fault_def split: if_split_asm)

lemma safe_bytes:
  "cookie_value_byte b \<Longrightarrow> header_safe b"
  "cookie_path_byte b \<Longrightarrow> header_safe b"
  by (simp_all add: header_safe_def cookie_value_byte_def cookie_path_byte_def is_control_def)

lemma no_fault_safe:
  assumes "session_cookie_fault c = None" shows "replay_safe c"
proof -
  have host: "is_zillow_cookie_host (sk_domain c)" and "http_cookie_fault c = None"
    using assms by (simp_all add: session_cookie_fault_def split: if_split_asm option.split_asm)
  note parts = no_http_fault [OF this(2)]
  have "list_all header_safe (sk_value c @ sk_path c)"
    using parts by (auto simp: list_all_iff safe_bytes)
  then show ?thesis using host parts by (simp add: replay_safe_def is_token_def)
qed

lemma filter_dropWhile_blank: "filter (\<lambda>c. \<not> P c) (dropWhile P s) = filter (\<lambda>c. \<not> P c) s"
  by (induction s) auto

lemma token_char_code: "token_char c \<Longrightarrow> 33 \<le> byte c"
proof -
  assume "token_char c"
  then consider "is_letter c \<or> is_digit c" | "c \<in> set ''!#$%&*+-.^_`|~''" | "byte c = 39"
    unfolding token_char_def by blast
  then show ?thesis by cases (auto simp: is_letter_def is_digit_def is_upper_def is_lower_def)
qed

lemma token_not_blank: "is_token s \<Longrightarrow> trim_space s \<noteq> []"
proof -
  assume token: "is_token s"
  have no_space: "\<not> is_space c" if "token_char c" for c
    using token_char_code [OF that] by (simp add: is_space_def)
  have "filter (\<lambda>c. \<not> is_space c) (trim_space s) = filter (\<lambda>c. \<not> is_space c) s"
    by (simp add: trim_space_def trim_right_def trim_left_def rev_filter [symmetric] filter_dropWhile_blank)
  moreover have "filter (\<lambda>c. \<not> is_space c) s = s" using token no_space by (simp add: is_token_def list_all_iff filter_id_conv)
  ultimately show "trim_space s \<noteq> []" using token by (auto simp: is_token_def)
qed

lemma valid_session_parts:
  "validate_session (Some s) = None \<longleftrightarrow>
   se_version s = 1 \<and> se_created s \<noteq> 0 \<and> length (se_user_agent s) \<le> 1024 \<and> \<not> list_ex is_control (se_user_agent s)
   \<and> se_cookies s \<noteq> [] \<and> length (se_cookies s) \<le> 256
   \<and> list_all (\<lambda>c. session_cookie_fault c = None) (se_cookies s) \<and> distinct (map cookie_key (se_cookies s))"
  by (auto simp: validate_session_def session_version_def check_cookies_exact)

text \<open>
  A valid session can be replayed: each of its cookies belongs to a Zillow host, has a token for a name and
  a value and path that cannot break out of the header, no two agree in domain, path and name, and the
  client accepts all of them as initial cookies.
\<close>
theorem valid_session_replayable:
  assumes "validate_session (Some s) = None"
  shows "list_all replay_safe (se_cookies s) \<and> distinct (map cookie_key (se_cookies s))
         \<and> with_initial_cookies (map (Some \<circ> nk_name) (http_cookies (Some s))) o1
           = Inr (o1\<lparr>op_cookie_names := map sk_name (se_cookies s)\<rparr>)"
proof -
  from assms have valid: "list_all (\<lambda>c. session_cookie_fault c = None) (se_cookies s)" and keys: "distinct (map cookie_key (se_cookies s))"
    by (simp_all add: valid_session_parts)
  have safe: "list_all replay_safe (se_cookies s)" using valid no_fault_safe by (simp add: list_all_iff)
  have "trim_space (sk_name c) \<noteq> []" if "c \<in> set (se_cookies s)" for c
    using safe that by (intro token_not_blank) (auto simp: list_all_iff replay_safe_def is_token_def)
  then have "\<not> list_ex (\<lambda>c. case c of None \<Rightarrow> True | Some name \<Rightarrow> trim_space name = []) (map (Some \<circ> nk_name) (http_cookies (Some s)))"
    by (auto simp: list_ex_iff http_cookies_def)
  then show ?thesis using safe keys by (simp add: with_initial_cookies_def http_cookies_def comp_def)
qed

text \<open>
  A summary tells nothing but the names of the cookies: two sessions made at the same time with the same cookie
  names have the same summary, whatever the values, hosts and User-Agent.
\<close>
theorem summary_hides_values:
  assumes "se_created s = se_created t" and "mset (map sk_name (se_cookies s)) = mset (map sk_name (se_cookies t))"
  shows "summary_of name s = summary_of name t"
proof -
  have "length (se_cookies s) = length (se_cookies t)" using assms(2) by (metis length_map size_mset)
  then show ?thesis using assms texts.sort_by_members [OF assms(2)] by (simp add: summary_of_def)
qed

section \<open>The files\<close>

lemma valid_name_chars: "validate_name name = None \<Longrightarrow> list_all name_char name \<and> name \<noteq> [] \<and> length name \<le> 64"
  by (auto simp: validate_name_def find_None_iff list_all_iff split: if_splits option.splits)

text \<open>
  A valid session name denotes one file of the store's directory: no separator, no NUL, never a directory
  reference; different names are different files.
\<close>
theorem session_name_confined:
  assumes "validate_name name = None"
  shows "list_all name_char (session_file name) \<and> \<not> list_ex (\<lambda>c. c = CHR ''/'' \<or> c = CHR 0x5C \<or> c = CHR 0x00) (session_file name)
         \<and> session_file name \<notin> {''.'', ''..''} \<and> length (session_file name) \<le> 69
         \<and> (session_file name = session_file other) = (name = other)"
proof -
  have chars: "list_all name_char (session_file name)" and len: "length (session_file name) \<le> 69"
    using valid_name_chars [OF assms] by (auto simp: session_file_def name_char_def is_letter_def is_lower_def)
  have "\<not> name_char CHR ''/''" "\<not> name_char CHR 0x5C" "\<not> name_char CHR 0x00" by code_simp+
  then have "\<not> list_ex (\<lambda>c. c = CHR ''/'' \<or> c = CHR 0x5C \<or> c = CHR 0x00) (session_file name)"
    using chars by (auto simp: list_ex_iff list_all_iff)
  moreover have "length (session_file name) > 2" by (simp add: session_file_def)
  then have "session_file name \<notin> {''.'', ''..''}" by auto
  moreover have "(session_file name = session_file other) = (name = other)" by (simp add: session_file_def)
  ultimately show ?thesis using chars len by blast
qed

lemma temp_is_no_session:
  assumes "list_all is_digit random" shows "session_file name \<noteq> session_temp random"
proof
  assume "session_file name = session_temp random"
  then have "last (session_temp random) = CHR ''n''" by (simp add: session_file_def flip: \<open>session_file name = session_temp random\<close>)
  moreover have "last (session_temp random) = CHR ''-'' \<or> is_digit (last (session_temp random))"
    using assms by (cases "random = []") (auto simp: session_temp_def list_all_iff)
  ultimately show False by (auto simp: is_digit_def)
qed

lemma ensure_directory_files: "ensure_directory faults dir files = (res, trace) \<Longrightarrow> set trace = {files} \<and> trace \<noteq> []"
  by (auto simp: ensure_directory_def failed_effect_def split: if_splits option.splits prod.splits)

lemma session_save_cases:
  assumes "session_save env dir faults random name s0 files = (res, trace)"
  obtains (untouched) "set trace = {files}" "trace \<noteq> []" "res \<noteq> None"
  | (steps) s data t1 t2 where "s0 = Some s" "validate_session (Some s) = None" "sn_encode env s = Inr data" "\<not> sn_windows env"
      "validate_name name = None" "set t1 = {files}" "t1 \<noteq> []" "trace = t1 @ t2"
      "replace_file (labelled session_label) faults (session_file name) (session_temp random) data files = (res, t2)"
proof (cases "sn_windows env \<or> validate_name name \<noteq> None \<or> validate_session s0 \<noteq> None")
  case True
  then have "trace = [files] \<and> res \<noteq> None" using assms by (auto simp: session_save_def split: if_splits option.splits dest: sym)
  then show ?thesis by (intro untouched) auto
next
  case False
  then obtain s where s: "s0 = Some s" by (cases s0) (auto simp: validate_session_def)
  obtain r1 t1 where dir: "ensure_directory faults dir files = (r1, t1)" by (cases "ensure_directory faults dir files")
  note t1 = ensure_directory_files [OF dir]
  then have last1: "last t1 = files" using last_in_set by blast
  show ?thesis
  proof (cases r1)
    case (Some msg)
    then have "trace = t1 \<and> res = Some msg" using assms False dir by (simp add: session_save_def)
    then show ?thesis using t1 by (intro untouched) auto
  next
    case None
    show ?thesis
    proof (cases "sn_encode env s")
      case (Inl msg)
      then have "trace = t1 \<and> res \<noteq> None" using assms False dir None s by (auto simp: session_save_def)
      then show ?thesis using t1 by (intro untouched) auto
    next
      case (Inr data)
      obtain r2 t2 where rep: "replace_file (labelled session_label) faults (session_file name) (session_temp random) data files = (r2, t2)"
        by (cases "replace_file (labelled session_label) faults (session_file name) (session_temp random) data files")
      then have "res = r2 \<and> trace = t1 @ t2" using assms False dir None s Inr last1 by (simp add: session_save_def)
      then show ?thesis using False s t1 rep by (intro steps [OF s _ Inr, of t1 t2]) auto
    qed
  qed
qed

text \<open>
  C19: Saving a session is atomic: whichever system call fails, and wherever the process is stopped, the file of
  every session is what it was before or, for the saved name only, the complete new session readable by its
  owner alone; after an error none has changed.
\<close>
theorem session_save_atomic:
  assumes "session_save env dir faults random name s0 files = (res, trace)"
    and "list_all is_digit random" and "files (session_temp random) = None"
  shows "(\<forall>fs \<in> set trace. \<forall>n. n \<noteq> session_temp random \<longrightarrow> fs n = files n \<or>
            n = session_file name \<and> (\<exists>s data. s0 = Some s \<and> validate_session (Some s) = None \<and> sn_encode env s = Inr data
              \<and> fs n = Some \<lparr>cf_mode = 384, cf_data = data\<rparr>))
         \<and> (res \<noteq> None \<longrightarrow> (\<forall>n. n \<noteq> session_temp random \<longrightarrow> last trace n = files n))
         \<and> (\<not> sf_remove_fails faults \<longrightarrow> last trace (session_temp random) = None)"
  using assms(1)
proof (cases rule: session_save_cases)
  case untouched
  then have "last trace = files" using last_in_set by blast
  then show ?thesis unfolding untouched(1) using assms(3) by simp
next
  case (steps s data t1 t2)
  have spec: "replaced faults (session_file name) (session_temp random) data files res t2"
    using replace_file_spec [OF steps(9) temp_is_no_session [OF assms(2)] assms(3)] .
  then have last2: "last trace = last t2" using steps(8) by (simp add: replaced_def)
  have "fs n = files n \<or> n = session_file name \<and> fs n = Some \<lparr>cf_mode = 384, cf_data = data\<rparr>"
    if "fs \<in> set trace" "n \<noteq> session_temp random" for fs n
    using that spec steps(6,8) by (auto simp: replaced_def old_or_whole_def private_mode_def)
  moreover have "\<forall>n. n \<noteq> session_temp random \<longrightarrow> last trace n = files n" if "res \<noteq> None"
    using that spec last2 by (simp add: replaced_def all_old_def)
  moreover have "last trace (session_temp random) = None" if "\<not> sf_remove_fails faults"
    using that spec last2 by (simp add: replaced_def)
  ultimately show ?thesis using steps(1,2,3) by blast
qed

lemma saved_session_reads:
  assumes "session_save env dir faults random name (Some s) files = (None, trace)"
    and "list_all is_digit random" and "files (session_temp random) = None"
    and "\<And>t d. sn_encode env t = Inr d \<Longrightarrow> sn_decode env d = Inr t"
    and "sn_stat_error env (session_file name) = None" and "sn_open_error env (session_file name) = None"
  shows "session_load env name (last trace) = Inr s
         \<and> (other = name \<or> session_load env other (last trace) = session_load env other files)"
  using assms(1)
proof (cases rule: session_save_cases)
  case untouched
  then show ?thesis by simp
next
  case (steps s' data t1 t2)
  have spec: "replaced faults (session_file name) (session_temp random) data files None t2"
    using replace_file_spec [OF steps(9) temp_is_no_session [OF assms(2)] assms(3)] .
  have last2: "last trace = last t2" using spec steps(8) by (simp add: replaced_def)
  have saved: "last trace (session_file name) = Some \<lparr>cf_mode = private_mode, cf_data = data\<rparr>"
    using spec last2 by (simp add: replaced_def)
  have "session_load env name (last trace) = Inr s"
    using steps saved assms(4) [OF steps(3)] assms(5,6) private_mode_closed by (simp add: session_load_def)
  moreover have "session_load env other (last trace) = session_load env other files" if "other \<noteq> name"
  proof -
    have "session_file other \<noteq> session_file name" using that by (simp add: session_file_def)
    moreover have "old_or_whole files (session_file name) (session_temp random) data (last t2)"
      using spec last_in_set unfolding replaced_def by blast
    ultimately have "last trace (session_file other) = files (session_file other)"
      using temp_is_no_session [OF assms(2), of other] last2 unfolding old_or_whole_def by metis
    then show ?thesis unfolding session_load_def by (simp only:)
  qed
  ultimately show ?thesis by blast
qed

text \<open>
  A session saved without an error is loaded again as it was, and every other session loads as before, if
  the JSON codec reads what it wrote and the file can be opened.
\<close>
theorem saved_session_loaded:
  assumes "session_save env dir faults random name (Some s) files = (None, trace)"
    and "list_all is_digit random" and "files (session_temp random) = None"
    and "\<And>t d. sn_encode env t = Inr d \<Longrightarrow> sn_decode env d = Inr t"
    and "sn_stat_error env (session_file name) = None" and "sn_open_error env (session_file name) = None"
  shows "session_load env name (last trace) = Inr s
         \<and> (other = name \<or> session_load env other (last trace) = session_load env other files)"
  by (rule saved_session_reads [OF assms])

section \<open>Witnesses\<close>

definition sample_har_cookie :: "string \<Rightarrow> string \<Rightarrow> string \<Rightarrow> har_cookie" where
  "sample_har_cookie name v expires =
     \<lparr>hk_name = name, hk_value = v, hk_path = ''/'', hk_domain = ''.zillow.com'', hk_expires = expires, hk_http_only = True,
      hk_secure = True, hk_same_site = [], hk_comment = []\<rparr>"

definition sample_visit :: "int \<Rightarrow> har_cookie list \<Rightarrow> har_entry" where
  "sample_visit status cookies =
     \<lparr>he_page_ref = [], he_started = [], he_time = 0,
      he_request = \<lparr>hq_method = ''GET'', hq_url = ''https://www.zillow.com/'', hq_http_version = [], hq_headers = [], hq_query = [],
        hq_cookies = cookies, hq_headers_size = 0, hq_body_size = 0, hq_post = None, hq_comment = []\<rparr>,
      he_response = \<lparr>hr_status = status, hr_status_text = [], hr_http_version = [], hr_headers = [], hr_cookies = [],
        hr_content = \<lparr>hn_size = 0, hn_compression = None, hn_mime = [], hn_text = [], hn_encoding = [], hn_comment = []\<rparr>,
        hr_redirect_url = [], hr_headers_size = 0, hr_body_size = 0, hr_comment = []\<rparr>,
      he_cache = [], he_timings = None, he_server_ip = [], he_connection = [], he_comment = [], he_resource_type = [], he_initiator = []\<rparr>"

text \<open>Two visits, the second with a newer value of a cookie; a failed one with another; a cookie that has expired.\<close>

definition sample_archive :: archive where
  "sample_archive = \<lparr>ar_log = \<lparr>hl_version = version12, hl_creator = \<lparr>hc_name = [], hc_version = [], hc_comment = []\<rparr>, hl_browser = None,
     hl_pages = [], hl_entries =
       [sample_visit 200 [sample_har_cookie ''id'' ''1'' [], sample_har_cookie ''old'' ''x'' ''Mon, 02 Jan 2006 15:04:05 GMT''],
        sample_visit 403 [sample_har_cookie ''px'' ''bad'' []], sample_visit 301 [sample_har_cookie ''id'' ''2'' []]],
     hl_comment = []\<rparr>\<rparr>"

definition sample_session :: session where
  "sample_session = \<lparr>se_version = 1, se_created = 7, se_user_agent = [], se_cookies =
     [\<lparr>sk_name = ''id'', sk_value = ''2'', sk_domain = ''.zillow.com'', sk_path = ''/'', sk_expires = zero_time, sk_secure = True,
       sk_http_only = True\<rparr>]\<rparr>"

lemma sample_import: "import_har 7 (\<lambda>_. 738000 * day_ns) (Some sample_archive) = Inr sample_session"
  by code_simp

lemma sample_session_valid: "validate_session (Some sample_session) = None"
  by code_simp

theorem import_exact_witness:
  "set (se_cookies sample_session) = live_set (738000 * day_ns) sample_archive"
proof -
  have "validate_archive (Some sample_archive) = None" by code_simp
  from import_exact [OF this, of 7 "738000 * day_ns"] show ?thesis by (simp add: sample_import)
qed

theorem valid_session_replayable_witness: "list_all replay_safe (se_cookies sample_session)"
  using valid_session_replayable [OF sample_session_valid] by blast

definition revalued_session :: session where
  "revalued_session = sample_session\<lparr>se_cookies := map (\<lambda>c. c\<lparr>sk_value := ''secret''\<rparr>) (se_cookies sample_session)\<rparr>"

theorem summary_hides_values_witness:
  "summary_of ''home'' sample_session = summary_of ''home'' revalued_session \<and> sample_session \<noteq> revalued_session"
proof
  show "summary_of ''home'' sample_session = summary_of ''home'' revalued_session"
    by (rule summary_hides_values) (simp_all add: revalued_session_def sample_session_def)
  show "sample_session \<noteq> revalued_session" by (simp add: revalued_session_def sample_session_def)
qed

theorem session_name_confined_witness:
  "session_file ''my.home-1'' \<notin> {''.'', ''..''} \<and> validate_name ''../x'' \<noteq> None"
proof
  have "validate_name ''my.home-1'' = None" by code_simp
  from session_name_confined [OF this] show "session_file ''my.home-1'' \<notin> {''.'', ''..''}" by blast
  show "validate_name ''../x'' \<noteq> None" by code_simp
qed

text \<open>A codec for the witnesses: the one session is written as one text.\<close>

definition sample_store :: store_env where
  "sample_store = \<lparr>sn_windows = False, sn_encode = (\<lambda>s. if s = sample_session then Inr ''{}'' else Inl ''no''),
     sn_decode = (\<lambda>d. if d = ''{}'' then Inr sample_session else Inl ''bad''), sn_stat_error = (\<lambda>_. None), sn_open_error = (\<lambda>_. None)\<rparr>"

definition no_faults :: save_faults where
  "no_faults = \<lparr>sf_fault = (\<lambda>_. None), sf_written = 0, sf_remove_fails = False\<rparr>"

definition rename_fault :: save_faults where
  "rename_fault = no_faults\<lparr>sf_fault := (\<lambda>s. if s = RenameTemp then Some ''disk full'' else None)\<rparr>"

lemma sample_names: "validate_name ''home'' = None"
  by code_simp

lemma sample_save:
  "fst (session_save sample_store ''/s'' no_faults ''1'' ''home'' (Some sample_session) Map.empty) = None"
  "fst (session_save sample_store ''/s'' rename_fault ''1'' ''home'' (Some sample_session) Map.empty) \<noteq> None"
  using sample_session_valid sample_names
  by (simp_all add: session_save_def sample_store_def ensure_directory_def rename_fault_def no_faults_def replace_file_def
      after_temp_def trim_space_def trim_left_def trim_right_def is_space_def)

theorem session_save_atomic_witness:
  "last (snd (session_save sample_store ''/s'' rename_fault ''1'' ''home'' (Some sample_session) Map.empty)) (session_file ''home'') = None"
proof -
  let ?run = "session_save sample_store ''/s'' rename_fault ''1'' ''home'' (Some sample_session) Map.empty"
  have run: "?run = (fst ?run, snd ?run)" by simp
  have digits: "list_all is_digit ''1''" by code_simp
  have "fst ?run \<noteq> None" by (rule sample_save)
  moreover have "session_file ''home'' \<noteq> session_temp ''1''" using temp_is_no_session [OF digits] .
  ultimately show ?thesis using session_save_atomic [OF run digits] by simp
qed

theorem saved_session_loaded_witness:
  "session_load sample_store ''home'' (last (snd (session_save sample_store ''/s'' no_faults ''1'' ''home'' (Some sample_session) Map.empty)))
   = Inr sample_session"
proof -
  let ?run = "session_save sample_store ''/s'' no_faults ''1'' ''home'' (Some sample_session) Map.empty"
  have run: "?run = (None, snd ?run)" using sample_save(1) by (metis prod.collapse)
  have digits: "list_all is_digit ''1''" by code_simp
  have codec: "sn_decode sample_store d = Inr t" if "sn_encode sample_store t = Inr d" for t d
    using that by (simp add: sample_store_def split: if_splits)
  show ?thesis using saved_session_loaded [OF run digits _ codec, of "''home''"] by (simp add: sample_store_def)
qed

end
