(* ===== verification/Transport.thy ===== *)
theory Transport
  imports TLS_Client Session History
begin

text \<open>
  How a command reaches the site (\<open>internal/cli/transport.go\<close>): the browser headers of the flags, the proxy,
  the round tripper and the client with the cookies of a session; and how it reads the results of an
  earlier search (\<open>internal/cli/search_history.go\<close>).

  The environment's proxy and the files of the store are arguments, as are the decodings of
  \<open>encoding/json\<close>; the text of an error of \<open>url.Parse\<close> is left out.
\<close>

section \<open>The transport\<close>

record transport_options =
  to_timeout :: int
  to_proxy_url :: string
  to_session_name :: string
  to_tls_profile :: string
  to_user_agent :: string
  to_browser_headers :: http_header

definition network_options_set :: "string list \<Rightarrow> bool" where
  "network_options_set vs \<longleftrightarrow> list_ex (\<lambda>v. trim_space v \<noteq> []) vs"

text \<open>\<open>http.Header.Add\<close>: a name that is no token is kept as it is.\<close>

definition header_add :: "string \<Rightarrow> string \<Rightarrow> http_header \<Rightarrow> http_header" where
  "header_add name v h = header_append (if is_token name then canonical_key name else name) v h"

fun parse_browser_headers_from :: "string list \<Rightarrow> http_header \<Rightarrow> string + http_header" where
  "parse_browser_headers_from [] h = Inr h"
| "parse_browser_headers_from (raw # rest) h =
     (case cut_byte CHR '':'' raw of (name0, v0, found) \<Rightarrow>
        (let name = trim_space name0; v = trim_space v0 in
         if \<not> found \<or> name = [] \<or> v = [] then Inl (''browser header '' @ quote raw @ '' must use Name: Value'')
         else parse_browser_headers_from rest (header_add name v h)))"

definition parse_browser_headers :: "string list \<Rightarrow> string + http_header" where
  "parse_browser_headers vs = parse_browser_headers_from vs []"

definition validate_proxy_url :: "go_url option \<Rightarrow> string + go_url" where
  "validate_proxy_url parsed0 =
     (case parsed0 of
        None \<Rightarrow> Inl ''proxy URL is nil''
      | Some parsed \<Rightarrow>
          if u_host parsed = [] then Inl ''proxy URL must include a host''
          else if to_lower (u_scheme parsed) \<notin> set [''http'', ''https'', ''socks5'', ''socks5h'']
          then Inl (''unsupported proxy scheme '' @ quote (u_scheme parsed))
          else Inr parsed)"

definition parse_proxy_url :: "string \<Rightarrow> string + go_url" where
  "parse_proxy_url v =
     (case url_parse (trim_space v) of None \<Rightarrow> Inl ''parse proxy URL'' | Some u \<Rightarrow> validate_proxy_url (Some u))"

definition tls_proxy_url :: "string + go_url option \<Rightarrow> string \<Rightarrow> string + string" where
  "tls_proxy_url environment explicit =
     (if trim_space explicit \<noteq> []
      then (case parse_proxy_url explicit of Inl msg \<Rightarrow> Inl msg | Inr u \<Rightarrow> Inr (url_string u))
      else case environment of
             Inl msg \<Rightarrow> Inl (''resolve proxy from environment: '' @ msg)
           | Inr None \<Rightarrow> Inr []
           | Inr (Some u) \<Rightarrow>
               (case validate_proxy_url (Some u) of
                  Inl msg \<Rightarrow> Inl (''proxy from environment: '' @ msg)
                | Inr v \<Rightarrow> Inr (url_string u)))"

text \<open>The store of the user, or why there is none, and its files.\<close>

record session_source =
  ss_store :: "string + string"
  ss_env :: store_env
  ss_files :: file_system

text \<open>The options of the client in the order they are applied.\<close>

definition client_options_for :: "int \<Rightarrow> (client_options \<Rightarrow> string + client_options) list \<Rightarrow> session option
   \<Rightarrow> (client_options \<Rightarrow> string + client_options) option list" where
  "client_options_for timeout extra loaded =
     [Some (with_http_client False), Some (with_timeout timeout)] @ map Some extra
     @ (case loaded of None \<Rightarrow> [] | Some s \<Rightarrow> [Some (with_initial_cookies (map (Some \<circ> nk_name) (http_cookies (Some s))))])"

definition new_zillow_client ::
  "session_source \<Rightarrow> string \<Rightarrow> int \<Rightarrow> string \<Rightarrow> (client_options \<Rightarrow> string + client_options) list \<Rightarrow> string + client" where
  "new_zillow_client source version timeout name extra =
     (if trim_space name = [] then new_client version (client_options_for timeout extra None)
      else case ss_store source of
        Inl msg \<Rightarrow> Inl msg
      | Inr dir \<Rightarrow>
          (case session_load (ss_env source) name (ss_files source) of
             Inl msg \<Rightarrow> Inl msg
           | Inr s \<Rightarrow> new_client version (client_options_for timeout extra (Some s))))"

definition new_zillow_transport ::
  "'p profile_library \<Rightarrow> ('p tls_config \<Rightarrow> string + 'c option) option \<Rightarrow> string + go_url option \<Rightarrow> session_source \<Rightarrow> string
   \<Rightarrow> transport_options \<Rightarrow> string + client \<times> 'c" where
  "new_zillow_transport lib factory environment source version o1 =
     (let profile = trim_space (to_tls_profile o1) in
      if profile = [] then Inl ''tls-client profile is required for network requests''
      else case tls_proxy_url environment (to_proxy_url o1) of
        Inl msg \<Rightarrow> Inl msg
      | Inr proxy \<Rightarrow>
      (case new_tls_round_tripper lib \<lparr>tp_profile = profile, tp_timeout = to_timeout o1, tp_proxy_url = proxy\<rparr> factory of
        Inl msg \<Rightarrow> Inl (''create tls-client transport: '' @ msg)
      | Inr backend \<Rightarrow>
      (case new_zillow_client source version (to_timeout o1) (to_session_name o1)
              ((if trim_space (to_user_agent o1) \<noteq> [] then [with_user_agent (to_user_agent o1)] else [])
               @ (if to_browser_headers o1 \<noteq> [] then [with_browser_headers (to_browser_headers o1)] else [])) of
        Inl msg \<Rightarrow> Inl msg
      | Inr c \<Rightarrow> Inr (c, backend))))"

section \<open>The results of an earlier search\<close>

record previous_codec =
  pv_array :: "string \<Rightarrow> listing list option"
  pv_search :: "string \<Rightarrow> listing list option"
  pv_areas :: "string \<Rightarrow> listing list list option"
  pv_located :: "string \<Rightarrow> (listing option \<times> string) option"
  pv_listing :: "string \<Rightarrow> listing option"

definition max_previous_results_bytes :: nat where "max_previous_results_bytes = 64 * 2 ^ 20"

definition max_line_bytes :: nat where "max_line_bytes = 8 * 2 ^ 20"

definition listing_has_history_identity :: "listing \<Rightarrow> bool" where
  "listing_has_history_identity l \<longleftrightarrow>
     trim_space (li_id l) \<noteq> [] \<or> trim_space (li_url l) \<noteq> [] \<or> trim_space (ad_full (li_address l)) \<noteq> []"

text \<open>The listings of a decoding, when it succeeded and there are any.\<close>

definition any_listings :: "listing list option \<Rightarrow> listing list option" where
  "any_listings ls = (case ls of Some (l # rest) \<Rightarrow> Some (l # rest) | _ \<Rightarrow> None)"

definition decode_previous_document :: "previous_codec \<Rightarrow> string \<Rightarrow> listing list option" where
  "decode_previous_document codec data =
     (case any_listings (pv_array codec data) of
        Some ls \<Rightarrow> Some ls
      | None \<Rightarrow>
          (case any_listings (pv_search codec data) of
             Some ls \<Rightarrow> Some ls
           | None \<Rightarrow> any_listings (map_option concat (pv_areas codec data))))"

definition decode_previous_record :: "previous_codec \<Rightarrow> string \<Rightarrow> listing list option" where
  "decode_previous_record codec data =
     (case pv_located codec data of
        Some (Some l, msg) \<Rightarrow> Some [l]
      | found \<Rightarrow>
          if (case found of Some (None, msg) \<Rightarrow> trim_space msg \<noteq> [] | _ \<Rightarrow> False) then Some []
          else (case pv_listing codec data of
                  Some l \<Rightarrow> if listing_has_history_identity l then Some [l] else None
                | None \<Rightarrow> None))"

text \<open>The loop of the scanner; a line that does not fit into its buffer ends it.\<close>

fun read_lines :: "previous_codec \<Rightarrow> nat \<Rightarrow> string list \<Rightarrow> listing list \<Rightarrow> string + listing list" where
  "read_lines codec n [] found = Inr found"
| "read_lines codec n (line # rest) found =
     (if length line \<ge> max_line_bytes then Inl ''scan previous results: bufio.Scanner: token too long''
      else if trim_space line = [] then read_lines codec (Suc n) rest found
      else case decode_previous_record codec (trim_space line) of
             None \<Rightarrow> Inl (''decode previous results line '' @ itoa (int (Suc n)))
           | Some ls \<Rightarrow> read_lines codec (Suc n) rest (found @ ls))"

text \<open>The file as it can be read, or why it cannot.\<close>

definition read_previous_listings :: "previous_codec \<Rightarrow> string + string \<Rightarrow> string + listing list" where
  "read_previous_listings codec file0 =
     (case file0 of
        Inl msg \<Rightarrow> Inl (''open previous results: '' @ msg)
      | Inr content \<Rightarrow>
          if length content > max_previous_results_bytes then Inl ''previous results exceed 64 MiB''
          else (let data = trim_space content in
                if data = [] then Inl ''previous results are empty''
                else case decode_previous_document codec data of
                       Some ls \<Rightarrow> Inr ls
                     | None \<Rightarrow>
                         (case read_lines codec 0 (split_byte (char_of (10 :: nat)) data) [] of
                            Inl msg \<Rightarrow> Inl msg
                          | Inr [] \<Rightarrow> Inl ''previous results contain no listings''
                          | Inr ls \<Rightarrow> Inr ls)))"

end
