(* ===== verification/Transport_Props.thy ===== *)
theory Transport_Props
  imports Transport Session_Props TLS_Client_Props
begin

text \<open>
  What a command's transport guarantees, whatever the flags: redirects stay with the client, whose headers are
  those of the allowlist, and a session is loaded whole or not at all. The results an earlier search
  printed as JSON lines are read back.
\<close>

section \<open>The client of a transport\<close>

lemma allowed_headers:
  assumes "with_browser_headers headers o1 = Inr o2"
  shows "headers_ok (op_browser_headers o2) \<and> op_timeout o2 = op_timeout o1"
proof (cases "headers = []")
  case True
  with assms show ?thesis by (auto simp: with_browser_headers_def headers_ok_def)
next
  case False
  then obtain bytes h where "add_headers headers (0, []) = Inr (bytes, h)" "o2 = o1\<lparr>op_browser_headers := h\<rparr>"
    using assms by (auto simp: with_browser_headers_def split: if_splits sum.splits)
  with add_headers_ok [of headers 0 "[]" bytes h] show ?thesis by (simp add: headers_ok_def header_size_def)
qed

text \<open>What every option of a transport keeps: the timeout once it is set, and headers of the allowlist.\<close>

definition keeps_safe :: "int \<Rightarrow> (client_options \<Rightarrow> string + client_options) \<Rightarrow> bool" where
  "keeps_safe timeout f \<longleftrightarrow>
     (\<forall>o1 o2. f o1 = Inr o2 \<longrightarrow> op_timeout o1 = timeout \<longrightarrow> headers_ok (op_browser_headers o1)
        \<longrightarrow> op_timeout o2 = timeout \<and> headers_ok (op_browser_headers o2))"

lemma keeps_safe_options:
  "keeps_safe timeout (with_user_agent ua)" "keeps_safe timeout (with_browser_headers h)" "keeps_safe timeout (with_initial_cookies cs)"
  "keeps_safe timeout (with_http_client is_nil)"
  using allowed_headers
  by (auto simp: keeps_safe_def with_user_agent_def with_initial_cookies_def with_http_client_def Let_def split: if_splits)

lemma apply_options_safe:
  "apply_options (map Some fs) o1 = Inr o2 \<Longrightarrow> list_all (keeps_safe timeout) fs \<Longrightarrow> op_timeout o1 = timeout \<Longrightarrow>
   headers_ok (op_browser_headers o1) \<Longrightarrow> op_timeout o2 = timeout \<and> headers_ok (op_browser_headers o2)"
proof (induction fs arbitrary: o1)
  case (Cons f fs)
  then obtain o3 where o3: "f o1 = Inr o3" "apply_options (map Some fs) o3 = Inr o2" by (auto split: sum.splits)
  then have "op_timeout o3 = timeout \<and> headers_ok (op_browser_headers o3)" using Cons.prems by (auto simp: keeps_safe_def)
  then show ?case using Cons.IH [OF o3(2)] Cons.prems(2) by simp
qed simp

lemma new_client_safe:
  assumes "new_client version (client_options_for timeout extra loaded) = Inr c" and "list_all (keeps_safe timeout) extra"
  shows "0 < timeout \<and> cl_timeout c = timeout \<and> headers_ok (cl_browser_headers c)"
proof -
  define rest where "rest = extra @ (case loaded of None \<Rightarrow> [] | Some s \<Rightarrow> [with_initial_cookies (map (Some \<circ> nk_name) (http_cookies (Some s)))])"
  have opts: "client_options_for timeout extra loaded = Some (with_http_client False) # Some (with_timeout timeout) # map Some rest"
    by (cases loaded) (simp_all add: client_options_for_def rest_def)
  from assms(1) obtain o2 where o2: "apply_options (client_options_for timeout extra loaded) empty_options = Inr o2"
    and made: "new_client_with_options version o2 = Inr c"
    by (auto simp: new_client_def split: sum.splits)
  have pos: "0 < timeout" using o2 by (auto simp: opts with_http_client_def with_timeout_def split: if_splits)
  then obtain o1 where o1: "apply_options (map Some rest) o1 = Inr o2" "op_timeout o1 = timeout" "headers_ok (op_browser_headers o1)"
    using o2 by (auto simp: opts with_http_client_def with_timeout_def empty_options_def headers_ok_def)
  have "list_all (keeps_safe timeout) rest" using assms(2) keeps_safe_options(3) by (auto simp: rest_def split: option.split)
  from apply_options_safe [OF o1(1) this o1(2,3)] have "op_timeout o2 = timeout" "headers_ok (op_browser_headers o2)" by auto
  then show ?thesis using made pos by (auto simp: new_client_with_options_def Let_def split: if_splits)
qed

text \<open>
  A transport is only made with a profile named, redirects left to the client, the timeout of the flags, and
  browser headers of the allowlist; a named session was loaded from an owner-only file and is valid.
\<close>
theorem transport_safe:
  assumes "new_zillow_transport lib (Some factory) environment source version o1 = Inr (c, backend)"
  shows "trim_space (to_tls_profile o1) \<noteq> []
         \<and> (\<exists>cfg. factory cfg = Inr (Some backend) \<and> \<not> tc_follow_redirects cfg \<and> tc_timeout cfg = to_timeout o1)
         \<and> 0 < to_timeout o1 \<and> cl_timeout c = to_timeout o1 \<and> headers_ok (cl_browser_headers c)
         \<and> (trim_space (to_session_name o1) = []
            \<or> (\<exists>f s. ss_files source (session_file (to_session_name o1)) = Some f \<and> \<not> group_or_others (cf_mode f mod 512)
                 \<and> sn_decode (ss_env source) (cf_data f) = Inr s \<and> validate_session (Some s) = None))"
proof -
  define extra where "extra = (if trim_space (to_user_agent o1) \<noteq> [] then [with_user_agent (to_user_agent o1)] else [])
               @ (if to_browser_headers o1 \<noteq> [] then [with_browser_headers (to_browser_headers o1)] else [])"
  from assms obtain proxy where profile: "trim_space (to_tls_profile o1) \<noteq> []"
    and made: "new_tls_round_tripper lib \<lparr>tp_profile = trim_space (to_tls_profile o1), tp_timeout = to_timeout o1, tp_proxy_url = proxy\<rparr>
                 (Some factory) = Inr backend"
    and client: "new_zillow_client source version (to_timeout o1) (to_session_name o1) extra = Inr c"
    unfolding extra_def new_zillow_transport_def Let_def by (auto split: if_split_asm sum.split_asm)
  have cfg: "\<exists>cfg. factory cfg = Inr (Some backend) \<and> \<not> tc_follow_redirects cfg \<and> tc_timeout cfg = to_timeout o1"
  proof -
    from made obtain p name ms proxy1 where
      "factory \<lparr>tc_profile_name = name, tc_profile = p, tc_timeout = to_timeout o1, tc_timeout_ms = ms, tc_proxy_url = proxy1,
         tc_follow_redirects = False, tc_random_order = random_extension_ordering lib p\<rparr> = Inr (Some backend)"
      by (auto simp: new_tls_round_tripper_def split: sum.split_asm option.split_asm prod.split_asm)
    then show ?thesis by (intro exI) (erule conjI, simp)
  qed
  have extra: "list_all (keeps_safe (to_timeout o1)) extra" using keeps_safe_options by (simp add: extra_def)
  show ?thesis
  proof (cases "trim_space (to_session_name o1) = []")
    case True
    then have "new_client version (client_options_for (to_timeout o1) extra None) = Inr c"
      using client by (simp add: new_zillow_client_def)
    from new_client_safe [OF this extra] show ?thesis using profile cfg True by blast
  next
    case False
    then obtain s where load: "session_load (ss_env source) (to_session_name o1) (ss_files source) = Inr s"
      and made: "new_client version (client_options_for (to_timeout o1) extra (Some s)) = Inr c"
      using client by (auto simp: new_zillow_client_def split: sum.split_asm)
    from load have "\<exists>f. ss_files source (session_file (to_session_name o1)) = Some f \<and> \<not> group_or_others (cf_mode f mod 512)
        \<and> sn_decode (ss_env source) (cf_data f) = Inr s \<and> validate_session (Some s) = None"
      by (auto simp: session_load_def split: if_split_asm option.split_asm sum.split_asm)
    then show ?thesis using new_client_safe [OF made extra] profile cfg by blast
  qed
qed

section \<open>Earlier results\<close>

lemma read_lines_append:
  "read_lines codec n lines found = (case read_lines codec n lines [] of Inl msg \<Rightarrow> Inl msg | Inr ls \<Rightarrow> Inr (found @ ls))"
proof (induction lines arbitrary: n found)
  case (Cons line rest)
  show ?case
  proof (cases "decode_previous_record codec (trim_space line)")
    case None
    then show ?thesis using Cons.IH [of "Suc n" found] by simp
  next
    case (Some ls)
    then show ?thesis using Cons.IH [of "Suc n" found] Cons.IH [of "Suc n" "found @ ls"] Cons.IH [of "Suc n" ls]
      by (simp split: sum.split)
  qed
qed simp

lemma split_byte_absent: "c \<notin> set s \<Longrightarrow> split_byte c s = [s]"
  by (induction s) auto

lemma split_byte_at: "c \<notin> set s \<Longrightarrow> split_byte c (s @ c # rest) = s # split_byte c rest"
  by (induction s) auto

lemma split_join: "ps \<noteq> [] \<Longrightarrow> (\<And>p. p \<in> set ps \<Longrightarrow> c \<notin> set p) \<Longrightarrow> split_byte c (join [c] ps) = ps"
proof (induction ps)
  case (Cons p ps)
  then show ?case by (cases ps) (simp_all add: split_byte_absent split_byte_at)
qed simp

lemma read_lines_all:
  "(\<And>l. l \<in> set ls \<Longrightarrow> length (line l) < max_line_bytes \<and> line l \<noteq> [] \<and> trim_space (line l) = line l
      \<and> decode_previous_record codec (line l) = Some [l]) \<Longrightarrow>
   read_lines codec n (map line ls) found = Inr (found @ ls)"
proof (induction ls arbitrary: n found)
  case (Cons l ls)
  have now: "length (line l) < max_line_bytes" "line l \<noteq> []" "trim_space (line l) = line l"
    "decode_previous_record codec (line l) = Some [l]" using Cons.prems [of l] by auto
  have "read_lines codec (Suc n) (map line ls) (found @ [l]) = Inr ((found @ [l]) @ ls)"
    using Cons.prems by (intro Cons.IH) auto
  then show ?case using now by (simp add: not_le [symmetric] del: not_le)
qed simp

lemma bordered_of_trimmed: "trim_space s = s \<Longrightarrow> s \<noteq> [] \<Longrightarrow> \<not> is_space (hd s) \<and> \<not> is_space (last s)"
proof -
  assume trimmed: "trim_space s = s" and ne: "s \<noteq> []"
  let ?m = "trim_left s"
  have right: "trim_right ?m = s" using trimmed by (simp add: trim_space_def)
  then have "hd s = hd ?m" "?m \<noteq> []" using trim_right_prefix [of ?m] ne by auto
  moreover from this(2) have "\<not> is_space (hd ?m)" unfolding trim_left_def by (rule hd_dropWhile)
  ultimately have first: "\<not> is_space (hd s)" by simp
  have tail: "rev s = dropWhile is_space (rev ?m)" using right by (simp add: trim_right_def rev_swap)
  then have "\<not> is_space (hd (rev s))" using ne hd_dropWhile by (metis rev_is_Nil_conv)
  then show ?thesis using first ne by (simp add: hd_rev)
qed

lemma join_borders:
  "ps \<noteq> [] \<Longrightarrow> (\<And>p. p \<in> set ps \<Longrightarrow> p \<noteq> []) \<Longrightarrow>
   join sep ps \<noteq> [] \<and> hd (join sep ps) = hd (hd ps) \<and> last (join sep ps) = last (last ps)"
proof (induction ps)
  case (Cons p ps)
  show ?case
  proof (cases ps)
    case (Cons q qs)
    then have "join sep ps \<noteq> [] \<and> last (join sep ps) = last (last ps)" using Cons.IH Cons.prems by simp
    then show ?thesis using Cons Cons.prems(2) [of p] by simp
  qed (use Cons.prems(2) [of p] in simp)
qed simp

definition line_end :: char where "line_end = char_of (10 :: nat)"

lemma trim_ended_line:
  assumes "t \<noteq> []" "\<not> is_space (hd t)" "\<not> is_space (last t)" shows "trim_space (t @ [line_end]) = t"
proof -
  have "is_space line_end" by code_simp
  moreover have "dropWhile is_space (t @ [line_end]) = t @ [line_end]" using assms by (cases t) auto
  moreover have "dropWhile is_space (rev t) = rev t" using assms by (cases t rule: rev_cases) auto
  ultimately show ?thesis by (simp add: trim_space_def trim_left_def trim_right_def)
qed

text \<open>
  Results printed as JSON lines are read back in order, if the codec reads each line as the listing it was
  written for and does not take the whole text for one document.
\<close>
theorem previous_results_read_back:
  assumes "\<And>l. l \<in> set ls \<Longrightarrow> line_end \<notin> set (line l) \<and> line l \<noteq> [] \<and> trim_space (line l) = line l
      \<and> length (line l) < max_line_bytes \<and> decode_previous_record codec (line l) = Some [l]"
    and "decode_previous_document codec (join [line_end] (map line ls)) = None"
    and "length (join [line_end] (map line ls) @ [line_end]) \<le> max_previous_results_bytes" and "ls \<noteq> []"
  shows "read_previous_listings codec (Inr (join [line_end] (map line ls) @ [line_end])) = Inr ls"
proof -
  let ?t = "join [line_end] (map line ls)"
  have filled: "p \<noteq> []" if "p \<in> set (map line ls)" for p using that assms(1) by auto
  have borders: "?t \<noteq> []" "hd ?t = hd (hd (map line ls))" "last ?t = last (last (map line ls))"
    using join_borders [of "map line ls" "[line_end]", OF _ filled] assms(4) by simp_all
  have "hd (map line ls) = line (hd ls)" "last (map line ls) = line (last ls)" using assms(4) by (simp_all add: hd_map last_map)
  then have "\<not> is_space (hd ?t)" "\<not> is_space (last ?t)"
    using borders bordered_of_trimmed [of "line (hd ls)"] bordered_of_trimmed [of "line (last ls)"] assms(1) assms(4)
    by simp_all
  then have trimmed: "trim_space (?t @ [line_end]) = ?t" using borders(1) by (intro trim_ended_line)
  have split: "split_byte line_end ?t = map line ls" using assms(1,4) by (intro split_join) auto
  have "read_lines codec 0 (map line ls) [] = Inr ls" using read_lines_all [of ls line codec 0 "[]"] assms(1) by simp
  then show ?thesis using assms(2,3,4) trimmed split borders(1)
    unfolding read_previous_listings_def Let_def line_end_def [symmetric] by (simp split: list.split)
qed

section \<open>Witnesses\<close>

definition sample_source :: session_source where
  "sample_source = \<lparr>ss_store = Inr ''/s'', ss_env = sample_store, ss_files = [session_file ''home'' \<mapsto> \<lparr>cf_mode = 384, cf_data = ''{}''\<rparr>]\<rparr>"

definition sample_transport :: transport_options where
  "sample_transport = \<lparr>to_timeout = 20 * 10 ^ 9, to_proxy_url = ''http://proxy.local:8080'', to_session_name = ''home'',
     to_tls_profile = ''chrome_131'', to_user_agent = ''agent/1'', to_browser_headers = [(''Accept-Language'', [''en''])]\<rparr>"

lemma sample_transport_made:
  "\<exists>c. new_zillow_transport sample_profiles (Some (\<lambda>cfg. Inr (Some (tc_timeout_ms cfg)))) (Inr None) sample_source ''1.0'' sample_transport
       = Inr (c, 20000)"
proof -
  have "(case new_zillow_transport sample_profiles (Some (\<lambda>cfg. Inr (Some (tc_timeout_ms cfg)))) (Inr None) sample_source ''1.0'' sample_transport
         of Inr (c, n) \<Rightarrow> n = 20000 | Inl _ \<Rightarrow> False)"
    by code_simp
  then show ?thesis by (auto split: sum.splits prod.splits)
qed

theorem transport_safe_witness:
  "\<exists>c :: client. cl_timeout c = 20 * 10 ^ 9 \<and> headers_ok (cl_browser_headers c)"
proof -
  obtain c where c: "new_zillow_transport sample_profiles (Some (\<lambda>cfg. Inr (Some (tc_timeout_ms cfg)))) (Inr None) sample_source ''1.0'' sample_transport
       = Inr (c, 20000)"
    using sample_transport_made by blast
  from transport_safe [OF c] show ?thesis by (intro exI [of _ c]) (simp add: sample_transport_def)
qed

definition sample_line :: "listing \<Rightarrow> string" where
  "sample_line l = li_id l"

definition sample_codec :: previous_codec where
  "sample_codec = \<lparr>pv_array = (\<lambda>_. None), pv_search = (\<lambda>_. None), pv_areas = (\<lambda>_. None),
     pv_located = (\<lambda>_. None), pv_listing = (\<lambda>d. Some (empty_listing\<lparr>li_id := d\<rparr>))\<rparr>"

theorem previous_results_read_back_witness:
  "read_previous_listings sample_codec (Inr (''12'' @ [line_end] @ ''7'' @ [line_end]))
   = Inr [empty_listing\<lparr>li_id := ''12''\<rparr>, empty_listing\<lparr>li_id := ''7''\<rparr>]"
proof -
  let ?ls = "[empty_listing\<lparr>li_id := ''12''\<rparr>, empty_listing\<lparr>li_id := ''7''\<rparr>]"
  have shape: "list_all (\<lambda>l. line_end \<notin> set (sample_line l) \<and> sample_line l \<noteq> [] \<and> trim_space (sample_line l) = sample_line l
      \<and> decode_previous_record sample_codec (sample_line l) = Some [l]) ?ls"
    by code_simp
  have "list_all (\<lambda>l. length (sample_line l) \<le> 2) ?ls" by (simp add: sample_line_def)
  then have each: "line_end \<notin> set (sample_line l) \<and> sample_line l \<noteq> [] \<and> trim_space (sample_line l) = sample_line l
      \<and> length (sample_line l) < max_line_bytes \<and> decode_previous_record sample_codec (sample_line l) = Some [l]"
    if "l \<in> set ?ls" for l
    using that shape unfolding list_all_iff by (fastforce simp: max_line_bytes_def)
  have "read_previous_listings sample_codec (Inr (join [line_end] (map sample_line ?ls) @ [line_end])) = Inr ?ls"
    by (rule previous_results_read_back [OF each])
       (simp_all add: decode_previous_document_def any_listings_def sample_codec_def max_previous_results_bytes_def sample_line_def)
  then show ?thesis by (simp add: sample_line_def)
qed

end
