(* ===== verification/Search_Command.thy ===== *)
theory Search_Command
  imports Search_Table Transport Detail_Filters Retry Listing_Sort
begin

text \<open>
  The flags of \<open>gozillo search\<close> (\<open>searchCommand.Run\<close> of \<open>internal/cli/search.go\<close>): every check in its
  order, and the plan that the accepted flags make. The flags are what \<open>flag.Parse\<close> has read; an error is
  the text of a usage error.
\<close>

section \<open>Flags\<close>

record search_flags =
  fl_profile :: string
  fl_snapshot :: string
  fl_locations :: "string list"
  fl_strict_boundary :: bool
  fl_allowed_cities :: "string list"
  fl_city_aliases :: "string list"
  fl_rent :: bool
  fl_proxy :: string
  fl_session :: string
  fl_tls_profile :: string
  fl_user_agent :: string
  fl_browser_headers :: "string list"
  fl_page :: int
  fl_min_price :: int
  fl_max_price :: int
  fl_min_beds :: gofloat
  fl_max_beds :: gofloat
  fl_min_baths :: gofloat
  fl_available_from :: string
  fl_available_by :: string
  fl_flex :: "string list"
  fl_detail :: detail_options
  fl_location_delay :: int
  fl_max_pages :: int
  fl_page_delay :: int
  fl_bed_ranges :: "string list"
  fl_server_sorts :: "string list"
  fl_supplemental_no_laundry :: bool
  fl_supplemental_pages :: int
  fl_keyword_routes :: "string list"
  fl_home_types :: "string list"
  fl_location_pages :: "string list"
  fl_location_retries :: int
  fl_retry_backoff :: int
  fl_search_cache_ttl :: int
  fl_property_cache_ttl :: int
  fl_sort :: string
  fl_sort_by :: string
  fl_limit :: int
  fl_timeout :: int
  fl_raw :: bool

text \<open>Where the listings come from.\<close>

datatype search_source = FromProfile | FromSnapshot | FromLocations

record search_plan =
  pn_source :: search_source
  pn_locations :: "string list"
  pn_headers :: http_header
  pn_boundary :: boundary_options
  pn_sort_by :: string
  pn_detail :: detail_options
  pn_retry :: retry_policy
  pn_filters :: search_filters
  pn_discovery :: bool
  pn_options :: discovery_options
  pn_overrides :: "(string \<times> int) list"

section \<open>Checks in sequence\<close>

definition guard :: "bool \<Rightarrow> string \<Rightarrow> string + 'a \<Rightarrow> string + 'a" where
  "guard fails msg k = (if fails then Inl msg else k)"

definition step_into :: "string + 'b \<Rightarrow> string \<Rightarrow> ('b \<Rightarrow> string + 'a) \<Rightarrow> string + 'a" where
  "step_into r tag k = (case r of Inl msg \<Rightarrow> Inl (tag @ msg) | Inr x \<Rightarrow> k x)"

definition guard_fault :: "string option \<Rightarrow> string \<Rightarrow> string + 'a \<Rightarrow> string + 'a" where
  "guard_fault fault tag k = (case fault of Some msg \<Rightarrow> Inl (tag @ msg) | None \<Rightarrow> k)"

lemma sequence_ok [simp]:
  "guard c msg k = Inr x \<longleftrightarrow> \<not> c \<and> k = Inr x"
  "step_into r tag f = Inr x \<longleftrightarrow> (\<exists>y. r = Inr y \<and> f y = Inr x)"
  "guard_fault e tag k = Inr x \<longleftrightarrow> e = None \<and> k = Inr x"
  by (auto simp: guard_def step_into_def guard_fault_def split: sum.splits option.splits)

section \<open>The checks\<close>

definition given :: "string \<Rightarrow> bool" where
  "given v \<longleftrightarrow> trim_space v \<noteq> []"

text \<open>\<open>boolInt(profileSet)+boolInt(snapshotSet)+boolInt(locationSet)\<close>.\<close>

definition bool_int :: "bool \<Rightarrow> int" where
  "bool_int b = (if b then 1 else 0)"

definition source_of :: "search_flags \<Rightarrow> search_source" where
  "source_of f = (if given (fl_profile f) then FromProfile else if given (fl_snapshot f) then FromSnapshot else FromLocations)"

definition detail_of :: "search_flags \<Rightarrow> date_time option \<Rightarrow> date_time option \<Rightarrow> string list \<Rightarrow> detail_options" where
  "detail_of f from1 by1 flex =
     (fl_detail f)\<lparr>dt_available_from := from1, dt_available_by := by1, dt_flex := flex,
        dt_unknown_availability := normalize_detail_choice (dt_unknown_availability (fl_detail f)),
        dt_out_of_window := normalize_detail_choice (dt_out_of_window (fl_detail f)),
        dt_laundry := normalize_detail_choice (dt_laundry (fl_detail f)),
        dt_parking := normalize_detail_choice (dt_parking (fl_detail f)),
        dt_pets := normalize_detail_choice (dt_pets (fl_detail f)),
        dt_unknown_laundry := normalize_detail_choice (dt_unknown_laundry (fl_detail f))\<rparr>"

definition filters_of :: "search_flags \<Rightarrow> string list \<Rightarrow> search_filters" where
  "filters_of f types =
     \<lparr>sf_page = fl_page f, sf_min_price = fl_min_price f, sf_max_price = fl_max_price f, sf_min_beds = fl_min_beds f,
      sf_max_beds = fl_max_beds f, sf_min_baths = fl_min_baths f, sf_sort = fl_sort f, sf_keywords = [],
      sf_home_types = types, sf_in_unit_laundry = False, sf_entire_place_only = False\<rparr>"

definition retry_of :: "search_flags \<Rightarrow> retry_policy" where
  "retry_of f = \<lparr>rp_retries = fl_location_retries f, rp_backoff = fl_retry_backoff f, rp_on_retry = False\<rparr>"

text \<open>The flags that ask for server routes besides the sort and the home types.\<close>

definition route_flags_set :: "search_flags \<Rightarrow> bool" where
  "route_flags_set f \<longleftrightarrow> fl_bed_ranges f \<noteq> [] \<or> fl_server_sorts f \<noteq> [] \<or> fl_location_pages f \<noteq> []
     \<or> fl_supplemental_no_laundry f \<or> fl_keyword_routes f \<noteq> []"

definition discovery_requested :: "search_flags \<Rightarrow> string list \<Rightarrow> bool" where
  "discovery_requested f types \<longleftrightarrow> fl_max_pages f > 1 \<or> route_flags_set f \<or> types \<noteq> [] \<or> fl_sort f \<noteq> []"

definition discovery_config_of :: "search_flags \<Rightarrow> string list \<Rightarrow> detail_options \<Rightarrow> discovery_config" where
  "discovery_config_of f types detail =
     \<lparr>dg_max_pages = fl_max_pages f, dg_page_delay = fl_page_delay f, dg_request_retries = fl_location_retries f,
      dg_retry_backoff = fl_retry_backoff f, dg_bed_ranges = fl_bed_ranges f, dg_server_sorts = fl_server_sorts f,
      dg_home_types = types, dg_for_rent = fl_rent f, dg_in_unit_laundry = (dt_laundry detail = laundry_in_unit),
      dg_supplemental_no_laundry = fl_supplemental_no_laundry f, dg_supplemental_pages = fl_supplemental_pages f,
      dg_keyword_routes = fl_keyword_routes f, dg_base_filters = filters_of f types\<rparr>"

text \<open>An override of a location that is not searched; Go reports any of them.\<close>

definition unknown_override :: "string list \<Rightarrow> (string \<times> int) list \<Rightarrow> string option" where
  "unknown_override locations overrides =
     find (\<lambda>l. l \<notin> set (map (to_lower \<circ> trim_space) locations)) (map fst overrides)"

definition no_discovery :: discovery_options where
  "no_discovery = \<lparr>do_routes = [], do_max_pages = 0, do_page_delay = 0, do_request_retries = 0, do_retry_backoff = 0\<rparr>"

text \<open>The routes and page limits, when a discovery is asked for.\<close>

definition discovery_of ::
  "search_flags \<Rightarrow> string list \<Rightarrow> string list \<Rightarrow> detail_options \<Rightarrow> string + discovery_options \<times> (string \<times> int) list" where
  "discovery_of f locations types detail =
     (step_into (build_location_discovery_options (discovery_config_of f types detail)) ''search discovery: '' (\<lambda>opts.
      step_into (parse_location_page_overrides (fl_location_pages f) (fl_max_pages f)) ''search --location-max-pages: '' (\<lambda>overrides.
      case unknown_override locations overrides of
        Some l \<Rightarrow> Inl (''search --location-max-pages references an unknown location '' @ quote l)
      | None \<Rightarrow> Inr (opts, overrides))))"

text \<open>What the source of the listings rules out.\<close>

definition check_source :: "search_flags \<Rightarrow> search_source \<Rightarrow> http_header \<Rightarrow> detail_options \<Rightarrow> string list \<Rightarrow> string + 'a \<Rightarrow> string + 'a" where
  "check_source f source headers detail types k =
     (guard (source = FromSnapshot \<and> \<not> needs_enrichment detail
             \<and> (network_options_set [fl_proxy f, fl_session f, fl_tls_profile f, fl_user_agent f] \<or> headers \<noteq> []))
        ''search --proxy, --session, --tls-profile, --user-agent, and --browser-header are only used with --snapshot when detail enrichment is enabled''
     (guard ((source \<noteq> FromSnapshot \<or> needs_enrichment detail) \<and> \<not> given (fl_tls_profile f))
        ''search --tls-profile is required for network requests''
     (guard (source \<noteq> FromLocations \<and> (fl_max_pages f \<noteq> 1 \<or> route_flags_set f))
        ''search discovery and supplemental route flags require --location''
     (guard (source = FromSnapshot \<and> (fl_page f \<noteq> 0 \<or> fl_sort f \<noteq> []))
        ''search --page and --sort require --profile; snapshots contain one captured page''
     (guard (source = FromLocations \<and> fl_page f \<noteq> 0)
        ''search --page requires --profile; use --max-pages with --location''
     (guard_fault (if source = FromProfile then None else validate_snapshot_filters (filters_of f types))
        (if source = FromSnapshot then ''search snapshot filters: '' else ''search location filters: '')
     (guard (source = FromLocations \<and> discovery_requested f types \<and> fl_raw f)
        ''search --raw is not supported with paginated location discovery'' k)))))))"

text \<open>The limits that do not depend on the source.\<close>

definition check_limits :: "search_flags \<Rightarrow> string + 'a \<Rightarrow> string + 'a" where
  "check_limits f k =
     (guard_fault (validate_policy (retry_of f)) []
     (guard (fl_location_delay f < 0) ''location-delay must not be negative''
     (guard (fl_page_delay f < 0) ''page-delay must not be negative''
     (guard (fl_max_pages f < 1 \<or> fl_max_pages f > max_location_discovery_pages)
        (''max-pages must be between 1 and '' @ itoa max_location_discovery_pages)
     (guard (fl_supplemental_pages f < 1 \<or> fl_supplemental_pages f > fl_max_pages f)
        (''supplemental-pages must be between 1 and max-pages '' @ itoa (fl_max_pages f))
     (guard (given (fl_sort f) \<and> fl_server_sorts f \<noteq> []) ''search --sort and --server-sort cannot be combined''
     (guard (fl_search_cache_ttl f < 0 \<or> fl_property_cache_ttl f < 0) ''cache TTL values must not be negative'' k)))))))"

text \<open>The rest of the checks, once the values of the flags are read.\<close>

definition plan_of ::
  "search_flags \<Rightarrow> http_header \<Rightarrow> string list \<Rightarrow> boundary_options \<Rightarrow> string \<Rightarrow> string list \<Rightarrow> detail_options \<Rightarrow> string + search_plan" where
  "plan_of f headers locations boundary sort_by types detail =
     (let discovery = (source_of f = FromLocations \<and> discovery_requested f types) in
      guard_fault (validate_detail_options detail) []
     (check_limits f
     (check_source f (source_of f) headers detail types
     (step_into (if discovery then discovery_of f locations types detail else Inr (no_discovery, [])) [] (\<lambda>(opts, overrides).
        Inr \<lparr>pn_source = source_of f, pn_locations = locations, pn_headers = headers, pn_boundary = boundary,
             pn_sort_by = sort_by, pn_detail = detail, pn_retry = retry_of f, pn_filters = filters_of f types,
             pn_discovery = discovery, pn_options = opts, pn_overrides = overrides\<rparr>)))))"

definition check_values :: "search_flags \<Rightarrow> http_header \<Rightarrow> string list \<Rightarrow> boundary_options \<Rightarrow> string + search_plan" where
  "check_values f headers locations boundary =
     (guard (bool_int (given (fl_profile f)) + bool_int (given (fl_snapshot f)) + bool_int (locations \<noteq> []) \<noteq> 1)
        ''search requires exactly one of --profile, --snapshot, or --location''
     (guard (fl_rent f \<and> locations = []) ''search --rent is only valid with --location''
     (guard (locations = [] \<and> (fl_strict_boundary f \<or> fl_allowed_cities f \<noteq> [] \<or> fl_city_aliases f \<noteq> []))
        ''search location boundary flags require --location''
     (guard (fl_limit f < 0) ''search --limit must be non-negative''
     (guard (fl_timeout f \<le> 0) ''search --timeout must be positive''
     (step_into (normalize_sort_by (fl_sort_by f)) ''search: '' (\<lambda>sort_by.
      guard (given (fl_sort f) \<and> sort_by \<noteq> sort_recommended) ''search --sort and --sort-by cannot be combined''
     (step_into (parse_date_flag (fl_available_from f)) ''--available-from: '' (\<lambda>from1.
      step_into (parse_date_flag (fl_available_by f)) ''--available-by: '' (\<lambda>by1.
      step_into (parse_flex_values (fl_flex f)) ''--flex: '' (\<lambda>flex.
      step_into (parse_home_types (fl_home_types f)) ''--home-type: '' (\<lambda>types.
        plan_of f headers locations boundary sort_by types (detail_of f from1 by1 flex)))))))))))))"

definition check_search :: "search_flags \<Rightarrow> string + search_plan" where
  "check_search f =
     (step_into (parse_browser_headers (fl_browser_headers f)) ''search --browser-header: '' (\<lambda>headers.
      step_into (parse_locations (fl_locations f)) ''search --location: '' (\<lambda>locations.
      step_into (parse_allowed_cities (fl_allowed_cities f)) ''search --allowed-city: '' (\<lambda>cities.
      step_into (parse_location_city_aliases (fl_city_aliases f)) ''search --location-city-alias: '' (\<lambda>aliases.
        check_values f headers locations
          \<lparr>bo_strict = fl_strict_boundary f, bo_allowed_cities = cities, bo_city_aliases = aliases\<rparr>)))))"

end
