(* ===== verification/Search_Command_Props.thy ===== *)
theory Search_Command_Props
  imports Search_Command Search_Table_Props
begin

text \<open>
  What the accepted flags of a search guarantee to the components behind them: one source, a TLS profile
  whenever the network is used, valid filters and limits, and a discovery that its own validation takes
  for every location, page overrides included.
\<close>

section \<open>The parts of an accepted plan\<close>

lemma check_source_ok:
  "check_source f source headers detail types k = Inr p \<longleftrightarrow>
     \<not> (source = FromSnapshot \<and> \<not> needs_enrichment detail
        \<and> (network_options_set [fl_proxy f, fl_session f, fl_tls_profile f, fl_user_agent f] \<or> headers \<noteq> []))
     \<and> \<not> ((source \<noteq> FromSnapshot \<or> needs_enrichment detail) \<and> \<not> given (fl_tls_profile f))
     \<and> \<not> (source \<noteq> FromLocations \<and> (fl_max_pages f \<noteq> 1 \<or> route_flags_set f))
     \<and> \<not> (source = FromSnapshot \<and> (fl_page f \<noteq> 0 \<or> fl_sort f \<noteq> []))
     \<and> \<not> (source = FromLocations \<and> fl_page f \<noteq> 0)
     \<and> (source = FromProfile \<or> validate_snapshot_filters (filters_of f types) = None)
     \<and> \<not> (source = FromLocations \<and> discovery_requested f types \<and> fl_raw f) \<and> k = Inr p"
  unfolding check_source_def sequence_ok by (cases "source = FromProfile") (simp_all, blast?)

lemma check_limits_ok:
  "check_limits f k = Inr p \<longleftrightarrow>
     validate_policy (retry_of f) = None \<and> 0 \<le> fl_location_delay f \<and> 0 \<le> fl_page_delay f
     \<and> 1 \<le> fl_max_pages f \<and> fl_max_pages f \<le> 20 \<and> 1 \<le> fl_supplemental_pages f \<and> fl_supplemental_pages f \<le> fl_max_pages f
     \<and> \<not> (given (fl_sort f) \<and> fl_server_sorts f \<noteq> [])
     \<and> 0 \<le> fl_search_cache_ttl f \<and> 0 \<le> fl_property_cache_ttl f \<and> k = Inr p"
  unfolding check_limits_def sequence_ok max_location_discovery_pages_def by auto

lemma accepted_values:
  assumes "check_search f = Inr p"
  obtains headers locations boundary sort_by types from1 by1 flex where
    "parse_locations (fl_locations f) = Inr locations"
    "bool_int (given (fl_profile f)) + bool_int (given (fl_snapshot f)) + bool_int (locations \<noteq> []) = 1"
    "0 \<le> fl_limit f" "0 < fl_timeout f" "parse_home_types (fl_home_types f) = Inr types"
    "plan_of f headers locations boundary sort_by types (detail_of f from1 by1 flex) = Inr p"
  using assms unfolding check_search_def check_values_def sequence_ok by (auto simp: not_le not_less)

lemma plan_parts:
  assumes "plan_of f headers locations boundary sort_by types detail = Inr p"
  shows "validate_detail_options detail = None" "pn_source p = source_of f" "pn_locations p = locations" "pn_detail p = detail"
    "pn_retry p = retry_of f" "pn_filters p = filters_of f types"
    "pn_discovery p \<longleftrightarrow> source_of f = FromLocations \<and> discovery_requested f types"
    "check_limits f (Inr ()) = Inr ()" "check_source f (source_of f) headers detail types (Inr ()) = Inr ()"
    "pn_discovery p \<Longrightarrow> discovery_of f locations types detail = Inr (pn_options p, pn_overrides p)"
    "\<not> pn_discovery p \<Longrightarrow> pn_options p = no_discovery \<and> pn_overrides p = []"
proof -
  define discovery where "discovery \<longleftrightarrow> source_of f = FromLocations \<and> discovery_requested f types"
  define found where "found = (if discovery then discovery_of f locations types detail else Inr (no_discovery, []))"
  define made where "made = step_into found [] (\<lambda>(opts, overrides).
        Inr \<lparr>pn_source = source_of f, pn_locations = locations, pn_headers = headers, pn_boundary = boundary,
             pn_sort_by = sort_by, pn_detail = detail, pn_retry = retry_of f, pn_filters = filters_of f types,
             pn_discovery = discovery, pn_options = opts, pn_overrides = overrides\<rparr> :: string + search_plan)"
  have detail: "validate_detail_options detail = None"
    and limited: "check_limits f (check_source f (source_of f) headers detail types made) = Inr p"
    using assms unfolding plan_of_def Let_def sequence_ok made_def found_def discovery_def by blast+
  then have limits: "check_limits f (Inr ()) = Inr ()" and sourced: "check_source f (source_of f) headers detail types made = Inr p"
    unfolding check_limits_ok by blast+
  then have source: "check_source f (source_of f) headers detail types (Inr ()) = Inr ()" and "made = Inr p"
    unfolding check_source_ok by simp_all
  then obtain opts overrides where "found = Inr (opts, overrides)"
    "p = \<lparr>pn_source = source_of f, pn_locations = locations, pn_headers = headers, pn_boundary = boundary,
             pn_sort_by = sort_by, pn_detail = detail, pn_retry = retry_of f, pn_filters = filters_of f types,
             pn_discovery = discovery, pn_options = opts, pn_overrides = overrides\<rparr>"
    unfolding made_def sequence_ok by auto
  then show "validate_detail_options detail = None" "pn_source p = source_of f" "pn_locations p = locations" "pn_detail p = detail"
    "pn_retry p = retry_of f" "pn_filters p = filters_of f types"
    "pn_discovery p \<longleftrightarrow> source_of f = FromLocations \<and> discovery_requested f types"
    "check_limits f (Inr ()) = Inr ()" "check_source f (source_of f) headers detail types (Inr ()) = Inr ()"
    "pn_discovery p \<Longrightarrow> discovery_of f locations types detail = Inr (pn_options p, pn_overrides p)"
    "\<not> pn_discovery p \<Longrightarrow> pn_options p = no_discovery \<and> pn_overrides p = []"
    using detail limits source by (cases discovery; simp add: found_def discovery_def [symmetric])+
qed


section \<open>The discovery of an accepted plan\<close>

text \<open>The sort of the base filters only matters as the fallback of the server sorts.\<close>

definition resorted :: "string \<Rightarrow> discovery_config \<Rightarrow> discovery_config" where
  "resorted s config = config\<lparr>dg_base_filters := (dg_base_filters config)\<lparr>sf_sort := s\<rparr>\<rparr>"

lemma resorted_routes:
  "matrix_route (resorted s config) = matrix_route config" "laundry_route (resorted s config) = laundry_route config"
  "keyword_route (resorted s config) = keyword_route config"
  by (simp_all add: fun_eq_iff resorted_def matrix_route_def laundry_route_def keyword_route_def route_filters_def)

lemma resorted_fields:
  "dg_max_pages (resorted s config) = dg_max_pages config" "dg_supplemental_pages (resorted s config) = dg_supplemental_pages config"
  "dg_page_delay (resorted s config) = dg_page_delay config" "dg_keyword_routes (resorted s config) = dg_keyword_routes config"
  "dg_bed_ranges (resorted s config) = dg_bed_ranges config" "dg_server_sorts (resorted s config) = dg_server_sorts config"
  "sf_min_beds (dg_base_filters (resorted s config)) = sf_min_beds (dg_base_filters config)"
  "sf_max_beds (dg_base_filters (resorted s config)) = sf_max_beds (dg_base_filters config)"
  "sf_sort (dg_base_filters (resorted s config)) = s" "dg_home_types (resorted s config) = dg_home_types config"
  "dg_request_retries (resorted s config) = dg_request_retries config" "dg_retry_backoff (resorted s config) = dg_retry_backoff config"
  by (simp_all add: resorted_def)

lemma build_resorted:
  assumes "dg_server_sorts config \<noteq> []"
  shows "build_location_discovery_options (resorted s config) = build_location_discovery_options config"
proof -
  have "route_matrix (resorted s config) = route_matrix config"
    by (simp add: fun_eq_iff route_matrix_def resorted_routes) (simp add: resorted_def)
  moreover have "parse_server_sorts (dg_server_sorts config) s = parse_server_sorts (dg_server_sorts config) (sf_sort (dg_base_filters config))"
    using assms by (simp add: parse_server_sorts_def)
  ultimately show ?thesis unfolding build_location_discovery_options_def resorted_fields by (simp only:)
qed

lemma snapshot_filters_valid:
  assumes "validate_snapshot_filters f = None" "sf_page f = 0" "check_home_types [] (sf_home_types f) = None"
    "good_sort (sf_sort f)" "sf_keywords f = []"
  shows "validate_search_filters f = None"
  using assms
  by (auto simp: validate_snapshot_filters_def validate_search_filters_def Let_def positive_def good_sort_def has_control_def trim_space_def
      trim_left_def trim_right_def split: if_split_asm)

lemma unsorted_snapshot: "validate_snapshot_filters (f\<lparr>sf_sort := s\<rparr>) = validate_snapshot_filters f"
  by (simp add: validate_snapshot_filters_def)

lemma good_override:
  assumes "options_good opts" "map_of overrides (to_lower (trim_space l)) = Some n" "1 \<le> n" "n \<le> 20"
  shows "options_good (apply_location_page_override opts l overrides)"
proof -
  have ok: "route_ok n (if rt_max_pages r > n then r\<lparr>rt_max_pages := n\<rparr> else r)" if "r \<in> set (do_routes opts)" for r
  proof -
    have "route_ok (do_max_pages opts) r" using assms(1) that by (simp add: options_good_def)
    then show ?thesis using assms(3) by (auto simp: route_ok_def)
  qed
  define rs where "rs = map (\<lambda>r. if rt_max_pages r > n then r\<lparr>rt_max_pages := n\<rparr> else r) (do_routes opts)"
  have names: "map rt_name rs = map rt_name (do_routes opts)" by (simp add: rs_def)
  have "route_ok n r" if "r \<in> set rs" for r
  proof -
    from that have "r \<in> (\<lambda>q. if rt_max_pages q > n then q\<lparr>rt_max_pages := n\<rparr> else q) ` set (do_routes opts)"
      unfolding rs_def set_map .
    then obtain q where "r = (if rt_max_pages q > n then q\<lparr>rt_max_pages := n\<rparr> else q)" "q \<in> set (do_routes opts)"
      by (rule imageE)
    then show ?thesis using ok [of q] by (simp only:)
  qed
  then have "\<forall>r \<in> set rs. route_ok n r" by blast
  moreover have "apply_location_page_override opts l overrides = opts\<lparr>do_max_pages := n, do_routes := rs\<rparr>"
    using assms(2) by (simp add: apply_location_page_override_def rs_def)
  moreover have "rs \<noteq> []" "length rs \<le> 16" using assms(1) by (simp_all add: rs_def options_good_def)
  ultimately show ?thesis using assms names by (simp add: options_good_def)
qed

text \<open>
  The discovery that accepted flags plan runs for every location: with its page override applied, its options
  pass the validation of the discovery unchanged, unless a server sort was given twice with different
  page limits.
\<close>
theorem accepted_discovery_runs:
  assumes "check_search f = Inr p" and "pn_discovery p"
    and "parse_server_sorts (fl_server_sorts f) (fl_sort f) = Inr sorts" and "distinct (map sv_value sorts)"
  shows "validate_discovery_options (apply_location_page_override (pn_options p) l (pn_overrides p))
         = Inr (do_max_pages (apply_location_page_override (pn_options p) l (pn_overrides p)),
                do_routes (apply_location_page_override (pn_options p) l (pn_overrides p)))
         \<and> set (map fst (pn_overrides p)) \<subseteq> set (map (to_lower \<circ> trim_space) (pn_locations p))"
proof -
  from assms(1) obtain headers locations boundary sort_by types from1 by1 flex where
    types: "parse_home_types (fl_home_types f) = Inr types"
    and plan: "plan_of f headers locations boundary sort_by types (detail_of f from1 by1 flex) = Inr p"
    by (rule accepted_values)
  define detail where "detail = detail_of f from1 by1 flex"
  define config where "config = discovery_config_of f types detail"
  note parts = plan_parts [OF plan, folded detail_def]
  note limits = parts(8) [unfolded check_limits_ok] and source = parts(9) [unfolded check_source_ok]
  have locs: "source_of f = FromLocations" using parts(7) assms(2) by simp
  from parts(10) [OF assms(2)] have built: "build_location_discovery_options config = Inr (pn_options p)"
    and overrides: "parse_location_page_overrides (fl_location_pages f) (fl_max_pages f) = Inr (pn_overrides p)"
    and known: "unknown_override locations (pn_overrides p) = None"
    by (auto simp: discovery_of_def config_def split: option.split_asm)
  have homes: "check_home_types [] types = None" using parse_home_types_good [OF types] .
  have filters: "validate_snapshot_filters (filters_of f types) = None" "fl_page f = 0" using source locs by auto
  have good: "options_good (pn_options p)"
  proof (cases "fl_server_sorts f = []")
    case True
    then have "good_sort (fl_sort f)"
      using assms(3) by (auto simp: parse_server_sorts_def validate_server_sort_good split: option.split_asm)
    then have valid: "validate_search_filters (dg_base_filters config) = None"
      using filters homes by (simp add: config_def discovery_config_of_def) (intro snapshot_filters_valid; simp add: filters_of_def)
    show ?thesis
      using built_options_good [OF built valid _ _ _ assms(4)] limits assms(3)
      by (simp add: config_def discovery_config_of_def filters_of_def validate_policy_def retry_of_def split: if_split_asm)
  next
    case False
    have again: "build_location_discovery_options (resorted [] config) = Inr (pn_options p)"
      using built build_resorted [of config "[]"] False by (simp add: config_def discovery_config_of_def)
    have "good_sort []" by (simp add: good_sort_def has_control_def trim_space_def trim_left_def trim_right_def)
    moreover have "validate_snapshot_filters ((filters_of f types)\<lparr>sf_sort := []\<rparr>) = None"
      using filters(1) unsorted_snapshot by simp
    ultimately have valid: "validate_search_filters (dg_base_filters (resorted [] config)) = None"
      using filters(2) homes
      by (simp add: config_def discovery_config_of_def resorted_def) (intro snapshot_filters_valid; simp add: filters_of_def)
    have "parse_server_sorts (fl_server_sorts f) [] = Inr sorts" using assms(3) False by (simp add: parse_server_sorts_def)
    then show ?thesis
      using built_options_good [OF again valid _ _ _ assms(4)] limits
      by (simp add: config_def discovery_config_of_def filters_of_def resorted_def validate_policy_def retry_of_def split: if_split_asm)
  qed
  have "options_good (apply_location_page_override (pn_options p) l (pn_overrides p))"
  proof (cases "map_of (pn_overrides p) (to_lower (trim_space l))")
    case None
    then show ?thesis using good by (simp add: apply_location_page_override_def)
  next
    case (Some n)
    then have "1 \<le> n \<and> n \<le> fl_max_pages f" using parsed_overrides_good [OF overrides] map_of_SomeD by fastforce
    then show ?thesis using limits by (intro good_override [OF good Some]) auto
  qed
  moreover have "set (map fst (pn_overrides p)) \<subseteq> set (map (to_lower \<circ> trim_space) (pn_locations p))"
    using known parts(3) by (auto simp: unknown_override_def find_None_iff)
  ultimately show ?thesis using good_options_valid by blast
qed


section \<open>Examples\<close>

definition example_detail :: detail_options where
  "example_detail =
     \<lparr>dt_enrich = False, dt_verify_recency = False, dt_workers = 1, dt_delay = 0, dt_min_sqft = 0, dt_max_days = -1,
      dt_available_from = None, dt_available_by = None, dt_unknown_availability = ''exclude'',
      dt_out_of_window = ''exclude'', dt_max_total_cost = 0, dt_require_for_rent = False, dt_exclude_shared = False,
      dt_exclude_student = False, dt_exclude_income = False, dt_laundry = ''any'', dt_parking = ''any'', dt_pets = ''any'',
      dt_flex = [], dt_unknown_laundry = ''exclude''\<rparr>"

definition example_flags :: search_flags where
  "example_flags =
     \<lparr>fl_profile = [], fl_snapshot = [], fl_locations = [''78701''], fl_strict_boundary = False,
      fl_allowed_cities = [], fl_city_aliases = [], fl_rent = True, fl_proxy = [], fl_session = [],
      fl_tls_profile = ''chrome_133'', fl_user_agent = [], fl_browser_headers = [], fl_page = 0, fl_min_price = 0,
      fl_max_price = 0, fl_min_beds = Finite 0, fl_max_beds = Finite 0, fl_min_baths = Finite 0, fl_available_from = [],
      fl_available_by = [], fl_flex = [], fl_detail = example_detail, fl_location_delay = 0, fl_max_pages = 2,
      fl_page_delay = 0, fl_bed_ranges = [], fl_server_sorts = [''days''], fl_supplemental_no_laundry = False,
      fl_supplemental_pages = 1, fl_keyword_routes = [], fl_home_types = [], fl_location_pages = [],
      fl_location_retries = 2, fl_retry_backoff = 30, fl_search_cache_ttl = 0, fl_property_cache_ttl = 0, fl_sort = [],
      fl_sort_by = ''recommended'', fl_limit = 0, fl_timeout = 30, fl_raw = False\<rparr>"

lemma example_values:
  "parse_browser_headers [] = Inr []" "parse_locations [''78701''] = Inr [''78701'']" "parse_allowed_cities [] = Inr []"
  "parse_location_city_aliases [] = Inr []" "normalize_sort_by ''recommended'' = Inr ''recommended''"
  "parse_date_flag [] = Inr None" "parse_flex_values [] = Inr []" "parse_home_types [] = Inr []"
  "given [] = False" "given ''chrome_133''" "given ''78701''"
  by code_simp+

lemma example_detail_of: "detail_of example_flags None None [] = example_detail"
  unfolding detail_of_def example_flags_def example_detail_def by code_simp

lemma example_checks:
  "validate_detail_options example_detail = None" "validate_policy (retry_of example_flags) = None"
  "validate_snapshot_filters (filters_of example_flags []) = None"
  "(case build_location_discovery_options (discovery_config_of example_flags [] example_detail) of Inr _ \<Rightarrow> True | Inl _ \<Rightarrow> False)"
  "parse_location_page_overrides [] 2 = Inr []" "unknown_override [''78701''] [] = None"
  by code_simp+

lemma example_accepted: "\<exists>p. check_search example_flags = Inr p \<and> pn_discovery p"
proof -
  obtain opts where "build_location_discovery_options (discovery_config_of example_flags [] example_detail) = Inr opts"
    using example_checks(4) by (auto split: sum.split_asm)
  then have "discovery_of example_flags [''78701''] [] example_detail = Inr (opts, [])"
    using example_checks(5,6) by (simp add: discovery_of_def step_into_def) (simp add: example_flags_def)
  then have discovery: "discovery_of example_flags [''78701''] [] example_detail = Inr (opts, [])" .
  have source: "source_of example_flags = FromLocations" "discovery_requested example_flags []"
    by (simp_all add: source_of_def example_flags_def example_values discovery_requested_def)
  have limits: "check_limits example_flags k = Inr x \<longleftrightarrow> k = Inr x" for k :: "string + search_plan" and x
    unfolding check_limits_ok using example_checks(2) by (simp add: example_flags_def example_values)
  have sourced: "check_source example_flags FromLocations [] example_detail [] k = Inr x \<longleftrightarrow> k = Inr x"
    for k :: "string + search_plan" and x
    unfolding check_source_ok using example_checks(3) by (simp add: example_flags_def example_values)
  have planned: "\<exists>p. plan_of example_flags [] [''78701''] b s [] example_detail = Inr p \<and> pn_discovery p" for b s
    unfolding plan_of_def Let_def sequence_ok limits source(1) sourced
    by (simp add: source(2) discovery example_checks(1))
  have flags: "fl_browser_headers example_flags = []" "fl_locations example_flags = [''78701'']" "fl_allowed_cities example_flags = []"
    "fl_city_aliases example_flags = []" "fl_profile example_flags = []" "fl_snapshot example_flags = []"
    "fl_strict_boundary example_flags = False" "fl_limit example_flags = 0" "fl_timeout example_flags = 30"
    "fl_sort_by example_flags = ''recommended''" "fl_sort example_flags = []" "fl_available_from example_flags = []"
    "fl_available_by example_flags = []" "fl_flex example_flags = []" "fl_home_types example_flags = []"
    by (simp_all add: example_flags_def)
  show ?thesis
    unfolding check_search_def check_values_def sequence_ok flags
    using planned by (simp add: example_values example_detail_of bool_int_def)
qed

definition example_plan :: search_plan where
  "example_plan = (SOME p. check_search example_flags = Inr p)"

lemma example_plan: "check_search example_flags = Inr example_plan" "pn_discovery example_plan"
  using example_accepted someI_ex [of "\<lambda>p. check_search example_flags = Inr p"] by (auto simp: example_plan_def)


theorem accepted_discovery_runs_witness:
  "validate_discovery_options (apply_location_page_override (pn_options example_plan) ''78701'' (pn_overrides example_plan))
   = Inr (do_max_pages (apply_location_page_override (pn_options example_plan) ''78701'' (pn_overrides example_plan)),
          do_routes (apply_location_page_override (pn_options example_plan) ''78701'' (pn_overrides example_plan)))"
proof -
  have "parse_server_sorts (fl_server_sorts example_flags) (fl_sort example_flags)
        = Inr [\<lparr>sv_value = ''days'', sv_max_pages = 0\<rparr>]"
    by code_simp
  from accepted_discovery_runs [OF example_plan this, of "''78701''"] show ?thesis by simp
qed

end
