(* ===== verification/Search_Run.thy ===== *)
theory Search_Run
  imports Search_Command Disk_Cache Detail_Enricher
begin

text \<open>
  The run of a search once its flags are accepted (\<open>searchCommand.Run\<close> of \<open>internal/cli/search.go\<close>): the
  pipeline a list of listings goes through, the loop over the locations with its cache, waits, retries and
  boundary checks, and the printing. The network, the sleeps, the clock and the faults of the disk and the
  printer are the fields of a \<open>search_world\<close>; every time they are asked they are told the location's index.
\<close>

section \<open>The pipeline\<close>

record pipeline =
  pl_discovery :: bool
  pl_filters :: search_filters
  pl_routes :: "search_route list"
  pl_detail :: detail_options
  pl_today :: date_time
  pl_sort_by :: string
  pl_limit :: int
  pl_previous :: "listing list option"

text \<open>The two passes of the detail enricher, on its state.\<close>

record enrich_passes =
  ep_enrich :: "enricher \<Rightarrow> listing list \<Rightarrow> enricher \<times> listing list"
  ep_recency :: "enricher \<Rightarrow> listing list \<Rightarrow> enricher \<times> listing list"

definition apply_sort_and_limit :: "pipeline \<Rightarrow> listing list \<Rightarrow> listing list" where
  "apply_sort_and_limit pl ls =
     (let sorted_ls = sort_listings ls (pl_sort_by pl) in
      if pl_limit pl > 0 \<and> int (length sorted_ls) > pl_limit pl then take (nat (pl_limit pl)) sorted_ls else sorted_ls)"

definition annotate_history :: "pipeline \<Rightarrow> listing list \<Rightarrow> listing list" where
  "annotate_history pl ls =
     (case pl_previous pl of None \<Rightarrow> ls | Some previous \<Rightarrow> annotate_listing_history ls previous)"

definition filter_basic_listings :: "pipeline \<Rightarrow> listing list \<Rightarrow> listing list" where
  "filter_basic_listings pl ls =
     (if pl_discovery pl then filter_discovered_listings ls (pl_filters pl) else filter_snapshot_listings ls (pl_filters pl))"

definition filter_beds :: "pipeline \<Rightarrow> bool \<Rightarrow> listing list \<Rightarrow> listing list" where
  "filter_beds pl allow_unknown ls =
     (if pl_discovery pl then filter_by_discovery_bed_ranges ls (pl_routes pl) allow_unknown else ls)"

definition prepare_for_enrichment :: "pipeline \<Rightarrow> listing list \<Rightarrow> listing list" where
  "prepare_for_enrichment pl ls =
     (if requires_amenity_details (pl_detail pl) then prefilter_known_listing_metadata ls (pl_detail pl) (pl_today pl)
      else if dt_verify_recency (pl_detail pl) then ls
      else apply_sort_and_limit pl ls)"

text \<open>The recency pass gets the listings that survive the detail filters, when there are any.\<close>

definition recency_candidates :: "pipeline \<Rightarrow> (listing list \<Rightarrow> listing list) option \<Rightarrow> listing list \<Rightarrow> listing list" where
  "recency_candidates pl after_details ls =
     filter_detailed_before_recency (case after_details of None \<Rightarrow> ls | Some f \<Rightarrow> f ls) (pl_detail pl) (pl_today pl)"

definition finalize_with ::
  "pipeline \<Rightarrow> enrich_passes \<Rightarrow> (listing list \<Rightarrow> listing list) option \<Rightarrow> enricher \<Rightarrow> listing list \<Rightarrow> enricher \<times> listing list" where
  "finalize_with pl ep after_details er ls =
     (let candidates = recency_candidates pl after_details ls in
      (if dt_verify_recency (pl_detail pl) \<and> candidates \<noteq> [] then fst (ep_recency ep er candidates) else er,
       finalize_enriched_listings (Some (snd \<circ> ep_recency ep er)) ls (pl_detail pl) (pl_today pl) after_details))"

definition process_listings ::
  "pipeline \<Rightarrow> enrich_passes option \<Rightarrow> (listing list \<Rightarrow> listing list) option \<Rightarrow> enricher \<Rightarrow> listing list \<Rightarrow> enricher \<times> listing list" where
  "process_listings pl passes after_details er ls =
     (let known = filter_beds pl (passes \<noteq> None) (filter_basic_listings pl ls) in
      case passes of
        None \<Rightarrow>
          (er, annotate_history pl (apply_sort_and_limit pl
                 (finalize_enriched_listings None known (pl_detail pl) (pl_today pl) after_details)))
      | Some ep \<Rightarrow>
          (case ep_enrich ep er (prepare_for_enrichment pl known) of
             (er1, detailed) \<Rightarrow>
               (case finalize_with pl ep after_details er1 (filter_beds pl False (filter_basic_listings pl detailed)) of
                  (er2, final) \<Rightarrow> (er2, annotate_history pl (apply_sort_and_limit pl final)))))"

section \<open>The world of a run\<close>

record search_world =
  sw_page :: "nat \<Rightarrow> string \<Rightarrow> nat \<Rightarrow> go_error + search_result"
  sw_discovery :: "nat \<Rightarrow> string \<Rightarrow> nat \<Rightarrow> discovery_env"
  sw_retry_wait :: "nat \<Rightarrow> nat \<Rightarrow> go_error option"
  sw_location_wait :: "nat \<Rightarrow> go_error option"
  sw_passes :: "nat \<Rightarrow> enrich_passes"
  sw_codec :: "search_result cache_env"
  sw_render :: "search_route list \<times> int \<Rightarrow> string"
  sw_clock :: "nat \<Rightarrow> int"
  sw_save_clock :: "nat \<Rightarrow> int"
  sw_save_faults :: "nat \<Rightarrow> save_faults"
  sw_temp :: "nat \<Rightarrow> string"
  sw_print_error :: "nat \<Rightarrow> string option"
  sw_profile :: "string + (go_error + search_result)"
  sw_snapshot :: "string + (go_error + search_result)"

text \<open>What the run reads of its flags beside the plan, and its cache of search results.\<close>

record run_settings =
  ru_rent :: bool
  ru_raw :: bool
  ru_mode :: output_mode
  ru_location_delay :: int
  ru_cache :: "disk_cache option"
  ru_pipeline :: pipeline

datatype run_event =
    Waited int
  | Requested_area nat nat
  | Warned string
  | Printed_line printed

record run_state =
  rs_files :: file_system
  rs_enricher :: enricher
  rs_live :: nat
  rs_areas :: "location_result list"
  rs_events :: "run_event list"
  rs_lines :: nat

definition note_event :: "run_event \<Rightarrow> run_state \<Rightarrow> run_state" where
  "note_event e st = st\<lparr>rs_events := rs_events st @ [e]\<rparr>"

definition note_all :: "run_event list \<Rightarrow> run_state \<Rightarrow> run_state" where
  "note_all es st = st\<lparr>rs_events := rs_events st @ es\<rparr>"

text \<open>Lines are printed up to the first error of the printer.\<close>

fun print_lines :: "search_world \<Rightarrow> printed list \<Rightarrow> run_state \<Rightarrow> string option \<times> run_state" where
  "print_lines w [] st = (None, st)"
| "print_lines w (p # ps) st =
     (case sw_print_error w (rs_lines st) of
        Some err \<Rightarrow> (Some err, st)
      | None \<Rightarrow> print_lines w ps (note_event (Printed_line p) (st\<lparr>rs_lines := Suc (rs_lines st)\<rparr>)))"

text \<open>\<open>appendAreaResult\<close>: more than one location is streamed as JSON lines.\<close>

definition streamed :: "run_settings \<Rightarrow> search_plan \<Rightarrow> bool" where
  "streamed ru p \<longleftrightarrow> length (pn_locations p) > 1 \<and> ru_mode ru = ModeJSONL"

definition append_area :: "search_world \<Rightarrow> run_settings \<Rightarrow> search_plan \<Rightarrow> location_result \<Rightarrow> run_state \<Rightarrow> string option \<times> run_state" where
  "append_area w ru p area st =
     (if streamed ru p then print_lines w (location_lines area) st
      else (None, st\<lparr>rs_areas := rs_areas st @ [area]\<rparr>))"

definition no_metadata :: search_metadata where
  "no_metadata = \<lparr>sm_request_id = 0, sm_current_page = 0, sm_returned = 0, sm_results_per_page = 0, sm_total_pages = 0,
                  sm_total_results = 0, sm_results_hash = [], sm_relaxed_results = False\<rparr>"

definition failed_area :: "string \<Rightarrow> string \<Rightarrow> location_result" where
  "failed_area place message =
     \<lparr>lr_location = place, lr_metadata = no_metadata, lr_listings = [], lr_raw = [], lr_error = message\<rparr>"

section \<open>One location\<close>

text \<open>What one attempt of a discovery leaves: the partial error, if it has issues, and the warnings.\<close>

definition incomplete_message :: "discovery_issue list \<Rightarrow> string" where
  "incomplete_message issues =
     (case issues of
        [] \<Rightarrow> []
      | i # is \<Rightarrow> ''incomplete discovery: '' @ itoa (int (length issues)) @ '' route page(s) failed; first failure on route ''
                    @ quote (is_route i) @ '' page '' @ itoa (is_page i) @ '': '' @ is_error i)"

definition issue_warning :: "string \<Rightarrow> discovery_issue \<Rightarrow> string" where
  "issue_warning place i =
     ''warning: location '' @ quote place @ '' route '' @ quote (is_route i) @ '' page '' @ itoa (is_page i)
     @ '' failed: '' @ is_error i"

definition coverage_warning :: "string \<Rightarrow> search_coverage \<Rightarrow> string" where
  "coverage_warning place c =
     ''warning: location '' @ quote place @ '' route '' @ quote (cv_route c) @ '' stopped after '' @ itoa (cv_pages_fetched c)
     @ '' of '' @ itoa (cv_total_pages c) @ '' reported pages''"

definition attempt_issues :: "go_error + discovery_result \<Rightarrow> discovery_issue list" where
  "attempt_issues r = (case r of Inl _ \<Rightarrow> [] | Inr d \<Rightarrow> dr_issues d)"

definition attempt_warnings :: "string \<Rightarrow> go_error + discovery_result \<Rightarrow> string list" where
  "attempt_warnings place r =
     (case r of
        Inl _ \<Rightarrow> []
      | Inr d \<Rightarrow> map (issue_warning place) (dr_issues d) @ map (coverage_warning place) (filter (\<lambda>c. \<not> cv_complete c) (dr_coverage d)))"

definition attempt_result :: "go_error + discovery_result \<Rightarrow> go_error + search_result" where
  "attempt_result r =
     (case r of
        Inl err \<Rightarrow> Inl err
      | Inr d \<Rightarrow>
          if dr_listings d = [] \<and> dr_issues d \<noteq> [] then Inl (Plain (is_error (hd (dr_issues d))))
          else Inr \<lparr>sr_listings = dr_listings d, sr_metadata = no_metadata\<lparr>sm_returned := int (length (dr_listings d))\<rparr>, sr_raw = []\<rparr>)"

definition discovered ::
  "search_world \<Rightarrow> search_plan \<Rightarrow> nat \<Rightarrow> string \<Rightarrow> string \<Rightarrow> nat \<Rightarrow> go_error + discovery_result" where
  "discovered w p i place target attempt =
     fst (discover_location (sw_discovery w i target attempt) (apply_location_page_override (pn_options p) place (pn_overrides p)))"

definition fetch_area ::
  "search_world \<Rightarrow> search_plan \<Rightarrow> nat \<Rightarrow> string \<Rightarrow> string \<Rightarrow> (go_error + search_result) \<times> retry_event list" where
  "fetch_area w p i place target =
     fetch_with_retry ((whole_location_retry_policy (pn_discovery p) (pn_retry p))\<lparr>rp_on_retry := True\<rparr>)
       (\<lambda>a. if \<not> pn_discovery p then sw_page w i target a else attempt_result (discovered w p i place target a))
       (sleep_context (sw_retry_wait w i))"

text \<open>The partial error is that of the last attempt with issues; the warnings are those of every attempt.\<close>

definition partial_error :: "search_world \<Rightarrow> search_plan \<Rightarrow> nat \<Rightarrow> string \<Rightarrow> string \<Rightarrow> nat list \<Rightarrow> string" where
  "partial_error w p i place target tries =
     (if \<not> pn_discovery p then []
      else foldl (\<lambda>m a. case attempt_issues (discovered w p i place target a) of [] \<Rightarrow> m | x # xs \<Rightarrow> incomplete_message (x # xs)) [] tries)"

definition fetch_warnings :: "search_world \<Rightarrow> search_plan \<Rightarrow> nat \<Rightarrow> string \<Rightarrow> string \<Rightarrow> nat list \<Rightarrow> string list" where
  "fetch_warnings w p i place target tries =
     (if \<not> pn_discovery p then []
      else concat (map (\<lambda>a. attempt_warnings place (discovered w p i place target a)) tries))"

definition save_area :: "search_world \<Rightarrow> run_settings \<Rightarrow> nat \<Rightarrow> string \<Rightarrow> string \<Rightarrow> search_result \<Rightarrow> run_state \<Rightarrow> run_state" where
  "save_area w ru i place key area st =
     (case cache_save (sw_codec w) (ru_cache ru) (sw_save_clock w i) (sw_save_faults w i) (sw_temp w i) key (Some area) (rs_files st) of
        (err, trace) \<Rightarrow>
          (let st1 = st\<lparr>rs_files := last trace\<rparr>
           in case err of
                None \<Rightarrow> st1
              | Some msg \<Rightarrow> note_event (Warned (''warning: location '' @ quote place @ '' cache write failed: '' @ msg)) st1))"

definition cached_area :: "search_world \<Rightarrow> run_settings \<Rightarrow> nat \<Rightarrow> string \<Rightarrow> string \<Rightarrow> run_state \<Rightarrow> search_result option \<times> run_state" where
  "cached_area w ru i place key st =
     (case cache_load (sw_codec w) (ru_cache ru) (sw_clock w i) key (rs_files st) of
        Inl msg \<Rightarrow> (None, note_event (Warned (''warning: location '' @ quote place @ '' cache read failed: '' @ msg)) st)
      | Inr found \<Rightarrow> (found, st))"

datatype area_outcome = Area_found search_result string | Area_failed go_error | Wait_cancelled go_error

text \<open>A live request: it waits after an earlier one, and saves what is complete.\<close>

definition live_area ::
  "search_world \<Rightarrow> run_settings \<Rightarrow> search_plan \<Rightarrow> nat \<Rightarrow> string \<Rightarrow> string \<Rightarrow> string \<Rightarrow> run_state \<Rightarrow> area_outcome \<times> run_state" where
  "live_area w ru p i place target key st =
     (let st1 = (if rs_live st > 0 then note_event (Waited (ru_location_delay ru)) st else st) in
      case (if rs_live st > 0 then sleep_context (sw_location_wait w) i (ru_location_delay ru) else None) of
        Some err \<Rightarrow> (Wait_cancelled err, st1)
      | None \<Rightarrow>
          (case fetch_area w p i place target of
             (res, tr) \<Rightarrow>
               (let partial = partial_error w p i place target (fetches tr);
                    st2 = note_all (Requested_area i (length (fetches tr)) # map Warned (fetch_warnings w p i place target (fetches tr)))
                            (st1\<lparr>rs_live := Suc (rs_live st1)\<rparr>)
                in case res of
                     Inl err \<Rightarrow> (Area_failed err, st2)
                   | Inr area \<Rightarrow> (Area_found area partial, if partial = [] then save_area w ru i place key area st2 else st2))))"

definition needs_boundary :: "search_plan \<Rightarrow> bool" where
  "needs_boundary p \<longleftrightarrow> bo_strict (pn_boundary p) \<or> bo_allowed_cities (pn_boundary p) \<noteq> []"

text \<open>The listings outside the requested place are dropped; if a state is named and all are outside, it is an error.\<close>

definition bound_area :: "search_plan \<Rightarrow> string \<Rightarrow> listing list \<Rightarrow> string + listing list" where
  "bound_area p place ls =
     (if needs_boundary p then Inr (filter_by_location_boundary ls place (pn_boundary p) True)
      else let state = location_state_qualifier place in
        if state = [] then Inr ls
        else let kept = filter_listings_by_state ls state in
          if ls \<noteq> [] \<and> kept = [] then Inl (''Zillow returned listings outside requested state '' @ state) else Inr kept)"

definition after_details_of :: "search_plan \<Rightarrow> string \<Rightarrow> (listing list \<Rightarrow> listing list) option" where
  "after_details_of p place =
     (if needs_boundary p then Some (\<lambda>ls. filter_by_location_boundary ls place (pn_boundary p) False) else None)"

definition passes_of :: "search_world \<Rightarrow> search_plan \<Rightarrow> nat \<Rightarrow> enrich_passes option" where
  "passes_of w p i = (if needs_enrichment (pn_detail p) then Some (sw_passes w i) else None)"

text \<open>The error of a request, which ends the run when there is one location only.\<close>

definition explained :: "go_error \<Rightarrow> string" where
  "explained err = error_text (fst (explain_zillow_error err)) @ snd (explain_zillow_error err)"

definition single_location :: "search_plan \<Rightarrow> bool" where
  "single_location p \<longleftrightarrow> length (pn_locations p) = 1"

definition failed_fetch :: "search_world \<Rightarrow> run_settings \<Rightarrow> search_plan \<Rightarrow> string \<Rightarrow> go_error \<Rightarrow> run_state \<Rightarrow> string option \<times> run_state" where
  "failed_fetch w ru p place err st =
     (if single_location p then (Some (''location '' @ quote place @ '': '' @ explained err), st)
      else append_area w ru p (failed_area place (error_text err))
             (note_event (Warned (''warning: location '' @ quote place @ '' failed''
                @ (if pn_discovery p then []
                   else '' after '' @ itoa (i64 (rp_retries (whole_location_retry_policy (pn_discovery p) (pn_retry p)) + 1)) @ '' attempt(s)'')
                @ '': '' @ error_text err)) st))"

definition failed_place :: "search_world \<Rightarrow> run_settings \<Rightarrow> search_plan \<Rightarrow> string \<Rightarrow> string \<Rightarrow> run_state \<Rightarrow> string option \<times> run_state" where
  "failed_place w ru p place message st =
     (if single_location p then (Some message, st) else append_area w ru p (failed_area place message) st)"

definition finish_area ::
  "search_world \<Rightarrow> run_settings \<Rightarrow> search_plan \<Rightarrow> nat \<Rightarrow> string \<Rightarrow> search_result \<Rightarrow> string \<Rightarrow> run_state \<Rightarrow> string option \<times> run_state" where
  "finish_area w ru p i place area partial st =
     (case bound_area p place (sr_listings area) of
        Inl message \<Rightarrow> failed_place w ru p place message st
      | Inr ls \<Rightarrow>
          (case process_listings (ru_pipeline ru) (passes_of w p i) (after_details_of p place) (reset_pause (rs_enricher st)) ls of
             (er, final) \<Rightarrow>
               append_area w ru p
                 \<lparr>lr_location = place, lr_metadata = (sr_metadata area)\<lparr>sm_returned := int (length final)\<rparr>,
                  lr_listings = final, lr_raw = sr_raw area, lr_error = partial\<rparr> (st\<lparr>rs_enricher := er\<rparr>)))"

definition obtain_area ::
  "search_world \<Rightarrow> run_settings \<Rightarrow> search_plan \<Rightarrow> nat \<Rightarrow> string \<Rightarrow> string \<Rightarrow> run_state \<Rightarrow> area_outcome \<times> run_state" where
  "obtain_area w ru p i place target st =
     (let key = search_result_cache_key (sw_render w) target (ru_raw ru) (pn_discovery p)
                  (apply_location_page_override (pn_options p) place (pn_overrides p))
      in case cached_area w ru i place key st of
           (Some area, st1) \<Rightarrow> (Area_found area [], st1)
         | (None, st1) \<Rightarrow> live_area w ru p i place target key st1)"

text \<open>One turn of the loop; an error ends the run.\<close>

definition location_step :: "search_world \<Rightarrow> run_settings \<Rightarrow> search_plan \<Rightarrow> nat \<Rightarrow> string \<Rightarrow> run_state \<Rightarrow> string option \<times> run_state" where
  "location_step w ru p i place st =
     (case location_search_url place (ru_rent ru) of
        Inl message \<Rightarrow> failed_place w ru p place message st
      | Inr target \<Rightarrow>
          (case obtain_area w ru p i place target st of
             (Wait_cancelled err, st1) \<Rightarrow> (Some (error_text err), st1)
           | (Area_failed err, st1) \<Rightarrow> failed_fetch w ru p place err st1
           | (Area_found area partial, st1) \<Rightarrow> finish_area w ru p i place area partial st1))"

fun run_locations :: "search_world \<Rightarrow> run_settings \<Rightarrow> search_plan \<Rightarrow> nat \<Rightarrow> string list \<Rightarrow> run_state \<Rightarrow> string option \<times> run_state" where
  "run_locations w ru p i [] st = (None, st)"
| "run_locations w ru p i (place # places) st =
     (case location_step w ru p i place st of
        (Some err, st1) \<Rightarrow> (Some err, st1)
      | (None, st1) \<Rightarrow> run_locations w ru p (Suc i) places st1)"

section \<open>The whole run\<close>

definition print_single :: "search_world \<Rightarrow> output_mode \<Rightarrow> search_result \<Rightarrow> string \<Rightarrow> run_state \<Rightarrow> string option \<times> run_state" where
  "print_single w mode r partial st =
     (case single_search_output mode r partial of
        (lines, failed) \<Rightarrow>
          (case print_lines w lines st of
             (Some err, st1) \<Rightarrow> (Some err, st1)
           | (None, st1) \<Rightarrow> (failed, st1)))"

text \<open>A single result of a profile or a snapshot.\<close>

definition run_single :: "search_world \<Rightarrow> run_settings \<Rightarrow> search_plan \<Rightarrow> string + (go_error + search_result) \<Rightarrow> run_state \<Rightarrow> string option \<times> run_state" where
  "run_single w ru p loaded st =
     (case loaded of
        Inl msg \<Rightarrow> (Some msg, st)
      | Inr (Inl err) \<Rightarrow> (Some (explained err), st)
      | Inr (Inr r) \<Rightarrow>
          (case process_listings (ru_pipeline ru) (passes_of w p 0) None (rs_enricher st) (sr_listings r) of
             (er, final) \<Rightarrow>
               print_single w (ru_mode ru)
                 (r\<lparr>sr_listings := final, sr_metadata := (sr_metadata r)\<lparr>sm_returned := int (length final)\<rparr>\<rparr>) []
                 (st\<lparr>rs_enricher := er\<rparr>)))"

definition print_areas :: "search_world \<Rightarrow> run_settings \<Rightarrow> search_plan \<Rightarrow> run_state \<Rightarrow> string option \<times> run_state" where
  "print_areas w ru p st =
     (if single_location p then
        (let area = hd (rs_areas st) in
         print_single w (ru_mode ru)
           \<lparr>sr_listings = lr_listings area, sr_metadata = lr_metadata area, sr_raw = lr_raw area\<rparr> (lr_error area) st)
      else if streamed ru p then (None, st)
      else print_lines w (multi_location_output (ru_mode ru) (rs_areas st)) st)"

definition run_search :: "search_world \<Rightarrow> run_settings \<Rightarrow> search_plan \<Rightarrow> run_state \<Rightarrow> string option \<times> run_state" where
  "run_search w ru p st =
     (case pn_source p of
        FromProfile \<Rightarrow> run_single w ru p (sw_profile w) st
      | FromSnapshot \<Rightarrow> run_single w ru p (sw_snapshot w) st
      | FromLocations \<Rightarrow>
          (case run_locations w ru p 0 (pn_locations p) st of
             (Some err, st1) \<Rightarrow> (Some err, st1)
           | (None, st1) \<Rightarrow> print_areas w ru p st1))"

definition run_start :: "file_system \<Rightarrow> enricher \<Rightarrow> run_state" where
  "run_start files er = \<lparr>rs_files = files, rs_enricher = er, rs_live = 0, rs_areas = [], rs_events = [], rs_lines = 0\<rparr>"

text \<open>The settings of a run with accepted flags.\<close>

definition pipeline_of :: "search_flags \<Rightarrow> search_plan \<Rightarrow> date_time \<Rightarrow> listing list option \<Rightarrow> pipeline" where
  "pipeline_of f p today previous =
     \<lparr>pl_discovery = pn_discovery p, pl_filters = pn_filters p, pl_routes = do_routes (pn_options p), pl_detail = pn_detail p,
      pl_today = today, pl_sort_by = pn_sort_by p, pl_limit = fl_limit f, pl_previous = previous\<rparr>"

definition settings_of :: "search_flags \<Rightarrow> search_plan \<Rightarrow> output_mode \<Rightarrow> disk_cache option \<Rightarrow> date_time \<Rightarrow> listing list option \<Rightarrow> run_settings" where
  "settings_of f p mode cache today previous =
     \<lparr>ru_rent = fl_rent f, ru_raw = fl_raw f, ru_mode = mode, ru_location_delay = fl_location_delay f, ru_cache = cache,
      ru_pipeline = pipeline_of f p today previous\<rparr>"

section \<open>Progress lines\<close>

text \<open>
  What \<open>--progress\<close> writes (\<open>internal/cli/search_progress.go\<close>): one line of each event, after the time that has
  passed since the start. \<open>duration_text\<close> is \<open>Duration.String\<close>, \<open>round_second\<close> is \<open>Round(time.Second)\<close> of a time
  that is not negative.
\<close>

definition trimmed_fraction :: "nat \<Rightarrow> nat \<Rightarrow> string" where
  "trimmed_fraction width n =
     (let ds = rev (dropWhile (\<lambda>c. c = CHR ''0'') (rev (pad_digits width (int n))))
      in if ds = [] then [] else ''.'' @ ds)"

definition duration_text :: "int \<Rightarrow> string" where
  "duration_text d =
     (let u = nat \<bar>d\<bar>; seconds = u div 10 ^ 9; minutes = seconds div 60; hours = minutes div 60
      in (if d < 0 then ''-'' else [])
         @ (if u = 0 then ''0s''
            else if u < 1000 then nat_digits u @ ''ns''
            else if u < 10 ^ 6 then nat_digits (u div 1000) @ trimmed_fraction 3 (u mod 1000) @ [CHR 0xC2, CHR 0xB5, CHR ''s'']
            else if u < 10 ^ 9 then nat_digits (u div 10 ^ 6) @ trimmed_fraction 6 (u mod 10 ^ 6) @ ''ms''
            else (if hours > 0 then nat_digits hours @ ''h'' else [])
              @ (if minutes > 0 then nat_digits (minutes mod 60) @ ''m'' else [])
              @ nat_digits (seconds mod 60) @ trimmed_fraction 9 (u mod 10 ^ 9) @ ''s''))"

definition round_second :: "int \<Rightarrow> int" where
  "round_second d = (let r = d mod 10 ^ 9 in if r + r < 10 ^ 9 then d - r else d - r + 10 ^ 9)"

definition progress_line :: "int \<Rightarrow> string \<Rightarrow> string" where
  "progress_line elapsed message = ''progress +'' @ duration_text (round_second elapsed) @ '': '' @ message @ [CHR 0x0A]"

definition location_label :: "nat \<Rightarrow> nat \<Rightarrow> string \<Rightarrow> string" where
  "location_label i n place = ''location '' @ itoa (int i + 1) @ ''/'' @ itoa (int n) @ '' '' @ quote place"

definition error_or_nil :: "('e \<Rightarrow> string) \<Rightarrow> 'e option \<Rightarrow> string" where
  "error_or_nil show e = (case e of None \<Rightarrow> ''<nil>'' | Some err \<Rightarrow> show err)"

definition route_position :: "discovery_progress \<Rightarrow> string" where
  "route_position p =
     ''route '' @ itoa (dp_route_index p) @ ''/'' @ itoa (dp_route_count p) @ '' '' @ quote (dp_route p)
     @ '' page '' @ itoa (dp_page p) @ ''/'' @ itoa (dp_page_limit p)"

definition discovery_message :: "string \<Rightarrow> discovery_progress \<Rightarrow> string" where
  "discovery_message label p =
     label @ '': '' @
     (case dp_stage p of
        ProgressBootstrap \<Rightarrow> ''bootstrap request''
      | ProgressPage \<Rightarrow>
          (if dp_delay p > 0 then ''waiting '' @ duration_text (dp_delay p) @ '', then '' else []) @ route_position p
      | ProgressRetry \<Rightarrow>
          (if dp_route p \<noteq> [] then route_position p else ''bootstrap'')
          @ '' retry '' @ itoa (dp_attempt p) @ ''/'' @ itoa (dp_max_attempts p) @ '' in '' @ duration_text (dp_delay p)
          @ '' after '' @ error_or_nil error_text (dp_err p))"

fun stage_name :: "detail_stage \<Rightarrow> string" where
  "stage_name EnrichmentStage = ''property details''"
| "stage_name RecencyStage = ''recency details''"

definition detail_message :: "(int \<Rightarrow> string) \<Rightarrow> string \<Rightarrow> detail_progress \<Rightarrow> string" where
  "detail_message clock_text label p =
     (let number = (\<lambda>n. itoa (int n)) in
      label @ '': '' @ stage_name (pg_stage p) @ '' '' @
      (case pg_kind p of
         ProgressStart \<Rightarrow>
           ''start: '' @ number (pg_total p) @ '' network request(s), '' @ number (pg_cached p) @ '' cached''
       | ProgressItem \<Rightarrow>
           number (pg_completed p) @ ''/'' @ number (pg_total p) @ '' fetched ('' @ number (pg_skipped p) @ '' skipped)''
           @ (case pg_err p of None \<Rightarrow> [] | Some e \<Rightarrow> '': '' @ detail_error_text e)
       | ProgressPaused \<Rightarrow>
           ''paused '' @ (if pg_paused_until p = 0 then [] else ''until '' @ clock_text (pg_paused_until p) @ '' '')
           @ ''after '' @ error_or_nil detail_error_text (pg_err p)
       | ProgressDone \<Rightarrow>
           ''done: '' @ number (pg_fetched p) @ '' fetched, '' @ number (pg_skipped p) @ '' skipped, ''
           @ number (pg_cached p) @ '' cached''))"

definition planned_message :: "nat \<Rightarrow> nat option \<Rightarrow> search_plan_estimate \<Rightarrow> string" where
  "planned_message locations routes e =
     ''planned '' @ itoa (int locations) @ '' location(s), ''
     @ (case routes of None \<Rightarrow> [] | Some n \<Rightarrow> itoa (int n) @ '' route(s) per location, '')
     @ ''up to '' @ itoa (es_requests e) @ '' search request(s), and up to '' @ duration_text (es_pacing e)
     @ '' configured '' @ (if routes = None then ''location'' else ''search'')
     @ '' pacing before network and detail time''"

lemma duration_texts:
  "duration_text 0 = ''0s''" "duration_text 250 = ''250ns''" "duration_text 1500000 = ''1.5ms''"
  "duration_text (- 5000000000) = ''-5s''" "duration_text 5430500000000 = ''1h30m30.5s''"
  by code_simp+

end
