(* ===== verification/Search_Run_Props.thy ===== *)
theory Search_Run_Props
  imports Search_Run Search_Command_Props Disk_Cache_Props
begin

text \<open>
  What a run of a search promises: every location is reported, in order; only complete results are cached,
  and a cached location asks nothing; live requests are one per location and a delay apart; areas respect the
  limit and count their listings; and streaming prints what collecting would print.
\<close>

section \<open>What a step touches\<close>

lemma note_fields [simp]:
  "rs_files (note_event e st) = rs_files st" "rs_enricher (note_event e st) = rs_enricher st" "rs_live (note_event e st) = rs_live st"
  "rs_areas (note_event e st) = rs_areas st" "rs_events (note_event e st) = rs_events st @ [e]" "rs_lines (note_event e st) = rs_lines st"
  "rs_files (note_all es st) = rs_files st" "rs_enricher (note_all es st) = rs_enricher st" "rs_live (note_all es st) = rs_live st"
  "rs_areas (note_all es st) = rs_areas st" "rs_events (note_all es st) = rs_events st @ es" "rs_lines (note_all es st) = rs_lines st"
  by (simp_all add: note_event_def note_all_def)

text \<open>The waits and requests of a log.\<close>

definition pacing :: "run_event list \<Rightarrow> run_event list" where
  "pacing es = filter (\<lambda>e. case e of Waited _ \<Rightarrow> True | Requested_area _ _ \<Rightarrow> True | _ \<Rightarrow> False) es"

lemma pacing_simps [simp]:
  "pacing [] = []" "pacing (es @ es') = pacing es @ pacing es'" "pacing (map Printed_line ps) = []" "pacing (map Warned ms) = []"
  "pacing (Waited d # es) = Waited d # pacing es" "pacing (Requested_area i n # es) = Requested_area i n # pacing es"
  "pacing (Warned m # es) = pacing es" "pacing (Printed_line q # es) = pacing es"
  by (simp_all add: pacing_def filter_empty_conv)

text \<open>Nothing but the printed lines.\<close>

definition only_output :: "run_state \<Rightarrow> run_state \<Rightarrow> bool" where
  "only_output st st1 \<longleftrightarrow> rs_files st1 = rs_files st \<and> rs_enricher st1 = rs_enricher st \<and> rs_live st1 = rs_live st
     \<and> pacing (rs_events st1) = pacing (rs_events st)"

lemma print_lines_output: "print_lines w ps st = (e, st1) \<Longrightarrow> only_output st st1 \<and> rs_areas st1 = rs_areas st"
proof (induction ps arbitrary: st)
  case Nil
  then show ?case by (simp add: only_output_def)
next
  case (Cons q ps)
  then show ?case by (fastforce simp: only_output_def split: option.split_asm)
qed

lemma append_area_output: "append_area w ru p area st = (e, st1) \<Longrightarrow> only_output st st1"
  by (auto simp: append_area_def only_output_def dest: print_lines_output split: if_split_asm)

lemma append_area_collects:
  assumes "\<not> streamed ru p"
  shows "append_area w ru p area st = (None, st\<lparr>rs_areas := rs_areas st @ [area]\<rparr>)"
  using assms by (simp add: append_area_def)

lemma failed_place_output: "failed_place w ru p place msg st = (e, st1) \<Longrightarrow> only_output st st1"
  by (auto simp: failed_place_def append_area_output split: if_split_asm) (simp add: only_output_def)

lemma failed_fetch_output: "failed_fetch w ru p place err st = (e, st1) \<Longrightarrow> only_output st st1"
  by (auto simp: failed_fetch_def only_output_def dest: append_area_output split: if_split_asm)

lemma cached_area_output: "cached_area w ru i place key st = (found, st1) \<Longrightarrow> only_output st st1 \<and> rs_areas st1 = rs_areas st"
  by (auto simp: cached_area_def only_output_def split: sum.split_asm)

lemma finish_area_output:
  "finish_area w ru p i place area partial st = (e, st1)
   \<Longrightarrow> rs_files st1 = rs_files st \<and> rs_live st1 = rs_live st \<and> pacing (rs_events st1) = pacing (rs_events st)"
  by (auto simp: finish_area_def only_output_def dest: failed_place_output append_area_output split: sum.split_asm prod.split_asm)

section \<open>The cache\<close>

definition complete_fetch :: "search_world \<Rightarrow> search_plan \<Rightarrow> nat \<Rightarrow> string \<Rightarrow> string \<Rightarrow> nat list \<Rightarrow> bool" where
  "complete_fetch w p i place target tries \<longleftrightarrow>
     (pn_discovery p \<longrightarrow> list_all (\<lambda>a. attempt_issues (discovered w p i place target a) = []) tries)"

lemma partial_error_empty: "partial_error w p i place target tries = [] \<longleftrightarrow> complete_fetch w p i place target tries"
proof -
  have "foldl (\<lambda>m a. case f a of [] \<Rightarrow> m | x # xs \<Rightarrow> incomplete_message (x # xs)) m tries = []
        \<longleftrightarrow> m = [] \<and> list_all (\<lambda>a. f a = []) tries" for m and f :: "nat \<Rightarrow> discovery_issue list"
    by (induction tries arbitrary: m) (auto simp: incomplete_message_def split: list.splits)
  then show ?thesis by (simp add: partial_error_def complete_fetch_def)
qed

definition area_key :: "search_world \<Rightarrow> run_settings \<Rightarrow> search_plan \<Rightarrow> string \<Rightarrow> string \<Rightarrow> string" where
  "area_key w ru p place target =
     search_result_cache_key (sw_render w) target (ru_raw ru) (pn_discovery p)
       (apply_location_page_override (pn_options p) place (pn_overrides p))"

lemma live_area_files:
  assumes "live_area w ru p i place target key st = (out, st1)" "rs_files st1 \<noteq> rs_files st"
  obtains area tr where "fetch_area w p i place target = (Inr area, tr)" "complete_fetch w p i place target (fetches tr)"
    "out = Area_found area []"
  using assms by (auto simp: live_area_def Let_def partial_error_empty split: option.split_asm prod.split_asm sum.split_asm if_split_asm)

text \<open>
  C4: The cache of search results changes at a location only by a result that was fetched there, for which
  nothing usable was cached, and every attempt of which was complete: no route page of its discovery failed.
\<close>
theorem only_complete_results_cached:
  assumes "rs_files (snd (location_step w ru p i place st)) \<noteq> rs_files st"
  shows "\<exists>target area tr. location_search_url place (ru_rent ru) = Inr target
           \<and> (\<forall>v. cache_load (sw_codec w) (ru_cache ru) (sw_clock w i) (area_key w ru p place target) (rs_files st) \<noteq> Inr (Some v))
           \<and> fetch_area w p i place target = (Inr area, tr) \<and> complete_fetch w p i place target (fetches tr)"
proof -
  obtain e st2 where step: "location_step w ru p i place st = (e, st2)" by fastforce
  obtain target where target: "location_search_url place (ru_rent ru) = Inr target"
    using step assms by (cases "location_search_url place (ru_rent ru)")
      (auto simp: location_step_def dest: failed_place_output simp: only_output_def)
  obtain out st1 where area: "obtain_area w ru p i place target st = (out, st1)" by fastforce
  have "rs_files st2 = rs_files st1"
    using step target area by (cases out)
      (auto simp: location_step_def dest: failed_fetch_output finish_area_output simp: only_output_def)
  then have changed: "rs_files st1 \<noteq> rs_files st" using assms step by simp
  obtain found st3 where cached: "cached_area w ru i place (area_key w ru p place target) st = (found, st3)" by fastforce
  have "found = None" "rs_files st3 = rs_files st"
    using area changed cached_area_output [OF cached] cached
    by (auto simp: obtain_area_def area_key_def only_output_def split: option.split_asm prod.split_asm)
  moreover from this have "live_area w ru p i place target (area_key w ru p place target) st3 = (out, st1)"
    using area cached by (simp add: obtain_area_def area_key_def)
  ultimately show ?thesis
    using changed target cached by (elim live_area_files) (auto simp: cached_area_def split: sum.split_asm)
qed

text \<open>
  A location whose result is cached asks nothing: no request, no wait, no change of the cache, whatever
  becomes of its listings afterwards.
\<close>
theorem cached_location_asks_nothing:
  assumes "location_search_url place (ru_rent ru) = Inr target"
    and "cache_load (sw_codec w) (ru_cache ru) (sw_clock w i) (area_key w ru p place target) (rs_files st) = Inr (Some area)"
    and "location_step w ru p i place st = (e, st1)"
  shows "pacing (rs_events st1) = pacing (rs_events st) \<and> rs_live st1 = rs_live st \<and> rs_files st1 = rs_files st"
proof -
  have "obtain_area w ru p i place target st = (Area_found area [], st)"
    using assms(2) by (simp add: obtain_area_def cached_area_def area_key_def)
  then have "finish_area w ru p i place area [] st = (e, st1)" using assms(1,3) by (simp add: location_step_def)
  then show ?thesis using finish_area_output by blast
qed

section \<open>Waits between live requests\<close>

text \<open>Requests of different locations, in order, with the location delay between them.\<close>

definition asked_apart :: "int \<Rightarrow> (nat \<times> nat) list \<Rightarrow> run_event list" where
  "asked_apart d asked =
     (case asked of
        [] \<Rightarrow> []
      | (i, n) # rest \<Rightarrow> Requested_area i n # concat (map (\<lambda>(i, n). [Waited d, Requested_area i n]) rest))"

lemma asked_apart_snoc:
  "asked_apart d (asked @ [(i, n)]) = asked_apart d asked @ (if asked = [] then [] else [Waited d]) @ [Requested_area i n]"
  by (cases asked) (auto simp: asked_apart_def split: prod.splits)

definition paced_run :: "int \<Rightarrow> nat \<Rightarrow> run_state \<Rightarrow> bool" where
  "paced_run d i st \<longleftrightarrow> (\<exists>asked. pacing (rs_events st) = asked_apart d asked \<and> rs_live st = length asked
     \<and> sorted_wrt (<) (map fst asked) \<and> (\<forall>j \<in> fst ` set asked. j < i))"

lemma paced_only_output: "only_output st st1 \<Longrightarrow> paced_run d i st1 \<longleftrightarrow> paced_run d i st"
  by (simp add: paced_run_def only_output_def)

lemma paced_later: "paced_run d i st \<Longrightarrow> paced_run d (Suc i) st"
  unfolding paced_run_def using less_Suc_eq by blast

lemma save_area_fields [simp]:
  "rs_live (save_area w ru i place key area st) = rs_live st" "rs_areas (save_area w ru i place key area st) = rs_areas st"
  "pacing (rs_events (save_area w ru i place key area st)) = pacing (rs_events st)"
  by (auto simp: save_area_def Let_def split: prod.split option.split)

lemma live_area_paced:
  assumes "live_area w ru p i place target key st = (out, st1)" "paced_run (ru_location_delay ru) i st"
    "\<forall>err. out \<noteq> Wait_cancelled err"
  shows "paced_run (ru_location_delay ru) (Suc i) st1"
proof -
  from assms(2) obtain asked where asked: "pacing (rs_events st) = asked_apart (ru_location_delay ru) asked"
    "rs_live st = length asked" "sorted_wrt (<) (map fst asked)" "\<forall>j \<in> fst ` set asked. j < i"
    by (auto simp: paced_run_def)
  obtain n where "pacing (rs_events st1) = asked_apart (ru_location_delay ru) (asked @ [(i, n)])" "rs_live st1 = Suc (length asked)"
    using assms(1,3) asked(1,2)
    by (auto simp: live_area_def Let_def asked_apart_snoc split: option.split_asm prod.split_asm sum.split_asm if_split_asm)
  then show ?thesis
    using asked(3,4) by (auto simp: paced_run_def sorted_wrt_append less_Suc_eq intro!: exI [of _ "asked @ [(i, n)]"])
qed

lemma location_step_paced:
  assumes "location_step w ru p i place st = (None, st1)" "paced_run (ru_location_delay ru) i st"
  shows "paced_run (ru_location_delay ru) (Suc i) st1"
proof (cases "location_search_url place (ru_rent ru)")
  case (Inl msg)
  then show ?thesis
    using assms paced_only_output [OF failed_place_output] paced_later by (fastforce simp: location_step_def)
next
  case (Inr target)
  obtain out st2 where area: "obtain_area w ru p i place target st = (out, st2)" by fastforce
  obtain found st3 where cached: "cached_area w ru i place (area_key w ru p place target) st = (found, st3)" by fastforce
  have "paced_run (ru_location_delay ru) i st3" using assms(2) cached_area_output [OF cached] paced_only_output by blast
  moreover have finished: "\<forall>err. out \<noteq> Wait_cancelled err" using assms(1) Inr area by (auto simp: location_step_def)
  ultimately have two: "paced_run (ru_location_delay ru) (Suc i) st2"
    using area cached live_area_paced paced_later
    by (cases found) (auto simp: obtain_area_def area_key_def)
  show ?thesis
  proof (cases out)
    case (Area_found result partial)
    then have "finish_area w ru p i place result partial st2 = (None, st1)" using assms(1) Inr area by (simp add: location_step_def)
    then show ?thesis using two finish_area_output by (fastforce simp: paced_run_def)
  next
    case (Area_failed err)
    then have "failed_fetch w ru p place err st2 = (None, st1)" using assms(1) Inr area by (simp add: location_step_def)
    then show ?thesis using two paced_only_output failed_fetch_output by blast
  qed (use finished in simp)
qed

lemma run_locations_paced:
  "run_locations w ru p i places st = (None, st1) \<Longrightarrow> paced_run (ru_location_delay ru) i st
   \<Longrightarrow> paced_run (ru_location_delay ru) (i + length places) st1"
proof (induction places arbitrary: i st)
  case (Cons place places)
  then obtain st2 where "location_step w ru p i place st = (None, st2)" "run_locations w ru p (Suc i) places st2 = (None, st1)"
    by (auto split: prod.split_asm option.split_asm)
  then show ?case using Cons location_step_paced by fastforce
qed simp

text \<open>
  C28: The live requests of a search over locations are made in the order of the locations, at most one
  (with its retries) for each, and between two of them the location delay is waited out.
\<close>
theorem live_requests_spaced:
  assumes "run_locations w ru p 0 places (run_start files er) = (None, st)"
  shows "\<exists>asked. pacing (rs_events st) = asked_apart (ru_location_delay ru) asked \<and> sorted_wrt (<) (map fst asked)
           \<and> (\<forall>j \<in> fst ` set asked. j < length places)"
  using run_locations_paced [OF assms] by (auto simp: paced_run_def run_start_def asked_apart_def)

section \<open>Collected areas\<close>

lemma failed_area_fields [simp]:
  "lr_location (failed_area place msg) = place" "lr_listings (failed_area place msg) = []"
  "sm_returned (lr_metadata (failed_area place msg)) = 0"
  by (simp_all add: failed_area_def no_metadata_def)

lemma live_area_areas: "live_area w ru p i place target key st = (out, st1) \<Longrightarrow> rs_areas st1 = rs_areas st"
  by (auto simp: live_area_def Let_def split: option.split_asm prod.split_asm sum.split_asm if_split_asm)

lemma obtain_area_areas: "obtain_area w ru p i place target st = (out, st1) \<Longrightarrow> rs_areas st1 = rs_areas st"
  using cached_area_output live_area_areas
  by (fastforce simp: obtain_area_def Let_def split: option.split_asm prod.split_asm)

definition area_sound :: "int \<Rightarrow> location_result \<Rightarrow> bool" where
  "area_sound bound a \<longleftrightarrow> sm_returned (lr_metadata a) = int (length (lr_listings a))
     \<and> (bound > 0 \<longrightarrow> int (length (lr_listings a)) \<le> bound)"

lemma sort_and_limit_length: "pl_limit pl > 0 \<Longrightarrow> int (length (apply_sort_and_limit pl ls)) \<le> pl_limit pl"
  by (simp add: apply_sort_and_limit_def Let_def)

lemma annotate_history_length [simp]: "length (annotate_history pl ls) = length ls"
  by (simp add: annotate_history_def annotate_listing_history_def split: option.split)

lemma process_listings_length:
  "process_listings pl passes after_details er ls = (er1, final) \<Longrightarrow> pl_limit pl > 0 \<Longrightarrow> int (length final) \<le> pl_limit pl"
  by (auto simp: process_listings_def Let_def sort_and_limit_length split: option.split_asm prod.split_asm)

definition at_most_one_more :: "int \<Rightarrow> string \<Rightarrow> run_state \<Rightarrow> run_state \<Rightarrow> bool" where
  "at_most_one_more bound place st st1 \<longleftrightarrow>
     rs_areas st1 = rs_areas st \<or> (\<exists>a. rs_areas st1 = rs_areas st @ [a] \<and> lr_location a = place \<and> area_sound bound a)"

lemma append_area_areas:
  "append_area w ru p area st = (e, st1) \<Longrightarrow> rs_areas st = rs_areas st0 \<Longrightarrow> lr_location area = place \<Longrightarrow> area_sound bound area
   \<Longrightarrow> at_most_one_more bound place st0 st1"
  using print_lines_output [of w "location_lines area" st e st1]
  by (auto simp: append_area_def at_most_one_more_def split: if_split_asm)

lemma failed_area_sound [simp]: "area_sound bound (failed_area place msg)"
  by (simp add: area_sound_def)

lemma failed_place_areas: "failed_place w ru p place msg st = (e, st1) \<Longrightarrow> at_most_one_more bound place st st1"
  using append_area_areas [of w ru p "failed_area place msg" st e st1 st place bound]
  by (cases "single_location p") (simp_all add: failed_place_def at_most_one_more_def)

lemma failed_fetch_areas: "failed_fetch w ru p place err st = (e, st1) \<Longrightarrow> at_most_one_more bound place st st1"
  unfolding failed_fetch_def
  by (cases "single_location p") (simp add: at_most_one_more_def, simp, erule append_area_areas, simp_all)

lemma finish_area_areas:
  assumes "finish_area w ru p i place area partial st = (e, st1)"
  shows "at_most_one_more (pl_limit (ru_pipeline ru)) place st st1"
proof (cases "bound_area p place (sr_listings area)")
  case (Inl msg)
  then show ?thesis using assms failed_place_areas by (simp add: finish_area_def)
next
  case (Inr ls)
  obtain er final where made: "process_listings (ru_pipeline ru) (passes_of w p i) (after_details_of p place) (reset_pause (rs_enricher st)) ls
      = (er, final)" by fastforce
  have "append_area w ru p
      \<lparr>lr_location = place, lr_metadata = (sr_metadata area)\<lparr>sm_returned := int (length final)\<rparr>,
       lr_listings = final, lr_raw = sr_raw area, lr_error = partial\<rparr> (st\<lparr>rs_enricher := er\<rparr>) = (e, st1)"
    using assms Inr made by (simp add: finish_area_def)
  from append_area_areas [OF this, of st place "pl_limit (ru_pipeline ru)"] show ?thesis
    using process_listings_length [OF made] by (simp add: area_sound_def)
qed

lemma location_step_areas:
  assumes "location_step w ru p i place st = (e, st1)"
  shows "at_most_one_more (pl_limit (ru_pipeline ru)) place st st1"
proof (cases "location_search_url place (ru_rent ru)")
  case (Inl msg)
  then show ?thesis using assms failed_place_areas by (simp add: location_step_def)
next
  case (Inr target)
  obtain out st2 where area: "obtain_area w ru p i place target st = (out, st2)" by fastforce
  have same: "at_most_one_more bound place st st1 \<longleftrightarrow> at_most_one_more bound place st2 st1" for bound
    using obtain_area_areas [OF area] by (simp add: at_most_one_more_def)
  show ?thesis
  proof (cases out)
    case (Area_found result partial)
    then show ?thesis using assms Inr area finish_area_areas same by (simp add: location_step_def)
  next
    case (Area_failed err)
    then show ?thesis using assms Inr area failed_fetch_areas same by (simp add: location_step_def)
  qed (use assms Inr area same in \<open>simp add: location_step_def at_most_one_more_def\<close>)
qed

text \<open>
  Whatever happens in a run over locations, every collected area counts its listings in its metadata and
  holds no more of them than the limit.
\<close>
theorem areas_within_limit:
  "list_all (area_sound (pl_limit (ru_pipeline ru))) (rs_areas (snd (run_locations w ru p i places (run_start files er))))"
proof -
  have "list_all (area_sound (pl_limit (ru_pipeline ru))) (rs_areas st)
    \<longrightarrow> list_all (area_sound (pl_limit (ru_pipeline ru))) (rs_areas (snd (run_locations w ru p i places st)))" for st
    by (induction places arbitrary: i st)
       (auto simp: at_most_one_more_def split: prod.split option.split dest!: location_step_areas)
  then show ?thesis by (simp add: run_start_def)
qed

definition patient :: "search_world \<Rightarrow> bool" where
  "patient w \<longleftrightarrow> (\<forall>i. sw_location_wait w i = None)"

lemma patient_area:
  assumes "patient w" "obtain_area w ru p i place target st = (out, st1)"
  shows "out \<noteq> Wait_cancelled err"
  using assms
  by (auto simp: obtain_area_def live_area_def Let_def patient_def sleep_context_def
           split: option.split_asm prod.split_asm sum.split_asm if_split_asm)

text \<open>A location of several always ends in an area, unless the wait before it is cancelled.\<close>

lemma location_step_collects:
  assumes "patient w" "\<not> single_location p" "\<not> streamed ru p" "location_step w ru p i place st = (e, st1)"
  shows "e = None \<and> (\<exists>a. rs_areas st1 = rs_areas st @ [a] \<and> lr_location a = place)"
proof (cases "location_search_url place (ru_rent ru)")
  case (Inl msg)
  then show ?thesis using assms append_area_collects [OF assms(3)] by (auto simp: location_step_def failed_place_def)
next
  case (Inr target)
  obtain out st2 where area: "obtain_area w ru p i place target st = (out, st2)" by fastforce
  note kept = obtain_area_areas [OF area] and none = patient_area [OF assms(1) area] and collects = append_area_collects [OF assms(3)]
  show ?thesis
  proof (cases out)
    case (Area_found result partial)
    then show ?thesis
      using assms Inr area kept collects
      by (auto simp: location_step_def finish_area_def failed_place_def split: sum.split_asm prod.split_asm)
  next
    case (Area_failed err)
    then show ?thesis using assms Inr area kept collects by (auto simp: location_step_def failed_fetch_def)
  qed (use none in simp)
qed

lemma locations_collected:
  assumes "patient w" "\<not> single_location p" "\<not> streamed ru p"
  shows "fst (run_locations w ru p i places st) = None
         \<and> map lr_location (rs_areas (snd (run_locations w ru p i places st))) = map lr_location (rs_areas st) @ places"
proof (induction places arbitrary: i st)
  case (Cons place places)
  obtain e st1 where step: "location_step w ru p i place st = (e, st1)" by fastforce
  show ?case using location_step_collects [OF assms step] Cons.IH step by auto
qed simp


section \<open>Streaming\<close>

definition printed_of :: "run_event list \<Rightarrow> printed list" where
  "printed_of es = List.map_filter (\<lambda>e. case e of Printed_line q \<Rightarrow> Some q | _ \<Rightarrow> None) es"

definition unprinted :: "run_event list \<Rightarrow> run_event list" where
  "unprinted es = filter (\<lambda>e. case e of Printed_line q \<Rightarrow> False | _ \<Rightarrow> True) es"

lemma printed_simps [simp]:
  "printed_of [] = []" "printed_of (es @ es') = printed_of es @ printed_of es'" "printed_of (map Printed_line ps) = ps"
  "printed_of (map Warned ms) = []" "printed_of (Waited d # es) = printed_of es" "printed_of (Requested_area i n # es) = printed_of es"
  "printed_of (Warned m # es) = printed_of es" "unprinted [] = []" "unprinted (es @ es') = unprinted es @ unprinted es'"
  "unprinted (map Printed_line ps) = []" "unprinted (map Warned ms) = map Warned ms"
  "unprinted (Waited d # es) = Waited d # unprinted es" "unprinted (Requested_area i n # es) = Requested_area i n # unprinted es"
  "unprinted (Warned m # es) = Warned m # unprinted es"
  by (simp_all add: printed_of_def unprinted_def map_filter_simps List.map_filter_def comp_def filter_id_conv filter_empty_conv)

text \<open>The streaming and the collecting run of the same search.\<close>

definition streams :: "run_state \<Rightarrow> run_state \<Rightarrow> bool" where
  "streams st st2 \<longleftrightarrow> rs_files st = rs_files st2 \<and> rs_enricher st = rs_enricher st2 \<and> rs_live st = rs_live st2
     \<and> unprinted (rs_events st) = unprinted (rs_events st2) \<and> printed_of (rs_events st) = concat (map location_lines (rs_areas st2))"

definition collecting :: "run_settings \<Rightarrow> run_settings" where
  "collecting ru = ru\<lparr>ru_mode := ModeJSON\<rparr>"

lemma collecting_fields [simp]:
  "ru_rent (collecting ru) = ru_rent ru" "ru_raw (collecting ru) = ru_raw ru" "ru_cache (collecting ru) = ru_cache ru"
  "ru_location_delay (collecting ru) = ru_location_delay ru" "ru_pipeline (collecting ru) = ru_pipeline ru"
  "\<not> streamed (collecting ru) p"
  by (simp_all add: collecting_def streamed_def)

lemma print_lines_all:
  assumes "\<forall>n. sw_print_error w n = None"
  shows "print_lines w ps st = (None, st\<lparr>rs_events := rs_events st @ map Printed_line ps, rs_lines := rs_lines st + length ps\<rparr>)"
  using assms by (induction ps arbitrary: st) (auto simp: note_event_def)

lemma append_streams:
  assumes "\<forall>n. sw_print_error w n = None" "streamed ru p" "streams st st2"
  shows "\<exists>st3 st4. append_area w ru p area st = (None, st3) \<and> append_area w (collecting ru) p area st2 = (None, st4) \<and> streams st3 st4"
  using assms by (auto simp: append_area_def print_lines_all streams_def)

lemma streams_note: "streams st st2 \<Longrightarrow> streams (note_event (Warned m) st) (note_event (Warned m) st2)"
  by (simp add: streams_def)

lemma save_streams: "streams st st2 \<Longrightarrow> streams (save_area w ru i place key area st) (save_area w (collecting ru) i place key area st2)"
  by (cases "cache_save (sw_codec w) (ru_cache ru) (sw_save_clock w i) (sw_save_faults w i) (sw_temp w i) key (Some area) (rs_files st)")
     (auto simp: save_area_def Let_def streams_def split: option.split)

lemma live_streams:
  assumes "streams st st2"
  shows "\<exists>out st3 st4. live_area w ru p i place target key st = (out, st3)
           \<and> live_area w (collecting ru) p i place target key st2 = (out, st4) \<and> streams st3 st4"
proof -
  define wait where "wait = (if rs_live st > 0 then sleep_context (sw_location_wait w) i (ru_location_delay ru) else None)"
  define asked where "asked s = (if rs_live s > 0 then note_event (Waited (ru_location_delay ru)) s else s)" for s
  obtain res tr where fetched: "fetch_area w p i place target = (res, tr)" by fastforce
  define partial where "partial = partial_error w p i place target (fetches tr)"
  define noted where "noted s = note_all (Requested_area i (length (fetches tr)) # map Warned (fetch_warnings w p i place target (fetches tr)))
                            (asked s\<lparr>rs_live := Suc (rs_live (asked s))\<rparr>)" for s
  have live: "rs_live st2 = rs_live st" using assms by (simp add: streams_def)
  have rel: "streams (asked st) (asked st2)" "streams (noted st) (noted st2)"
    using assms by (auto simp: streams_def asked_def noted_def)
  have one: "live_area w ru p i place target key st = (case wait of Some err \<Rightarrow> (Wait_cancelled err, asked st) | None \<Rightarrow>
      (case res of Inl err \<Rightarrow> (Area_failed err, noted st)
       | Inr area \<Rightarrow> (Area_found area partial, if partial = [] then save_area w ru i place key area (noted st) else noted st)))"
    by (simp add: live_area_def Let_def wait_def asked_def noted_def partial_def fetched split: option.split sum.split)
  have two: "live_area w (collecting ru) p i place target key st2 = (case wait of Some err \<Rightarrow> (Wait_cancelled err, asked st2) | None \<Rightarrow>
      (case res of Inl err \<Rightarrow> (Area_failed err, noted st2)
       | Inr area \<Rightarrow> (Area_found area partial, if partial = [] then save_area w (collecting ru) i place key area (noted st2) else noted st2)))"
    by (simp add: live_area_def Let_def wait_def live asked_def noted_def partial_def fetched split: option.split sum.split)
  show ?thesis using rel save_streams [OF rel(2)] by (cases wait; cases res) (simp_all add: one two)
qed

lemma obtain_streams:
  assumes "streams st st2"
  shows "\<exists>out st3 st4. obtain_area w ru p i place target st = (out, st3)
           \<and> obtain_area w (collecting ru) p i place target st2 = (out, st4) \<and> streams st3 st4"
proof -
  have "rs_files st = rs_files st2" using assms by (simp add: streams_def)
  then obtain found st3 st4 where "cached_area w ru i place (area_key w ru p place target) st = (found, st3)"
    "cached_area w (collecting ru) i place (area_key w ru p place target) st2 = (found, st4)" and rel: "streams st3 st4"
    using assms streams_note [OF assms]
    by (cases "cache_load (sw_codec w) (ru_cache ru) (sw_clock w i) (area_key w ru p place target) (rs_files st2)")
       (simp_all add: cached_area_def)
  then show ?thesis
    using live_streams [OF rel] by (cases found) (simp_all add: obtain_area_def area_key_def)
qed

lemma step_streams:
  assumes "\<forall>n. sw_print_error w n = None" "streamed ru p" "streams st st2"
  shows "\<exists>e st3 st4. location_step w ru p i place st = (e, st3) \<and> location_step w (collecting ru) p i place st2 = (e, st4) \<and> streams st3 st4"
proof -
  note append = append_streams [OF assms(1,2)]
  have some: "\<not> single_location p" using assms(2) by (simp add: streamed_def single_location_def)
  show ?thesis
  proof (cases "location_search_url place (ru_rent ru)")
    case (Inl msg)
    then show ?thesis using append [OF assms(3), of "failed_area place msg"] some by (fastforce simp: location_step_def failed_place_def)
  next
    case (Inr target)
    obtain out st5 st6 where area: "obtain_area w ru p i place target st = (out, st5)"
      "obtain_area w (collecting ru) p i place target st2 = (out, st6)" and rel: "streams st5 st6"
      using obtain_streams [OF assms(3)] by blast
    show ?thesis
    proof (cases out)
      case (Area_found result partial)
      show ?thesis
      proof (cases "bound_area p place (sr_listings result)")
        case (Inl msg)
        then show ?thesis using \<open>location_search_url place (ru_rent ru) = Inr target\<close> area Area_found some append [OF rel, of "failed_area place msg"]
          by (fastforce simp: location_step_def finish_area_def failed_place_def)
      next
        case (Inr ls)
        obtain er final where made: "process_listings (ru_pipeline ru) (passes_of w p i) (after_details_of p place)
            (reset_pause (rs_enricher st5)) ls = (er, final)" by fastforce
        have "rs_enricher st5 = rs_enricher st6" "streams (st5\<lparr>rs_enricher := er\<rparr>) (st6\<lparr>rs_enricher := er\<rparr>)"
          using rel by (simp_all add: streams_def)
        then show ?thesis
          using append [of "st5\<lparr>rs_enricher := er\<rparr>" "st6\<lparr>rs_enricher := er\<rparr>"
            "\<lparr>lr_location = place, lr_metadata = (sr_metadata result)\<lparr>sm_returned := int (length final)\<rparr>,
              lr_listings = final, lr_raw = sr_raw result, lr_error = partial\<rparr>"]
            \<open>location_search_url place (ru_rent ru) = Inr target\<close> area Area_found Inr made
          by (fastforce simp: location_step_def finish_area_def)
      qed
    next
      case (Area_failed err)
      then show ?thesis
        using Inr area some
          append [OF streams_note [OF rel], where area = "failed_area place (error_text err)"]
        by (simp add: location_step_def failed_fetch_def) metis
    next
      case (Wait_cancelled err)
      then show ?thesis using Inr area rel by (auto simp: location_step_def)
    qed
  qed
qed

text \<open>
  C27: Streaming a search over several locations as JSON lines, each location as it completes, prints exactly
  what collecting all of them and printing the same format at the end would print, and does the same
  requests, waits, warnings and cache changes, as long as the printer works.
\<close>
theorem streaming_prints_the_same:
  assumes "\<forall>n. sw_print_error w n = None" and "streamed ru p"
  shows "fst (run_locations w ru p i places (run_start files er)) = fst (run_locations w (collecting ru) p i places (run_start files er))
         \<and> printed_of (rs_events (snd (run_locations w ru p i places (run_start files er))))
           = multi_location_output ModeJSONL (rs_areas (snd (run_locations w (collecting ru) p i places (run_start files er))))
         \<and> unprinted (rs_events (snd (run_locations w ru p i places (run_start files er))))
           = unprinted (rs_events (snd (run_locations w (collecting ru) p i places (run_start files er))))
         \<and> rs_files (snd (run_locations w ru p i places (run_start files er)))
           = rs_files (snd (run_locations w (collecting ru) p i places (run_start files er)))"
proof -
  have "\<exists>e st3 st4. run_locations w ru p i places st = (e, st3) \<and> run_locations w (collecting ru) p i places st2 = (e, st4) \<and> streams st3 st4"
    if "streams st st2" for i st st2
    using that
  proof (induction places arbitrary: i st st2)
    case (Cons place places)
    obtain e st3 st4 where step: "location_step w ru p i place st = (e, st3)" "location_step w (collecting ru) p i place st2 = (e, st4)"
      "streams st3 st4" using step_streams [OF assms Cons.prems] by blast
    then show ?case using Cons.IH [OF step(3), of "Suc i"] by (cases e) auto
  qed simp
  from this [of "run_start files er" "run_start files er" i] show ?thesis
    by (auto simp: streams_def run_start_def multi_location_output_def)
qed

section \<open>Examples\<close>

definition plain_plan :: search_plan where
  "plain_plan =
     \<lparr>pn_source = FromLocations, pn_locations = [''78701'', ''98101''], pn_headers = [],
      pn_boundary = \<lparr>bo_strict = False, bo_allowed_cities = [], bo_city_aliases = []\<rparr>, pn_sort_by = ''recommended'',
      pn_detail = example_detail, pn_retry = \<lparr>rp_retries = 0, rp_backoff = 0, rp_on_retry = False\<rparr>,
      pn_filters = filters_of example_flags [], pn_discovery = False, pn_options = no_discovery, pn_overrides = []\<rparr>"

definition strict_plan :: search_plan where
  "strict_plan = plain_plan\<lparr>pn_boundary := \<lparr>bo_strict = True, bo_allowed_cities = [], bo_city_aliases = []\<rparr>\<rparr>"

definition no_faults :: save_faults where
  "no_faults = \<lparr>sf_fault = (\<lambda>s. None), sf_written = 0, sf_remove_fails = False\<rparr>"

definition empty_result :: search_result where
  "empty_result = \<lparr>sr_listings = [], sr_metadata = no_metadata, sr_raw = []\<rparr>"

definition plain_codec :: "search_result cache_env" where
  "plain_codec =
     \<lparr>ce_digest = (\<lambda>k. ''k''), ce_encode_value = (\<lambda>v. Inr ''v''), ce_decode_value = (\<lambda>s. Inr empty_result),
      ce_encode_entry = (\<lambda>e. Inr ''e''), ce_decode_entry = (\<lambda>s. Inl ''no entry''), ce_windows = False,
      ce_stat_error = (\<lambda>k. None), ce_read_error = (\<lambda>k. None)\<rparr>"

definition plain_world :: search_world where
  "plain_world =
     \<lparr>sw_page = (\<lambda>i target a. Inr empty_result),
      sw_discovery = (\<lambda>i target a. \<lparr>ev_bootstrap = (\<lambda>n. Inl (Plain ''offline'')), ev_bootstrap_wait = (\<lambda>n d. None),
        ev_search = (\<lambda>p f n m. Inl (Plain ''offline'')), ev_page_wait = (\<lambda>n. None), ev_retry_wait = (\<lambda>n m d. None)\<rparr>),
      sw_retry_wait = (\<lambda>i n. None), sw_location_wait = (\<lambda>i. None),
      sw_passes = (\<lambda>i. \<lparr>ep_enrich = Pair, ep_recency = Pair\<rparr>), sw_codec = plain_codec, sw_render = (\<lambda>r. []),
      sw_clock = (\<lambda>i. 1), sw_save_clock = (\<lambda>i. 1), sw_save_faults = (\<lambda>i. no_faults), sw_temp = (\<lambda>i. ''1''),
      sw_print_error = (\<lambda>n. None), sw_profile = Inl ''none'', sw_snapshot = Inl ''none''\<rparr>"

definition sample_day :: date_time where
  "sample_day = \<lparr>dt_instant = 0, dt_offset = 0\<rparr>"

definition quiet_settings :: run_settings where
  "quiet_settings =
     \<lparr>ru_rent = True, ru_raw = False, ru_mode = ModeJSON, ru_location_delay = 5, ru_cache = Some \<lparr>dc_dir = ''d'', dc_ttl = 9\<rparr>,
      ru_pipeline = \<lparr>pl_discovery = False, pl_filters = filters_of example_flags [], pl_routes = [], pl_detail = example_detail,
        pl_today = sample_day, pl_sort_by = ''recommended'', pl_limit = 3, pl_previous = None\<rparr>\<rparr>"

abbreviation quiet_start :: run_state where
  "quiet_start \<equiv> run_start Map.empty (new_listing_detail_enricher Map.empty)"

lemma plain_modes: "patient plain_world" "\<not> single_location plain_plan" "\<not> streamed quiet_settings plain_plan"
  by (simp_all add: patient_def plain_world_def single_location_def plain_plan_def streamed_def quiet_settings_def)

theorem only_complete_results_cached_witness:
  "\<exists>target area tr. location_search_url ''78701'' True = Inr target
     \<and> (\<forall>v. cache_load plain_codec (ru_cache quiet_settings) 1 (area_key plain_world quiet_settings plain_plan ''78701'' target) Map.empty \<noteq> Inr (Some v))
     \<and> fetch_area plain_world plain_plan 0 ''78701'' target = (Inr area, tr) \<and> complete_fetch plain_world plain_plan 0 ''78701'' target (fetches tr)"
proof -
  have "rs_files (snd (location_step plain_world quiet_settings plain_plan 0 ''78701'' quiet_start)) (cache_path plain_codec []) \<noteq> None"
    by code_simp
  then have "rs_files (snd (location_step plain_world quiet_settings plain_plan 0 ''78701'' quiet_start)) \<noteq> rs_files quiet_start"
    by (auto simp: run_start_def)
  from only_complete_results_cached [OF this] show ?thesis by (simp add: plain_world_def quiet_settings_def run_start_def)
qed

definition stocked_world :: search_world where
  "stocked_world = plain_world\<lparr>sw_codec := plain_codec\<lparr>ce_decode_entry := (\<lambda>s. Inr \<lparr>en_version = 1, en_stored_at = 1,
      en_key = ''https://www.zillow.com/78701/rentals/|raw=false|discovery=false|options='', en_value = ''v''\<rparr>)\<rparr>\<rparr>"

definition stocked_start :: run_state where
  "stocked_start = run_start (\<lambda>q. Some \<lparr>cf_mode = 384, cf_data = ''e''\<rparr>) (new_listing_detail_enricher Map.empty)"

theorem cached_location_asks_nothing_witness:
  "pacing (rs_events (snd (location_step stocked_world quiet_settings plain_plan 0 ''78701'' stocked_start))) = []"
proof -
  have url: "location_search_url ''78701'' (ru_rent quiet_settings) = Inr ''https://www.zillow.com/78701/rentals/''" by code_simp
  have key: "area_key stocked_world quiet_settings plain_plan ''78701'' ''https://www.zillow.com/78701/rentals/''
      = ''https://www.zillow.com/78701/rentals/|raw=false|discovery=false|options=''"
    by (simp add: area_key_def search_result_cache_key_def stocked_world_def plain_world_def quiet_settings_def plain_plan_def)
  have "cache_load (sw_codec stocked_world) (ru_cache quiet_settings) (sw_clock stocked_world 0)
      (area_key stocked_world quiet_settings plain_plan ''78701'' ''https://www.zillow.com/78701/rentals/'') (rs_files stocked_start)
      = Inr (Some empty_result)"
    unfolding key by code_simp
  from cached_location_asks_nothing [OF url this] show ?thesis
    by (cases "location_step stocked_world quiet_settings plain_plan 0 ''78701'' stocked_start") (simp add: stocked_start_def run_start_def)
qed

theorem live_requests_spaced_witness:
  "\<exists>asked. pacing (rs_events (snd (run_locations plain_world quiet_settings plain_plan 0 [''78701'', ''98101''] quiet_start))) = asked_apart 5 asked"
proof -
  have "fst (run_locations plain_world quiet_settings plain_plan 0 [''78701'', ''98101''] quiet_start) = None"
    using locations_collected [OF plain_modes, where i = 0] by blast
  then have "run_locations plain_world quiet_settings plain_plan 0 [''78701'', ''98101''] quiet_start
    = (None, snd (run_locations plain_world quiet_settings plain_plan 0 [''78701'', ''98101''] quiet_start))"
    by (metis prod.collapse)
  from live_requests_spaced [OF this] show ?thesis by (auto simp: quiet_settings_def)
qed


theorem streaming_prints_the_same_witness:
  "fst (run_locations plain_world (quiet_settings\<lparr>ru_mode := ModeJSONL\<rparr>) plain_plan 0 [''78701'', ''98101''] quiet_start)
   = fst (run_locations plain_world (collecting (quiet_settings\<lparr>ru_mode := ModeJSONL\<rparr>)) plain_plan 0 [''78701'', ''98101''] quiet_start)"
proof -
  have "\<forall>n. sw_print_error plain_world n = None" "streamed (quiet_settings\<lparr>ru_mode := ModeJSONL\<rparr>) plain_plan"
    by (simp_all add: plain_world_def streamed_def plain_plan_def)
  from streaming_prints_the_same [OF this] show ?thesis by blast
qed

end
