(* ===== verification/Search_Pipeline_Props.thy ===== *)
theory Search_Pipeline_Props
  imports Search_Run_Props Detail_Filters_Props Detail_Enricher_Props
begin

text \<open>
  What the pipeline of a search lets through: without detail pages, exactly the listings that pass every
  filter; with them, nothing outside the requested boundary, whatever the pages say.
\<close>

section \<open>Without detail pages\<close>

text \<open>The filters on what a search result tells by itself.\<close>

definition passes_known :: "pipeline \<Rightarrow> listing \<Rightarrow> bool" where
  "passes_known pl l \<longleftrightarrow> basic_match (pl_filters pl) (pl_discovery pl) l
     \<and> (pl_discovery pl \<and> pl_routes pl \<noteq> [] \<longrightarrow> li_is_building l \<or> matches_discovery_bed_ranges l (pl_routes pl))"

definition inside :: "search_plan \<Rightarrow> string \<Rightarrow> listing \<Rightarrow> bool" where
  "inside p place l \<longleftrightarrow> \<not> needs_boundary p \<or> within_boundary place (pn_boundary p) False l"

lemma known_filters: "filter_beds pl False (filter_basic_listings pl ls) = filter (passes_known pl) ls"
  by (auto simp: filter_beds_def filter_basic_listings_def filter_discovered_listings_def filter_snapshot_listings_def
      filter_by_basic_metadata_def filter_by_discovery_bed_ranges_def passes_known_def intro!: filter_cong)

lemma boundary_is_filter: "(case after_details_of p place of None \<Rightarrow> ls | Some f \<Rightarrow> f ls) = filter (inside p place) ls"
  by (auto simp: after_details_of_def inside_def needs_boundary_def filter_by_location_boundary_def intro!: filter_cong)

lemma finalize_is_filter:
  "finalize_enriched_listings None ls o1 today (after_details_of p place)
   = List.map_filter (detail_kept o1 today) (filter (inside p place) ls)"
  unfolding finalize_enriched_listings_def boundary_is_filter filters_listingwise [symmetric]
  by (simp add: enrich_recency_after_detail_filters_def filter_detailed_listings_def Let_def)

text \<open>
  C26: Without detail pages the pipeline is one filter: it keeps exactly the listings that pass the basic
  filters and the bed ranges, lie within the boundary and are kept by the detail filter, sorts them, cuts
  them at the limit and labels them against the previous results; no order of its stages can lose one.
\<close>
theorem unenriched_results_exact:
  "process_listings pl None (after_details_of p place) er ls =
     (er, annotate_history pl (apply_sort_and_limit pl
        (List.map_filter (detail_kept (pl_detail pl) (pl_today pl)) (filter (\<lambda>l. passes_known pl l \<and> inside p place l) ls))))"
  by (simp add: process_listings_def known_filters finalize_is_filter conj_commute)

section \<open>With detail pages\<close>

text \<open>Only the address decides whether a listing is within a boundary.\<close>

lemma within_by_address: "li_address l = li_address k \<Longrightarrow> within_boundary q opts unknown l = within_boundary q opts unknown k"
  unfolding within_boundary_def by (simp only:)

definition all_within :: "search_plan \<Rightarrow> string \<Rightarrow> listing list \<Rightarrow> bool" where
  "all_within p place ls \<longleftrightarrow> list_all (within_boundary place (pn_boundary p) False) ls"

lemma all_within_addresses: "map li_address ls = map li_address ks \<Longrightarrow> all_within p place ls \<longleftrightarrow> all_within p place ks"
  unfolding all_within_def list_all_length
  by (metis (no_types, lifting) length_map nth_map within_by_address)

lemma all_within_filter: "all_within p place ls \<Longrightarrow> all_within p place (filter P ls)"
  by (simp add: all_within_def list_all_iff)

lemma judged_address [simp]: "li_address (judged rs l) = li_address l"
  by (simp add: judged_def)

lemma all_within_filtered:
  assumes "all_within p place ls"
  shows "all_within p place (filter_detailed_before_recency ls o1 today)"
proof -
  have same: "li_address k = li_address l" if "filter_detailed_listing o1 today l = Some k" for l k
    using that judged_address by (auto simp: filter_by_verdicts Let_def split: if_splits)
  have "all_within p place (List.map_filter (filter_detailed_listing o1 today) ls)"
    using assms unfolding all_within_def
    by (induction ls) (auto simp: map_filter_simps split: option.splits dest!: same within_by_address)
  then show ?thesis using assms by (simp add: filter_detailed_before_recency_def)
qed

lemma all_within_sorted: "all_within p place ls \<Longrightarrow> all_within p place (apply_sort_and_limit pl ls)"
proof -
  have "set (sort_listings ls mode) = set ls" for mode
    by (cases "mode = sort_recommended") (simp_all add: sort_listings_alt, simp add: sort_listings_def)
  then have "set (apply_sort_and_limit pl ls) \<subseteq> set ls"
    unfolding apply_sort_and_limit_def Let_def by (metis set_take_subset order_refl)
  then show "all_within p place ls \<Longrightarrow> all_within p place (apply_sort_and_limit pl ls)"
    by (auto simp: all_within_def list_all_iff)
qed

lemma annotated_addresses: "map li_address (annotate_history pl ls) = map li_address ls"
  by (simp add: annotate_history_def annotate_listing_history_def annotate_one_def Let_def comp_def split: option.split)

text \<open>The recency pass of the model's enricher.\<close>

definition recency_pass ::
  "enricher_config \<Rightarrow> (nat \<Rightarrow> int) \<Rightarrow> (nat \<Rightarrow> turn) \<Rightarrow> (nat \<Rightarrow> int) \<Rightarrow> enricher \<Rightarrow> listing list \<Rightarrow> enricher \<times> listing list" where
  "recency_pass cfg clock turns later er ls =
     (case enrich_recency cfg clock turns later ls er of (er1, ls1, _) \<Rightarrow> (er1, ls1))"

lemma recency_addresses: "map li_address (snd (recency_pass cfg clock turns later er ls)) = map li_address ls"
proof -
  let ?out = "enrich_recency cfg clock turns later ls er"
  have "fst (snd ?out) = ls \<or> (\<exists>er2 er3. backfill later 0 ls er2 = (er3, fst (snd ?out)))"
    by (auto simp: enrich_recency_def split: prod.splits)
  then have "map without_recency (fst (snd ?out)) = map without_recency ls" using backfill_spec by auto
  then have "map (li_address \<circ> without_recency) (fst (snd ?out)) = map (li_address \<circ> without_recency) ls"
    by (simp flip: map_map)
  moreover have "li_address \<circ> without_recency = li_address" by (simp add: fun_eq_iff without_recency_def)
  ultimately show ?thesis by (cases ?out) (simp add: recency_pass_def)
qed

lemma finalize_within:
  assumes "needs_boundary p"
  shows "all_within p place (snd (finalize_with pl \<lparr>ep_enrich = f, ep_recency = recency_pass cfg clock turns later\<rparr>
           (after_details_of p place) er ls))"
proof -
  have start: "all_within p place (filter (inside p place) ls)" using assms by (simp add: all_within_def list_all_iff inside_def)
  have rec: "all_within p place (snd (recency_pass cfg clock turns later er ks))" if "all_within p place ks" for ks
    using all_within_addresses [OF recency_addresses] that by blast
  show ?thesis
    unfolding finalize_with_def finalize_enriched_listings_def boundary_is_filter
    using all_within_filtered [OF start] rec
    by (simp add: enrich_recency_after_detail_filters_def filter_listings_by_recency_def Let_def all_within_filter)
qed

text \<open>
  With a boundary, no listing outside it is reported: whatever the first pass makes of the listings (a
  community page may put units of other towns in a listing's place), and however the recency pass of the
  enricher goes, every listing at the end of the pipeline is within the boundary, an unknown place counting
  as outside.
\<close>
theorem boundary_kept_to_the_end:
  assumes "needs_boundary p"
  shows "list_all (within_boundary place (pn_boundary p) False)
           (snd (process_listings pl (Some \<lparr>ep_enrich = f, ep_recency = recency_pass cfg clock turns later\<rparr>)
                   (after_details_of p place) er ls))"
proof -
  let ?ep = "\<lparr>ep_enrich = f, ep_recency = recency_pass cfg clock turns later\<rparr>"
  obtain er1 detailed where d: "f er (prepare_for_enrichment pl (filter_beds pl True (filter_basic_listings pl ls))) = (er1, detailed)"
    by fastforce
  obtain er2 final where e: "finalize_with pl ?ep (after_details_of p place) er1 (filter_beds pl False (filter_basic_listings pl detailed))
      = (er2, final)" by fastforce
  have "all_within p place final" using finalize_within [OF assms, of place pl f cfg clock turns later er1] e by (metis snd_conv)
  then have "all_within p place (annotate_history pl (apply_sort_and_limit pl final))"
    using all_within_sorted all_within_addresses [OF annotated_addresses] by blast
  then show ?thesis by (simp add: process_listings_def d e all_within_def)
qed

theorem boundary_kept_to_the_end_witness:
  "list_all (within_boundary ''78701'' (pn_boundary strict_plan) False)
     (snd (process_listings (ru_pipeline quiet_settings)
        (Some \<lparr>ep_enrich = (\<lambda>er ls. (er, ls @ ls)), ep_recency = recency_pass sample_config (\<lambda>i. 0) (\<lambda>i. undefined) (\<lambda>i. 0)\<rparr>)
        (after_details_of strict_plan ''78701'') (new_listing_detail_enricher Map.empty) []))"
  by (rule boundary_kept_to_the_end) (simp add: needs_boundary_def strict_plan_def)

end
