(* ===== verification/Har_Files.thy ===== *)
theory Har_Files
  imports Har_Rank Search_Profile Disk_Cache_Props
begin

text \<open>
  The files beside caches and sessions: HAR archives (\<open>LoadFile\<close>, \<open>SaveFile\<close> of \<open>internal/har/har.go\<close>),
  derived search profiles (\<open>saveSearchTemplateFile\<close> of \<open>internal/cli/har.go\<close>), and the search profiles a search
  reads (\<open>LoadSearchProfile\<close>, \<open>LoadSearchProfileFile\<close> of \<open>internal/zillow/profile.go\<close>). A file is opened as its
  content or the error of \<open>os.Open\<close>. A file is replaced through a temporary one as in \<open>Disk_Cache\<close>; the name
  that \<open>os.CreateTemp\<close> chose is a parameter. A document that cannot be encoded is a write that fails before its
  first byte.

  Such files are written like caches and sessions: whole or not at all, and readable by their owner alone; only
  valid documents are written, and only valid ones are read.
\<close>

section \<open>HAR archives\<close>

definition load_har_file :: "har_env \<Rightarrow> string \<Rightarrow> string + string \<Rightarrow> string + archive" where
  "load_har_file env path file0 =
     (case file0 of
        Inl err \<Rightarrow> Inl (''load HAR '' @ quote path @ '': '' @ err)
      | Inr data \<Rightarrow>
          (case load_archive env (Some data) of
             Inl err \<Rightarrow> Inl (''load HAR '' @ quote path @ '': '' @ err)
           | Inr a \<Rightarrow> Inr a))"

fun har_step_text :: "save_step \<Rightarrow> string" where
  "har_step_text CreateTemp = ''create temporary file: ''"
| "har_step_text RestrictTemp = ''set permissions: ''"
| "har_step_text SyncTemp = ''sync: ''"
| "har_step_text CloseTemp = ''close: ''"
| "har_step_text RenameTemp = ''rename: ''"
| "har_step_text WriteTemp = []"
| "har_step_text MakeDir = []"
| "har_step_text RestrictDir = []"

definition har_step_error :: "string \<Rightarrow> save_step \<Rightarrow> string \<Rightarrow> string" where
  "har_step_error path s err = ''save HAR '' @ quote path @ '': '' @ har_step_text s @ err"

definition har_write_error :: "string \<Rightarrow> string" where
  "har_write_error err = ''save HAR: encode: '' @ err"

text \<open>Writing a document: its encoder's error comes before a byte is written; \<open>wrapped\<close> words an error of the file.\<close>

definition document_faults :: "(string \<Rightarrow> string) \<Rightarrow> string + string \<Rightarrow> save_faults \<Rightarrow> save_faults" where
  "document_faults wrapped document faults =
     (case document of
        Inl err \<Rightarrow> faults\<lparr>sf_fault := (sf_fault faults)(WriteTemp := Some err), sf_written := 0\<rparr>
      | Inr text \<Rightarrow> faults\<lparr>sf_fault := (sf_fault faults)(WriteTemp := map_option wrapped (sf_fault faults WriteTemp))\<rparr>)"

definition document_bytes :: "string + string \<Rightarrow> string" where
  "document_bytes document = (case document of Inl err \<Rightarrow> [] | Inr text \<Rightarrow> text)"

definition replace_by_document ::
  "(save_step \<Rightarrow> string \<Rightarrow> string) \<Rightarrow> (string \<Rightarrow> string) \<Rightarrow> save_faults \<Rightarrow> string \<Rightarrow> string \<Rightarrow> string + string \<Rightarrow> file_system
   \<Rightarrow> string option \<times> file_system list" where
  "replace_by_document label wrapped faults path temp document files =
     replace_file label (document_faults wrapped document faults) path temp (document_bytes document) files"

definition save_har_file ::
  "har_env \<Rightarrow> bool \<Rightarrow> save_faults \<Rightarrow> string \<Rightarrow> string \<Rightarrow> archive option \<Rightarrow> file_system \<Rightarrow> string option \<times> file_system list" where
  "save_har_file env windows faults path temp a0 files =
     (if windows then (Some ''save HAR: owner-only file writes are unsupported on Windows'', [files])
      else case validate_archive a0 of
             Some msg \<Rightarrow> (Some (''save HAR '' @ quote path @ '': '' @ msg), [files])
           | None \<Rightarrow>
               replace_by_document (har_step_error path) har_write_error faults path temp
                 (save_archive env a0) files)"

section \<open>Derived search profiles\<close>

fun template_step_text :: "save_step \<Rightarrow> string" where
  "template_step_text CreateTemp = ''create temporary search profile: ''"
| "template_step_text RestrictTemp = ''restrict temporary search profile permissions: ''"
| "template_step_text SyncTemp = ''sync temporary search profile: ''"
| "template_step_text CloseTemp = ''close temporary search profile: ''"
| "template_step_text RenameTemp = ''replace search profile: ''"
| "template_step_text WriteTemp = []"
| "template_step_text MakeDir = []"
| "template_step_text RestrictDir = []"

definition template_step_error :: "save_step \<Rightarrow> string \<Rightarrow> string" where
  "template_step_error s err = template_step_text s @ err"

definition template_write_error :: "string \<Rightarrow> string" where
  "template_write_error err = ''save search template: '' @ err"

definition save_search_template_file ::
  "(search_template \<Rightarrow> string + string) \<Rightarrow> bool \<Rightarrow> save_faults \<Rightarrow> string \<Rightarrow> string \<Rightarrow> search_template option \<Rightarrow> file_system
   \<Rightarrow> string option \<times> file_system list" where
  "save_search_template_file write windows faults path temp t0 files =
     (if windows then (Some ''save search profile: owner-only file writes are unsupported on Windows'', [files])
      else replace_by_document template_step_error template_write_error faults path temp
             (save_search_template write t0) files)"

section \<open>Search profiles\<close>

datatype profile_text = BadProfile string | TrailingProfile "string option" | OneProfile search_profile

text \<open>\<open>decode\<close> is the strict JSON decoder of a \<open>SearchProfile\<close> and of what follows the first value.\<close>

definition load_search_profile :: "(string \<Rightarrow> profile_text) \<Rightarrow> string option \<Rightarrow> go_error + search_profile" where
  "load_search_profile decode reader =
     (case reader of
        None \<Rightarrow> Inl (Plain ''load search profile: reader is nil'')
      | Some data \<Rightarrow>
          (case decode data of
             BadProfile msg \<Rightarrow> Inl (Wrap ''load search profile'' (Plain msg))
           | TrailingProfile None \<Rightarrow> Inl (Plain ''load search profile: multiple JSON values'')
           | TrailingProfile (Some msg) \<Rightarrow> Inl (Wrap ''load search profile: trailing data'' (Plain msg))
           | OneProfile p \<Rightarrow>
               (case validate_profile p of
                  Some err \<Rightarrow> Inl (Wrap ''load search profile'' err)
                | None \<Rightarrow> Inr p)))"

definition parse_search_profile :: "(string \<Rightarrow> profile_text) \<Rightarrow> string \<Rightarrow> go_error + search_profile" where
  "parse_search_profile decode data = load_search_profile decode (Some data)"

definition load_search_profile_file :: "(string \<Rightarrow> profile_text) \<Rightarrow> string \<Rightarrow> string + string \<Rightarrow> go_error + search_profile" where
  "load_search_profile_file decode path file0 =
     (case file0 of
        Inl err \<Rightarrow> Inl (Wrap ''load search profile file'' (Plain err))
      | Inr data \<Rightarrow>
          (case load_search_profile decode (Some data) of
             Inl err \<Rightarrow> Inl (Wrap (''load search profile file '' @ quote path) err)
           | Inr p \<Rightarrow> Inr p))"

section \<open>Documents\<close>

lemma document_faults_other [simp]:
  "sf_remove_fails (document_faults wrapped document faults) = sf_remove_fails faults"
  "s \<noteq> WriteTemp \<Longrightarrow> sf_fault (document_faults wrapped document faults) s = sf_fault faults s"
  by (simp_all add: document_faults_def split: sum.split)

text \<open>What replacing a file by a document does, in one statement.\<close>

definition replaced_by ::
  "string + string \<Rightarrow> bool \<Rightarrow> string \<Rightarrow> string \<Rightarrow> file_system \<Rightarrow> string option \<Rightarrow> file_system list \<Rightarrow> bool" where
  "replaced_by document leftover path temp files res trace \<longleftrightarrow>
     (\<forall>fs \<in> set trace. \<forall>n. n \<noteq> temp \<longrightarrow> fs n = files n
        \<or> n = path \<and> (\<exists>text. document = Inr text \<and> fs n = Some \<lparr>cf_mode = 384, cf_data = text\<rparr>))
     \<and> (res \<noteq> None \<longrightarrow> (\<forall>n. n \<noteq> temp \<longrightarrow> last trace n = files n))
     \<and> (res = None \<longrightarrow> (\<exists>text. document = Inr text \<and> last trace path = Some \<lparr>cf_mode = 384, cf_data = text\<rparr>))
     \<and> (\<not> leftover \<longrightarrow> last trace temp = None)"

text \<open>A document that cannot be encoded never reaches the renaming.\<close>

lemma unencoded_kept:
  assumes "replace_file label (document_faults wrapped (Inl msg) faults) path temp data files = (res, trace)" "path \<noteq> temp" "files temp = None"
  shows "res \<noteq> None \<and> (\<forall>fs \<in> set trace. all_old files temp fs)"
  using assms
  by (auto simp: replace_file_def after_temp_def document_faults_def failed_effect_def all_old_def split: option.split_asm if_split_asm)

lemma replace_by_document_spec:
  assumes "replace_by_document label wrapped faults path temp document files = (res, trace)" and "path \<noteq> temp" "files temp = None"
  shows "replaced_by document (sf_remove_fails faults) path temp files res trace"
proof -
  have run: "replace_file label (document_faults wrapped document faults) path temp (document_bytes document) files = (res, trace)"
    using assms(1) by (simp add: replace_by_document_def)
  note spec = replace_file_spec [OF run assms(2,3)]
  show ?thesis
  proof (cases document)
    case (Inl msg)
    then have "res \<noteq> None" "\<forall>fs \<in> set trace. all_old files temp fs"
      using unencoded_kept [of label wrapped msg faults path temp _ files res trace] run assms(2,3) by auto
    then show ?thesis using spec by (auto simp: replaced_by_def replaced_def all_old_def)
  next
    case (Inr bytes)
    then show ?thesis using spec
      by (auto simp: replaced_by_def replaced_def old_or_whole_def all_old_def document_bytes_def private_mode_def)
  qed
qed

lemma untouched_document: "files temp = None \<Longrightarrow> replaced_by document leftover path temp files (Some msg) [files]"
  by (simp add: replaced_by_def)

lemma har_save_spec:
  assumes "save_har_file env windows faults path temp a0 files = (res, trace)" and "path \<noteq> temp" and "files temp = None"
  shows "replaced_by (save_archive env a0) (sf_remove_fails faults) path temp files res trace
         \<and> (last trace \<noteq> files \<and> last trace temp = None \<longrightarrow> \<not> windows \<and> validate_archive a0 = None)"
proof (cases "windows \<or> validate_archive a0 \<noteq> None")
  case True
  then obtain msg where "res = Some msg" "trace = [files]" using assms(1) by (auto simp: save_har_file_def split: if_split_asm)
  then show ?thesis using assms(3) untouched_document by simp
next
  case False
  then have "replace_by_document (har_step_error path) har_write_error faults path temp (save_archive env a0) files = (res, trace)"
    using assms(1) by (simp add: save_har_file_def)
  from replace_by_document_spec [OF this assms(2,3)] show ?thesis using False by simp
qed

text \<open>
  Saving a HAR archive is atomic and private: whichever system call fails, and wherever the process is
  stopped, the file is the old one or the complete encoding of the archive, readable by its owner alone; after
  an error nothing has changed, and only an archive that passes its validation is written.
\<close>
theorem har_save_atomic:
  assumes "save_har_file env windows faults path temp a0 files = (res, trace)" and "path \<noteq> temp" and "files temp = None"
  shows "replaced_by (save_archive env a0) (sf_remove_fails faults) path temp files res trace
         \<and> (last trace \<noteq> files \<and> last trace temp = None \<longrightarrow> \<not> windows \<and> validate_archive a0 = None)"
  by (rule har_save_spec [OF assms])

lemma template_save_spec:
  assumes "save_search_template_file write windows faults path temp t0 files = (res, trace)" and "path \<noteq> temp" and "files temp = None"
  shows "replaced_by (save_search_template write t0) (sf_remove_fails faults) path temp files res trace
         \<and> (res = None \<longrightarrow> (\<exists>t. t0 = Some t \<and> validate_template t = None))"
proof (cases windows)
  case True
  then obtain msg where "res = Some msg" "trace = [files]" using assms(1) by (auto simp: save_search_template_file_def)
  then show ?thesis using assms(3) untouched_document by simp
next
  case False
  then have "replace_by_document template_step_error template_write_error faults path temp
      (save_search_template write t0) files = (res, trace)"
    using assms(1) by (simp add: save_search_template_file_def)
  from replace_by_document_spec [OF this assms(2,3)] show ?thesis
    by (auto simp: replaced_by_def save_search_template_def split: option.splits)
qed

text \<open>
  Saving a derived search profile is atomic and private in the same way, and a template that does not
  pass its validation is never written.
\<close>
theorem template_save_atomic:
  assumes "save_search_template_file write windows faults path temp t0 files = (res, trace)" and "path \<noteq> temp" and "files temp = None"
  shows "replaced_by (save_search_template write t0) (sf_remove_fails faults) path temp files res trace
         \<and> (res = None \<longrightarrow> (\<exists>t. t0 = Some t \<and> validate_template t = None))"
  by (rule template_save_spec [OF assms])

text \<open>
  Whatever a file holds, an archive that is loaded passes the validation of HAR 1.2 and a search profile
  that is loaded passes its own, so that it can only name the search operation.
\<close>
theorem loaded_documents_valid:
  "(case load_har_file env path file0 of Inl _ \<Rightarrow> True | Inr a \<Rightarrow> validate_archive (Some a) = None)
   \<and> (case load_search_profile_file decode path file0 of Inl _ \<Rightarrow> True | Inr p \<Rightarrow> validate_profile p = None)"
  by (auto simp: load_har_file_def load_archive_def load_search_profile_file_def load_search_profile_def
           split: sum.split option.split option.split_asm sum.split_asm archive_text.split_asm profile_text.split_asm)


section \<open>Examples\<close>

definition two_temp :: file_system where "two_temp = Map.empty(''old.har'' \<mapsto> \<lparr>cf_mode = 384, cf_data = ''old''\<rparr>)"

definition failing_rename :: save_faults where
  "failing_rename = \<lparr>sf_fault = (\<lambda>s. if s = RenameTemp then Some ''denied'' else None), sf_written = 0, sf_remove_fails = False\<rparr>"

theorem har_save_atomic_witness:
  "last (snd (save_har_file one_archive_env False failing_rename ''old.har'' ''t'' (Some small_archive) two_temp)) ''t'' = None"
proof -
  let ?run = "save_har_file one_archive_env False failing_rename ''old.har'' ''t'' (Some small_archive) two_temp"
  have "?run = (fst ?run, snd ?run)" by simp
  from har_save_atomic [OF this] show ?thesis by (simp add: replaced_by_def two_temp_def failing_rename_def)
qed

theorem template_save_atomic_witness:
  "last (snd (save_search_template_file (\<lambda>t. Inr ''{}'') False failing_rename ''p.json'' ''t'' None two_temp)) ''old.har''
   = Some \<lparr>cf_mode = 384, cf_data = ''old''\<rparr>"
proof -
  let ?run = "save_search_template_file (\<lambda>t. Inr ''{}'') False failing_rename ''p.json'' ''t'' None two_temp"
  have run: "?run = (fst ?run, snd ?run)" by simp
  have "''p.json'' \<noteq> ''t''" "two_temp ''t'' = None" by (simp_all add: two_temp_def)
  note atomic = template_save_atomic [OF run this]
  then have "fst ?run \<noteq> None" by auto
  then have "last (snd ?run) ''old.har'' = two_temp ''old.har''" using atomic unfolding replaced_by_def by simp
  then show ?thesis by (simp add: two_temp_def)
qed

definition no_fault :: save_faults where "no_fault = \<lparr>sf_fault = (\<lambda>s. None), sf_written = 0, sf_remove_fails = False\<rparr>"


end
