(* ===== verification/Capture.thy ===== *)
theory Capture
  imports Recorder_Archive Zillow_URL
begin

text \<open>
  The capture of a page load (\<open>internal/cdphar/capture.go\<close>): options, the endpoint of the browser and its
  discovery over HTTP, errors without the addresses they mention, the creator of the archive, and the intake of
  events with its buffer and its queue of body fetches. The browser, the network and the clock are parameters;
  a step of the intake is what happens while \<open>taskMu\<close> is held, or one worker's part of a fetch.
\<close>

section \<open>IP addresses\<close>

text \<open>\<open>net.ParseIP\<close>: four decimal fields without leading zeros, or groups of hex digits around at most one ellipsis.\<close>

fun decimal_value :: "nat \<Rightarrow> string \<Rightarrow> nat" where
  "decimal_value acc [] = acc"
| "decimal_value acc (c # cs) = decimal_value (10 * acc + (byte c - 48)) cs"

definition ipv4_field :: "string \<Rightarrow> nat option" where
  "ipv4_field f =
     (if f = [] \<or> length f > 3 \<or> \<not> list_all is_digit f \<or> (length f > 1 \<and> hd f = CHR ''0'') then None
      else let n = decimal_value 0 f in if n > 255 then None else Some n)"

definition parse_ipv4 :: "string \<Rightarrow> nat list option" where
  "parse_ipv4 s =
     (let fields = split_byte CHR ''.'' s in
      if length fields \<noteq> 4 then None else those (map ipv4_field fields))"

definition hex_prefix :: "string \<Rightarrow> string" where
  "hex_prefix s = takeWhile (\<lambda>c. hex_value c \<noteq> None) s"

definition hex_group :: "string \<Rightarrow> nat" where
  "hex_group s = foldl (\<lambda>acc c. 16 * acc + the (hex_value c)) 0 s"

text \<open>The loop over the groups, with the number of groups left, the bytes so far and where the ellipsis stands.\<close>

fun ipv6_groups :: "nat \<Rightarrow> string \<Rightarrow> nat list \<Rightarrow> nat option \<Rightarrow> (string \<times> nat list \<times> nat option) option" where
  "ipv6_groups 0 s bytes gap = Some (s, bytes, gap)"
| "ipv6_groups (Suc left) s bytes gap =
     (let digits = hex_prefix s; rest = drop (length digits) s in
      if digits = [] \<or> length digits > 4 then None
      else if rest \<noteq> [] \<and> hd rest = CHR ''.'' then
        (if (gap = None \<and> length bytes \<noteq> 12) \<or> length bytes > 12 then None
         else case parse_ipv4 s of None \<Rightarrow> None | Some v4 \<Rightarrow> Some ([], bytes @ v4, gap))
      else let bytes1 = bytes @ [hex_group digits div 256, hex_group digits mod 256] in
        case rest of
          [] \<Rightarrow> Some ([], bytes1, gap)
        | [c] \<Rightarrow> None
        | c # d # more1 \<Rightarrow>
            if c \<noteq> CHR '':'' then None
            else if d = CHR '':'' then
              (if gap \<noteq> None then None
               else if more1 = [] then Some ([], bytes1, Some (length bytes1))
               else ipv6_groups left more1 bytes1 (Some (length bytes1)))
            else ipv6_groups left (d # more1) bytes1 gap)"

text \<open>Zeros for the ellipsis, which stands for at least one group.\<close>

definition expand_gap :: "string \<times> nat list \<times> nat option \<Rightarrow> nat list option" where
  "expand_gap parsed =
     (case parsed of (s, bytes, gap) \<Rightarrow>
        if s \<noteq> [] then None
        else case gap of
               None \<Rightarrow> if length bytes = 16 then Some bytes else None
             | Some g \<Rightarrow> if length bytes \<ge> 16 then None
                         else Some (take g bytes @ replicate (16 - length bytes) 0 @ drop g bytes))"

definition parse_ipv6 :: "string \<Rightarrow> nat list option" where
  "parse_ipv6 s =
     (if s = ''::'' then Some (replicate 16 0)
      else if has_prefix s ''::'' then Option.bind (ipv6_groups 8 (drop 2 s) [] (Some 0)) expand_gap
      else Option.bind (ipv6_groups 8 s [] None) expand_gap)"

text \<open>A zone is not an address for \<open>net.ParseIP\<close>; the first dot or colon tells the families apart.\<close>

definition parse_ip :: "string \<Rightarrow> nat list option" where
  "parse_ip s =
     (if CHR ''%'' \<in> set s then None
      else case dropWhile (\<lambda>c. c \<noteq> CHR ''.'' \<and> c \<noteq> CHR '':'') s of
             [] \<Rightarrow> None
           | c # _ \<Rightarrow> if c = CHR ''.'' then parse_ipv4 s else parse_ipv6 s)"

definition ipv4_in_ipv6 :: "nat list" where
  "ipv4_in_ipv6 = replicate 10 0 @ [255, 255]"

definition ip_is_loopback :: "nat list \<Rightarrow> bool" where
  "ip_is_loopback ip \<longleftrightarrow>
     (if length ip = 4 then hd ip = 127
      else if take 12 ip = ipv4_in_ipv6 then ip ! 12 = 127
      else ip = replicate 15 0 @ [1])"

definition is_loopback_host :: "string \<Rightarrow> bool" where
  "is_loopback_host host \<longleftrightarrow>
     equal_fold (trim_space host) ''localhost'' \<or> (case parse_ip host of None \<Rightarrow> False | Some ip \<Rightarrow> ip_is_loopback ip)"

section \<open>Options\<close>

record capture_options =
  co_endpoint :: string
  co_url :: string
  co_wait :: int
  co_timeout :: int
  co_bodies :: bool
  co_allow_remote :: bool
  co_creator_name :: string
  co_creator_version :: string

definition default_endpoint :: string where "default_endpoint = ''http://127.0.0.1:9222''"

definition capture_timeout :: int where "capture_timeout = 45 * 10 ^ 9"

definition with_defaults :: "capture_options \<Rightarrow> capture_options" where
  "with_defaults o1 =
     o1\<lparr>co_endpoint := (if trim_space (co_endpoint o1) = [] then default_endpoint else co_endpoint o1),
        co_timeout := (if co_timeout o1 = 0 then capture_timeout else co_timeout o1),
        co_creator_name := (if trim_space (co_creator_name o1) = [] then ''gozillo'' else co_creator_name o1),
        co_creator_version := (if trim_space (co_creator_version o1) = [] then ''unknown'' else co_creator_version o1)\<rparr>"

definition browser_path_prefix :: string where "browser_path_prefix = ''/devtools/browser/''"

definition is_browser_web_socket_path :: "string \<Rightarrow> bool" where
  "is_browser_web_socket_path path \<longleftrightarrow> has_prefix path browser_path_prefix \<and> trim_prefix path browser_path_prefix \<noteq> []"

definition endpoint_fault :: "bool \<Rightarrow> go_url \<Rightarrow> string option" where
  "endpoint_fault allow_remote e =
     (let scheme = to_lower (u_scheme e) in
      if scheme = ''http'' \<and> u_path e \<noteq> [] \<and> u_path e \<noteq> ''/'' then Some ''capture HAR: HTTP CDP endpoint must not include a path''
      else if scheme = ''http'' \<and> \<not> is_loopback_host (url_hostname e)
      then Some ''capture HAR: remote CDP requires an exact browser WebSocket URL''
      else if (scheme = ''ws'' \<or> scheme = ''wss'') \<and> \<not> is_browser_web_socket_path (u_path e)
      then Some ''capture HAR: WebSocket endpoint must be an exact browser WebSocket URL''
      else if scheme \<notin> {''http'', ''ws'', ''wss''} then Some ''capture HAR: CDP endpoint scheme must be http, ws, or wss''
      else if \<not> allow_remote \<and> \<not> is_loopback_host (url_hostname e)
      then Some ''capture HAR: CDP endpoint must be loopback unless remote access is explicitly allowed''
      else None)"

text \<open>\<open>endpoint.Host == "" || endpoint.User != nil\<close>, and an error of the parser.\<close>

definition bare_url :: "string \<Rightarrow> go_url option" where
  "bare_url raw =
     (case url_parse raw of
        None \<Rightarrow> None
      | Some u \<Rightarrow> if u_host u = [] \<or> u_userinfo u \<noteq> None then None else Some u)"

definition validate_capture :: "capture_options \<Rightarrow> string option" where
  "validate_capture o1 =
     (case bare_url (co_endpoint o1) of
        None \<Rightarrow> Some ''capture HAR: invalid CDP endpoint''
      | Some e \<Rightarrow>
          (case endpoint_fault (co_allow_remote o1) e of
             Some msg \<Rightarrow> Some msg
           | None \<Rightarrow>
               (case bare_url (co_url o1) of
                  None \<Rightarrow> Some ''capture HAR: invalid URL''
                | Some t \<Rightarrow>
                    if u_scheme t \<noteq> ''http'' \<and> u_scheme t \<noteq> ''https'' then Some ''capture HAR: URL scheme must be http or https''
                    else if co_wait o1 < 0 then Some ''capture HAR: wait duration must be non-negative''
                    else if co_timeout o1 \<le> 0 then Some ''capture HAR: timeout must be positive''
                    else if co_wait o1 \<ge> co_timeout o1 then Some ''capture HAR: wait duration must be shorter than timeout''
                    else None)))"

section \<open>Errors without addresses\<close>

text \<open>\<open>strings.ReplaceAll\<close> with a non-empty old text.\<close>

function replace_all :: "string \<Rightarrow> string \<Rightarrow> string \<Rightarrow> string" where
  "replace_all old new [] = []"
| "replace_all old new (c # cs) =
     (if old \<noteq> [] \<and> has_prefix (c # cs) old then new @ replace_all old new (drop (length old - 1) cs)
      else c # replace_all old new cs)"
  by pat_completeness auto
termination by (relation "measure (\<lambda>(old, new, s). length s)") (auto simp: less_Suc_eq_le)

definition redaction_marker :: string where "redaction_marker = ''<redacted>''"

text \<open>An error of the HTTP client carries its operation and the cause beside its URL.\<close>

datatype redactable = PlainError string | UrlError string string string

definition redact_error :: "string list \<Rightarrow> redactable \<Rightarrow> string" where
  "redact_error sensitive err =
     foldl (\<lambda>m v. if v = [] then m else replace_all v redaction_marker m)
       (case err of PlainError m \<Rightarrow> m | UrlError op url cause \<Rightarrow> op @ '': '' @ cause) sensitive"

definition endpoint_label :: "string \<Rightarrow> string" where
  "endpoint_label raw =
     (case url_parse raw of
        None \<Rightarrow> ''<invalid>''
      | Some u \<Rightarrow> if u_host u = [] then ''<invalid>'' else u_scheme u @ ''://'' @ u_host u)"

section \<open>Finding the browser\<close>

definition default_port :: "string \<Rightarrow> string" where
  "default_port scheme =
     (let s = to_lower scheme in
      if s = ''http'' \<or> s = ''ws'' then ''80'' else if s = ''https'' \<or> s = ''wss'' then ''443'' else [])"

definition join_host_port :: "string \<Rightarrow> string \<Rightarrow> string" where
  "join_host_port host port =
     (if CHR '':'' \<in> set host then ''['' @ host @ '']:'' @ port else host @ '':'' @ port)"

definition normalized_authority :: "go_url \<Rightarrow> string" where
  "normalized_authority u =
     (let host = to_lower (url_hostname u);
          port = (if url_port u = [] then default_port (u_scheme u) else url_port u)
      in if host = [] \<or> port = [] then [] else join_host_port host port)"

definition discovery_url_fault :: "bool \<Rightarrow> string \<Rightarrow> go_url option \<Rightarrow> string option" where
  "discovery_url_fault allow_remote authority candidate =
     (case candidate of
        None \<Rightarrow> Some ''CDP discovery redirected to an invalid URL''
      | Some u \<Rightarrow>
          if u_scheme u \<noteq> ''http'' \<or> u_host u = [] \<or> u_userinfo u \<noteq> None then Some ''CDP discovery redirected to an invalid URL''
          else if normalized_authority u \<noteq> authority then Some ''CDP discovery changed authority''
          else if \<not> allow_remote \<and> \<not> is_loopback_host (url_hostname u) then Some ''CDP discovery redirected to a non-loopback URL''
          else None)"

text \<open>
  The browser's answers: to a request, a redirect, an error of the transport, or a response with its status and
  body (or the error of reading it); and the \<open>webSocketDebuggerUrl\<close> of a JSON text.
\<close>

datatype endpoint_answer =
    Redirected go_url
  | Transport_failed string
  | Responded int string "string + string"

record browser_answers =
  ba_answer :: "go_url \<Rightarrow> endpoint_answer"
  ba_debugger_url :: "string \<Rightarrow> string + string"

definition max_discovery_bytes :: nat where "max_discovery_bytes = 2 ^ 20"

text \<open>
  The requests of the HTTP client, with the redirects still allowed: a third redirect is refused. The URLs
  requested are returned too.
\<close>

fun follow_redirects ::
  "nat \<Rightarrow> browser_answers \<Rightarrow> bool \<Rightarrow> string \<Rightarrow> go_url \<Rightarrow> (string + int \<times> string \<times> (string + string) \<times> go_url) \<times> go_url list" where
  "follow_redirects left ba allow_remote authority u =
     (case ba_answer ba u of
        Transport_failed msg \<Rightarrow> (Inl msg, [u])
      | Responded code status body \<Rightarrow> (Inr (code, status, body, u), [u])
      | Redirected v \<Rightarrow>
          (case left of
             0 \<Rightarrow> (Inl ''too many CDP discovery redirects'', [u])
           | Suc fewer \<Rightarrow>
               (case discovery_url_fault allow_remote authority (Some v) of
                  Some msg \<Rightarrow> (Inl msg, [u])
                | None \<Rightarrow>
                    (case follow_redirects fewer ba allow_remote authority v of (r, us) \<Rightarrow> (r, u # us)))))"

declare follow_redirects.simps [simp del]

definition web_socket_of :: "capture_options \<Rightarrow> string \<Rightarrow> string \<Rightarrow> string + string" where
  "web_socket_of o1 authority raw =
     (case bare_url (trim_space raw) of
        None \<Rightarrow> Inl ''CDP discovery returned an invalid browser WebSocket URL''
      | Some w \<Rightarrow>
          if u_scheme w \<noteq> ''ws'' \<and> u_scheme w \<noteq> ''wss'' then Inl ''CDP discovery returned a non-WebSocket browser URL''
          else if \<not> is_browser_web_socket_path (u_path w) then Inl ''CDP discovery returned a non-browser WebSocket URL''
          else if normalized_authority w \<noteq> authority
          then Inl ''CDP discovery returned a browser WebSocket URL with a different authority''
          else if \<not> co_allow_remote o1 \<and> \<not> is_loopback_host (url_hostname w)
          then Inl ''CDP discovery returned a non-loopback browser WebSocket URL''
          else Inr (url_string w))"

definition discovery_url :: "go_url \<Rightarrow> go_url" where
  "discovery_url e = e\<lparr>u_path := ''/json/version'', u_raw_path := [], u_fragment := []\<rparr>"

definition resolve_browser_web_socket_url :: "browser_answers \<Rightarrow> capture_options \<Rightarrow> go_url \<Rightarrow> (string + string) \<times> go_url list" where
  "resolve_browser_web_socket_url ba o1 e =
     (if u_scheme e = ''ws'' \<or> u_scheme e = ''wss'' then (Inr (co_endpoint o1), [])
      else let authority = normalized_authority e; start = discovery_url e in
        case follow_redirects 2 ba (co_allow_remote o1) authority start of
          (Inl msg, asked) \<Rightarrow>
            (Inl (''discover browser WebSocket at '' @ endpoint_label (co_endpoint o1) @ '': ''
                  @ redact_error [co_endpoint o1, url_string start] (UrlError ''Get'' (url_string (last asked)) msg)), asked)
        | (Inr (code, status, body, final), asked) \<Rightarrow>
            ((case discovery_url_fault (co_allow_remote o1) authority (Some final) of
                Some msg \<Rightarrow> Inl msg
              | None \<Rightarrow>
                  if code < 200 \<or> code \<ge> 300
                  then Inl (''discover browser WebSocket at '' @ endpoint_label (co_endpoint o1) @ '': HTTP '' @ status)
                  else case body of
                         Inl msg \<Rightarrow> Inl (''read CDP discovery response: '' @ msg)
                       | Inr text \<Rightarrow>
                           if length text > max_discovery_bytes then Inl ''CDP discovery response is too large''
                           else case ba_debugger_url ba text of
                                  Inl msg \<Rightarrow> Inl (''decode CDP discovery response: '' @ msg)
                                | Inr raw \<Rightarrow> web_socket_of o1 authority raw), asked))"

section \<open>The creator\<close>

definition max_browser_product_bytes :: nat where "max_browser_product_bytes = 256"

definition browser_creator :: "string \<Rightarrow> har_creator option" where
  "browser_creator product0 =
     (let product = take max_browser_product_bytes (trim_space product0) in
      if product = [] then None
      else case cut_byte CHR ''/'' product of
             (name, version, False) \<Rightarrow> Some \<lparr>hc_name = product, hc_version = ''unknown'', hc_comment = []\<rparr>
           | (name, version, True) \<Rightarrow>
               Some \<lparr>hc_name = (if trim_space name = [] then ''Chromium'' else trim_space name),
                     hc_version = (if trim_space version = [] then ''unknown'' else trim_space version), hc_comment = []\<rparr>)"

end
