(* ===== verification/Capture_Props.thy ===== *)
theory Capture_Props
  imports Capture
begin

text \<open>
  The endpoint of a capture: which addresses a validated capture may contact, whatever the browser answers, and
  that an error tells none of the addresses it is told to hide.
\<close>

section \<open>Addresses\<close>

lemma parsed_scheme_lower:
  assumes "url_parse raw = Some u"
  shows "to_lower (u_scheme u) = u_scheme u"
proof -
  have rest: "u_scheme v = sc" if "parse_rest sc q r = Some v" for sc q r v
    using that by (auto simp: parse_rest_def Let_def empty_url_def split: if_split_asm option.split_asm prod.split_asm)
  show ?thesis
    using assms
    by (auto simp: url_parse_def Let_def empty_url_def split: if_split_asm option.split_asm prod.split_asm dest!: rest)
       (simp add: to_lower_def)
qed

text \<open>An address a capture may contact: the authority of the endpoint, no credentials, and loopback unless allowed.\<close>

definition approved :: "capture_options \<Rightarrow> go_url \<Rightarrow> go_url \<Rightarrow> bool" where
  "approved o1 e u \<longleftrightarrow> normalized_authority u = normalized_authority e \<and> u_userinfo u = None \<and> u_host u \<noteq> []
     \<and> (co_allow_remote o1 \<or> is_loopback_host (url_hostname u))"

lemma discovery_url_ok:
  "discovery_url_fault allow authority (Some u) = None \<longleftrightarrow>
     u_scheme u = ''http'' \<and> u_host u \<noteq> [] \<and> u_userinfo u = None \<and> normalized_authority u = authority
     \<and> (allow \<or> is_loopback_host (url_hostname u))"
  by (auto simp: discovery_url_fault_def)

lemma redirects_checked:
  assumes "follow_redirects left ba allow authority u = (r, asked)" "discovery_url_fault allow authority (Some u) = None"
  shows "(\<forall>v \<in> set asked. discovery_url_fault allow authority (Some v) = None) \<and> length asked \<le> Suc left"
  using assms
proof (induction left arbitrary: u r asked)
  case 0
  then show ?case by (auto simp: follow_redirects.simps split: endpoint_answer.split_asm)
next
  case (Suc left)
  show ?case
  proof (cases "ba_answer ba u")
    case (Redirected v)
    show ?thesis
    proof (cases "discovery_url_fault allow authority (Some v)")
      case None
      obtain r1 more1 where next1: "follow_redirects left ba allow authority v = (r1, more1)" by fastforce
      then have "asked = u # more1" using Suc.prems(1) Redirected None by (simp add: follow_redirects.simps)
      then show ?thesis using Suc.IH [OF next1 None] Suc.prems(2) by simp
    next
      case (Some msg)
      then show ?thesis using Suc.prems Redirected by (auto simp: follow_redirects.simps)
    qed
  qed (use Suc.prems in \<open>auto simp: follow_redirects.simps\<close>)
qed

lemma web_socket_ok:
  assumes "web_socket_of o1 (normalized_authority e) raw = Inr w"
  shows "\<exists>u. w = url_string u \<and> (u_scheme u = ''ws'' \<or> u_scheme u = ''wss'') \<and> is_browser_web_socket_path (u_path u) \<and> approved o1 e u"
  using assms by (auto simp: web_socket_of_def bare_url_def approved_def split: option.split_asm if_split_asm)

text \<open>
  C8: A validated capture contacts only its endpoint. Every HTTP request of the discovery, redirects included, is
  plain HTTP to the endpoint's own host and port, without credentials, and there are at most three of them; the
  browser address found is a browser WebSocket of the same host and port; and all of them are loopback unless
  remote access was allowed. An endpoint that already is a WebSocket is taken as it is, without a request.
\<close>
theorem capture_contacts_endpoint_only:
  assumes "validate_capture o1 = None" and "url_parse (co_endpoint o1) = Some e"
    and "resolve_browser_web_socket_url ba o1 e = (res, asked)"
  shows "(\<forall>u \<in> set asked. u_scheme u = ''http'' \<and> approved o1 e u) \<and> length asked \<le> 3
         \<and> (\<forall>w. res = Inr w \<longrightarrow>
              (if u_scheme e = ''http''
               then (\<exists>u. w = url_string u \<and> (u_scheme u = ''ws'' \<or> u_scheme u = ''wss'')
                         \<and> is_browser_web_socket_path (u_path u) \<and> approved o1 e u)
               else w = co_endpoint o1 \<and> asked = [] \<and> is_browser_web_socket_path (u_path e) \<and> approved o1 e e))"
proof -
  have e: "endpoint_fault (co_allow_remote o1) e = None" "u_host e \<noteq> []" "u_userinfo e = None"
    using assms(1,2) by (auto simp: validate_capture_def bare_url_def split: option.split_asm if_split_asm)
  have lower: "to_lower (u_scheme e) = u_scheme e" using parsed_scheme_lower [OF assms(2)] .
  have scheme: "u_scheme e = ''http'' \<or> u_scheme e = ''ws'' \<or> u_scheme e = ''wss''"
    and loop: "co_allow_remote o1 \<or> is_loopback_host (url_hostname e)"
    using e(1) lower by (auto simp: endpoint_fault_def Let_def split: if_split_asm)
  show ?thesis
  proof (cases "u_scheme e = ''http''")
    case False
    then have "u_scheme e = ''ws'' \<or> u_scheme e = ''wss''" using scheme by blast
    then have "is_browser_web_socket_path (u_path e)" "res = Inr (co_endpoint o1)" "asked = []"
      using e(1) lower assms(3)
      by (auto simp: endpoint_fault_def Let_def resolve_browser_web_socket_url_def split: if_split_asm)
    then show ?thesis using False e loop by (simp add: approved_def)
  next
    case True
    obtain r where follow: "follow_redirects 2 ba (co_allow_remote o1) (normalized_authority e) (discovery_url e) = (r, asked)"
      using assms(3) True
      by (auto simp: resolve_browser_web_socket_url_def Let_def split: prod.split_asm sum.split_asm)
    have same: "normalized_authority (discovery_url e) = normalized_authority e" "url_hostname (discovery_url e) = url_hostname e"
      by (simp_all add: discovery_url_def normalized_authority_def url_hostname_def url_port_def)
    have "discovery_url_fault (co_allow_remote o1) (normalized_authority e) (Some (discovery_url e)) = None"
      unfolding discovery_url_ok same using True e loop by (simp add: discovery_url_def)
    note checked = redirects_checked [OF follow this]
    then have "\<forall>u \<in> set asked. u_scheme u = ''http'' \<and> approved o1 e u" by (simp add: discovery_url_ok approved_def)
    moreover have "length asked \<le> 3" using checked by simp
    moreover have "\<exists>raw. web_socket_of o1 (normalized_authority e) raw = Inr w" if "res = Inr w" for w
      using that assms(3) True follow
      by (auto simp: resolve_browser_web_socket_url_def Let_def split: prod.split_asm sum.split_asm if_split_asm option.split_asm)
    ultimately show ?thesis using True web_socket_ok by auto
  qed
qed

section \<open>Redaction\<close>

lemma contains_infix: "contains s p \<longleftrightarrow> (\<exists>a b. s = a @ p @ b)"
proof (induction s)
  case (Cons c s)
  have "has_prefix (c # s) p \<longleftrightarrow> (\<exists>b. c # s = p @ b)" unfolding has_prefix_def by (metis append_eq_conv_conj)
  then show ?case
    using Cons.IH by (auto simp: Cons_eq_append_conv)
qed auto

text \<open>A text that a redaction cannot make: it has no angle bracket and is no part of the marker.\<close>

definition unmade :: "string \<Rightarrow> bool" where
  "unmade v \<longleftrightarrow> v \<noteq> [] \<and> CHR ''<'' \<notin> set v \<and> CHR ''>'' \<notin> set v \<and> \<not> contains ''redacted'' v"

lemma marker_ends:
  "redaction_marker \<noteq> []" "hd redaction_marker = CHR ''<''" "last redaction_marker = CHR ''>''"
  "butlast (tl redaction_marker) = ''redacted''"
  by (simp_all add: redaction_marker_def)

lemma replace_all_step:
  "replace_all w new (c # cs) =
     (if w \<noteq> [] \<and> has_prefix (c # cs) w then new @ replace_all w new (drop (length w - 1) cs) else c # replace_all w new cs)"
  by simp

declare replace_all.simps [simp del]

lemma replace_all_nil [simp]: "replace_all w new [] = []"
  by (simp add: replace_all.simps)

lemma prefix_copied:
  assumes "CHR ''<'' \<notin> set v" "replace_all w redaction_marker s = v @ b"
  shows "has_prefix s v"
  using assms
proof (induction s arbitrary: v)
  case (Cons c cs)
  show ?case
  proof (cases v)
    case (Cons x xs)
    have differs: "\<not> (w \<noteq> [] \<and> has_prefix (c # cs) w)"
    proof
      assume "w \<noteq> [] \<and> has_prefix (c # cs) w"
      then have "hd (v @ b) = CHR ''<''" using Cons.prems(2) marker_ends(1,2) by (metis hd_append2 replace_all_step)
      then show False using Cons.prems(1) Cons by simp
    qed
    have "c # replace_all w redaction_marker cs = v @ b"
      using Cons.prems(2) unfolding replace_all_step if_not_P [OF differs] .
    then have "x = c" "replace_all w redaction_marker cs = xs @ b" using Cons by simp_all
    then show ?thesis using Cons.IH [of xs] Cons.prems(1) Cons by (simp add: has_prefix_def)
  qed (simp add: has_prefix_def)
qed (simp add: has_prefix_def)

lemma middle_part:
  assumes "m = a @ v @ f" "a \<noteq> []" "f \<noteq> []"
  shows "butlast (tl m) = tl a @ v @ butlast f"
  using assms by (cases a) (simp_all add: butlast_append)

lemma marker_split:
  assumes "unmade v" "redaction_marker @ rest = a @ v @ b"
  shows "\<exists>a1. rest = a1 @ v @ b"
proof -
  have v: "v \<noteq> []" "CHR ''<'' \<notin> set v" "CHR ''>'' \<notin> set v" "\<not> contains ''redacted'' v"
    using assms(1) by (simp_all add: unmade_def)
  from append_eq_append_conv2 [THEN iffD1, OF assms(2)] obtain d where
    "redaction_marker = a @ d \<and> d @ rest = v @ b \<or> redaction_marker @ d = a \<and> rest = d @ v @ b" by blast
  then show ?thesis
  proof
    assume within: "redaction_marker = a @ d \<and> d @ rest = v @ b"
    from append_eq_append_conv2 [THEN iffD1, OF conjunct2 [OF within]] obtain f where
      "d = v @ f \<and> f @ rest = b \<or> d @ f = v \<and> rest = f @ b" by blast
    then show ?thesis
    proof
      assume "d = v @ f \<and> f @ rest = b"
      then have eq: "redaction_marker = a @ v @ f" using within by simp
      have a: "a \<noteq> []"
      proof
        assume "a = []"
        then have "hd (a @ v @ f) = hd v" using v(1) by simp
        then have "hd redaction_marker = hd v" unfolding eq .
        then have "hd v = CHR ''<''" using marker_ends(2) by simp
        then show False using v(1,2) hd_in_set by metis
      qed
      have f: "f \<noteq> []"
      proof
        assume "f = []"
        then have "last (a @ v @ f) = last v" using v(1) by simp
        then have "last redaction_marker = last v" unfolding eq .
        then have "last v = CHR ''>''" using marker_ends(3) by simp
        then show False using v(1,3) last_in_set by metis
      qed
      have "''redacted'' = tl a @ v @ butlast f" using middle_part [OF eq a f] marker_ends(4) by simp
      then have "contains ''redacted'' v" unfolding contains_infix by blast
      then show ?thesis using v(4) by simp
    next
      assume long: "d @ f = v \<and> rest = f @ b"
      show ?thesis
      proof (cases "d = []")
        case True
        then show ?thesis using within by auto
      next
        case False
        then have "last (a @ d) = last d" by simp
        then have "last redaction_marker = last d" unfolding conjunct1 [OF within] .
        then have "last d = CHR ''>''" using marker_ends(3) by simp
        then have "CHR ''>'' \<in> set v" using long last_in_set [OF False] by auto
        then show ?thesis using v(3) by simp
      qed
    qed
  qed blast
qed

lemma contains_later: "contains (drop n cs) v \<Longrightarrow> contains (c # cs) v"
proof -
  assume "contains (drop n cs) v"
  then obtain a b where "drop n cs = a @ v @ b" unfolding contains_infix by blast
  then have "c # cs = (c # take n cs @ a) @ v @ b" by (metis append_Cons append_assoc append_take_drop_id)
  then show ?thesis unfolding contains_infix by blast
qed

lemma replacing_makes_none:
  assumes "unmade v" "replace_all w redaction_marker s = a @ v @ b"
  shows "contains s v"
  using assms(2)
proof (induction "length s" arbitrary: s a rule: less_induct)
  case less
  show ?case
  proof (cases s)
    case Nil
    then show ?thesis using less.prems assms(1) by (simp add: unmade_def)
  next
    case (Cons c cs)
    show ?thesis
    proof (cases "w \<noteq> [] \<and> has_prefix (c # cs) w")
      case True
      then have "redaction_marker @ replace_all w redaction_marker (drop (length w - 1) cs) = a @ v @ b"
        using less.prems Cons by (simp only: replace_all_step if_True simp_thms)
      from marker_split [OF assms(1) this] obtain a1 where
        "replace_all w redaction_marker (drop (length w - 1) cs) = a1 @ v @ b" by blast
      then have "contains (drop (length w - 1) cs) v" using less.hyps [of "drop (length w - 1) cs"] Cons by simp
      then show ?thesis unfolding Cons by (rule contains_later)
    next
      case False
      then have step: "c # replace_all w redaction_marker cs = a @ v @ b"
        using less.prems Cons by (simp only: replace_all_step if_False)
      show ?thesis
      proof (cases a)
        case Nil
        then have "has_prefix s v" using less.prems prefix_copied assms(1) unfolding unmade_def by simp
        then show ?thesis using Cons by simp
      next
        case (Cons x a1)
        then have "replace_all w redaction_marker cs = a1 @ v @ b" using step by simp
        then show ?thesis using less.hyps [of cs a1] \<open>s = c # cs\<close> by simp
      qed
    qed
  qed
qed

lemma replaced_gone:
  assumes "unmade v"
  shows "replace_all v redaction_marker s \<noteq> a @ v @ b"
proof (induction "length s" arbitrary: s a rule: less_induct)
  case less
  show ?case
  proof (cases s)
    case Nil
    then show ?thesis using assms by (simp add: unmade_def)
  next
    case (Cons c cs)
    show ?thesis
    proof
      assume eq: "replace_all v redaction_marker s = a @ v @ b"
      show False
      proof (cases "v \<noteq> [] \<and> has_prefix (c # cs) v")
        case True
        then have "redaction_marker @ replace_all v redaction_marker (drop (length v - 1) cs) = a @ v @ b"
          using eq Cons by (simp only: replace_all_step if_True simp_thms)
        from marker_split [OF assms this] show False using less.hyps [of "drop (length v - 1) cs"] Cons by auto
      next
        case False
        then have step: "c # replace_all v redaction_marker cs = a @ v @ b"
          using eq Cons by (simp only: replace_all_step if_False)
        show False
        proof (cases a)
          case Nil
          then have "has_prefix s v" using eq prefix_copied assms unfolding unmade_def by simp
          then show False using False Cons assms by (simp add: unmade_def)
        next
          case (Cons x a1)
          then have "replace_all v redaction_marker cs = a1 @ v @ b" using step by simp
          then show False using less.hyps [of cs a1] \<open>s = c # cs\<close> by simp
        qed
      qed
    qed
  qed
qed

text \<open>
  A redacted error contains none of the addresses it was told to hide, in whatever order they are hidden and
  whether or not the replacement of one touches another, as long as an address is not empty, has no angle
  bracket and is no part of the word the marker writes.
\<close>
theorem redaction_complete:
  assumes "v \<in> set sensitive" and "unmade v"
  shows "\<not> contains (redact_error sensitive err) v"
proof -
  define hide where "hide m w = (if w = [] then m else replace_all w redaction_marker m)" for m w
  have kept: "\<not> contains (foldl hide m vs) v" if "\<not> contains m v" for m vs
    using that
  proof (induction vs arbitrary: m)
    case (Cons w vs)
    then have "\<not> contains (hide m w) v" using replacing_makes_none [OF assms(2)] unfolding hide_def contains_infix by metis
    then show ?case using Cons.IH by simp
  qed simp
  have "\<not> contains (foldl hide m sensitive) v" for m
    using assms(1)
  proof (induction sensitive arbitrary: m)
    case (Cons w ws)
    show ?case
    proof (cases "w = v")
      case True
      then have "\<not> contains (hide m w) v" using replaced_gone [OF assms(2)] assms(2) unfolding hide_def contains_infix unmade_def by simp
      then show ?thesis using kept by simp
    next
      case False
      then show ?thesis using Cons by auto
    qed
  qed simp
  then show ?thesis by (simp add: redact_error_def hide_def [abs_def])
qed

section \<open>Examples\<close>

text \<open>Loopback addresses in their spellings, and hosts that only look like one.\<close>

text \<open>Loopback addresses in their spellings, and hosts that only look like one.\<close>

lemma loopback_spellings:
  "is_loopback_host ''127.9.8.7''" "is_loopback_host ''::1''" "is_loopback_host ''::ffff:127.0.0.1''" "is_loopback_host ''LocalHost''"
  "\<not> is_loopback_host ''10.0.0.1''" "\<not> is_loopback_host ''127.0.0.01''" "\<not> is_loopback_host ''127.0.0.1.example.com''"
  "\<not> is_loopback_host ''::2''" "\<not> is_loopback_host ''::1%lo''"
  by code_simp+

definition local_options :: capture_options where
  "local_options =
     \<lparr>co_endpoint = ''http://127.0.0.1:9222'', co_url = ''https://www.zillow.com/'', co_wait = 5, co_timeout = 45, co_bodies = False,
      co_allow_remote = False, co_creator_name = [], co_creator_version = []\<rparr>"

definition local_endpoint :: go_url where "local_endpoint = the (url_parse ''http://127.0.0.1:9222'')"

definition sly_browser :: browser_answers where
  "sly_browser =
     \<lparr>ba_answer = (\<lambda>u. Redirected (u\<lparr>u_host := ''evil.example:9222''\<rparr>)), ba_debugger_url = (\<lambda>t. Inl ''unused'')\<rparr>"

theorem capture_contacts_endpoint_only_witness:
  "list_all (\<lambda>u. u_scheme u = ''http'' \<and> approved local_options local_endpoint u)
     (snd (resolve_browser_web_socket_url sly_browser local_options local_endpoint))
   \<and> length (snd (resolve_browser_web_socket_url sly_browser local_options local_endpoint)) \<le> 3"
proof -
  have "validate_capture local_options = None" by code_simp
  moreover have "url_parse (co_endpoint local_options) = Some local_endpoint"
  proof -
    have "url_parse ''http://127.0.0.1:9222'' \<noteq> None" by code_simp
    then show ?thesis by (auto simp: local_options_def local_endpoint_def)
  qed
  ultimately show ?thesis
    using capture_contacts_endpoint_only [of local_options local_endpoint sly_browser
        "fst (resolve_browser_web_socket_url sly_browser local_options local_endpoint)"
        "snd (resolve_browser_web_socket_url sly_browser local_options local_endpoint)"] by (simp add: list_all_iff)
qed

theorem redaction_complete_witness:
  "\<not> contains (redact_error [''http://h:1'', ''ws://h:1/x''] (UrlError ''Get'' ''http://h:1'' ''dial ws://h:1/x failed'')) ''ws://h:1/x''"
proof (rule redaction_complete)
  show "unmade ''ws://h:1/x''" by (simp add: unmade_def has_prefix_def)
qed simp

end
