(* ===== verification/Capture_Intake.thy ===== *)
theory Capture_Intake
  imports Capture Recorder_Archive
begin

text \<open>
  The threads of \<open>Capture\<close> (\<open>internal/cdphar/capture.go\<close>): the listener that takes the browser's events, the
  workers that fetch response bodies, and the main thread that establishes the cutoff, drains and stops. Every
  critical section of \<open>taskMu\<close> is one operation on the shared state; their interleavings are the step relation.
\<close>

section \<open>The shared state\<close>

definition max_concurrent_fetches :: nat where "max_concurrent_fetches = 8"

definition max_pending_fetches :: nat where "max_pending_fetches = 64"

definition max_freeze_buffer_bytes :: int where "max_freeze_buffer_bytes = 16 * 2 ^ 20"

text \<open>Where the main thread is. \<open>Stopped\<close> holds the error of the navigation, when there is one.\<close>

datatype main_phase = Navigating | Cutting | Draining | Aborting redactable | Stopped "redactable option"

text \<open>
  The last fields do not exist in the code: they record which events were taken and handled, which tasks were
  made and answered, and whether an event was dropped.
\<close>

record intake =
  it_recorder :: recorder
  it_accept :: bool
  it_freezing :: bool
  it_buffer :: "cdp_event list"
  it_buffer_bytes :: int
  it_queue :: "fetch_task list"
  it_busy :: "fetch_task list"
  it_phase :: main_phase
  it_taken :: "cdp_event list"
  it_handled :: "cdp_event list"
  it_issued :: "fetch_task list"
  it_answered :: "fetch_task list"
  it_overflowed :: bool

definition intake_start :: "recorder \<Rightarrow> intake" where
  "intake_start rc =
     \<lparr>it_recorder = rc, it_accept = True, it_freezing = False, it_buffer = [], it_buffer_bytes = 0, it_queue = [],
      it_busy = [], it_phase = Navigating, it_taken = [], it_handled = [], it_issued = [], it_answered = [],
      it_overflowed = False\<rparr>"

section \<open>The listener\<close>

definition is_recorder_event :: "cdp_event \<Rightarrow> bool" where
  "is_recorder_event ev \<longleftrightarrow> (case ev of OtherEvent \<Rightarrow> False | _ \<Rightarrow> True)"

text \<open>\<open>sizes\<close> is the length of an event's JSON encoding, unless it has none.\<close>

definition freeze_event_bytes :: "(cdp_event \<Rightarrow> nat option) \<Rightarrow> cdp_event \<Rightarrow> int" where
  "freeze_event_bytes sizes ev =
     (case sizes ev of None \<Rightarrow> max_freeze_buffer_bytes + 1 | Some n \<Rightarrow> int n + 1024)"

definition queue_full_message :: string where
  "queue_full_message = ''CDP response-body retrieval queue is full''"

definition buffer_full_message :: string where
  "buffer_full_message = ''CDP event buffer exceeded its byte limit while establishing the capture cutoff''"

text \<open>A task is queued, or answered with an error at once when the queue is full.\<close>

definition schedule_task :: "fetch_task \<Rightarrow> intake \<Rightarrow> intake" where
  "schedule_task t st =
     (if length (it_queue st) < max_pending_fetches
      then st\<lparr>it_queue := it_queue st @ [t], it_issued := it_issued st @ [t]\<rparr>
      else st\<lparr>it_recorder := set_response_body (Some (snd t)) [] (Some queue_full_message) (it_recorder st),
              it_issued := it_issued st @ [t], it_answered := it_answered st @ [t]\<rparr>)"

definition recorder_step :: "bool \<Rightarrow> bool \<Rightarrow> recorder \<Rightarrow> cdp_event \<Rightarrow> recorder \<times> fetch_task list" where
  "recorder_step inc buffered rc ev = (if buffered then handle_buffered_event inc rc ev else handle_event inc rc ev)"

definition process_event :: "bool \<Rightarrow> bool \<Rightarrow> cdp_event \<Rightarrow> intake \<Rightarrow> intake" where
  "process_event inc buffered ev st =
     (if \<not> it_accept st then st
      else case recorder_step inc buffered (it_recorder st) ev of
             (rc, tasks) \<Rightarrow> fold schedule_task tasks (st\<lparr>it_recorder := rc, it_handled := it_handled st @ [ev]\<rparr>))"

definition buffer_event :: "(cdp_event \<Rightarrow> nat option) \<Rightarrow> cdp_event \<Rightarrow> intake \<Rightarrow> intake" where
  "buffer_event sizes ev st =
     (if freeze_event_bytes sizes ev > max_freeze_buffer_bytes - it_buffer_bytes st
      then st\<lparr>it_recorder := set_capture_error (Some buffer_full_message) (it_recorder st), it_overflowed := True\<rparr>
      else st\<lparr>it_buffer := it_buffer st @ [ev], it_buffer_bytes := it_buffer_bytes st + freeze_event_bytes sizes ev\<rparr>)"

definition listen :: "bool \<Rightarrow> (cdp_event \<Rightarrow> nat option) \<Rightarrow> cdp_event \<Rightarrow> intake \<Rightarrow> intake" where
  "listen inc sizes ev st =
     (if \<not> is_recorder_event ev \<or> \<not> it_accept st then st
      else let st1 = st\<lparr>it_taken := it_taken st @ [ev]\<rparr>
        in if it_freezing st then buffer_event sizes ev st1 else process_event inc False ev st1)"

section \<open>The workers\<close>

definition take_task :: "intake \<Rightarrow> intake" where
  "take_task st =
     (case it_queue st of [] \<Rightarrow> st | t # ts \<Rightarrow> st\<lparr>it_queue := ts, it_busy := it_busy st @ [t]\<rparr>)"

text \<open>\<open>runFetchTask\<close>: the browser's answer to the task at a position is recorded.\<close>

definition answer_task :: "nat \<Rightarrow> string \<Rightarrow> string option \<Rightarrow> intake \<Rightarrow> intake" where
  "answer_task i body err st =
     (let t = it_busy st ! i
      in st\<lparr>it_recorder := set_response_body (Some (snd t)) body err (it_recorder st),
            it_busy := take i (it_busy st) @ drop (Suc i) (it_busy st), it_answered := it_answered st @ [t]\<rparr>)"

section \<open>The main thread\<close>

definition begin_freeze :: "intake \<Rightarrow> intake" where
  "begin_freeze st = st\<lparr>it_freezing := True, it_phase := Cutting\<rparr>"

text \<open>The browser's clock, of the metrics it reports; \<open>epoch\<close> is the zero of that clock.\<close>

definition no_timestamp :: string where
  "no_timestamp = ''Performance.getMetrics did not return Timestamp''"

fun cutoff_of :: "archive_env \<Rightarrow> gotime \<Rightarrow> (string \<times> rat) option list \<Rightarrow> string + gotime" where
  "cutoff_of env epoch [] = Inl no_timestamp"
| "cutoff_of env epoch (None # ms) = cutoff_of env epoch ms"
| "cutoff_of env epoch (Some (name, seconds) # ms) =
     (if name = ''Timestamp''
      then let cutoff = epoch + av_int64 env (go_float (seconds * 1000000000))
        in if cutoff = 0 then Inl no_timestamp else Inr cutoff
      else cutoff_of env epoch ms)"

definition clear_buffer :: "intake \<Rightarrow> intake" where
  "clear_buffer st = st\<lparr>it_buffer := [], it_buffer_bytes := 0\<rparr>"

text \<open>The cutoff is set, and what arrived meanwhile is handled; without a cutoff it is dropped.\<close>

definition end_freeze :: "bool \<Rightarrow> redactable + gotime \<Rightarrow> intake \<Rightarrow> intake" where
  "end_freeze inc cutoff st =
     (case cutoff of
        Inl err \<Rightarrow> clear_buffer (st\<lparr>it_freezing := False, it_phase := Aborting err\<rparr>)
      | Inr t \<Rightarrow>
          clear_buffer (fold (process_event inc True) (it_buffer st)
            (st\<lparr>it_freezing := False, it_recorder := freeze_at_monotonic t (it_recorder st), it_phase := Draining\<rparr>)))"

definition abort_navigation :: "redactable \<Rightarrow> intake \<Rightarrow> intake" where
  "abort_navigation err st = st\<lparr>it_phase := Aborting err\<rparr>"

text \<open>One look of \<open>waitForExtraInfo\<close> at the recorder.\<close>

definition poll_extra_info :: "intake \<Rightarrow> intake" where
  "poll_extra_info st = st\<lparr>it_recorder := fst (extra_info_drain_needed (it_recorder st))\<rparr>"

definition stop_tasks :: "redactable option \<Rightarrow> intake \<Rightarrow> intake" where
  "stop_tasks err st = st\<lparr>it_accept := False, it_phase := Stopped err\<rparr>"

section \<open>The interleavings\<close>

inductive intake_step :: "bool \<Rightarrow> (cdp_event \<Rightarrow> nat option) \<Rightarrow> intake \<Rightarrow> intake \<Rightarrow> bool" for inc sizes where
  event: "it_accept st \<Longrightarrow> intake_step inc sizes st (listen inc sizes ev st)"
| taken: "inc \<Longrightarrow> it_queue st \<noteq> [] \<Longrightarrow> length (it_busy st) < max_concurrent_fetches \<Longrightarrow>
    intake_step inc sizes st (take_task st)"
| answered: "i < length (it_busy st) \<Longrightarrow> intake_step inc sizes st (answer_task i body err st)"
| cut: "it_phase st = Navigating \<Longrightarrow> intake_step inc sizes st (begin_freeze st)"
| failed: "it_phase st = Navigating \<Longrightarrow> intake_step inc sizes st (abort_navigation err st)"
| cut_off: "it_phase st = Cutting \<Longrightarrow> intake_step inc sizes st (end_freeze inc cutoff st)"
| poll: "it_phase st = Draining \<Longrightarrow> intake_step inc sizes st (poll_extra_info st)"
| stop: "it_phase st = Draining \<Longrightarrow> intake_step inc sizes st (stop_tasks None st)"
| stop_failed: "it_phase st = Aborting err \<Longrightarrow> intake_step inc sizes st (stop_tasks (Some err) st)"

inductive_cases stepE: "intake_step inc sizes st st'"

inductive intake_reach :: "bool \<Rightarrow> (cdp_event \<Rightarrow> nat option) \<Rightarrow> recorder \<Rightarrow> intake \<Rightarrow> bool" for inc sizes rc where
  started: "intake_reach inc sizes rc (intake_start rc)"
| moved: "intake_reach inc sizes rc st \<Longrightarrow> intake_step inc sizes st st' \<Longrightarrow> intake_reach inc sizes rc st'"

text \<open>What \<open>workerWG.Wait\<close> waits for.\<close>

definition drained :: "intake \<Rightarrow> bool" where
  "drained st \<longleftrightarrow> it_queue st = [] \<and> it_busy st = []"

section \<open>The result of a capture\<close>

datatype capture_outcome = Capture_failed string | Recorder_failed capture_error | Captured archive | Nil_request

definition navigation_error :: "string \<Rightarrow> string" where
  "navigation_error err = ''capture navigation through CDP: '' @ err"

definition har_creator_of :: "capture_options \<Rightarrow> har_creator" where
  "har_creator_of o1 = \<lparr>hc_name = co_creator_name o1, hc_version = co_creator_version o1, hc_comment = []\<rparr>"

text \<open>The end of \<open>Capture\<close>, once the workers are done; \<open>late\<close> is the error of the context, at the deadline.\<close>

definition capture_result ::
  "archive_env \<Rightarrow> capture_options \<Rightarrow> string \<Rightarrow> string \<Rightarrow> string option \<Rightarrow> intake \<Rightarrow> capture_outcome" where
  "capture_result env o1 socket product late st =
     (case it_phase st of
        Stopped (Some err) \<Rightarrow> Capture_failed (navigation_error (redact_error [co_url o1, co_endpoint o1, socket] err))
      | _ \<Rightarrow>
          (let rc = mark_missing_extra_info (it_recorder st) in
           case late of
             Some err \<Rightarrow> Capture_failed (navigation_error err)
           | None \<Rightarrow>
               (case captured_error rc of
                  Some err \<Rightarrow> Recorder_failed err
                | None \<Rightarrow>
                    (case fst (recorder_archive env [] (har_creator_of o1) (browser_creator product) rc) of
                       None \<Rightarrow> Nil_request
                     | Some (Inl msg) \<Rightarrow> Capture_failed msg
                     | Some (Inr a) \<Rightarrow> Captured a))))"

text \<open>What connecting to the browser gives: an error, no target, an error of asking for its version, or the version.\<close>

datatype attachment = Attach_failed redactable | No_target | Version_failed string | Attached string

text \<open>The whole of \<open>Capture\<close>; \<open>session\<close> is the deadline's error and the final state of threads started on a recorder.\<close>

definition capture_har ::
  "archive_env \<Rightarrow> browser_answers \<Rightarrow> capture_options \<Rightarrow> (string \<Rightarrow> attachment) \<Rightarrow> gotime
   \<Rightarrow> (recorder \<Rightarrow> string option \<times> intake) \<Rightarrow> capture_outcome" where
  "capture_har env ba o0 attach start session =
     (let o1 = with_defaults o0 in
      case validate_capture o1 of
        Some msg \<Rightarrow> Capture_failed msg
      | None \<Rightarrow>
          (case fst (resolve_browser_web_socket_url ba o1 (the (url_parse (co_endpoint o1)))) of
             Inl msg \<Rightarrow> Capture_failed msg
           | Inr socket \<Rightarrow>
               (case attach socket of
                  Attach_failed err \<Rightarrow>
                    Capture_failed (''connect to CDP endpoint '' @ endpoint_label (co_endpoint o1) @ '': ''
                                    @ redact_error [co_endpoint o1, socket] err)
                | No_target \<Rightarrow> Capture_failed ''connect to CDP endpoint: browser target is unavailable''
                | Version_failed msg \<Rightarrow> Capture_failed (''read browser version: '' @ msg)
                | Attached product \<Rightarrow>
                    (case session (new_recorder (co_url o1) start) of
                       (late, st) \<Rightarrow> capture_result env o1 socket product late st))))"

end
