(* ===== verification/Capture_Intake_Props.thy ===== *)
theory Capture_Intake_Props
  imports Capture_Intake Capture_Props Recorder_Archive_Props "HOL-Library.Multiset"
begin

text \<open>
  Properties of the threads of a capture, for every interleaving: the tasks of the workers are neither lost nor
  answered twice, the buffers keep their bounds, an archive comes only from a capture that handled every event
  it took, and the workers end.
\<close>

section \<open>Steps of the recorder\<close>

definition sound :: "recorder \<Rightarrow> bool" where
  "sound rc \<longleftrightarrow> recorder_inv rc \<and> all_requested rc"

definition grows :: "recorder \<Rightarrow> recorder \<Rightarrow> bool" where
  "grows rc rc' \<longleftrightarrow>
     sound rc' \<and> (rc_limit_err rc \<noteq> None \<longrightarrow> rc_limit_err rc' \<noteq> None) \<and> (\<forall>i. scheduled rc i \<longrightarrow> scheduled rc' i)"

lemma grows_trans: "grows a b \<Longrightarrow> grows b c \<Longrightarrow> grows a c"
  by (auto simp: grows_def)

lemma grows_settled: "sound rc \<Longrightarrow> settled rc rc' \<Longrightarrow> grows rc rc'"
  using settled_inv [of rc rc'] same_log_settled [of rc rc']
  by (auto simp: grows_def sound_def same_log_def settled_def steady_def)

lemma grows_step_ok: "step_ok rc res \<Longrightarrow> all_requested (fst res) \<Longrightarrow> grows rc (fst res)"
  by (auto simp: grows_def sound_def step_ok_def advances_def)

lemma requested_apply: "recorder_inv rc \<Longrightarrow> all_requested rc \<Longrightarrow> all_requested (fst (apply_event inc rc ev))"
  using adds_apply_event [of rc ev inc] by (auto simp: adds_def)

lemma requested_frozen:
  assumes "recorder_inv rc" and "all_requested rc"
  shows "all_requested (fst (frozen_event inc rc ev))"
proof (cases ev)
  case (RequestWillBeSentExtraInfo x)
  then show ?thesis
    using assms same_log_settled [OF settled_request_extra_info [of rc x]]
      same_log_steady [of rc "queue_frozen_request_extra x rc"] queue_request_inv [OF assms(1), of x]
    by (auto simp: same_log_def)
next
  case (ResponseReceivedExtraInfo x)
  then show ?thesis
    using assms same_log_settled [OF settled_ready [OF assms(1) settled_response_extra_info [of rc x], of "xs_request_id x" inc]]
      same_log_steady [of rc "queue_frozen_response_extra x rc"] queue_response_inv [OF assms(1), of x]
    by (auto simp: same_log_def)
qed (use assms requested_apply [OF assms, of inc ev] in \<open>simp_all add: all_requested_def\<close>)

lemma requested_handle: "recorder_inv rc \<Longrightarrow> all_requested rc \<Longrightarrow> all_requested (fst (handle_event inc rc ev))"
  by (simp add: handle_event_def requested_apply requested_frozen)

lemma recorder_step_ok: "recorder_inv rc \<Longrightarrow> step_ok rc (recorder_step inc buffered rc ev)"
  by (simp add: recorder_step_def handle_event_ok handle_buffered_event_ok)

lemma grows_recorder_step:
  assumes "sound rc"
  shows "grows rc (fst (recorder_step inc buffered rc ev))"
proof -
  have inv: "recorder_inv rc" and req: "all_requested rc" using assms by (simp_all add: sound_def)
  have "all_requested (fst (handle_buffered_event inc rc ev))"
    using requested_handle [OF inv req, of inc ev] req same_log_settled [OF settled_update_current]
    by (auto simp: handle_buffered_event_def same_log_def split: cdp_event.splits)
  with requested_handle [OF inv req, of inc ev] have "all_requested (fst (recorder_step inc buffered rc ev))"
    by (simp add: recorder_step_def)
  with recorder_step_ok [OF inv] show ?thesis by (rule grows_step_ok)
qed

lemma no_bodies_no_tasks: "snd (recorder_step False buffered rc ev) = []"
proof -
  have ready: "ready_body_fetch_tasks rid False rc = (rc, [])" for rid rc by (simp add: ready_body_fetch_tasks_def)
  have app: "snd (apply_event False rc ev) = []" by (cases ev) (simp_all add: ready)
  then have "snd (frozen_event False rc ev) = []" by (cases ev) (simp_all add: ready)
  with app have "snd (handle_event False rc ev) = []" by (simp add: handle_event_def)
  then show ?thesis by (cases ev) (simp_all add: recorder_step_def handle_buffered_event_def)
qed

lemma grows_freeze:
  assumes "sound rc"
  shows "grows rc (freeze_at_monotonic t rc)"
proof -
  let ?rc = "rc\<lparr>rc_frozen := True, rc_cutoff := t\<rparr>"
  have "recorder_inv ?rc" using assms
    by (simp add: sound_def recorder_inv_def budget_ok_def well_chained_def numbered_def orphans_counted_def
        keys_of_def index_of_def chain_of_def)
  with assms have "grows rc ?rc" by (simp add: grows_def sound_def all_requested_def scheduled_def)
  then show ?thesis
    unfolding freeze_at_monotonic_def using grows_trans grows_settled [OF _ settled_finalize] grows_def by blast
qed

lemma settled_body: "settled rc (set_response_body (Some i) body err rc)"
proof (cases err)
  case None
  obtain rc1 ok where res: "reserve (json_string_retained_bytes (fst (encode_body (response_mime_type (rc_entries rc ! i)) body))
      + derived_item_overhead) rc = (rc1, ok)" by fastforce
  have st: "settled rc rc1" using settled_reserve res by (metis fst_conv)
  show ?thesis
    using res by (auto simp: set_response_body_def None Let_def case_prod_beta intro!: settled_trans [OF st] settled_set_entry)
next
  case (Some msg)
  then show ?thesis by (auto simp: set_response_body_def intro!: settled_set_entry)
qed

lemmas recorder_grows =
  grows_settled [OF _ settled_body] grows_freeze grows_recorder_step
  grows_settled [OF _ settled_finalize]

section \<open>The tasks\<close>

definition tasks_inv :: "bool \<Rightarrow> intake \<Rightarrow> bool" where
  "tasks_inv inc st \<longleftrightarrow>
     sound (it_recorder st) \<and> length (it_queue st) \<le> max_pending_fetches \<and> length (it_busy st) \<le> max_concurrent_fetches
     \<and> mset (it_issued st) = mset (it_queue st) + mset (it_busy st) + mset (it_answered st)
     \<and> distinct (map snd (it_issued st)) \<and> (\<forall>t \<in> set (it_issued st). scheduled (it_recorder st) (snd t))
     \<and> (\<not> inc \<longrightarrow> it_issued st = [])"

text \<open>The fields the operations on tasks leave alone.\<close>

definition intake_frame where
  "intake_frame st = (it_accept st, it_freezing st, it_buffer st, it_buffer_bytes st, it_phase st, it_taken st,
     it_handled st, it_overflowed st)"

lemma tasks_grow:
  "tasks_inv inc st \<Longrightarrow> grows (it_recorder st) rc \<Longrightarrow> tasks_inv inc (st\<lparr>it_recorder := rc\<rparr>)"
  by (auto simp: tasks_inv_def grows_def)

lemma schedule_ok:
  assumes "tasks_inv inc st" and "inc" and "scheduled (it_recorder st) (snd t)" and "snd t \<notin> snd ` set (it_issued st)"
  shows "tasks_inv inc (schedule_task t st)" and "intake_frame (schedule_task t st) = intake_frame st"
    and "grows (it_recorder st) (it_recorder (schedule_task t st))"
    and "it_issued (schedule_task t st) = it_issued st @ [t]"
proof -
  have body: "grows (it_recorder st) (set_response_body (Some (snd t)) [] (Some queue_full_message) (it_recorder st))"
    using assms(1) by (intro recorder_grows) (simp add: tasks_inv_def)
  show "tasks_inv inc (schedule_task t st)"
    using assms body by (auto simp: tasks_inv_def schedule_task_def grows_def)
  show "grows (it_recorder st) (it_recorder (schedule_task t st))"
    using body assms(1) by (auto simp: schedule_task_def tasks_inv_def grows_def)
qed (simp_all add: intake_frame_def schedule_task_def)

lemma schedule_all_ok:
  assumes "tasks_inv inc st" and "ts \<noteq> [] \<longrightarrow> inc" and "distinct (map snd ts)"
    and "\<forall>t \<in> set ts. scheduled (it_recorder st) (snd t) \<and> snd t \<notin> snd ` set (it_issued st)"
  shows "tasks_inv inc (fold schedule_task ts st) \<and> intake_frame (fold schedule_task ts st) = intake_frame st
    \<and> grows (it_recorder st) (it_recorder (fold schedule_task ts st))"
  using assms
proof (induction ts arbitrary: st)
  case Nil
  then show ?case by (simp add: tasks_inv_def grows_def)
next
  case (Cons t ts)
  have inc: "inc" and t: "scheduled (it_recorder st) (snd t)" "snd t \<notin> snd ` set (it_issued st)"
    using Cons.prems by auto
  note ok = schedule_ok [OF Cons.prems(1) inc t]
  have "scheduled (it_recorder (schedule_task t st)) (snd u) \<and> snd u \<notin> snd ` set (it_issued (schedule_task t st))"
    if "u \<in> set ts" for u
  proof -
    have "snd t \<notin> set (map snd ts)" using Cons.prems(3) by simp
    moreover have "snd u \<in> set (map snd ts)" using that by simp
    ultimately have "snd u \<noteq> snd t" by metis
    with that show ?thesis using Cons.prems(4) ok(3,4) by (simp add: grows_def)
  qed
  with Cons.IH [OF ok(1)] Cons.prems(2,3) show ?case using ok(2,3) grows_trans by auto
qed

lemma process_ok:
  assumes "tasks_inv inc st" and "it_accept st" and process: "st' = process_event inc buffered ev st"
  shows "tasks_inv inc st'" and "intake_frame st' = intake_frame (st\<lparr>it_handled := it_handled st @ [ev]\<rparr>)"
    and "grows (it_recorder st) (it_recorder st')"
proof -
  have snd: "sound (it_recorder st)" using assms(1) by (simp add: tasks_inv_def)
  obtain rc ts where eq: "recorder_step inc buffered (it_recorder st) ev = (rc, ts)" by fastforce
  have g: "grows (it_recorder st) rc" using grows_recorder_step [OF snd, of inc buffered ev] by (simp add: eq)
  have fresh: "tasks_fresh (it_recorder st) rc ts"
    using recorder_step_ok [of "it_recorder st" inc buffered ev] snd by (simp add: eq step_ok_def sound_def)
  let ?st = "st\<lparr>it_recorder := rc, it_handled := it_handled st @ [ev]\<rparr>"
  have "tasks_inv inc (st\<lparr>it_recorder := rc\<rparr>)" by (rule tasks_grow [OF assms(1) g])
  then have inv: "tasks_inv inc ?st" by (simp add: tasks_inv_def)
  have need: "ts \<noteq> [] \<longrightarrow> inc" using no_bodies_no_tasks [of buffered "it_recorder st" ev] eq by (cases inc) auto
  have sched: "\<forall>t \<in> set ts. scheduled (it_recorder ?st) (snd t) \<and> snd t \<notin> snd ` set (it_issued ?st)"
    using fresh assms(1) by (fastforce simp: tasks_fresh_def tasks_inv_def)
  have dist: "distinct (map snd ts)" using fresh by (simp add: tasks_fresh_def)
  have st': "st' = fold schedule_task ts ?st" using assms(2) by (simp add: process process_event_def eq)
  note all = schedule_all_ok [OF inv need dist sched, folded st']
  show "tasks_inv inc st'" and "intake_frame st' = intake_frame (st\<lparr>it_handled := it_handled st @ [ev]\<rparr>)"
    using all by (simp_all add: intake_frame_def)
  show "grows (it_recorder st) (it_recorder st')" using all grows_trans [OF g] by simp
qed

section \<open>The invariant of the threads\<close>

definition nothing_dropped :: "intake \<Rightarrow> bool" where
  "nothing_dropped st \<longleftrightarrow>
     \<not> it_overflowed st \<and> (case it_phase st of Aborting _ \<Rightarrow> False | Stopped (Some _) \<Rightarrow> False | _ \<Rightarrow> True)"

definition events_inv :: "intake \<Rightarrow> bool" where
  "events_inv st \<longleftrightarrow>
     0 \<le> it_buffer_bytes st \<and> it_buffer_bytes st \<le> max_freeze_buffer_bytes
     \<and> (it_freezing st \<longleftrightarrow> it_phase st = Cutting) \<and> (\<not> it_freezing st \<longrightarrow> it_buffer st = [] \<and> it_buffer_bytes st = 0)
     \<and> (it_accept st \<longleftrightarrow> (case it_phase st of Stopped _ \<Rightarrow> False | _ \<Rightarrow> True))
     \<and> (it_overflowed st \<longrightarrow> rc_limit_err (it_recorder st) \<noteq> None)
     \<and> (nothing_dropped st \<longrightarrow> it_taken st = it_handled st @ it_buffer st)"

lemma events_frame:
  assumes "events_inv st" and "intake_frame st' = intake_frame st" and "grows (it_recorder st) (it_recorder st')"
  shows "events_inv st'"
  using assms unfolding events_inv_def intake_frame_def nothing_dropped_def grows_def prod.inject by metis

lemma listen_ok:
  assumes "tasks_inv inc st" and "events_inv st"
  shows "tasks_inv inc (listen inc sizes ev st) \<and> events_inv (listen inc sizes ev st)"
proof (cases "is_recorder_event ev \<and> it_accept st")
  case False
  then have "listen inc sizes ev st = st" unfolding listen_def by (intro if_P) blast
  with assms show ?thesis by simp
next
  case True
  let ?st = "st\<lparr>it_taken := it_taken st @ [ev]\<rparr>"
  have t: "tasks_inv inc ?st" using assms(1) by (simp add: tasks_inv_def)
  show ?thesis
  proof (cases "it_freezing st")
    case freezing: True
    have eq: "listen inc sizes ev st = buffer_event sizes ev ?st" using True freezing by (simp add: listen_def)
    have limit: "grows (it_recorder st) (set_capture_error (Some buffer_full_message) (it_recorder st))"
      using assms(1) by (auto simp: set_capture_error_def tasks_inv_def intro: grows_settled settled_set_limit_error)
    have "rc_limit_err (set_capture_error (Some buffer_full_message) (it_recorder st)) \<noteq> None"
      by (simp add: set_capture_error_def set_limit_error_def)
    moreover have "freeze_event_bytes sizes ev \<ge> 0"
      by (simp add: freeze_event_bytes_def max_freeze_buffer_bytes_def split: option.split)
    moreover have "tasks_inv inc (?st\<lparr>it_recorder := set_capture_error (Some buffer_full_message) (it_recorder st)\<rparr>)"
      using tasks_grow [OF t] limit by simp
    ultimately show ?thesis
      using t assms(2) freezing by (auto simp: eq buffer_event_def tasks_inv_def events_inv_def nothing_dropped_def)
  next
    case False
    have eq: "listen inc sizes ev st = process_event inc False ev ?st" using True False by (simp add: listen_def)
    have acc: "it_accept ?st" using True by simp
    note ok = process_ok [OF t acc eq]
    have "events_inv (?st\<lparr>it_handled := it_handled st @ [ev]\<rparr>)"
      using assms(2) False by (simp add: events_inv_def nothing_dropped_def)
    then have "events_inv (listen inc sizes ev st)" by (rule events_frame) (use ok in simp_all)
    with ok show ?thesis by simp
  qed
qed

lemma replay_ok:
  assumes "tasks_inv inc st" and "it_accept st"
  shows "tasks_inv inc (fold (process_event inc True) evs st)
    \<and> intake_frame (fold (process_event inc True) evs st) = intake_frame (st\<lparr>it_handled := it_handled st @ evs\<rparr>)
    \<and> grows (it_recorder st) (it_recorder (fold (process_event inc True) evs st))"
  using assms
proof (induction evs arbitrary: st)
  case Nil
  then show ?case by (simp add: tasks_inv_def grows_def intake_frame_def)
next
  case (Cons ev evs)
  note ok = process_ok [OF Cons.prems refl, of True ev]
  have "it_accept (process_event inc True ev st)" using ok(2) Cons.prems(2) by (simp add: intake_frame_def)
  from Cons.IH [OF ok(1) this] show ?case
    using ok(2) grows_trans [OF ok(3)] by (simp add: intake_frame_def)
qed

lemma end_freeze_ok:
  assumes "tasks_inv inc st" and "events_inv st" and "it_phase st = Cutting"
  shows "tasks_inv inc (end_freeze inc cutoff st) \<and> events_inv (end_freeze inc cutoff st)"
proof (cases cutoff)
  case (Inl err)
  then show ?thesis using assms
    by (simp add: end_freeze_def clear_buffer_def tasks_inv_def events_inv_def nothing_dropped_def max_freeze_buffer_bytes_def)
next
  case (Inr t)
  let ?rc = "freeze_at_monotonic t (it_recorder st)"
  let ?st = "st\<lparr>it_freezing := False, it_recorder := ?rc, it_phase := Draining\<rparr>"
  have g: "grows (it_recorder st) ?rc" using assms(1) by (simp add: recorder_grows tasks_inv_def)
  have "tasks_inv inc ?st" using tasks_grow [OF assms(1) g] by (simp add: tasks_inv_def)
  moreover have "it_accept ?st" using assms(2,3) by (simp add: events_inv_def)
  ultimately have ok: "tasks_inv inc (fold (process_event inc True) (it_buffer st) ?st)"
    "intake_frame (fold (process_event inc True) (it_buffer st) ?st) = intake_frame (?st\<lparr>it_handled := it_handled st @ it_buffer st\<rparr>)"
    "grows ?rc (it_recorder (fold (process_event inc True) (it_buffer st) ?st))"
    using replay_ok [of inc ?st "it_buffer st"] by simp_all
  show ?thesis
    using ok assms(2,3) g
    by (auto simp: end_freeze_def Inr clear_buffer_def tasks_inv_def events_inv_def intake_frame_def nothing_dropped_def
        max_freeze_buffer_bytes_def grows_def)
qed

lemma answer_ok:
  assumes "tasks_inv inc st" and "events_inv st" and "i < length (it_busy st)"
  shows "tasks_inv inc (answer_task i body err st) \<and> events_inv (answer_task i body err st)"
proof -
  let ?rc = "set_response_body (Some (snd (it_busy st ! i))) body err (it_recorder st)"
  have g: "grows (it_recorder st) ?rc" using assms(1) by (simp add: recorder_grows tasks_inv_def)
  have "mset (it_busy st) = mset (take i (it_busy st) @ it_busy st ! i # drop (Suc i) (it_busy st))"
    using id_take_nth_drop [OF assms(3)] by (rule arg_cong)
  then have busy: "mset (it_busy st) = mset (take i (it_busy st) @ drop (Suc i) (it_busy st)) + {#it_busy st ! i#}"
    by simp
  have "tasks_inv inc (answer_task i body err st)"
    using tasks_grow [OF assms(1) g] assms(3) busy by (auto simp: tasks_inv_def answer_task_def Let_def)
  moreover have "events_inv (answer_task i body err st)"
    by (rule events_frame [OF assms(2)]) (simp_all add: intake_frame_def answer_task_def Let_def g)
  ultimately show ?thesis by blast
qed

lemma take_ok:
  assumes "tasks_inv inc st" and "events_inv st" and "length (it_busy st) < max_concurrent_fetches"
  shows "tasks_inv inc (take_task st) \<and> events_inv (take_task st)"
proof -
  have "tasks_inv inc (take_task st)"
    using assms by (auto simp: tasks_inv_def take_task_def split: list.split)
  moreover have "events_inv (take_task st)"
    using assms(2) by (auto simp: events_inv_def nothing_dropped_def take_task_def split: list.split)
  ultimately show ?thesis by blast
qed

lemma step_keeps:
  assumes "intake_step inc sizes st st'" and "tasks_inv inc st" and "events_inv st"
  shows "tasks_inv inc st' \<and> events_inv st'"
  using assms(1)
proof cases
  case event
  then show ?thesis using listen_ok [OF assms(2,3)] by simp
next
  case taken
  then show ?thesis using take_ok [OF assms(2,3)] by simp
next
  case (answered i body err)
  then show ?thesis using answer_ok [OF assms(2,3)] by simp
next
  case cut_off
  then show ?thesis using end_freeze_ok [OF assms(2,3)] by simp
next
  case poll
  have "grows (it_recorder st) (finalize_queued_extra_info (it_recorder st))"
    using assms(2) by (simp add: recorder_grows tasks_inv_def)
  then show ?thesis
    using poll tasks_grow [OF assms(2)] events_frame [OF assms(3), of st']
    by (simp add: poll_extra_info_def extra_info_drain_needed_def Let_def intake_frame_def)
qed (use assms(2,3) in \<open>auto simp: tasks_inv_def events_inv_def nothing_dropped_def begin_freeze_def abort_navigation_def
    stop_tasks_def\<close>)

lemma reach_keeps:
  assumes "intake_reach inc sizes rc st" and "sound rc"
  shows "tasks_inv inc st \<and> events_inv st"
  using assms
proof induction
  case started
  then show ?case
    by (simp add: intake_start_def tasks_inv_def events_inv_def nothing_dropped_def max_freeze_buffer_bytes_def)
next
  case (moved st st')
  then show ?case using step_keeps by blast
qed

section \<open>Properties\<close>

lemma new_recorder_sound: "sound (new_recorder target start)"
  using new_recorder_inv new_recorder_exportable(4) by (simp add: sound_def)

text \<open>A capture that ran, with the error its listener stumbled over: none here.\<close>

definition quiet_end :: intake where
  "quiet_end = stop_tasks None (end_freeze True (Inr 5) (begin_freeze (listen True (\<lambda>_. Some 10) (DomContentEventFired None)
     (intake_start (new_recorder ''https://a.b/'' 1)))))"

lemma quiet_end_reached: "intake_reach True (\<lambda>_. Some 10) (new_recorder ''https://a.b/'' 1) quiet_end"
  unfolding quiet_end_def
proof (intro intake_reach.moved [OF _ intake_step.stop] intake_reach.moved [OF _ intake_step.cut_off]
    intake_reach.moved [OF _ intake_step.cut] intake_reach.moved [OF _ intake_step.event] intake_reach.started)
qed (simp_all add: intake_start_def begin_freeze_def end_freeze_def clear_buffer_def listen_def process_event_def
    recorder_step_def handle_event_def is_recorder_event_def new_recorder_def reserve_def Let_def)

text \<open>
  C12: Whatever the interleaving of browser events, workers and the main thread, a capture keeps at most 64 tasks
  waiting and 8 running, buffers at most 16 MiB of events, makes at most one task for an entry, and every task
  made is waiting, running, or answered, exactly once.
\<close>
theorem capture_tasks_accounted:
  assumes "intake_reach inc sizes (new_recorder target start) st"
  shows "length (it_queue st) \<le> 64 \<and> length (it_busy st) \<le> 8 \<and> it_buffer_bytes st \<le> 16 * 2 ^ 20
    \<and> distinct (map snd (it_issued st)) \<and> mset (it_issued st) = mset (it_queue st) + mset (it_busy st) + mset (it_answered st)
    \<and> recorder_inv (it_recorder st)"
  using reach_keeps [OF assms new_recorder_sound]
  by (simp add: tasks_inv_def events_inv_def sound_def max_pending_fetches_def max_concurrent_fetches_def
      max_freeze_buffer_bytes_def)

theorem capture_tasks_accounted_witness: "length (it_queue quiet_end) \<le> 64"
  using capture_tasks_accounted [OF quiet_end_reached] by blast

lemma recorder_archived:
  assumes "sound rc"
  shows "fst (recorder_archive env title creator browser (mark_missing_extra_info rc)) \<noteq> None"
proof -
  let ?rc = "mark_missing_extra_info rc"
  have keys: "keys_of ?rc = keys_of rc"
    using mark_missing_keys steady_keys [OF settled_steady [OF settled_finalize]] by simp
  have "exportable rc" using assms by (simp add: sound_def exportable_def recorder_inv_def numbered_def)
  then have "exportable ?rc" using exportable_keys keys by blast
  from archive_of_exportable [OF this] show ?thesis by (simp add: Let_def)
qed

lemma archived_end:
  assumes "capture_result env o1 socket product late st = Captured a" and "\<exists>r. it_phase st = Stopped r"
  shows "it_phase st = Stopped None" and "rc_limit_err (mark_missing_extra_info (it_recorder st)) = None"
  using assms by (auto simp: capture_result_def captured_error_def Let_def split: option.splits)

lemma mark_missing_sticky: "rc_limit_err rc \<noteq> None \<Longrightarrow> rc_limit_err (mark_missing_extra_info rc) \<noteq> None"
  using settled_finalize [of rc] by (auto simp: mark_missing_extra_info_def Let_def settled_def steady_def)


text \<open>
  A capture whose navigation succeeds, that meets no limit and no deadline gives an archive or the fault the
  validator finds in it: the export never meets an entry without a request.
\<close>
theorem finished_capture_exports:
  assumes "intake_reach inc sizes (new_recorder target start) st"
  shows "capture_result env o1 socket product late st \<noteq> Nil_request"
proof -
  let ?rc = "mark_missing_extra_info (it_recorder st)"
  have "sound (it_recorder st)" using reach_keeps [OF assms new_recorder_sound] by (simp add: tasks_inv_def)
  from recorder_archived [OF this]
  obtain x where "fst (recorder_archive env [] (har_creator_of o1) (browser_creator product) ?rc) = Some x" by blast
  then show ?thesis
    by (simp add: capture_result_def Let_def split: main_phase.split option.split sum.split)
qed

theorem finished_capture_exports_witness:
  "capture_result env o1 socket product late quiet_end \<noteq> Nil_request"
  by (rule finished_capture_exports [OF quiet_end_reached])

section \<open>The workers end\<close>

definition work_left :: "intake \<Rightarrow> nat" where
  "work_left st = 2 * length (it_queue st) + length (it_busy st)"

lemma stopped_step:
  assumes "intake_step inc sizes st st'" and "it_phase st = Stopped r" and "\<not> it_accept st"
  shows "it_phase st' = Stopped r \<and> \<not> it_accept st' \<and> work_left st = Suc (work_left st')"
  using assms by cases (auto simp: take_task_def answer_task_def work_left_def Let_def split: list.splits)

lemma stopped_steps:
  "(intake_step inc sizes ^^ n) st st' \<Longrightarrow> it_phase st = Stopped r \<Longrightarrow> \<not> it_accept st \<Longrightarrow>
   intake_reach inc sizes rc st \<Longrightarrow> intake_reach inc sizes rc st' \<and> work_left st = n + work_left st'"
proof (induction n arbitrary: st)
  case 0
  then show ?case by simp
next
  case (Suc n)
  then obtain st1 where 1: "intake_step inc sizes st st1" and rest: "(intake_step inc sizes ^^ n) st1 st'"
    by (blast dest: relpowp_Suc_D2)
  from stopped_step [OF 1 Suc.prems(2,3)] Suc.IH [OF rest] intake_reach.moved [OF Suc.prems(4) 1]
  show ?case by simp
qed

lemma undrained_moves:
  assumes "tasks_inv inc st" and "\<not> drained st"
  shows "\<exists>st'. intake_step inc sizes st st'"
proof (cases "it_busy st")
  case Nil
  with assms(2) have queue: "it_queue st \<noteq> []" by (simp add: drained_def)
  then have "inc" using assms(1) by (auto simp: tasks_inv_def)
  with queue Nil show ?thesis by (auto simp: max_concurrent_fetches_def intro!: exI intake_step.taken)
next
  case (Cons t ts)
  then show ?thesis by (auto intro!: exI intake_step.answered [of 0])
qed

text \<open>
  C30: Once tasks are stopped the workers end: at most 136 more steps are possible in any order, and as long as a
  task is waiting or running one of them is.
\<close>
theorem workers_end:
  assumes "intake_reach inc sizes (new_recorder target start) st" and "it_phase st = Stopped r"
    and "(intake_step inc sizes ^^ n) st st'"
  shows "n \<le> 136 \<and> work_left st = n + work_left st' \<and> (drained st' \<or> (\<exists>st''. intake_step inc sizes st' st''))"
proof -
  note inv = reach_keeps [OF assms(1) new_recorder_sound]
  have "\<not> it_accept st" using inv assms(2) by (simp add: events_inv_def)
  note steps = stopped_steps [OF assms(3,2) this assms(1)]
  have "tasks_inv inc st'" using reach_keeps [OF conjunct1 [OF steps] new_recorder_sound] by blast
  then have "drained st' \<or> (\<exists>st''. intake_step inc sizes st' st'')" using undrained_moves by blast
  moreover have "n \<le> 136"
    using inv steps by (simp add: tasks_inv_def work_left_def max_pending_fetches_def max_concurrent_fetches_def)
  ultimately show ?thesis using steps by blast
qed

lemma quiet_end_facts: "it_phase quiet_end = Stopped None" "drained quiet_end"
  by (simp_all add: quiet_end_def stop_tasks_def end_freeze_def clear_buffer_def begin_freeze_def listen_def
      process_event_def recorder_step_def handle_event_def is_recorder_event_def new_recorder_def reserve_def Let_def
      intake_start_def drained_def)

theorem workers_end_witness: "work_left quiet_end = 0 + work_left quiet_end"
  using workers_end [OF quiet_end_reached quiet_end_facts(1), of 0 quiet_end] by simp


end
