(* ===== verification/Go_Flag.thy ===== *)
theory Go_Flag
  imports Recorder_Archive Json
begin

text \<open>
  Go's \<open>flag\<close> package, as the commands use it: the values of its flags (\<open>strconv.ParseInt\<close> with a free base,
  \<open>time.ParseDuration\<close>), and \<open>FlagSet.Parse\<close> with \<open>flag.ContinueOnError\<close>.
\<close>

section \<open>Integers with a free base\<close>

definition digit_of :: "char \<Rightarrow> nat option" where
  "digit_of c =
     (if is_digit c then Some (byte c - 48)
      else let b = byte (lower c) in if 97 \<le> b \<and> b \<le> 122 then Some (b - 87) else None)"

text \<open>\<open>underscoreOK\<close>: an underscore separates digits, or a base prefix and a digit.\<close>

datatype last_seen = Beginning | Digit_seen | Underscore_seen | Other_seen

fun underscores_from :: "bool \<Rightarrow> last_seen \<Rightarrow> string \<Rightarrow> bool" where
  "underscores_from hex seen [] = (seen \<noteq> Underscore_seen)"
| "underscores_from hex seen (c # cs) =
     (if is_digit c \<or> hex \<and> 97 \<le> byte (lower c) \<and> byte (lower c) \<le> 102 then underscores_from hex Digit_seen cs
      else if c = CHR ''_'' then seen = Digit_seen \<and> underscores_from hex Underscore_seen cs
      else seen \<noteq> Underscore_seen \<and> underscores_from hex Other_seen cs)"

definition underscore_ok :: "string \<Rightarrow> bool" where
  "underscore_ok s =
     (case s of
        a # b # cs \<Rightarrow>
          if a = CHR ''0'' \<and> lower b \<in> {CHR ''b'', CHR ''o'', CHR ''x''}
          then underscores_from (lower b = CHR ''x'') Digit_seen cs else underscores_from False Beginning s
      | _ \<Rightarrow> underscores_from False Beginning s)"

datatype number_fault = Bad_syntax | Out_of_range

definition max_uint64 :: nat where "max_uint64 = 2 ^ 64 - 1"

fun based_digits :: "nat \<Rightarrow> nat \<Rightarrow> string \<Rightarrow> number_fault + nat" where
  "based_digits base n [] = Inr n"
| "based_digits base n (c # cs) =
     (if c = CHR ''_'' then based_digits base n cs
      else case digit_of c of
             None \<Rightarrow> Inl Bad_syntax
           | Some d \<Rightarrow>
               if d \<ge> base then Inl Bad_syntax
               else if n * base + d > max_uint64 then Inl Out_of_range
               else based_digits base (n * base + d) cs)"

definition base_of :: "string \<Rightarrow> nat \<times> string" where
  "base_of s =
     (case s of
        a # cs \<Rightarrow>
          if a \<noteq> CHR ''0'' then (10, s)
          else (case cs of
                  b # d # ds \<Rightarrow>
                    if lower b = CHR ''b'' then (2, d # ds)
                    else if lower b = CHR ''o'' then (8, d # ds)
                    else if lower b = CHR ''x'' then (16, d # ds)
                    else (8, cs)
                | _ \<Rightarrow> (8, cs))
      | [] \<Rightarrow> (10, s))"

definition parse_uint_any :: "string \<Rightarrow> number_fault + nat" where
  "parse_uint_any s =
     (if s = [] then Inl Bad_syntax
      else case base_of s of
             (base, digits) \<Rightarrow>
               (case based_digits base 0 digits of
                  Inl fault \<Rightarrow> Inl fault
                | Inr n \<Rightarrow> if CHR ''_'' \<in> set digits \<and> \<not> underscore_ok s then Inl Bad_syntax else Inr n))"

definition parse_int_any :: "string \<Rightarrow> number_fault + int" where
  "parse_int_any s =
     (let (neg, digits) = (case s of [] \<Rightarrow> (False, [])
                       | c # cs \<Rightarrow> if c = CHR ''-'' then (True, cs) else if c = CHR ''+'' then (False, cs) else (False, s))
      in case parse_uint_any digits of
           Inl fault \<Rightarrow> Inl fault
         | Inr n \<Rightarrow>
             if \<not> neg \<and> int n \<ge> 2 ^ 63 \<or> neg \<and> int n > 2 ^ 63 then Inl Out_of_range
             else Inr (if neg then - int n else int n))"

section \<open>Durations\<close>

definition unit_of :: "string \<Rightarrow> int option" where
  "unit_of u =
     map_of [(''ns'', 1), (''us'', 1000), ([CHR 0xC2, CHR 0xB5, CHR ''s''], 1000), ([CHR 0xCE, CHR 0xBC, CHR ''s''], 1000),
             (''ms'', 1000000), (''s'', 1000000000), (''m'', 60000000000), (''h'', 3600000000000)] u"

text \<open>The digits after the point, as long as they fit, with the power of ten (a \<open>float64\<close>) they are divided by.\<close>

fun leading_fraction :: "int \<Rightarrow> rat \<Rightarrow> bool \<Rightarrow> string \<Rightarrow> int \<times> rat" where
  "leading_fraction x scale full [] = (x, scale)"
| "leading_fraction x scale full (c # cs) =
     (if full \<or> x > (2 ^ 63 - 1) div 10 \<or> x * 10 + int (digit_value c) > 2 ^ 63 then leading_fraction x scale True cs
      else leading_fraction (x * 10 + int (digit_value c)) (go_float (scale * 10)) False cs)"

definition is_unit_char :: "char \<Rightarrow> bool" where
  "is_unit_char c \<longleftrightarrow> c \<noteq> CHR ''.'' \<and> \<not> is_digit c"

text \<open>One number and its unit, in nanoseconds: the digits before and after the point, and the unit.\<close>

definition duration_term :: "string \<Rightarrow> string option \<Rightarrow> string \<Rightarrow> int option" where
  "duration_term before after u =
     (case unit_of u of
        None \<Rightarrow> None
      | Some unit \<Rightarrow>
          (let v = int (digits_value before);
               (f, scale) = leading_fraction 0 1 False (case after of None \<Rightarrow> [] | Some ds \<Rightarrow> ds);
               d = v * unit + (if f > 0 then \<lfloor>go_float (go_float (of_int f) * go_float (of_int unit / scale))\<rfloor> else 0)
           in if before = [] \<and> (after = None \<or> after = Some []) then None
              else if v > 2 ^ 63 \<or> v > 2 ^ 63 div unit \<or> d > 2 ^ 63 then None
              else Some d))"

text \<open>A term and what follows it.\<close>

definition split_term :: "string \<Rightarrow> (string \<times> string option \<times> string) \<times> string" where
  "split_term s =
     (let before = takeWhile is_digit s; rest = dropWhile is_digit s;
          after = (case rest of c # cs \<Rightarrow> if c = CHR ''.'' then Some (takeWhile is_digit cs) else None | [] \<Rightarrow> None);
          rest1 = (case rest of c # cs \<Rightarrow> if c = CHR ''.'' then dropWhile is_digit cs else rest | [] \<Rightarrow> [])
      in ((before, after, takeWhile is_unit_char rest1), dropWhile is_unit_char rest1))"

lemma split_term_shorter:
  assumes "split_term s = ((before, after, u), rest)" and "u \<noteq> []"
  shows "length rest < length s"
proof -
  let ?d = "dropWhile is_digit s"
  define rest1 where "rest1 = (case ?d of c # cs \<Rightarrow> if c = CHR ''.'' then dropWhile is_digit cs else ?d | [] \<Rightarrow> [])"
  have "length rest1 \<le> length ?d"
    unfolding rest1_def by (auto split: list.split intro: le_SucI length_dropWhile_le)
  then have "length rest1 \<le> length s" using length_dropWhile_le [of is_digit s] by linarith
  moreover have u: "u = takeWhile is_unit_char rest1" and rest: "rest = dropWhile is_unit_char rest1"
    using assms(1) by (simp_all add: split_term_def Let_def rest1_def)
  have "length rest1 = length u + length rest"
    unfolding u rest by (metis length_append takeWhile_dropWhile_id)
  moreover have "length u > 0" using assms(2) by simp
  ultimately show ?thesis by linarith
qed

function duration_terms :: "int \<Rightarrow> string \<Rightarrow> int option" where
  "duration_terms d s =
     (if s = [] then Some d
      else case split_term s of
             ((before, after, u), rest) \<Rightarrow>
               if u = [] then None
               else (case duration_term before after u of
                       None \<Rightarrow> None
                     | Some t \<Rightarrow> if d + t > 2 ^ 63 then None else duration_terms (d + t) rest))"
  by pat_completeness auto
termination
  by (relation "measure (\<lambda>(d, s). length s)") (auto dest: split_term_shorter [OF sym])

declare duration_terms.simps [simp del]

definition parse_duration :: "string \<Rightarrow> int option" where
  "parse_duration s0 =
     (let (neg, s) = (case s0 of [] \<Rightarrow> (False, [])
                       | c # cs \<Rightarrow> if c = CHR ''-'' then (True, cs) else if c = CHR ''+'' then (False, cs) else (False, s0))
      in if s = ''0'' then Some 0
         else if s = [] then None
         else case duration_terms 0 s of
                None \<Rightarrow> None
              | Some d \<Rightarrow> if neg then Some (- d) else if d > 2 ^ 63 - 1 then None else Some d)"

section \<open>Flags\<close>

text \<open>A flag of a set: its \<open>Set\<close> is the error a value is refused with.\<close>

datatype flag_kind = Switch | Valued "string \<Rightarrow> string option"

type_synonym flag_set = "(string \<times> flag_kind) list"

definition set_switch :: "string \<Rightarrow> string option" where
  "set_switch v = (if parse_bool v = None then Some ''parse error'' else None)"

definition set_string :: "string \<Rightarrow> string option" where "set_string v = None"

definition set_int :: "string \<Rightarrow> string option" where
  "set_int v =
     (case parse_int_any v of
        Inl Bad_syntax \<Rightarrow> Some ''parse error''
      | Inl Out_of_range \<Rightarrow> Some ''value out of range''
      | Inr _ \<Rightarrow> None)"

definition set_duration :: "string \<Rightarrow> string option" where
  "set_duration v = (if parse_duration v = None then Some ''parse error'' else None)"

text \<open>What \<open>parseOne\<close> makes of an argument: no flag, the end of the flags, or a name and an attached value.\<close>

datatype flag_text = No_flag | Last_flag | Bad_flag | Flag_text string "string option"

definition read_flag :: "string \<Rightarrow> flag_text" where
  "read_flag s =
     (if length s < 2 \<or> hd s \<noteq> CHR ''-'' then No_flag
      else if s = ''--'' then Last_flag
      else let name = (if s ! 1 = CHR ''-'' then drop 2 s else drop 1 s) in
        if name = [] \<or> hd name = CHR ''-'' \<or> hd name = CHR ''='' then Bad_flag
        else case cut_byte CHR ''='' name of
               (n, v, True) \<Rightarrow> Flag_text n (Some v)
             | (n, v, False) \<Rightarrow> Flag_text n None)"

definition switch_fault :: "string \<Rightarrow> string \<Rightarrow> string \<Rightarrow> string" where
  "switch_fault name v err = ''invalid boolean value '' @ quote v @ '' for -'' @ name @ '': '' @ err"

definition value_fault :: "string \<Rightarrow> string \<Rightarrow> string \<Rightarrow> string" where
  "value_fault name v err = ''invalid value '' @ quote v @ '' for flag -'' @ name @ '': '' @ err"

definition unknown_flag :: "string \<Rightarrow> string" where
  "unknown_flag name =
     (if name = ''help'' \<or> name = ''h'' then ''flag: help requested'' else ''flag provided but not defined: -'' @ name)"

text \<open>The values set, in order, and the arguments left; or the error of the first flag that is refused.\<close>

fun parse_flags :: "flag_set \<Rightarrow> string list \<Rightarrow> string + (string \<times> string) list \<times> string list" where
  "parse_flags fs [] = Inr ([], [])"
| "parse_flags fs (a # args) =
     (case read_flag a of
        No_flag \<Rightarrow> Inr ([], a # args)
      | Last_flag \<Rightarrow> Inr ([], args)
      | Bad_flag \<Rightarrow> Inl (''bad flag syntax: '' @ a)
      | Flag_text name attached \<Rightarrow>
          (case map_of fs name of
             None \<Rightarrow> Inl (unknown_flag name)
           | Some Switch \<Rightarrow>
               (case attached of
                  None \<Rightarrow> map_sum id (apfst (Cons (name, ''true''))) (parse_flags fs args)
                | Some v \<Rightarrow>
                    (case set_switch v of
                       Some err \<Rightarrow> Inl (switch_fault name v err)
                     | None \<Rightarrow> map_sum id (apfst (Cons (name, v))) (parse_flags fs args)))
           | Some (Valued check) \<Rightarrow>
               (case attached of
                  Some v \<Rightarrow>
                    (case check v of
                       Some err \<Rightarrow> Inl (value_fault name v err)
                     | None \<Rightarrow> map_sum id (apfst (Cons (name, v))) (parse_flags fs args))
                | None \<Rightarrow>
                    (case args of
                       [] \<Rightarrow> Inl (''flag needs an argument: -'' @ name)
                     | v # rest \<Rightarrow>
                         (case check v of
                            Some err \<Rightarrow> Inl (value_fault name v err)
                          | None \<Rightarrow> map_sum id (apfst (Cons (name, v))) (parse_flags fs rest))))))"

declare parse_flags.simps(2) [simp del]

text \<open>The value of a variable that several names may set: the last one set, or the default.\<close>

definition flag_value :: "string list \<Rightarrow> string \<Rightarrow> (string \<times> string) list \<Rightarrow> string" where
  "flag_value names fallback values =
     (case filter (\<lambda>(n, v). n \<in> set names) values of [] \<Rightarrow> fallback | xs \<Rightarrow> snd (last xs))"

definition switch_value :: "string list \<Rightarrow> (string \<times> string) list \<Rightarrow> bool" where
  "switch_value names values = (parse_bool (flag_value names ''false'' values) = Some True)"

definition int_value :: "string \<Rightarrow> int \<Rightarrow> (string \<times> string) list \<Rightarrow> int" where
  "int_value name fallback values =
     (case parse_int_any (flag_value [name] [] values) of Inl _ \<Rightarrow> fallback | Inr n \<Rightarrow> n)"

definition duration_value :: "string \<Rightarrow> int \<Rightarrow> (string \<times> string) list \<Rightarrow> int" where
  "duration_value name fallback values =
     (case parse_duration (flag_value [name] [] values) of None \<Rightarrow> fallback | Some d \<Rightarrow> d)"

end
