(* ===== verification/Root.thy ===== *)
theory Root
  imports Go_Flag Format
begin

text \<open>
  The root command (\<open>internal/cli/root.go\<close>): the registry of commands, the help text, the global flags, the
  dispatch, and the exit codes. A command is what its \<open>Run\<close> does to the world, with what it writes on its two
  streams; the world is a parameter.
\<close>

section \<open>Commands\<close>

text \<open>An error is a usage error if one is in its chain.\<close>

datatype command_error = Usage_error string | Run_error string

definition error_message :: "command_error \<Rightarrow> string" where
  "error_message e = (case e of Usage_error m \<Rightarrow> m | Run_error m \<Rightarrow> m)"

definition wrap_error :: "string \<Rightarrow> command_error \<Rightarrow> command_error" where
  "wrap_error name e =
     (case e of Usage_error m \<Rightarrow> Usage_error (name @ '': '' @ m) | Run_error m \<Rightarrow> Run_error (name @ '': '' @ m))"

record 'w ran =
  ra_world :: 'w
  ra_out :: string
  ra_err :: string
  ra_error :: "command_error option"

record 'w command =
  cm_name :: string
  cm_summary :: string
  cm_run :: "output_mode \<Rightarrow> string list \<Rightarrow> 'w \<Rightarrow> 'w ran"

definition valid_command_name :: "string \<Rightarrow> bool" where
  "valid_command_name name \<longleftrightarrow>
     name \<noteq> [] \<and> name \<noteq> ''help'' \<and> is_lower (hd name)
     \<and> list_all (\<lambda>c. is_lower c \<or> c = CHR ''-'' \<or> is_digit c) (tl name)"

text \<open>The registry, in the order of registration; \<open>None\<close> is a \<open>nil\<close> command.\<close>

definition register :: "'w command list \<Rightarrow> 'w command option \<Rightarrow> string + 'w command list" where
  "register cs c0 =
     (case c0 of
        None \<Rightarrow> Inl ''register command: command is nil''
      | Some c \<Rightarrow>
          if \<not> valid_command_name (cm_name c) then Inl (''register command: invalid name '' @ quote (cm_name c))
          else if cm_name c \<in> set (map cm_name cs) then Inl (''register command: duplicate name '' @ quote (cm_name c))
          else Inr (cs @ [c]))"

fun register_all :: "'w command list \<Rightarrow> 'w command option list \<Rightarrow> string + 'w command list" where
  "register_all cs [] = Inr cs"
| "register_all cs (c # rest) = (case register cs c of Inl msg \<Rightarrow> Inl msg | Inr cs' \<Rightarrow> register_all cs' rest)"

definition new_root :: "'w command option list \<Rightarrow> string + 'w command list" where
  "new_root = register_all []"

definition find_command :: "'w command list \<Rightarrow> string \<Rightarrow> 'w command option" where
  "find_command cs name = find (\<lambda>c. cm_name c = name) cs"

section \<open>Help\<close>

definition planned_commands :: "(string \<times> string) list" where
  "planned_commands =
     [(''search'', ''Search Zillow through pure Go HTTP or a saved snapshot''),
      (''property'', ''Extract normalized Zillow property details''),
      (''har'', ''Capture, sanitize, and derive Zillow HAR data''),
      (''session'', ''Import and manage file-backed Zillow sessions''),
      (''version'', ''Print the gozillo version'')]"

definition planned_names :: "string list" where "planned_names = map fst planned_commands"

definition is_planned_command :: "string \<Rightarrow> bool" where
  "is_planned_command name \<longleftrightarrow> name \<in> set planned_names"

definition command_summary :: "'w command \<Rightarrow> string" where
  "command_summary c = (if trim_space (cm_summary c) = [] then ''No description'' else trim_space (cm_summary c))"

definition planned_help :: "'w command list \<Rightarrow> string \<times> string \<Rightarrow> string \<times> string" where
  "planned_help cs entry =
     (case find_command cs (fst entry) of
        Some c \<Rightarrow> (fst entry, command_summary c)
      | None \<Rightarrow> (fst entry, snd entry @ '' (not implemented)''))"

definition extra_help :: "'w command list \<Rightarrow> string \<Rightarrow> string \<times> string" where
  "extra_help cs name = (name, case find_command cs name of None \<Rightarrow> [] | Some c \<Rightarrow> command_summary c)"

definition command_help :: "'w command list \<Rightarrow> (string \<times> string) list" where
  "command_help cs =
     map (planned_help cs) planned_commands
     @ map (extra_help cs) (sort_stable string_less (filter (\<lambda>n. \<not> is_planned_command n) (map cm_name cs)))"

definition pad_to :: "nat \<Rightarrow> string \<Rightarrow> string" where
  "pad_to width s = s @ replicate (width - length s) CHR '' ''"

definition newline :: string where "newline = [CHR 0x0A]"

definition usage_head :: string where
  "usage_head =
     concat (map (\<lambda>l. l @ newline)
       [''Usage:'', ''  gozillo [global options] <command> [arguments]'', [], ''A pure-Go Zillow web client.'', [],
        ''Global options:'', ''  -o, --output <mode>  Output mode: table, json, or jsonl (default: table)'',
        ''  -h, --help           Show this help'', [], ''Commands:''])"

definition help_line :: "nat \<Rightarrow> string \<times> string \<Rightarrow> string" where
  "help_line width h = ''  '' @ pad_to width (fst h) @ ''  '' @ snd h @ newline"

definition usage_text :: "'w command list \<Rightarrow> string" where
  "usage_text cs =
     (let entries = command_help cs; width = foldl max 0 (map (length \<circ> fst) entries)
      in usage_head @ concat (map (help_line width) entries))"

section \<open>Running\<close>

definition root_flags :: flag_set where
  "root_flags = [(''output'', Valued set_string), (''o'', Valued set_string), (''help'', Switch), (''h'', Switch)]"

definition quiet_run :: "'w \<Rightarrow> command_error option \<Rightarrow> 'w ran" where
  "quiet_run w e = \<lparr>ra_world = w, ra_out = [], ra_err = [], ra_error = e\<rparr>"

definition unknown_command :: "string \<Rightarrow> command_error" where
  "unknown_command name =
     Usage_error (if is_planned_command name then ''command '' @ quote name @ '' is not implemented yet''
                  else ''unknown command '' @ quote name)"

text \<open>\<open>Root.Run\<close>; \<open>fault\<close> is the error of writing the help text.\<close>

definition run_root :: "string option \<Rightarrow> 'w command list \<Rightarrow> string list \<Rightarrow> 'w \<Rightarrow> 'w ran" where
  "run_root fault cs args w =
     (case parse_flags root_flags args of
        Inl msg \<Rightarrow> quiet_run w (Some (Usage_error msg))
      | Inr (sets, remaining) \<Rightarrow>
          if switch_value [''help'', ''h''] sets \<or> remaining = [] \<or> hd remaining = ''help''
          then (case fault of
                  Some err \<Rightarrow> quiet_run w (Some (Run_error err))
                | None \<Rightarrow> (quiet_run w None)\<lparr>ra_out := usage_text cs\<rparr>)
          else (case parse_mode (flag_value [''output'', ''o''] ''table'' sets) of
                  Inl msg \<Rightarrow> quiet_run w (Some (Usage_error msg))
                | Inr mode \<Rightarrow>
                    (case find_command cs (hd remaining) of
                       None \<Rightarrow> quiet_run w (Some (unknown_command (hd remaining)))
                     | Some c \<Rightarrow>
                         (let r = cm_run c mode (tl remaining) w
                          in r\<lparr>ra_error := map_option (wrap_error (hd remaining)) (ra_error r)\<rparr>))))"

definition exit_ok :: int where "exit_ok = 0"
definition exit_failure :: int where "exit_failure = 1"
definition exit_usage :: int where "exit_usage = 2"

definition error_line :: "string \<Rightarrow> string" where
  "error_line msg = ''gozillo: '' @ msg @ newline"

definition exit_code :: "command_error option \<Rightarrow> int" where
  "exit_code e = (case e of None \<Rightarrow> exit_ok | Some (Usage_error _) \<Rightarrow> exit_usage | Some (Run_error _) \<Rightarrow> exit_failure)"

text \<open>\<open>Execute\<close> with commands; its exit code, and what is on the two streams.\<close>

definition execute_args :: "string option \<Rightarrow> 'w command option list \<Rightarrow> string list \<Rightarrow> 'w \<Rightarrow> int \<times> 'w ran" where
  "execute_args fault commands args w =
     (case new_root commands of
        Inl msg \<Rightarrow> (exit_failure, (quiet_run w (Some (Run_error msg)))\<lparr>ra_err := error_line msg\<rparr>)
      | Inr cs \<Rightarrow>
          (let r = run_root fault cs args w in
           case ra_error r of
             None \<Rightarrow> (exit_ok, r)
           | Some e \<Rightarrow> (exit_code (Some e), r\<lparr>ra_err := ra_err r @ error_line (error_message e)\<rparr>)))"

text \<open>The command that prints the version.\<close>

definition version_command :: "string \<Rightarrow> string \<Rightarrow> string option \<Rightarrow> 'w command" where
  "version_command version current fault =
     \<lparr>cm_name = ''version'', cm_summary = ''Print the gozillo version'',
      cm_run = (\<lambda>mode args w. case fault of
        Some err \<Rightarrow> quiet_run w (Some (Run_error err))
      | None \<Rightarrow> (quiet_run w None)\<lparr>ra_out := ''gozillo '' @ (if version = [] then current else version) @ newline\<rparr>)\<rparr>"

end
