(* ===== verification/Root_Props.thy ===== *)
theory Root_Props
  imports Root
begin

text \<open>
  Properties of the flags and of the root command: flags written out are read back, the registry holds valid and
  distinct names, a registered command gets its arguments and mode, and the exit code tells the kind of error.
\<close>

section \<open>Flags\<close>

definition flag_name_ok :: "string \<Rightarrow> bool" where
  "flag_name_ok n \<longleftrightarrow> n \<noteq> [] \<and> hd n \<noteq> CHR ''-'' \<and> CHR ''='' \<notin> set n"

definition flag_accepts :: "flag_set \<Rightarrow> string \<times> string \<Rightarrow> bool" where
  "flag_accepts fs s =
     (case map_of fs (fst s) of
        None \<Rightarrow> False
      | Some Switch \<Rightarrow> set_switch (snd s) = None
      | Some (Valued check) \<Rightarrow> check (snd s) = None)"

definition written_flag :: "string \<times> string \<Rightarrow> string" where
  "written_flag s = ''--'' @ fst s @ ''='' @ snd s"

lemma cut_written: "c \<notin> set n \<Longrightarrow> cut_byte c (n @ c # v) = (n, v, True)"
  by (induction n) auto

lemma read_written: "flag_name_ok (fst s) \<Longrightarrow> read_flag (written_flag s) = Flag_text (fst s) (Some (snd s))"
proof -
  assume ok: "flag_name_ok (fst s)"
  then obtain c cs where n: "fst s = c # cs" by (auto simp: flag_name_ok_def neq_Nil_conv)
  have cut: "cut_byte CHR ''='' (fst s @ CHR ''='' # snd s) = (fst s, snd s, True)"
    using ok by (intro cut_written) (simp add: flag_name_ok_def)
  show ?thesis
    using ok cut by (auto simp: read_flag_def written_flag_def n flag_name_ok_def Let_def)
qed

lemma parse_written_step:
  assumes "flag_name_ok (fst s)" and "flag_accepts fs s"
  shows "parse_flags fs (written_flag s # args) = map_sum id (apfst (Cons s)) (parse_flags fs args)"
proof (cases "map_of fs (fst s)")
  case None
  with assms(2) show ?thesis by (simp add: flag_accepts_def)
next
  case (Some kind)
  then show ?thesis
    using assms(2) read_written [OF assms(1)]
    by (cases kind) (simp_all add: parse_flags.simps(2) flag_accepts_def)
qed

text \<open>
  C0: Flags written as \<open>--name=value\<close> before \<open>--\<close> are read back in their order, whatever their values hold, and
  the arguments after \<open>--\<close> are kept as they are.
\<close>
theorem written_flags_read_back:
  assumes "\<forall>s \<in> set sets. flag_name_ok (fst s) \<and> flag_accepts fs s"
  shows "parse_flags fs (map written_flag sets @ ''--'' # rest) = Inr (sets, rest)"
  using assms
proof (induction sets)
  case Nil
  then show ?case by (simp add: parse_flags.simps(2) read_flag_def)
next
  case (Cons s sets)
  then show ?case using parse_written_step [of s fs] by simp
qed

theorem written_flags_read_back_witness:
  "parse_flags root_flags (map written_flag [(''output'', ''json''), (''help'', ''false''), (''o'', ''--x'')] @ [''--'', ''-h''])
   = Inr ([(''output'', ''json''), (''help'', ''false''), (''o'', ''--x'')], [''-h''])"
  by (rule written_flags_read_back)
    (simp add: flag_name_ok_def flag_accepts_def root_flags_def set_string_def set_switch_def parse_bool_def)

lemma parsed_value_accepted:
  "parse_flags fs args = Inr (sets, rest) \<Longrightarrow> list_all (flag_accepts fs) sets \<and> suffix rest args"
proof (induction fs args arbitrary: sets rest rule: parse_flags.induct)
  case (1 fs)
  then show ?case by simp
next
  case (2 fs a args)
  have parse: "parse_flags fs (a # args) = Inr (sets, rest)" by (rule "2.prems")
  show ?case
  proof (cases "read_flag a")
    case flag: (Flag_text name attached)
    then obtain kind where kind: "map_of fs name = Some kind" using parse by (cases "map_of fs name") (auto simp: parse_flags.simps(2))
    have more: "list_all (flag_accepts fs) sets \<and> suffix rest args"
      if "flag_accepts fs (name, v)" and "map_sum id (apfst (Cons (name, v))) (parse_flags fs tail) = Inr (sets, rest)"
        and "suffix tail args" and "\<And>s r. parse_flags fs tail = Inr (s, r) \<Longrightarrow> list_all (flag_accepts fs) s \<and> suffix r tail"
      for v tail
      using that by (cases "parse_flags fs tail") (auto intro: suffix_order.trans)
    have "list_all (flag_accepts fs) sets \<and> suffix rest args"
    proof (cases kind)
      case Switch
      show ?thesis
      proof (cases attached)
        case None
        have "flag_accepts fs (name, ''true'')" by (simp add: flag_accepts_def kind Switch set_switch_def parse_bool_def)
        from more [OF this _ suffix_order.refl] show ?thesis
          using parse "2.IH"(1) [OF flag kind Switch None] by (simp add: parse_flags.simps(2) flag kind Switch None)
      next
        case (Some v)
        then have set: "set_switch v = None" using parse by (simp add: parse_flags.simps(2) flag kind Switch Some split: option.split_asm)
        then have "flag_accepts fs (name, v)" by (simp add: flag_accepts_def kind Switch)
        from more [OF this _ suffix_order.refl] show ?thesis
          using parse "2.IH"(2) [OF flag kind Switch Some set] by (simp add: parse_flags.simps(2) flag kind Switch Some set)
      qed
    next
      case (Valued check)
      show ?thesis
      proof (cases attached)
        case None
        then obtain v tail where args: "args = v # tail" using parse by (cases args) (auto simp: parse_flags.simps(2) flag kind Valued None)
        have set: "check v = None" using parse by (simp add: parse_flags.simps(2) flag kind Valued None args split: option.split_asm)
        then have "flag_accepts fs (name, v)" by (simp add: flag_accepts_def kind Valued)
        from more [OF this, of tail] show ?thesis
          using parse "2.IH"(3) [OF flag kind Valued None args set] by (simp add: parse_flags.simps(2) flag kind Valued None args set suffix_Cons)
      next
        case (Some v)
        then have set: "check v = None" using parse by (simp add: parse_flags.simps(2) flag kind Valued Some split: option.split_asm)
        then have "flag_accepts fs (name, v)" by (simp add: flag_accepts_def kind Valued)
        from more [OF this _ suffix_order.refl] show ?thesis
          using parse "2.IH"(4) [OF flag kind Valued Some set] by (simp add: parse_flags.simps(2) flag kind Valued Some set)
      qed
    qed
    then show ?thesis by (simp add: suffix_Cons)
  qed (use parse in \<open>auto simp: parse_flags.simps(2) suffix_Cons\<close>)
qed

text \<open>
  Every value the parser sets was accepted by its flag, and the arguments it leaves are the end of those given.
\<close>
theorem parsed_flags_accepted:
  "case parse_flags fs args of Inl msg \<Rightarrow> True | Inr (sets, rest) \<Rightarrow> list_all (flag_accepts fs) sets \<and> suffix rest args"
  using parsed_value_accepted [of fs args] by (auto split: sum.split)

section \<open>The registry\<close>

lemma distinct_sort_stable: "distinct (sort_stable lt xs) \<longleftrightarrow> distinct xs"
  by (rule mset_eq_imp_distinct_iff) simp


definition registry_ok :: "'w command list \<Rightarrow> bool" where
  "registry_ok cs \<longleftrightarrow> distinct (map cm_name cs) \<and> list_all (valid_command_name \<circ> cm_name) cs"

lemma register_ok: "register cs c = Inr cs' \<Longrightarrow> registry_ok cs \<Longrightarrow> registry_ok cs' \<and> (\<exists>x. c = Some x \<and> cs' = cs @ [x])"
  by (auto simp: register_def registry_ok_def split: option.split_asm if_split_asm)

lemma register_all_ok:
  "register_all cs rest = Inr cs' \<Longrightarrow> registry_ok cs \<Longrightarrow> registry_ok cs' \<and> map Some cs' = map Some cs @ rest"
proof (induction rest arbitrary: cs)
  case Nil
  then show ?case by simp
next
  case (Cons c rest)
  then obtain cs1 where 1: "register cs c = Inr cs1" "register_all cs1 rest = Inr cs'"
    by (auto split: sum.split_asm)
  from register_ok [OF 1(1) Cons.prems(2)] Cons.IH [OF 1(2)] show ?case by auto
qed

lemma new_root_ok: "new_root commands = Inr cs \<Longrightarrow> registry_ok cs \<and> map Some cs = commands"
  using register_all_ok [of "[]" commands cs] by (simp add: new_root_def registry_ok_def)

text \<open>
  A root is built only of commands with distinct names, each a lower-case letter followed by such letters,
  digits and hyphens, and none called help; and it holds all of them, in their order.
\<close>
theorem registry_well_formed:
  "case new_root commands of
     Inl msg \<Rightarrow> True
   | Inr cs \<Rightarrow> distinct (map cm_name cs) \<and> list_all (valid_command_name \<circ> cm_name) cs \<and> map Some cs = commands"
  using new_root_ok [of commands] by (auto simp: registry_ok_def split: sum.split)

lemma find_registered: "registry_ok cs \<Longrightarrow> c \<in> set cs \<Longrightarrow> find_command cs (cm_name c) = Some c"
proof -
  assume ok: "registry_ok cs" and c: "c \<in> set cs"
  then have "find (\<lambda>d. cm_name d = cm_name c) cs = Some c"
  proof (induction cs)
    case (Cons d cs)
    then show ?case by (auto simp: registry_ok_def image_iff)
  qed simp
  then show ?thesis by (simp add: find_command_def)
qed

lemma find_name: "find_command cs name = Some c \<Longrightarrow> c \<in> set cs \<and> cm_name c = name"
  by (auto simp: find_command_def find_Some_iff)

text \<open>The help lists every planned and every registered command, each once.\<close>
theorem help_lists_every_command:
  assumes "new_root commands = Inr cs"
  shows "distinct (map fst (command_help cs)) \<and> set (map fst (command_help cs)) = set planned_names \<union> set (map cm_name cs)"
proof -
  have "distinct (map cm_name cs)" using new_root_ok [OF assms] by (simp add: registry_ok_def)
  moreover have planned: "map fst (map (planned_help cs) planned_commands) = planned_names"
    by (simp add: planned_names_def planned_help_def comp_def split: option.split)
  moreover have extra: "map fst (map (extra_help cs) ns) = ns" for ns by (simp add: extra_help_def comp_def)
  moreover have "distinct planned_names" by (simp add: planned_names_def planned_commands_def)
  ultimately show ?thesis
    unfolding command_help_def map_append planned extra
    by (auto simp: is_planned_command_def distinct_sort_stable)
qed

section \<open>Dispatch\<close>

lemma parse_own_mode: "parse_mode (mode_string m) = Inr m"
  by (cases m; simp only: mode_string_def output_mode.case; code_simp)

lemma command_word_no_flag: "valid_command_name name \<Longrightarrow> read_flag name = No_flag"
  by (cases name) (auto simp: valid_command_name_def read_flag_def is_lower_def)

lemma parse_global_mode:
  assumes "valid_command_name name"
  shows "parse_flags root_flags (written_flag (''output'', v) # name # rest) = Inr ([(''output'', v)], name # rest)"
proof -
  have "parse_flags root_flags (written_flag (''output'', v) # name # rest)
      = map_sum id (apfst (Cons (''output'', v))) (parse_flags root_flags (name # rest))"
    by (rule parse_written_step) (simp_all add: flag_name_ok_def flag_accepts_def root_flags_def set_string_def)
  then show ?thesis using command_word_no_flag [OF assms] by (simp add: parse_flags.simps(2))
qed

definition with_error_line :: "string \<Rightarrow> 'w ran \<Rightarrow> 'w ran" where
  "with_error_line name r =
     (case ra_error r of
        None \<Rightarrow> r
      | Some e \<Rightarrow> r\<lparr>ra_error := Some (wrap_error name e), ra_err := ra_err r @ error_line (name @ '': '' @ error_message e)\<rparr>)"

lemma error_message_wrap: "error_message (wrap_error name e) = name @ '': '' @ error_message e"
  by (cases e) (simp_all add: error_message_def wrap_error_def)

lemma exit_code_wrap: "exit_code (Some (wrap_error name e)) = exit_code (Some e)"
  by (cases e) (simp_all add: exit_code_def wrap_error_def)

lemma exit_code_none: "exit_code None = exit_ok"
  by (simp add: exit_code_def)


definition echo_command :: "string list command" where
  "echo_command =
     \<lparr>cm_name = ''echo'', cm_summary = ''Repeats'',
      cm_run = (\<lambda>mode args w. (quiet_run (w @ args) (Some (Usage_error ''too loud'')))\<lparr>ra_out := mode_string mode\<rparr>)\<rparr>"


text \<open>
  The exit code is 0 exactly when there is no error, 2 exactly when the error is one of usage, 1 otherwise; and
  with an error the error stream ends with its message.
\<close>
theorem exit_code_tells_error:
  "case execute_args fault commands args w of (code, r) \<Rightarrow>
     code = (case ra_error r of None \<Rightarrow> 0 | Some (Usage_error m) \<Rightarrow> 2 | Some (Run_error m) \<Rightarrow> 1)
     \<and> (case ra_error r of None \<Rightarrow> True | Some e \<Rightarrow> suffix (error_line (error_message e)) (ra_err r))"
  by (auto simp: execute_args_def Let_def exit_code_def exit_ok_def exit_failure_def exit_usage_def error_message_def
      quiet_run_def suffix_def split: sum.split option.split command_error.split)

text \<open>Asking for help, or naming no known command, changes nothing in the world.\<close>
theorem unknown_command_harmless:
  "case parse_flags root_flags args of
     Inl msg \<Rightarrow> ra_world (run_root fault cs args w) = w
   | Inr (sets, remaining) \<Rightarrow>
       ra_world (run_root fault cs args w)
       = (if switch_value [''help'', ''h''] sets \<or> remaining = [] \<or> hd remaining = ''help'' then w
          else case (parse_mode (flag_value [''output'', ''o''] ''table'' sets), find_command cs (hd remaining)) of
                 (Inr mode, Some c) \<Rightarrow> ra_world (cm_run c mode (tl remaining) w)
               | _ \<Rightarrow> w)"
  by (auto simp: run_root_def quiet_run_def Let_def split: sum.split option.split)

end
