(* ===== verification/Commands.thy ===== *)
theory Commands
  imports Root Har_Files Har_Sanitize Transport Property_Page Capture_Intake Search_Table
begin

text \<open>
  What the commands share: their world, their environment, printing, repeatable flags; and the command
  \<open>property\<close> (\<open>internal/cli/property.go\<close>), from its arguments to what it prints.

  The parameters are those of the parts they call, the writer of the standard output, and the texts of
  \<open>encoding/json\<close>. What the flag package writes on the error stream is left out.
\<close>

section \<open>The world of a command\<close>

datatype cli_value =
    Property_value zillow_property
  | Candidate_value candidate
  | Candidates_value "candidate list"
  | Summary_value session_summary
  | Summaries_value "session_summary list"
  | Table_value table

record cli_env =
  cn_version :: string
  cn_har :: har_env
  cn_template :: "search_template \<Rightarrow> string + string"
  cn_page :: page_env
  cn_net :: net_env
  cn_transport :: "transport_options \<Rightarrow> string + client"
  cn_capture :: "capture_options \<Rightarrow> capture_outcome"
  cn_recorder_text :: "capture_error \<Rightarrow> string"
  cn_windows :: bool
  cn_open_error :: "string \<Rightarrow> string option"
  cn_faults :: save_faults
  cn_temp :: string
  cn_store :: "string + string"
  cn_store_env :: store_env
  cn_store_entries :: "string + (string \<times> bool) list"
  cn_remove_error :: "string option"
  cn_join :: "string list \<Rightarrow> string"
  cn_created :: int
  cn_clock :: "nat \<Rightarrow> int"
  cn_json :: "output_mode \<Rightarrow> cli_value \<Rightarrow> string + string"
  cn_write_error :: "string \<Rightarrow> string option"

record cli_world =
  cw_files :: file_system
  cw_sessions :: file_system
  cw_search_cache :: file_system
  cw_property_cache :: file_system
  cw_requests :: "http_request list"

text \<open>A file is read whole, or not at all.\<close>

definition open_file :: "cli_env \<Rightarrow> cli_world \<Rightarrow> string \<Rightarrow> string + string" where
  "open_file env w path =
     (case cn_open_error env path of
        Some err \<Rightarrow> Inl err
      | None \<Rightarrow>
          (case cw_files w path of
             None \<Rightarrow> Inl (''open '' @ path @ '': no such file or directory'')
           | Some f \<Rightarrow> Inr (cf_data f)))"

definition failed_run :: "'w \<Rightarrow> string \<Rightarrow> 'w ran" where
  "failed_run w msg = quiet_run w (Some (Run_error msg))"

definition usage_run :: "'w \<Rightarrow> string \<Rightarrow> 'w ran" where
  "usage_run w msg = quiet_run w (Some (Usage_error msg))"

definition write_text :: "cli_env \<Rightarrow> string \<Rightarrow> 'w \<Rightarrow> 'w ran" where
  "write_text env text w =
     (case cn_write_error env text of
        Some err \<Rightarrow> failed_run w err
      | None \<Rightarrow> (quiet_run w None)\<lparr>ra_out := text\<rparr>)"

text \<open>The usage texts are written whatever happens to the writer.\<close>

definition show_usage :: "cli_env \<Rightarrow> string \<Rightarrow> 'w \<Rightarrow> 'w ran" where
  "show_usage env text w =
     (quiet_run w None)\<lparr>ra_out := (case cn_write_error env text of Some err \<Rightarrow> [] | None \<Rightarrow> text)\<rparr>"

section \<open>Printing\<close>

definition hex4 :: "nat \<Rightarrow> string" where
  "hex4 n = map (\<lambda>i. upper (hex_digit (n div 16 ^ i mod 16))) [3, 2, 1, 0]"

definition cell_error :: "string \<Rightarrow> string" where
  "cell_error cell =
     (case find is_control cell of None \<Rightarrow> [] | Some c \<Rightarrow> ''contains control character U+'' @ hex4 (byte c))"

definition table_error :: "table \<Rightarrow> table_fault \<Rightarrow> string" where
  "table_error t fault =
     (case fault of
        BadHeader j \<Rightarrow> ''table header cell '' @ itoa (int j) @ '': '' @ cell_error (tb_headers t ! (j - 1))
      | BadWidth i n m \<Rightarrow> ''table row '' @ itoa (int i) @ '' has '' @ itoa (int n) @ '' cells; want '' @ itoa (int m)
      | BadCell i j \<Rightarrow> ''table row '' @ itoa (int i) @ '' cell '' @ itoa (int j) @ '': ''
                         @ cell_error (tb_rows t ! (i - 1) ! (j - 1)))"

text \<open>
  \<open>writeTable\<close> with \<open>text/tabwriter\<close>: every cell but the last of a line is filled with spaces to two more than the
  widest cell of its column, counted in runes; a byte that starts no rune counts as one.
\<close>

definition rune_size :: "nat list \<Rightarrow> nat" where
  "rune_size s =
     (case find (\<lambda>k. k \<le> length s \<and> utf8_valid_nats (take k s)) [1, 2, 3, 4] of None \<Rightarrow> 1 | Some k \<Rightarrow> k)"

function rune_count :: "string \<Rightarrow> nat" where
  "rune_count s = (if s = [] then 0 else Suc (rune_count (drop (rune_size (map byte s) - 1) (tl s))))"
  by pat_completeness auto
termination
  by (relation "measure length") (auto simp: neq_Nil_conv)

declare rune_count.simps [simp del]

definition column_width :: "string list list \<Rightarrow> nat \<Rightarrow> nat" where
  "column_width ls j = foldr max (map (\<lambda>l. rune_count (l ! j)) ls) 0 + 2"

definition aligned_line :: "nat list \<Rightarrow> string list \<Rightarrow> string" where
  "aligned_line widths l =
     concat (map2 (\<lambda>w cell. cell @ replicate (w - rune_count cell) (CHR '' '')) widths (butlast l))
     @ (if l = [] then [] else last l) @ newline"

definition aligned_text :: "table \<Rightarrow> string" where
  "aligned_text t =
     (let ls = (if tb_headers t = [] then [] else [tb_headers t]) @ tb_rows t;
          widths = map (column_width ls) [0..<length (hd ls) - 1]
      in concat (map (aligned_line widths) ls))"

lemma column_fits: "l \<in> set ls \<Longrightarrow> rune_count (l ! j) + 2 \<le> column_width ls j"
  by (induction ls) (auto simp: column_width_def)

text \<open>\<open>Printer.Print\<close>; an empty table writes nothing.\<close>

definition value_text :: "cli_env \<Rightarrow> output_mode \<Rightarrow> cli_value \<Rightarrow> string + string" where
  "value_text env mode v =
     (if mode \<noteq> ModeTable then cn_json env mode v
      else case v of
             Table_value t \<Rightarrow>
               (case validate_table t of
                  Some fault \<Rightarrow> Inl (table_error t fault)
                | None \<Rightarrow> Inr (if tb_headers t = [] \<and> tb_rows t = [] then [] else aligned_text t))
           | _ \<Rightarrow> Inl ''table mode requires output.Table or output.Tabular'')"

fun print_values :: "cli_env \<Rightarrow> output_mode \<Rightarrow> cli_value list \<Rightarrow> 'w ran \<Rightarrow> 'w ran" where
  "print_values env mode [] r = r"
| "print_values env mode (v # vs) r =
     (case value_text env mode v of
        Inl err \<Rightarrow> r\<lparr>ra_error := Some (Run_error err)\<rparr>
      | Inr text \<Rightarrow>
          (case (if text = [] then None else cn_write_error env text) of
             Some err \<Rightarrow> r\<lparr>ra_error := Some (Run_error err)\<rparr>
           | None \<Rightarrow> print_values env mode vs (r\<lparr>ra_out := ra_out r @ text\<rparr>)))"

definition print_run :: "cli_env \<Rightarrow> output_mode \<Rightarrow> cli_value list \<Rightarrow> 'w \<Rightarrow> 'w ran" where
  "print_run env mode vs w = print_values env mode vs (quiet_run w None)"

section \<open>Repeatable flags\<close>

definition set_list :: "string \<Rightarrow> string option" where
  "set_list v = (if trim_space v = [] then Some ''sensitive key must not be empty'' else None)"

definition list_value :: "string \<Rightarrow> (string \<times> string) list \<Rightarrow> string list" where
  "list_value name sets = map (trim_space \<circ> snd) (filter (\<lambda>(n, v). n = name) sets)"

definition text_flag :: "string \<Rightarrow> string \<times> flag_kind" where "text_flag name = (name, Valued set_string)"

definition duration_flag :: "string \<Rightarrow> string \<times> flag_kind" where "duration_flag name = (name, Valued set_duration)"

definition int_flag :: "string \<Rightarrow> string \<times> flag_kind" where "int_flag name = (name, Valued set_int)"

definition list_flag :: "string \<Rightarrow> string \<times> flag_kind" where "list_flag name = (name, Valued set_list)"

definition switch_flag :: "string \<Rightarrow> string \<times> flag_kind" where "switch_flag name = (name, Switch)"

text \<open>The flags of a subcommand and its only argument.\<close>

definition with_flags ::
  "flag_set \<Rightarrow> string list \<Rightarrow> 'w \<Rightarrow> ((string \<times> string) list \<Rightarrow> string list \<Rightarrow> 'w ran) \<Rightarrow> 'w ran" where
  "with_flags fs args w run =
     (case parse_flags fs args of Inl msg \<Rightarrow> usage_run w msg | Inr (sets, rest) \<Rightarrow> run sets rest)"

definition text_lines :: "string list \<Rightarrow> string" where
  "text_lines ls = concat (map (\<lambda>l. l @ newline) ls)"

section \<open>property\<close>

definition property_flags :: flag_set where
  "property_flags =
     [switch_flag ''raw'', duration_flag ''timeout'', text_flag ''proxy'', text_flag ''session'', text_flag ''tls-profile'',
      text_flag ''user-agent'', list_flag ''browser-header'']"

definition property_usage :: string where
  "property_usage = text_lines
     [''Usage:'', ''  gozillo [global options] property [options] <Zillow URL | HTML file>'', [], ''Options:'',
      ''  --raw                  Include the raw property JSON in JSON output'',
      ''  --timeout <duration>   HTTP timeout for URL input (default 20s)'',
      ''  --proxy <URL>          HTTP/HTTPS/SOCKS5 proxy for URL input'',
      ''  --session <name>       Imported HAR session for URL input'',
      ''  --tls-profile <name>   Required browser profile for URL input'',
      ''  --user-agent <value>   Explicit User-Agent; default is gozillo/<version>'',
      ''  --browser-header <h:v> Allowlisted browser HTML header; repeat as needed'']"

definition property_table :: "zillow_property \<Rightarrow> table" where
  "property_table p =
     \<lparr>tb_headers = [''FIELD'', ''VALUE''],
      tb_rows =
        [[''ZPID'', pr_id p],
         [''Address'', format_address (pr_address p)],
         [''Base rent'', format_money (pr_price p) []],
         [''Required monthly fees'', format_money (pr_required_fees p) []],
         [''Total monthly cost'', format_money (pr_total_cost p) []],
         [''Beds'', format_float (pr_bedrooms p)],
         [''Baths'', format_float (pr_bathrooms p)],
         [''Living area'', format_integer (pr_living_area p)],
         [''Year built'', format_plain_integer (pr_year_built p)],
         [''Available'', pr_availability p],
         [''Days on Zillow'', format_integer (pr_days_on_zillow p)],
         [''Listed date'', pr_listed_date p],
         [''Updated date'', pr_updated_date p],
         [''Laundry'', pr_laundry p],
         [''Laundry features'', join '', '' (pr_laundry_features p)],
         [''Parking'', pr_parking p],
         [''Parking features'', join '', '' (pr_parking_features p)],
         [''Pet policy'', pr_pet_policy p],
         [''Allowed pets'', join '', '' (pr_allowed_pets p)],
         [''Flex spaces'', join '', '' (pr_flex_spaces p)],
         [''Verification'', join ''; '' (pr_verification_notes p)],
         [''Home type'', pr_home_type p],
         [''Status'', pr_status p],
         [''URL'', pr_url p]]\<rparr>"

definition property_source_url :: "string \<Rightarrow> bool" where
  "property_source_url source =
     (case url_parse (trim_space source) of
        None \<Rightarrow> False
      | Some u \<Rightarrow> (u_scheme u = ''http'' \<or> u_scheme u = ''https'') \<and> u_host u \<noteq> [])"

definition property_transport :: "(string \<times> string) list \<Rightarrow> http_header \<Rightarrow> transport_options" where
  "property_transport sets headers =
     \<lparr>to_timeout = duration_value ''timeout'' Client.default_timeout sets, to_proxy_url = flag_value [''proxy''] [] sets,
      to_session_name = flag_value [''session''] [] sets, to_tls_profile = flag_value [''tls-profile''] [] sets,
      to_user_agent = flag_value [''user-agent''] [] sets, to_browser_headers = headers\<rparr>"

definition go_error_run :: "'w \<Rightarrow> go_error \<Rightarrow> 'w ran" where
  "go_error_run w err = failed_run w (error_text (fst (explain_zillow_error err)) @ snd (explain_zillow_error err))"

definition print_property :: "cli_env \<Rightarrow> output_mode \<Rightarrow> go_error + zillow_property \<Rightarrow> cli_world \<Rightarrow> cli_world ran" where
  "print_property env mode result w =
     (case result of
        Inl err \<Rightarrow> go_error_run w err
      | Inr p \<Rightarrow> print_run env mode [if mode = ModeTable then Table_value (property_table p) else Property_value p] w)"

definition property_from_url ::
  "cli_env \<Rightarrow> output_mode \<Rightarrow> (string \<times> string) list \<Rightarrow> http_header \<Rightarrow> string \<Rightarrow> cli_world \<Rightarrow> cli_world ran" where
  "property_from_url env mode sets headers source w =
     (if trim_space (flag_value [''tls-profile''] [] sets) = []
      then usage_run w ''property --tls-profile is required for URL input''
      else case cn_transport env (property_transport sets headers) of
             Inl msg \<Rightarrow> failed_run w msg
           | Inr c \<Rightarrow>
               (case fetch_property_with_options (cn_net env) (cn_page env) (Some c) False source (switch_value [''raw''] sets) of
                  (result, sent) \<Rightarrow> print_property env mode result (w\<lparr>cw_requests := cw_requests w @ sent\<rparr>)))"

definition property_from_file ::
  "cli_env \<Rightarrow> output_mode \<Rightarrow> (string \<times> string) list \<Rightarrow> http_header \<Rightarrow> string \<Rightarrow> cli_world \<Rightarrow> cli_world ran" where
  "property_from_file env mode sets headers source w =
     (if network_options_set (map (\<lambda>n. flag_value [n] [] sets) [''proxy'', ''session'', ''tls-profile'', ''user-agent'']) \<or> headers \<noteq> []
      then usage_run w ''property --proxy, --session, --tls-profile, --user-agent, and --browser-header are only valid for URL input''
      else case open_file env w source of
             Inl err \<Rightarrow> failed_run w (''open property HTML: '' @ err)
           | Inr data \<Rightarrow>
               print_property env mode
                 (read_property_with_options (cn_page env) (Some \<lparr>hb_data = data, hb_error = None\<rparr>) (switch_value [''raw''] sets) 0) w)"

definition property_run :: "cli_env \<Rightarrow> output_mode \<Rightarrow> string list \<Rightarrow> cli_world \<Rightarrow> cli_world ran" where
  "property_run env mode args w =
     (if wants_help args then show_usage env property_usage w
      else with_flags property_flags args w (\<lambda>sets rest.
        if length rest \<noteq> 1 then usage_run w ''property requires exactly one Zillow URL or local HTML file''
        else case parse_browser_headers (list_value ''browser-header'' sets) of
               Inl msg \<Rightarrow> usage_run w (''property --browser-header: '' @ msg)
             | Inr headers \<Rightarrow>
                 if duration_value ''timeout'' Client.default_timeout sets \<le> 0 then usage_run w ''property --timeout must be positive''
                 else if property_source_url (hd rest) then property_from_url env mode sets headers (hd rest) w
                 else property_from_file env mode sets headers (hd rest) w))"

end
