(* ===== verification/Har_Command.thy ===== *)
theory Har_Command
  imports Commands
begin

text \<open>
  The commands on HAR files, sessions and the version (\<open>internal/cli/har.go\<close>, \<open>session.go\<close>, \<open>default.go\<close>), from
  their arguments to what they print and leave in the files and the session store.
\<close>

section \<open>har\<close>

definition har_usage :: string where
  "har_usage = text_lines
     [''Usage:'', ''  gozillo [global options] har <subcommand> [options]'',
      ''  gozillo har capture [capture options] --out <raw.har> <http(s)-url>'', [], ''Capture options:'',
      ''  --cdp <endpoint>       CDP HTTP endpoint or exact browser WebSocket URL'',
      ''                         (default: http://127.0.0.1:9222)'',
      ''  --out <path>           Required raw HAR output path'',
      ''  --wait <duration>      Keep recording after page load (default: 5s)'',
      ''  --timeout <duration>   Bound connection, navigation, and capture (default: 45s)'',
      ''  --response-bodies      Attempt to include response bodies (best effort)'',
      ''  --allow-remote-cdp     Permit a non-loopback exact WebSocket URL (high trust)'', [],
      ''Raw captures can contain cookies and credential headers. They are written only'',
      ''to an owner-only file and are never emitted on stdout. Capture covers the'',
      ''primary page target; child worker/OOPIF target traffic may be omitted.'', [], ''Subcommands:'',
      ''  capture     Open a new browser tab through CDP and save a raw HAR'',
      ''  sanitize    Remove cookies, credential headers, sensitive values, and response bodies'',
      ''  candidates  Rank likely Zillow data requests'', ''  derive      Derive a reusable search profile'', [],
      ''Examples:'',
      ''  gozillo har capture --cdp http://127.0.0.1:9222 --out search.raw.har https://www.zillow.com/'',
      ''  gozillo har sanitize --out search.sanitized.har search.raw.har'',
      ''  gozillo har candidates search.sanitized.har'',
      ''  gozillo har derive --out search.profile.json search.sanitized.har'']"

text \<open>After a file is replaced: its error, or the line that tells of it.\<close>

definition saved_run :: "cli_env \<Rightarrow> string option \<times> file_system list \<Rightarrow> string \<Rightarrow> cli_world \<Rightarrow> cli_world ran" where
  "saved_run env saved line w =
     (case saved of
        (Some err, trace) \<Rightarrow> failed_run (w\<lparr>cw_files := last trace\<rparr>) err
      | (None, trace) \<Rightarrow> write_text env line (w\<lparr>cw_files := last trace\<rparr>))"

definition save_archive_run :: "cli_env \<Rightarrow> string \<Rightarrow> archive \<Rightarrow> string \<Rightarrow> cli_world \<Rightarrow> cli_world ran" where
  "save_archive_run env path a verb w =
     saved_run env (save_har_file (cn_har env) (cn_windows env) (cn_faults env) path (cn_temp env) (Some a) (cw_files w))
       (verb @ itoa (int (length (hl_entries (ar_log a)))) @ '' HAR entries -> '' @ path @ newline) w"

definition capture_flags :: flag_set where
  "capture_flags =
     [text_flag ''cdp'', text_flag ''out'', duration_flag ''wait'', duration_flag ''timeout'', switch_flag ''response-bodies'',
      switch_flag ''allow-remote-cdp'']"

definition default_wait :: int where "default_wait = 5 * 10 ^ 9"

definition capture_request :: "cli_env \<Rightarrow> (string \<times> string) list \<Rightarrow> string \<Rightarrow> capture_options" where
  "capture_request env sets url =
     \<lparr>co_endpoint = flag_value [''cdp''] default_endpoint sets, co_url = url,
      co_wait = duration_value ''wait'' default_wait sets, co_timeout = duration_value ''timeout'' capture_timeout sets,
      co_bodies = switch_value [''response-bodies''] sets, co_allow_remote = switch_value [''allow-remote-cdp''] sets,
      co_creator_name = ''gozillo'', co_creator_version = cn_version env\<rparr>"

definition capture_flag_fault :: "(string \<times> string) list \<Rightarrow> string list \<Rightarrow> string option" where
  "capture_flag_fault sets rest =
     (let out = flag_value [''out''] [] sets; wait = duration_value ''wait'' default_wait sets;
          timeout = duration_value ''timeout'' capture_timeout sets
      in if length rest \<noteq> 1 then Some ''har capture requires exactly one http(s) URL''
         else if trim_space out = [] then Some ''har capture requires --out''
         else if out = ''-'' then Some ''har capture requires a file path; raw HAR output to stdout is disabled''
         else if wait < 0 then Some ''har capture --wait must be non-negative''
         else if timeout \<le> 0 then Some ''har capture --timeout must be positive''
         else if wait \<ge> timeout then Some ''har capture --wait must be shorter than --timeout''
         else None)"

definition run_har_capture :: "cli_env \<Rightarrow> string list \<Rightarrow> cli_world \<Rightarrow> cli_world ran" where
  "run_har_capture env args w =
     with_flags capture_flags args w (\<lambda>sets rest.
       case capture_flag_fault sets rest of
         Some msg \<Rightarrow> usage_run w msg
       | None \<Rightarrow>
           if cn_windows env then failed_run w ''har capture: owner-only raw HAR writes are unsupported on Windows''
           else (case cn_capture env (capture_request env sets (hd rest)) of
                   Capture_failed msg \<Rightarrow> failed_run w msg
                 | Recorder_failed err \<Rightarrow> failed_run w (cn_recorder_text env err)
                 | Nil_request \<Rightarrow> failed_run w ''nil pointer dereference''
                 | Captured a \<Rightarrow> save_archive_run env (flag_value [''out''] [] sets) a ''captured '' w))"

definition default_redaction :: string where "default_redaction = ''[REDACTED]''"

definition sanitize_flags :: flag_set where
  "sanitize_flags =
     [text_flag ''out'', switch_flag ''keep-response-bodies'', text_flag ''redaction'', list_flag ''sensitive-key'']"

definition sanitize_request_of :: "(string \<times> string) list \<Rightarrow> sanitize_options" where
  "sanitize_request_of sets =
     \<lparr>so_keep_response_bodies = switch_value [''keep-response-bodies''] sets,
      so_redaction = flag_value [''redaction''] default_redaction sets, so_additional_keys = list_value ''sensitive-key'' sets\<rparr>"

definition run_har_sanitize :: "cli_env \<Rightarrow> string list \<Rightarrow> cli_world \<Rightarrow> cli_world ran" where
  "run_har_sanitize env args w =
     with_flags sanitize_flags args w (\<lambda>sets rest.
       if length rest \<noteq> 1 then usage_run w ''har sanitize requires exactly one input HAR''
       else if trim_space (flag_value [''out''] [] sets) = [] then usage_run w ''har sanitize requires --out''
       else case load_har_file (cn_har env) (hd rest) (open_file env w (hd rest)) of
              Inl msg \<Rightarrow> failed_run w msg
            | Inr a \<Rightarrow>
                (case sanitize_archive (cn_har env) (Some a) [sanitize_request_of sets] of
                   Inl msg \<Rightarrow> failed_run w msg
                 | Inr clean \<Rightarrow> save_archive_run env (flag_value [''out''] [] sets) clean ''sanitized '' w))"

definition candidate_table :: "candidate list \<Rightarrow> table" where
  "candidate_table cs =
     \<lparr>tb_headers = [''ENTRY'', ''SCORE'', ''METHOD'', ''HOST'', ''PATH'', ''TYPE'', ''REASONS''],
      tb_rows = map (\<lambda>c. [itoa (int (cd_entry_index c)), itoa (cd_score c), cd_method c, cd_host c, cd_path c,
                           cd_resource_type c, join ''; '' (cd_reasons c)]) cs\<rparr>"

definition candidate_values :: "output_mode \<Rightarrow> candidate list \<Rightarrow> cli_value list" where
  "candidate_values mode cs =
     (case mode of
        ModeJSONL \<Rightarrow> map Candidate_value cs
      | ModeTable \<Rightarrow> [Table_value (candidate_table cs)]
      | ModeJSON \<Rightarrow> [Candidates_value cs])"

definition run_har_candidates :: "cli_env \<Rightarrow> output_mode \<Rightarrow> string list \<Rightarrow> cli_world \<Rightarrow> cli_world ran" where
  "run_har_candidates env mode args w =
     with_flags [int_flag ''limit''] args w (\<lambda>sets rest.
       let limit = int_value ''limit'' 20 sets in
       if length rest \<noteq> 1 then usage_run w ''har candidates requires exactly one HAR''
       else if limit < 0 then usage_run w ''har candidates --limit must be non-negative''
       else case load_har_file (cn_har env) (hd rest) (open_file env w (hd rest)) of
              Inl msg \<Rightarrow> failed_run w msg
            | Inr a \<Rightarrow>
                (case rank_candidates (cn_har env) (Some a) of
                   Inl msg \<Rightarrow> failed_run w msg
                 | Inr cs \<Rightarrow>
                     print_run env mode
                       (candidate_values mode (if limit > 0 \<and> int (length cs) > limit then take (nat limit) cs else cs)) w))"

definition run_har_derive :: "cli_env \<Rightarrow> string list \<Rightarrow> cli_world \<Rightarrow> cli_world ran" where
  "run_har_derive env args w =
     with_flags [text_flag ''out'', int_flag ''entry''] args w (\<lambda>sets rest.
       let out = flag_value [''out''] [] sets; entry = int_value ''entry'' (- 1) sets in
       if length rest \<noteq> 1 then usage_run w ''har derive requires exactly one HAR''
       else if entry < - 1 then usage_run w ''har derive --entry must be non-negative''
       else case load_har_file (cn_har env) (hd rest) (open_file env w (hd rest)) of
              Inl msg \<Rightarrow> failed_run w msg
            | Inr a \<Rightarrow>
                (case (if entry \<ge> 0 then derive_search_template_at (cn_har env) (Some a) entry
                       else derive_search_template (cn_har env) (Some a) []) of
                   Inl msg \<Rightarrow> failed_run w msg
                 | Inr t \<Rightarrow>
                     if trim_space out = [] \<or> out = ''-''
                     then (case save_search_template (cn_template env) (Some t) of
                             Inl msg \<Rightarrow> failed_run w msg
                           | Inr text \<Rightarrow> write_text env text w)
                     else saved_run env
                            (save_search_template_file (cn_template env) (cn_windows env) (cn_faults env) out (cn_temp env) (Some t)
                               (cw_files w))
                            (''derived search profile -> '' @ out @ newline) w))"

definition har_run :: "cli_env \<Rightarrow> output_mode \<Rightarrow> string list \<Rightarrow> cli_world \<Rightarrow> cli_world ran" where
  "har_run env mode args w =
     (if args = [] \<or> wants_help args then show_usage env har_usage w
      else if hd args = ''capture'' then run_har_capture env (tl args) w
      else if hd args = ''sanitize'' then run_har_sanitize env (tl args) w
      else if hd args = ''candidates'' then run_har_candidates env mode (tl args) w
      else if hd args = ''derive'' then run_har_derive env (tl args) w
      else usage_run w (''unknown har subcommand '' @ quote (hd args)))"

section \<open>session\<close>

definition session_usage :: string where
  "session_usage = text_lines
     [''Usage:'', ''  gozillo session import --name <name> <raw.har>'', ''  gozillo session list'',
      ''  gozillo session inspect --name <name>'', ''  gozillo session remove --name <name>'', [],
      ''Session files are plaintext secrets stored with mode 0600 in a mode-0700'',
      ''per-user config directory. Commands never print cookie values. Browser'',
      ''User-Agent values and authorization headers are not imported or replayed.'']"

text \<open>\<open>Format("2006-01-02T15:04:05Z")\<close> of a time in UTC.\<close>

definition created_text :: "int \<Rightarrow> string" where
  "created_text t = format_rfc3339_nano (t div 1000000000 * 1000000000)"

definition summary_table :: "session_summary list \<Rightarrow> table" where
  "summary_table ss =
     \<lparr>tb_headers = [''NAME'', ''CREATED'', ''COOKIES'', ''COOKIE NAMES''],
      tb_rows = map (\<lambda>s. [sy_name s, created_text (sy_created s), itoa (int (sy_cookie_count s)), join '','' (sy_cookie_names s)]) ss\<rparr>"

definition summary_values :: "output_mode \<Rightarrow> session_summary list \<Rightarrow> cli_value list" where
  "summary_values mode ss =
     (case mode of
        ModeJSONL \<Rightarrow> map Summary_value ss
      | ModeTable \<Rightarrow> [Table_value (summary_table ss)]
      | ModeJSON \<Rightarrow> [Summaries_value ss])"

text \<open>Opening the store of the user.\<close>

definition with_store :: "cli_env \<Rightarrow> 'w \<Rightarrow> (string \<Rightarrow> 'w ran) \<Rightarrow> 'w ran" where
  "with_store env w run = (case cn_store env of Inl msg \<Rightarrow> failed_run w msg | Inr dir \<Rightarrow> run dir)"

definition imported_line :: "cli_env \<Rightarrow> string \<Rightarrow> session_summary \<Rightarrow> string" where
  "imported_line env dir y =
     ''imported session '' @ quote (sy_name y) @ '' with '' @ itoa (int (sy_cookie_count y)) @ '' cookies -> ''
     @ (case store_path (Some dir) (cn_join env) (sy_name y) of Inl _ \<Rightarrow> [] | Inr path \<Rightarrow> path) @ newline"

definition run_session_import :: "cli_env \<Rightarrow> string list \<Rightarrow> cli_world \<Rightarrow> cli_world ran" where
  "run_session_import env args w =
     with_flags [text_flag ''name''] args w (\<lambda>sets rest.
       let name = flag_value [''name''] ''default'' sets in
       if length rest \<noteq> 1 then usage_run w ''session import requires exactly one raw HAR file''
       else case load_har_file (cn_har env) (hd rest) (open_file env w (hd rest)) of
              Inl msg \<Rightarrow> failed_run w msg
            | Inr a \<Rightarrow>
                (case import_har (cn_created env) (cn_clock env) (Some a) of
                   Inl msg \<Rightarrow> failed_run w msg
                 | Inr s \<Rightarrow>
                     with_store env w (\<lambda>dir.
                       case session_save (cn_store_env env) dir (cn_faults env) (cn_temp env) name (Some s) (cw_sessions w) of
                         (Some err, trace) \<Rightarrow> failed_run (w\<lparr>cw_sessions := last trace\<rparr>) err
                       | (None, trace) \<Rightarrow>
                           write_text env (imported_line env dir (summary_of name s)) (w\<lparr>cw_sessions := last trace\<rparr>))))"

definition run_session_list :: "cli_env \<Rightarrow> output_mode \<Rightarrow> string list \<Rightarrow> cli_world \<Rightarrow> cli_world ran" where
  "run_session_list env mode args w =
     with_flags [] args w (\<lambda>sets rest.
       if rest \<noteq> [] then usage_run w ''session list does not accept arguments''
       else with_store env w (\<lambda>dir.
         case session_list (cn_store_env env) dir (cn_faults env) (cn_store_entries env) (cw_sessions w) of
           Inl msg \<Rightarrow> failed_run w msg
         | Inr ss \<Rightarrow> print_run env mode (summary_values mode ss) w))"

definition run_session_inspect :: "cli_env \<Rightarrow> output_mode \<Rightarrow> string list \<Rightarrow> cli_world \<Rightarrow> cli_world ran" where
  "run_session_inspect env mode args w =
     with_flags [text_flag ''name''] args w (\<lambda>sets rest.
       let name = flag_value [''name''] ''default'' sets in
       if rest \<noteq> [] then usage_run w ''session inspect does not accept positional arguments''
       else with_store env w (\<lambda>dir.
         case session_load (cn_store_env env) name (cw_sessions w) of
           Inl msg \<Rightarrow> failed_run w msg
         | Inr s \<Rightarrow> print_run env mode (summary_values mode [summary_of name s]) w))"

definition run_session_remove :: "cli_env \<Rightarrow> string list \<Rightarrow> cli_world \<Rightarrow> cli_world ran" where
  "run_session_remove env args w =
     with_flags [text_flag ''name''] args w (\<lambda>sets rest.
       let name = flag_value [''name''] ''default'' sets in
       if rest \<noteq> [] then usage_run w ''session remove does not accept positional arguments''
       else with_store env w (\<lambda>dir.
         case session_remove (cn_store_env env) (cn_remove_error env) name (cw_sessions w) of
           (Some err, files) \<Rightarrow> failed_run (w\<lparr>cw_sessions := files\<rparr>) err
         | (None, files) \<Rightarrow> write_text env (''removed session '' @ quote name @ newline) (w\<lparr>cw_sessions := files\<rparr>)))"

definition session_run :: "cli_env \<Rightarrow> output_mode \<Rightarrow> string list \<Rightarrow> cli_world \<Rightarrow> cli_world ran" where
  "session_run env mode args w =
     (if args = [] \<or> wants_help args then show_usage env session_usage w
      else if hd args = ''import'' then run_session_import env (tl args) w
      else if hd args = ''list'' then run_session_list env mode (tl args) w
      else if hd args = ''inspect'' then run_session_inspect env mode (tl args) w
      else if hd args = ''remove'' then run_session_remove env (tl args) w
      else usage_run w (''unknown session subcommand '' @ quote (hd args)))"

section \<open>The commands\<close>

definition property_command :: "cli_env \<Rightarrow> cli_world command" where
  "property_command env =
     \<lparr>cm_name = ''property'', cm_summary = ''Extract normalized Zillow property details'', cm_run = property_run env\<rparr>"

definition har_command :: "cli_env \<Rightarrow> cli_world command" where
  "har_command env =
     \<lparr>cm_name = ''har'', cm_summary = ''Capture, sanitize, and derive Zillow HAR data'', cm_run = har_run env\<rparr>"

definition session_command :: "cli_env \<Rightarrow> cli_world command" where
  "session_command env =
     \<lparr>cm_name = ''session'', cm_summary = ''Import and manage file-backed Zillow sessions'', cm_run = session_run env\<rparr>"

end
