(* ===== verification/Search_Main.thy ===== *)
theory Search_Main
  imports Har_Command Search_Run
begin

text \<open>
  The search command from its arguments on (\<open>searchCommand.Run\<close> of \<open>internal/cli/search.go\<close>): its flags, the
  record of their values that \<open>Search_Command\<close> checks, the previous results, the client and the caches, and the
  run of \<open>Search_Run\<close>; and the production set of commands (\<open>internal/cli/default.go\<close>).

  \<open>strconv.ParseFloat\<close>, the reading of previous results, the caches' directories and what is printed for a
  value are parameters. The progress lines of \<open>--progress\<close> (\<open>Search_Run\<close>) are not emitted here.
\<close>

section \<open>Help\<close>

definition usage_intro :: string where
  "usage_intro = text_lines
     [''Usage:'',
      ''  gozillo [global options] search --location <place> [--rent] [options]'',
      ''  gozillo [global options] search --profile <file> [options]'',
      ''  gozillo [global options] search --snapshot <file> [options]'',
      []]"

definition usage_sources :: string where
  "usage_sources = text_lines
     [''Sources:'',
      ''  --location <place>       Location/ZIP; repeat or use commas for multiple values'',
      ''  --strict-location-boundary Require exact ZIP/city result matches'',
      ''  --allowed-city <name>     Allowed result city; repeat or use commas'',
      ''  --location-city-alias <q=c> Map a query name to an accepted postal city'',
      ''  --rent                   Search rentals; valid with --location'',
      ''  --profile <file>         Derived profile for best-effort direct HTTP'',
      ''  --snapshot <file>        Saved HTML or raw __NEXT_DATA__ JSON; use - for stdin'',
      ''  --session <name>         Browser-derived session imported from a raw HAR'',
      ''  --proxy <URL>            HTTP/HTTPS/SOCKS5 proxy; otherwise use HTTPS_PROXY'',
      ''  --tls-profile <name>     Required browser profile for every network request'',
      ''  --user-agent <value>     Explicit network User-Agent; default is gozillo/<version>'',
      ''  --browser-header <h:v>   Allowlisted browser HTML header; repeat as needed'',
      []]"

definition usage_filters :: string where
  "usage_filters = text_lines
     [''Listing filters:'',
      ''  --min-price <n>          Minimum price'',
      ''  --max-price <n>          Maximum price'',
      ''  --min-beds <n>           Minimum bedrooms'',
      ''  --max-beds <n>           Maximum bedrooms'',
      ''  --min-baths <n>          Minimum bathrooms'',
      ''  --min-sqft <n>           Minimum living area in square feet'',
      ''  --max-days-on-zillow <n> Maximum days on Zillow; -1 disables the filter'',
      ''  --available-from <date>  Earliest availability date, YYYY-MM-DD'',
      ''  --available-by <date>    Latest availability date, YYYY-MM-DD'',
      ''  --unknown-availability <mode> exclude or watchlist'',
      ''  --out-of-window-availability <mode> exclude or watchlist'',
      ''  --max-total-cost <n>     Maximum monthly cost including known required fees'',
      ''  --verify-rental-status   Confirm FOR_RENT status from the property page'',
      ''  --exclude-shared-housing Exclude room-by-room and co-living listings'',
      ''  --exclude-student-housing Exclude student and dorm-style housing'',
      ''  --exclude-income-restricted Exclude listings with income eligibility limits'',
      ''  --laundry <value>        any, in-unit, hookups, shared, none, or unknown'',
      ''  --parking <value>        any, available, garage, private-garage, none, or unknown'',
      ''  --pets <value>           any, allowed, dogs, cats, none, or unknown'',
      ''  --flex <value>           Required flex type; repeat or use commas: den, office,'',
      ''                           bonus, loft, flex, private-garage'',
      ''  --unknown-laundry <mode> exclude (default) or retain as watchlist'',
      []]"

definition usage_enrichment :: string where
  "usage_enrichment = text_lines
     [''Detail enrichment:'',
      ''  --enrich-details         Fetch each property page and add normalized rental details'',
      ''  --verify-recency         Fetch expanded unit pages for actual recency fields'',
      ''  --detail-workers <n>     Concurrent detail requests, 1-8 (default 1)'',
      ''  --detail-delay <duration> Minimum delay between detail request starts (default 750ms)'',
      ''                           Laundry, parking, pets, and flex filters enable enrichment automatically'',
      ''  --location-delay <d>     Delay between locations (default 2s)'',
      ''  --max-pages <n>          Maximum pages per server route, 1-20 (default 1)'',
      ''  --page-delay <d>         Delay between server-result pages (default 2s)'',
      ''  --bed-range <range>      Server bedroom route; repeat: 2, 3+, 2-4'',
      ''  --server-sort <value>    Server sort route; repeat: days, mostrecentchange'',
      ''  --supplemental-no-laundry Add routes without Zillow's indexed laundry flag'',
      ''  --supplemental-pages <n> Page cap for supplemental/keyword routes'',
      ''  --keyword-route <text>  Exact-2-bedroom keyword route; repeat as needed'',
      ''  --home-type <value>      apartment, condo, townhouse, or single-family'',
      ''  --location-max-pages <spec> Per-location cap as LOCATION=PAGES'',
      ''  --location-retries <n>   Retries per challenge/rate-limited request (default 2)'',
      ''  --retry-backoff <d>      Initial retry cooldown, doubled per attempt (default 30s)'',
      ''  --search-cache-ttl <d>   Reuse location results across commands (default 1h)'',
      ''  --property-cache-ttl <d> Reuse property details across commands (default 6h)'',
      ''  --no-cache               Disable shared disk caches'',
      []]"

definition usage_results :: string where
  "usage_results = text_lines
     [''Result controls:'',
      ''  --page <n>               Results page; direct profile mode only'',
      ''  --sort <value>           Raw Zillow sort value; profile or location discovery'',
      ''  --sort-by <value>        recommended, price-asc, price-desc, newest, beds-desc, or sqft-desc'',
      ''  --limit <n>              Maximum rows per location; 0 prints all returned'',
      ''  --timeout <duration>     HTTP timeout per request (default 20s)'',
      ''  --raw                    Include raw search response JSON in JSON output'',
      ''  --previous-results <path> Prior JSON/JSONL for new/changed/still-active labels'',
      ''  --progress               Write line-oriented progress updates to stderr'']"

definition search_usage :: string where
  "search_usage = usage_intro @ usage_sources @ usage_filters @ usage_enrichment @ usage_results"

section \<open>Flags\<close>

definition set_float :: "(string \<Rightarrow> string + gofloat) \<Rightarrow> string \<Rightarrow> string option" where
  "set_float float v = (case float v of Inl err \<Rightarrow> Some err | Inr _ \<Rightarrow> None)"

definition float_flag :: "(string \<Rightarrow> string + gofloat) \<Rightarrow> string \<Rightarrow> string \<times> flag_kind" where
  "float_flag float name = (name, Valued (set_float float))"

definition float_value :: "(string \<Rightarrow> string + gofloat) \<Rightarrow> string \<Rightarrow> (string \<times> string) list \<Rightarrow> gofloat" where
  "float_value float name sets =
     (case filter (\<lambda>(n, v). n = name) sets of
        [] \<Rightarrow> Finite 0
      | xs \<Rightarrow> (case float (snd (last xs)) of Inl _ \<Rightarrow> Finite 0 | Inr x \<Rightarrow> x))"

definition search_flag_set :: "(string \<Rightarrow> string + gofloat) \<Rightarrow> flag_set" where
  "search_flag_set float =
     map text_flag
       [''profile'', ''snapshot'', ''proxy'', ''session'', ''tls-profile'', ''user-agent'', ''available-from'',
        ''available-by'', ''unknown-availability'', ''out-of-window-availability'', ''laundry'', ''parking'', ''pets'',
        ''unknown-laundry'', ''sort'', ''sort-by'', ''previous-results'']
     @ map list_flag
       [''location'', ''allowed-city'', ''location-city-alias'', ''browser-header'', ''flex'', ''bed-range'',
        ''server-sort'', ''keyword-route'', ''home-type'', ''location-max-pages'']
     @ map switch_flag
       [''strict-location-boundary'', ''rent'', ''verify-rental-status'', ''exclude-shared-housing'',
        ''exclude-student-housing'', ''exclude-income-restricted'', ''enrich-details'', ''verify-recency'',
        ''supplemental-no-laundry'', ''no-cache'', ''raw'', ''progress'']
     @ map int_flag
       [''page'', ''min-price'', ''max-price'', ''min-sqft'', ''max-days-on-zillow'', ''max-total-cost'', ''detail-workers'',
        ''max-pages'', ''supplemental-pages'', ''location-retries'', ''limit'']
     @ map (float_flag float) [''min-beds'', ''max-beds'', ''min-baths'']
     @ map duration_flag
       [''detail-delay'', ''location-delay'', ''page-delay'', ''retry-backoff'', ''search-cache-ttl'', ''property-cache-ttl'',
        ''timeout'']"

definition second :: int where "second = 10 ^ 9"

text \<open>The values of the flags about details; the choices and the dates are read later.\<close>

definition detail_flags_of :: "(string \<times> string) list \<Rightarrow> detail_options" where
  "detail_flags_of sets =
     \<lparr>dt_enrich = switch_value [''enrich-details''] sets, dt_verify_recency = switch_value [''verify-recency''] sets,
      dt_workers = int_value ''detail-workers'' 1 sets, dt_delay = duration_value ''detail-delay'' (750 * 10 ^ 6) sets,
      dt_min_sqft = int_value ''min-sqft'' 0 sets, dt_max_days = int_value ''max-days-on-zillow'' (- 1) sets,
      dt_available_from = None, dt_available_by = None,
      dt_unknown_availability = flag_value [''unknown-availability''] ''exclude'' sets,
      dt_out_of_window = flag_value [''out-of-window-availability''] ''exclude'' sets,
      dt_max_total_cost = int_value ''max-total-cost'' 0 sets,
      dt_require_for_rent = switch_value [''verify-rental-status''] sets,
      dt_exclude_shared = switch_value [''exclude-shared-housing''] sets,
      dt_exclude_student = switch_value [''exclude-student-housing''] sets,
      dt_exclude_income = switch_value [''exclude-income-restricted''] sets,
      dt_laundry = flag_value [''laundry''] ''any'' sets, dt_parking = flag_value [''parking''] ''any'' sets,
      dt_pets = flag_value [''pets''] ''any'' sets, dt_flex = [],
      dt_unknown_laundry = flag_value [''unknown-laundry''] ''exclude'' sets\<rparr>"

definition search_flags_of :: "(string \<Rightarrow> string + gofloat) \<Rightarrow> (string \<times> string) list \<Rightarrow> search_flags" where
  "search_flags_of float sets =
     \<lparr>fl_profile = flag_value [''profile''] [] sets, fl_snapshot = flag_value [''snapshot''] [] sets,
      fl_locations = list_value ''location'' sets, fl_strict_boundary = switch_value [''strict-location-boundary''] sets,
      fl_allowed_cities = list_value ''allowed-city'' sets, fl_city_aliases = list_value ''location-city-alias'' sets,
      fl_rent = switch_value [''rent''] sets, fl_proxy = flag_value [''proxy''] [] sets,
      fl_session = flag_value [''session''] [] sets, fl_tls_profile = flag_value [''tls-profile''] [] sets,
      fl_user_agent = flag_value [''user-agent''] [] sets, fl_browser_headers = list_value ''browser-header'' sets,
      fl_page = int_value ''page'' 0 sets, fl_min_price = int_value ''min-price'' 0 sets,
      fl_max_price = int_value ''max-price'' 0 sets, fl_min_beds = float_value float ''min-beds'' sets,
      fl_max_beds = float_value float ''max-beds'' sets, fl_min_baths = float_value float ''min-baths'' sets,
      fl_available_from = flag_value [''available-from''] [] sets, fl_available_by = flag_value [''available-by''] [] sets,
      fl_flex = list_value ''flex'' sets, fl_detail = detail_flags_of sets,
      fl_location_delay = duration_value ''location-delay'' (2 * second) sets, fl_max_pages = int_value ''max-pages'' 1 sets,
      fl_page_delay = duration_value ''page-delay'' (2 * second) sets, fl_bed_ranges = list_value ''bed-range'' sets,
      fl_server_sorts = list_value ''server-sort'' sets,
      fl_supplemental_no_laundry = switch_value [''supplemental-no-laundry''] sets,
      fl_supplemental_pages = int_value ''supplemental-pages'' 1 sets, fl_keyword_routes = list_value ''keyword-route'' sets,
      fl_home_types = list_value ''home-type'' sets, fl_location_pages = list_value ''location-max-pages'' sets,
      fl_location_retries = int_value ''location-retries'' 2 sets,
      fl_retry_backoff = duration_value ''retry-backoff'' (30 * second) sets,
      fl_search_cache_ttl = duration_value ''search-cache-ttl'' (3600 * second) sets,
      fl_property_cache_ttl = duration_value ''property-cache-ttl'' (6 * 3600 * second) sets,
      fl_sort = flag_value [''sort''] [] sets, fl_sort_by = flag_value [''sort-by''] ''recommended'' sets,
      fl_limit = int_value ''limit'' 0 sets, fl_timeout = duration_value ''timeout'' Client.default_timeout sets,
      fl_raw = switch_value [''raw''] sets\<rparr>"

section \<open>The run\<close>

record search_env =
  se_float :: "string \<Rightarrow> string + gofloat"
  se_world :: "search_plan \<Rightarrow> client option \<Rightarrow> disk_cache option \<Rightarrow> search_world"
  se_cache :: "string \<Rightarrow> int \<Rightarrow> string + disk_cache option"
  se_previous :: "string \<Rightarrow> string + listing list"
  se_today :: date_time
  se_printed :: "output_mode \<Rightarrow> printed \<Rightarrow> string"

definition search_transport :: "search_flags \<Rightarrow> search_plan \<Rightarrow> transport_options" where
  "search_transport f p =
     \<lparr>to_timeout = fl_timeout f, to_proxy_url = fl_proxy f, to_session_name = fl_session f,
      to_tls_profile = fl_tls_profile f, to_user_agent = fl_user_agent f, to_browser_headers = pn_headers p\<rparr>"

definition network_required :: "search_plan \<Rightarrow> bool" where
  "network_required p \<longleftrightarrow> pn_source p \<noteq> FromSnapshot \<or> needs_enrichment (pn_detail p)"

text \<open>A cache that cannot be found is a warning.\<close>

definition opened_cache :: "search_env \<Rightarrow> bool \<Rightarrow> string \<Rightarrow> int \<Rightarrow> disk_cache option \<times> string" where
  "opened_cache senv no_cache name ttl =
     (if no_cache then (None, [])
      else case se_cache senv name ttl of
             Inl msg \<Rightarrow> (None, ''warning: '' @ name @ '' cache disabled: '' @ msg @ newline)
           | Inr cache \<Rightarrow> (cache, []))"

definition event_out :: "search_env \<Rightarrow> output_mode \<Rightarrow> run_event \<Rightarrow> string" where
  "event_out senv mode e = (case e of Printed_line x \<Rightarrow> se_printed senv mode x | _ \<Rightarrow> [])"

definition event_err :: "run_event \<Rightarrow> string" where
  "event_err e = (case e of Warned msg \<Rightarrow> msg @ newline | _ \<Rightarrow> [])"

text \<open>What a run leaves: its streams, and the files of both caches.\<close>

definition finished_search ::
  "search_env \<Rightarrow> output_mode \<Rightarrow> string \<Rightarrow> string option \<times> run_state \<Rightarrow> cli_world \<Rightarrow> cli_world ran" where
  "finished_search senv mode warnings res w =
     (case res of
        (err, st) \<Rightarrow>
          \<lparr>ra_world = w\<lparr>cw_search_cache := rs_files st, cw_property_cache := er_files (rs_enricher st)\<rparr>,
           ra_out = concat (map (event_out senv mode) (rs_events st)),
           ra_err = warnings @ concat (map event_err (rs_events st)),
           ra_error = map_option Run_error err\<rparr>)"

definition planned_search ::
  "search_env \<Rightarrow> output_mode \<Rightarrow> bool \<Rightarrow> search_flags \<Rightarrow> search_plan \<Rightarrow> listing list option \<Rightarrow> client option \<Rightarrow> cli_world \<Rightarrow> cli_world ran" where
  "planned_search senv mode no_cache f p previous client0 w =
     (case opened_cache senv no_cache ''search'' (fl_search_cache_ttl f) of
        (cache, warn1) \<Rightarrow>
          (case opened_cache senv no_cache ''property'' (fl_property_cache_ttl f) of
             (details, warn2) \<Rightarrow>
               finished_search senv mode (warn1 @ warn2)
                 (run_search (se_world senv p client0 details) (settings_of f p mode cache (se_today senv) previous) p
                    (run_start (cw_search_cache w) (new_listing_detail_enricher (cw_property_cache w)))) w))"

definition previous_of :: "search_env \<Rightarrow> string \<Rightarrow> string + listing list option" where
  "previous_of senv path =
     (if trim_space path = [] then Inr None
      else case se_previous senv path of Inl msg \<Rightarrow> Inl msg | Inr ls \<Rightarrow> Inr (Some ls))"

definition client_of :: "cli_env \<Rightarrow> search_flags \<Rightarrow> search_plan \<Rightarrow> string + client option" where
  "client_of env f p =
     (if \<not> network_required p then Inr None
      else case cn_transport env (search_transport f p) of Inl msg \<Rightarrow> Inl msg | Inr c \<Rightarrow> Inr (Some c))"

definition search_run :: "cli_env \<Rightarrow> search_env \<Rightarrow> output_mode \<Rightarrow> string list \<Rightarrow> cli_world \<Rightarrow> cli_world ran" where
  "search_run env senv mode args w =
     (if wants_help args then show_usage env search_usage w
      else with_flags (search_flag_set (se_float senv)) args w (\<lambda>sets rest.
        if rest \<noteq> [] then usage_run w ''search does not accept positional arguments''
        else let f = search_flags_of (se_float senv) sets in
          case check_search f of
            Inl msg \<Rightarrow> usage_run w msg
          | Inr p \<Rightarrow>
              (case previous_of senv (flag_value [''previous-results''] [] sets) of
                 Inl msg \<Rightarrow> failed_run w msg
               | Inr previous \<Rightarrow>
                   (case client_of env f p of
                      Inl msg \<Rightarrow> failed_run w msg
                    | Inr client0 \<Rightarrow> planned_search senv mode (switch_value [''no-cache''] sets) f p previous client0 w))))"

section \<open>The production commands\<close>

definition search_command :: "cli_env \<Rightarrow> search_env \<Rightarrow> cli_world command" where
  "search_command env senv =
     \<lparr>cm_name = ''search'', cm_summary = ''Search Zillow through pure Go HTTP or a saved snapshot'',
      cm_run = search_run env senv\<rparr>"

definition default_commands :: "cli_env \<Rightarrow> search_env \<Rightarrow> cli_world command list" where
  "default_commands env senv =
     [search_command env senv, property_command env, har_command env, session_command env,
      version_command [] (cn_version env) (cn_write_error env (''gozillo '' @ cn_version env @ newline))]"

text \<open>The program: \<open>Execute\<close> without commands of its own takes the production ones.\<close>

definition main_program :: "cli_env \<Rightarrow> search_env \<Rightarrow> string list \<Rightarrow> cli_world \<Rightarrow> int \<times> cli_world ran" where
  "main_program env senv args w =
     execute_args (cn_write_error env (usage_text (default_commands env senv))) (map Some (default_commands env senv)) args w"

end
