(* ===== verification/Search_Main_Props.thy ===== *)
theory Search_Main_Props
  imports Search_Main Root_Props Har_Files Session_Props Search_Run_Props
begin

text \<open>
  Properties of the whole program: a usage error comes before any effect, every command of the help is there, and
  the composition of the commands with the files, the network and the session store.
\<close>

section \<open>Usage errors\<close>

definition harmless :: "'w \<Rightarrow> 'w ran \<Rightarrow> bool" where
  "harmless w r \<longleftrightarrow> (case ra_error r of Some (Usage_error m) \<Rightarrow> ra_world r = w \<and> ra_out r = [] | _ \<Rightarrow> True)"

named_theorems harmless_intros

lemma harmless_basic [harmless_intros]:
  "harmless w (usage_run w msg)" "harmless w (failed_run w' msg)" "harmless w (write_text env text w')"
  "harmless w (show_usage env text w')" "harmless w (go_error_run w' err)"
  by (auto simp: harmless_def usage_run_def failed_run_def write_text_def show_usage_def go_error_run_def quiet_run_def
      split: option.split)

lemma print_values_error: "(\<And>m. ra_error r \<noteq> Some (Usage_error m)) \<Longrightarrow> ra_error (print_values env mode vs r) \<noteq> Some (Usage_error m)"
  by (induction env mode vs r rule: print_values.induct) (auto split: sum.split option.split)

lemma harmless_print [harmless_intros]: "harmless w (print_run env mode vs w')"
proof -
  have "ra_error (print_run env mode vs w') \<noteq> Some (Usage_error m)" for m
    unfolding print_run_def by (rule print_values_error) (simp add: quiet_run_def)
  then show ?thesis by (auto simp: harmless_def split: option.split command_error.split)
qed

lemma harmless_cases [harmless_intros]:
  "(\<And>a. x = Inl a \<Longrightarrow> harmless w (f a)) \<Longrightarrow> (\<And>b. x = Inr b \<Longrightarrow> harmless w (g b)) \<Longrightarrow> harmless w (case x of Inl a \<Rightarrow> f a | Inr b \<Rightarrow> g b)"
  "(o1 = None \<Longrightarrow> harmless w r) \<Longrightarrow> (\<And>y. o1 = Some y \<Longrightarrow> harmless w (h y)) \<Longrightarrow> harmless w (case o1 of None \<Rightarrow> r | Some y \<Rightarrow> h y)"
  "(b \<Longrightarrow> harmless w r1) \<Longrightarrow> (\<not> b \<Longrightarrow> harmless w r2) \<Longrightarrow> harmless w (if b then r1 else r2)"
  "(\<And>u v. p = (u, v) \<Longrightarrow> harmless w (k u v)) \<Longrightarrow> harmless w (case p of (u, v) \<Rightarrow> k u v)"
  by (auto split: sum.split option.split prod.split)

lemma harmless_with [harmless_intros]:
  "(\<And>sets rest. harmless w (run sets rest)) \<Longrightarrow> harmless w (with_flags fs args w run)"
  "(\<And>dir. harmless w (enter dir)) \<Longrightarrow> harmless w (with_store env w' enter)"
  unfolding with_flags_def with_store_def by (intro harmless_intros; blast)+

lemma harmless_saved [harmless_intros]: "harmless w (saved_run env saved line w')"
  unfolding saved_run_def by (intro harmless_intros)

lemma harmless_outcome [harmless_intros]:
  "(\<And>m. harmless w (f m)) \<Longrightarrow> (\<And>e. harmless w (g e)) \<Longrightarrow> (\<And>a. harmless w (h a)) \<Longrightarrow> harmless w r \<Longrightarrow>
   harmless w (case c of Capture_failed m \<Rightarrow> f m | Recorder_failed e \<Rightarrow> g e | Captured a \<Rightarrow> h a | Nil_request \<Rightarrow> r)"
  by (cases c) auto

lemma harmless_property: "harmless w (property_run env mode args w)"
  unfolding property_run_def property_from_url_def property_from_file_def print_property_def
  by (intro harmless_intros)

lemma harmless_har: "harmless w (har_run env mode args w)"
  unfolding har_run_def run_har_capture_def run_har_sanitize_def run_har_candidates_def run_har_derive_def
    save_archive_run_def Let_def
  by (intro harmless_intros)

lemma harmless_session: "harmless w (session_run env mode args w)"
  unfolding session_run_def run_session_import_def run_session_list_def run_session_inspect_def run_session_remove_def Let_def
  by (intro harmless_intros)

lemma harmless_search: "harmless w (search_run env senv mode args w)"
proof -
  have "harmless w (finished_search senv mode warnings res w')" for warnings res w'
    by (auto simp: harmless_def finished_search_def split: prod.split option.split)
  then have "harmless w (planned_search senv mode no_cache f p previous client0 w)" for no_cache f p previous client0
    unfolding planned_search_def by (intro harmless_intros)
  then show ?thesis
    unfolding search_run_def Let_def by (intro harmless_intros)
qed

lemma harmless_version: "harmless w (cm_run (version_command version current fault) mode args w)"
  by (auto simp: version_command_def harmless_def quiet_run_def split: option.split)

lemma harmless_default: "c \<in> set (default_commands env senv) \<Longrightarrow> harmless w (cm_run c mode args w)"
  using harmless_search harmless_property harmless_har harmless_session harmless_version
  by (auto simp: default_commands_def search_command_def property_command_def har_command_def session_command_def)

section \<open>The production commands\<close>

lemma default_names: "map cm_name (default_commands env senv) = planned_names"
  by (simp add: default_commands_def search_command_def property_command_def har_command_def session_command_def
      version_command_def planned_names_def planned_commands_def)

lemma default_registered: "new_root (map Some (default_commands env senv)) = Inr (default_commands env senv)"
  by (simp add: new_root_def default_commands_def register_def search_command_def property_command_def har_command_def
      session_command_def version_command_def valid_command_name_def is_lower_def is_digit_def)

lemma planned_trimmed: "list_all (\<lambda>e. trim_space (snd e) = snd e \<and> snd e \<noteq> []) planned_commands"
  by code_simp

lemma found_by_name:
  "distinct (map cm_name cs) \<Longrightarrow> (n, s) \<in> set (map (\<lambda>c. (cm_name c, cm_summary c)) cs) \<Longrightarrow>
   \<exists>c. find_command cs n = Some c \<and> cm_summary c = s"
  by (induction cs) (auto simp: find_command_def image_iff)

lemma default_found:
  assumes "entry \<in> set planned_commands"
  shows "\<exists>c. find_command (default_commands env senv) (fst entry) = Some c \<and> cm_summary c = snd entry"
proof -
  have pairs: "map (\<lambda>c. (cm_name c, cm_summary c)) (default_commands env senv) = planned_commands"
    by (simp add: default_commands_def search_command_def property_command_def har_command_def session_command_def
      version_command_def planned_commands_def)
  then have "map cm_name (default_commands env senv) = map fst planned_commands" by (simp flip: pairs add: comp_def)
  moreover have "distinct (map fst planned_commands)" by code_simp
  ultimately show ?thesis using assms found_by_name [of "default_commands env senv" "fst entry" "snd entry"] pairs by simp
qed

text \<open>
  The production commands can all be registered, and the help lists exactly them, each with the summary
  planned for it and none as not implemented.
\<close>
theorem production_commands_complete:
  "new_root (map Some (default_commands env senv)) = Inr (default_commands env senv)
   \<and> command_help (default_commands env senv) = planned_commands"
proof -
  have "planned_help (default_commands env senv) entry = entry" if entry: "entry \<in> set planned_commands" for entry
  proof -
    obtain c where "find_command (default_commands env senv) (fst entry) = Some c" and "cm_summary c = snd entry"
      using default_found [OF entry] by blast
    moreover have "trim_space (snd entry) = snd entry" "snd entry \<noteq> []"
      using planned_trimmed entry by (auto simp: list_all_iff)
    ultimately show ?thesis by (simp add: planned_help_def command_summary_def)
  qed
  then have "map (planned_help (default_commands env senv)) planned_commands = planned_commands" by (rule map_idI)
  moreover have "filter (\<lambda>n. \<not> is_planned_command n) (map cm_name (default_commands env senv)) = []"
    unfolding default_names by (simp add: is_planned_command_def filter_empty_conv)
  ultimately show ?thesis by (simp add: default_registered command_help_def)
qed

lemma harmless_root:
  assumes "\<forall>c \<in> set cs. \<forall>mode args. harmless w (cm_run c mode args w)"
  shows "harmless w (run_root fault cs args w)"
proof -
  have quiet: "harmless w (quiet_run w e)" for e
    by (auto simp: harmless_def quiet_run_def split: option.split command_error.split)
  have wrapped: "harmless w (r\<lparr>ra_error := map_option (wrap_error name) (ra_error r)\<rparr>)" if "harmless w r" for r name
    using that by (auto simp: harmless_def wrap_error_def split: option.splits command_error.splits)
  have shown: "harmless w ((quiet_run w None)\<lparr>ra_out := t\<rparr>)" for t by (simp add: harmless_def quiet_run_def)
  have ran: "harmless w (cm_run c mode args w)" if "find_command cs name = Some c" for c name mode args
    using that assms find_name by blast
  show ?thesis
    unfolding run_root_def Let_def
    by (intro harmless_intros quiet wrapped shown ran)
qed

text \<open>
  C6: When the program exits with the usage code, it has changed no file, no cache and no session, has sent no
  request, and has printed nothing on the standard output.
\<close>
theorem usage_errors_change_nothing:
  assumes "main_program env senv args w = (2, r)"
  shows "ra_world r = w \<and> ra_out r = []"
proof -
  define fault where "fault = cn_write_error env (usage_text (default_commands env senv))"
  define r1 where "r1 = run_root fault (default_commands env senv) args w"
  have "harmless w r1" unfolding r1_def by (intro harmless_root ballI allI harmless_default)
  moreover obtain m where "ra_error r1 = Some (Usage_error m)" and "ra_world r = ra_world r1" and "ra_out r = ra_out r1"
    using assms
    by (auto simp: main_program_def execute_args_def default_registered fault_def [symmetric] r1_def [symmetric] Let_def
        exit_code_def exit_ok_def exit_failure_def exit_usage_def split: option.split_asm command_error.split_asm)
  ultimately show ?thesis by (simp add: harmless_def)
qed

section \<open>Tables\<close>

text \<open>
  The tables of properties, candidates and sessions are rectangular, with a row for every candidate and session,
  so that the printer never refuses the shape of a table.
\<close>
theorem command_tables_rectangular:
  "list_all (\<lambda>row. length row = length (tb_headers (property_table p))) (tb_rows (property_table p))
   \<and> list_all (\<lambda>row. length row = length (tb_headers (candidate_table cs))) (tb_rows (candidate_table cs))
   \<and> list_all (\<lambda>row. length row = length (tb_headers (summary_table ss))) (tb_rows (summary_table ss))
   \<and> length (tb_rows (candidate_table cs)) = length cs \<and> length (tb_rows (summary_table ss)) = length ss"
  by (simp add: property_table_def candidate_table_def summary_table_def list_all_iff)

section \<open>The network of the property command\<close>

lemma print_values_world: "ra_world (print_values env mode vs r) = ra_world r"
  by (induction env mode vs r rule: print_values.induct) (auto split: sum.split option.split)

lemma print_property_world: "ra_world (print_property env mode result w) = w"
  by (simp add: print_property_def print_run_def print_values_world go_error_run_def failed_run_def quiet_run_def
      del: print_values.simps split: sum.split)

text \<open>
  The property command changes nothing unless its one argument is an HTTP URL and a TLS profile is given; and
  then it only sends the requests of that fetch. A saved page is read without the network.
\<close>
theorem property_command_effect:
  "ra_world (property_run env mode args w) = w
   \<or> (\<exists>sets source headers c.
        parse_flags property_flags args = Inr (sets, [source]) \<and> property_source_url source
        \<and> trim_space (flag_value [''tls-profile''] [] sets) \<noteq> []
        \<and> cn_transport env (property_transport sets headers) = Inr c
        \<and> ra_world (property_run env mode args w) = w\<lparr>cw_requests := cw_requests w
            @ snd (fetch_property_with_options (cn_net env) (cn_page env) (Some c) False source (switch_value [''raw''] sets))\<rparr>)"
proof -
  have saved_page: "ra_world (property_from_file env mode sets headers source w) = w" for sets headers source
    by (simp add: property_from_file_def print_property_world usage_run_def failed_run_def quiet_run_def split: sum.split)
  have url: "ra_world (property_from_url env mode sets headers source w) = w
      \<or> (\<exists>c. trim_space (flag_value [''tls-profile''] [] sets) \<noteq> []
            \<and> cn_transport env (property_transport sets headers) = Inr c
            \<and> ra_world (property_from_url env mode sets headers source w) = w\<lparr>cw_requests := cw_requests w
                @ snd (fetch_property_with_options (cn_net env) (cn_page env) (Some c) False source (switch_value [''raw''] sets))\<rparr>)"
    for sets headers source
    by (auto simp: property_from_url_def print_property_world usage_run_def failed_run_def quiet_run_def split: sum.split prod.split)
  show ?thesis
  proof (cases "wants_help args \<or> (\<exists>msg. parse_flags property_flags args = Inl msg)")
    case True
    then show ?thesis
      by (auto simp: property_run_def show_usage_def with_flags_def usage_run_def quiet_run_def)
  next
    case False
    then obtain sets rest where parsed: "parse_flags property_flags args = Inr (sets, rest)" and nohelp: "\<not> wants_help args"
      by (cases "parse_flags property_flags args") auto
    show ?thesis
    proof (cases "ra_world (property_run env mode args w) = w")
      case changed: False
      have one: "length rest = 1"
      proof (rule ccontr)
        assume "length rest \<noteq> 1"
        then have "ra_world (property_run env mode args w) = w"
          by (simp add: property_run_def nohelp with_flags_def parsed usage_run_def quiet_run_def)
        with changed show False by simp
      qed
      then obtain source where rest: "rest = [source]" by (auto simp: length_Suc_conv)
      obtain headers where headers: "parse_browser_headers (list_value ''browser-header'' sets) = Inr headers"
      proof (cases "parse_browser_headers (list_value ''browser-header'' sets)")
        case (Inl msg)
        then have "ra_world (property_run env mode args w) = w"
          using one by (simp add: property_run_def nohelp with_flags_def parsed usage_run_def quiet_run_def)
        with changed show thesis by simp
      qed (rule that)
      have run: "property_run env mode args w = property_from_url env mode sets headers source w" and "property_source_url source"
        using changed one saved_page
        by (auto simp: property_run_def nohelp with_flags_def parsed headers rest usage_run_def quiet_run_def split: if_split_asm)
      with changed url [of sets headers source] show ?thesis
        unfolding run parsed rest by blast
    qed simp
  qed
qed

section \<open>Files of the har command\<close>

lemma save_har_trace: "save_har_file henv windows faults path temp a0 files = (res, trace) \<Longrightarrow> trace \<noteq> []"
proof -
  have steps: "snd (save_steps label f p t d ss fs) \<noteq> []" for label f p t d ss fs
    by (cases ss) (auto split: option.split prod.split)
  have "snd (replace_file label f p t d fs) \<noteq> []" for label f p t d fs
    using steps [of label f p t d "[CreateTemp]" fs]
    by (auto simp: replace_file_def simp del: save_steps.simps split: prod.split option.split)
  then show "save_har_file henv windows faults path temp a0 files = (res, trace) \<Longrightarrow> trace \<noteq> []"
    by (auto simp: save_har_file_def replace_by_document_def split: if_split_asm option.split_asm)
      (metis snd_conv)
qed

lemma sanitize_saved:
  assumes "out \<noteq> cn_temp env" and "cw_files w (cn_temp env) = None" and r_def: "r = save_archive_run env out clean verb w"
  shows "(\<forall>p. p \<noteq> out \<longrightarrow> p \<noteq> cn_temp env \<longrightarrow> cw_files (ra_world r) p = cw_files w p)
    \<and> (cw_files (ra_world r) out = cw_files w out \<or>
       (\<exists>text. save_archive (cn_har env) (Some clean) = Inr text \<and> cw_files (ra_world r) out = Some \<lparr>cf_mode = 384, cf_data = text\<rparr>))
    \<and> (ra_error r = None \<longrightarrow> (\<exists>text. cw_files (ra_world r) out = Some \<lparr>cf_mode = 384, cf_data = text\<rparr>
         \<and> save_archive (cn_har env) (Some clean) = Inr text))"
proof -
  obtain res trace where saved: "save_har_file (cn_har env) (cn_windows env) (cn_faults env) out (cn_temp env) (Some clean) (cw_files w)
      = (res, trace)" by fastforce
  note spec = conjunct1 [OF har_save_spec [OF saved assms(1,2)], unfolded replaced_by_def]
  have files: "cw_files (ra_world r) = last trace"
    by (auto simp: r_def save_archive_run_def saved_run_def saved failed_run_def write_text_def quiet_run_def split: option.split)
  have "ra_error r = None \<Longrightarrow> res = None"
    by (auto simp: r_def save_archive_run_def saved_run_def saved failed_run_def quiet_run_def split: option.split_asm)
  moreover have "last trace \<in> set trace" using save_har_trace [OF saved] by simp
  ultimately show ?thesis unfolding files using spec assms(1) by (cases res) auto
qed

text \<open>
  C20: \<open>har sanitize\<close> touches no file but its output: that file keeps its content or becomes the encoding of the
  sanitized archive of its input, readable by its owner alone; without an error it is that encoding.
\<close>
theorem sanitize_command_effect:
  assumes "parse_flags sanitize_flags args = Inr (sets, [path])" and "\<not> wants_help (''sanitize'' # args)"
    and "flag_value [''out''] [] sets \<noteq> cn_temp env" and "cw_files w (cn_temp env) = None"
  shows "let r = har_run env mode (''sanitize'' # args) w; out = flag_value [''out''] [] sets;
      finished = (\<lambda>file. \<exists>a clean text. load_har_file (cn_har env) path (open_file env w path) = Inr a
        \<and> sanitize_archive (cn_har env) (Some a) [sanitize_request_of sets] = Inr clean
        \<and> save_archive (cn_har env) (Some clean) = Inr text \<and> file = Some \<lparr>cf_mode = 384, cf_data = text\<rparr>)
    in (\<forall>p. p \<noteq> out \<longrightarrow> p \<noteq> cn_temp env \<longrightarrow> cw_files (ra_world r) p = cw_files w p)
       \<and> (cw_files (ra_world r) out = cw_files w out \<or> finished (cw_files (ra_world r) out))
       \<and> (ra_error r = None \<longrightarrow> finished (cw_files (ra_world r) out))"
proof -
  define r where "r = har_run env mode (''sanitize'' # args) w"
  define out where "out = flag_value [''out''] [] sets"
  have run: "r = (if trim_space out = [] then usage_run w ''har sanitize requires --out''
       else case load_har_file (cn_har env) path (open_file env w path) of
              Inl msg \<Rightarrow> failed_run w msg
            | Inr a \<Rightarrow>
                (case sanitize_archive (cn_har env) (Some a) [sanitize_request_of sets] of
                   Inl msg \<Rightarrow> failed_run w msg
                 | Inr clean \<Rightarrow> save_archive_run env out clean ''sanitized '' w))"
    unfolding r_def out_def using assms(2) by (simp add: har_run_def run_har_sanitize_def with_flags_def assms(1))
  show ?thesis
  proof (cases "\<exists>a clean. trim_space out \<noteq> [] \<and> load_har_file (cn_har env) path (open_file env w path) = Inr a
      \<and> sanitize_archive (cn_har env) (Some a) [sanitize_request_of sets] = Inr clean")
    case True
    then obtain a clean where ok: "trim_space out \<noteq> []" "load_har_file (cn_har env) path (open_file env w path) = Inr a"
      "sanitize_archive (cn_har env) (Some a) [sanitize_request_of sets] = Inr clean" by blast
    have r: "r = save_archive_run env out clean ''sanitized '' w" unfolding run by (simp add: ok)
    show ?thesis
      using sanitize_saved [of out env w r clean "''sanitized ''"] assms(3,4) ok(2,3) r
      unfolding r_def [symmetric] out_def [symmetric] Let_def by blast
  next
    case False
    then have "ra_world r = w \<and> ra_error r \<noteq> None"
      unfolding run by (auto simp: usage_run_def failed_run_def quiet_run_def split: sum.split)
    then show ?thesis unfolding r_def [symmetric] out_def [symmetric] Let_def by auto
  qed
qed

section \<open>Sessions\<close>

text \<open>
  C21: A session imported under a name without an error is the one the inspection of that name shows: its name,
  its time, and the number and the names of its cookies, when the JSON codec is faithful.
\<close>
theorem imported_session_inspected:
  assumes "ra_error (session_run env mode [''import'', written_flag (''name'', name), ''--'', path] w) = None"
    and "path \<noteq> ''-h'' \<and> path \<noteq> ''--help''"
    and "list_all is_digit (cn_temp env)" and "cw_sessions w (session_temp (cn_temp env)) = None"
    and "\<And>t d. sn_encode (cn_store_env env) t = Inr d \<Longrightarrow> sn_decode (cn_store_env env) d = Inr t"
    and "sn_stat_error (cn_store_env env) (session_file name) = None" and "sn_open_error (cn_store_env env) (session_file name) = None"
  shows "let w1 = ra_world (session_run env mode [''import'', written_flag (''name'', name), ''--'', path] w) in
    \<exists>a s. load_har_file (cn_har env) path (open_file env w path) = Inr a
      \<and> import_har (cn_created env) (cn_clock env) (Some a) = Inr s
      \<and> session_run env shown [''inspect'', written_flag (''name'', name)] w1
        = print_run env shown (summary_values shown [summary_of name s]) w1"
proof -
  have flag: "parse_flags [text_flag ''name''] (written_flag (''name'', name) # tail)
      = map_sum id (apfst (Cons (''name'', name))) (parse_flags [text_flag ''name''] tail)" for tail
    by (rule parse_written_step) (simp_all add: flag_name_ok_def flag_accepts_def text_flag_def set_string_def)
  have nohelp: "\<not> wants_help [''import'', written_flag (''name'', name), ''--'', path]"
      "\<not> wants_help [''inspect'', written_flag (''name'', name)]"
    using assms(2) by (auto simp: wants_help_def written_flag_def)
  have named: "flag_value [''name''] ''default'' [(''name'', name)] = name" by (simp add: flag_value_def)
  define r where "r = session_run env mode [''import'', written_flag (''name'', name), ''--'', path] w"
  have run: "r = (case load_har_file (cn_har env) path (open_file env w path) of
              Inl msg \<Rightarrow> failed_run w msg
            | Inr a \<Rightarrow>
                (case import_har (cn_created env) (cn_clock env) (Some a) of
                   Inl msg \<Rightarrow> failed_run w msg
                 | Inr s \<Rightarrow>
                     with_store env w (\<lambda>dir.
                       case session_save (cn_store_env env) dir (cn_faults env) (cn_temp env) name (Some s) (cw_sessions w) of
                         (Some err, trace) \<Rightarrow> failed_run (w\<lparr>cw_sessions := last trace\<rparr>) err
                       | (None, trace) \<Rightarrow>
                           write_text env (imported_line env dir (summary_of name s)) (w\<lparr>cw_sessions := last trace\<rparr>))))"
  proof -
    have parsed: "parse_flags [text_flag ''name''] (tl [''import'', written_flag (''name'', name), ''--'', path]) = Inr ([(''name'', name)], [path])"
    proof -
      have "parse_flags [text_flag ''name''] [''--'', path] = Inr ([], [path])"
        by (simp add: parse_flags.simps(2) read_flag_def)
      then show ?thesis by (simp add: flag)
    qed
    have "r = run_session_import env (tl [''import'', written_flag (''name'', name), ''--'', path]) w"
      by (simp add: r_def session_run_def nohelp)
    then show ?thesis
      unfolding run_session_import_def with_flags_def parsed sum.case prod.case Let_def named by simp
  qed
  have fine: "ra_error r = None" using assms(1) by (simp add: r_def)
  have bad: "ra_error (failed_run w' msg) = Some (Run_error msg)" for w' :: cli_world and msg by (simp add: failed_run_def quiet_run_def)
  obtain a where a: "load_har_file (cn_har env) path (open_file env w path) = Inr a"
    using fine unfolding run by (auto simp: bad split: sum.split_asm)
  obtain s where s: "import_har (cn_created env) (cn_clock env) (Some a) = Inr s"
    using fine unfolding run by (auto simp: bad a split: sum.split_asm)
  obtain dir where dir: "cn_store env = Inr dir"
    using fine unfolding run by (auto simp: bad a s with_store_def split: sum.split_asm)
  obtain trace where saved: "session_save (cn_store_env env) dir (cn_faults env) (cn_temp env) name (Some s) (cw_sessions w) = (None, trace)"
    using fine unfolding run by (auto simp: bad a s with_store_def dir split: prod.split_asm option.split_asm)
  have world: "ra_world r = w\<lparr>cw_sessions := last trace\<rparr>"
    unfolding run by (simp add: a s with_store_def dir saved write_text_def failed_run_def quiet_run_def split: option.split)
  have "session_load (cn_store_env env) name (last trace) = Inr s"
    using saved_session_reads [OF saved assms(3-7), of name] by simp
  then have "session_run env shown [''inspect'', written_flag (''name'', name)] (ra_world r)
      = print_run env shown (summary_values shown [summary_of name s]) (ra_world r)"
    by (simp add: session_run_def nohelp run_session_inspect_def with_flags_def flag named with_store_def dir world Let_def)
  then show ?thesis using a s unfolding r_def [symmetric] Let_def by blast
qed

section \<open>Examples\<close>

definition home_har_env :: har_env where
  "home_har_env = one_archive_env\<lparr>hv_decode_archive := (\<lambda>t. if t = ''{}'' then OneArchive sample_archive else BadArchive ''unexpected'')\<rparr>"

definition home_env :: cli_env where
  "home_env =
     \<lparr>cn_version = ''1.0'', cn_har = home_har_env, cn_template = (\<lambda>t. Inr ''{}''),
      cn_page = \<lparr>pe_unescape = id, pe_decode = (\<lambda>t. BadJson ''none''), pe_encode = (\<lambda>j. Inl ''none''), pe_today = zero_time\<rparr>,
      cn_net = \<lparr>ne_send = (\<lambda>q. Inl (Plain ''offline'')), ne_parse_time = (\<lambda>t. None), ne_now = 0\<rparr>,
      cn_transport = (\<lambda>t. Inl ''offline''), cn_capture = (\<lambda>o1. Capture_failed ''offline''), cn_recorder_text = (\<lambda>e. ''limit''),
      cn_windows = False, cn_open_error = (\<lambda>p. None), cn_faults = Session_Props.no_faults, cn_temp = ''1'', cn_store = Inr ''/s'',
      cn_store_env = sample_store, cn_store_entries = Inr [], cn_remove_error = None, cn_join = join ''/'', cn_created = 7,
      cn_clock = (\<lambda>_. 738000 * day_ns), cn_json = (\<lambda>m v. Inr ''{}''),
      cn_write_error = (\<lambda>t. None)\<rparr>"

definition home_search :: search_env where
  "home_search =
     \<lparr>se_float = (\<lambda>v. Inr (Finite 0)), se_world = (\<lambda>p c d. plain_world), se_cache = (\<lambda>n ttl. Inr None),
      se_previous = (\<lambda>p. Inr []), se_today = zero_time, se_printed = (\<lambda>m x. ''row'')\<rparr>"

definition home_world :: cli_world where
  "home_world =
     \<lparr>cw_files = [''a.har'' \<mapsto> \<lparr>cf_mode = 384, cf_data = ''{}''\<rparr>], cw_sessions = Map.empty, cw_search_cache = Map.empty,
      cw_property_cache = Map.empty, cw_requests = []\<rparr>"

theorem usage_errors_change_nothing_witness:
  "ra_world (snd (main_program home_env home_search [''frobnicate''] home_world)) = home_world"
proof -
  have "parse_flags root_flags [''frobnicate''] = Inr ([], [''frobnicate''])"
    by (simp add: parse_flags.simps(2) read_flag_def)
  moreover have "parse_mode ''table'' = Inr ModeTable" using parse_own_mode [of ModeTable] by (simp add: mode_string_def)
  moreover have "find_command (default_commands home_env home_search) ''frobnicate'' = None"
    by (simp add: find_command_def default_commands_def search_command_def property_command_def har_command_def
        session_command_def version_command_def)
  ultimately have "run_root fault (default_commands home_env home_search) [''frobnicate''] home_world
      = quiet_run home_world (Some (unknown_command ''frobnicate''))" for fault
    by (simp add: run_root_def switch_value_def flag_value_def parse_bool_def)
  then have "fst (main_program home_env home_search [''frobnicate''] home_world) = 2"
    by (simp add: main_program_def execute_args_def default_registered quiet_run_def unknown_command_def exit_code_def
        exit_usage_def Let_def)
  then have "main_program home_env home_search [''frobnicate''] home_world
      = (2, snd (main_program home_env home_search [''frobnicate''] home_world))" by (metis prod.collapse)
  from usage_errors_change_nothing [OF this] show ?thesis by blast
qed

theorem sanitize_command_effect_witness:
  "cw_files (ra_world (har_run home_env ModeTable [''sanitize'', ''--out=b.har'', ''missing.har''] home_world)) ''a.har''
   = cw_files home_world ''a.har''"
proof -
  have "parse_flags sanitize_flags [''--out=b.har'', ''missing.har''] = Inr ([(''out'', ''b.har'')], [''missing.har''])"
    by (simp add: parse_flags.simps(2) read_flag_def sanitize_flags_def text_flag_def set_string_def)
  from sanitize_command_effect [OF this, of home_env home_world ModeTable] show ?thesis
    by (simp add: wants_help_def flag_value_def home_env_def home_world_def Let_def)
qed

theorem imported_session_inspected_witness:
  "\<exists>w1. session_run home_env ModeTable [''inspect'', written_flag (''name'', ''home'')] w1
     = print_run home_env ModeTable (summary_values ModeTable [summary_of ''home'' sample_session]) w1"
proof -
  let ?args = "[''import'', written_flag (''name'', ''home''), ''--'', ''a.har'']"
  have flags: "parse_flags [text_flag ''name''] [written_flag (''name'', ''home''), ''--'', ''a.har''] = Inr ([(''name'', ''home'')], [''a.har''])"
    by (simp add: parse_flags.simps(2) read_flag_def written_flag_def text_flag_def set_string_def)
  have named: "flag_value [''name''] ''default'' [(''name'', ''home'')] = ''home''" by (simp add: flag_value_def)
  have valid: "validate_archive (Some sample_archive) = None" by code_simp
  have loaded: "load_har_file (cn_har home_env) ''a.har'' (open_file home_env home_world ''a.har'') = Inr sample_archive"
    by (simp add: load_har_file_def open_file_def home_env_def home_world_def home_har_env_def load_archive_def valid)
  have saved: "fst (session_save sample_store ''/s'' Session_Props.no_faults ''1'' ''home'' (Some sample_session) Map.empty) = None"
    by (rule Session_Props.sample_save)
  have imported: "import_har (cn_created home_env) (cn_clock home_env) (Some sample_archive) = Inr sample_session"
    by (simp add: home_env_def sample_import)
  obtain trace where trace: "session_save (cn_store_env home_env) ''/s'' (cn_faults home_env) (cn_temp home_env) ''home''
      (Some sample_session) (cw_sessions home_world) = (None, trace)"
    using saved by (simp add: home_env_def home_world_def) (metis prod.collapse)
  have store: "cn_store home_env = Inr ''/s''" and written: "cn_write_error home_env t = None" for t by (simp_all add: home_env_def)
  have nohelp: "\<not> wants_help ?args" by (simp add: wants_help_def written_flag_def)
  have "session_run home_env ModeTable ?args home_world = run_session_import home_env (tl ?args) home_world"
    by (simp add: session_run_def nohelp)
  also have "ra_error \<dots> = None"
    by (simp add: run_session_import_def with_flags_def flags named Let_def loaded imported with_store_def store trace
        write_text_def written quiet_run_def)
  finally have fine: "ra_error (session_run home_env ModeTable ?args home_world) = None" .
  have codec: "sn_decode (cn_store_env home_env) d = Inr t" if "sn_encode (cn_store_env home_env) t = Inr d" for t d
    using that by (simp add: home_env_def sample_store_def split: if_splits)
  have digits: "list_all is_digit (cn_temp home_env)" unfolding home_env_def by code_simp
  have "cw_sessions home_world (session_temp (cn_temp home_env)) = None" "sn_stat_error (cn_store_env home_env) (session_file ''home'') = None"
      "sn_open_error (cn_store_env home_env) (session_file ''home'') = None"
    by (simp_all add: home_world_def home_env_def sample_store_def)
  note inspected = imported_session_inspected [OF fine _ digits this(1) codec this(2,3), of ModeTable]
  with imported loaded show ?thesis by (auto simp: Let_def)
qed

end
