(* ===== verification/Spec2Isabelle.thy ===== *)
theory Spec2Isabelle
  imports Recorder_Archive_Props Listing_Sort Discovery_Props Client_Props History Location_Filter Format Search_Response_Props Next_Data_Props Property_Page_Props Rental_Page_Props Search_Page_Props Har_Sanitize_Props Har_Sanitize_Depth Har_Rank_Props Detail_Filters_Props Detail_Enricher_Props Route_Flags_Props Search_Table_Props TLS_Client_Props Session_Props Transport_Props Search_Command_Props Search_Run_Props Search_Pipeline_Props Har_Files Capture_Props Capture_Intake_Props Root_Props Search_Main_Props
begin

text \<open>
  gozillo searches Zillow rentals from the command line: it captures or reads browser traffic (HAR),
  derives a search profile from it, replays the search with filters, discovers whole locations page
  by page, reads property pages, filters, ranks and prints the listings. This development models the
  logic of the program as HOL functions, theory by theory in the order of the packages under
  \<open>src/internal\<close>; a theory \<open>X_Props\<close> holds the theorems about \<open>X\<close>.

  Foundations. \<open>Prelude\<close>: lists, key-wise de-duplication (\<open>keep_first\<close>), event machines and stable
  sorting as locales. \<open>Go_Text\<close>, \<open>Go_URL\<close>, \<open>Go_Time\<close>, \<open>Json\<close>: the parts of Go's \<open>strings\<close>, \<open>strconv\<close>,
  \<open>net/url\<close>, \<open>encoding/base64\<close>, \<open>time\<close> and of decoded JSON that the program uses.

  \<open>cdphar/recorder.go\<close>. \<open>Recorder_Data\<close> and \<open>Recorder\<close>: the state of the CDP recorder and its event
  handler with every guard, budget check and reconciliation loop; \<open>Recorder_Inv\<close>, \<open>Recorder_Order\<close>,
  \<open>Recorder_Props\<close>: chains index entries, budgets hold, supplemental events meet their redirect hops in
  arrival order, bodies are fetched once. \<open>Recorder_Archive\<close>: freezing, drain, bodies and the export;
  \<open>Recorder_Log\<close> and \<open>Recorder_Archive_Props\<close>: the export refines an abstract log of the requests.

  \<open>har\<close>. \<open>Har_Model\<close>: documents, validation, loading and saving; \<open>Har_Sanitize\<close> with \<open>_Props\<close> and \<open>_Depth\<close>:
  redaction, verification, and termination of the nested redaction; \<open>Har_Rank\<close>: scoring of entries and
  derivation of a search template that is a valid profile.

  \<open>zillow\<close>. \<open>Models\<close>: data and errors; \<open>Zillow_URL\<close>, \<open>Client\<close>: the URL guard and the HTTP exchange;
  \<open>Search_Profile\<close>, \<open>Search_Page\<close>, \<open>Search_Response\<close>: profiles, search requests, snapshots, responses;
  \<open>Money\<close>, \<open>Rental_Facts\<close>, \<open>History\<close>: amounts, classification of texts, labels against a previous result;
  \<open>Next_Data\<close>, \<open>Property_Page\<close>, \<open>Rental_Page\<close>: the page scanner, the choice of the requested home, the units
  of a community; \<open>Retry\<close> and \<open>Discovery\<close>: the retry loops and the search of a whole location.

  \<open>cli\<close>. \<open>Listing_Sort\<close>, \<open>Location_Filter\<close>, \<open>Format\<close>: order, boundary and text of listings;
  \<open>Detail_Filters\<close>: the filters over the facts of a listing and the merging of page facts.
  \<open>Disk_Cache\<close> (\<open>disk_cache.go\<close>): a cache of files written step by step through a temporary one, each step
  able to fail; \<open>Disk_Cache_Props\<close>: what is loaded was saved under its key, within its time to live, and a file
  is at every moment the old one or the whole new one. \<open>Detail_Enricher\<close>, \<open>Detail_Workers\<close> (\<open>search_details.go\<close>):
  the enricher with its pause, its pacing and its cache, and the concurrent workers as a step relation, a label per
  atomic step; \<open>Detail_Workers_Props\<close>, \<open>Detail_Enricher_Props\<close>: every URL is answered once, no request is made
  during a pause, requests are paced, the workers end, and the sequential pass is a run of one worker.

  \<open>Route_Flags\<close> (\<open>search_discovery.go\<close>), \<open>Search_Table\<close>, \<open>Search_Command\<close>, \<open>Search_Run\<close>, \<open>Search_Main\<close> (\<open>search.go\<close>,
  \<open>search_progress.go\<close>, \<open>search_history.go\<close>): the flags of a search, the plan they make, the pipeline of a list of
  listings, the loop over the locations, the tables and progress lines, and the command. \<open>Search_Command_Props\<close>:
  an accepted plan is sound. \<open>Search_Run_Props\<close>: only complete results are cached, every location is reported,
  live requests are spaced, streaming prints what collecting prints. \<open>Search_Pipeline_Props\<close>: the pipeline without
  enrichment is one filter, then order, limit and history.

  \<open>Har_Files\<close>: HAR and profile files; what is written is whole, private, and read back. \<open>Session\<close>
  (\<open>session/session.go\<close>) with \<open>Session_Props\<close>: the cookies an archive leaves, the store and its files; \<open>TLS_Client\<close>
  (\<open>httpclient/tls.go\<close>), \<open>Transport\<close> (\<open>transport.go\<close>): profiles, session sources and the client they make.

  \<open>Capture\<close>, \<open>Capture_Intake\<close> (\<open>cdphar/capture.go\<close>): the options, the discovery of the browser's WebSocket with its
  redirects, the redaction of errors; and the threads of a capture (the listener, the workers, the main thread) as a
  step relation over the recorder of \<open>Recorder\<close>. \<open>Capture_Props\<close>: only the endpoint is contacted.
  \<open>Capture_Intake_Props\<close>: every body fetch is accounted for, the workers end, and a capture that returns an archive
  lost nothing.

  \<open>Go_Flag\<close>: Go's \<open>flag\<close> package, with its numbers and durations. \<open>Root\<close> (\<open>root.go\<close>), \<open>Commands\<close> (the shared
  parts, \<open>property.go\<close>), \<open>Har_Command\<close> (\<open>har.go\<close>, \<open>session.go\<close>), \<open>Search_Main\<close> (\<open>search.go\<close>, \<open>default.go\<close>): the
  commands from their arguments to the files they change, what they print and their exit code; \<open>Root_Props\<close>,
  \<open>Search_Main_Props\<close>: dispatch, exit codes, usage errors change nothing, and the effects of the commands.

  Interaction: the recorder's archive is a HAR document; ranking reads HAR documents and yields a
  template; a template or a search page yields a profile; discovery runs searches with a profile under
  retry; their listings pass the boundary, the detail filters, history and sorting. The commands tie these together:
  \<open>har capture\<close> runs the recorder behind a browser, \<open>har sanitize\<close> and \<open>har derive\<close> read and write archives and templates,
  \<open>session import\<close> takes the cookies of an archive, \<open>search\<close> and \<open>property\<close> send requests with such a session.
  Locales state the interfaces: de-duplication by key, event machines and orders (\<open>first_wins\<close>, \<open>event_machine\<close>,
  \<open>once_machine\<close>, \<open>weak_less\<close>, \<open>total_less\<close>), the two sides of supplemental events (\<open>extra_side\<close>), retry loops
  (\<open>retry_loop\<close>), caches (\<open>honest_cache\<close>) and runs of the workers (\<open>run_invariant\<close>); each is interpreted on the
  definitions of the model.

  Conventions. A Go string is its list of bytes; character classes are ASCII. An \<open>int64\<close> is an \<open>int\<close> with
  \<open>i64\<close> where the code may wrap; a \<open>float64\<close> is the rational it denotes, rounded (\<open>to_float64\<close>) where the
  program computes with it. A Go map is an association list in the order of its iteration, or a
  function where only its lookups matter; a nil slice is an empty list. Errors are values of
  \<open>go_error\<close> or messages in the left of a sum. \<open>sort.Slice\<close> is modelled as a stable sort. A
  command reads the clock once where the program's readings lie within one step.

  Bounds. The page loop of a discovery recurses on the page limit; \<open>clean_text\<close> and \<open>verify_text\<close> take the
  length of the text as fuel, which \<open>Har_Sanitize_Depth\<close> proves enough; the redirects of the browser discovery
  recurse on the redirects left; other loops are structural or have a measure. The threads of the capture and of the
  enricher are step relations, and their runs are proved finite once no new work comes in.

  Parameters (code that is not under \<open>src\<close>): the JSON decoder and encoder, \<open>html.UnescapeString\<close>,
  \<open>http.ParseTime\<close>, \<open>strconv.ParseFloat\<close>, the network and the browser behind \<open>chromedp\<close>, the TLS library, the file
  system with the names of temporary files, SHA-256, the clock. \<open>text/tabwriter\<close> and the flag package are modelled.

  Not modelled: what the flag package itself writes to the error stream, the places where a search
  emits its progress lines (their texts are), the parameters of the browser's commands in \<open>cdphar/capture.go\<close>, and
  \<open>cmd/gozillo/main.go\<close>, which calls \<open>Execute\<close>; the components of the manifest say so one by one.
\<close>

end
